(* ===== verification/Prelude.thy ===== *)
theory Prelude
  imports Main "HOL-Library.Word"
begin

text \<open>
  What every other theory shares: results of fallible code, Rust's machine integers with their
  checked and saturating operations, byte strings, and sums over finite maps.

  A Rust \<open>Result<T>\<close> is a sum: \<open>Inl e\<close> is the error return, \<open>Inr x\<close> the value. A transaction
  that ends in \<open>Inl e\<close> is rolled back by the runtime, so an error never carries a state.
\<close>

section \<open>Collections of facts\<close>

named_theorems result_simps \<open>inversion of fallible code: what an Ok result says\<close>
named_theorems unat_simps \<open>machine integers read as natural numbers\<close>

section \<open>Results\<close>

text \<open>\<open>require!(c, e)\<close> followed by the rest of the function, and the \<open>?\<close> operator.\<close>

definition require :: "bool \<Rightarrow> 'e \<Rightarrow> 'e + 'a \<Rightarrow> 'e + 'a" where
  "require c e k = (if c then k else Inl e)"

definition bindR :: "'e + 'a \<Rightarrow> ('a \<Rightarrow> 'e + 'b) \<Rightarrow> 'e + 'b" where
  "bindR m f = (case m of Inl e \<Rightarrow> Inl e | Inr x \<Rightarrow> f x)"

definition ok_or :: "'a option \<Rightarrow> 'e \<Rightarrow> 'e + 'a" where
  "ok_or m e = (case m of None \<Rightarrow> Inl e | Some x \<Rightarrow> Inr x)"

definition is_ok :: "'e + 'a \<Rightarrow> bool" where
  "is_ok m = (case m of Inl _ \<Rightarrow> False | Inr _ \<Rightarrow> True)"

lemma require_simps [simp]:
  "require True e k = k"
  "require False e k = Inl e"
  by (simp_all add: require_def)

lemma bindR_simps [simp]:
  "bindR (Inr x) f = f x"
  "bindR (Inl e) f = Inl e"
  by (simp_all add: bindR_def)

lemma ok_or_simps [simp]:
  "ok_or (Some x) e = Inr x"
  "ok_or None e = Inl e"
  by (simp_all add: ok_or_def)

lemma is_ok_simps [simp]: "is_ok (Inr x)" "\<not> is_ok (Inl e)"
  by (simp_all add: is_ok_def)

lemma is_ok_iff: "is_ok m \<longleftrightarrow> (\<exists>x. m = Inr x)"
  by (cases m) simp_all

lemma require_Inr [simp, result_simps]: "require c e k = Inr x \<longleftrightarrow> c \<and> k = Inr x"
  by (simp add: require_def)

lemma require_Inl [result_simps]: "require c e k = Inl x \<longleftrightarrow> \<not> c \<and> e = x \<or> c \<and> k = Inl x"
  by (auto simp: require_def)

lemma bindR_Inr [simp, result_simps]: "bindR m f = Inr x \<longleftrightarrow> (\<exists>y. m = Inr y \<and> f y = Inr x)"
  by (cases m) simp_all

lemma bindR_Inl [result_simps]:
  "bindR m f = Inl x \<longleftrightarrow> m = Inl x \<or> (\<exists>y. m = Inr y \<and> f y = Inl x)"
  by (cases m) auto

lemma ok_or_Inr [simp, result_simps]: "ok_or m e = Inr x \<longleftrightarrow> m = Some x"
  by (cases m) simp_all

lemma ok_or_Inl [result_simps]: "ok_or m e = Inl x \<longleftrightarrow> m = None \<and> e = x"
  by (cases m) simp_all

lemma bindR_cong [fundef_cong]:
  "m = m' \<Longrightarrow> (\<And>x. m' = Inr x \<Longrightarrow> f x = g x) \<Longrightarrow> bindR m f = bindR m' g"
  by (cases m') simp_all

section \<open>Machine integers\<close>

type_synonym u8 = "8 word"
type_synonym u32 = "32 word"
type_synonym u64 = "64 word"
type_synonym u128 = "128 word"

text \<open>An \<open>i64\<close> is the same 64 bits, always read through \<open>sint\<close>.\<close>

type_synonym i64 = "64 word"

text \<open>
  Rust's \<open>checked_*\<close> return \<open>None\<close> where the exact result does not fit. The \<open>+\<close> and \<open>-\<close> the code
  writes without \<open>checked\<close> panic there instead (the root manifest builds with
  \<open>overflow-checks = true\<close>), which aborts the transaction: the model uses the same functions and
  turns \<open>None\<close> into the panic.
\<close>

definition checked_add :: "'a::len word \<Rightarrow> 'a word \<Rightarrow> 'a word option" where
  "checked_add a b = (if uint a + uint b < 2 ^ LENGTH('a) then Some (a + b) else None)"

definition checked_sub :: "'a::len word \<Rightarrow> 'a word \<Rightarrow> 'a word option" where
  "checked_sub a b = (if b \<le> a then Some (a - b) else None)"

definition checked_mul :: "'a::len word \<Rightarrow> 'a word \<Rightarrow> 'a word option" where
  "checked_mul a b = (if uint a * uint b < 2 ^ LENGTH('a) then Some (a * b) else None)"

definition checked_div :: "'a::len word \<Rightarrow> 'a word \<Rightarrow> 'a word option" where
  "checked_div a b = (if b = 0 then None else Some (a div b))"

definition saturating_add :: "'a::len word \<Rightarrow> 'a word \<Rightarrow> 'a word" where
  "saturating_add a b = (if uint a + uint b < 2 ^ LENGTH('a) then a + b else -1)"

definition saturating_sub :: "'a::len word \<Rightarrow> 'a word \<Rightarrow> 'a word" where
  "saturating_sub a b = (if b \<le> a then a - b else 0)"

definition saturating_mul :: "'a::len word \<Rightarrow> 'a word \<Rightarrow> 'a word" where
  "saturating_mul a b = (if uint a * uint b < 2 ^ LENGTH('a) then a * b else -1)"

fun saturating_pow :: "'a::len word \<Rightarrow> nat \<Rightarrow> 'a word" where
  "saturating_pow b 0 = 1"
| "saturating_pow b (Suc n) = saturating_mul b (saturating_pow b n)"

text \<open>\<open>x as u128\<close> and \<open>u64::try_from(x)\<close>.\<close>

definition widen :: "u64 \<Rightarrow> u128" where
  "widen x = ucast x"

definition widen32 :: "u32 \<Rightarrow> u128" where
  "widen32 x = ucast x"

definition narrow :: "u128 \<Rightarrow> u64 option" where
  "narrow x = (if uint x < 2 ^ 64 then Some (ucast x) else None)"

text \<open>Signed seconds: \<open>i64::checked_add\<close> and \<open>i64::try_from\<close> of a \<open>u64\<close>.\<close>

definition checked_add_i64 :: "i64 \<Rightarrow> i64 \<Rightarrow> i64 option" where
  "checked_add_i64 a b =
     (if - (2 ^ 63) \<le> sint a + sint b \<and> sint a + sint b < 2 ^ 63 then Some (a + b) else None)"

definition to_i64 :: "u64 \<Rightarrow> i64 option" where
  "to_i64 x = (if uint x < 2 ^ 63 then Some x else None)"

lemma unat_eqD: "unat a = unat b \<Longrightarrow> a = b" for a b :: "'a::len word"
  by (simp add: word_unat_eq_iff)

lemma unat_less_exp [simp]: "unat a < 2 ^ LENGTH('a)" for a :: "'a::len word"
  by (fact unsigned_less)

lemma uint_fits [simp]:
  fixes a b :: "'a::len word"
  shows "uint a < 2 ^ n \<longleftrightarrow> unat a < 2 ^ n"
    and "uint a + uint b < 2 ^ n \<longleftrightarrow> unat a + unat b < 2 ^ n"
    and "uint a * uint b < 2 ^ n \<longleftrightarrow> unat a * unat b < 2 ^ n"
proof -
  have u: "uint x = int (unat x)" for x :: "'a word" by simp
  have p: "int k < 2 ^ n \<longleftrightarrow> k < 2 ^ n" for k
    by (metis of_nat_less_iff of_nat_numeral of_nat_power)
  show "uint a < 2 ^ n \<longleftrightarrow> unat a < 2 ^ n"
    and "uint a + uint b < 2 ^ n \<longleftrightarrow> unat a + unat b < 2 ^ n"
    and "uint a * uint b < 2 ^ n \<longleftrightarrow> unat a * unat b < 2 ^ n"
    unfolding u of_nat_add [symmetric] of_nat_mult [symmetric] by (rule p)+
qed

lemma uint_fits_numeral [simp]:
  fixes a b :: "'a::len word"
  shows "uint a < numeral k \<longleftrightarrow> unat a < numeral k"
    and "uint a + uint b < numeral k \<longleftrightarrow> unat a + unat b < numeral k"
    and "uint a * uint b < numeral k \<longleftrightarrow> unat a * unat b < numeral k"
proof -
  have u: "uint x = int (unat x)" for x :: "'a word" by simp
  have p: "int n < numeral k \<longleftrightarrow> n < numeral k" for n
    by (metis of_nat_less_iff of_nat_numeral)
  show "uint a < numeral k \<longleftrightarrow> unat a < numeral k"
    and "uint a + uint b < numeral k \<longleftrightarrow> unat a + unat b < numeral k"
    and "uint a * uint b < numeral k \<longleftrightarrow> unat a * unat b < numeral k"
    unfolding u of_nat_add [symmetric] of_nat_mult [symmetric] by (rule p)+
qed

lemma unat_minus_1: "unat (- 1 :: 'a::len word) = 2 ^ LENGTH('a) - 1"
  by (simp add: unsigned_minus_1_eq_mask mask_eq_exp_minus_1)

lemma checked_add_Some [simp, unat_simps]:
  fixes a b c :: "'a::len word"
  shows "checked_add a b = Some c \<longleftrightarrow> unat c = unat a + unat b"
proof
  assume "checked_add a b = Some c"
  then show "unat c = unat a + unat b"
    by (auto simp: checked_add_def unat_word_ariths split: if_splits)
next
  assume *: "unat c = unat a + unat b"
  then have "unat a + unat b < 2 ^ LENGTH('a)"
    by (metis unat_less_exp)
  then show "checked_add a b = Some c"
    using * by (auto simp: checked_add_def unat_word_ariths intro!: unat_eqD)
qed

lemma checked_add_None [simp, unat_simps]:
  fixes a b :: "'a::len word"
  shows "checked_add a b = None \<longleftrightarrow> 2 ^ LENGTH('a) \<le> unat a + unat b"
  by (auto simp: checked_add_def)

lemma unat_sub_le: "b \<le> a \<Longrightarrow> unat (a - b) = unat a - unat b" for a b :: "'a::len word"
  by (rule unat_sub)

lemma checked_sub_Some [simp, unat_simps]:
  fixes a b c :: "'a::len word"
  shows "checked_sub a b = Some c \<longleftrightarrow> unat a = unat b + unat c"
proof
  assume "checked_sub a b = Some c"
  then show "unat a = unat b + unat c"
    by (auto simp: checked_sub_def unat_sub_le word_le_nat_alt split: if_splits)
next
  assume *: "unat a = unat b + unat c"
  then have "b \<le> a" by (simp add: word_le_nat_alt)
  then show "checked_sub a b = Some c"
    using * by (auto simp: checked_sub_def unat_sub_le intro!: unat_eqD)
qed

lemma checked_sub_None [simp, unat_simps]: "checked_sub a b = None \<longleftrightarrow> unat a < unat b"
  by (auto simp: checked_sub_def word_le_nat_alt)

lemma checked_mul_Some [simp, unat_simps]:
  fixes a b c :: "'a::len word"
  shows "checked_mul a b = Some c \<longleftrightarrow> unat c = unat a * unat b"
proof
  assume "checked_mul a b = Some c"
  then show "unat c = unat a * unat b"
    by (auto simp: checked_mul_def unat_word_ariths split: if_splits)
next
  assume *: "unat c = unat a * unat b"
  then have "unat a * unat b < 2 ^ LENGTH('a)"
    by (metis unat_less_exp)
  then show "checked_mul a b = Some c"
    using * by (auto simp: checked_mul_def unat_word_ariths intro!: unat_eqD)
qed

lemma checked_mul_None [simp, unat_simps]:
  fixes a b :: "'a::len word"
  shows "checked_mul a b = None \<longleftrightarrow> 2 ^ LENGTH('a) \<le> unat a * unat b"
  by (auto simp: checked_mul_def)

lemma checked_div_Some [simp, unat_simps]:
  "checked_div a b = Some c \<longleftrightarrow> unat b \<noteq> 0 \<and> unat c = unat a div unat b"
  by (auto simp: checked_div_def unat_div unat_eq_zero intro!: unat_eqD)

lemma checked_div_None [simp, unat_simps]: "checked_div a b = None \<longleftrightarrow> b = 0"
  by (simp add: checked_div_def)

lemma unat_saturating_sub [simp, unat_simps]: "unat (saturating_sub a b) = unat a - unat b"
  by (auto simp: saturating_sub_def unat_sub_le word_le_nat_alt)

lemma unat_saturating_add [unat_simps]:
  fixes a b :: "'a::len word"
  shows "unat (saturating_add a b) = min (2 ^ LENGTH('a) - 1) (unat a + unat b)"
  by (auto simp: saturating_add_def unat_word_ariths unat_minus_1)

lemma unat_saturating_mul [unat_simps]:
  fixes a b :: "'a::len word"
  shows "unat (saturating_mul a b) = min (2 ^ LENGTH('a) - 1) (unat a * unat b)"
  by (auto simp: saturating_mul_def unat_word_ariths unat_minus_1)

lemma unat_ucast_wide:
  fixes x :: "'a::len word"
  assumes "LENGTH('a) \<le> LENGTH('b::len)"
  shows "unat (ucast x :: 'b word) = unat x"
proof -
  have "unat x < 2 ^ LENGTH('b)"
    using assms unat_less_exp [of x] by (meson less_le_trans one_le_numeral power_increasing)
  then show ?thesis by (simp add: unsigned_ucast_eq take_bit_nat_eq_self)
qed

lemma unat_widen [simp, unat_simps]: "unat (widen x) = unat x"
  by (simp add: widen_def unat_ucast_wide)

lemma unat_widen32 [simp, unat_simps]: "unat (widen32 x) = unat x"
  by (simp add: widen32_def unat_ucast_wide)

lemma narrow_Some [simp, unat_simps]: "narrow x = Some y \<longleftrightarrow> unat y = unat x"
proof
  assume "narrow x = Some y"
  then show "unat y = unat x"
    by (auto simp: narrow_def unsigned_ucast_eq take_bit_nat_eq_self_iff split: if_splits)
next
  assume *: "unat y = unat x"
  then have "unat x < 2 ^ 64"
    using unat_less_exp [of y] by simp
  then show "narrow x = Some y"
    using * by (auto simp: narrow_def unsigned_ucast_eq take_bit_nat_eq_self_iff intro!: unat_eqD)
qed

lemma narrow_None [simp, unat_simps]: "narrow x = None \<longleftrightarrow> 2 ^ 64 \<le> unat x"
  by (auto simp: narrow_def)

lemma unat_u64_bound [simp]: "unat (x :: u64) < 18446744073709551616"
  using unat_less_exp [of x] by simp

lemma unat_u128_bound [simp]: "unat (x :: u128) < 2 ^ 128"
  using unat_less_exp [of x] by simp

lemma unat_u32_bound [simp]: "unat (x :: u32) < 4294967296"
  using unat_less_exp [of x] by simp

lemma unat_max: "unat (max a b) = max (unat a) (unat b)"
  by (simp add: max_def word_le_nat_alt)

lemma unat_min: "unat (min a b) = min (unat a) (unat b)"
  by (simp add: min_def word_le_nat_alt)

lemmas word_order_unat = word_le_nat_alt word_less_nat_alt

declare unat_eq_zero [simp]

lemma unat_pos_iff [simp]: "0 < unat a \<longleftrightarrow> a \<noteq> 0"
  by (simp add: unat_gt_0)

lemma checked_add_i64_Some [simp, unat_simps]:
  "checked_add_i64 a b = Some c \<longleftrightarrow> sint c = sint a + sint b"
proof
  assume "checked_add_i64 a b = Some c"
  then show "sint c = sint a + sint b"
    by (auto simp: checked_add_i64_def signed_take_bit_int_eq_self_iff sint_word_ariths
        split: if_splits)
next
  assume *: "sint c = sint a + sint b"
  have "- (2 ^ 63) \<le> sint c" "sint c < 2 ^ 63"
    using sint_greater_eq [of c] sint_less [of c] by simp_all
  then have "sint (a + b) = sint c"
    using * by (simp add: sint_word_add signed_take_bit_int_eq_self)
  then have "a + b = c" by (rule signed_word_eqI)
  then show "checked_add_i64 a b = Some c"
    using * \<open>- (2 ^ 63) \<le> sint c\<close> \<open>sint c < 2 ^ 63\<close> by (simp add: checked_add_i64_def)
qed

lemma to_i64_Some: "to_i64 x = Some y \<longleftrightarrow> y = x \<and> unat x < 2 ^ 63"
  by (auto simp: to_i64_def)

lemma sint_of_small:
  fixes x :: i64
  assumes "unat x < 2 ^ 63"
  shows "sint x = int (unat x)"
proof -
  have u: "uint x = int (unat x)" by simp
  have "uint x < 2 ^ 63" unfolding u
    by (metis assms of_nat_less_iff of_nat_numeral of_nat_power)
  then have "signed_take_bit 63 (uint x) = uint x"
    by (intro signed_take_bit_int_eq_self) (simp_all add: order_trans [OF _ uint_ge_0])
  then show ?thesis using sint_uint [of x] by simp
qed

end
