(* ===== verification/Errors.thy ===== *)
theory Errors
  imports Prelude
begin

text \<open>
  The two programs' error enums (\<open>programs/*/src/errors.rs\<close>) with the ordinals the source pins at
  compile time, and the sum of everything an instruction can fail with. The numeric code a client
  sees is the ordinal plus 6000, so the ordinals are an ABI.
\<close>

section \<open>The vault's errors\<close>

datatype vault_error =
    NotOperator | ZeroAmount | InsufficientAmount
  | AumIncreaseTooBig | AumDecreaseTooBig | WithdrawalFeeTooHigh
  | AumLimitTooHigh | NotAdmin | VaultPaused
  | InvalidNominatedAdmin | NominationExpired | MathError
  | NumberOverflow | NotEnoughLiquidity | UnauthorizedAdmin
  | VaultNotEmpty | NotProtocolAuthority | InvalidAuthority
  | SlippageExceeded | SharePriceUndefined | InvalidShareOffset
  | WithdrawalQueueRequired | InvalidWithdrawalQueueAuthority | WrongWithdrawalQueueSigner
  | WithdrawalQueueAlreadyAttached | WithdrawalQueueNotAttached | InvalidSubaccount
  | SubaccountDelegationMissing | SubaccountNotEmpty | LossExceedsShortfall

primrec vault_abi_ordinal :: "vault_error \<Rightarrow> nat" where
  "vault_abi_ordinal NotOperator = 0"
| "vault_abi_ordinal ZeroAmount = 1"
| "vault_abi_ordinal InsufficientAmount = 2"
| "vault_abi_ordinal AumIncreaseTooBig = 3"
| "vault_abi_ordinal AumDecreaseTooBig = 4"
| "vault_abi_ordinal WithdrawalFeeTooHigh = 5"
| "vault_abi_ordinal AumLimitTooHigh = 6"
| "vault_abi_ordinal NotAdmin = 7"
| "vault_abi_ordinal VaultPaused = 8"
| "vault_abi_ordinal InvalidNominatedAdmin = 9"
| "vault_abi_ordinal NominationExpired = 10"
| "vault_abi_ordinal MathError = 11"
| "vault_abi_ordinal NumberOverflow = 12"
| "vault_abi_ordinal NotEnoughLiquidity = 13"
| "vault_abi_ordinal UnauthorizedAdmin = 14"
| "vault_abi_ordinal VaultNotEmpty = 15"
| "vault_abi_ordinal NotProtocolAuthority = 16"
| "vault_abi_ordinal InvalidAuthority = 17"
| "vault_abi_ordinal SlippageExceeded = 18"
| "vault_abi_ordinal SharePriceUndefined = 19"
| "vault_abi_ordinal InvalidShareOffset = 20"
| "vault_abi_ordinal WithdrawalQueueRequired = 21"
| "vault_abi_ordinal InvalidWithdrawalQueueAuthority = 22"
| "vault_abi_ordinal WrongWithdrawalQueueSigner = 23"
| "vault_abi_ordinal WithdrawalQueueAlreadyAttached = 24"
| "vault_abi_ordinal WithdrawalQueueNotAttached = 25"
| "vault_abi_ordinal InvalidSubaccount = 26"
| "vault_abi_ordinal SubaccountDelegationMissing = 27"
| "vault_abi_ordinal SubaccountNotEmpty = 28"
| "vault_abi_ordinal LossExceedsShortfall = 29"

text \<open>\<open>ABI_PINS\<close>: every variant with its code, in declaration order.\<close>

definition ANCHOR_USER_ERROR_OFFSET :: nat where
  "ANCHOR_USER_ERROR_OFFSET = 6000"

definition vault_errors :: "vault_error list" where
  "vault_errors = [
     NotOperator, ZeroAmount, InsufficientAmount,
     AumIncreaseTooBig, AumDecreaseTooBig, WithdrawalFeeTooHigh,
     AumLimitTooHigh, NotAdmin, VaultPaused,
     InvalidNominatedAdmin, NominationExpired, MathError,
     NumberOverflow, NotEnoughLiquidity, UnauthorizedAdmin,
     VaultNotEmpty, NotProtocolAuthority, InvalidAuthority,
     SlippageExceeded, SharePriceUndefined, InvalidShareOffset,
     WithdrawalQueueRequired, InvalidWithdrawalQueueAuthority, WrongWithdrawalQueueSigner,
     WithdrawalQueueAlreadyAttached, WithdrawalQueueNotAttached, InvalidSubaccount,
     SubaccountDelegationMissing, SubaccountNotEmpty, LossExceedsShortfall]"

definition vault_abi_pins :: "(vault_error \<times> nat) list" where
  "vault_abi_pins = map (\<lambda>e. (e, vault_abi_ordinal e + ANCHOR_USER_ERROR_OFFSET)) vault_errors"

definition vault_error_code :: "vault_error \<Rightarrow> nat" where
  "vault_error_code e = vault_abi_ordinal e + ANCHOR_USER_ERROR_OFFSET"

section \<open>The queue's errors\<close>

text \<open>The queue's \<open>MathError\<close> is \<open>QueueMathError\<close> here, since the vault has a variant of that name.\<close>

datatype queue_error =
    NotVaultAdmin | QueueMathError | VaultMismatch
  | CooldownOutOfBounds | FulfillmentWindowOutOfBounds | QueueNotActiveOnVault
  | UnsupportedDepositMint | ZeroShares | InvalidRecipient
  | NotRequestOwner | RequestExpired | StaleRequestSequence
  | CooldownNotElapsed | FinalizerNotAllowed | NotVaultAdminOrOperator
  | RequestAlreadyEligible | UnsupportedShareMint | NothingToSweep
  | InvalidSweepDestination | PayoutBelowFloor

primrec queue_abi_ordinal :: "queue_error \<Rightarrow> nat" where
  "queue_abi_ordinal NotVaultAdmin = 0"
| "queue_abi_ordinal QueueMathError = 1"
| "queue_abi_ordinal VaultMismatch = 2"
| "queue_abi_ordinal CooldownOutOfBounds = 3"
| "queue_abi_ordinal FulfillmentWindowOutOfBounds = 4"
| "queue_abi_ordinal QueueNotActiveOnVault = 5"
| "queue_abi_ordinal UnsupportedDepositMint = 6"
| "queue_abi_ordinal ZeroShares = 7"
| "queue_abi_ordinal InvalidRecipient = 8"
| "queue_abi_ordinal NotRequestOwner = 9"
| "queue_abi_ordinal RequestExpired = 10"
| "queue_abi_ordinal StaleRequestSequence = 11"
| "queue_abi_ordinal CooldownNotElapsed = 12"
| "queue_abi_ordinal FinalizerNotAllowed = 13"
| "queue_abi_ordinal NotVaultAdminOrOperator = 14"
| "queue_abi_ordinal RequestAlreadyEligible = 15"
| "queue_abi_ordinal UnsupportedShareMint = 16"
| "queue_abi_ordinal NothingToSweep = 17"
| "queue_abi_ordinal InvalidSweepDestination = 18"
| "queue_abi_ordinal PayoutBelowFloor = 19"

definition queue_errors :: "queue_error list" where
  "queue_errors = [
     NotVaultAdmin, QueueMathError, VaultMismatch,
     CooldownOutOfBounds, FulfillmentWindowOutOfBounds, QueueNotActiveOnVault,
     UnsupportedDepositMint, ZeroShares, InvalidRecipient,
     NotRequestOwner, RequestExpired, StaleRequestSequence,
     CooldownNotElapsed, FinalizerNotAllowed, NotVaultAdminOrOperator,
     RequestAlreadyEligible, UnsupportedShareMint, NothingToSweep,
     InvalidSweepDestination, PayoutBelowFloor]"

definition queue_abi_pins :: "(queue_error \<times> nat) list" where
  "queue_abi_pins = map (\<lambda>e. (e, queue_abi_ordinal e + ANCHOR_USER_ERROR_OFFSET)) queue_errors"

definition queue_error_code :: "queue_error \<Rightarrow> nat" where
  "queue_error_code e = queue_abi_ordinal e + ANCHOR_USER_ERROR_OFFSET"

section \<open>Everything an instruction can fail with\<close>

text \<open>
  Anchor's own constraint errors carry the names of \<open>anchor_lang::error::ErrorCode\<close>. \<open>TokenErr\<close> and
  \<open>MetadataErr\<close> are whatever code the called program returned, \<open>RuntimeErr\<close> a refusal by the
  runtime or the System program, \<open>Panicked\<close> a Rust panic (overflow with \<open>overflow-checks\<close> on).
\<close>

datatype anchor_error =
    ConstraintHasOne | ConstraintRaw | ConstraintSeeds | ConstraintAssociated | ConstraintClose
  | ConstraintAddress | ConstraintTokenMint | ConstraintTokenOwner
  | ConstraintMintMintAuthority | ConstraintMintDecimals | ConstraintAssociatedTokenTokenProgram
  | InvalidProgramId | AccountNotInitialized | AccountNotSigner | AccountDidNotDeserialize
  | AccountOwnedByWrongProgram | AccountNotAssociatedTokenAccount

datatype prog_error =
    VaultErr vault_error
  | QueueErr queue_error
  | AnchorErr anchor_error
  | TokenErr nat
  | MetadataErr nat
  | RuntimeErr
  | Panicked

type_synonym 'a result = "prog_error + 'a"

section \<open>The pinned ABI\<close>

lemma vault_errors_complete: "e \<in> set vault_errors"
  by (cases e) (simp_all add: vault_errors_def)

lemma queue_errors_complete: "e \<in> set queue_errors"
  by (cases e) (simp_all add: queue_errors_def)

lemma vault_ordinals: "map vault_abi_ordinal vault_errors = [0..<30]"
  by (simp add: vault_errors_def upt_rec)

lemma queue_ordinals: "map queue_abi_ordinal queue_errors = [0..<20]"
  by (simp add: queue_errors_def upt_rec)

text \<open>An enumeration whose ordinals are consecutive is determined by them.\<close>

lemma ordinals_index:
  assumes "map f xs = [0..<n]" and "x \<in> set xs"
  shows "f x < length xs" and "xs ! f x = x"
proof -
  obtain i where i: "i < length xs" "xs ! i = x"
    using assms(2) by (auto simp: in_set_conv_nth)
  have "length xs = n" using assms(1) by (metis length_map length_upt minus_nat.diff_0)
  moreover have "f x = i"
    using assms(1) i calculation by (metis add_0 nth_map nth_upt)
  ultimately show "f x < length xs" and "xs ! f x = x" using i by simp_all
qed

lemmas vault_error_index = ordinals_index [OF vault_ordinals vault_errors_complete]
lemmas queue_error_index = ordinals_index [OF queue_ordinals queue_errors_complete]

instantiation vault_error :: linorder
begin

definition less_eq_vault_error :: "vault_error \<Rightarrow> vault_error \<Rightarrow> bool" where
  "less_eq_vault_error a b = (vault_abi_ordinal a \<le> vault_abi_ordinal b)"

definition less_vault_error :: "vault_error \<Rightarrow> vault_error \<Rightarrow> bool" where
  "less_vault_error a b = (vault_abi_ordinal a < vault_abi_ordinal b)"

instance
proof
  fix a b :: vault_error
  show "a \<le> b \<Longrightarrow> b \<le> a \<Longrightarrow> a = b"
    unfolding less_eq_vault_error_def by (metis vault_error_index(2) order_antisym)
qed (auto simp: less_eq_vault_error_def less_vault_error_def)

end

instantiation queue_error :: linorder
begin

definition less_eq_queue_error :: "queue_error \<Rightarrow> queue_error \<Rightarrow> bool" where
  "less_eq_queue_error a b = (queue_abi_ordinal a \<le> queue_abi_ordinal b)"

definition less_queue_error :: "queue_error \<Rightarrow> queue_error \<Rightarrow> bool" where
  "less_queue_error a b = (queue_abi_ordinal a < queue_abi_ordinal b)"

instance
proof
  fix a b :: queue_error
  show "a \<le> b \<Longrightarrow> b \<le> a \<Longrightarrow> a = b"
    unfolding less_eq_queue_error_def by (metis queue_error_index(2) order_antisym)
qed (auto simp: less_eq_queue_error_def less_queue_error_def)

end

lemma vault_errors_sorted: "sorted vault_errors \<and> distinct vault_errors"
  by (simp add: vault_errors_def less_eq_vault_error_def)

lemma queue_errors_sorted: "sorted queue_errors \<and> distinct queue_errors"
  by (simp add: queue_errors_def less_eq_queue_error_def)

end
