(* ===== verification/Accounts.thy ===== *)
theory Accounts
  imports Errors
begin

text \<open>
  The data: keys, the token and mint accounts both programs read, the account types the two
  programs own, their events, and the world a transaction runs in.

  On Solana every account lives at one address and has one owner program. The model keeps one map
  per account type; that an account of one type cannot pass for another is the owner and
  discriminator check Anchor's \<open>Account\<close> wrapper makes, which here is the lookup in the map of that
  type. \<open>in_use\<close> ties the maps together where an account is created.
\<close>

section \<open>Keys and byte strings\<close>

type_synonym pubkey = "256 word"

text \<open>\<open>Pubkey::default()\<close>, the all-zero key; and a key, an ASCII literal and a \<open>u64\<close> as seed bytes.\<close>

definition default_key :: pubkey where
  "default_key = 0"

definition key_bytes :: "pubkey \<Rightarrow> u8 list" where
  "key_bytes k = map (\<lambda>i. ucast (drop_bit (8 * (31 - i)) k)) [0..<32]"

text \<open>The same bytes read off the integer, which is how they are computed.\<close>

primrec int_bytes :: "nat \<Rightarrow> int \<Rightarrow> u8 list \<Rightarrow> u8 list" where
  "int_bytes 0 n bs = bs"
| "int_bytes (Suc k) n bs = int_bytes k (drop_bit 8 n) (word_of_int (take_bit 8 n) # bs)"

lemma int_bytes_eq:
  "int_bytes k n bs = map (\<lambda>i. word_of_int (drop_bit (8 * (k - 1 - i)) n)) [0..<k] @ bs"
proof (induction k arbitrary: n bs)
  case (Suc k)
  have "map (\<lambda>i. word_of_int (drop_bit (8 * (k - 1 - i)) (drop_bit 8 n))) [0..<k] =
      (map (\<lambda>i. word_of_int (drop_bit (8 * (k - i)) n)) [0..<k] :: u8 list)"
    by (rule map_cong [OF refl]) (auto simp: algebra_simps Suc_diff_Suc simp flip: mult_Suc_right)
  moreover have "(word_of_int (take_bit 8 n) :: u8) = word_of_int n"
    by (rule word_of_int_eq_iff [THEN iffD2]) simp
  ultimately show ?case by (simp add: Suc)
qed simp

lemma key_bytes_code [code]: "key_bytes k = int_bytes 32 (uint k) []"
proof -
  have "take_bit 256 (uint k) = uint k"
    using unsigned_less [of k] by (intro take_bit_int_eq_self) simp_all
  then show ?thesis
    unfolding key_bytes_def int_bytes_eq
    by (auto intro!: map_cong simp: ucast_eq unsigned_drop_bit_eq)
qed

definition ascii :: "string \<Rightarrow> u8 list" where
  "ascii s = map (\<lambda>c. word_of_nat (of_char c)) s"

definition u64_le_bytes :: "u64 \<Rightarrow> u8 list" where
  "u64_le_bytes x = map (\<lambda>i. ucast (drop_bit (8 * i) x)) [0..<8]"

section \<open>SPL accounts, as the programs read them\<close>

text \<open>
  The fields of \<open>TokenAccount\<close> and \<open>Mint\<close> the sources read, with the owning token program. Token
  extensions are what \<open>StateWithExtensions::unpack\<close> and \<open>get_extension_types\<close> report: \<open>None\<close> when
  either fails.
\<close>

record token_account =
  ta_program :: pubkey
  ta_mint :: pubkey
  ta_owner :: pubkey
  ta_amount :: u64
  ta_delegate :: "pubkey option"
  ta_delegated_amount :: u64
  ta_frozen :: bool
  ta_close_authority :: "pubkey option"

datatype extension_type = MetadataPointer | TokenMetadata | OtherExtension nat

record mint_account =
  mi_program :: pubkey
  mi_authority :: "pubkey option"
  mi_supply :: u64
  mi_decimals :: u8
  mi_freeze_authority :: "pubkey option"
  mi_extensions :: "extension_type list option"

record ledger =
  tokens :: "pubkey \<rightharpoonup> token_account"
  mints :: "pubkey \<rightharpoonup> mint_account"

section \<open>Accounts owned by the vault program\<close>

record vault_state =
  v_operator :: pubkey
  v_admin :: pubkey
  v_share_mint :: pubkey
  v_deposit_mint :: pubkey
  v_fee_recipient :: pubkey
  v_withdrawal_fee :: u32
  v_local_aum :: u64
  v_deployed_aum :: u64
  v_aum_increase_limit :: u32
  v_aum_decrease_limit :: u32
  v_pda_bump :: u8
  v_vault_version :: u8
  v_paused :: bool
  v_share_offset :: u64
  v_withdrawal_queue_authority :: pubkey
  v_subaccount_count :: u64
  v_deployed_principal :: u64
  v_padding :: "u64 list"

record program_config =
  cfg_authority :: pubkey
  cfg_bump :: u8
  cfg_padding :: "u64 list"

record nominated_admin =
  nom_nominated_admin :: pubkey
  nom_valid_until :: i64

record subaccount =
  sub_vault_state :: pubkey
  sub_address :: pubkey
  sub_principal :: u64
  sub_bump :: u8
  sub_padding :: "u64 list"

section \<open>Accounts owned by the queue program\<close>

record withdrawal_queue =
  q_vault_state :: pubkey
  q_deposit_mint :: pubkey
  q_share_mint :: pubkey
  q_escrow_shares :: pubkey
  q_escrow_assets :: pubkey
  q_cooldown_seconds :: u64
  q_fulfillment_window_seconds :: u64
  q_sequence :: u64
  q_pending_requests :: u64
  q_pending_shares :: u64
  q_bump :: u8
  q_padding :: "u64 list"

record withdrawal_request =
  r_queue :: pubkey
  r_owner :: pubkey
  r_recipient_token_account :: pubkey
  r_finalizer :: pubkey
  r_shares :: u64
  r_request_id :: u64
  r_sequence :: u64
  r_requested_at :: i64
  r_scheduled_eligible_at :: i64
  r_eligible_at :: i64
  r_expires_at :: i64
  r_bump :: u8
  r_min_assets_out :: u64
  r_padding :: "u64 list"

text \<open>Anchor's \<open>init\<close> hands a handler the zeroed account.\<close>

definition zero_vault :: vault_state where
  "zero_vault =
     \<lparr>v_operator = 0, v_admin = 0, v_share_mint = 0, v_deposit_mint = 0, v_fee_recipient = 0,
      v_withdrawal_fee = 0, v_local_aum = 0, v_deployed_aum = 0, v_aum_increase_limit = 0,
      v_aum_decrease_limit = 0, v_pda_bump = 0, v_vault_version = 0, v_paused = False,
      v_share_offset = 0, v_withdrawal_queue_authority = 0, v_subaccount_count = 0,
      v_deployed_principal = 0, v_padding = replicate 25 0\<rparr>"

definition zero_subaccount :: subaccount where
  "zero_subaccount =
     \<lparr>sub_vault_state = 0, sub_address = 0, sub_principal = 0, sub_bump = 0,
      sub_padding = replicate 8 0\<rparr>"

definition zero_queue :: withdrawal_queue where
  "zero_queue =
     \<lparr>q_vault_state = 0, q_deposit_mint = 0, q_share_mint = 0, q_escrow_shares = 0,
      q_escrow_assets = 0, q_cooldown_seconds = 0, q_fulfillment_window_seconds = 0,
      q_sequence = 0, q_pending_requests = 0, q_pending_shares = 0, q_bump = 0,
      q_padding = replicate 20 0\<rparr>"

definition zero_request :: withdrawal_request where
  "zero_request =
     \<lparr>r_queue = 0, r_owner = 0, r_recipient_token_account = 0, r_finalizer = 0, r_shares = 0,
      r_request_id = 0, r_sequence = 0, r_requested_at = 0, r_scheduled_eligible_at = 0,
      r_eligible_at = 0, r_expires_at = 0, r_bump = 0, r_min_assets_out = 0,
      r_padding = replicate 8 0\<rparr>"

section \<open>Share-token metadata\<close>

record data_v2 =
  md_name :: string
  md_symbol :: string
  md_uri :: string
  md_seller_fee_basis_points :: "16 word"
  md_creators :: "pubkey list option"
  md_collection :: "pubkey option"
  md_uses :: "u64 option"

section \<open>Events\<close>

datatype (plugins only: code) event =
    DepositEvt (ev_caller: pubkey) (ev_receiver: pubkey) (ev_amount: u64) (ev_shares: u64)
  | WithdrawEvt (ev_caller: pubkey) (ev_receiver: pubkey) (ev_owner: pubkey) (ev_assets: u64)
      (ev_shares: u64)
  | WithdrawalQueueAttached (ev_vault: pubkey) (ev_queue: pubkey)
  | WithdrawalQueueDetached (ev_vault: pubkey) (ev_queue: pubkey)
  | QueueInitialized (ev_vault: pubkey) (ev_queue: pubkey) (ev_deposit_mint: pubkey)
      (ev_share_mint: pubkey) (ev_escrow_shares: pubkey) (ev_escrow_assets: pubkey)
      (ev_cooldown_seconds: u64)
  | QueueConfigUpdated (ev_vault: pubkey) (ev_queue: pubkey) (ev_cooldown_seconds: u64)
      (ev_fulfillment_window_seconds: u64)
  | WithdrawalRequested (ev_vault: pubkey) (ev_queue: pubkey) (ev_request: pubkey)
      (ev_request_id: u64) (ev_owner: pubkey) (ev_sequence: u64) (ev_shares: u64)
      (ev_recipient_token_account: pubkey) (ev_finalizer: pubkey) (ev_eligible_at: i64)
      (ev_expires_at: i64) (ev_min_assets_out: u64)
  | WithdrawalFinalized (ev_vault: pubkey) (ev_queue: pubkey) (ev_request: pubkey)
      (ev_request_id: u64) (ev_owner: pubkey) (ev_sequence: u64) (ev_recipient: pubkey)
      (ev_finalizer: pubkey) (ev_shares: u64) (ev_assets: u64)
  | WithdrawalCancelled (ev_vault: pubkey) (ev_queue: pubkey) (ev_request: pubkey)
      (ev_request_id: u64) (ev_owner: pubkey) (ev_sequence: u64) (ev_by: pubkey)
      (ev_shares: u64) (ev_destination: pubkey)
  | WithdrawalExpedited (ev_vault: pubkey) (ev_queue: pubkey) (ev_request: pubkey)
      (ev_request_id: u64) (ev_owner: pubkey) (ev_sequence: u64) (ev_by: pubkey)
      (ev_previous_eligible_at: i64) (ev_new_eligible_at: i64)
  | VaultReleased (ev_vault: pubkey) (ev_queue: pubkey) (ev_pending_requests: u64)
      (ev_pending_shares: u64)
  | EscrowSwept (ev_vault: pubkey) (ev_queue: pubkey) (ev_shares: u64) (ev_destination: pubkey)
      (ev_by: pubkey)

section \<open>The world, and one transaction's context\<close>

text \<open>
  \<open>program_data\<close> is the loader's \<open>ProgramData\<close> account of a program: its upgrade authority, which is
  \<open>None\<close> once the program is immutable.
\<close>

record world =
  ledger :: ledger
  vaults :: "pubkey \<rightharpoonup> vault_state"
  configs :: "pubkey \<rightharpoonup> program_config"
  nominations :: "pubkey \<rightharpoonup> nominated_admin"
  subaccounts :: "pubkey \<rightharpoonup> subaccount"
  queues :: "pubkey \<rightharpoonup> withdrawal_queue"
  requests :: "pubkey \<rightharpoonup> withdrawal_request"
  metadata :: "pubkey \<rightharpoonup> data_v2"
  program_data :: "pubkey \<rightharpoonup> pubkey option"
  events :: "event list"

text \<open>
  The signers of the transaction, the Clock sysvar, and whether the System program can fund an
  account of some payer.
\<close>

record tx =
  signers :: "pubkey set"
  unix_timestamp :: "i64 option"
  can_fund :: "pubkey \<Rightarrow> pubkey \<Rightarrow> bool"

definition in_use :: "world \<Rightarrow> pubkey \<Rightarrow> bool" where
  "in_use w k \<longleftrightarrow>
     tokens (ledger w) k \<noteq> None \<or> mints (ledger w) k \<noteq> None \<or> vaults w k \<noteq> None \<or>
     configs w k \<noteq> None \<or> nominations w k \<noteq> None \<or> subaccounts w k \<noteq> None \<or>
     queues w k \<noteq> None \<or> requests w k \<noteq> None \<or> metadata w k \<noteq> None \<or> program_data w k \<noteq> None"

definition emit :: "event \<Rightarrow> world \<Rightarrow> world" where
  "emit e w = w\<lparr>events := events w @ [e]\<rparr>"

definition put_vault :: "pubkey \<Rightarrow> vault_state \<Rightarrow> world \<Rightarrow> world" where
  "put_vault k v w = w\<lparr>vaults := (vaults w)(k \<mapsto> v)\<rparr>"

definition put_subaccount :: "pubkey \<Rightarrow> subaccount \<Rightarrow> world \<Rightarrow> world" where
  "put_subaccount k s w = w\<lparr>subaccounts := (subaccounts w)(k \<mapsto> s)\<rparr>"

definition put_queue :: "pubkey \<Rightarrow> withdrawal_queue \<Rightarrow> world \<Rightarrow> world" where
  "put_queue k q w = w\<lparr>queues := (queues w)(k \<mapsto> q)\<rparr>"

definition put_request :: "pubkey \<Rightarrow> withdrawal_request \<Rightarrow> world \<Rightarrow> world" where
  "put_request k r w = w\<lparr>requests := (requests w)(k \<mapsto> r)\<rparr>"

definition put_ledger :: "ledger \<Rightarrow> world \<Rightarrow> world" where
  "put_ledger L w = w\<lparr>ledger := L\<rparr>"

lemmas world_updates =
  emit_def put_vault_def put_subaccount_def put_queue_def put_request_def put_ledger_def

end
