(* ===== verification/Runtime.thy ===== *)
theory Runtime
  imports Accounts
begin

text \<open>
  What the programs call and do not contain: the runtime's address derivation, the token programs,
  the metadata program. They are the fields of \<open>env\<close>, a parameter of every instruction. What the
  code relies on is \<open>spl_laws\<close> and \<open>pda_laws\<close>, the documented behaviour of SPL Token on mints
  without transfer-altering extensions and of program-derived addresses; a theorem that needs them
  names them as hypotheses.

  The second half are Anchor's account constraints, one function per constraint kind.
\<close>

section \<open>The environment\<close>

text \<open>
  Every token operation takes the token program called, the signers of the call and the ledger. Its
  error is the token program's own code.
\<close>

record env =
  find_program_address :: "u8 list list \<Rightarrow> pubkey \<Rightarrow> pubkey \<times> u8"
  create_program_address :: "u8 list list \<Rightarrow> pubkey \<Rightarrow> pubkey option"
  associated_token_address :: "pubkey \<Rightarrow> pubkey \<Rightarrow> pubkey \<Rightarrow> pubkey"
  spl_token_id :: pubkey
  token_2022_id :: pubkey
  token_metadata_id :: pubkey
  bpf_loader_upgradeable_id :: pubkey
  transfer_checked ::
    "pubkey \<Rightarrow> pubkey set \<Rightarrow> pubkey \<Rightarrow> pubkey \<Rightarrow> pubkey \<Rightarrow> pubkey \<Rightarrow> u64 \<Rightarrow> u8 \<Rightarrow> ledger \<Rightarrow> nat + ledger"
  mint_to_checked ::
    "pubkey \<Rightarrow> pubkey set \<Rightarrow> pubkey \<Rightarrow> pubkey \<Rightarrow> pubkey \<Rightarrow> u64 \<Rightarrow> u8 \<Rightarrow> ledger \<Rightarrow> nat + ledger"
  burn_checked ::
    "pubkey \<Rightarrow> pubkey set \<Rightarrow> pubkey \<Rightarrow> pubkey \<Rightarrow> pubkey \<Rightarrow> u64 \<Rightarrow> u8 \<Rightarrow> ledger \<Rightarrow> nat + ledger"
  close_token_account :: "pubkey \<Rightarrow> pubkey set \<Rightarrow> pubkey \<Rightarrow> pubkey \<Rightarrow> ledger \<Rightarrow> nat + ledger"
  revoke_mint_authority :: "pubkey \<Rightarrow> pubkey set \<Rightarrow> pubkey \<Rightarrow> pubkey \<Rightarrow> ledger \<Rightarrow> nat + ledger"
  initialize_mint :: "pubkey \<Rightarrow> pubkey \<Rightarrow> u8 \<Rightarrow> pubkey \<Rightarrow> ledger \<Rightarrow> nat + ledger"
  initialize_account :: "pubkey \<Rightarrow> pubkey \<Rightarrow> pubkey \<Rightarrow> pubkey \<Rightarrow> ledger \<Rightarrow> nat + ledger"
  create_metadata_v3 ::
    "pubkey set \<Rightarrow> pubkey \<Rightarrow> pubkey \<Rightarrow> pubkey \<Rightarrow> pubkey \<Rightarrow> pubkey \<Rightarrow> data_v2 \<Rightarrow> bool \<Rightarrow>
      (pubkey \<rightharpoonup> data_v2) \<Rightarrow> nat + (pubkey \<rightharpoonup> data_v2)"
  update_metadata_v2 ::
    "pubkey set \<Rightarrow> pubkey \<Rightarrow> pubkey \<Rightarrow> data_v2 option \<Rightarrow> pubkey option \<Rightarrow>
      (pubkey \<rightharpoonup> data_v2) \<Rightarrow> nat + (pubkey \<rightharpoonup> data_v2)"

text \<open>
  \<open>transfer_checked prog signers from mint to authority amount decimals\<close>;
  \<open>mint_to_checked prog signers mint to authority amount decimals\<close>;
  \<open>burn_checked prog signers from mint authority amount decimals\<close>;
  \<open>close_token_account prog signers account authority\<close>;
  \<open>revoke_mint_authority prog signers mint current_authority\<close> is \<open>set_authority\<close> with
  \<open>MintTokens\<close> and \<open>None\<close>; \<open>initialize_mint prog key decimals authority\<close> and
  \<open>initialize_account prog key mint owner\<close> are what Anchor's \<open>init\<close> calls;
  \<open>create_metadata_v3 signers metadata mint mint_authority payer update_authority data is_mutable\<close> and
  \<open>update_metadata_v2 signers metadata update_authority data new_update_authority\<close>.
\<close>

definition token_call :: "nat + ledger \<Rightarrow> ledger result" where
  "token_call m = (case m of Inl code \<Rightarrow> Inl (TokenErr code) | Inr L \<Rightarrow> Inr L)"

lemma token_call_Inr [simp, result_simps]: "token_call m = Inr L \<longleftrightarrow> m = Inr L"
  by (cases m) (simp_all add: token_call_def)

lemma token_call_simps [simp]:
  "token_call (Inr L) = Inr L"
  "token_call (Inl c) = Inl (TokenErr c)"
  by (simp_all add: token_call_def)

definition metadata_call :: "nat + 'a \<Rightarrow> 'a result" where
  "metadata_call m = (case m of Inl code \<Rightarrow> Inl (MetadataErr code) | Inr x \<Rightarrow> Inr x)"

lemma metadata_call_Inr [simp, result_simps]: "metadata_call m = Inr x \<longleftrightarrow> m = Inr x"
  by (cases m) (simp_all add: metadata_call_def)

lemma metadata_call_simps [simp]:
  "metadata_call (Inr x) = Inr x"
  "metadata_call (Inl c) = Inl (MetadataErr c)"
  by (simp_all add: metadata_call_def)

text \<open>
  \<open>invoke_signed\<close>: the runtime derives an address from the seeds and the calling program and adds it
  to the signers of the call; seeds that derive no address fail.
\<close>

definition pda_signers :: "env \<Rightarrow> tx \<Rightarrow> pubkey \<Rightarrow> u8 list list \<Rightarrow> pubkey set result" where
  "pda_signers E t pid seeds =
     (case create_program_address E seeds pid of
        None \<Rightarrow> Inl RuntimeErr
      | Some a \<Rightarrow> Inr (insert a (signers t)))"

lemma pda_signers_Inr [result_simps]:
  "pda_signers E t pid seeds = Inr S \<longleftrightarrow>
     (\<exists>a. create_program_address E seeds pid = Some a \<and> S = insert a (signers t))"
  by (auto simp: pda_signers_def split: option.splits)

section \<open>What the programs rely on\<close>

text \<open>
  A mint whose transfers move exactly the amount named: classic SPL, or Token-2022 with metadata
  extensions only.
\<close>

definition metadata_only :: "extension_type list \<Rightarrow> bool" where
  "metadata_only xs \<longleftrightarrow> set xs \<subseteq> {MetadataPointer, TokenMetadata}"

definition plain_mint :: "env \<Rightarrow> mint_account \<Rightarrow> bool" where
  "plain_mint E m \<longleftrightarrow>
     mi_program m = spl_token_id E \<or>
     (case mi_extensions m of None \<Rightarrow> False | Some xs \<Rightarrow> metadata_only xs)"

text \<open>
  A token account after a debit: the same account with less in it. Spending through a delegate also
  lowers the allowance and clears the delegate at zero.
\<close>

definition debited :: "u64 \<Rightarrow> token_account \<Rightarrow> token_account \<Rightarrow> bool" where
  "debited n a a' \<longleftrightarrow>
     unat (ta_amount a) = unat (ta_amount a') + unat n \<and>
     ta_mint a' = ta_mint a \<and> ta_owner a' = ta_owner a \<and> ta_program a' = ta_program a \<and>
     ta_frozen a' = ta_frozen a \<and> ta_close_authority a' = ta_close_authority a"

definition may_spend :: "pubkey set \<Rightarrow> pubkey \<Rightarrow> u64 \<Rightarrow> token_account \<Rightarrow> bool" where
  "may_spend S auth n a \<longleftrightarrow>
     auth \<in> S \<and>
     (auth = ta_owner a \<or> ta_delegate a = Some auth \<and> n \<le> ta_delegated_amount a)"

text \<open>What a successful \<open>transfer_checked\<close> between two distinct accounts of a plain mint did.\<close>

definition transferred ::
  "pubkey set \<Rightarrow> pubkey \<Rightarrow> pubkey \<Rightarrow> pubkey \<Rightarrow> pubkey \<Rightarrow> u64 \<Rightarrow> ledger \<Rightarrow> ledger \<Rightarrow> bool" where
  "transferred S src mint dst auth n L L' \<longleftrightarrow>
     mints L' = mints L \<and>
     (\<exists>a b. tokens L src = Some a \<and> tokens L dst = Some b \<and>
        ta_mint a = mint \<and> ta_mint b = mint \<and> may_spend S auth n a \<and> n \<le> ta_amount a \<and>
        (if src = dst then tokens L' = tokens L
         else \<exists>a' b'. tokens L' = (tokens L)(src \<mapsto> a', dst \<mapsto> b') \<and> debited n a a' \<and>
                 debited n b' b \<and> ta_delegate b' = ta_delegate b \<and>
                 ta_delegated_amount b' = ta_delegated_amount b))"

definition minted ::
  "pubkey set \<Rightarrow> pubkey \<Rightarrow> pubkey \<Rightarrow> pubkey \<Rightarrow> u64 \<Rightarrow> ledger \<Rightarrow> ledger \<Rightarrow> bool" where
  "minted S mint dst auth n L L' \<longleftrightarrow>
     (\<exists>m b m' b'. mints L mint = Some m \<and> tokens L dst = Some b \<and> ta_mint b = mint \<and>
        auth \<in> S \<and> mi_authority m = Some auth \<and>
        unat (mi_supply m') = unat (mi_supply m) + unat n \<and> m' = m\<lparr>mi_supply := mi_supply m'\<rparr> \<and>
        debited n b' b \<and> b' = b\<lparr>ta_amount := ta_amount b'\<rparr> \<and>
        mints L' = (mints L)(mint \<mapsto> m') \<and> tokens L' = (tokens L)(dst \<mapsto> b'))"

definition burned ::
  "pubkey set \<Rightarrow> pubkey \<Rightarrow> pubkey \<Rightarrow> pubkey \<Rightarrow> u64 \<Rightarrow> ledger \<Rightarrow> ledger \<Rightarrow> bool" where
  "burned S src mint auth n L L' \<longleftrightarrow>
     (\<exists>m a m' a'. mints L mint = Some m \<and> tokens L src = Some a \<and> ta_mint a = mint \<and>
        may_spend S auth n a \<and>
        unat (mi_supply m) = unat (mi_supply m') + unat n \<and> m' = m\<lparr>mi_supply := mi_supply m'\<rparr> \<and>
        debited n a a' \<and>
        mints L' = (mints L)(mint \<mapsto> m') \<and> tokens L' = (tokens L)(src \<mapsto> a'))"

text \<open>
  When a transfer must succeed: both accounts exist under the called program, hold the mint and are
  not frozen, the authority signed and may spend, the balance covers it and the credit fits.
\<close>

definition transfer_possible ::
  "pubkey \<Rightarrow> pubkey set \<Rightarrow> pubkey \<Rightarrow> pubkey \<Rightarrow> pubkey \<Rightarrow> pubkey \<Rightarrow> u64 \<Rightarrow> u8 \<Rightarrow> ledger \<Rightarrow> bool" where
  "transfer_possible prog S src mint dst auth n dec L \<longleftrightarrow>
     (\<exists>a b m. tokens L src = Some a \<and> tokens L dst = Some b \<and> mints L mint = Some m \<and>
        ta_mint a = mint \<and> ta_mint b = mint \<and> mi_decimals m = dec \<and>
        ta_program a = prog \<and> ta_program b = prog \<and> mi_program m = prog \<and>
        \<not> ta_frozen a \<and> \<not> ta_frozen b \<and> may_spend S auth n a \<and> n \<le> ta_amount a \<and>
        (src \<noteq> dst \<longrightarrow> unat (ta_amount b) + unat n < 2 ^ 64))"

text \<open>
  The documented behaviour of the token programs on plain mints. Everything else, Token-2022
  transfer fees and hooks among it, is left open.
\<close>

definition transfer_law :: "env \<Rightarrow> bool" where
  "transfer_law E \<longleftrightarrow>
     (\<forall>prog S src mint dst auth n dec L L' m.
        mints L mint = Some m \<longrightarrow> plain_mint E m \<longrightarrow>
        transfer_checked E prog S src mint dst auth n dec L = Inr L' \<longrightarrow>
        transferred S src mint dst auth n L L')"

text \<open>
  That a possible transfer, or burn below, succeeds idealises Token-2022: an account may carry
  extensions of its own that refuse it, a required memo on the receiving one or a CPI guard on the
  spending one, and a token account here has no extensions. Only the liveness theorems
  rest on these two laws; for accounts without such extensions they are the documented behaviour.
\<close>

definition transfer_progress_law :: "env \<Rightarrow> bool" where
  "transfer_progress_law E \<longleftrightarrow>
     (\<forall>prog S src mint dst auth n dec L m.
        mints L mint = Some m \<longrightarrow> plain_mint E m \<longrightarrow>
        transfer_possible prog S src mint dst auth n dec L \<longrightarrow>
        (\<exists>L'. transfer_checked E prog S src mint dst auth n dec L = Inr L'))"

definition mint_to_law :: "env \<Rightarrow> bool" where
  "mint_to_law E \<longleftrightarrow>
     (\<forall>prog S mint dst auth n dec L L' m.
        mints L mint = Some m \<longrightarrow> plain_mint E m \<longrightarrow>
        mint_to_checked E prog S mint dst auth n dec L = Inr L' \<longrightarrow>
        minted S mint dst auth n L L')"

definition burn_law :: "env \<Rightarrow> bool" where
  "burn_law E \<longleftrightarrow>
     (\<forall>prog S src mint auth n dec L L' m.
        mints L mint = Some m \<longrightarrow> plain_mint E m \<longrightarrow>
        burn_checked E prog S src mint auth n dec L = Inr L' \<longrightarrow>
        burned S src mint auth n L L')"

definition close_law :: "env \<Rightarrow> bool" where
  "close_law E \<longleftrightarrow>
     (\<forall>prog S k auth L L'.
        close_token_account E prog S k auth L = Inr L' \<longrightarrow>
        tokens L k \<noteq> None \<and> tokens L' = (tokens L)(k := None) \<and> mints L' = mints L)"

definition revoke_law :: "env \<Rightarrow> bool" where
  "revoke_law E \<longleftrightarrow>
     (\<forall>prog S k auth L L'.
        revoke_mint_authority E prog S k auth L = Inr L' \<longrightarrow>
        (\<exists>m. mints L k = Some m \<and> mi_authority m = Some auth \<and> auth \<in> S \<and>
           mints L' = (mints L)(k \<mapsto> m\<lparr>mi_authority := None\<rparr>)) \<and> tokens L' = tokens L)"

definition fresh_mint :: "pubkey \<Rightarrow> u8 \<Rightarrow> pubkey \<Rightarrow> mint_account" where
  "fresh_mint prog dec auth =
     \<lparr>mi_program = prog, mi_authority = Some auth, mi_supply = 0, mi_decimals = dec,
      mi_freeze_authority = None, mi_extensions = Some []\<rparr>"

definition fresh_token_account :: "pubkey \<Rightarrow> pubkey \<Rightarrow> pubkey \<Rightarrow> token_account" where
  "fresh_token_account prog mint owner =
     \<lparr>ta_program = prog, ta_mint = mint, ta_owner = owner, ta_amount = 0,
      ta_delegate = None, ta_delegated_amount = 0, ta_frozen = False, ta_close_authority = None\<rparr>"

text \<open>
  A new account is empty, undelegated and unfrozen. A Token-2022 mint whose default account state is
  frozen is idealised here: its new accounts would start frozen.
\<close>

definition initialize_law :: "env \<Rightarrow> bool" where
  "initialize_law E \<longleftrightarrow>
     (\<forall>prog k dec auth L L'.
        initialize_mint E prog k dec auth L = Inr L' \<longrightarrow>
        mints L' = (mints L)(k \<mapsto> fresh_mint prog dec auth) \<and> tokens L' = tokens L) \<and>
     (\<forall>prog k mint owner L L'.
        initialize_account E prog k mint owner L = Inr L' \<longrightarrow>
        tokens L' = (tokens L)(k \<mapsto> fresh_token_account prog mint owner) \<and>
        mints L' = mints L)"

text \<open>
  Custody, the token programs' promise to the owner of an account of a plain mint: while he does not
  sign and has named neither a delegate nor a close authority, nothing but the balance and the frozen
  flag of the account changes, and the balance does not fall. A plain mint stays one, with its
  decimals, a freeze authority once given up does not come back, and while the mint authority does
  not sign it stays what it is and the supply does not rise. None of the calls the two
  programs make appoints a delegate or a close authority; an associated token account is created
  without either.
\<close>

definition mint_kept :: "env \<Rightarrow> pubkey set \<Rightarrow> mint_account \<Rightarrow> mint_account \<Rightarrow> bool" where
  "mint_kept E S m m' \<longleftrightarrow>
     plain_mint E m' \<and> mi_decimals m' = mi_decimals m \<and> mi_program m' = mi_program m \<and>
     (mi_freeze_authority m = None \<longrightarrow> mi_freeze_authority m' = None) \<and>
     (\<forall>a. mi_authority m = Some a \<longrightarrow> a \<notin> S \<longrightarrow>
        mi_authority m' = Some a \<and> mi_supply m' \<le> mi_supply m)"

definition kept :: "env \<Rightarrow> pubkey set \<Rightarrow> ledger \<Rightarrow> ledger \<Rightarrow> bool" where
  "kept E S L L' \<longleftrightarrow>
     (\<forall>k m. mints L k = Some m \<longrightarrow> plain_mint E m \<longrightarrow>
        (\<exists>m'. mints L' k = Some m' \<and> mint_kept E S m m')) \<and>
     (\<forall>k a m. tokens L k = Some a \<longrightarrow> mints L (ta_mint a) = Some m \<longrightarrow> plain_mint E m \<longrightarrow>
        ta_owner a \<notin> S \<longrightarrow> ta_delegate a = None \<longrightarrow> ta_close_authority a = None \<longrightarrow>
        (\<exists>a'. tokens L' k = Some a' \<and> ta_amount a \<le> ta_amount a' \<and>
           a' = a\<lparr>ta_amount := ta_amount a', ta_frozen := ta_frozen a'\<rparr>))"

definition undelegated :: "env \<Rightarrow> pubkey set \<Rightarrow> ledger \<Rightarrow> bool" where
  "undelegated E P L \<longleftrightarrow>
     (\<forall>k a. tokens L k = Some a \<longrightarrow> ta_owner a \<in> P \<longrightarrow> ta_delegate a = None \<and>
        ((\<exists>mint prog. k = associated_token_address E (ta_owner a) mint prog) \<longrightarrow>
           ta_close_authority a = None))"

definition unencumbered :: "ledger \<Rightarrow> pubkey \<Rightarrow> bool" where
  "unencumbered L k \<longleftrightarrow>
     (\<forall>a. tokens L k = Some a \<longrightarrow> ta_delegate a = None \<and> ta_close_authority a = None)"

definition no_grant :: "env \<Rightarrow> ledger \<Rightarrow> ledger \<Rightarrow> bool" where
  "no_grant E L L' \<longleftrightarrow>
     (\<forall>P. undelegated E P L \<longrightarrow> undelegated E P L') \<and>
     (\<forall>k. unencumbered L k \<longrightarrow> unencumbered L' k)"

definition custody_law :: "env \<Rightarrow> bool" where
  "custody_law E \<longleftrightarrow>
     (\<forall>prog S a b c d n dec L L'.
        transfer_checked E prog S a b c d n dec L = Inr L' \<or>
        mint_to_checked E prog S a b c n dec L = Inr L' \<or>
        burn_checked E prog S a b c n dec L = Inr L' \<or>
        close_token_account E prog S a b L = Inr L' \<or>
        revoke_mint_authority E prog S a b L = Inr L' \<longrightarrow> kept E S L L' \<and> no_grant E L L')"

definition spl_laws :: "env \<Rightarrow> bool" where
  "spl_laws E \<longleftrightarrow>
     transfer_law E \<and> transfer_progress_law E \<and> mint_to_law E \<and> burn_law E \<and> close_law E \<and>
     revoke_law E \<and> initialize_law E \<and> custody_law E"

text \<open>
  Program-derived addresses: the bump \<open>find_program_address\<close> returns derives the address it returns.
\<close>

definition pda_laws :: "env \<Rightarrow> bool" where
  "pda_laws E \<longleftrightarrow>
     (\<forall>seeds pid a b. find_program_address E seeds pid = (a, b) \<longrightarrow>
        create_program_address E (seeds @ [[b]]) pid = Some a)"

lemma find_create:
  "pda_laws E \<Longrightarrow> create_program_address E (seeds @ [[snd (find_program_address E seeds pid)]]) pid =
     Some (fst (find_program_address E seeds pid))"
  unfolding pda_laws_def by (metis prod.collapse)

lemma spl_transfer:
  assumes "spl_laws E" and "mints L mint = Some m" and "plain_mint E m"
    and "transfer_checked E prog S src mint dst auth n dec L = Inr L'"
  shows "transferred S src mint dst auth n L L'"
  using assms unfolding spl_laws_def transfer_law_def by metis

lemma spl_transfer_possible:
  assumes "spl_laws E" and "mints L mint = Some m" and "plain_mint E m"
    and "transfer_possible prog S src mint dst auth n dec L"
  shows "\<exists>L'. transfer_checked E prog S src mint dst auth n dec L = Inr L'"
  using assms unfolding spl_laws_def transfer_progress_law_def by metis

lemma spl_mint_to:
  assumes "spl_laws E" and "mints L mint = Some m" and "plain_mint E m"
    and "mint_to_checked E prog S mint dst auth n dec L = Inr L'"
  shows "minted S mint dst auth n L L'"
  using assms unfolding spl_laws_def mint_to_law_def by metis

lemma spl_burn:
  assumes "spl_laws E" and "mints L mint = Some m" and "plain_mint E m"
    and "burn_checked E prog S src mint auth n dec L = Inr L'"
  shows "burned S src mint auth n L L'"
  using assms unfolding spl_laws_def burn_law_def by metis

lemma spl_close:
  assumes "spl_laws E" and "close_token_account E prog S k auth L = Inr L'"
  shows "tokens L k \<noteq> None"
    and "tokens L' = (tokens L)(k := None)" and "mints L' = mints L"
  using assms unfolding spl_laws_def close_law_def by metis+

lemma spl_revoke:
  assumes "spl_laws E" and "revoke_mint_authority E prog S k auth L = Inr L'"
  shows "\<exists>m. mints L k = Some m \<and> mi_authority m = Some auth \<and> auth \<in> S \<and>
           mints L' = (mints L)(k \<mapsto> m\<lparr>mi_authority := None\<rparr>)"
    and "tokens L' = tokens L"
  using assms unfolding spl_laws_def revoke_law_def by metis+

lemma spl_custody:
  assumes "spl_laws E"
  shows "transfer_checked E prog S a b c d n dec L = Inr L' \<Longrightarrow> kept E S L L' \<and> no_grant E L L'"
    and "mint_to_checked E prog S a b c n dec L = Inr L' \<Longrightarrow> kept E S L L' \<and> no_grant E L L'"
    and "burn_checked E prog S a b c n dec L = Inr L' \<Longrightarrow> kept E S L L' \<and> no_grant E L L'"
    and "close_token_account E prog S a b L = Inr L' \<Longrightarrow> kept E S L L' \<and> no_grant E L L'"
    and "revoke_mint_authority E prog S a b L = Inr L' \<Longrightarrow> kept E S L L' \<and> no_grant E L L'"
  using assms unfolding spl_laws_def custody_law_def by metis+

lemma no_grant_refl [simp, intro]: "no_grant E L L"
  by (simp add: no_grant_def)

lemma no_grant_trans: "no_grant E L L' \<Longrightarrow> no_grant E L' L'' \<Longrightarrow> no_grant E L L''"
  by (simp add: no_grant_def)

lemma no_grant_fresh:
  "tokens L' = (tokens L)(k \<mapsto> a) \<Longrightarrow> ta_delegate a = None \<Longrightarrow> ta_close_authority a = None \<Longrightarrow>
   no_grant E L L'"
  by (simp add: no_grant_def undelegated_def unencumbered_def)

lemma no_grantI:
  assumes "\<And>k a'. tokens L' k = Some a' \<Longrightarrow>
      \<exists>a. tokens L k = Some a \<and> ta_owner a' = ta_owner a \<and>
        (ta_delegate a' = None \<or> ta_delegate a' = ta_delegate a) \<and>
        ta_close_authority a' = ta_close_authority a"
  shows "no_grant E L L'"
  unfolding no_grant_def
proof (intro conjI allI impI)
  fix P assume L: "undelegated E P L"
  show "undelegated E P L'"
    unfolding undelegated_def
  proof (intro allI impI)
    fix k a'
    assume k: "tokens L' k = Some a'" "ta_owner a' \<in> P"
    obtain a where a: "tokens L k = Some a" "ta_owner a' = ta_owner a"
        "ta_delegate a' = None \<or> ta_delegate a' = ta_delegate a"
        "ta_close_authority a' = ta_close_authority a"
      using assms [OF k(1)] by blast
    have "ta_owner a \<in> P" using k(2) a(2) by simp
    then show "ta_delegate a' = None \<and>
        ((\<exists>mint prog. k = associated_token_address E (ta_owner a') mint prog) \<longrightarrow>
           ta_close_authority a' = None)"
      using L [unfolded undelegated_def, rule_format, OF a(1)] a(2-4) by auto
  qed
next
  fix k assume "unencumbered L k"
  then show "unencumbered L' k" using assms by (fastforce simp: unencumbered_def)
qed

lemma no_grant_same: "tokens L' = tokens L \<Longrightarrow> no_grant E L L'"
  by (simp add: no_grant_def undelegated_def unencumbered_def)

lemma no_grant_closed: "tokens L' = (tokens L)(k := None) \<Longrightarrow> no_grant E L L'"
  by (auto simp: no_grant_def undelegated_def unencumbered_def)

lemma mint_kept_refl: "plain_mint E m \<Longrightarrow> mint_kept E S m m"
  by (simp add: mint_kept_def)

lemma mint_kept_mono: "mint_kept E S m m' \<Longrightarrow> S \<subseteq> S' \<Longrightarrow> mint_kept E S' m m'"
  by (auto simp: mint_kept_def)

lemma mint_kept_trans: "mint_kept E S m m' \<Longrightarrow> mint_kept E S m' m'' \<Longrightarrow> mint_kept E S m m''"
  by (auto simp: mint_kept_def intro: order_trans)

lemma kept_refl [simp, intro]: "kept E S L L"
  by (simp add: kept_def mint_kept_refl)

lemma kept_mono: "kept E S L L' \<Longrightarrow> S \<subseteq> S' \<Longrightarrow> kept E S' L L'"
  unfolding kept_def by (meson subsetD mint_kept_mono)

lemma kept_mint:
  assumes "kept E S L L'" and "mints L k = Some m" and "plain_mint E m"
  obtains m' where "mints L' k = Some m'" and "mint_kept E S m m'" and "plain_mint E m'"
    and "mi_decimals m' = mi_decimals m" and "mi_program m' = mi_program m"
    and "mi_freeze_authority m = None \<Longrightarrow> mi_freeze_authority m' = None"
  using assms unfolding kept_def mint_kept_def by blast

lemma kept_account:
  assumes "kept E S L L'" and "tokens L k = Some a" and "mints L (ta_mint a) = Some m"
    and "plain_mint E m" and "ta_owner a \<notin> S" and "ta_delegate a = None"
    and "ta_close_authority a = None"
  obtains a' where "tokens L' k = Some a'" and "ta_amount a \<le> ta_amount a'"
    and "ta_mint a' = ta_mint a" and "ta_owner a' = ta_owner a" and "ta_delegate a' = None"
    and "ta_close_authority a' = None" and "ta_program a' = ta_program a"
proof -
  obtain a' where a': "tokens L' k = Some a'" "ta_amount a \<le> ta_amount a'"
    and eq: "a' = a\<lparr>ta_amount := ta_amount a', ta_frozen := ta_frozen a'\<rparr>"
    using assms unfolding kept_def by meson
  have "ta_mint a' = ta_mint a" "ta_owner a' = ta_owner a" "ta_delegate a' = None"
      "ta_close_authority a' = None" "ta_program a' = ta_program a"
    by (subst eq, simp add: assms(6,7))+
  with a' show ?thesis by (rule that)
qed

lemma kept_trans:
  assumes "kept E S L L'" and "kept E S L' L''"
  shows "kept E S L L''"
  unfolding kept_def
proof (intro conjI allI impI)
  fix k m assume m: "mints L k = Some m" "plain_mint E m"
  show "\<exists>m''. mints L'' k = Some m'' \<and> mint_kept E S m m''"
    by (rule kept_mint [OF assms(1) m], rule kept_mint [OF assms(2)], assumption, assumption)
      (auto intro: mint_kept_trans)
next
  fix k a m
  assume a: "tokens L k = Some a" "mints L (ta_mint a) = Some m" "plain_mint E m"
    "ta_owner a \<notin> S" "ta_delegate a = None" "ta_close_authority a = None"
  obtain a' where a': "tokens L' k = Some a'" "ta_amount a \<le> ta_amount a'"
    and eq: "a' = a\<lparr>ta_amount := ta_amount a', ta_frozen := ta_frozen a'\<rparr>"
    using assms(1) a unfolding kept_def by meson
  obtain x f where x: "a' = a\<lparr>ta_amount := x, ta_frozen := f\<rparr>" using eq by blast
  obtain m' where m': "mints L' (ta_mint a') = Some m'" "plain_mint E m'"
    using kept_mint [OF assms(1) a(2,3)] by (auto simp: x)
  have "ta_owner a' \<notin> S" "ta_delegate a' = None" "ta_close_authority a' = None"
    using a(4-6) by (simp_all add: x)
  then obtain a'' where a'': "tokens L'' k = Some a''" "ta_amount a' \<le> ta_amount a''"
    and eq': "a'' = a'\<lparr>ta_amount := ta_amount a'', ta_frozen := ta_frozen a''\<rparr>"
    using assms(2) a'(1) m' unfolding kept_def by meson
  have "a'' = a\<lparr>ta_amount := ta_amount a'', ta_frozen := ta_frozen a''\<rparr>"
    by (subst eq') (simp add: x)
  then show "\<exists>a''. tokens L'' k = Some a'' \<and> ta_amount a \<le> ta_amount a'' \<and>
      a'' = a\<lparr>ta_amount := ta_amount a'', ta_frozen := ta_frozen a''\<rparr>"
    using a''(1,2) a'(2) by (meson order_trans)
qed

text \<open>A new account or mint at an unused address disturbs nobody.\<close>

lemma kept_fresh:
  assumes "tokens L' = (tokens L)(k \<mapsto> a)" and "tokens L k = None" and "mints L' = mints L"
  shows "kept E S L L'"
  using assms by (auto simp: kept_def mint_kept_refl)

lemma kept_fresh_mint:
  assumes "mints L' = (mints L)(k \<mapsto> m)" and "mints L k = None" and "tokens L' = tokens L"
  shows "kept E S L L'"
  using assms by (auto simp: kept_def mint_kept_refl)

lemma spl_initialize_mint:
  assumes "spl_laws E" and "initialize_mint E prog k dec auth L = Inr L'"
  shows "mints L' = (mints L)(k \<mapsto> fresh_mint prog dec auth)" and "tokens L' = tokens L"
  using assms unfolding spl_laws_def initialize_law_def by metis+

lemma spl_initialize_account:
  assumes "spl_laws E" and "initialize_account E prog k mint owner L = Inr L'"
  shows "tokens L' = (tokens L)(k \<mapsto> fresh_token_account prog mint owner)"
    and "mints L' = mints L"
  using assms unfolding spl_laws_def initialize_law_def by metis+

section \<open>Anchor's account constraints\<close>

text \<open>
  \<open>InterfaceAccount\<close> accepts either token program as the owner, \<open>Interface<TokenInterface>\<close> either as
  the program.
\<close>

definition token_interface :: "env \<Rightarrow> pubkey \<Rightarrow> bool" where
  "token_interface E prog \<longleftrightarrow> prog = spl_token_id E \<or> prog = token_2022_id E"

definition load_token :: "env \<Rightarrow> world \<Rightarrow> pubkey \<Rightarrow> token_account result" where
  "load_token E w k =
     bindR (ok_or (tokens (ledger w) k) (AnchorErr AccountNotInitialized))
       (\<lambda>a. require (token_interface E (ta_program a)) (AnchorErr AccountDidNotDeserialize) (Inr a))"

definition load_mint :: "env \<Rightarrow> world \<Rightarrow> pubkey \<Rightarrow> mint_account result" where
  "load_mint E w k =
     bindR (ok_or (mints (ledger w) k) (AnchorErr AccountNotInitialized))
       (\<lambda>m. require (token_interface E (mi_program m)) (AnchorErr AccountDidNotDeserialize) (Inr m))"

definition load_vault :: "world \<Rightarrow> pubkey \<Rightarrow> vault_state result" where
  "load_vault w k = ok_or (vaults w k) (AnchorErr AccountNotInitialized)"

definition load_config :: "world \<Rightarrow> pubkey \<Rightarrow> program_config result" where
  "load_config w k = ok_or (configs w k) (AnchorErr AccountNotInitialized)"

definition load_nomination :: "world \<Rightarrow> pubkey \<Rightarrow> nominated_admin result" where
  "load_nomination w k = ok_or (nominations w k) (AnchorErr AccountNotInitialized)"

definition load_subaccount :: "world \<Rightarrow> pubkey \<Rightarrow> subaccount result" where
  "load_subaccount w k = ok_or (subaccounts w k) (AnchorErr AccountNotInitialized)"

definition load_queue :: "world \<Rightarrow> pubkey \<Rightarrow> withdrawal_queue result" where
  "load_queue w k = ok_or (queues w k) (AnchorErr AccountNotInitialized)"

definition load_request :: "world \<Rightarrow> pubkey \<Rightarrow> withdrawal_request result" where
  "load_request w k = ok_or (requests w k) (AnchorErr AccountNotInitialized)"

definition load_program_data :: "world \<Rightarrow> pubkey \<Rightarrow> (pubkey option) result" where
  "load_program_data w k = ok_or (program_data w k) (AnchorErr AccountNotInitialized)"

lemmas load_simps [result_simps] =
  load_token_def load_mint_def load_vault_def load_config_def load_nomination_def
  load_subaccount_def load_queue_def load_request_def load_program_data_def

text \<open>\<open>Signer\<close>, \<open>seeds = [..], bump\<close> and \<open>seeds = [..], bump = b\<close>.\<close>

definition signer :: "tx \<Rightarrow> pubkey \<Rightarrow> 'a result \<Rightarrow> 'a result" where
  "signer t k cont = require (k \<in> signers t) (AnchorErr AccountNotSigner) cont"

definition seeds_bump :: "env \<Rightarrow> u8 list list \<Rightarrow> pubkey \<Rightarrow> pubkey \<Rightarrow> 'a result \<Rightarrow> 'a result" where
  "seeds_bump E seeds pid k cont =
     require (fst (find_program_address E seeds pid) = k) (AnchorErr ConstraintSeeds) cont"

definition seeds_with_bump ::
  "env \<Rightarrow> u8 list list \<Rightarrow> u8 \<Rightarrow> pubkey \<Rightarrow> pubkey \<Rightarrow> 'a result \<Rightarrow> 'a result" where
  "seeds_with_bump E seeds b pid k cont =
     require (create_program_address E (seeds @ [[b]]) pid = Some k) (AnchorErr ConstraintSeeds) cont"

text \<open>\<open>token::mint\<close>, \<open>token::authority\<close>, \<open>mint::decimals\<close>, \<open>mint::authority\<close> and the ATA constraint.\<close>

definition token_mint :: "token_account \<Rightarrow> pubkey \<Rightarrow> 'a result \<Rightarrow> 'a result" where
  "token_mint a mint cont = require (ta_mint a = mint) (AnchorErr ConstraintTokenMint) cont"

definition token_authority :: "token_account \<Rightarrow> pubkey \<Rightarrow> 'a result \<Rightarrow> 'a result" where
  "token_authority a k cont = require (ta_owner a = k) (AnchorErr ConstraintTokenOwner) cont"

definition mint_decimals :: "mint_account \<Rightarrow> u8 \<Rightarrow> 'a result \<Rightarrow> 'a result" where
  "mint_decimals m d cont = require (mi_decimals m = d) (AnchorErr ConstraintMintDecimals) cont"

definition mint_authority :: "mint_account \<Rightarrow> pubkey \<Rightarrow> 'a result \<Rightarrow> 'a result" where
  "mint_authority m k cont =
     require (mi_authority m = Some k) (AnchorErr ConstraintMintMintAuthority) cont"

definition associated_token ::
  "env \<Rightarrow> pubkey \<Rightarrow> token_account \<Rightarrow> pubkey \<Rightarrow> pubkey \<Rightarrow> pubkey \<Rightarrow> 'a result \<Rightarrow> 'a result" where
  "associated_token E k a mint wallet prog cont =
     require (ta_program a = prog) (AnchorErr ConstraintAssociatedTokenTokenProgram)
     (require (ta_owner a = wallet) (AnchorErr ConstraintTokenOwner)
     (require (associated_token_address E wallet mint prog = k) (AnchorErr ConstraintAssociated)
       cont))"

definition has_one :: "pubkey \<Rightarrow> pubkey \<Rightarrow> prog_error \<Rightarrow> 'a result \<Rightarrow> 'a result" where
  "has_one stored k e cont = require (stored = k) e cont"

definition token_program_account :: "env \<Rightarrow> pubkey \<Rightarrow> 'a result \<Rightarrow> 'a result" where
  "token_program_account E prog cont =
     require (token_interface E prog) (AnchorErr InvalidProgramId) cont"

text \<open>
  \<open>init\<close>: the System program creates the account, which needs a free address and a payer who signed
  and can fund it; and \<open>close = target\<close>.
\<close>

definition init_account :: "tx \<Rightarrow> world \<Rightarrow> pubkey \<Rightarrow> pubkey \<Rightarrow> 'a result \<Rightarrow> 'a result" where
  "init_account t w payer k cont =
     require (payer \<in> signers t \<and> can_fund t payer k \<and> \<not> in_use w k) RuntimeErr cont"

definition close_to :: "pubkey \<Rightarrow> pubkey \<Rightarrow> 'a result \<Rightarrow> 'a result" where
  "close_to k target cont = require (k \<noteq> target) (AnchorErr ConstraintClose) cont"

text \<open>
  The unchecked account's \<open>owner\<close> and \<open>data_is_empty()\<close>: the System program, whose id is the zero
  key, owns whatever no program has claimed, without data.
\<close>

definition data_is_empty :: "world \<Rightarrow> pubkey \<Rightarrow> bool" where
  "data_is_empty w k \<longleftrightarrow> \<not> in_use w k"

lemmas constraint_simps [result_simps] =
  signer_def seeds_bump_def seeds_with_bump_def token_mint_def token_authority_def
  mint_decimals_def mint_authority_def associated_token_def has_one_def
  token_program_account_def init_account_def close_to_def

end
