(* ===== verification/VaultState.thy ===== *)
theory VaultState
  imports Runtime
begin

text \<open>
  \<open>programs/august-vault/src/state/vault.rs\<close>: the constants, the methods of \<open>VaultState\<close> and the
  pricing of shares. The pricing laws are the locale \<open>share_pricing\<close>, interpreted on the code's own
  functions; what follows from them (no value from a round trip, no dilution, solvency, bounded
  rounding loss) is proved once inside it.
\<close>

section \<open>Constants and addresses\<close>

text \<open>The base-58 program ids of \<open>declare_id!\<close> and \<open>pubkey!\<close>, read as 256-bit numbers.\<close>

definition VAULT_PROGRAM_ID :: pubkey where
  "VAULT_PROGRAM_ID =
     6119202149309790560231911943113610889160438972447588084936786151621972870031"

definition WITHDRAWAL_QUEUE_PROGRAM_ID :: pubkey where
  "WITHDRAWAL_QUEUE_PROGRAM_ID =
     6120017289150529794638758257876135273712136484259779928429925885572666203799"

definition VAULT_STATE_SEED :: "u8 list" where
  "VAULT_STATE_SEED = ascii ''VAULT_STATE''"

definition SHARE_MINT_SEED :: "u8 list" where
  "SHARE_MINT_SEED = ascii ''mint''"

definition VAULT_TOKEN_SEED :: "u8 list" where
  "VAULT_TOKEN_SEED = ascii ''token_vault''"

definition WITHDRAWAL_QUEUE_SEED :: "u8 list" where
  "WITHDRAWAL_QUEUE_SEED = ascii ''withdrawal_queue''"

definition withdrawal_queue_pda :: "env \<Rightarrow> pubkey \<Rightarrow> pubkey" where
  "withdrawal_queue_pda E vault =
     fst (find_program_address E [WITHDRAWAL_QUEUE_SEED, key_bytes vault]
            WITHDRAWAL_QUEUE_PROGRAM_ID)"

definition FEE_RATE_DENOMINATOR_VALUE :: u32 where
  "FEE_RATE_DENOMINATOR_VALUE = 1000000"

definition BPS_DENOMINATOR :: u32 where
  "BPS_DENOMINATOR = 10000"

definition EXTRA_SHARES :: u128 where
  "EXTRA_SHARES = 1000000"

definition MIN_SHARE_OFFSET :: u128 where
  "MIN_SHARE_OFFSET = 1000"

definition MAX_SHARE_OFFSET :: u128 where
  "MAX_SHARE_OFFSET = 1000000"

definition MIN_SUPPLY_MULTIPLE :: u128 where
  "MIN_SUPPLY_MULTIPLE = 100"

lemmas vault_constants =
  FEE_RATE_DENOMINATOR_VALUE_def BPS_DENOMINATOR_def EXTRA_SHARES_def MIN_SHARE_OFFSET_def
  MAX_SHARE_OFFSET_def MIN_SUPPLY_MULTIPLE_def

text \<open>The seeds of a vault's three PDAs, as every \<open>Accounts\<close> struct writes them.\<close>

definition vault_state_seeds :: "pubkey \<Rightarrow> u8 \<Rightarrow> u8 list list" where
  "vault_state_seeds mint version = [VAULT_STATE_SEED, key_bytes mint, [version]]"

definition share_mint_seeds :: "pubkey \<Rightarrow> u8 \<Rightarrow> u8 list list" where
  "share_mint_seeds mint version = [SHARE_MINT_SEED, key_bytes mint, [version]]"

definition vault_token_seeds :: "pubkey \<Rightarrow> u8 \<Rightarrow> u8 list list" where
  "vault_token_seeds mint version = [VAULT_TOKEN_SEED, key_bytes mint, [version]]"

section \<open>The methods of VaultState\<close>

definition vault_init ::
  "pubkey \<Rightarrow> pubkey \<Rightarrow> pubkey \<Rightarrow> pubkey \<Rightarrow> pubkey \<Rightarrow> u32 \<Rightarrow> u8 \<Rightarrow> u8 \<Rightarrow> u64 \<Rightarrow> vault_state \<Rightarrow> vault_state"
where
  "vault_init operator admin share_mint deposit_mint fee_recipient withdrawal_fee pda_bump
     vault_version offset v =
     v\<lparr>v_operator := operator, v_admin := admin, v_share_mint := share_mint,
       v_deposit_mint := deposit_mint, v_fee_recipient := fee_recipient,
       v_withdrawal_fee := withdrawal_fee, v_deployed_aum := 0,
       v_aum_increase_limit := 20, v_aum_decrease_limit := 20, v_paused := False,
       v_pda_bump := pda_bump, v_vault_version := vault_version,
       v_share_offset := offset\<rparr>"

definition withdrawal_queue :: "vault_state \<Rightarrow> pubkey option" where
  "withdrawal_queue v =
     (if v_withdrawal_queue_authority v \<noteq> default_key
      then Some (v_withdrawal_queue_authority v) else None)"

definition requires_withdrawal_queue :: "vault_state \<Rightarrow> bool" where
  "requires_withdrawal_queue v = (withdrawal_queue v \<noteq> None)"

definition requires_subaccount :: "vault_state \<Rightarrow> bool" where
  "requires_subaccount v = (0 < v_subaccount_count v)"

definition vault_seeds :: "vault_state \<Rightarrow> u8 list list" where
  "vault_seeds v =
     [VAULT_STATE_SEED, key_bytes (v_deposit_mint v), [v_vault_version v], [v_pda_bump v]]"

definition share_offset :: "vault_state \<Rightarrow> u128" where
  "share_offset v = (if v_share_offset v = 0 then EXTRA_SHARES else widen (v_share_offset v))"

definition total_assets :: "vault_state \<Rightarrow> u64 result" where
  "total_assets v = ok_or (checked_add (v_local_aum v) (v_deployed_aum v)) (VaultErr MathError)"

definition shares_for_deposit_with_offset :: "u64 \<Rightarrow> u64 \<Rightarrow> u64 \<Rightarrow> u128 \<Rightarrow> u64 result" where
  "shares_for_deposit_with_offset supply assets amount offset =
     require (0 < assets \<or> supply = 0) (VaultErr SharePriceUndefined)
     (bindR (ok_or (checked_add (widen supply) offset) (VaultErr MathError)) (\<lambda>shares_eff.
      bindR (ok_or (checked_add (widen assets) offset) (VaultErr MathError)) (\<lambda>assets_eff.
      bindR (ok_or (checked_mul (widen amount) shares_eff) (VaultErr MathError)) (\<lambda>product.
      bindR (ok_or (checked_div product assets_eff) (VaultErr MathError)) (\<lambda>with_offsets.
      bindR (if assets = 0 then Inr with_offsets
             else bindR (ok_or (checked_mul (widen amount) (widen supply)) (VaultErr MathError))
                    (\<lambda>p. bindR (ok_or (checked_div p (widen assets)) (VaultErr MathError))
                       (\<lambda>pro_rata. Inr (max with_offsets pro_rata))))
        (\<lambda>shares. ok_or (narrow shares) (VaultErr NumberOverflow)))))))"

definition assets_for_redeem_with_offset :: "u64 \<Rightarrow> u64 \<Rightarrow> u64 \<Rightarrow> u128 \<Rightarrow> u64 result" where
  "assets_for_redeem_with_offset supply assets shares offset =
     require (0 < assets \<or> supply = 0) (VaultErr SharePriceUndefined)
     (bindR (ok_or (checked_add (widen supply) offset) (VaultErr MathError)) (\<lambda>shares_eff.
      bindR (ok_or (checked_add (widen assets) offset) (VaultErr MathError)) (\<lambda>assets_eff.
      bindR (ok_or (checked_mul (widen shares) assets_eff) (VaultErr MathError)) (\<lambda>product.
      bindR (ok_or (checked_div product shares_eff) (VaultErr MathError)) (\<lambda>with_offsets.
      bindR (if supply = 0 then Inr with_offsets
             else bindR (ok_or (checked_mul (widen shares) (widen assets)) (VaultErr MathError))
                    (\<lambda>p. bindR (ok_or (checked_div p (widen supply)) (VaultErr MathError))
                       (\<lambda>pro_rata. Inr (min with_offsets pro_rata))))
        (\<lambda>capped. ok_or (narrow capped) (VaultErr NumberOverflow)))))))"

definition shares_for_deposit :: "vault_state \<Rightarrow> u64 \<Rightarrow> u64 \<Rightarrow> u64 \<Rightarrow> u64 result" where
  "shares_for_deposit v supply assets amount =
     shares_for_deposit_with_offset supply assets amount (share_offset v)"

definition assets_for_redeem :: "vault_state \<Rightarrow> u64 \<Rightarrow> u64 \<Rightarrow> u64 \<Rightarrow> u64 result" where
  "assets_for_redeem v supply assets shares =
     assets_for_redeem_with_offset supply assets shares (share_offset v)"

definition narrow_or_max :: "u128 \<Rightarrow> u64" where
  "narrow_or_max x = (case narrow x of Some y \<Rightarrow> y | None \<Rightarrow> - 1)"

definition min_first_deposit_for :: "u8 \<Rightarrow> u128 \<Rightarrow> u64" where
  "min_first_deposit_for decimals offset =
     (let by_decimals = (if decimals \<le> 3 then 1
                         else saturating_pow 10 (unat (saturating_sub decimals 3)));
          by_offset = narrow_or_max (saturating_mul MIN_SUPPLY_MULTIPLE offset)
      in max by_decimals by_offset)"

definition min_first_deposit :: "vault_state \<Rightarrow> u8 \<Rightarrow> u64" where
  "min_first_deposit v decimals = min_first_deposit_for decimals (share_offset v)"

definition min_opening_supply :: "vault_state \<Rightarrow> u64" where
  "min_opening_supply v = narrow_or_max (saturating_mul MIN_SUPPLY_MULTIPLE (share_offset v))"

text \<open>
  The loop of \<open>is_valid_share_offset\<close>. Nothing in its body alone bounds it (from \<open>p = 0\<close> it would
  spin), so it is a partial function whose \<open>None\<close> is "does not return".
\<close>

partial_function (option) power_of_ten_loop :: "u128 \<Rightarrow> u128 \<Rightarrow> bool option" where
  "power_of_ten_loop p offset =
     (if p < offset
      then (case checked_mul p 10 of
              Some next \<Rightarrow> power_of_ten_loop next offset
            | None \<Rightarrow> Some False)
      else Some (p = offset))"

declare power_of_ten_loop.simps [code]

definition is_valid_share_offset :: "u128 \<Rightarrow> bool option" where
  "is_valid_share_offset offset =
     (if \<not> (MIN_SHARE_OFFSET \<le> offset \<and> offset \<le> MAX_SHARE_OFFSET) then Some False
      else power_of_ten_loop 1 offset)"

end
