(* ===== verification/Pricing.thy ===== *)
theory Pricing
  imports VaultState
begin

text \<open>
  The arithmetic of \<open>state/vault.rs\<close>: what the two pricing functions, the deposit floors and the
  offset check compute, as numbers. The contract of a pair of pricing functions is the locale
  \<open>share_pricing\<close>; it is interpreted on the code's own pair, for an explicit offset and for a
  vault's own, and everything the rounding policy is meant to guarantee is proved from it.
\<close>

section \<open>The functions as numbers\<close>

text \<open>What a deposit mints and a redemption pays, in unbounded arithmetic.\<close>

definition deposit_quote :: "nat \<Rightarrow> nat \<Rightarrow> nat \<Rightarrow> nat \<Rightarrow> nat" where
  "deposit_quote S T x off =
     max (x * (S + off) div (T + off)) (if T = 0 then 0 else x * S div T)"

definition redeem_quote :: "nat \<Rightarrow> nat \<Rightarrow> nat \<Rightarrow> nat \<Rightarrow> nat" where
  "redeem_quote S T s off =
     (let with_offsets = s * (T + off) div (S + off)
      in if S = 0 then with_offsets else min with_offsets (s * T div S))"

lemma u64_mult_fits: "unat (a :: u64) * unat (b :: u64) < 2 ^ 128"
proof -
  have "unat a * unat b < 2 ^ 64 * 2 ^ 64"
    using unat_less_exp [of a] unat_less_exp [of b] by (intro mult_strict_mono) simp_all
  then show ?thesis by (simp flip: power_add)
qed

lemma u64_mult_fits_numeral [simp]:
  "unat (a :: u64) * unat (b :: u64) < 340282366920938463463374607431768211456"
  using u64_mult_fits [of a b] by simp

lemma unat_word_of_nat:
  "k < 2 ^ LENGTH('a) \<Longrightarrow> unat (word_of_nat k :: 'a::len word) = k"
  by (simp add: unsigned_of_nat take_bit_nat_eq_self)

lemma div_fits: "k < (n :: nat) \<Longrightarrow> k div b < n"
  by (rule le_less_trans [OF div_le_dividend])

text \<open>
  A checked operation that fits, and its \<open>?\<close>: the word that holds the exact result. Used as rewrite
  rules, these walk a function's \<open>?\<close> chain one step at a time.
\<close>

lemma Some_fits:
  fixes m :: "'a::len word option"
  assumes "\<And>c. m = Some c \<longleftrightarrow> unat c = k" and "k < 2 ^ LENGTH('a)"
  obtains c where "m = Some c" and "unat c = k"
  using assms unat_word_of_nat by blast

lemma checked_add_fits:
  fixes a b :: "'a::len word"
  assumes "unat a + unat b < 2 ^ LENGTH('a)"
  obtains c where "checked_add a b = Some c" and "unat c = unat a + unat b"
  by (rule Some_fits [OF checked_add_Some assms]) (rule that)

lemma checked_mul_fits:
  fixes a b :: "'a::len word"
  assumes "unat a * unat b < 2 ^ LENGTH('a)"
  obtains c where "checked_mul a b = Some c" and "unat c = unat a * unat b"
  by (rule Some_fits [OF checked_mul_Some assms]) (rule that)

lemma checked_div_fits:
  fixes a b :: "'a::len word"
  assumes "unat b \<noteq> 0"
  obtains c where "checked_div a b = Some c" and "unat c = unat a div unat b"
proof (rule Some_fits)
  show "checked_div a b = Some c \<longleftrightarrow> unat c = unat a div unat b" for c
    using assms by simp
  show "unat a div unat b < 2 ^ LENGTH('a)" by (simp add: div_fits)
qed

lemma ok_or_None:
  "2 ^ LENGTH('a) \<le> unat a + unat b \<Longrightarrow> ok_or (checked_add a b) e = Inl e"
  "2 ^ LENGTH('a) \<le> unat a * unat b \<Longrightarrow> ok_or (checked_mul a b) e = Inl e"
  "unat b = 0 \<Longrightarrow> ok_or (checked_div a b) e = Inl e" for a b :: "'a::len word"
  by (simp_all flip: checked_add_None checked_mul_None add: checked_div_def unat_eq_zero)

lemma narrow_eq: "narrow x = (if unat x < 2 ^ 64 then Some (word_of_nat (unat x)) else None)"
proof (cases "unat x < 2 ^ 64")
  case True
  then have "unat (word_of_nat (unat x) :: u64) = unat x" by (intro unat_word_of_nat) simp
  then have "narrow x = Some (word_of_nat (unat x))" by (simp only: narrow_Some)
  then show ?thesis using True by simp
qed simp

text \<open>
  Both functions have the shape: two effective totals, a product, a quotient, then the pro-rata
  quotient where it is defined. \<open>sel\<close> is \<open>max\<close> or \<open>min\<close>.
\<close>

definition quoted :: "(u128 \<Rightarrow> u128 \<Rightarrow> u128) \<Rightarrow> u64 \<Rightarrow> u64 \<Rightarrow> u64 \<Rightarrow> u128 \<Rightarrow> u64 result" where
  "quoted sel num den amount offset =
     bindR (ok_or (checked_add (widen num) offset) (VaultErr MathError)) (\<lambda>num_eff.
     bindR (ok_or (checked_add (widen den) offset) (VaultErr MathError)) (\<lambda>den_eff.
     bindR (ok_or (checked_mul (widen amount) num_eff) (VaultErr MathError)) (\<lambda>product.
     bindR (ok_or (checked_div product den_eff) (VaultErr MathError)) (\<lambda>with_offsets.
     bindR (if den = 0 then Inr with_offsets
            else bindR (ok_or (checked_mul (widen amount) (widen num)) (VaultErr MathError))
                   (\<lambda>p. bindR (ok_or (checked_div p (widen den)) (VaultErr MathError))
                      (\<lambda>pro_rata. Inr (sel with_offsets pro_rata))))
       (\<lambda>r. ok_or (narrow r) (VaultErr NumberOverflow))))))"

lemma quoted_defined:
  assumes sel: "\<And>a b. unat (sel a b) = sel' (unat a) (unat b)"
    and ne: "checked_add (widen N) off = Some ne" "unat ne = unat N + unat off"
    and de: "checked_add (widen D) off = Some de" "unat de = unat D + unat off"
    and pr: "checked_mul (widen x) ne = Some pr" "unat pr = unat x * (unat N + unat off)"
    and nz: "unat D + unat off \<noteq> 0"
  shows "quoted sel N D x off =
     (let wo = unat x * (unat N + unat off) div (unat D + unat off);
          q = (if D = 0 then wo else sel' wo (unat x * unat N div unat D))
      in if 2 ^ 64 \<le> q then Inl (VaultErr NumberOverflow) else Inr (word_of_nat q))"
proof -
  obtain wo where wo: "checked_div pr de = Some wo" and uwo: "unat wo = unat pr div unat de"
    using nz de(2) by (metis checked_div_fits)
  have "unat (widen x) * unat (widen N) < 2 ^ LENGTH(128)" by simp
  then obtain p where p: "checked_mul (widen x) (widen N) = Some p"
    and up': "unat p = unat (widen x) * unat (widen N)"
    by (rule checked_mul_fits)
  have up: "unat p = unat x * unat N" by (simp add: up')
  note steps = quoted_def ne(1) de(1) pr(1) wo p ok_or_simps bindR_simps narrow_eq
  show ?thesis
  proof (cases "D = 0")
    case True
    have "quoted sel N D x off =
        ok_or (if unat wo < 2 ^ 64 then Some (word_of_nat (unat wo)) else None) (VaultErr NumberOverflow)"
      unfolding steps by (simp only: True refl if_True bindR_simps)
    then show ?thesis using True by (auto simp: Let_def uwo de(2) pr(2))
  next
    case D: False
    then have "unat (widen D) \<noteq> 0" by (simp add: unat_eq_zero)
    then obtain pq where pq: "checked_div p (widen D) = Some pq"
      and upq': "unat pq = unat p div unat (widen D)"
      by (rule checked_div_fits)
    have upq: "unat pq = unat x * unat N div unat D" by (simp add: upq' up)
    have "quoted sel N D x off =
        ok_or (if unat (sel wo pq) < 2 ^ 64 then Some (word_of_nat (unat (sel wo pq))) else None)
          (VaultErr NumberOverflow)"
      unfolding steps pq by (simp only: D if_False bindR_simps)
    then show ?thesis using D by (auto simp: Let_def sel uwo upq de(2) pr(2))
  qed
qed

lemma quoted_eq:
  assumes sel: "\<And>a b. unat (sel a b) = sel' (unat a) (unat b)"
  shows "quoted sel N D x off =
     (if 2 ^ 128 \<le> unat N + unat off \<or> 2 ^ 128 \<le> unat D + unat off \<or>
         2 ^ 128 \<le> unat x * (unat N + unat off) \<or> unat D + unat off = 0
      then Inl (VaultErr MathError)
      else let wo = unat x * (unat N + unat off) div (unat D + unat off);
               q = (if D = 0 then wo else sel' wo (unat x * unat N div unat D))
           in if 2 ^ 64 \<le> q then Inl (VaultErr NumberOverflow) else Inr (word_of_nat q))"
proof (cases "2 ^ 128 \<le> unat N + unat off \<or> 2 ^ 128 \<le> unat D + unat off")
  case True
  then consider "checked_add (widen N) off = None" | "checked_add (widen D) off = None" by auto
  then have "quoted sel N D x off = Inl (VaultErr MathError)"
  proof cases
    case 1
    show ?thesis unfolding quoted_def 1 by simp
  next
    case 2
    show ?thesis unfolding quoted_def 2 by (cases "checked_add (widen N) off") (simp_all only: ok_or_simps bindR_simps)
  qed
  then show ?thesis using True by auto
next
  case fits: False
  have "unat (widen N) + unat off < 2 ^ LENGTH(128)" using fits by simp
  then obtain ne where ne: "checked_add (widen N) off = Some ne"
    and une': "unat ne = unat (widen N) + unat off"
    by (rule checked_add_fits)
  have une: "unat ne = unat N + unat off" by (simp add: une')
  have "unat (widen D) + unat off < 2 ^ LENGTH(128)" using fits by simp
  then obtain de where de: "checked_add (widen D) off = Some de"
    and ude': "unat de = unat (widen D) + unat off"
    by (rule checked_add_fits)
  have ude: "unat de = unat D + unat off" by (simp add: ude')
  show ?thesis
  proof (cases "2 ^ 128 \<le> unat x * (unat N + unat off)")
    case True
    then have "2 ^ 128 \<le> unat (widen x) * unat ne" by (simp add: une)
    then show ?thesis using True by (simp add: quoted_def ne de ok_or_None)
  next
    case prod: False
    then have "unat (widen x) * unat ne < 2 ^ LENGTH(128)" by (simp add: une)
    then obtain pr where pr: "checked_mul (widen x) ne = Some pr"
      and upr': "unat pr = unat (widen x) * unat ne"
      by (rule checked_mul_fits)
    have upr: "unat pr = unat x * (unat N + unat off)" by (simp add: upr' une)
    show ?thesis
    proof (cases "unat D + unat off = 0")
      case True
      then have div: "checked_div pr de = None" using ude by simp
      have "quoted sel N D x off = Inl (VaultErr MathError)"
        by (simp only: quoted_def ne de pr div ok_or_simps bindR_simps)
      then show ?thesis using True by simp
    next
      case False
      then show ?thesis
        using fits prod
        by (simp only: quoted_defined [of sel sel' N off ne D de x pr, OF sel ne une de ude pr upr False] simp_thms if_False)
    qed
  qed
qed

lemma bindR_swap:
  "bindR (ok_or m e) (\<lambda>a. bindR (ok_or n e) (f a)) =
   bindR (ok_or n e) (\<lambda>b. bindR (ok_or m e) (\<lambda>a. f a b))"
  by (cases m; cases n) simp_all

lemma shares_for_deposit_with_offset_quoted:
  "shares_for_deposit_with_offset S T x off =
     require (0 < T \<or> S = 0) (VaultErr SharePriceUndefined) (quoted max S T x off)"
  by (simp add: shares_for_deposit_with_offset_def quoted_def)

lemma assets_for_redeem_with_offset_quoted:
  "assets_for_redeem_with_offset S T s off =
     require (0 < T \<or> S = 0) (VaultErr SharePriceUndefined) (quoted min T S s off)"
  unfolding assets_for_redeem_with_offset_def quoted_def
  by (subst bindR_swap) (rule refl)

text \<open>What both functions return, on every branch.\<close>

lemma shares_for_deposit_with_offset_eq:
  "shares_for_deposit_with_offset S T x off =
     (if T = 0 \<and> S \<noteq> 0 then Inl (VaultErr SharePriceUndefined)
      else if 2 ^ 128 \<le> unat S + unat off \<or> 2 ^ 128 \<le> unat T + unat off \<or>
              2 ^ 128 \<le> unat x * (unat S + unat off) \<or> unat T + unat off = 0
      then Inl (VaultErr MathError)
      else let q = deposit_quote (unat S) (unat T) (unat x) (unat off)
           in if 2 ^ 64 \<le> q then Inl (VaultErr NumberOverflow) else Inr (word_of_nat q))"
  unfolding shares_for_deposit_with_offset_quoted quoted_eq [where sel = max, OF unat_max]
  by (auto simp: deposit_quote_def Let_def word_gt_0 unat_eq_zero)

lemma assets_for_redeem_with_offset_eq:
  "assets_for_redeem_with_offset S T s off =
     (if T = 0 \<and> S \<noteq> 0 then Inl (VaultErr SharePriceUndefined)
      else if 2 ^ 128 \<le> unat S + unat off \<or> 2 ^ 128 \<le> unat T + unat off \<or>
              2 ^ 128 \<le> unat s * (unat T + unat off) \<or> unat S + unat off = 0
      then Inl (VaultErr MathError)
      else let q = redeem_quote (unat S) (unat T) (unat s) (unat off)
           in if 2 ^ 64 \<le> q then Inl (VaultErr NumberOverflow) else Inr (word_of_nat q))"
  unfolding assets_for_redeem_with_offset_quoted quoted_eq [where sel = min, OF unat_min]
  by (auto simp: redeem_quote_def Let_def word_gt_0 unat_eq_zero)

lemma deposit_Inr:
  assumes "shares_for_deposit_with_offset S T x off = Inr m"
  shows "T \<noteq> 0 \<or> S = 0" and "unat T + unat off \<noteq> 0"
    and "unat m = deposit_quote (unat S) (unat T) (unat x) (unat off)"
  using assms unfolding shares_for_deposit_with_offset_eq
  by (auto simp: Let_def unat_word_of_nat split: if_splits)

lemma redeem_Inr:
  assumes "assets_for_redeem_with_offset S T s off = Inr a"
  shows "T \<noteq> 0 \<or> S = 0" and "unat S + unat off \<noteq> 0"
    and "unat a = redeem_quote (unat S) (unat T) (unat s) (unat off)"
  using assms unfolding assets_for_redeem_with_offset_eq
  by (auto simp: Let_def unat_word_of_nat split: if_splits)

section \<open>What a position is worth\<close>

text \<open>
  \<open>k\<close> shares are worth \<open>b\<close> at supply \<open>S\<close> and total assets \<open>T\<close> when \<open>b\<close> fits under both quotients
  of a redemption. The three changes of \<open>S\<close> and \<open>T\<close> a vault goes through keep that.
\<close>

definition worth :: "nat \<Rightarrow> nat \<Rightarrow> nat \<Rightarrow> nat \<Rightarrow> nat \<Rightarrow> bool" where
  "worth off S T k b \<longleftrightarrow> b * (S + off) \<le> k * (T + off) \<and> (S \<noteq> 0 \<longrightarrow> b * S \<le> k * T)"

lemma rest_keeps_share:
  fixes A B a b s k :: nat
  assumes "b * A \<le> k * B" and "a * A \<le> s * B" and "s \<le> A" and "A \<noteq> 0"
  shows "b * (A - s) \<le> k * (B - a)"
proof -
  have "a * A \<le> B * A" using assms(2,3) by (metis le_trans mult.commute mult_le_mono1)
  then have aB: "a \<le> B" using assms(4) by simp
  have "b * (A - s) * A = (b * A) * (A - s)" by (simp add: ac_simps)
  also have "\<dots> \<le> k * B * (A - s)" by (intro mult_le_mono1 assms(1))
  also have "\<dots> = k * (B * A - s * B)" by (simp add: algebra_simps diff_mult_distrib2)
  also have "\<dots> \<le> k * (B * A - a * A)" using assms(2) by (intro mult_le_mono2) simp
  also have "\<dots> = k * (B - a) * A" by (simp add: diff_mult_distrib)
  finally show ?thesis using assms(4) by simp
qed

text \<open>A mint of \<open>m\<close> shares for \<open>x\<close>, at one of the two rates, rounded down.\<close>

lemma worth_minted:
  assumes w: "worth off S T k b"
    and m: "m * (T + off) \<le> x * (S + off) \<or> T \<noteq> 0 \<and> m * T \<le> x * S"
    and "T + off \<noteq> 0" and "S + off \<noteq> 0" and "k \<le> S"
  shows "worth off (S + m) (T + x) k b"
proof (cases "S = 0")
  case True
  then show ?thesis using assms(4,5) w by (simp add: worth_def)
next
  case False
  then have bo: "b * (S + off) \<le> k * (T + off)" and bp: "b * S \<le> k * T"
    using w by (simp_all add: worth_def)
  have "b * m \<le> k * x"
    using m
  proof
    assume *: "m * (T + off) \<le> x * (S + off)"
    have "b * m * (T + off) \<le> b * x * (S + off)"
      using mult_le_mono2 [OF *, of b] by (simp add: ac_simps)
    also have "\<dots> \<le> k * x * (T + off)"
      using mult_le_mono2 [OF bo, of x] by (simp add: ac_simps)
    finally show ?thesis using assms(3) by (simp only: mult_le_cancel2)
  next
    assume *: "T \<noteq> 0 \<and> m * T \<le> x * S"
    have "b * m * T \<le> b * x * S"
      using mult_le_mono2 [OF conjunct2 [OF *], of b] by (simp add: ac_simps)
    also have "\<dots> \<le> k * x * T"
      using mult_le_mono2 [OF bp, of x] by (simp add: ac_simps)
    finally show ?thesis using * by simp
  qed
  then show ?thesis using bo bp by (simp add: worth_def algebra_simps)
qed

text \<open>A redemption of \<open>s\<close> shares that pays \<open>a\<close>, no more than they are worth.\<close>

lemma worth_rest:
  assumes "worth off S T k b" and "worth off S T s a" and "s \<le> S" and "S + off \<noteq> 0"
  shows "worth off (S - s) (T - a) k b"
proof (cases "S = 0")
  case True
  then have "a = 0 \<and> s = 0" using assms(2-4) by (simp add: worth_def)
  then show ?thesis using assms(1) by simp
next
  case False
  have "a * S \<le> s * T" using assms(2) False by (simp add: worth_def)
  also have "\<dots> \<le> T * S" using assms(3) by (simp add: mult.commute)
  finally have "a \<le> T" using False by simp
  moreover have "b * (S + off - s) \<le> k * (T + off - a)"
    using assms by (intro rest_keeps_share [of b "S + off" k "T + off"]) (simp_all add: worth_def)
  moreover have "b * (S - s) \<le> k * (T - a)"
    using assms False by (intro rest_keeps_share [of b S k T]) (simp_all add: worth_def)
  ultimately show ?thesis using assms(3) by (simp add: worth_def)
qed

text \<open>A rise of the total, or shares burned for nothing.\<close>

lemma worth_mono:
  assumes "worth off S T k b" and "S' \<le> S" and "T \<le> T'"
  shows "worth off S' T' k b"
proof -
  have "b * (S' + off) \<le> b * (S + off)" and "k * (T + off) \<le> k * (T' + off)"
    using assms(2,3) by simp_all
  moreover have "b * S' \<le> b * S" and "k * T \<le> k * T'" using assms(2,3) by simp_all
  ultimately show ?thesis using assms unfolding worth_def by (meson le_trans le_zero_eq)
qed

section \<open>The contract of a pair of pricing functions\<close>

text \<open>
  \<open>shares_for S T x\<close> prices a deposit of \<open>x\<close> and \<open>assets_for S T s\<close> a redemption of \<open>s\<close>, at supply
  \<open>S\<close> and total assets \<open>T\<close>. The laws say between which exact fractions the two results lie: a deposit
  mints at most one of the two quotients and more than each of them less one, a redemption pays at
  most both and more than one of them less one.
\<close>

locale share_pricing =
  fixes shares_for :: "u64 \<Rightarrow> u64 \<Rightarrow> u64 \<Rightarrow> u64 result"
    and assets_for :: "u64 \<Rightarrow> u64 \<Rightarrow> u64 \<Rightarrow> u64 result"
    and off :: nat
  assumes deposit_defined:
      "shares_for S T x = Inr m \<Longrightarrow> unat T + off \<noteq> 0 \<and> (unat T \<noteq> 0 \<or> unat S = 0)"
    and deposit_rounds_down:
      "shares_for S T x = Inr m \<Longrightarrow>
         unat m * (unat T + off) \<le> unat x * (unat S + off) \<or>
         unat T \<noteq> 0 \<and> unat m * unat T \<le> unat x * unat S"
    and deposit_at_least:
      "shares_for S T x = Inr m \<Longrightarrow>
         unat x * (unat S + off) < (unat m + 1) * (unat T + off) \<and>
         (unat T \<noteq> 0 \<longrightarrow> unat x * unat S < (unat m + 1) * unat T)"
    and redeem_defined:
      "assets_for S T s = Inr a \<Longrightarrow> unat S + off \<noteq> 0 \<and> (unat T \<noteq> 0 \<or> unat S = 0)"
    and redeem_rounds_down:
      "assets_for S T s = Inr a \<Longrightarrow>
         unat a * (unat S + off) \<le> unat s * (unat T + off) \<and>
         unat a * unat S \<le> unat s * unat T \<or> unat S = 0 \<and>
         unat a * (unat S + off) \<le> unat s * (unat T + off)"
    and redeem_at_least:
      "assets_for S T s = Inr a \<Longrightarrow>
         unat s * (unat T + off) < (unat a + 1) * (unat S + off) \<or>
         unat S \<noteq> 0 \<and> unat s * unat T < (unat a + 1) * unat S"
begin

lemma redeem_bounds:
  assumes "assets_for S T s = Inr a"
  shows "unat a * (unat S + off) \<le> unat s * (unat T + off)"
    and "unat S \<noteq> 0 \<Longrightarrow> unat a * unat S \<le> unat s * unat T"
  using redeem_rounds_down [OF assms] by auto

text \<open>A redemption that some \<open>b\<close> fits under both quotients pays at least \<open>b\<close>.\<close>

lemma redeem_ge:
  assumes "assets_for S T s = Inr a"
    and "b * (unat S + off) \<le> unat s * (unat T + off)"
    and "unat S \<noteq> 0 \<Longrightarrow> b * unat S \<le> unat s * unat T"
  shows "b \<le> unat a"
proof -
  have "b * (unat S + off) < (unat a + 1) * (unat S + off) \<or> b * unat S < (unat a + 1) * unat S"
    using redeem_at_least [OF assms(1)] assms(2,3) by linarith
  then have "b < unat a + 1" by (metis mult_less_cancel2)
  then show ?thesis by simp
qed

lemma deposit_le:
  assumes "shares_for S T x = Inr m"
    and "unat x * (unat S + off) \<le> k * (unat T + off)"
    and "unat T \<noteq> 0 \<Longrightarrow> unat x * unat S \<le> k * unat T"
  shows "unat m \<le> k"
proof -
  have "unat T + off \<noteq> 0" using deposit_defined [OF assms(1)] by simp
  moreover have "unat m * (unat T + off) \<le> k * (unat T + off) \<or>
      unat T \<noteq> 0 \<and> unat m * unat T \<le> k * unat T"
    using deposit_rounds_down [OF assms(1)] assms(2,3) by (meson le_trans)
  ultimately show ?thesis by (auto simp: mult_le_cancel2)
qed

lemma solvent:
  assumes "assets_for S T s = Inr a" and "unat s \<le> unat S" and "unat S \<noteq> 0"
  shows "unat a \<le> unat T"
proof -
  have "unat a * unat S \<le> unat S * unat T"
    using redeem_bounds(2) [OF assms(1,3)] assms(2) by (meson le_trans mult_le_mono1)
  then show ?thesis using assms(3) by (simp add: mult.commute)
qed

text \<open>Depositing and redeeming what was minted never pays more than was put in.\<close>

lemma deposit_then_redeem:
  assumes d: "shares_for S T x = Inr m" and r: "assets_for S' T' m = Inr a"
    and S': "unat S' = unat S + unat m" and T': "unat T' = unat T + unat x"
  shows "unat a \<le> unat x"
proof (cases "unat m = 0")
  case True
  then show ?thesis
    using redeem_bounds(1) [OF r] redeem_defined [OF r] by (auto simp: mult_le_cancel2)
next
  case False
  from deposit_rounds_down [OF d] show ?thesis
  proof
    assume *: "unat m * (unat T + off) \<le> unat x * (unat S + off)"
    have "unat a * (unat S' + off) \<le> unat m * (unat T + off) + unat m * unat x"
      using redeem_bounds(1) [OF r] by (simp add: T' algebra_simps)
    also have "\<dots> \<le> unat x * (unat S' + off)"
      using * by (simp add: S' algebra_simps)
    finally show ?thesis using False by (simp add: S')
  next
    assume *: "unat T \<noteq> 0 \<and> unat m * unat T \<le> unat x * unat S"
    have "unat a * unat S' \<le> unat m * unat T + unat m * unat x"
      using redeem_bounds(2) [OF r] False by (simp add: S' T' algebra_simps)
    also have "\<dots> \<le> unat x * unat S'"
      using * by (simp add: S' algebra_simps)
    finally show ?thesis using False by (simp add: S')
  qed
qed

text \<open>Nor does redeeming and depositing the proceeds win shares.\<close>

lemma redeem_then_deposit:
  assumes r: "assets_for S T s = Inr a" and d: "shares_for S' T' a = Inr m"
    and S': "unat S = unat S' + unat s" and T': "unat T = unat T' + unat a"
  shows "unat m \<le> unat s"
proof (rule deposit_le [OF d])
  show "unat a * (unat S' + off) \<le> unat s * (unat T' + off)"
    using redeem_bounds(1) [OF r] by (simp add: S' T' algebra_simps)
  show "unat a * unat S' \<le> unat s * unat T'"
  proof (cases "unat S = 0")
    case True
    then show ?thesis using S' by simp
  next
    case False
    show ?thesis using redeem_bounds(2) [OF r False] by (simp add: S' T' algebra_simps)
  qed
qed

text \<open>
  A redemption pays what the shares are worth. So a deposit leaves every position \<open>k\<close> worth what it
  was, or more, and so do a redemption by someone else and a rise of the total.
\<close>

lemma redeem_worth: "assets_for S T s = Inr a \<Longrightarrow> worth off (unat S) (unat T) (unat s) (unat a)"
  using redeem_bounds by (auto simp: worth_def)

lemma redeem_covers:
  "assets_for S T s = Inr a \<Longrightarrow> worth off (unat S) (unat T) (unat s) b \<Longrightarrow> b \<le> unat a"
  by (rule redeem_ge) (auto simp: worth_def)

lemma deposit_keeps_worth:
  assumes "shares_for S T x = Inr m" and "worth off (unat S) (unat T) k b"
    and "unat S + off \<noteq> 0" and "k \<le> unat S"
  shows "worth off (unat S + unat m) (unat T + unat x) k b"
  using deposit_rounds_down [OF assms(1)] deposit_defined [OF assms(1)] assms(2-4)
  by (intro worth_minted) auto

lemma redeem_keeps_worth:
  assumes "assets_for S T s = Inr a" and "worth off (unat S) (unat T) k b" and "unat s \<le> unat S"
  shows "worth off (unat S - unat s) (unat T - unat a) k b"
  using redeem_worth [OF assms(1)] redeem_defined [OF assms(1)] assms(2,3)
  by (intro worth_rest) auto

lemma deposit_keeps_value:
  assumes "shares_for S T x = Inr m" and "assets_for S T k = Inr b" and "assets_for S' T' k = Inr b'"
    and "unat S' = unat S + unat m" and "unat T' = unat T + unat x" and "unat k \<le> unat S"
  shows "unat b \<le> unat b'"
  using deposit_keeps_worth [OF assms(1) redeem_worth [OF assms(2)] _ assms(6)]
    redeem_defined [OF assms(2)] assms(4,5)
  by (intro redeem_covers [OF assms(3)]) simp

lemma redeem_keeps_value:
  assumes "assets_for S T s = Inr a" and "assets_for S T k = Inr b" and "assets_for S' T' k = Inr b'"
    and "unat S = unat S' + unat s" and "unat T = unat T' + unat a"
  shows "unat b \<le> unat b'"
  using redeem_keeps_worth [OF assms(1) redeem_worth [OF assms(2)]] assms(4,5)
  by (intro redeem_covers [OF assms(3)]) simp

lemma gain_keeps_value:
  assumes "assets_for S T k = Inr b" and "assets_for S T' k = Inr b'" and "unat T \<le> unat T'"
  shows "unat b \<le> unat b'"
  by (rule redeem_covers [OF assms(2) worth_mono [OF redeem_worth [OF assms(1)] _ assms(3)]]) simp

text \<open>
  What a depositor loses to rounding: redeeming at once what the deposit minted falls short of it
  by less than one unit and one share's price.
\<close>

lemma deposit_loss:
  assumes d: "shares_for S T x = Inr m" and r: "assets_for S' T' m = Inr a"
    and S': "unat S' = unat S + unat m" and T': "unat T' = unat T + unat x"
  shows "unat x * (unat S' + off) < (unat a + 1) * (unat S' + off) + (unat T + off) \<or>
         unat T \<noteq> 0 \<and> unat x * unat S' < (unat a + 1) * unat S' + unat T \<or>
         unat T = 0 \<and> unat x \<le> unat a"
proof -
  note paid = deposit_at_least [OF d]
  from redeem_at_least [OF r] show ?thesis
  proof
    assume *: "unat m * (unat T' + off) < (unat a + 1) * (unat S' + off)"
    have "unat x * (unat S' + off) = unat x * (unat S + off) + unat x * unat m"
      by (simp add: S' algebra_simps)
    also have "\<dots> < (unat m + 1) * (unat T + off) + unat x * unat m"
      using paid by simp
    also have "\<dots> = unat m * (unat T' + off) + (unat T + off)"
      by (simp add: T' algebra_simps)
    finally show ?thesis using * by linarith
  next
    assume *: "unat S' \<noteq> 0 \<and> unat m * unat T' < (unat a + 1) * unat S'"
    show ?thesis
    proof (cases "unat T = 0")
      case True
      then have S0: "unat S = 0" using deposit_defined [OF d] by simp
      then have "unat m * unat x < (unat a + 1) * unat m" using * True by (simp add: S' T')
      then have "unat x * unat m < (unat a + 1) * unat m" by (simp only: mult.commute)
      then have "unat x < unat a + 1" by (rule mult_less_cancel2 [THEN iffD1, THEN conjunct2])
      then show ?thesis using True by simp
    next
      case False
      have "unat x * unat S' = unat x * unat S + unat x * unat m"
        by (simp add: S' algebra_simps)
      also have "\<dots> < (unat m + 1) * unat T + unat x * unat m" using paid False by simp
      also have "\<dots> = unat m * unat T' + unat T" by (simp add: T' algebra_simps)
      finally show ?thesis using * False by linarith
    qed
  qed
qed

lemma deposit_mono:
  assumes "shares_for S T x = Inr m" and "shares_for S T x' = Inr m'" and "unat x \<le> unat x'"
  shows "unat m \<le> unat m'"
proof -
  have "unat m < unat m' + 1"
    using deposit_rounds_down [OF assms(1)]
  proof
    assume "unat m * (unat T + off) \<le> unat x * (unat S + off)"
    also have "\<dots> \<le> unat x' * (unat S + off)" by (intro mult_le_mono1 assms(3))
    also have "\<dots> < (unat m' + 1) * (unat T + off)" using deposit_at_least [OF assms(2)] by blast
    finally show ?thesis by (rule mult_less_cancel2 [THEN iffD1, THEN conjunct2])
  next
    assume *: "unat T \<noteq> 0 \<and> unat m * unat T \<le> unat x * unat S"
    then have "unat m * unat T \<le> unat x' * unat S" using assms(3) by (meson le_trans mult_le_mono1)
    also have "\<dots> < (unat m' + 1) * unat T" using deposit_at_least [OF assms(2)] * by blast
    finally show ?thesis by (rule mult_less_cancel2 [THEN iffD1, THEN conjunct2])
  qed
  then show ?thesis by simp
qed

lemma redeem_mono:
  assumes "assets_for S T s = Inr a" and "assets_for S T s' = Inr a'" and "unat s \<le> unat s'"
  shows "unat a \<le> unat a'"
proof (rule redeem_ge [OF assms(2)])
  show "unat a * (unat S + off) \<le> unat s' * (unat T + off)"
    using redeem_bounds(1) [OF assms(1)] assms(3) by (meson le_trans mult_le_mono1)
  show "unat a * unat S \<le> unat s' * unat T" if "unat S \<noteq> 0"
    using redeem_bounds(2) [OF assms(1) that] assms(3) by (meson le_trans mult_le_mono1)
qed

end

section \<open>The code's pair keeps the contract\<close>

lemma div_bounds:
  fixes p d :: nat
  assumes "d \<noteq> 0"
  shows "p div d * d \<le> p" and "p < (p div d + 1) * d"
  using assms by (simp, metis Suc_eq_plus1 dividend_less_div_times mult_Suc neq0_conv)

lemma deposit_quote_bounds:
  assumes "T + off \<noteq> 0"
  shows "deposit_quote S T x off * (T + off) \<le> x * (S + off) \<or>
         T \<noteq> 0 \<and> deposit_quote S T x off * T \<le> x * S"
    and "x * (S + off) < (deposit_quote S T x off + 1) * (T + off)"
    and "T \<noteq> 0 \<Longrightarrow> x * S < (deposit_quote S T x off + 1) * T"
proof -
  let ?m = "deposit_quote S T x off"
  let ?w = "x * (S + off) div (T + off)" and ?p = "x * S div T"
  have m: "?m = ?w \<or> T \<noteq> 0 \<and> ?m = ?p" and ge: "?w \<le> ?m" "T \<noteq> 0 \<Longrightarrow> ?p \<le> ?m"
    by (auto simp: deposit_quote_def max_def)
  show "?m * (T + off) \<le> x * (S + off) \<or> T \<noteq> 0 \<and> ?m * T \<le> x * S"
    using m div_bounds(1) [OF assms, of "x * (S + off)"] div_bounds(1) [of T "x * S"] by metis
  show "x * (S + off) < (?m + 1) * (T + off)"
    using div_bounds(2) [OF assms, of "x * (S + off)"] ge(1)
    by (meson add_le_mono1 less_le_trans mult_le_mono1)
  show "x * S < (?m + 1) * T" if "T \<noteq> 0"
    using div_bounds(2) [OF that, of "x * S"] ge(2) [OF that]
    by (meson add_le_mono1 less_le_trans mult_le_mono1)
qed

lemma redeem_quote_bounds:
  assumes "S + off \<noteq> 0"
  shows "redeem_quote S T s off * (S + off) \<le> s * (T + off)"
    and "S \<noteq> 0 \<Longrightarrow> redeem_quote S T s off * S \<le> s * T"
    and "s * (T + off) < (redeem_quote S T s off + 1) * (S + off) \<or>
         S \<noteq> 0 \<and> s * T < (redeem_quote S T s off + 1) * S"
proof -
  let ?a = "redeem_quote S T s off"
  let ?w = "s * (T + off) div (S + off)" and ?p = "s * T div S"
  have a: "?a = ?w \<or> S \<noteq> 0 \<and> ?a = ?p" and le: "?a \<le> ?w" "S \<noteq> 0 \<Longrightarrow> ?a \<le> ?p"
    by (auto simp: redeem_quote_def Let_def min_def)
  show "?a * (S + off) \<le> s * (T + off)"
    using div_bounds(1) [OF assms, of "s * (T + off)"] le(1) by (meson le_trans mult_le_mono1)
  show "?a * S \<le> s * T" if "S \<noteq> 0"
    using div_bounds(1) [OF that, of "s * T"] le(2) [OF that] by (meson le_trans mult_le_mono1)
  show "s * (T + off) < (?a + 1) * (S + off) \<or> S \<noteq> 0 \<and> s * T < (?a + 1) * S"
    using a div_bounds(2) [OF assms, of "s * (T + off)"] div_bounds(2) [of S "s * T"] by metis
qed

interpretation with_offset: share_pricing
    "\<lambda>S T x. shares_for_deposit_with_offset S T x offset"
    "\<lambda>S T s. assets_for_redeem_with_offset S T s offset" "unat offset"
  for offset
proof (unfold_locales, goal_cases)
  case 1 then show ?case by (auto dest: deposit_Inr)
next
  case (2 S T x m)
  note d = deposit_Inr [OF 2]
  show ?case unfolding d(3) by (rule deposit_quote_bounds(1) [OF d(2)])
next
  case (3 S T x m)
  note d = deposit_Inr [OF 3]
  show ?case unfolding d(3) using deposit_quote_bounds(2,3) [OF d(2)] by blast
next
  case 4 then show ?case by (auto dest: redeem_Inr)
next
  case (5 S T s a)
  note r = redeem_Inr [OF 5]
  show ?case unfolding r(3) using redeem_quote_bounds(1,2) [OF r(2)] by blast
next
  case (6 S T s a)
  note r = redeem_Inr [OF 6]
  show ?case unfolding r(3) by (rule redeem_quote_bounds(3) [OF r(2)])
qed

text \<open>A vault prices at its own offset, which is never zero and fits a \<open>u64\<close>.\<close>

lemma widen_eq_0 [simp]: "widen x = 0 \<longleftrightarrow> x = 0"
  by (metis unat_widen unat_eq_zero)

lemma share_offset_range: "0 < unat (share_offset v)" "unat (share_offset v) < 2 ^ 64"
  by (auto simp: share_offset_def vault_constants)

interpretation vault_pricing: share_pricing
    "shares_for_deposit v" "assets_for_redeem v" "unat (share_offset v)"
  for v
  unfolding shares_for_deposit_def [abs_def] assets_for_redeem_def [abs_def]
  by (fact with_offset.share_pricing_axioms)

lemma offset_fits: "unat (S :: u64) + unat (share_offset v) < 2 ^ 128"
proof -
  have "unat S + unat (share_offset v) < 2 ^ 64 + 2 ^ 64"
    by (intro add_strict_mono share_offset_range) simp
  then show ?thesis by simp
qed

section \<open>What follows for a vault\<close>

text \<open>
  C33. \<open>shares_for_deposit\<close> on every input: no price without assets, an overflow of the 128-bit
  product, a mint that does not fit \<open>u64\<close>, and otherwise exactly the larger of the two rounded-down
  quotients.
\<close>

theorem shares_for_deposit_exact:
  "shares_for_deposit v S T x =
     (let off = unat (share_offset v); q = deposit_quote (unat S) (unat T) (unat x) off in
      if T = 0 \<and> S \<noteq> 0 then Inl (VaultErr SharePriceUndefined)
      else if 2 ^ 128 \<le> unat x * (unat S + off) then Inl (VaultErr MathError)
      else if 2 ^ 64 \<le> q then Inl (VaultErr NumberOverflow) else Inr (word_of_nat q))"
proof -
  show ?thesis
    using share_offset_range(1) [of v] offset_fits [of S v] offset_fits [of T v]
    by (simp add: not_le shares_for_deposit_def shares_for_deposit_with_offset_eq Let_def)
qed

text \<open>
  C34. \<open>assets_for_redeem\<close> on every input: the same errors, and otherwise exactly the smaller of the
  two rounded-down quotients.
\<close>

theorem assets_for_redeem_exact:
  "assets_for_redeem v S T s =
     (let off = unat (share_offset v); q = redeem_quote (unat S) (unat T) (unat s) off in
      if T = 0 \<and> S \<noteq> 0 then Inl (VaultErr SharePriceUndefined)
      else if 2 ^ 128 \<le> unat s * (unat T + off) then Inl (VaultErr MathError)
      else if 2 ^ 64 \<le> q then Inl (VaultErr NumberOverflow) else Inr (word_of_nat q))"
proof -
  show ?thesis
    using share_offset_range(1) [of v] offset_fits [of S v] offset_fits [of T v]
    by (simp add: not_le assets_for_redeem_def assets_for_redeem_with_offset_eq Let_def)
qed

text \<open>
  C6. No value from a round trip: redeeming at once the shares a deposit minted, at the supply and
  total the deposit left, pays no more than was deposited.
\<close>

theorem deposit_redeem_no_gain:
  assumes "shares_for_deposit v S T x = Inr m" and "assets_for_redeem v S' T' m = Inr a"
    and "unat S' = unat S + unat m" and "unat T' = unat T + unat x"
  shows "a \<le> x"
  using vault_pricing.deposit_then_redeem [OF assms] by (simp add: word_le_nat_alt)

theorem deposit_redeem_no_gain_witness:
  "shares_for_deposit zero_vault 3000000 4000000 999 = Inr 799 \<and>
   assets_for_redeem zero_vault 3000799 4000999 799 = Inr 998 \<and> (998 :: u64) \<le> 999"
proof -
  have d: "shares_for_deposit zero_vault 3000000 4000000 999 = Inr 799"
    and r: "assets_for_redeem zero_vault 3000799 4000999 799 = Inr 998"
    by code_simp+
  then show ?thesis using deposit_redeem_no_gain [OF d r] by simp
qed

text \<open>
  Nor from the opposite one: depositing at once what a redemption paid mints no more shares than
  it burned.
\<close>

theorem redeem_deposit_no_gain:
  assumes "assets_for_redeem v S T s = Inr a" and "shares_for_deposit v S' T' a = Inr m"
    and "unat S = unat S' + unat s" and "unat T = unat T' + unat a"
  shows "m \<le> s"
  using vault_pricing.redeem_then_deposit [OF assms] by (simp add: word_le_nat_alt)

theorem redeem_deposit_no_gain_witness:
  "assets_for_redeem zero_vault 3000000 4000000 799 = Inr 998 \<and>
   shares_for_deposit zero_vault 2999201 3999002 998 = Inr 798 \<and> (798 :: u64) \<le> 799"
proof -
  have r: "assets_for_redeem zero_vault 3000000 4000000 799 = Inr 998"
    and d: "shares_for_deposit zero_vault 2999201 3999002 998 = Inr 798"
    by code_simp+
  then show ?thesis using redeem_deposit_no_gain [OF r d] by simp
qed

text \<open>
  No dilution by a deposit: whatever position a holder has, it redeems for at least as much after
  someone's deposit as before, rounding included.
\<close>

theorem deposit_no_dilution:
  assumes "shares_for_deposit v S T x = Inr m"
    and "assets_for_redeem v S T k = Inr b" and "assets_for_redeem v S' T' k = Inr b'"
    and "unat S' = unat S + unat m" and "unat T' = unat T + unat x" and "k \<le> S"
  shows "b \<le> b'"
  using vault_pricing.deposit_keeps_value [OF assms(1-5)] assms(6) by (simp add: word_le_nat_alt)

theorem deposit_no_dilution_witness:
  "assets_for_redeem zero_vault 3000000 1500000 1000000 = Inr 500000 \<and>
   shares_for_deposit zero_vault 3000000 1500000 7001 = Inr 14002 \<and>
   assets_for_redeem zero_vault 3014002 1507001 1000000 = Inr 500000 \<and> (500000 :: u64) \<le> 500000"
proof -
  have b: "assets_for_redeem zero_vault 3000000 1500000 1000000 = Inr 500000"
    and d: "shares_for_deposit zero_vault 3000000 1500000 7001 = Inr 14002"
    and a: "assets_for_redeem zero_vault 3014002 1507001 1000000 = Inr 500000"
    by code_simp+
  then show ?thesis using deposit_no_dilution [OF d b a] by simp
qed

text \<open>
  No dilution by a redemption: whoever redeems first, what the remaining positions redeem for
  does not fall.
\<close>

theorem redeem_no_dilution:
  assumes "assets_for_redeem v S T s = Inr a"
    and "assets_for_redeem v S T k = Inr b" and "assets_for_redeem v S' T' k = Inr b'"
    and "unat S = unat S' + unat s" and "unat T = unat T' + unat a"
  shows "b \<le> b'"
  using vault_pricing.redeem_keeps_value [OF assms] by (simp add: word_le_nat_alt)

theorem redeem_no_dilution_witness:
  "assets_for_redeem zero_vault 1000000 500000 500000 = Inr 250000 \<and>
   assets_for_redeem zero_vault 500000 250000 500000 = Inr 250000 \<and> (250000 :: u64) \<le> 250000"
proof -
  have r: "assets_for_redeem zero_vault 1000000 500000 500000 = Inr 250000"
    and a: "assets_for_redeem zero_vault 500000 250000 500000 = Inr 250000"
    by code_simp+
  then show ?thesis using redeem_no_dilution [OF r r a] by simp
qed

text \<open>
  Solvency: no position within the supply redeems for more than the assets there are.
\<close>

theorem redeem_within_assets:
  assumes "assets_for_redeem v S T s = Inr a" and "s \<le> S" and "S \<noteq> 0"
  shows "a \<le> T"
  using vault_pricing.solvent [OF assms(1)] assms(2,3) by (simp add: word_le_nat_alt)

theorem redeem_within_assets_witness:
  "assets_for_redeem zero_vault 3000000 1000001 3000000 = Inr 1000001 \<and> (1000001 :: u64) \<le> 1000001"
proof -
  have r: "assets_for_redeem zero_vault 3000000 1000001 3000000 = Inr 1000001" by code_simp
  then show ?thesis using redeem_within_assets [OF r] by simp
qed

text \<open>
  What a depositor loses to rounding: redeeming at once what the deposit minted falls short of
  it by less than one unit and the price of one share, at the offset price or pro rata.
\<close>

theorem deposit_loss_bound:
  assumes "shares_for_deposit v S T x = Inr m" and "assets_for_redeem v S' T' m = Inr a"
    and "unat S' = unat S + unat m" and "unat T' = unat T + unat x"
  shows "unat x * (unat S' + unat (share_offset v)) <
           (unat a + 1) * (unat S' + unat (share_offset v)) + (unat T + unat (share_offset v)) \<or>
         unat T \<noteq> 0 \<and> unat x * unat S' < (unat a + 1) * unat S' + unat T \<or>
         unat T = 0 \<and> unat x \<le> unat a"
  by (rule vault_pricing.deposit_loss [OF assms])

theorem deposit_loss_bound_witness:
  "unat (999 :: u64) * (unat (3000799 :: u64) + unat (share_offset zero_vault)) <
     (unat (998 :: u64) + 1) * (unat (3000799 :: u64) + unat (share_offset zero_vault)) +
     (unat (4000000 :: u64) + unat (share_offset zero_vault)) \<or>
   unat (4000000 :: u64) \<noteq> 0 \<and>
     unat (999 :: u64) * unat (3000799 :: u64) <
       (unat (998 :: u64) + 1) * unat (3000799 :: u64) + unat (4000000 :: u64) \<or>
   unat (4000000 :: u64) = 0 \<and> unat (999 :: u64) \<le> unat (998 :: u64)"
proof -
  have d: "shares_for_deposit zero_vault 3000000 4000000 999 = Inr 799"
    and r: "assets_for_redeem zero_vault 3000799 4000999 799 = Inr 998"
    by code_simp+
  show ?thesis by (rule deposit_loss_bound [OF d r]) simp_all
qed

section \<open>Deposit floors and the offset check\<close>

lemma unat_saturating_pow:
  assumes "1 < LENGTH('a::len)"
  shows "unat (saturating_pow (b :: 'a word) n) = min (2 ^ LENGTH('a) - 1) (unat b ^ n)"
proof (induction n)
  case 0
  have "(2::nat) ^ 1 \<le> 2 ^ LENGTH('a)" using assms by (intro power_increasing) simp_all
  then show ?case by simp
next
  case (Suc n)
  show ?case
  proof (cases "unat b = 0 \<or> unat b ^ n \<le> 2 ^ LENGTH('a) - 1")
    case True
    then show ?thesis using Suc by (auto simp: unat_saturating_mul)
  next
    case False
    then have "2 ^ LENGTH('a) - 1 \<le> unat b ^ n" "1 \<le> unat b"
      by (simp_all add: Suc_le_eq)
    then have "2 ^ LENGTH('a) - 1 \<le> unat b * (2 ^ LENGTH('a) - 1)"
      and "2 ^ LENGTH('a) - 1 \<le> unat b * unat b ^ n"
      by (metis mult_le_mono1 nat_mult_1, metis le_trans mult_le_mono1 nat_mult_1)
    then show ?thesis using Suc False by (simp add: unat_saturating_mul min_absorb1)
  qed
qed

lemma unat_narrow_or_max: "unat (narrow_or_max x) = min (2 ^ 64 - 1) (unat x)"
proof (cases "narrow x")
  case None
  then have "2 ^ 64 \<le> unat x" by simp
  then show ?thesis unfolding narrow_or_max_def None by (simp add: unat_minus_1)
next
  case (Some y)
  then have "unat y = unat x" by simp
  then show ?thesis unfolding narrow_or_max_def Some using unat_u64_bound [of y] by simp
qed

lemma unat_min_opening_supply:
  "unat (min_opening_supply v) = min (2 ^ 64 - 1) (100 * unat (share_offset v))"
  by (simp add: min_opening_supply_def unat_narrow_or_max unat_saturating_mul vault_constants)

text \<open>
  The smallest first deposit, with both floors and the saturation: 10^(decimals-3), or one unit
  up to three decimals, and a hundred times the offset, capped at \<open>u64::MAX\<close>.
\<close>

theorem min_first_deposit_exact:
  "unat (min_first_deposit_for d off) =
     min (2 ^ 64 - 1) (max (if unat d \<le> 3 then 1 else 10 ^ (unat d - 3)) (100 * unat off))"
proof -
  have "unat (if d \<le> 3 then 1 else saturating_pow 10 (unat (saturating_sub d 3)) :: u64) =
      min (2 ^ 64 - 1) (if unat d \<le> 3 then 1 else 10 ^ (unat d - 3))"
    by (simp add: word_le_nat_alt unat_saturating_pow)
  then show ?thesis
    unfolding min_first_deposit_for_def Let_def unat_max
    by (simp add: unat_narrow_or_max unat_saturating_mul vault_constants) (simp add: min_def max_def)
qed

text \<open>
  The loop from any power of ten: it returns, and says whether the offset is a power of ten it
  reaches.
\<close>

lemma power_of_ten_loop_terminates:
  "unat p = 10 ^ i \<Longrightarrow>
     power_of_ten_loop p off = Some (\<exists>k\<ge>i. unat off = 10 ^ k)"
proof (induction "2 ^ 128 - unat p" arbitrary: p i rule: less_induct)
  case less
  show ?case
  proof (cases "p < off")
    case False
    then have "unat off \<le> 10 ^ i" using less.prems by (simp add: word_less_nat_alt)
    then have "(\<exists>k\<ge>i. unat off = 10 ^ k) \<longleftrightarrow> unat off = 10 ^ i"
      using power_increasing [of i _ "10 :: nat"] by (metis le_antisym le_refl one_le_numeral)
    moreover have "power_of_ten_loop p off = Some (p = off)"
      using False by (subst power_of_ten_loop.simps) simp
    ultimately show ?thesis using less.prems by (auto simp: word_unat_eq_iff)
  next
    case True
    then have lt: "10 ^ i < unat off" using less.prems by (simp add: word_less_nat_alt)
    have iff: "(\<exists>k\<ge>i. unat off = 10 ^ k) \<longleftrightarrow> (\<exists>k\<ge>Suc i. unat off = 10 ^ k)"
      using lt by (metis Suc_leD Suc_leI le_neq_implies_less order_less_irrefl)
    show ?thesis
    proof (cases "checked_mul p 10")
      case None
      then have "unat off < 10 ^ Suc i"
        using less.prems unat_u128_bound [of off] by (simp del: unat_u128_bound)
      then have "\<not> (\<exists>k\<ge>Suc i. unat off = 10 ^ k)"
        using power_increasing [of "Suc i" _ "10 :: nat"] by (metis leD one_le_numeral)
      moreover have "power_of_ten_loop p off = Some False"
        using True None by (subst power_of_ten_loop.simps) (simp only: if_True option.case)
      ultimately show ?thesis using iff by simp
    next
      case (Some q)
      then have q: "unat q = 10 ^ Suc i" using less.prems by simp
      have "2 ^ 128 - unat q < 2 ^ 128 - unat p"
      proof (rule diff_less_mono2)
        show "unat p < unat q" using q less.prems by simp
        show "unat p < 2 ^ 128" by (rule unat_u128_bound)
      qed
      from less.hyps [OF this q]
      have "power_of_ten_loop q off = Some (\<exists>k\<ge>Suc i. unat off = 10 ^ k)" .
      moreover have "power_of_ten_loop p off = power_of_ten_loop q off"
        using True Some by (subst power_of_ten_loop.simps) (simp only: if_True option.case)
      ultimately show ?thesis using iff by simp
    qed
  qed
qed

lemma is_valid_share_offset_eq:
  "is_valid_share_offset off = Some (off \<in> {1000, 10000, 100000, 1000000})"
proof (cases "1000 \<le> unat off \<and> unat off \<le> 1000000")
  case False
  then show ?thesis
    by (auto simp: is_valid_share_offset_def vault_constants word_le_nat_alt)
next
  case True
  have loop: "power_of_ten_loop 1 off = Some (\<exists>k\<ge>0. unat off = 10 ^ k)"
    by (rule power_of_ten_loop_terminates) simp
  have "(\<exists>k\<ge>0. unat off = 10 ^ k) \<longleftrightarrow> unat off \<in> {1000, 10000, 100000, 1000000}"
  proof
    assume "\<exists>k\<ge>0. unat off = 10 ^ k"
    then obtain k where k: "unat off = 10 ^ k" by blast
    have "(10 :: nat) ^ 3 \<le> 10 ^ k" "(10 :: nat) ^ k \<le> 10 ^ 6" using True k by simp_all
    then have "3 \<le> k" "k \<le> 6" by (simp_all only: power_increasing_iff)
    then have "k \<in> {3, 4, 5, 6}" by auto
    then show "unat off \<in> {1000, 10000, 100000, 1000000}" using k by auto
  next
    assume "unat off \<in> {1000, 10000, 100000, 1000000}"
    then have "unat off \<in> {10 ^ 3, 10 ^ 4, 10 ^ 5, 10 ^ 6}" by simp
    then show "\<exists>k\<ge>0. unat off = 10 ^ k" by blast
  qed
  then show ?thesis using True loop
    by (simp add: is_valid_share_offset_def vault_constants word_le_nat_alt word_unat_eq_iff)
qed

text \<open>
  C35. The offset check returns on every input, and accepts exactly the powers of ten from a thousand
  to a million.
\<close>

theorem is_valid_share_offset_exact:
  "is_valid_share_offset off = Some (off \<in> {1000, 10000, 100000, 1000000})"
  by (rule is_valid_share_offset_eq)

end
