(* ===== verification/Balances.thy ===== *)
theory Balances
  imports Runtime
begin

text \<open>
  The ledger as numbers: balances, supplies, and who holds what. The effect of each token call under
  \<open>spl_laws\<close> is stated on these, and the instructions' effects are composed from them.
\<close>

definition balance :: "ledger \<Rightarrow> pubkey \<Rightarrow> nat" where
  "balance L k = (case tokens L k of None \<Rightarrow> 0 | Some a \<Rightarrow> unat (ta_amount a))"

definition supply_of :: "ledger \<Rightarrow> pubkey \<Rightarrow> nat" where
  "supply_of L k = (case mints L k of None \<Rightarrow> 0 | Some m \<Rightarrow> unat (mi_supply m))"

text \<open>Mint and owner of a token account; no token call of the two programs changes either.\<close>

definition holder :: "ledger \<Rightarrow> pubkey \<Rightarrow> (pubkey \<times> pubkey) option" where
  "holder L k = map_option (\<lambda>a. (ta_mint a, ta_owner a)) (tokens L k)"

text \<open>What stays of a mint when tokens of it are minted and burned.\<close>

definition mint_kind ::
  "ledger \<Rightarrow> pubkey \<Rightarrow> (pubkey \<times> pubkey option \<times> u8 \<times> extension_type list option) option" where
  "mint_kind L k =
     map_option (\<lambda>m. (mi_program m, mi_authority m, mi_decimals m, mi_extensions m)) (mints L k)"

definition plain :: "env \<Rightarrow> ledger \<Rightarrow> pubkey \<Rightarrow> bool" where
  "plain E L k = (case mints L k of None \<Rightarrow> False | Some m \<Rightarrow> plain_mint E m)"

lemma plain_mint_kind: "mint_kind L' k = mint_kind L k \<Longrightarrow> plain E L' k = plain E L k"
  by (auto simp: mint_kind_def plain_def plain_mint_def split: option.splits)

lemma plainE:
  assumes "plain E L k"
  obtains m where "mints L k = Some m" and "plain_mint E m"
  using assms by (auto simp: plain_def split: option.splits)

lemma balance_Some: "tokens L k = Some a \<Longrightarrow> balance L k = unat (ta_amount a)"
  by (simp add: balance_def)

lemma supply_Some: "mints L k = Some m \<Longrightarrow> supply_of L k = unat (mi_supply m)"
  by (simp add: supply_of_def)

lemma holder_Some: "tokens L k = Some a \<Longrightarrow> holder L k = Some (ta_mint a, ta_owner a)"
  by (simp add: holder_def)

text \<open>What a call leaves alone: the mints, and mint and owner of every token account.\<close>

definition moved :: "ledger \<Rightarrow> ledger \<Rightarrow> bool" where
  "moved L L' \<longleftrightarrow> mint_kind L' = mint_kind L \<and> holder L' = holder L"

lemma moved_trans: "moved L L' \<Longrightarrow> moved L' L'' \<Longrightarrow> moved L L''"
  by (simp add: moved_def)

lemma moved_plain: "moved L L' \<Longrightarrow> plain E L' k = plain E L k"
  by (rule plain_mint_kind) (simp add: moved_def)

definition minter :: "ledger \<Rightarrow> pubkey \<Rightarrow> pubkey option" where
  "minter L k = (case mints L k of None \<Rightarrow> None | Some m \<Rightarrow> mi_authority m)"

lemma moved_minter: "moved L L' \<Longrightarrow> minter L' k = minter L k"
  unfolding moved_def mint_kind_def minter_def
  by (drule conjunct1, drule fun_cong [of _ _ k]) (auto split: option.splits)

text \<open>One account replaced.\<close>

lemma balance_upd: "tokens L' = (tokens L)(k \<mapsto> a) \<Longrightarrow> balance L' = (balance L)(k := unat (ta_amount a))"
  by (rule ext) (simp add: balance_def)

lemma holder_upd:
  "tokens L' = (tokens L)(k \<mapsto> a) \<Longrightarrow> tokens L k = Some b \<Longrightarrow> ta_mint a = ta_mint b \<Longrightarrow>
   ta_owner a = ta_owner b \<Longrightarrow> holder L' = holder L"
  by (rule ext) (simp add: holder_def)

lemma supply_upd: "mints L' = (mints L)(k \<mapsto> m) \<Longrightarrow> supply_of L' = (supply_of L)(k := unat (mi_supply m))"
  by (rule ext) (simp add: supply_of_def)

lemma mint_kind_upd:
  "mints L' = (mints L)(k \<mapsto> m') \<Longrightarrow> mints L k = Some m \<Longrightarrow> m' = m\<lparr>mi_supply := x\<rparr> \<Longrightarrow>
   mint_kind L' = mint_kind L"
  by (rule ext) (simp add: mint_kind_def)

lemma mint_kind_same: "mints L' = mints L \<Longrightarrow> mint_kind L' = mint_kind L"
  by (rule ext) (simp add: mint_kind_def)

lemma holder_same: "tokens L' = tokens L \<Longrightarrow> holder L' = holder L"
  by (rule ext) (simp add: holder_def)

lemma balance_same: "tokens L' = tokens L \<Longrightarrow> balance L' = balance L"
  by (rule ext) (simp add: balance_def)

lemma supply_same: "mints L' = mints L \<Longrightarrow> supply_of L' = supply_of L"
  by (rule ext) (simp add: supply_of_def)

text \<open>\<open>n\<close> tokens from one account to another.\<close>

definition move :: "pubkey \<Rightarrow> pubkey \<Rightarrow> nat \<Rightarrow> (pubkey \<Rightarrow> nat) \<Rightarrow> pubkey \<Rightarrow> nat" where
  "move src dst n b = (if src = dst then b else b(src := b src - n, dst := b dst + n))"

lemma move_simps [simp]:
  "src \<noteq> dst \<Longrightarrow> move src dst n b src = b src - n"
  "src \<noteq> dst \<Longrightarrow> move src dst n b dst = b dst + n"
  "k \<noteq> src \<Longrightarrow> k \<noteq> dst \<Longrightarrow> move src dst n b k = b k"
  "move k k n b = b"
  by (simp_all add: move_def)

definition credit :: "pubkey \<Rightarrow> nat \<Rightarrow> (pubkey \<Rightarrow> nat) \<Rightarrow> pubkey \<Rightarrow> nat" where
  "credit k n b = b(k := b k + n)"

definition debit :: "pubkey \<Rightarrow> nat \<Rightarrow> (pubkey \<Rightarrow> nat) \<Rightarrow> pubkey \<Rightarrow> nat" where
  "debit k n b = b(k := b k - n)"

lemma credit_simps [simp]: "credit k n b k = b k + n" "j \<noteq> k \<Longrightarrow> credit k n b j = b j"
  by (simp_all add: credit_def)

lemma debit_simps [simp]: "debit k n b k = b k - n" "j \<noteq> k \<Longrightarrow> debit k n b j = b j"
  by (simp_all add: debit_def)

section \<open>The three calls\<close>

lemma transfer_effect:
  assumes "spl_laws E" and "plain E L mint"
    and "transfer_checked E prog S src mint dst auth n dec L = Inr L'"
  shows "moved L L'" and "mints L' = mints L" and "auth \<in> S"
    and "unat n \<le> balance L src"
    and "balance L' = move src dst (unat n) (balance L)"
proof -
  obtain m where m: "mints L mint = Some m" "plain_mint E m" using assms(2) by (rule plainE)
  have T: "transferred S src mint dst auth n L L'" by (rule spl_transfer [OF assms(1) m assms(3)])
  then obtain a b where a: "tokens L src = Some a" and b: "tokens L dst = Some b"
    and sp: "may_spend S auth n a" and le: "n \<le> ta_amount a"
    and ms: "mints L' = mints L"
    and upd: "if src = dst then tokens L' = tokens L
      else \<exists>a' b'. tokens L' = (tokens L)(src \<mapsto> a', dst \<mapsto> b') \<and> debited n a a' \<and> debited n b' b"
    unfolding transferred_def by meson
  show "mints L' = mints L" by (fact ms)
  show "auth \<in> S" using sp by (simp add: may_spend_def)
  show "unat n \<le> balance L src" using a le by (simp add: balance_Some word_le_nat_alt)
  have same: "balance L' = balance L" if "src = dst"
    using upd that by (auto intro: balance_same)
  have two: "holder L' = holder L \<and>
      balance L' = (balance L)(src := balance L src - unat n, dst := balance L dst + unat n)"
    if ne: "src \<noteq> dst"
  proof -
    obtain a' b' where u: "tokens L' = (tokens L)(src \<mapsto> a', dst \<mapsto> b')"
      and da: "debited n a a'" and db: "debited n b' b"
      using upd ne by auto
    have "holder L' x = holder L x" for x
      using u a b da db ne by (simp add: holder_def debited_def)
    moreover have "balance L' x =
        ((balance L)(src := balance L src - unat n, dst := balance L dst + unat n)) x" for x
      using u a b da db ne by (simp add: balance_def debited_def)
    ultimately show ?thesis by blast
  qed
  show "balance L' = move src dst (unat n) (balance L)"
    using two same by (simp add: move_def)
  show "moved L L'"
    unfolding moved_def
  proof
    show "mint_kind L' = mint_kind L" by (rule mint_kind_same [OF ms])
    show "holder L' = holder L"
    proof (cases "src = dst")
      case True
      then have "tokens L' = tokens L" using upd by (simp only: if_True)
      then show ?thesis by (rule holder_same)
    qed (use two in blast)
  qed
qed

lemma mint_effect:
  assumes "spl_laws E" and "plain E L mint"
    and "mint_to_checked E prog S mint dst auth n dec L = Inr L'"
  shows "moved L L'" and "auth \<in> S"
    and "balance L' = credit dst (unat n) (balance L)"
    and "supply_of L' = credit mint (unat n) (supply_of L)"
proof -
  obtain m where m: "mints L mint = Some m" "plain_mint E m" using assms(2) by (rule plainE)
  have "minted S mint dst auth n L L'" by (rule spl_mint_to [OF assms(1) m assms(3)])
  then obtain b m' b' where b: "tokens L dst = Some b" and auth: "auth \<in> S"
    and ms: "unat (mi_supply m') = unat (mi_supply m) + unat n" "m' = m\<lparr>mi_supply := mi_supply m'\<rparr>"
    and bs: "debited n b' b" "b' = b\<lparr>ta_amount := ta_amount b'\<rparr>"
    and upd: "mints L' = (mints L)(mint \<mapsto> m')" "tokens L' = (tokens L)(dst \<mapsto> b')"
    unfolding minted_def m(1) by auto
  show "auth \<in> S" by (fact auth)
  show "moved L L'"
    using mint_kind_upd [OF upd(1) m(1) ms(2)] holder_upd [OF upd(2) b] bs(1)
    by (simp add: moved_def debited_def)
  show "balance L' = credit dst (unat n) (balance L)"
    using balance_upd [OF upd(2)] b bs(1) by (simp add: balance_Some debited_def credit_def)
  show "supply_of L' = credit mint (unat n) (supply_of L)"
    using supply_upd [OF upd(1)] m(1) ms(1) by (simp add: supply_Some credit_def)
qed

lemma burn_effect:
  assumes "spl_laws E" and "plain E L mint"
    and "burn_checked E prog S src mint auth n dec L = Inr L'"
  shows "moved L L'" and "auth \<in> S" and "unat n \<le> balance L src" and "unat n \<le> supply_of L mint"
    and "balance L' = debit src (unat n) (balance L)"
    and "supply_of L' = debit mint (unat n) (supply_of L)"
proof -
  obtain m where m: "mints L mint = Some m" "plain_mint E m" using assms(2) by (rule plainE)
  have "burned S src mint auth n L L'" by (rule spl_burn [OF assms(1) m assms(3)])
  then obtain a m' a' where a: "tokens L src = Some a" and sp: "may_spend S auth n a"
    and ms: "unat (mi_supply m) = unat (mi_supply m') + unat n" "m' = m\<lparr>mi_supply := mi_supply m'\<rparr>"
    and as: "debited n a a'"
    and upd: "mints L' = (mints L)(mint \<mapsto> m')" "tokens L' = (tokens L)(src \<mapsto> a')"
    unfolding burned_def m(1) by auto
  show "auth \<in> S" using sp by (simp add: may_spend_def)
  show "unat n \<le> balance L src" using a as by (simp add: balance_Some debited_def)
  show "unat n \<le> supply_of L mint" using m(1) ms(1) by (simp add: supply_Some)
  show "moved L L'"
    using mint_kind_upd [OF upd(1) m(1) ms(2)] holder_upd [OF upd(2) a] as
    by (simp add: moved_def debited_def)
  show "balance L' = debit src (unat n) (balance L)"
    using balance_upd [OF upd(2)] a as by (simp add: balance_Some debited_def debit_def)
  show "supply_of L' = debit mint (unat n) (supply_of L)"
    using supply_upd [OF upd(1)] m(1) ms(1) by (simp add: supply_Some debit_def)
qed

end
