(* ===== verification/Reference.thy ===== *)
theory Reference
  imports Balances
begin

text \<open>
  One environment that satisfies \<open>spl_laws\<close> and \<open>pda_laws\<close>: the hypotheses of the theorems can hold.
  It is the parameter the witnesses use, and models no code of the repository.
\<close>

section \<open>Addresses\<close>

definition ref_hash :: "u8 list list \<Rightarrow> pubkey" where
  "ref_hash seeds =
     foldl (\<lambda>a s. 1009 * a + foldl (\<lambda>x b. x + ucast b) 0 s) 0 seeds"

text \<open>The hash is computed over the integers.\<close>

primrec byte_sum :: "u8 list \<Rightarrow> int" where
  "byte_sum [] = 0"
| "byte_sum (b # s) = uint b + byte_sum s"

primrec hash_from :: "u8 list list \<Rightarrow> int \<Rightarrow> int" where
  "hash_from [] a = a"
| "hash_from (s # seeds) a = hash_from seeds (1009 * a + byte_sum s)"

lemma byte_sum_word:
  "foldl (\<lambda>x b. x + ucast b) (word_of_int i) s = (word_of_int (i + byte_sum s) :: pubkey)"
  for s :: "u8 list"
proof (induction s arbitrary: i)
  case (Cons b s)
  have "(word_of_int i + ucast b :: pubkey) = word_of_int (i + uint b)"
    by (simp only: ucast_eq wi_hom_add)
  then show ?case using Cons [of "i + uint b"] by (simp only: foldl_Cons byte_sum.simps add.assoc)
qed simp

lemma ref_hash_code [code]: "ref_hash seeds = word_of_int (hash_from seeds 0)"
proof -
  have "foldl (\<lambda>a s. 1009 * a + foldl (\<lambda>x b. x + ucast b) 0 s) (word_of_int i) seeds =
      (word_of_int (hash_from seeds i) :: pubkey)" for i
  proof (induction seeds arbitrary: i)
    case (Cons s seeds)
    have "1009 * word_of_int i + foldl (\<lambda>x b. x + ucast b) (word_of_int 0) s =
        (word_of_int (1009 * i + byte_sum s) :: pubkey)"
      unfolding byte_sum_word by simp
    then show ?case
      using Cons [of "1009 * i + byte_sum s"] by (simp only: foldl_Cons hash_from.simps word_of_int_0)
  qed simp
  from this [of 0] show ?thesis by (simp only: ref_hash_def word_of_int_0)
qed

text \<open>Derived addresses are at least \<open>2 ^ 40\<close>, the keys of the sample's users below.\<close>

definition ref_address :: "u8 list list \<Rightarrow> pubkey \<Rightarrow> pubkey" where
  "ref_address seeds pid =
     take_bit 40 (ref_hash seeds + take_bit 16 pid) +
     1099511627776"

definition ref_find :: "u8 list list \<Rightarrow> pubkey \<Rightarrow> pubkey \<times> u8" where
  "ref_find seeds pid = (ref_address seeds pid, 255)"

definition ref_create :: "u8 list list \<Rightarrow> pubkey \<Rightarrow> pubkey option" where
  "ref_create seeds pid =
     (if seeds \<noteq> [] \<and> last seeds = [255] then Some (ref_address (butlast seeds) pid) else None)"

definition ref_ata :: "pubkey \<Rightarrow> pubkey \<Rightarrow> pubkey \<Rightarrow> pubkey" where
  "ref_ata wallet mint prog = 1000003 * wallet + 1009 * mint + prog"

section \<open>A token program\<close>

definition ref_debit :: "pubkey \<Rightarrow> u64 \<Rightarrow> token_account \<Rightarrow> token_account" where
  "ref_debit auth n a =
     (if auth = ta_owner a then a\<lparr>ta_amount := ta_amount a - n\<rparr>
      else a\<lparr>ta_amount := ta_amount a - n,
             ta_delegated_amount := ta_delegated_amount a - n,
             ta_delegate := (if ta_delegated_amount a = n then None else ta_delegate a)\<rparr>)"

definition fits_u64 :: "u64 \<Rightarrow> u64 \<Rightarrow> bool" where
  "fits_u64 a b = (uint a + uint b < 18446744073709551616)"

definition ref_transfer ::
  "pubkey \<Rightarrow> pubkey set \<Rightarrow> pubkey \<Rightarrow> pubkey \<Rightarrow> pubkey \<Rightarrow> pubkey \<Rightarrow> u64 \<Rightarrow> u8 \<Rightarrow> ledger \<Rightarrow> nat + ledger" where
  "ref_transfer prog S src mint dst auth n dec L =
     (case tokens L src of None \<Rightarrow> Inl 1 | Some a \<Rightarrow>
      case tokens L dst of None \<Rightarrow> Inl 1 | Some b \<Rightarrow>
        if ta_mint a = mint \<and> ta_mint b = mint \<and> may_spend S auth n a \<and> n \<le> ta_amount a \<and>
           (src = dst \<or> fits_u64 (ta_amount b) n)
        then Inr (if src = dst then L
                  else L\<lparr>tokens := (tokens L)(src \<mapsto> ref_debit auth n a,
                                              dst \<mapsto> b\<lparr>ta_amount := ta_amount b + n\<rparr>)\<rparr>)
        else Inl 2)"

definition ref_mint_to ::
  "pubkey \<Rightarrow> pubkey set \<Rightarrow> pubkey \<Rightarrow> pubkey \<Rightarrow> pubkey \<Rightarrow> u64 \<Rightarrow> u8 \<Rightarrow> ledger \<Rightarrow> nat + ledger" where
  "ref_mint_to prog S mint dst auth n dec L =
     (case mints L mint of None \<Rightarrow> Inl 1 | Some m \<Rightarrow>
      case tokens L dst of None \<Rightarrow> Inl 1 | Some b \<Rightarrow>
        if ta_mint b = mint \<and> auth \<in> S \<and> mi_authority m = Some auth \<and>
           fits_u64 (mi_supply m) n \<and> fits_u64 (ta_amount b) n
        then Inr (L\<lparr>mints := (mints L)(mint \<mapsto> m\<lparr>mi_supply := mi_supply m + n\<rparr>),
                    tokens := (tokens L)(dst \<mapsto> b\<lparr>ta_amount := ta_amount b + n\<rparr>)\<rparr>)
        else Inl 2)"

definition ref_burn ::
  "pubkey \<Rightarrow> pubkey set \<Rightarrow> pubkey \<Rightarrow> pubkey \<Rightarrow> pubkey \<Rightarrow> u64 \<Rightarrow> u8 \<Rightarrow> ledger \<Rightarrow> nat + ledger" where
  "ref_burn prog S src mint auth n dec L =
     (case mints L mint of None \<Rightarrow> Inl 1 | Some m \<Rightarrow>
      case tokens L src of None \<Rightarrow> Inl 1 | Some a \<Rightarrow>
        if ta_mint a = mint \<and> may_spend S auth n a \<and> n \<le> ta_amount a \<and> n \<le> mi_supply m
        then Inr (L\<lparr>mints := (mints L)(mint \<mapsto> m\<lparr>mi_supply := mi_supply m - n\<rparr>),
                    tokens := (tokens L)(src \<mapsto> ref_debit auth n a)\<rparr>)
        else Inl 2)"

definition ref_close :: "pubkey \<Rightarrow> pubkey set \<Rightarrow> pubkey \<Rightarrow> pubkey \<Rightarrow> ledger \<Rightarrow> nat + ledger" where
  "ref_close prog S k auth L =
     (case tokens L k of None \<Rightarrow> Inl 1 | Some a \<Rightarrow>
        if ta_amount a = 0 \<and> (case ta_close_authority a of None \<Rightarrow> ta_owner a | Some c \<Rightarrow> c) = auth \<and> auth \<in> S
        then Inr (L\<lparr>tokens := (tokens L)(k := None)\<rparr>) else Inl 2)"

definition ref_revoke :: "pubkey \<Rightarrow> pubkey set \<Rightarrow> pubkey \<Rightarrow> pubkey \<Rightarrow> ledger \<Rightarrow> nat + ledger" where
  "ref_revoke prog S k auth L =
     (case mints L k of None \<Rightarrow> Inl 1 | Some m \<Rightarrow>
        if mi_authority m = Some auth \<and> auth \<in> S
        then Inr (L\<lparr>mints := (mints L)(k \<mapsto> m\<lparr>mi_authority := None\<rparr>)\<rparr>) else Inl 2)"

definition ref_initialize_mint :: "pubkey \<Rightarrow> pubkey \<Rightarrow> u8 \<Rightarrow> pubkey \<Rightarrow> ledger \<Rightarrow> nat + ledger" where
  "ref_initialize_mint prog k dec auth L =
     Inr (L\<lparr>mints := (mints L)(k \<mapsto> fresh_mint prog dec auth)\<rparr>)"

definition ref_initialize_account ::
  "pubkey \<Rightarrow> pubkey \<Rightarrow> pubkey \<Rightarrow> pubkey \<Rightarrow> ledger \<Rightarrow> nat + ledger" where
  "ref_initialize_account prog k mint owner L =
     Inr (L\<lparr>tokens := (tokens L)(k \<mapsto> fresh_token_account prog mint owner)\<rparr>)"

definition ref_env :: env where
  "ref_env =
     \<lparr>find_program_address = ref_find, create_program_address = ref_create,
      associated_token_address = ref_ata, spl_token_id = 1, token_2022_id = 2,
      token_metadata_id = 3, bpf_loader_upgradeable_id = 4,
      transfer_checked = ref_transfer, mint_to_checked = ref_mint_to, burn_checked = ref_burn,
      close_token_account = ref_close, revoke_mint_authority = ref_revoke,
      initialize_mint = ref_initialize_mint, initialize_account = ref_initialize_account,
      create_metadata_v3 = (\<lambda>S k mint auth payer upd d mutable M. Inr (M(k \<mapsto> d))),
      update_metadata_v2 = (\<lambda>S k upd d new M.
        case d of None \<Rightarrow> Inr M | Some x \<Rightarrow> Inr (M(k \<mapsto> x)))\<rparr>"

lemma ref_env_select [simp]:
  "find_program_address ref_env = ref_find" "create_program_address ref_env = ref_create"
  "associated_token_address ref_env = ref_ata" "spl_token_id ref_env = 1"
  "token_2022_id ref_env = 2" "token_metadata_id ref_env = 3" "bpf_loader_upgradeable_id ref_env = 4"
  "transfer_checked ref_env = ref_transfer" "mint_to_checked ref_env = ref_mint_to"
  "burn_checked ref_env = ref_burn" "close_token_account ref_env = ref_close"
  "revoke_mint_authority ref_env = ref_revoke" "initialize_mint ref_env = ref_initialize_mint"
  "initialize_account ref_env = ref_initialize_account"
  by (simp_all add: ref_env_def)

lemma ref_debit_debited: "n \<le> ta_amount a \<Longrightarrow> debited n a (ref_debit auth n a)"
  by (simp add: ref_debit_def debited_def unat_sub_le word_le_nat_alt)

lemma ref_credit_debited:
  "fits_u64 (ta_amount b) n \<Longrightarrow> debited n (b\<lparr>ta_amount := ta_amount b + n\<rparr>) b"
  by (simp add: fits_u64_def debited_def unat_word_ariths)

lemma ref_pda_laws: "pda_laws ref_env"
  by (auto simp: pda_laws_def ref_find_def ref_create_def)

lemma ref_address_high: "1099511627776 \<le> uint (ref_address seeds pid)"
proof -
  define y where "y = (take_bit 40 (ref_hash seeds + take_bit 16 pid) :: pubkey)"
  have y: "uint y < 1099511627776"
    using take_bit_int_less_exp [of 40 "uint (ref_hash seeds + take_bit 16 pid)"]
    by (simp add: y_def unsigned_take_bit_eq)
  have "uint (y + 1099511627776) = uint y + 1099511627776"
    using y uint_ge_0 [of y] by (simp add: uint_word_ariths)
  moreover have "ref_address seeds pid = y + 1099511627776" by (simp add: ref_address_def y_def)
  ultimately show ?thesis using uint_ge_0 [of y] by simp
qed

lemma ref_pda_high: "create_program_address ref_env seeds pid = Some k \<Longrightarrow> 1099511627776 \<le> uint k"
  using ref_address_high by (auto simp: ref_create_def split: if_splits)

lemma ref_transfer_law: "transfer_law ref_env"
  unfolding transfer_law_def
proof (intro allI impI)
  fix prog S src mint dst auth n dec L L' m
  assume "transfer_checked ref_env prog S src mint dst auth n dec L = Inr L'"
  then obtain a b where ab: "tokens L src = Some a" "tokens L dst = Some b" "ta_mint a = mint"
      "ta_mint b = mint" "may_spend S auth n a" "n \<le> ta_amount a"
      "src = dst \<or> fits_u64 (ta_amount b) n"
    and L': "L' = (if src = dst then L else L\<lparr>tokens := (tokens L)(src \<mapsto> ref_debit auth n a,
        dst \<mapsto> b\<lparr>ta_amount := ta_amount b + n\<rparr>)\<rparr>)"
    by (auto simp: ref_transfer_def split: option.splits if_splits)
  show "transferred S src mint dst auth n L L'"
  proof (cases "src = dst")
    case True
    then show ?thesis using ab L' by (auto simp: transferred_def)
  next
    case False
    have "tokens L' = (tokens L)(src \<mapsto> ref_debit auth n a, dst \<mapsto> b\<lparr>ta_amount := ta_amount b + n\<rparr>)"
      and "mints L' = mints L" using L' False by simp_all
    moreover have "debited n a (ref_debit auth n a)" by (rule ref_debit_debited [OF ab(6)])
    moreover have "debited n (b\<lparr>ta_amount := ta_amount b + n\<rparr>) b"
      using ab(7) False by (simp add: ref_credit_debited)
    ultimately have "\<exists>a' b'. tokens L' = (tokens L)(src \<mapsto> a', dst \<mapsto> b') \<and> debited n a a' \<and>
        debited n b' b \<and> ta_delegate b' = ta_delegate b \<and>
        ta_delegated_amount b' = ta_delegated_amount b"
      by (intro exI [of _ "ref_debit auth n a"] exI [of _ "b\<lparr>ta_amount := ta_amount b + n\<rparr>"]) simp
    then show ?thesis
      unfolding transferred_def using ab False \<open>mints L' = mints L\<close>
      by (intro conjI exI [of _ a] exI [of _ b]) (simp_all only: if_False simp_thms)
  qed
qed

lemma ref_transfer_progress: "transfer_progress_law ref_env"
  unfolding transfer_progress_law_def
proof (intro allI impI)
  fix prog S src mint dst auth n dec L m
  assume "transfer_possible prog S src mint dst auth n dec L"
  then show "\<exists>L'. transfer_checked ref_env prog S src mint dst auth n dec L = Inr L'"
    by (auto simp: transfer_possible_def ref_transfer_def fits_u64_def)
qed

lemma ref_mint_to_law: "mint_to_law ref_env"
  unfolding mint_to_law_def
proof (intro allI impI)
  fix prog S mint dst auth n dec L L' m
  assume "mint_to_checked ref_env prog S mint dst auth n dec L = Inr L'"
  then obtain m b where mb: "mints L mint = Some m" "tokens L dst = Some b" "ta_mint b = mint"
      "auth \<in> S" "mi_authority m = Some auth" "fits_u64 (mi_supply m) n" "fits_u64 (ta_amount b) n"
    and L': "L' = L\<lparr>mints := (mints L)(mint \<mapsto> m\<lparr>mi_supply := mi_supply m + n\<rparr>),
                    tokens := (tokens L)(dst \<mapsto> b\<lparr>ta_amount := ta_amount b + n\<rparr>)\<rparr>"
    by (auto simp: ref_mint_to_def split: option.splits if_splits)
  show "minted S mint dst auth n L L'"
    unfolding minted_def
    by (rule exI [of _ m], rule exI [of _ b], rule exI [of _ "m\<lparr>mi_supply := mi_supply m + n\<rparr>"],
        rule exI [of _ "b\<lparr>ta_amount := ta_amount b + n\<rparr>"])
      (use mb L' ref_credit_debited [OF mb(7)] in \<open>simp add: fits_u64_def unat_word_ariths\<close>)
qed

lemma ref_burn_law: "burn_law ref_env"
  unfolding burn_law_def
proof (intro allI impI)
  fix prog S src mint auth n dec L L' m
  assume "burn_checked ref_env prog S src mint auth n dec L = Inr L'"
  then obtain m a where ma: "mints L mint = Some m" "tokens L src = Some a" "ta_mint a = mint"
      "may_spend S auth n a" "n \<le> ta_amount a" "n \<le> mi_supply m"
    and L': "L' = L\<lparr>mints := (mints L)(mint \<mapsto> m\<lparr>mi_supply := mi_supply m - n\<rparr>),
                    tokens := (tokens L)(src \<mapsto> ref_debit auth n a)\<rparr>"
    by (auto simp: ref_burn_def split: option.splits if_splits)
  show "burned S src mint auth n L L'"
    unfolding burned_def
    by (rule exI [of _ m], rule exI [of _ a], rule exI [of _ "m\<lparr>mi_supply := mi_supply m - n\<rparr>"],
        rule exI [of _ "ref_debit auth n a"])
      (use ma L' ref_debit_debited [OF ma(5)] in \<open>simp add: unat_sub_le word_le_nat_alt\<close>)
qed

text \<open>Custody: what a call does not name it keeps, and what it debits has a signer.\<close>

lemma keptI:
  assumes "\<And>k m. mints L k = Some m \<Longrightarrow>
      \<exists>m'. mints L' k = Some m' \<and> mi_program m' = mi_program m \<and> mi_extensions m' = mi_extensions m \<and>
        mi_decimals m' = mi_decimals m \<and> mi_freeze_authority m' = mi_freeze_authority m \<and>
        (\<forall>a. mi_authority m = Some a \<longrightarrow> a \<notin> S \<longrightarrow>
           mi_authority m' = Some a \<and> mi_supply m' \<le> mi_supply m)"
    and "\<And>k a. tokens L k = Some a \<Longrightarrow> ta_owner a \<notin> S \<Longrightarrow> ta_delegate a = None \<Longrightarrow>
      ta_close_authority a = None \<Longrightarrow>
      \<exists>a'. tokens L' k = Some a' \<and> ta_amount a \<le> ta_amount a' \<and>
        a' = a\<lparr>ta_amount := ta_amount a', ta_frozen := ta_frozen a'\<rparr>"
  shows "kept E S L L'"
  unfolding kept_def
proof (intro conjI allI impI)
  fix k m assume "mints L k = Some m" "plain_mint E m"
  then show "\<exists>m'. mints L' k = Some m' \<and> mint_kept E S m m'"
    using assms(1) by (fastforce simp: plain_mint_def mint_kept_def)
qed (use assms(2) in blast)

lemma fits_le: "fits_u64 a n \<Longrightarrow> a \<le> a + n"
  by (simp add: fits_u64_def word_le_nat_alt unat_word_ariths)

lemma minus_le: "n \<le> a \<Longrightarrow> a - n \<le> a" for a :: u64
  by (simp add: word_le_nat_alt unat_sub_le)

lemma ref_custody: "custody_law ref_env"
  unfolding custody_law_def
proof (intro allI impI, elim disjE)
  fix prog S a b c d n dec L L'
  assume "transfer_checked ref_env prog S a b c d n dec L = Inr L'"
  then show "kept ref_env S L L' \<and> no_grant ref_env L L'"
    by (intro conjI keptI no_grantI) (auto simp: ref_transfer_def fits_le may_spend_def
        ref_debit_def split: option.splits if_splits)
next
  fix prog S a b c n dec L L'
  assume "mint_to_checked ref_env prog S a b c n dec L = Inr L'"
  then show "kept ref_env S L L' \<and> no_grant ref_env L L'"
    by (intro conjI keptI no_grantI) (auto simp: ref_mint_to_def fits_le
        split: option.splits if_splits)
next
  fix prog S a b c n dec L L'
  assume "burn_checked ref_env prog S a b c n dec L = Inr L'"
  then show "kept ref_env S L L' \<and> no_grant ref_env L L'"
    by (intro conjI keptI no_grantI) (auto simp: ref_burn_def may_spend_def minus_le
        ref_debit_def split: option.splits if_splits)
next
  fix prog S a b L L'
  assume "close_token_account ref_env prog S a b L = Inr L'"
  then show "kept ref_env S L L' \<and> no_grant ref_env L L'"
    by (intro conjI keptI no_grantI) (auto simp: ref_close_def
        split: option.splits if_splits)
next
  fix prog S a b L L'
  assume "revoke_mint_authority ref_env prog S a b L = Inr L'"
  then show "kept ref_env S L L' \<and> no_grant ref_env L L'"
    by (intro conjI keptI no_grantI) (auto simp: ref_revoke_def
        split: option.splits if_splits)
qed

theorem ref_spl_laws: "spl_laws ref_env"
proof -
  have "close_law ref_env"
    by (auto simp: close_law_def ref_close_def split: option.splits if_splits)
  moreover have "revoke_law ref_env"
    by (auto simp: revoke_law_def ref_revoke_def split: option.splits if_splits)
  moreover have "initialize_law ref_env"
    by (auto simp: initialize_law_def ref_initialize_mint_def ref_initialize_account_def)
  ultimately show ?thesis
    by (simp add: spl_laws_def ref_transfer_law ref_transfer_progress ref_mint_to_law ref_burn_law ref_custody)
qed

end
