(* ===== verification/Samples.thy ===== *)
theory Samples
  imports Reference VaultState
begin

text \<open>
  A small concrete world for the witnesses: one vault over the mint \<open>ex_mint\<close> at version 1, a user
  with tokens and shares, the fee recipient's account.
\<close>

definition ex_mint :: pubkey where "ex_mint = 11"
definition ex_user :: pubkey where "ex_user = 21"
definition ex_admin :: pubkey where "ex_admin = 22"
definition ex_operator :: pubkey where "ex_operator = 23"
definition ex_fee_recipient :: pubkey where "ex_fee_recipient = 24"
definition ex_user_tokens :: pubkey where "ex_user_tokens = 31"
definition ex_user_shares :: pubkey where "ex_user_shares = 32"
definition ex_fee_tokens :: pubkey where "ex_fee_tokens = 33"

text \<open>The program-derived addresses under \<open>ref_env\<close>.\<close>

definition ex_vault :: pubkey where "ex_vault = 1100403495127"
definition ex_share_mint :: pubkey where "ex_share_mint = 1099959611811"
definition ex_reserve :: pubkey where "ex_reserve = 1100729281047"
definition ex_queue :: pubkey where "ex_queue = 1099513407399"

lemma ex_pdas:
  "ref_find (vault_state_seeds ex_mint 1) VAULT_PROGRAM_ID = (ex_vault, 255)"
  "ref_find (share_mint_seeds ex_mint 1) VAULT_PROGRAM_ID = (ex_share_mint, 255)"
  "ref_find (vault_token_seeds ex_mint 1) VAULT_PROGRAM_ID = (ex_reserve, 255)"
  "withdrawal_queue_pda ref_env ex_vault = ex_queue"
  by code_simp+

lemma ex_distinct [simp]: "ex_share_mint \<noteq> ex_mint" "ex_mint \<noteq> ex_share_mint"
  by (simp_all add: ex_share_mint_def ex_mint_def)

definition ex_vault_state :: vault_state where
  "ex_vault_state =
     zero_vault\<lparr>v_operator := ex_operator, v_admin := ex_admin, v_share_mint := ex_share_mint,
       v_deposit_mint := ex_mint, v_fee_recipient := ex_fee_recipient, v_withdrawal_fee := 5000,
       v_local_aum := 3000000000, v_deployed_aum := 1000000000, v_aum_increase_limit := 20,
       v_aum_decrease_limit := 20, v_pda_bump := 255, v_vault_version := 1,
       v_share_offset := 1000000\<rparr>"

definition ex_token :: "pubkey \<Rightarrow> pubkey \<Rightarrow> u64 \<Rightarrow> token_account" where
  "ex_token mint owner n = (fresh_token_account 1 mint owner)\<lparr>ta_amount := n\<rparr>"

definition ex_ledger :: ledger where
  "ex_ledger =
     \<lparr>tokens = [ex_reserve \<mapsto> ex_token ex_mint ex_vault 3000000500,
                ex_user_tokens \<mapsto> ex_token ex_mint ex_user 500000000,
                ex_user_shares \<mapsto> ex_token ex_share_mint ex_user 600000000,
                ex_fee_tokens \<mapsto> ex_token ex_mint ex_fee_recipient 7],
      mints = [ex_mint \<mapsto> (fresh_mint 1 6 ex_admin)\<lparr>mi_supply := 90000000000\<rparr>,
               ex_share_mint \<mapsto> (fresh_mint 1 6 ex_vault)\<lparr>mi_supply := 2000000000\<rparr>]\<rparr>"

definition ex_world :: world where
  "ex_world =
     \<lparr>ledger = ex_ledger, vaults = [ex_vault \<mapsto> ex_vault_state], configs = Map.empty,
      nominations = Map.empty, subaccounts = Map.empty, queues = Map.empty, requests = Map.empty,
      metadata = Map.empty, program_data = Map.empty, events = []\<rparr>"

definition ex_tx :: "pubkey \<Rightarrow> tx" where
  "ex_tx k = \<lparr>signers = {k}, unix_timestamp = Some 1000, can_fund = (\<lambda>_ _. True)\<rparr>"

lemma ex_plain: "plain ref_env ex_ledger ex_mint" "plain ref_env ex_ledger ex_share_mint"
  by code_simp+

end
