(* ===== verification/VaultUser.thy ===== *)
theory VaultUser
  imports Pricing Samples
begin

text \<open>
  The two user instructions of the vault, \<open>instructions/deposit.rs\<close> and \<open>instructions/redeem.rs\<close>:
  the account checks of each \<open>Accounts\<close> struct, the handlers, and what a successful call did to the
  ledger and to the vault.
\<close>

section \<open>deposit.rs\<close>

record deposit_accounts =
  dep_vault_state :: pubkey
  dep_vault_token_ata :: pubkey
  dep_sender_token_account :: pubkey
  dep_sender_share_account :: pubkey
  dep_share_mint :: pubkey
  dep_deposit_mint :: pubkey
  dep_signer :: pubkey
  dep_token_program :: pubkey

text \<open>The loaded accounts the handler reads: the vault, the share mint and the deposit mint.\<close>

definition deposit_ctx ::
  "env \<Rightarrow> tx \<Rightarrow> deposit_accounts \<Rightarrow> world \<Rightarrow> (vault_state \<times> mint_account \<times> mint_account) result"
where
  "deposit_ctx E t A w =
     bindR (load_vault w (dep_vault_state A)) (\<lambda>v.
     bindR (load_token E w (dep_vault_token_ata A)) (\<lambda>reserve.
     bindR (load_token E w (dep_sender_token_account A)) (\<lambda>sender.
     bindR (load_token E w (dep_sender_share_account A)) (\<lambda>sender_shares.
     bindR (load_mint E w (dep_share_mint A)) (\<lambda>sm.
     bindR (load_mint E w (dep_deposit_mint A)) (\<lambda>dm.
     signer t (dep_signer A)
     (token_program_account E (dep_token_program A)
     (seeds_bump E (vault_state_seeds (dep_deposit_mint A) (v_vault_version v)) VAULT_PROGRAM_ID
        (dep_vault_state A)
     (seeds_bump E (vault_token_seeds (dep_deposit_mint A) (v_vault_version v)) VAULT_PROGRAM_ID
        (dep_vault_token_ata A)
     (token_mint reserve (dep_deposit_mint A)
     (token_authority reserve (dep_vault_state A)
     (token_mint sender (dep_deposit_mint A)
     (token_authority sender (dep_signer A)
     (token_mint sender_shares (dep_share_mint A)
     (token_authority sender_shares (dep_signer A)
     (seeds_bump E (share_mint_seeds (dep_deposit_mint A) (v_vault_version v)) VAULT_PROGRAM_ID
        (dep_share_mint A)
     (mint_decimals sm (mi_decimals dm)
     (mint_authority sm (dep_vault_state A)
       (Inr (v, sm, dm))))))))))))))))))))"

definition deposit_transfer_in ::
  "env \<Rightarrow> tx \<Rightarrow> deposit_accounts \<Rightarrow> u8 \<Rightarrow> u64 \<Rightarrow> ledger \<Rightarrow> ledger result" where
  "deposit_transfer_in E t A decimals amount L =
     token_call (transfer_checked E (dep_token_program A) (signers t) (dep_sender_token_account A)
       (dep_deposit_mint A) (dep_vault_token_ata A) (dep_signer A) amount decimals L)"

definition deposit_mint_to ::
  "env \<Rightarrow> tx \<Rightarrow> deposit_accounts \<Rightarrow> vault_state \<Rightarrow> u8 \<Rightarrow> u64 \<Rightarrow> ledger \<Rightarrow> ledger result" where
  "deposit_mint_to E t A v decimals shares L =
     bindR (pda_signers E t VAULT_PROGRAM_ID (vault_seeds v)) (\<lambda>S.
       token_call (mint_to_checked E (dep_token_program A) S (dep_share_mint A)
         (dep_sender_share_account A) (dep_vault_state A) shares decimals L))"

definition deposit_checked ::
  "env \<Rightarrow> tx \<Rightarrow> deposit_accounts \<Rightarrow> u64 \<Rightarrow> u64 \<Rightarrow> world \<Rightarrow> world result" where
  "deposit_checked E t A amount min_shares_out w =
     bindR (deposit_ctx E t A w) (\<lambda>(v, sm, dm).
     require (0 < amount) (VaultErr ZeroAmount)
     (require (\<not> v_paused v) (VaultErr VaultPaused)
     (require (mi_supply sm = 0 \<longrightarrow> min_first_deposit v (mi_decimals dm) \<le> amount)
        (VaultErr InsufficientAmount)
     (bindR (deposit_transfer_in E t A (mi_decimals dm) amount (ledger w)) (\<lambda>L.
      bindR (total_assets v) (\<lambda>assets.
      bindR (shares_for_deposit v (mi_supply sm) assets amount) (\<lambda>shares.
      require (min_shares_out \<le> shares) (VaultErr SlippageExceeded)
     (require (0 < shares) (VaultErr ZeroAmount)
     (require (mi_supply sm = 0 \<longrightarrow> min_opening_supply v \<le> shares) (VaultErr InsufficientAmount)
     (bindR (deposit_mint_to E t A v (mi_decimals sm) shares L) (\<lambda>L'.
      bindR (ok_or (checked_add (v_local_aum v) amount) (VaultErr NumberOverflow)) (\<lambda>local_aum.
      Inr (emit (DepositEvt (dep_signer A) (dep_signer A) amount shares)
            (put_vault (dep_vault_state A) (v\<lparr>v_local_aum := local_aum\<rparr>)
              (put_ledger L' w)))))))))))))))"

definition deposit :: "env \<Rightarrow> tx \<Rightarrow> deposit_accounts \<Rightarrow> u64 \<Rightarrow> world \<Rightarrow> world result" where
  "deposit E t A amount w = deposit_checked E t A amount 0 w"

section \<open>redeem.rs\<close>

record redeem_accounts =
  red_vault_state :: pubkey
  red_vault_deposit_ata :: pubkey
  red_sender_token_account :: pubkey
  red_sender_share_account :: pubkey
  red_fee_recipient_account :: pubkey
  red_share_mint :: pubkey
  red_deposit_mint :: pubkey
  red_signer :: pubkey
  red_token_program :: pubkey

definition redeem_ctx ::
  "env \<Rightarrow> tx \<Rightarrow> redeem_accounts \<Rightarrow> world \<Rightarrow> (vault_state \<times> mint_account \<times> mint_account) result"
where
  "redeem_ctx E t A w =
     bindR (load_vault w (red_vault_state A)) (\<lambda>v.
     bindR (load_token E w (red_vault_deposit_ata A)) (\<lambda>reserve.
     bindR (load_token E w (red_sender_token_account A)) (\<lambda>sender.
     bindR (load_token E w (red_sender_share_account A)) (\<lambda>sender_shares.
     bindR (load_token E w (red_fee_recipient_account A)) (\<lambda>fee_account.
     bindR (load_mint E w (red_share_mint A)) (\<lambda>sm.
     bindR (load_mint E w (red_deposit_mint A)) (\<lambda>dm.
     signer t (red_signer A)
     (token_program_account E (red_token_program A)
     (seeds_bump E (vault_state_seeds (red_deposit_mint A) (v_vault_version v)) VAULT_PROGRAM_ID
        (red_vault_state A)
     (seeds_bump E (vault_token_seeds (red_deposit_mint A) (v_vault_version v)) VAULT_PROGRAM_ID
        (red_vault_deposit_ata A)
     (token_mint reserve (red_deposit_mint A)
     (token_authority reserve (red_vault_state A)
     (token_mint sender (red_deposit_mint A)
     (token_authority sender (red_signer A)
     (token_mint sender_shares (red_share_mint A)
     (token_authority sender_shares (red_signer A)
     (token_mint fee_account (red_deposit_mint A)
     (token_authority fee_account (v_fee_recipient v)
     (seeds_bump E (share_mint_seeds (red_deposit_mint A) (v_vault_version v)) VAULT_PROGRAM_ID
        (red_share_mint A)
     (mint_decimals sm (mi_decimals dm)
     (mint_authority sm (red_vault_state A)
       (Inr (v, sm, dm)))))))))))))))))))))))"

definition ceil_div :: "u128 \<Rightarrow> u128 \<Rightarrow> u128 option" where
  "ceil_div numerator denominator =
     (case checked_add numerator denominator of
        None \<Rightarrow> None
      | Some a \<Rightarrow> (case checked_sub a 1 of
                    None \<Rightarrow> None
                  | Some b \<Rightarrow> checked_div b denominator))"

text \<open>The fee, and what is left of the assets.\<close>

definition redeem_fees :: "vault_state \<Rightarrow> u64 \<Rightarrow> (u64 \<times> u64) result" where
  "redeem_fees v assets =
     bindR (ok_or (checked_mul (widen assets) (widen32 (v_withdrawal_fee v))) (VaultErr MathError))
       (\<lambda>fee_numerator.
      bindR (ok_or (ceil_div fee_numerator (widen32 FEE_RATE_DENOMINATOR_VALUE))
               (VaultErr MathError)) (\<lambda>q.
      bindR (ok_or (narrow q) (VaultErr NumberOverflow)) (\<lambda>fees.
      bindR (ok_or (checked_sub assets fees) (VaultErr MathError)) (\<lambda>final_amount.
      Inr (fees, final_amount)))))"

definition burn_shares ::
  "env \<Rightarrow> tx \<Rightarrow> redeem_accounts \<Rightarrow> u8 \<Rightarrow> u64 \<Rightarrow> ledger \<Rightarrow> ledger result" where
  "burn_shares E t A decimals shares L =
     token_call (burn_checked E (red_token_program A) (signers t) (red_sender_share_account A)
       (red_share_mint A) (red_signer A) shares decimals L)"

definition redeem_transfer_out ::
  "env \<Rightarrow> tx \<Rightarrow> redeem_accounts \<Rightarrow> vault_state \<Rightarrow> u8 \<Rightarrow> u64 \<Rightarrow> pubkey \<Rightarrow> ledger \<Rightarrow> ledger result" where
  "redeem_transfer_out E t A v decimals amount dst L =
     bindR (pda_signers E t VAULT_PROGRAM_ID (vault_seeds v)) (\<lambda>S.
       token_call (transfer_checked E (red_token_program A) S (red_vault_deposit_ata A)
         (red_deposit_mint A) dst (red_vault_state A) amount decimals L))"

definition redeem_checked ::
  "env \<Rightarrow> tx \<Rightarrow> redeem_accounts \<Rightarrow> u64 \<Rightarrow> u64 \<Rightarrow> world \<Rightarrow> world result" where
  "redeem_checked E t A shares min_assets_out w =
     bindR (redeem_ctx E t A w) (\<lambda>(v, sm, dm).
     require (0 < shares) (VaultErr ZeroAmount)
     (require (\<not> v_paused v) (VaultErr VaultPaused)
     (require (case withdrawal_queue v of None \<Rightarrow> True | Some queue \<Rightarrow> red_signer A = queue)
        (VaultErr WithdrawalQueueRequired)
     (bindR (total_assets v) (\<lambda>total_assets_now.
      bindR (assets_for_redeem v (mi_supply sm) total_assets_now shares) (\<lambda>assets.
      bindR (redeem_fees v assets) (\<lambda>(fees, final_amount).
      require (min_assets_out \<le> final_amount) (VaultErr SlippageExceeded)
     (require (0 < assets) (VaultErr ZeroAmount)
     (require (assets \<le> v_local_aum v) (VaultErr NotEnoughLiquidity)
     (bindR (ok_or (checked_sub (v_local_aum v) assets) (VaultErr MathError)) (\<lambda>local_aum.
      bindR (burn_shares E t A (mi_decimals sm) shares (ledger w)) (\<lambda>L1.
      bindR (redeem_transfer_out E t A v (mi_decimals dm) fees (red_fee_recipient_account A) L1) (\<lambda>L2.
      bindR (redeem_transfer_out E t A v (mi_decimals dm) final_amount (red_sender_token_account A) L2)
        (\<lambda>L3.
      Inr (emit (WithdrawEvt (red_signer A) (red_signer A) (red_signer A) final_amount shares)
            (put_vault (red_vault_state A) (v\<lparr>v_local_aum := local_aum\<rparr>)
              (put_ledger L3 w)))))))))))))))))"

definition redeem :: "env \<Rightarrow> tx \<Rightarrow> redeem_accounts \<Rightarrow> u64 \<Rightarrow> world \<Rightarrow> world result" where
  "redeem E t A shares w = redeem_checked E t A shares 0 w"

section \<open>What a successful call means\<close>

lemma share_offset_update [simp]:
  "share_offset (v\<lparr>v_local_aum := x\<rparr>) = share_offset v"
  "share_offset (v\<lparr>v_deployed_aum := x\<rparr>) = share_offset v"
  by (simp_all add: share_offset_def cong: if_cong)

lemma deposit_ctx_Inr:
  assumes "deposit_ctx E t A w = Inr (v, sm, dm)"
  shows "vaults w (dep_vault_state A) = Some v" and "mints (ledger w) (dep_share_mint A) = Some sm"
    and "mints (ledger w) (dep_deposit_mint A) = Some dm" and "dep_signer A \<in> signers t"
    and "mi_authority sm = Some (dep_vault_state A)" and "mi_decimals sm = mi_decimals dm"
    and "holder (ledger w) (dep_vault_token_ata A) = Some (dep_deposit_mint A, dep_vault_state A)"
    and "holder (ledger w) (dep_sender_token_account A) = Some (dep_deposit_mint A, dep_signer A)"
    and "holder (ledger w) (dep_sender_share_account A) = Some (dep_share_mint A, dep_signer A)"
  using assms by (auto simp: deposit_ctx_def load_simps constraint_simps holder_def)

lemma deposit_checked_cases:
  assumes "deposit_checked E t A amount min_shares_out w = Inr w'"
  obtains v sm dm L assets shares S L' local_aum where
    "deposit_ctx E t A w = Inr (v, sm, dm)" and "amount \<noteq> 0" and "\<not> v_paused v"
    and "mi_supply sm = 0 \<Longrightarrow> min_first_deposit v (mi_decimals dm) \<le> amount"
    and "transfer_checked E (dep_token_program A) (signers t) (dep_sender_token_account A)
       (dep_deposit_mint A) (dep_vault_token_ata A) (dep_signer A) amount (mi_decimals dm) (ledger w)
         = Inr L"
    and "total_assets v = Inr assets"
    and "shares_for_deposit v (mi_supply sm) assets amount = Inr shares"
    and "min_shares_out \<le> shares" and "shares \<noteq> 0"
    and "mi_supply sm = 0 \<Longrightarrow> min_opening_supply v \<le> shares"
    and "pda_signers E t VAULT_PROGRAM_ID (vault_seeds v) = Inr S"
    and "mint_to_checked E (dep_token_program A) S (dep_share_mint A) (dep_sender_share_account A)
       (dep_vault_state A) shares (mi_decimals sm) L = Inr L'"
    and "unat local_aum = unat (v_local_aum v) + unat amount"
    and "w' = emit (DepositEvt (dep_signer A) (dep_signer A) amount shares)
       (put_vault (dep_vault_state A) (v\<lparr>v_local_aum := local_aum\<rparr>) (put_ledger L' w))"
  using assms
  by (auto simp: deposit_checked_def deposit_transfer_in_def deposit_mint_to_def word_gt_0)

lemma redeem_ctx_Inr:
  assumes "redeem_ctx E t A w = Inr (v, sm, dm)"
  shows "vaults w (red_vault_state A) = Some v" and "mints (ledger w) (red_share_mint A) = Some sm"
    and "mints (ledger w) (red_deposit_mint A) = Some dm" and "red_signer A \<in> signers t"
    and "mi_authority sm = Some (red_vault_state A)" and "mi_decimals sm = mi_decimals dm"
    and "holder (ledger w) (red_vault_deposit_ata A) = Some (red_deposit_mint A, red_vault_state A)"
    and "holder (ledger w) (red_sender_token_account A) = Some (red_deposit_mint A, red_signer A)"
    and "holder (ledger w) (red_sender_share_account A) = Some (red_share_mint A, red_signer A)"
    and "holder (ledger w) (red_fee_recipient_account A) =
           Some (red_deposit_mint A, v_fee_recipient v)"
  using assms by (auto simp: redeem_ctx_def load_simps constraint_simps holder_def)

lemma queue_gate:
  "(case q of None \<Rightarrow> True | Some queue \<Rightarrow> k = queue) \<longleftrightarrow> q \<in> {None, Some k}"
  by (auto split: option.splits)

lemma redeem_checked_cases:
  assumes "redeem_checked E t A shares min_assets_out w = Inr w'"
  obtains v sm dm total_now assets fees final_amount S local_aum L1 L2 L3 where
    "redeem_ctx E t A w = Inr (v, sm, dm)" and "shares \<noteq> 0" and "\<not> v_paused v"
    and "withdrawal_queue v \<in> {None, Some (red_signer A)}"
    and "total_assets v = Inr total_now"
    and "assets_for_redeem v (mi_supply sm) total_now shares = Inr assets"
    and "redeem_fees v assets = Inr (fees, final_amount)"
    and "min_assets_out \<le> final_amount" and "assets \<noteq> 0"
    and "unat (v_local_aum v) = unat assets + unat local_aum"
    and "burn_checked E (red_token_program A) (signers t) (red_sender_share_account A)
       (red_share_mint A) (red_signer A) shares (mi_decimals sm) (ledger w) = Inr L1"
    and "pda_signers E t VAULT_PROGRAM_ID (vault_seeds v) = Inr S"
    and "transfer_checked E (red_token_program A) S (red_vault_deposit_ata A) (red_deposit_mint A)
       (red_fee_recipient_account A) (red_vault_state A) fees (mi_decimals dm) L1 = Inr L2"
    and "transfer_checked E (red_token_program A) S (red_vault_deposit_ata A) (red_deposit_mint A)
       (red_sender_token_account A) (red_vault_state A) final_amount (mi_decimals dm) L2 = Inr L3"
    and "w' = emit (WithdrawEvt (red_signer A) (red_signer A) (red_signer A) final_amount shares)
       (put_vault (red_vault_state A) (v\<lparr>v_local_aum := local_aum\<rparr>) (put_ledger L3 w))"
  using assms
  by (auto simp: redeem_checked_def burn_shares_def redeem_transfer_out_def word_gt_0 queue_gate)

text \<open>The fee: the rate's share of the assets, rounded up.\<close>

lemma unat_ceil_div:
  assumes "unat n + unat d < 2 ^ 128" and "d \<noteq> 0"
  shows "\<exists>q. ceil_div n d = Some q \<and> unat q = (unat n + unat d - 1) div unat d"
proof -
  obtain a where a: "checked_add n d = Some a" and ua: "unat a = unat n + unat d"
    by (rule checked_add_fits [of n d]) (use assms(1) in simp)
  have "1 \<le> unat d" using assms(2) by (simp add: Suc_le_eq)
  then have b: "checked_sub a 1 = Some (a - 1)"
    using ua unat_sub_le [of 1 a] by (simp add: word_le_nat_alt)
  then have ub: "unat (a - 1) = unat n + unat d - 1" using ua by simp
  obtain q where q: "checked_div (a - 1) d = Some q" "unat q = unat (a - 1) div unat d"
    by (rule checked_div_fits [of d "a - 1"]) (use assms(2) in simp)
  have "ceil_div n d = Some q" by (simp add: ceil_div_def a b q(1))
  then show ?thesis using q(2) ub by simp
qed

lemma widen32_eq_0 [simp]: "widen32 x = 0 \<longleftrightarrow> x = 0"
  by (metis unat_widen32 unat_eq_zero)

lemma redeem_fees_Inr:
  "redeem_fees v a = Inr (f, n) \<longleftrightarrow>
     unat f = (unat a * unat (v_withdrawal_fee v) + 999999) div 1000000 \<and>
     unat a = unat f + unat n"
proof -
  let ?w = "unat a * unat (v_withdrawal_fee v)"
  have "?w < 2 ^ 64 * 2 ^ 32" by (intro mult_strict_mono) simp_all
  then have w: "?w < 79228162514264337593543950336" by simp
  have "unat (widen a) * unat (widen32 (v_withdrawal_fee v)) < 2 ^ LENGTH(128)" using w by simp
  then obtain p where p: "checked_mul (widen a) (widen32 (v_withdrawal_fee v)) = Some p"
    and up: "unat p = unat (widen a) * unat (widen32 (v_withdrawal_fee v))"
    by (rule checked_mul_fits)
  obtain q where q: "ceil_div p (widen32 FEE_RATE_DENOMINATOR_VALUE) = Some q"
    and uq: "unat q = (unat p + unat (widen32 FEE_RATE_DENOMINATOR_VALUE) - 1) div
                       unat (widen32 FEE_RATE_DENOMINATOR_VALUE)"
    using unat_ceil_div [of p "widen32 FEE_RATE_DENOMINATOR_VALUE"] up w
    by (auto simp: vault_constants)
  have "unat q = (?w + 999999) div 1000000" using uq up by (simp add: vault_constants)
  then show ?thesis
    by (auto simp: redeem_fees_def p q)
qed

section \<open>What a call does to the ledger\<close>

text \<open>
  Deposited: the amount moved from the depositor to the reserve, the shares minted to the depositor.
  Redeemed: the shares burned, then the fee and the rest paid out of the reserve.
\<close>

definition deposited :: "deposit_accounts \<Rightarrow> u64 \<Rightarrow> u64 \<Rightarrow> ledger \<Rightarrow> ledger \<Rightarrow> bool" where
  "deposited A amount shares L L' \<longleftrightarrow>
     moved L L' \<and> unat amount \<le> balance L (dep_sender_token_account A) \<and>
     balance L' = credit (dep_sender_share_account A) (unat shares)
       (move (dep_sender_token_account A) (dep_vault_token_ata A) (unat amount) (balance L)) \<and>
     supply_of L' = credit (dep_share_mint A) (unat shares) (supply_of L)"

definition redeemed :: "redeem_accounts \<Rightarrow> u64 \<Rightarrow> u64 \<Rightarrow> u64 \<Rightarrow> ledger \<Rightarrow> ledger \<Rightarrow> bool" where
  "redeemed A shares fees net L L' \<longleftrightarrow>
     moved L L' \<and> unat shares \<le> balance L (red_sender_share_account A) \<and>
     unat shares \<le> supply_of L (red_share_mint A) \<and>
     balance L' =
       move (red_vault_deposit_ata A) (red_sender_token_account A) (unat net)
         (move (red_vault_deposit_ata A) (red_fee_recipient_account A) (unat fees)
           (debit (red_sender_share_account A) (unat shares) (balance L))) \<and>
     supply_of L' = debit (red_share_mint A) (unat shares) (supply_of L)"

lemma deposit_effect:
  assumes laws: "spl_laws E" "plain E (ledger w) (dep_deposit_mint A)"
      "plain E (ledger w) (dep_share_mint A)"
    and ok: "deposit_checked E t A amount min_shares_out w = Inr w'"
  obtains v sm dm T shares local_aum where
    "deposit_ctx E t A w = Inr (v, sm, dm)" and "\<not> v_paused v" and "total_assets v = Inr T"
    and "shares_for_deposit v (mi_supply sm) T amount = Inr shares"
    and "min_shares_out \<le> shares" and "0 < shares"
    and "mi_supply sm = 0 \<Longrightarrow> min_opening_supply v \<le> shares"
    and "deposited A amount shares (ledger w) (ledger w')"
    and "unat local_aum = unat (v_local_aum v) + unat amount"
    and "w' = w\<lparr>ledger := ledger w',
             vaults := (vaults w)(dep_vault_state A \<mapsto> v\<lparr>v_local_aum := local_aum\<rparr>),
             events := events w @ [DepositEvt (dep_signer A) (dep_signer A) amount shares]\<rparr>"
  using ok
proof (cases rule: deposit_checked_cases)
  case (1 v sm dm L T shares S L' local_aum)
  note t1 = transfer_effect [OF laws(1,2) 1(5)]
  have "plain E L (dep_share_mint A)" using laws(3) moved_plain [OF t1(1)] by simp
  note t2 = mint_effect [OF laws(1) this 1(12)]
  have lw: "ledger w' = L'" unfolding 1(14) by (simp add: world_updates)
  have "deposited A amount shares (ledger w) L'"
    unfolding deposited_def t2(3,4) t1(5) supply_same [OF t1(2)]
    using moved_trans [OF t1(1) t2(1)] t1(4) by simp
  moreover have "w' = w\<lparr>ledger := L',
       vaults := (vaults w)(dep_vault_state A \<mapsto> v\<lparr>v_local_aum := local_aum\<rparr>),
       events := events w @ [DepositEvt (dep_signer A) (dep_signer A) amount shares]\<rparr>"
    unfolding 1(14) by (simp add: world_updates)
  ultimately show ?thesis
    using 1(9) by (intro that [OF 1(1,3,6-8) _ 1(10) _ 1(13)]) (simp_all add: lw word_gt_0)
qed

lemma redeem_effect:
  assumes laws: "spl_laws E" "plain E (ledger w) (red_deposit_mint A)"
      "plain E (ledger w) (red_share_mint A)"
    and ok: "redeem_checked E t A shares min_assets_out w = Inr w'"
  obtains v sm dm T assets fees net local_aum where
    "redeem_ctx E t A w = Inr (v, sm, dm)" and "\<not> v_paused v"
    and "withdrawal_queue v \<in> {None, Some (red_signer A)}"
    and "total_assets v = Inr T" and "assets_for_redeem v (mi_supply sm) T shares = Inr assets"
    and "unat fees = (unat assets * unat (v_withdrawal_fee v) + 999999) div 1000000"
    and "unat assets = unat fees + unat net" and "min_assets_out \<le> net"
    and "redeemed A shares fees net (ledger w) (ledger w')"
    and "unat (v_local_aum v) = unat assets + unat local_aum"
    and "w' = w\<lparr>ledger := ledger w',
             vaults := (vaults w)(red_vault_state A \<mapsto> v\<lparr>v_local_aum := local_aum\<rparr>),
             events := events w @
               [WithdrawEvt (red_signer A) (red_signer A) (red_signer A) net shares]\<rparr>"
  using ok
proof (cases rule: redeem_checked_cases)
  case (1 v sm dm T assets fees net S local_aum L1 L2 L3)
  note b = burn_effect [OF laws(1,3) 1(11)]
  have "plain E L1 (red_deposit_mint A)" using laws(2) moved_plain [OF b(1)] by simp
  note t1 = transfer_effect [OF laws(1) this 1(13)]
  have "plain E L2 (red_deposit_mint A)"
    using laws(2) moved_plain [OF b(1)] moved_plain [OF t1(1)] by simp
  note t2 = transfer_effect [OF laws(1) this 1(14)]
  have lw: "ledger w' = L3" unfolding 1(15) by (simp add: world_updates)
  have "redeemed A shares fees net (ledger w) (ledger w')"
    unfolding redeemed_def lw t2(5) t1(5) b(5) supply_same [OF t2(2)] supply_same [OF t1(2)] b(6)
    using moved_trans [OF b(1) moved_trans [OF t1(1) t2(1)]] b(3,4) by simp
  moreover have "w' = w\<lparr>ledger := ledger w',
       vaults := (vaults w)(red_vault_state A \<mapsto> v\<lparr>v_local_aum := local_aum\<rparr>),
       events := events w @ [WithdrawEvt (red_signer A) (red_signer A) (red_signer A) net shares]\<rparr>"
    unfolding lw unfolding 1(15) by (simp add: world_updates)
  ultimately show ?thesis
    using 1(7) [unfolded redeem_fees_Inr] that [OF 1(1,3,4,5,6) _ _ 1(8) _ 1(10)] by blast
qed

text \<open>
  C22. A deposit moves exactly the amount from the depositor to the reserve, mints exactly the priced
  shares to the depositor, raises the vault's local assets by the amount and touches no other
  balance, supply or account; the shares are at least the floor the caller named and not zero.
\<close>

theorem deposit_effects:
  assumes "spl_laws E" and "plain E (ledger w) (dep_deposit_mint A)"
    and "plain E (ledger w) (dep_share_mint A)"
    and "deposit_checked E t A amount min_shares_out w = Inr w'"
    and "vaults w (dep_vault_state A) = Some v" and "mints (ledger w) (dep_share_mint A) = Some sm"
  shows "\<exists>T shares local_aum.
      total_assets v = Inr T \<and> shares_for_deposit v (mi_supply sm) T amount = Inr shares \<and>
      min_shares_out \<le> shares \<and> 0 < shares \<and> dep_signer A \<in> signers t \<and>
      deposited A amount shares (ledger w) (ledger w') \<and>
      unat local_aum = unat (v_local_aum v) + unat amount \<and>
      w' = w\<lparr>ledger := ledger w',
             vaults := (vaults w)(dep_vault_state A \<mapsto> v\<lparr>v_local_aum := local_aum\<rparr>),
             events := events w @ [DepositEvt (dep_signer A) (dep_signer A) amount shares]\<rparr>"
  using deposit_effect [OF assms(1-4)]
proof cases
  case (1 v0 sm0 dm T shares local_aum)
  note c = deposit_ctx_Inr [OF 1(1)]
  have eq: "v0 = v" "sm0 = sm" using c(1,2) assms(5,6) by simp_all
  show ?thesis using 1(3-6,8-10) [unfolded eq] c(4) by blast
qed

text \<open>
  C23. A redemption burns exactly the shares named, takes exactly their price out of the vault's local
  assets and pays it all out of the reserve: the rate's share, rounded up, to the fee recipient, the
  rest to the redeemer, who gets at least the floor he named. Nothing else changes.
\<close>

theorem redeem_effects:
  assumes "spl_laws E" and "plain E (ledger w) (red_deposit_mint A)"
    and "plain E (ledger w) (red_share_mint A)"
    and "redeem_checked E t A shares min_assets_out w = Inr w'"
    and "vaults w (red_vault_state A) = Some v" and "mints (ledger w) (red_share_mint A) = Some sm"
  shows "\<exists>T assets fees net local_aum.
      total_assets v = Inr T \<and> assets_for_redeem v (mi_supply sm) T shares = Inr assets \<and>
      unat fees = (unat assets * unat (v_withdrawal_fee v) + 999999) div 1000000 \<and>
      unat assets = unat fees + unat net \<and> min_assets_out \<le> net \<and> red_signer A \<in> signers t \<and>
      redeemed A shares fees net (ledger w) (ledger w') \<and>
      unat (v_local_aum v) = unat assets + unat local_aum \<and>
      w' = w\<lparr>ledger := ledger w',
             vaults := (vaults w)(red_vault_state A \<mapsto> v\<lparr>v_local_aum := local_aum\<rparr>),
             events := events w @
               [WithdrawEvt (red_signer A) (red_signer A) (red_signer A) net shares]\<rparr>"
  using redeem_effect [OF assms(1-4)]
proof cases
  case (1 v0 sm0 dm T assets fees net local_aum)
  note c = redeem_ctx_Inr [OF 1(1)]
  have eq: "v0 = v" "sm0 = sm" using c(1,2) assms(5,6) by simp_all
  show ?thesis using 1(4-11) [unfolded eq] c(4) by blast
qed

section \<open>The vault as a pool\<close>

text \<open>
  What a vault promises, without accounts: shares outstanding, assets at hand and deployed, the
  reserve that backs them. A deposit and a redemption are two functions of it, and the instructions
  implement them.
\<close>

record pool =
  p_supply :: nat
  p_local :: nat
  p_deployed :: nat
  p_reserve :: nat

definition pool_of :: "vault_state \<Rightarrow> ledger \<Rightarrow> pubkey \<Rightarrow> pubkey \<Rightarrow> pool" where
  "pool_of v L share_mint reserve =
     \<lparr>p_supply = supply_of L share_mint, p_local = unat (v_local_aum v),
      p_deployed = unat (v_deployed_aum v), p_reserve = balance L reserve\<rparr>"

definition pool_deposit :: "nat \<Rightarrow> nat \<Rightarrow> pool \<Rightarrow> pool" where
  "pool_deposit off x p =
     p\<lparr>p_supply := p_supply p + deposit_quote (p_supply p) (p_local p + p_deployed p) x off,
       p_local := p_local p + x, p_reserve := p_reserve p + x\<rparr>"

definition pool_redeem :: "nat \<Rightarrow> nat \<Rightarrow> pool \<Rightarrow> pool" where
  "pool_redeem off s p =
     (let a = redeem_quote (p_supply p) (p_local p + p_deployed p) s off
      in p\<lparr>p_supply := p_supply p - s, p_local := p_local p - a, p_reserve := p_reserve p - a\<rparr>)"

lemma total_assets_Inr: "total_assets v = Inr T \<longleftrightarrow> unat T = unat (v_local_aum v) + unat (v_deployed_aum v)"
  by (simp add: total_assets_def)

lemma shares_for_deposit_quote:
  "shares_for_deposit v S T x = Inr m \<Longrightarrow>
     unat m = deposit_quote (unat S) (unat T) (unat x) (unat (share_offset v))"
  unfolding shares_for_deposit_def by (rule deposit_Inr(3))

lemma assets_for_redeem_quote:
  "assets_for_redeem v S T s = Inr a \<Longrightarrow>
     unat a = redeem_quote (unat S) (unat T) (unat s) (unat (share_offset v))"
  unfolding assets_for_redeem_def by (rule redeem_Inr(3))

lemma deposit_accounts_distinct:
  assumes "deposit_ctx E t A w = Inr (v, sm, dm)"
    and "dep_share_mint A \<noteq> dep_deposit_mint A" and "dep_signer A \<noteq> dep_vault_state A"
  shows "dep_sender_share_account A \<noteq> dep_vault_token_ata A"
    and "dep_sender_share_account A \<noteq> dep_sender_token_account A"
    and "dep_sender_token_account A \<noteq> dep_vault_token_ata A"
  using deposit_ctx_Inr(7-9) [OF assms(1)] assms(2,3) by auto

lemma redeem_accounts_distinct:
  assumes "redeem_ctx E t A w = Inr (v, sm, dm)"
    and "red_share_mint A \<noteq> red_deposit_mint A" and "red_signer A \<noteq> red_vault_state A"
  shows "red_sender_share_account A \<noteq> red_vault_deposit_ata A"
    and "red_sender_share_account A \<noteq> red_sender_token_account A"
    and "red_sender_token_account A \<noteq> red_vault_deposit_ata A"
    and "red_sender_share_account A \<noteq> red_fee_recipient_account A"
    and "v_fee_recipient v \<noteq> red_vault_state A \<Longrightarrow>
           red_fee_recipient_account A \<noteq> red_vault_deposit_ata A"
  using redeem_ctx_Inr(7-10) [OF assms(1)] assms(2,3) by auto

text \<open>
  C24. A deposit refines \<open>pool_deposit\<close>: supply, local assets and reserve move together, and the
  supply by the exact quote.
\<close>

theorem deposit_refines_pool:
  assumes "spl_laws E" and "plain E (ledger w) (dep_deposit_mint A)"
    and "plain E (ledger w) (dep_share_mint A)"
    and "deposit_checked E t A amount min_shares_out w = Inr w'"
    and "dep_share_mint A \<noteq> dep_deposit_mint A" and "dep_signer A \<noteq> dep_vault_state A"
    and "vaults w (dep_vault_state A) = Some v"
  shows "\<exists>v'. vaults w' (dep_vault_state A) = Some v' \<and>
      pool_of v' (ledger w') (dep_share_mint A) (dep_vault_token_ata A) =
      pool_deposit (unat (share_offset v)) (unat amount)
        (pool_of v (ledger w) (dep_share_mint A) (dep_vault_token_ata A))"
  using deposit_effect [OF assms(1-4)]
proof cases
  case (1 v0 sm dm T shares local_aum)
  note c = deposit_ctx_Inr [OF 1(1)]
  have eq: "v0 = v" using c(1) assms(7) by simp
  note d = deposit_accounts_distinct [OF 1(1) assms(5,6)]
  note q = shares_for_deposit_quote [OF 1(4) [unfolded eq]]
  have "unat T = unat (v_local_aum v) + unat (v_deployed_aum v)"
    using 1(3) by (simp add: total_assets_Inr eq)
  then have "pool_of (v\<lparr>v_local_aum := local_aum\<rparr>) (ledger w') (dep_share_mint A) (dep_vault_token_ata A) =
      pool_deposit (unat (share_offset v)) (unat amount)
        (pool_of v (ledger w) (dep_share_mint A) (dep_vault_token_ata A))"
    using 1(8,9) q d supply_Some [OF c(2)]
    by (simp add: pool_of_def pool_deposit_def deposited_def eq)
  moreover have "vaults w' (dep_vault_state A) = Some (v\<lparr>v_local_aum := local_aum\<rparr>)"
    by (subst 1(10)) (simp add: eq)
  ultimately show ?thesis by blast
qed

text \<open>
  C25. A redemption refines \<open>pool_redeem\<close>: fee and payout together are exactly the quote, and leave
  reserve and local assets by that much.
\<close>

theorem redeem_refines_pool:
  assumes "spl_laws E" and "plain E (ledger w) (red_deposit_mint A)"
    and "plain E (ledger w) (red_share_mint A)"
    and "redeem_checked E t A shares min_assets_out w = Inr w'"
    and "red_share_mint A \<noteq> red_deposit_mint A" and "red_signer A \<noteq> red_vault_state A"
    and "vaults w (red_vault_state A) = Some v" and "v_fee_recipient v \<noteq> red_vault_state A"
  shows "\<exists>v'. vaults w' (red_vault_state A) = Some v' \<and>
      pool_of v' (ledger w') (red_share_mint A) (red_vault_deposit_ata A) =
      pool_redeem (unat (share_offset v)) (unat shares)
        (pool_of v (ledger w) (red_share_mint A) (red_vault_deposit_ata A))"
  using redeem_effect [OF assms(1-4)]
proof cases
  case (1 v0 sm dm T assets fees net local_aum)
  note c = redeem_ctx_Inr [OF 1(1)]
  have eq: "v0 = v" using c(1) assms(7) by simp
  note d = redeem_accounts_distinct [OF 1(1) assms(5,6)]
  note q = assets_for_redeem_quote [OF 1(5) [unfolded eq]]
  have T: "unat T = unat (v_local_aum v) + unat (v_deployed_aum v)"
    using 1(4) by (simp add: total_assets_Inr eq)
  have "balance (ledger w') (red_vault_deposit_ata A) =
      balance (ledger w) (red_vault_deposit_ata A) - unat assets"
    using 1(7,9) d(1-4) d(5) [unfolded eq, OF assms(8)]
    by (simp add: redeemed_def not_sym)
  moreover have "supply_of (ledger w') (red_share_mint A) = supply_of (ledger w) (red_share_mint A) - unat shares"
    using 1(9) by (simp add: redeemed_def)
  moreover have "unat (v_local_aum v) - unat assets = unat local_aum" using 1(10) eq by simp
  ultimately have "pool_of (v\<lparr>v_local_aum := local_aum\<rparr>) (ledger w') (red_share_mint A) (red_vault_deposit_ata A) =
      pool_redeem (unat (share_offset v)) (unat shares)
        (pool_of v (ledger w) (red_share_mint A) (red_vault_deposit_ata A))"
    using q T supply_Some [OF c(2)]
    by (simp add: pool_of_def pool_redeem_def Let_def)
  moreover have "vaults w' (red_vault_state A) = Some (v\<lparr>v_local_aum := local_aum\<rparr>)"
    by (subst 1(11)) (simp add: eq)
  ultimately show ?thesis by blast
qed

text \<open>
  C12. The gate: while a vault stores a queue authority, nobody redeems from it but that key, and only
  with its signature.
\<close>

theorem redeem_gate:
  assumes "redeem_checked E t A shares min_assets_out w = Inr w'"
    and "vaults w (red_vault_state A) = Some v" and "requires_withdrawal_queue v"
  shows "red_signer A = v_withdrawal_queue_authority v \<and> v_withdrawal_queue_authority v \<in> signers t"
  using assms(1)
proof (cases rule: redeem_checked_cases)
  case (1 v0 sm dm T assets fees net S local_aum L1 L2 L3)
  note c = redeem_ctx_Inr [OF 1(1)]
  show ?thesis
    using 1(4) c(1,4) assms(2,3)
    by (auto simp: requires_withdrawal_queue_def withdrawal_queue_def split: if_splits)
qed

text \<open>
  The opening supply: a deposit into a vault without shares leaves at least a hundred times the
  offset outstanding, so the offset's own claim stays at most one percent.
\<close>

theorem opening_supply:
  assumes "spl_laws E" and "plain E (ledger w) (dep_deposit_mint A)"
    and "plain E (ledger w) (dep_share_mint A)"
    and "deposit_checked E t A amount min_shares_out w = Inr w'"
    and "vaults w (dep_vault_state A) = Some v" and "share_offset v \<le> MAX_SHARE_OFFSET"
    and "supply_of (ledger w) (dep_share_mint A) = 0"
  shows "100 * unat (share_offset v) \<le> supply_of (ledger w') (dep_share_mint A)"
  using deposit_effect [OF assms(1-4)]
proof cases
  case (1 v0 sm dm T shares local_aum)
  note c = deposit_ctx_Inr [OF 1(1)]
  have eq: "v0 = v" using c(1) assms(5) by simp
  have "mi_supply sm = 0" using supply_Some [OF c(2)] assms(7) by simp
  then have "unat (min_opening_supply v) \<le> unat shares" using 1(7) by (simp add: eq word_le_nat_alt)
  moreover have "100 * unat (share_offset v) \<le> 100 * 1000000"
    using assms(6) by (simp add: vault_constants word_le_nat_alt)
  ultimately have "100 * unat (share_offset v) \<le> unat shares" by (simp add: unat_min_opening_supply)
  then show ?thesis using 1(8) assms(7) by (simp add: deposited_def)
qed

text \<open>
  In and out again: a user who deposits and then redeems exactly the shares he was given ends
  with no more tokens than he started with, whoever receives the fee.
\<close>

theorem user_round_trip:
  assumes laws: "spl_laws E" "plain E (ledger w) (dep_deposit_mint A)"
      "plain E (ledger w) (dep_share_mint A)"
    and d: "deposit_checked E t A amount min_shares_out w = Inr w1"
    and r: "redeem_checked E t' B s min_assets_out w1 = Inr w2"
    and same: "red_vault_state B = dep_vault_state A" "red_share_mint B = dep_share_mint A"
      "red_deposit_mint B = dep_deposit_mint A"
      "red_sender_token_account B = dep_sender_token_account A"
    and ne: "dep_share_mint A \<noteq> dep_deposit_mint A" "dep_signer A \<noteq> dep_vault_state A"
    and s: "unat s = supply_of (ledger w1) (dep_share_mint A) - supply_of (ledger w) (dep_share_mint A)"
  shows "balance (ledger w2) (dep_sender_token_account A) \<le>
         balance (ledger w) (dep_sender_token_account A)"
proof -
  obtain v sm dm T shares local_aum where c: "deposit_ctx E t A w = Inr (v, sm, dm)"
    and T: "total_assets v = Inr T" and m: "shares_for_deposit v (mi_supply sm) T amount = Inr shares"
    and dep: "deposited A amount shares (ledger w) (ledger w1)"
    and la: "unat local_aum = unat (v_local_aum v) + unat amount"
    and w1: "w1 = w\<lparr>ledger := ledger w1,
             vaults := (vaults w)(dep_vault_state A \<mapsto> v\<lparr>v_local_aum := local_aum\<rparr>),
             events := events w @ [DepositEvt (dep_signer A) (dep_signer A) amount shares]\<rparr>"
    using deposit_effect [OF laws d] by metis
  have mv: "moved (ledger w) (ledger w1)" using dep by (simp add: deposited_def)
  have "plain E (ledger w1) (red_deposit_mint B)" "plain E (ledger w1) (red_share_mint B)"
    using laws(2,3) moved_plain [OF mv] same by simp_all
  from redeem_effect [OF laws(1) this r] show ?thesis
  proof cases
    case (1 v' sm' dm' T' assets fees net local_aum')
    note c1 = deposit_ctx_Inr [OF c] and c2 = redeem_ctx_Inr [OF 1(1)]
    have v': "v' = v\<lparr>v_local_aum := local_aum\<rparr>"
      using c2(1) by (subst (asm) w1) (simp add: same)
    then have p: "assets_for_redeem v (mi_supply sm') T' s = Inr assets"
      using 1(5) by (simp add: assets_for_redeem_def)
    have ss: "unat s = unat shares" using s dep by (simp add: deposited_def)
    have "unat (mi_supply sm') = unat (mi_supply sm) + unat s"
      using supply_Some [OF c2(2)] supply_Some [OF c1(2)] dep ss same by (simp add: deposited_def)
    moreover have "unat T' = unat T + unat amount"
      using 1(4) T la by (simp add: total_assets_Inr v')
    ultimately have "unat assets \<le> unat amount"
      using vault_pricing.deposit_then_redeem [OF m p [unfolded unat_eqD [OF ss]]] ss by simp
    moreover have "red_signer B = dep_signer A"
      using c2(8) c1(8) mv same by (simp add: moved_def)
    then have "balance (ledger w2) (dep_sender_token_account A) \<le>
        balance (ledger w1) (dep_sender_token_account A) + unat fees + unat net"
      using redeem_accounts_distinct [OF 1(1)] ne same 1(9)
      by (auto simp: redeemed_def move_def debit_def)
    moreover have "balance (ledger w1) (dep_sender_token_account A) + unat amount =
        balance (ledger w) (dep_sender_token_account A)"
      using dep deposit_accounts_distinct [OF c ne] by (simp add: deposited_def not_sym)
    ultimately show ?thesis using 1(7) by linarith
  qed
qed

section \<open>Witnesses\<close>

definition ex_deposit :: deposit_accounts where
  "ex_deposit =
     \<lparr>dep_vault_state = ex_vault, dep_vault_token_ata = ex_reserve,
      dep_sender_token_account = ex_user_tokens, dep_sender_share_account = ex_user_shares,
      dep_share_mint = ex_share_mint, dep_deposit_mint = ex_mint, dep_signer = ex_user,
      dep_token_program = 1\<rparr>"

definition ex_redeem :: redeem_accounts where
  "ex_redeem =
     \<lparr>red_vault_state = ex_vault, red_vault_deposit_ata = ex_reserve,
      red_sender_token_account = ex_user_tokens, red_sender_share_account = ex_user_shares,
      red_fee_recipient_account = ex_fee_tokens, red_share_mint = ex_share_mint,
      red_deposit_mint = ex_mint, red_signer = ex_user, red_token_program = 1\<rparr>"

definition ex_deposited :: world where
  "ex_deposited =
     (case deposit_checked ref_env (ex_tx ex_user) ex_deposit 2001000 1000750 ex_world of
        Inl _ \<Rightarrow> ex_world | Inr w \<Rightarrow> w)"

definition ex_redeemed :: world where
  "ex_redeemed =
     (case redeem_checked ref_env (ex_tx ex_user) ex_redeem 1000750 1990000 ex_deposited of
        Inl _ \<Rightarrow> ex_world | Inr w \<Rightarrow> w)"

lemma ex_deposit_ok:
  "deposit_checked ref_env (ex_tx ex_user) ex_deposit 2001000 1000750 ex_world = Inr ex_deposited"
proof -
  have "is_ok (deposit_checked ref_env (ex_tx ex_user) ex_deposit 2001000 1000750 ex_world)"
    by code_simp
  then show ?thesis by (auto simp: ex_deposited_def is_ok_iff)
qed

lemma ex_redeem_ok:
  "redeem_checked ref_env (ex_tx ex_user) ex_redeem 1000750 1990000 ex_deposited = Inr ex_redeemed"
proof -
  have "is_ok (redeem_checked ref_env (ex_tx ex_user) ex_redeem 1000750 1990000 ex_deposited)"
    by code_simp
  then show ?thesis by (auto simp: ex_redeemed_def is_ok_iff)
qed

lemma ex_deposit_facts:
  "plain ref_env (ledger ex_world) (dep_deposit_mint ex_deposit)"
  "plain ref_env (ledger ex_world) (dep_share_mint ex_deposit)"
  "vaults ex_world (dep_vault_state ex_deposit) = Some ex_vault_state"
  "dep_share_mint ex_deposit \<noteq> dep_deposit_mint ex_deposit"
  "dep_signer ex_deposit \<noteq> dep_vault_state ex_deposit"
  using ex_plain
  by (simp_all add: ex_deposit_def ex_world_def ex_share_mint_def ex_mint_def ex_user_def ex_vault_def)

theorem deposit_effects_witness:
  "\<exists>shares. 1000750 \<le> shares \<and> deposited ex_deposit 2001000 shares (ledger ex_world) (ledger ex_deposited)"
proof -
  obtain sm where "mints (ledger ex_world) (dep_share_mint ex_deposit) = Some sm"
    using ex_deposit_facts(2) by (rule plainE)
  from deposit_effects [OF ref_spl_laws ex_deposit_facts(1,2) ex_deposit_ok ex_deposit_facts(3) this]
  show ?thesis by blast
qed

theorem deposit_refines_pool_witness:
  "\<exists>v'. vaults ex_deposited (dep_vault_state ex_deposit) = Some v' \<and>
      pool_of v' (ledger ex_deposited) (dep_share_mint ex_deposit) (dep_vault_token_ata ex_deposit) =
      pool_deposit (unat (share_offset ex_vault_state)) (unat (2001000 :: u64))
        (pool_of ex_vault_state (ledger ex_world) (dep_share_mint ex_deposit)
          (dep_vault_token_ata ex_deposit))"
  by (rule deposit_refines_pool [OF ref_spl_laws ex_deposit_facts(1,2) ex_deposit_ok
        ex_deposit_facts(4,5,3)])

lemma ex_deposited_moved: "moved (ledger ex_world) (ledger ex_deposited)"
  using deposit_effect [OF ref_spl_laws ex_deposit_facts(1,2) ex_deposit_ok]
  by (auto simp: deposited_def)

lemma ex_redeem_facts:
  "plain ref_env (ledger ex_deposited) (red_deposit_mint ex_redeem)"
  "plain ref_env (ledger ex_deposited) (red_share_mint ex_redeem)"
  "red_share_mint ex_redeem \<noteq> red_deposit_mint ex_redeem"
  "red_signer ex_redeem \<noteq> red_vault_state ex_redeem"
  using moved_plain [OF ex_deposited_moved] ex_deposit_facts(1,2)
  by (simp_all add: ex_redeem_def ex_deposit_def ex_share_mint_def ex_mint_def ex_user_def ex_vault_def)

lemma ex_redeemed_vault:
  "\<exists>v. vaults ex_deposited (red_vault_state ex_redeem) = Some v \<and>
       v_fee_recipient v = ex_fee_recipient \<and> v_fee_recipient v \<noteq> red_vault_state ex_redeem"
  using deposit_effect [OF ref_spl_laws ex_deposit_facts(1,2) ex_deposit_ok]
proof cases
  case (1 v sm dm T shares local_aum)
  have "v = ex_vault_state" using deposit_ctx_Inr(1) [OF 1(1)] ex_deposit_facts(3) by simp
  then have "vaults ex_deposited (red_vault_state ex_redeem) =
      Some (ex_vault_state\<lparr>v_local_aum := local_aum\<rparr>)"
    by (subst 1(10)) (simp add: ex_redeem_def ex_deposit_def)
  then show ?thesis
    by (simp add: ex_vault_state_def ex_redeem_def ex_fee_recipient_def ex_vault_def)
qed

theorem redeem_effects_witness:
  "\<exists>fees net. 1990000 \<le> net \<and>
     redeemed ex_redeem 1000750 fees net (ledger ex_deposited) (ledger ex_redeemed)"
proof -
  obtain sm where sm: "mints (ledger ex_deposited) (red_share_mint ex_redeem) = Some sm"
    using ex_redeem_facts(2) by (rule plainE)
  obtain v where v: "vaults ex_deposited (red_vault_state ex_redeem) = Some v"
    using ex_redeemed_vault by blast
  from redeem_effects [OF ref_spl_laws ex_redeem_facts(1,2) ex_redeem_ok v sm] show ?thesis by blast
qed

theorem redeem_refines_pool_witness:
  "\<exists>v v'. vaults ex_deposited (red_vault_state ex_redeem) = Some v \<and>
      vaults ex_redeemed (red_vault_state ex_redeem) = Some v' \<and>
      pool_of v' (ledger ex_redeemed) (red_share_mint ex_redeem) (red_vault_deposit_ata ex_redeem) =
      pool_redeem (unat (share_offset v)) (unat (1000750 :: u64))
        (pool_of v (ledger ex_deposited) (red_share_mint ex_redeem) (red_vault_deposit_ata ex_redeem))"
proof -
  obtain v where v: "vaults ex_deposited (red_vault_state ex_redeem) = Some v"
    "v_fee_recipient v \<noteq> red_vault_state ex_redeem"
    using ex_redeemed_vault by blast
  then show ?thesis
    using redeem_refines_pool [OF ref_spl_laws ex_redeem_facts(1,2) ex_redeem_ok ex_redeem_facts(3,4) v]
    by blast
qed

lemma ex_deposited_shares:
  "deposited ex_deposit 2001000 1000750 (ledger ex_world) (ledger ex_deposited)"
  using deposit_effect [OF ref_spl_laws ex_deposit_facts(1,2) ex_deposit_ok]
proof cases
  case (1 v sm dm T shares local_aum)
  have v: "v = ex_vault_state" using deposit_ctx_Inr(1) [OF 1(1)] ex_deposit_facts(3) by simp
  have "mi_supply sm = 2000000000"
    using deposit_ctx_Inr(2) [OF 1(1)]
    by (auto simp: ex_world_def ex_ledger_def ex_deposit_def ex_share_mint_def ex_mint_def)
  moreover have "T = 4000000000"
    using 1(3) by (intro unat_eqD) (simp add: total_assets_Inr v ex_vault_state_def)
  moreover have "shares_for_deposit ex_vault_state 2000000000 4000000000 2001000 = Inr 1000750"
    by code_simp
  ultimately have "shares = 1000750" using 1(4) v by simp
  then show ?thesis using 1(8) by simp
qed

theorem user_round_trip_witness:
  "balance (ledger ex_redeemed) (dep_sender_token_account ex_deposit) \<le>
   balance (ledger ex_world) (dep_sender_token_account ex_deposit)"
proof (rule user_round_trip [OF ref_spl_laws ex_deposit_facts(1,2) ex_deposit_ok ex_redeem_ok])
  show "unat (1000750 :: u64) =
      supply_of (ledger ex_deposited) (dep_share_mint ex_deposit) -
      supply_of (ledger ex_world) (dep_share_mint ex_deposit)"
    using ex_deposited_shares by (simp add: deposited_def)
qed (use ex_deposit_facts in \<open>simp_all add: ex_redeem_def ex_deposit_def\<close>)

text \<open>A vault gated by \<open>ex_queue\<close>, which holds shares of its own; and one with no shares yet.\<close>

definition ex_gated :: world where
  "ex_gated =
     ex_world\<lparr>vaults := [ex_vault \<mapsto> ex_vault_state\<lparr>v_withdrawal_queue_authority := ex_user\<rparr>]\<rparr>"

theorem redeem_gate_witness:
  "is_ok (redeem_checked ref_env (ex_tx ex_user) ex_redeem 1000000 0 ex_gated) \<and>
   red_signer ex_redeem = ex_user \<and> ex_user \<in> signers (ex_tx ex_user)"
proof -
  have ok: "is_ok (redeem_checked ref_env (ex_tx ex_user) ex_redeem 1000000 0 ex_gated)"
    by code_simp
  then obtain w' where "redeem_checked ref_env (ex_tx ex_user) ex_redeem 1000000 0 ex_gated = Inr w'"
    by (auto simp: is_ok_iff)
  from redeem_gate [OF this, of "ex_vault_state\<lparr>v_withdrawal_queue_authority := ex_user\<rparr>"] ok
  show ?thesis
    by (simp add: ex_gated_def ex_redeem_def requires_withdrawal_queue_def withdrawal_queue_def
          ex_user_def default_key_def)
qed

definition ex_empty :: world where
  "ex_empty =
     ex_world\<lparr>vaults := [ex_vault \<mapsto> ex_vault_state\<lparr>v_local_aum := 0, v_deployed_aum := 0\<rparr>],
       ledger := ex_ledger\<lparr>mints := (mints ex_ledger)(ex_share_mint \<mapsto> fresh_mint 1 6 ex_vault)\<rparr>\<rparr>"

theorem opening_supply_witness:
  "\<exists>w'. deposit_checked ref_env (ex_tx ex_user) ex_deposit 100000000 0 ex_empty = Inr w' \<and>
     100 * unat (share_offset ex_vault_state) \<le> supply_of (ledger w') (dep_share_mint ex_deposit)"
proof -
  have "is_ok (deposit_checked ref_env (ex_tx ex_user) ex_deposit 100000000 0 ex_empty)" by code_simp
  then obtain w' where
    w: "deposit_checked ref_env (ex_tx ex_user) ex_deposit 100000000 0 ex_empty = Inr w'"
    by (auto simp: is_ok_iff)
  have "plain ref_env (ledger ex_empty) (dep_deposit_mint ex_deposit)"
    "plain ref_env (ledger ex_empty) (dep_share_mint ex_deposit)"
    "supply_of (ledger ex_empty) (dep_share_mint ex_deposit) = 0"
    "share_offset (ex_vault_state\<lparr>v_local_aum := 0, v_deployed_aum := 0\<rparr>) \<le> MAX_SHARE_OFFSET"
    by code_simp+
  from opening_supply [OF ref_spl_laws this(1,2) w _ this(4,3)] show ?thesis
    using w by (simp add: ex_empty_def ex_deposit_def)
qed

end
