(* ===== verification/VaultAdmin.thy ===== *)
theory VaultAdmin
  imports Pricing Samples
begin

text \<open>
  Who may do what: the program config and the creation of vaults (\<open>instructions/initialize*.rs\<close>,
  \<open>*_config_authority.rs\<close>), the vault admin's setters, and the two-step hand-over of the admin role
  (\<open>state/nominated_admin.rs\<close>, \<open>nominate_admin.rs\<close>, \<open>accept_admin_nomination.rs\<close>).
\<close>

section \<open>state/config.rs and the config instructions\<close>

definition PROGRAM_CONFIG_SEED :: "u8 list" where
  "PROGRAM_CONFIG_SEED = ascii ''program_config''"

definition config_init :: "pubkey \<Rightarrow> u8 \<Rightarrow> program_config" where
  "config_init authority bump =
     \<lparr>cfg_authority = authority, cfg_bump = bump, cfg_padding = replicate 16 0\<rparr>"

definition put_config :: "pubkey \<Rightarrow> program_config \<Rightarrow> world \<Rightarrow> world" where
  "put_config k c w = w\<lparr>configs := (configs w)(k \<mapsto> c)\<rparr>"

record initialize_config_accounts =
  ic_upgrade_authority :: pubkey
  ic_program_data :: pubkey
  ic_payer :: pubkey
  ic_program_config :: pubkey

text \<open>
  \<open>program_data\<close> of this program, pinned by its seeds under the loader, names the signer as upgrade
  authority. Anchor creates \<open>init\<close> accounts before it checks the other accounts' constraints.
\<close>

definition upgrade_authority ::
  "env \<Rightarrow> pubkey \<Rightarrow> pubkey option \<Rightarrow> pubkey \<Rightarrow> 'a result \<Rightarrow> 'a result" where
  "upgrade_authority E pd stored who cont =
     seeds_bump E [key_bytes VAULT_PROGRAM_ID] (bpf_loader_upgradeable_id E) pd
       (require (stored = Some who) (VaultErr NotProtocolAuthority) cont)"

definition initialize_config ::
  "env \<Rightarrow> tx \<Rightarrow> initialize_config_accounts \<Rightarrow> pubkey \<Rightarrow> world \<Rightarrow> world result" where
  "initialize_config E t A authority w =
     signer t (ic_upgrade_authority A)
     (bindR (load_program_data w (ic_program_data A)) (\<lambda>stored.
      signer t (ic_payer A)
     (seeds_bump E [PROGRAM_CONFIG_SEED] VAULT_PROGRAM_ID (ic_program_config A)
     (init_account t w (ic_payer A) (ic_program_config A)
     (upgrade_authority E (ic_program_data A) stored (ic_upgrade_authority A)
     (require (authority \<noteq> default_key) (VaultErr InvalidAuthority)
       (Inr (put_config (ic_program_config A)
          (config_init authority (snd (find_program_address E [PROGRAM_CONFIG_SEED] VAULT_PROGRAM_ID)))
          w))))))))"

record config_authority_accounts =
  ca_program_config :: pubkey
  ca_authority :: pubkey

definition set_config_authority ::
  "env \<Rightarrow> tx \<Rightarrow> config_authority_accounts \<Rightarrow> pubkey \<Rightarrow> world \<Rightarrow> world result" where
  "set_config_authority E t A new_authority w =
     bindR (load_config w (ca_program_config A)) (\<lambda>c.
     signer t (ca_authority A)
     (seeds_with_bump E [PROGRAM_CONFIG_SEED] (cfg_bump c) VAULT_PROGRAM_ID (ca_program_config A)
     (require (cfg_authority c = ca_authority A) (VaultErr NotProtocolAuthority)
     (require (new_authority \<noteq> default_key) (VaultErr InvalidAuthority)
       (Inr (put_config (ca_program_config A) (c\<lparr>cfg_authority := new_authority\<rparr>) w))))))"

record override_config_accounts =
  oc_program_config :: pubkey
  oc_upgrade_authority :: pubkey
  oc_program_data :: pubkey

definition override_config_authority ::
  "env \<Rightarrow> tx \<Rightarrow> override_config_accounts \<Rightarrow> pubkey \<Rightarrow> world \<Rightarrow> world result" where
  "override_config_authority E t A new_authority w =
     bindR (load_config w (oc_program_config A)) (\<lambda>c.
     signer t (oc_upgrade_authority A)
     (bindR (load_program_data w (oc_program_data A)) (\<lambda>stored.
      seeds_with_bump E [PROGRAM_CONFIG_SEED] (cfg_bump c) VAULT_PROGRAM_ID (oc_program_config A)
     (upgrade_authority E (oc_program_data A) stored (oc_upgrade_authority A)
     (require (new_authority \<noteq> default_key) (VaultErr InvalidAuthority)
       (Inr (put_config (oc_program_config A) (c\<lparr>cfg_authority := new_authority\<rparr>) w)))))))"

section \<open>initialize.rs\<close>

record initialize_accounts =
  ini_program_config :: pubkey
  ini_signer :: pubkey
  ini_payer :: pubkey
  ini_deposit_mint :: pubkey
  ini_vault_state :: pubkey
  ini_share_mint :: pubkey
  ini_vault_token_ata :: pubkey
  ini_token_program :: pubkey

text \<open>The three \<open>init\<close> accounts, in field order: the zeroed vault, its share mint, its reserve.\<close>

definition initialize_create ::
  "env \<Rightarrow> tx \<Rightarrow> initialize_accounts \<Rightarrow> u8 \<Rightarrow> mint_account \<Rightarrow> world \<Rightarrow> world result" where
  "initialize_create E t A version dm w =
     seeds_bump E (vault_state_seeds (ini_deposit_mint A) version) VAULT_PROGRAM_ID
       (ini_vault_state A)
     (init_account t w (ini_payer A) (ini_vault_state A)
     (let w1 = put_vault (ini_vault_state A) zero_vault w in
      seeds_bump E (share_mint_seeds (ini_deposit_mint A) version) VAULT_PROGRAM_ID
        (ini_share_mint A)
     (init_account t w1 (ini_payer A) (ini_share_mint A)
     (bindR (token_call (initialize_mint E (ini_token_program A) (ini_share_mint A)
        (mi_decimals dm) (ini_vault_state A) (ledger w1))) (\<lambda>L.
      let w2 = put_ledger L w1 in
      seeds_bump E (vault_token_seeds (ini_deposit_mint A) version) VAULT_PROGRAM_ID
        (ini_vault_token_ata A)
     (init_account t w2 (ini_payer A) (ini_vault_token_ata A)
     (bindR (token_call (initialize_account E (ini_token_program A) (ini_vault_token_ata A)
        (ini_deposit_mint A) (ini_vault_state A) (ledger w2))) (\<lambda>L'.
      Inr (put_ledger L' w2)))))))))"

definition initialize ::
  "env \<Rightarrow> tx \<Rightarrow> initialize_accounts \<Rightarrow> pubkey \<Rightarrow> pubkey \<Rightarrow> pubkey \<Rightarrow> u8 \<Rightarrow> u64 \<Rightarrow> world \<Rightarrow> world result"
where
  "initialize E t A admin operator fee_recipient version offset w =
     bindR (load_config w (ini_program_config A)) (\<lambda>c.
     signer t (ini_signer A)
     (signer t (ini_payer A)
     (bindR (load_mint E w (ini_deposit_mint A)) (\<lambda>dm.
      token_program_account E (ini_token_program A)
     (bindR (initialize_create E t A version dm w) (\<lambda>w'.
      seeds_with_bump E [PROGRAM_CONFIG_SEED] (cfg_bump c) VAULT_PROGRAM_ID (ini_program_config A)
     (require (cfg_authority c = ini_signer A) (VaultErr NotProtocolAuthority)
     (bindR (ok_or (is_valid_share_offset (widen offset)) Panicked) (\<lambda>valid.
      require valid (VaultErr InvalidShareOffset)
       (Inr (put_vault (ini_vault_state A)
          (vault_init operator admin (ini_share_mint A) (ini_deposit_mint A) fee_recipient 0
             (snd (find_program_address E (vault_state_seeds (ini_deposit_mint A) version)
                     VAULT_PROGRAM_ID))
             version offset zero_vault)
          w')))))))))))"

section \<open>The admin's setters\<close>

text \<open>Six instructions have the same three accounts: the vault, its deposit mint, the admin.\<close>

record admin_accounts =
  adm_vault_state :: pubkey
  adm_deposit_mint :: pubkey
  adm_admin :: pubkey

definition admin_ctx :: "env \<Rightarrow> tx \<Rightarrow> admin_accounts \<Rightarrow> world \<Rightarrow> vault_state result" where
  "admin_ctx E t A w =
     bindR (load_vault w (adm_vault_state A)) (\<lambda>v.
     bindR (load_mint E w (adm_deposit_mint A)) (\<lambda>dm.
     signer t (adm_admin A)
     (seeds_bump E (vault_state_seeds (adm_deposit_mint A) (v_vault_version v)) VAULT_PROGRAM_ID
        (adm_vault_state A)
     (require (v_admin v = adm_admin A) (VaultErr NotAdmin)
       (Inr v)))))"

definition set_withdrawal_fee :: "env \<Rightarrow> tx \<Rightarrow> admin_accounts \<Rightarrow> u32 \<Rightarrow> world \<Rightarrow> world result" where
  "set_withdrawal_fee E t A new_fee w =
     bindR (admin_ctx E t A w) (\<lambda>v.
     require (new_fee < 10 * FEE_RATE_DENOMINATOR_VALUE div 100) (VaultErr WithdrawalFeeTooHigh)
       (Inr (put_vault (adm_vault_state A) (v\<lparr>v_withdrawal_fee := new_fee\<rparr>) w)))"

definition set_operator :: "env \<Rightarrow> tx \<Rightarrow> admin_accounts \<Rightarrow> pubkey \<Rightarrow> world \<Rightarrow> world result" where
  "set_operator E t A new_operator w =
     bindR (admin_ctx E t A w) (\<lambda>v.
     require (new_operator \<noteq> default_key) (VaultErr InvalidAuthority)
       (Inr (put_vault (adm_vault_state A) (v\<lparr>v_operator := new_operator\<rparr>) w)))"

definition set_fee_recipient :: "env \<Rightarrow> tx \<Rightarrow> admin_accounts \<Rightarrow> pubkey \<Rightarrow> world \<Rightarrow> world result" where
  "set_fee_recipient E t A new_fee_recipient w =
     bindR (admin_ctx E t A w) (\<lambda>v.
       Inr (put_vault (adm_vault_state A) (v\<lparr>v_fee_recipient := new_fee_recipient\<rparr>) w))"

definition set_aum_limits :: "env \<Rightarrow> tx \<Rightarrow> admin_accounts \<Rightarrow> u32 \<Rightarrow> u32 \<Rightarrow> world \<Rightarrow> world result" where
  "set_aum_limits E t A increase_limit decrease_limit w =
     bindR (admin_ctx E t A w) (\<lambda>v.
     require (increase_limit \<le> BPS_DENOMINATOR) (VaultErr AumLimitTooHigh)
     (require (decrease_limit \<le> BPS_DENOMINATOR) (VaultErr AumLimitTooHigh)
       (Inr (put_vault (adm_vault_state A)
          (v\<lparr>v_aum_increase_limit := increase_limit, v_aum_decrease_limit := decrease_limit\<rparr>) w))))"

definition pause :: "env \<Rightarrow> tx \<Rightarrow> admin_accounts \<Rightarrow> world \<Rightarrow> world result" where
  "pause E t A w =
     bindR (admin_ctx E t A w) (\<lambda>v.
       Inr (put_vault (adm_vault_state A) (v\<lparr>v_paused := True\<rparr>) w))"

definition unpause :: "env \<Rightarrow> tx \<Rightarrow> admin_accounts \<Rightarrow> world \<Rightarrow> world result" where
  "unpause E t A w =
     bindR (admin_ctx E t A w) (\<lambda>v.
       Inr (put_vault (adm_vault_state A) (v\<lparr>v_paused := False\<rparr>) w))"

section \<open>state/nominated_admin.rs, nominate_admin.rs, accept_admin_nomination.rs\<close>

definition NOMINATED_ADMIN_PDA_SEED :: "u8 list" where
  "NOMINATED_ADMIN_PDA_SEED = ascii ''nominated_admin''"

definition nomination_seeds :: "pubkey \<Rightarrow> u8 \<Rightarrow> u8 list list" where
  "nomination_seeds mint version = [NOMINATED_ADMIN_PDA_SEED, key_bytes mint, [version]]"

text \<open>\<open>Clock::get().unwrap()\<close> and the unchecked \<open>+\<close> panic; the nomination lasts a day.\<close>

definition nomination_initialize :: "tx \<Rightarrow> pubkey \<Rightarrow> nominated_admin result" where
  "nomination_initialize t nominated =
     bindR (ok_or (unix_timestamp t) Panicked) (\<lambda>now.
     bindR (ok_or (checked_add_i64 now (24 * 60 * 60)) Panicked) (\<lambda>valid_until.
       Inr \<lparr>nom_nominated_admin = nominated, nom_valid_until = valid_until\<rparr>))"

definition is_nominated_admin :: "nominated_admin \<Rightarrow> pubkey \<Rightarrow> bool" where
  "is_nominated_admin n k = (nom_nominated_admin n = k)"

definition valid_accept_nomination :: "tx \<Rightarrow> nominated_admin \<Rightarrow> pubkey \<Rightarrow> unit result" where
  "valid_accept_nomination t n k =
     require (is_nominated_admin n k) (VaultErr InvalidNominatedAdmin)
     (bindR (ok_or (unix_timestamp t) Panicked) (\<lambda>now.
      require (sint now < sint (nom_valid_until n)) (VaultErr NominationExpired)
        (Inr ())))"

record nominate_accounts =
  na_vault_state :: pubkey
  na_deposit_mint :: pubkey
  na_nominated_admin_pda :: pubkey
  na_admin :: pubkey
  na_payer :: pubkey

definition nominate_admin :: "env \<Rightarrow> tx \<Rightarrow> nominate_accounts \<Rightarrow> pubkey \<Rightarrow> world \<Rightarrow> world result" where
  "nominate_admin E t A nominated w =
     bindR (load_vault w (na_vault_state A)) (\<lambda>v.
     bindR (load_mint E w (na_deposit_mint A)) (\<lambda>dm.
     signer t (na_admin A)
     (signer t (na_payer A)
     (seeds_bump E (nomination_seeds (na_deposit_mint A) (v_vault_version v)) VAULT_PROGRAM_ID
        (na_nominated_admin_pda A)
     ((if nominations w (na_nominated_admin_pda A) \<noteq> None then (\<lambda>cont. cont)
       else init_account t w (na_payer A) (na_nominated_admin_pda A))
     (seeds_bump E (vault_state_seeds (na_deposit_mint A) (v_vault_version v)) VAULT_PROGRAM_ID
        (na_vault_state A)
     (require (v_admin v = na_admin A) (VaultErr NotAdmin)
     (bindR (nomination_initialize t nominated) (\<lambda>n.
       Inr (w\<lparr>nominations := (nominations w)(na_nominated_admin_pda A \<mapsto> n)\<rparr>))))))))))"

record accept_accounts =
  aa_vault_state :: pubkey
  aa_deposit_mint :: pubkey
  aa_nominated_admin_pda :: pubkey
  aa_new_admin :: pubkey
  aa_receiver :: pubkey

definition accept_admin_nomination :: "env \<Rightarrow> tx \<Rightarrow> accept_accounts \<Rightarrow> world \<Rightarrow> world result" where
  "accept_admin_nomination E t A w =
     bindR (load_vault w (aa_vault_state A)) (\<lambda>v.
     bindR (load_mint E w (aa_deposit_mint A)) (\<lambda>dm.
     bindR (load_nomination w (aa_nominated_admin_pda A)) (\<lambda>n.
     signer t (aa_new_admin A)
     (seeds_bump E (vault_state_seeds (aa_deposit_mint A) (v_vault_version v)) VAULT_PROGRAM_ID
        (aa_vault_state A)
     (seeds_bump E (nomination_seeds (aa_deposit_mint A) (v_vault_version v)) VAULT_PROGRAM_ID
        (aa_nominated_admin_pda A)
     (close_to (aa_nominated_admin_pda A) (aa_receiver A)
     (bindR (valid_accept_nomination t n (aa_new_admin A)) (\<lambda>_.
       Inr ((put_vault (aa_vault_state A) (v\<lparr>v_admin := nom_nominated_admin n\<rparr>) w)
              \<lparr>nominations := (nominations w)(aa_nominated_admin_pda A := None)\<rparr>)))))))))"

section \<open>The setters' contract\<close>

text \<open>
  What no setter touches; and what every vault keeps: a fee below ten percent, limits of at most a
  hundred, an offset \<open>initialize\<close> accepts or the legacy zero.
\<close>

definition vault_core ::
  "vault_state \<Rightarrow> pubkey \<times> pubkey \<times> u64 \<times> u64 \<times> u8 \<times> u8 \<times> u64 \<times> pubkey \<times> u64 \<times> u64 \<times> pubkey" where
  "vault_core v =
     (v_share_mint v, v_deposit_mint v, v_local_aum v, v_deployed_aum v, v_pda_bump v,
      v_vault_version v, v_share_offset v, v_withdrawal_queue_authority v, v_subaccount_count v,
      v_deployed_principal v, v_admin v)"

definition vault_ok :: "vault_state \<Rightarrow> bool" where
  "vault_ok v \<longleftrightarrow>
     unat (v_withdrawal_fee v) < 100000 \<and>
     unat (v_aum_increase_limit v) \<le> 10000 \<and> unat (v_aum_decrease_limit v) \<le> 10000 \<and>
     v_share_offset v \<in> {0, 1000, 10000, 100000, 1000000}"

lemma admin_ctx_Inr:
  assumes "admin_ctx E t A w = Inr v"
  shows "vaults w (adm_vault_state A) = Some v" and "v_admin v = adm_admin A"
    and "adm_admin A \<in> signers t"
    and "fst (find_program_address E (vault_state_seeds (adm_deposit_mint A) (v_vault_version v))
           VAULT_PROGRAM_ID) = adm_vault_state A"
  using assms by (auto simp: admin_ctx_def load_simps constraint_simps)

text \<open>
  A setter is a guarded update: it succeeds exactly for the vault's admin with an allowed argument,
  and replaces that one vault.
\<close>

locale guarded_update =
  fixes op :: "env \<Rightarrow> tx \<Rightarrow> admin_accounts \<Rightarrow> 'p \<Rightarrow> world \<Rightarrow> world result"
    and upd :: "'p \<Rightarrow> vault_state \<Rightarrow> vault_state"
    and allowed :: "'p \<Rightarrow> bool"
  assumes op_Inr: "op E t A p w = Inr w' \<longleftrightarrow>
      (\<exists>v. admin_ctx E t A w = Inr v \<and> allowed p \<and> w' = put_vault (adm_vault_state A) (upd p v) w)"
    and upd_core: "vault_core (upd p v) = vault_core v"
    and upd_ok: "vault_ok v \<Longrightarrow> allowed p \<Longrightarrow> vault_ok (upd p v)"
begin

lemma contract:
  assumes "op E t A p w = Inr w'"
  obtains v where "vaults w (adm_vault_state A) = Some v" and "v_admin v = adm_admin A"
    and "adm_admin A \<in> signers t" and "vault_core (upd p v) = vault_core v"
    and "vault_ok v \<longrightarrow> vault_ok (upd p v)"
    and "w' = w\<lparr>vaults := (vaults w)(adm_vault_state A \<mapsto> upd p v)\<rparr>"
  using assms admin_ctx_Inr upd_core upd_ok unfolding op_Inr put_vault_def by metis

lemma stranger_refused:
  assumes "adm_admin A \<notin> signers t \<or> vaults w (adm_vault_state A) = Some v \<and> v_admin v \<noteq> adm_admin A"
  shows "\<not> is_ok (op E t A p w)"
  using assms admin_ctx_Inr unfolding is_ok_iff op_Inr by (metis option.inject)

end

lemma fee_cap: "(10 * FEE_RATE_DENOMINATOR_VALUE div 100 :: u32) = 100000"
  by (simp add: vault_constants)

interpretation fee_setter: guarded_update set_withdrawal_fee
    "\<lambda>f v. v\<lparr>v_withdrawal_fee := f\<rparr>" "\<lambda>f. f < 100000"
  by unfold_locales
    (auto simp: set_withdrawal_fee_def fee_cap vault_core_def vault_ok_def word_less_nat_alt)

interpretation operator_setter: guarded_update set_operator
    "\<lambda>k v. v\<lparr>v_operator := k\<rparr>" "\<lambda>k. k \<noteq> default_key"
  by unfold_locales (auto simp: set_operator_def vault_core_def vault_ok_def)

interpretation fee_recipient_setter: guarded_update set_fee_recipient
    "\<lambda>k v. v\<lparr>v_fee_recipient := k\<rparr>" "\<lambda>_. True"
  by unfold_locales (auto simp: set_fee_recipient_def vault_core_def vault_ok_def)

interpretation limits_setter: guarded_update "\<lambda>E t A (i, d). set_aum_limits E t A i d"
    "\<lambda>(i, d) v. v\<lparr>v_aum_increase_limit := i, v_aum_decrease_limit := d\<rparr>"
    "\<lambda>(i, d). i \<le> 10000 \<and> d \<le> 10000"
  by unfold_locales
    (auto simp: set_aum_limits_def vault_core_def vault_ok_def vault_constants word_le_nat_alt)

interpretation pauser: guarded_update "\<lambda>E t A (_ :: unit). pause E t A"
    "\<lambda>_ v. v\<lparr>v_paused := True\<rparr>" "\<lambda>_. True"
  by unfold_locales (auto simp: pause_def vault_core_def vault_ok_def)

interpretation unpauser: guarded_update "\<lambda>E t A (_ :: unit). unpause E t A"
    "\<lambda>_ v. v\<lparr>v_paused := False\<rparr>" "\<lambda>_. True"
  by unfold_locales (auto simp: unpause_def vault_core_def vault_ok_def)

text \<open>The six entry points of \<open>lib.rs\<close> that take these accounts.\<close>

datatype setting =
    SetWithdrawalFee u32 | SetOperator pubkey | SetFeeRecipient pubkey | SetAumLimits u32 u32
  | Pause | Unpause

primrec run_setting :: "env \<Rightarrow> tx \<Rightarrow> admin_accounts \<Rightarrow> setting \<Rightarrow> world \<Rightarrow> world result" where
  "run_setting E t A (SetWithdrawalFee f) = set_withdrawal_fee E t A f"
| "run_setting E t A (SetOperator k) = set_operator E t A k"
| "run_setting E t A (SetFeeRecipient k) = set_fee_recipient E t A k"
| "run_setting E t A (SetAumLimits i d) = set_aum_limits E t A i d"
| "run_setting E t A Pause = pause E t A"
| "run_setting E t A Unpause = unpause E t A"

lemma setting_effect:
  assumes "run_setting E t A s w = Inr w'"
  obtains v v' where "vaults w (adm_vault_state A) = Some v" and "v_admin v = adm_admin A"
    and "adm_admin A \<in> signers t" and "vault_core v' = vault_core v"
    and "vault_ok v \<longrightarrow> vault_ok v'"
    and "w' = w\<lparr>vaults := (vaults w)(adm_vault_state A \<mapsto> v')\<rparr>"
  using assms
proof (cases s)
  case (SetWithdrawalFee f)
  with assms show ?thesis by (auto elim: fee_setter.contract intro: that)
next
  case (SetOperator k)
  with assms show ?thesis by (auto elim: operator_setter.contract intro: that)
next
  case (SetFeeRecipient k)
  with assms show ?thesis by (auto elim: fee_recipient_setter.contract intro: that)
next
  case (SetAumLimits i d)
  with assms have "(\<lambda>E t A (i, d). set_aum_limits E t A i d) E t A (i, d) w = Inr w'" by simp
  then show ?thesis by (rule limits_setter.contract) (rule that)
next
  case Pause
  with assms show ?thesis by (auto elim!: pauser.contract intro: that)
next
  case Unpause
  with assms show ?thesis by (auto elim!: unpauser.contract intro: that)
qed

text \<open>
  C36. The admin's setters change settings and nothing else: each succeeds only with the signature of
  the vault's admin, replaces that one vault, leaves its assets, shares, gate, subaccounts and admin
  as they were, and keeps the fee below ten percent and the limits at most a hundred.
\<close>

theorem setters_contract:
  assumes "run_setting E t A s w = Inr w'"
  shows "\<exists>v v'. vaults w (adm_vault_state A) = Some v \<and> v_admin v \<in> signers t \<and>
     vault_core v' = vault_core v \<and> (vault_ok v \<longrightarrow> vault_ok v') \<and>
     w' = w\<lparr>vaults := (vaults w)(adm_vault_state A \<mapsto> v')\<rparr>"
  using setting_effect [OF assms] by metis

section \<open>Creating a vault\<close>

lemma initialize_create_Inr:
  assumes "spl_laws E" and "initialize_create E t A version dm w = Inr w'"
  shows "\<not> in_use w (ini_vault_state A)" and "\<not> in_use w (ini_share_mint A)"
    and "\<not> in_use w (ini_vault_token_ata A)" and "ini_payer A \<in> signers t"
    and "w' = w\<lparr>vaults := (vaults w)(ini_vault_state A \<mapsto> zero_vault), ledger := ledger w'\<rparr>"
    and "mints (ledger w') = (mints (ledger w))
           (ini_share_mint A \<mapsto> fresh_mint (ini_token_program A) (mi_decimals dm) (ini_vault_state A))"
    and "tokens (ledger w') = (tokens (ledger w))(ini_vault_token_ata A \<mapsto>
           fresh_token_account (ini_token_program A) (ini_deposit_mint A) (ini_vault_state A))"
proof -
  obtain L L' where L: "initialize_mint E (ini_token_program A) (ini_share_mint A) (mi_decimals dm)
      (ini_vault_state A) (ledger w) = Inr L"
    and L': "initialize_account E (ini_token_program A) (ini_vault_token_ata A)
      (ini_deposit_mint A) (ini_vault_state A) L = Inr L'"
    and w': "w' = w\<lparr>vaults := (vaults w)(ini_vault_state A \<mapsto> zero_vault), ledger := L'\<rparr>"
    and pre: "ini_payer A \<in> signers t" "\<not> in_use w (ini_vault_state A)"
      "\<not> in_use (put_vault (ini_vault_state A) zero_vault w) (ini_share_mint A)"
      "\<not> in_use (put_ledger L (put_vault (ini_vault_state A) zero_vault w)) (ini_vault_token_ata A)"
    using assms(2)
    by (auto simp: initialize_create_def constraint_simps Let_def put_vault_def put_ledger_def)
  note m = spl_initialize_mint [OF assms(1) L] and a = spl_initialize_account [OF assms(1) L']
  show "\<not> in_use w (ini_vault_state A)" "ini_payer A \<in> signers t" by (fact pre)+
  show "\<not> in_use w (ini_share_mint A)"
    using pre(3) by (auto simp: in_use_def put_vault_def split: if_splits)
  show "\<not> in_use w (ini_vault_token_ata A)"
    using pre(4) m by (auto simp: in_use_def put_vault_def put_ledger_def split: if_splits)
  have lw: "ledger w' = L'" unfolding w' by simp
  show "w' = w\<lparr>vaults := (vaults w)(ini_vault_state A \<mapsto> zero_vault), ledger := ledger w'\<rparr>"
    unfolding lw by (rule w')
  show "mints (ledger w') = (mints (ledger w))
      (ini_share_mint A \<mapsto> fresh_mint (ini_token_program A) (mi_decimals dm) (ini_vault_state A))"
    unfolding lw a(2) m(1) ..
  show "tokens (ledger w') = (tokens (ledger w))(ini_vault_token_ata A \<mapsto>
      fresh_token_account (ini_token_program A) (ini_deposit_mint A) (ini_vault_state A))"
    unfolding lw a(1) m(2) ..
qed

lemma initialize_cases:
  assumes "initialize E t A admin operator fee_recipient version offset w = Inr w'"
  obtains c dm w1 where "configs w (ini_program_config A) = Some c"
    and "cfg_authority c = ini_signer A" and "ini_signer A \<in> signers t"
    and "create_program_address E ([PROGRAM_CONFIG_SEED] @ [[cfg_bump c]]) VAULT_PROGRAM_ID =
           Some (ini_program_config A)"
    and "mints (ledger w) (ini_deposit_mint A) = Some dm"
    and "initialize_create E t A version dm w = Inr w1"
    and "is_valid_share_offset (widen offset) = Some True"
    and "w' = put_vault (ini_vault_state A)
          (vault_init operator admin (ini_share_mint A) (ini_deposit_mint A) fee_recipient 0
             (snd (find_program_address E (vault_state_seeds (ini_deposit_mint A) version)
                     VAULT_PROGRAM_ID))
             version offset zero_vault) w1"
  using assms by (auto simp: initialize_def load_simps constraint_simps)

lemma valid_offset:
  assumes "is_valid_share_offset (widen offset) = Some True"
  shows "offset \<in> {1000, 10000, 100000, 1000000}"
proof -
  have "widen offset \<in> {1000, 10000, 100000, 1000000}"
    using assms by (simp add: is_valid_share_offset_eq)
  then have "unat (widen offset) \<in> {1000, 10000, 100000, 1000000}"
    by (elim insertE) (simp_all del: unat_widen)
  then have "unat offset \<in> {1000, 10000, 100000, 1000000}" by (simp only: unat_widen)
  then show ?thesis by (auto intro!: unat_eqD)
qed

text \<open>
  C37. A vault is created only with the signature of the stored config authority, only at three free
  addresses, and opens empty: no assets, a share mint of supply zero under the vault's own key, an
  empty reserve, no gate, no subaccounts, not paused, no fee, one of the four permitted offsets.
\<close>

theorem initialize_opens_empty:
  assumes "spl_laws E"
    and "initialize E t A admin operator fee_recipient version offset w = Inr w'"
  shows "\<exists>c v dec. configs w (ini_program_config A) = Some c \<and> cfg_authority c \<in> signers t \<and>
     \<not> in_use w (ini_vault_state A) \<and> \<not> in_use w (ini_share_mint A) \<and>
     \<not> in_use w (ini_vault_token_ata A) \<and>
     v_admin v = admin \<and> v_operator v = operator \<and> v_fee_recipient v = fee_recipient \<and>
     v_share_mint v = ini_share_mint A \<and> v_deposit_mint v = ini_deposit_mint A \<and>
     v_vault_version v = version \<and> v_share_offset v = offset \<and> v_share_offset v \<noteq> 0 \<and>
     vault_ok v \<and> total_assets v = Inr 0 \<and> \<not> v_paused v \<and> v_withdrawal_fee v = 0 \<and>
     \<not> requires_withdrawal_queue v \<and> \<not> requires_subaccount v \<and> v_deployed_principal v = 0 \<and>
     mints (ledger w') = (mints (ledger w))
       (ini_share_mint A \<mapsto> fresh_mint (ini_token_program A) dec (ini_vault_state A)) \<and>
     tokens (ledger w') = (tokens (ledger w))(ini_vault_token_ata A \<mapsto>
       fresh_token_account (ini_token_program A) (ini_deposit_mint A) (ini_vault_state A)) \<and>
     w' = w\<lparr>vaults := (vaults w)(ini_vault_state A \<mapsto> v), ledger := ledger w'\<rparr>"
  using assms(2)
proof (cases rule: initialize_cases)
  case (1 c dm w1)
  let ?v = "vault_init operator admin (ini_share_mint A) (ini_deposit_mint A) fee_recipient 0
      (snd (find_program_address E (vault_state_seeds (ini_deposit_mint A) version) VAULT_PROGRAM_ID))
      version offset zero_vault"
  note cr = initialize_create_Inr [OF assms(1) 1(6)]
  note off = valid_offset [OF 1(7)]
  have lw: "ledger w' = ledger w1" unfolding 1(8) by (simp add: put_vault_def)
  have "w' = w\<lparr>vaults := (vaults w)(ini_vault_state A \<mapsto> ?v), ledger := ledger w'\<rparr>"
    unfolding lw by (subst 1(8), subst cr(5)) (simp add: put_vault_def)
  moreover have "vault_ok ?v" using off by (auto simp: vault_ok_def vault_init_def)
  moreover have "total_assets ?v = Inr 0"
    by (simp add: total_assets_def vault_init_def zero_vault_def)
  ultimately show ?thesis
    using 1(1-3) cr(1-3,6,7) off
    by (intro exI [of _ c] exI [of _ ?v] exI [of _ "mi_decimals dm"])
      (auto simp: lw vault_init_def zero_vault_def requires_withdrawal_queue_def
        withdrawal_queue_def requires_subaccount_def default_key_def)
qed

text \<open>
  Who may create vaults: the config is created and changed only by the program's upgrade
  authority or the stored authority, always with a signature, and never names the zero key.
\<close>

theorem config_authority_rule:
  assumes "initialize_config E t A1 k w = Inr w' \<and> pda = ic_program_config A1 \<or>
     set_config_authority E t A2 k w = Inr w' \<and> pda = ca_program_config A2 \<or>
     override_config_authority E t A3 k w = Inr w' \<and> pda = oc_program_config A3"
  shows "k \<noteq> default_key \<and> (\<exists>c'. w' = w\<lparr>configs := (configs w)(pda \<mapsto> c')\<rparr> \<and> cfg_authority c' = k) \<and>
    ((\<exists>c. configs w pda = Some c \<and> cfg_authority c \<in> signers t) \<or>
     (\<exists>a. program_data w (fst (find_program_address E [key_bytes VAULT_PROGRAM_ID]
             (bpf_loader_upgradeable_id E))) = Some (Some a) \<and> a \<in> signers t))"
  using assms
proof (elim disjE conjE)
  assume "initialize_config E t A1 k w = Inr w'" "pda = ic_program_config A1"
  then show ?thesis
    by (auto simp: initialize_config_def upgrade_authority_def load_simps constraint_simps
        put_config_def config_init_def)
next
  assume "set_config_authority E t A2 k w = Inr w'" "pda = ca_program_config A2"
  then show ?thesis
    by (auto simp: set_config_authority_def load_simps constraint_simps put_config_def)
next
  assume "override_config_authority E t A3 k w = Inr w'" "pda = oc_program_config A3"
  then show ?thesis
    by (auto simp: override_config_authority_def upgrade_authority_def load_simps constraint_simps
        put_config_def)
qed

section \<open>Handing over the admin role\<close>

lemma nomination_initialize_Inr:
  "nomination_initialize t k = Inr n \<longleftrightarrow>
     (\<exists>now. unix_timestamp t = Some now \<and> nom_nominated_admin n = k \<and>
        sint (nom_valid_until n) = sint now + 86400)"
  by (cases n) (auto simp: nomination_initialize_def)

lemma nominate_cases:
  assumes "nominate_admin E t A nominated w = Inr w'"
  obtains v n now where "vaults w (na_vault_state A) = Some v" and "v_admin v \<in> signers t"
    and "v_admin v = na_admin A" and "unix_timestamp t = Some now"
    and "nom_nominated_admin n = nominated" and "sint (nom_valid_until n) = sint now + 86400"
    and "w' = w\<lparr>nominations := (nominations w)(na_nominated_admin_pda A \<mapsto> n)\<rparr>"
  using assms
  by (auto simp: nominate_admin_def nomination_initialize_Inr load_simps constraint_simps
      split: if_splits)

lemma accept_cases:
  assumes "accept_admin_nomination E t A w = Inr w'"
  obtains v n now where "vaults w (aa_vault_state A) = Some v"
    and "nominations w (aa_nominated_admin_pda A) = Some n"
    and "nom_nominated_admin n = aa_new_admin A" and "aa_new_admin A \<in> signers t"
    and "unix_timestamp t = Some now" and "sint now < sint (nom_valid_until n)"
    and "w' = w\<lparr>vaults := (vaults w)(aa_vault_state A \<mapsto> v\<lparr>v_admin := aa_new_admin A\<rparr>),
                nominations := (nominations w)(aa_nominated_admin_pda A := None)\<rparr>"
  using assms
  by (auto simp: accept_admin_nomination_def valid_accept_nomination_def is_nominated_admin_def
      put_vault_def load_simps constraint_simps)

text \<open>
  The admin role changes hands in two steps and no other way round: after a nomination signed by
  the vault's admin, an acceptance of it succeeds only for the nominee, with his signature, less than
  a day later; it makes him admin, changes nothing else of the vault, and uses the nomination up.
\<close>

theorem admin_handover:
  assumes "nominate_admin E t A nominee w = Inr w1"
    and "accept_admin_nomination E t' B w2 = Inr w3"
    and "aa_nominated_admin_pda B = na_nominated_admin_pda A" and "nominations w2 = nominations w1"
  shows "\<exists>v v' now now'. vaults w (na_vault_state A) = Some v \<and> v_admin v \<in> signers t \<and>
     vaults w1 = vaults w \<and> nominee \<in> signers t' \<and>
     unix_timestamp t = Some now \<and> unix_timestamp t' = Some now' \<and> sint now' < sint now + 86400 \<and>
     vaults w2 (aa_vault_state B) = Some v' \<and>
     w3 = w2\<lparr>vaults := (vaults w2)(aa_vault_state B \<mapsto> v'\<lparr>v_admin := nominee\<rparr>),
             nominations := (nominations w2)(na_nominated_admin_pda A := None)\<rparr> \<and>
     (\<forall>E'' t'' C. aa_nominated_admin_pda C = na_nominated_admin_pda A \<longrightarrow>
        \<not> is_ok (accept_admin_nomination E'' t'' C w3))"
proof -
  obtain v n now where n: "vaults w (na_vault_state A) = Some v" "v_admin v \<in> signers t"
      "unix_timestamp t = Some now" "nom_nominated_admin n = nominee"
      "sint (nom_valid_until n) = sint now + 86400"
      "w1 = w\<lparr>nominations := (nominations w)(na_nominated_admin_pda A \<mapsto> n)\<rparr>"
    by (rule nominate_cases [OF assms(1)])
  obtain v' n' now' where a: "vaults w2 (aa_vault_state B) = Some v'"
      "nominations w2 (aa_nominated_admin_pda B) = Some n'"
      "nom_nominated_admin n' = aa_new_admin B" "aa_new_admin B \<in> signers t'"
      "unix_timestamp t' = Some now'" "sint now' < sint (nom_valid_until n')"
      "w3 = w2\<lparr>vaults := (vaults w2)(aa_vault_state B \<mapsto> v'\<lparr>v_admin := aa_new_admin B\<rparr>),
                nominations := (nominations w2)(aa_nominated_admin_pda B := None)\<rparr>"
    by (rule accept_cases [OF assms(2)])
  have eq: "n' = n" using a(2) n(6) assms(3,4) by simp
  then have nominee: "aa_new_admin B = nominee" using a(3) n(4) by simp
  have "\<not> is_ok (accept_admin_nomination E'' t'' C w3)"
    if "aa_nominated_admin_pda C = na_nominated_admin_pda A" for E'' t'' C
  proof
    assume "is_ok (accept_admin_nomination E'' t'' C w3)"
    then obtain w4 where "accept_admin_nomination E'' t'' C w3 = Inr w4" by (auto simp: is_ok_iff)
    then show False by (rule accept_cases) (use that a(7) assms(3) in simp)
  qed
  then show ?thesis
    using n a eq nominee assms(3)
    by (intro exI [of _ v] exI [of _ v'] exI [of _ now] exI [of _ now']) simp
qed

section \<open>Witnesses\<close>

definition ex_config :: pubkey where
  "ex_config = fst (ref_find [PROGRAM_CONFIG_SEED] VAULT_PROGRAM_ID)"

definition ex_admin_accounts :: admin_accounts where
  "ex_admin_accounts =
     \<lparr>adm_vault_state = ex_vault, adm_deposit_mint = ex_mint, adm_admin = ex_admin\<rparr>"

theorem setters_contract_witness:
  "\<exists>w' v'. run_setting ref_env (ex_tx ex_admin) ex_admin_accounts (SetWithdrawalFee 99999) ex_world = Inr w' \<and>
     vault_core v' = vault_core ex_vault_state \<and> vault_ok v' \<and> vaults w' ex_vault = Some v'"
proof -
  have "is_ok (run_setting ref_env (ex_tx ex_admin) ex_admin_accounts (SetWithdrawalFee 99999) ex_world)"
    by code_simp
  then obtain w' where
    w: "run_setting ref_env (ex_tx ex_admin) ex_admin_accounts (SetWithdrawalFee 99999) ex_world = Inr w'"
    by (auto simp: is_ok_iff)
  have ok: "vault_ok ex_vault_state" by (simp add: vault_ok_def ex_vault_state_def)
  obtain v v' where v: "vaults ex_world ex_vault = Some v" "vault_core v' = vault_core v"
    "vault_ok v \<longrightarrow> vault_ok v'" "w' = ex_world\<lparr>vaults := (vaults ex_world)(ex_vault \<mapsto> v')\<rparr>"
    using setters_contract [OF w] by (auto simp only: ex_admin_accounts_def admin_accounts.simps)
  have "v = ex_vault_state" using v(1) by (simp add: ex_world_def)
  moreover have "vaults w' ex_vault = Some v'" unfolding v(4) by simp
  ultimately show ?thesis using w v(2,3) ok by blast
qed

definition ex_bare :: world where
  "ex_bare =
     ex_world\<lparr>vaults := Map.empty,
       ledger := \<lparr>tokens = Map.empty, mints = [ex_mint \<mapsto> (fresh_mint 1 6 ex_admin)]\<rparr>,
       configs := [ex_config \<mapsto> config_init ex_admin 255]\<rparr>"

definition ex_initialize :: initialize_accounts where
  "ex_initialize =
     \<lparr>ini_program_config = ex_config, ini_signer = ex_admin, ini_payer = ex_admin,
      ini_deposit_mint = ex_mint, ini_vault_state = ex_vault, ini_share_mint = ex_share_mint,
      ini_vault_token_ata = ex_reserve, ini_token_program = 1\<rparr>"

theorem initialize_opens_empty_witness:
  "\<exists>w' v. initialize ref_env (ex_tx ex_admin) ex_initialize ex_admin ex_operator ex_fee_recipient 1
       1000000 ex_bare = Inr w' \<and>
     vaults w' ex_vault = Some v \<and> vault_ok v \<and> total_assets v = Inr 0 \<and> v_admin v = ex_admin"
proof -
  have "is_ok (initialize ref_env (ex_tx ex_admin) ex_initialize ex_admin ex_operator
      ex_fee_recipient 1 1000000 ex_bare)"
    by code_simp
  then obtain w' where w: "initialize ref_env (ex_tx ex_admin) ex_initialize ex_admin ex_operator
      ex_fee_recipient 1 1000000 ex_bare = Inr w'"
    by (auto simp: is_ok_iff)
  obtain v where v: "vault_ok v" "total_assets v = Inr 0" "v_admin v = ex_admin"
    "w' = ex_bare\<lparr>vaults := (vaults ex_bare)(ini_vault_state ex_initialize \<mapsto> v), ledger := ledger w'\<rparr>"
    using initialize_opens_empty [OF ref_spl_laws w] by blast
  have "vaults w' ex_vault = Some v" by (subst v(4)) (simp add: ex_initialize_def)
  then show ?thesis using w v(1-3) by blast
qed

theorem config_authority_rule_witness:
  "\<exists>w'. set_config_authority ref_env (ex_tx ex_admin) \<lparr>ca_program_config = ex_config, ca_authority = ex_admin\<rparr>
       ex_operator ex_bare = Inr w' \<and> ex_operator \<noteq> default_key"
proof -
  have "is_ok (set_config_authority ref_env (ex_tx ex_admin)
      \<lparr>ca_program_config = ex_config, ca_authority = ex_admin\<rparr> ex_operator ex_bare)"
    by code_simp
  then obtain w' where w: "set_config_authority ref_env (ex_tx ex_admin)
      \<lparr>ca_program_config = ex_config, ca_authority = ex_admin\<rparr> ex_operator ex_bare = Inr w'"
    by (auto simp: is_ok_iff)
  then show ?thesis
    using config_authority_rule [where ?A2.0 = "\<lparr>ca_program_config = ex_config, ca_authority = ex_admin\<rparr>"]
    by blast
qed

definition ex_nominate :: nominate_accounts where
  "ex_nominate =
     \<lparr>na_vault_state = ex_vault, na_deposit_mint = ex_mint,
      na_nominated_admin_pda = fst (ref_find (nomination_seeds ex_mint 1) VAULT_PROGRAM_ID),
      na_admin = ex_admin, na_payer = ex_admin\<rparr>"

definition ex_accept :: accept_accounts where
  "ex_accept =
     \<lparr>aa_vault_state = ex_vault, aa_deposit_mint = ex_mint,
      aa_nominated_admin_pda = fst (ref_find (nomination_seeds ex_mint 1) VAULT_PROGRAM_ID),
      aa_new_admin = ex_user, aa_receiver = ex_user\<rparr>"

theorem admin_handover_witness:
  "\<exists>w1 w2 v. nominate_admin ref_env (ex_tx ex_admin) ex_nominate ex_user ex_world = Inr w1 \<and>
     accept_admin_nomination ref_env (ex_tx ex_user) ex_accept w1 = Inr w2 \<and>
     vaults w2 ex_vault = Some v \<and> v_admin v = ex_user"
proof -
  have "is_ok (bindR (nominate_admin ref_env (ex_tx ex_admin) ex_nominate ex_user ex_world)
      (accept_admin_nomination ref_env (ex_tx ex_user) ex_accept))"
    by code_simp
  then obtain w1 w2 where n: "nominate_admin ref_env (ex_tx ex_admin) ex_nominate ex_user ex_world = Inr w1"
    and a: "accept_admin_nomination ref_env (ex_tx ex_user) ex_accept w1 = Inr w2"
    by (auto simp: is_ok_iff)
  have "aa_nominated_admin_pda ex_accept = na_nominated_admin_pda ex_nominate"
    by (simp add: ex_accept_def ex_nominate_def)
  from admin_handover [OF n a this refl] show ?thesis
    using n a by (auto simp: ex_accept_def)
qed

end
