(* ===== verification/VaultOperator.thy ===== *)
theory VaultOperator
  imports VaultUser VaultAdmin
begin

text \<open>
  The operator's instructions and the registry of destinations: \<open>operator_withdraw.rs\<close>,
  \<open>operator_deposit.rs\<close>, \<open>operator_update_aum.rs\<close>, \<open>register_subaccount.rs\<close>,
  \<open>deregister_subaccount.rs\<close>, \<open>settle_subaccount_loss.rs\<close> and \<open>state/subaccount.rs\<close>.
\<close>

section \<open>Accounts\<close>

definition SUBACCOUNT_SEED :: "u8 list" where
  "SUBACCOUNT_SEED = ascii ''SUBACCOUNT''"

definition subaccount_seeds :: "pubkey \<Rightarrow> pubkey \<Rightarrow> u8 list list" where
  "subaccount_seeds vault address = [SUBACCOUNT_SEED, key_bytes vault, key_bytes address]"

record operator_accounts =
  oa_vault_state :: pubkey
  oa_vault_deposit_ata :: pubkey
  oa_operator_token_account :: pubkey
  oa_deposit_mint :: pubkey
  oa_operator :: pubkey
  oa_token_program :: pubkey
  oa_subaccount :: "pubkey option"

definition load_optional_subaccount :: "world \<Rightarrow> pubkey option \<Rightarrow> (subaccount option) result" where
  "load_optional_subaccount w k =
     (case k of None \<Rightarrow> Inr None
      | Some a \<Rightarrow> bindR (load_subaccount w a) (\<lambda>s. Inr (Some s)))"

definition put_optional_subaccount :: "pubkey option \<Rightarrow> subaccount option \<Rightarrow> world \<Rightarrow> world" where
  "put_optional_subaccount k s w =
     (case k of None \<Rightarrow> w
      | Some a \<Rightarrow> (case s of None \<Rightarrow> w | Some x \<Rightarrow> put_subaccount a x w))"

text \<open>The seeds constraint of the optional entry, checked when it is given.\<close>

definition optional_subaccount_pda ::
  "env \<Rightarrow> pubkey \<Rightarrow> pubkey option \<Rightarrow> subaccount option \<Rightarrow> 'a result \<Rightarrow> 'a result" where
  "optional_subaccount_pda E vault k sub cont =
     (case k of None \<Rightarrow> cont
      | Some a \<Rightarrow> (case sub of None \<Rightarrow> cont
                   | Some s \<Rightarrow> seeds_with_bump E (subaccount_seeds vault (sub_address s)) (sub_bump s)
                       VAULT_PROGRAM_ID a cont))"

lemma optional_subaccount_pda_Inr [simp]:
  "optional_subaccount_pda E vault k sub cont = Inr x \<longleftrightarrow>
     (\<forall>a s. k = Some a \<longrightarrow> sub = Some s \<longrightarrow>
        create_program_address E (subaccount_seeds vault (sub_address s) @ [[sub_bump s]])
          VAULT_PROGRAM_ID = Some a) \<and> cont = Inr x"
  by (auto simp: optional_subaccount_pda_def constraint_simps split: option.splits)

text \<open>The accounts of \<open>OperatorWithdraw\<close> and \<open>OperatorDeposit\<close>, field for field the same.\<close>

definition operator_ctx ::
  "env \<Rightarrow> tx \<Rightarrow> operator_accounts \<Rightarrow> world \<Rightarrow>
     (vault_state \<times> token_account \<times> mint_account \<times> subaccount option) result" where
  "operator_ctx E t A w =
     bindR (load_vault w (oa_vault_state A)) (\<lambda>v.
     bindR (load_token E w (oa_vault_deposit_ata A)) (\<lambda>reserve.
     bindR (load_token E w (oa_operator_token_account A)) (\<lambda>dest.
     bindR (load_mint E w (oa_deposit_mint A)) (\<lambda>dm.
     signer t (oa_operator A)
     (token_program_account E (oa_token_program A)
     (bindR (load_optional_subaccount w (oa_subaccount A)) (\<lambda>sub.
      seeds_bump E (vault_state_seeds (oa_deposit_mint A) (v_vault_version v)) VAULT_PROGRAM_ID
        (oa_vault_state A)
     (seeds_bump E (vault_token_seeds (oa_deposit_mint A) (v_vault_version v)) VAULT_PROGRAM_ID
        (oa_vault_deposit_ata A)
     (token_mint reserve (oa_deposit_mint A)
     (token_authority reserve (oa_vault_state A)
     (associated_token E (oa_operator_token_account A) dest (oa_deposit_mint A)
        (case sub of None \<Rightarrow> oa_operator A | Some s \<Rightarrow> sub_address s) (oa_token_program A)
     (require (v_operator v = oa_operator A) (VaultErr NotOperator)
     (optional_subaccount_pda E (oa_vault_state A) (oa_subaccount A) sub
       (Inr (v, dest, dm, sub)))))))))))))))"

section \<open>operator_withdraw.rs\<close>

definition operator_withdraw :: "env \<Rightarrow> tx \<Rightarrow> operator_accounts \<Rightarrow> u64 \<Rightarrow> world \<Rightarrow> world result" where
  "operator_withdraw E t A amount w =
     bindR (operator_ctx E t A w) (\<lambda>(v, dest, dm, sub).
     require (0 < amount) (VaultErr ZeroAmount)
     (require (requires_subaccount v = (sub \<noteq> None)) (VaultErr InvalidSubaccount)
     (require (case sub of None \<Rightarrow> True
               | Some s \<Rightarrow> ta_delegate dest = Some (oa_vault_state A) \<and>
                   saturating_add (sub_principal s) amount \<le> ta_delegated_amount dest)
        (VaultErr SubaccountDelegationMissing)
     (bindR (pda_signers E t VAULT_PROGRAM_ID (vault_seeds v)) (\<lambda>S.
      bindR (token_call (transfer_checked E (oa_token_program A) S (oa_vault_deposit_ata A)
        (oa_deposit_mint A) (oa_operator_token_account A) (oa_vault_state A) amount
        (mi_decimals dm) (ledger w))) (\<lambda>L.
      bindR (ok_or (checked_add (v_deployed_aum v) amount) Panicked) (\<lambda>deployed_aum.
      bindR (ok_or (checked_add (v_deployed_principal v) amount) (VaultErr NumberOverflow))
        (\<lambda>deployed_principal.
      bindR (case sub of None \<Rightarrow> Inr None
             | Some s \<Rightarrow> bindR (ok_or (checked_add (sub_principal s) amount) (VaultErr NumberOverflow))
                 (\<lambda>p. Inr (Some (s\<lparr>sub_principal := p\<rparr>)))) (\<lambda>sub'.
      Inr (put_optional_subaccount (oa_subaccount A) sub'
            (put_vault (oa_vault_state A)
              (v\<lparr>v_local_aum := (if v_local_aum v < amount then 0 else v_local_aum v - amount),
                 v_deployed_aum := deployed_aum, v_deployed_principal := deployed_principal\<rparr>)
              (put_ledger L w))))))))))))"

section \<open>operator_deposit.rs\<close>

definition operator_deposit :: "env \<Rightarrow> tx \<Rightarrow> operator_accounts \<Rightarrow> u64 \<Rightarrow> world \<Rightarrow> world result" where
  "operator_deposit E t A amount w =
     bindR (operator_ctx E t A w) (\<lambda>(v, source, dm, sub).
     require (0 < amount) (VaultErr ZeroAmount)
     (require (requires_subaccount v = (sub \<noteq> None)) (VaultErr InvalidSubaccount)
     (bindR (if sub \<noteq> None
             then require (ta_delegate source = Some (oa_vault_state A) \<and>
                           amount \<le> ta_delegated_amount source)
                    (VaultErr SubaccountDelegationMissing)
                    (bindR (pda_signers E t VAULT_PROGRAM_ID (vault_seeds v))
                      (\<lambda>S. Inr (oa_vault_state A, S)))
             else Inr (oa_operator A, signers t)) (\<lambda>(authority, S).
      bindR (token_call (transfer_checked E (oa_token_program A) S (oa_operator_token_account A)
        (oa_deposit_mint A) (oa_vault_deposit_ata A) authority amount
        (mi_decimals dm) (ledger w))) (\<lambda>L.
      bindR (ok_or (checked_add (v_local_aum v) amount) Panicked) (\<lambda>local_aum.
      let repaid = (case sub of Some s \<Rightarrow> min amount (sub_principal s) | None \<Rightarrow> amount) in
      Inr (put_optional_subaccount (oa_subaccount A)
            (map_option (\<lambda>s. s\<lparr>sub_principal := saturating_sub (sub_principal s) amount\<rparr>) sub)
            (put_vault (oa_vault_state A)
              (v\<lparr>v_deployed_aum := (if v_deployed_aum v < amount then 0 else v_deployed_aum v - amount),
                 v_local_aum := local_aum,
                 v_deployed_principal := saturating_sub (v_deployed_principal v) repaid\<rparr>)
              (put_ledger L w)))))))))"

section \<open>operator_update_aum.rs\<close>

record update_aum_accounts =
  ua_vault_state :: pubkey
  ua_deposit_mint :: pubkey
  ua_operator :: pubkey

text \<open>
  The arithmetic of the guard. The code writes plain \<open>-\<close>, \<open>+\<close> and \<open>*\<close>, which panic on overflow.
\<close>

definition aum_update_allowed :: "vault_state \<Rightarrow> u64 \<Rightarrow> unit result" where
  "aum_update_allowed v new_aum =
     bindR (ok_or (checked_sub BPS_DENOMINATOR (v_aum_decrease_limit v)) Panicked) (\<lambda>decrease_limit.
     bindR (ok_or (checked_add BPS_DENOMINATOR (v_aum_increase_limit v)) Panicked) (\<lambda>increase_limit.
     bindR (ok_or (checked_mul (widen new_aum) (widen32 BPS_DENOMINATOR)) Panicked) (\<lambda>scaled_new_aum.
     bindR (ok_or (checked_mul (widen32 decrease_limit) (widen (v_deployed_aum v))) Panicked) (\<lambda>low.
     require (low \<le> scaled_new_aum) (VaultErr AumDecreaseTooBig)
     (bindR (ok_or (checked_mul (widen32 increase_limit) (widen (v_deployed_aum v))) Panicked) (\<lambda>high.
      require (scaled_new_aum \<le> high) (VaultErr AumIncreaseTooBig)
        (Inr ())))))))"

definition operator_update_aum ::
  "env \<Rightarrow> tx \<Rightarrow> update_aum_accounts \<Rightarrow> u64 \<Rightarrow> world \<Rightarrow> world result" where
  "operator_update_aum E t A new_aum w =
     bindR (load_vault w (ua_vault_state A)) (\<lambda>v.
     bindR (load_mint E w (ua_deposit_mint A)) (\<lambda>dm.
     signer t (ua_operator A)
     (seeds_bump E (vault_state_seeds (ua_deposit_mint A) (v_vault_version v)) VAULT_PROGRAM_ID
        (ua_vault_state A)
     (require (v_operator v = ua_operator A) (VaultErr NotOperator)
     (bindR (aum_update_allowed v new_aum) (\<lambda>_.
       Inr (put_vault (ua_vault_state A) (v\<lparr>v_deployed_aum := new_aum\<rparr>) w)))))))"

section \<open>register_subaccount.rs\<close>

record register_accounts =
  rs_vault_state :: pubkey
  rs_subaccount :: pubkey
  rs_deposit_mint :: pubkey
  rs_subaccount_ata :: pubkey
  rs_token_program :: pubkey
  rs_admin :: pubkey

text \<open>The entry the handler writes into the zeroed account.\<close>

definition new_subaccount :: "env \<Rightarrow> pubkey \<Rightarrow> pubkey \<Rightarrow> u64 \<Rightarrow> subaccount" where
  "new_subaccount E vault address inherited =
     zero_subaccount\<lparr>sub_vault_state := vault, sub_address := address,
       sub_bump := snd (find_program_address E (subaccount_seeds vault address) VAULT_PROGRAM_ID),
       sub_principal := inherited\<rparr>"

lemma new_subaccount_select [simp]:
  "sub_vault_state (new_subaccount E vault address p) = vault"
  "sub_address (new_subaccount E vault address p) = address"
  "sub_principal (new_subaccount E vault address p) = p"
  "sub_bump (new_subaccount E vault address p) =
     snd (find_program_address E (subaccount_seeds vault address) VAULT_PROGRAM_ID)"
  by (simp_all add: new_subaccount_def)

definition register_subaccount ::
  "env \<Rightarrow> tx \<Rightarrow> register_accounts \<Rightarrow> pubkey \<Rightarrow> world \<Rightarrow> world result" where
  "register_subaccount E t A address w =
     bindR (load_vault w (rs_vault_state A)) (\<lambda>v.
     bindR (load_mint E w (rs_deposit_mint A)) (\<lambda>dm.
     bindR (load_token E w (rs_subaccount_ata A)) (\<lambda>ata.
     token_program_account E (rs_token_program A)
     (signer t (rs_admin A)
     (seeds_bump E (subaccount_seeds (rs_vault_state A) address) VAULT_PROGRAM_ID (rs_subaccount A)
     (init_account t w (rs_admin A) (rs_subaccount A)
     (seeds_bump E (vault_state_seeds (rs_deposit_mint A) (v_vault_version v)) VAULT_PROGRAM_ID
        (rs_vault_state A)
     (associated_token E (rs_subaccount_ata A) ata (rs_deposit_mint A) address (rs_token_program A)
     (require (v_admin v = rs_admin A) (VaultErr NotAdmin)
     (let inherited = (if v_subaccount_count v = 0 then v_deployed_principal v else 0) in
      require (ta_delegate ata = Some (rs_vault_state A) \<and> 0 < ta_delegated_amount ata \<and>
               inherited \<le> ta_delegated_amount ata) (VaultErr SubaccountDelegationMissing)
     (require (address \<noteq> v_operator v) (VaultErr InvalidSubaccount)
     (bindR (ok_or (checked_add (v_subaccount_count v) 1) (VaultErr NumberOverflow)) (\<lambda>count.
      Inr (put_subaccount (rs_subaccount A)
            (new_subaccount E (rs_vault_state A) address inherited)
            (put_vault (rs_vault_state A) (v\<lparr>v_subaccount_count := count\<rparr>) w)))))))))))))))"

section \<open>deregister_subaccount.rs\<close>

record deregister_accounts =
  ds_vault_state :: pubkey
  ds_subaccount :: pubkey
  ds_deposit_mint :: pubkey
  ds_admin :: pubkey

definition deregister_subaccount ::
  "env \<Rightarrow> tx \<Rightarrow> deregister_accounts \<Rightarrow> world \<Rightarrow> world result" where
  "deregister_subaccount E t A w =
     bindR (load_vault w (ds_vault_state A)) (\<lambda>v.
     bindR (load_subaccount w (ds_subaccount A)) (\<lambda>sub.
     bindR (load_mint E w (ds_deposit_mint A)) (\<lambda>dm.
     signer t (ds_admin A)
     (seeds_bump E (vault_state_seeds (ds_deposit_mint A) (v_vault_version v)) VAULT_PROGRAM_ID
        (ds_vault_state A)
     (seeds_with_bump E (subaccount_seeds (ds_vault_state A) (sub_address sub)) (sub_bump sub)
        VAULT_PROGRAM_ID (ds_subaccount A)
     (require (sub_vault_state sub = ds_vault_state A) (VaultErr InvalidSubaccount)
     (close_to (ds_subaccount A) (ds_admin A)
     (require (v_admin v = ds_admin A) (VaultErr NotAdmin)
     (require (sub_principal sub = 0) (VaultErr SubaccountNotEmpty)
      (Inr ((put_vault (ds_vault_state A)
               (v\<lparr>v_subaccount_count := saturating_sub (v_subaccount_count v) 1\<rparr>) w)
              \<lparr>subaccounts := (subaccounts w)(ds_subaccount A := None)\<rparr>)))))))))))"

section \<open>settle_subaccount_loss.rs\<close>

record settle_accounts =
  se_vault_state :: pubkey
  se_subaccount :: pubkey
  se_deposit_mint :: pubkey
  se_subaccount_ata :: pubkey
  se_token_program :: pubkey
  se_admin :: pubkey

definition settle_subaccount_loss ::
  "env \<Rightarrow> tx \<Rightarrow> settle_accounts \<Rightarrow> u64 \<Rightarrow> world \<Rightarrow> world result" where
  "settle_subaccount_loss E t A amount w =
     bindR (load_vault w (se_vault_state A)) (\<lambda>v.
     bindR (load_subaccount w (se_subaccount A)) (\<lambda>sub.
     bindR (load_mint E w (se_deposit_mint A)) (\<lambda>dm.
     bindR (load_token E w (se_subaccount_ata A)) (\<lambda>ata.
     token_program_account E (se_token_program A)
     (signer t (se_admin A)
     (seeds_bump E (vault_state_seeds (se_deposit_mint A) (v_vault_version v)) VAULT_PROGRAM_ID
        (se_vault_state A)
     (seeds_with_bump E (subaccount_seeds (se_vault_state A) (sub_address sub)) (sub_bump sub)
        VAULT_PROGRAM_ID (se_subaccount A)
     (require (sub_vault_state sub = se_vault_state A) (VaultErr InvalidSubaccount)
     (associated_token E (se_subaccount_ata A) ata (se_deposit_mint A) (sub_address sub)
        (se_token_program A)
     (require (v_admin v = se_admin A) (VaultErr NotAdmin)
     (require (0 < amount) (VaultErr ZeroAmount)
     (require (amount \<le> saturating_sub (sub_principal sub) (ta_amount ata))
        (VaultErr LossExceedsShortfall)
     (bindR (ok_or (checked_sub (sub_principal sub) amount) Panicked) (\<lambda>principal.
      Inr (put_vault (se_vault_state A)
             (v\<lparr>v_deployed_principal := saturating_sub (v_deployed_principal v) amount\<rparr>)
            (put_subaccount (se_subaccount A) (sub\<lparr>sub_principal := principal\<rparr>) w))))))))))))))))"

section \<open>What a successful call means\<close>

lemma load_optional_Inr:
  "load_optional_subaccount w k = Inr sub \<longleftrightarrow>
     (case k of None \<Rightarrow> sub = None | Some a \<Rightarrow> sub = subaccounts w a \<and> subaccounts w a \<noteq> None)"
  by (auto simp: load_optional_subaccount_def load_simps split: option.splits)

lemma operator_ctx_Inr:
  assumes "operator_ctx E t A w = Inr (v, dest, dm, sub)"
  shows "vaults w (oa_vault_state A) = Some v" and "mints (ledger w) (oa_deposit_mint A) = Some dm"
    and "tokens (ledger w) (oa_operator_token_account A) = Some dest"
    and "v_operator v = oa_operator A" and "oa_operator A \<in> signers t"
    and "holder (ledger w) (oa_vault_deposit_ata A) = Some (oa_deposit_mint A, oa_vault_state A)"
    and "associated_token_address E (case sub of None \<Rightarrow> oa_operator A | Some s \<Rightarrow> sub_address s)
           (oa_deposit_mint A) (oa_token_program A) = oa_operator_token_account A"
    and "ta_owner dest = (case sub of None \<Rightarrow> oa_operator A | Some s \<Rightarrow> sub_address s)"
    and "case oa_subaccount A of None \<Rightarrow> sub = None
         | Some k \<Rightarrow> sub = subaccounts w k \<and> sub \<noteq> None"
    and "\<And>s k. sub = Some s \<Longrightarrow> oa_subaccount A = Some k \<Longrightarrow>
           create_program_address E (subaccount_seeds (oa_vault_state A) (sub_address s) @
             [[sub_bump s]]) VAULT_PROGRAM_ID = Some k"
  using assms
  by (auto simp: operator_ctx_def load_simps constraint_simps holder_def load_optional_Inr
      split: option.splits)

text \<open>The registry entry after \<open>n\<close> more, or \<open>n\<close> fewer, tokens are owed by it.\<close>

definition owes_more :: "u64 \<Rightarrow> subaccount option \<Rightarrow> subaccount option \<Rightarrow> bool" where
  "owes_more n sub sub' \<longleftrightarrow>
     (case sub of None \<Rightarrow> sub' = None
      | Some s \<Rightarrow> \<exists>p. sub' = Some (s\<lparr>sub_principal := p\<rparr>) \<and> unat p = unat (sub_principal s) + unat n)"

lemma operator_withdraw_cases:
  assumes "operator_withdraw E t A amount w = Inr w'"
  obtains v dest dm sub S L v' sub' where
    "operator_ctx E t A w = Inr (v, dest, dm, sub)" and "amount \<noteq> 0"
    and "requires_subaccount v = (sub \<noteq> None)"
    and "\<And>s. sub = Some s \<Longrightarrow> ta_delegate dest = Some (oa_vault_state A) \<and>
           saturating_add (sub_principal s) amount \<le> ta_delegated_amount dest"
    and "pda_signers E t VAULT_PROGRAM_ID (vault_seeds v) = Inr S"
    and "transfer_checked E (oa_token_program A) S (oa_vault_deposit_ata A)
           (oa_deposit_mint A) (oa_operator_token_account A) (oa_vault_state A) amount
           (mi_decimals dm) (ledger w) = Inr L"
    and "v' = v\<lparr>v_local_aum := v_local_aum v', v_deployed_aum := v_deployed_aum v',
               v_deployed_principal := v_deployed_principal v'\<rparr>"
    and "unat (v_local_aum v') = unat (v_local_aum v) - unat amount"
    and "unat (v_deployed_aum v') = unat (v_deployed_aum v) + unat amount"
    and "unat (v_deployed_principal v') = unat (v_deployed_principal v) + unat amount"
    and "owes_more amount sub sub'"
    and "w' = put_optional_subaccount (oa_subaccount A) sub'
               (put_vault (oa_vault_state A) v' (put_ledger L w))"
proof -
  obtain v dest dm sub S L da dp sub' where *:
    "operator_ctx E t A w = Inr (v, dest, dm, sub)" "amount \<noteq> 0"
    "requires_subaccount v = (sub \<noteq> None)"
    "case sub of None \<Rightarrow> True | Some s \<Rightarrow> ta_delegate dest = Some (oa_vault_state A) \<and>
           saturating_add (sub_principal s) amount \<le> ta_delegated_amount dest"
    "pda_signers E t VAULT_PROGRAM_ID (vault_seeds v) = Inr S"
    "transfer_checked E (oa_token_program A) S (oa_vault_deposit_ata A)
           (oa_deposit_mint A) (oa_operator_token_account A) (oa_vault_state A) amount
           (mi_decimals dm) (ledger w) = Inr L"
    "unat da = unat (v_deployed_aum v) + unat amount"
    "unat dp = unat (v_deployed_principal v) + unat amount"
    "(case sub of None \<Rightarrow> Inr None
             | Some s \<Rightarrow> bindR (ok_or (checked_add (sub_principal s) amount) (VaultErr NumberOverflow))
                 (\<lambda>p. Inr (Some (s\<lparr>sub_principal := p\<rparr>)))) = (Inr sub' :: subaccount option result)"
    "w' = put_optional_subaccount (oa_subaccount A) sub'
            (put_vault (oa_vault_state A)
              (v\<lparr>v_local_aum := (if v_local_aum v < amount then 0 else v_local_aum v - amount),
                 v_deployed_aum := da, v_deployed_principal := dp\<rparr>) (put_ledger L w))"
    using assms unfolding operator_withdraw_def
    by (simp only: bindR_Inr require_Inr case_prod_beta token_call_Inr ok_or_Inr checked_add_Some
          word_gt_0 sum.inject prod.collapse) (auto; metis)
  have "owes_more amount sub sub'"
    using *(9) by (auto simp: owes_more_def split: option.splits)
  moreover have "unat (if v_local_aum v < amount then 0 else v_local_aum v - amount) =
      unat (v_local_aum v) - unat amount"
    by (simp add: word_less_nat_alt word_le_nat_alt unat_sub_le)
  ultimately show ?thesis
    using *(4) by (intro that [OF *(1-3) _ *(5,6) _ _ _ _ _ *(10)]) (simp_all add: *(7,8))
qed

lemma put_optional_select [simp]:
  "vaults (put_optional_subaccount k s w) = vaults w"
  "ledger (put_optional_subaccount k s w) = ledger w"
  "events (put_optional_subaccount k s w) = events w"
  "queues (put_optional_subaccount k s w) = queues w"
  "requests (put_optional_subaccount k s w) = requests w"
  "subaccounts (put_optional_subaccount k s w) =
     (case k of None \<Rightarrow> subaccounts w
      | Some a \<Rightarrow> (case s of None \<Rightarrow> subaccounts w | Some x \<Rightarrow> (subaccounts w)(a \<mapsto> x)))"
  by (simp_all add: put_optional_subaccount_def put_subaccount_def split: option.splits)

lemma total_assets_unat:
  "unat (v_local_aum v') + unat (v_deployed_aum v') = unat (v_local_aum v) + unat (v_deployed_aum v) \<Longrightarrow>
   total_assets v' = total_assets v"
  unfolding total_assets_def checked_add_def by (auto intro!: unat_eqD simp: unat_word_ariths)

text \<open>
  C29. An operator withdrawal moves exactly the amount out of the reserve to the named destination,
  books it as deployed and as principal, and mints and burns nothing. Within the vault's booked local
  assets it leaves the total as it was; beyond them, where it draws on tokens that reached the
  reserve without a deposit, the total grows by exactly that excess.
\<close>

theorem operator_withdraw_effects:
  assumes "spl_laws E" and "plain E (ledger w) (oa_deposit_mint A)"
    and "operator_withdraw E t A amount w = Inr w'" and "vaults w (oa_vault_state A) = Some v"
  shows "\<exists>v'. vaults w' = (vaults w)(oa_vault_state A \<mapsto> v') \<and> v_operator v \<in> signers t \<and>
     unat amount \<le> balance (ledger w) (oa_vault_deposit_ata A) \<and>
     balance (ledger w') = move (oa_vault_deposit_ata A) (oa_operator_token_account A) (unat amount)
       (balance (ledger w)) \<and>
     supply_of (ledger w') = supply_of (ledger w) \<and> moved (ledger w) (ledger w') \<and>
     v' = v\<lparr>v_local_aum := v_local_aum v', v_deployed_aum := v_deployed_aum v',
            v_deployed_principal := v_deployed_principal v'\<rparr> \<and>
     unat (v_local_aum v') = unat (v_local_aum v) - unat amount \<and>
     unat (v_deployed_aum v') = unat (v_deployed_aum v) + unat amount \<and>
     unat (v_deployed_principal v') = unat (v_deployed_principal v) + unat amount \<and>
     unat (v_local_aum v') + unat (v_deployed_aum v') =
       unat (v_deployed_aum v) + max (unat (v_local_aum v)) (unat amount) \<and>
     (amount \<le> v_local_aum v \<longrightarrow> total_assets v' = total_assets v)"
  using assms(3)
proof (cases rule: operator_withdraw_cases)
  case (1 v0 dest dm sub S L v' sub')
  note c = operator_ctx_Inr [OF 1(1)]
  have eq: "v0 = v" using c(1) assms(4) by simp
  note tr = transfer_effect [OF assms(1,2) 1(6)]
  have "total_assets v' = total_assets v" if "amount \<le> v_local_aum v"
    using that 1(8,9) by (intro total_assets_unat) (simp add: eq word_le_nat_alt)
  then show ?thesis
    using 1(7-10) [unfolded eq] tr(4) c(4,5) eq
    by (intro exI [of _ v'])
      (simp add: 1(12) put_vault_def put_ledger_def tr(1,5) supply_same [OF tr(2)])
qed

text \<open>
  C28. Where the operator may send funds: without registered destinations only to his own associated
  account; with them only to the associated account of a registered address, and only while the
  delegation that account gives the vault covers everything the address will owe.
\<close>

theorem operator_withdraw_destination:
  assumes "operator_withdraw E t A amount w = Inr w'" and "vaults w (oa_vault_state A) = Some v"
  shows "\<exists>dest owner. tokens (ledger w) (oa_operator_token_account A) = Some dest \<and>
     ta_owner dest = owner \<and>
     associated_token_address E owner (oa_deposit_mint A) (oa_token_program A) =
       oa_operator_token_account A \<and>
     (if requires_subaccount v
      then \<exists>k s s'. subaccounts w k = Some s \<and> subaccounts w' k = Some s' \<and>
        create_program_address E (subaccount_seeds (oa_vault_state A) (sub_address s) @
          [[sub_bump s]]) VAULT_PROGRAM_ID = Some k \<and>
        owner = sub_address s \<and> ta_delegate dest = Some (oa_vault_state A) \<and>
        unat (sub_principal s') = unat (sub_principal s) + unat amount \<and>
        sub_principal s' \<le> ta_delegated_amount dest
      else owner = v_operator v \<and> subaccounts w' = subaccounts w)"
  using assms(1)
proof (cases rule: operator_withdraw_cases)
  case (1 v0 dest dm sub S L v' sub')
  note c = operator_ctx_Inr [OF 1(1)]
  have eq: "v0 = v" using c(1) assms(2) by simp
  show ?thesis
  proof (cases sub)
    case None
    then show ?thesis
      using c 1(3,11) eq
      by (auto simp: 1(12) owes_more_def put_vault_def put_ledger_def split: option.splits)
  next
    case (Some s)
    then obtain k where k: "oa_subaccount A = Some k" "subaccounts w k = Some s"
      using c(9) by (auto split: option.splits)
    obtain p where p: "sub' = Some (s\<lparr>sub_principal := p\<rparr>)"
      "unat p = unat (sub_principal s) + unat amount"
      using 1(11) Some by (auto simp: owes_more_def)
    have "unat (saturating_add (sub_principal s) amount) = unat p"
      using p(2) unat_u64_bound [of p] by (simp add: unat_saturating_add del: unat_u64_bound)
    then have "p \<le> ta_delegated_amount dest" using 1(4) [OF Some] by (simp add: word_le_nat_alt)
    then show ?thesis
      using c Some k p 1(3) 1(4) [OF Some] eq
      by (auto simp: 1(12) put_vault_def put_ledger_def intro!: exI [of _ k])
  qed
qed

text \<open>What is repaid of an entry's principal, and the entry after that.\<close>

definition repaid :: "u64 \<Rightarrow> subaccount option \<Rightarrow> nat" where
  "repaid n sub = (case sub of None \<Rightarrow> unat n | Some s \<Rightarrow> min (unat n) (unat (sub_principal s)))"

definition owes_less :: "u64 \<Rightarrow> subaccount option \<Rightarrow> subaccount option \<Rightarrow> bool" where
  "owes_less n sub sub' \<longleftrightarrow>
     (case sub of None \<Rightarrow> sub' = None
      | Some s \<Rightarrow> \<exists>p. sub' = Some (s\<lparr>sub_principal := p\<rparr>) \<and> unat p = unat (sub_principal s) - unat n)"

lemma operator_deposit_cases:
  assumes "operator_deposit E t A amount w = Inr w'"
  obtains v source dm sub auth S L v' sub' where
    "operator_ctx E t A w = Inr (v, source, dm, sub)" and "amount \<noteq> 0"
    and "requires_subaccount v = (sub \<noteq> None)"
    and "if sub = None then auth = oa_operator A \<and> S = signers t
         else auth = oa_vault_state A \<and> ta_delegate source = Some (oa_vault_state A) \<and>
           amount \<le> ta_delegated_amount source \<and>
           pda_signers E t VAULT_PROGRAM_ID (vault_seeds v) = Inr S"
    and "transfer_checked E (oa_token_program A) S (oa_operator_token_account A)
           (oa_deposit_mint A) (oa_vault_deposit_ata A) auth amount (mi_decimals dm) (ledger w) = Inr L"
    and "v' = v\<lparr>v_local_aum := v_local_aum v', v_deployed_aum := v_deployed_aum v',
               v_deployed_principal := v_deployed_principal v'\<rparr>"
    and "unat (v_local_aum v') = unat (v_local_aum v) + unat amount"
    and "unat (v_deployed_aum v') = unat (v_deployed_aum v) - unat amount"
    and "unat (v_deployed_principal v') = unat (v_deployed_principal v) - repaid amount sub"
    and "owes_less amount sub sub'"
    and "w' = put_optional_subaccount (oa_subaccount A) sub'
               (put_vault (oa_vault_state A) v' (put_ledger L w))"
proof -
  obtain v source dm sub auth S L la where *:
    "operator_ctx E t A w = Inr (v, source, dm, sub)" "amount \<noteq> 0"
    "requires_subaccount v = (sub \<noteq> None)"
    "(if sub \<noteq> None
      then require (ta_delegate source = Some (oa_vault_state A) \<and> amount \<le> ta_delegated_amount source)
             (VaultErr SubaccountDelegationMissing)
             (bindR (pda_signers E t VAULT_PROGRAM_ID (vault_seeds v)) (\<lambda>S. Inr (oa_vault_state A, S)))
      else Inr (oa_operator A, signers t)) = Inr (auth, S)"
    "transfer_checked E (oa_token_program A) S (oa_operator_token_account A)
      (oa_deposit_mint A) (oa_vault_deposit_ata A) auth amount (mi_decimals dm) (ledger w) = Inr L"
    "unat la = unat (v_local_aum v) + unat amount"
    "w' = put_optional_subaccount (oa_subaccount A)
            (map_option (\<lambda>s. s\<lparr>sub_principal := saturating_sub (sub_principal s) amount\<rparr>) sub)
            (put_vault (oa_vault_state A)
              (v\<lparr>v_deployed_aum := (if v_deployed_aum v < amount then 0 else v_deployed_aum v - amount),
                 v_local_aum := la,
                 v_deployed_principal := saturating_sub (v_deployed_principal v)
                    (case sub of Some s \<Rightarrow> min amount (sub_principal s) | None \<Rightarrow> amount)\<rparr>)
              (put_ledger L w))"
    using assms unfolding operator_deposit_def Let_def
    by (simp only: bindR_Inr require_Inr case_prod_beta token_call_Inr ok_or_Inr checked_add_Some
          word_gt_0 sum.inject prod.collapse) (auto; metis)
  let ?v' = "v\<lparr>v_deployed_aum := (if v_deployed_aum v < amount then 0 else v_deployed_aum v - amount),
                 v_local_aum := la,
                 v_deployed_principal := saturating_sub (v_deployed_principal v)
                    (case sub of Some s \<Rightarrow> min amount (sub_principal s) | None \<Rightarrow> amount)\<rparr>"
  show ?thesis
  proof (rule that [OF *(1-3) _ *(5) _ _ _ _ _ *(7)])
    show "if sub = None then auth = oa_operator A \<and> S = signers t
         else auth = oa_vault_state A \<and> ta_delegate source = Some (oa_vault_state A) \<and>
           amount \<le> ta_delegated_amount source \<and>
           pda_signers E t VAULT_PROGRAM_ID (vault_seeds v) = Inr S"
      using *(4) by (auto split: if_splits)
    show "unat (v_deployed_aum ?v') = unat (v_deployed_aum v) - unat amount"
      by (simp add: word_less_nat_alt word_le_nat_alt unat_sub_le)
    show "unat (v_deployed_principal ?v') = unat (v_deployed_principal v) - repaid amount sub"
      by (simp add: repaid_def unat_min split: option.splits)
    show "owes_less amount sub
        (map_option (\<lambda>s. s\<lparr>sub_principal := saturating_sub (sub_principal s) amount\<rparr>) sub)"
      by (auto simp: owes_less_def split: option.splits)
  qed (simp_all add: *(6))
qed

text \<open>
  C30. An operator deposit moves exactly the amount from the named source into the reserve, signed by
  the operator; from a registered destination it is drawn on the delegation to the vault, which must
  cover it. What was deployed returns to hand, and within the deployed assets the total stays.
\<close>

theorem operator_deposit_effects:
  assumes "spl_laws E" and "plain E (ledger w) (oa_deposit_mint A)"
    and "operator_deposit E t A amount w = Inr w'" and "vaults w (oa_vault_state A) = Some v"
  shows "\<exists>v' source. vaults w' = (vaults w)(oa_vault_state A \<mapsto> v') \<and> v_operator v \<in> signers t \<and>
     tokens (ledger w) (oa_operator_token_account A) = Some source \<and>
     (if requires_subaccount v
      then ta_delegate source = Some (oa_vault_state A) \<and> amount \<le> ta_delegated_amount source
      else ta_owner source = v_operator v) \<and>
     unat amount \<le> balance (ledger w) (oa_operator_token_account A) \<and>
     balance (ledger w') = move (oa_operator_token_account A) (oa_vault_deposit_ata A) (unat amount)
       (balance (ledger w)) \<and>
     supply_of (ledger w') = supply_of (ledger w) \<and> moved (ledger w) (ledger w') \<and>
     v' = v\<lparr>v_local_aum := v_local_aum v', v_deployed_aum := v_deployed_aum v',
            v_deployed_principal := v_deployed_principal v'\<rparr> \<and>
     unat (v_local_aum v') = unat (v_local_aum v) + unat amount \<and>
     unat (v_deployed_aum v') = unat (v_deployed_aum v) - unat amount \<and>
     v_deployed_principal v' \<le> v_deployed_principal v \<and>
     (amount \<le> v_deployed_aum v \<longrightarrow> total_assets v' = total_assets v)"
  using assms(3)
proof (cases rule: operator_deposit_cases)
  case (1 v0 source dm sub auth S L v' sub')
  note c = operator_ctx_Inr [OF 1(1)]
  have eq: "v0 = v" using c(1) assms(4) by simp
  note tr = transfer_effect [OF assms(1,2) 1(5)]
  have tot: "total_assets v' = total_assets v" if "amount \<le> v_deployed_aum v"
    using that 1(7,8) by (intro total_assets_unat) (simp add: eq word_le_nat_alt)
  have le: "v_deployed_principal v' \<le> v_deployed_principal v"
    using 1(9) by (simp add: eq word_le_nat_alt)
  have src: "if requires_subaccount v
      then ta_delegate source = Some (oa_vault_state A) \<and> amount \<le> ta_delegated_amount source
      else ta_owner source = v_operator v"
    using 1(3,4) c(4,8) eq by (auto split: if_splits)
  show ?thesis
    using 1(6-8) [unfolded eq] tr(4) c(3-5) eq tot le src
    by (intro exI [of _ v'] exI [of _ source])
      (simp add: 1(11) put_vault_def put_ledger_def tr(1,5) supply_same [OF tr(2)])
qed

section \<open>AUM reports\<close>

lemma u64_u32_mult_fits:
  assumes "unat b < 2 ^ 32"
  shows "unat (a :: u64) * unat (b :: u128) < 340282366920938463463374607431768211456"
proof -
  have "unat a * unat b < 2 ^ 64 * 2 ^ 32" using assms by (intro mult_strict_mono) simp_all
  then show ?thesis by simp
qed

text \<open>The guard of an AUM report over the limits a vault stores; no input overflows.\<close>

lemma aum_update_exact:
  assumes lim: "unat (v_aum_decrease_limit v) \<le> 10000" "unat (v_aum_increase_limit v) \<le> 10000"
  shows "aum_update_allowed v new_aum =
    (let D = unat (v_deployed_aum v); n = 10000 * unat new_aum in
     if n < (10000 - unat (v_aum_decrease_limit v)) * D then Inl (VaultErr AumDecreaseTooBig)
     else if (10000 + unat (v_aum_increase_limit v)) * D < n then Inl (VaultErr AumIncreaseTooBig)
     else Inr ())"
proof -
  have bps: "unat BPS_DENOMINATOR = 10000" by (simp add: vault_constants)
  define dl where "dl = BPS_DENOMINATOR - v_aum_decrease_limit v"
  have udl: "unat dl = 10000 - unat (v_aum_decrease_limit v)"
    unfolding dl_def using lim(1) bps by (simp add: unat_sub_le word_le_nat_alt)
  have dl: "checked_sub BPS_DENOMINATOR (v_aum_decrease_limit v) = Some dl"
    using lim(1) by (simp only: checked_sub_Some bps udl)
  have "unat BPS_DENOMINATOR + unat (v_aum_increase_limit v) < 2 ^ LENGTH(32)"
    using lim(2) bps by simp
  then obtain il where il: "checked_add BPS_DENOMINATOR (v_aum_increase_limit v) = Some il"
    and uil: "unat il = unat BPS_DENOMINATOR + unat (v_aum_increase_limit v)"
    by (rule checked_add_fits)
  have "unat (widen new_aum) * unat (widen32 BPS_DENOMINATOR) < 2 ^ LENGTH(128)"
    using u64_u32_mult_fits [of "widen32 BPS_DENOMINATOR" new_aum] by simp
  then obtain n where n: "checked_mul (widen new_aum) (widen32 BPS_DENOMINATOR) = Some n"
    and un: "unat n = unat (widen new_aum) * unat (widen32 BPS_DENOMINATOR)"
    by (rule checked_mul_fits)
  have "unat (widen32 dl) * unat (widen (v_deployed_aum v)) < 2 ^ LENGTH(128)"
    using u64_u32_mult_fits [of "widen32 dl" "v_deployed_aum v"] by (simp add: mult.commute)
  then obtain lo where lo: "checked_mul (widen32 dl) (widen (v_deployed_aum v)) = Some lo"
    and ulo: "unat lo = unat (widen32 dl) * unat (widen (v_deployed_aum v))"
    by (rule checked_mul_fits)
  have "unat (widen32 il) * unat (widen (v_deployed_aum v)) < 2 ^ LENGTH(128)"
    using u64_u32_mult_fits [of "widen32 il" "v_deployed_aum v"] by (simp add: mult.commute)
  then obtain hi where hi: "checked_mul (widen32 il) (widen (v_deployed_aum v)) = Some hi"
    and uhi: "unat hi = unat (widen32 il) * unat (widen (v_deployed_aum v))"
    by (rule checked_mul_fits)
  have "aum_update_allowed v new_aum =
      (if lo \<le> n then if n \<le> hi then Inr () else Inl (VaultErr AumIncreaseTooBig)
       else Inl (VaultErr AumDecreaseTooBig))"
    by (simp only: aum_update_allowed_def dl il n lo hi ok_or_simps bindR_simps require_def)
  then show ?thesis
    by (simp add: Let_def word_le_nat_alt ulo uhi un udl uil bps not_le mult.commute)
qed

lemma aum_update_ten_percent:
  assumes "v_aum_decrease_limit v = 1000" and "v_aum_increase_limit v = 1000"
  shows "aum_update_allowed v new_aum =
    (if 10 * unat new_aum < 9 * unat (v_deployed_aum v) then Inl (VaultErr AumDecreaseTooBig)
     else if 11 * unat (v_deployed_aum v) < 10 * unat new_aum then Inl (VaultErr AumIncreaseTooBig)
     else Inr ())"
proof -
  have "(10000 * n < 9000 * D) = (10 * n < 9 * D)" "(11000 * D < 10000 * n) = (11 * D < 10 * n)"
    for n D :: nat by linarith+
  then show ?thesis using assms by (simp add: aum_update_exact Let_def)
qed

text \<open>
  C31. An AUM report on a vault whose two limits are ten percent, with the vault's own accounts,
  succeeds exactly when the vault's operator signs it and the report is within ten percent of the
  deployed AUM, above or below, the bounds included; it then replaces the vault's deployed AUM by the
  report and changes nothing else. Anyone else is refused, a report further off fails with the error
  of its side, and no input overflows.
\<close>

theorem aum_report_ten_percent:
  assumes "vaults w (ua_vault_state A) = Some v"
    and "load_mint E w (ua_deposit_mint A) = Inr dm"
    and "fst (find_program_address E (vault_state_seeds (ua_deposit_mint A) (v_vault_version v))
      VAULT_PROGRAM_ID) = ua_vault_state A"
    and "v_aum_decrease_limit v = 1000" and "v_aum_increase_limit v = 1000"
  shows "operator_update_aum E t A new_aum w =
    (if ua_operator A \<notin> signers t then Inl (AnchorErr AccountNotSigner)
     else if v_operator v \<noteq> ua_operator A then Inl (VaultErr NotOperator)
     else if 10 * unat new_aum < 9 * unat (v_deployed_aum v) then Inl (VaultErr AumDecreaseTooBig)
     else if 11 * unat (v_deployed_aum v) < 10 * unat new_aum then Inl (VaultErr AumIncreaseTooBig)
     else Inr (w\<lparr>vaults := (vaults w)(ua_vault_state A \<mapsto> v\<lparr>v_deployed_aum := new_aum\<rparr>)\<rparr>))"
  using assms
  by (simp add: operator_update_aum_def load_vault_def signer_def seeds_bump_def put_vault_def
      aum_update_ten_percent)

section \<open>The registry\<close>

text \<open>
  A vault's entries and what they owe. An entry is bound to its vault when no other vault's seeds
  derive its address.
\<close>

definition entries :: "world \<Rightarrow> pubkey \<Rightarrow> pubkey set" where
  "entries w V = {k. \<exists>s. subaccounts w k = Some s \<and> sub_vault_state s = V}"

definition principal_at :: "world \<Rightarrow> pubkey \<Rightarrow> nat" where
  "principal_at w k = (case subaccounts w k of None \<Rightarrow> 0 | Some s \<Rightarrow> unat (sub_principal s))"

definition owed :: "world \<Rightarrow> pubkey \<Rightarrow> nat" where
  "owed w V = (\<Sum>k\<in>entries w V. principal_at w k)"

definition registry_ok :: "world \<Rightarrow> pubkey \<Rightarrow> bool" where
  "registry_ok w V \<longleftrightarrow>
     (case vaults w V of None \<Rightarrow> True
      | Some v \<Rightarrow> finite (entries w V) \<and> card (entries w V) = unat (v_subaccount_count v) \<and>
          (v_subaccount_count v \<noteq> 0 \<longrightarrow> owed w V = unat (v_deployed_principal v)))"

definition entries_bound :: "env \<Rightarrow> world \<Rightarrow> bool" where
  "entries_bound E w \<longleftrightarrow>
     (\<forall>k s V b. subaccounts w k = Some s \<longrightarrow> vaults w V \<noteq> None \<longrightarrow>
        create_program_address E (subaccount_seeds V (sub_address s) @ [[b]]) VAULT_PROGRAM_ID = Some k \<longrightarrow>
        V = sub_vault_state s)"

text \<open>An entry of \<open>V\<close> replaced by one that owes another amount.\<close>

lemma entries_update:
  assumes "subaccounts w k = Some s" and "sub_vault_state s' = sub_vault_state s"
    and "subaccounts w' = (subaccounts w)(k \<mapsto> s')"
  shows "entries w' V = entries w V"
  using assms by (auto simp: entries_def)

lemma owed_update:
  assumes "subaccounts w k = Some s" and "sub_vault_state s' = V" and "sub_vault_state s = V"
    and "subaccounts w' = (subaccounts w)(k \<mapsto> s')" and "finite (entries w V)"
  shows "owed w' V + unat (sub_principal s) = owed w V + unat (sub_principal s')"
    and "unat (sub_principal s) \<le> owed w V"
proof -
  have k: "k \<in> entries w V" using assms(1,3) by (auto simp: entries_def)
  have e: "entries w' V = entries w V" using entries_update assms by metis
  have rest: "(\<Sum>j\<in>entries w V - {k}. principal_at w' j) = (\<Sum>j\<in>entries w V - {k}. principal_at w j)"
    using assms(4) by (intro sum.cong) (auto simp: principal_at_def)
  have w': "owed w' V = unat (sub_principal s') + (\<Sum>j\<in>entries w V - {k}. principal_at w j)"
    unfolding owed_def e using sum.remove [OF assms(5) k, of "principal_at w'"] rest assms(4)
    by (simp add: principal_at_def)
  have w: "owed w V = unat (sub_principal s) + (\<Sum>j\<in>entries w V - {k}. principal_at w j)"
    unfolding owed_def using sum.remove [OF assms(5) k, of "principal_at w"] assms(1)
    by (simp add: principal_at_def)
  show "owed w' V + unat (sub_principal s) = owed w V + unat (sub_principal s')"
    and "unat (sub_principal s) \<le> owed w V" using w w' by simp_all
qed

lemma entries_other:
  assumes "subaccounts w' = (subaccounts w)(k := x)" and "V \<noteq> V0"
    and "\<And>s. subaccounts w k = Some s \<Longrightarrow> sub_vault_state s = V0"
    and "\<And>s. x = Some s \<Longrightarrow> sub_vault_state s = V0"
  shows "entries w' V = entries w V" and "owed w' V = owed w V"
proof -
  show e: "entries w' V = entries w V"
    using assms by (auto simp: entries_def split: if_splits)
  have "k \<notin> entries w V" using assms(2,3) by (auto simp: entries_def)
  then show "owed w' V = owed w V"
    unfolding owed_def e using assms(1) by (intro sum.cong) (auto simp: principal_at_def)
qed

lemma register_cases:
  assumes "register_subaccount E t A address w = Inr w'"
  obtains v ata count inherited where "vaults w (rs_vault_state A) = Some v"
    and "v_admin v = rs_admin A" and "rs_admin A \<in> signers t"
    and "tokens (ledger w) (rs_subaccount_ata A) = Some ata" and "ta_owner ata = address"
    and "\<not> in_use w (rs_subaccount A)"
    and "fst (find_program_address E (subaccount_seeds (rs_vault_state A) address) VAULT_PROGRAM_ID) =
           rs_subaccount A"
    and "inherited = (if v_subaccount_count v = 0 then v_deployed_principal v else 0)"
    and "ta_delegate ata = Some (rs_vault_state A)" and "ta_delegated_amount ata \<noteq> 0"
    and "inherited \<le> ta_delegated_amount ata" and "address \<noteq> v_operator v"
    and "unat count = unat (v_subaccount_count v) + 1"
    and "w' = w\<lparr>vaults := (vaults w)(rs_vault_state A \<mapsto> v\<lparr>v_subaccount_count := count\<rparr>),
                subaccounts := (subaccounts w)(rs_subaccount A \<mapsto>
                  new_subaccount E (rs_vault_state A) address inherited)\<rparr>"
  using assms
  by (auto simp: register_subaccount_def load_simps constraint_simps Let_def word_gt_0
      put_vault_def put_subaccount_def)

lemma deregister_cases:
  assumes "deregister_subaccount E t A w = Inr w'"
  obtains v s where "vaults w (ds_vault_state A) = Some v"
    and "v_admin v = ds_admin A" and "ds_admin A \<in> signers t"
    and "subaccounts w (ds_subaccount A) = Some s" and "sub_vault_state s = ds_vault_state A"
    and "sub_principal s = 0"
    and "w' = w\<lparr>vaults := (vaults w)(ds_vault_state A \<mapsto>
                   v\<lparr>v_subaccount_count := saturating_sub (v_subaccount_count v) 1\<rparr>),
                subaccounts := (subaccounts w)(ds_subaccount A := None)\<rparr>"
  using assms
  by (auto simp: deregister_subaccount_def load_simps constraint_simps put_vault_def)

lemma settle_cases:
  assumes "settle_subaccount_loss E t A amount w = Inr w'"
  obtains v s ata p where "vaults w (se_vault_state A) = Some v"
    and "v_admin v = se_admin A" and "se_admin A \<in> signers t" and "amount \<noteq> 0"
    and "subaccounts w (se_subaccount A) = Some s" and "sub_vault_state s = se_vault_state A"
    and "tokens (ledger w) (se_subaccount_ata A) = Some ata" and "ta_owner ata = sub_address s"
    and "unat amount \<le> unat (sub_principal s) - unat (ta_amount ata)"
    and "unat (sub_principal s) = unat amount + unat p"
    and "w' = w\<lparr>vaults := (vaults w)(se_vault_state A \<mapsto>
                   v\<lparr>v_deployed_principal := saturating_sub (v_deployed_principal v) amount\<rparr>),
                subaccounts := (subaccounts w)(se_subaccount A \<mapsto> s\<lparr>sub_principal := p\<rparr>)\<rparr>"
  using assms
  by (auto simp: settle_subaccount_loss_def load_simps constraint_simps put_vault_def
      put_subaccount_def word_gt_0 word_le_nat_alt)

lemma registry_frame:
  assumes "subaccounts w' = subaccounts w" and "registry_ok w V"
    and "\<And>v'. vaults w' V = Some v' \<Longrightarrow> \<exists>v. vaults w V = Some v \<and>
           v_subaccount_count v' = v_subaccount_count v \<and>
           (v_subaccount_count v \<noteq> 0 \<longrightarrow> v_deployed_principal v' = v_deployed_principal v)"
  shows "registry_ok w' V"
proof (cases "vaults w' V")
  case None
  then show ?thesis by (simp add: registry_ok_def)
next
  case (Some v')
  have "entries w' V = entries w V" "owed w' V = owed w V"
    using assms(1) by (simp_all add: entries_def owed_def principal_at_def)
  then show ?thesis
    using assms(2) assms(3) [OF Some] Some by (auto simp: registry_ok_def)
qed

lemma registry_one:
  assumes "vaults w' = (vaults w)(V0 \<mapsto> v')" and "V \<noteq> V0" and "registry_ok w V"
    and "entries w' V = entries w V" and "owed w' V = owed w V"
  shows "registry_ok w' V"
proof -
  have "vaults w' V = vaults w V" using assms(1,2) by simp
  then show ?thesis using assms(3-5) by (simp add: registry_ok_def split: option.splits)
qed

text \<open>Withdrawal and deposit change an entry by what they change the vault's principal.\<close>

lemma registry_moved:
  assumes bound: "entries_bound E w" and c: "operator_ctx E t A w = Inr (v, d, dm, sub)"
    and req: "requires_subaccount v = (sub \<noteq> None)"
    and w': "vaults w' = (vaults w)(oa_vault_state A \<mapsto> v')"
    and subs: "subaccounts w' = subaccounts (put_optional_subaccount (oa_subaccount A) sub' w)"
    and cnt: "v_subaccount_count v' = v_subaccount_count v"
    and none: "sub = None \<Longrightarrow> sub' = None"
    and some: "\<And>s. sub = Some s \<Longrightarrow> \<exists>p. sub' = Some (s\<lparr>sub_principal := p\<rparr>) \<and>
       (unat (sub_principal s) \<le> unat (v_deployed_principal v) \<longrightarrow>
        unat (v_deployed_principal v') + unat (sub_principal s) =
        unat (v_deployed_principal v) + unat p)"
    and ok: "registry_ok w V"
  shows "registry_ok w' V"
proof (cases sub)
  case None
  then have same: "subaccounts w' = subaccounts w"
    using subs none by (simp split: option.splits)
  have "v_subaccount_count v = 0" using req None by (simp add: requires_subaccount_def word_gt_0)
  then show ?thesis
    using operator_ctx_Inr(1) [OF c] w' cnt same ok
    by (intro registry_frame [of w' w V]) (auto split: if_splits)
next
  case (Some s)
  obtain k where k: "oa_subaccount A = Some k" "subaccounts w k = Some s"
    using operator_ctx_Inr(9) [OF c] Some by (auto split: option.splits)
  have sv: "sub_vault_state s = oa_vault_state A"
    using bound k(2) operator_ctx_Inr(1) [OF c] operator_ctx_Inr(10) [OF c Some k(1)]
    unfolding entries_bound_def by (metis option.distinct(1))
  obtain p where p: "sub' = Some (s\<lparr>sub_principal := p\<rparr>)"
    and dp: "unat (sub_principal s) \<le> unat (v_deployed_principal v) \<Longrightarrow>
        unat (v_deployed_principal v') + unat (sub_principal s) =
        unat (v_deployed_principal v) + unat p"
    using some [OF Some] by blast
  have upd: "subaccounts w' = (subaccounts w)(k \<mapsto> s\<lparr>sub_principal := p\<rparr>)"
    using subs k(1) p by simp
  show ?thesis
  proof (cases "V = oa_vault_state A")
    case False
    show ?thesis
      by (rule registry_one [OF w' False ok])
        (use entries_other [OF upd False] k(2) sv in simp_all)
  next
    case True
    have vV: "vaults w V = Some v" using operator_ctx_Inr(1) [OF c] True by simp
    then have fin: "finite (entries w V)" and card: "card (entries w V) = unat (v_subaccount_count v)"
      and own: "v_subaccount_count v \<noteq> 0 \<Longrightarrow> owed w V = unat (v_deployed_principal v)"
      using ok by (simp_all add: registry_ok_def)
    have nz: "v_subaccount_count v \<noteq> 0" using req Some by (simp add: requires_subaccount_def)
    have e: "entries w' V = entries w V" by (rule entries_update [OF k(2) _ upd]) simp
    have o: "owed w' V + unat (sub_principal s) = owed w V + unat p" "unat (sub_principal s) \<le> owed w V"
      using owed_update [OF k(2) _ _ upd fin] sv True by simp_all
    have "owed w' V = unat (v_deployed_principal v')"
      using o own [OF nz] dp by linarith
    then show ?thesis using w' True e fin card cnt by (simp add: registry_ok_def)
  qed
qed

lemma withdraw_registry:
  assumes "operator_withdraw E t A amount w = Inr w'" and "entries_bound E w" and "registry_ok w V"
  shows "registry_ok w' V"
  using assms(1)
proof (cases rule: operator_withdraw_cases)
  case (1 v dest dm sub S L v' sub')
  show ?thesis
  proof (rule registry_moved [OF assms(2) 1(1,3) _ _ _ _ _ assms(3)])
    show "vaults w' = (vaults w)(oa_vault_state A \<mapsto> v')"
      "subaccounts w' = subaccounts (put_optional_subaccount (oa_subaccount A) sub' w)"
      by (simp_all add: 1(12) put_vault_def put_ledger_def cong: option.case_cong)
    show "v_subaccount_count v' = v_subaccount_count v" by (subst 1(7)) simp
    show "sub = None \<Longrightarrow> sub' = None" using 1(11) by (simp add: owes_more_def)
    fix s assume "sub = Some s"
    then obtain p where "sub' = Some (s\<lparr>sub_principal := p\<rparr>)"
      "unat p = unat (sub_principal s) + unat amount"
      using 1(11) by (auto simp: owes_more_def)
    then show "\<exists>p. sub' = Some (s\<lparr>sub_principal := p\<rparr>) \<and>
       (unat (sub_principal s) \<le> unat (v_deployed_principal v) \<longrightarrow>
        unat (v_deployed_principal v') + unat (sub_principal s) =
        unat (v_deployed_principal v) + unat p)"
      using 1(10) by (intro exI [of _ p]) simp
  qed
qed

lemma deposit_registry:
  assumes "operator_deposit E t A amount w = Inr w'" and "entries_bound E w" and "registry_ok w V"
  shows "registry_ok w' V"
  using assms(1)
proof (cases rule: operator_deposit_cases)
  case (1 v source dm sub auth S L v' sub')
  show ?thesis
  proof (rule registry_moved [OF assms(2) 1(1,3) _ _ _ _ _ assms(3)])
    show "vaults w' = (vaults w)(oa_vault_state A \<mapsto> v')"
      "subaccounts w' = subaccounts (put_optional_subaccount (oa_subaccount A) sub' w)"
      by (simp_all add: 1(11) put_vault_def put_ledger_def cong: option.case_cong)
    show "v_subaccount_count v' = v_subaccount_count v" by (subst 1(6)) simp
    show "sub = None \<Longrightarrow> sub' = None" using 1(10) by (simp add: owes_less_def)
    fix s assume s: "sub = Some s"
    then obtain p where "sub' = Some (s\<lparr>sub_principal := p\<rparr>)"
      "unat p = unat (sub_principal s) - unat amount"
      using 1(10) by (auto simp: owes_less_def)
    then show "\<exists>p. sub' = Some (s\<lparr>sub_principal := p\<rparr>) \<and>
       (unat (sub_principal s) \<le> unat (v_deployed_principal v) \<longrightarrow>
        unat (v_deployed_principal v') + unat (sub_principal s) =
        unat (v_deployed_principal v) + unat p)"
      using 1(9) s by (intro exI [of _ p]) (simp add: repaid_def min_def)
  qed
qed

lemma register_registry:
  assumes "register_subaccount E t A address w = Inr w'" and "registry_ok w V"
  shows "registry_ok w' V"
  using assms(1)
proof (cases rule: register_cases)
  case (1 v ata count inherited)
  let ?k = "rs_subaccount A" and ?s = "new_subaccount E (rs_vault_state A) address inherited"
  have free: "subaccounts w ?k = None" using 1(6) by (simp add: in_use_def)
  have subs: "subaccounts w' = (subaccounts w)(?k \<mapsto> ?s)"
    and vs: "vaults w' = (vaults w)(rs_vault_state A \<mapsto> v\<lparr>v_subaccount_count := count\<rparr>)"
    using 1(14) by simp_all
  show ?thesis
  proof (cases "V = rs_vault_state A")
    case False
    show ?thesis
      by (rule registry_one [OF vs False assms(2)])
        (use entries_other [OF subs False] free in simp_all)
  next
    case True
    then have ok: "finite (entries w V)" "card (entries w V) = unat (v_subaccount_count v)"
      "v_subaccount_count v \<noteq> 0 \<Longrightarrow> owed w V = unat (v_deployed_principal v)"
      using assms(2) 1(1) by (simp_all add: registry_ok_def)
    have new: "?k \<notin> entries w V" using free by (simp add: entries_def)
    have e: "entries w' V = insert ?k (entries w V)"
      using subs True by (auto simp: entries_def split: if_splits)
    have "owed w' V = unat inherited + (\<Sum>k\<in>entries w V. principal_at w' k)"
      unfolding owed_def e using new ok(1) subs by (simp add: principal_at_def)
    also have "(\<Sum>k\<in>entries w V. principal_at w' k) = owed w V"
      unfolding owed_def using new subs by (intro sum.cong) (auto simp: principal_at_def)
    finally have o: "owed w' V = unat inherited + owed w V" .
    have "owed w' V = unat (v_deployed_principal v)"
    proof (cases "v_subaccount_count v = 0")
      case True
      then have "entries w V = {}" using ok(1,2) by simp
      then have "owed w V = 0" by (simp add: owed_def)
      then show ?thesis using o 1(8) True by simp
    next
      case False
      then show ?thesis using o ok(3) 1(8) by simp
    qed
    then show ?thesis
      using vs True e new ok(1,2) 1(13) by (simp add: registry_ok_def)
  qed
qed

lemma deregister_registry:
  assumes "deregister_subaccount E t A w = Inr w'" and "registry_ok w V"
  shows "registry_ok w' V"
  using assms(1)
proof (cases rule: deregister_cases)
  case (1 v s)
  let ?k = "ds_subaccount A"
  have subs: "subaccounts w' = (subaccounts w)(?k := None)"
    and vs: "vaults w' = (vaults w)(ds_vault_state A \<mapsto>
      v\<lparr>v_subaccount_count := saturating_sub (v_subaccount_count v) 1\<rparr>)"
    using 1(7) by simp_all
  show ?thesis
  proof (cases "V = ds_vault_state A")
    case False
    show ?thesis
      by (rule registry_one [OF vs False assms(2)])
        (use entries_other [OF subs False] 1(4,5) in simp_all)
  next
    case True
    then have ok: "finite (entries w V)" "card (entries w V) = unat (v_subaccount_count v)"
      "v_subaccount_count v \<noteq> 0 \<Longrightarrow> owed w V = unat (v_deployed_principal v)"
      using assms(2) 1(1) by (simp_all add: registry_ok_def)
    have old: "?k \<in> entries w V" using 1(4,5) True by (simp add: entries_def)
    have e: "entries w' V = entries w V - {?k}"
      using subs True by (auto simp: entries_def split: if_splits)
    have "owed w V = principal_at w ?k + (\<Sum>k\<in>entries w V - {?k}. principal_at w k)"
      unfolding owed_def by (rule sum.remove [OF ok(1) old])
    also have "(\<Sum>k\<in>entries w V - {?k}. principal_at w k) = owed w' V"
      unfolding owed_def e using subs by (intro sum.cong) (auto simp: principal_at_def)
    finally have "owed w' V = owed w V" using 1(4,6) by (simp add: principal_at_def)
    moreover have "card (entries w V) \<noteq> 0" using old ok(1) by auto
    then have "v_subaccount_count v \<noteq> 0" using ok(2) by auto
    ultimately show ?thesis
      using vs True e old ok by (simp add: registry_ok_def)
  qed
qed

lemma settle_registry:
  assumes "settle_subaccount_loss E t A amount w = Inr w'" and "registry_ok w V"
  shows "registry_ok w' V"
  using assms(1)
proof (cases rule: settle_cases)
  case (1 v s ata p)
  let ?k = "se_subaccount A" and ?s = "s\<lparr>sub_principal := p\<rparr>"
  have subs: "subaccounts w' = (subaccounts w)(?k \<mapsto> ?s)"
    and vs: "vaults w' = (vaults w)(se_vault_state A \<mapsto>
      v\<lparr>v_deployed_principal := saturating_sub (v_deployed_principal v) amount\<rparr>)"
    using 1(11) by simp_all
  show ?thesis
  proof (cases "V = se_vault_state A")
    case False
    show ?thesis
      by (rule registry_one [OF vs False assms(2)])
        (use entries_other [OF subs False] 1(5,6) in simp_all)
  next
    case True
    then have ok: "finite (entries w V)" "card (entries w V) = unat (v_subaccount_count v)"
      "v_subaccount_count v \<noteq> 0 \<Longrightarrow> owed w V = unat (v_deployed_principal v)"
      using assms(2) 1(1) by (simp_all add: registry_ok_def)
    have e: "entries w' V = entries w V" by (rule entries_update [OF 1(5) _ subs]) simp
    have o: "owed w' V + unat (sub_principal s) = owed w V + unat p"
      "unat (sub_principal s) \<le> owed w V"
      using owed_update [OF 1(5) _ _ subs ok(1)] 1(6) True by simp_all
    have "owed w' V = unat (v_deployed_principal v) - unat amount"
      if "v_subaccount_count v \<noteq> 0"
      using o ok(3) [OF that] 1(10) by linarith
    then show ?thesis using vs True e ok(1,2) by (simp add: registry_ok_def)
  qed
qed

text \<open>
  Registering a destination: only the admin may, only an address that has delegated to the vault
  at least the principal the entry starts with, and never the operator. The first entry takes over
  what the vault is owed; the count rises by one.
\<close>

theorem register_needs_recall:
  assumes "register_subaccount E t A address w = Inr w'" and "vaults w (rs_vault_state A) = Some v"
  shows "\<exists>ata s v'. v_admin v \<in> signers t \<and> address \<noteq> v_operator v \<and>
     tokens (ledger w) (rs_subaccount_ata A) = Some ata \<and> ta_owner ata = address \<and>
     ta_delegate ata = Some (rs_vault_state A) \<and> 0 < ta_delegated_amount ata \<and>
     subaccounts w (rs_subaccount A) = None \<and> subaccounts w' (rs_subaccount A) = Some s \<and>
     sub_address s = address \<and> sub_vault_state s = rs_vault_state A \<and>
     sub_principal s \<le> ta_delegated_amount ata \<and>
     sub_principal s = (if requires_subaccount v then 0 else v_deployed_principal v) \<and>
     vaults w' (rs_vault_state A) = Some v' \<and>
     unat (v_subaccount_count v') = unat (v_subaccount_count v) + 1 \<and> ledger w' = ledger w"
  using assms(1)
proof (cases rule: register_cases)
  case (1 v0 ata count inherited)
  have eq: "v0 = v" using 1(1) assms(2) by simp
  have "subaccounts w (rs_subaccount A) = None" using 1(6) by (simp add: in_use_def)
  then show ?thesis
    using 1(2-5,8-13) unfolding 1(14) eq
    by (auto simp: requires_subaccount_def word_gt_0)
qed


section \<open>Witnesses\<close>

definition ex_custody :: pubkey where "ex_custody = 25"

definition ex_custody_tokens :: pubkey where "ex_custody_tokens = 25011175"

definition ex_entry :: pubkey where
  "ex_entry = fst (ref_find (subaccount_seeds ex_vault ex_custody) VAULT_PROGRAM_ID)"

text \<open>A custody address that owes 1000 and holds 300, with a delegation of five million.\<close>

definition ex_custody_world :: world where
  "ex_custody_world =
     ex_world\<lparr>vaults := [ex_vault \<mapsto> ex_vault_state\<lparr>v_subaccount_count := 1, v_deployed_principal := 1000\<rparr>],
       subaccounts := [ex_entry \<mapsto> new_subaccount ref_env ex_vault ex_custody 1000],
       ledger := ex_ledger\<lparr>tokens := (tokens ex_ledger)(ex_custody_tokens \<mapsto>
          (ex_token ex_mint ex_custody 300)\<lparr>ta_delegate := Some ex_vault, ta_delegated_amount := 5000000\<rparr>)\<rparr>\<rparr>"

definition ex_operator_accounts :: operator_accounts where
  "ex_operator_accounts =
     \<lparr>oa_vault_state = ex_vault, oa_vault_deposit_ata = ex_reserve,
      oa_operator_token_account = ex_custody_tokens, oa_deposit_mint = ex_mint,
      oa_operator = ex_operator, oa_token_program = 1, oa_subaccount = Some ex_entry\<rparr>"

lemma ex_custody_vault:
  "vaults ex_custody_world (oa_vault_state ex_operator_accounts) =
     Some (ex_vault_state\<lparr>v_subaccount_count := 1, v_deployed_principal := 1000\<rparr>)"
  by (simp add: ex_custody_world_def ex_operator_accounts_def)

lemma ex_custody_plain: "plain ref_env (ledger ex_custody_world) (oa_deposit_mint ex_operator_accounts)"
  using ex_plain by (simp add: ex_custody_world_def ex_operator_accounts_def plain_def)

lemma ex_withdraw_ok:
  "\<exists>w'. operator_withdraw ref_env (ex_tx ex_operator) ex_operator_accounts 400 ex_custody_world = Inr w'"
proof -
  have "is_ok (operator_withdraw ref_env (ex_tx ex_operator) ex_operator_accounts 400 ex_custody_world)"
    by code_simp
  then show ?thesis by (simp add: is_ok_iff)
qed

theorem operator_withdraw_effects_witness:
  "\<exists>w'. operator_withdraw ref_env (ex_tx ex_operator) ex_operator_accounts 400 ex_custody_world = Inr w' \<and>
     balance (ledger w') = move ex_reserve ex_custody_tokens 400 (balance (ledger ex_custody_world))"
proof -
  obtain w' where
    w: "operator_withdraw ref_env (ex_tx ex_operator) ex_operator_accounts 400 ex_custody_world = Inr w'"
    using ex_withdraw_ok by blast
  from operator_withdraw_effects [OF ref_spl_laws ex_custody_plain w ex_custody_vault]
  have "balance (ledger w') = move (oa_vault_deposit_ata ex_operator_accounts)
      (oa_operator_token_account ex_operator_accounts) (unat (400 :: u64)) (balance (ledger ex_custody_world))"
    by blast
  then show ?thesis using w by (simp add: ex_operator_accounts_def)
qed

theorem operator_withdraw_destination_witness:
  "\<exists>w' (s :: subaccount) (s' :: subaccount).
     operator_withdraw ref_env (ex_tx ex_operator) ex_operator_accounts 400 ex_custody_world = Inr w' \<and>
     unat (sub_principal s') = unat (sub_principal s) + unat (400 :: u64) \<and>
     associated_token_address ref_env (sub_address s) ex_mint 1 = ex_custody_tokens"
proof -
  obtain w' where
    w: "operator_withdraw ref_env (ex_tx ex_operator) ex_operator_accounts 400 ex_custody_world = Inr w'"
    using ex_withdraw_ok by blast
  have r: "requires_subaccount (ex_vault_state\<lparr>v_subaccount_count := 1, v_deployed_principal := 1000\<rparr>)"
    by (simp add: requires_subaccount_def)
  obtain dest :: token_account and owner where d: "associated_token_address ref_env owner (oa_deposit_mint ex_operator_accounts)
       (oa_token_program ex_operator_accounts) = oa_operator_token_account ex_operator_accounts"
    and e: "\<exists>k s s'. subaccounts ex_custody_world k = Some s \<and> subaccounts w' k = Some s' \<and>
        create_program_address ref_env (subaccount_seeds (oa_vault_state ex_operator_accounts) (sub_address s) @
          [[sub_bump s]]) VAULT_PROGRAM_ID = Some k \<and>
        owner = sub_address s \<and> ta_delegate dest = Some (oa_vault_state ex_operator_accounts) \<and>
        unat (sub_principal s') = unat (sub_principal s) + unat (400 :: u64) \<and>
        sub_principal s' \<le> ta_delegated_amount dest"
    using operator_withdraw_destination [OF w ex_custody_vault] unfolding if_P [OF r] by blast
  from e obtain s s' :: subaccount where "owner = sub_address s"
    "unat (sub_principal s') = unat (sub_principal s) + unat (400 :: u64)" by blast
  then show ?thesis using w d by (auto simp: ex_operator_accounts_def)
qed

theorem operator_deposit_effects_witness:
  "\<exists>w'. operator_deposit ref_env (ex_tx ex_operator) ex_operator_accounts 200 ex_custody_world = Inr w' \<and>
     balance (ledger w') = move ex_custody_tokens ex_reserve 200 (balance (ledger ex_custody_world))"
proof -
  have "is_ok (operator_deposit ref_env (ex_tx ex_operator) ex_operator_accounts 200 ex_custody_world)"
    by code_simp
  then obtain w' where
    w: "operator_deposit ref_env (ex_tx ex_operator) ex_operator_accounts 200 ex_custody_world = Inr w'"
    by (auto simp: is_ok_iff)
  from operator_deposit_effects [OF ref_spl_laws ex_custody_plain w ex_custody_vault]
  have "balance (ledger w') = move (oa_operator_token_account ex_operator_accounts)
      (oa_vault_deposit_ata ex_operator_accounts) (unat (200 :: u64)) (balance (ledger ex_custody_world))"
    by blast
  then show ?thesis using w by (simp add: ex_operator_accounts_def)
qed

text \<open>A vault with limits of ten percent, and its operator's report.\<close>

definition ex_wide_vault :: vault_state where
  "ex_wide_vault = ex_vault_state\<lparr>v_aum_decrease_limit := 1000, v_aum_increase_limit := 1000\<rparr>"

definition ex_wide :: world where
  "ex_wide = ex_world\<lparr>vaults := [ex_vault \<mapsto> ex_wide_vault]\<rparr>"

definition ex_report :: update_aum_accounts where
  "ex_report = \<lparr>ua_vault_state = ex_vault, ua_deposit_mint = ex_mint, ua_operator = ex_operator\<rparr>"

theorem aum_report_ten_percent_witness:
  "operator_update_aum ref_env (ex_tx ex_operator) ex_report 1100000000 ex_wide =
     Inr (ex_wide\<lparr>vaults := [ex_vault \<mapsto> ex_wide_vault\<lparr>v_deployed_aum := 1100000000\<rparr>]\<rparr>) \<and>
   operator_update_aum ref_env (ex_tx ex_operator) ex_report 1100000001 ex_wide =
     Inl (VaultErr AumIncreaseTooBig) \<and>
   operator_update_aum ref_env (ex_tx ex_operator) ex_report 899999999 ex_wide =
     Inl (VaultErr AumDecreaseTooBig) \<and>
   operator_update_aum ref_env (ex_tx ex_user) ex_report 1000000000 ex_wide =
     Inl (AnchorErr AccountNotSigner) \<and>
   operator_update_aum ref_env (ex_tx ex_user) (ex_report\<lparr>ua_operator := ex_user\<rparr>) 1000000000 ex_wide =
     Inl (VaultErr NotOperator)"
proof -
  have "is_ok (load_mint ref_env ex_wide (ua_deposit_mint ex_report))" by code_simp
  then obtain dm where dm: "load_mint ref_env ex_wide (ua_deposit_mint ex_report) = Inr dm"
    by (auto simp: is_ok_iff)
  have v: "vaults ex_wide (ua_vault_state ex_report) = Some ex_wide_vault"
    "v_aum_decrease_limit ex_wide_vault = 1000" "v_aum_increase_limit ex_wide_vault = 1000"
    by (simp_all add: ex_wide_def ex_report_def ex_wide_vault_def ex_vault_state_def)
  have "fst (find_program_address ref_env (vault_state_seeds (ua_deposit_mint ex_report)
      (v_vault_version ex_wide_vault)) VAULT_PROGRAM_ID) = ua_vault_state ex_report"
    by code_simp
  note report = aum_report_ten_percent [OF v(1) dm this v(2,3)]
    aum_report_ten_percent [of _ "ex_report\<lparr>ua_operator := ex_user\<rparr>", simplified, OF v(1) dm this v(2,3)]
  have "v_deployed_aum ex_wide_vault = 1000000000" "v_operator ex_wide_vault = ex_operator"
    by (simp_all add: ex_wide_vault_def ex_vault_state_def)
  then show ?thesis
    by (simp add: report) (simp add: ex_report_def ex_tx_def ex_wide_def ex_user_def ex_operator_def)
qed

definition ex_register :: register_accounts where
  "ex_register =
     \<lparr>rs_vault_state = ex_vault, rs_subaccount = ex_entry, rs_deposit_mint = ex_mint,
      rs_subaccount_ata = ex_custody_tokens, rs_token_program = 1, rs_admin = ex_admin\<rparr>"

definition ex_unregistered :: world where
  "ex_unregistered =
     ex_custody_world\<lparr>subaccounts := Map.empty,
       vaults := [ex_vault \<mapsto> ex_vault_state\<lparr>v_deployed_principal := 1000\<rparr>]\<rparr>"

theorem register_needs_recall_witness:
  "\<exists>w' s. register_subaccount ref_env (ex_tx ex_admin) ex_register ex_custody ex_unregistered = Inr w' \<and>
     subaccounts w' ex_entry = Some s \<and> sub_principal s = 1000"
proof -
  have "is_ok (register_subaccount ref_env (ex_tx ex_admin) ex_register ex_custody ex_unregistered)"
    by code_simp
  then obtain w' where
    w: "register_subaccount ref_env (ex_tx ex_admin) ex_register ex_custody ex_unregistered = Inr w'"
    by (auto simp: is_ok_iff)
  have v: "vaults ex_unregistered (rs_vault_state ex_register) =
      Some (ex_vault_state\<lparr>v_deployed_principal := 1000\<rparr>)"
    by (simp add: ex_unregistered_def ex_register_def)
  have "\<not> requires_subaccount (ex_vault_state\<lparr>v_deployed_principal := 1000\<rparr>)"
    by (simp add: requires_subaccount_def ex_vault_state_def zero_vault_def)
  then obtain s where "subaccounts w' (rs_subaccount ex_register) = Some s" "sub_principal s = 1000"
    using register_needs_recall [OF w v] by auto
  then show ?thesis using w by (auto simp: ex_register_def)
qed

definition ex_settle :: settle_accounts where
  "ex_settle =
     \<lparr>se_vault_state = ex_vault, se_subaccount = ex_entry, se_deposit_mint = ex_mint,
      se_subaccount_ata = ex_custody_tokens, se_token_program = 1, se_admin = ex_admin\<rparr>"


end
