(* ===== verification/QueueState.thy ===== *)
theory QueueState
  imports VaultState Balances "HOL-Library.Multiset"
begin

text \<open>
  \<open>programs/august-withdrawal-queue/src/state/\<close> and the checks every queue instruction shares
  (\<open>auth.rs\<close>, \<open>recipient.rs\<close>, \<open>mint_policy.rs\<close>, the snapshots of \<open>events.rs\<close>): the methods of the
  queue's two accounts. The counters are the locale \<open>request_book\<close>, interpreted on the code's own
  \<open>open_request\<close> and \<open>close_request\<close>.
\<close>

section \<open>state/withdrawal_queue.rs\<close>

definition MAX_COOLDOWN_SECONDS :: u64 where
  "MAX_COOLDOWN_SECONDS = 30 * 24 * 60 * 60"

definition MIN_FULFILLMENT_WINDOW_SECONDS :: u64 where
  "MIN_FULFILLMENT_WINDOW_SECONDS = 24 * 60 * 60"

definition MAX_FULFILLMENT_WINDOW_SECONDS :: u64 where
  "MAX_FULFILLMENT_WINDOW_SECONDS = 90 * 24 * 60 * 60"

lemmas queue_bounds =
  MAX_COOLDOWN_SECONDS_def MIN_FULFILLMENT_WINDOW_SECONDS_def MAX_FULFILLMENT_WINDOW_SECONDS_def

definition queue_set_cooldown :: "u64 \<Rightarrow> withdrawal_queue \<Rightarrow> withdrawal_queue result" where
  "queue_set_cooldown seconds q =
     require (seconds \<le> MAX_COOLDOWN_SECONDS) (QueueErr CooldownOutOfBounds)
       (Inr (q\<lparr>q_cooldown_seconds := seconds\<rparr>))"

definition queue_set_fulfillment_window :: "u64 \<Rightarrow> withdrawal_queue \<Rightarrow> withdrawal_queue result" where
  "queue_set_fulfillment_window seconds q =
     (if seconds \<noteq> 0
      then require (MIN_FULFILLMENT_WINDOW_SECONDS \<le> seconds) (QueueErr FulfillmentWindowOutOfBounds)
           (require (seconds \<le> MAX_FULFILLMENT_WINDOW_SECONDS) (QueueErr FulfillmentWindowOutOfBounds)
             (Inr (q\<lparr>q_fulfillment_window_seconds := seconds\<rparr>)))
      else Inr (q\<lparr>q_fulfillment_window_seconds := seconds\<rparr>))"

definition queue_init ::
  "pubkey \<Rightarrow> pubkey \<Rightarrow> pubkey \<Rightarrow> pubkey \<Rightarrow> pubkey \<Rightarrow> u8 \<Rightarrow> u64 \<Rightarrow> withdrawal_queue \<Rightarrow>
     withdrawal_queue result" where
  "queue_init vault deposit_mint share_mint escrow_shares escrow_assets bump cooldown_seconds q =
     queue_set_cooldown cooldown_seconds
       (q\<lparr>q_vault_state := vault, q_deposit_mint := deposit_mint, q_share_mint := share_mint,
          q_escrow_shares := escrow_shares, q_escrow_assets := escrow_assets,
          q_fulfillment_window_seconds := 0, q_sequence := 0, q_pending_requests := 0,
          q_pending_shares := 0, q_bump := bump, q_padding := replicate 20 0\<rparr>)"

definition open_request :: "u64 \<Rightarrow> withdrawal_queue \<Rightarrow> (withdrawal_queue \<times> u64) result" where
  "open_request shares q =
     bindR (ok_or (checked_add (q_sequence q) 1) (QueueErr QueueMathError)) (\<lambda>sequence.
     bindR (ok_or (checked_add (q_pending_requests q) 1) (QueueErr QueueMathError)) (\<lambda>pending_requests.
     bindR (ok_or (checked_add (q_pending_shares q) shares) (QueueErr QueueMathError)) (\<lambda>pending_shares.
       Inr (q\<lparr>q_sequence := sequence, q_pending_requests := pending_requests,
              q_pending_shares := pending_shares\<rparr>, sequence))))"

definition close_request :: "u64 \<Rightarrow> withdrawal_queue \<Rightarrow> withdrawal_queue result" where
  "close_request shares q =
     bindR (ok_or (checked_sub (q_pending_requests q) 1) (QueueErr QueueMathError)) (\<lambda>pending_requests.
     bindR (ok_or (checked_sub (q_pending_shares q) shares) (QueueErr QueueMathError)) (\<lambda>pending_shares.
       Inr (q\<lparr>q_pending_requests := pending_requests, q_pending_shares := pending_shares\<rparr>)))"

text \<open>The seeds the queue's address derives from, and with the stored bump those it signs with.\<close>

definition queue_seeds :: "pubkey \<Rightarrow> u8 list list" where
  "queue_seeds vault = [WITHDRAWAL_QUEUE_SEED, key_bytes vault]"

definition signer_seeds :: "withdrawal_queue \<Rightarrow> u8 list list" where
  "signer_seeds q = [WITHDRAWAL_QUEUE_SEED, key_bytes (q_vault_state q), [q_bump q]]"

lemma signer_seeds_eq: "signer_seeds q = queue_seeds (q_vault_state q) @ [[q_bump q]]"
  by (simp add: signer_seeds_def queue_seeds_def)

section \<open>state/withdrawal_request.rs\<close>

definition WITHDRAWAL_REQUEST_SEED :: "u8 list" where
  "WITHDRAWAL_REQUEST_SEED = ascii ''withdrawal_request''"

definition request_seeds :: "pubkey \<Rightarrow> pubkey \<Rightarrow> u64 \<Rightarrow> u8 list list" where
  "request_seeds queue owner request_id =
     [WITHDRAWAL_REQUEST_SEED, key_bytes queue, key_bytes owner, u64_le_bytes request_id]"

definition schedule ::
  "i64 \<Rightarrow> u64 \<Rightarrow> u64 \<Rightarrow> withdrawal_request \<Rightarrow> withdrawal_request result" where
  "schedule now cooldown_seconds window_seconds r =
     bindR (ok_or (to_i64 cooldown_seconds) (QueueErr QueueMathError)) (\<lambda>cooldown.
     bindR (ok_or (checked_add_i64 now cooldown) (QueueErr QueueMathError)) (\<lambda>scheduled.
     bindR (if window_seconds = 0 then Inr 0
            else bindR (ok_or (to_i64 window_seconds) (QueueErr QueueMathError)) (\<lambda>window.
                 ok_or (checked_add_i64 scheduled window) (QueueErr QueueMathError))) (\<lambda>expires.
       Inr (r\<lparr>r_requested_at := now, r_scheduled_eligible_at := scheduled,
              r_eligible_at := scheduled, r_expires_at := expires\<rparr>))))"

definition request_open ::
  "pubkey \<Rightarrow> pubkey \<Rightarrow> pubkey \<Rightarrow> pubkey \<Rightarrow> u64 \<Rightarrow> u64 \<Rightarrow> u64 \<Rightarrow> u64 \<Rightarrow> u8 \<Rightarrow> i64 \<Rightarrow> u64 \<Rightarrow> u64 \<Rightarrow>
     withdrawal_request \<Rightarrow> withdrawal_request result" where
  "request_open queue owner recipient finalizer shares min_assets_out request_id sequence bump now
     cooldown_seconds window_seconds r =
     schedule now cooldown_seconds window_seconds
       (r\<lparr>r_queue := queue, r_owner := owner, r_recipient_token_account := recipient,
          r_finalizer := finalizer, r_shares := shares, r_min_assets_out := min_assets_out,
          r_request_id := request_id, r_sequence := sequence, r_bump := bump,
          r_padding := replicate 8 0\<rparr>)"

definition allowed_finalizer :: "withdrawal_request \<Rightarrow> pubkey option" where
  "allowed_finalizer r = (if r_finalizer r \<noteq> default_key then Some (r_finalizer r) else None)"

definition may_finalize :: "withdrawal_request \<Rightarrow> pubkey \<Rightarrow> bool" where
  "may_finalize r caller =
     (if caller = r_owner r then True
      else case allowed_finalizer r of None \<Rightarrow> True | Some finalizer \<Rightarrow> finalizer = caller)"

definition is_eligible :: "withdrawal_request \<Rightarrow> i64 \<Rightarrow> bool" where
  "is_eligible r now = (sint (r_eligible_at r) \<le> sint now)"

definition is_expired :: "withdrawal_request \<Rightarrow> i64 \<Rightarrow> bool" where
  "is_expired r now = (r_expires_at r \<noteq> 0 \<and> sint (r_expires_at r) \<le> sint now)"

section \<open>auth.rs\<close>

definition require_vault_admin ::
  "withdrawal_queue \<Rightarrow> pubkey \<Rightarrow> vault_state \<Rightarrow> pubkey \<Rightarrow> unit result" where
  "require_vault_admin q vault v admin =
     require (vault = q_vault_state q) (QueueErr VaultMismatch)
     (require (v_admin v = admin) (QueueErr NotVaultAdmin)
       (Inr ()))"

definition require_vault_admin_or_operator ::
  "withdrawal_queue \<Rightarrow> pubkey \<Rightarrow> vault_state \<Rightarrow> pubkey \<Rightarrow> unit result" where
  "require_vault_admin_or_operator q vault v key =
     require (vault = q_vault_state q) (QueueErr VaultMismatch)
     (require (key = v_admin v \<or> key = v_operator v) (QueueErr NotVaultAdminOrOperator)
       (Inr ()))"

section \<open>recipient.rs\<close>

definition require_valid_recipient ::
  "pubkey \<Rightarrow> token_account \<Rightarrow> pubkey \<Rightarrow> withdrawal_queue \<Rightarrow> unit result" where
  "require_valid_recipient recipient a queue q =
     require (ta_mint a = q_deposit_mint q) (QueueErr InvalidRecipient)
     (require (recipient \<noteq> q_escrow_assets q) (QueueErr InvalidRecipient)
     (require (ta_owner a \<noteq> queue) (QueueErr InvalidRecipient)
     (require (ta_owner a \<noteq> q_vault_state q) (QueueErr InvalidRecipient)
       (Inr ()))))"

section \<open>mint_policy.rs\<close>

text \<open>The loop over the extensions returns at the first that is not allowed.\<close>

fun all_metadata_extensions :: "extension_type list \<Rightarrow> bool" where
  "all_metadata_extensions [] = True"
| "all_metadata_extensions (extension # rest) =
     (case extension of
        MetadataPointer \<Rightarrow> all_metadata_extensions rest
      | TokenMetadata \<Rightarrow> all_metadata_extensions rest
      | OtherExtension _ \<Rightarrow> False)"

definition only_metadata_extensions :: "env \<Rightarrow> mint_account \<Rightarrow> bool" where
  "only_metadata_extensions E m =
     (if mi_program m = spl_token_id E then True
      else case mi_extensions m of None \<Rightarrow> False
         | Some extensions \<Rightarrow> all_metadata_extensions extensions)"

definition require_supported_deposit_mint :: "env \<Rightarrow> mint_account \<Rightarrow> unit result" where
  "require_supported_deposit_mint E m =
     require (only_metadata_extensions E m) (QueueErr UnsupportedDepositMint) (Inr ())"

definition require_supported_share_mint :: "env \<Rightarrow> mint_account \<Rightarrow> unit result" where
  "require_supported_share_mint E m =
     require (mi_freeze_authority m = None) (QueueErr UnsupportedShareMint)
     (require (only_metadata_extensions E m) (QueueErr UnsupportedShareMint) (Inr ()))"

section \<open>events.rs\<close>

definition requested_snapshot :: "withdrawal_request \<Rightarrow> pubkey \<Rightarrow> pubkey \<Rightarrow> event" where
  "requested_snapshot r vault key =
     WithdrawalRequested vault (r_queue r) key (r_request_id r) (r_owner r) (r_sequence r) (r_shares r)
       (r_recipient_token_account r) (r_finalizer r) (r_eligible_at r) (r_expires_at r)
       (r_min_assets_out r)"

definition finalized_snapshot ::
  "withdrawal_request \<Rightarrow> pubkey \<Rightarrow> pubkey \<Rightarrow> pubkey \<Rightarrow> u64 \<Rightarrow> event" where
  "finalized_snapshot r vault key finalizer assets =
     WithdrawalFinalized vault (r_queue r) key (r_request_id r) (r_owner r) (r_sequence r)
       (r_recipient_token_account r) finalizer (r_shares r) assets"

definition cancelled_snapshot ::
  "withdrawal_request \<Rightarrow> pubkey \<Rightarrow> pubkey \<Rightarrow> pubkey \<Rightarrow> pubkey \<Rightarrow> event" where
  "cancelled_snapshot r vault key by destination =
     WithdrawalCancelled vault (r_queue r) key (r_request_id r) (r_owner r) (r_sequence r) by
       (r_shares r) destination"

definition expedited_snapshot ::
  "withdrawal_request \<Rightarrow> pubkey \<Rightarrow> pubkey \<Rightarrow> pubkey \<Rightarrow> i64 \<Rightarrow> event" where
  "expedited_snapshot r vault key by previous_eligible_at =
     WithdrawalExpedited vault (r_queue r) key (r_request_id r) (r_owner r) (r_sequence r) by
       previous_eligible_at (r_eligible_at r)"

definition config_snapshot :: "withdrawal_queue \<Rightarrow> pubkey \<Rightarrow> event" where
  "config_snapshot q key =
     QueueConfigUpdated (q_vault_state q) key (q_cooldown_seconds q) (q_fulfillment_window_seconds q)"

section \<open>The schedule of a request\<close>

lemma to_i64_sint: "to_i64 x = Some y \<Longrightarrow> sint y = int (unat x)"
  by (auto simp: to_i64_Some sint_of_small simp del: int_nat_eq)

lemma schedule_cases:
  assumes "schedule now c win r = Inr r'"
  obtains s e where "sint s = sint now + int (unat c)" and "win = 0 \<Longrightarrow> e = 0"
    and "win \<noteq> 0 \<Longrightarrow> sint e = sint now + int (unat c) + int (unat win)"
    and "r' = r\<lparr>r_requested_at := now, r_scheduled_eligible_at := s, r_eligible_at := s,
               r_expires_at := e\<rparr>"
proof -
  obtain cd s e where cd: "to_i64 c = Some cd" and s: "checked_add_i64 now cd = Some s"
    and e: "(if win = 0 then Inr 0
            else bindR (ok_or (to_i64 win) (QueueErr QueueMathError)) (\<lambda>window.
                 ok_or (checked_add_i64 s window) (QueueErr QueueMathError))) = Inr e"
    and r': "r' = r\<lparr>r_requested_at := now, r_scheduled_eligible_at := s, r_eligible_at := s,
               r_expires_at := e\<rparr>"
    using assms unfolding schedule_def bindR_Inr ok_or_Inr sum.inject by blast
  have ss: "sint s = sint now + int (unat c)"
    using s to_i64_sint [OF cd] by (simp only: checked_add_i64_Some)
  show ?thesis
  proof (cases "win = 0")
    case True
    with ss e r' show ?thesis by (intro that [of s e]) simp_all
  next
    case False
    then obtain wd where "to_i64 win = Some wd" "checked_add_i64 s wd = Some e"
      using e unfolding if_not_P [OF False] bindR_Inr ok_or_Inr by blast
    then have "sint e = sint now + int (unat c) + int (unat win)"
      using ss to_i64_sint by (simp only: checked_add_i64_Some)
    with ss r' False show ?thesis by (intro that [of s e]) simp_all
  qed
qed

lemma checked_add_i64_fits:
  "- (2 ^ 63) \<le> sint a + sint b \<Longrightarrow> sint a + sint b < 2 ^ 63 \<Longrightarrow> \<exists>c. checked_add_i64 a b = Some c"
  by (simp add: checked_add_i64_def)

lemma to_i64_fits: "unat x < 2 ^ 63 \<Longrightarrow> to_i64 x = Some x"
  by (simp add: to_i64_Some)

lemma schedule_total:
  assumes "unat c \<le> 2592000" and "unat win \<le> 7776000" and "sint now < 2 ^ 62" and "0 < sint now"
  obtains r' where "schedule now c win r = Inr r'"
proof -
  have c: "to_i64 c = Some c" and w: "to_i64 win = Some win"
    using assms(1,2) by (auto intro!: to_i64_fits)
  have sc: "sint c = int (unat c)" and sw: "sint win = int (unat win)"
    using to_i64_sint c w by blast+
  have ci: "int (unat c) \<le> 2592000" "int (unat win) \<le> 7776000"
    using assms(1,2) by (metis of_nat_le_iff of_nat_numeral)+
  have big: "(2 :: int) ^ 62 + 10368000 < 2 ^ 63" "0 < (2 :: int) ^ 63" by simp_all
  have "sint now + sint c < 2 ^ 63" "- (2 ^ 63) \<le> sint now + sint c"
    using assms(3,4) ci sc big by linarith+
  then obtain s where s: "checked_add_i64 now c = Some s" using checked_add_i64_fits by blast
  then have ss: "sint s = sint now + int (unat c)" using sc by (simp only: checked_add_i64_Some)
  have "sint s + sint win < 2 ^ 63" "- (2 ^ 63) \<le> sint s + sint win"
    using assms(3,4) ci ss sw big by linarith+
  then obtain e where e: "checked_add_i64 s win = Some e" using checked_add_i64_fits by blast
  have "\<exists>r'. schedule now c win r = Inr r'"
    by (cases "win = 0") (simp_all add: schedule_def c w s e)
  then show ?thesis using that by blast
qed

text \<open>
  The life of a request under any settings the queue can hold, at any clock before the year
  146 billion: stamping its schedule cannot fail; it may be finalized from exactly cooldown seconds
  after it was made until exactly the window after that, and for ever when the window is zero.
\<close>

theorem schedule_window:
  assumes "unat cooldown \<le> 2592000" and "unat window \<le> 7776000"
    and "0 < sint now" and "sint now < 2 ^ 62"
  shows "\<exists>r'. schedule now cooldown window r = Inr r' \<and>
     (\<forall>\<tau>. is_eligible r' \<tau> \<longleftrightarrow> sint now + int (unat cooldown) \<le> sint \<tau>) \<and>
     (\<forall>\<tau>. is_expired r' \<tau> \<longleftrightarrow>
        window \<noteq> 0 \<and> sint now + int (unat cooldown) + int (unat window) \<le> sint \<tau>)"
proof -
  obtain r' where r': "schedule now cooldown window r = Inr r'"
    using schedule_total [OF assms(1,2,4,3)] .
  then obtain s e where s: "sint s = sint now + int (unat cooldown)"
    and e0: "window = 0 \<Longrightarrow> e = 0"
    and e1: "window \<noteq> 0 \<Longrightarrow> sint e = sint now + int (unat cooldown) + int (unat window)"
    and eq: "r' = r\<lparr>r_requested_at := now, r_scheduled_eligible_at := s, r_eligible_at := s,
               r_expires_at := e\<rparr>"
    by (rule schedule_cases) (rule that)
  have "e \<noteq> 0" if "window \<noteq> 0"
  proof
    assume "e = 0"
    then have "sint now + int (unat cooldown) + int (unat window) = 0" using e1 [OF that] by simp
    then show False using assms(3) by linarith
  qed
  then have x: "is_expired r' \<tau> \<longleftrightarrow>
        window \<noteq> 0 \<and> sint now + int (unat cooldown) + int (unat window) \<le> sint \<tau>" for \<tau>
    using e0 e1 by (cases "window = 0") (simp_all add: is_expired_def eq)
  have "is_eligible r' \<tau> \<longleftrightarrow> sint now + int (unat cooldown) \<le> sint \<tau>" for \<tau>
    by (simp add: is_eligible_def eq s)
  with r' x show ?thesis by blast
qed

lemma may_finalize_iff:
  "may_finalize r k \<longleftrightarrow> k = r_owner r \<or> r_finalizer r = default_key \<or> k = r_finalizer r"
  by (auto simp: may_finalize_def allowed_finalizer_def)

section \<open>The mint policy\<close>

lemma all_metadata_eq: "all_metadata_extensions xs = metadata_only xs"
proof (induction xs)
  case (Cons x xs)
  then show ?case by (cases x) (simp_all add: metadata_only_def)
qed (simp add: metadata_only_def)

lemma only_metadata_eq: "only_metadata_extensions E m = plain_mint E m"
  by (simp add: only_metadata_extensions_def plain_mint_def all_metadata_eq split: option.splits)

text \<open>
  The two mint policies are exactly what the token laws ask for: a deposit mint passes just when
  it is classic or carries metadata extensions only, a share mint when nobody may freeze it besides.
\<close>

theorem mint_policy_exact:
  "require_supported_deposit_mint E m =
     (if plain_mint E m then Inr () else Inl (QueueErr UnsupportedDepositMint)) \<and>
   require_supported_share_mint E m =
     (if plain_mint E m \<and> mi_freeze_authority m = None then Inr ()
      else Inl (QueueErr UnsupportedShareMint))"
  by (simp add: require_supported_deposit_mint_def require_supported_share_mint_def only_metadata_eq
      require_def)

section \<open>The counters\<close>

text \<open>
  What the instructions need of the counters: opening counts a request in and stamps it, closing
  counts it out, fails only on an empty book or too few shares, and never turns the stamp back.
\<close>

locale request_book =
  fixes opn :: "u64 \<Rightarrow> 'b \<Rightarrow> ('b \<times> u64) result"
    and cls :: "u64 \<Rightarrow> 'b \<Rightarrow> 'b result"
    and live :: "'b \<Rightarrow> nat" and held :: "'b \<Rightarrow> nat" and stamp :: "'b \<Rightarrow> nat"
  assumes open_Inr: "opn n b = Inr (b', s) \<Longrightarrow>
      live b' = live b + 1 \<and> held b' = held b + unat n \<and> stamp b' = stamp b + 1 \<and> unat s = stamp b'"
    and close_ok: "is_ok (cls n b) \<longleftrightarrow> 0 < live b \<and> unat n \<le> held b"
    and close_Inr: "cls n b = Inr b' \<Longrightarrow>
      live b = live b' + 1 \<and> held b = held b' + unat n \<and> stamp b' = stamp b"
begin

text \<open>The book of a multiset of open requests.\<close>

definition books :: "'b \<Rightarrow> u64 multiset \<Rightarrow> bool" where
  "books b M \<longleftrightarrow> live b = size M \<and> held b = sum_mset (image_mset unat M)"

lemma books_open: "books b M \<Longrightarrow> opn n b = Inr (b', s) \<Longrightarrow> books b' (add_mset n M)"
  by (drule open_Inr) (simp add: books_def)

lemma books_close:
  assumes "books b (add_mset n M)"
  shows "\<exists>b'. cls n b = Inr b' \<and> books b' M"
proof -
  have "is_ok (cls n b)" using assms unfolding close_ok books_def by simp
  then obtain b' where b': "cls n b = Inr b'" by (auto simp: is_ok_iff)
  from close_Inr [OF b'] assms have "books b' M" by (simp add: books_def)
  with b' show ?thesis by blast
qed

primrec close_each :: "u64 list \<Rightarrow> 'b \<Rightarrow> 'b result" where
  "close_each [] b = Inr b"
| "close_each (n # ns) b = bindR (cls n b) (close_each ns)"

lemma drains:
  assumes "books b (mset ns)"
  shows "\<exists>b'. close_each ns b = Inr b' \<and> books b' {#}"
  using assms
proof (induction ns arbitrary: b)
  case (Cons n ns)
  then obtain b' where b': "cls n b = Inr b'" "books b' (mset ns)"
    using books_close [of b n "mset ns"] by auto
  from Cons.IH [OF b'(2)] b'(1) show ?case by simp
qed simp

end

lemma open_request_Inr:
  "open_request n q = Inr (q', s) \<longleftrightarrow>
     (\<exists>p h. unat s = unat (q_sequence q) + 1 \<and> unat p = unat (q_pending_requests q) + 1 \<and>
        unat h = unat (q_pending_shares q) + unat n \<and>
        q' = q\<lparr>q_sequence := s, q_pending_requests := p, q_pending_shares := h\<rparr>)"
  by (auto simp: open_request_def)

lemma close_request_cases:
  assumes "close_request n q = Inr q'"
  obtains p h where "unat (q_pending_requests q) = unat p + 1"
    and "unat (q_pending_shares q) = unat h + unat n"
    and "q' = q\<lparr>q_pending_requests := p, q_pending_shares := h\<rparr>"
  using assms by (auto simp: close_request_def)

lemma close_request_ok:
  "is_ok (close_request n q) \<longleftrightarrow> q_pending_requests q \<noteq> 0 \<and> n \<le> q_pending_shares q"
  by (auto simp: close_request_def is_ok_def checked_sub_def word_le_nat_alt Suc_le_eq
      split: if_splits)

interpretation counters: request_book open_request close_request
    "\<lambda>q. unat (q_pending_requests q)" "\<lambda>q. unat (q_pending_shares q)" "\<lambda>q. unat (q_sequence q)"
proof
  fix n q
  show "is_ok (close_request n q) \<longleftrightarrow>
      0 < unat (q_pending_requests q) \<and> unat n \<le> unat (q_pending_shares q)"
    unfolding close_request_ok by (simp add: word_le_nat_alt)
qed (auto simp: open_request_Inr elim!: close_request_cases)

theorem schedule_window_witness:
  "\<exists>r'. schedule 1000 3600 86400 zero_request = Inr r' \<and>
     \<not> is_eligible r' 4599 \<and> is_eligible r' 4600 \<and> \<not> is_expired r' 90999 \<and> is_expired r' 91000"
proof -
  have "unat (3600 :: u64) \<le> 2592000" "unat (86400 :: u64) \<le> 7776000"
    "0 < sint (1000 :: i64)" "sint (1000 :: i64) < 2 ^ 62" by simp_all
  from schedule_window [OF this, of zero_request] show ?thesis by auto
qed

end
