(* ===== verification/VaultGate.thy ===== *)
theory VaultGate
  imports VaultAdmin
begin

text \<open>
  The vault's gate and its end: attaching and detaching the withdrawal queue, closing an empty
  vault, and the metadata of its share token. The gate is one field of the vault; what these
  instructions establish about it is what a holder relies on while redemptions go through a queue.
\<close>

section \<open>Who owns an account\<close>

text \<open>
  An account's owner, which the runtime sets: the program whose map holds it, the token program for
  a token account or a mint, else the System program, whose id is the zero key.
\<close>

definition account_owner :: "env \<Rightarrow> world \<Rightarrow> pubkey \<Rightarrow> pubkey" where
  "account_owner E w k =
     (if vaults w k \<noteq> None \<or> configs w k \<noteq> None \<or> nominations w k \<noteq> None \<or> subaccounts w k \<noteq> None
      then VAULT_PROGRAM_ID
      else if queues w k \<noteq> None \<or> requests w k \<noteq> None then WITHDRAWAL_QUEUE_PROGRAM_ID
      else case tokens (ledger w) k of Some a \<Rightarrow> ta_program a
         | None \<Rightarrow> (case mints (ledger w) k of Some m \<Rightarrow> mi_program m
         | None \<Rightarrow> (if metadata w k \<noteq> None then token_metadata_id E
                   else if program_data w k \<noteq> None then bpf_loader_upgradeable_id E else 0)))"

section \<open>attach_withdrawal_queue.rs\<close>

record gate_accounts =
  ga_vault_state :: pubkey
  ga_deposit_mint :: pubkey
  ga_admin :: pubkey
  ga_queue :: pubkey

definition attach_withdrawal_queue :: "env \<Rightarrow> tx \<Rightarrow> gate_accounts \<Rightarrow> world \<Rightarrow> world result" where
  "attach_withdrawal_queue E t A w =
     bindR (load_vault w (ga_vault_state A)) (\<lambda>v.
     bindR (load_mint E w (ga_deposit_mint A)) (\<lambda>dm.
     signer t (ga_admin A)
     (seeds_bump E (vault_state_seeds (ga_deposit_mint A) (v_vault_version v)) VAULT_PROGRAM_ID
        (ga_vault_state A)
     (require (v_admin v = ga_admin A) (VaultErr NotAdmin)
     (require (withdrawal_queue v = None) (VaultErr WithdrawalQueueAlreadyAttached)
     (require (ga_queue A = withdrawal_queue_pda E (ga_vault_state A))
        (VaultErr InvalidWithdrawalQueueAuthority)
     (require (account_owner E w (ga_queue A) = WITHDRAWAL_QUEUE_PROGRAM_ID)
        (VaultErr InvalidWithdrawalQueueAuthority)
     (require (\<not> data_is_empty w (ga_queue A)) (VaultErr InvalidWithdrawalQueueAuthority)
       (Inr (emit (WithdrawalQueueAttached (ga_vault_state A) (ga_queue A))
              (put_vault (ga_vault_state A) (v\<lparr>v_withdrawal_queue_authority := ga_queue A\<rparr>) w)))))))))))"

section \<open>detach_withdrawal_queue.rs\<close>

definition detach_withdrawal_queue :: "env \<Rightarrow> tx \<Rightarrow> gate_accounts \<Rightarrow> world \<Rightarrow> world result" where
  "detach_withdrawal_queue E t A w =
     bindR (load_vault w (ga_vault_state A)) (\<lambda>v.
     bindR (load_mint E w (ga_deposit_mint A)) (\<lambda>dm.
     signer t (ga_admin A)
     (signer t (ga_queue A)
     (seeds_bump E (vault_state_seeds (ga_deposit_mint A) (v_vault_version v)) VAULT_PROGRAM_ID
        (ga_vault_state A)
     (require (v_admin v = ga_admin A) (VaultErr NotAdmin)
     (bindR (ok_or (withdrawal_queue v) (VaultErr WithdrawalQueueNotAttached)) (\<lambda>current.
      require (ga_queue A = current) (VaultErr WrongWithdrawalQueueSigner)
       (Inr (emit (WithdrawalQueueDetached (ga_vault_state A) current)
              (put_vault (ga_vault_state A)
                (v\<lparr>v_withdrawal_queue_authority := default_key\<rparr>) w))))))))))"

section \<open>close_vault.rs\<close>

record close_accounts =
  cl_vault_state :: pubkey
  cl_share_mint :: pubkey
  cl_vault_token_ata :: pubkey
  cl_deposit_mint :: pubkey
  cl_admin :: pubkey
  cl_token_program :: pubkey

definition close_ctx ::
  "env \<Rightarrow> tx \<Rightarrow> close_accounts \<Rightarrow> world \<Rightarrow> (vault_state \<times> mint_account \<times> token_account) result"
where
  "close_ctx E t A w =
     bindR (load_vault w (cl_vault_state A)) (\<lambda>v.
     bindR (load_mint E w (cl_share_mint A)) (\<lambda>sm.
     bindR (load_token E w (cl_vault_token_ata A)) (\<lambda>reserve.
     bindR (load_mint E w (cl_deposit_mint A)) (\<lambda>dm.
     signer t (cl_admin A)
     (token_program_account E (cl_token_program A)
     (seeds_bump E (vault_state_seeds (cl_deposit_mint A) (v_vault_version v)) VAULT_PROGRAM_ID
        (cl_vault_state A)
     (close_to (cl_vault_state A) (cl_admin A)
     (seeds_bump E (share_mint_seeds (cl_deposit_mint A) (v_vault_version v)) VAULT_PROGRAM_ID
        (cl_share_mint A)
     (mint_authority sm (cl_vault_state A)
     (seeds_bump E (vault_token_seeds (cl_deposit_mint A) (v_vault_version v)) VAULT_PROGRAM_ID
        (cl_vault_token_ata A)
     (token_mint reserve (cl_deposit_mint A)
     (token_authority reserve (cl_vault_state A)
     (require (v_admin v = cl_admin A) (VaultErr NotAdmin)
       (Inr (v, sm, reserve)))))))))))))))"

text \<open>
  The token program closes the reserve and takes the mint authority away from the share mint; Anchor
  then closes the vault's own account.
\<close>

definition close_vault :: "env \<Rightarrow> tx \<Rightarrow> close_accounts \<Rightarrow> world \<Rightarrow> world result" where
  "close_vault E t A w =
     bindR (close_ctx E t A w) (\<lambda>(v, sm, reserve).
     require (mi_supply sm = 0) (VaultErr VaultNotEmpty)
     (require (v_subaccount_count v = 0) (VaultErr VaultNotEmpty)
     (require (ta_amount reserve = 0) (VaultErr VaultNotEmpty)
     (bindR (pda_signers E t VAULT_PROGRAM_ID (vault_seeds v)) (\<lambda>S.
      bindR (token_call (close_token_account E (cl_token_program A) S (cl_vault_token_ata A)
               (cl_vault_state A) (ledger w))) (\<lambda>L.
      bindR (token_call (revoke_mint_authority E (cl_token_program A) S (cl_share_mint A)
               (cl_vault_state A) L)) (\<lambda>L'.
      Inr ((put_ledger L' w)\<lparr>vaults := (vaults w)(cl_vault_state A := None)\<rparr>))))))))"

section \<open>create_metadata.rs, update_metadata.rs\<close>

record metadata_accounts =
  me_payer :: pubkey
  me_admin :: pubkey
  me_vault_state :: pubkey
  me_deposit_mint :: pubkey
  me_share_mint :: pubkey
  me_metadata_account :: pubkey
  me_token_program :: pubkey
  me_token_metadata_program :: pubkey

definition metadata_seeds :: "env \<Rightarrow> pubkey \<Rightarrow> u8 list list" where
  "metadata_seeds E share_mint =
     [ascii ''metadata'', key_bytes (token_metadata_id E), key_bytes share_mint]"

text \<open>
  \<open>Account<Mint>\<close> and \<open>Program<Token>\<close> here are the classic ones: a Token-2022 share mint is refused.
\<close>

definition load_classic_mint :: "env \<Rightarrow> world \<Rightarrow> pubkey \<Rightarrow> mint_account result" where
  "load_classic_mint E w k =
     bindR (ok_or (mints (ledger w) k) (AnchorErr AccountNotInitialized))
       (\<lambda>m. require (mi_program m = spl_token_id E) (AnchorErr AccountOwnedByWrongProgram) (Inr m))"

definition metadata_ctx :: "env \<Rightarrow> tx \<Rightarrow> metadata_accounts \<Rightarrow> world \<Rightarrow> vault_state result" where
  "metadata_ctx E t A w =
     signer t (me_admin A)
     (bindR (load_vault w (me_vault_state A)) (\<lambda>v.
      bindR (load_mint E w (me_deposit_mint A)) (\<lambda>dm.
      bindR (load_classic_mint E w (me_share_mint A)) (\<lambda>sm.
      require (me_token_program A = spl_token_id E) (AnchorErr InvalidProgramId)
     (require (me_admin A = v_admin v) (VaultErr UnauthorizedAdmin)
     (seeds_bump E (vault_state_seeds (me_deposit_mint A) (v_vault_version v)) VAULT_PROGRAM_ID
        (me_vault_state A)
     (require (\<not> v_paused v) (VaultErr VaultPaused)
     (mint_authority sm (me_vault_state A)
     (seeds_bump E (metadata_seeds E (me_share_mint A)) (token_metadata_id E) (me_metadata_account A)
     (require (me_token_metadata_program A = token_metadata_id E) (AnchorErr ConstraintAddress)
       (Inr v)))))))))))"

definition share_data :: "string \<Rightarrow> string \<Rightarrow> string \<Rightarrow> data_v2" where
  "share_data name symbol uri =
     \<lparr>md_name = name, md_symbol = symbol, md_uri = uri, md_seller_fee_basis_points = 0,
      md_creators = None, md_collection = None, md_uses = None\<rparr>"

definition create_share_token_metadata ::
  "env \<Rightarrow> tx \<Rightarrow> metadata_accounts \<Rightarrow> string \<Rightarrow> string \<Rightarrow> string \<Rightarrow> world \<Rightarrow> world result" where
  "create_share_token_metadata E t A name symbol uri w =
     signer t (me_payer A)
     (bindR (metadata_ctx E t A w) (\<lambda>v.
      bindR (pda_signers E t VAULT_PROGRAM_ID (vault_seeds v)) (\<lambda>S.
      bindR (metadata_call (create_metadata_v3 E S (me_metadata_account A) (me_share_mint A)
               (me_vault_state A) (me_payer A) (me_vault_state A) (share_data name symbol uri) True
               (metadata w))) (\<lambda>M.
      Inr (w\<lparr>metadata := M\<rparr>)))))"

definition update_share_token_metadata ::
  "env \<Rightarrow> tx \<Rightarrow> metadata_accounts \<Rightarrow> string \<Rightarrow> string \<Rightarrow> string \<Rightarrow> world \<Rightarrow> world result" where
  "update_share_token_metadata E t A name symbol uri w =
     bindR (metadata_ctx E t A w) (\<lambda>v.
     bindR (pda_signers E t VAULT_PROGRAM_ID (vault_seeds v)) (\<lambda>S.
     bindR (metadata_call (update_metadata_v2 E S (me_metadata_account A) (me_vault_state A)
              (Some (share_data name symbol uri)) None (metadata w))) (\<lambda>M.
      Inr (w\<lparr>metadata := M\<rparr>))))"

section \<open>The gate's contract\<close>

lemma attach_cases:
  assumes "attach_withdrawal_queue E t A w = Inr w'"
  obtains v where "vaults w (ga_vault_state A) = Some v" and "v_admin v = ga_admin A"
    and "ga_admin A \<in> signers t" and "withdrawal_queue v = None"
    and "ga_queue A = withdrawal_queue_pda E (ga_vault_state A)"
    and "account_owner E w (ga_queue A) = WITHDRAWAL_QUEUE_PROGRAM_ID"
    and "in_use w (ga_queue A)"
    and "w' = emit (WithdrawalQueueAttached (ga_vault_state A) (ga_queue A))
           (put_vault (ga_vault_state A) (v\<lparr>v_withdrawal_queue_authority := ga_queue A\<rparr>) w)"
  using assms
  by (auto simp: attach_withdrawal_queue_def load_simps constraint_simps data_is_empty_def)

lemma detach_cases:
  assumes "detach_withdrawal_queue E t A w = Inr w'"
  obtains v where "vaults w (ga_vault_state A) = Some v" and "v_admin v = ga_admin A"
    and "ga_admin A \<in> signers t" and "ga_queue A \<in> signers t"
    and "withdrawal_queue v = Some (ga_queue A)"
    and "w' = emit (WithdrawalQueueDetached (ga_vault_state A) (ga_queue A))
           (put_vault (ga_vault_state A) (v\<lparr>v_withdrawal_queue_authority := default_key\<rparr>) w)"
  using assms by (auto simp: detach_withdrawal_queue_def load_simps constraint_simps)

lemma withdrawal_queue_None: "withdrawal_queue v = None \<longleftrightarrow> v_withdrawal_queue_authority v = default_key"
  by (simp add: withdrawal_queue_def)

lemma withdrawal_queue_Some:
  "withdrawal_queue v = Some k \<longleftrightarrow> v_withdrawal_queue_authority v = k \<and> k \<noteq> default_key"
  by (auto simp: withdrawal_queue_def)

text \<open>
  Every way \<open>attach_withdrawal_queue\<close> ends, once its accounts pass: a vault that has a queue
  says so; a key that is not this vault's queue address, or an address the queue program has not
  claimed, is refused; otherwise exactly that key is stored and announced.
\<close>

theorem attach_exact:
  assumes "vaults w (ga_vault_state A) = Some v" and "v_admin v = ga_admin A"
    and "ga_admin A \<in> signers t" and "load_mint E w (ga_deposit_mint A) = Inr dm"
    and "fst (find_program_address E (vault_state_seeds (ga_deposit_mint A) (v_vault_version v))
           VAULT_PROGRAM_ID) = ga_vault_state A"
  shows "attach_withdrawal_queue E t A w =
     (if v_withdrawal_queue_authority v \<noteq> default_key
      then Inl (VaultErr WithdrawalQueueAlreadyAttached)
      else if ga_queue A \<noteq> withdrawal_queue_pda E (ga_vault_state A) \<or>
              account_owner E w (ga_queue A) \<noteq> WITHDRAWAL_QUEUE_PROGRAM_ID \<or> \<not> in_use w (ga_queue A)
      then Inl (VaultErr InvalidWithdrawalQueueAuthority)
      else Inr (w\<lparr>vaults := (vaults w)(ga_vault_state A \<mapsto> v\<lparr>v_withdrawal_queue_authority := ga_queue A\<rparr>),
                  events := events w @ [WithdrawalQueueAttached (ga_vault_state A) (ga_queue A)]\<rparr>))"
  using assms(1-3,5)
  by (simp add: attach_withdrawal_queue_def assms(4) load_vault_def constraint_simps require_def
      withdrawal_queue_None data_is_empty_def emit_def put_vault_def)


text \<open>
  C26. Attaching a queue is reversible: with the admin's and the queue's signatures a detach of what
  was just attached succeeds and restores every vault as it was.
\<close>

theorem attach_detach_roundtrip:
  assumes "attach_withdrawal_queue E t A w = Inr w1"
    and "ga_admin A \<in> signers t'" and "ga_queue A \<in> signers t'" and "ga_queue A \<noteq> default_key"
  shows "\<exists>w2. detach_withdrawal_queue E t' A w1 = Inr w2 \<and> w2\<lparr>events := events w\<rparr> = w"
proof -
  obtain v where v: "vaults w (ga_vault_state A) = Some v" "v_admin v = ga_admin A"
      "withdrawal_queue v = None"
    and w1: "w1 = emit (WithdrawalQueueAttached (ga_vault_state A) (ga_queue A))
           (put_vault (ga_vault_state A) (v\<lparr>v_withdrawal_queue_authority := ga_queue A\<rparr>) w)"
    using assms(1) by (rule attach_cases)
  obtain dm where dm: "load_mint E w (ga_deposit_mint A) = Inr dm"
    and pda: "fst (find_program_address E (vault_state_seeds (ga_deposit_mint A) (v_vault_version v))
        VAULT_PROGRAM_ID) = ga_vault_state A"
    using assms(1) v(1) by (auto simp: attach_withdrawal_queue_def load_vault_def constraint_simps)
  have dm1: "load_mint E w1 (ga_deposit_mint A) = Inr dm"
    using dm by (simp add: w1 load_mint_def emit_def put_vault_def)
  have same: "v\<lparr>v_withdrawal_queue_authority := default_key\<rparr> = v"
    using v(3) by (cases v) (simp add: withdrawal_queue_None)
  have restored: "(vaults w)(ga_vault_state A \<mapsto> v) = vaults w" using v(1) by (simp add: fun_upd_idem)
  show ?thesis
    using assms(2-4) v pda
    by (simp add: detach_withdrawal_queue_def dm1 load_vault_def constraint_simps)
      (simp add: w1 emit_def put_vault_def withdrawal_queue_def same restored)
qed

section \<open>Closing a vault\<close>

lemma close_cases:
  assumes "close_vault E t A w = Inr w'" and "spl_laws E"
  obtains v sm S where "vaults w (cl_vault_state A) = Some v" and "v_admin v = cl_admin A"
    and "cl_admin A \<in> signers t" and "v_subaccount_count v = 0"
    and "mints (ledger w) (cl_share_mint A) = Some sm" and "mi_supply sm = 0"
    and "balance (ledger w) (cl_vault_token_ata A) = 0"
    and "mints (ledger w') = (mints (ledger w))(cl_share_mint A \<mapsto> sm\<lparr>mi_authority := None\<rparr>)"
    and "tokens (ledger w') = (tokens (ledger w))(cl_vault_token_ata A := None)"
    and "w' = w\<lparr>ledger := ledger w', vaults := (vaults w)(cl_vault_state A := None)\<rparr>"
    and "pda_signers E t VAULT_PROGRAM_ID (vault_seeds v) = Inr S"
    and "kept E S (ledger w) (ledger w') \<and> no_grant E (ledger w) (ledger w')"
proof -
  from assms(1) obtain v sm reserve S L L' where
    h: "vaults w (cl_vault_state A) = Some v" "v_admin v = cl_admin A" "cl_admin A \<in> signers t"
      "v_subaccount_count v = 0" "mints (ledger w) (cl_share_mint A) = Some sm" "mi_supply sm = 0"
      "tokens (ledger w) (cl_vault_token_ata A) = Some reserve" "ta_amount reserve = 0"
    and c: "close_token_account E (cl_token_program A) S (cl_vault_token_ata A)
        (cl_vault_state A) (ledger w) = Inr L"
    and r: "revoke_mint_authority E (cl_token_program A) S (cl_share_mint A)
        (cl_vault_state A) L = Inr L'"
    and S: "pda_signers E t VAULT_PROGRAM_ID (vault_seeds v) = Inr S"
    and w': "w' = (put_ledger L' w)\<lparr>vaults := (vaults w)(cl_vault_state A := None)\<rparr>"
    by (auto simp: close_vault_def close_ctx_def load_simps constraint_simps)
  note cl = spl_close [OF assms(2) c] and rv = spl_revoke [OF assms(2) r]
  have m: "mints L' = (mints (ledger w))(cl_share_mint A \<mapsto> sm\<lparr>mi_authority := None\<rparr>)"
    using rv(1) h(5) cl(3) by auto
  have tk: "tokens L' = (tokens (ledger w))(cl_vault_token_ata A := None)"
    using rv(2) cl(2) by simp
  have k: "kept E S (ledger w) L' \<and> no_grant E (ledger w) L'"
    using spl_custody(4) [OF assms(2) c] spl_custody(5) [OF assms(2) r] kept_trans no_grant_trans
    by blast
  show ?thesis
    by (rule that [OF h(1-6) _ _ _ _ S])
      (use m tk w' k h(7,8) in \<open>simp_all add: put_ledger_def balance_def\<close>)
qed


section \<open>Metadata\<close>

lemma metadata_ctx_Inr:
  assumes "metadata_ctx E t A w = Inr v"
  shows "vaults w (me_vault_state A) = Some v" and "v_admin v \<in> signers t" and "\<not> v_paused v"
    and "\<exists>sm. mints (ledger w) (me_share_mint A) = Some sm \<and>
           mi_authority sm = Some (me_vault_state A) \<and> mi_program sm = spl_token_id E"
    and "fst (find_program_address E (metadata_seeds E (me_share_mint A)) (token_metadata_id E)) =
           me_metadata_account A"
  using assms by (auto simp: metadata_ctx_def load_classic_mint_def load_simps constraint_simps)

text \<open>
  The share token's metadata is written only with the admin's signature while the vault is not
  paused, only at the address derived from a classic share mint the vault may mint, and without
  royalties, creators, collection or uses; nothing but the metadata changes.
\<close>

theorem metadata_guard:
  assumes "create_share_token_metadata E t A name symbol uri w = Inr w' \<or>
     update_share_token_metadata E t A name symbol uri w = Inr w'"
  shows "\<exists>v sm S M. vaults w (me_vault_state A) = Some v \<and> v_admin v \<in> signers t \<and> \<not> v_paused v \<and>
     mints (ledger w) (me_share_mint A) = Some sm \<and> mi_authority sm = Some (me_vault_state A) \<and>
     mi_program sm = spl_token_id E \<and>
     fst (find_program_address E (metadata_seeds E (me_share_mint A)) (token_metadata_id E)) =
       me_metadata_account A \<and>
     (create_metadata_v3 E S (me_metadata_account A) (me_share_mint A) (me_vault_state A)
        (me_payer A) (me_vault_state A)
        \<lparr>md_name = name, md_symbol = symbol, md_uri = uri, md_seller_fee_basis_points = 0,
         md_creators = None, md_collection = None, md_uses = None\<rparr> True (metadata w) = Inr M \<or>
      update_metadata_v2 E S (me_metadata_account A) (me_vault_state A)
        (Some \<lparr>md_name = name, md_symbol = symbol, md_uri = uri, md_seller_fee_basis_points = 0,
         md_creators = None, md_collection = None, md_uses = None\<rparr>) None (metadata w) = Inr M) \<and>
     w' = w\<lparr>metadata := M\<rparr>"
proof -
  obtain v S M where v: "metadata_ctx E t A w = Inr v" and w': "w' = w\<lparr>metadata := M\<rparr>"
    and M: "create_metadata_v3 E S (me_metadata_account A) (me_share_mint A) (me_vault_state A)
        (me_payer A) (me_vault_state A) (share_data name symbol uri) True (metadata w) = Inr M \<or>
      update_metadata_v2 E S (me_metadata_account A) (me_vault_state A)
        (Some (share_data name symbol uri)) None (metadata w) = Inr M"
    using assms
    by (auto simp: create_share_token_metadata_def update_share_token_metadata_def signer_def)
  show ?thesis
    using metadata_ctx_Inr [OF v] w' M unfolding share_data_def by blast
qed

section \<open>Witnesses\<close>

definition ex_gate :: gate_accounts where
  "ex_gate =
     \<lparr>ga_vault_state = ex_vault, ga_deposit_mint = ex_mint, ga_admin = ex_admin, ga_queue = ex_queue\<rparr>"

definition ex_attachable :: world where
  "ex_attachable = ex_world\<lparr>queues := [ex_queue \<mapsto> zero_queue\<lparr>q_vault_state := ex_vault\<rparr>]\<rparr>"

definition ex_attached :: world where
  "ex_attached =
     ex_attachable\<lparr>vaults := [ex_vault \<mapsto> ex_vault_state\<lparr>v_withdrawal_queue_authority := ex_queue\<rparr>]\<rparr>"

definition ex_both :: tx where
  "ex_both = \<lparr>signers = {ex_admin, ex_queue}, unix_timestamp = None, can_fund = (\<lambda>_ _. False)\<rparr>"

lemma ex_attach_ok: "is_ok (attach_withdrawal_queue ref_env (ex_tx ex_admin) ex_gate ex_attachable)"
  by code_simp

theorem attach_exact_witness:
  "\<exists>w'. attach_withdrawal_queue ref_env (ex_tx ex_admin) ex_gate ex_attachable = Inr w' \<and>
     vaults w' ex_vault = Some (ex_vault_state\<lparr>v_withdrawal_queue_authority := ex_queue\<rparr>)"
proof -
  have "vaults ex_attachable (ga_vault_state ex_gate) = Some ex_vault_state"
    and "v_admin ex_vault_state = ga_admin ex_gate" and "ga_admin ex_gate \<in> signers (ex_tx ex_admin)"
    and "load_mint ref_env ex_attachable (ga_deposit_mint ex_gate) =
      Inr ((fresh_mint 1 6 ex_admin)\<lparr>mi_supply := 90000000000\<rparr>)"
    and "fst (find_program_address ref_env (vault_state_seeds (ga_deposit_mint ex_gate)
        (v_vault_version ex_vault_state)) VAULT_PROGRAM_ID) = ga_vault_state ex_gate"
    by (simp_all add: ex_attachable_def ex_world_def ex_gate_def ex_tx_def load_mint_def ex_ledger_def
        ex_vault_state_def ex_pdas fresh_mint_def token_interface_def)
  note e = attach_exact [OF this]
  show ?thesis using ex_attach_ok unfolding e by (auto simp: ex_gate_def split: if_splits)
qed

lemma ex_detach_ok: "is_ok (detach_withdrawal_queue ref_env ex_both ex_gate ex_attached)"
  by code_simp


theorem attach_detach_roundtrip_witness:
  "\<exists>w1 w2. attach_withdrawal_queue ref_env (ex_tx ex_admin) ex_gate ex_attachable = Inr w1 \<and>
     detach_withdrawal_queue ref_env ex_both ex_gate w1 = Inr w2 \<and> w2\<lparr>events := []\<rparr> = ex_attachable"
proof -
  obtain w1 where w: "attach_withdrawal_queue ref_env (ex_tx ex_admin) ex_gate ex_attachable = Inr w1"
    using ex_attach_ok by (auto simp: is_ok_iff)
  have "ga_admin ex_gate \<in> signers ex_both" "ga_queue ex_gate \<in> signers ex_both"
      "ga_queue ex_gate \<noteq> default_key"
    by (simp_all add: ex_gate_def ex_both_def ex_queue_def default_key_def)
  from attach_detach_roundtrip [OF w this] w show ?thesis
    by (auto simp: ex_attachable_def ex_world_def)
qed

text \<open>A vault whose holders have all left.\<close>

definition ex_close :: close_accounts where
  "ex_close =
     \<lparr>cl_vault_state = ex_vault, cl_share_mint = ex_share_mint, cl_vault_token_ata = ex_reserve,
      cl_deposit_mint = ex_mint, cl_admin = ex_admin, cl_token_program = 1\<rparr>"

definition ex_abandoned :: world where
  "ex_abandoned = ex_world\<lparr>ledger :=
     \<lparr>tokens = [ex_reserve \<mapsto> ex_token ex_mint ex_vault 0],
      mints = [ex_mint \<mapsto> fresh_mint 1 6 ex_admin, ex_share_mint \<mapsto> fresh_mint 1 6 ex_vault]\<rparr>\<rparr>"


definition ex_metadata :: metadata_accounts where
  "ex_metadata =
     \<lparr>me_payer = ex_admin, me_admin = ex_admin, me_vault_state = ex_vault, me_deposit_mint = ex_mint,
      me_share_mint = ex_share_mint,
      me_metadata_account = fst (ref_find (metadata_seeds ref_env ex_share_mint) 3),
      me_token_program = 1, me_token_metadata_program = 3\<rparr>"

theorem metadata_guard_witness:
  "\<exists>w'. create_share_token_metadata ref_env (ex_tx ex_admin) ex_metadata ''s'' ''S'' ''u'' ex_world = Inr w' \<and>
     ledger w' = ledger ex_world"
proof -
  have "is_ok (create_share_token_metadata ref_env (ex_tx ex_admin) ex_metadata ''s'' ''S'' ''u'' ex_world)"
    by code_simp
  then obtain w' where
    w: "create_share_token_metadata ref_env (ex_tx ex_admin) ex_metadata ''s'' ''S'' ''u'' ex_world = Inr w'"
    by (auto simp: is_ok_iff)
  from metadata_guard [OF disjI1 [OF w]] obtain M where "w' = ex_world\<lparr>metadata := M\<rparr>" by blast
  with w show ?thesis by simp
qed

end
