(* ===== verification/QueueUser.thy ===== *)
theory QueueUser
  imports QueueState VaultUser VaultGate
begin

text \<open>
  The holder's side of the queue: \<open>request_withdrawal.rs\<close>, \<open>cancel_withdrawal.rs\<close> and
  \<open>finalize_withdrawal.rs\<close>. A finalization calls the vault's \<open>redeem\<close> with the queue's own signature
  added to the transaction's.
\<close>

section \<open>request_withdrawal.rs\<close>

record request_accounts =
  rw_queue :: pubkey
  rw_vault_state :: pubkey
  rw_owner :: pubkey
  rw_owner_share_account :: pubkey
  rw_escrow_shares :: pubkey
  rw_share_mint :: pubkey
  rw_recipient_token_account :: pubkey
  rw_request :: pubkey
  rw_token_program :: pubkey

definition request_ctx ::
  "env \<Rightarrow> tx \<Rightarrow> request_accounts \<Rightarrow> u64 \<Rightarrow> world \<Rightarrow>
     (withdrawal_queue \<times> vault_state \<times> mint_account \<times> token_account) result" where
  "request_ctx E t A request_id w =
     bindR (load_queue w (rw_queue A)) (\<lambda>q.
     bindR (load_vault w (rw_vault_state A)) (\<lambda>v.
     signer t (rw_owner A)
     (bindR (load_token E w (rw_owner_share_account A)) (\<lambda>owner_shares.
      bindR (load_token E w (rw_escrow_shares A)) (\<lambda>escrow.
      bindR (load_mint E w (rw_share_mint A)) (\<lambda>sm.
      bindR (load_token E w (rw_recipient_token_account A)) (\<lambda>recipient.
      token_program_account E (rw_token_program A)
     (seeds_bump E (request_seeds (rw_queue A) (rw_owner A) request_id) WITHDRAWAL_QUEUE_PROGRAM_ID
        (rw_request A)
     (init_account t w (rw_owner A) (rw_request A)
     (seeds_with_bump E (queue_seeds (q_vault_state q)) (q_bump q) WITHDRAWAL_QUEUE_PROGRAM_ID
        (rw_queue A)
     (has_one (q_vault_state q) (rw_vault_state A) (QueueErr VaultMismatch)
     (has_one (q_escrow_shares q) (rw_escrow_shares A) (AnchorErr ConstraintHasOne)
     (has_one (q_share_mint q) (rw_share_mint A) (AnchorErr ConstraintHasOne)
     (token_mint owner_shares (rw_share_mint A)
     (token_authority owner_shares (rw_owner A)
       (Inr (q, v, sm, recipient)))))))))))))))))"

definition request_withdrawal ::
  "env \<Rightarrow> tx \<Rightarrow> request_accounts \<Rightarrow> u64 \<Rightarrow> u64 \<Rightarrow> u64 \<Rightarrow> pubkey \<Rightarrow> world \<Rightarrow> world result" where
  "request_withdrawal E t A request_id shares min_assets_out finalizer w =
     bindR (request_ctx E t A request_id w) (\<lambda>(q, v, sm, recipient).
     require (withdrawal_queue v = Some (rw_queue A)) (QueueErr QueueNotActiveOnVault)
     (require (0 < shares) (QueueErr ZeroShares)
     (bindR (require_valid_recipient (rw_recipient_token_account A) recipient (rw_queue A) q) (\<lambda>_.
      bindR (ok_or (unix_timestamp t) RuntimeErr) (\<lambda>now.
      bindR (open_request shares q) (\<lambda>(q', sequence).
      bindR (request_open (rw_queue A) (rw_owner A) (rw_recipient_token_account A) finalizer shares
               min_assets_out request_id sequence
               (snd (find_program_address E (request_seeds (rw_queue A) (rw_owner A) request_id)
                       WITHDRAWAL_QUEUE_PROGRAM_ID))
               now (q_cooldown_seconds q') (q_fulfillment_window_seconds q') zero_request) (\<lambda>r.
      bindR (token_call (transfer_checked E (rw_token_program A) (signers t)
               (rw_owner_share_account A) (rw_share_mint A) (rw_escrow_shares A) (rw_owner A)
               shares (mi_decimals sm) (ledger w))) (\<lambda>L.
      Inr (emit (requested_snapshot r (q_vault_state q') (rw_request A))
            (put_request (rw_request A) r (put_queue (rw_queue A) q' (put_ledger L w))))))))))))"

section \<open>cancel_withdrawal.rs\<close>

record cancel_accounts =
  cw_queue :: pubkey
  cw_owner :: pubkey
  cw_request :: pubkey
  cw_escrow_shares :: pubkey
  cw_share_mint :: pubkey
  cw_destination_share_account :: pubkey
  cw_token_program :: pubkey

definition cancel_ctx ::
  "env \<Rightarrow> tx \<Rightarrow> cancel_accounts \<Rightarrow> world \<Rightarrow> (withdrawal_queue \<times> withdrawal_request \<times> mint_account) result"
where
  "cancel_ctx E t A w =
     bindR (load_queue w (cw_queue A)) (\<lambda>q.
     signer t (cw_owner A)
     (bindR (load_request w (cw_request A)) (\<lambda>r.
      bindR (load_token E w (cw_escrow_shares A)) (\<lambda>escrow.
      bindR (load_mint E w (cw_share_mint A)) (\<lambda>sm.
      bindR (load_token E w (cw_destination_share_account A)) (\<lambda>destination.
      token_program_account E (cw_token_program A)
     (seeds_with_bump E (queue_seeds (q_vault_state q)) (q_bump q) WITHDRAWAL_QUEUE_PROGRAM_ID
        (cw_queue A)
     (has_one (q_escrow_shares q) (cw_escrow_shares A) (AnchorErr ConstraintHasOne)
     (has_one (q_share_mint q) (cw_share_mint A) (AnchorErr ConstraintHasOne)
     (seeds_with_bump E (request_seeds (r_queue r) (r_owner r) (r_request_id r)) (r_bump r)
        WITHDRAWAL_QUEUE_PROGRAM_ID (cw_request A)
     (has_one (r_queue r) (cw_queue A) (AnchorErr ConstraintHasOne)
     (has_one (r_owner r) (cw_owner A) (QueueErr NotRequestOwner)
     (close_to (cw_request A) (cw_owner A)
     (token_mint destination (cw_share_mint A)
     (token_authority destination (cw_owner A)
       (Inr (q, r, sm)))))))))))))))))"

definition cancel_withdrawal ::
  "env \<Rightarrow> tx \<Rightarrow> cancel_accounts \<Rightarrow> u64 \<Rightarrow> world \<Rightarrow> world result" where
  "cancel_withdrawal E t A expected_sequence w =
     bindR (cancel_ctx E t A w) (\<lambda>(q, r, sm).
     require (r_sequence r = expected_sequence) (QueueErr StaleRequestSequence)
     (bindR (close_request (r_shares r) q) (\<lambda>q'.
      bindR (pda_signers E t WITHDRAWAL_QUEUE_PROGRAM_ID (signer_seeds q')) (\<lambda>S.
      bindR (token_call (transfer_checked E (cw_token_program A) S (cw_escrow_shares A)
               (cw_share_mint A) (cw_destination_share_account A) (cw_queue A) (r_shares r)
               (mi_decimals sm) (ledger w))) (\<lambda>L.
      Inr (emit (cancelled_snapshot r (q_vault_state q') (cw_request A) (cw_owner A)
                   (cw_destination_share_account A))
            ((put_queue (cw_queue A) q' (put_ledger L w))
               \<lparr>requests := (requests w)(cw_request A := None)\<rparr>)))))))"

section \<open>finalize_withdrawal.rs\<close>

record finalize_accounts =
  fw_queue :: pubkey
  fw_vault_state :: pubkey
  fw_vault_deposit_ata :: pubkey
  fw_fee_recipient_account :: pubkey
  fw_escrow_shares :: pubkey
  fw_escrow_assets :: pubkey
  fw_share_mint :: pubkey
  fw_deposit_mint :: pubkey
  fw_finalizer :: pubkey
  fw_request :: pubkey
  fw_owner :: pubkey
  fw_recipient_token_account :: pubkey
  fw_vault_program :: pubkey
  fw_token_program :: pubkey

definition finalize_load ::
  "env \<Rightarrow> tx \<Rightarrow> finalize_accounts \<Rightarrow> world \<Rightarrow>
     (withdrawal_queue \<times> token_account \<times> mint_account \<times> withdrawal_request \<times> token_account) result"
where
  "finalize_load E t A w =
     bindR (load_queue w (fw_queue A)) (\<lambda>q.
     bindR (load_vault w (fw_vault_state A)) (\<lambda>v.
     bindR (load_token E w (fw_vault_deposit_ata A)) (\<lambda>reserve.
     bindR (load_token E w (fw_fee_recipient_account A)) (\<lambda>fee_account.
     bindR (load_token E w (fw_escrow_shares A)) (\<lambda>escrow_shares.
     bindR (load_token E w (fw_escrow_assets A)) (\<lambda>escrow_assets.
     bindR (load_mint E w (fw_share_mint A)) (\<lambda>sm.
     bindR (load_mint E w (fw_deposit_mint A)) (\<lambda>dm.
     signer t (fw_finalizer A)
     (bindR (load_request w (fw_request A)) (\<lambda>r.
      bindR (load_token E w (fw_recipient_token_account A)) (\<lambda>recipient.
      require (fw_vault_program A = VAULT_PROGRAM_ID) (AnchorErr InvalidProgramId)
     (token_program_account E (fw_token_program A)
       (Inr (q, escrow_assets, dm, r, recipient))))))))))))))"

definition finalize_ctx ::
  "env \<Rightarrow> tx \<Rightarrow> finalize_accounts \<Rightarrow> world \<Rightarrow>
     (withdrawal_queue \<times> token_account \<times> mint_account \<times> withdrawal_request \<times> token_account) result"
where
  "finalize_ctx E t A w =
     bindR (finalize_load E t A w) (\<lambda>(q, escrow_assets, dm, r, recipient).
     seeds_with_bump E (queue_seeds (q_vault_state q)) (q_bump q) WITHDRAWAL_QUEUE_PROGRAM_ID
        (fw_queue A)
     (has_one (q_vault_state q) (fw_vault_state A) (QueueErr VaultMismatch)
     (has_one (q_deposit_mint q) (fw_deposit_mint A) (AnchorErr ConstraintHasOne)
     (has_one (q_share_mint q) (fw_share_mint A) (AnchorErr ConstraintHasOne)
     (has_one (q_escrow_shares q) (fw_escrow_shares A) (AnchorErr ConstraintHasOne)
     (has_one (q_escrow_assets q) (fw_escrow_assets A) (AnchorErr ConstraintHasOne)
     (seeds_with_bump E (request_seeds (r_queue r) (r_owner r) (r_request_id r)) (r_bump r)
        WITHDRAWAL_QUEUE_PROGRAM_ID (fw_request A)
     (has_one (r_queue r) (fw_queue A) (AnchorErr ConstraintHasOne)
     (has_one (r_owner r) (fw_owner A) (AnchorErr ConstraintHasOne)
     (has_one (r_recipient_token_account r) (fw_recipient_token_account A) (AnchorErr ConstraintHasOne)
     (close_to (fw_request A) (fw_owner A)
       (Inr (q, escrow_assets, dm, r, recipient)))))))))))))"

text \<open>The accounts the vault's \<open>redeem\<close> is called with.\<close>

definition finalize_redeem :: "finalize_accounts \<Rightarrow> redeem_accounts" where
  "finalize_redeem A =
     \<lparr>red_vault_state = fw_vault_state A, red_vault_deposit_ata = fw_vault_deposit_ata A,
      red_sender_token_account = fw_escrow_assets A, red_sender_share_account = fw_escrow_shares A,
      red_fee_recipient_account = fw_fee_recipient_account A, red_share_mint = fw_share_mint A,
      red_deposit_mint = fw_deposit_mint A, red_signer = fw_queue A,
      red_token_program = fw_token_program A\<rparr>"

definition finalize_withdrawal ::
  "env \<Rightarrow> tx \<Rightarrow> finalize_accounts \<Rightarrow> u64 \<Rightarrow> world \<Rightarrow> world result" where
  "finalize_withdrawal E t A expected_sequence w =
     bindR (finalize_ctx E t A w) (\<lambda>(q, escrow_assets, dm, r, recipient).
     require (r_sequence r = expected_sequence) (QueueErr StaleRequestSequence)
     (require (may_finalize r (fw_finalizer A)) (QueueErr FinalizerNotAllowed)
     (bindR (ok_or (unix_timestamp t) RuntimeErr) (\<lambda>now.
      require (is_eligible r now) (QueueErr CooldownNotElapsed)
     (require (\<not> is_expired r now) (QueueErr RequestExpired)
     (bindR (require_valid_recipient (fw_recipient_token_account A) recipient (fw_queue A) q) (\<lambda>_.
      bindR (close_request (r_shares r) q) (\<lambda>q'.
      bindR (pda_signers E t WITHDRAWAL_QUEUE_PROGRAM_ID (signer_seeds q')) (\<lambda>S.
      bindR (redeem E (t\<lparr>signers := S\<rparr>) (finalize_redeem A) (r_shares r) w) (\<lambda>w1.
      bindR (load_token E w1 (fw_escrow_assets A)) (\<lambda>escrow_after.
      bindR (ok_or (checked_sub (ta_amount escrow_after) (ta_amount escrow_assets))
               (QueueErr QueueMathError)) (\<lambda>assets.
      require (r_min_assets_out r \<le> assets) (QueueErr PayoutBelowFloor)
     (bindR (token_call (transfer_checked E (fw_token_program A) S (fw_escrow_assets A)
               (fw_deposit_mint A) (fw_recipient_token_account A) (fw_queue A) assets
               (mi_decimals dm) (ledger w1))) (\<lambda>L.
      Inr (emit (finalized_snapshot r (q_vault_state q') (fw_request A) (fw_finalizer A) assets)
            ((put_queue (fw_queue A) q' (put_ledger L w1))
               \<lparr>requests := (requests w)(fw_request A := None)\<rparr>))))))))))))))))"

section \<open>How each instruction ends\<close>

lemma request_ctx_Inr:
  assumes "request_ctx E t A request_id w = Inr (q, v, sm, recipient)"
  shows "queues w (rw_queue A) = Some q" and "vaults w (rw_vault_state A) = Some v"
    and "rw_owner A \<in> signers t" and "q_vault_state q = rw_vault_state A"
    and "q_escrow_shares q = rw_escrow_shares A" and "q_share_mint q = rw_share_mint A"
    and "mints (ledger w) (rw_share_mint A) = Some sm"
    and "tokens (ledger w) (rw_recipient_token_account A) = Some recipient"
    and "holder (ledger w) (rw_owner_share_account A) = Some (rw_share_mint A, rw_owner A)"
    and "\<not> in_use w (rw_request A)"
    and "fst (find_program_address E (request_seeds (rw_queue A) (rw_owner A) request_id)
           WITHDRAWAL_QUEUE_PROGRAM_ID) = rw_request A"
    and "create_program_address E (queue_seeds (q_vault_state q) @ [[q_bump q]])
           WITHDRAWAL_QUEUE_PROGRAM_ID = Some (rw_queue A)"
  using assms by (auto simp: request_ctx_def load_simps constraint_simps holder_def)

lemma valid_recipient_Inr [result_simps]:
  "require_valid_recipient k a queue q = Inr u \<longleftrightarrow>
     ta_mint a = q_deposit_mint q \<and> k \<noteq> q_escrow_assets q \<and> ta_owner a \<noteq> queue \<and>
     ta_owner a \<noteq> q_vault_state q"
  by (simp add: require_valid_recipient_def)

lemma request_cases:
  assumes "request_withdrawal E t A request_id shares min_assets_out finalizer w = Inr w'"
  obtains q v sm recipient now q' s r L where
    "request_ctx E t A request_id w = Inr (q, v, sm, recipient)"
    and "withdrawal_queue v = Some (rw_queue A)" and "shares \<noteq> 0"
    and "require_valid_recipient (rw_recipient_token_account A) recipient (rw_queue A) q = Inr ()"
    and "unix_timestamp t = Some now" and "open_request shares q = Inr (q', s)"
    and "request_open (rw_queue A) (rw_owner A) (rw_recipient_token_account A) finalizer shares
           min_assets_out request_id s
           (snd (find_program_address E (request_seeds (rw_queue A) (rw_owner A) request_id)
                   WITHDRAWAL_QUEUE_PROGRAM_ID))
           now (q_cooldown_seconds q') (q_fulfillment_window_seconds q') zero_request = Inr r"
    and "transfer_checked E (rw_token_program A) (signers t) (rw_owner_share_account A)
           (rw_share_mint A) (rw_escrow_shares A) (rw_owner A) shares (mi_decimals sm) (ledger w) = Inr L"
    and "w' = w\<lparr>ledger := L, queues := (queues w)(rw_queue A \<mapsto> q'),
                requests := (requests w)(rw_request A \<mapsto> r),
                events := events w @ [requested_snapshot r (q_vault_state q') (rw_request A)]\<rparr>"
proof -
  from assms obtain q v sm recipient where c: "request_ctx E t A request_id w = Inr (q, v, sm, recipient)"
    by (auto simp: request_withdrawal_def)
  from assms show ?thesis
    unfolding request_withdrawal_def c
    by (auto simp: word_gt_0 world_updates intro!: that [OF c])
qed

lemma request_open_Inr:
  assumes "request_open queue owner recipient finalizer shares floor rid s b now c win r0 = Inr r"
  shows "r_queue r = queue" and "r_owner r = owner" and "r_recipient_token_account r = recipient"
    and "r_finalizer r = finalizer" and "r_shares r = shares" and "r_min_assets_out r = floor"
    and "r_request_id r = rid" and "r_sequence r = s" and "r_bump r = b"
    and "r_padding r = replicate 8 0" and "r_requested_at r = now"
    and "sint (r_eligible_at r) = sint now + int (unat c)"
    and "r_scheduled_eligible_at r = r_eligible_at r"
    and "win = 0 \<Longrightarrow> r_expires_at r = 0"
    and "win \<noteq> 0 \<Longrightarrow> sint (r_expires_at r) = sint now + int (unat c) + int (unat win)"
  using assms unfolding request_open_def by (auto elim!: schedule_cases)

lemma cancel_ctx_Inr:
  assumes "cancel_ctx E t A w = Inr (q, r, sm)"
  shows "queues w (cw_queue A) = Some q" and "requests w (cw_request A) = Some r"
    and "cw_owner A \<in> signers t" and "q_escrow_shares q = cw_escrow_shares A"
    and "q_share_mint q = cw_share_mint A" and "r_queue r = cw_queue A" and "r_owner r = cw_owner A"
    and "mints (ledger w) (cw_share_mint A) = Some sm"
    and "holder (ledger w) (cw_destination_share_account A) = Some (cw_share_mint A, cw_owner A)"
    and "create_program_address E (queue_seeds (q_vault_state q) @ [[q_bump q]])
           WITHDRAWAL_QUEUE_PROGRAM_ID = Some (cw_queue A)"
  using assms by (auto simp: cancel_ctx_def load_simps constraint_simps holder_def)

text \<open>Closing a request leaves the queue's seeds as they were: the queue signs as itself.\<close>

lemma queue_signs:
  assumes "close_request n q = Inr q' \<or> q' = q"
    and "create_program_address E (queue_seeds (q_vault_state q) @ [[q_bump q]])
           WITHDRAWAL_QUEUE_PROGRAM_ID = Some Q"
  shows "pda_signers E t WITHDRAWAL_QUEUE_PROGRAM_ID (signer_seeds q') = Inr (insert Q (signers t))"
proof -
  have "signer_seeds q' = queue_seeds (q_vault_state q) @ [[q_bump q]]"
    using assms(1) by (auto simp: signer_seeds_eq elim!: close_request_cases)
  then show ?thesis using assms(2) by (simp add: pda_signers_def)
qed

lemma cancel_cases:
  assumes "cancel_withdrawal E t A expected_sequence w = Inr w'"
  obtains q r sm q' L where "cancel_ctx E t A w = Inr (q, r, sm)"
    and "r_sequence r = expected_sequence" and "close_request (r_shares r) q = Inr q'"
    and "transfer_checked E (cw_token_program A) (insert (cw_queue A) (signers t)) (cw_escrow_shares A)
           (cw_share_mint A) (cw_destination_share_account A) (cw_queue A) (r_shares r)
           (mi_decimals sm) (ledger w) = Inr L"
    and "w' = w\<lparr>ledger := L, queues := (queues w)(cw_queue A \<mapsto> q'),
                requests := (requests w)(cw_request A := None),
                events := events w @ [cancelled_snapshot r (q_vault_state q') (cw_request A)
                  (cw_owner A) (cw_destination_share_account A)]\<rparr>"
proof -
  from assms obtain q r sm where c: "cancel_ctx E t A w = Inr (q, r, sm)"
    by (auto simp: cancel_withdrawal_def)
  from assms obtain q' where q': "close_request (r_shares r) q = Inr q'"
    by (auto simp: cancel_withdrawal_def c)
  note s = queue_signs [OF disjI1 [OF q'] cancel_ctx_Inr(10) [OF c], of t]
  from assms show ?thesis
    unfolding cancel_withdrawal_def c
    by (auto simp: q' s world_updates intro!: that [OF c _ q'])
qed

lemma finalize_ctx_Inr:
  assumes "finalize_ctx E t A w = Inr (q, escrow_assets, dm, r, recipient)"
  shows "queues w (fw_queue A) = Some q" and "requests w (fw_request A) = Some r"
    and "fw_finalizer A \<in> signers t" and "q_vault_state q = fw_vault_state A"
    and "q_deposit_mint q = fw_deposit_mint A" and "q_share_mint q = fw_share_mint A"
    and "q_escrow_shares q = fw_escrow_shares A" and "q_escrow_assets q = fw_escrow_assets A"
    and "r_queue r = fw_queue A" and "r_owner r = fw_owner A"
    and "r_recipient_token_account r = fw_recipient_token_account A"
    and "tokens (ledger w) (fw_escrow_assets A) = Some escrow_assets"
    and "mints (ledger w) (fw_deposit_mint A) = Some dm"
    and "tokens (ledger w) (fw_recipient_token_account A) = Some recipient"
    and "create_program_address E (queue_seeds (q_vault_state q) @ [[q_bump q]])
           WITHDRAWAL_QUEUE_PROGRAM_ID = Some (fw_queue A)"
proof -
  have l: "finalize_load E t A w = Inr (q, escrow_assets, dm, r, recipient)"
    using assms by (auto simp: finalize_ctx_def constraint_simps)
  show "queues w (fw_queue A) = Some q" "requests w (fw_request A) = Some r"
    "fw_finalizer A \<in> signers t" "tokens (ledger w) (fw_escrow_assets A) = Some escrow_assets"
    "mints (ledger w) (fw_deposit_mint A) = Some dm"
    "tokens (ledger w) (fw_recipient_token_account A) = Some recipient"
    using l by (auto simp: finalize_load_def load_simps constraint_simps)
qed (use assms in \<open>auto simp: finalize_ctx_def constraint_simps\<close>)

lemma finalize_cases:
  assumes "finalize_withdrawal E t A expected_sequence w = Inr w'"
  obtains q escrow_assets dm r recipient now q' w1 escrow_after assets L where
    "finalize_ctx E t A w = Inr (q, escrow_assets, dm, r, recipient)"
    and "r_sequence r = expected_sequence" and "may_finalize r (fw_finalizer A)"
    and "unix_timestamp t = Some now" and "is_eligible r now" and "\<not> is_expired r now"
    and "require_valid_recipient (fw_recipient_token_account A) recipient (fw_queue A) q = Inr ()"
    and "close_request (r_shares r) q = Inr q'"
    and "redeem E (t\<lparr>signers := insert (fw_queue A) (signers t)\<rparr>) (finalize_redeem A) (r_shares r) w = Inr w1"
    and "tokens (ledger w1) (fw_escrow_assets A) = Some escrow_after"
    and "unat (ta_amount escrow_after) = unat (ta_amount escrow_assets) + unat assets"
    and "r_min_assets_out r \<le> assets"
    and "transfer_checked E (fw_token_program A) (insert (fw_queue A) (signers t)) (fw_escrow_assets A)
           (fw_deposit_mint A) (fw_recipient_token_account A) (fw_queue A) assets (mi_decimals dm)
           (ledger w1) = Inr L"
    and "w' = w1\<lparr>ledger := L, queues := (queues w1)(fw_queue A \<mapsto> q'),
                 requests := (requests w)(fw_request A := None),
                 events := events w1 @ [finalized_snapshot r (q_vault_state q') (fw_request A)
                   (fw_finalizer A) assets]\<rparr>"
proof -
  from assms obtain q escrow_assets dm r recipient where
    c: "finalize_ctx E t A w = Inr (q, escrow_assets, dm, r, recipient)"
    by (auto simp: finalize_withdrawal_def)
  from assms obtain q' where q': "close_request (r_shares r) q = Inr q'"
    by (auto simp: finalize_withdrawal_def c)
  note s = queue_signs [OF disjI1 [OF q'] finalize_ctx_Inr(15) [OF c], of t]
  from assms show ?thesis
    unfolding finalize_withdrawal_def c
    by (auto simp: q' s world_updates load_token_def intro!: that [OF c])
qed

section \<open>What each instruction does\<close>

lemma request_effect:
  assumes "spl_laws E" and "plain E (ledger w) (rw_share_mint A)"
    and "request_withdrawal E t A request_id shares min_assets_out finalizer w = Inr w'"
  obtains q v now q' r where "queues w (rw_queue A) = Some q" and "vaults w (rw_vault_state A) = Some v"
    and "q_vault_state q = rw_vault_state A" and "q_escrow_shares q = rw_escrow_shares A"
    and "q_share_mint q = rw_share_mint A"
    and "withdrawal_queue v = Some (rw_queue A)" and "rw_owner A \<in> signers t" and "shares \<noteq> 0"
    and "unix_timestamp t = Some now" and "\<not> in_use w (rw_request A)"
    and "holder (ledger w) (rw_owner_share_account A) = Some (rw_share_mint A, rw_owner A)"
    and "open_request shares q = Inr (q', r_sequence r)"
    and "request_open (rw_queue A) (rw_owner A) (rw_recipient_token_account A) finalizer shares
           min_assets_out request_id (r_sequence r)
           (snd (find_program_address E (request_seeds (rw_queue A) (rw_owner A) request_id)
                   WITHDRAWAL_QUEUE_PROGRAM_ID))
           now (q_cooldown_seconds q) (q_fulfillment_window_seconds q) zero_request = Inr r"
    and "moved (ledger w) (ledger w')" and "mints (ledger w') = mints (ledger w)"
    and "unat shares \<le> balance (ledger w) (rw_owner_share_account A)"
    and "balance (ledger w') = move (rw_owner_share_account A) (rw_escrow_shares A) (unat shares)
           (balance (ledger w))"
    and "kept E (signers t) (ledger w) (ledger w') \<and> no_grant E (ledger w) (ledger w')"
    and "w' = w\<lparr>ledger := ledger w', queues := (queues w)(rw_queue A \<mapsto> q'),
                requests := (requests w)(rw_request A \<mapsto> r),
                events := events w @ [requested_snapshot r (rw_vault_state A) (rw_request A)]\<rparr>"
  using assms(3)
proof (cases rule: request_cases)
  case (1 q v sm recipient now q' s r L)
  note c = request_ctx_Inr [OF 1(1)]
  note tr = transfer_effect [OF assms(1,2) 1(8)]
  note k = spl_custody(1) [OF assms(1) 1(8)]
  obtain p h where q': "q' = q\<lparr>q_sequence := s, q_pending_requests := p, q_pending_shares := h\<rparr>"
    using 1(6) by (auto simp: open_request_Inr)
  have s: "r_sequence r = s" by (rule request_open_Inr(8) [OF 1(7)])
  have o: "request_open (rw_queue A) (rw_owner A) (rw_recipient_token_account A) finalizer shares
           min_assets_out request_id (r_sequence r)
           (snd (find_program_address E (request_seeds (rw_queue A) (rw_owner A) request_id)
                   WITHDRAWAL_QUEUE_PROGRAM_ID))
           now (q_cooldown_seconds q) (q_fulfillment_window_seconds q) zero_request = Inr r"
    using 1(7) unfolding q' s by simp
  have lw: "ledger w' = L" and ev: "q_vault_state q' = rw_vault_state A"
    using 1(9) c(4) by (simp_all add: q')
  show ?thesis
    by (rule that [OF c(1,2,4-6) 1(2) c(3) 1(3,5) c(10,9) _ o]; (unfold lw s)?)
      (use 1(6,9) tr k ev in simp_all)
qed

lemma cancel_effect:
  assumes "spl_laws E" and "plain E (ledger w) (cw_share_mint A)"
    and "cancel_withdrawal E t A expected_sequence w = Inr w'"
  obtains q r q' where "queues w (cw_queue A) = Some q" and "requests w (cw_request A) = Some r"
    and "q_escrow_shares q = cw_escrow_shares A" and "q_share_mint q = cw_share_mint A"
    and "r_queue r = cw_queue A" and "r_owner r = cw_owner A" and "cw_owner A \<in> signers t"
    and "r_sequence r = expected_sequence"
    and "holder (ledger w) (cw_destination_share_account A) = Some (cw_share_mint A, cw_owner A)"
    and "close_request (r_shares r) q = Inr q'"
    and "moved (ledger w) (ledger w')" and "mints (ledger w') = mints (ledger w)"
    and "unat (r_shares r) \<le> balance (ledger w) (cw_escrow_shares A)"
    and "balance (ledger w') = move (cw_escrow_shares A) (cw_destination_share_account A)
           (unat (r_shares r)) (balance (ledger w))"
    and "kept E (insert (cw_queue A) (signers t)) (ledger w) (ledger w') \<and>
         no_grant E (ledger w) (ledger w')"
    and "w' = w\<lparr>ledger := ledger w', queues := (queues w)(cw_queue A \<mapsto> q'),
                requests := (requests w)(cw_request A := None),
                events := events w @ [cancelled_snapshot r (q_vault_state q') (cw_request A)
                  (cw_owner A) (cw_destination_share_account A)]\<rparr>"
  using assms(3)
proof (cases rule: cancel_cases)
  case (1 q r sm q' L)
  note c = cancel_ctx_Inr [OF 1(1)]
  note tr = transfer_effect [OF assms(1,2) 1(4)]
  note k = spl_custody(1) [OF assms(1) 1(4)]
  have lw: "ledger w' = L" using 1(5) by simp
  show ?thesis
    by (rule that [OF c(1,2,4-7,3) 1(2) c(9) 1(3)]; (unfold lw)?) (use 1(5) tr k in simp_all)
qed

text \<open>
  A finalization under the laws. The payout is what the vault paid the queue: the net amount unless
  the vault's fee recipient is the queue itself.
\<close>

definition paid_out :: "finalize_accounts \<Rightarrow> u64 \<Rightarrow> u64 \<Rightarrow> u64 \<Rightarrow> (pubkey \<Rightarrow> nat) \<Rightarrow> pubkey \<Rightarrow> nat" where
  "paid_out A shares fees net b =
     move (fw_vault_deposit_ata A) (fw_recipient_token_account A) (unat net)
       (move (fw_vault_deposit_ata A) (fw_fee_recipient_account A) (unat fees)
         (debit (fw_escrow_shares A) (unat shares) b))"

lemma through_escrow:
  assumes "reserve \<noteq> escrow" and "recipient \<noteq> escrow" and "recipient \<noteq> reserve"
  shows "move escrow recipient n (move reserve escrow n b) = move reserve recipient n b"
proof
  fix k
  show "move escrow recipient n (move reserve escrow n b) k = move reserve recipient n b k"
    using assms by (auto simp: move_def)
qed

lemma finalize_redeem_select [simp]:
  "red_vault_state (finalize_redeem A) = fw_vault_state A"
  "red_vault_deposit_ata (finalize_redeem A) = fw_vault_deposit_ata A"
  "red_sender_token_account (finalize_redeem A) = fw_escrow_assets A"
  "red_sender_share_account (finalize_redeem A) = fw_escrow_shares A"
  "red_fee_recipient_account (finalize_redeem A) = fw_fee_recipient_account A"
  "red_share_mint (finalize_redeem A) = fw_share_mint A"
  "red_deposit_mint (finalize_redeem A) = fw_deposit_mint A"
  "red_signer (finalize_redeem A) = fw_queue A"
  "red_token_program (finalize_redeem A) = fw_token_program A"
  by (simp_all add: finalize_redeem_def)

lemma finalize_effect:
  assumes laws: "spl_laws E" "plain E (ledger w) (fw_deposit_mint A)"
      "plain E (ledger w) (fw_share_mint A)"
    and apart: "fw_queue A \<noteq> fw_vault_state A" "fw_share_mint A \<noteq> fw_deposit_mint A"
    and ok: "finalize_withdrawal E t A expected_sequence w = Inr w'"
    and v: "vaults w (fw_vault_state A) = Some v"
    and fee: "v_fee_recipient v \<noteq> fw_queue A" "v_fee_recipient v \<noteq> fw_vault_state A"
  obtains q r q' now sm T assets fees net local_aum where
    "queues w (fw_queue A) = Some q" and "requests w (fw_request A) = Some r"
    and "r_queue r = fw_queue A" and "r_sequence r = expected_sequence"
    and "fw_finalizer A \<in> signers t" and "may_finalize r (fw_finalizer A)"
    and "unix_timestamp t = Some now" and "is_eligible r now" and "\<not> is_expired r now"
    and "close_request (r_shares r) q = Inr q'" and "\<not> v_paused v"
    and "mints (ledger w) (fw_share_mint A) = Some sm" and "total_assets v = Inr T"
    and "assets_for_redeem v (mi_supply sm) T (r_shares r) = Inr assets"
    and "unat fees = (unat assets * unat (v_withdrawal_fee v) + 999999) div 1000000"
    and "unat assets = unat fees + unat net" and "r_min_assets_out r \<le> net"
    and "balance (ledger w') = paid_out A (r_shares r) fees net (balance (ledger w))"
    and "supply_of (ledger w') = debit (fw_share_mint A) (unat (r_shares r)) (supply_of (ledger w))"
    and "unat (v_local_aum v) = unat assets + unat local_aum"
    and "w' = w\<lparr>ledger := ledger w',
           vaults := (vaults w)(fw_vault_state A \<mapsto> v\<lparr>v_local_aum := local_aum\<rparr>),
           queues := (queues w)(fw_queue A \<mapsto> q'), requests := (requests w)(fw_request A := None),
           events := events w @ [WithdrawEvt (fw_queue A) (fw_queue A) (fw_queue A) net (r_shares r),
             finalized_snapshot r (fw_vault_state A) (fw_request A) (fw_finalizer A) net]\<rparr>"
  using ok
proof (cases rule: finalize_cases)
  case (1 q ea dm r recipient now q' w1 ea' assets_in L)
  note c = finalize_ctx_Inr [OF 1(1)]
  have rd: "redeem_checked E (t\<lparr>signers := insert (fw_queue A) (signers t)\<rparr>) (finalize_redeem A)
      (r_shares r) 0 w = Inr w1" using 1(9) by (simp add: redeem_def)
  have q'v: "q_vault_state q' = fw_vault_state A" using 1(8) c(4) by (auto elim!: close_request_cases)
  have dmp: "plain E (ledger w) (red_deposit_mint (finalize_redeem A))"
    "plain E (ledger w) (red_share_mint (finalize_redeem A))" using laws(2,3) by simp_all
  show ?thesis
    using redeem_effect [OF laws(1) dmp rd]
  proof cases
    case R: (1 v0 sm dm0 T assets fees net local_aum)
    note rc = redeem_ctx_Inr [OF R(1)]
    have eq: "v0 = v" using rc(1) v by simp
    note d = redeem_accounts_distinct [OF R(1), simplified, OF apart(2,1)]
    have mv: "moved (ledger w) (ledger w1)" and b1: "balance (ledger w1) =
        move (fw_vault_deposit_ata A) (fw_escrow_assets A) (unat net)
          (move (fw_vault_deposit_ata A) (fw_fee_recipient_account A) (unat fees)
            (debit (fw_escrow_shares A) (unat (r_shares r)) (balance (ledger w))))"
      and s1: "supply_of (ledger w1) = debit (fw_share_mint A) (unat (r_shares r)) (supply_of (ledger w))"
      using R(9) by (simp_all add: redeemed_def)
    have fe: "fw_fee_recipient_account A \<noteq> fw_escrow_assets A"
      using rc(8,10) fee(1) eq by auto
    have rcp: "fw_recipient_token_account A \<noteq> fw_escrow_assets A"
        "fw_recipient_token_account A \<noteq> fw_vault_deposit_ata A"
      using 1(7) c(4,8,14) rc(7) by (auto simp: valid_recipient_Inr holder_def)
    have "balance (ledger w1) (fw_escrow_assets A) = balance (ledger w) (fw_escrow_assets A) + unat net"
      using d(2,3) fe by (simp add: b1 not_sym)
    then have "unat assets_in = unat net"
      using 1(11) c(12) 1(10) by (simp add: balance_def)
    then have an: "assets_in = net" by (rule unat_eqD)
    have "plain E (ledger w1) (fw_deposit_mint A)" using laws(2) moved_plain [OF mv] by simp
    note tr = transfer_effect [OF laws(1) this 1(13)]
    have w1: "w1 = w\<lparr>ledger := ledger w1,
        vaults := (vaults w)(fw_vault_state A \<mapsto> v\<lparr>v_local_aum := local_aum\<rparr>),
        events := events w @ [WithdrawEvt (fw_queue A) (fw_queue A) (fw_queue A) net (r_shares r)]\<rparr>"
      using R(11) eq by simp
    have lw: "ledger w' = L" using 1(14) by simp
    have b: "balance (ledger w') = paid_out A (r_shares r) fees net (balance (ledger w))"
      unfolding lw tr(5) an b1 paid_out_def by (rule through_escrow) (use d(3) rcp in auto)
    have s: "supply_of (ledger w') = debit (fw_share_mint A) (unat (r_shares r)) (supply_of (ledger w))"
      unfolding lw supply_same [OF tr(2)] s1 ..
    have sel: "vaults w1 = (vaults w)(fw_vault_state A \<mapsto> v\<lparr>v_local_aum := local_aum\<rparr>)"
        "queues w1 = queues w" "events w1 = events w @
          [WithdrawEvt (fw_queue A) (fw_queue A) (fw_queue A) net (r_shares r)]"
      by (subst w1, simp)+
    have w': "w' = w\<lparr>ledger := ledger w',
           vaults := (vaults w)(fw_vault_state A \<mapsto> v\<lparr>v_local_aum := local_aum\<rparr>),
           queues := (queues w)(fw_queue A \<mapsto> q'), requests := (requests w)(fw_request A := None),
           events := events w @ [WithdrawEvt (fw_queue A) (fw_queue A) (fw_queue A) net (r_shares r),
             finalized_snapshot r (fw_vault_state A) (fw_request A) (fw_finalizer A) net]\<rparr>"
      unfolding lw by (subst 1(14), unfold sel an q'v, subst w1) simp
    show ?thesis
      by (rule that [OF c(1,2,9) 1(2) c(3) 1(3-6,8) _ _ _ _ R(6) [unfolded eq] _ _ b s _ w'])
        (use R(2,4,5,7,10) rc(2) 1(12) an eq in simp_all)
  qed
qed

text \<open>
  C17. A request escrows exactly the shares named, with the holder's signature and only while the
  vault's gate points at this queue; it opens one account at a free address that records who asked,
  for how much, at what floor and for whom, with every time of the queue's schedule: requested now,
  eligible after the queue's cooldown, which is also the scheduled time an expedite leaves alone, and
  expiring a fulfillment window after that, or never (zero) when the queue has no window. It counts the
  request into the queue under a fresh sequence stamp, and touches neither vault nor supply nor any
  third balance.
\<close>

theorem request_effects:
  assumes "spl_laws E" and "plain E (ledger w) (rw_share_mint A)"
    and "request_withdrawal E t A request_id shares min_assets_out finalizer w = Inr w'"
    and "queues w (rw_queue A) = Some q" and "vaults w (rw_vault_state A) = Some v"
  shows "\<exists>q' r now.
     v_withdrawal_queue_authority v = rw_queue A \<and> q_vault_state q = rw_vault_state A \<and>
     rw_owner A \<in> signers t \<and> 0 < shares \<and> \<not> in_use w (rw_request A) \<and> unix_timestamp t = Some now \<and>
     unat (q_sequence q') = unat (q_sequence q) + 1 \<and>
     unat (q_pending_requests q') = unat (q_pending_requests q) + 1 \<and>
     unat (q_pending_shares q') = unat (q_pending_shares q) + unat shares \<and>
     q' = q\<lparr>q_sequence := q_sequence q', q_pending_requests := q_pending_requests q',
            q_pending_shares := q_pending_shares q'\<rparr> \<and>
     r_queue r = rw_queue A \<and> r_owner r = rw_owner A \<and> r_finalizer r = finalizer \<and>
     r_recipient_token_account r = rw_recipient_token_account A \<and> r_shares r = shares \<and>
     r_min_assets_out r = min_assets_out \<and> r_request_id r = request_id \<and>
     r_sequence r = q_sequence q' \<and>
     r_bump r = snd (find_program_address E (request_seeds (rw_queue A) (rw_owner A) request_id)
       WITHDRAWAL_QUEUE_PROGRAM_ID) \<and> r_padding r = replicate 8 0 \<and>
     r_requested_at r = now \<and>
     sint (r_eligible_at r) = sint now + int (unat (q_cooldown_seconds q)) \<and>
     r_scheduled_eligible_at r = r_eligible_at r \<and>
     (if q_fulfillment_window_seconds q = 0 then r_expires_at r = 0
      else sint (r_expires_at r) =
        sint (r_eligible_at r) + int (unat (q_fulfillment_window_seconds q))) \<and>
     unat shares \<le> balance (ledger w) (rw_owner_share_account A) \<and>
     balance (ledger w') = move (rw_owner_share_account A) (q_escrow_shares q) (unat shares)
       (balance (ledger w)) \<and>
     moved (ledger w) (ledger w') \<and> mints (ledger w') = mints (ledger w) \<and>
     w' = w\<lparr>ledger := ledger w', queues := (queues w)(rw_queue A \<mapsto> q'),
            requests := (requests w)(rw_request A \<mapsto> r),
            events := events w @ [requested_snapshot r (rw_vault_state A) (rw_request A)]\<rparr>"
  using request_effect [OF assms(1-3)]
proof cases
  case (1 q0 v0 now q' r)
  have eq: "q0 = q" "v0 = v" using 1(1,2) assms(4,5) by simp_all
  note r = request_open_Inr [OF 1(13)]
  obtain p h where q': "unat (r_sequence r) = unat (q_sequence q) + 1"
      "unat p = unat (q_pending_requests q) + 1" "unat h = unat (q_pending_shares q) + unat shares"
      "q' = q\<lparr>q_sequence := r_sequence r, q_pending_requests := p, q_pending_shares := h\<rparr>"
    using 1(12) eq by (auto simp: open_request_Inr)
  show ?thesis
    by (rule exI [of _ q'], rule exI [of _ r], rule exI [of _ now])
      (use 1(3-11,14-17) 1(19) r q' eq in \<open>simp add: withdrawal_queue_Some word_gt_0\<close>)
qed

text \<open>
  C18. A cancellation needs its owner's signature and the request's own stamp, returns exactly the
  escrowed shares to a share account of the owner, closes the request and counts it out. It reads no
  vault: the result is the same whether the vault is paused, gated, released or gone.
\<close>

theorem cancel_effects:
  assumes "spl_laws E" and "plain E (ledger w) (cw_share_mint A)"
    and "cancel_withdrawal E t A expected_sequence w = Inr w'"
    and "queues w (cw_queue A) = Some q" and "requests w (cw_request A) = Some r"
  shows "\<exists>q'. r_owner r \<in> signers t \<and> r_queue r = cw_queue A \<and> r_sequence r = expected_sequence \<and>
     holder (ledger w) (cw_destination_share_account A) = Some (q_share_mint q, r_owner r) \<and>
     unat (q_pending_requests q) = unat (q_pending_requests q') + 1 \<and>
     unat (q_pending_shares q) = unat (q_pending_shares q') + unat (r_shares r) \<and>
     q' = q\<lparr>q_pending_requests := q_pending_requests q', q_pending_shares := q_pending_shares q'\<rparr> \<and>
     unat (r_shares r) \<le> balance (ledger w) (q_escrow_shares q) \<and>
     balance (ledger w') = move (q_escrow_shares q) (cw_destination_share_account A)
       (unat (r_shares r)) (balance (ledger w)) \<and>
     moved (ledger w) (ledger w') \<and> mints (ledger w') = mints (ledger w) \<and>
     w' = w\<lparr>ledger := ledger w', queues := (queues w)(cw_queue A \<mapsto> q'),
            requests := (requests w)(cw_request A := None),
            events := events w @ [cancelled_snapshot r (q_vault_state q) (cw_request A)
              (cw_owner A) (cw_destination_share_account A)]\<rparr>"
  using cancel_effect [OF assms(1-3)]
proof cases
  case (1 q0 r0 q')
  have eq: "q0 = q" "r0 = r" using 1(1,2) assms(4,5) by simp_all
  obtain p h where q': "unat (q_pending_requests q) = unat p + 1"
      "unat (q_pending_shares q) = unat h + unat (r_shares r)"
      "q' = q\<lparr>q_pending_requests := p, q_pending_shares := h\<rparr>"
    using 1(10) unfolding eq by (rule close_request_cases)
  show ?thesis
    by (rule exI [of _ q']) (use 1(3-9,11-14) 1(16) q' eq in simp)
qed


section \<open>Witnesses\<close>

definition ex_escrow_shares :: pubkey where "ex_escrow_shares = 41"
definition ex_escrow_assets :: pubkey where "ex_escrow_assets = 42"

definition ex_request_key :: pubkey where
  "ex_request_key = fst (ref_find (request_seeds ex_queue ex_user 7) WITHDRAWAL_QUEUE_PROGRAM_ID)"

definition ex_queue_state :: withdrawal_queue where
  "ex_queue_state =
     zero_queue\<lparr>q_vault_state := ex_vault, q_deposit_mint := ex_mint, q_share_mint := ex_share_mint,
       q_escrow_shares := ex_escrow_shares, q_escrow_assets := ex_escrow_assets,
       q_cooldown_seconds := 3600, q_bump := 255\<rparr>"

definition ex_queue_ledger :: ledger where
  "ex_queue_ledger =
     ex_ledger\<lparr>tokens := (tokens ex_ledger)
       (ex_escrow_shares \<mapsto> ex_token ex_share_mint ex_queue 0,
        ex_escrow_assets \<mapsto> ex_token ex_mint ex_queue 55)\<rparr>"

definition ex_live :: world where
  "ex_live =
     ex_world\<lparr>ledger := ex_queue_ledger, queues := [ex_queue \<mapsto> ex_queue_state],
       vaults := [ex_vault \<mapsto> ex_vault_state\<lparr>v_withdrawal_queue_authority := ex_queue\<rparr>]\<rparr>"

definition ex_request :: request_accounts where
  "ex_request =
     \<lparr>rw_queue = ex_queue, rw_vault_state = ex_vault, rw_owner = ex_user,
      rw_owner_share_account = ex_user_shares, rw_escrow_shares = ex_escrow_shares,
      rw_share_mint = ex_share_mint, rw_recipient_token_account = ex_user_tokens,
      rw_request = ex_request_key, rw_token_program = 1\<rparr>"

definition ex_requested :: world where
  "ex_requested =
     (case request_withdrawal ref_env (ex_tx ex_user) ex_request 7 1000000 1980000 0 ex_live of
        Inl _ \<Rightarrow> ex_world | Inr w \<Rightarrow> w)"

lemma ex_requested_ok:
  "request_withdrawal ref_env (ex_tx ex_user) ex_request 7 1000000 1980000 0 ex_live = Inr ex_requested"
proof -
  have "is_ok (request_withdrawal ref_env (ex_tx ex_user) ex_request 7 1000000 1980000 0 ex_live)"
    by code_simp
  then show ?thesis by (auto simp: ex_requested_def is_ok_iff)
qed

lemma ex_live_facts:
  "plain ref_env (ledger ex_live) ex_share_mint" "plain ref_env (ledger ex_live) ex_mint"
  "queues ex_live ex_queue = Some ex_queue_state"
  "vaults ex_live ex_vault = Some (ex_vault_state\<lparr>v_withdrawal_queue_authority := ex_queue\<rparr>)"
  using ex_plain by (simp_all add: ex_live_def ex_queue_ledger_def plain_def)

text \<open>A queue that gives its requests a day once they are eligible.\<close>

definition ex_windowed :: world where
  "ex_windowed = ex_live\<lparr>queues :=
     [ex_queue \<mapsto> ex_queue_state\<lparr>q_fulfillment_window_seconds := 86400\<rparr>]\<rparr>"

theorem request_effects_witness:
  "\<exists>w' r. request_withdrawal ref_env (ex_tx ex_user) ex_request 7 1000000 1980000 0 ex_windowed = Inr w' \<and>
     balance (ledger w') = move ex_user_shares ex_escrow_shares 1000000 (balance (ledger ex_windowed)) \<and>
     requests w' ex_request_key = Some r \<and> sint (r_requested_at r) = 1000 \<and>
     sint (r_scheduled_eligible_at r) = 4600 \<and> sint (r_eligible_at r) = 4600 \<and>
     sint (r_expires_at r) = 91000"
proof -
  let ?q = "ex_queue_state\<lparr>q_fulfillment_window_seconds := 86400\<rparr>"
  have "is_ok (request_withdrawal ref_env (ex_tx ex_user) ex_request 7 1000000 1980000 0 ex_windowed)"
    by code_simp
  then obtain w' where w:
    "request_withdrawal ref_env (ex_tx ex_user) ex_request 7 1000000 1980000 0 ex_windowed = Inr w'"
    by (auto simp: is_ok_iff)
  have "plain ref_env (ledger ex_windowed) (rw_share_mint ex_request)"
    and q: "queues ex_windowed (rw_queue ex_request) = Some ?q"
    and "vaults ex_windowed (rw_vault_state ex_request) =
      Some (ex_vault_state\<lparr>v_withdrawal_queue_authority := ex_queue\<rparr>)"
    using ex_live_facts by (simp_all add: ex_request_def ex_windowed_def)
  from request_effects [OF ref_spl_laws this(1) w q this(3)] obtain q' r now where
    r: "unix_timestamp (ex_tx ex_user) = Some now" "r_requested_at r = now"
      "sint (r_eligible_at r) = sint now + int (unat (q_cooldown_seconds ?q))"
      "r_scheduled_eligible_at r = r_eligible_at r"
      "if q_fulfillment_window_seconds ?q = 0 then r_expires_at r = 0
       else sint (r_expires_at r) =
         sint (r_eligible_at r) + int (unat (q_fulfillment_window_seconds ?q))"
    and b: "balance (ledger w') = move (rw_owner_share_account ex_request) (q_escrow_shares ?q)
      (unat (1000000 :: u64)) (balance (ledger ex_windowed))"
    and u: "w' = ex_windowed\<lparr>ledger := ledger w', queues := (queues ex_windowed)(rw_queue ex_request \<mapsto> q'),
      requests := (requests ex_windowed)(rw_request ex_request \<mapsto> r), events := events ex_windowed @
        [requested_snapshot r (rw_vault_state ex_request) (rw_request ex_request)]\<rparr>"
    by blast
  have "requests w' ex_request_key = Some r" by (subst u) (simp add: ex_request_def)
  then show ?thesis using w r b by (auto simp: ex_request_def ex_queue_state_def ex_tx_def)
qed

text \<open>The same request, waiting.\<close>

definition ex_waiting :: withdrawal_request where
  "ex_waiting =
     zero_request\<lparr>r_queue := ex_queue, r_owner := ex_user, r_recipient_token_account := ex_user_tokens,
       r_shares := 1000000, r_request_id := 7, r_sequence := 1, r_requested_at := 1000,
       r_scheduled_eligible_at := 4600, r_eligible_at := 4600, r_bump := 255,
       r_min_assets_out := 1980000\<rparr>"

definition ex_pending :: world where
  "ex_pending =
     ex_live\<lparr>requests := [ex_request_key \<mapsto> ex_waiting],
       queues := [ex_queue \<mapsto> ex_queue_state\<lparr>q_sequence := 1, q_pending_requests := 1,
                    q_pending_shares := 1000000\<rparr>],
       ledger := ex_queue_ledger\<lparr>tokens := (tokens ex_queue_ledger)
         (ex_user_shares \<mapsto> ex_token ex_share_mint ex_user 599000000,
          ex_escrow_shares \<mapsto> ex_token ex_share_mint ex_queue 1000000)\<rparr>\<rparr>"

lemma ex_pending_facts:
  "plain ref_env (ledger ex_pending) ex_share_mint" "plain ref_env (ledger ex_pending) ex_mint"
  "queues ex_pending ex_queue = Some (ex_queue_state\<lparr>q_sequence := 1, q_pending_requests := 1,
                    q_pending_shares := 1000000\<rparr>)"
  "requests ex_pending ex_request_key = Some ex_waiting"
  "vaults ex_pending ex_vault = Some (ex_vault_state\<lparr>v_withdrawal_queue_authority := ex_queue\<rparr>)"
  using ex_live_facts by (simp_all add: ex_pending_def plain_def ex_live_def)

definition ex_cancel :: cancel_accounts where
  "ex_cancel =
     \<lparr>cw_queue = ex_queue, cw_owner = ex_user, cw_request = ex_request_key,
      cw_escrow_shares = ex_escrow_shares, cw_share_mint = ex_share_mint,
      cw_destination_share_account = ex_user_shares, cw_token_program = 1\<rparr>"

theorem cancel_effects_witness:
  "\<exists>w'. cancel_withdrawal ref_env (ex_tx ex_user) ex_cancel 1 ex_pending = Inr w' \<and>
     balance (ledger w') = move ex_escrow_shares ex_user_shares 1000000 (balance (ledger ex_pending))"
proof -
  have "is_ok (cancel_withdrawal ref_env (ex_tx ex_user) ex_cancel 1 ex_pending)" by code_simp
  then obtain w' where w: "cancel_withdrawal ref_env (ex_tx ex_user) ex_cancel 1 ex_pending = Inr w'"
    by (auto simp: is_ok_iff)
  let ?q = "ex_queue_state\<lparr>q_sequence := 1, q_pending_requests := 1, q_pending_shares := 1000000\<rparr>"
  have "plain ref_env (ledger ex_pending) (cw_share_mint ex_cancel)"
    "queues ex_pending (cw_queue ex_cancel) = Some ?q"
    "requests ex_pending (cw_request ex_cancel) = Some ex_waiting"
    using ex_pending_facts by (simp_all add: ex_cancel_def)
  from cancel_effects [OF ref_spl_laws this(1) w this(2,3)]
  have "balance (ledger w') = move (q_escrow_shares ?q) (cw_destination_share_account ex_cancel)
      (unat (r_shares ex_waiting)) (balance (ledger ex_pending))" by blast
  then show ?thesis using w by (simp add: ex_cancel_def ex_waiting_def ex_queue_state_def)
qed

definition ex_finalize :: finalize_accounts where
  "ex_finalize =
     \<lparr>fw_queue = ex_queue, fw_vault_state = ex_vault, fw_vault_deposit_ata = ex_reserve,
      fw_fee_recipient_account = ex_fee_tokens, fw_escrow_shares = ex_escrow_shares,
      fw_escrow_assets = ex_escrow_assets, fw_share_mint = ex_share_mint, fw_deposit_mint = ex_mint,
      fw_finalizer = ex_operator, fw_request = ex_request_key, fw_owner = ex_user,
      fw_recipient_token_account = ex_user_tokens, fw_vault_program = VAULT_PROGRAM_ID,
      fw_token_program = 1\<rparr>"

definition ex_later :: "pubkey \<Rightarrow> tx" where
  "ex_later k = (ex_tx k)\<lparr>unix_timestamp := Some 4600\<rparr>"

lemma ex_finalize_ok: "is_ok (finalize_withdrawal ref_env (ex_later ex_operator) ex_finalize 1 ex_pending)"
  by code_simp


end
