(* ===== verification/QueueAdmin.thy ===== *)
theory QueueAdmin
  imports QueueState VaultGate
begin

text \<open>
  The vault admin's side of the queue: \<open>initialize_queue.rs\<close>, the setters over \<open>queue_admin.rs\<close>,
  \<open>expedite_request.rs\<close>, \<open>sweep_escrow_shares.rs\<close> and \<open>release_vault.rs\<close>, which calls the vault's
  \<open>detach_withdrawal_queue\<close> with the queue's signature.
\<close>

section \<open>initialize_queue.rs\<close>

record initialize_queue_accounts =
  iq_vault_state :: pubkey
  iq_admin :: pubkey
  iq_payer :: pubkey
  iq_deposit_mint :: pubkey
  iq_share_mint :: pubkey
  iq_queue :: pubkey
  iq_escrow_shares :: pubkey
  iq_escrow_assets :: pubkey
  iq_token_program :: pubkey

text \<open>
  \<open>init_if_needed\<close> on an associated token account: the associated-token program creates a missing
  one, at its own address only; one that exists is checked.
\<close>

definition init_if_needed_ata ::
  "env \<Rightarrow> tx \<Rightarrow> pubkey \<Rightarrow> pubkey \<Rightarrow> pubkey \<Rightarrow> pubkey \<Rightarrow> pubkey \<Rightarrow> world \<Rightarrow> world result" where
  "init_if_needed_ata E t payer k mint wallet prog w =
     (if in_use w k
      then bindR (load_token E w k) (\<lambda>a.
           token_mint a mint
          (token_authority a wallet
          (require (ta_program a = prog) (AnchorErr ConstraintAssociatedTokenTokenProgram)
          (require (associated_token_address E wallet mint prog = k)
             (AnchorErr AccountNotAssociatedTokenAccount)
            (Inr w)))))
      else require (payer \<in> signers t \<and> can_fund t payer k \<and>
                    associated_token_address E wallet mint prog = k) RuntimeErr
          (bindR (token_call (initialize_account E prog k mint wallet (ledger w))) (\<lambda>L.
             Inr (put_ledger L w))))"

definition initialize_queue_ctx ::
  "env \<Rightarrow> tx \<Rightarrow> initialize_queue_accounts \<Rightarrow> world \<Rightarrow>
     (vault_state \<times> mint_account \<times> mint_account \<times> world) result" where
  "initialize_queue_ctx E t A w =
     bindR (load_vault w (iq_vault_state A)) (\<lambda>v.
     signer t (iq_admin A)
     (signer t (iq_payer A)
     (bindR (load_mint E w (iq_deposit_mint A)) (\<lambda>dm.
      bindR (load_mint E w (iq_share_mint A)) (\<lambda>sm.
      token_program_account E (iq_token_program A)
     (seeds_bump E (queue_seeds (iq_vault_state A)) WITHDRAWAL_QUEUE_PROGRAM_ID (iq_queue A)
     (init_account t w (iq_payer A) (iq_queue A)
     (bindR (init_if_needed_ata E t (iq_payer A) (iq_escrow_shares A) (iq_share_mint A) (iq_queue A)
               (iq_token_program A) (put_queue (iq_queue A) zero_queue w)) (\<lambda>w1.
      bindR (init_if_needed_ata E t (iq_payer A) (iq_escrow_assets A) (iq_deposit_mint A) (iq_queue A)
               (iq_token_program A) w1) (\<lambda>w2.
      require (v_admin v = iq_admin A) (QueueErr NotVaultAdmin)
     (require (v_deposit_mint v = iq_deposit_mint A) (AnchorErr ConstraintAddress)
     (require (v_share_mint v = iq_share_mint A) (AnchorErr ConstraintAddress)
       (Inr (v, dm, sm, w2))))))))))))))"

definition initialize_queue ::
  "env \<Rightarrow> tx \<Rightarrow> initialize_queue_accounts \<Rightarrow> u64 \<Rightarrow> world \<Rightarrow> world result" where
  "initialize_queue E t A cooldown_seconds w =
     bindR (initialize_queue_ctx E t A w) (\<lambda>(v, dm, sm, w').
     bindR (require_supported_deposit_mint E dm) (\<lambda>_.
     bindR (require_supported_share_mint E sm) (\<lambda>_.
     bindR (queue_init (iq_vault_state A) (iq_deposit_mint A) (iq_share_mint A) (iq_escrow_shares A)
              (iq_escrow_assets A)
              (snd (find_program_address E (queue_seeds (iq_vault_state A)) WITHDRAWAL_QUEUE_PROGRAM_ID))
              cooldown_seconds zero_queue) (\<lambda>q.
      Inr (emit (QueueInitialized (q_vault_state q) (iq_queue A) (q_deposit_mint q) (q_share_mint q)
                   (q_escrow_shares q) (q_escrow_assets q) (q_cooldown_seconds q))
            (put_queue (iq_queue A) q w'))))))"

section \<open>queue_admin.rs, set_cooldown.rs, set_fulfillment_window.rs\<close>

record queue_admin_accounts =
  qa_queue :: pubkey
  qa_vault_state :: pubkey
  qa_admin :: pubkey

definition queue_admin_ctx ::
  "env \<Rightarrow> tx \<Rightarrow> queue_admin_accounts \<Rightarrow> world \<Rightarrow> (withdrawal_queue \<times> vault_state) result" where
  "queue_admin_ctx E t A w =
     bindR (load_queue w (qa_queue A)) (\<lambda>q.
     bindR (load_vault w (qa_vault_state A)) (\<lambda>v.
     signer t (qa_admin A)
     (seeds_with_bump E (queue_seeds (q_vault_state q)) (q_bump q) WITHDRAWAL_QUEUE_PROGRAM_ID
        (qa_queue A)
     (has_one (q_vault_state q) (qa_vault_state A) (QueueErr VaultMismatch)
       (Inr (q, v))))))"

definition set_cooldown :: "env \<Rightarrow> tx \<Rightarrow> queue_admin_accounts \<Rightarrow> u64 \<Rightarrow> world \<Rightarrow> world result" where
  "set_cooldown E t A seconds w =
     bindR (queue_admin_ctx E t A w) (\<lambda>(q, v).
     bindR (require_vault_admin q (qa_vault_state A) v (qa_admin A)) (\<lambda>_.
     bindR (queue_set_cooldown seconds q) (\<lambda>q'.
       Inr (emit (config_snapshot q' (qa_queue A)) (put_queue (qa_queue A) q' w)))))"

definition set_fulfillment_window ::
  "env \<Rightarrow> tx \<Rightarrow> queue_admin_accounts \<Rightarrow> u64 \<Rightarrow> world \<Rightarrow> world result" where
  "set_fulfillment_window E t A seconds w =
     bindR (queue_admin_ctx E t A w) (\<lambda>(q, v).
     bindR (require_vault_admin q (qa_vault_state A) v (qa_admin A)) (\<lambda>_.
     bindR (queue_set_fulfillment_window seconds q) (\<lambda>q'.
       Inr (emit (config_snapshot q' (qa_queue A)) (put_queue (qa_queue A) q' w)))))"

section \<open>expedite_request.rs\<close>

definition expedite_one ::
  "i64 \<Rightarrow> u64 \<Rightarrow> withdrawal_request \<Rightarrow> (withdrawal_request \<times> i64) result" where
  "expedite_one now expected_sequence r =
     require (r_sequence r = expected_sequence) (QueueErr StaleRequestSequence)
     (require (\<not> is_expired r now) (QueueErr RequestExpired)
     (require (\<not> is_eligible r now) (QueueErr RequestAlreadyEligible)
       (Inr (r\<lparr>r_eligible_at := now\<rparr>, r_eligible_at r))))"

record expedite_accounts =
  xp_queue :: pubkey
  xp_vault_state :: pubkey
  xp_authority :: pubkey
  xp_request :: pubkey

definition expedite_ctx ::
  "env \<Rightarrow> tx \<Rightarrow> expedite_accounts \<Rightarrow> world \<Rightarrow>
     (withdrawal_queue \<times> vault_state \<times> withdrawal_request) result" where
  "expedite_ctx E t A w =
     bindR (load_queue w (xp_queue A)) (\<lambda>q.
     bindR (load_vault w (xp_vault_state A)) (\<lambda>v.
     signer t (xp_authority A)
     (bindR (load_request w (xp_request A)) (\<lambda>r.
      seeds_with_bump E (queue_seeds (q_vault_state q)) (q_bump q) WITHDRAWAL_QUEUE_PROGRAM_ID
        (xp_queue A)
     (has_one (q_vault_state q) (xp_vault_state A) (QueueErr VaultMismatch)
     (seeds_with_bump E (request_seeds (r_queue r) (r_owner r) (r_request_id r)) (r_bump r)
        WITHDRAWAL_QUEUE_PROGRAM_ID (xp_request A)
     (has_one (r_queue r) (xp_queue A) (AnchorErr ConstraintHasOne)
       (Inr (q, v, r)))))))))"

definition expedite_request ::
  "env \<Rightarrow> tx \<Rightarrow> expedite_accounts \<Rightarrow> u64 \<Rightarrow> world \<Rightarrow> world result" where
  "expedite_request E t A expected_sequence w =
     bindR (expedite_ctx E t A w) (\<lambda>(q, v, r).
     bindR (require_vault_admin_or_operator q (xp_vault_state A) v (xp_authority A)) (\<lambda>_.
     bindR (ok_or (unix_timestamp t) RuntimeErr) (\<lambda>now.
     bindR (expedite_one now expected_sequence r) (\<lambda>(r', previous).
     Inr (emit (expedited_snapshot r' (q_vault_state q) (xp_request A) (xp_authority A) previous)
           (put_request (xp_request A) r' w))))))"

section \<open>sweep_escrow_shares.rs\<close>

record sweep_accounts =
  sw_queue :: pubkey
  sw_vault_state :: pubkey
  sw_admin :: pubkey
  sw_escrow_shares :: pubkey
  sw_share_mint :: pubkey
  sw_destination :: pubkey
  sw_token_program :: pubkey

definition sweep_ctx ::
  "env \<Rightarrow> tx \<Rightarrow> sweep_accounts \<Rightarrow> world \<Rightarrow>
     (withdrawal_queue \<times> vault_state \<times> token_account \<times> mint_account) result" where
  "sweep_ctx E t A w =
     bindR (load_queue w (sw_queue A)) (\<lambda>q.
     bindR (load_vault w (sw_vault_state A)) (\<lambda>v.
     signer t (sw_admin A)
     (bindR (load_token E w (sw_escrow_shares A)) (\<lambda>escrow.
      bindR (load_mint E w (sw_share_mint A)) (\<lambda>sm.
      bindR (load_token E w (sw_destination A)) (\<lambda>destination.
      token_program_account E (sw_token_program A)
     (seeds_with_bump E (queue_seeds (q_vault_state q)) (q_bump q) WITHDRAWAL_QUEUE_PROGRAM_ID
        (sw_queue A)
     (has_one (q_vault_state q) (sw_vault_state A) (QueueErr VaultMismatch)
     (has_one (q_escrow_shares q) (sw_escrow_shares A) (AnchorErr ConstraintHasOne)
     (has_one (q_share_mint q) (sw_share_mint A) (AnchorErr ConstraintHasOne)
     (require (ta_owner destination \<noteq> sw_queue A) (QueueErr InvalidSweepDestination)
     (require (ta_owner destination \<noteq> q_vault_state q) (QueueErr InvalidSweepDestination)
     (token_mint destination (sw_share_mint A)
       (Inr (q, v, escrow, sm)))))))))))))))"

definition sweep_escrow_shares :: "env \<Rightarrow> tx \<Rightarrow> sweep_accounts \<Rightarrow> world \<Rightarrow> world result" where
  "sweep_escrow_shares E t A w =
     bindR (sweep_ctx E t A w) (\<lambda>(q, v, escrow, sm).
     bindR (require_vault_admin q (sw_vault_state A) v (sw_admin A)) (\<lambda>_.
     bindR (ok_or (checked_sub (ta_amount escrow) (q_pending_shares q)) (QueueErr QueueMathError)) (\<lambda>stray.
     require (0 < stray) (QueueErr NothingToSweep)
     (bindR (pda_signers E t WITHDRAWAL_QUEUE_PROGRAM_ID (signer_seeds q)) (\<lambda>S.
      bindR (token_call (transfer_checked E (sw_token_program A) S (sw_escrow_shares A)
               (sw_share_mint A) (sw_destination A) (sw_queue A) stray (mi_decimals sm) (ledger w))) (\<lambda>L.
      Inr (emit (EscrowSwept (q_vault_state q) (sw_queue A) stray (sw_destination A) (sw_admin A))
            (put_ledger L w))))))))"

section \<open>release_vault.rs\<close>

record release_accounts =
  rv_queue :: pubkey
  rv_vault_state :: pubkey
  rv_deposit_mint :: pubkey
  rv_admin :: pubkey
  rv_vault_program :: pubkey

definition release_ctx ::
  "env \<Rightarrow> tx \<Rightarrow> release_accounts \<Rightarrow> world \<Rightarrow> (withdrawal_queue \<times> vault_state) result" where
  "release_ctx E t A w =
     bindR (load_queue w (rv_queue A)) (\<lambda>q.
     bindR (load_vault w (rv_vault_state A)) (\<lambda>v.
     bindR (load_mint E w (rv_deposit_mint A)) (\<lambda>dm.
     signer t (rv_admin A)
     (require (rv_vault_program A = VAULT_PROGRAM_ID) (AnchorErr InvalidProgramId)
     (seeds_with_bump E (queue_seeds (q_vault_state q)) (q_bump q) WITHDRAWAL_QUEUE_PROGRAM_ID
        (rv_queue A)
     (has_one (q_vault_state q) (rv_vault_state A) (QueueErr VaultMismatch)
     (has_one (q_deposit_mint q) (rv_deposit_mint A) (AnchorErr ConstraintHasOne)
       (Inr (q, v)))))))))"

definition release_detach :: "release_accounts \<Rightarrow> gate_accounts" where
  "release_detach A =
     \<lparr>ga_vault_state = rv_vault_state A, ga_deposit_mint = rv_deposit_mint A,
      ga_admin = rv_admin A, ga_queue = rv_queue A\<rparr>"

definition release_vault :: "env \<Rightarrow> tx \<Rightarrow> release_accounts \<Rightarrow> world \<Rightarrow> world result" where
  "release_vault E t A w =
     bindR (release_ctx E t A w) (\<lambda>(q, v).
     bindR (require_vault_admin q (rv_vault_state A) v (rv_admin A)) (\<lambda>_.
     bindR (pda_signers E t WITHDRAWAL_QUEUE_PROGRAM_ID (signer_seeds q)) (\<lambda>S.
     bindR (detach_withdrawal_queue E (t\<lparr>signers := S\<rparr>) (release_detach A) w) (\<lambda>w'.
     Inr (emit (VaultReleased (q_vault_state q) (rv_queue A) (q_pending_requests q)
                  (q_pending_shares q)) w')))))"

section \<open>How each instruction ends\<close>

lemma init_ata_Inr:
  assumes "spl_laws E" and "init_if_needed_ata E t payer k mint wallet prog w = Inr w'"
  obtains a where "tokens (ledger w') k = Some a" and "ta_mint a = mint" and "ta_owner a = wallet"
    and "ta_program a = prog" and "associated_token_address E wallet mint prog = k"
    and "mints (ledger w') = mints (ledger w)" and "w' = w\<lparr>ledger := ledger w'\<rparr>"
    and "balance (ledger w') = balance (ledger w)"
    and "\<And>j. tokens (ledger w) j \<noteq> None \<Longrightarrow> tokens (ledger w') j = tokens (ledger w) j"
    and "kept E S (ledger w) (ledger w') \<and> no_grant E (ledger w) (ledger w')"
proof (cases "in_use w k")
  case True
  then show ?thesis
    using assms(2) by (auto simp: init_if_needed_ata_def load_token_def constraint_simps intro: that)
next
  case False
  then have n: "tokens (ledger w) k = None" by (simp add: in_use_def)
  obtain L where L: "initialize_account E prog k mint wallet (ledger w) = Inr L"
    and w': "w' = put_ledger L w" and ata: "associated_token_address E wallet mint prog = k"
    using False assms(2) by (auto simp: init_if_needed_ata_def)
  note i = spl_initialize_account [OF assms(1) L]
  have lw: "ledger w' = L" by (simp add: w' put_ledger_def)
  have "balance L = balance (ledger w)"
    by (rule ext) (simp add: balance_def i(1) n fresh_token_account_def)
  moreover have "no_grant E (ledger w) L" using i(1)
    by (rule no_grant_fresh) (simp_all add: fresh_token_account_def)
  ultimately show ?thesis
    using i n ata kept_fresh [OF i(1) n i(2)]
    by (intro that [of "fresh_token_account prog mint wallet"])
      (auto simp: lw fresh_token_account_def w' put_ledger_def)
qed

lemma initialize_queue_ctx_Inr:
  assumes "initialize_queue_ctx E t A w = Inr (v, dm, sm, w')"
  obtains w1 where "vaults w (iq_vault_state A) = Some v" and "v_admin v = iq_admin A"
    and "iq_admin A \<in> signers t" and "mints (ledger w) (iq_deposit_mint A) = Some dm"
    and "mints (ledger w) (iq_share_mint A) = Some sm"
    and "v_deposit_mint v = iq_deposit_mint A" and "v_share_mint v = iq_share_mint A"
    and "\<not> in_use w (iq_queue A)"
    and "fst (find_program_address E (queue_seeds (iq_vault_state A)) WITHDRAWAL_QUEUE_PROGRAM_ID) =
           iq_queue A"
    and "init_if_needed_ata E t (iq_payer A) (iq_escrow_shares A) (iq_share_mint A) (iq_queue A)
           (iq_token_program A) (put_queue (iq_queue A) zero_queue w) = Inr w1"
    and "init_if_needed_ata E t (iq_payer A) (iq_escrow_assets A) (iq_deposit_mint A) (iq_queue A)
           (iq_token_program A) w1 = Inr w'"
  using assms by (auto simp: initialize_queue_ctx_def load_simps constraint_simps)

text \<open>A new queue: its settings, its empty book, its two escrows.\<close>

definition new_queue :: "env \<Rightarrow> initialize_queue_accounts \<Rightarrow> u64 \<Rightarrow> withdrawal_queue" where
  "new_queue E A cooldown =
     zero_queue\<lparr>q_vault_state := iq_vault_state A, q_deposit_mint := iq_deposit_mint A,
       q_share_mint := iq_share_mint A, q_escrow_shares := iq_escrow_shares A,
       q_escrow_assets := iq_escrow_assets A, q_cooldown_seconds := cooldown,
       q_bump := snd (find_program_address E (queue_seeds (iq_vault_state A))
         WITHDRAWAL_QUEUE_PROGRAM_ID)\<rparr>"

lemma queue_init_Inr:
  "queue_init V dm sm es ea b c zero_queue = Inr q \<longleftrightarrow>
     c \<le> MAX_COOLDOWN_SECONDS \<and>
     q = zero_queue\<lparr>q_vault_state := V, q_deposit_mint := dm, q_share_mint := sm,
       q_escrow_shares := es, q_escrow_assets := ea, q_cooldown_seconds := c, q_bump := b\<rparr>"
  by (auto simp: queue_init_def queue_set_cooldown_def zero_queue_def)

lemma initialize_queue_effect:
  assumes "spl_laws E" and "initialize_queue E t A cooldown w = Inr w'"
  obtains v dm sm es ea where "vaults w (iq_vault_state A) = Some v" and "v_admin v = iq_admin A"
    and "iq_admin A \<in> signers t" and "v_deposit_mint v = iq_deposit_mint A"
    and "v_share_mint v = iq_share_mint A" and "\<not> in_use w (iq_queue A)"
    and "fst (find_program_address E (queue_seeds (iq_vault_state A)) WITHDRAWAL_QUEUE_PROGRAM_ID) =
           iq_queue A"
    and "mints (ledger w) (iq_deposit_mint A) = Some dm" and "plain_mint E dm"
    and "mints (ledger w) (iq_share_mint A) = Some sm" and "plain_mint E sm"
    and "mi_freeze_authority sm = None" and "cooldown \<le> MAX_COOLDOWN_SECONDS"
    and "tokens (ledger w') (iq_escrow_shares A) = Some es" and "ta_mint es = iq_share_mint A"
    and "ta_owner es = iq_queue A"
    and "tokens (ledger w') (iq_escrow_assets A) = Some ea" and "ta_mint ea = iq_deposit_mint A"
    and "ta_owner ea = iq_queue A"
    and "mints (ledger w') = mints (ledger w)" and "balance (ledger w') = balance (ledger w)"
    and "\<And>S. kept E S (ledger w) (ledger w') \<and> no_grant E (ledger w) (ledger w')"
    and "w' = w\<lparr>ledger := ledger w', queues := (queues w)(iq_queue A \<mapsto> new_queue E A cooldown),
                events := events w @ [QueueInitialized (iq_vault_state A) (iq_queue A)
                  (iq_deposit_mint A) (iq_share_mint A) (iq_escrow_shares A) (iq_escrow_assets A)
                  cooldown]\<rparr>"
    and "associated_token_address E (iq_queue A) (iq_share_mint A) (iq_token_program A) =
           iq_escrow_shares A"
proof -
  obtain v dm sm w2 where c: "initialize_queue_ctx E t A w = Inr (v, dm, sm, w2)"
    and p: "plain_mint E dm" "plain_mint E sm" "mi_freeze_authority sm = None"
    and cd: "cooldown \<le> MAX_COOLDOWN_SECONDS"
    and w': "w' = emit (QueueInitialized (iq_vault_state A) (iq_queue A) (iq_deposit_mint A)
          (iq_share_mint A) (iq_escrow_shares A) (iq_escrow_assets A) cooldown)
          (put_queue (iq_queue A) (new_queue E A cooldown) w2)"
    using assms(2)
    by (auto simp: initialize_queue_def require_supported_deposit_mint_def
        require_supported_share_mint_def only_metadata_eq queue_init_Inr new_queue_def)
  obtain w1 where x: "vaults w (iq_vault_state A) = Some v" "v_admin v = iq_admin A"
     "iq_admin A \<in> signers t" "mints (ledger w) (iq_deposit_mint A) = Some dm"
     "mints (ledger w) (iq_share_mint A) = Some sm"
     "v_deposit_mint v = iq_deposit_mint A" "v_share_mint v = iq_share_mint A"
     "\<not> in_use w (iq_queue A)"
     "fst (find_program_address E (queue_seeds (iq_vault_state A)) WITHDRAWAL_QUEUE_PROGRAM_ID) = iq_queue A"
    and i1: "init_if_needed_ata E t (iq_payer A) (iq_escrow_shares A) (iq_share_mint A) (iq_queue A)
           (iq_token_program A) (put_queue (iq_queue A) zero_queue w) = Inr w1"
    and i2: "init_if_needed_ata E t (iq_payer A) (iq_escrow_assets A) (iq_deposit_mint A) (iq_queue A)
           (iq_token_program A) w1 = Inr w2"
    using initialize_queue_ctx_Inr [OF c] by metis
  let ?w0 = "put_queue (iq_queue A) zero_queue w"
  have l0: "ledger ?w0 = ledger w" by (simp add: put_queue_def)
  obtain es where e1: "tokens (ledger w1) (iq_escrow_shares A) = Some es" "ta_mint es = iq_share_mint A"
     "ta_owner es = iq_queue A" "mints (ledger w1) = mints (ledger w)" "w1 = ?w0\<lparr>ledger := ledger w1\<rparr>"
     "balance (ledger w1) = balance (ledger w)"
     "associated_token_address E (iq_queue A) (iq_share_mint A) (iq_token_program A) = iq_escrow_shares A"
    by (rule init_ata_Inr [OF assms(1) i1]) (rule that; simp add: l0)
  have k1: "kept E S (ledger w) (ledger w1) \<and> no_grant E (ledger w) (ledger w1)" for S
    by (rule init_ata_Inr [OF assms(1) i1, where S = S]) (simp only: l0)
  obtain ea where e2: "tokens (ledger w2) (iq_escrow_assets A) = Some ea" "ta_mint ea = iq_deposit_mint A"
     "ta_owner ea = iq_queue A" "mints (ledger w2) = mints (ledger w1)" "w2 = w1\<lparr>ledger := ledger w2\<rparr>"
     "balance (ledger w2) = balance (ledger w1)"
     "\<And>j. tokens (ledger w1) j \<noteq> None \<Longrightarrow> tokens (ledger w2) j = tokens (ledger w1) j"
    by (rule init_ata_Inr [OF assms(1) i2]) (rule that; simp)
  have k2: "kept E S (ledger w1) (ledger w2) \<and> no_grant E (ledger w1) (ledger w2)" for S
    by (rule init_ata_Inr [OF assms(1) i2, where S = S])
  have lw: "ledger w' = ledger w2" by (simp add: w' emit_def put_queue_def)
  have es: "tokens (ledger w2) (iq_escrow_shares A) = Some es" using e2(7) e1(1) by simp
  have k: "kept E S (ledger w) (ledger w2) \<and> no_grant E (ledger w) (ledger w2)" for S
    using k1 k2 kept_trans no_grant_trans by blast
  have w2: "w2 = w\<lparr>ledger := ledger w2, queues := (queues w)(iq_queue A \<mapsto> zero_queue)\<rparr>"
    by (subst e2(5), subst e1(5)) (simp add: put_queue_def)
  have "w' = w\<lparr>ledger := ledger w2, queues := (queues w)(iq_queue A \<mapsto> new_queue E A cooldown),
                events := events w @ [QueueInitialized (iq_vault_state A) (iq_queue A)
                  (iq_deposit_mint A) (iq_share_mint A) (iq_escrow_shares A) (iq_escrow_assets A)
                  cooldown]\<rparr>"
    unfolding w' by (subst w2) (simp add: emit_def put_queue_def)
  then show ?thesis
    by (intro that [OF x(1-3,6-9,4) p(1) x(5) p(2,3) cd, unfolded lw, OF es e1(2,3) e2(1-3)])
      (use e1(4,6,7) e2(4,6) k in simp_all)
qed

lemma queue_admin_ctx_Inr:
  assumes "queue_admin_ctx E t A w = Inr (q, v)"
  shows "queues w (qa_queue A) = Some q" and "vaults w (qa_vault_state A) = Some v"
    and "qa_admin A \<in> signers t" and "q_vault_state q = qa_vault_state A"
  using assms by (auto simp: queue_admin_ctx_def load_simps constraint_simps)

text \<open>The settings a queue can hold.\<close>

definition settings_ok :: "withdrawal_queue \<Rightarrow> bool" where
  "settings_ok q \<longleftrightarrow>
     unat (q_cooldown_seconds q) \<le> 2592000 \<and>
     (q_fulfillment_window_seconds q = 0 \<or>
      86400 \<le> unat (q_fulfillment_window_seconds q) \<and>
      unat (q_fulfillment_window_seconds q) \<le> 7776000)"

lemma setter_effect:
  assumes "set_cooldown E t A seconds w = Inr w' \<or> set_fulfillment_window E t A seconds w = Inr w'"
  obtains q v q' where "queues w (qa_queue A) = Some q" and "vaults w (qa_vault_state A) = Some v"
    and "v_admin v = qa_admin A" and "qa_admin A \<in> signers t" and "q_vault_state q = qa_vault_state A"
    and "q' = q\<lparr>q_cooldown_seconds := q_cooldown_seconds q',
                q_fulfillment_window_seconds := q_fulfillment_window_seconds q'\<rparr>"
    and "settings_ok q \<longrightarrow> settings_ok q'"
    and "w' = w\<lparr>queues := (queues w)(qa_queue A \<mapsto> q'),
                events := events w @ [config_snapshot q' (qa_queue A)]\<rparr>"
  using assms
proof
  assume "set_cooldown E t A seconds w = Inr w'"
  then obtain q v where c: "queue_admin_ctx E t A w = Inr (q, v)" and adm: "v_admin v = qa_admin A"
    and le: "seconds \<le> MAX_COOLDOWN_SECONDS"
    and w': "w' = w\<lparr>queues := (queues w)(qa_queue A \<mapsto> q\<lparr>q_cooldown_seconds := seconds\<rparr>),
                events := events w @ [config_snapshot (q\<lparr>q_cooldown_seconds := seconds\<rparr>) (qa_queue A)]\<rparr>"
    by (auto simp: set_cooldown_def require_vault_admin_def queue_set_cooldown_def world_updates)
  note x = queue_admin_ctx_Inr [OF c]
  have "settings_ok q \<longrightarrow> settings_ok (q\<lparr>q_cooldown_seconds := seconds\<rparr>)"
    using le by (simp add: settings_ok_def queue_bounds word_le_nat_alt)
  then show ?thesis by (intro that [OF x(1,2) adm x(3,4) _ _ w']) simp_all
next
  assume "set_fulfillment_window E t A seconds w = Inr w'"
  then obtain q v where c: "queue_admin_ctx E t A w = Inr (q, v)" and adm: "v_admin v = qa_admin A"
    and le: "seconds = 0 \<or> MIN_FULFILLMENT_WINDOW_SECONDS \<le> seconds \<and> seconds \<le> MAX_FULFILLMENT_WINDOW_SECONDS"
    and w': "w' = w\<lparr>queues := (queues w)(qa_queue A \<mapsto> q\<lparr>q_fulfillment_window_seconds := seconds\<rparr>),
                events := events w @
                  [config_snapshot (q\<lparr>q_fulfillment_window_seconds := seconds\<rparr>) (qa_queue A)]\<rparr>"
    by (auto simp: set_fulfillment_window_def require_vault_admin_def
        queue_set_fulfillment_window_def world_updates split: if_splits)
  note x = queue_admin_ctx_Inr [OF c]
  have "settings_ok q \<longrightarrow> settings_ok (q\<lparr>q_fulfillment_window_seconds := seconds\<rparr>)"
    using le by (auto simp: settings_ok_def queue_bounds word_le_nat_alt)
  then show ?thesis by (intro that [OF x(1,2) adm x(3,4) _ _ w']) simp_all
qed

lemma expedite_ctx_Inr:
  assumes "expedite_ctx E t A w = Inr (q, v, r)"
  shows "queues w (xp_queue A) = Some q" and "vaults w (xp_vault_state A) = Some v"
    and "q_vault_state q = xp_vault_state A" and "requests w (xp_request A) = Some r"
    and "r_queue r = xp_queue A" and "xp_authority A \<in> signers t"
  using assms by (auto simp: expedite_ctx_def load_simps constraint_simps)

lemma expedite_cases:
  assumes "expedite_request E t A expected_sequence w = Inr w'"
  obtains q v r now where "queues w (xp_queue A) = Some q" and "vaults w (xp_vault_state A) = Some v"
    and "q_vault_state q = xp_vault_state A" and "requests w (xp_request A) = Some r"
    and "r_queue r = xp_queue A" and "xp_authority A \<in> signers t"
    and "xp_authority A = v_admin v \<or> xp_authority A = v_operator v"
    and "unix_timestamp t = Some now" and "r_sequence r = expected_sequence"
    and "\<not> is_expired r now" and "\<not> is_eligible r now"
    and "w' = w\<lparr>requests := (requests w)(xp_request A \<mapsto> r\<lparr>r_eligible_at := now\<rparr>),
                events := events w @ [expedited_snapshot (r\<lparr>r_eligible_at := now\<rparr>) (xp_vault_state A)
                  (xp_request A) (xp_authority A) (r_eligible_at r)]\<rparr>"
proof -
  from assms obtain q v r where c: "expedite_ctx E t A w = Inr (q, v, r)"
    by (auto simp: expedite_request_def)
  note x = expedite_ctx_Inr [OF c]
  from assms obtain now r' previous where
    one: "expedite_one now expected_sequence r = Inr (r', previous)"
    and h: "unix_timestamp t = Some now"
    and a: "require_vault_admin_or_operator q (xp_vault_state A) v (xp_authority A) = Inr ()"
    and w': "w' = emit (expedited_snapshot r' (q_vault_state q) (xp_request A) (xp_authority A)
        previous) (put_request (xp_request A) r' w)"
    by (auto simp: expedite_request_def c)
  have a: "xp_authority A = v_admin v \<or> xp_authority A = v_operator v"
    using a by (auto simp: require_vault_admin_or_operator_def)
  have o: "r_sequence r = expected_sequence" "\<not> is_expired r now" "\<not> is_eligible r now"
    "r' = r\<lparr>r_eligible_at := now\<rparr>" "previous = r_eligible_at r"
    using one by (auto simp: expedite_one_def)
  show ?thesis by (rule that [OF x a h o(1-3)]) (simp add: w' o world_updates x(3))
qed

lemma sweep_effect:
  assumes "spl_laws E" and "plain E (ledger w) (sw_share_mint A)"
    and "sweep_escrow_shares E t A w = Inr w'"
  obtains q v stray where "queues w (sw_queue A) = Some q" and "vaults w (sw_vault_state A) = Some v"
    and "q_vault_state q = sw_vault_state A" and "v_admin v = sw_admin A" and "sw_admin A \<in> signers t"
    and "q_escrow_shares q = sw_escrow_shares A" and "q_share_mint q = sw_share_mint A"
    and "balance (ledger w) (sw_escrow_shares A) = unat (q_pending_shares q) + unat stray"
    and "stray \<noteq> 0"
    and "\<exists>m ow. holder (ledger w) (sw_destination A) = Some (m, ow) \<and> ow \<noteq> sw_queue A \<and>
           ow \<noteq> sw_vault_state A"
    and "moved (ledger w) (ledger w')" and "mints (ledger w') = mints (ledger w)"
    and "balance (ledger w') = move (sw_escrow_shares A) (sw_destination A) (unat stray)
           (balance (ledger w))"
    and "kept E (insert (sw_queue A) (signers t)) (ledger w) (ledger w') \<and>
         no_grant E (ledger w) (ledger w')"
    and "w' = w\<lparr>ledger := ledger w', events := events w @
                [EscrowSwept (sw_vault_state A) (sw_queue A) stray (sw_destination A) (sw_admin A)]\<rparr>"
proof -
  from assms(3) obtain q v escrow sm where c: "sweep_ctx E t A w = Inr (q, v, escrow, sm)"
    by (auto simp: sweep_escrow_shares_def)
  then obtain destination where x: "queues w (sw_queue A) = Some q"
      "vaults w (sw_vault_state A) = Some v" "q_vault_state q = sw_vault_state A"
      "sw_admin A \<in> signers t" "q_escrow_shares q = sw_escrow_shares A"
      "q_share_mint q = sw_share_mint A" "tokens (ledger w) (sw_escrow_shares A) = Some escrow"
      "tokens (ledger w) (sw_destination A) = Some destination"
      "ta_owner destination \<noteq> sw_queue A" "ta_owner destination \<noteq> sw_vault_state A"
      "create_program_address E (queue_seeds (q_vault_state q) @ [[q_bump q]])
           WITHDRAWAL_QUEUE_PROGRAM_ID = Some (sw_queue A)"
    by (auto simp: sweep_ctx_def load_simps constraint_simps)
  have s: "pda_signers E t WITHDRAWAL_QUEUE_PROGRAM_ID (signer_seeds q) =
      Inr (insert (sw_queue A) (signers t))"
    using x(11) by (simp add: pda_signers_def signer_seeds_eq)
  from assms(3) obtain stray L where st: "unat (ta_amount escrow) = unat (q_pending_shares q) + unat stray"
      "stray \<noteq> 0" and adm: "v_admin v = sw_admin A"
    and tr: "transfer_checked E (sw_token_program A) (insert (sw_queue A) (signers t))
        (sw_escrow_shares A) (sw_share_mint A) (sw_destination A) (sw_queue A) stray
        (mi_decimals sm) (ledger w) = Inr L"
    and w': "w' = w\<lparr>ledger := L, events := events w @
        [EscrowSwept (q_vault_state q) (sw_queue A) stray (sw_destination A) (sw_admin A)]\<rparr>"
    unfolding sweep_escrow_shares_def c
    by (auto simp: s require_vault_admin_def word_gt_0 world_updates)
  note te = transfer_effect [OF assms(1,2) tr]
  note k = spl_custody(1) [OF assms(1) tr]
  have lw: "ledger w' = L" by (simp add: w')
  show ?thesis
    by (rule that [OF x(1-3) adm x(4-6) _ st(2)])
      (use te k lw w' x st in \<open>simp_all add: holder_def balance_def\<close>)
qed

lemma release_ctx_Inr:
  assumes "release_ctx E t A w = Inr (q, v)"
  shows "queues w (rv_queue A) = Some q" and "vaults w (rv_vault_state A) = Some v"
    and "q_vault_state q = rv_vault_state A" and "rv_admin A \<in> signers t"
    and "create_program_address E (queue_seeds (q_vault_state q) @ [[q_bump q]])
           WITHDRAWAL_QUEUE_PROGRAM_ID = Some (rv_queue A)"
  using assms by (auto simp: release_ctx_def load_simps constraint_simps)

lemma release_detach_select [simp]:
  "ga_vault_state (release_detach A) = rv_vault_state A"
  "ga_deposit_mint (release_detach A) = rv_deposit_mint A"
  "ga_admin (release_detach A) = rv_admin A" "ga_queue (release_detach A) = rv_queue A"
  by (simp_all add: release_detach_def)

lemma release_cases:
  assumes "release_vault E t A w = Inr w'"
  obtains q v where "queues w (rv_queue A) = Some q" and "vaults w (rv_vault_state A) = Some v"
    and "q_vault_state q = rv_vault_state A" and "v_admin v = rv_admin A"
    and "rv_admin A \<in> signers t" and "withdrawal_queue v = Some (rv_queue A)"
    and "w' = w\<lparr>vaults := (vaults w)(rv_vault_state A \<mapsto> v\<lparr>v_withdrawal_queue_authority := default_key\<rparr>),
                events := events w @ [WithdrawalQueueDetached (rv_vault_state A) (rv_queue A),
                  VaultReleased (rv_vault_state A) (rv_queue A) (q_pending_requests q)
                    (q_pending_shares q)]\<rparr>"
proof -
  from assms obtain q v where c: "release_ctx E t A w = Inr (q, v)"
    by (auto simp: release_vault_def)
  note x = release_ctx_Inr [OF c]
  from assms obtain S w1 where adm: "v_admin v = rv_admin A"
    and d: "detach_withdrawal_queue E (t\<lparr>signers := S\<rparr>) (release_detach A) w = Inr w1"
    and w': "w' = emit (VaultReleased (q_vault_state q) (rv_queue A) (q_pending_requests q)
                  (q_pending_shares q)) w1"
    unfolding release_vault_def c bindR_simps prod.case require_vault_admin_def
      bindR_Inr require_Inr by blast
  from d show ?thesis
  proof (cases rule: detach_cases)
    case (1 v')
    then have "v' = v" using x(2) by simp
    with 1(5,6) show ?thesis
      by (intro that [OF x(1-3) adm x(4)]) (simp_all add: w' world_updates x(3))
  qed
qed

section \<open>What each instruction guarantees\<close>

text \<open>
  A queue is created only by its vault's admin, only at the vault's own queue address and only
  for plain mints with an unfreezable share mint; it starts with an empty book, no expiry, a cooldown
  of at most thirty days and two escrow accounts it owns, and no balance changes.
\<close>

theorem initialize_queue_opens:
  assumes "spl_laws E" and "initialize_queue E t A cooldown w = Inr w'"
  shows "\<exists>v q. vaults w (iq_vault_state A) = Some v \<and> v_admin v \<in> signers t \<and>
     iq_queue A = withdrawal_queue_pda E (iq_vault_state A) \<and> \<not> in_use w (iq_queue A) \<and>
     queues w' (iq_queue A) = Some q \<and> q_vault_state q = iq_vault_state A \<and>
     q_deposit_mint q = v_deposit_mint v \<and> q_share_mint q = v_share_mint v \<and>
     plain E (ledger w) (q_deposit_mint q) \<and> plain E (ledger w) (q_share_mint q) \<and>
     q_sequence q = 0 \<and> q_pending_requests q = 0 \<and> q_pending_shares q = 0 \<and>
     q_fulfillment_window_seconds q = 0 \<and> settings_ok q \<and>
     holder (ledger w') (q_escrow_shares q) = Some (q_share_mint q, iq_queue A) \<and>
     holder (ledger w') (q_escrow_assets q) = Some (q_deposit_mint q, iq_queue A) \<and>
     balance (ledger w') = balance (ledger w) \<and> mints (ledger w') = mints (ledger w)"
  using initialize_queue_effect [OF assms]
proof cases
  case (1 v dm sm es ea)
  have q: "queues w' (iq_queue A) = Some (new_queue E A cooldown)" by (subst 1(23)) simp
  have "unat cooldown \<le> 2592000" using 1(13) by (simp add: queue_bounds word_le_nat_alt)
  then show ?thesis
    using 1(1-7,8-12,14-21) q
    by (intro exI [of _ v] exI [of _ "new_queue E A cooldown"])
      (simp add: new_queue_def zero_queue_def settings_ok_def plain_def holder_def
        withdrawal_queue_pda_def queue_seeds_def)
qed

text \<open>
  The queue's settings: only the admin of its vault changes them, each change touches that one
  setting of that one queue, leaves the cooldown at most thirty days and the window zero or between
  one and ninety, and announces the whole configuration.
\<close>

theorem queue_settings_bounded:
  assumes "set_cooldown E t A seconds w = Inr w' \<or> set_fulfillment_window E t A seconds w = Inr w'"
  shows "\<exists>q v q'. queues w (qa_queue A) = Some q \<and> vaults w (q_vault_state q) = Some v \<and>
     v_admin v \<in> signers t \<and>
     q' = q\<lparr>q_cooldown_seconds := q_cooldown_seconds q',
            q_fulfillment_window_seconds := q_fulfillment_window_seconds q'\<rparr> \<and>
     (settings_ok q \<longrightarrow> settings_ok q') \<and>
     w' = w\<lparr>queues := (queues w)(qa_queue A \<mapsto> q'),
            events := events w @ [QueueConfigUpdated (q_vault_state q') (qa_queue A)
              (q_cooldown_seconds q') (q_fulfillment_window_seconds q')]\<rparr>"
  using setter_effect [OF assms] unfolding config_snapshot_def by metis

text \<open>
  An expedite is signed by the vault's admin or operator and moves one live request's eligibility
  to now, which is earlier than it was; its deadline, shares, owner, floor, recipient and finalizer
  stay, so do every other request, the queue, the vault and all balances.
\<close>

theorem expedite_only_earlier:
  assumes "expedite_request E t A expected_sequence w = Inr w'"
  shows "\<exists>v r now. vaults w (xp_vault_state A) = Some v \<and>
     (v_admin v \<in> signers t \<or> v_operator v \<in> signers t) \<and>
     requests w (xp_request A) = Some r \<and> r_sequence r = expected_sequence \<and>
     unix_timestamp t = Some now \<and> sint now < sint (r_eligible_at r) \<and>
     (r_expires_at r = 0 \<or> sint now < sint (r_expires_at r)) \<and>
     w' = w\<lparr>requests := (requests w)(xp_request A \<mapsto> r\<lparr>r_eligible_at := now\<rparr>), events := events w'\<rparr>"
  using assms
proof (cases rule: expedite_cases)
  case (1 q v r now)
  then show ?thesis
    by (intro exI [of _ v] exI [of _ r] exI [of _ now])
      (auto simp: is_expired_def is_eligible_def)
qed

text \<open>
  C19. A sweep, signed by the admin, moves out of the escrow exactly what no pending request accounts
  for, and something: what stays covers the pending shares to the unit. It goes to no account of the
  queue or the vault, and no book, vault, supply or third balance changes.
\<close>

theorem sweep_only_stray:
  assumes "spl_laws E" and "plain E (ledger w) (sw_share_mint A)"
    and "sweep_escrow_shares E t A w = Inr w'"
    and "holder (ledger w) (sw_escrow_shares A) = Some (sw_share_mint A, sw_queue A)"
  shows "\<exists>q v (stray :: u64). queues w (sw_queue A) = Some q \<and>
     vaults w (q_vault_state q) = Some v \<and> v_admin v \<in> signers t \<and> 0 < stray \<and>
     balance (ledger w) (q_escrow_shares q) = unat (q_pending_shares q) + unat stray \<and>
     balance (ledger w') (q_escrow_shares q) = unat (q_pending_shares q) \<and>
     balance (ledger w') = move (q_escrow_shares q) (sw_destination A) (unat stray)
       (balance (ledger w)) \<and>
     supply_of (ledger w') = supply_of (ledger w) \<and> moved (ledger w) (ledger w') \<and>
     w' = w\<lparr>ledger := ledger w', events := events w @
       [EscrowSwept (q_vault_state q) (sw_queue A) stray (sw_destination A) (v_admin v)]\<rparr>"
  using sweep_effect [OF assms(1-3)]
proof cases
  case (1 q v stray)
  have d: "sw_destination A \<noteq> sw_escrow_shares A" using 1(10) assms(4) by auto
  have st: "0 < stray" using 1(9) by (simp add: word_neq_0_conv)
  have w': "w' = w\<lparr>ledger := ledger w', events := events w @
       [EscrowSwept (q_vault_state q) (sw_queue A) stray (sw_destination A) (v_admin v)]\<rparr>"
    unfolding 1(3,4) by (rule 1(15))
  have e: "balance (ledger w') (q_escrow_shares q) = unat (q_pending_shares q)"
    unfolding 1(6,13) using d 1(8) by simp
  have v: "vaults w (q_vault_state q) = Some v" "v_admin v \<in> signers t"
    and b: "balance (ledger w) (q_escrow_shares q) = unat (q_pending_shares q) + unat stray"
    and m: "balance (ledger w') = move (q_escrow_shares q) (sw_destination A) (unat stray)
       (balance (ledger w))"
    using 1(2-6,8,13) by simp_all
  show ?thesis
    by (rule exI [of _ q], rule exI [of _ v], rule exI [of _ stray])
      (intro conjI; fact 1(1) v st b e m 1(11) w' supply_same [OF 1(12)])
qed


section \<open>Witnesses\<close>

definition ex_share_escrow :: pubkey where "ex_share_escrow = ref_ata ex_queue ex_share_mint 1"
definition ex_asset_escrow :: pubkey where "ex_asset_escrow = ref_ata ex_queue ex_mint 1"

definition ex_initialize_queue :: initialize_queue_accounts where
  "ex_initialize_queue =
     \<lparr>iq_vault_state = ex_vault, iq_admin = ex_admin, iq_payer = ex_admin, iq_deposit_mint = ex_mint,
      iq_share_mint = ex_share_mint, iq_queue = ex_queue, iq_escrow_shares = ex_share_escrow,
      iq_escrow_assets = ex_asset_escrow, iq_token_program = 1\<rparr>"

theorem initialize_queue_opens_witness:
  "\<exists>w' q. initialize_queue ref_env (ex_tx ex_admin) ex_initialize_queue 3600 ex_world = Inr w' \<and>
     queues w' ex_queue = Some q \<and> q_pending_shares q = 0 \<and> settings_ok q"
proof -
  have "is_ok (initialize_queue ref_env (ex_tx ex_admin) ex_initialize_queue 3600 ex_world)"
    by code_simp
  then obtain w' where
    w: "initialize_queue ref_env (ex_tx ex_admin) ex_initialize_queue 3600 ex_world = Inr w'"
    by (auto simp: is_ok_iff)
  obtain q where
    "queues w' (iq_queue ex_initialize_queue) = Some q" "q_pending_shares q = 0" "settings_ok q"
    using initialize_queue_opens [OF ref_spl_laws w] by (elim exE conjE) (rule that, assumption+)
  with w show ?thesis by (auto simp: ex_initialize_queue_def)
qed

definition ex_bound_queue :: withdrawal_queue where
  "ex_bound_queue =
     zero_queue\<lparr>q_vault_state := ex_vault, q_deposit_mint := ex_mint, q_share_mint := ex_share_mint,
       q_escrow_shares := ex_share_escrow, q_escrow_assets := ex_asset_escrow,
       q_sequence := 1, q_pending_requests := 1, q_pending_shares := 400, q_bump := 255\<rparr>"

definition ex_held :: withdrawal_request where
  "ex_held =
     zero_request\<lparr>r_queue := ex_queue, r_owner := ex_user, r_recipient_token_account := ex_user_tokens,
       r_shares := 400, r_request_id := 7, r_sequence := 1, r_requested_at := 900,
       r_scheduled_eligible_at := 4500, r_eligible_at := 4500, r_bump := 255\<rparr>"

definition ex_held_key :: pubkey where
  "ex_held_key = fst (ref_find (request_seeds ex_queue ex_user 7) WITHDRAWAL_QUEUE_PROGRAM_ID)"

definition ex_bound :: world where
  "ex_bound =
     ex_attached\<lparr>queues := [ex_queue \<mapsto> ex_bound_queue], requests := [ex_held_key \<mapsto> ex_held],
       ledger := ex_ledger\<lparr>tokens := (tokens ex_ledger)
         (ex_share_escrow \<mapsto> ex_token ex_share_mint ex_queue 450)\<rparr>\<rparr>"

definition ex_setter :: queue_admin_accounts where
  "ex_setter = \<lparr>qa_queue = ex_queue, qa_vault_state = ex_vault, qa_admin = ex_admin\<rparr>"

theorem queue_settings_bounded_witness:
  "\<exists>w' q'. set_fulfillment_window ref_env (ex_tx ex_admin) ex_setter 86400 ex_bound = Inr w' \<and>
     queues w' ex_queue = Some q' \<and> settings_ok q'"
proof -
  have "is_ok (set_fulfillment_window ref_env (ex_tx ex_admin) ex_setter 86400 ex_bound)" by code_simp
  then obtain w' where w: "set_fulfillment_window ref_env (ex_tx ex_admin) ex_setter 86400 ex_bound = Inr w'"
    by (auto simp: is_ok_iff)
  from queue_settings_bounded [OF disjI2 [OF w]] obtain q q' where
    q: "queues ex_bound (qa_queue ex_setter) = Some q" "settings_ok q \<longrightarrow> settings_ok q'"
    and w': "w' = ex_bound\<lparr>queues := (queues ex_bound)(qa_queue ex_setter \<mapsto> q'),
            events := events ex_bound @ [QueueConfigUpdated (q_vault_state q') (qa_queue ex_setter)
              (q_cooldown_seconds q') (q_fulfillment_window_seconds q')]\<rparr>" by blast
  have "settings_ok q"
    using q(1) by (auto simp: ex_bound_def ex_setter_def ex_bound_queue_def zero_queue_def settings_ok_def)
  moreover have "queues w' ex_queue = Some q'" unfolding w' by (simp add: ex_setter_def)
  ultimately show ?thesis using w q(2) by blast
qed

definition ex_expedite :: expedite_accounts where
  "ex_expedite =
     \<lparr>xp_queue = ex_queue, xp_vault_state = ex_vault, xp_authority = ex_operator,
      xp_request = ex_held_key\<rparr>"

theorem expedite_only_earlier_witness:
  "\<exists>w' r. expedite_request ref_env (ex_tx ex_operator) ex_expedite 1 ex_bound = Inr w' \<and>
     requests w' ex_held_key = Some r \<and> r_eligible_at r = 1000"
proof -
  have "is_ok (expedite_request ref_env (ex_tx ex_operator) ex_expedite 1 ex_bound)" by code_simp
  then obtain w' where w: "expedite_request ref_env (ex_tx ex_operator) ex_expedite 1 ex_bound = Inr w'"
    by (auto simp: is_ok_iff)
  from expedite_only_earlier [OF w] obtain r now where
    n: "unix_timestamp (ex_tx ex_operator) = Some now"
    and w': "w' = ex_bound\<lparr>requests := (requests ex_bound)(xp_request ex_expedite \<mapsto>
      r\<lparr>r_eligible_at := now\<rparr>), events := events w'\<rparr>" by blast
  have "requests w' ex_held_key = Some (r\<lparr>r_eligible_at := now\<rparr>)"
    by (subst w') (simp add: ex_expedite_def)
  then show ?thesis using w n by (auto simp: ex_tx_def)
qed

definition ex_sweep :: sweep_accounts where
  "ex_sweep =
     \<lparr>sw_queue = ex_queue, sw_vault_state = ex_vault, sw_admin = ex_admin,
      sw_escrow_shares = ex_share_escrow, sw_share_mint = ex_share_mint,
      sw_destination = ex_user_shares, sw_token_program = 1\<rparr>"

theorem sweep_only_stray_witness:
  "\<exists>w'. sweep_escrow_shares ref_env (ex_tx ex_admin) ex_sweep ex_bound = Inr w' \<and>
     balance (ledger w') ex_share_escrow = 400"
proof -
  have "is_ok (sweep_escrow_shares ref_env (ex_tx ex_admin) ex_sweep ex_bound)" by code_simp
  then obtain w' where w: "sweep_escrow_shares ref_env (ex_tx ex_admin) ex_sweep ex_bound = Inr w'"
    by (auto simp: is_ok_iff)
  have "plain ref_env (ledger ex_bound) (sw_share_mint ex_sweep)"
    using ex_plain by (simp add: ex_sweep_def ex_bound_def plain_def)
  moreover have "holder (ledger ex_bound) (sw_escrow_shares ex_sweep) =
      Some (sw_share_mint ex_sweep, sw_queue ex_sweep)"
    by (simp add: ex_sweep_def ex_bound_def holder_def ex_token_def fresh_token_account_def)
  ultimately obtain q where q: "queues ex_bound (sw_queue ex_sweep) = Some q"
    "balance (ledger w') (q_escrow_shares q) = unat (q_pending_shares q)"
    using sweep_only_stray [OF ref_spl_laws _ w] by blast
  then show ?thesis using w by (auto simp: ex_bound_def ex_sweep_def ex_bound_queue_def)
qed

definition ex_release :: release_accounts where
  "ex_release =
     \<lparr>rv_queue = ex_queue, rv_vault_state = ex_vault, rv_deposit_mint = ex_mint, rv_admin = ex_admin,
      rv_vault_program = VAULT_PROGRAM_ID\<rparr>"


end
