(* ===== verification/Programs.thy ===== *)
theory Programs
  imports VaultOperator QueueUser QueueAdmin
begin

text \<open>
  The two programs' entry points, as \<open>lib.rs\<close> of each dispatches them, and the system they make up:
  a step is one instruction of either program, or anything the rest of the chain does to the token
  ledger.
\<close>

section \<open>august_vault/src/lib.rs\<close>

text \<open>The entry points in the order of the file, in groups: setup, users, operator, registry, admin, metadata.\<close>

datatype setup_instruction =
    InitializeConfig initialize_config_accounts pubkey
  | SetConfigAuthority config_authority_accounts pubkey
  | OverrideConfigAuthority override_config_accounts pubkey
  | Initialize initialize_accounts pubkey pubkey pubkey u8 u64

primrec run_setup :: "env \<Rightarrow> tx \<Rightarrow> setup_instruction \<Rightarrow> world \<Rightarrow> world result" where
  "run_setup E t (InitializeConfig A authority) = initialize_config E t A authority"
| "run_setup E t (SetConfigAuthority A new_authority) = set_config_authority E t A new_authority"
| "run_setup E t (OverrideConfigAuthority A new_authority) =
     override_config_authority E t A new_authority"
| "run_setup E t (Initialize A admin operator fee_recipient version offset) =
     initialize E t A admin operator fee_recipient version offset"

datatype user_instruction =
    Deposit deposit_accounts u64
  | DepositChecked deposit_accounts u64 u64
  | Redeem redeem_accounts u64
  | RedeemChecked redeem_accounts u64 u64

primrec run_user :: "env \<Rightarrow> tx \<Rightarrow> user_instruction \<Rightarrow> world \<Rightarrow> world result" where
  "run_user E t (Deposit A amount) = deposit E t A amount"
| "run_user E t (DepositChecked A amount min_shares_out) = deposit_checked E t A amount min_shares_out"
| "run_user E t (Redeem A shares) = redeem E t A shares"
| "run_user E t (RedeemChecked A shares min_assets_out) = redeem_checked E t A shares min_assets_out"

datatype operator_instruction =
    OperatorWithdraw operator_accounts u64
  | OperatorDeposit operator_accounts u64
  | OperatorUpdateAum update_aum_accounts u64

primrec run_operator :: "env \<Rightarrow> tx \<Rightarrow> operator_instruction \<Rightarrow> world \<Rightarrow> world result" where
  "run_operator E t (OperatorWithdraw A amount) = operator_withdraw E t A amount"
| "run_operator E t (OperatorDeposit A amount) = operator_deposit E t A amount"
| "run_operator E t (OperatorUpdateAum A new_aum) = operator_update_aum E t A new_aum"

datatype registry_instruction =
    RegisterSubaccount register_accounts pubkey
  | SettleSubaccountLoss settle_accounts u64
  | DeregisterSubaccount deregister_accounts

primrec run_registry :: "env \<Rightarrow> tx \<Rightarrow> registry_instruction \<Rightarrow> world \<Rightarrow> world result" where
  "run_registry E t (RegisterSubaccount A address) = register_subaccount E t A address"
| "run_registry E t (SettleSubaccountLoss A amount) = settle_subaccount_loss E t A amount"
| "run_registry E t (DeregisterSubaccount A) = deregister_subaccount E t A"

text \<open>The setters, \<open>pause\<close> and \<open>unpause\<close> are \<open>setting\<close>.\<close>

datatype admin_instruction =
    Setting admin_accounts setting
  | NominateAdmin nominate_accounts pubkey
  | AcceptAdminNomination accept_accounts
  | AttachWithdrawalQueue gate_accounts
  | DetachWithdrawalQueue gate_accounts
  | CloseVault close_accounts

primrec run_admin :: "env \<Rightarrow> tx \<Rightarrow> admin_instruction \<Rightarrow> world \<Rightarrow> world result" where
  "run_admin E t (Setting A s) = run_setting E t A s"
| "run_admin E t (NominateAdmin A new_admin) = nominate_admin E t A new_admin"
| "run_admin E t (AcceptAdminNomination A) = accept_admin_nomination E t A"
| "run_admin E t (AttachWithdrawalQueue A) = attach_withdrawal_queue E t A"
| "run_admin E t (DetachWithdrawalQueue A) = detach_withdrawal_queue E t A"
| "run_admin E t (CloseVault A) = close_vault E t A"

datatype metadata_instruction =
    CreateShareTokenMetadata metadata_accounts string string string
  | UpdateShareTokenMetadata metadata_accounts string string string

primrec run_metadata :: "env \<Rightarrow> tx \<Rightarrow> metadata_instruction \<Rightarrow> world \<Rightarrow> world result" where
  "run_metadata E t (CreateShareTokenMetadata A name symbol uri) =
     create_share_token_metadata E t A name symbol uri"
| "run_metadata E t (UpdateShareTokenMetadata A name symbol uri) =
     update_share_token_metadata E t A name symbol uri"

section \<open>august_withdrawal_queue/src/lib.rs\<close>

datatype queue_instruction =
    InitializeQueue initialize_queue_accounts u64
  | SetCooldown queue_admin_accounts u64
  | SetFulfillmentWindow queue_admin_accounts u64
  | RequestWithdrawal request_accounts u64 u64 u64 pubkey
  | FinalizeWithdrawal finalize_accounts u64
  | CancelWithdrawal cancel_accounts u64
  | ReleaseVault release_accounts
  | SweepEscrowShares sweep_accounts
  | ExpediteRequest expedite_accounts u64

primrec run_queue :: "env \<Rightarrow> tx \<Rightarrow> queue_instruction \<Rightarrow> world \<Rightarrow> world result" where
  "run_queue E t (InitializeQueue A cooldown_seconds) = initialize_queue E t A cooldown_seconds"
| "run_queue E t (SetCooldown A seconds) = set_cooldown E t A seconds"
| "run_queue E t (SetFulfillmentWindow A seconds) = set_fulfillment_window E t A seconds"
| "run_queue E t (RequestWithdrawal A request_id shares min_assets_out finalizer) =
     request_withdrawal E t A request_id shares min_assets_out finalizer"
| "run_queue E t (FinalizeWithdrawal A expected_sequence) = finalize_withdrawal E t A expected_sequence"
| "run_queue E t (CancelWithdrawal A expected_sequence) = cancel_withdrawal E t A expected_sequence"
| "run_queue E t (ReleaseVault A) = release_vault E t A"
| "run_queue E t (SweepEscrowShares A) = sweep_escrow_shares E t A"
| "run_queue E t (ExpediteRequest A expected_sequence) = expedite_request E t A expected_sequence"

section \<open>The system\<close>

datatype instruction =
    Setup setup_instruction
  | User user_instruction
  | Operator operator_instruction
  | Registry registry_instruction
  | Admin admin_instruction
  | Metadata metadata_instruction
  | Queue queue_instruction

primrec run :: "env \<Rightarrow> tx \<Rightarrow> instruction \<Rightarrow> world \<Rightarrow> world result" where
  "run E t (Setup i) = run_setup E t i"
| "run E t (User i) = run_user E t i"
| "run E t (Operator i) = run_operator E t i"
| "run E t (Registry i) = run_registry E t i"
| "run E t (Admin i) = run_admin E t i"
| "run E t (Metadata i) = run_metadata E t i"
| "run E t (Queue i) = run_queue E t i"

text \<open>
  An address one of the two programs derives has no private key and only that program signs for it,
  inside its own calls: it is never among the signers an instruction is entered with.
\<close>

definition own_pda :: "env \<Rightarrow> pubkey \<Rightarrow> bool" where
  "own_pda E k \<longleftrightarrow>
     (\<exists>seeds. create_program_address E seeds VAULT_PROGRAM_ID = Some k \<or>
        create_program_address E seeds WITHDRAWAL_QUEUE_PROGRAM_ID = Some k)"

definition outside :: "env \<Rightarrow> pubkey set \<Rightarrow> bool" where
  "outside E S \<longleftrightarrow> (\<forall>k\<in>S. \<not> own_pda E k)"

definition reserve_of :: "env \<Rightarrow> vault_state \<Rightarrow> pubkey" where
  "reserve_of E v =
     fst (find_program_address E (vault_token_seeds (v_deposit_mint v) (v_vault_version v))
       VAULT_PROGRAM_ID)"

text \<open>
  What a world may be taken to satisfy because derived addresses are hashes: the accounts in it have
  not collided. No existing mint but its own derives a vault's address, its reserve is not its
  associated token account, an account at its queue address is its queue, and a registry entry's
  address derives from its own vault only. At the addresses \<open>P\<close>
  there are plain mints only.
\<close>

definition well_addressed :: "env \<Rightarrow> pubkey set \<Rightarrow> world \<Rightarrow> bool" where
  "well_addressed E P w \<longleftrightarrow>
     (\<forall>V v mint. vaults w V = Some v \<longrightarrow> mints (ledger w) mint \<noteq> None \<longrightarrow>
        fst (find_program_address E (vault_state_seeds mint (v_vault_version v)) VAULT_PROGRAM_ID) = V \<longrightarrow>
        mint = v_deposit_mint v) \<and>
     (\<forall>V v. \<forall>prog\<in>{spl_token_id E, token_2022_id E}. vaults w V = Some v \<longrightarrow>
        associated_token_address E V (v_deposit_mint v) prog \<noteq> reserve_of E v) \<and>
     (\<forall>V v. vaults w V = Some v \<longrightarrow> in_use w (withdrawal_queue_pda E V) \<longrightarrow>
        (\<exists>q. queues w (withdrawal_queue_pda E V) = Some q \<and> q_vault_state q = V)) \<and>
     entries_bound E w \<and>
     (\<forall>k\<in>P. \<forall>m. mints (ledger w) k = Some m \<longrightarrow> plain_mint E m)"

text \<open>
  One step: an instruction entered with outside signers that succeeds (one that fails changes
  nothing), or activity of outside signers elsewhere, which the token programs confine to what those
  signers own. Nobody appoints a delegate or a close authority for an account of a derived address.
\<close>

inductive step :: "env \<Rightarrow> pubkey set \<Rightarrow> world \<Rightarrow> world \<Rightarrow> bool" for E P where
  instruction: "step E P w w'"
    if "outside E (signers t)" and "well_addressed E P w" and "run E t i w = Inr w'"
| elsewhere: "step E P w (w\<lparr>ledger := L, metadata := M, program_data := U\<rparr>)"
    if "outside E S" and "well_addressed E P w" and "kept E S (ledger w) L"
      and "undelegated E {k. own_pda E k} (ledger w) \<Longrightarrow> undelegated E {k. own_pda E k} L"

inductive_cases stepE: "step E P w w'"

end
