(* ===== verification/Soundness.thy ===== *)
theory Soundness
  imports Programs
begin

text \<open>
  What every vault keeps through every instruction of either program and through everything the rest
  of the chain does: its address, its mints, its settings, and a reserve that covers \<open>local_aum\<close>.
\<close>

section \<open>A guarded token account\<close>

text \<open>
  A token account of a plain mint that belongs to \<open>owner\<close>, has neither delegate nor close authority
  and holds at least \<open>n\<close>. Only its owner's signature can take that away.
\<close>

definition guarded :: "env \<Rightarrow> ledger \<Rightarrow> pubkey \<Rightarrow> pubkey \<Rightarrow> pubkey \<Rightarrow> nat \<Rightarrow> bool" where
  "guarded E L k mint owner n \<longleftrightarrow>
     plain E L mint \<and> holder L k = Some (mint, owner) \<and> unencumbered L k \<and> n \<le> balance L k"

lemma kept_plain: "kept E S L L' \<Longrightarrow> plain E L k \<Longrightarrow> plain E L' k"
  by (auto simp: plain_def split: option.splits elim: kept_mint)

lemma guarded_kept:
  assumes "guarded E L k mint owner n" and "kept E S L L'" and "owner \<notin> S"
  shows "guarded E L' k mint owner n"
proof -
  obtain m where m: "mints L mint = Some m" "plain_mint E m"
    using assms(1) by (auto simp: guarded_def elim: plainE)
  obtain a where a: "tokens L k = Some a" "ta_mint a = mint" "ta_owner a = owner"
      "ta_delegate a = None" "ta_close_authority a = None" "n \<le> unat (ta_amount a)"
    using assms(1) by (auto simp: guarded_def holder_def unencumbered_def balance_def)
  obtain a' where "tokens L' k = Some a'" "ta_amount a \<le> ta_amount a'" "ta_mint a' = ta_mint a"
      "ta_owner a' = ta_owner a" "ta_delegate a' = None" "ta_close_authority a' = None"
    by (rule kept_account [OF assms(2) a(1)]) (use m a assms(3) in auto)
  then show ?thesis
    using kept_plain [OF assms(2)] assms(1) a(2,3,6)
    by (auto simp: guarded_def holder_def unencumbered_def balance_def word_le_nat_alt)
qed

lemma guarded_moved:
  assumes "guarded E L k mint owner n" and "moved L L'" and "no_grant E L L'" and "n' \<le> balance L' k"
  shows "guarded E L' k mint owner n'"
  using assms moved_plain [OF assms(2)] by (simp add: guarded_def moved_def no_grant_def)

text \<open>A transfer of another mint does not touch it, whoever signs.\<close>

lemma guarded_transfer:
  assumes "guarded E L k mint owner n" and "spl_laws E" and "plain E L mint'" and "mint' \<noteq> mint"
    and "transfer_checked E prog S src mint' dst auth m dec L = Inr L'"
  shows "guarded E L' k mint owner n"
proof -
  note e = transfer_effect [OF assms(2,3,5)]
  obtain x where "mints L mint' = Some x" "plain_mint E x" using assms(3) by (rule plainE)
  from spl_transfer [OF assms(2) this assms(5)]
  have "holder L src \<noteq> holder L k" "holder L dst \<noteq> holder L k"
    using assms(1,4) by (auto simp: transferred_def guarded_def holder_def)
  then have "k \<noteq> src" "k \<noteq> dst" by auto
  then have "balance L' k = balance L k" by (simp add: e(5))
  then have "n \<le> balance L' k" using assms(1) by (simp add: guarded_def)
  then show ?thesis
    by (rule guarded_moved [OF assms(1) e(1) conjunct2 [OF spl_custody(1) [OF assms(2,5)]]])
qed

lemma guarded_less: "guarded E L k mint owner n \<Longrightarrow> n' \<le> n \<Longrightarrow> guarded E L k mint owner n'"
  by (simp add: guarded_def)

section \<open>A sound vault\<close>

text \<open>What no instruction changes about a vault.\<close>

definition vault_id :: "vault_state \<Rightarrow> pubkey \<times> pubkey \<times> u8 \<times> u8" where
  "vault_id v = (v_share_mint v, v_deposit_mint v, v_pda_bump v, v_vault_version v)"

definition vault_sound :: "env \<Rightarrow> pubkey set \<Rightarrow> ledger \<Rightarrow> pubkey \<Rightarrow> vault_state \<Rightarrow> bool" where
  "vault_sound E P L V v \<longleftrightarrow>
     create_program_address E (vault_seeds v) VAULT_PROGRAM_ID = Some V \<and>
     v_share_mint v = fst (find_program_address E
       (share_mint_seeds (v_deposit_mint v) (v_vault_version v)) VAULT_PROGRAM_ID) \<and>
     v_share_mint v \<noteq> v_deposit_mint v \<and> plain E L (v_share_mint v) \<and> vault_ok v \<and>
     (v_deposit_mint v \<in> P \<longrightarrow>
        guarded E L (reserve_of E v) (v_deposit_mint v) V (unat (v_local_aum v)) \<and>
        minter L (v_share_mint v) = Some V)"

lemma vault_soundD:
  assumes "vault_sound E P L V v"
  shows "create_program_address E (vault_seeds v) VAULT_PROGRAM_ID = Some V"
    and "fst (find_program_address E (share_mint_seeds (v_deposit_mint v) (v_vault_version v))
           VAULT_PROGRAM_ID) = v_share_mint v"
    and "v_share_mint v \<noteq> v_deposit_mint v" and "plain E L (v_share_mint v)" and "vault_ok v"
    and "v_deposit_mint v \<in> P \<Longrightarrow>
      guarded E L (reserve_of E v) (v_deposit_mint v) V (unat (v_local_aum v))"
    and "v_deposit_mint v \<in> P \<Longrightarrow> minter L (v_share_mint v) = Some V"
  using assms unfolding vault_sound_def by metis+

lemma minter_kept:
  assumes "minter L k = Some V" and "plain E L k" and "kept E S L L'" and "V \<notin> S"
  shows "minter L' k = Some V" and "supply_of L' k \<le> supply_of L k"
proof -
  obtain m where m: "mints L k = Some m" "plain_mint E m" using assms(2) by (rule plainE)
  obtain m' where "mints L' k = Some m'" "mint_kept E S m m'"
    using kept_mint [OF assms(3) m] by blast
  moreover have "mi_authority m = Some V" using m(1) assms(1) by (simp add: minter_def)
  ultimately show "minter L' k = Some V" and "supply_of L' k \<le> supply_of L k"
    using m(1) assms(4) by (simp_all add: mint_kept_def minter_def supply_of_def word_le_nat_alt)
qed

lemma vault_sound_pda: "vault_sound E P L V v \<Longrightarrow> own_pda E V"
  by (auto simp: vault_sound_def own_pda_def)

lemma vault_sound_kept:
  "vault_sound E P L V v \<Longrightarrow> kept E S L L' \<Longrightarrow> V \<notin> S \<Longrightarrow> vault_sound E P L' V v"
  unfolding vault_sound_def by (blast intro: kept_plain guarded_kept minter_kept(1))

lemma vault_id_seeds:
  assumes "vault_id v' = vault_id v"
  shows "vault_seeds v' = vault_seeds v" and "reserve_of E v' = reserve_of E v"
    and "v_share_mint v' = v_share_mint v" and "v_deposit_mint v' = v_deposit_mint v"
    and "v_vault_version v' = v_vault_version v"
  using assms by (simp_all add: vault_id_def vault_seeds_def reserve_of_def)

lemma vault_sound_update:
  assumes "vault_sound E P L V v" and "vault_id v' = vault_id v" and "vault_ok v \<Longrightarrow> vault_ok v'"
    and "plain E L (v_share_mint v) \<Longrightarrow> plain E L' (v_share_mint v)"
    and "v_deposit_mint v \<in> P \<Longrightarrow>
      guarded E L' (reserve_of E v) (v_deposit_mint v) V (unat (v_local_aum v')) \<and>
      minter L' (v_share_mint v) = minter L (v_share_mint v)"
  shows "vault_sound E P L' V v'"
  using assms(1,3-5) unfolding vault_sound_def vault_id_seeds [OF assms(2)] by metis

text \<open>The same vault at the same local balance, other settings.\<close>

lemma vault_sound_settings:
  assumes "vault_sound E P L V v" and "vault_id v' = vault_id v" and "vault_ok v \<longrightarrow> vault_ok v'"
    and "v_local_aum v' = v_local_aum v"
  shows "vault_sound E P L V v'"
  by (rule vault_sound_update [OF assms(1,2)])
    (use assms in \<open>auto simp: vault_sound_def\<close>)

section \<open>A turn\<close>

text \<open>
  What an instruction entered with \<open>S\<close> signing, the program's own signature included, leaves alone:
  every account whose owner is not in \<open>S\<close>, every queue and request.
\<close>

definition turn :: "env \<Rightarrow> pubkey set \<Rightarrow> world \<Rightarrow> world \<Rightarrow> bool" where
  "turn E S w w' \<longleftrightarrow>
     kept E S (ledger w) (ledger w') \<and> no_grant E (ledger w) (ledger w') \<and>
     queues w' = queues w \<and> requests w' = requests w"

lemma turn_quiet: "ledger w' = ledger w \<Longrightarrow> queues w' = queues w \<Longrightarrow> requests w' = requests w \<Longrightarrow> turn E S w w'"
  by (simp add: turn_def)

lemma vault_signs:
  "pda_signers E t VAULT_PROGRAM_ID (vault_seeds v) = Inr S \<Longrightarrow> vault_sound E P L V v \<Longrightarrow>
   S = insert V (signers t)"
  by (auto simp: pda_signers_Inr vault_sound_def)

definition vaults_sound :: "env \<Rightarrow> pubkey set \<Rightarrow> world \<Rightarrow> bool" where
  "vaults_sound E P w \<longleftrightarrow> (\<forall>V v. vaults w V = Some v \<longrightarrow> vault_sound E P (ledger w) V v)"

lemma vaults_soundD: "vaults_sound E P w \<Longrightarrow> vaults w V = Some v \<Longrightarrow> vault_sound E P (ledger w) V v"
  by (simp add: vaults_sound_def)

text \<open>A turn in which at most the vault \<open>V\<close> signs and changes.\<close>

lemma vaults_sound_turn:
  assumes "vaults_sound E P w" and "turn E S w w'" and "dom (vaults w) \<inter> S \<subseteq> {V}"
    and "vaults w' = (vaults w)(V := x)"
    and "\<And>v'. x = Some v' \<Longrightarrow> vault_sound E P (ledger w') V v'"
  shows "vaults_sound E P w'"
  unfolding vaults_sound_def
proof (intro allI impI)
  fix U u assume u: "vaults w' U = Some u"
  show "vault_sound E P (ledger w') U u"
  proof (cases "U = V")
    case True
    then show ?thesis using u assms(4,5) by simp
  next
    case False
    then have w: "vaults w U = Some u" using u assms(4) by simp
    moreover have "U \<notin> S" using w False assms(3) by (auto dest: domI)
    ultimately show ?thesis
      using vaults_soundD [OF assms(1)] assms(2) by (auto simp: turn_def intro: vault_sound_kept)
  qed
qed

lemma vaults_sound_kept:
  assumes "vaults_sound E P w" and "kept E S (ledger w) (ledger w')" and "dom (vaults w) \<inter> S = {}"
    and "vaults w' = vaults w"
  shows "vaults_sound E P w'"
  using assms unfolding vaults_sound_def by (metis Int_iff domI empty_iff vault_sound_kept)

section \<open>Instructions that move no tokens\<close>

text \<open>
  The gate of a vault changes only to open, or to the vault's own queue address when an account is
  there.
\<close>

definition gate_change :: "env \<Rightarrow> world \<Rightarrow> pubkey \<Rightarrow> vault_state \<Rightarrow> vault_state \<Rightarrow> bool" where
  "gate_change E w V v v' \<longleftrightarrow>
     v_withdrawal_queue_authority v' \<in> {v_withdrawal_queue_authority v, default_key} \<or>
     v_withdrawal_queue_authority v' = withdrawal_queue_pda E V \<and> in_use w (withdrawal_queue_pda E V)"

definition same_funds :: "env \<Rightarrow> world \<Rightarrow> pubkey \<Rightarrow> vault_state \<Rightarrow> vault_state \<Rightarrow> bool" where
  "same_funds E w V v v' \<longleftrightarrow>
     vault_id v' = vault_id v \<and> v_local_aum v' = v_local_aum v \<and> (vault_ok v \<longrightarrow> vault_ok v') \<and>
     gate_change E w V v v'"

definition quiet :: "env \<Rightarrow> world \<Rightarrow> world \<Rightarrow> bool" where
  "quiet E w w' \<longleftrightarrow>
     ledger w' = ledger w \<and> queues w' = queues w \<and> requests w' = requests w \<and>
     (\<forall>V v'. vaults w' V = Some v' \<longrightarrow>
        (\<exists>v. vaults w V = Some v \<and> same_funds E w V v v'))"

lemma same_funds_refl [simp]: "same_funds E w V v v"
  by (simp add: same_funds_def gate_change_def)

lemma quiet_same:
  "ledger w' = ledger w \<Longrightarrow> queues w' = queues w \<Longrightarrow> requests w' = requests w \<Longrightarrow>
   vaults w' = vaults w \<Longrightarrow> quiet E w w'"
  by (simp add: quiet_def)

lemma quiet_one:
  "ledger w' = ledger w \<Longrightarrow> queues w' = queues w \<Longrightarrow> requests w' = requests w \<Longrightarrow>
   vaults w' = (vaults w)(V \<mapsto> v') \<Longrightarrow> vaults w V = Some v \<Longrightarrow> same_funds E w V v v' \<Longrightarrow> quiet E w w'"
  by (auto simp: quiet_def)

lemma vaults_sound_quiet:
  assumes "vaults_sound E P w" and "quiet E w w'"
  shows "vaults_sound E P w'"
  unfolding vaults_sound_def
proof (intro allI impI)
  fix V v' assume "vaults w' V = Some v'"
  then obtain v where v: "vaults w V = Some v" "same_funds E w V v v'" and L: "ledger w' = ledger w"
    using assms(2) by (auto simp: quiet_def)
  then show "vault_sound E P (ledger w') V v'"
    using vaults_soundD [OF assms(1) v(1)] by (auto simp: same_funds_def intro: vault_sound_settings)
qed

text \<open>A setter keeps \<open>vault_core\<close>, and with it everything here.\<close>

lemma same_funds_core:
  "vault_core v' = vault_core v \<Longrightarrow> (vault_ok v \<longrightarrow> vault_ok v') \<Longrightarrow> same_funds E w V v v'"
  by (simp add: vault_core_def same_funds_def vault_id_def gate_change_def)

lemma setting_quiet: "run_setting E t A s w = Inr w' \<Longrightarrow> quiet E w w'"
  by (erule setting_effect) (auto intro!: quiet_one simp: same_funds_core)

lemma nominate_quiet: "nominate_admin E t A k w = Inr w' \<Longrightarrow> quiet E w w'"
  by (erule nominate_cases) (simp add: quiet_same)

lemmas other_field_simps = same_funds_def vault_id_def vault_ok_def gate_change_def

lemma accept_quiet: "accept_admin_nomination E t A w = Inr w' \<Longrightarrow> quiet E w w'"
  by (erule accept_cases) (auto intro!: quiet_one simp: other_field_simps)

lemma register_quiet: "register_subaccount E t A k w = Inr w' \<Longrightarrow> quiet E w w'"
  by (erule register_cases) (auto intro!: quiet_one simp: other_field_simps)

lemma deregister_quiet: "deregister_subaccount E t A w = Inr w' \<Longrightarrow> quiet E w w'"
  by (erule deregister_cases) (auto intro!: quiet_one simp: other_field_simps)

lemma settle_quiet: "settle_subaccount_loss E t A n w = Inr w' \<Longrightarrow> quiet E w w'"
  by (erule settle_cases) (auto intro!: quiet_one simp: other_field_simps)

lemma update_aum_quiet: "operator_update_aum E t A n w = Inr w' \<Longrightarrow> quiet E w w'"
  by (auto simp: operator_update_aum_def load_simps constraint_simps world_updates other_field_simps
      intro!: quiet_one)

lemma attach_quiet: "attach_withdrawal_queue E t A w = Inr w' \<Longrightarrow> quiet E w w'"
  by (erule attach_cases) (auto intro!: quiet_one simp: other_field_simps world_updates)

lemma detach_quiet: "detach_withdrawal_queue E t A w = Inr w' \<Longrightarrow> quiet E w w'"
  by (erule detach_cases) (auto intro!: quiet_one simp: other_field_simps world_updates)

lemma config_quiet:
  "initialize_config E t A1 k w = Inr w' \<Longrightarrow> quiet E w w'"
  "set_config_authority E t A2 k w = Inr w' \<Longrightarrow> quiet E w w'"
  "override_config_authority E t A3 k w = Inr w' \<Longrightarrow> quiet E w w'"
  by (auto simp: initialize_config_def set_config_authority_def override_config_authority_def
      upgrade_authority_def put_config_def load_simps constraint_simps intro!: quiet_same)

lemma metadata_quiet: "run_metadata E t i w = Inr w' \<Longrightarrow> quiet E w w'"
  by (cases i) (auto simp: create_share_token_metadata_def update_share_token_metadata_def
      constraint_simps intro!: quiet_same)

section \<open>A turn of the vault program\<close>

definition vault_turn :: "env \<Rightarrow> pubkey set \<Rightarrow> pubkey set \<Rightarrow> world \<Rightarrow> world \<Rightarrow> bool" where
  "vault_turn E P S w w' \<longleftrightarrow>
     vaults_sound E P w' \<and> (\<exists>S'. S' \<subseteq> S \<union> dom (vaults w) \<and> turn E S' w w') \<and>
     (\<forall>V v'. vaults w' V = Some v' \<longrightarrow>
        (case vaults w V of
           Some v \<Rightarrow> gate_change E w V v v'
         | None \<Rightarrow> \<not> in_use w V \<and> v_withdrawal_queue_authority v' = default_key))"

lemma vault_turn_quiet:
  assumes "vaults_sound E P w" and "quiet E w w'"
  shows "vault_turn E P S w w'"
  using vaults_sound_quiet [OF assms] assms(2)
  by (fastforce simp: vault_turn_def quiet_def turn_def same_funds_def intro!: exI [of _ "{}"])

lemma vault_turn_one:
  assumes "vaults_sound E P w" and "turn E (insert V (signers t)) w w'"
    and "dom (vaults w) \<inter> signers t = {}" and "vaults w V = Some v"
    and "vaults w' = (vaults w)(V := x)"
    and "\<And>v'. x = Some v' \<Longrightarrow> vault_sound E P (ledger w') V v'"
    and "\<And>v'. x = Some v' \<Longrightarrow> v_withdrawal_queue_authority v' = v_withdrawal_queue_authority v"
  shows "vault_turn E P (signers t) w w'"
proof -
  have "vaults_sound E P w'"
    by (rule vaults_sound_turn [OF assms(1,2) _ assms(5,6)]) (use assms(3) in auto)
  moreover have "insert V (signers t) \<subseteq> signers t \<union> dom (vaults w)" using assms(4) by auto
  ultimately show ?thesis
    using assms(2,4,5,7) unfolding vault_turn_def
    by (auto simp: gate_change_def split: option.splits intro!: exI [of _ "insert V (signers t)"])
qed

lemma pinned:
  "well_addressed E P w \<Longrightarrow> vaults w V = Some v \<Longrightarrow> mints (ledger w) mint = Some m \<Longrightarrow>
   fst (find_program_address E (vault_state_seeds mint (v_vault_version v)) VAULT_PROGRAM_ID) = V \<Longrightarrow>
   mint = v_deposit_mint v"
  unfolding well_addressed_def by blast

lemma kept_both: "kept E S L L' \<Longrightarrow> kept E (insert V S) L' L'' \<Longrightarrow> kept E (insert V S) L L''"
  by (rule kept_trans [OF kept_mono [where S' = "insert V S"]]) auto

text \<open>\<open>deposit\<close>\<close>

lemma deposit_ctx_seeds:
  assumes "deposit_ctx E t A w = Inr (v, sm, dm)"
  shows "fst (find_program_address E (vault_state_seeds (dep_deposit_mint A) (v_vault_version v))
           VAULT_PROGRAM_ID) = dep_vault_state A"
    and "fst (find_program_address E (vault_token_seeds (dep_deposit_mint A) (v_vault_version v))
           VAULT_PROGRAM_ID) = dep_vault_token_ata A"
    and "fst (find_program_address E (share_mint_seeds (dep_deposit_mint A) (v_vault_version v))
           VAULT_PROGRAM_ID) = dep_share_mint A"
  using assms by (auto simp: deposit_ctx_def load_simps constraint_simps)

lemma deposit_turn:
  assumes laws: "spl_laws E" and ok: "deposit_checked E t A n m w = Inr w'"
    and vs: "vaults_sound E P w" and wa: "well_addressed E P w"
    and out: "dom (vaults w) \<inter> signers t = {}"
  shows "vault_turn E P (signers t) w w'"
  using ok
proof (cases rule: deposit_checked_cases)
  case (1 v sm dm L assets shares S L' local_aum)
  let ?V = "dep_vault_state A"
  note c = deposit_ctx_Inr [OF 1(1)]
  note sd = deposit_ctx_seeds [OF 1(1)]
  note s = vaults_soundD [OF vs c(1)]
  have S: "S = insert ?V (signers t)" by (rule vault_signs [OF 1(11) s])
  have w': "ledger w' = L'" "queues w' = queues w" "requests w' = requests w"
      "vaults w' = (vaults w)(?V \<mapsto> v\<lparr>v_local_aum := local_aum\<rparr>)"
    using 1(14) by (simp_all add: world_updates)
  have k: "kept E (insert ?V (signers t)) (ledger w) L' \<and> no_grant E (ledger w) L'"
    using spl_custody(1) [OF laws 1(5)] spl_custody(2) [OF laws 1(12)] S
    by (auto intro: kept_both no_grant_trans)
  have id: "dep_deposit_mint A = v_deposit_mint v" by (rule pinned [OF wa c(1,3) sd(1)])
  have sm: "dep_share_mint A = v_share_mint v" using vault_soundD(2) [OF s] sd(3) id by simp
  have rs: "dep_vault_token_ata A = reserve_of E v" using sd(2) id by (simp add: reserve_of_def)
  have "vault_sound E P L' ?V (v\<lparr>v_local_aum := local_aum\<rparr>)"
  proof (rule vault_sound_update [OF s])
    assume P: "v_deposit_mint v \<in> P"
    then have g: "guarded E (ledger w) (reserve_of E v) (v_deposit_mint v) ?V (unat (v_local_aum v))"
      by (rule vault_soundD(6) [OF s])
    have pl: "plain E (ledger w) (dep_deposit_mint A)" "plain E (ledger w) (dep_share_mint A)"
      using g vault_soundD(4) [OF s] id sm by (simp_all add: guarded_def)
    note tr = transfer_effect [OF laws pl(1) 1(5)]
    have "plain E L (dep_share_mint A)" using pl(2) moved_plain [OF tr(1)] by simp
    note mt = mint_effect [OF laws this 1(12)]
    have ne: "dep_sender_token_account A \<noteq> reserve_of E v" "dep_sender_share_account A \<noteq> reserve_of E v"
      using c(4,7-9) rs out vault_soundD(3) [OF s] sm id domI [of "vaults w", OF c(1)] by auto
    have "unat local_aum \<le> balance L' (reserve_of E v)"
      using g ne 1(13) by (simp add: mt(3) tr(5) rs guarded_def)
    then show "guarded E L' (reserve_of E v) (v_deposit_mint v) ?V
        (unat (v_local_aum (v\<lparr>v_local_aum := local_aum\<rparr>))) \<and>
      minter L' (v_share_mint v) = minter (ledger w) (v_share_mint v)"
      using guarded_moved [OF g moved_trans [OF tr(1) mt(1)]] k
        moved_minter [OF moved_trans [OF tr(1) mt(1)]] by simp
  qed (use k in \<open>auto simp: vault_id_def vault_ok_def intro: kept_plain\<close>)
  then show ?thesis
    by (intro vault_turn_one [OF vs _ out c(1) w'(4)]) (use k in \<open>auto simp: turn_def w'\<close>)
qed

text \<open>\<open>redeem\<close>\<close>

lemma redeem_ctx_seeds:
  assumes "redeem_ctx E t A w = Inr (v, sm, dm)"
  shows "fst (find_program_address E (vault_state_seeds (red_deposit_mint A) (v_vault_version v))
           VAULT_PROGRAM_ID) = red_vault_state A"
    and "fst (find_program_address E (vault_token_seeds (red_deposit_mint A) (v_vault_version v))
           VAULT_PROGRAM_ID) = red_vault_deposit_ata A"
    and "fst (find_program_address E (share_mint_seeds (red_deposit_mint A) (v_vault_version v))
           VAULT_PROGRAM_ID) = red_share_mint A"
  using assms by (auto simp: redeem_ctx_def load_simps constraint_simps)

lemma redeem_named:
  assumes "redeem_ctx E t A w = Inr (v, sm, dm)" and "vaults_sound E P w" and "well_addressed E P w"
  shows "red_deposit_mint A = v_deposit_mint v" and "red_share_mint A = v_share_mint v"
    and "red_vault_deposit_ata A = reserve_of E v"
proof -
  note c = redeem_ctx_Inr [OF assms(1)] and sd = redeem_ctx_seeds [OF assms(1)]
  note s = vaults_soundD [OF assms(2) c(1)]
  show id: "red_deposit_mint A = v_deposit_mint v" by (rule pinned [OF assms(3) c(1,3) sd(1)])
  show "red_share_mint A = v_share_mint v" using vault_soundD(2) [OF s] sd(3) id by simp
  show "red_vault_deposit_ata A = reserve_of E v" using sd(2) id by (simp add: reserve_of_def)
qed

text \<open>What leaves the reserve is at most what the vault's books let go.\<close>

lemma reserve_after_redeem:
  assumes "src \<noteq> escrow"
  shows "balance L src - (f + n) \<le>
    move src a n (move src b f (debit escrow s (balance L))) src"
  using assms by (cases "src = a"; cases "src = b") (auto simp: move_def)

lemma redeem_kept:
  assumes "spl_laws E" and "redeem_checked E t A n m w = Inr w'" and "vaults_sound E P w"
  shows "kept E (insert (red_vault_state A) (signers t)) (ledger w) (ledger w') \<and>
         no_grant E (ledger w) (ledger w')"
  using assms(2)
proof (cases rule: redeem_checked_cases)
  case (1 v sm dm T assets fees final S local_aum L1 L2 L3)
  note s = vaults_soundD [OF assms(3) redeem_ctx_Inr(1) [OF 1(1)]]
  have S: "S = insert (red_vault_state A) (signers t)" by (rule vault_signs [OF 1(12) s])
  have lw: "ledger w' = L3" using 1(15) by (simp add: world_updates)
  note k1 = spl_custody(3) [OF assms(1) 1(11)] and k2 = spl_custody(1) [OF assms(1) 1(13)]
    and k3 = spl_custody(1) [OF assms(1) 1(14)]
  have "kept E S (ledger w) L2" using kept_both k1 k2 S by blast
  then show ?thesis
    using k1 k2 k3 S unfolding lw by (auto intro: kept_trans no_grant_trans)
qed

lemma redeem_turn:
  assumes laws: "spl_laws E" and ok: "redeem_checked E t A n m w = Inr w'"
    and vs: "vaults_sound E P w" and wa: "well_addressed E P w"
    and out: "dom (vaults w) \<inter> signers t = {}"
  shows "vault_turn E P (signers t) w w'"
  using ok
proof (cases rule: redeem_checked_cases)
  case (1 v sm dm T assets fees final S local_aum L1 L2 L3)
  let ?V = "red_vault_state A"
  note c = redeem_ctx_Inr [OF 1(1)] and nm = redeem_named [OF 1(1) vs wa]
  note s = vaults_soundD [OF vs c(1)]
  note k = redeem_kept [OF laws ok vs]
  have w': "queues w' = queues w" "requests w' = requests w"
      "vaults w' = (vaults w)(?V \<mapsto> v\<lparr>v_local_aum := local_aum\<rparr>)"
    using 1(15) by (simp_all add: world_updates)
  have "vault_sound E P (ledger w') ?V (v\<lparr>v_local_aum := local_aum\<rparr>)"
  proof (rule vault_sound_update [OF s])
    assume P: "v_deposit_mint v \<in> P"
    then have g: "guarded E (ledger w) (reserve_of E v) (v_deposit_mint v) ?V (unat (v_local_aum v))"
      by (rule vault_soundD(6) [OF s])
    have pl: "plain E (ledger w) (red_deposit_mint A)" "plain E (ledger w) (red_share_mint A)"
      using g vault_soundD(4) [OF s] nm by (simp_all add: guarded_def)
    show "guarded E (ledger w') (reserve_of E v) (v_deposit_mint v) ?V
        (unat (v_local_aum (v\<lparr>v_local_aum := local_aum\<rparr>))) \<and>
      minter (ledger w') (v_share_mint v) = minter (ledger w) (v_share_mint v)"
      using redeem_effect [OF laws pl ok]
    proof cases
      case R: (1 v0 sm0 dm0 T0 assets0 fees0 net local0)
      have v0: "v0 = v" using redeem_ctx_Inr(1) [OF R(1)] c(1) by simp
      have "vaults w' = (vaults w)(?V \<mapsto> v0\<lparr>v_local_aum := local0\<rparr>)" by (subst R(11)) simp
      then have "v\<lparr>v_local_aum := local_aum\<rparr> = v\<lparr>v_local_aum := local0\<rparr>"
        using w'(3) v0 by (auto dest!: fun_cong [of _ _ ?V])
      from arg_cong [OF this, of v_local_aum] have "local0 = local_aum" by simp
      then have l': "unat (v_local_aum v) = unat fees0 + unat net + unat local_aum"
        using R(7,10) v0 by simp
      have ne: "reserve_of E v \<noteq> red_sender_share_account A"
        using c(7,9) nm vault_soundD(3) [OF s] by auto
      have mv: "moved (ledger w) (ledger w')" using R(9) by (simp add: redeemed_def)
      have "balance (ledger w) (reserve_of E v) - (unat fees0 + unat net) \<le>
          balance (ledger w') (reserve_of E v)"
        using R(9) reserve_after_redeem [OF ne] nm by (simp add: redeemed_def)
      then have "unat local_aum \<le> balance (ledger w') (reserve_of E v)"
        using g l' unfolding guarded_def by linarith
      then show ?thesis using guarded_moved [OF g mv] k moved_minter [OF mv] by simp
    qed
  qed (use k in \<open>auto simp: vault_id_def vault_ok_def intro: kept_plain\<close>)
  then show ?thesis
    by (intro vault_turn_one [OF vs _ out c(1) w'(3)]) (use k in \<open>auto simp: turn_def w'\<close>)
qed

text \<open>The share account a redemption burns from, in the redeemer's hands before and after.\<close>

lemma redeem_share_account:
  assumes "spl_laws E" and "redeem_checked E t A n m w = Inr w'"
    and "vaults_sound E P w" and "well_addressed E P w"
    and "guarded E (ledger w) (red_sender_share_account A) (red_share_mint A) owner b"
    and "plain E (ledger w) (red_deposit_mint A)" and "red_share_mint A \<noteq> red_deposit_mint A"
  shows "guarded E (ledger w') (red_sender_share_account A) (red_share_mint A) owner (b - unat n)"
proof -
  have pl: "plain E (ledger w) (red_share_mint A)" using assms(5) by (simp add: guarded_def)
  from redeem_effect [OF assms(1,6) pl assms(2)] obtain v sm dm fees net where
    eff: "redeemed A n fees net (ledger w) (ledger w')" and c: "redeem_ctx E t A w = Inr (v, sm, dm)"
    by cases
  note c = redeem_ctx_Inr [OF c]
  have "red_sender_share_account A \<notin>
      {red_vault_deposit_ata A, red_sender_token_account A, red_fee_recipient_account A}"
    using c(7-10) assms(7) by auto
  then have "balance (ledger w') (red_sender_share_account A) =
      balance (ledger w) (red_sender_share_account A) - unat n"
    using eff by (simp add: redeemed_def)
  then have "b - unat n \<le> balance (ledger w') (red_sender_share_account A)"
    using assms(5) unfolding guarded_def by linarith
  then show ?thesis
    using eff redeem_kept [OF assms(1-3)]
    by (intro guarded_moved [OF assms(5)]) (simp_all add: redeemed_def)
qed

text \<open>\<open>operator_withdraw\<close> and \<open>operator_deposit\<close>\<close>

lemma operator_named:
  assumes "operator_ctx E t A w = Inr (v, dest, dm, sub)" and "well_addressed E P w"
  shows "oa_deposit_mint A = v_deposit_mint v" and "oa_vault_deposit_ata A = reserve_of E v"
proof -
  have sd: "fst (find_program_address E (vault_state_seeds (oa_deposit_mint A) (v_vault_version v))
           VAULT_PROGRAM_ID) = oa_vault_state A"
      "fst (find_program_address E (vault_token_seeds (oa_deposit_mint A) (v_vault_version v))
           VAULT_PROGRAM_ID) = oa_vault_deposit_ata A"
    using assms(1) by (auto simp: operator_ctx_def load_simps constraint_simps)
  show id: "oa_deposit_mint A = v_deposit_mint v"
    by (rule pinned [OF assms(2) operator_ctx_Inr(1,2) [OF assms(1)] sd(1)])
  show "oa_vault_deposit_ata A = reserve_of E v" using sd(2) id by (simp add: reserve_of_def)
qed

lemma put_optional_requests [simp]:
  "requests (put_optional_subaccount k s w) = requests w"
  by simp

text \<open>Both move tokens between the reserve and one other account and book as much.\<close>

lemma operator_turn:
  assumes laws: "spl_laws E" and vs: "vaults_sound E P w" and wa: "well_addressed E P w"
    and out: "dom (vaults w) \<inter> signers t = {}"
    and c: "operator_ctx E t A w = Inr (v, dest, dm, sub)" and S: "S \<subseteq> insert (oa_vault_state A) (signers t)"
    and tr: "transfer_checked E prog S src (oa_deposit_mint A) dst auth n (mi_decimals dm) (ledger w) = Inr L"
    and id: "vault_id v' = vault_id v" "vault_ok v \<longrightarrow> vault_ok v'"
      "v_withdrawal_queue_authority v' = v_withdrawal_queue_authority v"
    and w': "ledger w' = L" "queues w' = queues w" "requests w' = requests w"
      "vaults w' = (vaults w)(oa_vault_state A \<mapsto> v')"
    and bal: "balance L = move src dst (unat n) (balance (ledger w)) \<Longrightarrow>
      unat n \<le> balance (ledger w) src \<Longrightarrow>
      unat (v_local_aum v) \<le> balance (ledger w) (reserve_of E v) \<Longrightarrow>
      unat (v_local_aum v') \<le> balance L (reserve_of E v)"
  shows "vault_turn E P (signers t) w w'"
proof -
  let ?V = "oa_vault_state A"
  note o = operator_ctx_Inr [OF c] and nm = operator_named [OF c wa]
  note s = vaults_soundD [OF vs o(1)]
  have k: "kept E (insert ?V (signers t)) (ledger w) L \<and> no_grant E (ledger w) L"
    using spl_custody(1) [OF laws tr] kept_mono [OF _ S] by blast
  have "vault_sound E P L ?V v'"
  proof (rule vault_sound_update [OF s id(1)])
    assume P: "v_deposit_mint v \<in> P"
    then have g: "guarded E (ledger w) (reserve_of E v) (v_deposit_mint v) ?V (unat (v_local_aum v))"
      by (rule vault_soundD(6) [OF s])
    then have pl: "plain E (ledger w) (oa_deposit_mint A)" using nm by (simp add: guarded_def)
    note e = transfer_effect [OF laws pl tr]
    have "unat (v_local_aum v') \<le> balance L (reserve_of E v)"
      using bal [OF e(5,4)] g by (simp add: guarded_def)
    then show "guarded E L (reserve_of E v) (v_deposit_mint v) ?V (unat (v_local_aum v')) \<and>
      minter L (v_share_mint v) = minter (ledger w) (v_share_mint v)"
      using guarded_moved [OF g e(1)] k moved_minter [OF e(1)] by simp
  qed (use k id in \<open>auto intro: kept_plain\<close>)
  then show ?thesis
    by (intro vault_turn_one [OF vs _ out o(1) w'(4)]) (use k id in \<open>auto simp: turn_def w'\<close>)
qed

lemma operator_fields:
  assumes "v' = v\<lparr>v_local_aum := x, v_deployed_aum := y, v_deployed_principal := z\<rparr>"
  shows "vault_id v' = vault_id v" and "vault_ok v \<longrightarrow> vault_ok v'"
    and "v_withdrawal_queue_authority v' = v_withdrawal_queue_authority v"
  by (simp_all add: assms vault_id_def vault_ok_def)

lemma operator_withdraw_turn:
  assumes laws: "spl_laws E" and ok: "operator_withdraw E t A n w = Inr w'"
    and vs: "vaults_sound E P w" and wa: "well_addressed E P w"
    and out: "dom (vaults w) \<inter> signers t = {}"
  shows "vault_turn E P (signers t) w w'"
  using ok
proof (cases rule: operator_withdraw_cases)
  case (1 v dest dm sub S L v' sub')
  have S: "S = insert (oa_vault_state A) (signers t)"
    by (rule vault_signs [OF 1(5) vaults_soundD [OF vs operator_ctx_Inr(1) [OF 1(1)]]])
  note nm = operator_named [OF 1(1) wa]
  show ?thesis
  proof (rule operator_turn [OF laws vs wa out 1(1) _ 1(6) operator_fields [OF 1(7)]])
    assume b: "balance L = move (oa_vault_deposit_ata A) (oa_operator_token_account A) (unat n)
        (balance (ledger w))" and "unat (v_local_aum v) \<le> balance (ledger w) (reserve_of E v)"
    then show "unat (v_local_aum v') \<le> balance L (reserve_of E v)"
      unfolding b 1(8) nm(2) by (auto simp: move_def)
  qed (use S in \<open>simp_all add: 1(12) world_updates\<close>)
qed

lemma operator_deposit_turn:
  assumes laws: "spl_laws E" and ok: "operator_deposit E t A n w = Inr w'"
    and vs: "vaults_sound E P w" and wa: "well_addressed E P w"
    and out: "dom (vaults w) \<inter> signers t = {}"
  shows "vault_turn E P (signers t) w w'"
  using ok
proof (cases rule: operator_deposit_cases)
  case (1 v source dm sub auth S L v' sub')
  note o = operator_ctx_Inr [OF 1(1)] and nm = operator_named [OF 1(1) wa]
  have S: "S \<subseteq> insert (oa_vault_state A) (signers t)"
    using 1(4) vault_signs [OF _ vaults_soundD [OF vs o(1)]] by (auto split: if_splits)
  have ne: "oa_operator_token_account A \<noteq> reserve_of E v"
  proof
    assume eq: "oa_operator_token_account A = reserve_of E v"
    then have "ta_owner source = oa_vault_state A" using o(3,6) nm by (simp add: holder_def)
    then have "associated_token_address E (oa_vault_state A) (v_deposit_mint v) (oa_token_program A) =
        reserve_of E v"
      using o(7,8) nm(1) eq by simp
    moreover have "oa_token_program A \<in> {spl_token_id E, token_2022_id E}"
      using 1(1) by (auto simp: operator_ctx_def constraint_simps token_interface_def)
    ultimately show False using wa o(1) unfolding well_addressed_def by blast
  qed
  show ?thesis
  proof (rule operator_turn [OF laws vs wa out 1(1) S 1(5) operator_fields [OF 1(6)]])
    assume b: "balance L = move (oa_operator_token_account A) (oa_vault_deposit_ata A) (unat n)
        (balance (ledger w))" and "unat (v_local_aum v) \<le> balance (ledger w) (reserve_of E v)"
    then show "unat (v_local_aum v') \<le> balance L (reserve_of E v)"
      unfolding b 1(7) nm(2) using ne by simp
  qed (simp_all add: 1(11) world_updates)
qed

text \<open>\<open>initialize\<close> and \<open>close_vault\<close>\<close>

lemma initialize_seeds:
  assumes "initialize_create E t A version dm w = Inr w'"
  shows "fst (find_program_address E (vault_state_seeds (ini_deposit_mint A) version)
           VAULT_PROGRAM_ID) = ini_vault_state A"
    and "fst (find_program_address E (share_mint_seeds (ini_deposit_mint A) version)
           VAULT_PROGRAM_ID) = ini_share_mint A"
    and "fst (find_program_address E (vault_token_seeds (ini_deposit_mint A) version)
           VAULT_PROGRAM_ID) = ini_vault_token_ata A"
  using assms by (auto simp: initialize_create_def constraint_simps Let_def)

lemma plain_fresh: "mints L k = Some (fresh_mint prog dec auth) \<Longrightarrow> plain E L k"
  by (simp add: plain_def plain_mint_def fresh_mint_def metadata_only_def)

lemma initialize_turn:
  assumes laws: "spl_laws E" "pda_laws E"
    and ok: "initialize E t A admin operator fee_recipient version offset w = Inr w'"
    and vs: "vaults_sound E P w" and wa: "well_addressed E P w"
  shows "vault_turn E P S w w'"
  using ok
proof (cases rule: initialize_cases)
  case (1 c dm w1)
  let ?V = "ini_vault_state A"
  let ?v = "vault_init operator admin (ini_share_mint A) (ini_deposit_mint A) fee_recipient 0
      (snd (find_program_address E (vault_state_seeds (ini_deposit_mint A) version) VAULT_PROGRAM_ID))
      version offset zero_vault"
  note cr = initialize_create_Inr [OF laws(1) 1(6)] and sd = initialize_seeds [OF 1(6)]
  note off = valid_offset [OF 1(7)]
  have eq: "w' = w\<lparr>vaults := (vaults w)(?V \<mapsto> ?v), ledger := ledger w1\<rparr>"
    by (subst 1(8), subst cr(5)) (simp add: put_vault_def)
  have w': "ledger w' = ledger w1" "vaults w' = (vaults w)(?V \<mapsto> ?v)" "queues w' = queues w"
      "requests w' = requests w"
    by (subst eq, simp)+
  have free: "mints (ledger w) (ini_share_mint A) = None" "tokens (ledger w) (ini_vault_token_ata A) = None"
      "vaults w ?V = None"
    using cr(1-3) by (simp_all add: in_use_def)
  let ?L = "(ledger w)\<lparr>mints := mints (ledger w1)\<rparr>"
  have k: "kept E {} (ledger w) (ledger w1)"
    by (rule kept_trans [OF kept_fresh_mint [of ?L] kept_fresh [of _ ?L]])
      (use cr(6,7) free in simp_all)
  have n: "no_grant E (ledger w) (ledger w1)"
    by (rule no_grant_fresh [OF cr(7)]) (simp_all add: fresh_token_account_def)
  have "vault_sound E P (ledger w1) ?V ?v"
  proof -
    have "create_program_address E (vault_seeds ?v) VAULT_PROGRAM_ID = Some ?V"
      using find_create [OF laws(2), of "vault_state_seeds (ini_deposit_mint A) version" VAULT_PROGRAM_ID]
        sd(1)
      by (simp add: vault_seeds_def vault_init_def vault_state_seeds_def)
    moreover have "guarded E (ledger w1) (reserve_of E ?v) (v_deposit_mint ?v) ?V 0"
      if "v_deposit_mint ?v \<in> P"
    proof -
      have "plain_mint E dm"
        using wa that 1(5) unfolding well_addressed_def by (auto simp: vault_init_def)
      then have "plain E (ledger w1) (ini_deposit_mint A)"
        using 1(5) kept_plain [OF k] by (simp add: plain_def)
      then show ?thesis
        using cr(7) sd(3)
        by (simp add: guarded_def reserve_of_def vault_init_def holder_def unencumbered_def
            fresh_token_account_def)
    qed
    moreover have "plain E (ledger w1) (ini_share_mint A)" by (rule plain_fresh) (simp add: cr(6))
    moreover have "minter (ledger w1) (ini_share_mint A) = Some ?V"
      by (simp add: minter_def cr(6) fresh_mint_def)
    moreover have "ini_share_mint A \<noteq> ini_deposit_mint A" using free(1) 1(5) by auto
    moreover have "vault_ok ?v" using off by (auto simp: vault_ok_def vault_init_def)
    moreover have "v_local_aum ?v = 0" by (simp add: vault_init_def zero_vault_def)
    ultimately show ?thesis
      using sd(2) by (simp add: vault_sound_def) (simp add: vault_init_def)
  qed
  moreover have t: "turn E {} w w'" using k n by (simp add: turn_def w')
  ultimately have "vaults_sound E P w'"
    by (intro vaults_sound_turn [OF vs t _ w'(2)]) (auto simp: w')
  then show ?thesis
    using t cr(1) free(3) w'(2) unfolding vault_turn_def
    by (auto simp: vault_init_def zero_vault_def default_key_def gate_change_def
        split: option.splits intro!: exI [of _ "{}"])
qed

lemma close_turn:
  assumes laws: "spl_laws E" and ok: "close_vault E t A w = Inr w'"
    and vs: "vaults_sound E P w" and out: "dom (vaults w) \<inter> signers t = {}"
  shows "vault_turn E P (signers t) w w'"
  using ok laws
proof (cases rule: close_cases)
  case (1 v sm S)
  have S: "S = insert (cl_vault_state A) (signers t)"
    by (rule vault_signs [OF 1(11) vaults_soundD [OF vs 1(1)]])
  have w': "vaults w' = (vaults w)(cl_vault_state A := None)" "queues w' = queues w"
      "requests w' = requests w"
    by (subst 1(10), simp)+
  show ?thesis
    by (rule vault_turn_one [OF vs _ out 1(1) w'(1)]) (use 1(12) S in \<open>simp_all add: turn_def w'\<close>)
qed

section \<open>The vault program as a whole\<close>

lemma vault_program_turn:
  assumes laws: "spl_laws E" "pda_laws E" and ok: "run E t i w = Inr w'" and i: "\<forall>j. i \<noteq> Queue j"
    and vs: "vaults_sound E P w" and wa: "well_addressed E P w"
    and out: "dom (vaults w) \<inter> signers t = {}"
  shows "vault_turn E P (signers t) w w'"
proof (cases i)
  case (Setup j)
  then show ?thesis
    using ok by (cases j)
      (auto intro: vault_turn_quiet [OF vs] config_quiet initialize_turn [OF laws _ vs wa])
next
  case (User j)
  then show ?thesis
    using ok by (cases j)
      (auto simp: deposit_def redeem_def intro: deposit_turn [OF laws(1) _ vs wa out]
        redeem_turn [OF laws(1) _ vs wa out])
next
  case (Operator j)
  then show ?thesis
    using ok by (cases j)
      (auto intro: vault_turn_quiet [OF vs] update_aum_quiet
        operator_withdraw_turn [OF laws(1) _ vs wa out] operator_deposit_turn [OF laws(1) _ vs wa out])
next
  case (Registry j)
  then show ?thesis
    using ok by (cases j)
      (auto intro: vault_turn_quiet [OF vs] register_quiet deregister_quiet settle_quiet)
next
  case (Admin j)
  then show ?thesis
    using ok by (cases j)
      (auto intro: vault_turn_quiet [OF vs] setting_quiet nominate_quiet accept_quiet attach_quiet
        detach_quiet close_turn [OF laws(1) _ vs out])
next
  case (Metadata j)
  then show ?thesis using ok by (auto intro: vault_turn_quiet [OF vs] metadata_quiet)
qed (use i in simp)

end
