(* ===== verification/QueueBook.thy ===== *)
theory QueueBook
  imports Soundness
begin

text \<open>
  The queue's books against the request accounts: which requests are pending, that the two counters
  count them and their shares, that their stamps are distinct, and that the share escrow covers them.
\<close>

section \<open>The pending requests of a queue\<close>

type_synonym request_map = "pubkey \<rightharpoonup> withdrawal_request"

definition pending :: "request_map \<Rightarrow> pubkey \<Rightarrow> pubkey set" where
  "pending R Q = {k. \<exists>r. R k = Some r \<and> r_queue r = Q}"

definition shares_at :: "request_map \<Rightarrow> pubkey \<Rightarrow> u64" where
  "shares_at R k = (case R k of None \<Rightarrow> 0 | Some r \<Rightarrow> r_shares r)"

definition stamp_at :: "request_map \<Rightarrow> pubkey \<Rightarrow> nat" where
  "stamp_at R k = (case R k of None \<Rightarrow> 0 | Some r \<Rightarrow> unat (r_sequence r))"

definition book_sound :: "request_map \<Rightarrow> pubkey \<Rightarrow> withdrawal_queue \<Rightarrow> bool" where
  "book_sound R Q q \<longleftrightarrow>
     finite (pending R Q) \<and>
     counters.books q (image_mset (shares_at R) (mset_set (pending R Q))) \<and>
     inj_on (stamp_at R) (pending R Q) \<and> stamp_at R ` pending R Q \<subseteq> {1..unat (q_sequence q)}"

text \<open>A change that no request of \<open>Q\<close> and no counter shows.\<close>

lemma book_sound_cong:
  assumes "book_sound R Q q" and "pending R' Q = pending R Q"
    and "\<And>k. k \<in> pending R Q \<Longrightarrow> shares_at R' k = shares_at R k \<and> stamp_at R' k = stamp_at R k"
    and "q_pending_requests q' = q_pending_requests q" and "q_pending_shares q' = q_pending_shares q"
    and "q_sequence q' = q_sequence q"
  shows "book_sound R' Q q'"
proof -
  have "image_mset (shares_at R') (mset_set (pending R Q)) =
      image_mset (shares_at R) (mset_set (pending R Q))"
    using assms(1,3) by (intro image_mset_cong) (simp add: book_sound_def)
  moreover have "inj_on (stamp_at R') (pending R Q) = inj_on (stamp_at R) (pending R Q)"
    using assms(3) by (intro inj_on_cong) simp
  moreover have "stamp_at R' ` pending R Q = stamp_at R ` pending R Q"
    using assms(3) by (intro image_cong) simp_all
  ultimately show ?thesis
    using assms(1,2,4-6) by (simp add: book_sound_def counters.books_def)
qed

lemma pending_open: "R k = None \<Longrightarrow> r_queue r = Q \<Longrightarrow> pending (R(k \<mapsto> r)) Q = insert k (pending R Q)"
  by (auto simp: pending_def)

lemma pending_close: "pending (R(k := None)) Q = pending R Q - {k}"
  by (auto simp: pending_def)

lemma pending_other:
  "(\<And>r. R k = Some r \<Longrightarrow> r_queue r \<noteq> Q) \<Longrightarrow> (\<And>r. x = Some r \<Longrightarrow> r_queue r \<noteq> Q) \<Longrightarrow>
   pending (R(k := x)) Q = pending R Q"
  by (auto simp: pending_def)

lemma not_pending: "(\<And>r. R k = Some r \<Longrightarrow> r_queue r \<noteq> Q) \<Longrightarrow> k \<notin> pending R Q"
  by (auto simp: pending_def)

lemma at_other [simp]:
  "j \<noteq> k \<Longrightarrow> shares_at (R(k := x)) j = shares_at R j" "j \<noteq> k \<Longrightarrow> stamp_at (R(k := x)) j = stamp_at R j"
  "shares_at (R(k \<mapsto> r)) k = r_shares r" "stamp_at (R(k \<mapsto> r)) k = unat (r_sequence r)"
  by (simp_all add: shares_at_def stamp_at_def)

lemma book_sound_other:
  assumes "book_sound R Q q" and "\<And>r. R k = Some r \<Longrightarrow> r_queue r \<noteq> Q" and "\<And>r. x = Some r \<Longrightarrow> r_queue r \<noteq> Q"
  shows "book_sound (R(k := x)) Q q"
proof (rule book_sound_cong [OF assms(1) pending_other])
  fix j assume "j \<in> pending R Q"
  then have "j \<noteq> k" using assms(2) by (auto simp: pending_def)
  then show "shares_at (R(k := x)) j = shares_at R j \<and> stamp_at (R(k := x)) j = stamp_at R j" by simp
qed (use assms(2,3) in simp_all)

lemma book_sound_open:
  assumes "book_sound R Q q" and "open_request (r_shares r) q = Inr (q', r_sequence r)"
    and "R k = None" and "r_queue r = Q"
  shows "book_sound (R(k \<mapsto> r)) Q q'"
proof -
  let ?R = "R(k \<mapsto> r)"
  have fin: "finite (pending R Q)" and k: "k \<notin> pending R Q"
    using assms(1,3) by (auto simp: book_sound_def pending_def)
  have p: "pending ?R Q = insert k (pending R Q)" using assms(3,4) by (rule pending_open)
  have "counters.books q (image_mset (shares_at R) (mset_set (pending R Q)))"
    using assms(1) by (simp add: book_sound_def)
  from counters.books_open [OF this assms(2)]
  have b: "counters.books q' (add_mset (r_shares r) (image_mset (shares_at R) (mset_set (pending R Q))))" .
  have i: "image_mset (shares_at ?R) (mset_set (pending R Q)) =
      image_mset (shares_at R) (mset_set (pending R Q))"
    using fin k by (intro image_mset_cong) (metis at_other(1) elem_mset_set)
  have s: "stamp_at ?R j = stamp_at R j" if "j \<in> pending R Q" for j using k that by (metis at_other(2))
  have im: "stamp_at ?R ` pending R Q = stamp_at R ` pending R Q" using s by (intro image_cong) simp_all
  have new: "stamp_at ?R k = unat (q_sequence q) + 1" "unat (q_sequence q') = unat (q_sequence q) + 1"
    using assms(2) by (auto simp: open_request_Inr)
  have old: "stamp_at R ` pending R Q \<subseteq> {1..unat (q_sequence q)}" "inj_on (stamp_at R) (pending R Q)"
    using assms(1) by (simp_all add: book_sound_def)
  have "inj_on (stamp_at ?R) (pending R Q)" using old(2) s inj_on_cong by metis
  moreover have "stamp_at ?R k \<notin> stamp_at ?R ` pending R Q"
    unfolding im new(1) using old(1) by auto
  ultimately have "inj_on (stamp_at ?R) (insert k (pending R Q))" using k by (simp add: inj_on_insert)
  moreover have "stamp_at ?R ` insert k (pending R Q) \<subseteq> {1..unat (q_sequence q')}"
    unfolding image_insert im new using old(1) by auto
  ultimately show ?thesis
    using fin b k by (simp add: book_sound_def p i)
qed

lemma book_sound_close:
  assumes "book_sound R Q q" and "close_request (r_shares r) q = Inr q'"
    and "R k = Some r" and "r_queue r = Q"
  shows "book_sound (R(k := None)) Q q'"
proof -
  let ?R = "R(k := None)"
  let ?P = "pending R Q - {k}"
  have fin: "finite (pending R Q)" and k: "k \<in> pending R Q"
    using assms(1,3,4) by (auto simp: book_sound_def pending_def)
  have "mset_set (pending R Q) = add_mset k (mset_set ?P)"
    using fin k by (metis finite_Diff insert_Diff insert_Diff_single mset_set.insert_remove)
  then have "counters.books q (add_mset (r_shares r) (image_mset (shares_at R) (mset_set ?P)))"
    using assms(1,3) by (simp add: book_sound_def shares_at_def)
  from counters.books_close [OF this] assms(2)
  have "counters.books q' (image_mset (shares_at R) (mset_set ?P))" by auto
  moreover have "image_mset (shares_at ?R) (mset_set ?P) = image_mset (shares_at R) (mset_set ?P)"
    using fin by (intro image_mset_cong) auto
  moreover have "inj_on (stamp_at ?R) ?P = inj_on (stamp_at R) ?P"
    by (intro inj_on_cong) simp
  moreover have "stamp_at ?R ` ?P = stamp_at R ` ?P" by (intro image_cong) auto
  moreover have "q_sequence q' = q_sequence q" using assms(2) by (rule close_request_cases) simp
  ultimately show ?thesis
    using assms(1) fin
    by (auto simp: book_sound_def pending_close intro: inj_on_subset)
qed

text \<open>Every pending request can be closed.\<close>

lemma book_sound_closes:
  assumes "book_sound R Q q" and "R k = Some r" and "r_queue r = Q"
  shows "is_ok (close_request (r_shares r) q)" and "r_shares r \<le> q_pending_shares q"
proof -
  have fin: "finite (pending R Q)" and k: "k \<in> pending R Q"
    using assms by (auto simp: book_sound_def pending_def)
  have "mset_set (pending R Q) = add_mset k (mset_set (pending R Q - {k}))"
    using fin k by (metis finite_Diff insert_Diff insert_Diff_single mset_set.insert_remove)
  then have "counters.books q (add_mset (r_shares r)
      (image_mset (shares_at R) (mset_set (pending R Q - {k}))))"
    using assms(1,2) by (simp add: book_sound_def shares_at_def)
  from counters.books_close [OF this] show "is_ok (close_request (r_shares r) q)"
    by (auto simp: is_ok_iff)
  then show "r_shares r \<le> q_pending_shares q" by (simp add: close_request_ok)
qed

end
