(* ===== verification/Invariant.thy ===== *)
theory Invariant
  imports QueueBook
begin

text \<open>
  The invariant of the two programs together, and that every step of the system keeps it: sound
  vaults, sound queues, and gates that only ever point at the vault's own live queue.
\<close>

section \<open>The invariant\<close>

definition queue_sound :: "env \<Rightarrow> ledger \<Rightarrow> request_map \<Rightarrow> pubkey \<Rightarrow> withdrawal_queue \<Rightarrow> bool" where
  "queue_sound E L R Q q \<longleftrightarrow>
     create_program_address E (queue_seeds (q_vault_state q) @ [[q_bump q]])
       WITHDRAWAL_QUEUE_PROGRAM_ID = Some Q \<and>
     settings_ok q \<and> plain E L (q_deposit_mint q) \<and> q_share_mint q \<noteq> q_deposit_mint q \<and>
     guarded E L (q_escrow_shares q) (q_share_mint q) Q (unat (q_pending_shares q)) \<and>
     book_sound R Q q"

definition gates_sound :: "world \<Rightarrow> bool" where
  "gates_sound w \<longleftrightarrow>
     (\<forall>V v Q. vaults w V = Some v \<longrightarrow> withdrawal_queue v = Some Q \<longrightarrow>
        (\<exists>q. queues w Q = Some q \<and> q_vault_state q = V))"

definition system_ok :: "env \<Rightarrow> pubkey set \<Rightarrow> world \<Rightarrow> bool" where
  "system_ok E P w \<longleftrightarrow>
     spl_laws E \<and> pda_laws E \<and> undelegated E {k. own_pda E k} (ledger w) \<and>
     vaults_sound E P w \<and>
     (\<forall>Q q. queues w Q = Some q \<longrightarrow> queue_sound E (ledger w) (requests w) Q q) \<and>
     (\<forall>k r. requests w k = Some r \<longrightarrow> queues w (r_queue r) \<noteq> None) \<and>
     gates_sound w \<and> dom (vaults w) \<inter> dom (queues w) = {}"

lemma system_okD:
  assumes "system_ok E P w"
  shows "spl_laws E" and "pda_laws E" and "undelegated E {k. own_pda E k} (ledger w)"
    and "vaults_sound E P w" and "gates_sound w" and "dom (vaults w) \<inter> dom (queues w) = {}"
    and "\<And>Q q. queues w Q = Some q \<Longrightarrow> queue_sound E (ledger w) (requests w) Q q"
    and "\<And>k r. requests w k = Some r \<Longrightarrow> queues w (r_queue r) \<noteq> None"
  using assms unfolding system_ok_def by blast+

lemma queue_soundD:
  assumes "queue_sound E L R Q q"
  shows "create_program_address E (queue_seeds (q_vault_state q) @ [[q_bump q]])
       WITHDRAWAL_QUEUE_PROGRAM_ID = Some Q" and "settings_ok q"
    and "plain E L (q_deposit_mint q)" and "q_share_mint q \<noteq> q_deposit_mint q"
    and "guarded E L (q_escrow_shares q) (q_share_mint q) Q (unat (q_pending_shares q))"
    and "plain E L (q_share_mint q)" and "book_sound R Q q"
  using assms by (auto simp: queue_sound_def guarded_def)

lemma queue_sound_pda: "queue_sound E L R Q q \<Longrightarrow> own_pda E Q"
  by (auto simp: queue_sound_def own_pda_def)

lemma queue_sound_kept:
  assumes "queue_sound E L R Q q" and "kept E S L L'" and "Q \<notin> S" and "book_sound R' Q q"
  shows "queue_sound E L' R' Q q"
  using assms unfolding queue_sound_def by (blast intro: kept_plain guarded_kept)

lemma queue_sound_pda': "system_ok E P w \<Longrightarrow> queues w Q = Some q \<Longrightarrow> own_pda E Q"
  by (rule queue_sound_pda [OF system_okD(7)])

lemma vault_pda: "vaults_sound E P w \<Longrightarrow> vaults w V = Some v \<Longrightarrow> own_pda E V"
  by (rule vault_sound_pda [OF vaults_soundD])

lemma outside_vaults: "vaults_sound E P w \<Longrightarrow> outside E S \<Longrightarrow> dom (vaults w) \<inter> S = {}"
  by (auto simp: outside_def dest: vault_pda)

lemma outside_queues: "system_ok E P w \<Longrightarrow> outside E S \<Longrightarrow> dom (queues w) \<inter> S = {}"
  by (auto simp: outside_def dest: queue_sound_pda')

section \<open>A turn of the vault program keeps it\<close>

lemma vault_turnD:
  assumes "vault_turn E P S w w'" and "vaults w' V = Some v'"
  shows "vaults w V = None \<Longrightarrow> \<not> in_use w V \<and> v_withdrawal_queue_authority v' = default_key"
    and "vaults w V = Some v \<Longrightarrow> gate_change E w V v v'"
proof -
  have "case vaults w V of Some v \<Rightarrow> gate_change E w V v v'
      | None \<Rightarrow> \<not> in_use w V \<and> v_withdrawal_queue_authority v' = default_key"
    using assms unfolding vault_turn_def by blast
  then show "vaults w V = None \<Longrightarrow> \<not> in_use w V \<and> v_withdrawal_queue_authority v' = default_key"
    and "vaults w V = Some v \<Longrightarrow> gate_change E w V v v'" by simp_all
qed

lemma vault_turn_gates:
  assumes "system_ok E P w" and "well_addressed E P w" and "vault_turn E P S w w'"
    and "queues w' = queues w"
  shows "gates_sound w'"
  unfolding gates_sound_def
proof (intro allI impI)
  fix V v' Q assume v': "vaults w' V = Some v'" and g: "withdrawal_queue v' = Some Q"
  show "\<exists>q. queues w' Q = Some q \<and> q_vault_state q = V"
  proof (cases "vaults w V")
    case None
    then show ?thesis using vault_turnD(1) [OF assms(3) v'] g by (auto simp: withdrawal_queue_Some)
  next
    case (Some v)
    then have "gate_change E w V v v'" by (rule vault_turnD(2) [OF assms(3) v'])
    then consider "withdrawal_queue v = Some Q"
      | "Q = withdrawal_queue_pda E V" "in_use w (withdrawal_queue_pda E V)"
      using g by (auto simp: gate_change_def withdrawal_queue_Some)
    then show ?thesis
    proof cases
      case 1
      then show ?thesis
        using system_okD(5) [OF assms(1)] Some assms(4) by (simp add: gates_sound_def)
    next
      case 2
      then show ?thesis using assms(2,4) Some unfolding well_addressed_def by metis
    qed
  qed
qed

lemma vault_turn_apart:
  assumes "system_ok E P w" and "vault_turn E P S w w'" and "queues w' = queues w"
  shows "dom (vaults w') \<inter> dom (queues w') = {}"
proof (rule ccontr)
  assume "dom (vaults w') \<inter> dom (queues w') \<noteq> {}"
  then obtain V v' x where v': "vaults w' V = Some v'" and x: "queues w V = Some x"
    using assms(3) by auto
  then have "vaults w V = None" using system_okD(6) [OF assms(1)] by auto
  then have "\<not> in_use w V" using vault_turnD(1) [OF assms(2) v'] by simp
  then show False using x by (simp add: in_use_def)
qed

lemma vault_turn_ok:
  assumes ok: "system_ok E P w" and wa: "well_addressed E P w" and tn: "vault_turn E P S w w'"
    and out: "dom (queues w) \<inter> S = {}"
  shows "system_ok E P w'"
proof -
  note s = system_okD [OF ok]
  obtain S' where S': "S' \<subseteq> S \<union> dom (vaults w)" and t: "turn E S' w w'"
    using tn by (auto simp: vault_turn_def)
  have k: "kept E S' (ledger w) (ledger w')" "no_grant E (ledger w) (ledger w')"
    and q: "queues w' = queues w" and r: "requests w' = requests w"
    using t by (simp_all add: turn_def)
  have "queue_sound E (ledger w') (requests w') Q x" if "queues w' Q = Some x" for Q x
  proof -
    have w: "queues w Q = Some x" using that q by simp
    then have "Q \<notin> S'" using S' out s(6) by auto
    then show ?thesis
      using queue_sound_kept [OF s(7) [OF w] k(1)] queue_soundD(7) [OF s(7) [OF w]] r by simp
  qed
  then show ?thesis
    using s k(2) tn q r vault_turn_gates [OF ok wa tn q] vault_turn_apart [OF ok tn q]
    by (simp add: system_ok_def vault_turn_def no_grant_def)
qed

section \<open>A turn of the queue program keeps it\<close>

text \<open>One queue signs and changes; its request accounts change, no other queue's do.\<close>

lemma queue_turn_ok:
  assumes ok: "system_ok E P w"
    and k: "kept E S (ledger w) (ledger w')" "no_grant E (ledger w) (ledger w')"
    and S: "dom (queues w) \<inter> S \<subseteq> {Q}"
    and vs: "vaults_sound E P w'" "dom (vaults w') \<inter> dom (queues w') = {}"
      "\<And>V v U. vaults w' V = Some v \<Longrightarrow> withdrawal_queue v = Some U \<Longrightarrow>
        \<exists>q. queues w U = Some q \<and> q_vault_state q = V"
    and w': "queues w' = (queues w)(Q \<mapsto> q')"
    and mine: "queue_sound E (ledger w') (requests w') Q q'"
      "\<And>q. queues w Q = Some q \<Longrightarrow> q_vault_state q' = q_vault_state q"
    and others: "\<And>U q. U \<noteq> Q \<Longrightarrow> book_sound (requests w) U q \<Longrightarrow> book_sound (requests w') U q"
    and roots: "\<And>k r. requests w' k = Some r \<Longrightarrow> r_queue r \<noteq> Q \<Longrightarrow> requests w k = Some r"
  shows "system_ok E P w'"
proof -
  note s = system_okD [OF ok]
  have "queue_sound E (ledger w') (requests w') U u" if u: "queues w' U = Some u" for U u
  proof (cases "U = Q")
    case True
    then show ?thesis using u mine(1) w' by simp
  next
    case False
    then have w: "queues w U = Some u" using u w' by simp
    then have "U \<notin> S" using S False by auto
    then show ?thesis
      using queue_sound_kept [OF s(7) [OF w] k(1)] others [OF False queue_soundD(7) [OF s(7) [OF w]]]
      by simp
  qed
  moreover have "queues w' (r_queue r) \<noteq> None" if "requests w' j = Some r" for j r
    using roots [OF that] s(8) w' by (cases "r_queue r = Q") auto
  moreover have "gates_sound w'"
    using vs(3) mine(2) unfolding gates_sound_def w' by (metis fun_upd_apply)
  ultimately show ?thesis
    using s k(2) vs(1,2) by (simp add: system_ok_def no_grant_def)
qed

lemma queue_only_ok:
  assumes ok: "system_ok E P w" and out: "outside E (signers t)"
    and k: "kept E (insert Q (signers t)) (ledger w) (ledger w') \<and> no_grant E (ledger w) (ledger w')"
    and w': "vaults w' = vaults w" "queues w' = (queues w)(Q \<mapsto> q')"
    and mine: "queue_sound E (ledger w') (requests w') Q q'" "vaults w Q = None"
      "\<And>q. queues w Q = Some q \<Longrightarrow> q_vault_state q' = q_vault_state q"
    and others: "\<And>U q. U \<noteq> Q \<Longrightarrow> book_sound (requests w) U q \<Longrightarrow> book_sound (requests w') U q"
    and roots: "\<And>k r. requests w' k = Some r \<Longrightarrow> r_queue r \<noteq> Q \<Longrightarrow> requests w k = Some r"
  shows "system_ok E P w'"
proof (rule queue_turn_ok [OF ok conjunct1 [OF k] conjunct2 [OF k] _ _ _ _ w'(2) mine(1,3) others roots])
  note s = system_okD [OF ok]
  show "dom (queues w) \<inter> insert Q (signers t) \<subseteq> {Q}" using outside_queues [OF ok out] by auto
  have "dom (vaults w) \<inter> insert Q (signers t) = {}"
    using outside_vaults [OF s(4) out] mine(2) by auto
  then show "vaults_sound E P w'" using vaults_sound_kept [OF s(4) _ _ w'(1)] k by blast
  show "dom (vaults w') \<inter> dom (queues w') = {}" using s(6) mine(2) w' by auto
  show "\<exists>q. queues w U = Some q \<and> q_vault_state q = V"
    if "vaults w' V = Some v" "withdrawal_queue v = Some U" for V v U
    using s(5) that w'(1) by (simp add: gates_sound_def)
qed (assumption | rule refl)+

lemma apart_queue: "system_ok E P w \<Longrightarrow> queues w Q = Some q \<Longrightarrow> vaults w Q = None"
  using system_okD(6) by blast

section \<open>The queue's instructions\<close>

lemma setter_ok:
  assumes ok: "system_ok E P w" and out: "outside E (signers t)"
    and run: "set_cooldown E t A seconds w = Inr w' \<or> set_fulfillment_window E t A seconds w = Inr w'"
  shows "system_ok E P w'"
  using run
proof (cases rule: setter_effect)
  case (1 q v q')
  note q = system_okD(7) [OF ok 1(1)]
  obtain c f where q': "q' = q\<lparr>q_cooldown_seconds := c, q_fulfillment_window_seconds := f\<rparr>"
    using 1(6) by blast
  have "queue_sound E (ledger w) (requests w) (qa_queue A) q'"
    using q 1(7) by (auto simp: queue_sound_def q' intro: book_sound_cong)
  then show ?thesis
    by (intro queue_only_ok [OF ok out, of "qa_queue A"])
      (use 1(1) apart_queue [OF ok 1(1)] in \<open>auto simp: 1(8) q'\<close>)
qed

lemma expedite_ok:
  assumes ok: "system_ok E P w" and out: "outside E (signers t)"
    and run: "expedite_request E t A expected_sequence w = Inr w'"
  shows "system_ok E P w'"
  using run
proof (cases rule: expedite_cases)
  case (1 q v r now)
  let ?Q = "xp_queue A" and ?k = "xp_request A"
  note q = system_okD(7) [OF ok 1(1)]
  let ?R = "(requests w)(?k \<mapsto> r\<lparr>r_eligible_at := now\<rparr>)"
  have "book_sound ?R ?Q q"
    by (rule book_sound_cong [OF queue_soundD(7) [OF q]])
      (use 1(4,5) in \<open>auto simp: pending_def shares_at_def stamp_at_def\<close>)
  then have "queue_sound E (ledger w) ?R ?Q q" using q by (simp add: queue_sound_def)
  moreover have "book_sound ?R U u" if "U \<noteq> ?Q" "book_sound (requests w) U u" for U u
    by (rule book_sound_other [OF that(2)]) (use 1(4,5) that(1) in auto)
  ultimately show ?thesis
    by (intro queue_only_ok [OF ok out, of ?Q])
      (use 1(1,5) apart_queue [OF ok 1(1)] in \<open>auto simp: 1(12) fun_upd_idem split: if_splits\<close>)
qed

lemma sweep_ok:
  assumes ok: "system_ok E P w" and out: "outside E (signers t)"
    and run: "sweep_escrow_shares E t A w = Inr w'"
  shows "system_ok E P w'"
proof -
  note s = system_okD [OF ok]
  obtain q0 where q0: "queues w (sw_queue A) = Some q0" "q_share_mint q0 = sw_share_mint A"
    using run by (auto simp: sweep_escrow_shares_def sweep_ctx_def load_simps constraint_simps)
  have pl: "plain E (ledger w) (sw_share_mint A)" using queue_soundD(6) [OF s(7) [OF q0(1)]] q0(2) by simp
  show ?thesis
    using sweep_effect [OF s(1) pl run]
  proof cases
    case (1 q v stray)
    note q = s(7) [OF 1(1)] and g = queue_soundD(5) [OF s(7) [OF 1(1)]]
    have "sw_destination A \<noteq> sw_escrow_shares A"
      using 1(10) g 1(6) by (auto simp: guarded_def)
    then have "unat (q_pending_shares q) \<le> balance (ledger w') (q_escrow_shares q)"
      using 1(8) by (simp add: 1(6,13))
    then have "guarded E (ledger w') (q_escrow_shares q) (q_share_mint q) (sw_queue A)
        (unat (q_pending_shares q))"
      using guarded_moved [OF g 1(11)] 1(14) by simp
    then have m: "queue_sound E (ledger w') (requests w) (sw_queue A) q"
      using q moved_plain [OF 1(11)] by (simp add: queue_sound_def)
    have w': "vaults w' = vaults w" "queues w' = queues w" "requests w' = requests w"
      by (subst 1(15), simp)+
    show ?thesis
      by (rule queue_only_ok [OF ok out 1(14) w'(1)])
        (use m 1(1) apart_queue [OF ok 1(1)] in \<open>auto simp: w'\<close>)
  qed
qed

lemma release_ok:
  assumes ok: "system_ok E P w" and wa: "well_addressed E P w" and run: "release_vault E t A w = Inr w'"
  shows "system_ok E P w'"
proof -
  have "quiet E w w'"
    using run by (rule release_cases) (auto intro!: quiet_one simp: other_field_simps)
  then show ?thesis
    using vault_turn_ok [OF ok wa vault_turn_quiet [OF system_okD(4) [OF ok], of w' "{}"]] by simp
qed

lemma request_ok:
  assumes ok: "system_ok E P w" and out: "outside E (signers t)"
    and run: "request_withdrawal E t A request_id shares min_assets_out finalizer w = Inr w'"
  shows "system_ok E P w'"
proof -
  note s = system_okD [OF ok]
  obtain q0 where q0: "queues w (rw_queue A) = Some q0" "q_share_mint q0 = rw_share_mint A"
    using run by (auto elim!: request_cases dest: request_ctx_Inr)
  have pl: "plain E (ledger w) (rw_share_mint A)" using queue_soundD(6) [OF s(7) [OF q0(1)]] q0(2) by simp
  show ?thesis
    using request_effect [OF s(1) pl run]
  proof cases
    case (1 q v now q' r)
    let ?Q = "rw_queue A" and ?k = "rw_request A"
    note q = s(7) [OF 1(1)] and g = queue_soundD(5) [OF s(7) [OF 1(1)]]
    obtain p h where q': "unat h = unat (q_pending_shares q) + unat shares"
        "q' = q\<lparr>q_sequence := r_sequence r, q_pending_requests := p, q_pending_shares := h\<rparr>"
      using 1(12) by (auto simp: open_request_Inr)
    have r: "r_queue r = ?Q" "r_shares r = shares" using request_open_Inr(1,5) [OF 1(13)] by simp_all
    have none: "requests w ?k = None" using 1(10) by (simp add: in_use_def)
    have "own_pda E ?Q" by (rule queue_sound_pda [OF q])
    then have ne: "rw_owner_share_account A \<noteq> rw_escrow_shares A"
      using 1(4,7,11) g out by (auto simp: guarded_def outside_def)
    have "unat (q_pending_shares q') \<le> balance (ledger w') (q_escrow_shares q)"
      using g ne q'(1) 1(4) by (simp add: 1(17) q'(2) guarded_def)
    then have "guarded E (ledger w') (q_escrow_shares q') (q_share_mint q') ?Q (unat (q_pending_shares q'))"
      using guarded_moved [OF g 1(14)] 1(18) by (simp add: q'(2))
    moreover have "book_sound ((requests w)(?k \<mapsto> r)) ?Q q'"
      by (rule book_sound_open [OF queue_soundD(7) [OF q] _ none r(1)]) (simp add: r(2) 1(12))
    ultimately have m: "queue_sound E (ledger w') ((requests w)(?k \<mapsto> r)) ?Q q'"
      using q moved_plain [OF 1(14)] by (simp add: queue_sound_def q'(2) settings_ok_def)
    have w': "vaults w' = vaults w" "queues w' = (queues w)(?Q \<mapsto> q')"
        "requests w' = (requests w)(?k \<mapsto> r)"
      by (subst 1(19), simp)+
    have others: "book_sound ((requests w)(?k \<mapsto> r)) U u"
      if "U \<noteq> ?Q" "book_sound (requests w) U u" for U u
      by (rule book_sound_other [OF that(2)]) (use none r that(1) in auto)
    have k: "kept E (insert ?Q (signers t)) (ledger w) (ledger w') \<and> no_grant E (ledger w) (ledger w')"
      using 1(18) kept_mono [OF _ subset_insertI] by blast
    show ?thesis
      by (rule queue_only_ok [OF ok out k w'(1,2)])
        (use m others 1(1) r apart_queue [OF ok 1(1)]
          in \<open>auto simp: w' q'(2) split: if_splits\<close>)
  qed
qed

lemma cancel_ok:
  assumes ok: "system_ok E P w" and out: "outside E (signers t)"
    and run: "cancel_withdrawal E t A expected_sequence w = Inr w'"
  shows "system_ok E P w'"
proof -
  note s = system_okD [OF ok]
  obtain q0 where q0: "queues w (cw_queue A) = Some q0" "q_share_mint q0 = cw_share_mint A"
    using run by (auto elim!: cancel_cases dest: cancel_ctx_Inr)
  have pl: "plain E (ledger w) (cw_share_mint A)" using queue_soundD(6) [OF s(7) [OF q0(1)]] q0(2) by simp
  show ?thesis
    using cancel_effect [OF s(1) pl run]
  proof cases
    case (1 q r q')
    let ?Q = "cw_queue A" and ?k = "cw_request A"
    note q = s(7) [OF 1(1)] and g = queue_soundD(5) [OF s(7) [OF 1(1)]]
    obtain p h where q': "unat (q_pending_shares q) = unat h + unat (r_shares r)"
        "q' = q\<lparr>q_pending_requests := p, q_pending_shares := h\<rparr>"
      using 1(10) by (rule close_request_cases)
    have "own_pda E ?Q" by (rule queue_sound_pda [OF q])
    then have ne: "cw_destination_share_account A \<noteq> cw_escrow_shares A"
      using 1(3,7,9) g out by (auto simp: guarded_def outside_def)
    have "unat (q_pending_shares q') \<le> balance (ledger w') (q_escrow_shares q)"
      using g ne q'(1) 1(3) unfolding 1(14) guarded_def by (simp add: q'(2)) linarith
    then have "guarded E (ledger w') (q_escrow_shares q') (q_share_mint q') ?Q (unat (q_pending_shares q'))"
      using guarded_moved [OF g 1(11)] 1(15) by (simp add: q'(2))
    moreover have "book_sound ((requests w)(?k := None)) ?Q q'"
      by (rule book_sound_close [OF queue_soundD(7) [OF q] 1(10,2,5)])
    ultimately have m: "queue_sound E (ledger w') ((requests w)(?k := None)) ?Q q'"
      using q moved_plain [OF 1(11)] by (simp add: queue_sound_def q'(2) settings_ok_def)
    have w': "vaults w' = vaults w" "queues w' = (queues w)(?Q \<mapsto> q')"
        "requests w' = (requests w)(?k := None)"
      by (subst 1(16), simp)+
    have others: "book_sound ((requests w)(?k := None)) U u"
      if "U \<noteq> ?Q" "book_sound (requests w) U u" for U u
      by (rule book_sound_other [OF that(2)]) (use 1(2,5) that(1) in auto)
    show ?thesis
      by (rule queue_only_ok [OF ok out 1(15) w'(1,2)])
        (use m others 1(1) apart_queue [OF ok 1(1)] in \<open>auto simp: w' q'(2) split: if_splits\<close>)
  qed
qed

lemma initialize_queue_ok:
  assumes ok: "system_ok E P w" and out: "outside E (signers t)"
    and run: "initialize_queue E t A cooldown w = Inr w'"
  shows "system_ok E P w'"
proof -
  note s = system_okD [OF ok]
  show ?thesis
    using initialize_queue_effect [OF s(1) run]
  proof cases
    case (1 v dm sm es ea)
    let ?Q = "iq_queue A" and ?q = "new_queue E A cooldown"
    have free: "queues w ?Q = None" "vaults w ?Q = None" using 1(6) by (simp_all add: in_use_def)
    have w': "vaults w' = vaults w" "queues w' = (queues w)(?Q \<mapsto> ?q)" "requests w' = requests w"
      by (subst 1(23), simp)+
    have k: "kept E (insert ?Q (signers t)) (ledger w) (ledger w') \<and> no_grant E (ledger w) (ledger w')"
      by (rule 1(22))
    have pda: "create_program_address E (queue_seeds (q_vault_state ?q) @ [[q_bump ?q]])
        WITHDRAWAL_QUEUE_PROGRAM_ID = Some ?Q"
      using find_create [OF s(2), of "queue_seeds (iq_vault_state A)" WITHDRAWAL_QUEUE_PROGRAM_ID] 1(7)
      by (simp add: new_queue_def)
    then have own: "ta_owner es \<in> {k. own_pda E k}" by (auto simp: own_pda_def 1(16))
    have u: "undelegated E {k. own_pda E k} (ledger w')" using s(3) k by (auto simp: no_grant_def)
    have "iq_escrow_shares A = associated_token_address E (ta_owner es) (iq_share_mint A)
        (iq_token_program A)"
      by (simp add: 1(16,24))
    then have "ta_delegate es = None \<and> ta_close_authority es = None"
      using u [unfolded undelegated_def, rule_format, OF 1(14) own] by blast
    then have "unencumbered (ledger w') (iq_escrow_shares A)" using 1(14) by (simp add: unencumbered_def)
    then have g: "guarded E (ledger w') (iq_escrow_shares A) (iq_share_mint A) ?Q 0"
      using 1(10,11,14-16,20) by (simp add: guarded_def plain_def holder_def)
    have none: "pending (requests w) ?Q = {}"
    proof -
      have "r_queue r \<noteq> ?Q" if "requests w j = Some r" for j r using s(8) [OF that] free(1) by auto
      then show ?thesis by (auto simp: pending_def)
    qed
    then have b: "book_sound (requests w) ?Q ?q"
      by (simp add: book_sound_def counters.books_def new_queue_def zero_queue_def)
    have ne: "iq_share_mint A \<noteq> iq_deposit_mint A"
      using vault_soundD(3) [OF vaults_soundD [OF s(4) 1(1)]] 1(4,5) by simp
    have "queue_sound E (ledger w') (requests w) ?Q ?q"
      using pda g b ne 1(8,9,13,20)
      by (simp add: queue_sound_def settings_ok_def new_queue_def zero_queue_def plain_def
          queue_bounds word_le_nat_alt)
    then show ?thesis
      by (intro queue_only_ok [OF ok out k w'(1,2)]) (use free in \<open>auto simp: w'\<close>)
  qed
qed

lemma finalize_ok:
  assumes ok: "system_ok E P w" and wa: "well_addressed E P w" and out: "outside E (signers t)"
    and run: "finalize_withdrawal E t A expected_sequence w = Inr w'"
  shows "system_ok E P w'"
  using run
proof (cases rule: finalize_cases)
  case (1 q ea dm r recipient now q' w1 ea' assets L)
  let ?Q = "fw_queue A" and ?k = "fw_request A" and ?V = "fw_vault_state A"
  let ?t = "t\<lparr>signers := insert ?Q (signers t)\<rparr>"
  note s = system_okD [OF ok] and c = finalize_ctx_Inr [OF 1(1)]
  note q = s(7) [OF c(1)] and qd = queue_soundD [OF s(7) [OF c(1)]]
  have rd: "redeem_checked E ?t (finalize_redeem A) (r_shares r) 0 w = Inr w1"
    using 1(9) by (simp add: redeem_def)
  have vq: "dom (vaults w) \<inter> insert ?Q (signers t) = {}"
    using outside_vaults [OF s(4) out] apart_queue [OF ok c(1)] by auto
  have tn: "vault_turn E P (signers ?t) w w1"
    by (rule redeem_turn [OF s(1) rd s(4) wa]) (simp add: vq)
  have V: "vaults w ?V \<noteq> None"
    using rd by (auto elim!: redeem_checked_cases dest: redeem_ctx_Inr(1))
  have k1: "kept E (insert ?V (insert ?Q (signers t))) (ledger w) (ledger w1) \<and>
      no_grant E (ledger w) (ledger w1)"
    using redeem_kept [OF s(1) rd s(4)] by simp
  have same: "queues w1 = queues w" "requests w1 = requests w"
    using tn by (auto simp: vault_turn_def turn_def)
  have w': "ledger w' = L" "vaults w' = vaults w1" "queues w' = (queues w)(?Q \<mapsto> q')"
      "requests w' = (requests w)(?k := None)"
    using 1(14) same by simp_all
  have k2: "kept E (insert ?Q (signers t)) (ledger w1) L \<and> no_grant E (ledger w1) L"
    by (rule spl_custody(1) [OF s(1) 1(13)])
  have k: "kept E (insert ?V (insert ?Q (signers t))) (ledger w) (ledger w')"
    and n: "no_grant E (ledger w) (ledger w')"
    using k1 k2 kept_trans kept_mono [OF _ subset_insertI] no_grant_trans unfolding w' by blast+
  obtain p h where q': "unat (q_pending_shares q) = unat h + unat (r_shares r)"
      "q' = q\<lparr>q_pending_requests := p, q_pending_shares := h\<rparr>"
    using 1(8) by (rule close_request_cases)
  have dm: "plain E (ledger w) (fw_deposit_mint A)" "fw_share_mint A \<noteq> fw_deposit_mint A"
    using qd(3,4) c(5,6) by simp_all
  have "guarded E (ledger w1) (fw_escrow_shares A) (fw_share_mint A) ?Q
      (unat (q_pending_shares q) - unat (r_shares r))"
    using redeem_share_account [OF s(1) rd s(4) wa, of ?Q "unat (q_pending_shares q)"] qd(5) dm c(6,7)
    by simp
  from guarded_transfer [OF this s(1) _ _ 1(13)]
  have "guarded E L (fw_escrow_shares A) (fw_share_mint A) ?Q (unat h)"
    using kept_plain [OF conjunct1 [OF k1] dm(1)] dm(2) q'(1) by simp
  moreover have "book_sound ((requests w)(?k := None)) ?Q q'"
    by (rule book_sound_close [OF qd(7) 1(8) c(2,9)])
  ultimately have m: "queue_sound E (ledger w') (requests w') ?Q q'"
    using q kept_plain [OF k] c(6,7) by (simp add: queue_sound_def q'(2) settings_ok_def w')
  have others: "book_sound ((requests w)(?k := None)) U u"
    if "U \<noteq> ?Q" "book_sound (requests w) U u" for U u
    by (rule book_sound_other [OF that(2)]) (use c(2,9) that(1) in auto)
  have U: "dom (queues w) \<inter> insert ?V (insert ?Q (signers t)) \<subseteq> {?Q}"
    using outside_queues [OF ok out] V s(6) by auto
  have "dom (vaults w1) \<inter> insert ?Q (signers t) = {}"
  proof -
    have "X \<in> dom (vaults w)" if "X \<in> dom (vaults w1)" for X
      using rd V that by (auto elim!: redeem_checked_cases simp: world_updates split: if_splits)
    then show ?thesis using vq by blast
  qed
  then have vs: "vaults_sound E P w'"
    using tn k2 by (intro vaults_sound_kept [of E P w1 _ w']) (auto simp: vault_turn_def w')
  show ?thesis
  proof (rule queue_turn_ok [OF ok k n U vs _ _ w'(3) m])
    show "dom (vaults w') \<inter> dom (queues w') = {}"
      using vault_turn_apart [OF ok tn same(1)] c(1) by (auto simp: w' same)
    show "\<exists>q. queues w U = Some q \<and> q_vault_state q = V"
      if "vaults w' V = Some v" "withdrawal_queue v = Some U" for V v U
      using vault_turn_gates [OF ok wa tn same(1)] that by (simp add: gates_sound_def w' same)
  qed (use others c(1) q'(2) in \<open>auto simp: w' split: if_splits\<close>)
qed

section \<open>Every step\<close>

lemma queue_program_ok:
  assumes "system_ok E P w" and "well_addressed E P w" and "outside E (signers t)"
    and "run_queue E t i w = Inr w'"
  shows "system_ok E P w'"
  using assms(4)
proof (cases i)
  case (InitializeQueue A n)
  then show ?thesis using initialize_queue_ok [OF assms(1,3)] assms(4) by simp
next
  case (SetCooldown A n)
  then show ?thesis using setter_ok [OF assms(1,3)] assms(4) by auto
next
  case (SetFulfillmentWindow A n)
  then show ?thesis using setter_ok [OF assms(1,3)] assms(4) by auto
next
  case (RequestWithdrawal A a b c d)
  then show ?thesis using request_ok [OF assms(1,3)] assms(4) by simp
next
  case (FinalizeWithdrawal A n)
  then show ?thesis using finalize_ok [OF assms(1-3)] assms(4) by simp
next
  case (CancelWithdrawal A n)
  then show ?thesis using cancel_ok [OF assms(1,3)] assms(4) by simp
next
  case (ReleaseVault A)
  then show ?thesis using release_ok [OF assms(1,2)] assms(4) by simp
next
  case (SweepEscrowShares A)
  then show ?thesis using sweep_ok [OF assms(1,3)] assms(4) by simp
next
  case (ExpediteRequest A n)
  then show ?thesis using expedite_ok [OF assms(1,3)] assms(4) by simp
qed

lemma elsewhere_ok:
  assumes ok: "system_ok E P w" and out: "outside E S" and k: "kept E S (ledger w) L"
    and u: "undelegated E {k. own_pda E k} L"
  shows "system_ok E P (w\<lparr>ledger := L, metadata := M, program_data := U\<rparr>)" (is "system_ok E P ?w")
proof -
  note s = system_okD [OF ok]
  have "vaults_sound E P ?w"
    by (rule vaults_sound_kept [OF s(4), of S]) (use k outside_vaults [OF s(4) out] in simp_all)
  moreover have "queue_sound E L (requests w) Q q" if "queues w Q = Some q" for Q q
    using queue_sound_kept [OF s(7) [OF that] k] queue_soundD(7) [OF s(7) [OF that]]
      outside_queues [OF ok out] that by blast
  ultimately show ?thesis
    using s u by (simp add: system_ok_def gates_sound_def)
qed

lemma step_ok:
  assumes "system_ok E P w" and "step E P w w'"
  shows "system_ok E P w'"
  using assms(2)
proof (cases rule: step.cases)
  case (instruction t i)
  show ?thesis
  proof (cases "\<exists>j. i = Queue j")
    case True
    then show ?thesis using queue_program_ok [OF assms(1)] instruction by auto
  next
    case False
    note s = system_okD [OF assms(1)]
    have "vault_turn E P (signers t) w w'"
      by (rule vault_program_turn [OF s(1,2) instruction(3) _ s(4) instruction(2)
            outside_vaults [OF s(4) instruction(1)]]) (use False in blast)
    from vault_turn_ok [OF assms(1) instruction(2) this outside_queues [OF assms(1) instruction(1)]]
    show ?thesis .
  qed
next
  case (elsewhere S L M U)
  then show ?thesis using elsewhere_ok [OF assms(1)] system_okD(3) [OF assms(1)] by blast
qed

section \<open>Queues last and their stamps only rise\<close>

definition queue_grows :: "withdrawal_queue \<Rightarrow> withdrawal_queue \<Rightarrow> bool" where
  "queue_grows q q' \<longleftrightarrow>
     q_vault_state q' = q_vault_state q \<and> q_deposit_mint q' = q_deposit_mint q \<and>
     q_share_mint q' = q_share_mint q \<and> q_escrow_shares q' = q_escrow_shares q \<and>
     q_escrow_assets q' = q_escrow_assets q \<and> q_bump q' = q_bump q \<and>
     unat (q_sequence q) \<le> unat (q_sequence q')"

definition queues_grow :: "world \<Rightarrow> world \<Rightarrow> bool" where
  "queues_grow w w' \<longleftrightarrow>
     (\<forall>Q q. queues w Q = Some q \<longrightarrow> (\<exists>q'. queues w' Q = Some q' \<and> queue_grows q q'))"

lemma queue_grows_refl [simp]: "queue_grows q q"
  by (simp add: queue_grows_def)

lemma queues_grow_same: "queues w' = queues w \<Longrightarrow> queues_grow w w'"
  by (auto simp: queues_grow_def)

lemma queues_grow_one:
  "queues w' = (queues w)(Q \<mapsto> q') \<Longrightarrow> (\<And>q. queues w Q = Some q \<Longrightarrow> queue_grows q q') \<Longrightarrow>
   queues_grow w w'"
  by (auto simp: queues_grow_def)

lemma queue_grows_trans: "queue_grows q q' \<Longrightarrow> queue_grows q' q'' \<Longrightarrow> queue_grows q q''"
  by (simp add: queue_grows_def)

lemma queues_grow_trans: "queues_grow w w' \<Longrightarrow> queues_grow w' w'' \<Longrightarrow> queues_grow w w''"
  unfolding queues_grow_def by (blast intro: queue_grows_trans)

lemma close_grows: "close_request n q = Inr q' \<Longrightarrow> queue_grows q q'"
  by (auto simp: queue_grows_def elim!: close_request_cases)

lemma open_grows: "open_request n q = Inr (q', s) \<Longrightarrow> queue_grows q q'"
  by (auto simp: queue_grows_def open_request_Inr)

lemma finalize_grows: "finalize_withdrawal E t A n w = Inr w' \<Longrightarrow> queues_grow w w'"
proof (erule finalize_cases)
  fix q ea dm r recipient now q' w1 ea' assets L
  assume c: "finalize_ctx E t A w = Inr (q, ea, dm, r, recipient)" and cl: "close_request (r_shares r) q = Inr q'"
    and rd: "redeem E (t\<lparr>signers := insert (fw_queue A) (signers t)\<rparr>) (finalize_redeem A) (r_shares r) w = Inr w1"
    and w': "w' = w1\<lparr>ledger := L, queues := (queues w1)(fw_queue A \<mapsto> q'),
                 requests := (requests w)(fw_request A := None),
                 events := events w1 @ [finalized_snapshot r (q_vault_state q') (fw_request A)
                   (fw_finalizer A) assets]\<rparr>"
  have "queues w1 = queues w"
    using rd by (auto simp: redeem_def world_updates elim!: redeem_checked_cases)
  then show ?thesis
    using finalize_ctx_Inr(1) [OF c] close_grows [OF cl]
    by (intro queues_grow_one [of w' w "fw_queue A" q']) (auto simp: w')
qed

lemma setter_grows:
  assumes "set_cooldown E t A n w = Inr w' \<or> set_fulfillment_window E t A n w = Inr w'"
  shows "queues_grow w w'"
  using assms
proof (cases rule: setter_effect)
  case (1 q v q')
  obtain c f where q': "q' = q\<lparr>q_cooldown_seconds := c, q_fulfillment_window_seconds := f\<rparr>"
    using 1(6) by blast
  show ?thesis
    by (rule queues_grow_one [of _ _ "qa_queue A" q']) (use 1(1) in \<open>simp_all add: 1(8) q' queue_grows_def\<close>)
qed

lemma queue_program_grows:
  assumes "run_queue E t i w = Inr w'" and "spl_laws E"
  shows "queues_grow w w'"
proof (cases i)
  case (InitializeQueue A n)
  then have "initialize_queue E t A n w = Inr w'" using assms(1) by simp
  with assms(2) show ?thesis
  proof (rule initialize_queue_effect)
    assume free: "\<not> in_use w (iq_queue A)"
      and w': "w' = w\<lparr>ledger := ledger w', queues := (queues w)(iq_queue A \<mapsto> new_queue E A n),
                events := events w @ [QueueInitialized (iq_vault_state A) (iq_queue A)
                  (iq_deposit_mint A) (iq_share_mint A) (iq_escrow_shares A) (iq_escrow_assets A)
                  n]\<rparr>"
    have "queues w' = (queues w)(iq_queue A \<mapsto> new_queue E A n)" by (subst w') simp
    then show ?thesis by (rule queues_grow_one) (use free in \<open>simp add: in_use_def\<close>)
  qed
next
  case (SetCooldown A n)
  then show ?thesis using assms(1) by (auto intro: setter_grows)
next
  case (SetFulfillmentWindow A n)
  then show ?thesis using assms(1) by (auto intro: setter_grows)
next
  case (RequestWithdrawal A a b c d)
  then have "request_withdrawal E t A a b c d w = Inr w'" using assms(1) by simp
  then show ?thesis
    by (rule request_cases)
      (rule queues_grow_one [of _ _ "rw_queue A"], simp, auto dest: request_ctx_Inr(1) simp: open_grows)
next
  case (FinalizeWithdrawal A n)
  then show ?thesis using assms(1) by (simp add: finalize_grows)
next
  case (CancelWithdrawal A n)
  then have "cancel_withdrawal E t A n w = Inr w'" using assms(1) by simp
  then show ?thesis
    by (rule cancel_cases)
      (rule queues_grow_one [of _ _ "cw_queue A"], simp, auto dest: cancel_ctx_Inr(1) simp: close_grows)
next
  case (ReleaseVault A)
  then show ?thesis
    using assms(1) by (auto elim!: release_cases intro!: queues_grow_same)
next
  case (SweepEscrowShares A)
  then show ?thesis
    using assms(1) by (auto simp: sweep_escrow_shares_def world_updates intro!: queues_grow_same)
next
  case (ExpediteRequest A n)
  then show ?thesis
    using assms(1) by (auto elim!: expedite_cases intro!: queues_grow_same)
qed

lemma step_grows:
  assumes "system_ok E P w" and "step E P w w'"
  shows "queues_grow w w'"
  using assms(2)
proof (cases rule: step.cases)
  case (instruction t i)
  note s = system_okD [OF assms(1)]
  show ?thesis
  proof (cases "\<exists>j. i = Queue j")
    case True
    then show ?thesis using queue_program_grows [OF _ s(1)] instruction(3) by auto
  next
    case False
    have "vault_turn E P (signers t) w w'"
      by (rule vault_program_turn [OF s(1,2) instruction(3) _ s(4) instruction(2)
            outside_vaults [OF s(4) instruction(1)]]) (use False in blast)
    then show ?thesis by (auto simp: vault_turn_def turn_def intro: queues_grow_same)
  qed
qed (simp add: queues_grow_same)

section \<open>Runs\<close>

text \<open>
  A transition system with an invariant and an order its steps follow; what is shown of it holds of
  every run.
\<close>

locale transition_system =
  fixes trans :: "'s \<Rightarrow> 's \<Rightarrow> bool" and safe :: "'s \<Rightarrow> bool" and follows :: "'s \<Rightarrow> 's \<Rightarrow> bool"
  assumes trans_safe: "safe s \<Longrightarrow> trans s s' \<Longrightarrow> safe s'"
    and trans_follows: "safe s \<Longrightarrow> trans s s' \<Longrightarrow> follows s s'"
    and follows_refl: "follows s s"
    and follows_trans: "follows s s' \<Longrightarrow> follows s' s'' \<Longrightarrow> follows s s''"
begin

lemma run_safe: "trans\<^sup>*\<^sup>* s s' \<Longrightarrow> safe s \<Longrightarrow> safe s'"
  by (induction rule: rtranclp_induct) (auto intro: trans_safe)

lemma run_follows: "trans\<^sup>*\<^sup>* s s' \<Longrightarrow> safe s \<Longrightarrow> follows s s'"
proof (induction rule: rtranclp_induct)
  case base
  show ?case by (rule follows_refl)
next
  case (step s' s'')
  then show ?case using follows_trans trans_follows run_safe by blast
qed

end

interpretation system: transition_system "step E P" "system_ok E P" queues_grow for E P
  by unfold_locales (auto intro: step_ok step_grows queues_grow_same queues_grow_trans)

text \<open>A chain on which the programs have not been used yet is one of their good states.\<close>

lemma genesis_ok:
  assumes "spl_laws E" and "pda_laws E" and "undelegated E {k. own_pda E k} (ledger w)"
    and "vaults w = Map.empty" and "queues w = Map.empty" and "requests w = Map.empty"
  shows "system_ok E P w"
  using assms by (simp add: system_ok_def vaults_sound_def gates_sound_def)

end
