(* ===== verification/Rates.thy ===== *)
theory Rates
  imports Invariant
begin

text \<open>
  The price of a share along a run: no instruction but an operator's report that marks the vault's
  \<open>deployed_aum\<close> down lowers what a position in a vault redeems for before the fee, whoever acts and in
  whatever order, while the vault is open and at least the position's shares are out.
\<close>

section \<open>What a step does to a position\<close>

definition assets_of :: "vault_state \<Rightarrow> nat" where
  "assets_of v = unat (v_local_aum v) + unat (v_deployed_aum v)"

definition shares_out :: "world \<Rightarrow> vault_state \<Rightarrow> nat" where
  "shares_out w v = supply_of (ledger w) (v_share_mint v)"

definition position_worth :: "world \<Rightarrow> vault_state \<Rightarrow> nat \<Rightarrow> nat \<Rightarrow> bool" where
  "position_worth w v k b \<longleftrightarrow> worth (unat (share_offset v)) (shares_out w v) (assets_of v) k b"

text \<open>A position of \<open>k\<close> shares in the vault at \<open>V\<close> is worth at least what it was.\<close>

definition keeps_worth :: "nat \<Rightarrow> pubkey \<Rightarrow> world \<Rightarrow> world \<Rightarrow> bool" where
  "keeps_worth k V w w' \<longleftrightarrow>
     (\<forall>v v'. vaults w V = Some v \<longrightarrow> vaults w' V = Some v' \<longrightarrow>
        vault_id v' = vault_id v \<and> v_share_offset v' = v_share_offset v \<and>
        (\<forall>b. position_worth w v k b \<longrightarrow> position_worth w' v' k b))"

lemma same_offset: "v_share_offset v' = v_share_offset v \<Longrightarrow> share_offset v' = share_offset v"
  by (simp add: share_offset_def)

lemma keeps_worthI:
  assumes "\<And>v v'. vaults w V = Some v \<Longrightarrow> vaults w' V = Some v' \<Longrightarrow>
      vault_id v' = vault_id v \<and> v_share_offset v' = v_share_offset v \<and>
      assets_of v \<le> assets_of v' \<and> shares_out w' v \<le> shares_out w v"
  shows "keeps_worth k V w w'"
  unfolding keeps_worth_def position_worth_def
proof (intro allI impI conjI)
  fix v v' assume v: "vaults w V = Some v" "vaults w' V = Some v'"
  note a = assms [OF v]
  show "vault_id v' = vault_id v" "v_share_offset v' = v_share_offset v" using a by simp_all
  have "shares_out w' v' = shares_out w' v"
    using vault_id_seeds(3) [of v' v] a by (simp add: shares_out_def)
  then show "worth (unat (share_offset v')) (shares_out w' v') (assets_of v') k b"
    if "worth (unat (share_offset v)) (shares_out w v) (assets_of v) k b" for b
    using worth_mono [OF that] a same_offset [of v' v] by simp
qed

lemma keeps_trans:
  assumes "keeps_worth k V w w1" and "keeps_worth k V w1 w2"
    and "vaults w V \<noteq> None \<Longrightarrow> vaults w2 V \<noteq> None \<Longrightarrow> vaults w1 V \<noteq> None"
  shows "keeps_worth k V w w2"
  unfolding keeps_worth_def
proof (intro allI impI)
  fix v v2 assume v: "vaults w V = Some v" "vaults w2 V = Some v2"
  then obtain v1 where v1: "vaults w1 V = Some v1" using assms(3) by auto
  show "vault_id v2 = vault_id v \<and> v_share_offset v2 = v_share_offset v \<and>
      (\<forall>b. position_worth w v k b \<longrightarrow> position_worth w2 v2 k b)"
    using assms(1) [unfolded keeps_worth_def, rule_format, OF v(1) v1]
      assms(2) [unfolded keeps_worth_def, rule_format, OF v1 v(2)] by simp
qed

text \<open>The vault at \<open>V\<close> neither signs nor changes.\<close>

lemma keeps_bystander:
  assumes "vaults_sound E P w" and "kept E S (ledger w) (ledger w')" and "V \<notin> S"
    and "\<And>v. vaults w V = Some v \<Longrightarrow> v_deposit_mint v \<in> P"
    and "\<And>v'. vaults w' V = Some v' \<Longrightarrow> vaults w V \<noteq> None \<Longrightarrow> vaults w V = Some v'"
  shows "keeps_worth k V w w'"
proof (rule keeps_worthI)
  fix v v' assume v: "vaults w V = Some v" "vaults w' V = Some v'"
  then have "v' = v" using assms(5) by auto
  note s = vaults_soundD [OF assms(1) v(1)]
  have "shares_out w' v \<le> shares_out w v"
    using minter_kept(2) [OF vault_soundD(7) [OF s assms(4) [OF v(1)]] vault_soundD(4) [OF s] assms(2,3)]
    by (simp add: shares_out_def)
  then show "vault_id v' = vault_id v \<and> v_share_offset v' = v_share_offset v \<and>
      assets_of v \<le> assets_of v' \<and> shares_out w' v \<le> shares_out w v"
    by (simp add: \<open>v' = v\<close>)
qed

section \<open>Instructions that move no tokens\<close>

definition steady :: "pubkey \<Rightarrow> world \<Rightarrow> world \<Rightarrow> bool" where
  "steady V w w' \<longleftrightarrow>
     ledger w' = ledger w \<and>
     (\<forall>v v'. vaults w V = Some v \<longrightarrow> vaults w' V = Some v' \<longrightarrow>
        vault_id v' = vault_id v \<and> v_share_offset v' = v_share_offset v \<and>
        v_local_aum v' = v_local_aum v \<and> v_deployed_aum v' = v_deployed_aum v)"

lemma keeps_steady: "steady V w w' \<Longrightarrow> keeps_worth k V w w'"
  by (rule keeps_worthI) (simp add: steady_def assets_of_def shares_out_def)

lemma steady_same: "ledger w' = ledger w \<Longrightarrow> vaults w' = vaults w \<Longrightarrow> steady V w w'"
  by (simp add: steady_def)

lemma steady_one:
  "ledger w' = ledger w \<Longrightarrow> vaults w' = (vaults w)(U \<mapsto> u') \<Longrightarrow> vaults w U = Some u \<Longrightarrow>
   vault_id u' = vault_id u \<Longrightarrow> v_share_offset u' = v_share_offset u \<Longrightarrow>
   v_local_aum u' = v_local_aum u \<Longrightarrow> v_deployed_aum u' = v_deployed_aum u \<Longrightarrow> steady V w w'"
  by (auto simp: steady_def)

lemma steady_core: "vault_core v' = vault_core v \<Longrightarrow>
   vault_id v' = vault_id v \<and> v_share_offset v' = v_share_offset v \<and>
   v_local_aum v' = v_local_aum v \<and> v_deployed_aum v' = v_deployed_aum v"
  by (simp add: vault_core_def vault_id_def)

lemma setting_steady: "run_setting E t A s w = Inr w' \<Longrightarrow> steady V w w'"
  by (erule setting_effect) (auto intro!: steady_one dest: steady_core)

lemma nominate_steady: "nominate_admin E t A k w = Inr w' \<Longrightarrow> steady V w w'"
  by (erule nominate_cases) (simp add: steady_same)

lemma accept_steady: "accept_admin_nomination E t A w = Inr w' \<Longrightarrow> steady V w w'"
  by (erule accept_cases) (auto intro!: steady_one simp: vault_id_def)

lemma registry_steady: "run_registry E t i w = Inr w' \<Longrightarrow> steady V w w'"
  by (cases i) (auto elim!: register_cases deregister_cases settle_cases intro!: steady_one
      simp: vault_id_def)

lemma attach_steady: "attach_withdrawal_queue E t A w = Inr w' \<Longrightarrow> steady V w w'"
  by (erule attach_cases) (auto intro!: steady_one simp: world_updates vault_id_def)

lemma detach_steady: "detach_withdrawal_queue E t A w = Inr w' \<Longrightarrow> steady V w w'"
  by (erule detach_cases) (auto intro!: steady_one simp: world_updates vault_id_def)

lemma metadata_steady: "run_metadata E t i w = Inr w' \<Longrightarrow> steady V w w'"
  by (cases i) (auto simp: create_share_token_metadata_def update_share_token_metadata_def
      constraint_simps intro!: steady_same)

lemma config_steady:
  "initialize_config E t A1 k w = Inr w' \<Longrightarrow> steady V w w'"
  "set_config_authority E t A2 k w = Inr w' \<Longrightarrow> steady V w w'"
  "override_config_authority E t A3 k w = Inr w' \<Longrightarrow> steady V w w'"
  by (auto simp: initialize_config_def set_config_authority_def override_config_authority_def
      upgrade_authority_def put_config_def load_simps constraint_simps intro!: steady_same)

text \<open>A report of \<open>deployed_aum\<close> for another vault.\<close>

lemma update_aum_steady:
  "operator_update_aum E t A n w = Inr w' \<Longrightarrow> ua_vault_state A \<noteq> V \<Longrightarrow> steady V w w'"
  by (auto simp: operator_update_aum_def load_simps constraint_simps world_updates steady_def)

text \<open>A report of more, or as much, for this one.\<close>

lemma update_aum_keeps:
  assumes "operator_update_aum E t A n w = Inr w'"
    and "\<And>v. vaults w V = Some v \<Longrightarrow> ua_vault_state A = V \<Longrightarrow> v_deployed_aum v \<le> n"
  shows "keeps_worth k V w w'"
proof (cases "ua_vault_state A = V")
  case False
  then show ?thesis by (intro keeps_steady update_aum_steady [OF assms(1)])
next
  case True
  show ?thesis
    using assms True
    by (intro keeps_worthI)
      (auto simp: operator_update_aum_def load_simps constraint_simps world_updates assets_of_def
        shares_out_def vault_id_def word_le_nat_alt)
qed

section \<open>Deposits\<close>

lemma deposit_named:
  assumes "deposit_ctx E t A w = Inr (v, sm, dm)" and "vaults_sound E P w" and "well_addressed E P w"
  shows "dep_deposit_mint A = v_deposit_mint v" and "dep_share_mint A = v_share_mint v"
proof -
  note c = deposit_ctx_Inr [OF assms(1)] and sd = deposit_ctx_seeds [OF assms(1)]
  show id: "dep_deposit_mint A = v_deposit_mint v" by (rule pinned [OF assms(3) c(1,3) sd(1)])
  show "dep_share_mint A = v_share_mint v"
    using vault_soundD(2) [OF vaults_soundD [OF assms(2) c(1)]] sd(3) id by simp
qed

lemma deposit_kept:
  assumes "spl_laws E" and "deposit_checked E t A n m w = Inr w'" and "vaults_sound E P w"
  shows "kept E (insert (dep_vault_state A) (signers t)) (ledger w) (ledger w')"
  using assms(2)
proof (cases rule: deposit_checked_cases)
  case (1 v sm dm L assets shares S L' local_aum)
  have S: "S = insert (dep_vault_state A) (signers t)"
    by (rule vault_signs [OF 1(11) vaults_soundD [OF assms(3) deposit_ctx_Inr(1) [OF 1(1)]]])
  show ?thesis
    using spl_custody(1) [OF assms(1) 1(5)] spl_custody(2) [OF assms(1) 1(12)] S 1(14)
    by (auto simp: world_updates intro: kept_both)
qed

lemma deposit_holds_worth:
  assumes laws: "spl_laws E" and ok: "deposit_checked E t A n m w = Inr w'"
    and vs: "vaults_sound E P w" and wa: "well_addressed E P w"
    and out: "dom (vaults w) \<inter> signers t = {}"
    and V: "\<And>v. vaults w V = Some v \<Longrightarrow> v_deposit_mint v \<in> P \<and> k \<le> shares_out w v"
  shows "keeps_worth k V w w'"
proof (cases "vaults w V = None \<or> V \<noteq> dep_vault_state A")
  case True
  have "keeps_worth k V w w'" if "vaults w V \<noteq> None"
  proof (rule keeps_bystander [OF vs deposit_kept [OF laws ok vs]])
    show "V \<notin> insert (dep_vault_state A) (signers t)" using True that out by auto
    show "vaults w V = Some v'" if "vaults w' V = Some v'" for v'
      using ok that True \<open>vaults w V \<noteq> None\<close>
      by (auto elim!: deposit_checked_cases simp: world_updates)
  qed (use V in simp)
  then show ?thesis by (cases "vaults w V") (auto simp: keeps_worth_def)
next
  case False
  then have VA: "V = dep_vault_state A" by simp
  obtain v sm dm where c: "deposit_ctx E t A w = Inr (v, sm, dm)"
    using ok by (rule deposit_checked_cases)
  then have v: "vaults w V = Some v" using deposit_ctx_Inr(1) VA by blast
  note s = vaults_soundD [OF vs v] and nm = deposit_named [OF c vs wa]
  have pl: "plain E (ledger w) (dep_deposit_mint A)" "plain E (ledger w) (dep_share_mint A)"
    using vault_soundD(4,6) [OF s] V [OF v] nm by (simp_all add: guarded_def)
  show ?thesis
    using deposit_effect [OF laws pl ok]
  proof cases
    case (1 v0 sm0 dm0 T shares local_aum)
    have eq: "v0 = v" "sm0 = sm" using 1(1) c by simp_all
    have S: "unat (mi_supply sm) = shares_out w v"
      using deposit_ctx_Inr(2) [OF c] nm by (simp add: shares_out_def supply_of_def)
    have T: "unat T = assets_of v" using 1(3) eq by (simp add: total_assets_Inr assets_of_def)
    have vaults': "vaults w' = (vaults w)(V \<mapsto> v\<lparr>v_local_aum := local_aum\<rparr>)"
      by (subst 1(10)) (simp add: eq VA)
    have S': "shares_out w' v = shares_out w v + unat shares"
      using 1(8) nm by (simp add: deposited_def shares_out_def)
    have "worth (unat (share_offset v)) (shares_out w v + unat shares) (assets_of v + unat n) k b"
      if "position_worth w v k b" for b
      using vault_pricing.deposit_keeps_worth [of v "mi_supply sm" T n shares k b] 1(4) that V [OF v]
        share_offset_range(1) [of v]
      by (simp add: eq S T position_worth_def)
    then show ?thesis
      using 1(9) v S' vaults' eq
      by (auto simp: keeps_worth_def vault_id_def position_worth_def shares_out_def assets_of_def ac_simps)
  qed
qed

section \<open>Redemptions\<close>

lemma redeem_holds_worth:
  assumes laws: "spl_laws E" and ok: "redeem_checked E t A n m w = Inr w'"
    and vs: "vaults_sound E P w" and wa: "well_addressed E P w"
    and out: "dom (vaults w) \<inter> signers t = {}"
    and V: "\<And>v. vaults w V = Some v \<Longrightarrow> v_deposit_mint v \<in> P"
  shows "keeps_worth k V w w'"
proof (cases "vaults w V = None \<or> V \<noteq> red_vault_state A")
  case True
  have "keeps_worth k V w w'" if "vaults w V \<noteq> None"
  proof (rule keeps_bystander [OF vs conjunct1 [OF redeem_kept [OF laws ok vs]]])
    show "V \<notin> insert (red_vault_state A) (signers t)" using True that out by auto
    show "vaults w V = Some v'" if "vaults w' V = Some v'" for v'
      using ok that True \<open>vaults w V \<noteq> None\<close>
      by (auto elim!: redeem_checked_cases simp: world_updates)
  qed (use V in simp)
  then show ?thesis by (cases "vaults w V") (auto simp: keeps_worth_def)
next
  case False
  then have VA: "V = red_vault_state A" by simp
  obtain v sm dm where c: "redeem_ctx E t A w = Inr (v, sm, dm)"
    using ok by (rule redeem_checked_cases)
  then have v: "vaults w V = Some v" using redeem_ctx_Inr(1) VA by blast
  note s = vaults_soundD [OF vs v] and nm = redeem_named [OF c vs wa]
  have pl: "plain E (ledger w) (red_deposit_mint A)" "plain E (ledger w) (red_share_mint A)"
    using vault_soundD(4,6) [OF s] V [OF v] nm by (simp_all add: guarded_def)
  show ?thesis
    using redeem_effect [OF laws pl ok]
  proof cases
    case (1 v0 sm0 dm0 T assets fees net local_aum)
    have eq: "v0 = v" "sm0 = sm" using 1(1) c by simp_all
    have S: "unat (mi_supply sm) = shares_out w v"
      using redeem_ctx_Inr(2) [OF c] nm by (simp add: shares_out_def supply_of_def)
    have T: "unat T = assets_of v" using 1(4) eq by (simp add: total_assets_Inr assets_of_def)
    have vaults': "vaults w' = (vaults w)(V \<mapsto> v\<lparr>v_local_aum := local_aum\<rparr>)"
      by (subst 1(11)) (simp add: eq VA)
    have n: "unat n \<le> shares_out w v" and S': "shares_out w' v = shares_out w v - unat n"
      using 1(9) nm by (simp_all add: redeemed_def shares_out_def)
    have T': "assets_of (v\<lparr>v_local_aum := local_aum\<rparr>) = assets_of v - unat assets"
      using 1(10) eq by (simp add: assets_of_def)
    have "worth (unat (share_offset v)) (shares_out w v - unat n) (assets_of v - unat assets) k b"
      if "position_worth w v k b" for b
      using vault_pricing.redeem_keeps_worth [of v "mi_supply sm" T n assets k b] 1(5) that n
      by (simp add: eq S T position_worth_def)
    then show ?thesis
      using v S' T' vaults' by (auto simp: keeps_worth_def vault_id_def position_worth_def shares_out_def)
  qed
qed

lemma redeem_alive:
  assumes "redeem_checked E t A n m w = Inr w'"
  shows "vaults w' U = None \<longleftrightarrow> vaults w U = None"
  using assms
proof (cases rule: redeem_checked_cases)
  case (1 v sm dm T assets fees final S local_aum L1 L2 L3)
  then show ?thesis using redeem_ctx_Inr(1) [OF 1(1)] by (simp add: world_updates)
qed

section \<open>The operator's transfers\<close>

text \<open>They move the vault's assets between the reserve and a destination and mint and burn nothing.\<close>

lemma operator_holds_worth:
  assumes laws: "spl_laws E" and vs: "vaults_sound E P w" and wa: "well_addressed E P w"
    and out: "dom (vaults w) \<inter> signers t = {}"
    and V: "\<And>v. vaults w V = Some v \<Longrightarrow> v_deposit_mint v \<in> P"
    and c: "operator_ctx E t A w = Inr (v, dest, dm, sub)" and S: "S \<subseteq> insert (oa_vault_state A) (signers t)"
    and tr: "transfer_checked E prog S src (oa_deposit_mint A) dst auth n (mi_decimals dm) (ledger w) = Inr L"
    and v': "v' = v\<lparr>v_local_aum := x, v_deployed_aum := y, v_deployed_principal := z\<rparr>"
    and total: "assets_of v \<le> assets_of v'"
    and w': "ledger w' = L" "vaults w' = (vaults w)(oa_vault_state A \<mapsto> v')"
  shows "keeps_worth k V w w'"
proof (cases "V = oa_vault_state A")
  case False
  have "keeps_worth k V w w'" if "vaults w V \<noteq> None"
  proof (rule keeps_bystander [OF vs, of S])
    show "kept E S (ledger w) (ledger w')" using spl_custody(1) [OF laws tr] w' by simp
    show "V \<notin> S" using False that out S by auto
  qed (use V w' False in simp_all)
  then show ?thesis by (cases "vaults w V") (auto simp: keeps_worth_def)
next
  case True
  note o = operator_ctx_Inr [OF c] and nm = operator_named [OF c wa]
  have "plain E (ledger w) (oa_deposit_mint A)"
    using vault_soundD(6) [OF vaults_soundD [OF vs o(1)]] V True o(1) nm by (simp add: guarded_def)
  then have "supply_of L = supply_of (ledger w)"
    using supply_same [OF transfer_effect(2) [OF laws _ tr]] by simp
  then show ?thesis
    by (intro keeps_worthI) (use True o(1) total w' in \<open>auto simp: shares_out_def v' vault_id_def\<close>)
qed

lemma operator_withdraw_holds_worth:
  assumes laws: "spl_laws E" and ok: "operator_withdraw E t A n w = Inr w'"
    and vs: "vaults_sound E P w" and wa: "well_addressed E P w"
    and out: "dom (vaults w) \<inter> signers t = {}"
    and V: "\<And>v. vaults w V = Some v \<Longrightarrow> v_deposit_mint v \<in> P"
  shows "keeps_worth k V w w'"
  using ok
proof (cases rule: operator_withdraw_cases)
  case (1 v dest dm sub S L v' sub')
  have S: "S = insert (oa_vault_state A) (signers t)"
    by (rule vault_signs [OF 1(5) vaults_soundD [OF vs operator_ctx_Inr(1) [OF 1(1)]]])
  show ?thesis
    by (rule operator_holds_worth [OF laws vs wa out V 1(1) _ 1(6,7)])
      (use S in \<open>simp_all add: 1(8,9,12) assets_of_def world_updates\<close>)
qed

lemma operator_deposit_holds_worth:
  assumes laws: "spl_laws E" and ok: "operator_deposit E t A n w = Inr w'"
    and vs: "vaults_sound E P w" and wa: "well_addressed E P w"
    and out: "dom (vaults w) \<inter> signers t = {}"
    and V: "\<And>v. vaults w V = Some v \<Longrightarrow> v_deposit_mint v \<in> P"
  shows "keeps_worth k V w w'"
  using ok
proof (cases rule: operator_deposit_cases)
  case (1 v source dm sub auth S L v' sub')
  have S: "S \<subseteq> insert (oa_vault_state A) (signers t)"
    using 1(4) vault_signs [OF _ vaults_soundD [OF vs operator_ctx_Inr(1) [OF 1(1)]]]
    by (auto split: if_splits)
  show ?thesis
    by (rule operator_holds_worth [OF laws vs wa out V 1(1) S 1(5,6)])
      (simp_all add: 1(7,8,11) assets_of_def world_updates)
qed

section \<open>The two programs\<close>

text \<open>A report that marks the deployed assets of the vault at \<open>V\<close> down: less than it books now.\<close>

definition marks_down :: "pubkey \<Rightarrow> world \<Rightarrow> instruction \<Rightarrow> bool" where
  "marks_down V w i \<longleftrightarrow>
     (\<exists>A n v. i = Operator (OperatorUpdateAum A n) \<and> ua_vault_state A = V \<and> vaults w V = Some v \<and>
        n < v_deployed_aum v)"

lemma initialize_holds_worth:
  assumes "spl_laws E" and "initialize E t A admin operator fee_recipient version offset w = Inr w'"
    and "vaults_sound E P w" and "\<And>v. vaults w V = Some v \<Longrightarrow> v_deposit_mint v \<in> P"
  shows "keeps_worth k V w w'"
  using assms(2)
proof (cases rule: initialize_cases)
  case (1 c dm w1)
  note cr = initialize_create_Inr [OF assms(1) 1(6)]
  have free: "vaults w (ini_vault_state A) = None" "mints (ledger w) (ini_share_mint A) = None"
    using cr(1,2) by (simp_all add: in_use_def)
  have w': "mints (ledger w') = (mints (ledger w))(ini_share_mint A \<mapsto>
      fresh_mint (ini_token_program A) (mi_decimals dm) (ini_vault_state A))"
    and vs': "\<And>U. U \<noteq> ini_vault_state A \<Longrightarrow> vaults w' U = vaults w U"
    by (subst 1(8), simp add: put_vault_def cr(6)) (subst 1(8), subst cr(5), simp add: put_vault_def)
  show ?thesis
  proof (rule keeps_worthI)
    fix v v' assume v: "vaults w V = Some v" "vaults w' V = Some v'"
    then have "v' = v" using free(1) vs' by (cases "V = ini_vault_state A") auto
    moreover have "v_share_mint v \<noteq> ini_share_mint A"
      using vault_soundD(4) [OF vaults_soundD [OF assms(3) v(1)]] free(2) by (auto simp: plain_def)
    ultimately show "vault_id v' = vault_id v \<and> v_share_offset v' = v_share_offset v \<and>
        assets_of v \<le> assets_of v' \<and> shares_out w' v \<le> shares_out w v"
      by (simp add: shares_out_def supply_of_def w')
  qed
qed

lemma close_holds_worth:
  assumes "spl_laws E" and "close_vault E t A w = Inr w'" and vs: "vaults_sound E P w"
    and out: "dom (vaults w) \<inter> signers t = {}"
    and V: "\<And>v. vaults w V = Some v \<Longrightarrow> v_deposit_mint v \<in> P"
  shows "keeps_worth k V w w'"
  using assms(2,1)
proof (cases rule: close_cases)
  case (1 v sm S)
  have S: "S = insert (cl_vault_state A) (signers t)"
    by (rule vault_signs [OF 1(11) vaults_soundD [OF vs 1(1)]])
  have w': "vaults w' = (vaults w)(cl_vault_state A := None)" by (subst 1(10)) simp
  show ?thesis
  proof (cases "V = cl_vault_state A \<or> vaults w V = None")
    case True
    then show ?thesis using w' by (auto simp: keeps_worth_def)
  next
    case False
    show ?thesis
      by (rule keeps_bystander [OF vs conjunct1 [OF 1(12)]])
        (use False out V S w' in auto)
  qed
qed

lemma vault_program_holds_worth:
  assumes laws: "spl_laws E" and ok: "run E t i w = Inr w'" and i: "\<forall>j. i \<noteq> Queue j"
    and r: "\<not> marks_down V w i" and vs: "vaults_sound E P w" and wa: "well_addressed E P w"
    and out: "dom (vaults w) \<inter> signers t = {}"
    and V: "\<And>v. vaults w V = Some v \<Longrightarrow> v_deposit_mint v \<in> P \<and> k \<le> shares_out w v"
  shows "keeps_worth k V w w'"
proof (cases i)
  case (Setup j)
  then show ?thesis
    using ok V by (cases j)
      (auto intro: keeps_steady config_steady initialize_holds_worth [OF laws _ vs])
next
  case (User j)
  then show ?thesis
    using ok V by (cases j)
      (auto simp: deposit_def redeem_def intro: deposit_holds_worth [OF laws _ vs wa out]
        redeem_holds_worth [OF laws _ vs wa out])
next
  case (Operator j)
  then show ?thesis
    using ok V r by (cases j)
      (auto simp: marks_down_def not_less intro: update_aum_keeps
        operator_withdraw_holds_worth [OF laws _ vs wa out] operator_deposit_holds_worth [OF laws _ vs wa out])
next
  case (Registry j)
  then show ?thesis using ok by (auto intro: keeps_steady registry_steady)
next
  case (Admin j)
  then show ?thesis
    using ok V by (cases j)
      (auto intro: keeps_steady setting_steady nominate_steady accept_steady attach_steady
        detach_steady close_holds_worth [OF laws _ vs out])
next
  case (Metadata j)
  then show ?thesis using ok by (auto intro: keeps_steady metadata_steady)
qed (use i in simp)

text \<open>
  The queue program signs for queues only, so no vault's share mint grows; the vaults change in a
  redemption and in a release only.
\<close>

lemma queue_bystander:
  assumes vs: "vaults_sound E P w" and out: "outside E (signers t)" and Q: "vaults w Q = None"
    and k: "kept E (insert Q (signers t)) (ledger w) (ledger w')" and w': "vaults w' = vaults w"
    and V: "\<And>v. vaults w V = Some v \<Longrightarrow> v_deposit_mint v \<in> P"
  shows "keeps_worth k V w w'"
proof (cases "vaults w V")
  case None
  then show ?thesis by (simp add: keeps_worth_def)
next
  case (Some v)
  have "V \<notin> insert Q (signers t)" using Q Some outside_vaults [OF vs out] by auto
  then show ?thesis by (rule keeps_bystander [OF vs k]) (use V w' in auto)
qed

lemma finalize_holds_worth:
  assumes ok: "system_ok E P w" and wa: "well_addressed E P w" and out: "outside E (signers t)"
    and run: "finalize_withdrawal E t A expected_sequence w = Inr w'"
    and V: "\<And>v. vaults w V = Some v \<Longrightarrow> v_deposit_mint v \<in> P"
  shows "keeps_worth k V w w'"
  using run
proof (cases rule: finalize_cases)
  case (1 q ea dm r recipient now q' w1 ea' assets L)
  let ?Q = "fw_queue A"
  let ?t = "t\<lparr>signers := insert ?Q (signers t)\<rparr>"
  note s = system_okD [OF ok] and c = finalize_ctx_Inr [OF 1(1)]
  have rd: "redeem_checked E ?t (finalize_redeem A) (r_shares r) 0 w = Inr w1"
    using 1(9) by (simp add: redeem_def)
  have vq: "dom (vaults w) \<inter> insert ?Q (signers t) = {}"
    using outside_vaults [OF s(4) out] apart_queue [OF ok c(1)] by auto
  have tn: "vault_turn E P (signers ?t) w w1"
    by (rule redeem_turn [OF s(1) rd s(4) wa]) (simp add: vq)
  have first: "keeps_worth k V w w1"
    by (rule redeem_holds_worth [OF s(1) rd s(4) wa]) (use vq V in simp_all)
  have vs1: "vaults_sound E P w1" using tn by (simp add: vault_turn_def)
  note alive = redeem_alive [OF rd]
  have w': "ledger w' = L" "vaults w' = vaults w1" using 1(14) by simp_all
  have "vaults w1 ?Q = None" using alive apart_queue [OF ok c(1)] by simp
  then have "keeps_worth k V w1 w'"
  proof (rule queue_bystander [OF vs1 out])
    show "kept E (insert ?Q (signers t)) (ledger w1) (ledger w')"
      using spl_custody(1) [OF s(1) 1(13)] by (simp add: w')
    fix v1 assume v1: "vaults w1 V = Some v1"
    then obtain v where v: "vaults w V = Some v" using alive [of V] by (cases "vaults w V") auto
    then have "vault_id v1 = vault_id v" using first v1 by (simp add: keeps_worth_def)
    then show "v_deposit_mint v1 \<in> P" using V [OF v] vault_id_seeds(4) by metis
  qed (simp add: w')
  then show ?thesis by (rule keeps_trans [OF first]) (simp add: alive w')
qed

lemma queue_program_holds_worth:
  assumes ok: "system_ok E P w" and wa: "well_addressed E P w" and out: "outside E (signers t)"
    and run: "run_queue E t i w = Inr w'"
    and V: "\<And>v. vaults w V = Some v \<Longrightarrow> v_deposit_mint v \<in> P"
  shows "keeps_worth k V w w'"
proof (cases i)
  case (InitializeQueue A n)
  note s = system_okD [OF ok]
  have "initialize_queue E t A n w = Inr w'" using run InitializeQueue by simp
  from initialize_queue_effect [OF s(1) this] show ?thesis
  proof cases
    case (1 v dm sm es ea)
    have "vaults w (iq_queue A) = None" using 1(6) by (simp add: in_use_def)
    moreover have "vaults w' = vaults w" by (subst 1(23)) simp
    ultimately show ?thesis using queue_bystander [OF s(4) out] 1(22) V by blast
  qed
next
  case (SetCooldown A n)
  then have "set_cooldown E t A n w = Inr w' \<or> set_fulfillment_window E t A n w = Inr w'" using run by simp
  then show ?thesis by (cases rule: setter_effect) (simp add: keeps_steady steady_same)
next
  case (SetFulfillmentWindow A n)
  then have "set_cooldown E t A n w = Inr w' \<or> set_fulfillment_window E t A n w = Inr w'" using run by simp
  then show ?thesis by (cases rule: setter_effect) (simp add: keeps_steady steady_same)
next
  case (RequestWithdrawal A a b c d)
  then have "request_withdrawal E t A a b c d w = Inr w'" using run by simp
  then show ?thesis
  proof (cases rule: request_cases)
    case (1 q v sm recipient now q' s r L)
    have "kept E (insert (rw_queue A) (signers t)) (ledger w) L"
      using spl_custody(1) [OF system_okD(1) [OF ok] 1(8)] kept_mono [OF _ subset_insertI] by blast
    then show ?thesis
      by (intro queue_bystander [OF system_okD(4) [OF ok] out apart_queue [OF ok request_ctx_Inr(1) [OF 1(1)]]])
        (simp_all add: 1(9) V)
  qed
next
  case (FinalizeWithdrawal A n)
  then show ?thesis using finalize_holds_worth [OF ok wa out _ V] run by simp
next
  case (CancelWithdrawal A n)
  then have "cancel_withdrawal E t A n w = Inr w'" using run by simp
  then show ?thesis
  proof (cases rule: cancel_cases)
    case (1 q r sm q' L)
    then show ?thesis
      using spl_custody(1) [OF system_okD(1) [OF ok] 1(4)]
      by (intro queue_bystander [OF system_okD(4) [OF ok] out apart_queue [OF ok cancel_ctx_Inr(1) [OF 1(1)]]])
        (simp_all add: V)
  qed
next
  case (ReleaseVault A)
  then have "release_vault E t A w = Inr w'" using run by simp
  then have "steady V w w'"
    by (rule release_cases) (auto intro!: steady_one simp: vault_id_def)
  then show ?thesis by (rule keeps_steady)
next
  case (SweepEscrowShares A)
  note s = system_okD [OF ok]
  have run: "sweep_escrow_shares E t A w = Inr w'" using run SweepEscrowShares by simp
  obtain q0 where q0: "queues w (sw_queue A) = Some q0" "q_share_mint q0 = sw_share_mint A"
    using run by (auto simp: sweep_escrow_shares_def sweep_ctx_def load_simps constraint_simps)
  have pl: "plain E (ledger w) (sw_share_mint A)" using queue_soundD(6) [OF s(7) [OF q0(1)]] q0(2) by simp
  show ?thesis
    using sweep_effect [OF s(1) pl run]
  proof cases
    case (1 q v stray)
    have "vaults w' = vaults w" by (subst 1(15)) simp
    then show ?thesis
      using queue_bystander [OF s(4) out apart_queue [OF ok 1(1)]] 1(14) V by blast
  qed
next
  case (ExpediteRequest A n)
  then have "expedite_request E t A n w = Inr w'" using run by simp
  then show ?thesis by (rule expedite_cases) (simp add: keeps_steady steady_same)
qed

section \<open>Runs without a loss\<close>

text \<open>
  A step while at least \<open>k\<close> shares of the vault at \<open>V\<close> are out and the vault stays open, other than a
  report that marks its \<open>deployed_aum\<close> down.
\<close>

inductive trade :: "env \<Rightarrow> pubkey set \<Rightarrow> pubkey \<Rightarrow> nat \<Rightarrow> world \<Rightarrow> world \<Rightarrow> bool" for E P V k where
  instruction: "trade E P V k w w'"
    if "outside E (signers t)" and "well_addressed E P w" and "run E t i w = Inr w'"
      and "\<not> marks_down V w i"
      and "vaults w V = Some v" and "k \<le> shares_out w v" and "vaults w' V \<noteq> None"
| elsewhere: "trade E P V k w (w\<lparr>ledger := L, metadata := M, program_data := U\<rparr>)"
    if "outside E S" and "well_addressed E P w" and "kept E S (ledger w) L"
      and "undelegated E {k. own_pda E k} (ledger w) \<Longrightarrow> undelegated E {k. own_pda E k} L"

lemma trade_step: "trade E P V k w w' \<Longrightarrow> step E P w w'"
  by (erule trade.cases) (auto intro: step.intros)

lemma trade_run: "(trade E P V k)\<^sup>*\<^sup>* w w' \<Longrightarrow> (step E P)\<^sup>*\<^sup>* w w'"
  by (induction rule: rtranclp_induct) (auto dest: trade_step)

lemma trade_alive: "trade E P V k w w' \<Longrightarrow> vaults w V \<noteq> None \<Longrightarrow> vaults w' V \<noteq> None"
  by (erule trade.cases) auto

lemma trade_keeps_worth:
  assumes ok: "system_ok E P w" and tr: "trade E P V k w w'"
    and V: "\<And>v. vaults w V = Some v \<Longrightarrow> v_deposit_mint v \<in> P"
  shows "keeps_worth k V w w'"
  using tr
proof cases
  case (instruction t i v)
  note s = system_okD [OF ok]
  show ?thesis
  proof (cases "\<exists>j. i = Queue j")
    case True
    then show ?thesis
      using queue_program_holds_worth [OF ok instruction(2,1) _ V] instruction(3) by auto
  next
    case False
    then show ?thesis
      using instruction(5,6) V
      by (intro vault_program_holds_worth [OF s(1) instruction(3) _ instruction(4) s(4) instruction(2)
            outside_vaults [OF s(4) instruction(1)]]) auto
  qed
next
  case (elsewhere S L M U)
  note s = system_okD [OF ok]
  show ?thesis
  proof (cases "vaults w V")
    case None
    then show ?thesis by (simp add: keeps_worth_def)
  next
    case (Some v)
    then have "V \<notin> S" using outside_vaults [OF s(4) elsewhere(2)] by auto
    then show ?thesis
      by (intro keeps_bystander [OF s(4), of S]) (use elsewhere V in auto)
  qed
qed

text \<open>What is left after the fee, rounded up, grows with the assets and falls with the rate.\<close>

lemma net_mono:
  assumes "redeem_fees v0 b0 = Inr (f0, n0)" and "redeem_fees v b = Inr (f, n)"
    and "b0 \<le> b" and "v_withdrawal_fee v \<le> v_withdrawal_fee v0"
  shows "n0 \<le> n"
proof -
  let ?c = "\<lambda>a r. (a * r + 999999) div (1000000 :: nat)"
  define x0 x r0 r where "x0 = unat b0" and "x = unat b" and "r0 = unat (v_withdrawal_fee v0)"
    and "r = unat (v_withdrawal_fee v)"
  note d = x0_def x_def r0_def r_def
  have le: "x0 \<le> x" "r \<le> r0" using assms(3,4) by (simp_all only: d word_le_nat_alt)
  have net: "x0 = ?c x0 r0 + unat n0" "x = ?c x r + unat n"
    using assms(1,2) unfolding redeem_fees_Inr d by metis+
  have "unat n0 \<le> unat n"
  proof (cases "r0 \<le> 1000000")
    case True
    have "x * r \<le> x * r0" using le(2) by (rule mult_le_mono2)
    also have "\<dots> = x0 * r0 + (x - x0) * r0" using le(1) by (metis add_mult_distrib le_add_diff_inverse)
    also have "\<dots> \<le> x0 * r0 + (x - x0) * 1000000" using True by (intro add_left_mono mult_le_mono2)
    finally have "x * r + 999999 \<le> x0 * r0 + 999999 + (x - x0) * 1000000" by linarith
    then have "?c x r \<le> (x0 * r0 + 999999 + (x - x0) * 1000000) div 1000000" by (rule div_le_mono)
    also have "\<dots> = ?c x0 r0 + (x - x0)" by (subst div_mult_self1) simp_all
    finally show ?thesis using net le(1) by linarith
  next
    case False
    then have "x0 * 1000000 \<le> x0 * r0" by (intro mult_le_mono2) simp
    then have "x0 * 1000000 \<le> x0 * r0 + 999999" by (rule trans_le_add1)
    then have "x0 * 1000000 div 1000000 \<le> ?c x0 r0" by (rule div_le_mono)
    then have "x0 \<le> ?c x0 r0" by simp
    then show ?thesis using net(1) by linarith
  qed
  then show ?thesis by (simp only: word_le_nat_alt)
qed

lemma trades_keep_worth:
  assumes "(trade E P V k)\<^sup>*\<^sup>* w w'" and "system_ok E P w"
    and "vaults w V = Some v" and "v_deposit_mint v \<in> P"
  shows "keeps_worth k V w w' \<and> vaults w' V \<noteq> None"
  using assms(1)
proof (induction rule: rtranclp_induct)
  case base
  show ?case using assms(3) by (simp add: keeps_worth_def)
next
  case (step w1 w2)
  have ok: "system_ok E P w1" by (rule system.run_safe [OF trade_run [OF step(1)] assms(2)])
  have "v_deposit_mint v1 \<in> P" if "vaults w1 V = Some v1" for v1
  proof -
    have "vault_id v1 = vault_id v" using step(3) assms(3) that by (simp add: keeps_worth_def)
    then show ?thesis using assms(4) vault_id_seeds(4) by metis
  qed
  from trade_keeps_worth [OF ok step(2) this] trade_alive [OF step(2)] show ?case
    using step(3) keeps_trans by blast
qed

end
