(* ===== verification/Registry.thy ===== *)
theory Registry
  imports Invariant
begin

text \<open>
  The registry of operator destinations along a run: every vault's count and principal stay those of
  its entries, whatever instructions of the two programs come.
\<close>

section \<open>The invariant\<close>

definition registries_ok :: "world \<Rightarrow> bool" where
  "registries_ok w \<longleftrightarrow>
     (\<forall>V. registry_ok w V) \<and>
     (\<forall>k s. subaccounts w k = Some s \<longrightarrow> vaults w (sub_vault_state s) \<noteq> None)"

lemma registries_okD:
  assumes "registries_ok w"
  shows "registry_ok w V" and "subaccounts w k = Some s \<Longrightarrow> vaults w (sub_vault_state s) \<noteq> None"
  using assms by (simp_all add: registries_ok_def)

text \<open>What leaves the registry alone: no entry changes, and no vault's count or principal.\<close>

definition unregistered :: "vault_state \<Rightarrow> vault_state \<Rightarrow> bool" where
  "unregistered v v' \<longleftrightarrow>
     v_subaccount_count v' = v_subaccount_count v \<and> v_deployed_principal v' = v_deployed_principal v"

lemma registries_frame:
  assumes ok: "registries_ok w" and s: "subaccounts w' = subaccounts w"
    and old: "\<And>V v'. vaults w' V = Some v' \<Longrightarrow> \<exists>v. vaults w V = Some v \<and> unregistered v v'"
    and new: "\<And>V. vaults w V \<noteq> None \<Longrightarrow> vaults w' V \<noteq> None"
  shows "registries_ok w'"
  unfolding registries_ok_def
proof (intro conjI allI impI)
  show "registry_ok w' V" for V
    by (rule registry_frame [OF s registries_okD(1) [OF ok]])
      (use old in \<open>auto simp: unregistered_def\<close>)
  show "vaults w' (sub_vault_state x) \<noteq> None" if "subaccounts w' k = Some x" for k x
    using new [OF registries_okD(2) [OF ok]] that s by simp
qed

lemma unregistered_refl: "unregistered v v"
  by (simp add: unregistered_def)

lemma registries_same:
  "registries_ok w \<Longrightarrow> subaccounts w' = subaccounts w \<Longrightarrow> vaults w' = vaults w \<Longrightarrow> registries_ok w'"
  by (erule registries_frame) (auto simp: unregistered_refl)

lemma registries_one:
  "registries_ok w \<Longrightarrow> subaccounts w' = subaccounts w \<Longrightarrow> vaults w' = (vaults w)(U \<mapsto> u') \<Longrightarrow>
   vaults w U = Some u \<Longrightarrow> unregistered u u' \<Longrightarrow> registries_ok w'"
  by (erule registries_frame) (auto simp: unregistered_refl split: if_splits)

text \<open>What changes entries of vaults that are there.\<close>

lemma registries_changed:
  assumes "registries_ok w" and "\<And>V. registry_ok w V \<Longrightarrow> registry_ok w' V"
    and "\<And>V. vaults w V \<noteq> None \<Longrightarrow> vaults w' V \<noteq> None"
    and "\<And>k s. subaccounts w' k = Some s \<Longrightarrow>
      (\<exists>j s0. subaccounts w j = Some s0 \<and> sub_vault_state s0 = sub_vault_state s) \<or>
      vaults w' (sub_vault_state s) \<noteq> None"
  shows "registries_ok w'"
  using assms unfolding registries_ok_def by metis

section \<open>The vault program\<close>

lemma setting_registries:
  "registries_ok w \<Longrightarrow> run_setting E t A s w = Inr w' \<Longrightarrow> registries_ok w'"
  by (erule setting_effect, erule registries_frame)
    (auto simp: unregistered_def vault_core_def split: if_splits)

lemma nominate_registries:
  "registries_ok w \<Longrightarrow> nominate_admin E t A k w = Inr w' \<Longrightarrow> registries_ok w'"
  by (erule nominate_cases, erule registries_same) auto

lemma accept_registries:
  "registries_ok w \<Longrightarrow> accept_admin_nomination E t A w = Inr w' \<Longrightarrow> registries_ok w'"
  by (erule accept_cases, erule registries_frame) (auto simp: unregistered_def split: if_splits)

lemma attach_registries:
  "registries_ok w \<Longrightarrow> attach_withdrawal_queue E t A w = Inr w' \<Longrightarrow> registries_ok w'"
  by (erule attach_cases, erule registries_frame)
    (auto simp: unregistered_def world_updates split: if_splits)

lemma detach_registries:
  "registries_ok w \<Longrightarrow> detach_withdrawal_queue E t A w = Inr w' \<Longrightarrow> registries_ok w'"
  by (erule detach_cases, erule registries_frame)
    (auto simp: unregistered_def world_updates split: if_splits)

lemma update_aum_registries:
  "registries_ok w \<Longrightarrow> operator_update_aum E t A n w = Inr w' \<Longrightarrow> registries_ok w'"
  by (erule registries_frame)
    (auto simp: operator_update_aum_def load_simps constraint_simps world_updates unregistered_def
      split: if_splits)

lemma deposit_registries:
  assumes ok: "registries_ok w" and run: "deposit_checked E t A n m w = Inr w'"
  shows "registries_ok w'"
  using run
proof (cases rule: deposit_checked_cases)
  case (1 v sm dm L assets shares S L' local_aum)
  show ?thesis
    by (rule registries_one [OF ok _ _ deposit_ctx_Inr(1) [OF 1(1)],
          where u' = "v\<lparr>v_local_aum := local_aum\<rparr>"])
      (simp_all add: 1(14) world_updates unregistered_def)
qed

lemma redeem_registries:
  assumes ok: "registries_ok w" and run: "redeem_checked E t A n m w = Inr w'"
  shows "registries_ok w'"
  using run
proof (cases rule: redeem_checked_cases)
  case (1 v sm dm T assets fees final S local_aum L1 L2 L3)
  show ?thesis
    by (rule registries_one [OF ok _ _ redeem_ctx_Inr(1) [OF 1(1)],
          where u' = "v\<lparr>v_local_aum := local_aum\<rparr>"])
      (simp_all add: 1(15) world_updates unregistered_def)
qed

lemma operator_registries:
  assumes ok: "registries_ok w" and wa: "entries_bound E w"
    and run: "operator_withdraw E t A n w = Inr w' \<or> operator_deposit E t A n w = Inr w'"
  shows "registries_ok w'"
proof (rule registries_changed [OF ok])
  show "registry_ok w' V" if "registry_ok w V" for V
    using run withdraw_registry [OF _ wa that] deposit_registry [OF _ wa that] by blast
  have "(\<forall>V. vaults w V \<noteq> None \<longrightarrow> vaults w' V \<noteq> None) \<and>
      (\<forall>k s. subaccounts w' k = Some s \<longrightarrow>
        (\<exists>j s0. subaccounts w j = Some s0 \<and> sub_vault_state s0 = sub_vault_state s))"
    using run
  proof
    assume "operator_withdraw E t A n w = Inr w'"
    then show ?thesis
    proof (cases rule: operator_withdraw_cases)
      case (1 v dest dm sub S L v' sub')
      then show ?thesis
        using operator_ctx_Inr(9) [OF 1(1)] 
        by (auto simp: owes_more_def world_updates split: option.splits if_splits) 
    qed
  next
    assume "operator_deposit E t A n w = Inr w'"
    then show ?thesis
    proof (cases rule: operator_deposit_cases)
      case (1 v dest dm sub auth S L v' sub')
      then show ?thesis
        using operator_ctx_Inr(9) [OF 1(1)] 
        by (auto simp: owes_less_def world_updates split: option.splits if_splits) 
    qed
  qed
  then show "vaults w V \<noteq> None \<Longrightarrow> vaults w' V \<noteq> None"
    and "subaccounts w' k = Some s \<Longrightarrow>
      (\<exists>j s0. subaccounts w j = Some s0 \<and> sub_vault_state s0 = sub_vault_state s) \<or>
      vaults w' (sub_vault_state s) \<noteq> None" for V k s
    by blast+
qed

lemma registries_put:
  assumes ok: "registries_ok w" and r: "\<And>V. registry_ok w V \<Longrightarrow> registry_ok w' V"
    and w': "vaults w' = (vaults w)(U \<mapsto> u')" "subaccounts w' = (subaccounts w)(k := x)"
    and x: "\<And>s. x = Some s \<Longrightarrow> sub_vault_state s = U"
  shows "registries_ok w'"
proof (rule registries_changed [OF ok r])
  show "vaults w V \<noteq> None \<Longrightarrow> vaults w' V \<noteq> None" for V by (simp add: w')
  fix j s assume s: "subaccounts w' j = Some s"
  then have "subaccounts w j = Some s \<or> sub_vault_state s = U"
    using w'(2) x by (cases "j = k") simp_all
  then show "(\<exists>i s0. subaccounts w i = Some s0 \<and> sub_vault_state s0 = sub_vault_state s) \<or>
      vaults w' (sub_vault_state s) \<noteq> None"
    using w'(1) by auto
qed

lemma registry_registries:
  assumes ok: "registries_ok w" and run: "run_registry E t i w = Inr w'"
  shows "registries_ok w'"
proof (cases i)
  case (RegisterSubaccount A address)
  then have r: "register_subaccount E t A address w = Inr w'" using run by simp
  then show ?thesis
  proof (cases rule: register_cases)
    case (1 v ata count inherited)
    show ?thesis
      by (rule registries_put [OF ok register_registry [OF r]]) (auto simp: 1(14))
  qed
next
  case (SettleSubaccountLoss A n)
  then have r: "settle_subaccount_loss E t A n w = Inr w'" using run by simp
  then show ?thesis
  proof (cases rule: settle_cases)
    case (1 v s ata p)
    show ?thesis
      by (rule registries_put [OF ok settle_registry [OF r]]) (auto simp: 1(6,11))
  qed
next
  case (DeregisterSubaccount A)
  then have r: "deregister_subaccount E t A w = Inr w'" using run by simp
  then show ?thesis
  proof (cases rule: deregister_cases)
    case (1 v s)
    show ?thesis
      by (rule registries_put [OF ok deregister_registry [OF r]]) (auto simp: 1(7))
  qed
qed

text \<open>A new vault starts without entries; a vault closes without any.\<close>

lemma initialize_registries:
  assumes ok: "registries_ok w" and laws: "spl_laws E"
    and run: "initialize E t A admin operator fee_recipient version offset w = Inr w'"
  shows "registries_ok w'"
  using run
proof (cases rule: initialize_cases)
  case (1 c dm w1)
  let ?V = "ini_vault_state A"
  let ?v = "vault_init operator admin (ini_share_mint A) (ini_deposit_mint A) fee_recipient 0
      (snd (find_program_address E (vault_state_seeds (ini_deposit_mint A) version) VAULT_PROGRAM_ID))
      version offset zero_vault"
  note cr = initialize_create_Inr [OF laws 1(6)]
  have eq: "w' = w\<lparr>vaults := (vaults w)(?V \<mapsto> ?v), ledger := ledger w1\<rparr>"
    by (subst 1(8), subst cr(5)) (simp add: put_vault_def)
  have w': "vaults w' = (vaults w)(?V \<mapsto> ?v)" "subaccounts w' = subaccounts w" by (subst eq, simp)+
  have e: "entries w' V = entries w V" "owed w' V = owed w V" for V
    using w'(2) by (simp_all add: entries_def owed_def principal_at_def)
  have free: "vaults w ?V = None" using cr(1) by (simp add: in_use_def)
  show ?thesis
  proof (rule registries_changed [OF ok])
    fix V assume r: "registry_ok w V"
    show "registry_ok w' V"
    proof (cases "V = ?V")
      case True
      have "sub_vault_state s \<noteq> ?V" if "subaccounts w k = Some s" for k s
        using registries_okD(2) [OF ok that] free by auto
      then have "entries w ?V = {}" by (auto simp: entries_def)
      then show ?thesis
        using True w' e by (simp add: registry_ok_def vault_init_def zero_vault_def)
    next
      case False
      then show ?thesis using r w' e by (simp add: registry_ok_def split: option.splits)
    qed
  qed (use w' in auto)
qed

lemma close_registries:
  assumes ok: "registries_ok w" and laws: "spl_laws E" and run: "close_vault E t A w = Inr w'"
  shows "registries_ok w'"
  using run laws
proof (cases rule: close_cases)
  case (1 v sm S)
  let ?V = "cl_vault_state A"
  have w': "vaults w' = (vaults w)(?V := None)" "subaccounts w' = subaccounts w"
    by (subst 1(10), simp)+
  have e: "entries w' V = entries w V" "owed w' V = owed w V" for V
    using w'(2) by (simp_all add: entries_def owed_def principal_at_def)
  have empty: "entries w ?V = {}"
    using registries_okD(1) [OF ok, of ?V] 1(1,4) by (simp add: registry_ok_def)
  show ?thesis
    unfolding registries_ok_def
  proof (intro conjI allI impI)
    show "registry_ok w' V" for V
      using registries_okD(1) [OF ok, of V] w'(1) e by (simp add: registry_ok_def split: option.splits)
    show "vaults w' (sub_vault_state s) \<noteq> None" if s: "subaccounts w' k = Some s" for k s
    proof -
      have "k \<in> entries w (sub_vault_state s)" using s w'(2) by (simp add: entries_def)
      then have "sub_vault_state s \<noteq> ?V" using empty by auto
      then show ?thesis using registries_okD(2) [OF ok] s w' by simp
    qed
  qed
qed

lemma vault_program_registries:
  assumes ok: "registries_ok w" and laws: "spl_laws E" and wa: "entries_bound E w"
    and run: "run E t i w = Inr w'" and i: "\<forall>j. i \<noteq> Queue j"
  shows "registries_ok w'"
proof (cases i)
  case (Setup j)
  then show ?thesis
    using run by (cases j)
      (auto intro: initialize_registries [OF ok laws] registries_same [OF ok]
        simp: initialize_config_def set_config_authority_def override_config_authority_def
          upgrade_authority_def put_config_def load_simps constraint_simps)
next
  case (User j)
  then show ?thesis
    using run by (cases j)
      (auto simp: deposit_def redeem_def intro: deposit_registries [OF ok] redeem_registries [OF ok])
next
  case (Operator j)
  then show ?thesis
    using run by (cases j)
      (auto intro: update_aum_registries [OF ok] operator_registries [OF ok wa])
next
  case (Registry j)
  then show ?thesis using run registry_registries [OF ok] by auto
next
  case (Admin j)
  then show ?thesis
    using run ok by (cases j)
      (auto intro: setting_registries nominate_registries accept_registries attach_registries
        detach_registries close_registries [OF ok laws])
next
  case (Metadata j)
  then show ?thesis
    using run ok by (cases j)
      (auto simp: create_share_token_metadata_def update_share_token_metadata_def constraint_simps
        elim!: registries_same)
qed (use i in simp)

section \<open>The queue program\<close>

lemma queue_program_registries:
  assumes ok: "registries_ok w" and laws: "spl_laws E" and run: "run_queue E t i w = Inr w'"
  shows "registries_ok w'"
proof (cases i)
  case (InitializeQueue A n)
  then have "initialize_queue E t A n w = Inr w'" using run by simp
  from initialize_queue_effect [OF laws this] show ?thesis
  proof cases
    case (1 v dm sm es ea)
    have "subaccounts w' = subaccounts w" "vaults w' = vaults w" by (subst 1(23), simp)+
    then show ?thesis by (rule registries_same [OF ok])
  qed
next
  case (SetCooldown A n)
  then have "set_cooldown E t A n w = Inr w' \<or> set_fulfillment_window E t A n w = Inr w'" using run by simp
  then show ?thesis by (cases rule: setter_effect) (simp add: registries_same [OF ok])
next
  case (SetFulfillmentWindow A n)
  then have "set_cooldown E t A n w = Inr w' \<or> set_fulfillment_window E t A n w = Inr w'" using run by simp
  then show ?thesis by (cases rule: setter_effect) (simp add: registries_same [OF ok])
next
  case (RequestWithdrawal A a b c d)
  then have "request_withdrawal E t A a b c d w = Inr w'" using run by simp
  then show ?thesis by (cases rule: request_cases) (simp add: registries_same [OF ok])
next
  case (FinalizeWithdrawal A n)
  then have "finalize_withdrawal E t A n w = Inr w'" using run by simp
  then show ?thesis
  proof (cases rule: finalize_cases)
    case (1 q ea dm r recipient now q' w1 ea' assets L)
    then have "registries_ok w1" using redeem_registries [OF ok] by (simp add: redeem_def)
    then show ?thesis by (rule registries_same) (simp_all add: 1(14))
  qed
next
  case (CancelWithdrawal A n)
  then have "cancel_withdrawal E t A n w = Inr w'" using run by simp
  then show ?thesis by (cases rule: cancel_cases) (simp add: registries_same [OF ok])
next
  case (ReleaseVault A)
  then have "release_vault E t A w = Inr w'" using run by simp
  then show ?thesis
    by (rule release_cases, intro registries_frame [OF ok])
      (auto simp: unregistered_def split: if_splits)
next
  case (SweepEscrowShares A)
  then have "sweep_escrow_shares E t A w = Inr w'" using run by simp
  then show ?thesis
    by (auto simp: sweep_escrow_shares_def world_updates intro: registries_same [OF ok])
next
  case (ExpediteRequest A n)
  then have "expedite_request E t A n w = Inr w'" using run by simp
  then show ?thesis by (rule expedite_cases) (simp add: registries_same [OF ok])
qed

section \<open>Every step\<close>

lemma step_registries:
  assumes ok: "registries_ok w" and laws: "spl_laws E" and st: "step E P w w'"
  shows "registries_ok w'"
  using st
proof (cases rule: step.cases)
  case (instruction t i)
  have "entries_bound E w" using instruction(2) unfolding well_addressed_def by blast
  then show ?thesis
    using vault_program_registries [OF ok laws _ instruction(3)]
      queue_program_registries [OF ok laws] instruction(3) by (cases i) auto
next
  case (elsewhere S L M U)
  then show ?thesis by (simp add: registries_same [OF ok])
qed

interpretation registry: transition_system "step E P" "\<lambda>w. spl_laws E \<and> registries_ok w" "\<lambda>_ _. True" for E P
  by unfold_locales (auto intro: step_registries)

end
