(* ===== verification/Exits.thy ===== *)
theory Exits
  imports Invariant
begin

text \<open>
  Progress of an exit: what has to hold so that finalizing a request cannot fail. The token programs
  owe the programs that a burn or a transfer that is in order succeeds; with that, every step of
  \<open>finalize_withdrawal\<close> and of the \<open>redeem\<close> inside it is followed with the balances it leaves.
\<close>

section \<open>Token calls that must succeed\<close>

definition burn_possible ::
  "pubkey \<Rightarrow> pubkey set \<Rightarrow> pubkey \<Rightarrow> pubkey \<Rightarrow> pubkey \<Rightarrow> u64 \<Rightarrow> u8 \<Rightarrow> ledger \<Rightarrow> bool" where
  "burn_possible prog S src mint auth n dec L \<longleftrightarrow>
     (\<exists>a m. tokens L src = Some a \<and> mints L mint = Some m \<and> ta_mint a = mint \<and>
        mi_decimals m = dec \<and> ta_program a = prog \<and> mi_program m = prog \<and> \<not> ta_frozen a \<and>
        may_spend S auth n a \<and> n \<le> ta_amount a \<and> n \<le> mi_supply m)"

definition burn_progress_law :: "env \<Rightarrow> bool" where
  "burn_progress_law E \<longleftrightarrow>
     (\<forall>prog S src mint auth n dec L m.
        mints L mint = Some m \<longrightarrow> plain_mint E m \<longrightarrow>
        burn_possible prog S src mint auth n dec L \<longrightarrow>
        (\<exists>L'. burn_checked E prog S src mint auth n dec L = Inr L'))"

text \<open>The token program and the frozen flag of an account, which neither call changes.\<close>

definition standing :: "ledger \<Rightarrow> pubkey \<Rightarrow> (pubkey \<times> bool) option" where
  "standing L k = map_option (\<lambda>a. (ta_program a, ta_frozen a)) (tokens L k)"

lemma account_at:
  assumes "holder L k = Some (mint, owner)" and "standing L k = Some (prog, frozen)"
  obtains a where "tokens L k = Some a" and "ta_mint a = mint" and "ta_owner a = owner"
    and "ta_program a = prog" and "ta_frozen a = frozen" and "balance L k = unat (ta_amount a)"
  using assms by (auto simp: holder_def standing_def balance_def)

lemma transfer_go:
  assumes "spl_laws E" and "mints L mint = Some m" and "plain_mint E m" and "mi_program m = prog"
    and "holder L src = Some (mint, auth)" and "holder L dst = Some (mint, owner)"
    and "standing L src = Some (prog, False)" and "standing L dst = Some (prog, False)"
    and "auth \<in> S" and "src \<noteq> dst"
    and "unat n \<le> balance L src" and "balance L dst + unat n < 2 ^ 64"
  obtains L' where "transfer_checked E prog S src mint dst auth n (mi_decimals m) L = Inr L'"
    and "mints L' = mints L" and "holder L' = holder L" and "standing L' = standing L"
    and "balance L' = move src dst (unat n) (balance L)"
proof -
  obtain a where a: "tokens L src = Some a" "ta_mint a = mint" "ta_owner a = auth"
      "ta_program a = prog" "\<not> ta_frozen a" "balance L src = unat (ta_amount a)"
    by (rule account_at [OF assms(5,7)]) simp
  obtain b where b: "tokens L dst = Some b" "ta_mint b = mint" "ta_program b = prog"
      "\<not> ta_frozen b" "balance L dst = unat (ta_amount b)"
    by (rule account_at [OF assms(6,8)]) simp
  have "transfer_possible prog S src mint dst auth n (mi_decimals m) L"
    unfolding transfer_possible_def
    by (rule exI [of _ a], rule exI [of _ b], rule exI [of _ m])
      (use a b assms in \<open>simp add: may_spend_def word_le_nat_alt\<close>)
  then obtain L' where L': "transfer_checked E prog S src mint dst auth n (mi_decimals m) L = Inr L'"
    using spl_transfer_possible [OF assms(1-3)] by blast
  have "plain E L mint" using assms(2,3) by (simp add: plain_def)
  note e = transfer_effect [OF assms(1) this L']
  have "standing L' = standing L"
    using spl_transfer [OF assms(1-3) L'] assms(10)
    by (auto simp: transferred_def standing_def debited_def fun_eq_iff)
  with L' e(2,5) e(1) [unfolded moved_def] show thesis by (intro that) simp_all
qed

lemma burn_go:
  assumes "spl_laws E" and "burn_progress_law E" and "mints L mint = Some m" and "plain_mint E m"
    and "mi_program m = prog" and "holder L src = Some (mint, auth)"
    and "standing L src = Some (prog, False)" and "auth \<in> S"
    and "unat n \<le> balance L src" and "n \<le> mi_supply m"
  obtains L' where "burn_checked E prog S src mint auth n (mi_decimals m) L = Inr L'"
    and "\<And>k. k \<noteq> mint \<Longrightarrow> mints L' k = mints L k" and "holder L' = holder L"
    and "standing L' = standing L" and "balance L' = debit src (unat n) (balance L)"
proof -
  obtain a where a: "tokens L src = Some a" "ta_mint a = mint" "ta_owner a = auth"
      "ta_program a = prog" "\<not> ta_frozen a" "balance L src = unat (ta_amount a)"
    by (rule account_at [OF assms(6,7)]) simp
  have "burn_possible prog S src mint auth n (mi_decimals m) L"
    unfolding burn_possible_def
    by (rule exI [of _ a], rule exI [of _ m])
      (use a assms in \<open>simp add: may_spend_def word_le_nat_alt\<close>)
  then obtain L' where L': "burn_checked E prog S src mint auth n (mi_decimals m) L = Inr L'"
    using assms(2-4) unfolding burn_progress_law_def by metis
  have "plain E L mint" using assms(3,4) by (simp add: plain_def)
  note e = burn_effect [OF assms(1) this L'] and B = spl_burn [OF assms(1,3,4) L']
  have "standing L' = standing L"
    using B by (auto simp: burned_def standing_def debited_def fun_eq_iff)
  moreover have "mints L' k = mints L k" if "k \<noteq> mint" for k
    using B that by (auto simp: burned_def)
  ultimately show thesis using L' e(5) e(1) [unfolded moved_def] by (intro that) simp_all
qed

lemma ref_burn_progress: "burn_progress_law ref_env"
  unfolding burn_progress_law_def
proof (intro allI impI)
  fix prog S src mint auth n dec L m
  assume "burn_possible prog S src mint auth n dec L"
  then show "\<exists>L'. burn_checked ref_env prog S src mint auth n dec L = Inr L'"
    by (auto simp: burn_possible_def ref_burn_def)
qed

section \<open>The vault's redeem\<close>

lemma redeem_fees_split: "redeem_fees v assets = Inr (fees, net) \<Longrightarrow> unat assets = unat fees + unat net"
  by (auto simp: redeem_fees_def unat_simps result_simps)

text \<open>
  Everything \<open>redeem_checked\<close> asks for beyond its account list, on a ledger where the accounts are
  unfrozen, under the token program that is called, and have room.
\<close>

definition redeem_clear ::
  "redeem_accounts \<Rightarrow> vault_state \<Rightarrow> mint_account \<Rightarrow> mint_account \<Rightarrow> u64 \<Rightarrow> u64 \<Rightarrow> ledger \<Rightarrow> bool" where
  "redeem_clear A v sm dm shares assets L \<longleftrightarrow>
     shares \<noteq> 0 \<and> \<not> v_paused v \<and> withdrawal_queue v \<in> {None, Some (red_signer A)} \<and>
     assets \<noteq> 0 \<and> assets \<le> v_local_aum v \<and>
     (\<forall>k\<in>{red_vault_deposit_ata A, red_sender_token_account A, red_sender_share_account A,
        red_fee_recipient_account A}. standing L k = Some (red_token_program A, False)) \<and>
     mi_program sm = red_token_program A \<and> mi_program dm = red_token_program A \<and>
     shares \<le> mi_supply sm \<and> unat shares \<le> balance L (red_sender_share_account A) \<and>
     unat (v_local_aum v) \<le> balance L (red_vault_deposit_ata A) \<and>
     balance L (red_fee_recipient_account A) + unat assets < 2 ^ 64 \<and>
     balance L (red_sender_token_account A) + unat assets < 2 ^ 64"

lemma redeem_go:
  assumes laws: "spl_laws E" "burn_progress_law E"
    and c: "redeem_ctx E t A w = Inr (v, sm, dm)"
    and plain: "plain_mint E sm" "plain_mint E dm" "red_share_mint A \<noteq> red_deposit_mint A"
    and V: "create_program_address E (vault_seeds v) VAULT_PROGRAM_ID = Some (red_vault_state A)"
    and ne: "red_signer A \<noteq> red_vault_state A" "v_fee_recipient v \<noteq> red_vault_state A"
      "v_fee_recipient v \<noteq> red_signer A"
    and price: "total_assets v = Inr T" "assets_for_redeem v (mi_supply sm) T shares = Inr assets"
      "redeem_fees v assets = Inr (fees, net)" "min_assets_out \<le> net"
    and clear: "redeem_clear A v sm dm shares assets (ledger w)"
  obtains w1 where "redeem_checked E t A shares min_assets_out w = Inr w1"
    and "mints (ledger w1) (red_deposit_mint A) = Some dm"
    and "holder (ledger w1) = holder (ledger w)" and "standing (ledger w1) = standing (ledger w)"
    and "balance (ledger w1) (red_sender_token_account A) =
      balance (ledger w) (red_sender_token_account A) + unat net"
    and "\<And>k. balance (ledger w1) k \<le> balance (ledger w) k +
      (if k = red_fee_recipient_account A then unat fees else 0) +
      (if k = red_sender_token_account A then unat net else 0)"
proof -
  let ?L = "ledger w" and ?res = "red_vault_deposit_ata A" and ?out = "red_sender_token_account A"
    and ?sh = "red_sender_share_account A" and ?fee = "red_fee_recipient_account A"
    and ?prog = "red_token_program A" and ?V = "red_vault_state A" and ?mint = "red_deposit_mint A"
  note x = redeem_ctx_Inr [OF c] and k = clear [unfolded redeem_clear_def]
  have split: "unat assets = unat fees + unat net" by (rule redeem_fees_split [OF price(3)])
  have d: "?res \<noteq> ?out" "?res \<noteq> ?fee" "?out \<noteq> ?fee" "?sh \<noteq> ?res" "?sh \<noteq> ?out" "?sh \<noteq> ?fee"
    using x(7-10) ne plain(3) by auto
  obtain L1 where L1: "burn_checked E ?prog (signers t) ?sh (red_share_mint A) (red_signer A) shares
        (mi_decimals sm) ?L = Inr L1"
      "\<And>k. k \<noteq> red_share_mint A \<Longrightarrow> mints L1 k = mints ?L k" "holder L1 = holder ?L"
      "standing L1 = standing ?L" "balance L1 = debit ?sh (unat shares) (balance ?L)"
    by (rule burn_go [OF laws x(2) plain(1) _ x(9) _ x(4)]) (use k in auto)
  have m1: "mints L1 ?mint = Some dm" using L1(2) plain(3) x(3) by metis
  let ?S = "insert ?V (signers t)"
  have le: "unat assets \<le> balance ?L ?res" using k by (auto simp: word_le_nat_alt)
  obtain L2 where L2: "transfer_checked E ?prog ?S ?res ?mint ?fee ?V fees (mi_decimals dm) L1 = Inr L2"
      "mints L2 = mints L1" "holder L2 = holder L1" "standing L2 = standing L1"
      "balance L2 = move ?res ?fee (unat fees) (balance L1)"
    by (rule transfer_go [OF laws(1) m1 plain(2), where S = ?S and prog = ?prog and src = ?res
          and dst = ?fee and auth = ?V and owner = "v_fee_recipient v" and n = fees])
      (use k d x(7,10) le split in \<open>simp_all add: L1(3-5)\<close>)
  obtain L3 where L3: "transfer_checked E ?prog ?S ?res ?mint ?out ?V net (mi_decimals dm) L2 = Inr L3"
      "mints L3 = mints L2" "holder L3 = holder L2" "standing L3 = standing L2"
      "balance L3 = move ?res ?out (unat net) (balance L2)"
    by (rule transfer_go [OF laws(1) _ plain(2), where S = ?S and L = L2 and mint = ?mint and prog = ?prog
          and src = ?res and dst = ?out and auth = ?V and owner = "red_signer A" and n = net])
      (use k d x(7,8) le split m1 in \<open>simp_all add: L2(2-5) L1(3-5)\<close>)
  let ?w1 = "emit (WithdrawEvt (red_signer A) (red_signer A) (red_signer A) net shares)
      (put_vault ?V (v\<lparr>v_local_aum := v_local_aum v - assets\<rparr>) (put_ledger L3 w))"
  have run: "redeem_checked E t A shares min_assets_out w = Inr ?w1"
    using k price L1(1) L2(1) L3(1)
    by (auto simp: redeem_checked_def c burn_shares_def redeem_transfer_out_def pda_signers_def V
        checked_sub_def queue_gate word_neq_0_conv)
  have "ledger ?w1 = L3" by (simp add: world_updates)
  then show thesis
    by (intro that [OF run]) (use d m1 in \<open>simp_all add: L3(2-5) L2(2-5) L1(3-5) move_def debit_def\<close>)
qed

section \<open>Finalizing\<close>

text \<open>
  What the finalization asks for beyond its account lists: the request's own rules, a vault that is
  open to the queue and liquid, accounts in good standing under the token program that is called, and
  room for what they receive.
\<close>

definition exit_clear ::
  "finalize_accounts \<Rightarrow> vault_state \<Rightarrow> mint_account \<Rightarrow> mint_account \<Rightarrow> withdrawal_request \<Rightarrow>
     token_account \<Rightarrow> i64 \<Rightarrow> u64 \<Rightarrow> ledger \<Rightarrow> bool" where
  "exit_clear A v sm dm r recipient now assets L \<longleftrightarrow>
     may_finalize r (fw_finalizer A) \<and> is_eligible r now \<and> \<not> is_expired r now \<and>
     ta_mint recipient = fw_deposit_mint A \<and>
     ta_owner recipient \<noteq> fw_queue A \<and> ta_owner recipient \<noteq> fw_vault_state A \<and>
     v_fee_recipient v \<noteq> fw_queue A \<and> v_fee_recipient v \<noteq> fw_vault_state A \<and>
     \<not> v_paused v \<and> withdrawal_queue v \<in> {None, Some (fw_queue A)} \<and>
     r_shares r \<noteq> 0 \<and> r_shares r \<le> mi_supply sm \<and> assets \<noteq> 0 \<and> assets \<le> v_local_aum v \<and>
     mi_program sm = fw_token_program A \<and> mi_program dm = fw_token_program A \<and>
     (\<forall>k\<in>{fw_vault_deposit_ata A, fw_escrow_assets A, fw_escrow_shares A,
        fw_fee_recipient_account A, fw_recipient_token_account A}.
        standing L k = Some (fw_token_program A, False)) \<and>
     (\<forall>k\<in>{fw_escrow_assets A, fw_fee_recipient_account A, fw_recipient_token_account A}.
        balance L k + 2 * unat assets < 2 ^ 64)"

lemma exit_redeem_clear:
  assumes "exit_clear A v sm dm r recipient now assets L"
    and "unat (r_shares r) \<le> balance L (fw_escrow_shares A)"
    and "unat (v_local_aum v) \<le> balance L (fw_vault_deposit_ata A)"
  shows "redeem_clear (finalize_redeem A) v sm dm (r_shares r) assets L"
  using assms by (auto simp: exit_clear_def redeem_clear_def)

lemma redeem_ctx_reserve:
  assumes "redeem_ctx E t A w = Inr (v, sm, dm)" and "v_deposit_mint v = red_deposit_mint A"
  shows "reserve_of E v = red_vault_deposit_ata A"
  using assms by (auto simp: redeem_ctx_def load_simps constraint_simps reserve_of_def)

lemma load_token_again:
  assumes "load_token E w k = Inr a" and "standing (ledger w') k = standing (ledger w) k"
  obtains a' where "load_token E w' k = Inr a'" and "balance (ledger w') k = unat (ta_amount a')"
proof -
  obtain a' where a': "tokens (ledger w') k = Some a'" "ta_program a' = ta_program a"
    using assms by (auto simp: load_simps standing_def)
  then show thesis
    using assms(1) by (intro that [of a']) (auto simp: load_simps load_token_def balance_def)
qed

lemma finalize_ctx_loads:
  "finalize_ctx E t A w = Inr (q, escrow_assets, dm, r, recipient) \<Longrightarrow>
   load_token E w (fw_escrow_assets A) = Inr escrow_assets"
  by (auto simp: finalize_ctx_def finalize_load_def constraint_simps)

lemma finalize_go:
  assumes laws: "spl_laws E" "burn_progress_law E"
    and q: "queue_sound E (ledger w) (requests w) (fw_queue A) q"
    and v: "vault_sound E P (ledger w) (fw_vault_state A) v" "v_deposit_mint v = fw_deposit_mint A"
      "fw_deposit_mint A \<in> P" and apart: "fw_queue A \<noteq> fw_vault_state A"
    and c: "finalize_ctx E t A w = Inr (q, escrow_assets, dm, r, recipient)"
    and rc: "redeem_ctx E (t\<lparr>signers := insert (fw_queue A) (signers t)\<rparr>) (finalize_redeem A) w =
      Inr (v, sm, dm)"
    and now: "unix_timestamp t = Some now"
    and price: "total_assets v = Inr T" "assets_for_redeem v (mi_supply sm) T (r_shares r) = Inr assets"
      "redeem_fees v assets = Inr (fees, net)" "r_min_assets_out r \<le> net"
    and clear: "exit_clear A v sm dm r recipient now assets (ledger w)"
  shows "is_ok (finalize_withdrawal E t A (r_sequence r) w)"
proof -
  let ?S = "insert (fw_queue A) (signers t)" and ?R = "finalize_redeem A"
    and ?out = "fw_escrow_assets A" and ?to = "fw_recipient_token_account A"
  note x = finalize_ctx_Inr [OF c] and y = redeem_ctx_Inr [OF rc, simplified]
    and k = clear [unfolded exit_clear_def]
  note q = queue_soundD [OF q] and v' = vault_soundD [OF v(1)]
  note cl = book_sound_closes [OF q(7) x(2,9)]
  obtain q' where q': "close_request (r_shares r) q = Inr q'" using cl(1) by (auto simp: is_ok_iff)
  have pl: "plain_mint E sm" "plain_mint E dm" "fw_share_mint A \<noteq> fw_deposit_mint A"
    using q(3,4,6) x(5,6,13) y(2) by (simp_all add: plain_def)
  have cover: "unat (r_shares r) \<le> balance (ledger w) (fw_escrow_shares A)"
    using q(5) cl(2) x(7) by (auto simp: guarded_def word_le_nat_alt)
  have "unat (v_local_aum v) \<le> balance (ledger w) (fw_vault_deposit_ata A)"
    using v'(6) v(2,3) redeem_ctx_reserve [OF rc] by (simp add: guarded_def)
  note rcl = exit_redeem_clear [OF clear cover this]
  obtain w1 where w1: "redeem_checked E (t\<lparr>signers := ?S\<rparr>) ?R (r_shares r) 0 w = Inr w1"
      "mints (ledger w1) (fw_deposit_mint A) = Some dm" "holder (ledger w1) = holder (ledger w)"
      "standing (ledger w1) = standing (ledger w)"
      "balance (ledger w1) ?out = balance (ledger w) ?out + unat net"
      "\<And>k. balance (ledger w1) k \<le> balance (ledger w) k +
        (if k = fw_fee_recipient_account A then unat fees else 0) + (if k = ?out then unat net else 0)"
    by (rule redeem_go [OF laws rc pl(1,2) _ _ _ _ _ price(1-3) _ rcl, where min_assets_out = 0])
      (use pl(3) v'(1) apart k in \<open>simp_all\<close>)
  obtain after where after: "load_token E w1 ?out = Inr after"
      "balance (ledger w1) ?out = unat (ta_amount after)"
    by (rule load_token_again [OF finalize_ctx_loads [OF c], of w1]) (simp add: w1(4))
  have sub: "checked_sub (ta_amount after) (ta_amount escrow_assets) = Some net"
    using w1(5) after(2) x(12) by (simp add: balance_def)
  have ne: "?out \<noteq> ?to" using y(8) x(14) k by (auto simp: holder_def)
  have split: "unat assets = unat fees + unat net" by (rule redeem_fees_split [OF price(3)])
  have room: "balance (ledger w1) ?to + unat net < 2 ^ 64"
    using w1(6) [of ?to] k split ne by (auto split: if_splits)
  obtain L where L: "transfer_checked E (fw_token_program A) ?S ?out (fw_deposit_mint A) ?to (fw_queue A)
      net (mi_decimals dm) (ledger w1) = Inr L"
    by (rule transfer_go [OF laws(1) w1(2) pl(2), where S = ?S and prog = "fw_token_program A"
          and src = ?out and dst = ?to and auth = "fw_queue A" and owner = "ta_owner recipient" and n = net])
      (use k y(8) x(14) ne room in \<open>simp_all add: w1(3-5) holder_def\<close>)
  show ?thesis
    using x(4,5,8) k ne q' queue_signs [OF disjI1 [OF q'] x(15), of t] w1(1) after(1) sub price(4) L now
    by (simp add: finalize_withdrawal_def c redeem_def require_valid_recipient_def is_ok_def
        del: checked_sub_Some)
qed

end
