(* ===== verification/Indexer.thy ===== *)
theory Indexer
  imports Invariant
begin

text \<open>
  What the events of the queue program tell. \<open>events.rs\<close> promises that every request event carries the
  request's full identity and that a setter's event carries the whole configuration after it, so that
  an indexer needs no account reads. Here is such an indexer, and that following the log keeps it
  equal to the accounts.
\<close>

section \<open>An indexer\<close>

text \<open>A request as \<open>WithdrawalRequested\<close> describes it; what an indexer knows of every queue and request.\<close>

record indexed_request =
  ir_queue :: pubkey
  ir_request_id :: u64
  ir_owner :: pubkey
  ir_sequence :: u64
  ir_shares :: u64
  ir_recipient :: pubkey
  ir_finalizer :: pubkey
  ir_eligible_at :: i64
  ir_expires_at :: i64
  ir_min_assets_out :: u64

record queue_index =
  known_settings :: "pubkey \<rightharpoonup> pubkey \<times> u64 \<times> u64"
  known_requests :: "pubkey \<rightharpoonup> indexed_request"

primrec hear :: "event \<Rightarrow> queue_index \<Rightarrow> queue_index" where
  "hear (DepositEvt caller receiver amount shares) x = x"
| "hear (WithdrawEvt caller receiver owner assets shares) x = x"
| "hear (WithdrawalQueueAttached vault queue) x = x"
| "hear (WithdrawalQueueDetached vault queue) x = x"
| "hear (QueueInitialized vault queue dm sm escrow_shares escrow_assets cooldown) x =
     x\<lparr>known_settings := (known_settings x)(queue \<mapsto> (vault, cooldown, 0))\<rparr>"
| "hear (QueueConfigUpdated vault queue cooldown window) x =
     x\<lparr>known_settings := (known_settings x)(queue \<mapsto> (vault, cooldown, window))\<rparr>"
| "hear (WithdrawalRequested vault queue k rid owner seq shares recipient finalizer eligible expires floor) x =
     x\<lparr>known_requests := (known_requests x)(k \<mapsto>
       \<lparr>ir_queue = queue, ir_request_id = rid, ir_owner = owner, ir_sequence = seq, ir_shares = shares,
        ir_recipient = recipient, ir_finalizer = finalizer, ir_eligible_at = eligible,
        ir_expires_at = expires, ir_min_assets_out = floor\<rparr>)\<rparr>"
| "hear (WithdrawalFinalized vault queue k rid owner seq recipient finalizer shares assets) x =
     x\<lparr>known_requests := (known_requests x)(k := None)\<rparr>"
| "hear (WithdrawalCancelled vault queue k rid owner seq by shares destination) x =
     x\<lparr>known_requests := (known_requests x)(k := None)\<rparr>"
| "hear (WithdrawalExpedited vault queue k rid owner seq by previous new_eligible) x =
     x\<lparr>known_requests := (known_requests x)(k :=
       map_option (\<lambda>r. r\<lparr>ir_eligible_at := new_eligible\<rparr>) (known_requests x k))\<rparr>"
| "hear (VaultReleased vault queue n shares) x = x"
| "hear (EscrowSwept vault queue shares destination by) x = x"

text \<open>The same, read from the accounts.\<close>

definition setting_of :: "withdrawal_queue \<Rightarrow> pubkey \<times> u64 \<times> u64" where
  "setting_of q = (q_vault_state q, q_cooldown_seconds q, q_fulfillment_window_seconds q)"

definition indexed :: "withdrawal_request \<Rightarrow> indexed_request" where
  "indexed r =
     \<lparr>ir_queue = r_queue r, ir_request_id = r_request_id r, ir_owner = r_owner r,
      ir_sequence = r_sequence r, ir_shares = r_shares r,
      ir_recipient = r_recipient_token_account r, ir_finalizer = r_finalizer r,
      ir_eligible_at = r_eligible_at r, ir_expires_at = r_expires_at r,
      ir_min_assets_out = r_min_assets_out r\<rparr>"

definition index_of :: "world \<Rightarrow> queue_index" where
  "index_of w =
     \<lparr>known_settings = (\<lambda>k. map_option setting_of (queues w k)),
      known_requests = (\<lambda>k. map_option indexed (requests w k))\<rparr>"

definition heard :: "world \<Rightarrow> world \<Rightarrow> bool" where
  "heard w w' \<longleftrightarrow> (\<exists>es. events w' = events w @ es \<and> index_of w' = fold hear es (index_of w))"

lemma heard_refl: "heard w w"
  by (simp add: heard_def)

lemma heard_trans: "heard w w' \<Longrightarrow> heard w' w'' \<Longrightarrow> heard w w''"
  by (auto simp: heard_def)

lemma heardI: "events w' = events w @ es \<Longrightarrow> index_of w' = fold hear es (index_of w) \<Longrightarrow> heard w w'"
  by (auto simp: heard_def)

lemma index_same: "queues w' = queues w \<Longrightarrow> requests w' = requests w \<Longrightarrow> index_of w' = index_of w"
  by (simp add: index_of_def)

section \<open>The vault program says nothing of queues\<close>

definition unheard :: "world \<Rightarrow> world \<Rightarrow> bool" where
  "unheard w w' \<longleftrightarrow> (\<exists>es. events w' = events w @ es \<and> (\<forall>e\<in>set es. hear e = id))"

lemma unheardI: "events w' = events w @ es \<Longrightarrow> \<forall>e\<in>set es. hear e = id \<Longrightarrow> unheard w w'"
  by (auto simp: unheard_def)

lemma unheard_same: "events w' = events w \<Longrightarrow> unheard w w'"
  by (simp add: unheard_def)

lemma hear_id [simp]:
  "hear (DepositEvt a b c d) = id" "hear (WithdrawEvt a b e c d) = id"
  "hear (WithdrawalQueueAttached a b) = id" "hear (WithdrawalQueueDetached a b) = id"
  "hear (VaultReleased a b c d) = id" "hear (EscrowSwept a b c e f) = id"
  by (simp_all add: fun_eq_iff)

lemma fold_unheard: "\<forall>e\<in>set es. hear e = id \<Longrightarrow> fold hear es x = x"
  by (induction es) simp_all

lemma unheard_heard:
  "unheard w w' \<Longrightarrow> queues w' = queues w \<Longrightarrow> requests w' = requests w \<Longrightarrow> heard w w'"
  unfolding unheard_def heard_def by (metis fold_unheard index_same)

lemma redeem_unheard: "redeem_checked E t A n m w = Inr w' \<Longrightarrow> unheard w w'"
  by (erule redeem_checked_cases, rule unheardI, simp add: world_updates) simp

lemma deposit_unheard: "deposit_checked E t A n m w = Inr w' \<Longrightarrow> unheard w w'"
  by (erule deposit_checked_cases, rule unheardI, simp add: world_updates) simp

lemma operator_unheard:
  "operator_withdraw E t A n w = Inr w' \<Longrightarrow> unheard w w'"
  "operator_deposit E t A n w = Inr w' \<Longrightarrow> unheard w w'"
  by (erule operator_withdraw_cases operator_deposit_cases; rule unheard_same;
      simp add: world_updates put_optional_subaccount_def split: option.splits)+

lemma update_aum_unheard: "operator_update_aum E t A n w = Inr w' \<Longrightarrow> unheard w w'"
  by (auto simp: operator_update_aum_def load_simps constraint_simps world_updates intro!: unheard_same)

lemma registry_unheard: "run_registry E t i w = Inr w' \<Longrightarrow> unheard w w'"
  by (cases i) (auto elim!: register_cases deregister_cases settle_cases intro!: unheard_same)

lemma setting_unheard: "run_setting E t A s w = Inr w' \<Longrightarrow> unheard w w'"
  by (erule setting_effect) (simp add: unheard_same)

lemma gate_unheard:
  "attach_withdrawal_queue E t A w = Inr w' \<Longrightarrow> unheard w w'"
  "detach_withdrawal_queue E t A w = Inr w' \<Longrightarrow> unheard w w'"
  by ((erule attach_cases detach_cases, rule unheardI, simp add: world_updates), simp)+

lemma initialize_unheard:
  assumes "spl_laws E" and "initialize E t A admin operator fee_recipient version offset w = Inr w'"
  shows "unheard w w'"
  using assms(2)
proof (cases rule: initialize_cases)
  case (1 c dm w1)
  have "events w1 = events w" by (subst initialize_create_Inr(5) [OF assms(1) 1(6)]) simp
  then show ?thesis by (intro unheard_same) (simp add: 1(8) put_vault_def)
qed

lemma close_unheard:
  assumes "spl_laws E" and "close_vault E t A w = Inr w'"
  shows "unheard w w'"
  using assms(2,1)
proof (cases rule: close_cases)
  case 1
  have "events w' = events w" by (subst 1(10)) simp
  then show ?thesis by (rule unheard_same)
qed

lemma vault_program_unheard:
  assumes laws: "spl_laws E" and run: "run E t i w = Inr w'" and i: "\<forall>j. i \<noteq> Queue j"
  shows "unheard w w'"
proof (cases i)
  case (Setup j)
  then show ?thesis
    using run by (cases j)
      (auto simp: initialize_config_def set_config_authority_def override_config_authority_def
        upgrade_authority_def put_config_def load_simps constraint_simps
        intro: initialize_unheard [OF laws] unheard_same)
next
  case (User j)
  then show ?thesis
    using run by (cases j) (auto simp: deposit_def redeem_def intro: deposit_unheard redeem_unheard)
next
  case (Operator j)
  then show ?thesis using run by (cases j) (auto intro: operator_unheard update_aum_unheard)
next
  case (Registry j)
  then show ?thesis using run registry_unheard by simp
next
  case (Admin j)
  then show ?thesis
    using run by (cases j)
      (auto intro: setting_unheard gate_unheard close_unheard [OF laws] unheard_same
        elim!: nominate_cases accept_cases)
next
  case (Metadata j)
  then show ?thesis
    using run by (cases j)
      (auto simp: create_share_token_metadata_def update_share_token_metadata_def constraint_simps
        intro!: unheard_same)
qed (use i in simp)

section \<open>The queue program tells all\<close>

lemma settings_kept:
  "m k = Some q \<Longrightarrow> setting_of q' = setting_of q \<Longrightarrow>
   (\<lambda>j. map_option setting_of ((m(k \<mapsto> q')) j)) = (\<lambda>j. map_option setting_of (m j))"
  by auto

lemmas snapshot_defs = requested_snapshot_def finalized_snapshot_def cancelled_snapshot_def
  expedited_snapshot_def config_snapshot_def

lemma open_keeps_setting: "open_request n q = Inr (q', s) \<Longrightarrow> setting_of q' = setting_of q"
  by (auto simp: open_request_Inr setting_of_def)

lemma close_keeps_setting: "close_request n q = Inr q' \<Longrightarrow> setting_of q' = setting_of q"
  by (auto simp: setting_of_def elim!: close_request_cases)

lemma request_heard:
  assumes "request_withdrawal E t A request_id shares min_assets_out finalizer w = Inr w'"
  shows "heard w w'"
  using assms
proof (cases rule: request_cases)
  case (1 q v sm recipient now q' s r L)
  note q = request_ctx_Inr(1) [OF 1(1)]
  show ?thesis
    by (rule heardI [where es = "[requested_snapshot r (q_vault_state q') (rw_request A)]"])
      (use settings_kept [where m = "queues w", OF q open_keeps_setting [OF 1(6)]] in
        \<open>simp_all add: 1(9) index_of_def fun_eq_iff snapshot_defs indexed_def\<close>)
qed

lemma cancel_heard:
  assumes "cancel_withdrawal E t A expected_sequence w = Inr w'"
  shows "heard w w'"
  using assms
proof (cases rule: cancel_cases)
  case 1
  note q = cancel_ctx_Inr(1) [OF 1(1)]
  show ?thesis
    using 1 settings_kept [where m = "queues w", OF q close_keeps_setting]
    by (auto simp: heard_def index_of_def fun_eq_iff snapshot_defs)
qed

lemma finalize_heard:
  assumes "finalize_withdrawal E t A expected_sequence w = Inr w'"
  shows "heard w w'"
  using assms
proof (cases rule: finalize_cases)
  case (1 q ea dm r recipient now q' w1 ea' assets L)
  note q = finalize_ctx_Inr(1) [OF 1(1)]
  have rd: "redeem_checked E (t\<lparr>signers := insert (fw_queue A) (signers t)\<rparr>) (finalize_redeem A)
      (r_shares r) 0 w = Inr w1" using 1(9) by (simp add: redeem_def)
  obtain es where es: "events w1 = events w @ es" "\<forall>e\<in>set es. hear e = id"
    using redeem_unheard [OF rd] by (auto simp: unheard_def)
  have w1: "queues w1 = queues w" using rd by (rule redeem_checked_cases) (simp add: world_updates)
  show ?thesis
    by (rule heardI [where es = "es @ [finalized_snapshot r (q_vault_state q') (fw_request A)
          (fw_finalizer A) assets]"])
      (use settings_kept [where m = "queues w", OF q close_keeps_setting [OF 1(8)]] in
        \<open>simp_all add: 1(14) es fold_unheard w1 index_of_def fun_eq_iff snapshot_defs\<close>)
qed

lemma expedite_heard:
  assumes "expedite_request E t A expected_sequence w = Inr w'"
  shows "heard w w'"
  using assms
proof (cases rule: expedite_cases)
  case 1
  then show ?thesis
    by (auto simp: heard_def index_of_def fun_eq_iff snapshot_defs indexed_def)
qed

lemma setter_heard:
  assumes "set_cooldown E t A seconds w = Inr w' \<or> set_fulfillment_window E t A seconds w = Inr w'"
  shows "heard w w'"
  using assms
proof (cases rule: setter_effect)
  case (1 q v q')
  have "q_vault_state q' = q_vault_state q" by (subst 1(6)) simp
  then show ?thesis
    by (intro heardI [where es = "[config_snapshot q' (qa_queue A)]"])
      (simp_all add: 1(8) index_of_def fun_eq_iff snapshot_defs setting_of_def)
qed

lemma initialize_queue_heard:
  assumes "spl_laws E" and "initialize_queue E t A cooldown w = Inr w'"
  shows "heard w w'"
  using initialize_queue_effect [OF assms]
proof cases
  case (1 v dm sm es ea)
  have q: "queues w' = (queues w)(iq_queue A \<mapsto> new_queue E A cooldown)" "requests w' = requests w"
    and e: "events w' = events w @ [QueueInitialized (iq_vault_state A) (iq_queue A)
      (iq_deposit_mint A) (iq_share_mint A) (iq_escrow_shares A) (iq_escrow_assets A) cooldown]"
    by (subst 1(23), simp)+
  show ?thesis
    by (rule heardI [OF e])
      (simp add: index_of_def fun_eq_iff q setting_of_def new_queue_def zero_queue_def)
qed

lemma queue_program_heard:
  assumes "spl_laws E" and "run_queue E t i w = Inr w'"
  shows "heard w w'"
proof (cases i)
  case (ReleaseVault A)
  then have "release_vault E t A w = Inr w'" using assms(2) by simp
  then show ?thesis
    by (rule release_cases) (rule unheard_heard, rule unheardI, simp, simp_all)
next
  case (SweepEscrowShares A)
  then show ?thesis
    using assms(2)
    by (auto simp: sweep_escrow_shares_def world_updates intro!: unheard_heard unheardI)
qed (use assms in \<open>auto intro: request_heard cancel_heard finalize_heard expedite_heard
      setter_heard initialize_queue_heard\<close>)

lemma step_heard:
  assumes "system_ok E P w" and "step E P w w'"
  shows "heard w w'"
  using assms(2)
proof (cases rule: step.cases)
  case (instruction t i)
  note s = system_okD [OF assms(1)]
  show ?thesis
  proof (cases "\<exists>j. i = Queue j")
    case True
    then show ?thesis using queue_program_heard [OF s(1)] instruction(3) by auto
  next
    case False
    have "vault_turn E P (signers t) w w'"
      by (rule vault_program_turn [OF s(1,2) instruction(3) _ s(4) instruction(2)
            outside_vaults [OF s(4) instruction(1)]]) (use False in blast)
    then show ?thesis
      using vault_program_unheard [OF s(1) instruction(3)] False
      by (intro unheard_heard) (auto simp: vault_turn_def turn_def)
  qed
qed (simp add: heard_def index_of_def)

interpretation log: transition_system "step E P" "system_ok E P" heard for E P
  by unfold_locales (auto intro: step_ok step_heard heard_refl heard_trans)

end
