(* ===== verification/Borsh.thy ===== *)
theory Borsh
  imports Accounts
begin

text \<open>
  Borsh, the serialization the accounts and the instruction arguments of both programs use: integers
  little-endian at their width, a key its 32 bytes, a fixed array its elements, a string its length
  as \<open>u32\<close> and its bytes. A reader consumes a prefix and hands back the rest.

  \<open>codec\<close> is what a writer and a reader of one type owe each other; \<open>sized_codec\<close> adds that every
  value takes the same number of bytes, which is what fixes the offsets of an account's fields.
\<close>

section \<open>Readers\<close>

type_synonym 'a reader = "u8 list \<Rightarrow> ('a \<times> u8 list) option"

definition reading :: "'a reader \<Rightarrow> ('a \<Rightarrow> u8 list \<Rightarrow> 'b option) \<Rightarrow> u8 list \<Rightarrow> 'b option" where
  "reading get f bs = (case get bs of None \<Rightarrow> None | Some (x, rest) \<Rightarrow> f x rest)"

lemma reading_Some:
  "reading get f bs = Some y \<longleftrightarrow> (\<exists>x rest. get bs = Some (x, rest) \<and> f x rest = Some y)"
  by (auto simp: reading_def split: option.splits)

section \<open>Little-endian words\<close>

primrec le_bytes :: "nat \<Rightarrow> 'a::len word \<Rightarrow> u8 list" where
  "le_bytes 0 w = []"
| "le_bytes (Suc n) w = ucast w # le_bytes n (drop_bit 8 w)"

primrec of_le_bytes :: "u8 list \<Rightarrow> 'a::len word" where
  "of_le_bytes [] = 0"
| "of_le_bytes (b # bs) = or (ucast b) (push_bit 8 (of_le_bytes bs))"

lemma length_le_bytes [simp]: "length (le_bytes n w) = n"
  by (induction n arbitrary: w) simp_all

lemma of_le_bytes_le_bytes: "of_le_bytes (le_bytes n w) = take_bit (8 * n) (w :: 'a::len word)"
proof (induction n arbitrary: w)
  case (Suc n)
  show ?case
    by (rule bit_word_eqI) (auto simp: Suc bit_simps)
qed simp

lemma of_le_bytes_le_bytes_full [simp]:
  "LENGTH('a) \<le> 8 * n \<Longrightarrow> of_le_bytes (le_bytes n w) = (w :: 'a::len word)"
  by (simp add: of_le_bytes_le_bytes take_bit_word_eq_self)

lemma le_bytes_of_le_bytes:
  "8 * length bs \<le> LENGTH('a) \<Longrightarrow> le_bytes (length bs) (of_le_bytes bs :: 'a::len word) = bs"
proof (induction bs)
  case (Cons b bs)
  let ?w = "of_le_bytes bs :: 'a word"
  have len: "8 + 8 * length bs \<le> LENGTH('a)" using Cons.prems by simp
  have head: "ucast (or (ucast b) (push_bit 8 ?w)) = b"
    by (rule bit_word_eqI) (use len in \<open>auto simp: bit_simps\<close>)
  have "bit (drop_bit 8 (or (ucast b) (push_bit 8 ?w))) i = bit (take_bit (LENGTH('a) - 8) ?w) i"
    if "i < LENGTH('a)" for i
    using that by (auto simp: bit_simps dest: bit_imp_le_length)
  then have "drop_bit 8 (or (ucast b) (push_bit 8 ?w)) = take_bit (LENGTH('a) - 8) ?w"
    by (rule bit_word_eqI)
  moreover have "le_bytes n (take_bit m w) = le_bytes n w" if "8 * n \<le> m" for n m and w :: "'a word"
    using that
  proof (induction n arbitrary: m w)
    case (Suc n)
    have "ucast (take_bit m w) = (ucast w :: u8)"
      by (rule bit_word_eqI) (use Suc.prems in \<open>auto simp: bit_simps\<close>)
    moreover have "drop_bit 8 (take_bit m w) = take_bit (m - 8) (drop_bit 8 w)"
      by (rule bit_word_eqI) (use Suc.prems in \<open>auto simp: bit_simps\<close>)
    ultimately show ?case using Suc.IH [of "m - 8"] Suc.prems by simp
  qed simp
  ultimately have "le_bytes (length bs) (drop_bit 8 (or (ucast b) (push_bit 8 ?w))) =
      le_bytes (length bs) ?w" using len by simp
  then show ?case using Cons len head by simp
qed simp

section \<open>Readers and writers of the types in use\<close>

definition get_bytes :: "nat \<Rightarrow> u8 list reader" where
  "get_bytes n bs = (if n \<le> length bs then Some (take n bs, drop n bs) else None)"

definition get_word :: "nat \<Rightarrow> 'a::len word reader" where
  "get_word n bs = reading (get_bytes n) (\<lambda>x rest. Some (of_le_bytes x, rest)) bs"

definition put_u8 :: "u8 \<Rightarrow> u8 list" where
  "put_u8 b = [b]"

definition get_u8 :: "u8 reader" where
  "get_u8 bs = (case bs of [] \<Rightarrow> None | b # rest \<Rightarrow> Some (b, rest))"

text \<open>A key's number is read big-endian, as base 58 writes it.\<close>

definition put_key :: "pubkey \<Rightarrow> u8 list" where
  "put_key k = rev (le_bytes 32 k)"

definition get_key :: "pubkey reader" where
  "get_key bs = reading (get_bytes 32) (\<lambda>x rest. Some (of_le_bytes (rev x), rest)) bs"

definition put_bool :: "bool \<Rightarrow> u8 list" where
  "put_bool b = [if b then 1 else 0]"

definition get_bool :: "bool reader" where
  "get_bool bs =
     reading get_u8 (\<lambda>x rest. if x = 0 then Some (False, rest)
        else if x = 1 then Some (True, rest) else None) bs"

text \<open>\<open>[T; n]\<close>.\<close>

primrec get_array :: "'a reader \<Rightarrow> nat \<Rightarrow> 'a list reader" where
  "get_array get 0 bs = Some ([], bs)"
| "get_array get (Suc n) bs =
     reading get (\<lambda>x. reading (get_array get n) (\<lambda>xs rest. Some (x # xs, rest))) bs"

text \<open>\<open>String\<close>: serializing one of \<open>2 ^ 32\<close> bytes or more is an error.\<close>

definition put_string :: "string \<Rightarrow> u8 list option" where
  "put_string s =
     (if length s < 2 ^ 32 then Some (le_bytes 4 (of_nat (length s) :: u32) @ ascii s) else None)"

definition get_string :: "string reader" where
  "get_string bs =
     reading (get_word 4) (\<lambda>n. reading (get_bytes (unat (n :: u32)))
       (\<lambda>x rest. Some (map (\<lambda>b. char_of (unat b)) x, rest))) bs"

section \<open>The contract of a type's serialization\<close>

locale codec =
  fixes put :: "'a \<Rightarrow> u8 list" and get :: "'a reader"
  assumes get_put: "get (put x @ rest) = Some (x, rest)"
begin

lemma reading_put [simp]: "reading get f (put x @ rest) = f x rest"
  by (simp add: reading_def get_put)

lemma reading_put_all [simp]: "reading get f (put x) = f x []"
  using reading_put [of f x "[]"] by simp

text \<open>Nothing written is a proper prefix of anything else written.\<close>

lemma put_prefix_free: "put x @ r = put y @ s \<Longrightarrow> x = y \<and> r = s"
  by (metis get_put option.inject prod.inject)

lemma put_inject: "put x = put y \<longleftrightarrow> x = y"
  using put_prefix_free [of x "[]" y "[]"] by auto

lemma array_put:
  "get_array get (length xs) (concat (map put xs) @ rest) = Some (xs, rest)"
  by (induction xs arbitrary: rest) (simp_all add: reading_def get_put)

end

text \<open>Every value takes \<open>size\<close> bytes, and what the reader accepts is what the writer writes.\<close>

locale sized_codec = codec put get for put :: "'a \<Rightarrow> u8 list" and get :: "'a reader" +
  fixes size :: nat
  assumes put_size: "length (put x) = size"
    and put_get: "get bs = Some (x, rest) \<Longrightarrow> bs = put x @ rest"
begin

lemma get_consumes: "get bs = Some (x, rest) \<Longrightarrow> length bs = size + length rest"
  using put_get [of bs x rest] put_size [of x] by simp

lemma get_short: "length bs < size \<Longrightarrow> get bs = None"
  using get_consumes by (cases "get bs") (auto dest: leD)

lemma array_get:
  "get_array get n bs = Some (xs, rest) \<Longrightarrow> length xs = n \<and> bs = concat (map put xs) @ rest"
proof (induction n arbitrary: bs xs)
  case (Suc n)
  then show ?case by (auto simp: reading_Some dest!: put_get)
qed simp

lemma array_size: "length (concat (map put xs)) = size * length xs"
  by (induction xs) (simp_all add: put_size)

end

lemma get_bytes_Some: "get_bytes n bs = Some (x, rest) \<longleftrightarrow> length x = n \<and> bs = x @ rest"
  by (auto simp: get_bytes_def split: if_splits)

lemma get_bytes_append [simp]: "length x = n \<Longrightarrow> get_bytes n (x @ rest) = Some (x, rest)"
  by (simp add: get_bytes_Some)

lemma sized_word:
  assumes "LENGTH('a::len) = 8 * n"
  shows "sized_codec (le_bytes n :: 'a word \<Rightarrow> u8 list) (get_word n) n"
proof
  show "get_word n (le_bytes n x @ rest) = Some (x, rest)" for x :: "'a word" and rest
    using assms by (simp add: get_word_def reading_def)
next
  fix bs x rest assume "get_word n bs = Some (x :: 'a word, rest)"
  then obtain b where "length b = n" "bs = b @ rest" "x = of_le_bytes b"
    by (auto simp: get_word_def reading_Some get_bytes_Some)
  then show "bs = le_bytes n x @ rest" using assms le_bytes_of_le_bytes [of b, where ?'a = 'a] by simp
qed simp

interpretation u8_codec: sized_codec put_u8 get_u8 1
  by unfold_locales (auto simp: put_u8_def get_u8_def split: list.splits)

interpretation u32_codec: sized_codec "le_bytes 4 :: u32 \<Rightarrow> u8 list" "get_word 4" 4
  by (rule sized_word) simp

interpretation u64_codec: sized_codec "le_bytes 8 :: u64 \<Rightarrow> u8 list" "get_word 8" 8
  by (rule sized_word) simp

interpretation key_codec: sized_codec put_key get_key 32
proof
  show "get_key (put_key x @ rest) = Some (x, rest)" for x rest
    by (simp add: get_key_def put_key_def reading_def)
next
  fix bs x rest assume "get_key bs = Some (x, rest)"
  then obtain b where "length b = 32" "bs = b @ rest" "x = of_le_bytes (rev b)"
    by (auto simp: get_key_def reading_Some get_bytes_Some)
  then show "bs = put_key x @ rest"
    using le_bytes_of_le_bytes [of "rev b", where ?'a = 256] by (simp add: put_key_def)
qed (simp add: put_key_def)

interpretation bool_codec: sized_codec put_bool get_bool 1
proof
  show "get_bool (put_bool x @ rest) = Some (x, rest)" for x rest
    by (simp add: get_bool_def put_bool_def reading_def get_u8_def)
next
  fix bs x rest assume "get_bool bs = Some (x, rest)"
  then obtain b :: u8 where "get_u8 bs = Some (b, rest)" "b = (if x then 1 else 0)"
    by (auto simp: get_bool_def reading_Some split: if_splits)
  then show "bs = put_bool x @ rest" using u8_codec.put_get [of bs b rest] by (simp add: put_bool_def put_u8_def)
qed (simp add: put_bool_def)

lemma length_ascii: "length (ascii s) = length s"
  by (simp add: ascii_def)

lemma map_char_of_ascii: "map (\<lambda>b. char_of (unat b)) (ascii s) = s"
proof -
  have "char_of (unat (word_of_nat (of_char c) :: u8)) = c" for c
    by (simp add: unat_of_nat take_bit_nat_def)
  then show ?thesis by (simp add: ascii_def comp_def map_idI)
qed

lemma get_put_string:
  assumes "put_string s = Some bs"
  shows "get_string (bs @ rest) = Some (s, rest)"
proof -
  from assms have l: "length s < 4294967296"
    and bs: "bs = le_bytes 4 (of_nat (length s) :: u32) @ ascii s"
    by (auto simp: put_string_def split: if_splits)
  have "unat (of_nat (length s) :: u32) = length s" using l by (simp add: unat_of_nat take_bit_nat_def)
  then show ?thesis
    by (simp add: get_string_def bs reading_def u32_codec.get_put map_char_of_ascii length_ascii del: map_map)
qed

text \<open>The bytes of a seed are those of the serialized key and number.\<close>

lemma le_bytes_upt: "le_bytes n w = map (\<lambda>i. ucast (drop_bit (8 * i) w)) [0..<n]"
proof (induction n arbitrary: w)
  case (Suc n)
  show ?case by (simp add: Suc upt_conv_Cons map_Suc_upt [symmetric] drop_bit_drop_bit comp_def ac_simps del: upt_Suc)
qed simp

lemma put_key_is_key_bytes: "put_key k = key_bytes k"
proof -
  have "[0..<32] ! (31 - i) = 31 - i" for i by (rule trans [OF nth_upt]) simp_all
  then show ?thesis
    by (intro nth_equalityI) (simp_all add: put_key_def key_bytes_def le_bytes_upt rev_nth del: upt_Suc)
qed

lemma le_bytes_is_u64_le_bytes: "le_bytes 8 x = u64_le_bytes x"
  by (simp add: u64_le_bytes_def le_bytes_upt)

end
