(* ===== verification/ClientAccounts.thy ===== *)
theory ClientAccounts
  imports Borsh VaultState QueueState
begin

text \<open>
  The accounts as bytes: \<open>generated/accounts/*.rs\<close> of both Rust clients, against the account types of
  the programs. For every type: the client's struct, its Borsh reader and writer, \<open>LEN\<close>,
  \<open>from_bytes\<close> and the four \<open>fetch_*\<close> functions; and the account as the program's \<open>#[account]\<close>
  struct serializes behind its discriminator. The vault client's hand-written \<open>lib.rs\<close> follows.

  A \<open>[T; n]\<close> is a list; \<open>*_typed\<close> says the lengths are right, which is what the Rust type says.
  \<open>typed_codec\<close> is the contract of a type's bytes: over well-typed values, writing then reading is
  the identity, every value takes exactly \<open>LEN\<close> bytes, and whatever the reader accepts is
  well typed and is what the writer writes. It is interpreted on each of the six account types.

  The RPC node is a parameter: it answers a list of addresses with a list of accounts, and
  \<open>content\<close> is an account's data.
\<close>

section \<open>Results of client code\<close>

datatype client_error = IoError | ClientPanic

type_synonym 'a client_result = "client_error + 'a"

text \<open>\<open>T::deserialize\<close> of a buffer, whose rest is dropped.\<close>

definition parsed :: "'t reader \<Rightarrow> u8 list \<Rightarrow> 't client_result" where
  "parsed get data = (case get data of None \<Rightarrow> Inl IoError | Some (x, rest) \<Rightarrow> Inr x)"

section \<open>The contract of an account's bytes\<close>

locale typed_codec =
  fixes put :: "'a \<Rightarrow> u8 list" and get :: "'a reader" and typed :: "'a \<Rightarrow> bool" and size :: nat
  assumes typed_get_put: "typed x \<Longrightarrow> get (put x @ rest) = Some (x, rest)"
    and typed_size: "typed x \<Longrightarrow> length (put x) = size"
    and typed_get: "get bs = Some (x, rest) \<Longrightarrow> typed x \<and> bs = put x @ rest"
begin

lemma put_inject_typed: "typed x \<Longrightarrow> typed y \<Longrightarrow> put x = put y \<Longrightarrow> x = y"
  using typed_get_put [of x "[]"] typed_get_put [of y "[]"] by simp

lemma get_iff: "get bs = Some (x, rest) \<longleftrightarrow> typed x \<and> bs = put x @ rest"
  using typed_get typed_get_put by blast

lemma parsed_iff: "parsed get bs = Inr x \<longleftrightarrow> typed x \<and> size \<le> length bs \<and> take size bs = put x"
proof
  assume "parsed get bs = Inr x"
  then obtain rest where "get bs = Some (x, rest)"
    by (auto simp: parsed_def split: option.splits)
  then show "typed x \<and> size \<le> length bs \<and> take size bs = put x"
    using typed_size by (auto simp: get_iff)
next
  assume a: "typed x \<and> size \<le> length bs \<and> take size bs = put x"
  then have "get (put x @ drop size bs) = Some (x, drop size bs)" by (simp add: typed_get_put)
  moreover have "put x @ drop size bs = bs" using a append_take_drop_id [of size bs] by simp
  ultimately show "parsed get bs = Inr x" by (simp add: parsed_def)
qed

lemma parsed_put: "typed x \<Longrightarrow> parsed get (put x @ rest) = Inr x"
  by (simp add: parsed_iff typed_size)

lemma get_enough: "get bs \<noteq> None \<Longrightarrow> size \<le> length bs"
  using typed_size by (auto simp: get_iff)

text \<open>What is read depends on the first \<open>size\<close> bytes alone.\<close>

lemma get_frame: "length bs = size \<Longrightarrow> get (bs @ rest) = Some (x, s) \<Longrightarrow> get bs = Some (x, [])"
  by (auto simp: get_iff typed_size)

end

sublocale sized_codec \<subseteq> typed_codec put get "\<lambda>_. True" size
  by unfold_locales (simp_all add: get_put put_size put_get)

lemmas layout_reads =
  u8_codec.reading_put u32_codec.reading_put u64_codec.reading_put key_codec.reading_put
  bool_codec.reading_put

lemma reading_bytes [simp]: "length x = n \<Longrightarrow> reading (get_bytes n) f (x @ rest) = f x rest"
  by (simp add: reading_def)

lemma reading_padding [simp]:
  "length xs = n \<Longrightarrow>
   reading (get_array (get_word 8) n) f (concat (map (le_bytes 8) xs) @ rest) = f (xs :: u64 list) rest"
  using u64_codec.array_put [of xs rest] by (auto simp: reading_def)

lemmas layout_sizes =
  u8_codec.put_size u32_codec.put_size u64_codec.put_size key_codec.put_size bool_codec.put_size
  u64_codec.array_size

lemma get_bytes_D: "get_bytes n bs = Some (x, rest) \<Longrightarrow> length x = n \<and> bs = x @ rest"
  by (simp add: get_bytes_Some)

lemmas layout_gets =
  u8_codec.put_get u32_codec.put_get u64_codec.put_get key_codec.put_get bool_codec.put_get
  u64_codec.array_get get_bytes_D

section \<open>generated/shared.rs and the fetch functions\<close>

record ('acc, 't) decoded_account =
  da_address :: pubkey
  da_account :: 'acc
  da_data :: 't

datatype ('acc, 't) maybe_account =
    Exists "('acc, 't) decoded_account"
  | NotFound pubkey

type_synonym 'acc rpc = "pubkey list \<Rightarrow> 'acc option list client_result"

text \<open>
  The loop over \<open>0..addresses.len()\<close>, which indexes the answer: a shorter answer is an index out of
  bounds. An account that is not there is an error of \<open>fetch_all_*\<close> and an entry of
  \<open>fetch_all_maybe_*\<close>.
\<close>

primrec fetch_loop ::
  "(u8 list \<Rightarrow> 't client_result) \<Rightarrow> ('acc \<Rightarrow> u8 list) \<Rightarrow> pubkey list \<Rightarrow> 'acc option list \<Rightarrow>
   ('acc, 't) decoded_account list client_result"
where
  "fetch_loop from_bytes content [] accounts = Inr []"
| "fetch_loop from_bytes content (address # rest) accounts =
     (case accounts of
        [] \<Rightarrow> Inl ClientPanic
      | None # _ \<Rightarrow> Inl IoError
      | Some account # others \<Rightarrow>
          bindR (from_bytes (content account)) (\<lambda>data.
          bindR (fetch_loop from_bytes content rest others) (\<lambda>decoded_accounts.
          Inr (\<lparr>da_address = address, da_account = account, da_data = data\<rparr> # decoded_accounts))))"

primrec fetch_maybe_loop ::
  "(u8 list \<Rightarrow> 't client_result) \<Rightarrow> ('acc \<Rightarrow> u8 list) \<Rightarrow> pubkey list \<Rightarrow> 'acc option list \<Rightarrow>
   ('acc, 't) maybe_account list client_result"
where
  "fetch_maybe_loop from_bytes content [] accounts = Inr []"
| "fetch_maybe_loop from_bytes content (address # rest) accounts =
     (case accounts of
        [] \<Rightarrow> Inl ClientPanic
      | None # others \<Rightarrow>
          bindR (fetch_maybe_loop from_bytes content rest others) (\<lambda>decoded_accounts.
          Inr (NotFound address # decoded_accounts))
      | Some account # others \<Rightarrow>
          bindR (from_bytes (content account)) (\<lambda>data.
          bindR (fetch_maybe_loop from_bytes content rest others) (\<lambda>decoded_accounts.
          Inr (Exists \<lparr>da_address = address, da_account = account, da_data = data\<rparr> #
            decoded_accounts))))"

definition fetch_all ::
  "(u8 list \<Rightarrow> 't client_result) \<Rightarrow> ('acc \<Rightarrow> u8 list) \<Rightarrow> 'acc rpc \<Rightarrow> pubkey list \<Rightarrow>
   ('acc, 't) decoded_account list client_result"
where
  "fetch_all from_bytes content rpc addresses =
     bindR (rpc addresses) (\<lambda>accounts. fetch_loop from_bytes content addresses accounts)"

definition fetch_all_maybe ::
  "(u8 list \<Rightarrow> 't client_result) \<Rightarrow> ('acc \<Rightarrow> u8 list) \<Rightarrow> 'acc rpc \<Rightarrow> pubkey list \<Rightarrow>
   ('acc, 't) maybe_account list client_result"
where
  "fetch_all_maybe from_bytes content rpc addresses =
     bindR (rpc addresses) (\<lambda>accounts. fetch_maybe_loop from_bytes content addresses accounts)"

text \<open>\<open>accounts[0].clone()\<close>.\<close>

definition first :: "'t list \<Rightarrow> 't client_result" where
  "first accounts = (case accounts of [] \<Rightarrow> Inl ClientPanic | x # _ \<Rightarrow> Inr x)"

lemma fetch_loop_decodes:
  "fetch_loop from_bytes content addresses accounts = Inr ds \<Longrightarrow>
   map da_address ds = addresses \<and>
   map (Some \<circ> da_account) ds = take (length addresses) accounts \<and>
   (\<forall>d\<in>set ds. from_bytes (content (da_account d)) = Inr (da_data d))"
  by (induction addresses arbitrary: accounts ds) (auto split: list.splits option.splits)

lemma fetch_maybe_loop_total:
  assumes "length addresses = length accounts"
    and "\<forall>a. Some a \<in> set accounts \<longrightarrow> is_ok (from_bytes (content a))"
  shows "is_ok (fetch_maybe_loop from_bytes content addresses accounts)"
  using assms
  by (induction addresses accounts rule: list_induct2) (auto simp: is_ok_iff split: option.splits)

section \<open>generated/accounts/vault_state.rs\<close>

record vault_state_data =
  cvs_discriminator :: "u8 list"
  cvs_operator :: pubkey
  cvs_admin :: pubkey
  cvs_share_mint :: pubkey
  cvs_deposit_mint :: pubkey
  cvs_fee_recipient :: pubkey
  cvs_withdrawal_fee :: u32
  cvs_local_aum :: u64
  cvs_deployed_aum :: u64
  cvs_aum_increase_limit :: u32
  cvs_aum_decrease_limit :: u32
  cvs_pda_bump :: "u8 list"
  cvs_vault_version :: "u8 list"
  cvs_paused :: bool
  cvs_share_offset :: u64
  cvs_withdrawal_queue_authority :: pubkey
  cvs_subaccount_count :: u64
  cvs_deployed_principal :: u64
  cvs_padding :: "u64 list"

definition VAULT_STATE_DISCRIMINATOR :: "u8 list" where
  "VAULT_STATE_DISCRIMINATOR = [228, 196, 82, 165, 98, 210, 235, 152]"

definition VAULT_STATE_LEN :: nat where
  "VAULT_STATE_LEN = 455"

definition serialize_vault_state :: "vault_state_data \<Rightarrow> u8 list" where
  "serialize_vault_state a =
     cvs_discriminator a @ put_key (cvs_operator a) @ put_key (cvs_admin a) @
     put_key (cvs_share_mint a) @ put_key (cvs_deposit_mint a) @ put_key (cvs_fee_recipient a) @
     le_bytes 4 (cvs_withdrawal_fee a) @ le_bytes 8 (cvs_local_aum a) @
     le_bytes 8 (cvs_deployed_aum a) @ le_bytes 4 (cvs_aum_increase_limit a) @
     le_bytes 4 (cvs_aum_decrease_limit a) @ cvs_pda_bump a @ cvs_vault_version a @
     put_bool (cvs_paused a) @ le_bytes 8 (cvs_share_offset a) @
     put_key (cvs_withdrawal_queue_authority a) @ le_bytes 8 (cvs_subaccount_count a) @
     le_bytes 8 (cvs_deployed_principal a) @ concat (map (le_bytes 8) (cvs_padding a))"

definition deserialize_vault_state :: "vault_state_data reader" where
  "deserialize_vault_state =
     reading (get_bytes 8) (\<lambda>discriminator.
     reading get_key (\<lambda>operator.
     reading get_key (\<lambda>admin.
     reading get_key (\<lambda>share_mint.
     reading get_key (\<lambda>deposit_mint.
     reading get_key (\<lambda>fee_recipient.
     reading (get_word 4) (\<lambda>withdrawal_fee.
     reading (get_word 8) (\<lambda>local_aum.
     reading (get_word 8) (\<lambda>deployed_aum.
     reading (get_word 4) (\<lambda>aum_increase_limit.
     reading (get_word 4) (\<lambda>aum_decrease_limit.
     reading (get_bytes 1) (\<lambda>pda_bump.
     reading (get_bytes 1) (\<lambda>vault_version.
     reading get_bool (\<lambda>paused.
     reading (get_word 8) (\<lambda>share_offset.
     reading get_key (\<lambda>withdrawal_queue_authority.
     reading (get_word 8) (\<lambda>subaccount_count.
     reading (get_word 8) (\<lambda>deployed_principal.
     reading (get_array (get_word 8) 25) (\<lambda>padding rest.
       Some (\<lparr>cvs_discriminator = discriminator, cvs_operator = operator, cvs_admin = admin,
           cvs_share_mint = share_mint, cvs_deposit_mint = deposit_mint,
           cvs_fee_recipient = fee_recipient, cvs_withdrawal_fee = withdrawal_fee,
           cvs_local_aum = local_aum, cvs_deployed_aum = deployed_aum,
           cvs_aum_increase_limit = aum_increase_limit,
           cvs_aum_decrease_limit = aum_decrease_limit, cvs_pda_bump = pda_bump,
           cvs_vault_version = vault_version, cvs_paused = paused, cvs_share_offset = share_offset,
           cvs_withdrawal_queue_authority = withdrawal_queue_authority,
           cvs_subaccount_count = subaccount_count, cvs_deployed_principal = deployed_principal,
           cvs_padding = padding\<rparr>, rest))))))))))))))))))))"

definition vault_state_from_bytes :: "u8 list \<Rightarrow> vault_state_data client_result" where
  "vault_state_from_bytes data = parsed deserialize_vault_state data"

definition vault_state_typed :: "vault_state_data \<Rightarrow> bool" where
  "vault_state_typed a \<longleftrightarrow>
     length (cvs_discriminator a) = 8 \<and> length (cvs_pda_bump a) = 1 \<and>
     length (cvs_vault_version a) = 1 \<and> length (cvs_padding a) = 25"

definition fetch_all_vault_state ::
  "('acc \<Rightarrow> u8 list) \<Rightarrow> 'acc rpc \<Rightarrow> pubkey list \<Rightarrow>
   ('acc, vault_state_data) decoded_account list client_result"
where
  "fetch_all_vault_state content rpc addresses = fetch_all vault_state_from_bytes content rpc addresses"

definition fetch_vault_state ::
  "('acc \<Rightarrow> u8 list) \<Rightarrow> 'acc rpc \<Rightarrow> pubkey \<Rightarrow>
   ('acc, vault_state_data) decoded_account client_result"
where
  "fetch_vault_state content rpc address =
     bindR (fetch_all_vault_state content rpc [address]) (\<lambda>accounts. first accounts)"

definition fetch_all_maybe_vault_state ::
  "('acc \<Rightarrow> u8 list) \<Rightarrow> 'acc rpc \<Rightarrow> pubkey list \<Rightarrow>
   ('acc, vault_state_data) maybe_account list client_result"
where
  "fetch_all_maybe_vault_state content rpc addresses =
     fetch_all_maybe vault_state_from_bytes content rpc addresses"

definition fetch_maybe_vault_state ::
  "('acc \<Rightarrow> u8 list) \<Rightarrow> 'acc rpc \<Rightarrow> pubkey \<Rightarrow>
   ('acc, vault_state_data) maybe_account client_result"
where
  "fetch_maybe_vault_state content rpc address =
     bindR (fetch_all_maybe_vault_state content rpc [address]) (\<lambda>accounts. first accounts)"

text \<open>The account as its program writes it, and what a client is to read.\<close>

definition vault_state_account :: "u8 list \<Rightarrow> vault_state \<Rightarrow> u8 list" where
  "vault_state_account discriminator x =
     discriminator @ put_key (v_operator x) @ put_key (v_admin x) @ put_key (v_share_mint x) @
     put_key (v_deposit_mint x) @ put_key (v_fee_recipient x) @ le_bytes 4 (v_withdrawal_fee x) @
     le_bytes 8 (v_local_aum x) @ le_bytes 8 (v_deployed_aum x) @
     le_bytes 4 (v_aum_increase_limit x) @ le_bytes 4 (v_aum_decrease_limit x) @ [v_pda_bump x] @
     [v_vault_version x] @ put_bool (v_paused x) @ le_bytes 8 (v_share_offset x) @
     put_key (v_withdrawal_queue_authority x) @ le_bytes 8 (v_subaccount_count x) @
     le_bytes 8 (v_deployed_principal x) @ concat (map (le_bytes 8) (v_padding x))"

definition vault_state_view :: "u8 list \<Rightarrow> vault_state \<Rightarrow> vault_state_data" where
  "vault_state_view discriminator x =
     \<lparr>cvs_discriminator = discriminator, cvs_operator = v_operator x, cvs_admin = v_admin x,
      cvs_share_mint = v_share_mint x, cvs_deposit_mint = v_deposit_mint x,
      cvs_fee_recipient = v_fee_recipient x, cvs_withdrawal_fee = v_withdrawal_fee x,
      cvs_local_aum = v_local_aum x, cvs_deployed_aum = v_deployed_aum x,
      cvs_aum_increase_limit = v_aum_increase_limit x,
      cvs_aum_decrease_limit = v_aum_decrease_limit x, cvs_pda_bump = [v_pda_bump x],
      cvs_vault_version = [v_vault_version x], cvs_paused = v_paused x,
      cvs_share_offset = v_share_offset x,
      cvs_withdrawal_queue_authority = v_withdrawal_queue_authority x,
      cvs_subaccount_count = v_subaccount_count x, cvs_deployed_principal = v_deployed_principal x,
      cvs_padding = v_padding x\<rparr>"

interpretation vault_state_layout:
  typed_codec serialize_vault_state deserialize_vault_state vault_state_typed VAULT_STATE_LEN
proof
  show "deserialize_vault_state (serialize_vault_state x @ rest) = Some (x, rest)"
    if "vault_state_typed x" for x rest
    using that by (simp add: deserialize_vault_state_def serialize_vault_state_def vault_state_typed_def
        layout_reads)
  show "length (serialize_vault_state x) = VAULT_STATE_LEN" if "vault_state_typed x" for x
    using that by (simp add: serialize_vault_state_def vault_state_typed_def VAULT_STATE_LEN_def
        layout_sizes)
  show "vault_state_typed x \<and> bs = serialize_vault_state x @ rest"
    if "deserialize_vault_state bs = Some (x, rest)" for bs x rest
    using that by (auto simp: deserialize_vault_state_def serialize_vault_state_def vault_state_typed_def
        reading_Some dest!: layout_gets)
qed

lemma vault_state_account_view: "vault_state_account d x = serialize_vault_state (vault_state_view d x)"
  by (simp add: vault_state_account_def serialize_vault_state_def vault_state_view_def)

section \<open>generated/accounts/program_config.rs\<close>

record program_config_data =
  cpc_discriminator :: "u8 list"
  cpc_authority :: pubkey
  cpc_bump :: "u8 list"
  cpc_padding :: "u64 list"

definition PROGRAM_CONFIG_DISCRIMINATOR :: "u8 list" where
  "PROGRAM_CONFIG_DISCRIMINATOR = [196, 210, 90, 231, 144, 149, 140, 63]"

definition PROGRAM_CONFIG_LEN :: nat where
  "PROGRAM_CONFIG_LEN = 169"

definition serialize_program_config :: "program_config_data \<Rightarrow> u8 list" where
  "serialize_program_config a =
     cpc_discriminator a @ put_key (cpc_authority a) @ cpc_bump a @
     concat (map (le_bytes 8) (cpc_padding a))"

definition deserialize_program_config :: "program_config_data reader" where
  "deserialize_program_config =
     reading (get_bytes 8) (\<lambda>discriminator.
     reading get_key (\<lambda>authority.
     reading (get_bytes 1) (\<lambda>bump.
     reading (get_array (get_word 8) 16) (\<lambda>padding rest.
       Some (\<lparr>cpc_discriminator = discriminator, cpc_authority = authority, cpc_bump = bump,
           cpc_padding = padding\<rparr>, rest)))))"

definition program_config_from_bytes :: "u8 list \<Rightarrow> program_config_data client_result" where
  "program_config_from_bytes data = parsed deserialize_program_config data"

definition program_config_typed :: "program_config_data \<Rightarrow> bool" where
  "program_config_typed a \<longleftrightarrow>
     length (cpc_discriminator a) = 8 \<and> length (cpc_bump a) = 1 \<and>
     length (cpc_padding a) = 16"

definition fetch_all_program_config ::
  "('acc \<Rightarrow> u8 list) \<Rightarrow> 'acc rpc \<Rightarrow> pubkey list \<Rightarrow>
   ('acc, program_config_data) decoded_account list client_result"
where
  "fetch_all_program_config content rpc addresses = fetch_all program_config_from_bytes content rpc addresses"

definition fetch_program_config ::
  "('acc \<Rightarrow> u8 list) \<Rightarrow> 'acc rpc \<Rightarrow> pubkey \<Rightarrow>
   ('acc, program_config_data) decoded_account client_result"
where
  "fetch_program_config content rpc address =
     bindR (fetch_all_program_config content rpc [address]) (\<lambda>accounts. first accounts)"

definition fetch_all_maybe_program_config ::
  "('acc \<Rightarrow> u8 list) \<Rightarrow> 'acc rpc \<Rightarrow> pubkey list \<Rightarrow>
   ('acc, program_config_data) maybe_account list client_result"
where
  "fetch_all_maybe_program_config content rpc addresses =
     fetch_all_maybe program_config_from_bytes content rpc addresses"

definition fetch_maybe_program_config ::
  "('acc \<Rightarrow> u8 list) \<Rightarrow> 'acc rpc \<Rightarrow> pubkey \<Rightarrow>
   ('acc, program_config_data) maybe_account client_result"
where
  "fetch_maybe_program_config content rpc address =
     bindR (fetch_all_maybe_program_config content rpc [address]) (\<lambda>accounts. first accounts)"

text \<open>The account as its program writes it, and what a client is to read.\<close>

definition program_config_account :: "u8 list \<Rightarrow> program_config \<Rightarrow> u8 list" where
  "program_config_account discriminator x =
     discriminator @ put_key (cfg_authority x) @ [cfg_bump x] @
     concat (map (le_bytes 8) (cfg_padding x))"

definition program_config_view :: "u8 list \<Rightarrow> program_config \<Rightarrow> program_config_data" where
  "program_config_view discriminator x =
     \<lparr>cpc_discriminator = discriminator, cpc_authority = cfg_authority x, cpc_bump = [cfg_bump x],
      cpc_padding = cfg_padding x\<rparr>"

interpretation program_config_layout:
  typed_codec serialize_program_config deserialize_program_config program_config_typed PROGRAM_CONFIG_LEN
proof
  show "deserialize_program_config (serialize_program_config x @ rest) = Some (x, rest)"
    if "program_config_typed x" for x rest
    using that by (simp add: deserialize_program_config_def serialize_program_config_def program_config_typed_def
        layout_reads)
  show "length (serialize_program_config x) = PROGRAM_CONFIG_LEN" if "program_config_typed x" for x
    using that by (simp add: serialize_program_config_def program_config_typed_def PROGRAM_CONFIG_LEN_def
        layout_sizes)
  show "program_config_typed x \<and> bs = serialize_program_config x @ rest"
    if "deserialize_program_config bs = Some (x, rest)" for bs x rest
    using that by (auto simp: deserialize_program_config_def serialize_program_config_def program_config_typed_def
        reading_Some dest!: layout_gets)
qed

lemma program_config_account_view: "program_config_account d x = serialize_program_config (program_config_view d x)"
  by (simp add: program_config_account_def serialize_program_config_def program_config_view_def)

section \<open>generated/accounts/nominated_admin.rs\<close>

record nominated_admin_data =
  cna_discriminator :: "u8 list"
  cna_nominated_admin :: pubkey
  cna_valid_until :: i64

definition NOMINATED_ADMIN_DISCRIMINATOR :: "u8 list" where
  "NOMINATED_ADMIN_DISCRIMINATOR = [195, 131, 96, 55, 140, 253, 93, 195]"

definition NOMINATED_ADMIN_LEN :: nat where
  "NOMINATED_ADMIN_LEN = 48"

definition serialize_nominated_admin :: "nominated_admin_data \<Rightarrow> u8 list" where
  "serialize_nominated_admin a =
     cna_discriminator a @ put_key (cna_nominated_admin a) @ le_bytes 8 (cna_valid_until a)"

definition deserialize_nominated_admin :: "nominated_admin_data reader" where
  "deserialize_nominated_admin =
     reading (get_bytes 8) (\<lambda>discriminator.
     reading get_key (\<lambda>nominated_admin.
     reading (get_word 8) (\<lambda>valid_until rest.
       Some (\<lparr>cna_discriminator = discriminator, cna_nominated_admin = nominated_admin,
           cna_valid_until = valid_until\<rparr>, rest))))"

definition nominated_admin_from_bytes :: "u8 list \<Rightarrow> nominated_admin_data client_result" where
  "nominated_admin_from_bytes data = parsed deserialize_nominated_admin data"

definition nominated_admin_typed :: "nominated_admin_data \<Rightarrow> bool" where
  "nominated_admin_typed a \<longleftrightarrow>
     length (cna_discriminator a) = 8"

definition fetch_all_nominated_admin ::
  "('acc \<Rightarrow> u8 list) \<Rightarrow> 'acc rpc \<Rightarrow> pubkey list \<Rightarrow>
   ('acc, nominated_admin_data) decoded_account list client_result"
where
  "fetch_all_nominated_admin content rpc addresses = fetch_all nominated_admin_from_bytes content rpc addresses"

definition fetch_nominated_admin ::
  "('acc \<Rightarrow> u8 list) \<Rightarrow> 'acc rpc \<Rightarrow> pubkey \<Rightarrow>
   ('acc, nominated_admin_data) decoded_account client_result"
where
  "fetch_nominated_admin content rpc address =
     bindR (fetch_all_nominated_admin content rpc [address]) (\<lambda>accounts. first accounts)"

definition fetch_all_maybe_nominated_admin ::
  "('acc \<Rightarrow> u8 list) \<Rightarrow> 'acc rpc \<Rightarrow> pubkey list \<Rightarrow>
   ('acc, nominated_admin_data) maybe_account list client_result"
where
  "fetch_all_maybe_nominated_admin content rpc addresses =
     fetch_all_maybe nominated_admin_from_bytes content rpc addresses"

definition fetch_maybe_nominated_admin ::
  "('acc \<Rightarrow> u8 list) \<Rightarrow> 'acc rpc \<Rightarrow> pubkey \<Rightarrow>
   ('acc, nominated_admin_data) maybe_account client_result"
where
  "fetch_maybe_nominated_admin content rpc address =
     bindR (fetch_all_maybe_nominated_admin content rpc [address]) (\<lambda>accounts. first accounts)"

text \<open>The account as its program writes it, and what a client is to read.\<close>

definition nominated_admin_account :: "u8 list \<Rightarrow> nominated_admin \<Rightarrow> u8 list" where
  "nominated_admin_account discriminator x =
     discriminator @ put_key (nom_nominated_admin x) @ le_bytes 8 (nom_valid_until x)"

definition nominated_admin_view :: "u8 list \<Rightarrow> nominated_admin \<Rightarrow> nominated_admin_data" where
  "nominated_admin_view discriminator x =
     \<lparr>cna_discriminator = discriminator, cna_nominated_admin = nom_nominated_admin x,
      cna_valid_until = nom_valid_until x\<rparr>"

interpretation nominated_admin_layout:
  typed_codec serialize_nominated_admin deserialize_nominated_admin nominated_admin_typed NOMINATED_ADMIN_LEN
proof
  show "deserialize_nominated_admin (serialize_nominated_admin x @ rest) = Some (x, rest)"
    if "nominated_admin_typed x" for x rest
    using that by (simp add: deserialize_nominated_admin_def serialize_nominated_admin_def nominated_admin_typed_def
        layout_reads)
  show "length (serialize_nominated_admin x) = NOMINATED_ADMIN_LEN" if "nominated_admin_typed x" for x
    using that by (simp add: serialize_nominated_admin_def nominated_admin_typed_def NOMINATED_ADMIN_LEN_def
        layout_sizes)
  show "nominated_admin_typed x \<and> bs = serialize_nominated_admin x @ rest"
    if "deserialize_nominated_admin bs = Some (x, rest)" for bs x rest
    using that by (auto simp: deserialize_nominated_admin_def serialize_nominated_admin_def nominated_admin_typed_def
        reading_Some dest!: layout_gets)
qed

lemma nominated_admin_account_view: "nominated_admin_account d x = serialize_nominated_admin (nominated_admin_view d x)"
  by (simp add: nominated_admin_account_def serialize_nominated_admin_def nominated_admin_view_def)

section \<open>generated/accounts/subaccount.rs\<close>

record subaccount_data =
  csa_discriminator :: "u8 list"
  csa_vault_state :: pubkey
  csa_address :: pubkey
  csa_principal :: u64
  csa_bump :: u8
  csa_padding :: "u64 list"

definition SUBACCOUNT_DISCRIMINATOR :: "u8 list" where
  "SUBACCOUNT_DISCRIMINATOR = [205, 168, 49, 209, 131, 86, 56, 195]"

definition SUBACCOUNT_LEN :: nat where
  "SUBACCOUNT_LEN = 145"

definition serialize_subaccount :: "subaccount_data \<Rightarrow> u8 list" where
  "serialize_subaccount a =
     csa_discriminator a @ put_key (csa_vault_state a) @ put_key (csa_address a) @
     le_bytes 8 (csa_principal a) @ put_u8 (csa_bump a) @ concat (map (le_bytes 8) (csa_padding a))"

definition deserialize_subaccount :: "subaccount_data reader" where
  "deserialize_subaccount =
     reading (get_bytes 8) (\<lambda>discriminator.
     reading get_key (\<lambda>vault_state.
     reading get_key (\<lambda>address.
     reading (get_word 8) (\<lambda>principal.
     reading get_u8 (\<lambda>bump.
     reading (get_array (get_word 8) 8) (\<lambda>padding rest.
       Some (\<lparr>csa_discriminator = discriminator, csa_vault_state = vault_state, csa_address = address,
           csa_principal = principal, csa_bump = bump, csa_padding = padding\<rparr>, rest)))))))"

definition subaccount_from_bytes :: "u8 list \<Rightarrow> subaccount_data client_result" where
  "subaccount_from_bytes data = parsed deserialize_subaccount data"

definition subaccount_typed :: "subaccount_data \<Rightarrow> bool" where
  "subaccount_typed a \<longleftrightarrow>
     length (csa_discriminator a) = 8 \<and> length (csa_padding a) = 8"

definition fetch_all_subaccount ::
  "('acc \<Rightarrow> u8 list) \<Rightarrow> 'acc rpc \<Rightarrow> pubkey list \<Rightarrow>
   ('acc, subaccount_data) decoded_account list client_result"
where
  "fetch_all_subaccount content rpc addresses = fetch_all subaccount_from_bytes content rpc addresses"

definition fetch_subaccount ::
  "('acc \<Rightarrow> u8 list) \<Rightarrow> 'acc rpc \<Rightarrow> pubkey \<Rightarrow>
   ('acc, subaccount_data) decoded_account client_result"
where
  "fetch_subaccount content rpc address =
     bindR (fetch_all_subaccount content rpc [address]) (\<lambda>accounts. first accounts)"

definition fetch_all_maybe_subaccount ::
  "('acc \<Rightarrow> u8 list) \<Rightarrow> 'acc rpc \<Rightarrow> pubkey list \<Rightarrow>
   ('acc, subaccount_data) maybe_account list client_result"
where
  "fetch_all_maybe_subaccount content rpc addresses =
     fetch_all_maybe subaccount_from_bytes content rpc addresses"

definition fetch_maybe_subaccount ::
  "('acc \<Rightarrow> u8 list) \<Rightarrow> 'acc rpc \<Rightarrow> pubkey \<Rightarrow>
   ('acc, subaccount_data) maybe_account client_result"
where
  "fetch_maybe_subaccount content rpc address =
     bindR (fetch_all_maybe_subaccount content rpc [address]) (\<lambda>accounts. first accounts)"

text \<open>The account as its program writes it, and what a client is to read.\<close>

definition subaccount_account :: "u8 list \<Rightarrow> subaccount \<Rightarrow> u8 list" where
  "subaccount_account discriminator x =
     discriminator @ put_key (sub_vault_state x) @ put_key (sub_address x) @
     le_bytes 8 (sub_principal x) @ put_u8 (sub_bump x) @ concat (map (le_bytes 8) (sub_padding x))"

definition subaccount_view :: "u8 list \<Rightarrow> subaccount \<Rightarrow> subaccount_data" where
  "subaccount_view discriminator x =
     \<lparr>csa_discriminator = discriminator, csa_vault_state = sub_vault_state x,
      csa_address = sub_address x, csa_principal = sub_principal x, csa_bump = sub_bump x,
      csa_padding = sub_padding x\<rparr>"

interpretation subaccount_layout:
  typed_codec serialize_subaccount deserialize_subaccount subaccount_typed SUBACCOUNT_LEN
proof
  show "deserialize_subaccount (serialize_subaccount x @ rest) = Some (x, rest)"
    if "subaccount_typed x" for x rest
    using that by (simp add: deserialize_subaccount_def serialize_subaccount_def subaccount_typed_def
        layout_reads)
  show "length (serialize_subaccount x) = SUBACCOUNT_LEN" if "subaccount_typed x" for x
    using that by (simp add: serialize_subaccount_def subaccount_typed_def SUBACCOUNT_LEN_def
        layout_sizes)
  show "subaccount_typed x \<and> bs = serialize_subaccount x @ rest"
    if "deserialize_subaccount bs = Some (x, rest)" for bs x rest
    using that by (auto simp: deserialize_subaccount_def serialize_subaccount_def subaccount_typed_def
        reading_Some dest!: layout_gets)
qed

lemma subaccount_account_view: "subaccount_account d x = serialize_subaccount (subaccount_view d x)"
  by (simp add: subaccount_account_def serialize_subaccount_def subaccount_view_def)

section \<open>generated/accounts/withdrawal_queue.rs\<close>

record withdrawal_queue_data =
  cwq_discriminator :: "u8 list"
  cwq_vault_state :: pubkey
  cwq_deposit_mint :: pubkey
  cwq_share_mint :: pubkey
  cwq_escrow_shares :: pubkey
  cwq_escrow_assets :: pubkey
  cwq_cooldown_seconds :: u64
  cwq_fulfillment_window_seconds :: u64
  cwq_sequence :: u64
  cwq_pending_requests :: u64
  cwq_pending_shares :: u64
  cwq_bump :: u8
  cwq_padding :: "u64 list"

definition WITHDRAWAL_QUEUE_DISCRIMINATOR :: "u8 list" where
  "WITHDRAWAL_QUEUE_DISCRIMINATOR = [54, 56, 158, 88, 232, 203, 241, 163]"

definition WITHDRAWAL_QUEUE_LEN :: nat where
  "WITHDRAWAL_QUEUE_LEN = 369"

definition serialize_withdrawal_queue :: "withdrawal_queue_data \<Rightarrow> u8 list" where
  "serialize_withdrawal_queue a =
     cwq_discriminator a @ put_key (cwq_vault_state a) @ put_key (cwq_deposit_mint a) @
     put_key (cwq_share_mint a) @ put_key (cwq_escrow_shares a) @ put_key (cwq_escrow_assets a) @
     le_bytes 8 (cwq_cooldown_seconds a) @ le_bytes 8 (cwq_fulfillment_window_seconds a) @
     le_bytes 8 (cwq_sequence a) @ le_bytes 8 (cwq_pending_requests a) @
     le_bytes 8 (cwq_pending_shares a) @ put_u8 (cwq_bump a) @
     concat (map (le_bytes 8) (cwq_padding a))"

definition deserialize_withdrawal_queue :: "withdrawal_queue_data reader" where
  "deserialize_withdrawal_queue =
     reading (get_bytes 8) (\<lambda>discriminator.
     reading get_key (\<lambda>vault_state.
     reading get_key (\<lambda>deposit_mint.
     reading get_key (\<lambda>share_mint.
     reading get_key (\<lambda>escrow_shares.
     reading get_key (\<lambda>escrow_assets.
     reading (get_word 8) (\<lambda>cooldown_seconds.
     reading (get_word 8) (\<lambda>fulfillment_window_seconds.
     reading (get_word 8) (\<lambda>sequence.
     reading (get_word 8) (\<lambda>pending_requests.
     reading (get_word 8) (\<lambda>pending_shares.
     reading get_u8 (\<lambda>bump.
     reading (get_array (get_word 8) 20) (\<lambda>padding rest.
       Some (\<lparr>cwq_discriminator = discriminator, cwq_vault_state = vault_state,
           cwq_deposit_mint = deposit_mint, cwq_share_mint = share_mint,
           cwq_escrow_shares = escrow_shares, cwq_escrow_assets = escrow_assets,
           cwq_cooldown_seconds = cooldown_seconds,
           cwq_fulfillment_window_seconds = fulfillment_window_seconds, cwq_sequence = sequence,
           cwq_pending_requests = pending_requests, cwq_pending_shares = pending_shares,
           cwq_bump = bump, cwq_padding = padding\<rparr>, rest))))))))))))))"

definition withdrawal_queue_from_bytes :: "u8 list \<Rightarrow> withdrawal_queue_data client_result" where
  "withdrawal_queue_from_bytes data = parsed deserialize_withdrawal_queue data"

definition withdrawal_queue_typed :: "withdrawal_queue_data \<Rightarrow> bool" where
  "withdrawal_queue_typed a \<longleftrightarrow>
     length (cwq_discriminator a) = 8 \<and> length (cwq_padding a) = 20"

definition fetch_all_withdrawal_queue ::
  "('acc \<Rightarrow> u8 list) \<Rightarrow> 'acc rpc \<Rightarrow> pubkey list \<Rightarrow>
   ('acc, withdrawal_queue_data) decoded_account list client_result"
where
  "fetch_all_withdrawal_queue content rpc addresses = fetch_all withdrawal_queue_from_bytes content rpc addresses"

definition fetch_withdrawal_queue ::
  "('acc \<Rightarrow> u8 list) \<Rightarrow> 'acc rpc \<Rightarrow> pubkey \<Rightarrow>
   ('acc, withdrawal_queue_data) decoded_account client_result"
where
  "fetch_withdrawal_queue content rpc address =
     bindR (fetch_all_withdrawal_queue content rpc [address]) (\<lambda>accounts. first accounts)"

definition fetch_all_maybe_withdrawal_queue ::
  "('acc \<Rightarrow> u8 list) \<Rightarrow> 'acc rpc \<Rightarrow> pubkey list \<Rightarrow>
   ('acc, withdrawal_queue_data) maybe_account list client_result"
where
  "fetch_all_maybe_withdrawal_queue content rpc addresses =
     fetch_all_maybe withdrawal_queue_from_bytes content rpc addresses"

definition fetch_maybe_withdrawal_queue ::
  "('acc \<Rightarrow> u8 list) \<Rightarrow> 'acc rpc \<Rightarrow> pubkey \<Rightarrow>
   ('acc, withdrawal_queue_data) maybe_account client_result"
where
  "fetch_maybe_withdrawal_queue content rpc address =
     bindR (fetch_all_maybe_withdrawal_queue content rpc [address]) (\<lambda>accounts. first accounts)"

text \<open>The account as its program writes it, and what a client is to read.\<close>

definition withdrawal_queue_account :: "u8 list \<Rightarrow> withdrawal_queue \<Rightarrow> u8 list" where
  "withdrawal_queue_account discriminator x =
     discriminator @ put_key (q_vault_state x) @ put_key (q_deposit_mint x) @
     put_key (q_share_mint x) @ put_key (q_escrow_shares x) @ put_key (q_escrow_assets x) @
     le_bytes 8 (q_cooldown_seconds x) @ le_bytes 8 (q_fulfillment_window_seconds x) @
     le_bytes 8 (q_sequence x) @ le_bytes 8 (q_pending_requests x) @
     le_bytes 8 (q_pending_shares x) @ put_u8 (q_bump x) @ concat (map (le_bytes 8) (q_padding x))"

definition withdrawal_queue_view :: "u8 list \<Rightarrow> withdrawal_queue \<Rightarrow> withdrawal_queue_data" where
  "withdrawal_queue_view discriminator x =
     \<lparr>cwq_discriminator = discriminator, cwq_vault_state = q_vault_state x,
      cwq_deposit_mint = q_deposit_mint x, cwq_share_mint = q_share_mint x,
      cwq_escrow_shares = q_escrow_shares x, cwq_escrow_assets = q_escrow_assets x,
      cwq_cooldown_seconds = q_cooldown_seconds x,
      cwq_fulfillment_window_seconds = q_fulfillment_window_seconds x, cwq_sequence = q_sequence x,
      cwq_pending_requests = q_pending_requests x, cwq_pending_shares = q_pending_shares x,
      cwq_bump = q_bump x, cwq_padding = q_padding x\<rparr>"

interpretation withdrawal_queue_layout:
  typed_codec serialize_withdrawal_queue deserialize_withdrawal_queue withdrawal_queue_typed WITHDRAWAL_QUEUE_LEN
proof
  show "deserialize_withdrawal_queue (serialize_withdrawal_queue x @ rest) = Some (x, rest)"
    if "withdrawal_queue_typed x" for x rest
    using that by (simp add: deserialize_withdrawal_queue_def serialize_withdrawal_queue_def withdrawal_queue_typed_def
        layout_reads)
  show "length (serialize_withdrawal_queue x) = WITHDRAWAL_QUEUE_LEN" if "withdrawal_queue_typed x" for x
    using that by (simp add: serialize_withdrawal_queue_def withdrawal_queue_typed_def WITHDRAWAL_QUEUE_LEN_def
        layout_sizes)
  show "withdrawal_queue_typed x \<and> bs = serialize_withdrawal_queue x @ rest"
    if "deserialize_withdrawal_queue bs = Some (x, rest)" for bs x rest
    using that by (auto simp: deserialize_withdrawal_queue_def serialize_withdrawal_queue_def withdrawal_queue_typed_def
        reading_Some dest!: layout_gets)
qed

lemma withdrawal_queue_account_view: "withdrawal_queue_account d x = serialize_withdrawal_queue (withdrawal_queue_view d x)"
  by (simp add: withdrawal_queue_account_def serialize_withdrawal_queue_def withdrawal_queue_view_def)

section \<open>generated/accounts/withdrawal_request.rs\<close>

record withdrawal_request_data =
  cwr_discriminator :: "u8 list"
  cwr_queue :: pubkey
  cwr_owner :: pubkey
  cwr_recipient_token_account :: pubkey
  cwr_finalizer :: pubkey
  cwr_shares :: u64
  cwr_request_id :: u64
  cwr_sequence :: u64
  cwr_requested_at :: i64
  cwr_scheduled_eligible_at :: i64
  cwr_eligible_at :: i64
  cwr_expires_at :: i64
  cwr_bump :: u8
  cwr_min_assets_out :: u64
  cwr_padding :: "u64 list"

definition WITHDRAWAL_REQUEST_DISCRIMINATOR :: "u8 list" where
  "WITHDRAWAL_REQUEST_DISCRIMINATOR = [242, 88, 147, 173, 182, 62, 229, 193]"

definition WITHDRAWAL_REQUEST_LEN :: nat where
  "WITHDRAWAL_REQUEST_LEN = 265"

definition serialize_withdrawal_request :: "withdrawal_request_data \<Rightarrow> u8 list" where
  "serialize_withdrawal_request a =
     cwr_discriminator a @ put_key (cwr_queue a) @ put_key (cwr_owner a) @
     put_key (cwr_recipient_token_account a) @ put_key (cwr_finalizer a) @
     le_bytes 8 (cwr_shares a) @ le_bytes 8 (cwr_request_id a) @ le_bytes 8 (cwr_sequence a) @
     le_bytes 8 (cwr_requested_at a) @ le_bytes 8 (cwr_scheduled_eligible_at a) @
     le_bytes 8 (cwr_eligible_at a) @ le_bytes 8 (cwr_expires_at a) @ put_u8 (cwr_bump a) @
     le_bytes 8 (cwr_min_assets_out a) @ concat (map (le_bytes 8) (cwr_padding a))"

definition deserialize_withdrawal_request :: "withdrawal_request_data reader" where
  "deserialize_withdrawal_request =
     reading (get_bytes 8) (\<lambda>discriminator.
     reading get_key (\<lambda>queue.
     reading get_key (\<lambda>owner.
     reading get_key (\<lambda>recipient_token_account.
     reading get_key (\<lambda>finalizer.
     reading (get_word 8) (\<lambda>shares.
     reading (get_word 8) (\<lambda>request_id.
     reading (get_word 8) (\<lambda>sequence.
     reading (get_word 8) (\<lambda>requested_at.
     reading (get_word 8) (\<lambda>scheduled_eligible_at.
     reading (get_word 8) (\<lambda>eligible_at.
     reading (get_word 8) (\<lambda>expires_at.
     reading get_u8 (\<lambda>bump.
     reading (get_word 8) (\<lambda>min_assets_out.
     reading (get_array (get_word 8) 8) (\<lambda>padding rest.
       Some (\<lparr>cwr_discriminator = discriminator, cwr_queue = queue, cwr_owner = owner,
           cwr_recipient_token_account = recipient_token_account, cwr_finalizer = finalizer,
           cwr_shares = shares, cwr_request_id = request_id, cwr_sequence = sequence,
           cwr_requested_at = requested_at, cwr_scheduled_eligible_at = scheduled_eligible_at,
           cwr_eligible_at = eligible_at, cwr_expires_at = expires_at, cwr_bump = bump,
           cwr_min_assets_out = min_assets_out, cwr_padding = padding\<rparr>, rest))))))))))))))))"

definition withdrawal_request_from_bytes :: "u8 list \<Rightarrow> withdrawal_request_data client_result" where
  "withdrawal_request_from_bytes data = parsed deserialize_withdrawal_request data"

definition withdrawal_request_typed :: "withdrawal_request_data \<Rightarrow> bool" where
  "withdrawal_request_typed a \<longleftrightarrow>
     length (cwr_discriminator a) = 8 \<and> length (cwr_padding a) = 8"

definition fetch_all_withdrawal_request ::
  "('acc \<Rightarrow> u8 list) \<Rightarrow> 'acc rpc \<Rightarrow> pubkey list \<Rightarrow>
   ('acc, withdrawal_request_data) decoded_account list client_result"
where
  "fetch_all_withdrawal_request content rpc addresses = fetch_all withdrawal_request_from_bytes content rpc addresses"

definition fetch_withdrawal_request ::
  "('acc \<Rightarrow> u8 list) \<Rightarrow> 'acc rpc \<Rightarrow> pubkey \<Rightarrow>
   ('acc, withdrawal_request_data) decoded_account client_result"
where
  "fetch_withdrawal_request content rpc address =
     bindR (fetch_all_withdrawal_request content rpc [address]) (\<lambda>accounts. first accounts)"

definition fetch_all_maybe_withdrawal_request ::
  "('acc \<Rightarrow> u8 list) \<Rightarrow> 'acc rpc \<Rightarrow> pubkey list \<Rightarrow>
   ('acc, withdrawal_request_data) maybe_account list client_result"
where
  "fetch_all_maybe_withdrawal_request content rpc addresses =
     fetch_all_maybe withdrawal_request_from_bytes content rpc addresses"

definition fetch_maybe_withdrawal_request ::
  "('acc \<Rightarrow> u8 list) \<Rightarrow> 'acc rpc \<Rightarrow> pubkey \<Rightarrow>
   ('acc, withdrawal_request_data) maybe_account client_result"
where
  "fetch_maybe_withdrawal_request content rpc address =
     bindR (fetch_all_maybe_withdrawal_request content rpc [address]) (\<lambda>accounts. first accounts)"

text \<open>The account as its program writes it, and what a client is to read.\<close>

definition withdrawal_request_account :: "u8 list \<Rightarrow> withdrawal_request \<Rightarrow> u8 list" where
  "withdrawal_request_account discriminator x =
     discriminator @ put_key (r_queue x) @ put_key (r_owner x) @
     put_key (r_recipient_token_account x) @ put_key (r_finalizer x) @ le_bytes 8 (r_shares x) @
     le_bytes 8 (r_request_id x) @ le_bytes 8 (r_sequence x) @ le_bytes 8 (r_requested_at x) @
     le_bytes 8 (r_scheduled_eligible_at x) @ le_bytes 8 (r_eligible_at x) @
     le_bytes 8 (r_expires_at x) @ put_u8 (r_bump x) @ le_bytes 8 (r_min_assets_out x) @
     concat (map (le_bytes 8) (r_padding x))"

definition withdrawal_request_view :: "u8 list \<Rightarrow> withdrawal_request \<Rightarrow> withdrawal_request_data" where
  "withdrawal_request_view discriminator x =
     \<lparr>cwr_discriminator = discriminator, cwr_queue = r_queue x, cwr_owner = r_owner x,
      cwr_recipient_token_account = r_recipient_token_account x, cwr_finalizer = r_finalizer x,
      cwr_shares = r_shares x, cwr_request_id = r_request_id x, cwr_sequence = r_sequence x,
      cwr_requested_at = r_requested_at x, cwr_scheduled_eligible_at = r_scheduled_eligible_at x,
      cwr_eligible_at = r_eligible_at x, cwr_expires_at = r_expires_at x, cwr_bump = r_bump x,
      cwr_min_assets_out = r_min_assets_out x, cwr_padding = r_padding x\<rparr>"

interpretation withdrawal_request_layout:
  typed_codec serialize_withdrawal_request deserialize_withdrawal_request withdrawal_request_typed WITHDRAWAL_REQUEST_LEN
proof
  show "deserialize_withdrawal_request (serialize_withdrawal_request x @ rest) = Some (x, rest)"
    if "withdrawal_request_typed x" for x rest
    using that by (simp add: deserialize_withdrawal_request_def serialize_withdrawal_request_def withdrawal_request_typed_def
        layout_reads)
  show "length (serialize_withdrawal_request x) = WITHDRAWAL_REQUEST_LEN" if "withdrawal_request_typed x" for x
    using that by (simp add: serialize_withdrawal_request_def withdrawal_request_typed_def WITHDRAWAL_REQUEST_LEN_def
        layout_sizes)
  show "withdrawal_request_typed x \<and> bs = serialize_withdrawal_request x @ rest"
    if "deserialize_withdrawal_request bs = Some (x, rest)" for bs x rest
    using that by (auto simp: deserialize_withdrawal_request_def serialize_withdrawal_request_def withdrawal_request_typed_def
        reading_Some dest!: layout_gets)
qed

lemma withdrawal_request_account_view: "withdrawal_request_account d x = serialize_withdrawal_request (withdrawal_request_view d x)"
  by (simp add: withdrawal_request_account_def serialize_withdrawal_request_def withdrawal_request_view_def)

section \<open>Bundles\<close>

lemmas account_views =
  vault_state_account_view program_config_account_view nominated_admin_account_view
  subaccount_account_view withdrawal_queue_account_view withdrawal_request_account_view

lemmas from_bytes_defs =
  vault_state_from_bytes_def program_config_from_bytes_def nominated_admin_from_bytes_def
  subaccount_from_bytes_def withdrawal_queue_from_bytes_def withdrawal_request_from_bytes_def

lemmas layout_parsed =
  vault_state_layout.parsed_iff program_config_layout.parsed_iff nominated_admin_layout.parsed_iff
  subaccount_layout.parsed_iff withdrawal_queue_layout.parsed_iff
  withdrawal_request_layout.parsed_iff

lemmas layout_parses =
  vault_state_layout.parsed_put [where rest = "[]", unfolded append_Nil2]
  program_config_layout.parsed_put [where rest = "[]", unfolded append_Nil2]
  nominated_admin_layout.parsed_put [where rest = "[]", unfolded append_Nil2]
  subaccount_layout.parsed_put [where rest = "[]", unfolded append_Nil2]
  withdrawal_queue_layout.parsed_put [where rest = "[]", unfolded append_Nil2]
  withdrawal_request_layout.parsed_put [where rest = "[]", unfolded append_Nil2]

lemmas layout_lengths =
  vault_state_layout.typed_size program_config_layout.typed_size nominated_admin_layout.typed_size
  subaccount_layout.typed_size withdrawal_queue_layout.typed_size
  withdrawal_request_layout.typed_size

section \<open>The queue client's copy of VaultState\<close>

text \<open>
  \<open>clients/rust/august-withdrawal-queue\<close> carries the vault's account type too, with the same struct
  and functions. The generator gives every account type of a client the client's own program as
  owner, so the copy names the queue program.
\<close>

definition queue_vault_state_from_bytes :: "u8 list \<Rightarrow> vault_state_data client_result" where
  "queue_vault_state_from_bytes data = parsed deserialize_vault_state data"

definition queue_fetch_all_vault_state ::
  "('acc \<Rightarrow> u8 list) \<Rightarrow> 'acc rpc \<Rightarrow> pubkey list \<Rightarrow>
   ('acc, vault_state_data) decoded_account list client_result"
where
  "queue_fetch_all_vault_state content rpc addresses =
     fetch_all queue_vault_state_from_bytes content rpc addresses"

definition queue_fetch_all_maybe_vault_state ::
  "('acc \<Rightarrow> u8 list) \<Rightarrow> 'acc rpc \<Rightarrow> pubkey list \<Rightarrow>
   ('acc, vault_state_data) maybe_account list client_result"
where
  "queue_fetch_all_maybe_vault_state content rpc addresses =
     fetch_all_maybe queue_vault_state_from_bytes content rpc addresses"

text \<open>\<open>anchor_lang::Owner\<close> of the two copies.\<close>

definition vault_state_owner :: pubkey where
  "vault_state_owner = VAULT_PROGRAM_ID"

definition queue_vault_state_owner :: pubkey where
  "queue_vault_state_owner = WITHDRAWAL_QUEUE_PROGRAM_ID"

section \<open>clients/rust/august-vault/src/lib.rs\<close>

text \<open>
  The hand-written helpers. \<open>100 * resolved_share_offset()\<close> is a plain \<open>u128\<close> product of numbers
  below \<open>2 ^ 64\<close>.
\<close>

definition resolved_share_offset :: "vault_state_data \<Rightarrow> u128" where
  "resolved_share_offset a = (if cvs_share_offset a = 0 then 1000000 else widen (cvs_share_offset a))"

definition client_withdrawal_queue :: "vault_state_data \<Rightarrow> pubkey option" where
  "client_withdrawal_queue a =
     (if cvs_withdrawal_queue_authority a \<noteq> default_key
      then Some (cvs_withdrawal_queue_authority a) else None)"

definition client_requires_withdrawal_queue :: "vault_state_data \<Rightarrow> bool" where
  "client_requires_withdrawal_queue a = (client_withdrawal_queue a \<noteq> None)"

definition client_requires_subaccount :: "vault_state_data \<Rightarrow> bool" where
  "client_requires_subaccount a = (0 < cvs_subaccount_count a)"

definition operator_returns_need_delegation :: "vault_state_data \<Rightarrow> bool" where
  "operator_returns_need_delegation a = client_requires_subaccount a"

definition client_min_first_deposit :: "vault_state_data \<Rightarrow> u8 \<Rightarrow> u64" where
  "client_min_first_deposit a decimals =
     (let by_decimals = (if decimals \<le> 3 then 1
                         else saturating_pow 10 (unat (saturating_sub decimals 3)));
          by_offset = narrow_or_max (100 * resolved_share_offset a)
      in max by_decimals by_offset)"

section \<open>What a client reads is what the program wrote\<close>

text \<open>
  C15. Reading an account a program wrote gives the client every field as the program has it, for all
  six account types, and the account is exactly \<open>LEN\<close> bytes: the clients' structs and the programs'
  agree field by field, width by width.
\<close>

theorem accounts_roundtrip:
  "(vault_state_typed (vault_state_view d v) \<longrightarrow>
     vault_state_from_bytes (vault_state_account d v) = Inr (vault_state_view d v) \<and>
     length (vault_state_account d v) = VAULT_STATE_LEN) \<and>
   (program_config_typed (program_config_view d c) \<longrightarrow>
     program_config_from_bytes (program_config_account d c) = Inr (program_config_view d c) \<and>
     length (program_config_account d c) = PROGRAM_CONFIG_LEN) \<and>
   (nominated_admin_typed (nominated_admin_view d n) \<longrightarrow>
     nominated_admin_from_bytes (nominated_admin_account d n) = Inr (nominated_admin_view d n) \<and>
     length (nominated_admin_account d n) = NOMINATED_ADMIN_LEN) \<and>
   (subaccount_typed (subaccount_view d s) \<longrightarrow>
     subaccount_from_bytes (subaccount_account d s) = Inr (subaccount_view d s) \<and>
     length (subaccount_account d s) = SUBACCOUNT_LEN) \<and>
   (withdrawal_queue_typed (withdrawal_queue_view d q) \<longrightarrow>
     withdrawal_queue_from_bytes (withdrawal_queue_account d q) = Inr (withdrawal_queue_view d q) \<and>
     length (withdrawal_queue_account d q) = WITHDRAWAL_QUEUE_LEN) \<and>
   (withdrawal_request_typed (withdrawal_request_view d r) \<longrightarrow>
     withdrawal_request_from_bytes (withdrawal_request_account d r) = Inr (withdrawal_request_view d r) \<and>
     length (withdrawal_request_account d r) = WITHDRAWAL_REQUEST_LEN)"
  by (simp add: account_views from_bytes_defs layout_parses layout_lengths)

text \<open>
  C38. Whatever bytes a client accepts, it returns a well-typed value, has read exactly \<open>LEN\<close> bytes, and
  the value serializes back to them: no two values share bytes and a short account is an error.
\<close>

theorem from_bytes_typed:
  "(vault_state_from_bytes bs = Inr v \<longrightarrow> vault_state_typed v \<and> VAULT_STATE_LEN \<le> length bs \<and>
     serialize_vault_state v = take VAULT_STATE_LEN bs) \<and>
   (program_config_from_bytes bs = Inr c \<longrightarrow> program_config_typed c \<and>
     PROGRAM_CONFIG_LEN \<le> length bs \<and> serialize_program_config c = take PROGRAM_CONFIG_LEN bs) \<and>
   (nominated_admin_from_bytes bs = Inr n \<longrightarrow> nominated_admin_typed n \<and>
     NOMINATED_ADMIN_LEN \<le> length bs \<and> serialize_nominated_admin n = take NOMINATED_ADMIN_LEN bs) \<and>
   (subaccount_from_bytes bs = Inr s \<longrightarrow> subaccount_typed s \<and> SUBACCOUNT_LEN \<le> length bs \<and>
     serialize_subaccount s = take SUBACCOUNT_LEN bs) \<and>
   (withdrawal_queue_from_bytes bs = Inr q \<longrightarrow> withdrawal_queue_typed q \<and>
     WITHDRAWAL_QUEUE_LEN \<le> length bs \<and>
     serialize_withdrawal_queue q = take WITHDRAWAL_QUEUE_LEN bs) \<and>
   (withdrawal_request_from_bytes bs = Inr r \<longrightarrow> withdrawal_request_typed r \<and>
     WITHDRAWAL_REQUEST_LEN \<le> length bs \<and>
     serialize_withdrawal_request r = take WITHDRAWAL_REQUEST_LEN bs)"
  by (simp add: from_bytes_defs layout_parsed)

text \<open>
  The fields the upgrades of a live vault account were carved into lie at the byte offsets the
  code's comments pin: the share offset at 199, the queue key at 207, the subaccount count at 239,
  the deployed principal at 247, the padding to the end at 255.
\<close>

theorem vault_fields_at:
  assumes "length d = 8"
  shows "take 8 (drop 199 (vault_state_account d v)) = u64_le_bytes (v_share_offset v) \<and>
    take 32 (drop 207 (vault_state_account d v)) = key_bytes (v_withdrawal_queue_authority v) \<and>
    take 8 (drop 239 (vault_state_account d v)) = u64_le_bytes (v_subaccount_count v) \<and>
    take 8 (drop 247 (vault_state_account d v)) = u64_le_bytes (v_deployed_principal v) \<and>
    drop 255 (vault_state_account d v) = concat (map u64_le_bytes (v_padding v))"
  using assms
  by (simp add: vault_state_account_def layout_sizes put_key_is_key_bytes [symmetric]
      le_bytes_is_u64_le_bytes [symmetric, abs_def])

text \<open>
  C39. A client that fetches a vault and asks it, instead of the program, gets the program's answers:
  the offset it is priced with, whether and through which queue redemptions go, whether operator
  transfers name a subaccount, and the smallest first deposit.
\<close>

theorem client_helpers_agree:
  assumes "length d = 8" and "length (v_padding v) = 25"
  shows "\<exists>a. vault_state_from_bytes (vault_state_account d v) = Inr a \<and>
    resolved_share_offset a = share_offset v \<and>
    client_withdrawal_queue a = withdrawal_queue v \<and>
    client_requires_withdrawal_queue a = requires_withdrawal_queue v \<and>
    client_requires_subaccount a = requires_subaccount v \<and>
    client_min_first_deposit a decimals = min_first_deposit v decimals"
proof (intro exI conjI)
  let ?a = "vault_state_view d v"
  have "vault_state_typed ?a" using assms by (simp add: vault_state_typed_def vault_state_view_def)
  then show "vault_state_from_bytes (vault_state_account d v) = Inr ?a"
    by (simp add: account_views from_bytes_defs layout_parses)
  show offset: "resolved_share_offset ?a = share_offset v"
    by (simp add: resolved_share_offset_def share_offset_def vault_state_view_def EXTRA_SHARES_def)
  show "client_withdrawal_queue ?a = withdrawal_queue v"
    by (simp add: client_withdrawal_queue_def withdrawal_queue_def vault_state_view_def)
  then show "client_requires_withdrawal_queue ?a = requires_withdrawal_queue v"
    by (simp add: client_requires_withdrawal_queue_def requires_withdrawal_queue_def)
  show "client_requires_subaccount ?a = requires_subaccount v"
    by (simp add: client_requires_subaccount_def requires_subaccount_def vault_state_view_def)
  have "unat (share_offset v) < 2 ^ 64"
    using unat_less_exp [of "v_share_offset v"]
    by (simp add: share_offset_def unat_widen EXTRA_SHARES_def)
  then have "uint (share_offset v) < 2 ^ 64"
    by (metis of_nat_less_iff of_nat_numeral of_nat_power of_nat_unat)
  moreover have "100 * n < 2 ^ 128" if "n < 2 ^ 64" for n :: int using that by simp
  ultimately have "100 * uint (share_offset v) < 2 ^ 128" by blast
  then have "saturating_mul 100 (share_offset v) = 100 * share_offset v"
    by (simp add: saturating_mul_def)
  then show "client_min_first_deposit ?a decimals = min_first_deposit v decimals"
    by (simp add: client_min_first_deposit_def min_first_deposit_def min_first_deposit_for_def
        offset MIN_SUPPLY_MULTIPLE_def)
qed

text \<open>
  \<open>fetch_all_vault_state\<close> answers address by address in order, each with the data the node returned
  for it decoded; an account that is missing or does not decode fails the whole call.
\<close>

theorem fetch_all_in_order:
  assumes "fetch_all_vault_state content rpc addresses = Inr ds"
  shows "map da_address ds = addresses \<and>
    (\<exists>accounts. rpc addresses = Inr accounts \<and>
       map (Some \<circ> da_account) ds = take (length addresses) accounts) \<and>
    (\<forall>x\<in>set ds. vault_state_typed (da_data x) \<and>
       serialize_vault_state (da_data x) = take VAULT_STATE_LEN (content (da_account x)))"
proof -
  from assms obtain accounts where "rpc addresses = Inr accounts"
    "fetch_loop vault_state_from_bytes content addresses accounts = Inr ds"
    by (auto simp: fetch_all_vault_state_def fetch_all_def)
  moreover have "vault_state_typed a \<and> serialize_vault_state a = take VAULT_STATE_LEN bs"
    if "vault_state_from_bytes bs = Inr a" for bs a
    using that by (simp add: from_bytes_defs layout_parsed)
  ultimately show ?thesis using fetch_loop_decodes by blast
qed

text \<open>
  The queue client's copy of the vault account decodes the same bytes to the same value, and
  expects the account to be owned by a program that does not own it.
\<close>

theorem queue_copy_of_vault_state:
  "queue_vault_state_from_bytes bs = vault_state_from_bytes bs \<and>
   vault_state_owner = VAULT_PROGRAM_ID \<and> queue_vault_state_owner \<noteq> VAULT_PROGRAM_ID"
  by (simp add: queue_vault_state_from_bytes_def vault_state_from_bytes_def vault_state_owner_def
      queue_vault_state_owner_def WITHDRAWAL_QUEUE_PROGRAM_ID_def VAULT_PROGRAM_ID_def)

section \<open>Witnesses\<close>

definition ex_disc :: "u8 list" where
  "ex_disc = VAULT_STATE_DISCRIMINATOR"

definition ex_program_config :: program_config where
  "ex_program_config = \<lparr>cfg_authority = 7, cfg_bump = 254, cfg_padding = replicate 16 0\<rparr>"

definition ex_nomination :: nominated_admin where
  "ex_nomination = \<lparr>nom_nominated_admin = 9, nom_valid_until = 172800\<rparr>"

definition ex_priced :: vault_state where
  "ex_priced = zero_vault\<lparr>v_share_offset := 1000, v_subaccount_count := 2, v_deployed_principal := 77\<rparr>"

lemma ex_typed:
  "vault_state_typed (vault_state_view ex_disc ex_priced)"
  "program_config_typed (program_config_view ex_disc ex_program_config)"
  "nominated_admin_typed (nominated_admin_view ex_disc ex_nomination)"
  "subaccount_typed (subaccount_view ex_disc zero_subaccount)"
  "withdrawal_queue_typed (withdrawal_queue_view ex_disc zero_queue)"
  "withdrawal_request_typed (withdrawal_request_view ex_disc zero_request)"
  by code_simp+

theorem accounts_roundtrip_witness:
  "vault_state_from_bytes (vault_state_account ex_disc ex_priced) = Inr (vault_state_view ex_disc ex_priced) \<and>
   program_config_from_bytes (program_config_account ex_disc ex_program_config) =
     Inr (program_config_view ex_disc ex_program_config) \<and>
   nominated_admin_from_bytes (nominated_admin_account ex_disc ex_nomination) =
     Inr (nominated_admin_view ex_disc ex_nomination) \<and>
   length (subaccount_account ex_disc zero_subaccount) = 145 \<and>
   length (withdrawal_queue_account ex_disc zero_queue) = 369 \<and>
   length (withdrawal_request_account ex_disc zero_request) = 265"
  using accounts_roundtrip [of ex_disc ex_priced ex_program_config ex_nomination zero_subaccount zero_queue
      zero_request] ex_typed
  by (simp add: SUBACCOUNT_LEN_def WITHDRAWAL_QUEUE_LEN_def WITHDRAWAL_REQUEST_LEN_def)

theorem from_bytes_typed_witness:
  "\<exists>v. vault_state_from_bytes (vault_state_account ex_disc ex_priced @ [1, 2, 3]) = Inr v \<and>
     vault_state_typed v \<and>
     serialize_vault_state v = take 455 (vault_state_account ex_disc ex_priced @ [1, 2, 3])"
proof -
  have "vault_state_from_bytes (vault_state_account ex_disc ex_priced @ [1, 2, 3]) =
      Inr (vault_state_view ex_disc ex_priced)"
    by (simp add: vault_state_from_bytes_def account_views vault_state_layout.parsed_put ex_typed)
  with from_bytes_typed [of "vault_state_account ex_disc ex_priced @ [1, 2, 3]"] show ?thesis
    by (simp add: VAULT_STATE_LEN_def)
qed

theorem vault_fields_at_witness:
  "take 8 (drop 199 (vault_state_account ex_disc ex_priced)) = [232, 3, 0, 0, 0, 0, 0, 0] \<and>
   take 8 (drop 239 (vault_state_account ex_disc ex_priced)) = [2, 0, 0, 0, 0, 0, 0, 0]"
proof -
  have "length ex_disc = 8" by code_simp
  moreover have "u64_le_bytes 1000 = [232, 3, 0, 0, 0, 0, 0, 0]"
    and "u64_le_bytes 2 = [2, 0, 0, 0, 0, 0, 0, 0]" by code_simp+
  ultimately show ?thesis using vault_fields_at [of ex_disc ex_priced] by (simp add: ex_priced_def)
qed

theorem client_helpers_agree_witness:
  "\<exists>a. vault_state_from_bytes (vault_state_account ex_disc ex_priced) = Inr a \<and>
     resolved_share_offset a = 1000 \<and> client_requires_subaccount a \<and>
     client_withdrawal_queue a = None \<and> client_min_first_deposit a 6 = 100000"
proof -
  have "length ex_disc = 8" "length (v_padding ex_priced) = 25" by code_simp+
  moreover have "share_offset ex_priced = 1000" "requires_subaccount ex_priced"
    "withdrawal_queue ex_priced = None" "min_first_deposit ex_priced 6 = 100000" by code_simp+
  ultimately show ?thesis using client_helpers_agree [of ex_disc ex_priced 6] by force
qed

theorem fetch_all_in_order_witness:
  "\<exists>ds. fetch_all_vault_state (\<lambda>a. a) (\<lambda>ks. Inr (map (\<lambda>_. Some (vault_state_account ex_disc ex_priced)) ks))
      [5, 6] = Inr ds \<and> map da_address ds = [5, 6]"
proof -
  have "vault_state_from_bytes (vault_state_account ex_disc ex_priced) =
      Inr (vault_state_view ex_disc ex_priced)"
    by (simp add: vault_state_from_bytes_def account_views layout_parses ex_typed)
  then obtain ds where "fetch_all_vault_state (\<lambda>a. a)
      (\<lambda>ks. Inr (map (\<lambda>_. Some (vault_state_account ex_disc ex_priced)) ks)) [5, 6] = Inr ds"
    by (simp add: fetch_all_vault_state_def fetch_all_def)
  from this fetch_all_in_order [OF this] show ?thesis by (intro exI [of _ ds] conjI) simp_all
qed

end
