(* ===== verification/ClientCore.thy ===== *)
theory ClientCore
  imports Programs ClientAccounts
begin

text \<open>
  What the generated instruction clients (\<open>clients/rust/*/src/generated/instructions\<close>) share. Each of
  their files has the same four layers over one instruction, and each layer is a definition of its
  own here: the struct of accounts with \<open>instruction_with_remaining_accounts\<close> (\<open>x_instruction\<close>), the
  builder's \<open>instruction\<close> (\<open>x_build\<close>), the CPI struct's \<open>invoke_signed_with_remaining_accounts\<close>
  (\<open>x_cpi\<close>) and the CPI builder's \<open>invoke_signed\<close> (\<open>x_cpi_build\<close>). The four structs differ only in
  what a field holds (a key, an optional key, an account info, an optional one), so they are one
  record over that type; \<open>x_map\<close> applies a function to every field.

  An \<open>AccountInfo\<close> is the runtime's: its type is a parameter and \<open>key\<close> reads the address.
\<close>

section \<open>Instructions\<close>

record account_meta =
  am_pubkey :: pubkey
  am_is_signer :: bool
  am_is_writable :: bool

record client_instruction =
  ix_program_id :: pubkey
  ix_accounts :: "account_meta list"
  ix_data :: "u8 list"

text \<open>\<open>AccountMeta::new\<close> and \<open>AccountMeta::new_readonly\<close>.\<close>

definition meta_new :: "pubkey \<Rightarrow> bool \<Rightarrow> account_meta" where
  "meta_new k is_signer = \<lparr>am_pubkey = k, am_is_signer = is_signer, am_is_writable = True\<rparr>"

definition meta_new_readonly :: "pubkey \<Rightarrow> bool \<Rightarrow> account_meta" where
  "meta_new_readonly k is_signer = \<lparr>am_pubkey = k, am_is_signer = is_signer, am_is_writable = False\<rparr>"

section \<open>Program ids\<close>

definition AUGUST_VAULT_ID :: pubkey where
  "AUGUST_VAULT_ID =
     6119202149309790560231911943113610889160438972447588084936786151621972870031"

definition AUGUST_WITHDRAWAL_QUEUE_ID :: pubkey where
  "AUGUST_WITHDRAWAL_QUEUE_ID =
     6120017289150529794638758257876135273712136484259779928429925885572666203799"

lemma client_program_ids:
  "AUGUST_VAULT_ID = VAULT_PROGRAM_ID"
  "AUGUST_WITHDRAWAL_QUEUE_ID = WITHDRAWAL_QUEUE_PROGRAM_ID"
  by (simp_all add: AUGUST_VAULT_ID_def VAULT_PROGRAM_ID_def AUGUST_WITHDRAWAL_QUEUE_ID_def
      WITHDRAWAL_QUEUE_PROGRAM_ID_def)

text \<open>The well-known addresses the builders default to, read from base 58.\<close>

definition SYSTEM_PROGRAM :: pubkey where
  "SYSTEM_PROGRAM = 0"

definition TOKEN_PROGRAM :: pubkey where
  "TOKEN_PROGRAM =
     3106054211088883198575105191760876350940303353676611666299516346430146937001"

definition ASSOCIATED_TOKEN_PROGRAM :: pubkey where
  "ASSOCIATED_TOKEN_PROGRAM =
     63590851936555425018482094543133168213809614203979002813017495418995103889497"

definition TOKEN_METADATA_PROGRAM :: pubkey where
  "TOKEN_METADATA_PROGRAM =
     5174030077954762766333876384358785143419896121246119714368009399963057924422"

definition SYSVAR_RENT :: pubkey where
  "SYSVAR_RENT =
     3010411246019284437244212147455409835011261068170932596721577831542904848384"

section \<open>Builders\<close>

record ('s, 'g, 'r) builder =
  b_accounts :: 's
  b_args :: 'g
  b_remaining :: "'r list"

definition expect :: "'t option \<Rightarrow> 't client_result" where
  "expect m = ok_or m ClientPanic"

definition unwrap_or :: "'t option \<Rightarrow> 't \<Rightarrow> 't" where
  "unwrap_or m d = (case m of None \<Rightarrow> d | Some x \<Rightarrow> x)"

lemma expect_simps [simp]: "expect (Some x) = Inr x" "expect None = Inl ClientPanic"
  by (simp_all add: expect_def)

lemma unwrap_or_simps [simp]: "unwrap_or (Some x) d = x" "unwrap_or None d = d"
  by (simp_all add: unwrap_or_def)

definition add_remaining_account ::
  "account_meta \<Rightarrow> ('s, 'g, account_meta) builder \<Rightarrow> ('s, 'g, account_meta) builder"
where
  "add_remaining_account account b = b\<lparr>b_remaining := b_remaining b @ [account]\<rparr>"

definition add_remaining_accounts ::
  "account_meta list \<Rightarrow> ('s, 'g, account_meta) builder \<Rightarrow> ('s, 'g, account_meta) builder"
where
  "add_remaining_accounts accounts b = b\<lparr>b_remaining := b_remaining b @ accounts\<rparr>"

section \<open>Cross-program invocations\<close>

text \<open>The call handed to the runtime; signing for derived addresses when seeds are given.\<close>

datatype 'i cpi_call =
    Invoke client_instruction "'i list"
  | InvokeSigned client_instruction "'i list" "u8 list list list"

definition cpi_invoke ::
  "client_instruction \<Rightarrow> 'i list \<Rightarrow> u8 list list list \<Rightarrow> 'i cpi_call"
where
  "cpi_invoke instruction account_infos signers_seeds =
     (if signers_seeds = [] then Invoke instruction account_infos
      else InvokeSigned instruction account_infos signers_seeds)"

primrec call_instruction :: "'i cpi_call \<Rightarrow> client_instruction" where
  "call_instruction (Invoke ix infos) = ix"
| "call_instruction (InvokeSigned ix infos seeds) = ix"

primrec call_infos :: "'i cpi_call \<Rightarrow> 'i list" where
  "call_infos (Invoke ix infos) = infos"
| "call_infos (InvokeSigned ix infos seeds) = infos"

lemma call_infos_cpi_invoke [simp]: "call_infos (cpi_invoke ix infos seeds) = infos"
  by (simp add: cpi_invoke_def)

lemma call_instruction_cpi_invoke [simp]: "call_instruction (cpi_invoke ix infos seeds) = ix"
  by (simp add: cpi_invoke_def)

text \<open>
  The remaining accounts of a CPI are triples. The CPI struct reads the second component as the
  signer flag and the third as the writable flag.
\<close>

definition cpi_meta :: "('i \<Rightarrow> pubkey) \<Rightarrow> 'i \<times> bool \<times> bool \<Rightarrow> account_meta" where
  "cpi_meta key remaining_account =
     \<lparr>am_pubkey = key (fst remaining_account), am_is_signer = fst (snd remaining_account),
      am_is_writable = snd (snd remaining_account)\<rparr>"

text \<open>The CPI builder's \<open>add_remaining_account\<close> puts the writable flag second.\<close>

definition cpi_add_remaining_account ::
  "'i \<Rightarrow> bool \<Rightarrow> bool \<Rightarrow> ('s, 'g, 'i \<times> bool \<times> bool) builder \<Rightarrow> ('s, 'g, 'i \<times> bool \<times> bool) builder"
where
  "cpi_add_remaining_account account is_writable is_signer b =
     b\<lparr>b_remaining := b_remaining b @ [(account, is_writable, is_signer)]\<rparr>"

definition cpi_add_remaining_accounts ::
  "('i \<times> bool \<times> bool) list \<Rightarrow> ('s, 'g, 'i \<times> bool \<times> bool) builder \<Rightarrow>
   ('s, 'g, 'i \<times> bool \<times> bool) builder"
where
  "cpi_add_remaining_accounts accounts b = b\<lparr>b_remaining := b_remaining b @ accounts\<rparr>"

end
