(* ===== verification/ClientUser.thy ===== *)
theory ClientUser
  imports ClientCore
begin

text \<open>
  \<open>clients/rust/august-vault\<close>: the vault client's deposits, redemptions, operator transfers and destinations
  (\<open>src/generated/instructions\<close>). For each instruction its discriminator and argument bytes, and
  the four layers of \<open>ClientCore\<close>, field by field in the order of the file.
\<close>

section \<open>instructions/deposit.rs\<close>

definition DEPOSIT_DISCRIMINATOR :: "u8 list" where
  "DEPOSIT_DISCRIMINATOR = [242, 35, 198, 137, 82, 225, 242, 182]"

record 'k deposit_client =
  cdpo_vault_state :: "'k"
  cdpo_vault_token_ata :: "'k"
  cdpo_sender_token_account :: "'k"
  cdpo_sender_share_account :: "'k"
  cdpo_share_mint :: "'k"
  cdpo_deposit_mint :: "'k"
  cdpo_signer :: "'k"
  cdpo_token_program :: "'k"

definition deposit_data :: "u64 \<Rightarrow> u8 list" where
  "deposit_data amount =
     DEPOSIT_DISCRIMINATOR @ le_bytes 8 amount"

definition deposit_instruction ::
  "pubkey deposit_client \<Rightarrow> u64 \<Rightarrow> account_meta list \<Rightarrow> client_instruction"
where
  "deposit_instruction a amount remaining_accounts =
     \<lparr>ix_program_id = AUGUST_VAULT_ID,
      ix_accounts =
        [meta_new (cdpo_vault_state a) False, meta_new (cdpo_vault_token_ata a) False,
         meta_new (cdpo_sender_token_account a) False,
         meta_new (cdpo_sender_share_account a) False, meta_new (cdpo_share_mint a) False,
         meta_new_readonly (cdpo_deposit_mint a) False, meta_new_readonly (cdpo_signer a) True,
         meta_new_readonly (cdpo_token_program a) False] @ remaining_accounts,
      ix_data = deposit_data amount\<rparr>"

definition deposit_cpi ::
  "('i \<Rightarrow> pubkey) \<Rightarrow> 'i \<Rightarrow> 'i deposit_client \<Rightarrow> u64 \<Rightarrow> u8 list list list \<Rightarrow>
   ('i \<times> bool \<times> bool) list \<Rightarrow> 'i cpi_call"
where
  "deposit_cpi key this_program a amount signers_seeds remaining_accounts =
     cpi_invoke
     \<lparr>ix_program_id = AUGUST_VAULT_ID,
      ix_accounts =
        [meta_new (key (cdpo_vault_state a)) False, meta_new (key (cdpo_vault_token_ata a)) False,
         meta_new (key (cdpo_sender_token_account a)) False,
         meta_new (key (cdpo_sender_share_account a)) False,
         meta_new (key (cdpo_share_mint a)) False,
         meta_new_readonly (key (cdpo_deposit_mint a)) False,
         meta_new_readonly (key (cdpo_signer a)) True,
         meta_new_readonly (key (cdpo_token_program a)) False] @ map (cpi_meta key) remaining_accounts,
      ix_data = deposit_data amount\<rparr>
       ([this_program, cdpo_vault_state a, cdpo_vault_token_ata a, cdpo_sender_token_account a,
         cdpo_sender_share_account a, cdpo_share_mint a, cdpo_deposit_mint a, cdpo_signer a,
         cdpo_token_program a] @ map fst remaining_accounts) signers_seeds"

definition deposit_build ::
  "(pubkey option deposit_client, u64 option, account_meta) builder \<Rightarrow>
   client_instruction client_result"
where
  "deposit_build b =
     (let s = b_accounts b in
      bindR (expect (cdpo_vault_state s)) (\<lambda>vault_state.
      bindR (expect (cdpo_vault_token_ata s)) (\<lambda>vault_token_ata.
      bindR (expect (cdpo_sender_token_account s)) (\<lambda>sender_token_account.
      bindR (expect (cdpo_sender_share_account s)) (\<lambda>sender_share_account.
      bindR (expect (cdpo_share_mint s)) (\<lambda>share_mint.
      bindR (expect (cdpo_deposit_mint s)) (\<lambda>deposit_mint.
      bindR (expect (cdpo_signer s)) (\<lambda>signer.
      bindR (expect (b_args b)) (\<lambda>amount.
      Inr (deposit_instruction
        \<lparr>cdpo_vault_state = vault_state, cdpo_vault_token_ata = vault_token_ata,
         cdpo_sender_token_account = sender_token_account,
         cdpo_sender_share_account = sender_share_account, cdpo_share_mint = share_mint,
         cdpo_deposit_mint = deposit_mint, cdpo_signer = signer,
         cdpo_token_program = unwrap_or (cdpo_token_program s) TOKEN_PROGRAM\<rparr> amount (b_remaining b)))))))))))"

definition deposit_cpi_build ::
  "('i \<Rightarrow> pubkey) \<Rightarrow> 'i \<Rightarrow>
   ('i option deposit_client, u64 option, 'i \<times> bool \<times> bool) builder \<Rightarrow>
   u8 list list list \<Rightarrow> 'i cpi_call client_result"
where
  "deposit_cpi_build key this_program b signers_seeds =
     (let s = b_accounts b in
      bindR (expect (b_args b)) (\<lambda>amount.
      bindR (expect (cdpo_vault_state s)) (\<lambda>vault_state.
      bindR (expect (cdpo_vault_token_ata s)) (\<lambda>vault_token_ata.
      bindR (expect (cdpo_sender_token_account s)) (\<lambda>sender_token_account.
      bindR (expect (cdpo_sender_share_account s)) (\<lambda>sender_share_account.
      bindR (expect (cdpo_share_mint s)) (\<lambda>share_mint.
      bindR (expect (cdpo_deposit_mint s)) (\<lambda>deposit_mint.
      bindR (expect (cdpo_signer s)) (\<lambda>signer.
      bindR (expect (cdpo_token_program s)) (\<lambda>token_program.
      Inr (deposit_cpi key this_program
        \<lparr>cdpo_vault_state = vault_state, cdpo_vault_token_ata = vault_token_ata,
         cdpo_sender_token_account = sender_token_account,
         cdpo_sender_share_account = sender_share_account, cdpo_share_mint = share_mint,
         cdpo_deposit_mint = deposit_mint, cdpo_signer = signer, cdpo_token_program = token_program\<rparr> amount
        signers_seeds (b_remaining b))))))))))))"

definition deposit_map :: "('a \<Rightarrow> 'b) \<Rightarrow> 'a deposit_client \<Rightarrow> 'b deposit_client" where
  "deposit_map f a =
     \<lparr>cdpo_vault_state = f (cdpo_vault_state a), cdpo_vault_token_ata = f (cdpo_vault_token_ata a),
      cdpo_sender_token_account = f (cdpo_sender_token_account a),
      cdpo_sender_share_account = f (cdpo_sender_share_account a),
      cdpo_share_mint = f (cdpo_share_mint a), cdpo_deposit_mint = f (cdpo_deposit_mint a),
      cdpo_signer = f (cdpo_signer a), cdpo_token_program = f (cdpo_token_program a)\<rparr>"

lemma deposit_client_eta [simp]:
  "\<lparr>cdpo_vault_state = cdpo_vault_state a, cdpo_vault_token_ata = cdpo_vault_token_ata a,
      cdpo_sender_token_account = cdpo_sender_token_account a,
      cdpo_sender_share_account = cdpo_sender_share_account a, cdpo_share_mint = cdpo_share_mint a,
      cdpo_deposit_mint = cdpo_deposit_mint a, cdpo_signer = cdpo_signer a,
      cdpo_token_program = cdpo_token_program a\<rparr> = a"
  by (cases a) simp

section \<open>instructions/deposit_checked.rs\<close>

definition DEPOSIT_CHECKED_DISCRIMINATOR :: "u8 list" where
  "DEPOSIT_CHECKED_DISCRIMINATOR = [216, 117, 3, 197, 107, 28, 130, 111]"

record 'k deposit_checked_client =
  cdpc_vault_state :: "'k"
  cdpc_vault_token_ata :: "'k"
  cdpc_sender_token_account :: "'k"
  cdpc_sender_share_account :: "'k"
  cdpc_share_mint :: "'k"
  cdpc_deposit_mint :: "'k"
  cdpc_signer :: "'k"
  cdpc_token_program :: "'k"

definition deposit_checked_data :: "u64 \<Rightarrow> u64 \<Rightarrow> u8 list" where
  "deposit_checked_data amount min_shares_out =
     DEPOSIT_CHECKED_DISCRIMINATOR @ le_bytes 8 amount @ le_bytes 8 min_shares_out"

definition deposit_checked_instruction ::
  "pubkey deposit_checked_client \<Rightarrow> u64 \<Rightarrow> u64 \<Rightarrow> account_meta list \<Rightarrow> client_instruction"
where
  "deposit_checked_instruction a amount min_shares_out remaining_accounts =
     \<lparr>ix_program_id = AUGUST_VAULT_ID,
      ix_accounts =
        [meta_new (cdpc_vault_state a) False, meta_new (cdpc_vault_token_ata a) False,
         meta_new (cdpc_sender_token_account a) False,
         meta_new (cdpc_sender_share_account a) False, meta_new (cdpc_share_mint a) False,
         meta_new_readonly (cdpc_deposit_mint a) False, meta_new_readonly (cdpc_signer a) True,
         meta_new_readonly (cdpc_token_program a) False] @ remaining_accounts,
      ix_data = deposit_checked_data amount min_shares_out\<rparr>"

definition deposit_checked_cpi ::
  "('i \<Rightarrow> pubkey) \<Rightarrow> 'i \<Rightarrow> 'i deposit_checked_client \<Rightarrow> u64 \<Rightarrow> u64 \<Rightarrow> u8 list list list \<Rightarrow>
   ('i \<times> bool \<times> bool) list \<Rightarrow> 'i cpi_call"
where
  "deposit_checked_cpi key this_program a amount min_shares_out signers_seeds remaining_accounts =
     cpi_invoke
     \<lparr>ix_program_id = AUGUST_VAULT_ID,
      ix_accounts =
        [meta_new (key (cdpc_vault_state a)) False, meta_new (key (cdpc_vault_token_ata a)) False,
         meta_new (key (cdpc_sender_token_account a)) False,
         meta_new (key (cdpc_sender_share_account a)) False,
         meta_new (key (cdpc_share_mint a)) False,
         meta_new_readonly (key (cdpc_deposit_mint a)) False,
         meta_new_readonly (key (cdpc_signer a)) True,
         meta_new_readonly (key (cdpc_token_program a)) False] @ map (cpi_meta key) remaining_accounts,
      ix_data = deposit_checked_data amount min_shares_out\<rparr>
       ([this_program, cdpc_vault_state a, cdpc_vault_token_ata a, cdpc_sender_token_account a,
         cdpc_sender_share_account a, cdpc_share_mint a, cdpc_deposit_mint a, cdpc_signer a,
         cdpc_token_program a] @ map fst remaining_accounts) signers_seeds"

definition deposit_checked_build ::
  "(pubkey option deposit_checked_client, u64 option \<times> u64 option, account_meta) builder \<Rightarrow>
   client_instruction client_result"
where
  "deposit_checked_build b =
     (let s = b_accounts b in
      bindR (expect (cdpc_vault_state s)) (\<lambda>vault_state.
      bindR (expect (cdpc_vault_token_ata s)) (\<lambda>vault_token_ata.
      bindR (expect (cdpc_sender_token_account s)) (\<lambda>sender_token_account.
      bindR (expect (cdpc_sender_share_account s)) (\<lambda>sender_share_account.
      bindR (expect (cdpc_share_mint s)) (\<lambda>share_mint.
      bindR (expect (cdpc_deposit_mint s)) (\<lambda>deposit_mint.
      bindR (expect (cdpc_signer s)) (\<lambda>signer.
      (case b_args b of (amount, min_shares_out) \<Rightarrow>
      bindR (expect amount) (\<lambda>amount.
      bindR (expect min_shares_out) (\<lambda>min_shares_out.
      Inr (deposit_checked_instruction
        \<lparr>cdpc_vault_state = vault_state, cdpc_vault_token_ata = vault_token_ata,
         cdpc_sender_token_account = sender_token_account,
         cdpc_sender_share_account = sender_share_account, cdpc_share_mint = share_mint,
         cdpc_deposit_mint = deposit_mint, cdpc_signer = signer,
         cdpc_token_program = unwrap_or (cdpc_token_program s) TOKEN_PROGRAM\<rparr> amount min_shares_out (b_remaining b)))))))))))))"

definition deposit_checked_cpi_build ::
  "('i \<Rightarrow> pubkey) \<Rightarrow> 'i \<Rightarrow>
   ('i option deposit_checked_client, u64 option \<times> u64 option, 'i \<times> bool \<times> bool) builder \<Rightarrow>
   u8 list list list \<Rightarrow> 'i cpi_call client_result"
where
  "deposit_checked_cpi_build key this_program b signers_seeds =
     (let s = b_accounts b in
      (case b_args b of (amount, min_shares_out) \<Rightarrow>
      bindR (expect amount) (\<lambda>amount.
      bindR (expect min_shares_out) (\<lambda>min_shares_out.
      bindR (expect (cdpc_vault_state s)) (\<lambda>vault_state.
      bindR (expect (cdpc_vault_token_ata s)) (\<lambda>vault_token_ata.
      bindR (expect (cdpc_sender_token_account s)) (\<lambda>sender_token_account.
      bindR (expect (cdpc_sender_share_account s)) (\<lambda>sender_share_account.
      bindR (expect (cdpc_share_mint s)) (\<lambda>share_mint.
      bindR (expect (cdpc_deposit_mint s)) (\<lambda>deposit_mint.
      bindR (expect (cdpc_signer s)) (\<lambda>signer.
      bindR (expect (cdpc_token_program s)) (\<lambda>token_program.
      Inr (deposit_checked_cpi key this_program
        \<lparr>cdpc_vault_state = vault_state, cdpc_vault_token_ata = vault_token_ata,
         cdpc_sender_token_account = sender_token_account,
         cdpc_sender_share_account = sender_share_account, cdpc_share_mint = share_mint,
         cdpc_deposit_mint = deposit_mint, cdpc_signer = signer, cdpc_token_program = token_program\<rparr> amount min_shares_out
        signers_seeds (b_remaining b))))))))))))))"

definition deposit_checked_map :: "('a \<Rightarrow> 'b) \<Rightarrow> 'a deposit_checked_client \<Rightarrow> 'b deposit_checked_client" where
  "deposit_checked_map f a =
     \<lparr>cdpc_vault_state = f (cdpc_vault_state a), cdpc_vault_token_ata = f (cdpc_vault_token_ata a),
      cdpc_sender_token_account = f (cdpc_sender_token_account a),
      cdpc_sender_share_account = f (cdpc_sender_share_account a),
      cdpc_share_mint = f (cdpc_share_mint a), cdpc_deposit_mint = f (cdpc_deposit_mint a),
      cdpc_signer = f (cdpc_signer a), cdpc_token_program = f (cdpc_token_program a)\<rparr>"

lemma deposit_checked_client_eta [simp]:
  "\<lparr>cdpc_vault_state = cdpc_vault_state a, cdpc_vault_token_ata = cdpc_vault_token_ata a,
      cdpc_sender_token_account = cdpc_sender_token_account a,
      cdpc_sender_share_account = cdpc_sender_share_account a, cdpc_share_mint = cdpc_share_mint a,
      cdpc_deposit_mint = cdpc_deposit_mint a, cdpc_signer = cdpc_signer a,
      cdpc_token_program = cdpc_token_program a\<rparr> = a"
  by (cases a) simp

section \<open>instructions/redeem.rs\<close>

definition REDEEM_DISCRIMINATOR :: "u8 list" where
  "REDEEM_DISCRIMINATOR = [184, 12, 86, 149, 70, 196, 97, 225]"

record 'k redeem_client =
  crdm_vault_state :: "'k"
  crdm_vault_deposit_ata :: "'k"
  crdm_sender_token_account :: "'k"
  crdm_sender_share_account :: "'k"
  crdm_fee_recipient_account :: "'k"
  crdm_share_mint :: "'k"
  crdm_deposit_mint :: "'k"
  crdm_signer :: "'k"
  crdm_token_program :: "'k"

definition redeem_data :: "u64 \<Rightarrow> u8 list" where
  "redeem_data shares =
     REDEEM_DISCRIMINATOR @ le_bytes 8 shares"

definition redeem_instruction ::
  "pubkey redeem_client \<Rightarrow> u64 \<Rightarrow> account_meta list \<Rightarrow> client_instruction"
where
  "redeem_instruction a shares remaining_accounts =
     \<lparr>ix_program_id = AUGUST_VAULT_ID,
      ix_accounts =
        [meta_new (crdm_vault_state a) False, meta_new (crdm_vault_deposit_ata a) False,
         meta_new (crdm_sender_token_account a) False,
         meta_new (crdm_sender_share_account a) False,
         meta_new (crdm_fee_recipient_account a) False, meta_new (crdm_share_mint a) False,
         meta_new_readonly (crdm_deposit_mint a) False, meta_new_readonly (crdm_signer a) True,
         meta_new_readonly (crdm_token_program a) False] @ remaining_accounts,
      ix_data = redeem_data shares\<rparr>"

definition redeem_cpi ::
  "('i \<Rightarrow> pubkey) \<Rightarrow> 'i \<Rightarrow> 'i redeem_client \<Rightarrow> u64 \<Rightarrow> u8 list list list \<Rightarrow>
   ('i \<times> bool \<times> bool) list \<Rightarrow> 'i cpi_call"
where
  "redeem_cpi key this_program a shares signers_seeds remaining_accounts =
     cpi_invoke
     \<lparr>ix_program_id = AUGUST_VAULT_ID,
      ix_accounts =
        [meta_new (key (crdm_vault_state a)) False,
         meta_new (key (crdm_vault_deposit_ata a)) False,
         meta_new (key (crdm_sender_token_account a)) False,
         meta_new (key (crdm_sender_share_account a)) False,
         meta_new (key (crdm_fee_recipient_account a)) False,
         meta_new (key (crdm_share_mint a)) False,
         meta_new_readonly (key (crdm_deposit_mint a)) False,
         meta_new_readonly (key (crdm_signer a)) True,
         meta_new_readonly (key (crdm_token_program a)) False] @ map (cpi_meta key) remaining_accounts,
      ix_data = redeem_data shares\<rparr>
       ([this_program, crdm_vault_state a, crdm_vault_deposit_ata a, crdm_sender_token_account a,
         crdm_sender_share_account a, crdm_fee_recipient_account a, crdm_share_mint a,
         crdm_deposit_mint a, crdm_signer a, crdm_token_program a] @ map fst remaining_accounts) signers_seeds"

definition redeem_build ::
  "(pubkey option redeem_client, u64 option, account_meta) builder \<Rightarrow>
   client_instruction client_result"
where
  "redeem_build b =
     (let s = b_accounts b in
      bindR (expect (crdm_vault_state s)) (\<lambda>vault_state.
      bindR (expect (crdm_vault_deposit_ata s)) (\<lambda>vault_deposit_ata.
      bindR (expect (crdm_sender_token_account s)) (\<lambda>sender_token_account.
      bindR (expect (crdm_sender_share_account s)) (\<lambda>sender_share_account.
      bindR (expect (crdm_fee_recipient_account s)) (\<lambda>fee_recipient_account.
      bindR (expect (crdm_share_mint s)) (\<lambda>share_mint.
      bindR (expect (crdm_deposit_mint s)) (\<lambda>deposit_mint.
      bindR (expect (crdm_signer s)) (\<lambda>signer.
      bindR (expect (b_args b)) (\<lambda>shares.
      Inr (redeem_instruction
        \<lparr>crdm_vault_state = vault_state, crdm_vault_deposit_ata = vault_deposit_ata,
         crdm_sender_token_account = sender_token_account,
         crdm_sender_share_account = sender_share_account,
         crdm_fee_recipient_account = fee_recipient_account, crdm_share_mint = share_mint,
         crdm_deposit_mint = deposit_mint, crdm_signer = signer,
         crdm_token_program = unwrap_or (crdm_token_program s) TOKEN_PROGRAM\<rparr> shares (b_remaining b))))))))))))"

definition redeem_cpi_build ::
  "('i \<Rightarrow> pubkey) \<Rightarrow> 'i \<Rightarrow>
   ('i option redeem_client, u64 option, 'i \<times> bool \<times> bool) builder \<Rightarrow>
   u8 list list list \<Rightarrow> 'i cpi_call client_result"
where
  "redeem_cpi_build key this_program b signers_seeds =
     (let s = b_accounts b in
      bindR (expect (b_args b)) (\<lambda>shares.
      bindR (expect (crdm_vault_state s)) (\<lambda>vault_state.
      bindR (expect (crdm_vault_deposit_ata s)) (\<lambda>vault_deposit_ata.
      bindR (expect (crdm_sender_token_account s)) (\<lambda>sender_token_account.
      bindR (expect (crdm_sender_share_account s)) (\<lambda>sender_share_account.
      bindR (expect (crdm_fee_recipient_account s)) (\<lambda>fee_recipient_account.
      bindR (expect (crdm_share_mint s)) (\<lambda>share_mint.
      bindR (expect (crdm_deposit_mint s)) (\<lambda>deposit_mint.
      bindR (expect (crdm_signer s)) (\<lambda>signer.
      bindR (expect (crdm_token_program s)) (\<lambda>token_program.
      Inr (redeem_cpi key this_program
        \<lparr>crdm_vault_state = vault_state, crdm_vault_deposit_ata = vault_deposit_ata,
         crdm_sender_token_account = sender_token_account,
         crdm_sender_share_account = sender_share_account,
         crdm_fee_recipient_account = fee_recipient_account, crdm_share_mint = share_mint,
         crdm_deposit_mint = deposit_mint, crdm_signer = signer, crdm_token_program = token_program\<rparr> shares
        signers_seeds (b_remaining b)))))))))))))"

definition redeem_map :: "('a \<Rightarrow> 'b) \<Rightarrow> 'a redeem_client \<Rightarrow> 'b redeem_client" where
  "redeem_map f a =
     \<lparr>crdm_vault_state = f (crdm_vault_state a),
      crdm_vault_deposit_ata = f (crdm_vault_deposit_ata a),
      crdm_sender_token_account = f (crdm_sender_token_account a),
      crdm_sender_share_account = f (crdm_sender_share_account a),
      crdm_fee_recipient_account = f (crdm_fee_recipient_account a),
      crdm_share_mint = f (crdm_share_mint a), crdm_deposit_mint = f (crdm_deposit_mint a),
      crdm_signer = f (crdm_signer a), crdm_token_program = f (crdm_token_program a)\<rparr>"

lemma redeem_client_eta [simp]:
  "\<lparr>crdm_vault_state = crdm_vault_state a, crdm_vault_deposit_ata = crdm_vault_deposit_ata a,
      crdm_sender_token_account = crdm_sender_token_account a,
      crdm_sender_share_account = crdm_sender_share_account a,
      crdm_fee_recipient_account = crdm_fee_recipient_account a,
      crdm_share_mint = crdm_share_mint a, crdm_deposit_mint = crdm_deposit_mint a,
      crdm_signer = crdm_signer a, crdm_token_program = crdm_token_program a\<rparr> = a"
  by (cases a) simp

section \<open>instructions/redeem_checked.rs\<close>

definition REDEEM_CHECKED_DISCRIMINATOR :: "u8 list" where
  "REDEEM_CHECKED_DISCRIMINATOR = [37, 136, 51, 20, 129, 161, 11, 218]"

record 'k redeem_checked_client =
  crdc_vault_state :: "'k"
  crdc_vault_deposit_ata :: "'k"
  crdc_sender_token_account :: "'k"
  crdc_sender_share_account :: "'k"
  crdc_fee_recipient_account :: "'k"
  crdc_share_mint :: "'k"
  crdc_deposit_mint :: "'k"
  crdc_signer :: "'k"
  crdc_token_program :: "'k"

definition redeem_checked_data :: "u64 \<Rightarrow> u64 \<Rightarrow> u8 list" where
  "redeem_checked_data shares min_assets_out =
     REDEEM_CHECKED_DISCRIMINATOR @ le_bytes 8 shares @ le_bytes 8 min_assets_out"

definition redeem_checked_instruction ::
  "pubkey redeem_checked_client \<Rightarrow> u64 \<Rightarrow> u64 \<Rightarrow> account_meta list \<Rightarrow> client_instruction"
where
  "redeem_checked_instruction a shares min_assets_out remaining_accounts =
     \<lparr>ix_program_id = AUGUST_VAULT_ID,
      ix_accounts =
        [meta_new (crdc_vault_state a) False, meta_new (crdc_vault_deposit_ata a) False,
         meta_new (crdc_sender_token_account a) False,
         meta_new (crdc_sender_share_account a) False,
         meta_new (crdc_fee_recipient_account a) False, meta_new (crdc_share_mint a) False,
         meta_new_readonly (crdc_deposit_mint a) False, meta_new_readonly (crdc_signer a) True,
         meta_new_readonly (crdc_token_program a) False] @ remaining_accounts,
      ix_data = redeem_checked_data shares min_assets_out\<rparr>"

definition redeem_checked_cpi ::
  "('i \<Rightarrow> pubkey) \<Rightarrow> 'i \<Rightarrow> 'i redeem_checked_client \<Rightarrow> u64 \<Rightarrow> u64 \<Rightarrow> u8 list list list \<Rightarrow>
   ('i \<times> bool \<times> bool) list \<Rightarrow> 'i cpi_call"
where
  "redeem_checked_cpi key this_program a shares min_assets_out signers_seeds remaining_accounts =
     cpi_invoke
     \<lparr>ix_program_id = AUGUST_VAULT_ID,
      ix_accounts =
        [meta_new (key (crdc_vault_state a)) False,
         meta_new (key (crdc_vault_deposit_ata a)) False,
         meta_new (key (crdc_sender_token_account a)) False,
         meta_new (key (crdc_sender_share_account a)) False,
         meta_new (key (crdc_fee_recipient_account a)) False,
         meta_new (key (crdc_share_mint a)) False,
         meta_new_readonly (key (crdc_deposit_mint a)) False,
         meta_new_readonly (key (crdc_signer a)) True,
         meta_new_readonly (key (crdc_token_program a)) False] @ map (cpi_meta key) remaining_accounts,
      ix_data = redeem_checked_data shares min_assets_out\<rparr>
       ([this_program, crdc_vault_state a, crdc_vault_deposit_ata a, crdc_sender_token_account a,
         crdc_sender_share_account a, crdc_fee_recipient_account a, crdc_share_mint a,
         crdc_deposit_mint a, crdc_signer a, crdc_token_program a] @ map fst remaining_accounts) signers_seeds"

definition redeem_checked_build ::
  "(pubkey option redeem_checked_client, u64 option \<times> u64 option, account_meta) builder \<Rightarrow>
   client_instruction client_result"
where
  "redeem_checked_build b =
     (let s = b_accounts b in
      bindR (expect (crdc_vault_state s)) (\<lambda>vault_state.
      bindR (expect (crdc_vault_deposit_ata s)) (\<lambda>vault_deposit_ata.
      bindR (expect (crdc_sender_token_account s)) (\<lambda>sender_token_account.
      bindR (expect (crdc_sender_share_account s)) (\<lambda>sender_share_account.
      bindR (expect (crdc_fee_recipient_account s)) (\<lambda>fee_recipient_account.
      bindR (expect (crdc_share_mint s)) (\<lambda>share_mint.
      bindR (expect (crdc_deposit_mint s)) (\<lambda>deposit_mint.
      bindR (expect (crdc_signer s)) (\<lambda>signer.
      (case b_args b of (shares, min_assets_out) \<Rightarrow>
      bindR (expect shares) (\<lambda>shares.
      bindR (expect min_assets_out) (\<lambda>min_assets_out.
      Inr (redeem_checked_instruction
        \<lparr>crdc_vault_state = vault_state, crdc_vault_deposit_ata = vault_deposit_ata,
         crdc_sender_token_account = sender_token_account,
         crdc_sender_share_account = sender_share_account,
         crdc_fee_recipient_account = fee_recipient_account, crdc_share_mint = share_mint,
         crdc_deposit_mint = deposit_mint, crdc_signer = signer,
         crdc_token_program = unwrap_or (crdc_token_program s) TOKEN_PROGRAM\<rparr> shares min_assets_out (b_remaining b))))))))))))))"

definition redeem_checked_cpi_build ::
  "('i \<Rightarrow> pubkey) \<Rightarrow> 'i \<Rightarrow>
   ('i option redeem_checked_client, u64 option \<times> u64 option, 'i \<times> bool \<times> bool) builder \<Rightarrow>
   u8 list list list \<Rightarrow> 'i cpi_call client_result"
where
  "redeem_checked_cpi_build key this_program b signers_seeds =
     (let s = b_accounts b in
      (case b_args b of (shares, min_assets_out) \<Rightarrow>
      bindR (expect shares) (\<lambda>shares.
      bindR (expect min_assets_out) (\<lambda>min_assets_out.
      bindR (expect (crdc_vault_state s)) (\<lambda>vault_state.
      bindR (expect (crdc_vault_deposit_ata s)) (\<lambda>vault_deposit_ata.
      bindR (expect (crdc_sender_token_account s)) (\<lambda>sender_token_account.
      bindR (expect (crdc_sender_share_account s)) (\<lambda>sender_share_account.
      bindR (expect (crdc_fee_recipient_account s)) (\<lambda>fee_recipient_account.
      bindR (expect (crdc_share_mint s)) (\<lambda>share_mint.
      bindR (expect (crdc_deposit_mint s)) (\<lambda>deposit_mint.
      bindR (expect (crdc_signer s)) (\<lambda>signer.
      bindR (expect (crdc_token_program s)) (\<lambda>token_program.
      Inr (redeem_checked_cpi key this_program
        \<lparr>crdc_vault_state = vault_state, crdc_vault_deposit_ata = vault_deposit_ata,
         crdc_sender_token_account = sender_token_account,
         crdc_sender_share_account = sender_share_account,
         crdc_fee_recipient_account = fee_recipient_account, crdc_share_mint = share_mint,
         crdc_deposit_mint = deposit_mint, crdc_signer = signer, crdc_token_program = token_program\<rparr> shares min_assets_out
        signers_seeds (b_remaining b)))))))))))))))"

definition redeem_checked_map :: "('a \<Rightarrow> 'b) \<Rightarrow> 'a redeem_checked_client \<Rightarrow> 'b redeem_checked_client" where
  "redeem_checked_map f a =
     \<lparr>crdc_vault_state = f (crdc_vault_state a),
      crdc_vault_deposit_ata = f (crdc_vault_deposit_ata a),
      crdc_sender_token_account = f (crdc_sender_token_account a),
      crdc_sender_share_account = f (crdc_sender_share_account a),
      crdc_fee_recipient_account = f (crdc_fee_recipient_account a),
      crdc_share_mint = f (crdc_share_mint a), crdc_deposit_mint = f (crdc_deposit_mint a),
      crdc_signer = f (crdc_signer a), crdc_token_program = f (crdc_token_program a)\<rparr>"

lemma redeem_checked_client_eta [simp]:
  "\<lparr>crdc_vault_state = crdc_vault_state a, crdc_vault_deposit_ata = crdc_vault_deposit_ata a,
      crdc_sender_token_account = crdc_sender_token_account a,
      crdc_sender_share_account = crdc_sender_share_account a,
      crdc_fee_recipient_account = crdc_fee_recipient_account a,
      crdc_share_mint = crdc_share_mint a, crdc_deposit_mint = crdc_deposit_mint a,
      crdc_signer = crdc_signer a, crdc_token_program = crdc_token_program a\<rparr> = a"
  by (cases a) simp

section \<open>instructions/operator_withdraw.rs\<close>

definition OPERATOR_WITHDRAW_DISCRIMINATOR :: "u8 list" where
  "OPERATOR_WITHDRAW_DISCRIMINATOR = [204, 93, 227, 34, 168, 109, 25, 130]"

record ('k, 'o) operator_withdraw_client =
  copw_vault_state :: "'k"
  copw_vault_deposit_ata :: "'k"
  copw_operator_token_account :: "'k"
  copw_deposit_mint :: "'k"
  copw_operator :: "'k"
  copw_token_program :: "'k"
  copw_subaccount :: "'o"

definition operator_withdraw_data :: "u64 \<Rightarrow> u8 list" where
  "operator_withdraw_data amount =
     OPERATOR_WITHDRAW_DISCRIMINATOR @ le_bytes 8 amount"

definition operator_withdraw_instruction ::
  "(pubkey, pubkey option) operator_withdraw_client \<Rightarrow> u64 \<Rightarrow> account_meta list \<Rightarrow> client_instruction"
where
  "operator_withdraw_instruction a amount remaining_accounts =
     \<lparr>ix_program_id = AUGUST_VAULT_ID,
      ix_accounts =
        [meta_new (copw_vault_state a) False, meta_new (copw_vault_deposit_ata a) False,
         meta_new (copw_operator_token_account a) False,
         meta_new_readonly (copw_deposit_mint a) False, meta_new_readonly (copw_operator a) True,
         meta_new_readonly (copw_token_program a) False,
         (case copw_subaccount a of Some subaccount \<Rightarrow> meta_new subaccount False | None \<Rightarrow> meta_new_readonly AUGUST_VAULT_ID False)] @ remaining_accounts,
      ix_data = operator_withdraw_data amount\<rparr>"

definition operator_withdraw_cpi ::
  "('i \<Rightarrow> pubkey) \<Rightarrow> 'i \<Rightarrow> ('i, 'i option) operator_withdraw_client \<Rightarrow> u64 \<Rightarrow> u8 list list list \<Rightarrow>
   ('i \<times> bool \<times> bool) list \<Rightarrow> 'i cpi_call"
where
  "operator_withdraw_cpi key this_program a amount signers_seeds remaining_accounts =
     cpi_invoke
     \<lparr>ix_program_id = AUGUST_VAULT_ID,
      ix_accounts =
        [meta_new (key (copw_vault_state a)) False,
         meta_new (key (copw_vault_deposit_ata a)) False,
         meta_new (key (copw_operator_token_account a)) False,
         meta_new_readonly (key (copw_deposit_mint a)) False,
         meta_new_readonly (key (copw_operator a)) True,
         meta_new_readonly (key (copw_token_program a)) False,
         (case copw_subaccount a of Some subaccount \<Rightarrow> meta_new (key subaccount) False | None \<Rightarrow> meta_new_readonly AUGUST_VAULT_ID False)] @ map (cpi_meta key) remaining_accounts,
      ix_data = operator_withdraw_data amount\<rparr>
       ([this_program, copw_vault_state a, copw_vault_deposit_ata a, copw_operator_token_account a,
         copw_deposit_mint a, copw_operator a, copw_token_program a] @
        (case copw_subaccount a of Some subaccount \<Rightarrow> [subaccount] | None \<Rightarrow> []) @ map fst remaining_accounts) signers_seeds"

definition operator_withdraw_build ::
  "((pubkey option, pubkey option) operator_withdraw_client, u64 option, account_meta) builder \<Rightarrow>
   client_instruction client_result"
where
  "operator_withdraw_build b =
     (let s = b_accounts b in
      bindR (expect (copw_vault_state s)) (\<lambda>vault_state.
      bindR (expect (copw_vault_deposit_ata s)) (\<lambda>vault_deposit_ata.
      bindR (expect (copw_operator_token_account s)) (\<lambda>operator_token_account.
      bindR (expect (copw_deposit_mint s)) (\<lambda>deposit_mint.
      bindR (expect (copw_operator s)) (\<lambda>operator.
      bindR (expect (b_args b)) (\<lambda>amount.
      Inr (operator_withdraw_instruction
        \<lparr>copw_vault_state = vault_state, copw_vault_deposit_ata = vault_deposit_ata,
         copw_operator_token_account = operator_token_account, copw_deposit_mint = deposit_mint,
         copw_operator = operator,
         copw_token_program = unwrap_or (copw_token_program s) TOKEN_PROGRAM,
         copw_subaccount = copw_subaccount s\<rparr> amount (b_remaining b)))))))))"

definition operator_withdraw_cpi_build ::
  "('i \<Rightarrow> pubkey) \<Rightarrow> 'i \<Rightarrow>
   (('i option, 'i option) operator_withdraw_client, u64 option, 'i \<times> bool \<times> bool) builder \<Rightarrow>
   u8 list list list \<Rightarrow> 'i cpi_call client_result"
where
  "operator_withdraw_cpi_build key this_program b signers_seeds =
     (let s = b_accounts b in
      bindR (expect (b_args b)) (\<lambda>amount.
      bindR (expect (copw_vault_state s)) (\<lambda>vault_state.
      bindR (expect (copw_vault_deposit_ata s)) (\<lambda>vault_deposit_ata.
      bindR (expect (copw_operator_token_account s)) (\<lambda>operator_token_account.
      bindR (expect (copw_deposit_mint s)) (\<lambda>deposit_mint.
      bindR (expect (copw_operator s)) (\<lambda>operator.
      bindR (expect (copw_token_program s)) (\<lambda>token_program.
      Inr (operator_withdraw_cpi key this_program
        \<lparr>copw_vault_state = vault_state, copw_vault_deposit_ata = vault_deposit_ata,
         copw_operator_token_account = operator_token_account, copw_deposit_mint = deposit_mint,
         copw_operator = operator, copw_token_program = token_program,
         copw_subaccount = copw_subaccount s\<rparr> amount
        signers_seeds (b_remaining b))))))))))"

definition operator_withdraw_map :: "('a \<Rightarrow> 'b) \<Rightarrow> ('c \<Rightarrow> 'd) \<Rightarrow> ('a, 'c) operator_withdraw_client \<Rightarrow> ('b, 'd) operator_withdraw_client" where
  "operator_withdraw_map f g a =
     \<lparr>copw_vault_state = f (copw_vault_state a),
      copw_vault_deposit_ata = f (copw_vault_deposit_ata a),
      copw_operator_token_account = f (copw_operator_token_account a),
      copw_deposit_mint = f (copw_deposit_mint a), copw_operator = f (copw_operator a),
      copw_token_program = f (copw_token_program a), copw_subaccount = g (copw_subaccount a)\<rparr>"

lemma operator_withdraw_client_eta [simp]:
  "\<lparr>copw_vault_state = copw_vault_state a, copw_vault_deposit_ata = copw_vault_deposit_ata a,
      copw_operator_token_account = copw_operator_token_account a,
      copw_deposit_mint = copw_deposit_mint a, copw_operator = copw_operator a,
      copw_token_program = copw_token_program a, copw_subaccount = copw_subaccount a\<rparr> = a"
  by (cases a) simp

section \<open>instructions/operator_deposit.rs\<close>

definition OPERATOR_DEPOSIT_DISCRIMINATOR :: "u8 list" where
  "OPERATOR_DEPOSIT_DISCRIMINATOR = [30, 228, 53, 180, 222, 19, 226, 158]"

record ('k, 'o) operator_deposit_client =
  copd_vault_state :: "'k"
  copd_vault_deposit_ata :: "'k"
  copd_operator_token_account :: "'k"
  copd_deposit_mint :: "'k"
  copd_operator :: "'k"
  copd_token_program :: "'k"
  copd_subaccount :: "'o"

definition operator_deposit_data :: "u64 \<Rightarrow> u8 list" where
  "operator_deposit_data amount =
     OPERATOR_DEPOSIT_DISCRIMINATOR @ le_bytes 8 amount"

definition operator_deposit_instruction ::
  "(pubkey, pubkey option) operator_deposit_client \<Rightarrow> u64 \<Rightarrow> account_meta list \<Rightarrow> client_instruction"
where
  "operator_deposit_instruction a amount remaining_accounts =
     \<lparr>ix_program_id = AUGUST_VAULT_ID,
      ix_accounts =
        [meta_new (copd_vault_state a) False, meta_new (copd_vault_deposit_ata a) False,
         meta_new (copd_operator_token_account a) False,
         meta_new_readonly (copd_deposit_mint a) False, meta_new_readonly (copd_operator a) True,
         meta_new_readonly (copd_token_program a) False,
         (case copd_subaccount a of Some subaccount \<Rightarrow> meta_new subaccount False | None \<Rightarrow> meta_new_readonly AUGUST_VAULT_ID False)] @ remaining_accounts,
      ix_data = operator_deposit_data amount\<rparr>"

definition operator_deposit_cpi ::
  "('i \<Rightarrow> pubkey) \<Rightarrow> 'i \<Rightarrow> ('i, 'i option) operator_deposit_client \<Rightarrow> u64 \<Rightarrow> u8 list list list \<Rightarrow>
   ('i \<times> bool \<times> bool) list \<Rightarrow> 'i cpi_call"
where
  "operator_deposit_cpi key this_program a amount signers_seeds remaining_accounts =
     cpi_invoke
     \<lparr>ix_program_id = AUGUST_VAULT_ID,
      ix_accounts =
        [meta_new (key (copd_vault_state a)) False,
         meta_new (key (copd_vault_deposit_ata a)) False,
         meta_new (key (copd_operator_token_account a)) False,
         meta_new_readonly (key (copd_deposit_mint a)) False,
         meta_new_readonly (key (copd_operator a)) True,
         meta_new_readonly (key (copd_token_program a)) False,
         (case copd_subaccount a of Some subaccount \<Rightarrow> meta_new (key subaccount) False | None \<Rightarrow> meta_new_readonly AUGUST_VAULT_ID False)] @ map (cpi_meta key) remaining_accounts,
      ix_data = operator_deposit_data amount\<rparr>
       ([this_program, copd_vault_state a, copd_vault_deposit_ata a, copd_operator_token_account a,
         copd_deposit_mint a, copd_operator a, copd_token_program a] @
        (case copd_subaccount a of Some subaccount \<Rightarrow> [subaccount] | None \<Rightarrow> []) @ map fst remaining_accounts) signers_seeds"

definition operator_deposit_build ::
  "((pubkey option, pubkey option) operator_deposit_client, u64 option, account_meta) builder \<Rightarrow>
   client_instruction client_result"
where
  "operator_deposit_build b =
     (let s = b_accounts b in
      bindR (expect (copd_vault_state s)) (\<lambda>vault_state.
      bindR (expect (copd_vault_deposit_ata s)) (\<lambda>vault_deposit_ata.
      bindR (expect (copd_operator_token_account s)) (\<lambda>operator_token_account.
      bindR (expect (copd_deposit_mint s)) (\<lambda>deposit_mint.
      bindR (expect (copd_operator s)) (\<lambda>operator.
      bindR (expect (b_args b)) (\<lambda>amount.
      Inr (operator_deposit_instruction
        \<lparr>copd_vault_state = vault_state, copd_vault_deposit_ata = vault_deposit_ata,
         copd_operator_token_account = operator_token_account, copd_deposit_mint = deposit_mint,
         copd_operator = operator,
         copd_token_program = unwrap_or (copd_token_program s) TOKEN_PROGRAM,
         copd_subaccount = copd_subaccount s\<rparr> amount (b_remaining b)))))))))"

definition operator_deposit_cpi_build ::
  "('i \<Rightarrow> pubkey) \<Rightarrow> 'i \<Rightarrow>
   (('i option, 'i option) operator_deposit_client, u64 option, 'i \<times> bool \<times> bool) builder \<Rightarrow>
   u8 list list list \<Rightarrow> 'i cpi_call client_result"
where
  "operator_deposit_cpi_build key this_program b signers_seeds =
     (let s = b_accounts b in
      bindR (expect (b_args b)) (\<lambda>amount.
      bindR (expect (copd_vault_state s)) (\<lambda>vault_state.
      bindR (expect (copd_vault_deposit_ata s)) (\<lambda>vault_deposit_ata.
      bindR (expect (copd_operator_token_account s)) (\<lambda>operator_token_account.
      bindR (expect (copd_deposit_mint s)) (\<lambda>deposit_mint.
      bindR (expect (copd_operator s)) (\<lambda>operator.
      bindR (expect (copd_token_program s)) (\<lambda>token_program.
      Inr (operator_deposit_cpi key this_program
        \<lparr>copd_vault_state = vault_state, copd_vault_deposit_ata = vault_deposit_ata,
         copd_operator_token_account = operator_token_account, copd_deposit_mint = deposit_mint,
         copd_operator = operator, copd_token_program = token_program,
         copd_subaccount = copd_subaccount s\<rparr> amount
        signers_seeds (b_remaining b))))))))))"

definition operator_deposit_map :: "('a \<Rightarrow> 'b) \<Rightarrow> ('c \<Rightarrow> 'd) \<Rightarrow> ('a, 'c) operator_deposit_client \<Rightarrow> ('b, 'd) operator_deposit_client" where
  "operator_deposit_map f g a =
     \<lparr>copd_vault_state = f (copd_vault_state a),
      copd_vault_deposit_ata = f (copd_vault_deposit_ata a),
      copd_operator_token_account = f (copd_operator_token_account a),
      copd_deposit_mint = f (copd_deposit_mint a), copd_operator = f (copd_operator a),
      copd_token_program = f (copd_token_program a), copd_subaccount = g (copd_subaccount a)\<rparr>"

lemma operator_deposit_client_eta [simp]:
  "\<lparr>copd_vault_state = copd_vault_state a, copd_vault_deposit_ata = copd_vault_deposit_ata a,
      copd_operator_token_account = copd_operator_token_account a,
      copd_deposit_mint = copd_deposit_mint a, copd_operator = copd_operator a,
      copd_token_program = copd_token_program a, copd_subaccount = copd_subaccount a\<rparr> = a"
  by (cases a) simp

section \<open>instructions/operator_update_aum.rs\<close>

definition OPERATOR_UPDATE_AUM_DISCRIMINATOR :: "u8 list" where
  "OPERATOR_UPDATE_AUM_DISCRIMINATOR = [101, 222, 179, 164, 219, 110, 161, 98]"

record 'k operator_update_aum_client =
  copu_vault_state :: "'k"
  copu_deposit_mint :: "'k"
  copu_operator :: "'k"

definition operator_update_aum_data :: "u64 \<Rightarrow> u8 list" where
  "operator_update_aum_data new_aum =
     OPERATOR_UPDATE_AUM_DISCRIMINATOR @ le_bytes 8 new_aum"

definition operator_update_aum_instruction ::
  "pubkey operator_update_aum_client \<Rightarrow> u64 \<Rightarrow> account_meta list \<Rightarrow> client_instruction"
where
  "operator_update_aum_instruction a new_aum remaining_accounts =
     \<lparr>ix_program_id = AUGUST_VAULT_ID,
      ix_accounts =
        [meta_new (copu_vault_state a) False, meta_new_readonly (copu_deposit_mint a) False,
         meta_new_readonly (copu_operator a) True] @ remaining_accounts,
      ix_data = operator_update_aum_data new_aum\<rparr>"

definition operator_update_aum_cpi ::
  "('i \<Rightarrow> pubkey) \<Rightarrow> 'i \<Rightarrow> 'i operator_update_aum_client \<Rightarrow> u64 \<Rightarrow> u8 list list list \<Rightarrow>
   ('i \<times> bool \<times> bool) list \<Rightarrow> 'i cpi_call"
where
  "operator_update_aum_cpi key this_program a new_aum signers_seeds remaining_accounts =
     cpi_invoke
     \<lparr>ix_program_id = AUGUST_VAULT_ID,
      ix_accounts =
        [meta_new (key (copu_vault_state a)) False,
         meta_new_readonly (key (copu_deposit_mint a)) False,
         meta_new_readonly (key (copu_operator a)) True] @ map (cpi_meta key) remaining_accounts,
      ix_data = operator_update_aum_data new_aum\<rparr>
       ([this_program, copu_vault_state a, copu_deposit_mint a, copu_operator a] @ map fst remaining_accounts) signers_seeds"

definition operator_update_aum_build ::
  "(pubkey option operator_update_aum_client, u64 option, account_meta) builder \<Rightarrow>
   client_instruction client_result"
where
  "operator_update_aum_build b =
     (let s = b_accounts b in
      bindR (expect (copu_vault_state s)) (\<lambda>vault_state.
      bindR (expect (copu_deposit_mint s)) (\<lambda>deposit_mint.
      bindR (expect (copu_operator s)) (\<lambda>operator.
      bindR (expect (b_args b)) (\<lambda>new_aum.
      Inr (operator_update_aum_instruction
        \<lparr>copu_vault_state = vault_state, copu_deposit_mint = deposit_mint, copu_operator = operator\<rparr> new_aum (b_remaining b)))))))"

definition operator_update_aum_cpi_build ::
  "('i \<Rightarrow> pubkey) \<Rightarrow> 'i \<Rightarrow>
   ('i option operator_update_aum_client, u64 option, 'i \<times> bool \<times> bool) builder \<Rightarrow>
   u8 list list list \<Rightarrow> 'i cpi_call client_result"
where
  "operator_update_aum_cpi_build key this_program b signers_seeds =
     (let s = b_accounts b in
      bindR (expect (b_args b)) (\<lambda>new_aum.
      bindR (expect (copu_vault_state s)) (\<lambda>vault_state.
      bindR (expect (copu_deposit_mint s)) (\<lambda>deposit_mint.
      bindR (expect (copu_operator s)) (\<lambda>operator.
      Inr (operator_update_aum_cpi key this_program
        \<lparr>copu_vault_state = vault_state, copu_deposit_mint = deposit_mint, copu_operator = operator\<rparr> new_aum
        signers_seeds (b_remaining b)))))))"

definition operator_update_aum_map :: "('a \<Rightarrow> 'b) \<Rightarrow> 'a operator_update_aum_client \<Rightarrow> 'b operator_update_aum_client" where
  "operator_update_aum_map f a =
     \<lparr>copu_vault_state = f (copu_vault_state a), copu_deposit_mint = f (copu_deposit_mint a),
      copu_operator = f (copu_operator a)\<rparr>"

lemma operator_update_aum_client_eta [simp]:
  "\<lparr>copu_vault_state = copu_vault_state a, copu_deposit_mint = copu_deposit_mint a,
      copu_operator = copu_operator a\<rparr> = a"
  by (cases a) simp

section \<open>instructions/register_subaccount.rs\<close>

definition REGISTER_SUBACCOUNT_DISCRIMINATOR :: "u8 list" where
  "REGISTER_SUBACCOUNT_DISCRIMINATOR = [12, 219, 227, 235, 28, 220, 20, 220]"

record 'k register_subaccount_client =
  crgs_vault_state :: "'k"
  crgs_subaccount :: "'k"
  crgs_deposit_mint :: "'k"
  crgs_subaccount_ata :: "'k"
  crgs_token_program :: "'k"
  crgs_admin :: "'k"
  crgs_system_program :: "'k"

definition register_subaccount_data :: "pubkey \<Rightarrow> u8 list" where
  "register_subaccount_data address =
     REGISTER_SUBACCOUNT_DISCRIMINATOR @ put_key address"

definition register_subaccount_instruction ::
  "pubkey register_subaccount_client \<Rightarrow> pubkey \<Rightarrow> account_meta list \<Rightarrow> client_instruction"
where
  "register_subaccount_instruction a address remaining_accounts =
     \<lparr>ix_program_id = AUGUST_VAULT_ID,
      ix_accounts =
        [meta_new (crgs_vault_state a) False, meta_new (crgs_subaccount a) False,
         meta_new_readonly (crgs_deposit_mint a) False,
         meta_new_readonly (crgs_subaccount_ata a) False,
         meta_new_readonly (crgs_token_program a) False, meta_new (crgs_admin a) True,
         meta_new_readonly (crgs_system_program a) False] @ remaining_accounts,
      ix_data = register_subaccount_data address\<rparr>"

definition register_subaccount_cpi ::
  "('i \<Rightarrow> pubkey) \<Rightarrow> 'i \<Rightarrow> 'i register_subaccount_client \<Rightarrow> pubkey \<Rightarrow> u8 list list list \<Rightarrow>
   ('i \<times> bool \<times> bool) list \<Rightarrow> 'i cpi_call"
where
  "register_subaccount_cpi key this_program a address signers_seeds remaining_accounts =
     cpi_invoke
     \<lparr>ix_program_id = AUGUST_VAULT_ID,
      ix_accounts =
        [meta_new (key (crgs_vault_state a)) False, meta_new (key (crgs_subaccount a)) False,
         meta_new_readonly (key (crgs_deposit_mint a)) False,
         meta_new_readonly (key (crgs_subaccount_ata a)) False,
         meta_new_readonly (key (crgs_token_program a)) False, meta_new (key (crgs_admin a)) True,
         meta_new_readonly (key (crgs_system_program a)) False] @ map (cpi_meta key) remaining_accounts,
      ix_data = register_subaccount_data address\<rparr>
       ([this_program, crgs_vault_state a, crgs_subaccount a, crgs_deposit_mint a,
         crgs_subaccount_ata a, crgs_token_program a, crgs_admin a, crgs_system_program a] @ map fst remaining_accounts) signers_seeds"

definition register_subaccount_build ::
  "(pubkey option register_subaccount_client, pubkey option, account_meta) builder \<Rightarrow>
   client_instruction client_result"
where
  "register_subaccount_build b =
     (let s = b_accounts b in
      bindR (expect (crgs_vault_state s)) (\<lambda>vault_state.
      bindR (expect (crgs_subaccount s)) (\<lambda>subaccount.
      bindR (expect (crgs_deposit_mint s)) (\<lambda>deposit_mint.
      bindR (expect (crgs_subaccount_ata s)) (\<lambda>subaccount_ata.
      bindR (expect (crgs_admin s)) (\<lambda>admin.
      bindR (expect (b_args b)) (\<lambda>address.
      Inr (register_subaccount_instruction
        \<lparr>crgs_vault_state = vault_state, crgs_subaccount = subaccount,
         crgs_deposit_mint = deposit_mint, crgs_subaccount_ata = subaccount_ata,
         crgs_token_program = unwrap_or (crgs_token_program s) TOKEN_PROGRAM, crgs_admin = admin,
         crgs_system_program = unwrap_or (crgs_system_program s) SYSTEM_PROGRAM\<rparr> address (b_remaining b)))))))))"

definition register_subaccount_cpi_build ::
  "('i \<Rightarrow> pubkey) \<Rightarrow> 'i \<Rightarrow>
   ('i option register_subaccount_client, pubkey option, 'i \<times> bool \<times> bool) builder \<Rightarrow>
   u8 list list list \<Rightarrow> 'i cpi_call client_result"
where
  "register_subaccount_cpi_build key this_program b signers_seeds =
     (let s = b_accounts b in
      bindR (expect (b_args b)) (\<lambda>address.
      bindR (expect (crgs_vault_state s)) (\<lambda>vault_state.
      bindR (expect (crgs_subaccount s)) (\<lambda>subaccount.
      bindR (expect (crgs_deposit_mint s)) (\<lambda>deposit_mint.
      bindR (expect (crgs_subaccount_ata s)) (\<lambda>subaccount_ata.
      bindR (expect (crgs_token_program s)) (\<lambda>token_program.
      bindR (expect (crgs_admin s)) (\<lambda>admin.
      bindR (expect (crgs_system_program s)) (\<lambda>system_program.
      Inr (register_subaccount_cpi key this_program
        \<lparr>crgs_vault_state = vault_state, crgs_subaccount = subaccount,
         crgs_deposit_mint = deposit_mint, crgs_subaccount_ata = subaccount_ata,
         crgs_token_program = token_program, crgs_admin = admin,
         crgs_system_program = system_program\<rparr> address
        signers_seeds (b_remaining b)))))))))))"

definition register_subaccount_map :: "('a \<Rightarrow> 'b) \<Rightarrow> 'a register_subaccount_client \<Rightarrow> 'b register_subaccount_client" where
  "register_subaccount_map f a =
     \<lparr>crgs_vault_state = f (crgs_vault_state a), crgs_subaccount = f (crgs_subaccount a),
      crgs_deposit_mint = f (crgs_deposit_mint a), crgs_subaccount_ata = f (crgs_subaccount_ata a),
      crgs_token_program = f (crgs_token_program a), crgs_admin = f (crgs_admin a),
      crgs_system_program = f (crgs_system_program a)\<rparr>"

lemma register_subaccount_client_eta [simp]:
  "\<lparr>crgs_vault_state = crgs_vault_state a, crgs_subaccount = crgs_subaccount a,
      crgs_deposit_mint = crgs_deposit_mint a, crgs_subaccount_ata = crgs_subaccount_ata a,
      crgs_token_program = crgs_token_program a, crgs_admin = crgs_admin a,
      crgs_system_program = crgs_system_program a\<rparr> = a"
  by (cases a) simp

section \<open>instructions/settle_subaccount_loss.rs\<close>

definition SETTLE_SUBACCOUNT_LOSS_DISCRIMINATOR :: "u8 list" where
  "SETTLE_SUBACCOUNT_LOSS_DISCRIMINATOR = [0, 151, 152, 213, 157, 238, 7, 62]"

record 'k settle_subaccount_loss_client =
  cstl_vault_state :: "'k"
  cstl_subaccount :: "'k"
  cstl_deposit_mint :: "'k"
  cstl_subaccount_ata :: "'k"
  cstl_token_program :: "'k"
  cstl_admin :: "'k"

definition settle_subaccount_loss_data :: "u64 \<Rightarrow> u8 list" where
  "settle_subaccount_loss_data amount =
     SETTLE_SUBACCOUNT_LOSS_DISCRIMINATOR @ le_bytes 8 amount"

definition settle_subaccount_loss_instruction ::
  "pubkey settle_subaccount_loss_client \<Rightarrow> u64 \<Rightarrow> account_meta list \<Rightarrow> client_instruction"
where
  "settle_subaccount_loss_instruction a amount remaining_accounts =
     \<lparr>ix_program_id = AUGUST_VAULT_ID,
      ix_accounts =
        [meta_new (cstl_vault_state a) False, meta_new (cstl_subaccount a) False,
         meta_new_readonly (cstl_deposit_mint a) False,
         meta_new_readonly (cstl_subaccount_ata a) False,
         meta_new_readonly (cstl_token_program a) False, meta_new_readonly (cstl_admin a) True] @ remaining_accounts,
      ix_data = settle_subaccount_loss_data amount\<rparr>"

definition settle_subaccount_loss_cpi ::
  "('i \<Rightarrow> pubkey) \<Rightarrow> 'i \<Rightarrow> 'i settle_subaccount_loss_client \<Rightarrow> u64 \<Rightarrow> u8 list list list \<Rightarrow>
   ('i \<times> bool \<times> bool) list \<Rightarrow> 'i cpi_call"
where
  "settle_subaccount_loss_cpi key this_program a amount signers_seeds remaining_accounts =
     cpi_invoke
     \<lparr>ix_program_id = AUGUST_VAULT_ID,
      ix_accounts =
        [meta_new (key (cstl_vault_state a)) False, meta_new (key (cstl_subaccount a)) False,
         meta_new_readonly (key (cstl_deposit_mint a)) False,
         meta_new_readonly (key (cstl_subaccount_ata a)) False,
         meta_new_readonly (key (cstl_token_program a)) False,
         meta_new_readonly (key (cstl_admin a)) True] @ map (cpi_meta key) remaining_accounts,
      ix_data = settle_subaccount_loss_data amount\<rparr>
       ([this_program, cstl_vault_state a, cstl_subaccount a, cstl_deposit_mint a,
         cstl_subaccount_ata a, cstl_token_program a, cstl_admin a] @ map fst remaining_accounts) signers_seeds"

definition settle_subaccount_loss_build ::
  "(pubkey option settle_subaccount_loss_client, u64 option, account_meta) builder \<Rightarrow>
   client_instruction client_result"
where
  "settle_subaccount_loss_build b =
     (let s = b_accounts b in
      bindR (expect (cstl_vault_state s)) (\<lambda>vault_state.
      bindR (expect (cstl_subaccount s)) (\<lambda>subaccount.
      bindR (expect (cstl_deposit_mint s)) (\<lambda>deposit_mint.
      bindR (expect (cstl_subaccount_ata s)) (\<lambda>subaccount_ata.
      bindR (expect (cstl_admin s)) (\<lambda>admin.
      bindR (expect (b_args b)) (\<lambda>amount.
      Inr (settle_subaccount_loss_instruction
        \<lparr>cstl_vault_state = vault_state, cstl_subaccount = subaccount,
         cstl_deposit_mint = deposit_mint, cstl_subaccount_ata = subaccount_ata,
         cstl_token_program = unwrap_or (cstl_token_program s) TOKEN_PROGRAM, cstl_admin = admin\<rparr> amount (b_remaining b)))))))))"

definition settle_subaccount_loss_cpi_build ::
  "('i \<Rightarrow> pubkey) \<Rightarrow> 'i \<Rightarrow>
   ('i option settle_subaccount_loss_client, u64 option, 'i \<times> bool \<times> bool) builder \<Rightarrow>
   u8 list list list \<Rightarrow> 'i cpi_call client_result"
where
  "settle_subaccount_loss_cpi_build key this_program b signers_seeds =
     (let s = b_accounts b in
      bindR (expect (b_args b)) (\<lambda>amount.
      bindR (expect (cstl_vault_state s)) (\<lambda>vault_state.
      bindR (expect (cstl_subaccount s)) (\<lambda>subaccount.
      bindR (expect (cstl_deposit_mint s)) (\<lambda>deposit_mint.
      bindR (expect (cstl_subaccount_ata s)) (\<lambda>subaccount_ata.
      bindR (expect (cstl_token_program s)) (\<lambda>token_program.
      bindR (expect (cstl_admin s)) (\<lambda>admin.
      Inr (settle_subaccount_loss_cpi key this_program
        \<lparr>cstl_vault_state = vault_state, cstl_subaccount = subaccount,
         cstl_deposit_mint = deposit_mint, cstl_subaccount_ata = subaccount_ata,
         cstl_token_program = token_program, cstl_admin = admin\<rparr> amount
        signers_seeds (b_remaining b))))))))))"

definition settle_subaccount_loss_map :: "('a \<Rightarrow> 'b) \<Rightarrow> 'a settle_subaccount_loss_client \<Rightarrow> 'b settle_subaccount_loss_client" where
  "settle_subaccount_loss_map f a =
     \<lparr>cstl_vault_state = f (cstl_vault_state a), cstl_subaccount = f (cstl_subaccount a),
      cstl_deposit_mint = f (cstl_deposit_mint a), cstl_subaccount_ata = f (cstl_subaccount_ata a),
      cstl_token_program = f (cstl_token_program a), cstl_admin = f (cstl_admin a)\<rparr>"

lemma settle_subaccount_loss_client_eta [simp]:
  "\<lparr>cstl_vault_state = cstl_vault_state a, cstl_subaccount = cstl_subaccount a,
      cstl_deposit_mint = cstl_deposit_mint a, cstl_subaccount_ata = cstl_subaccount_ata a,
      cstl_token_program = cstl_token_program a, cstl_admin = cstl_admin a\<rparr> = a"
  by (cases a) simp

section \<open>instructions/deregister_subaccount.rs\<close>

definition DEREGISTER_SUBACCOUNT_DISCRIMINATOR :: "u8 list" where
  "DEREGISTER_SUBACCOUNT_DISCRIMINATOR = [112, 91, 26, 5, 186, 249, 34, 151]"

record 'k deregister_subaccount_client =
  cdrs_vault_state :: "'k"
  cdrs_subaccount :: "'k"
  cdrs_deposit_mint :: "'k"
  cdrs_admin :: "'k"

definition deregister_subaccount_data :: "u8 list" where
  "deregister_subaccount_data =
     DEREGISTER_SUBACCOUNT_DISCRIMINATOR"

definition deregister_subaccount_instruction ::
  "pubkey deregister_subaccount_client \<Rightarrow> account_meta list \<Rightarrow> client_instruction"
where
  "deregister_subaccount_instruction a remaining_accounts =
     \<lparr>ix_program_id = AUGUST_VAULT_ID,
      ix_accounts =
        [meta_new (cdrs_vault_state a) False, meta_new (cdrs_subaccount a) False,
         meta_new_readonly (cdrs_deposit_mint a) False, meta_new (cdrs_admin a) True] @ remaining_accounts,
      ix_data = deregister_subaccount_data\<rparr>"

definition deregister_subaccount_cpi ::
  "('i \<Rightarrow> pubkey) \<Rightarrow> 'i \<Rightarrow> 'i deregister_subaccount_client \<Rightarrow> u8 list list list \<Rightarrow>
   ('i \<times> bool \<times> bool) list \<Rightarrow> 'i cpi_call"
where
  "deregister_subaccount_cpi key this_program a signers_seeds remaining_accounts =
     cpi_invoke
     \<lparr>ix_program_id = AUGUST_VAULT_ID,
      ix_accounts =
        [meta_new (key (cdrs_vault_state a)) False, meta_new (key (cdrs_subaccount a)) False,
         meta_new_readonly (key (cdrs_deposit_mint a)) False, meta_new (key (cdrs_admin a)) True] @ map (cpi_meta key) remaining_accounts,
      ix_data = deregister_subaccount_data\<rparr>
       ([this_program, cdrs_vault_state a, cdrs_subaccount a, cdrs_deposit_mint a, cdrs_admin a] @ map fst remaining_accounts) signers_seeds"

definition deregister_subaccount_build ::
  "(pubkey option deregister_subaccount_client, unit, account_meta) builder \<Rightarrow>
   client_instruction client_result"
where
  "deregister_subaccount_build b =
     (let s = b_accounts b in
      bindR (expect (cdrs_vault_state s)) (\<lambda>vault_state.
      bindR (expect (cdrs_subaccount s)) (\<lambda>subaccount.
      bindR (expect (cdrs_deposit_mint s)) (\<lambda>deposit_mint.
      bindR (expect (cdrs_admin s)) (\<lambda>admin.
      Inr (deregister_subaccount_instruction
        \<lparr>cdrs_vault_state = vault_state, cdrs_subaccount = subaccount,
         cdrs_deposit_mint = deposit_mint, cdrs_admin = admin\<rparr> (b_remaining b)))))))"

definition deregister_subaccount_cpi_build ::
  "('i \<Rightarrow> pubkey) \<Rightarrow> 'i \<Rightarrow>
   ('i option deregister_subaccount_client, unit, 'i \<times> bool \<times> bool) builder \<Rightarrow>
   u8 list list list \<Rightarrow> 'i cpi_call client_result"
where
  "deregister_subaccount_cpi_build key this_program b signers_seeds =
     (let s = b_accounts b in
      bindR (expect (cdrs_vault_state s)) (\<lambda>vault_state.
      bindR (expect (cdrs_subaccount s)) (\<lambda>subaccount.
      bindR (expect (cdrs_deposit_mint s)) (\<lambda>deposit_mint.
      bindR (expect (cdrs_admin s)) (\<lambda>admin.
      Inr (deregister_subaccount_cpi key this_program
        \<lparr>cdrs_vault_state = vault_state, cdrs_subaccount = subaccount,
         cdrs_deposit_mint = deposit_mint, cdrs_admin = admin\<rparr>
        signers_seeds (b_remaining b)))))))"

definition deregister_subaccount_map :: "('a \<Rightarrow> 'b) \<Rightarrow> 'a deregister_subaccount_client \<Rightarrow> 'b deregister_subaccount_client" where
  "deregister_subaccount_map f a =
     \<lparr>cdrs_vault_state = f (cdrs_vault_state a), cdrs_subaccount = f (cdrs_subaccount a),
      cdrs_deposit_mint = f (cdrs_deposit_mint a), cdrs_admin = f (cdrs_admin a)\<rparr>"

lemma deregister_subaccount_client_eta [simp]:
  "\<lparr>cdrs_vault_state = cdrs_vault_state a, cdrs_subaccount = cdrs_subaccount a,
      cdrs_deposit_mint = cdrs_deposit_mint a, cdrs_admin = cdrs_admin a\<rparr> = a"
  by (cases a) simp

end
