(* ===== verification/ClientAdmin.thy ===== *)
theory ClientAdmin
  imports ClientCore
begin

text \<open>
  \<open>clients/rust/august-vault\<close>: the vault client's setters, admin handover, gate and closing
  (\<open>src/generated/instructions\<close>). For each instruction its discriminator and argument bytes, and
  the four layers of \<open>ClientCore\<close>, field by field in the order of the file.
\<close>

section \<open>instructions/set_withdrawal_fee.rs\<close>

definition SET_WITHDRAWAL_FEE_DISCRIMINATOR :: "u8 list" where
  "SET_WITHDRAWAL_FEE_DISCRIMINATOR = [202, 235, 196, 76, 230, 68, 57, 150]"

record 'k set_withdrawal_fee_client =
  cswf_vault_state :: "'k"
  cswf_deposit_mint :: "'k"
  cswf_admin :: "'k"

definition set_withdrawal_fee_data :: "u32 \<Rightarrow> u8 list" where
  "set_withdrawal_fee_data new_fee =
     SET_WITHDRAWAL_FEE_DISCRIMINATOR @ le_bytes 4 new_fee"

definition set_withdrawal_fee_instruction ::
  "pubkey set_withdrawal_fee_client \<Rightarrow> u32 \<Rightarrow> account_meta list \<Rightarrow> client_instruction"
where
  "set_withdrawal_fee_instruction a new_fee remaining_accounts =
     \<lparr>ix_program_id = AUGUST_VAULT_ID,
      ix_accounts =
        [meta_new (cswf_vault_state a) False, meta_new_readonly (cswf_deposit_mint a) False,
         meta_new_readonly (cswf_admin a) True] @ remaining_accounts,
      ix_data = set_withdrawal_fee_data new_fee\<rparr>"

definition set_withdrawal_fee_cpi ::
  "('i \<Rightarrow> pubkey) \<Rightarrow> 'i \<Rightarrow> 'i set_withdrawal_fee_client \<Rightarrow> u32 \<Rightarrow> u8 list list list \<Rightarrow>
   ('i \<times> bool \<times> bool) list \<Rightarrow> 'i cpi_call"
where
  "set_withdrawal_fee_cpi key this_program a new_fee signers_seeds remaining_accounts =
     cpi_invoke
     \<lparr>ix_program_id = AUGUST_VAULT_ID,
      ix_accounts =
        [meta_new (key (cswf_vault_state a)) False,
         meta_new_readonly (key (cswf_deposit_mint a)) False,
         meta_new_readonly (key (cswf_admin a)) True] @ map (cpi_meta key) remaining_accounts,
      ix_data = set_withdrawal_fee_data new_fee\<rparr>
       ([this_program, cswf_vault_state a, cswf_deposit_mint a, cswf_admin a] @ map fst remaining_accounts) signers_seeds"

definition set_withdrawal_fee_build ::
  "(pubkey option set_withdrawal_fee_client, u32 option, account_meta) builder \<Rightarrow>
   client_instruction client_result"
where
  "set_withdrawal_fee_build b =
     (let s = b_accounts b in
      bindR (expect (cswf_vault_state s)) (\<lambda>vault_state.
      bindR (expect (cswf_deposit_mint s)) (\<lambda>deposit_mint.
      bindR (expect (cswf_admin s)) (\<lambda>admin.
      bindR (expect (b_args b)) (\<lambda>new_fee.
      Inr (set_withdrawal_fee_instruction
        \<lparr>cswf_vault_state = vault_state, cswf_deposit_mint = deposit_mint, cswf_admin = admin\<rparr> new_fee (b_remaining b)))))))"

definition set_withdrawal_fee_cpi_build ::
  "('i \<Rightarrow> pubkey) \<Rightarrow> 'i \<Rightarrow>
   ('i option set_withdrawal_fee_client, u32 option, 'i \<times> bool \<times> bool) builder \<Rightarrow>
   u8 list list list \<Rightarrow> 'i cpi_call client_result"
where
  "set_withdrawal_fee_cpi_build key this_program b signers_seeds =
     (let s = b_accounts b in
      bindR (expect (b_args b)) (\<lambda>new_fee.
      bindR (expect (cswf_vault_state s)) (\<lambda>vault_state.
      bindR (expect (cswf_deposit_mint s)) (\<lambda>deposit_mint.
      bindR (expect (cswf_admin s)) (\<lambda>admin.
      Inr (set_withdrawal_fee_cpi key this_program
        \<lparr>cswf_vault_state = vault_state, cswf_deposit_mint = deposit_mint, cswf_admin = admin\<rparr> new_fee
        signers_seeds (b_remaining b)))))))"

definition set_withdrawal_fee_map :: "('a \<Rightarrow> 'b) \<Rightarrow> 'a set_withdrawal_fee_client \<Rightarrow> 'b set_withdrawal_fee_client" where
  "set_withdrawal_fee_map f a =
     \<lparr>cswf_vault_state = f (cswf_vault_state a), cswf_deposit_mint = f (cswf_deposit_mint a),
      cswf_admin = f (cswf_admin a)\<rparr>"

lemma set_withdrawal_fee_client_eta [simp]:
  "\<lparr>cswf_vault_state = cswf_vault_state a, cswf_deposit_mint = cswf_deposit_mint a,
      cswf_admin = cswf_admin a\<rparr> = a"
  by (cases a) simp

section \<open>instructions/set_operator.rs\<close>

definition SET_OPERATOR_DISCRIMINATOR :: "u8 list" where
  "SET_OPERATOR_DISCRIMINATOR = [238, 153, 101, 169, 243, 131, 36, 1]"

record 'k set_operator_client =
  csop_vault_state :: "'k"
  csop_deposit_mint :: "'k"
  csop_admin :: "'k"

definition set_operator_data :: "pubkey \<Rightarrow> u8 list" where
  "set_operator_data new_operator =
     SET_OPERATOR_DISCRIMINATOR @ put_key new_operator"

definition set_operator_instruction ::
  "pubkey set_operator_client \<Rightarrow> pubkey \<Rightarrow> account_meta list \<Rightarrow> client_instruction"
where
  "set_operator_instruction a new_operator remaining_accounts =
     \<lparr>ix_program_id = AUGUST_VAULT_ID,
      ix_accounts =
        [meta_new (csop_vault_state a) False, meta_new_readonly (csop_deposit_mint a) False,
         meta_new_readonly (csop_admin a) True] @ remaining_accounts,
      ix_data = set_operator_data new_operator\<rparr>"

definition set_operator_cpi ::
  "('i \<Rightarrow> pubkey) \<Rightarrow> 'i \<Rightarrow> 'i set_operator_client \<Rightarrow> pubkey \<Rightarrow> u8 list list list \<Rightarrow>
   ('i \<times> bool \<times> bool) list \<Rightarrow> 'i cpi_call"
where
  "set_operator_cpi key this_program a new_operator signers_seeds remaining_accounts =
     cpi_invoke
     \<lparr>ix_program_id = AUGUST_VAULT_ID,
      ix_accounts =
        [meta_new (key (csop_vault_state a)) False,
         meta_new_readonly (key (csop_deposit_mint a)) False,
         meta_new_readonly (key (csop_admin a)) True] @ map (cpi_meta key) remaining_accounts,
      ix_data = set_operator_data new_operator\<rparr>
       ([this_program, csop_vault_state a, csop_deposit_mint a, csop_admin a] @ map fst remaining_accounts) signers_seeds"

definition set_operator_build ::
  "(pubkey option set_operator_client, pubkey option, account_meta) builder \<Rightarrow>
   client_instruction client_result"
where
  "set_operator_build b =
     (let s = b_accounts b in
      bindR (expect (csop_vault_state s)) (\<lambda>vault_state.
      bindR (expect (csop_deposit_mint s)) (\<lambda>deposit_mint.
      bindR (expect (csop_admin s)) (\<lambda>admin.
      bindR (expect (b_args b)) (\<lambda>new_operator.
      Inr (set_operator_instruction
        \<lparr>csop_vault_state = vault_state, csop_deposit_mint = deposit_mint, csop_admin = admin\<rparr> new_operator (b_remaining b)))))))"

definition set_operator_cpi_build ::
  "('i \<Rightarrow> pubkey) \<Rightarrow> 'i \<Rightarrow>
   ('i option set_operator_client, pubkey option, 'i \<times> bool \<times> bool) builder \<Rightarrow>
   u8 list list list \<Rightarrow> 'i cpi_call client_result"
where
  "set_operator_cpi_build key this_program b signers_seeds =
     (let s = b_accounts b in
      bindR (expect (b_args b)) (\<lambda>new_operator.
      bindR (expect (csop_vault_state s)) (\<lambda>vault_state.
      bindR (expect (csop_deposit_mint s)) (\<lambda>deposit_mint.
      bindR (expect (csop_admin s)) (\<lambda>admin.
      Inr (set_operator_cpi key this_program
        \<lparr>csop_vault_state = vault_state, csop_deposit_mint = deposit_mint, csop_admin = admin\<rparr> new_operator
        signers_seeds (b_remaining b)))))))"

definition set_operator_map :: "('a \<Rightarrow> 'b) \<Rightarrow> 'a set_operator_client \<Rightarrow> 'b set_operator_client" where
  "set_operator_map f a =
     \<lparr>csop_vault_state = f (csop_vault_state a), csop_deposit_mint = f (csop_deposit_mint a),
      csop_admin = f (csop_admin a)\<rparr>"

lemma set_operator_client_eta [simp]:
  "\<lparr>csop_vault_state = csop_vault_state a, csop_deposit_mint = csop_deposit_mint a,
      csop_admin = csop_admin a\<rparr> = a"
  by (cases a) simp

section \<open>instructions/set_fee_recipient.rs\<close>

definition SET_FEE_RECIPIENT_DISCRIMINATOR :: "u8 list" where
  "SET_FEE_RECIPIENT_DISCRIMINATOR = [227, 18, 215, 42, 237, 246, 151, 66]"

record 'k set_fee_recipient_client =
  csfr_vault_state :: "'k"
  csfr_deposit_mint :: "'k"
  csfr_admin :: "'k"

definition set_fee_recipient_data :: "pubkey \<Rightarrow> u8 list" where
  "set_fee_recipient_data new_fee_recipient =
     SET_FEE_RECIPIENT_DISCRIMINATOR @ put_key new_fee_recipient"

definition set_fee_recipient_instruction ::
  "pubkey set_fee_recipient_client \<Rightarrow> pubkey \<Rightarrow> account_meta list \<Rightarrow> client_instruction"
where
  "set_fee_recipient_instruction a new_fee_recipient remaining_accounts =
     \<lparr>ix_program_id = AUGUST_VAULT_ID,
      ix_accounts =
        [meta_new (csfr_vault_state a) False, meta_new_readonly (csfr_deposit_mint a) False,
         meta_new_readonly (csfr_admin a) True] @ remaining_accounts,
      ix_data = set_fee_recipient_data new_fee_recipient\<rparr>"

definition set_fee_recipient_cpi ::
  "('i \<Rightarrow> pubkey) \<Rightarrow> 'i \<Rightarrow> 'i set_fee_recipient_client \<Rightarrow> pubkey \<Rightarrow> u8 list list list \<Rightarrow>
   ('i \<times> bool \<times> bool) list \<Rightarrow> 'i cpi_call"
where
  "set_fee_recipient_cpi key this_program a new_fee_recipient signers_seeds remaining_accounts =
     cpi_invoke
     \<lparr>ix_program_id = AUGUST_VAULT_ID,
      ix_accounts =
        [meta_new (key (csfr_vault_state a)) False,
         meta_new_readonly (key (csfr_deposit_mint a)) False,
         meta_new_readonly (key (csfr_admin a)) True] @ map (cpi_meta key) remaining_accounts,
      ix_data = set_fee_recipient_data new_fee_recipient\<rparr>
       ([this_program, csfr_vault_state a, csfr_deposit_mint a, csfr_admin a] @ map fst remaining_accounts) signers_seeds"

definition set_fee_recipient_build ::
  "(pubkey option set_fee_recipient_client, pubkey option, account_meta) builder \<Rightarrow>
   client_instruction client_result"
where
  "set_fee_recipient_build b =
     (let s = b_accounts b in
      bindR (expect (csfr_vault_state s)) (\<lambda>vault_state.
      bindR (expect (csfr_deposit_mint s)) (\<lambda>deposit_mint.
      bindR (expect (csfr_admin s)) (\<lambda>admin.
      bindR (expect (b_args b)) (\<lambda>new_fee_recipient.
      Inr (set_fee_recipient_instruction
        \<lparr>csfr_vault_state = vault_state, csfr_deposit_mint = deposit_mint, csfr_admin = admin\<rparr> new_fee_recipient (b_remaining b)))))))"

definition set_fee_recipient_cpi_build ::
  "('i \<Rightarrow> pubkey) \<Rightarrow> 'i \<Rightarrow>
   ('i option set_fee_recipient_client, pubkey option, 'i \<times> bool \<times> bool) builder \<Rightarrow>
   u8 list list list \<Rightarrow> 'i cpi_call client_result"
where
  "set_fee_recipient_cpi_build key this_program b signers_seeds =
     (let s = b_accounts b in
      bindR (expect (b_args b)) (\<lambda>new_fee_recipient.
      bindR (expect (csfr_vault_state s)) (\<lambda>vault_state.
      bindR (expect (csfr_deposit_mint s)) (\<lambda>deposit_mint.
      bindR (expect (csfr_admin s)) (\<lambda>admin.
      Inr (set_fee_recipient_cpi key this_program
        \<lparr>csfr_vault_state = vault_state, csfr_deposit_mint = deposit_mint, csfr_admin = admin\<rparr> new_fee_recipient
        signers_seeds (b_remaining b)))))))"

definition set_fee_recipient_map :: "('a \<Rightarrow> 'b) \<Rightarrow> 'a set_fee_recipient_client \<Rightarrow> 'b set_fee_recipient_client" where
  "set_fee_recipient_map f a =
     \<lparr>csfr_vault_state = f (csfr_vault_state a), csfr_deposit_mint = f (csfr_deposit_mint a),
      csfr_admin = f (csfr_admin a)\<rparr>"

lemma set_fee_recipient_client_eta [simp]:
  "\<lparr>csfr_vault_state = csfr_vault_state a, csfr_deposit_mint = csfr_deposit_mint a,
      csfr_admin = csfr_admin a\<rparr> = a"
  by (cases a) simp

section \<open>instructions/set_aum_limits.rs\<close>

definition SET_AUM_LIMITS_DISCRIMINATOR :: "u8 list" where
  "SET_AUM_LIMITS_DISCRIMINATOR = [215, 97, 244, 184, 210, 255, 129, 225]"

record 'k set_aum_limits_client =
  csal_vault_state :: "'k"
  csal_deposit_mint :: "'k"
  csal_admin :: "'k"

definition set_aum_limits_data :: "u32 \<Rightarrow> u32 \<Rightarrow> u8 list" where
  "set_aum_limits_data increase_limit decrease_limit =
     SET_AUM_LIMITS_DISCRIMINATOR @ le_bytes 4 increase_limit @ le_bytes 4 decrease_limit"

definition set_aum_limits_instruction ::
  "pubkey set_aum_limits_client \<Rightarrow> u32 \<Rightarrow> u32 \<Rightarrow> account_meta list \<Rightarrow> client_instruction"
where
  "set_aum_limits_instruction a increase_limit decrease_limit remaining_accounts =
     \<lparr>ix_program_id = AUGUST_VAULT_ID,
      ix_accounts =
        [meta_new (csal_vault_state a) False, meta_new_readonly (csal_deposit_mint a) False,
         meta_new_readonly (csal_admin a) True] @ remaining_accounts,
      ix_data = set_aum_limits_data increase_limit decrease_limit\<rparr>"

definition set_aum_limits_cpi ::
  "('i \<Rightarrow> pubkey) \<Rightarrow> 'i \<Rightarrow> 'i set_aum_limits_client \<Rightarrow> u32 \<Rightarrow> u32 \<Rightarrow> u8 list list list \<Rightarrow>
   ('i \<times> bool \<times> bool) list \<Rightarrow> 'i cpi_call"
where
  "set_aum_limits_cpi key this_program a increase_limit decrease_limit signers_seeds remaining_accounts =
     cpi_invoke
     \<lparr>ix_program_id = AUGUST_VAULT_ID,
      ix_accounts =
        [meta_new (key (csal_vault_state a)) False,
         meta_new_readonly (key (csal_deposit_mint a)) False,
         meta_new_readonly (key (csal_admin a)) True] @ map (cpi_meta key) remaining_accounts,
      ix_data = set_aum_limits_data increase_limit decrease_limit\<rparr>
       ([this_program, csal_vault_state a, csal_deposit_mint a, csal_admin a] @ map fst remaining_accounts) signers_seeds"

definition set_aum_limits_build ::
  "(pubkey option set_aum_limits_client, u32 option \<times> u32 option, account_meta) builder \<Rightarrow>
   client_instruction client_result"
where
  "set_aum_limits_build b =
     (let s = b_accounts b in
      bindR (expect (csal_vault_state s)) (\<lambda>vault_state.
      bindR (expect (csal_deposit_mint s)) (\<lambda>deposit_mint.
      bindR (expect (csal_admin s)) (\<lambda>admin.
      (case b_args b of (increase_limit, decrease_limit) \<Rightarrow>
      bindR (expect increase_limit) (\<lambda>increase_limit.
      bindR (expect decrease_limit) (\<lambda>decrease_limit.
      Inr (set_aum_limits_instruction
        \<lparr>csal_vault_state = vault_state, csal_deposit_mint = deposit_mint, csal_admin = admin\<rparr> increase_limit decrease_limit (b_remaining b)))))))))"

definition set_aum_limits_cpi_build ::
  "('i \<Rightarrow> pubkey) \<Rightarrow> 'i \<Rightarrow>
   ('i option set_aum_limits_client, u32 option \<times> u32 option, 'i \<times> bool \<times> bool) builder \<Rightarrow>
   u8 list list list \<Rightarrow> 'i cpi_call client_result"
where
  "set_aum_limits_cpi_build key this_program b signers_seeds =
     (let s = b_accounts b in
      (case b_args b of (increase_limit, decrease_limit) \<Rightarrow>
      bindR (expect increase_limit) (\<lambda>increase_limit.
      bindR (expect decrease_limit) (\<lambda>decrease_limit.
      bindR (expect (csal_vault_state s)) (\<lambda>vault_state.
      bindR (expect (csal_deposit_mint s)) (\<lambda>deposit_mint.
      bindR (expect (csal_admin s)) (\<lambda>admin.
      Inr (set_aum_limits_cpi key this_program
        \<lparr>csal_vault_state = vault_state, csal_deposit_mint = deposit_mint, csal_admin = admin\<rparr> increase_limit decrease_limit
        signers_seeds (b_remaining b)))))))))"

definition set_aum_limits_map :: "('a \<Rightarrow> 'b) \<Rightarrow> 'a set_aum_limits_client \<Rightarrow> 'b set_aum_limits_client" where
  "set_aum_limits_map f a =
     \<lparr>csal_vault_state = f (csal_vault_state a), csal_deposit_mint = f (csal_deposit_mint a),
      csal_admin = f (csal_admin a)\<rparr>"

lemma set_aum_limits_client_eta [simp]:
  "\<lparr>csal_vault_state = csal_vault_state a, csal_deposit_mint = csal_deposit_mint a,
      csal_admin = csal_admin a\<rparr> = a"
  by (cases a) simp

section \<open>instructions/pause.rs\<close>

definition PAUSE_DISCRIMINATOR :: "u8 list" where
  "PAUSE_DISCRIMINATOR = [211, 22, 221, 251, 74, 121, 193, 47]"

record 'k pause_client =
  cpau_vault_state :: "'k"
  cpau_deposit_mint :: "'k"
  cpau_admin :: "'k"

definition pause_data :: "u8 list" where
  "pause_data =
     PAUSE_DISCRIMINATOR"

definition pause_instruction ::
  "pubkey pause_client \<Rightarrow> account_meta list \<Rightarrow> client_instruction"
where
  "pause_instruction a remaining_accounts =
     \<lparr>ix_program_id = AUGUST_VAULT_ID,
      ix_accounts =
        [meta_new (cpau_vault_state a) False, meta_new_readonly (cpau_deposit_mint a) False,
         meta_new_readonly (cpau_admin a) True] @ remaining_accounts,
      ix_data = pause_data\<rparr>"

definition pause_cpi ::
  "('i \<Rightarrow> pubkey) \<Rightarrow> 'i \<Rightarrow> 'i pause_client \<Rightarrow> u8 list list list \<Rightarrow>
   ('i \<times> bool \<times> bool) list \<Rightarrow> 'i cpi_call"
where
  "pause_cpi key this_program a signers_seeds remaining_accounts =
     cpi_invoke
     \<lparr>ix_program_id = AUGUST_VAULT_ID,
      ix_accounts =
        [meta_new (key (cpau_vault_state a)) False,
         meta_new_readonly (key (cpau_deposit_mint a)) False,
         meta_new_readonly (key (cpau_admin a)) True] @ map (cpi_meta key) remaining_accounts,
      ix_data = pause_data\<rparr>
       ([this_program, cpau_vault_state a, cpau_deposit_mint a, cpau_admin a] @ map fst remaining_accounts) signers_seeds"

definition pause_build ::
  "(pubkey option pause_client, unit, account_meta) builder \<Rightarrow>
   client_instruction client_result"
where
  "pause_build b =
     (let s = b_accounts b in
      bindR (expect (cpau_vault_state s)) (\<lambda>vault_state.
      bindR (expect (cpau_deposit_mint s)) (\<lambda>deposit_mint.
      bindR (expect (cpau_admin s)) (\<lambda>admin.
      Inr (pause_instruction
        \<lparr>cpau_vault_state = vault_state, cpau_deposit_mint = deposit_mint, cpau_admin = admin\<rparr> (b_remaining b))))))"

definition pause_cpi_build ::
  "('i \<Rightarrow> pubkey) \<Rightarrow> 'i \<Rightarrow>
   ('i option pause_client, unit, 'i \<times> bool \<times> bool) builder \<Rightarrow>
   u8 list list list \<Rightarrow> 'i cpi_call client_result"
where
  "pause_cpi_build key this_program b signers_seeds =
     (let s = b_accounts b in
      bindR (expect (cpau_vault_state s)) (\<lambda>vault_state.
      bindR (expect (cpau_deposit_mint s)) (\<lambda>deposit_mint.
      bindR (expect (cpau_admin s)) (\<lambda>admin.
      Inr (pause_cpi key this_program
        \<lparr>cpau_vault_state = vault_state, cpau_deposit_mint = deposit_mint, cpau_admin = admin\<rparr>
        signers_seeds (b_remaining b))))))"

definition pause_map :: "('a \<Rightarrow> 'b) \<Rightarrow> 'a pause_client \<Rightarrow> 'b pause_client" where
  "pause_map f a =
     \<lparr>cpau_vault_state = f (cpau_vault_state a), cpau_deposit_mint = f (cpau_deposit_mint a),
      cpau_admin = f (cpau_admin a)\<rparr>"

lemma pause_client_eta [simp]:
  "\<lparr>cpau_vault_state = cpau_vault_state a, cpau_deposit_mint = cpau_deposit_mint a,
      cpau_admin = cpau_admin a\<rparr> = a"
  by (cases a) simp

section \<open>instructions/unpause.rs\<close>

definition UNPAUSE_DISCRIMINATOR :: "u8 list" where
  "UNPAUSE_DISCRIMINATOR = [169, 144, 4, 38, 10, 141, 188, 255]"

record 'k unpause_client =
  cunp_vault_state :: "'k"
  cunp_deposit_mint :: "'k"
  cunp_admin :: "'k"

definition unpause_data :: "u8 list" where
  "unpause_data =
     UNPAUSE_DISCRIMINATOR"

definition unpause_instruction ::
  "pubkey unpause_client \<Rightarrow> account_meta list \<Rightarrow> client_instruction"
where
  "unpause_instruction a remaining_accounts =
     \<lparr>ix_program_id = AUGUST_VAULT_ID,
      ix_accounts =
        [meta_new (cunp_vault_state a) False, meta_new_readonly (cunp_deposit_mint a) False,
         meta_new_readonly (cunp_admin a) True] @ remaining_accounts,
      ix_data = unpause_data\<rparr>"

definition unpause_cpi ::
  "('i \<Rightarrow> pubkey) \<Rightarrow> 'i \<Rightarrow> 'i unpause_client \<Rightarrow> u8 list list list \<Rightarrow>
   ('i \<times> bool \<times> bool) list \<Rightarrow> 'i cpi_call"
where
  "unpause_cpi key this_program a signers_seeds remaining_accounts =
     cpi_invoke
     \<lparr>ix_program_id = AUGUST_VAULT_ID,
      ix_accounts =
        [meta_new (key (cunp_vault_state a)) False,
         meta_new_readonly (key (cunp_deposit_mint a)) False,
         meta_new_readonly (key (cunp_admin a)) True] @ map (cpi_meta key) remaining_accounts,
      ix_data = unpause_data\<rparr>
       ([this_program, cunp_vault_state a, cunp_deposit_mint a, cunp_admin a] @ map fst remaining_accounts) signers_seeds"

definition unpause_build ::
  "(pubkey option unpause_client, unit, account_meta) builder \<Rightarrow>
   client_instruction client_result"
where
  "unpause_build b =
     (let s = b_accounts b in
      bindR (expect (cunp_vault_state s)) (\<lambda>vault_state.
      bindR (expect (cunp_deposit_mint s)) (\<lambda>deposit_mint.
      bindR (expect (cunp_admin s)) (\<lambda>admin.
      Inr (unpause_instruction
        \<lparr>cunp_vault_state = vault_state, cunp_deposit_mint = deposit_mint, cunp_admin = admin\<rparr> (b_remaining b))))))"

definition unpause_cpi_build ::
  "('i \<Rightarrow> pubkey) \<Rightarrow> 'i \<Rightarrow>
   ('i option unpause_client, unit, 'i \<times> bool \<times> bool) builder \<Rightarrow>
   u8 list list list \<Rightarrow> 'i cpi_call client_result"
where
  "unpause_cpi_build key this_program b signers_seeds =
     (let s = b_accounts b in
      bindR (expect (cunp_vault_state s)) (\<lambda>vault_state.
      bindR (expect (cunp_deposit_mint s)) (\<lambda>deposit_mint.
      bindR (expect (cunp_admin s)) (\<lambda>admin.
      Inr (unpause_cpi key this_program
        \<lparr>cunp_vault_state = vault_state, cunp_deposit_mint = deposit_mint, cunp_admin = admin\<rparr>
        signers_seeds (b_remaining b))))))"

definition unpause_map :: "('a \<Rightarrow> 'b) \<Rightarrow> 'a unpause_client \<Rightarrow> 'b unpause_client" where
  "unpause_map f a =
     \<lparr>cunp_vault_state = f (cunp_vault_state a), cunp_deposit_mint = f (cunp_deposit_mint a),
      cunp_admin = f (cunp_admin a)\<rparr>"

lemma unpause_client_eta [simp]:
  "\<lparr>cunp_vault_state = cunp_vault_state a, cunp_deposit_mint = cunp_deposit_mint a,
      cunp_admin = cunp_admin a\<rparr> = a"
  by (cases a) simp

section \<open>instructions/nominate_admin.rs\<close>

definition NOMINATE_ADMIN_DISCRIMINATOR :: "u8 list" where
  "NOMINATE_ADMIN_DISCRIMINATOR = [134, 11, 31, 244, 20, 77, 138, 121]"

record 'k nominate_admin_client =
  cnma_vault_state :: "'k"
  cnma_deposit_mint :: "'k"
  cnma_nominated_admin_pda :: "'k"
  cnma_admin :: "'k"
  cnma_payer :: "'k"
  cnma_system_program :: "'k"

definition nominate_admin_data :: "pubkey \<Rightarrow> u8 list" where
  "nominate_admin_data new_admin =
     NOMINATE_ADMIN_DISCRIMINATOR @ put_key new_admin"

definition nominate_admin_instruction ::
  "pubkey nominate_admin_client \<Rightarrow> pubkey \<Rightarrow> account_meta list \<Rightarrow> client_instruction"
where
  "nominate_admin_instruction a new_admin remaining_accounts =
     \<lparr>ix_program_id = AUGUST_VAULT_ID,
      ix_accounts =
        [meta_new_readonly (cnma_vault_state a) False,
         meta_new_readonly (cnma_deposit_mint a) False,
         meta_new (cnma_nominated_admin_pda a) False, meta_new_readonly (cnma_admin a) True,
         meta_new (cnma_payer a) True, meta_new_readonly (cnma_system_program a) False] @ remaining_accounts,
      ix_data = nominate_admin_data new_admin\<rparr>"

definition nominate_admin_cpi ::
  "('i \<Rightarrow> pubkey) \<Rightarrow> 'i \<Rightarrow> 'i nominate_admin_client \<Rightarrow> pubkey \<Rightarrow> u8 list list list \<Rightarrow>
   ('i \<times> bool \<times> bool) list \<Rightarrow> 'i cpi_call"
where
  "nominate_admin_cpi key this_program a new_admin signers_seeds remaining_accounts =
     cpi_invoke
     \<lparr>ix_program_id = AUGUST_VAULT_ID,
      ix_accounts =
        [meta_new_readonly (key (cnma_vault_state a)) False,
         meta_new_readonly (key (cnma_deposit_mint a)) False,
         meta_new (key (cnma_nominated_admin_pda a)) False,
         meta_new_readonly (key (cnma_admin a)) True, meta_new (key (cnma_payer a)) True,
         meta_new_readonly (key (cnma_system_program a)) False] @ map (cpi_meta key) remaining_accounts,
      ix_data = nominate_admin_data new_admin\<rparr>
       ([this_program, cnma_vault_state a, cnma_deposit_mint a, cnma_nominated_admin_pda a,
         cnma_admin a, cnma_payer a, cnma_system_program a] @ map fst remaining_accounts) signers_seeds"

definition nominate_admin_build ::
  "(pubkey option nominate_admin_client, pubkey option, account_meta) builder \<Rightarrow>
   client_instruction client_result"
where
  "nominate_admin_build b =
     (let s = b_accounts b in
      bindR (expect (cnma_vault_state s)) (\<lambda>vault_state.
      bindR (expect (cnma_deposit_mint s)) (\<lambda>deposit_mint.
      bindR (expect (cnma_nominated_admin_pda s)) (\<lambda>nominated_admin_pda.
      bindR (expect (cnma_admin s)) (\<lambda>admin.
      bindR (expect (cnma_payer s)) (\<lambda>payer.
      bindR (expect (b_args b)) (\<lambda>new_admin.
      Inr (nominate_admin_instruction
        \<lparr>cnma_vault_state = vault_state, cnma_deposit_mint = deposit_mint,
         cnma_nominated_admin_pda = nominated_admin_pda, cnma_admin = admin, cnma_payer = payer,
         cnma_system_program = unwrap_or (cnma_system_program s) SYSTEM_PROGRAM\<rparr> new_admin (b_remaining b)))))))))"

definition nominate_admin_cpi_build ::
  "('i \<Rightarrow> pubkey) \<Rightarrow> 'i \<Rightarrow>
   ('i option nominate_admin_client, pubkey option, 'i \<times> bool \<times> bool) builder \<Rightarrow>
   u8 list list list \<Rightarrow> 'i cpi_call client_result"
where
  "nominate_admin_cpi_build key this_program b signers_seeds =
     (let s = b_accounts b in
      bindR (expect (b_args b)) (\<lambda>new_admin.
      bindR (expect (cnma_vault_state s)) (\<lambda>vault_state.
      bindR (expect (cnma_deposit_mint s)) (\<lambda>deposit_mint.
      bindR (expect (cnma_nominated_admin_pda s)) (\<lambda>nominated_admin_pda.
      bindR (expect (cnma_admin s)) (\<lambda>admin.
      bindR (expect (cnma_payer s)) (\<lambda>payer.
      bindR (expect (cnma_system_program s)) (\<lambda>system_program.
      Inr (nominate_admin_cpi key this_program
        \<lparr>cnma_vault_state = vault_state, cnma_deposit_mint = deposit_mint,
         cnma_nominated_admin_pda = nominated_admin_pda, cnma_admin = admin, cnma_payer = payer,
         cnma_system_program = system_program\<rparr> new_admin
        signers_seeds (b_remaining b))))))))))"

definition nominate_admin_map :: "('a \<Rightarrow> 'b) \<Rightarrow> 'a nominate_admin_client \<Rightarrow> 'b nominate_admin_client" where
  "nominate_admin_map f a =
     \<lparr>cnma_vault_state = f (cnma_vault_state a), cnma_deposit_mint = f (cnma_deposit_mint a),
      cnma_nominated_admin_pda = f (cnma_nominated_admin_pda a), cnma_admin = f (cnma_admin a),
      cnma_payer = f (cnma_payer a), cnma_system_program = f (cnma_system_program a)\<rparr>"

lemma nominate_admin_client_eta [simp]:
  "\<lparr>cnma_vault_state = cnma_vault_state a, cnma_deposit_mint = cnma_deposit_mint a,
      cnma_nominated_admin_pda = cnma_nominated_admin_pda a, cnma_admin = cnma_admin a,
      cnma_payer = cnma_payer a, cnma_system_program = cnma_system_program a\<rparr> = a"
  by (cases a) simp

section \<open>instructions/accept_admin_nomination.rs\<close>

definition ACCEPT_ADMIN_NOMINATION_DISCRIMINATOR :: "u8 list" where
  "ACCEPT_ADMIN_NOMINATION_DISCRIMINATOR = [190, 164, 198, 207, 17, 27, 152, 203]"

record 'k accept_admin_nomination_client =
  caan_vault_state :: "'k"
  caan_deposit_mint :: "'k"
  caan_nominated_admin_pda :: "'k"
  caan_new_admin :: "'k"
  caan_receiver :: "'k"
  caan_system_program :: "'k"

definition accept_admin_nomination_data :: "u8 list" where
  "accept_admin_nomination_data =
     ACCEPT_ADMIN_NOMINATION_DISCRIMINATOR"

definition accept_admin_nomination_instruction ::
  "pubkey accept_admin_nomination_client \<Rightarrow> account_meta list \<Rightarrow> client_instruction"
where
  "accept_admin_nomination_instruction a remaining_accounts =
     \<lparr>ix_program_id = AUGUST_VAULT_ID,
      ix_accounts =
        [meta_new (caan_vault_state a) False, meta_new_readonly (caan_deposit_mint a) False,
         meta_new (caan_nominated_admin_pda a) False, meta_new_readonly (caan_new_admin a) True,
         meta_new (caan_receiver a) False, meta_new_readonly (caan_system_program a) False] @ remaining_accounts,
      ix_data = accept_admin_nomination_data\<rparr>"

definition accept_admin_nomination_cpi ::
  "('i \<Rightarrow> pubkey) \<Rightarrow> 'i \<Rightarrow> 'i accept_admin_nomination_client \<Rightarrow> u8 list list list \<Rightarrow>
   ('i \<times> bool \<times> bool) list \<Rightarrow> 'i cpi_call"
where
  "accept_admin_nomination_cpi key this_program a signers_seeds remaining_accounts =
     cpi_invoke
     \<lparr>ix_program_id = AUGUST_VAULT_ID,
      ix_accounts =
        [meta_new (key (caan_vault_state a)) False,
         meta_new_readonly (key (caan_deposit_mint a)) False,
         meta_new (key (caan_nominated_admin_pda a)) False,
         meta_new_readonly (key (caan_new_admin a)) True, meta_new (key (caan_receiver a)) False,
         meta_new_readonly (key (caan_system_program a)) False] @ map (cpi_meta key) remaining_accounts,
      ix_data = accept_admin_nomination_data\<rparr>
       ([this_program, caan_vault_state a, caan_deposit_mint a, caan_nominated_admin_pda a,
         caan_new_admin a, caan_receiver a, caan_system_program a] @ map fst remaining_accounts) signers_seeds"

definition accept_admin_nomination_build ::
  "(pubkey option accept_admin_nomination_client, unit, account_meta) builder \<Rightarrow>
   client_instruction client_result"
where
  "accept_admin_nomination_build b =
     (let s = b_accounts b in
      bindR (expect (caan_vault_state s)) (\<lambda>vault_state.
      bindR (expect (caan_deposit_mint s)) (\<lambda>deposit_mint.
      bindR (expect (caan_nominated_admin_pda s)) (\<lambda>nominated_admin_pda.
      bindR (expect (caan_new_admin s)) (\<lambda>new_admin.
      bindR (expect (caan_receiver s)) (\<lambda>receiver.
      Inr (accept_admin_nomination_instruction
        \<lparr>caan_vault_state = vault_state, caan_deposit_mint = deposit_mint,
         caan_nominated_admin_pda = nominated_admin_pda, caan_new_admin = new_admin,
         caan_receiver = receiver,
         caan_system_program = unwrap_or (caan_system_program s) SYSTEM_PROGRAM\<rparr> (b_remaining b))))))))"

definition accept_admin_nomination_cpi_build ::
  "('i \<Rightarrow> pubkey) \<Rightarrow> 'i \<Rightarrow>
   ('i option accept_admin_nomination_client, unit, 'i \<times> bool \<times> bool) builder \<Rightarrow>
   u8 list list list \<Rightarrow> 'i cpi_call client_result"
where
  "accept_admin_nomination_cpi_build key this_program b signers_seeds =
     (let s = b_accounts b in
      bindR (expect (caan_vault_state s)) (\<lambda>vault_state.
      bindR (expect (caan_deposit_mint s)) (\<lambda>deposit_mint.
      bindR (expect (caan_nominated_admin_pda s)) (\<lambda>nominated_admin_pda.
      bindR (expect (caan_new_admin s)) (\<lambda>new_admin.
      bindR (expect (caan_receiver s)) (\<lambda>receiver.
      bindR (expect (caan_system_program s)) (\<lambda>system_program.
      Inr (accept_admin_nomination_cpi key this_program
        \<lparr>caan_vault_state = vault_state, caan_deposit_mint = deposit_mint,
         caan_nominated_admin_pda = nominated_admin_pda, caan_new_admin = new_admin,
         caan_receiver = receiver, caan_system_program = system_program\<rparr>
        signers_seeds (b_remaining b)))))))))"

definition accept_admin_nomination_map :: "('a \<Rightarrow> 'b) \<Rightarrow> 'a accept_admin_nomination_client \<Rightarrow> 'b accept_admin_nomination_client" where
  "accept_admin_nomination_map f a =
     \<lparr>caan_vault_state = f (caan_vault_state a), caan_deposit_mint = f (caan_deposit_mint a),
      caan_nominated_admin_pda = f (caan_nominated_admin_pda a),
      caan_new_admin = f (caan_new_admin a), caan_receiver = f (caan_receiver a),
      caan_system_program = f (caan_system_program a)\<rparr>"

lemma accept_admin_nomination_client_eta [simp]:
  "\<lparr>caan_vault_state = caan_vault_state a, caan_deposit_mint = caan_deposit_mint a,
      caan_nominated_admin_pda = caan_nominated_admin_pda a, caan_new_admin = caan_new_admin a,
      caan_receiver = caan_receiver a, caan_system_program = caan_system_program a\<rparr> = a"
  by (cases a) simp

section \<open>instructions/attach_withdrawal_queue.rs\<close>

definition ATTACH_WITHDRAWAL_QUEUE_DISCRIMINATOR :: "u8 list" where
  "ATTACH_WITHDRAWAL_QUEUE_DISCRIMINATOR = [6, 130, 226, 67, 214, 208, 145, 212]"

record 'k attach_withdrawal_queue_client =
  cawq_vault_state :: "'k"
  cawq_deposit_mint :: "'k"
  cawq_admin :: "'k"
  cawq_queue :: "'k"

definition attach_withdrawal_queue_data :: "u8 list" where
  "attach_withdrawal_queue_data =
     ATTACH_WITHDRAWAL_QUEUE_DISCRIMINATOR"

definition attach_withdrawal_queue_instruction ::
  "pubkey attach_withdrawal_queue_client \<Rightarrow> account_meta list \<Rightarrow> client_instruction"
where
  "attach_withdrawal_queue_instruction a remaining_accounts =
     \<lparr>ix_program_id = AUGUST_VAULT_ID,
      ix_accounts =
        [meta_new (cawq_vault_state a) False, meta_new_readonly (cawq_deposit_mint a) False,
         meta_new_readonly (cawq_admin a) True, meta_new_readonly (cawq_queue a) False] @ remaining_accounts,
      ix_data = attach_withdrawal_queue_data\<rparr>"

definition attach_withdrawal_queue_cpi ::
  "('i \<Rightarrow> pubkey) \<Rightarrow> 'i \<Rightarrow> 'i attach_withdrawal_queue_client \<Rightarrow> u8 list list list \<Rightarrow>
   ('i \<times> bool \<times> bool) list \<Rightarrow> 'i cpi_call"
where
  "attach_withdrawal_queue_cpi key this_program a signers_seeds remaining_accounts =
     cpi_invoke
     \<lparr>ix_program_id = AUGUST_VAULT_ID,
      ix_accounts =
        [meta_new (key (cawq_vault_state a)) False,
         meta_new_readonly (key (cawq_deposit_mint a)) False,
         meta_new_readonly (key (cawq_admin a)) True, meta_new_readonly (key (cawq_queue a)) False] @ map (cpi_meta key) remaining_accounts,
      ix_data = attach_withdrawal_queue_data\<rparr>
       ([this_program, cawq_vault_state a, cawq_deposit_mint a, cawq_admin a, cawq_queue a] @ map fst remaining_accounts) signers_seeds"

definition attach_withdrawal_queue_build ::
  "(pubkey option attach_withdrawal_queue_client, unit, account_meta) builder \<Rightarrow>
   client_instruction client_result"
where
  "attach_withdrawal_queue_build b =
     (let s = b_accounts b in
      bindR (expect (cawq_vault_state s)) (\<lambda>vault_state.
      bindR (expect (cawq_deposit_mint s)) (\<lambda>deposit_mint.
      bindR (expect (cawq_admin s)) (\<lambda>admin.
      bindR (expect (cawq_queue s)) (\<lambda>queue.
      Inr (attach_withdrawal_queue_instruction
        \<lparr>cawq_vault_state = vault_state, cawq_deposit_mint = deposit_mint, cawq_admin = admin,
         cawq_queue = queue\<rparr> (b_remaining b)))))))"

definition attach_withdrawal_queue_cpi_build ::
  "('i \<Rightarrow> pubkey) \<Rightarrow> 'i \<Rightarrow>
   ('i option attach_withdrawal_queue_client, unit, 'i \<times> bool \<times> bool) builder \<Rightarrow>
   u8 list list list \<Rightarrow> 'i cpi_call client_result"
where
  "attach_withdrawal_queue_cpi_build key this_program b signers_seeds =
     (let s = b_accounts b in
      bindR (expect (cawq_vault_state s)) (\<lambda>vault_state.
      bindR (expect (cawq_deposit_mint s)) (\<lambda>deposit_mint.
      bindR (expect (cawq_admin s)) (\<lambda>admin.
      bindR (expect (cawq_queue s)) (\<lambda>queue.
      Inr (attach_withdrawal_queue_cpi key this_program
        \<lparr>cawq_vault_state = vault_state, cawq_deposit_mint = deposit_mint, cawq_admin = admin,
         cawq_queue = queue\<rparr>
        signers_seeds (b_remaining b)))))))"

definition attach_withdrawal_queue_map :: "('a \<Rightarrow> 'b) \<Rightarrow> 'a attach_withdrawal_queue_client \<Rightarrow> 'b attach_withdrawal_queue_client" where
  "attach_withdrawal_queue_map f a =
     \<lparr>cawq_vault_state = f (cawq_vault_state a), cawq_deposit_mint = f (cawq_deposit_mint a),
      cawq_admin = f (cawq_admin a), cawq_queue = f (cawq_queue a)\<rparr>"

lemma attach_withdrawal_queue_client_eta [simp]:
  "\<lparr>cawq_vault_state = cawq_vault_state a, cawq_deposit_mint = cawq_deposit_mint a,
      cawq_admin = cawq_admin a, cawq_queue = cawq_queue a\<rparr> = a"
  by (cases a) simp

section \<open>instructions/detach_withdrawal_queue.rs\<close>

definition DETACH_WITHDRAWAL_QUEUE_DISCRIMINATOR :: "u8 list" where
  "DETACH_WITHDRAWAL_QUEUE_DISCRIMINATOR = [58, 25, 112, 37, 254, 105, 157, 96]"

record 'k detach_withdrawal_queue_client =
  cdwq_vault_state :: "'k"
  cdwq_deposit_mint :: "'k"
  cdwq_admin :: "'k"
  cdwq_queue :: "'k"

definition detach_withdrawal_queue_data :: "u8 list" where
  "detach_withdrawal_queue_data =
     DETACH_WITHDRAWAL_QUEUE_DISCRIMINATOR"

definition detach_withdrawal_queue_instruction ::
  "pubkey detach_withdrawal_queue_client \<Rightarrow> account_meta list \<Rightarrow> client_instruction"
where
  "detach_withdrawal_queue_instruction a remaining_accounts =
     \<lparr>ix_program_id = AUGUST_VAULT_ID,
      ix_accounts =
        [meta_new (cdwq_vault_state a) False, meta_new_readonly (cdwq_deposit_mint a) False,
         meta_new_readonly (cdwq_admin a) True, meta_new_readonly (cdwq_queue a) True] @ remaining_accounts,
      ix_data = detach_withdrawal_queue_data\<rparr>"

definition detach_withdrawal_queue_cpi ::
  "('i \<Rightarrow> pubkey) \<Rightarrow> 'i \<Rightarrow> 'i detach_withdrawal_queue_client \<Rightarrow> u8 list list list \<Rightarrow>
   ('i \<times> bool \<times> bool) list \<Rightarrow> 'i cpi_call"
where
  "detach_withdrawal_queue_cpi key this_program a signers_seeds remaining_accounts =
     cpi_invoke
     \<lparr>ix_program_id = AUGUST_VAULT_ID,
      ix_accounts =
        [meta_new (key (cdwq_vault_state a)) False,
         meta_new_readonly (key (cdwq_deposit_mint a)) False,
         meta_new_readonly (key (cdwq_admin a)) True, meta_new_readonly (key (cdwq_queue a)) True] @ map (cpi_meta key) remaining_accounts,
      ix_data = detach_withdrawal_queue_data\<rparr>
       ([this_program, cdwq_vault_state a, cdwq_deposit_mint a, cdwq_admin a, cdwq_queue a] @ map fst remaining_accounts) signers_seeds"

definition detach_withdrawal_queue_build ::
  "(pubkey option detach_withdrawal_queue_client, unit, account_meta) builder \<Rightarrow>
   client_instruction client_result"
where
  "detach_withdrawal_queue_build b =
     (let s = b_accounts b in
      bindR (expect (cdwq_vault_state s)) (\<lambda>vault_state.
      bindR (expect (cdwq_deposit_mint s)) (\<lambda>deposit_mint.
      bindR (expect (cdwq_admin s)) (\<lambda>admin.
      bindR (expect (cdwq_queue s)) (\<lambda>queue.
      Inr (detach_withdrawal_queue_instruction
        \<lparr>cdwq_vault_state = vault_state, cdwq_deposit_mint = deposit_mint, cdwq_admin = admin,
         cdwq_queue = queue\<rparr> (b_remaining b)))))))"

definition detach_withdrawal_queue_cpi_build ::
  "('i \<Rightarrow> pubkey) \<Rightarrow> 'i \<Rightarrow>
   ('i option detach_withdrawal_queue_client, unit, 'i \<times> bool \<times> bool) builder \<Rightarrow>
   u8 list list list \<Rightarrow> 'i cpi_call client_result"
where
  "detach_withdrawal_queue_cpi_build key this_program b signers_seeds =
     (let s = b_accounts b in
      bindR (expect (cdwq_vault_state s)) (\<lambda>vault_state.
      bindR (expect (cdwq_deposit_mint s)) (\<lambda>deposit_mint.
      bindR (expect (cdwq_admin s)) (\<lambda>admin.
      bindR (expect (cdwq_queue s)) (\<lambda>queue.
      Inr (detach_withdrawal_queue_cpi key this_program
        \<lparr>cdwq_vault_state = vault_state, cdwq_deposit_mint = deposit_mint, cdwq_admin = admin,
         cdwq_queue = queue\<rparr>
        signers_seeds (b_remaining b)))))))"

definition detach_withdrawal_queue_map :: "('a \<Rightarrow> 'b) \<Rightarrow> 'a detach_withdrawal_queue_client \<Rightarrow> 'b detach_withdrawal_queue_client" where
  "detach_withdrawal_queue_map f a =
     \<lparr>cdwq_vault_state = f (cdwq_vault_state a), cdwq_deposit_mint = f (cdwq_deposit_mint a),
      cdwq_admin = f (cdwq_admin a), cdwq_queue = f (cdwq_queue a)\<rparr>"

lemma detach_withdrawal_queue_client_eta [simp]:
  "\<lparr>cdwq_vault_state = cdwq_vault_state a, cdwq_deposit_mint = cdwq_deposit_mint a,
      cdwq_admin = cdwq_admin a, cdwq_queue = cdwq_queue a\<rparr> = a"
  by (cases a) simp

section \<open>instructions/close_vault.rs\<close>

definition CLOSE_VAULT_DISCRIMINATOR :: "u8 list" where
  "CLOSE_VAULT_DISCRIMINATOR = [141, 103, 17, 126, 72, 75, 29, 29]"

record 'k close_vault_client =
  cclv_vault_state :: "'k"
  cclv_share_mint :: "'k"
  cclv_vault_token_ata :: "'k"
  cclv_deposit_mint :: "'k"
  cclv_admin :: "'k"
  cclv_token_program :: "'k"

definition close_vault_data :: "u8 list" where
  "close_vault_data =
     CLOSE_VAULT_DISCRIMINATOR"

definition close_vault_instruction ::
  "pubkey close_vault_client \<Rightarrow> account_meta list \<Rightarrow> client_instruction"
where
  "close_vault_instruction a remaining_accounts =
     \<lparr>ix_program_id = AUGUST_VAULT_ID,
      ix_accounts =
        [meta_new (cclv_vault_state a) False, meta_new (cclv_share_mint a) False,
         meta_new (cclv_vault_token_ata a) False, meta_new_readonly (cclv_deposit_mint a) False,
         meta_new (cclv_admin a) True, meta_new_readonly (cclv_token_program a) False] @ remaining_accounts,
      ix_data = close_vault_data\<rparr>"

definition close_vault_cpi ::
  "('i \<Rightarrow> pubkey) \<Rightarrow> 'i \<Rightarrow> 'i close_vault_client \<Rightarrow> u8 list list list \<Rightarrow>
   ('i \<times> bool \<times> bool) list \<Rightarrow> 'i cpi_call"
where
  "close_vault_cpi key this_program a signers_seeds remaining_accounts =
     cpi_invoke
     \<lparr>ix_program_id = AUGUST_VAULT_ID,
      ix_accounts =
        [meta_new (key (cclv_vault_state a)) False, meta_new (key (cclv_share_mint a)) False,
         meta_new (key (cclv_vault_token_ata a)) False,
         meta_new_readonly (key (cclv_deposit_mint a)) False, meta_new (key (cclv_admin a)) True,
         meta_new_readonly (key (cclv_token_program a)) False] @ map (cpi_meta key) remaining_accounts,
      ix_data = close_vault_data\<rparr>
       ([this_program, cclv_vault_state a, cclv_share_mint a, cclv_vault_token_ata a,
         cclv_deposit_mint a, cclv_admin a, cclv_token_program a] @ map fst remaining_accounts) signers_seeds"

definition close_vault_build ::
  "(pubkey option close_vault_client, unit, account_meta) builder \<Rightarrow>
   client_instruction client_result"
where
  "close_vault_build b =
     (let s = b_accounts b in
      bindR (expect (cclv_vault_state s)) (\<lambda>vault_state.
      bindR (expect (cclv_share_mint s)) (\<lambda>share_mint.
      bindR (expect (cclv_vault_token_ata s)) (\<lambda>vault_token_ata.
      bindR (expect (cclv_deposit_mint s)) (\<lambda>deposit_mint.
      bindR (expect (cclv_admin s)) (\<lambda>admin.
      Inr (close_vault_instruction
        \<lparr>cclv_vault_state = vault_state, cclv_share_mint = share_mint,
         cclv_vault_token_ata = vault_token_ata, cclv_deposit_mint = deposit_mint,
         cclv_admin = admin, cclv_token_program = unwrap_or (cclv_token_program s) TOKEN_PROGRAM\<rparr> (b_remaining b))))))))"

definition close_vault_cpi_build ::
  "('i \<Rightarrow> pubkey) \<Rightarrow> 'i \<Rightarrow>
   ('i option close_vault_client, unit, 'i \<times> bool \<times> bool) builder \<Rightarrow>
   u8 list list list \<Rightarrow> 'i cpi_call client_result"
where
  "close_vault_cpi_build key this_program b signers_seeds =
     (let s = b_accounts b in
      bindR (expect (cclv_vault_state s)) (\<lambda>vault_state.
      bindR (expect (cclv_share_mint s)) (\<lambda>share_mint.
      bindR (expect (cclv_vault_token_ata s)) (\<lambda>vault_token_ata.
      bindR (expect (cclv_deposit_mint s)) (\<lambda>deposit_mint.
      bindR (expect (cclv_admin s)) (\<lambda>admin.
      bindR (expect (cclv_token_program s)) (\<lambda>token_program.
      Inr (close_vault_cpi key this_program
        \<lparr>cclv_vault_state = vault_state, cclv_share_mint = share_mint,
         cclv_vault_token_ata = vault_token_ata, cclv_deposit_mint = deposit_mint,
         cclv_admin = admin, cclv_token_program = token_program\<rparr>
        signers_seeds (b_remaining b)))))))))"

definition close_vault_map :: "('a \<Rightarrow> 'b) \<Rightarrow> 'a close_vault_client \<Rightarrow> 'b close_vault_client" where
  "close_vault_map f a =
     \<lparr>cclv_vault_state = f (cclv_vault_state a), cclv_share_mint = f (cclv_share_mint a),
      cclv_vault_token_ata = f (cclv_vault_token_ata a),
      cclv_deposit_mint = f (cclv_deposit_mint a), cclv_admin = f (cclv_admin a),
      cclv_token_program = f (cclv_token_program a)\<rparr>"

lemma close_vault_client_eta [simp]:
  "\<lparr>cclv_vault_state = cclv_vault_state a, cclv_share_mint = cclv_share_mint a,
      cclv_vault_token_ata = cclv_vault_token_ata a, cclv_deposit_mint = cclv_deposit_mint a,
      cclv_admin = cclv_admin a, cclv_token_program = cclv_token_program a\<rparr> = a"
  by (cases a) simp

end
