(* ===== verification/ClientSetup.thy ===== *)
theory ClientSetup
  imports ClientCore
begin

text \<open>
  \<open>clients/rust/august-vault\<close>: the vault client's config, creation and share-token metadata
  (\<open>src/generated/instructions\<close>). For each instruction its discriminator and argument bytes, and
  the four layers of \<open>ClientCore\<close>, field by field in the order of the file.
\<close>

section \<open>instructions/initialize_config.rs\<close>

definition INITIALIZE_CONFIG_DISCRIMINATOR :: "u8 list" where
  "INITIALIZE_CONFIG_DISCRIMINATOR = [208, 127, 21, 1, 194, 190, 196, 70]"

record 'k initialize_config_client =
  cinc_upgrade_authority :: "'k"
  cinc_program_data :: "'k"
  cinc_payer :: "'k"
  cinc_program_config :: "'k"
  cinc_system_program :: "'k"

definition initialize_config_data :: "pubkey \<Rightarrow> u8 list" where
  "initialize_config_data authority =
     INITIALIZE_CONFIG_DISCRIMINATOR @ put_key authority"

definition initialize_config_instruction ::
  "pubkey initialize_config_client \<Rightarrow> pubkey \<Rightarrow> account_meta list \<Rightarrow> client_instruction"
where
  "initialize_config_instruction a authority remaining_accounts =
     \<lparr>ix_program_id = AUGUST_VAULT_ID,
      ix_accounts =
        [meta_new_readonly (cinc_upgrade_authority a) True,
         meta_new_readonly (cinc_program_data a) False, meta_new (cinc_payer a) True,
         meta_new (cinc_program_config a) False, meta_new_readonly (cinc_system_program a) False] @ remaining_accounts,
      ix_data = initialize_config_data authority\<rparr>"

definition initialize_config_cpi ::
  "('i \<Rightarrow> pubkey) \<Rightarrow> 'i \<Rightarrow> 'i initialize_config_client \<Rightarrow> pubkey \<Rightarrow> u8 list list list \<Rightarrow>
   ('i \<times> bool \<times> bool) list \<Rightarrow> 'i cpi_call"
where
  "initialize_config_cpi key this_program a authority signers_seeds remaining_accounts =
     cpi_invoke
     \<lparr>ix_program_id = AUGUST_VAULT_ID,
      ix_accounts =
        [meta_new_readonly (key (cinc_upgrade_authority a)) True,
         meta_new_readonly (key (cinc_program_data a)) False, meta_new (key (cinc_payer a)) True,
         meta_new (key (cinc_program_config a)) False,
         meta_new_readonly (key (cinc_system_program a)) False] @ map (cpi_meta key) remaining_accounts,
      ix_data = initialize_config_data authority\<rparr>
       ([this_program, cinc_upgrade_authority a, cinc_program_data a, cinc_payer a,
         cinc_program_config a, cinc_system_program a] @ map fst remaining_accounts) signers_seeds"

definition initialize_config_build ::
  "(pubkey option initialize_config_client, pubkey option, account_meta) builder \<Rightarrow>
   client_instruction client_result"
where
  "initialize_config_build b =
     (let s = b_accounts b in
      bindR (expect (cinc_upgrade_authority s)) (\<lambda>upgrade_authority.
      bindR (expect (cinc_program_data s)) (\<lambda>program_data.
      bindR (expect (cinc_payer s)) (\<lambda>payer.
      bindR (expect (cinc_program_config s)) (\<lambda>program_config.
      bindR (expect (b_args b)) (\<lambda>authority.
      Inr (initialize_config_instruction
        \<lparr>cinc_upgrade_authority = upgrade_authority, cinc_program_data = program_data,
         cinc_payer = payer, cinc_program_config = program_config,
         cinc_system_program = unwrap_or (cinc_system_program s) SYSTEM_PROGRAM\<rparr> authority (b_remaining b))))))))"

definition initialize_config_cpi_build ::
  "('i \<Rightarrow> pubkey) \<Rightarrow> 'i \<Rightarrow>
   ('i option initialize_config_client, pubkey option, 'i \<times> bool \<times> bool) builder \<Rightarrow>
   u8 list list list \<Rightarrow> 'i cpi_call client_result"
where
  "initialize_config_cpi_build key this_program b signers_seeds =
     (let s = b_accounts b in
      bindR (expect (b_args b)) (\<lambda>authority.
      bindR (expect (cinc_upgrade_authority s)) (\<lambda>upgrade_authority.
      bindR (expect (cinc_program_data s)) (\<lambda>program_data.
      bindR (expect (cinc_payer s)) (\<lambda>payer.
      bindR (expect (cinc_program_config s)) (\<lambda>program_config.
      bindR (expect (cinc_system_program s)) (\<lambda>system_program.
      Inr (initialize_config_cpi key this_program
        \<lparr>cinc_upgrade_authority = upgrade_authority, cinc_program_data = program_data,
         cinc_payer = payer, cinc_program_config = program_config,
         cinc_system_program = system_program\<rparr> authority
        signers_seeds (b_remaining b)))))))))"

definition initialize_config_map :: "('a \<Rightarrow> 'b) \<Rightarrow> 'a initialize_config_client \<Rightarrow> 'b initialize_config_client" where
  "initialize_config_map f a =
     \<lparr>cinc_upgrade_authority = f (cinc_upgrade_authority a),
      cinc_program_data = f (cinc_program_data a), cinc_payer = f (cinc_payer a),
      cinc_program_config = f (cinc_program_config a),
      cinc_system_program = f (cinc_system_program a)\<rparr>"

lemma initialize_config_client_eta [simp]:
  "\<lparr>cinc_upgrade_authority = cinc_upgrade_authority a, cinc_program_data = cinc_program_data a,
      cinc_payer = cinc_payer a, cinc_program_config = cinc_program_config a,
      cinc_system_program = cinc_system_program a\<rparr> = a"
  by (cases a) simp

section \<open>instructions/set_config_authority.rs\<close>

definition SET_CONFIG_AUTHORITY_DISCRIMINATOR :: "u8 list" where
  "SET_CONFIG_AUTHORITY_DISCRIMINATOR = [16, 200, 212, 18, 95, 43, 107, 89]"

record 'k set_config_authority_client =
  csca_program_config :: "'k"
  csca_authority :: "'k"

definition set_config_authority_data :: "pubkey \<Rightarrow> u8 list" where
  "set_config_authority_data new_authority =
     SET_CONFIG_AUTHORITY_DISCRIMINATOR @ put_key new_authority"

definition set_config_authority_instruction ::
  "pubkey set_config_authority_client \<Rightarrow> pubkey \<Rightarrow> account_meta list \<Rightarrow> client_instruction"
where
  "set_config_authority_instruction a new_authority remaining_accounts =
     \<lparr>ix_program_id = AUGUST_VAULT_ID,
      ix_accounts =
        [meta_new (csca_program_config a) False, meta_new_readonly (csca_authority a) True] @ remaining_accounts,
      ix_data = set_config_authority_data new_authority\<rparr>"

definition set_config_authority_cpi ::
  "('i \<Rightarrow> pubkey) \<Rightarrow> 'i \<Rightarrow> 'i set_config_authority_client \<Rightarrow> pubkey \<Rightarrow> u8 list list list \<Rightarrow>
   ('i \<times> bool \<times> bool) list \<Rightarrow> 'i cpi_call"
where
  "set_config_authority_cpi key this_program a new_authority signers_seeds remaining_accounts =
     cpi_invoke
     \<lparr>ix_program_id = AUGUST_VAULT_ID,
      ix_accounts =
        [meta_new (key (csca_program_config a)) False,
         meta_new_readonly (key (csca_authority a)) True] @ map (cpi_meta key) remaining_accounts,
      ix_data = set_config_authority_data new_authority\<rparr>
       ([this_program, csca_program_config a, csca_authority a] @ map fst remaining_accounts) signers_seeds"

definition set_config_authority_build ::
  "(pubkey option set_config_authority_client, pubkey option, account_meta) builder \<Rightarrow>
   client_instruction client_result"
where
  "set_config_authority_build b =
     (let s = b_accounts b in
      bindR (expect (csca_program_config s)) (\<lambda>program_config.
      bindR (expect (csca_authority s)) (\<lambda>authority.
      bindR (expect (b_args b)) (\<lambda>new_authority.
      Inr (set_config_authority_instruction
        \<lparr>csca_program_config = program_config, csca_authority = authority\<rparr> new_authority (b_remaining b))))))"

definition set_config_authority_cpi_build ::
  "('i \<Rightarrow> pubkey) \<Rightarrow> 'i \<Rightarrow>
   ('i option set_config_authority_client, pubkey option, 'i \<times> bool \<times> bool) builder \<Rightarrow>
   u8 list list list \<Rightarrow> 'i cpi_call client_result"
where
  "set_config_authority_cpi_build key this_program b signers_seeds =
     (let s = b_accounts b in
      bindR (expect (b_args b)) (\<lambda>new_authority.
      bindR (expect (csca_program_config s)) (\<lambda>program_config.
      bindR (expect (csca_authority s)) (\<lambda>authority.
      Inr (set_config_authority_cpi key this_program
        \<lparr>csca_program_config = program_config, csca_authority = authority\<rparr> new_authority
        signers_seeds (b_remaining b))))))"

definition set_config_authority_map :: "('a \<Rightarrow> 'b) \<Rightarrow> 'a set_config_authority_client \<Rightarrow> 'b set_config_authority_client" where
  "set_config_authority_map f a =
     \<lparr>csca_program_config = f (csca_program_config a), csca_authority = f (csca_authority a)\<rparr>"

lemma set_config_authority_client_eta [simp]:
  "\<lparr>csca_program_config = csca_program_config a, csca_authority = csca_authority a\<rparr> = a"
  by (cases a) simp

section \<open>instructions/override_config_authority.rs\<close>

definition OVERRIDE_CONFIG_AUTHORITY_DISCRIMINATOR :: "u8 list" where
  "OVERRIDE_CONFIG_AUTHORITY_DISCRIMINATOR = [49, 53, 195, 205, 146, 192, 154, 236]"

record 'k override_config_authority_client =
  covc_program_config :: "'k"
  covc_upgrade_authority :: "'k"
  covc_program_data :: "'k"

definition override_config_authority_data :: "pubkey \<Rightarrow> u8 list" where
  "override_config_authority_data new_authority =
     OVERRIDE_CONFIG_AUTHORITY_DISCRIMINATOR @ put_key new_authority"

definition override_config_authority_instruction ::
  "pubkey override_config_authority_client \<Rightarrow> pubkey \<Rightarrow> account_meta list \<Rightarrow> client_instruction"
where
  "override_config_authority_instruction a new_authority remaining_accounts =
     \<lparr>ix_program_id = AUGUST_VAULT_ID,
      ix_accounts =
        [meta_new (covc_program_config a) False, meta_new_readonly (covc_upgrade_authority a) True,
         meta_new_readonly (covc_program_data a) False] @ remaining_accounts,
      ix_data = override_config_authority_data new_authority\<rparr>"

definition override_config_authority_cpi ::
  "('i \<Rightarrow> pubkey) \<Rightarrow> 'i \<Rightarrow> 'i override_config_authority_client \<Rightarrow> pubkey \<Rightarrow> u8 list list list \<Rightarrow>
   ('i \<times> bool \<times> bool) list \<Rightarrow> 'i cpi_call"
where
  "override_config_authority_cpi key this_program a new_authority signers_seeds remaining_accounts =
     cpi_invoke
     \<lparr>ix_program_id = AUGUST_VAULT_ID,
      ix_accounts =
        [meta_new (key (covc_program_config a)) False,
         meta_new_readonly (key (covc_upgrade_authority a)) True,
         meta_new_readonly (key (covc_program_data a)) False] @ map (cpi_meta key) remaining_accounts,
      ix_data = override_config_authority_data new_authority\<rparr>
       ([this_program, covc_program_config a, covc_upgrade_authority a, covc_program_data a] @ map fst remaining_accounts) signers_seeds"

definition override_config_authority_build ::
  "(pubkey option override_config_authority_client, pubkey option, account_meta) builder \<Rightarrow>
   client_instruction client_result"
where
  "override_config_authority_build b =
     (let s = b_accounts b in
      bindR (expect (covc_program_config s)) (\<lambda>program_config.
      bindR (expect (covc_upgrade_authority s)) (\<lambda>upgrade_authority.
      bindR (expect (covc_program_data s)) (\<lambda>program_data.
      bindR (expect (b_args b)) (\<lambda>new_authority.
      Inr (override_config_authority_instruction
        \<lparr>covc_program_config = program_config, covc_upgrade_authority = upgrade_authority,
         covc_program_data = program_data\<rparr> new_authority (b_remaining b)))))))"

definition override_config_authority_cpi_build ::
  "('i \<Rightarrow> pubkey) \<Rightarrow> 'i \<Rightarrow>
   ('i option override_config_authority_client, pubkey option, 'i \<times> bool \<times> bool) builder \<Rightarrow>
   u8 list list list \<Rightarrow> 'i cpi_call client_result"
where
  "override_config_authority_cpi_build key this_program b signers_seeds =
     (let s = b_accounts b in
      bindR (expect (b_args b)) (\<lambda>new_authority.
      bindR (expect (covc_program_config s)) (\<lambda>program_config.
      bindR (expect (covc_upgrade_authority s)) (\<lambda>upgrade_authority.
      bindR (expect (covc_program_data s)) (\<lambda>program_data.
      Inr (override_config_authority_cpi key this_program
        \<lparr>covc_program_config = program_config, covc_upgrade_authority = upgrade_authority,
         covc_program_data = program_data\<rparr> new_authority
        signers_seeds (b_remaining b)))))))"

definition override_config_authority_map :: "('a \<Rightarrow> 'b) \<Rightarrow> 'a override_config_authority_client \<Rightarrow> 'b override_config_authority_client" where
  "override_config_authority_map f a =
     \<lparr>covc_program_config = f (covc_program_config a),
      covc_upgrade_authority = f (covc_upgrade_authority a),
      covc_program_data = f (covc_program_data a)\<rparr>"

lemma override_config_authority_client_eta [simp]:
  "\<lparr>covc_program_config = covc_program_config a,
      covc_upgrade_authority = covc_upgrade_authority a, covc_program_data = covc_program_data a\<rparr> = a"
  by (cases a) simp

section \<open>instructions/initialize.rs\<close>

definition INITIALIZE_DISCRIMINATOR :: "u8 list" where
  "INITIALIZE_DISCRIMINATOR = [175, 175, 109, 31, 13, 152, 155, 237]"

record 'k initialize_client =
  cinv_program_config :: "'k"
  cinv_signer :: "'k"
  cinv_payer :: "'k"
  cinv_deposit_mint :: "'k"
  cinv_vault_state :: "'k"
  cinv_share_mint :: "'k"
  cinv_vault_token_ata :: "'k"
  cinv_system_program :: "'k"
  cinv_token_program :: "'k"
  cinv_rent :: "'k"

definition initialize_data :: "pubkey \<Rightarrow> pubkey \<Rightarrow> pubkey \<Rightarrow> u8 \<Rightarrow> u64 \<Rightarrow> u8 list" where
  "initialize_data admin operator fee_recipient vault_version offset =
     INITIALIZE_DISCRIMINATOR @ put_key admin @ put_key operator @ put_key fee_recipient @
     put_u8 vault_version @ le_bytes 8 offset"

definition initialize_instruction ::
  "pubkey initialize_client \<Rightarrow> pubkey \<Rightarrow> pubkey \<Rightarrow> pubkey \<Rightarrow> u8 \<Rightarrow> u64 \<Rightarrow> account_meta list \<Rightarrow> client_instruction"
where
  "initialize_instruction a admin operator fee_recipient vault_version offset remaining_accounts =
     \<lparr>ix_program_id = AUGUST_VAULT_ID,
      ix_accounts =
        [meta_new_readonly (cinv_program_config a) False, meta_new_readonly (cinv_signer a) True,
         meta_new (cinv_payer a) True, meta_new_readonly (cinv_deposit_mint a) False,
         meta_new (cinv_vault_state a) False, meta_new (cinv_share_mint a) False,
         meta_new (cinv_vault_token_ata a) False, meta_new_readonly (cinv_system_program a) False,
         meta_new_readonly (cinv_token_program a) False, meta_new_readonly (cinv_rent a) False] @ remaining_accounts,
      ix_data = initialize_data admin operator fee_recipient vault_version offset\<rparr>"

definition initialize_cpi ::
  "('i \<Rightarrow> pubkey) \<Rightarrow> 'i \<Rightarrow> 'i initialize_client \<Rightarrow> pubkey \<Rightarrow> pubkey \<Rightarrow> pubkey \<Rightarrow> u8 \<Rightarrow> u64 \<Rightarrow> u8 list list list \<Rightarrow>
   ('i \<times> bool \<times> bool) list \<Rightarrow> 'i cpi_call"
where
  "initialize_cpi key this_program a admin operator fee_recipient vault_version offset signers_seeds remaining_accounts =
     cpi_invoke
     \<lparr>ix_program_id = AUGUST_VAULT_ID,
      ix_accounts =
        [meta_new_readonly (key (cinv_program_config a)) False,
         meta_new_readonly (key (cinv_signer a)) True, meta_new (key (cinv_payer a)) True,
         meta_new_readonly (key (cinv_deposit_mint a)) False,
         meta_new (key (cinv_vault_state a)) False, meta_new (key (cinv_share_mint a)) False,
         meta_new (key (cinv_vault_token_ata a)) False,
         meta_new_readonly (key (cinv_system_program a)) False,
         meta_new_readonly (key (cinv_token_program a)) False,
         meta_new_readonly (key (cinv_rent a)) False] @ map (cpi_meta key) remaining_accounts,
      ix_data = initialize_data admin operator fee_recipient vault_version offset\<rparr>
       ([this_program, cinv_program_config a, cinv_signer a, cinv_payer a, cinv_deposit_mint a,
         cinv_vault_state a, cinv_share_mint a, cinv_vault_token_ata a, cinv_system_program a,
         cinv_token_program a, cinv_rent a] @ map fst remaining_accounts) signers_seeds"

definition initialize_build ::
  "(pubkey option initialize_client, pubkey option \<times> pubkey option \<times> pubkey option \<times> u8 option \<times> u64 option, account_meta) builder \<Rightarrow>
   client_instruction client_result"
where
  "initialize_build b =
     (let s = b_accounts b in
      bindR (expect (cinv_program_config s)) (\<lambda>program_config.
      bindR (expect (cinv_signer s)) (\<lambda>signer.
      bindR (expect (cinv_payer s)) (\<lambda>payer.
      bindR (expect (cinv_deposit_mint s)) (\<lambda>deposit_mint.
      bindR (expect (cinv_vault_state s)) (\<lambda>vault_state.
      bindR (expect (cinv_share_mint s)) (\<lambda>share_mint.
      bindR (expect (cinv_vault_token_ata s)) (\<lambda>vault_token_ata.
      (case b_args b of (admin, operator, fee_recipient, vault_version, offset) \<Rightarrow>
      bindR (expect admin) (\<lambda>admin.
      bindR (expect operator) (\<lambda>operator.
      bindR (expect fee_recipient) (\<lambda>fee_recipient.
      bindR (expect vault_version) (\<lambda>vault_version.
      bindR (expect offset) (\<lambda>offset.
      Inr (initialize_instruction
        \<lparr>cinv_program_config = program_config, cinv_signer = signer, cinv_payer = payer,
         cinv_deposit_mint = deposit_mint, cinv_vault_state = vault_state,
         cinv_share_mint = share_mint, cinv_vault_token_ata = vault_token_ata,
         cinv_system_program = unwrap_or (cinv_system_program s) SYSTEM_PROGRAM,
         cinv_token_program = unwrap_or (cinv_token_program s) TOKEN_PROGRAM,
         cinv_rent = unwrap_or (cinv_rent s) SYSVAR_RENT\<rparr> admin operator fee_recipient vault_version offset (b_remaining b))))))))))))))))"

definition initialize_cpi_build ::
  "('i \<Rightarrow> pubkey) \<Rightarrow> 'i \<Rightarrow>
   ('i option initialize_client, pubkey option \<times> pubkey option \<times> pubkey option \<times> u8 option \<times> u64 option, 'i \<times> bool \<times> bool) builder \<Rightarrow>
   u8 list list list \<Rightarrow> 'i cpi_call client_result"
where
  "initialize_cpi_build key this_program b signers_seeds =
     (let s = b_accounts b in
      (case b_args b of (admin, operator, fee_recipient, vault_version, offset) \<Rightarrow>
      bindR (expect admin) (\<lambda>admin.
      bindR (expect operator) (\<lambda>operator.
      bindR (expect fee_recipient) (\<lambda>fee_recipient.
      bindR (expect vault_version) (\<lambda>vault_version.
      bindR (expect offset) (\<lambda>offset.
      bindR (expect (cinv_program_config s)) (\<lambda>program_config.
      bindR (expect (cinv_signer s)) (\<lambda>signer.
      bindR (expect (cinv_payer s)) (\<lambda>payer.
      bindR (expect (cinv_deposit_mint s)) (\<lambda>deposit_mint.
      bindR (expect (cinv_vault_state s)) (\<lambda>vault_state.
      bindR (expect (cinv_share_mint s)) (\<lambda>share_mint.
      bindR (expect (cinv_vault_token_ata s)) (\<lambda>vault_token_ata.
      bindR (expect (cinv_system_program s)) (\<lambda>system_program.
      bindR (expect (cinv_token_program s)) (\<lambda>token_program.
      bindR (expect (cinv_rent s)) (\<lambda>rent.
      Inr (initialize_cpi key this_program
        \<lparr>cinv_program_config = program_config, cinv_signer = signer, cinv_payer = payer,
         cinv_deposit_mint = deposit_mint, cinv_vault_state = vault_state,
         cinv_share_mint = share_mint, cinv_vault_token_ata = vault_token_ata,
         cinv_system_program = system_program, cinv_token_program = token_program, cinv_rent = rent\<rparr> admin operator fee_recipient vault_version offset
        signers_seeds (b_remaining b)))))))))))))))))))"

definition initialize_map :: "('a \<Rightarrow> 'b) \<Rightarrow> 'a initialize_client \<Rightarrow> 'b initialize_client" where
  "initialize_map f a =
     \<lparr>cinv_program_config = f (cinv_program_config a), cinv_signer = f (cinv_signer a),
      cinv_payer = f (cinv_payer a), cinv_deposit_mint = f (cinv_deposit_mint a),
      cinv_vault_state = f (cinv_vault_state a), cinv_share_mint = f (cinv_share_mint a),
      cinv_vault_token_ata = f (cinv_vault_token_ata a),
      cinv_system_program = f (cinv_system_program a),
      cinv_token_program = f (cinv_token_program a), cinv_rent = f (cinv_rent a)\<rparr>"

lemma initialize_client_eta [simp]:
  "\<lparr>cinv_program_config = cinv_program_config a, cinv_signer = cinv_signer a,
      cinv_payer = cinv_payer a, cinv_deposit_mint = cinv_deposit_mint a,
      cinv_vault_state = cinv_vault_state a, cinv_share_mint = cinv_share_mint a,
      cinv_vault_token_ata = cinv_vault_token_ata a, cinv_system_program = cinv_system_program a,
      cinv_token_program = cinv_token_program a, cinv_rent = cinv_rent a\<rparr> = a"
  by (cases a) simp

section \<open>instructions/create_share_token_metadata.rs\<close>

definition CREATE_SHARE_TOKEN_METADATA_DISCRIMINATOR :: "u8 list" where
  "CREATE_SHARE_TOKEN_METADATA_DISCRIMINATOR = [54, 182, 66, 108, 197, 135, 53, 117]"

record 'k create_share_token_metadata_client =
  ccsm_payer :: "'k"
  ccsm_admin :: "'k"
  ccsm_vault_state :: "'k"
  ccsm_deposit_mint :: "'k"
  ccsm_share_mint :: "'k"
  ccsm_metadata_account :: "'k"
  ccsm_token_program :: "'k"
  ccsm_token_metadata_program :: "'k"
  ccsm_system_program :: "'k"
  ccsm_rent :: "'k"

definition create_share_token_metadata_data :: "string \<Rightarrow> string \<Rightarrow> string \<Rightarrow> u8 list client_result" where
  "create_share_token_metadata_data name symbol uri =
     bindR (expect (put_string name)) (\<lambda>name_bytes.
      bindR (expect (put_string symbol)) (\<lambda>symbol_bytes.
      bindR (expect (put_string uri)) (\<lambda>uri_bytes.
      Inr (CREATE_SHARE_TOKEN_METADATA_DISCRIMINATOR @ name_bytes @ symbol_bytes @ uri_bytes))))"

definition create_share_token_metadata_instruction ::
  "pubkey create_share_token_metadata_client \<Rightarrow> string \<Rightarrow> string \<Rightarrow> string \<Rightarrow> account_meta list \<Rightarrow> client_instruction client_result"
where
  "create_share_token_metadata_instruction a name symbol uri remaining_accounts =
     bindR (create_share_token_metadata_data name symbol uri) (\<lambda>data. Inr
     \<lparr>ix_program_id = AUGUST_VAULT_ID,
      ix_accounts =
        [meta_new (ccsm_payer a) True, meta_new_readonly (ccsm_admin a) True,
         meta_new_readonly (ccsm_vault_state a) False,
         meta_new_readonly (ccsm_deposit_mint a) False,
         meta_new_readonly (ccsm_share_mint a) False, meta_new (ccsm_metadata_account a) False,
         meta_new_readonly (ccsm_token_program a) False,
         meta_new_readonly (ccsm_token_metadata_program a) False,
         meta_new_readonly (ccsm_system_program a) False, meta_new_readonly (ccsm_rent a) False] @ remaining_accounts,
      ix_data = data\<rparr>)"

definition create_share_token_metadata_cpi ::
  "('i \<Rightarrow> pubkey) \<Rightarrow> 'i \<Rightarrow> 'i create_share_token_metadata_client \<Rightarrow> string \<Rightarrow> string \<Rightarrow> string \<Rightarrow> u8 list list list \<Rightarrow>
   ('i \<times> bool \<times> bool) list \<Rightarrow> 'i cpi_call client_result"
where
  "create_share_token_metadata_cpi key this_program a name symbol uri signers_seeds remaining_accounts =
     bindR (create_share_token_metadata_data name symbol uri) (\<lambda>data. Inr (cpi_invoke
     \<lparr>ix_program_id = AUGUST_VAULT_ID,
      ix_accounts =
        [meta_new (key (ccsm_payer a)) True, meta_new_readonly (key (ccsm_admin a)) True,
         meta_new_readonly (key (ccsm_vault_state a)) False,
         meta_new_readonly (key (ccsm_deposit_mint a)) False,
         meta_new_readonly (key (ccsm_share_mint a)) False,
         meta_new (key (ccsm_metadata_account a)) False,
         meta_new_readonly (key (ccsm_token_program a)) False,
         meta_new_readonly (key (ccsm_token_metadata_program a)) False,
         meta_new_readonly (key (ccsm_system_program a)) False,
         meta_new_readonly (key (ccsm_rent a)) False] @ map (cpi_meta key) remaining_accounts,
      ix_data = data\<rparr>
       ([this_program, ccsm_payer a, ccsm_admin a, ccsm_vault_state a, ccsm_deposit_mint a,
         ccsm_share_mint a, ccsm_metadata_account a, ccsm_token_program a,
         ccsm_token_metadata_program a, ccsm_system_program a, ccsm_rent a] @ map fst remaining_accounts) signers_seeds))"

definition create_share_token_metadata_build ::
  "(pubkey option create_share_token_metadata_client, string option \<times> string option \<times> string option, account_meta) builder \<Rightarrow>
   client_instruction client_result"
where
  "create_share_token_metadata_build b =
     (let s = b_accounts b in
      bindR (expect (ccsm_payer s)) (\<lambda>payer.
      bindR (expect (ccsm_admin s)) (\<lambda>admin.
      bindR (expect (ccsm_vault_state s)) (\<lambda>vault_state.
      bindR (expect (ccsm_deposit_mint s)) (\<lambda>deposit_mint.
      bindR (expect (ccsm_share_mint s)) (\<lambda>share_mint.
      bindR (expect (ccsm_metadata_account s)) (\<lambda>metadata_account.
      (case b_args b of (name, symbol, uri) \<Rightarrow>
      bindR (expect name) (\<lambda>name.
      bindR (expect symbol) (\<lambda>symbol.
      bindR (expect uri) (\<lambda>uri.
      create_share_token_metadata_instruction
        \<lparr>ccsm_payer = payer, ccsm_admin = admin, ccsm_vault_state = vault_state,
         ccsm_deposit_mint = deposit_mint, ccsm_share_mint = share_mint,
         ccsm_metadata_account = metadata_account,
         ccsm_token_program = unwrap_or (ccsm_token_program s) TOKEN_PROGRAM,
         ccsm_token_metadata_program = unwrap_or (ccsm_token_metadata_program s) TOKEN_METADATA_PROGRAM,
         ccsm_system_program = unwrap_or (ccsm_system_program s) SYSTEM_PROGRAM,
         ccsm_rent = unwrap_or (ccsm_rent s) SYSVAR_RENT\<rparr> name symbol uri (b_remaining b))))))))))))"

definition create_share_token_metadata_cpi_build ::
  "('i \<Rightarrow> pubkey) \<Rightarrow> 'i \<Rightarrow>
   ('i option create_share_token_metadata_client, string option \<times> string option \<times> string option, 'i \<times> bool \<times> bool) builder \<Rightarrow>
   u8 list list list \<Rightarrow> 'i cpi_call client_result"
where
  "create_share_token_metadata_cpi_build key this_program b signers_seeds =
     (let s = b_accounts b in
      (case b_args b of (name, symbol, uri) \<Rightarrow>
      bindR (expect name) (\<lambda>name.
      bindR (expect symbol) (\<lambda>symbol.
      bindR (expect uri) (\<lambda>uri.
      bindR (expect (ccsm_payer s)) (\<lambda>payer.
      bindR (expect (ccsm_admin s)) (\<lambda>admin.
      bindR (expect (ccsm_vault_state s)) (\<lambda>vault_state.
      bindR (expect (ccsm_deposit_mint s)) (\<lambda>deposit_mint.
      bindR (expect (ccsm_share_mint s)) (\<lambda>share_mint.
      bindR (expect (ccsm_metadata_account s)) (\<lambda>metadata_account.
      bindR (expect (ccsm_token_program s)) (\<lambda>token_program.
      bindR (expect (ccsm_token_metadata_program s)) (\<lambda>token_metadata_program.
      bindR (expect (ccsm_system_program s)) (\<lambda>system_program.
      bindR (expect (ccsm_rent s)) (\<lambda>rent.
      create_share_token_metadata_cpi key this_program
        \<lparr>ccsm_payer = payer, ccsm_admin = admin, ccsm_vault_state = vault_state,
         ccsm_deposit_mint = deposit_mint, ccsm_share_mint = share_mint,
         ccsm_metadata_account = metadata_account, ccsm_token_program = token_program,
         ccsm_token_metadata_program = token_metadata_program,
         ccsm_system_program = system_program, ccsm_rent = rent\<rparr> name symbol uri
        signers_seeds (b_remaining b))))))))))))))))"

definition create_share_token_metadata_map :: "('a \<Rightarrow> 'b) \<Rightarrow> 'a create_share_token_metadata_client \<Rightarrow> 'b create_share_token_metadata_client" where
  "create_share_token_metadata_map f a =
     \<lparr>ccsm_payer = f (ccsm_payer a), ccsm_admin = f (ccsm_admin a),
      ccsm_vault_state = f (ccsm_vault_state a), ccsm_deposit_mint = f (ccsm_deposit_mint a),
      ccsm_share_mint = f (ccsm_share_mint a), ccsm_metadata_account = f (ccsm_metadata_account a),
      ccsm_token_program = f (ccsm_token_program a),
      ccsm_token_metadata_program = f (ccsm_token_metadata_program a),
      ccsm_system_program = f (ccsm_system_program a), ccsm_rent = f (ccsm_rent a)\<rparr>"

lemma create_share_token_metadata_client_eta [simp]:
  "\<lparr>ccsm_payer = ccsm_payer a, ccsm_admin = ccsm_admin a, ccsm_vault_state = ccsm_vault_state a,
      ccsm_deposit_mint = ccsm_deposit_mint a, ccsm_share_mint = ccsm_share_mint a,
      ccsm_metadata_account = ccsm_metadata_account a, ccsm_token_program = ccsm_token_program a,
      ccsm_token_metadata_program = ccsm_token_metadata_program a,
      ccsm_system_program = ccsm_system_program a, ccsm_rent = ccsm_rent a\<rparr> = a"
  by (cases a) simp

section \<open>instructions/update_share_token_metadata.rs\<close>

definition UPDATE_SHARE_TOKEN_METADATA_DISCRIMINATOR :: "u8 list" where
  "UPDATE_SHARE_TOKEN_METADATA_DISCRIMINATOR = [33, 144, 157, 164, 161, 4, 219, 121]"

record 'k update_share_token_metadata_client =
  cusm_admin :: "'k"
  cusm_vault_state :: "'k"
  cusm_deposit_mint :: "'k"
  cusm_share_mint :: "'k"
  cusm_metadata_account :: "'k"
  cusm_token_program :: "'k"
  cusm_token_metadata_program :: "'k"

definition update_share_token_metadata_data :: "string \<Rightarrow> string \<Rightarrow> string \<Rightarrow> u8 list client_result" where
  "update_share_token_metadata_data name symbol uri =
     bindR (expect (put_string name)) (\<lambda>name_bytes.
      bindR (expect (put_string symbol)) (\<lambda>symbol_bytes.
      bindR (expect (put_string uri)) (\<lambda>uri_bytes.
      Inr (UPDATE_SHARE_TOKEN_METADATA_DISCRIMINATOR @ name_bytes @ symbol_bytes @ uri_bytes))))"

definition update_share_token_metadata_instruction ::
  "pubkey update_share_token_metadata_client \<Rightarrow> string \<Rightarrow> string \<Rightarrow> string \<Rightarrow> account_meta list \<Rightarrow> client_instruction client_result"
where
  "update_share_token_metadata_instruction a name symbol uri remaining_accounts =
     bindR (update_share_token_metadata_data name symbol uri) (\<lambda>data. Inr
     \<lparr>ix_program_id = AUGUST_VAULT_ID,
      ix_accounts =
        [meta_new_readonly (cusm_admin a) True, meta_new_readonly (cusm_vault_state a) False,
         meta_new_readonly (cusm_deposit_mint a) False,
         meta_new_readonly (cusm_share_mint a) False, meta_new (cusm_metadata_account a) False,
         meta_new_readonly (cusm_token_program a) False,
         meta_new_readonly (cusm_token_metadata_program a) False] @ remaining_accounts,
      ix_data = data\<rparr>)"

definition update_share_token_metadata_cpi ::
  "('i \<Rightarrow> pubkey) \<Rightarrow> 'i \<Rightarrow> 'i update_share_token_metadata_client \<Rightarrow> string \<Rightarrow> string \<Rightarrow> string \<Rightarrow> u8 list list list \<Rightarrow>
   ('i \<times> bool \<times> bool) list \<Rightarrow> 'i cpi_call client_result"
where
  "update_share_token_metadata_cpi key this_program a name symbol uri signers_seeds remaining_accounts =
     bindR (update_share_token_metadata_data name symbol uri) (\<lambda>data. Inr (cpi_invoke
     \<lparr>ix_program_id = AUGUST_VAULT_ID,
      ix_accounts =
        [meta_new_readonly (key (cusm_admin a)) True,
         meta_new_readonly (key (cusm_vault_state a)) False,
         meta_new_readonly (key (cusm_deposit_mint a)) False,
         meta_new_readonly (key (cusm_share_mint a)) False,
         meta_new (key (cusm_metadata_account a)) False,
         meta_new_readonly (key (cusm_token_program a)) False,
         meta_new_readonly (key (cusm_token_metadata_program a)) False] @ map (cpi_meta key) remaining_accounts,
      ix_data = data\<rparr>
       ([this_program, cusm_admin a, cusm_vault_state a, cusm_deposit_mint a, cusm_share_mint a,
         cusm_metadata_account a, cusm_token_program a, cusm_token_metadata_program a] @ map fst remaining_accounts) signers_seeds))"

definition update_share_token_metadata_build ::
  "(pubkey option update_share_token_metadata_client, string option \<times> string option \<times> string option, account_meta) builder \<Rightarrow>
   client_instruction client_result"
where
  "update_share_token_metadata_build b =
     (let s = b_accounts b in
      bindR (expect (cusm_admin s)) (\<lambda>admin.
      bindR (expect (cusm_vault_state s)) (\<lambda>vault_state.
      bindR (expect (cusm_deposit_mint s)) (\<lambda>deposit_mint.
      bindR (expect (cusm_share_mint s)) (\<lambda>share_mint.
      bindR (expect (cusm_metadata_account s)) (\<lambda>metadata_account.
      (case b_args b of (name, symbol, uri) \<Rightarrow>
      bindR (expect name) (\<lambda>name.
      bindR (expect symbol) (\<lambda>symbol.
      bindR (expect uri) (\<lambda>uri.
      update_share_token_metadata_instruction
        \<lparr>cusm_admin = admin, cusm_vault_state = vault_state, cusm_deposit_mint = deposit_mint,
         cusm_share_mint = share_mint, cusm_metadata_account = metadata_account,
         cusm_token_program = unwrap_or (cusm_token_program s) TOKEN_PROGRAM,
         cusm_token_metadata_program = unwrap_or (cusm_token_metadata_program s) TOKEN_METADATA_PROGRAM\<rparr> name symbol uri (b_remaining b)))))))))))"

definition update_share_token_metadata_cpi_build ::
  "('i \<Rightarrow> pubkey) \<Rightarrow> 'i \<Rightarrow>
   ('i option update_share_token_metadata_client, string option \<times> string option \<times> string option, 'i \<times> bool \<times> bool) builder \<Rightarrow>
   u8 list list list \<Rightarrow> 'i cpi_call client_result"
where
  "update_share_token_metadata_cpi_build key this_program b signers_seeds =
     (let s = b_accounts b in
      (case b_args b of (name, symbol, uri) \<Rightarrow>
      bindR (expect name) (\<lambda>name.
      bindR (expect symbol) (\<lambda>symbol.
      bindR (expect uri) (\<lambda>uri.
      bindR (expect (cusm_admin s)) (\<lambda>admin.
      bindR (expect (cusm_vault_state s)) (\<lambda>vault_state.
      bindR (expect (cusm_deposit_mint s)) (\<lambda>deposit_mint.
      bindR (expect (cusm_share_mint s)) (\<lambda>share_mint.
      bindR (expect (cusm_metadata_account s)) (\<lambda>metadata_account.
      bindR (expect (cusm_token_program s)) (\<lambda>token_program.
      bindR (expect (cusm_token_metadata_program s)) (\<lambda>token_metadata_program.
      update_share_token_metadata_cpi key this_program
        \<lparr>cusm_admin = admin, cusm_vault_state = vault_state, cusm_deposit_mint = deposit_mint,
         cusm_share_mint = share_mint, cusm_metadata_account = metadata_account,
         cusm_token_program = token_program, cusm_token_metadata_program = token_metadata_program\<rparr> name symbol uri
        signers_seeds (b_remaining b)))))))))))))"

definition update_share_token_metadata_map :: "('a \<Rightarrow> 'b) \<Rightarrow> 'a update_share_token_metadata_client \<Rightarrow> 'b update_share_token_metadata_client" where
  "update_share_token_metadata_map f a =
     \<lparr>cusm_admin = f (cusm_admin a), cusm_vault_state = f (cusm_vault_state a),
      cusm_deposit_mint = f (cusm_deposit_mint a), cusm_share_mint = f (cusm_share_mint a),
      cusm_metadata_account = f (cusm_metadata_account a),
      cusm_token_program = f (cusm_token_program a),
      cusm_token_metadata_program = f (cusm_token_metadata_program a)\<rparr>"

lemma update_share_token_metadata_client_eta [simp]:
  "\<lparr>cusm_admin = cusm_admin a, cusm_vault_state = cusm_vault_state a,
      cusm_deposit_mint = cusm_deposit_mint a, cusm_share_mint = cusm_share_mint a,
      cusm_metadata_account = cusm_metadata_account a, cusm_token_program = cusm_token_program a,
      cusm_token_metadata_program = cusm_token_metadata_program a\<rparr> = a"
  by (cases a) simp

end
