(* ===== verification/ClientQueue.thy ===== *)
theory ClientQueue
  imports ClientCore
begin

text \<open>
  \<open>clients/rust/august-withdrawal-queue\<close>: the queue client
  (\<open>src/generated/instructions\<close>). For each instruction its discriminator and argument bytes, and
  the four layers of \<open>ClientCore\<close>, field by field in the order of the file.
\<close>

section \<open>instructions/initialize_queue.rs\<close>

definition INITIALIZE_QUEUE_DISCRIMINATOR :: "u8 list" where
  "INITIALIZE_QUEUE_DISCRIMINATOR = [174, 102, 132, 232, 90, 202, 27, 20]"

record 'k initialize_queue_client =
  cinq_vault_state :: "'k"
  cinq_admin :: "'k"
  cinq_payer :: "'k"
  cinq_deposit_mint :: "'k"
  cinq_share_mint :: "'k"
  cinq_queue :: "'k"
  cinq_escrow_shares :: "'k"
  cinq_escrow_assets :: "'k"
  cinq_token_program :: "'k"
  cinq_associated_token_program :: "'k"
  cinq_system_program :: "'k"
  cinq_event_authority :: "'k"
  cinq_program :: "'k"

definition initialize_queue_data :: "u64 \<Rightarrow> u8 list" where
  "initialize_queue_data cooldown_seconds =
     INITIALIZE_QUEUE_DISCRIMINATOR @ le_bytes 8 cooldown_seconds"

definition initialize_queue_instruction ::
  "pubkey initialize_queue_client \<Rightarrow> u64 \<Rightarrow> account_meta list \<Rightarrow> client_instruction"
where
  "initialize_queue_instruction a cooldown_seconds remaining_accounts =
     \<lparr>ix_program_id = AUGUST_WITHDRAWAL_QUEUE_ID,
      ix_accounts =
        [meta_new_readonly (cinq_vault_state a) False, meta_new_readonly (cinq_admin a) True,
         meta_new (cinq_payer a) True, meta_new_readonly (cinq_deposit_mint a) False,
         meta_new_readonly (cinq_share_mint a) False, meta_new (cinq_queue a) False,
         meta_new (cinq_escrow_shares a) False, meta_new (cinq_escrow_assets a) False,
         meta_new_readonly (cinq_token_program a) False,
         meta_new_readonly (cinq_associated_token_program a) False,
         meta_new_readonly (cinq_system_program a) False,
         meta_new_readonly (cinq_event_authority a) False, meta_new_readonly (cinq_program a) False] @ remaining_accounts,
      ix_data = initialize_queue_data cooldown_seconds\<rparr>"

definition initialize_queue_cpi ::
  "('i \<Rightarrow> pubkey) \<Rightarrow> 'i \<Rightarrow> 'i initialize_queue_client \<Rightarrow> u64 \<Rightarrow> u8 list list list \<Rightarrow>
   ('i \<times> bool \<times> bool) list \<Rightarrow> 'i cpi_call"
where
  "initialize_queue_cpi key this_program a cooldown_seconds signers_seeds remaining_accounts =
     cpi_invoke
     \<lparr>ix_program_id = AUGUST_WITHDRAWAL_QUEUE_ID,
      ix_accounts =
        [meta_new_readonly (key (cinq_vault_state a)) False,
         meta_new_readonly (key (cinq_admin a)) True, meta_new (key (cinq_payer a)) True,
         meta_new_readonly (key (cinq_deposit_mint a)) False,
         meta_new_readonly (key (cinq_share_mint a)) False, meta_new (key (cinq_queue a)) False,
         meta_new (key (cinq_escrow_shares a)) False, meta_new (key (cinq_escrow_assets a)) False,
         meta_new_readonly (key (cinq_token_program a)) False,
         meta_new_readonly (key (cinq_associated_token_program a)) False,
         meta_new_readonly (key (cinq_system_program a)) False,
         meta_new_readonly (key (cinq_event_authority a)) False,
         meta_new_readonly (key (cinq_program a)) False] @ map (cpi_meta key) remaining_accounts,
      ix_data = initialize_queue_data cooldown_seconds\<rparr>
       ([this_program, cinq_vault_state a, cinq_admin a, cinq_payer a, cinq_deposit_mint a,
         cinq_share_mint a, cinq_queue a, cinq_escrow_shares a, cinq_escrow_assets a,
         cinq_token_program a, cinq_associated_token_program a, cinq_system_program a,
         cinq_event_authority a, cinq_program a] @ map fst remaining_accounts) signers_seeds"

definition initialize_queue_build ::
  "(pubkey option initialize_queue_client, u64 option, account_meta) builder \<Rightarrow>
   client_instruction client_result"
where
  "initialize_queue_build b =
     (let s = b_accounts b in
      bindR (expect (cinq_vault_state s)) (\<lambda>vault_state.
      bindR (expect (cinq_admin s)) (\<lambda>admin.
      bindR (expect (cinq_payer s)) (\<lambda>payer.
      bindR (expect (cinq_deposit_mint s)) (\<lambda>deposit_mint.
      bindR (expect (cinq_share_mint s)) (\<lambda>share_mint.
      bindR (expect (cinq_queue s)) (\<lambda>queue.
      bindR (expect (cinq_escrow_shares s)) (\<lambda>escrow_shares.
      bindR (expect (cinq_escrow_assets s)) (\<lambda>escrow_assets.
      bindR (expect (cinq_event_authority s)) (\<lambda>event_authority.
      bindR (expect (cinq_program s)) (\<lambda>program.
      bindR (expect (b_args b)) (\<lambda>cooldown_seconds.
      Inr (initialize_queue_instruction
        \<lparr>cinq_vault_state = vault_state, cinq_admin = admin, cinq_payer = payer,
         cinq_deposit_mint = deposit_mint, cinq_share_mint = share_mint, cinq_queue = queue,
         cinq_escrow_shares = escrow_shares, cinq_escrow_assets = escrow_assets,
         cinq_token_program = unwrap_or (cinq_token_program s) TOKEN_PROGRAM,
         cinq_associated_token_program = unwrap_or (cinq_associated_token_program s) ASSOCIATED_TOKEN_PROGRAM,
         cinq_system_program = unwrap_or (cinq_system_program s) SYSTEM_PROGRAM,
         cinq_event_authority = event_authority, cinq_program = program\<rparr> cooldown_seconds (b_remaining b))))))))))))))"

definition initialize_queue_cpi_build ::
  "('i \<Rightarrow> pubkey) \<Rightarrow> 'i \<Rightarrow>
   ('i option initialize_queue_client, u64 option, 'i \<times> bool \<times> bool) builder \<Rightarrow>
   u8 list list list \<Rightarrow> 'i cpi_call client_result"
where
  "initialize_queue_cpi_build key this_program b signers_seeds =
     (let s = b_accounts b in
      bindR (expect (b_args b)) (\<lambda>cooldown_seconds.
      bindR (expect (cinq_vault_state s)) (\<lambda>vault_state.
      bindR (expect (cinq_admin s)) (\<lambda>admin.
      bindR (expect (cinq_payer s)) (\<lambda>payer.
      bindR (expect (cinq_deposit_mint s)) (\<lambda>deposit_mint.
      bindR (expect (cinq_share_mint s)) (\<lambda>share_mint.
      bindR (expect (cinq_queue s)) (\<lambda>queue.
      bindR (expect (cinq_escrow_shares s)) (\<lambda>escrow_shares.
      bindR (expect (cinq_escrow_assets s)) (\<lambda>escrow_assets.
      bindR (expect (cinq_token_program s)) (\<lambda>token_program.
      bindR (expect (cinq_associated_token_program s)) (\<lambda>associated_token_program.
      bindR (expect (cinq_system_program s)) (\<lambda>system_program.
      bindR (expect (cinq_event_authority s)) (\<lambda>event_authority.
      bindR (expect (cinq_program s)) (\<lambda>program.
      Inr (initialize_queue_cpi key this_program
        \<lparr>cinq_vault_state = vault_state, cinq_admin = admin, cinq_payer = payer,
         cinq_deposit_mint = deposit_mint, cinq_share_mint = share_mint, cinq_queue = queue,
         cinq_escrow_shares = escrow_shares, cinq_escrow_assets = escrow_assets,
         cinq_token_program = token_program,
         cinq_associated_token_program = associated_token_program,
         cinq_system_program = system_program, cinq_event_authority = event_authority,
         cinq_program = program\<rparr> cooldown_seconds
        signers_seeds (b_remaining b)))))))))))))))))"

definition initialize_queue_map :: "('a \<Rightarrow> 'b) \<Rightarrow> 'a initialize_queue_client \<Rightarrow> 'b initialize_queue_client" where
  "initialize_queue_map f a =
     \<lparr>cinq_vault_state = f (cinq_vault_state a), cinq_admin = f (cinq_admin a),
      cinq_payer = f (cinq_payer a), cinq_deposit_mint = f (cinq_deposit_mint a),
      cinq_share_mint = f (cinq_share_mint a), cinq_queue = f (cinq_queue a),
      cinq_escrow_shares = f (cinq_escrow_shares a), cinq_escrow_assets = f (cinq_escrow_assets a),
      cinq_token_program = f (cinq_token_program a),
      cinq_associated_token_program = f (cinq_associated_token_program a),
      cinq_system_program = f (cinq_system_program a),
      cinq_event_authority = f (cinq_event_authority a), cinq_program = f (cinq_program a)\<rparr>"

lemma initialize_queue_client_eta [simp]:
  "\<lparr>cinq_vault_state = cinq_vault_state a, cinq_admin = cinq_admin a, cinq_payer = cinq_payer a,
      cinq_deposit_mint = cinq_deposit_mint a, cinq_share_mint = cinq_share_mint a,
      cinq_queue = cinq_queue a, cinq_escrow_shares = cinq_escrow_shares a,
      cinq_escrow_assets = cinq_escrow_assets a, cinq_token_program = cinq_token_program a,
      cinq_associated_token_program = cinq_associated_token_program a,
      cinq_system_program = cinq_system_program a, cinq_event_authority = cinq_event_authority a,
      cinq_program = cinq_program a\<rparr> = a"
  by (cases a) simp

section \<open>instructions/set_cooldown.rs\<close>

definition SET_COOLDOWN_DISCRIMINATOR :: "u8 list" where
  "SET_COOLDOWN_DISCRIMINATOR = [57, 78, 91, 178, 112, 152, 211, 87]"

record 'k set_cooldown_client =
  cscd_queue :: "'k"
  cscd_vault_state :: "'k"
  cscd_admin :: "'k"
  cscd_event_authority :: "'k"
  cscd_program :: "'k"

definition set_cooldown_data :: "u64 \<Rightarrow> u8 list" where
  "set_cooldown_data seconds =
     SET_COOLDOWN_DISCRIMINATOR @ le_bytes 8 seconds"

definition set_cooldown_instruction ::
  "pubkey set_cooldown_client \<Rightarrow> u64 \<Rightarrow> account_meta list \<Rightarrow> client_instruction"
where
  "set_cooldown_instruction a seconds remaining_accounts =
     \<lparr>ix_program_id = AUGUST_WITHDRAWAL_QUEUE_ID,
      ix_accounts =
        [meta_new (cscd_queue a) False, meta_new_readonly (cscd_vault_state a) False,
         meta_new_readonly (cscd_admin a) True, meta_new_readonly (cscd_event_authority a) False,
         meta_new_readonly (cscd_program a) False] @ remaining_accounts,
      ix_data = set_cooldown_data seconds\<rparr>"

definition set_cooldown_cpi ::
  "('i \<Rightarrow> pubkey) \<Rightarrow> 'i \<Rightarrow> 'i set_cooldown_client \<Rightarrow> u64 \<Rightarrow> u8 list list list \<Rightarrow>
   ('i \<times> bool \<times> bool) list \<Rightarrow> 'i cpi_call"
where
  "set_cooldown_cpi key this_program a seconds signers_seeds remaining_accounts =
     cpi_invoke
     \<lparr>ix_program_id = AUGUST_WITHDRAWAL_QUEUE_ID,
      ix_accounts =
        [meta_new (key (cscd_queue a)) False, meta_new_readonly (key (cscd_vault_state a)) False,
         meta_new_readonly (key (cscd_admin a)) True,
         meta_new_readonly (key (cscd_event_authority a)) False,
         meta_new_readonly (key (cscd_program a)) False] @ map (cpi_meta key) remaining_accounts,
      ix_data = set_cooldown_data seconds\<rparr>
       ([this_program, cscd_queue a, cscd_vault_state a, cscd_admin a, cscd_event_authority a,
         cscd_program a] @ map fst remaining_accounts) signers_seeds"

definition set_cooldown_build ::
  "(pubkey option set_cooldown_client, u64 option, account_meta) builder \<Rightarrow>
   client_instruction client_result"
where
  "set_cooldown_build b =
     (let s = b_accounts b in
      bindR (expect (cscd_queue s)) (\<lambda>queue.
      bindR (expect (cscd_vault_state s)) (\<lambda>vault_state.
      bindR (expect (cscd_admin s)) (\<lambda>admin.
      bindR (expect (cscd_event_authority s)) (\<lambda>event_authority.
      bindR (expect (cscd_program s)) (\<lambda>program.
      bindR (expect (b_args b)) (\<lambda>seconds.
      Inr (set_cooldown_instruction
        \<lparr>cscd_queue = queue, cscd_vault_state = vault_state, cscd_admin = admin,
         cscd_event_authority = event_authority, cscd_program = program\<rparr> seconds (b_remaining b)))))))))"

definition set_cooldown_cpi_build ::
  "('i \<Rightarrow> pubkey) \<Rightarrow> 'i \<Rightarrow>
   ('i option set_cooldown_client, u64 option, 'i \<times> bool \<times> bool) builder \<Rightarrow>
   u8 list list list \<Rightarrow> 'i cpi_call client_result"
where
  "set_cooldown_cpi_build key this_program b signers_seeds =
     (let s = b_accounts b in
      bindR (expect (b_args b)) (\<lambda>seconds.
      bindR (expect (cscd_queue s)) (\<lambda>queue.
      bindR (expect (cscd_vault_state s)) (\<lambda>vault_state.
      bindR (expect (cscd_admin s)) (\<lambda>admin.
      bindR (expect (cscd_event_authority s)) (\<lambda>event_authority.
      bindR (expect (cscd_program s)) (\<lambda>program.
      Inr (set_cooldown_cpi key this_program
        \<lparr>cscd_queue = queue, cscd_vault_state = vault_state, cscd_admin = admin,
         cscd_event_authority = event_authority, cscd_program = program\<rparr> seconds
        signers_seeds (b_remaining b)))))))))"

definition set_cooldown_map :: "('a \<Rightarrow> 'b) \<Rightarrow> 'a set_cooldown_client \<Rightarrow> 'b set_cooldown_client" where
  "set_cooldown_map f a =
     \<lparr>cscd_queue = f (cscd_queue a), cscd_vault_state = f (cscd_vault_state a),
      cscd_admin = f (cscd_admin a), cscd_event_authority = f (cscd_event_authority a),
      cscd_program = f (cscd_program a)\<rparr>"

lemma set_cooldown_client_eta [simp]:
  "\<lparr>cscd_queue = cscd_queue a, cscd_vault_state = cscd_vault_state a, cscd_admin = cscd_admin a,
      cscd_event_authority = cscd_event_authority a, cscd_program = cscd_program a\<rparr> = a"
  by (cases a) simp

section \<open>instructions/set_fulfillment_window.rs\<close>

definition SET_FULFILLMENT_WINDOW_DISCRIMINATOR :: "u8 list" where
  "SET_FULFILLMENT_WINDOW_DISCRIMINATOR = [107, 18, 240, 153, 114, 108, 105, 120]"

record 'k set_fulfillment_window_client =
  csfw_queue :: "'k"
  csfw_vault_state :: "'k"
  csfw_admin :: "'k"
  csfw_event_authority :: "'k"
  csfw_program :: "'k"

definition set_fulfillment_window_data :: "u64 \<Rightarrow> u8 list" where
  "set_fulfillment_window_data seconds =
     SET_FULFILLMENT_WINDOW_DISCRIMINATOR @ le_bytes 8 seconds"

definition set_fulfillment_window_instruction ::
  "pubkey set_fulfillment_window_client \<Rightarrow> u64 \<Rightarrow> account_meta list \<Rightarrow> client_instruction"
where
  "set_fulfillment_window_instruction a seconds remaining_accounts =
     \<lparr>ix_program_id = AUGUST_WITHDRAWAL_QUEUE_ID,
      ix_accounts =
        [meta_new (csfw_queue a) False, meta_new_readonly (csfw_vault_state a) False,
         meta_new_readonly (csfw_admin a) True, meta_new_readonly (csfw_event_authority a) False,
         meta_new_readonly (csfw_program a) False] @ remaining_accounts,
      ix_data = set_fulfillment_window_data seconds\<rparr>"

definition set_fulfillment_window_cpi ::
  "('i \<Rightarrow> pubkey) \<Rightarrow> 'i \<Rightarrow> 'i set_fulfillment_window_client \<Rightarrow> u64 \<Rightarrow> u8 list list list \<Rightarrow>
   ('i \<times> bool \<times> bool) list \<Rightarrow> 'i cpi_call"
where
  "set_fulfillment_window_cpi key this_program a seconds signers_seeds remaining_accounts =
     cpi_invoke
     \<lparr>ix_program_id = AUGUST_WITHDRAWAL_QUEUE_ID,
      ix_accounts =
        [meta_new (key (csfw_queue a)) False, meta_new_readonly (key (csfw_vault_state a)) False,
         meta_new_readonly (key (csfw_admin a)) True,
         meta_new_readonly (key (csfw_event_authority a)) False,
         meta_new_readonly (key (csfw_program a)) False] @ map (cpi_meta key) remaining_accounts,
      ix_data = set_fulfillment_window_data seconds\<rparr>
       ([this_program, csfw_queue a, csfw_vault_state a, csfw_admin a, csfw_event_authority a,
         csfw_program a] @ map fst remaining_accounts) signers_seeds"

definition set_fulfillment_window_build ::
  "(pubkey option set_fulfillment_window_client, u64 option, account_meta) builder \<Rightarrow>
   client_instruction client_result"
where
  "set_fulfillment_window_build b =
     (let s = b_accounts b in
      bindR (expect (csfw_queue s)) (\<lambda>queue.
      bindR (expect (csfw_vault_state s)) (\<lambda>vault_state.
      bindR (expect (csfw_admin s)) (\<lambda>admin.
      bindR (expect (csfw_event_authority s)) (\<lambda>event_authority.
      bindR (expect (csfw_program s)) (\<lambda>program.
      bindR (expect (b_args b)) (\<lambda>seconds.
      Inr (set_fulfillment_window_instruction
        \<lparr>csfw_queue = queue, csfw_vault_state = vault_state, csfw_admin = admin,
         csfw_event_authority = event_authority, csfw_program = program\<rparr> seconds (b_remaining b)))))))))"

definition set_fulfillment_window_cpi_build ::
  "('i \<Rightarrow> pubkey) \<Rightarrow> 'i \<Rightarrow>
   ('i option set_fulfillment_window_client, u64 option, 'i \<times> bool \<times> bool) builder \<Rightarrow>
   u8 list list list \<Rightarrow> 'i cpi_call client_result"
where
  "set_fulfillment_window_cpi_build key this_program b signers_seeds =
     (let s = b_accounts b in
      bindR (expect (b_args b)) (\<lambda>seconds.
      bindR (expect (csfw_queue s)) (\<lambda>queue.
      bindR (expect (csfw_vault_state s)) (\<lambda>vault_state.
      bindR (expect (csfw_admin s)) (\<lambda>admin.
      bindR (expect (csfw_event_authority s)) (\<lambda>event_authority.
      bindR (expect (csfw_program s)) (\<lambda>program.
      Inr (set_fulfillment_window_cpi key this_program
        \<lparr>csfw_queue = queue, csfw_vault_state = vault_state, csfw_admin = admin,
         csfw_event_authority = event_authority, csfw_program = program\<rparr> seconds
        signers_seeds (b_remaining b)))))))))"

definition set_fulfillment_window_map :: "('a \<Rightarrow> 'b) \<Rightarrow> 'a set_fulfillment_window_client \<Rightarrow> 'b set_fulfillment_window_client" where
  "set_fulfillment_window_map f a =
     \<lparr>csfw_queue = f (csfw_queue a), csfw_vault_state = f (csfw_vault_state a),
      csfw_admin = f (csfw_admin a), csfw_event_authority = f (csfw_event_authority a),
      csfw_program = f (csfw_program a)\<rparr>"

lemma set_fulfillment_window_client_eta [simp]:
  "\<lparr>csfw_queue = csfw_queue a, csfw_vault_state = csfw_vault_state a, csfw_admin = csfw_admin a,
      csfw_event_authority = csfw_event_authority a, csfw_program = csfw_program a\<rparr> = a"
  by (cases a) simp

section \<open>instructions/request_withdrawal.rs\<close>

definition REQUEST_WITHDRAWAL_DISCRIMINATOR :: "u8 list" where
  "REQUEST_WITHDRAWAL_DISCRIMINATOR = [251, 85, 121, 205, 56, 201, 12, 177]"

record 'k request_withdrawal_client =
  crqw_queue :: "'k"
  crqw_vault_state :: "'k"
  crqw_owner :: "'k"
  crqw_owner_share_account :: "'k"
  crqw_escrow_shares :: "'k"
  crqw_share_mint :: "'k"
  crqw_recipient_token_account :: "'k"
  crqw_request :: "'k"
  crqw_token_program :: "'k"
  crqw_system_program :: "'k"
  crqw_event_authority :: "'k"
  crqw_program :: "'k"

definition request_withdrawal_data :: "u64 \<Rightarrow> u64 \<Rightarrow> u64 \<Rightarrow> pubkey \<Rightarrow> u8 list" where
  "request_withdrawal_data request_id shares min_assets_out finalizer =
     REQUEST_WITHDRAWAL_DISCRIMINATOR @ le_bytes 8 request_id @ le_bytes 8 shares @
     le_bytes 8 min_assets_out @ put_key finalizer"

definition request_withdrawal_instruction ::
  "pubkey request_withdrawal_client \<Rightarrow> u64 \<Rightarrow> u64 \<Rightarrow> u64 \<Rightarrow> pubkey \<Rightarrow> account_meta list \<Rightarrow> client_instruction"
where
  "request_withdrawal_instruction a request_id shares min_assets_out finalizer remaining_accounts =
     \<lparr>ix_program_id = AUGUST_WITHDRAWAL_QUEUE_ID,
      ix_accounts =
        [meta_new (crqw_queue a) False, meta_new_readonly (crqw_vault_state a) False,
         meta_new (crqw_owner a) True, meta_new (crqw_owner_share_account a) False,
         meta_new (crqw_escrow_shares a) False, meta_new_readonly (crqw_share_mint a) False,
         meta_new_readonly (crqw_recipient_token_account a) False, meta_new (crqw_request a) False,
         meta_new_readonly (crqw_token_program a) False,
         meta_new_readonly (crqw_system_program a) False,
         meta_new_readonly (crqw_event_authority a) False, meta_new_readonly (crqw_program a) False] @ remaining_accounts,
      ix_data = request_withdrawal_data request_id shares min_assets_out finalizer\<rparr>"

definition request_withdrawal_cpi ::
  "('i \<Rightarrow> pubkey) \<Rightarrow> 'i \<Rightarrow> 'i request_withdrawal_client \<Rightarrow> u64 \<Rightarrow> u64 \<Rightarrow> u64 \<Rightarrow> pubkey \<Rightarrow> u8 list list list \<Rightarrow>
   ('i \<times> bool \<times> bool) list \<Rightarrow> 'i cpi_call"
where
  "request_withdrawal_cpi key this_program a request_id shares min_assets_out finalizer signers_seeds remaining_accounts =
     cpi_invoke
     \<lparr>ix_program_id = AUGUST_WITHDRAWAL_QUEUE_ID,
      ix_accounts =
        [meta_new (key (crqw_queue a)) False, meta_new_readonly (key (crqw_vault_state a)) False,
         meta_new (key (crqw_owner a)) True, meta_new (key (crqw_owner_share_account a)) False,
         meta_new (key (crqw_escrow_shares a)) False,
         meta_new_readonly (key (crqw_share_mint a)) False,
         meta_new_readonly (key (crqw_recipient_token_account a)) False,
         meta_new (key (crqw_request a)) False,
         meta_new_readonly (key (crqw_token_program a)) False,
         meta_new_readonly (key (crqw_system_program a)) False,
         meta_new_readonly (key (crqw_event_authority a)) False,
         meta_new_readonly (key (crqw_program a)) False] @ map (cpi_meta key) remaining_accounts,
      ix_data = request_withdrawal_data request_id shares min_assets_out finalizer\<rparr>
       ([this_program, crqw_queue a, crqw_vault_state a, crqw_owner a, crqw_owner_share_account a,
         crqw_escrow_shares a, crqw_share_mint a, crqw_recipient_token_account a, crqw_request a,
         crqw_token_program a, crqw_system_program a, crqw_event_authority a, crqw_program a] @ map fst remaining_accounts) signers_seeds"

definition request_withdrawal_build ::
  "(pubkey option request_withdrawal_client, u64 option \<times> u64 option \<times> u64 option \<times> pubkey option, account_meta) builder \<Rightarrow>
   client_instruction client_result"
where
  "request_withdrawal_build b =
     (let s = b_accounts b in
      bindR (expect (crqw_queue s)) (\<lambda>queue.
      bindR (expect (crqw_vault_state s)) (\<lambda>vault_state.
      bindR (expect (crqw_owner s)) (\<lambda>owner.
      bindR (expect (crqw_owner_share_account s)) (\<lambda>owner_share_account.
      bindR (expect (crqw_escrow_shares s)) (\<lambda>escrow_shares.
      bindR (expect (crqw_share_mint s)) (\<lambda>share_mint.
      bindR (expect (crqw_recipient_token_account s)) (\<lambda>recipient_token_account.
      bindR (expect (crqw_request s)) (\<lambda>request.
      bindR (expect (crqw_event_authority s)) (\<lambda>event_authority.
      bindR (expect (crqw_program s)) (\<lambda>program.
      (case b_args b of (request_id, shares, min_assets_out, finalizer) \<Rightarrow>
      bindR (expect request_id) (\<lambda>request_id.
      bindR (expect shares) (\<lambda>shares.
      bindR (expect min_assets_out) (\<lambda>min_assets_out.
      bindR (expect finalizer) (\<lambda>finalizer.
      Inr (request_withdrawal_instruction
        \<lparr>crqw_queue = queue, crqw_vault_state = vault_state, crqw_owner = owner,
         crqw_owner_share_account = owner_share_account, crqw_escrow_shares = escrow_shares,
         crqw_share_mint = share_mint, crqw_recipient_token_account = recipient_token_account,
         crqw_request = request,
         crqw_token_program = unwrap_or (crqw_token_program s) TOKEN_PROGRAM,
         crqw_system_program = unwrap_or (crqw_system_program s) SYSTEM_PROGRAM,
         crqw_event_authority = event_authority, crqw_program = program\<rparr> request_id shares min_assets_out finalizer (b_remaining b))))))))))))))))))"

definition request_withdrawal_cpi_build ::
  "('i \<Rightarrow> pubkey) \<Rightarrow> 'i \<Rightarrow>
   ('i option request_withdrawal_client, u64 option \<times> u64 option \<times> u64 option \<times> pubkey option, 'i \<times> bool \<times> bool) builder \<Rightarrow>
   u8 list list list \<Rightarrow> 'i cpi_call client_result"
where
  "request_withdrawal_cpi_build key this_program b signers_seeds =
     (let s = b_accounts b in
      (case b_args b of (request_id, shares, min_assets_out, finalizer) \<Rightarrow>
      bindR (expect request_id) (\<lambda>request_id.
      bindR (expect shares) (\<lambda>shares.
      bindR (expect min_assets_out) (\<lambda>min_assets_out.
      bindR (expect finalizer) (\<lambda>finalizer.
      bindR (expect (crqw_queue s)) (\<lambda>queue.
      bindR (expect (crqw_vault_state s)) (\<lambda>vault_state.
      bindR (expect (crqw_owner s)) (\<lambda>owner.
      bindR (expect (crqw_owner_share_account s)) (\<lambda>owner_share_account.
      bindR (expect (crqw_escrow_shares s)) (\<lambda>escrow_shares.
      bindR (expect (crqw_share_mint s)) (\<lambda>share_mint.
      bindR (expect (crqw_recipient_token_account s)) (\<lambda>recipient_token_account.
      bindR (expect (crqw_request s)) (\<lambda>request.
      bindR (expect (crqw_token_program s)) (\<lambda>token_program.
      bindR (expect (crqw_system_program s)) (\<lambda>system_program.
      bindR (expect (crqw_event_authority s)) (\<lambda>event_authority.
      bindR (expect (crqw_program s)) (\<lambda>program.
      Inr (request_withdrawal_cpi key this_program
        \<lparr>crqw_queue = queue, crqw_vault_state = vault_state, crqw_owner = owner,
         crqw_owner_share_account = owner_share_account, crqw_escrow_shares = escrow_shares,
         crqw_share_mint = share_mint, crqw_recipient_token_account = recipient_token_account,
         crqw_request = request, crqw_token_program = token_program,
         crqw_system_program = system_program, crqw_event_authority = event_authority,
         crqw_program = program\<rparr> request_id shares min_assets_out finalizer
        signers_seeds (b_remaining b))))))))))))))))))))"

definition request_withdrawal_map :: "('a \<Rightarrow> 'b) \<Rightarrow> 'a request_withdrawal_client \<Rightarrow> 'b request_withdrawal_client" where
  "request_withdrawal_map f a =
     \<lparr>crqw_queue = f (crqw_queue a), crqw_vault_state = f (crqw_vault_state a),
      crqw_owner = f (crqw_owner a), crqw_owner_share_account = f (crqw_owner_share_account a),
      crqw_escrow_shares = f (crqw_escrow_shares a), crqw_share_mint = f (crqw_share_mint a),
      crqw_recipient_token_account = f (crqw_recipient_token_account a),
      crqw_request = f (crqw_request a), crqw_token_program = f (crqw_token_program a),
      crqw_system_program = f (crqw_system_program a),
      crqw_event_authority = f (crqw_event_authority a), crqw_program = f (crqw_program a)\<rparr>"

lemma request_withdrawal_client_eta [simp]:
  "\<lparr>crqw_queue = crqw_queue a, crqw_vault_state = crqw_vault_state a, crqw_owner = crqw_owner a,
      crqw_owner_share_account = crqw_owner_share_account a,
      crqw_escrow_shares = crqw_escrow_shares a, crqw_share_mint = crqw_share_mint a,
      crqw_recipient_token_account = crqw_recipient_token_account a, crqw_request = crqw_request a,
      crqw_token_program = crqw_token_program a, crqw_system_program = crqw_system_program a,
      crqw_event_authority = crqw_event_authority a, crqw_program = crqw_program a\<rparr> = a"
  by (cases a) simp

section \<open>instructions/finalize_withdrawal.rs\<close>

definition FINALIZE_WITHDRAWAL_DISCRIMINATOR :: "u8 list" where
  "FINALIZE_WITHDRAWAL_DISCRIMINATOR = [178, 87, 206, 68, 201, 186, 164, 232]"

record 'k finalize_withdrawal_client =
  cfnw_queue :: "'k"
  cfnw_vault_state :: "'k"
  cfnw_vault_deposit_ata :: "'k"
  cfnw_fee_recipient_account :: "'k"
  cfnw_escrow_shares :: "'k"
  cfnw_escrow_assets :: "'k"
  cfnw_share_mint :: "'k"
  cfnw_deposit_mint :: "'k"
  cfnw_finalizer :: "'k"
  cfnw_request :: "'k"
  cfnw_owner :: "'k"
  cfnw_recipient_token_account :: "'k"
  cfnw_vault_program :: "'k"
  cfnw_token_program :: "'k"
  cfnw_event_authority :: "'k"
  cfnw_program :: "'k"

definition finalize_withdrawal_data :: "u64 \<Rightarrow> u8 list" where
  "finalize_withdrawal_data expected_sequence =
     FINALIZE_WITHDRAWAL_DISCRIMINATOR @ le_bytes 8 expected_sequence"

definition finalize_withdrawal_instruction ::
  "pubkey finalize_withdrawal_client \<Rightarrow> u64 \<Rightarrow> account_meta list \<Rightarrow> client_instruction"
where
  "finalize_withdrawal_instruction a expected_sequence remaining_accounts =
     \<lparr>ix_program_id = AUGUST_WITHDRAWAL_QUEUE_ID,
      ix_accounts =
        [meta_new (cfnw_queue a) False, meta_new (cfnw_vault_state a) False,
         meta_new (cfnw_vault_deposit_ata a) False, meta_new (cfnw_fee_recipient_account a) False,
         meta_new (cfnw_escrow_shares a) False, meta_new (cfnw_escrow_assets a) False,
         meta_new (cfnw_share_mint a) False, meta_new_readonly (cfnw_deposit_mint a) False,
         meta_new_readonly (cfnw_finalizer a) True, meta_new (cfnw_request a) False,
         meta_new (cfnw_owner a) False, meta_new (cfnw_recipient_token_account a) False,
         meta_new_readonly (cfnw_vault_program a) False,
         meta_new_readonly (cfnw_token_program a) False,
         meta_new_readonly (cfnw_event_authority a) False, meta_new_readonly (cfnw_program a) False] @ remaining_accounts,
      ix_data = finalize_withdrawal_data expected_sequence\<rparr>"

definition finalize_withdrawal_cpi ::
  "('i \<Rightarrow> pubkey) \<Rightarrow> 'i \<Rightarrow> 'i finalize_withdrawal_client \<Rightarrow> u64 \<Rightarrow> u8 list list list \<Rightarrow>
   ('i \<times> bool \<times> bool) list \<Rightarrow> 'i cpi_call"
where
  "finalize_withdrawal_cpi key this_program a expected_sequence signers_seeds remaining_accounts =
     cpi_invoke
     \<lparr>ix_program_id = AUGUST_WITHDRAWAL_QUEUE_ID,
      ix_accounts =
        [meta_new (key (cfnw_queue a)) False, meta_new (key (cfnw_vault_state a)) False,
         meta_new (key (cfnw_vault_deposit_ata a)) False,
         meta_new (key (cfnw_fee_recipient_account a)) False,
         meta_new (key (cfnw_escrow_shares a)) False, meta_new (key (cfnw_escrow_assets a)) False,
         meta_new (key (cfnw_share_mint a)) False,
         meta_new_readonly (key (cfnw_deposit_mint a)) False,
         meta_new_readonly (key (cfnw_finalizer a)) True, meta_new (key (cfnw_request a)) False,
         meta_new (key (cfnw_owner a)) False,
         meta_new (key (cfnw_recipient_token_account a)) False,
         meta_new_readonly (key (cfnw_vault_program a)) False,
         meta_new_readonly (key (cfnw_token_program a)) False,
         meta_new_readonly (key (cfnw_event_authority a)) False,
         meta_new_readonly (key (cfnw_program a)) False] @ map (cpi_meta key) remaining_accounts,
      ix_data = finalize_withdrawal_data expected_sequence\<rparr>
       ([this_program, cfnw_queue a, cfnw_vault_state a, cfnw_vault_deposit_ata a,
         cfnw_fee_recipient_account a, cfnw_escrow_shares a, cfnw_escrow_assets a,
         cfnw_share_mint a, cfnw_deposit_mint a, cfnw_finalizer a, cfnw_request a, cfnw_owner a,
         cfnw_recipient_token_account a, cfnw_vault_program a, cfnw_token_program a,
         cfnw_event_authority a, cfnw_program a] @ map fst remaining_accounts) signers_seeds"

definition finalize_withdrawal_build ::
  "(pubkey option finalize_withdrawal_client, u64 option, account_meta) builder \<Rightarrow>
   client_instruction client_result"
where
  "finalize_withdrawal_build b =
     (let s = b_accounts b in
      bindR (expect (cfnw_queue s)) (\<lambda>queue.
      bindR (expect (cfnw_vault_state s)) (\<lambda>vault_state.
      bindR (expect (cfnw_vault_deposit_ata s)) (\<lambda>vault_deposit_ata.
      bindR (expect (cfnw_fee_recipient_account s)) (\<lambda>fee_recipient_account.
      bindR (expect (cfnw_escrow_shares s)) (\<lambda>escrow_shares.
      bindR (expect (cfnw_escrow_assets s)) (\<lambda>escrow_assets.
      bindR (expect (cfnw_share_mint s)) (\<lambda>share_mint.
      bindR (expect (cfnw_deposit_mint s)) (\<lambda>deposit_mint.
      bindR (expect (cfnw_finalizer s)) (\<lambda>finalizer.
      bindR (expect (cfnw_request s)) (\<lambda>request.
      bindR (expect (cfnw_owner s)) (\<lambda>owner.
      bindR (expect (cfnw_recipient_token_account s)) (\<lambda>recipient_token_account.
      bindR (expect (cfnw_event_authority s)) (\<lambda>event_authority.
      bindR (expect (cfnw_program s)) (\<lambda>program.
      bindR (expect (b_args b)) (\<lambda>expected_sequence.
      Inr (finalize_withdrawal_instruction
        \<lparr>cfnw_queue = queue, cfnw_vault_state = vault_state,
         cfnw_vault_deposit_ata = vault_deposit_ata,
         cfnw_fee_recipient_account = fee_recipient_account, cfnw_escrow_shares = escrow_shares,
         cfnw_escrow_assets = escrow_assets, cfnw_share_mint = share_mint,
         cfnw_deposit_mint = deposit_mint, cfnw_finalizer = finalizer, cfnw_request = request,
         cfnw_owner = owner, cfnw_recipient_token_account = recipient_token_account,
         cfnw_vault_program = unwrap_or (cfnw_vault_program s) AUGUST_VAULT_ID,
         cfnw_token_program = unwrap_or (cfnw_token_program s) TOKEN_PROGRAM,
         cfnw_event_authority = event_authority, cfnw_program = program\<rparr> expected_sequence (b_remaining b))))))))))))))))))"

definition finalize_withdrawal_cpi_build ::
  "('i \<Rightarrow> pubkey) \<Rightarrow> 'i \<Rightarrow>
   ('i option finalize_withdrawal_client, u64 option, 'i \<times> bool \<times> bool) builder \<Rightarrow>
   u8 list list list \<Rightarrow> 'i cpi_call client_result"
where
  "finalize_withdrawal_cpi_build key this_program b signers_seeds =
     (let s = b_accounts b in
      bindR (expect (b_args b)) (\<lambda>expected_sequence.
      bindR (expect (cfnw_queue s)) (\<lambda>queue.
      bindR (expect (cfnw_vault_state s)) (\<lambda>vault_state.
      bindR (expect (cfnw_vault_deposit_ata s)) (\<lambda>vault_deposit_ata.
      bindR (expect (cfnw_fee_recipient_account s)) (\<lambda>fee_recipient_account.
      bindR (expect (cfnw_escrow_shares s)) (\<lambda>escrow_shares.
      bindR (expect (cfnw_escrow_assets s)) (\<lambda>escrow_assets.
      bindR (expect (cfnw_share_mint s)) (\<lambda>share_mint.
      bindR (expect (cfnw_deposit_mint s)) (\<lambda>deposit_mint.
      bindR (expect (cfnw_finalizer s)) (\<lambda>finalizer.
      bindR (expect (cfnw_request s)) (\<lambda>request.
      bindR (expect (cfnw_owner s)) (\<lambda>owner.
      bindR (expect (cfnw_recipient_token_account s)) (\<lambda>recipient_token_account.
      bindR (expect (cfnw_vault_program s)) (\<lambda>vault_program.
      bindR (expect (cfnw_token_program s)) (\<lambda>token_program.
      bindR (expect (cfnw_event_authority s)) (\<lambda>event_authority.
      bindR (expect (cfnw_program s)) (\<lambda>program.
      Inr (finalize_withdrawal_cpi key this_program
        \<lparr>cfnw_queue = queue, cfnw_vault_state = vault_state,
         cfnw_vault_deposit_ata = vault_deposit_ata,
         cfnw_fee_recipient_account = fee_recipient_account, cfnw_escrow_shares = escrow_shares,
         cfnw_escrow_assets = escrow_assets, cfnw_share_mint = share_mint,
         cfnw_deposit_mint = deposit_mint, cfnw_finalizer = finalizer, cfnw_request = request,
         cfnw_owner = owner, cfnw_recipient_token_account = recipient_token_account,
         cfnw_vault_program = vault_program, cfnw_token_program = token_program,
         cfnw_event_authority = event_authority, cfnw_program = program\<rparr> expected_sequence
        signers_seeds (b_remaining b))))))))))))))))))))"

definition finalize_withdrawal_map :: "('a \<Rightarrow> 'b) \<Rightarrow> 'a finalize_withdrawal_client \<Rightarrow> 'b finalize_withdrawal_client" where
  "finalize_withdrawal_map f a =
     \<lparr>cfnw_queue = f (cfnw_queue a), cfnw_vault_state = f (cfnw_vault_state a),
      cfnw_vault_deposit_ata = f (cfnw_vault_deposit_ata a),
      cfnw_fee_recipient_account = f (cfnw_fee_recipient_account a),
      cfnw_escrow_shares = f (cfnw_escrow_shares a), cfnw_escrow_assets = f (cfnw_escrow_assets a),
      cfnw_share_mint = f (cfnw_share_mint a), cfnw_deposit_mint = f (cfnw_deposit_mint a),
      cfnw_finalizer = f (cfnw_finalizer a), cfnw_request = f (cfnw_request a),
      cfnw_owner = f (cfnw_owner a),
      cfnw_recipient_token_account = f (cfnw_recipient_token_account a),
      cfnw_vault_program = f (cfnw_vault_program a), cfnw_token_program = f (cfnw_token_program a),
      cfnw_event_authority = f (cfnw_event_authority a), cfnw_program = f (cfnw_program a)\<rparr>"

lemma finalize_withdrawal_client_eta [simp]:
  "\<lparr>cfnw_queue = cfnw_queue a, cfnw_vault_state = cfnw_vault_state a,
      cfnw_vault_deposit_ata = cfnw_vault_deposit_ata a,
      cfnw_fee_recipient_account = cfnw_fee_recipient_account a,
      cfnw_escrow_shares = cfnw_escrow_shares a, cfnw_escrow_assets = cfnw_escrow_assets a,
      cfnw_share_mint = cfnw_share_mint a, cfnw_deposit_mint = cfnw_deposit_mint a,
      cfnw_finalizer = cfnw_finalizer a, cfnw_request = cfnw_request a, cfnw_owner = cfnw_owner a,
      cfnw_recipient_token_account = cfnw_recipient_token_account a,
      cfnw_vault_program = cfnw_vault_program a, cfnw_token_program = cfnw_token_program a,
      cfnw_event_authority = cfnw_event_authority a, cfnw_program = cfnw_program a\<rparr> = a"
  by (cases a) simp

section \<open>instructions/cancel_withdrawal.rs\<close>

definition CANCEL_WITHDRAWAL_DISCRIMINATOR :: "u8 list" where
  "CANCEL_WITHDRAWAL_DISCRIMINATOR = [183, 104, 181, 250, 28, 128, 210, 70]"

record 'k cancel_withdrawal_client =
  ccnw_queue :: "'k"
  ccnw_owner :: "'k"
  ccnw_request :: "'k"
  ccnw_escrow_shares :: "'k"
  ccnw_share_mint :: "'k"
  ccnw_destination_share_account :: "'k"
  ccnw_token_program :: "'k"
  ccnw_event_authority :: "'k"
  ccnw_program :: "'k"

definition cancel_withdrawal_data :: "u64 \<Rightarrow> u8 list" where
  "cancel_withdrawal_data expected_sequence =
     CANCEL_WITHDRAWAL_DISCRIMINATOR @ le_bytes 8 expected_sequence"

definition cancel_withdrawal_instruction ::
  "pubkey cancel_withdrawal_client \<Rightarrow> u64 \<Rightarrow> account_meta list \<Rightarrow> client_instruction"
where
  "cancel_withdrawal_instruction a expected_sequence remaining_accounts =
     \<lparr>ix_program_id = AUGUST_WITHDRAWAL_QUEUE_ID,
      ix_accounts =
        [meta_new (ccnw_queue a) False, meta_new (ccnw_owner a) True,
         meta_new (ccnw_request a) False, meta_new (ccnw_escrow_shares a) False,
         meta_new_readonly (ccnw_share_mint a) False,
         meta_new (ccnw_destination_share_account a) False,
         meta_new_readonly (ccnw_token_program a) False,
         meta_new_readonly (ccnw_event_authority a) False, meta_new_readonly (ccnw_program a) False] @ remaining_accounts,
      ix_data = cancel_withdrawal_data expected_sequence\<rparr>"

definition cancel_withdrawal_cpi ::
  "('i \<Rightarrow> pubkey) \<Rightarrow> 'i \<Rightarrow> 'i cancel_withdrawal_client \<Rightarrow> u64 \<Rightarrow> u8 list list list \<Rightarrow>
   ('i \<times> bool \<times> bool) list \<Rightarrow> 'i cpi_call"
where
  "cancel_withdrawal_cpi key this_program a expected_sequence signers_seeds remaining_accounts =
     cpi_invoke
     \<lparr>ix_program_id = AUGUST_WITHDRAWAL_QUEUE_ID,
      ix_accounts =
        [meta_new (key (ccnw_queue a)) False, meta_new (key (ccnw_owner a)) True,
         meta_new (key (ccnw_request a)) False, meta_new (key (ccnw_escrow_shares a)) False,
         meta_new_readonly (key (ccnw_share_mint a)) False,
         meta_new (key (ccnw_destination_share_account a)) False,
         meta_new_readonly (key (ccnw_token_program a)) False,
         meta_new_readonly (key (ccnw_event_authority a)) False,
         meta_new_readonly (key (ccnw_program a)) False] @ map (cpi_meta key) remaining_accounts,
      ix_data = cancel_withdrawal_data expected_sequence\<rparr>
       ([this_program, ccnw_queue a, ccnw_owner a, ccnw_request a, ccnw_escrow_shares a,
         ccnw_share_mint a, ccnw_destination_share_account a, ccnw_token_program a,
         ccnw_event_authority a, ccnw_program a] @ map fst remaining_accounts) signers_seeds"

definition cancel_withdrawal_build ::
  "(pubkey option cancel_withdrawal_client, u64 option, account_meta) builder \<Rightarrow>
   client_instruction client_result"
where
  "cancel_withdrawal_build b =
     (let s = b_accounts b in
      bindR (expect (ccnw_queue s)) (\<lambda>queue.
      bindR (expect (ccnw_owner s)) (\<lambda>owner.
      bindR (expect (ccnw_request s)) (\<lambda>request.
      bindR (expect (ccnw_escrow_shares s)) (\<lambda>escrow_shares.
      bindR (expect (ccnw_share_mint s)) (\<lambda>share_mint.
      bindR (expect (ccnw_destination_share_account s)) (\<lambda>destination_share_account.
      bindR (expect (ccnw_event_authority s)) (\<lambda>event_authority.
      bindR (expect (ccnw_program s)) (\<lambda>program.
      bindR (expect (b_args b)) (\<lambda>expected_sequence.
      Inr (cancel_withdrawal_instruction
        \<lparr>ccnw_queue = queue, ccnw_owner = owner, ccnw_request = request,
         ccnw_escrow_shares = escrow_shares, ccnw_share_mint = share_mint,
         ccnw_destination_share_account = destination_share_account,
         ccnw_token_program = unwrap_or (ccnw_token_program s) TOKEN_PROGRAM,
         ccnw_event_authority = event_authority, ccnw_program = program\<rparr> expected_sequence (b_remaining b))))))))))))"

definition cancel_withdrawal_cpi_build ::
  "('i \<Rightarrow> pubkey) \<Rightarrow> 'i \<Rightarrow>
   ('i option cancel_withdrawal_client, u64 option, 'i \<times> bool \<times> bool) builder \<Rightarrow>
   u8 list list list \<Rightarrow> 'i cpi_call client_result"
where
  "cancel_withdrawal_cpi_build key this_program b signers_seeds =
     (let s = b_accounts b in
      bindR (expect (b_args b)) (\<lambda>expected_sequence.
      bindR (expect (ccnw_queue s)) (\<lambda>queue.
      bindR (expect (ccnw_owner s)) (\<lambda>owner.
      bindR (expect (ccnw_request s)) (\<lambda>request.
      bindR (expect (ccnw_escrow_shares s)) (\<lambda>escrow_shares.
      bindR (expect (ccnw_share_mint s)) (\<lambda>share_mint.
      bindR (expect (ccnw_destination_share_account s)) (\<lambda>destination_share_account.
      bindR (expect (ccnw_token_program s)) (\<lambda>token_program.
      bindR (expect (ccnw_event_authority s)) (\<lambda>event_authority.
      bindR (expect (ccnw_program s)) (\<lambda>program.
      Inr (cancel_withdrawal_cpi key this_program
        \<lparr>ccnw_queue = queue, ccnw_owner = owner, ccnw_request = request,
         ccnw_escrow_shares = escrow_shares, ccnw_share_mint = share_mint,
         ccnw_destination_share_account = destination_share_account,
         ccnw_token_program = token_program, ccnw_event_authority = event_authority,
         ccnw_program = program\<rparr> expected_sequence
        signers_seeds (b_remaining b)))))))))))))"

definition cancel_withdrawal_map :: "('a \<Rightarrow> 'b) \<Rightarrow> 'a cancel_withdrawal_client \<Rightarrow> 'b cancel_withdrawal_client" where
  "cancel_withdrawal_map f a =
     \<lparr>ccnw_queue = f (ccnw_queue a), ccnw_owner = f (ccnw_owner a),
      ccnw_request = f (ccnw_request a), ccnw_escrow_shares = f (ccnw_escrow_shares a),
      ccnw_share_mint = f (ccnw_share_mint a),
      ccnw_destination_share_account = f (ccnw_destination_share_account a),
      ccnw_token_program = f (ccnw_token_program a),
      ccnw_event_authority = f (ccnw_event_authority a), ccnw_program = f (ccnw_program a)\<rparr>"

lemma cancel_withdrawal_client_eta [simp]:
  "\<lparr>ccnw_queue = ccnw_queue a, ccnw_owner = ccnw_owner a, ccnw_request = ccnw_request a,
      ccnw_escrow_shares = ccnw_escrow_shares a, ccnw_share_mint = ccnw_share_mint a,
      ccnw_destination_share_account = ccnw_destination_share_account a,
      ccnw_token_program = ccnw_token_program a, ccnw_event_authority = ccnw_event_authority a,
      ccnw_program = ccnw_program a\<rparr> = a"
  by (cases a) simp

section \<open>instructions/release_vault.rs\<close>

definition RELEASE_VAULT_DISCRIMINATOR :: "u8 list" where
  "RELEASE_VAULT_DISCRIMINATOR = [162, 80, 81, 254, 102, 228, 132, 87]"

record 'k release_vault_client =
  crlv_queue :: "'k"
  crlv_vault_state :: "'k"
  crlv_deposit_mint :: "'k"
  crlv_admin :: "'k"
  crlv_vault_program :: "'k"
  crlv_event_authority :: "'k"
  crlv_program :: "'k"

definition release_vault_data :: "u8 list" where
  "release_vault_data =
     RELEASE_VAULT_DISCRIMINATOR"

definition release_vault_instruction ::
  "pubkey release_vault_client \<Rightarrow> account_meta list \<Rightarrow> client_instruction"
where
  "release_vault_instruction a remaining_accounts =
     \<lparr>ix_program_id = AUGUST_WITHDRAWAL_QUEUE_ID,
      ix_accounts =
        [meta_new_readonly (crlv_queue a) False, meta_new (crlv_vault_state a) False,
         meta_new_readonly (crlv_deposit_mint a) False, meta_new_readonly (crlv_admin a) True,
         meta_new_readonly (crlv_vault_program a) False,
         meta_new_readonly (crlv_event_authority a) False, meta_new_readonly (crlv_program a) False] @ remaining_accounts,
      ix_data = release_vault_data\<rparr>"

definition release_vault_cpi ::
  "('i \<Rightarrow> pubkey) \<Rightarrow> 'i \<Rightarrow> 'i release_vault_client \<Rightarrow> u8 list list list \<Rightarrow>
   ('i \<times> bool \<times> bool) list \<Rightarrow> 'i cpi_call"
where
  "release_vault_cpi key this_program a signers_seeds remaining_accounts =
     cpi_invoke
     \<lparr>ix_program_id = AUGUST_WITHDRAWAL_QUEUE_ID,
      ix_accounts =
        [meta_new_readonly (key (crlv_queue a)) False, meta_new (key (crlv_vault_state a)) False,
         meta_new_readonly (key (crlv_deposit_mint a)) False,
         meta_new_readonly (key (crlv_admin a)) True,
         meta_new_readonly (key (crlv_vault_program a)) False,
         meta_new_readonly (key (crlv_event_authority a)) False,
         meta_new_readonly (key (crlv_program a)) False] @ map (cpi_meta key) remaining_accounts,
      ix_data = release_vault_data\<rparr>
       ([this_program, crlv_queue a, crlv_vault_state a, crlv_deposit_mint a, crlv_admin a,
         crlv_vault_program a, crlv_event_authority a, crlv_program a] @ map fst remaining_accounts) signers_seeds"

definition release_vault_build ::
  "(pubkey option release_vault_client, unit, account_meta) builder \<Rightarrow>
   client_instruction client_result"
where
  "release_vault_build b =
     (let s = b_accounts b in
      bindR (expect (crlv_queue s)) (\<lambda>queue.
      bindR (expect (crlv_vault_state s)) (\<lambda>vault_state.
      bindR (expect (crlv_deposit_mint s)) (\<lambda>deposit_mint.
      bindR (expect (crlv_admin s)) (\<lambda>admin.
      bindR (expect (crlv_event_authority s)) (\<lambda>event_authority.
      bindR (expect (crlv_program s)) (\<lambda>program.
      Inr (release_vault_instruction
        \<lparr>crlv_queue = queue, crlv_vault_state = vault_state, crlv_deposit_mint = deposit_mint,
         crlv_admin = admin, crlv_vault_program = unwrap_or (crlv_vault_program s) AUGUST_VAULT_ID,
         crlv_event_authority = event_authority, crlv_program = program\<rparr> (b_remaining b)))))))))"

definition release_vault_cpi_build ::
  "('i \<Rightarrow> pubkey) \<Rightarrow> 'i \<Rightarrow>
   ('i option release_vault_client, unit, 'i \<times> bool \<times> bool) builder \<Rightarrow>
   u8 list list list \<Rightarrow> 'i cpi_call client_result"
where
  "release_vault_cpi_build key this_program b signers_seeds =
     (let s = b_accounts b in
      bindR (expect (crlv_queue s)) (\<lambda>queue.
      bindR (expect (crlv_vault_state s)) (\<lambda>vault_state.
      bindR (expect (crlv_deposit_mint s)) (\<lambda>deposit_mint.
      bindR (expect (crlv_admin s)) (\<lambda>admin.
      bindR (expect (crlv_vault_program s)) (\<lambda>vault_program.
      bindR (expect (crlv_event_authority s)) (\<lambda>event_authority.
      bindR (expect (crlv_program s)) (\<lambda>program.
      Inr (release_vault_cpi key this_program
        \<lparr>crlv_queue = queue, crlv_vault_state = vault_state, crlv_deposit_mint = deposit_mint,
         crlv_admin = admin, crlv_vault_program = vault_program,
         crlv_event_authority = event_authority, crlv_program = program\<rparr>
        signers_seeds (b_remaining b))))))))))"

definition release_vault_map :: "('a \<Rightarrow> 'b) \<Rightarrow> 'a release_vault_client \<Rightarrow> 'b release_vault_client" where
  "release_vault_map f a =
     \<lparr>crlv_queue = f (crlv_queue a), crlv_vault_state = f (crlv_vault_state a),
      crlv_deposit_mint = f (crlv_deposit_mint a), crlv_admin = f (crlv_admin a),
      crlv_vault_program = f (crlv_vault_program a),
      crlv_event_authority = f (crlv_event_authority a), crlv_program = f (crlv_program a)\<rparr>"

lemma release_vault_client_eta [simp]:
  "\<lparr>crlv_queue = crlv_queue a, crlv_vault_state = crlv_vault_state a,
      crlv_deposit_mint = crlv_deposit_mint a, crlv_admin = crlv_admin a,
      crlv_vault_program = crlv_vault_program a, crlv_event_authority = crlv_event_authority a,
      crlv_program = crlv_program a\<rparr> = a"
  by (cases a) simp

section \<open>instructions/sweep_escrow_shares.rs\<close>

definition SWEEP_ESCROW_SHARES_DISCRIMINATOR :: "u8 list" where
  "SWEEP_ESCROW_SHARES_DISCRIMINATOR = [183, 242, 60, 206, 189, 47, 207, 242]"

record 'k sweep_escrow_shares_client =
  csws_queue :: "'k"
  csws_vault_state :: "'k"
  csws_admin :: "'k"
  csws_escrow_shares :: "'k"
  csws_share_mint :: "'k"
  csws_destination :: "'k"
  csws_token_program :: "'k"
  csws_event_authority :: "'k"
  csws_program :: "'k"

definition sweep_escrow_shares_data :: "u8 list" where
  "sweep_escrow_shares_data =
     SWEEP_ESCROW_SHARES_DISCRIMINATOR"

definition sweep_escrow_shares_instruction ::
  "pubkey sweep_escrow_shares_client \<Rightarrow> account_meta list \<Rightarrow> client_instruction"
where
  "sweep_escrow_shares_instruction a remaining_accounts =
     \<lparr>ix_program_id = AUGUST_WITHDRAWAL_QUEUE_ID,
      ix_accounts =
        [meta_new_readonly (csws_queue a) False, meta_new_readonly (csws_vault_state a) False,
         meta_new_readonly (csws_admin a) True, meta_new (csws_escrow_shares a) False,
         meta_new_readonly (csws_share_mint a) False, meta_new (csws_destination a) False,
         meta_new_readonly (csws_token_program a) False,
         meta_new_readonly (csws_event_authority a) False, meta_new_readonly (csws_program a) False] @ remaining_accounts,
      ix_data = sweep_escrow_shares_data\<rparr>"

definition sweep_escrow_shares_cpi ::
  "('i \<Rightarrow> pubkey) \<Rightarrow> 'i \<Rightarrow> 'i sweep_escrow_shares_client \<Rightarrow> u8 list list list \<Rightarrow>
   ('i \<times> bool \<times> bool) list \<Rightarrow> 'i cpi_call"
where
  "sweep_escrow_shares_cpi key this_program a signers_seeds remaining_accounts =
     cpi_invoke
     \<lparr>ix_program_id = AUGUST_WITHDRAWAL_QUEUE_ID,
      ix_accounts =
        [meta_new_readonly (key (csws_queue a)) False,
         meta_new_readonly (key (csws_vault_state a)) False,
         meta_new_readonly (key (csws_admin a)) True, meta_new (key (csws_escrow_shares a)) False,
         meta_new_readonly (key (csws_share_mint a)) False,
         meta_new (key (csws_destination a)) False,
         meta_new_readonly (key (csws_token_program a)) False,
         meta_new_readonly (key (csws_event_authority a)) False,
         meta_new_readonly (key (csws_program a)) False] @ map (cpi_meta key) remaining_accounts,
      ix_data = sweep_escrow_shares_data\<rparr>
       ([this_program, csws_queue a, csws_vault_state a, csws_admin a, csws_escrow_shares a,
         csws_share_mint a, csws_destination a, csws_token_program a, csws_event_authority a,
         csws_program a] @ map fst remaining_accounts) signers_seeds"

definition sweep_escrow_shares_build ::
  "(pubkey option sweep_escrow_shares_client, unit, account_meta) builder \<Rightarrow>
   client_instruction client_result"
where
  "sweep_escrow_shares_build b =
     (let s = b_accounts b in
      bindR (expect (csws_queue s)) (\<lambda>queue.
      bindR (expect (csws_vault_state s)) (\<lambda>vault_state.
      bindR (expect (csws_admin s)) (\<lambda>admin.
      bindR (expect (csws_escrow_shares s)) (\<lambda>escrow_shares.
      bindR (expect (csws_share_mint s)) (\<lambda>share_mint.
      bindR (expect (csws_destination s)) (\<lambda>destination.
      bindR (expect (csws_event_authority s)) (\<lambda>event_authority.
      bindR (expect (csws_program s)) (\<lambda>program.
      Inr (sweep_escrow_shares_instruction
        \<lparr>csws_queue = queue, csws_vault_state = vault_state, csws_admin = admin,
         csws_escrow_shares = escrow_shares, csws_share_mint = share_mint,
         csws_destination = destination,
         csws_token_program = unwrap_or (csws_token_program s) TOKEN_PROGRAM,
         csws_event_authority = event_authority, csws_program = program\<rparr> (b_remaining b)))))))))))"

definition sweep_escrow_shares_cpi_build ::
  "('i \<Rightarrow> pubkey) \<Rightarrow> 'i \<Rightarrow>
   ('i option sweep_escrow_shares_client, unit, 'i \<times> bool \<times> bool) builder \<Rightarrow>
   u8 list list list \<Rightarrow> 'i cpi_call client_result"
where
  "sweep_escrow_shares_cpi_build key this_program b signers_seeds =
     (let s = b_accounts b in
      bindR (expect (csws_queue s)) (\<lambda>queue.
      bindR (expect (csws_vault_state s)) (\<lambda>vault_state.
      bindR (expect (csws_admin s)) (\<lambda>admin.
      bindR (expect (csws_escrow_shares s)) (\<lambda>escrow_shares.
      bindR (expect (csws_share_mint s)) (\<lambda>share_mint.
      bindR (expect (csws_destination s)) (\<lambda>destination.
      bindR (expect (csws_token_program s)) (\<lambda>token_program.
      bindR (expect (csws_event_authority s)) (\<lambda>event_authority.
      bindR (expect (csws_program s)) (\<lambda>program.
      Inr (sweep_escrow_shares_cpi key this_program
        \<lparr>csws_queue = queue, csws_vault_state = vault_state, csws_admin = admin,
         csws_escrow_shares = escrow_shares, csws_share_mint = share_mint,
         csws_destination = destination, csws_token_program = token_program,
         csws_event_authority = event_authority, csws_program = program\<rparr>
        signers_seeds (b_remaining b))))))))))))"

definition sweep_escrow_shares_map :: "('a \<Rightarrow> 'b) \<Rightarrow> 'a sweep_escrow_shares_client \<Rightarrow> 'b sweep_escrow_shares_client" where
  "sweep_escrow_shares_map f a =
     \<lparr>csws_queue = f (csws_queue a), csws_vault_state = f (csws_vault_state a),
      csws_admin = f (csws_admin a), csws_escrow_shares = f (csws_escrow_shares a),
      csws_share_mint = f (csws_share_mint a), csws_destination = f (csws_destination a),
      csws_token_program = f (csws_token_program a),
      csws_event_authority = f (csws_event_authority a), csws_program = f (csws_program a)\<rparr>"

lemma sweep_escrow_shares_client_eta [simp]:
  "\<lparr>csws_queue = csws_queue a, csws_vault_state = csws_vault_state a, csws_admin = csws_admin a,
      csws_escrow_shares = csws_escrow_shares a, csws_share_mint = csws_share_mint a,
      csws_destination = csws_destination a, csws_token_program = csws_token_program a,
      csws_event_authority = csws_event_authority a, csws_program = csws_program a\<rparr> = a"
  by (cases a) simp

section \<open>instructions/expedite_request.rs\<close>

definition EXPEDITE_REQUEST_DISCRIMINATOR :: "u8 list" where
  "EXPEDITE_REQUEST_DISCRIMINATOR = [179, 180, 110, 75, 218, 143, 214, 114]"

record 'k expedite_request_client =
  cxpr_queue :: "'k"
  cxpr_vault_state :: "'k"
  cxpr_authority :: "'k"
  cxpr_request :: "'k"
  cxpr_event_authority :: "'k"
  cxpr_program :: "'k"

definition expedite_request_data :: "u64 \<Rightarrow> u8 list" where
  "expedite_request_data expected_sequence =
     EXPEDITE_REQUEST_DISCRIMINATOR @ le_bytes 8 expected_sequence"

definition expedite_request_instruction ::
  "pubkey expedite_request_client \<Rightarrow> u64 \<Rightarrow> account_meta list \<Rightarrow> client_instruction"
where
  "expedite_request_instruction a expected_sequence remaining_accounts =
     \<lparr>ix_program_id = AUGUST_WITHDRAWAL_QUEUE_ID,
      ix_accounts =
        [meta_new_readonly (cxpr_queue a) False, meta_new_readonly (cxpr_vault_state a) False,
         meta_new_readonly (cxpr_authority a) True, meta_new (cxpr_request a) False,
         meta_new_readonly (cxpr_event_authority a) False, meta_new_readonly (cxpr_program a) False] @ remaining_accounts,
      ix_data = expedite_request_data expected_sequence\<rparr>"

definition expedite_request_cpi ::
  "('i \<Rightarrow> pubkey) \<Rightarrow> 'i \<Rightarrow> 'i expedite_request_client \<Rightarrow> u64 \<Rightarrow> u8 list list list \<Rightarrow>
   ('i \<times> bool \<times> bool) list \<Rightarrow> 'i cpi_call"
where
  "expedite_request_cpi key this_program a expected_sequence signers_seeds remaining_accounts =
     cpi_invoke
     \<lparr>ix_program_id = AUGUST_WITHDRAWAL_QUEUE_ID,
      ix_accounts =
        [meta_new_readonly (key (cxpr_queue a)) False,
         meta_new_readonly (key (cxpr_vault_state a)) False,
         meta_new_readonly (key (cxpr_authority a)) True, meta_new (key (cxpr_request a)) False,
         meta_new_readonly (key (cxpr_event_authority a)) False,
         meta_new_readonly (key (cxpr_program a)) False] @ map (cpi_meta key) remaining_accounts,
      ix_data = expedite_request_data expected_sequence\<rparr>
       ([this_program, cxpr_queue a, cxpr_vault_state a, cxpr_authority a, cxpr_request a,
         cxpr_event_authority a, cxpr_program a] @ map fst remaining_accounts) signers_seeds"

definition expedite_request_build ::
  "(pubkey option expedite_request_client, u64 option, account_meta) builder \<Rightarrow>
   client_instruction client_result"
where
  "expedite_request_build b =
     (let s = b_accounts b in
      bindR (expect (cxpr_queue s)) (\<lambda>queue.
      bindR (expect (cxpr_vault_state s)) (\<lambda>vault_state.
      bindR (expect (cxpr_authority s)) (\<lambda>authority.
      bindR (expect (cxpr_request s)) (\<lambda>request.
      bindR (expect (cxpr_event_authority s)) (\<lambda>event_authority.
      bindR (expect (cxpr_program s)) (\<lambda>program.
      bindR (expect (b_args b)) (\<lambda>expected_sequence.
      Inr (expedite_request_instruction
        \<lparr>cxpr_queue = queue, cxpr_vault_state = vault_state, cxpr_authority = authority,
         cxpr_request = request, cxpr_event_authority = event_authority, cxpr_program = program\<rparr> expected_sequence (b_remaining b))))))))))"

definition expedite_request_cpi_build ::
  "('i \<Rightarrow> pubkey) \<Rightarrow> 'i \<Rightarrow>
   ('i option expedite_request_client, u64 option, 'i \<times> bool \<times> bool) builder \<Rightarrow>
   u8 list list list \<Rightarrow> 'i cpi_call client_result"
where
  "expedite_request_cpi_build key this_program b signers_seeds =
     (let s = b_accounts b in
      bindR (expect (b_args b)) (\<lambda>expected_sequence.
      bindR (expect (cxpr_queue s)) (\<lambda>queue.
      bindR (expect (cxpr_vault_state s)) (\<lambda>vault_state.
      bindR (expect (cxpr_authority s)) (\<lambda>authority.
      bindR (expect (cxpr_request s)) (\<lambda>request.
      bindR (expect (cxpr_event_authority s)) (\<lambda>event_authority.
      bindR (expect (cxpr_program s)) (\<lambda>program.
      Inr (expedite_request_cpi key this_program
        \<lparr>cxpr_queue = queue, cxpr_vault_state = vault_state, cxpr_authority = authority,
         cxpr_request = request, cxpr_event_authority = event_authority, cxpr_program = program\<rparr> expected_sequence
        signers_seeds (b_remaining b))))))))))"

definition expedite_request_map :: "('a \<Rightarrow> 'b) \<Rightarrow> 'a expedite_request_client \<Rightarrow> 'b expedite_request_client" where
  "expedite_request_map f a =
     \<lparr>cxpr_queue = f (cxpr_queue a), cxpr_vault_state = f (cxpr_vault_state a),
      cxpr_authority = f (cxpr_authority a), cxpr_request = f (cxpr_request a),
      cxpr_event_authority = f (cxpr_event_authority a), cxpr_program = f (cxpr_program a)\<rparr>"

lemma expedite_request_client_eta [simp]:
  "\<lparr>cxpr_queue = cxpr_queue a, cxpr_vault_state = cxpr_vault_state a,
      cxpr_authority = cxpr_authority a, cxpr_request = cxpr_request a,
      cxpr_event_authority = cxpr_event_authority a, cxpr_program = cxpr_program a\<rparr> = a"
  by (cases a) simp

end
