(* ===== verification/ClientLayers.thy ===== *)
theory ClientLayers
  imports ClientUser ClientAdmin ClientSetup ClientQueue
begin

text \<open>
  All instructions of a client as one type of calls, and the agreement of the four layers each
  generated file has: the builder with everything set builds what the struct builds, the CPI builder
  what the CPI struct does, and the CPI's instruction is the struct's over the accounts' addresses.
\<close>

section \<open>Calls\<close>

datatype (plugins only: code) (dead 'k) vault_call =
    CallInitializeConfig "'k initialize_config_client" pubkey
  | CallSetConfigAuthority "'k set_config_authority_client" pubkey
  | CallOverrideConfigAuthority "'k override_config_authority_client" pubkey
  | CallInitialize "'k initialize_client" pubkey pubkey pubkey u8 u64
  | CallDeposit "'k deposit_client" u64
  | CallDepositChecked "'k deposit_checked_client" u64 u64
  | CallRedeem "'k redeem_client" u64
  | CallRedeemChecked "'k redeem_checked_client" u64 u64
  | CallOperatorWithdraw "('k, 'k option) operator_withdraw_client" u64
  | CallOperatorDeposit "('k, 'k option) operator_deposit_client" u64
  | CallOperatorUpdateAum "'k operator_update_aum_client" u64
  | CallRegisterSubaccount "'k register_subaccount_client" pubkey
  | CallSettleSubaccountLoss "'k settle_subaccount_loss_client" u64
  | CallDeregisterSubaccount "'k deregister_subaccount_client"
  | CallSetWithdrawalFee "'k set_withdrawal_fee_client" u32
  | CallNominateAdmin "'k nominate_admin_client" pubkey
  | CallAcceptAdminNomination "'k accept_admin_nomination_client"
  | CallSetOperator "'k set_operator_client" pubkey
  | CallSetFeeRecipient "'k set_fee_recipient_client" pubkey
  | CallSetAumLimits "'k set_aum_limits_client" u32 u32
  | CallAttachWithdrawalQueue "'k attach_withdrawal_queue_client"
  | CallDetachWithdrawalQueue "'k detach_withdrawal_queue_client"
  | CallPause "'k pause_client"
  | CallUnpause "'k unpause_client"
  | CallCloseVault "'k close_vault_client"
  | CallCreateShareTokenMetadata "'k create_share_token_metadata_client" string string string
  | CallUpdateShareTokenMetadata "'k update_share_token_metadata_client" string string string

text \<open>The four layers, and the same call with a function applied to every account.\<close>

primrec vault_direct :: "pubkey vault_call \<Rightarrow> account_meta list \<Rightarrow> client_instruction client_result" where
  "vault_direct (CallInitializeConfig a authority) remaining_accounts =
     Inr (initialize_config_instruction a authority remaining_accounts)"
| "vault_direct (CallSetConfigAuthority a new_authority) remaining_accounts =
     Inr (set_config_authority_instruction a new_authority remaining_accounts)"
| "vault_direct (CallOverrideConfigAuthority a new_authority) remaining_accounts =
     Inr (override_config_authority_instruction a new_authority remaining_accounts)"
| "vault_direct (CallInitialize a admin operator fee_recipient vault_version offset) remaining_accounts =
     Inr (initialize_instruction a admin operator fee_recipient vault_version offset remaining_accounts)"
| "vault_direct (CallDeposit a amount) remaining_accounts =
     Inr (deposit_instruction a amount remaining_accounts)"
| "vault_direct (CallDepositChecked a amount min_shares_out) remaining_accounts =
     Inr (deposit_checked_instruction a amount min_shares_out remaining_accounts)"
| "vault_direct (CallRedeem a shares) remaining_accounts =
     Inr (redeem_instruction a shares remaining_accounts)"
| "vault_direct (CallRedeemChecked a shares min_assets_out) remaining_accounts =
     Inr (redeem_checked_instruction a shares min_assets_out remaining_accounts)"
| "vault_direct (CallOperatorWithdraw a amount) remaining_accounts =
     Inr (operator_withdraw_instruction a amount remaining_accounts)"
| "vault_direct (CallOperatorDeposit a amount) remaining_accounts =
     Inr (operator_deposit_instruction a amount remaining_accounts)"
| "vault_direct (CallOperatorUpdateAum a new_aum) remaining_accounts =
     Inr (operator_update_aum_instruction a new_aum remaining_accounts)"
| "vault_direct (CallRegisterSubaccount a address) remaining_accounts =
     Inr (register_subaccount_instruction a address remaining_accounts)"
| "vault_direct (CallSettleSubaccountLoss a amount) remaining_accounts =
     Inr (settle_subaccount_loss_instruction a amount remaining_accounts)"
| "vault_direct (CallDeregisterSubaccount a) remaining_accounts =
     Inr (deregister_subaccount_instruction a remaining_accounts)"
| "vault_direct (CallSetWithdrawalFee a new_fee) remaining_accounts =
     Inr (set_withdrawal_fee_instruction a new_fee remaining_accounts)"
| "vault_direct (CallNominateAdmin a new_admin) remaining_accounts =
     Inr (nominate_admin_instruction a new_admin remaining_accounts)"
| "vault_direct (CallAcceptAdminNomination a) remaining_accounts =
     Inr (accept_admin_nomination_instruction a remaining_accounts)"
| "vault_direct (CallSetOperator a new_operator) remaining_accounts =
     Inr (set_operator_instruction a new_operator remaining_accounts)"
| "vault_direct (CallSetFeeRecipient a new_fee_recipient) remaining_accounts =
     Inr (set_fee_recipient_instruction a new_fee_recipient remaining_accounts)"
| "vault_direct (CallSetAumLimits a increase_limit decrease_limit) remaining_accounts =
     Inr (set_aum_limits_instruction a increase_limit decrease_limit remaining_accounts)"
| "vault_direct (CallAttachWithdrawalQueue a) remaining_accounts =
     Inr (attach_withdrawal_queue_instruction a remaining_accounts)"
| "vault_direct (CallDetachWithdrawalQueue a) remaining_accounts =
     Inr (detach_withdrawal_queue_instruction a remaining_accounts)"
| "vault_direct (CallPause a) remaining_accounts =
     Inr (pause_instruction a remaining_accounts)"
| "vault_direct (CallUnpause a) remaining_accounts =
     Inr (unpause_instruction a remaining_accounts)"
| "vault_direct (CallCloseVault a) remaining_accounts =
     Inr (close_vault_instruction a remaining_accounts)"
| "vault_direct (CallCreateShareTokenMetadata a name symbol uri) remaining_accounts =
     create_share_token_metadata_instruction a name symbol uri remaining_accounts"
| "vault_direct (CallUpdateShareTokenMetadata a name symbol uri) remaining_accounts =
     update_share_token_metadata_instruction a name symbol uri remaining_accounts"

primrec vault_built :: "pubkey vault_call \<Rightarrow> account_meta list \<Rightarrow> client_instruction client_result" where
  "vault_built (CallInitializeConfig a authority) remaining_accounts =
     initialize_config_build
       \<lparr>b_accounts = initialize_config_map Some a, b_args = Some authority,
        b_remaining = remaining_accounts\<rparr>"
| "vault_built (CallSetConfigAuthority a new_authority) remaining_accounts =
     set_config_authority_build
       \<lparr>b_accounts = set_config_authority_map Some a, b_args = Some new_authority,
        b_remaining = remaining_accounts\<rparr>"
| "vault_built (CallOverrideConfigAuthority a new_authority) remaining_accounts =
     override_config_authority_build
       \<lparr>b_accounts = override_config_authority_map Some a, b_args = Some new_authority,
        b_remaining = remaining_accounts\<rparr>"
| "vault_built (CallInitialize a admin operator fee_recipient vault_version offset) remaining_accounts =
     initialize_build
       \<lparr>b_accounts = initialize_map Some a, b_args = (Some admin, Some operator, Some fee_recipient, Some vault_version, Some offset),
        b_remaining = remaining_accounts\<rparr>"
| "vault_built (CallDeposit a amount) remaining_accounts =
     deposit_build
       \<lparr>b_accounts = deposit_map Some a, b_args = Some amount,
        b_remaining = remaining_accounts\<rparr>"
| "vault_built (CallDepositChecked a amount min_shares_out) remaining_accounts =
     deposit_checked_build
       \<lparr>b_accounts = deposit_checked_map Some a, b_args = (Some amount, Some min_shares_out),
        b_remaining = remaining_accounts\<rparr>"
| "vault_built (CallRedeem a shares) remaining_accounts =
     redeem_build
       \<lparr>b_accounts = redeem_map Some a, b_args = Some shares,
        b_remaining = remaining_accounts\<rparr>"
| "vault_built (CallRedeemChecked a shares min_assets_out) remaining_accounts =
     redeem_checked_build
       \<lparr>b_accounts = redeem_checked_map Some a, b_args = (Some shares, Some min_assets_out),
        b_remaining = remaining_accounts\<rparr>"
| "vault_built (CallOperatorWithdraw a amount) remaining_accounts =
     operator_withdraw_build
       \<lparr>b_accounts = operator_withdraw_map Some id a, b_args = Some amount,
        b_remaining = remaining_accounts\<rparr>"
| "vault_built (CallOperatorDeposit a amount) remaining_accounts =
     operator_deposit_build
       \<lparr>b_accounts = operator_deposit_map Some id a, b_args = Some amount,
        b_remaining = remaining_accounts\<rparr>"
| "vault_built (CallOperatorUpdateAum a new_aum) remaining_accounts =
     operator_update_aum_build
       \<lparr>b_accounts = operator_update_aum_map Some a, b_args = Some new_aum,
        b_remaining = remaining_accounts\<rparr>"
| "vault_built (CallRegisterSubaccount a address) remaining_accounts =
     register_subaccount_build
       \<lparr>b_accounts = register_subaccount_map Some a, b_args = Some address,
        b_remaining = remaining_accounts\<rparr>"
| "vault_built (CallSettleSubaccountLoss a amount) remaining_accounts =
     settle_subaccount_loss_build
       \<lparr>b_accounts = settle_subaccount_loss_map Some a, b_args = Some amount,
        b_remaining = remaining_accounts\<rparr>"
| "vault_built (CallDeregisterSubaccount a) remaining_accounts =
     deregister_subaccount_build
       \<lparr>b_accounts = deregister_subaccount_map Some a, b_args = (),
        b_remaining = remaining_accounts\<rparr>"
| "vault_built (CallSetWithdrawalFee a new_fee) remaining_accounts =
     set_withdrawal_fee_build
       \<lparr>b_accounts = set_withdrawal_fee_map Some a, b_args = Some new_fee,
        b_remaining = remaining_accounts\<rparr>"
| "vault_built (CallNominateAdmin a new_admin) remaining_accounts =
     nominate_admin_build
       \<lparr>b_accounts = nominate_admin_map Some a, b_args = Some new_admin,
        b_remaining = remaining_accounts\<rparr>"
| "vault_built (CallAcceptAdminNomination a) remaining_accounts =
     accept_admin_nomination_build
       \<lparr>b_accounts = accept_admin_nomination_map Some a, b_args = (),
        b_remaining = remaining_accounts\<rparr>"
| "vault_built (CallSetOperator a new_operator) remaining_accounts =
     set_operator_build
       \<lparr>b_accounts = set_operator_map Some a, b_args = Some new_operator,
        b_remaining = remaining_accounts\<rparr>"
| "vault_built (CallSetFeeRecipient a new_fee_recipient) remaining_accounts =
     set_fee_recipient_build
       \<lparr>b_accounts = set_fee_recipient_map Some a, b_args = Some new_fee_recipient,
        b_remaining = remaining_accounts\<rparr>"
| "vault_built (CallSetAumLimits a increase_limit decrease_limit) remaining_accounts =
     set_aum_limits_build
       \<lparr>b_accounts = set_aum_limits_map Some a, b_args = (Some increase_limit, Some decrease_limit),
        b_remaining = remaining_accounts\<rparr>"
| "vault_built (CallAttachWithdrawalQueue a) remaining_accounts =
     attach_withdrawal_queue_build
       \<lparr>b_accounts = attach_withdrawal_queue_map Some a, b_args = (),
        b_remaining = remaining_accounts\<rparr>"
| "vault_built (CallDetachWithdrawalQueue a) remaining_accounts =
     detach_withdrawal_queue_build
       \<lparr>b_accounts = detach_withdrawal_queue_map Some a, b_args = (),
        b_remaining = remaining_accounts\<rparr>"
| "vault_built (CallPause a) remaining_accounts =
     pause_build
       \<lparr>b_accounts = pause_map Some a, b_args = (),
        b_remaining = remaining_accounts\<rparr>"
| "vault_built (CallUnpause a) remaining_accounts =
     unpause_build
       \<lparr>b_accounts = unpause_map Some a, b_args = (),
        b_remaining = remaining_accounts\<rparr>"
| "vault_built (CallCloseVault a) remaining_accounts =
     close_vault_build
       \<lparr>b_accounts = close_vault_map Some a, b_args = (),
        b_remaining = remaining_accounts\<rparr>"
| "vault_built (CallCreateShareTokenMetadata a name symbol uri) remaining_accounts =
     create_share_token_metadata_build
       \<lparr>b_accounts = create_share_token_metadata_map Some a, b_args = (Some name, Some symbol, Some uri),
        b_remaining = remaining_accounts\<rparr>"
| "vault_built (CallUpdateShareTokenMetadata a name symbol uri) remaining_accounts =
     update_share_token_metadata_build
       \<lparr>b_accounts = update_share_token_metadata_map Some a, b_args = (Some name, Some symbol, Some uri),
        b_remaining = remaining_accounts\<rparr>"

primrec vault_cpi :: "('i \<Rightarrow> pubkey) \<Rightarrow> 'i \<Rightarrow> 'i vault_call \<Rightarrow> u8 list list list \<Rightarrow>
    ('i \<times> bool \<times> bool) list \<Rightarrow> 'i cpi_call client_result" where
  "vault_cpi key program (CallInitializeConfig a authority) seeds remaining_accounts =
     Inr (initialize_config_cpi key program a authority seeds remaining_accounts)"
| "vault_cpi key program (CallSetConfigAuthority a new_authority) seeds remaining_accounts =
     Inr (set_config_authority_cpi key program a new_authority seeds remaining_accounts)"
| "vault_cpi key program (CallOverrideConfigAuthority a new_authority) seeds remaining_accounts =
     Inr (override_config_authority_cpi key program a new_authority seeds remaining_accounts)"
| "vault_cpi key program (CallInitialize a admin operator fee_recipient vault_version offset) seeds remaining_accounts =
     Inr (initialize_cpi key program a admin operator fee_recipient vault_version offset seeds remaining_accounts)"
| "vault_cpi key program (CallDeposit a amount) seeds remaining_accounts =
     Inr (deposit_cpi key program a amount seeds remaining_accounts)"
| "vault_cpi key program (CallDepositChecked a amount min_shares_out) seeds remaining_accounts =
     Inr (deposit_checked_cpi key program a amount min_shares_out seeds remaining_accounts)"
| "vault_cpi key program (CallRedeem a shares) seeds remaining_accounts =
     Inr (redeem_cpi key program a shares seeds remaining_accounts)"
| "vault_cpi key program (CallRedeemChecked a shares min_assets_out) seeds remaining_accounts =
     Inr (redeem_checked_cpi key program a shares min_assets_out seeds remaining_accounts)"
| "vault_cpi key program (CallOperatorWithdraw a amount) seeds remaining_accounts =
     Inr (operator_withdraw_cpi key program a amount seeds remaining_accounts)"
| "vault_cpi key program (CallOperatorDeposit a amount) seeds remaining_accounts =
     Inr (operator_deposit_cpi key program a amount seeds remaining_accounts)"
| "vault_cpi key program (CallOperatorUpdateAum a new_aum) seeds remaining_accounts =
     Inr (operator_update_aum_cpi key program a new_aum seeds remaining_accounts)"
| "vault_cpi key program (CallRegisterSubaccount a address) seeds remaining_accounts =
     Inr (register_subaccount_cpi key program a address seeds remaining_accounts)"
| "vault_cpi key program (CallSettleSubaccountLoss a amount) seeds remaining_accounts =
     Inr (settle_subaccount_loss_cpi key program a amount seeds remaining_accounts)"
| "vault_cpi key program (CallDeregisterSubaccount a) seeds remaining_accounts =
     Inr (deregister_subaccount_cpi key program a seeds remaining_accounts)"
| "vault_cpi key program (CallSetWithdrawalFee a new_fee) seeds remaining_accounts =
     Inr (set_withdrawal_fee_cpi key program a new_fee seeds remaining_accounts)"
| "vault_cpi key program (CallNominateAdmin a new_admin) seeds remaining_accounts =
     Inr (nominate_admin_cpi key program a new_admin seeds remaining_accounts)"
| "vault_cpi key program (CallAcceptAdminNomination a) seeds remaining_accounts =
     Inr (accept_admin_nomination_cpi key program a seeds remaining_accounts)"
| "vault_cpi key program (CallSetOperator a new_operator) seeds remaining_accounts =
     Inr (set_operator_cpi key program a new_operator seeds remaining_accounts)"
| "vault_cpi key program (CallSetFeeRecipient a new_fee_recipient) seeds remaining_accounts =
     Inr (set_fee_recipient_cpi key program a new_fee_recipient seeds remaining_accounts)"
| "vault_cpi key program (CallSetAumLimits a increase_limit decrease_limit) seeds remaining_accounts =
     Inr (set_aum_limits_cpi key program a increase_limit decrease_limit seeds remaining_accounts)"
| "vault_cpi key program (CallAttachWithdrawalQueue a) seeds remaining_accounts =
     Inr (attach_withdrawal_queue_cpi key program a seeds remaining_accounts)"
| "vault_cpi key program (CallDetachWithdrawalQueue a) seeds remaining_accounts =
     Inr (detach_withdrawal_queue_cpi key program a seeds remaining_accounts)"
| "vault_cpi key program (CallPause a) seeds remaining_accounts =
     Inr (pause_cpi key program a seeds remaining_accounts)"
| "vault_cpi key program (CallUnpause a) seeds remaining_accounts =
     Inr (unpause_cpi key program a seeds remaining_accounts)"
| "vault_cpi key program (CallCloseVault a) seeds remaining_accounts =
     Inr (close_vault_cpi key program a seeds remaining_accounts)"
| "vault_cpi key program (CallCreateShareTokenMetadata a name symbol uri) seeds remaining_accounts =
     create_share_token_metadata_cpi key program a name symbol uri seeds remaining_accounts"
| "vault_cpi key program (CallUpdateShareTokenMetadata a name symbol uri) seeds remaining_accounts =
     update_share_token_metadata_cpi key program a name symbol uri seeds remaining_accounts"

primrec vault_cpi_built :: "('i \<Rightarrow> pubkey) \<Rightarrow> 'i \<Rightarrow> 'i vault_call \<Rightarrow> u8 list list list \<Rightarrow>
    ('i \<times> bool \<times> bool) list \<Rightarrow> 'i cpi_call client_result" where
  "vault_cpi_built key program (CallInitializeConfig a authority) seeds remaining_accounts =
     initialize_config_cpi_build key program
       \<lparr>b_accounts = initialize_config_map Some a, b_args = Some authority,
        b_remaining = remaining_accounts\<rparr> seeds"
| "vault_cpi_built key program (CallSetConfigAuthority a new_authority) seeds remaining_accounts =
     set_config_authority_cpi_build key program
       \<lparr>b_accounts = set_config_authority_map Some a, b_args = Some new_authority,
        b_remaining = remaining_accounts\<rparr> seeds"
| "vault_cpi_built key program (CallOverrideConfigAuthority a new_authority) seeds remaining_accounts =
     override_config_authority_cpi_build key program
       \<lparr>b_accounts = override_config_authority_map Some a, b_args = Some new_authority,
        b_remaining = remaining_accounts\<rparr> seeds"
| "vault_cpi_built key program (CallInitialize a admin operator fee_recipient vault_version offset) seeds remaining_accounts =
     initialize_cpi_build key program
       \<lparr>b_accounts = initialize_map Some a, b_args = (Some admin, Some operator, Some fee_recipient, Some vault_version, Some offset),
        b_remaining = remaining_accounts\<rparr> seeds"
| "vault_cpi_built key program (CallDeposit a amount) seeds remaining_accounts =
     deposit_cpi_build key program
       \<lparr>b_accounts = deposit_map Some a, b_args = Some amount,
        b_remaining = remaining_accounts\<rparr> seeds"
| "vault_cpi_built key program (CallDepositChecked a amount min_shares_out) seeds remaining_accounts =
     deposit_checked_cpi_build key program
       \<lparr>b_accounts = deposit_checked_map Some a, b_args = (Some amount, Some min_shares_out),
        b_remaining = remaining_accounts\<rparr> seeds"
| "vault_cpi_built key program (CallRedeem a shares) seeds remaining_accounts =
     redeem_cpi_build key program
       \<lparr>b_accounts = redeem_map Some a, b_args = Some shares,
        b_remaining = remaining_accounts\<rparr> seeds"
| "vault_cpi_built key program (CallRedeemChecked a shares min_assets_out) seeds remaining_accounts =
     redeem_checked_cpi_build key program
       \<lparr>b_accounts = redeem_checked_map Some a, b_args = (Some shares, Some min_assets_out),
        b_remaining = remaining_accounts\<rparr> seeds"
| "vault_cpi_built key program (CallOperatorWithdraw a amount) seeds remaining_accounts =
     operator_withdraw_cpi_build key program
       \<lparr>b_accounts = operator_withdraw_map Some id a, b_args = Some amount,
        b_remaining = remaining_accounts\<rparr> seeds"
| "vault_cpi_built key program (CallOperatorDeposit a amount) seeds remaining_accounts =
     operator_deposit_cpi_build key program
       \<lparr>b_accounts = operator_deposit_map Some id a, b_args = Some amount,
        b_remaining = remaining_accounts\<rparr> seeds"
| "vault_cpi_built key program (CallOperatorUpdateAum a new_aum) seeds remaining_accounts =
     operator_update_aum_cpi_build key program
       \<lparr>b_accounts = operator_update_aum_map Some a, b_args = Some new_aum,
        b_remaining = remaining_accounts\<rparr> seeds"
| "vault_cpi_built key program (CallRegisterSubaccount a address) seeds remaining_accounts =
     register_subaccount_cpi_build key program
       \<lparr>b_accounts = register_subaccount_map Some a, b_args = Some address,
        b_remaining = remaining_accounts\<rparr> seeds"
| "vault_cpi_built key program (CallSettleSubaccountLoss a amount) seeds remaining_accounts =
     settle_subaccount_loss_cpi_build key program
       \<lparr>b_accounts = settle_subaccount_loss_map Some a, b_args = Some amount,
        b_remaining = remaining_accounts\<rparr> seeds"
| "vault_cpi_built key program (CallDeregisterSubaccount a) seeds remaining_accounts =
     deregister_subaccount_cpi_build key program
       \<lparr>b_accounts = deregister_subaccount_map Some a, b_args = (),
        b_remaining = remaining_accounts\<rparr> seeds"
| "vault_cpi_built key program (CallSetWithdrawalFee a new_fee) seeds remaining_accounts =
     set_withdrawal_fee_cpi_build key program
       \<lparr>b_accounts = set_withdrawal_fee_map Some a, b_args = Some new_fee,
        b_remaining = remaining_accounts\<rparr> seeds"
| "vault_cpi_built key program (CallNominateAdmin a new_admin) seeds remaining_accounts =
     nominate_admin_cpi_build key program
       \<lparr>b_accounts = nominate_admin_map Some a, b_args = Some new_admin,
        b_remaining = remaining_accounts\<rparr> seeds"
| "vault_cpi_built key program (CallAcceptAdminNomination a) seeds remaining_accounts =
     accept_admin_nomination_cpi_build key program
       \<lparr>b_accounts = accept_admin_nomination_map Some a, b_args = (),
        b_remaining = remaining_accounts\<rparr> seeds"
| "vault_cpi_built key program (CallSetOperator a new_operator) seeds remaining_accounts =
     set_operator_cpi_build key program
       \<lparr>b_accounts = set_operator_map Some a, b_args = Some new_operator,
        b_remaining = remaining_accounts\<rparr> seeds"
| "vault_cpi_built key program (CallSetFeeRecipient a new_fee_recipient) seeds remaining_accounts =
     set_fee_recipient_cpi_build key program
       \<lparr>b_accounts = set_fee_recipient_map Some a, b_args = Some new_fee_recipient,
        b_remaining = remaining_accounts\<rparr> seeds"
| "vault_cpi_built key program (CallSetAumLimits a increase_limit decrease_limit) seeds remaining_accounts =
     set_aum_limits_cpi_build key program
       \<lparr>b_accounts = set_aum_limits_map Some a, b_args = (Some increase_limit, Some decrease_limit),
        b_remaining = remaining_accounts\<rparr> seeds"
| "vault_cpi_built key program (CallAttachWithdrawalQueue a) seeds remaining_accounts =
     attach_withdrawal_queue_cpi_build key program
       \<lparr>b_accounts = attach_withdrawal_queue_map Some a, b_args = (),
        b_remaining = remaining_accounts\<rparr> seeds"
| "vault_cpi_built key program (CallDetachWithdrawalQueue a) seeds remaining_accounts =
     detach_withdrawal_queue_cpi_build key program
       \<lparr>b_accounts = detach_withdrawal_queue_map Some a, b_args = (),
        b_remaining = remaining_accounts\<rparr> seeds"
| "vault_cpi_built key program (CallPause a) seeds remaining_accounts =
     pause_cpi_build key program
       \<lparr>b_accounts = pause_map Some a, b_args = (),
        b_remaining = remaining_accounts\<rparr> seeds"
| "vault_cpi_built key program (CallUnpause a) seeds remaining_accounts =
     unpause_cpi_build key program
       \<lparr>b_accounts = unpause_map Some a, b_args = (),
        b_remaining = remaining_accounts\<rparr> seeds"
| "vault_cpi_built key program (CallCloseVault a) seeds remaining_accounts =
     close_vault_cpi_build key program
       \<lparr>b_accounts = close_vault_map Some a, b_args = (),
        b_remaining = remaining_accounts\<rparr> seeds"
| "vault_cpi_built key program (CallCreateShareTokenMetadata a name symbol uri) seeds remaining_accounts =
     create_share_token_metadata_cpi_build key program
       \<lparr>b_accounts = create_share_token_metadata_map Some a, b_args = (Some name, Some symbol, Some uri),
        b_remaining = remaining_accounts\<rparr> seeds"
| "vault_cpi_built key program (CallUpdateShareTokenMetadata a name symbol uri) seeds remaining_accounts =
     update_share_token_metadata_cpi_build key program
       \<lparr>b_accounts = update_share_token_metadata_map Some a, b_args = (Some name, Some symbol, Some uri),
        b_remaining = remaining_accounts\<rparr> seeds"

primrec vault_call_map :: "('a \<Rightarrow> 'b) \<Rightarrow> 'a vault_call \<Rightarrow> 'b vault_call" where
  "vault_call_map f (CallInitializeConfig a authority) =
     CallInitializeConfig (initialize_config_map f a) authority"
| "vault_call_map f (CallSetConfigAuthority a new_authority) =
     CallSetConfigAuthority (set_config_authority_map f a) new_authority"
| "vault_call_map f (CallOverrideConfigAuthority a new_authority) =
     CallOverrideConfigAuthority (override_config_authority_map f a) new_authority"
| "vault_call_map f (CallInitialize a admin operator fee_recipient vault_version offset) =
     CallInitialize (initialize_map f a) admin operator fee_recipient vault_version offset"
| "vault_call_map f (CallDeposit a amount) =
     CallDeposit (deposit_map f a) amount"
| "vault_call_map f (CallDepositChecked a amount min_shares_out) =
     CallDepositChecked (deposit_checked_map f a) amount min_shares_out"
| "vault_call_map f (CallRedeem a shares) =
     CallRedeem (redeem_map f a) shares"
| "vault_call_map f (CallRedeemChecked a shares min_assets_out) =
     CallRedeemChecked (redeem_checked_map f a) shares min_assets_out"
| "vault_call_map f (CallOperatorWithdraw a amount) =
     CallOperatorWithdraw (operator_withdraw_map f (map_option f) a) amount"
| "vault_call_map f (CallOperatorDeposit a amount) =
     CallOperatorDeposit (operator_deposit_map f (map_option f) a) amount"
| "vault_call_map f (CallOperatorUpdateAum a new_aum) =
     CallOperatorUpdateAum (operator_update_aum_map f a) new_aum"
| "vault_call_map f (CallRegisterSubaccount a address) =
     CallRegisterSubaccount (register_subaccount_map f a) address"
| "vault_call_map f (CallSettleSubaccountLoss a amount) =
     CallSettleSubaccountLoss (settle_subaccount_loss_map f a) amount"
| "vault_call_map f (CallDeregisterSubaccount a) =
     CallDeregisterSubaccount (deregister_subaccount_map f a)"
| "vault_call_map f (CallSetWithdrawalFee a new_fee) =
     CallSetWithdrawalFee (set_withdrawal_fee_map f a) new_fee"
| "vault_call_map f (CallNominateAdmin a new_admin) =
     CallNominateAdmin (nominate_admin_map f a) new_admin"
| "vault_call_map f (CallAcceptAdminNomination a) =
     CallAcceptAdminNomination (accept_admin_nomination_map f a)"
| "vault_call_map f (CallSetOperator a new_operator) =
     CallSetOperator (set_operator_map f a) new_operator"
| "vault_call_map f (CallSetFeeRecipient a new_fee_recipient) =
     CallSetFeeRecipient (set_fee_recipient_map f a) new_fee_recipient"
| "vault_call_map f (CallSetAumLimits a increase_limit decrease_limit) =
     CallSetAumLimits (set_aum_limits_map f a) increase_limit decrease_limit"
| "vault_call_map f (CallAttachWithdrawalQueue a) =
     CallAttachWithdrawalQueue (attach_withdrawal_queue_map f a)"
| "vault_call_map f (CallDetachWithdrawalQueue a) =
     CallDetachWithdrawalQueue (detach_withdrawal_queue_map f a)"
| "vault_call_map f (CallPause a) =
     CallPause (pause_map f a)"
| "vault_call_map f (CallUnpause a) =
     CallUnpause (unpause_map f a)"
| "vault_call_map f (CallCloseVault a) =
     CallCloseVault (close_vault_map f a)"
| "vault_call_map f (CallCreateShareTokenMetadata a name symbol uri) =
     CallCreateShareTokenMetadata (create_share_token_metadata_map f a) name symbol uri"
| "vault_call_map f (CallUpdateShareTokenMetadata a name symbol uri) =
     CallUpdateShareTokenMetadata (update_share_token_metadata_map f a) name symbol uri"

datatype (plugins only: code) (dead 'k) queue_call =
    CallInitializeQueue "'k initialize_queue_client" u64
  | CallSetCooldown "'k set_cooldown_client" u64
  | CallSetFulfillmentWindow "'k set_fulfillment_window_client" u64
  | CallRequestWithdrawal "'k request_withdrawal_client" u64 u64 u64 pubkey
  | CallFinalizeWithdrawal "'k finalize_withdrawal_client" u64
  | CallCancelWithdrawal "'k cancel_withdrawal_client" u64
  | CallReleaseVault "'k release_vault_client"
  | CallSweepEscrowShares "'k sweep_escrow_shares_client"
  | CallExpediteRequest "'k expedite_request_client" u64

text \<open>The four layers, and the same call with a function applied to every account.\<close>

primrec queue_direct :: "pubkey queue_call \<Rightarrow> account_meta list \<Rightarrow> client_instruction client_result" where
  "queue_direct (CallInitializeQueue a cooldown_seconds) remaining_accounts =
     Inr (initialize_queue_instruction a cooldown_seconds remaining_accounts)"
| "queue_direct (CallSetCooldown a seconds) remaining_accounts =
     Inr (set_cooldown_instruction a seconds remaining_accounts)"
| "queue_direct (CallSetFulfillmentWindow a seconds) remaining_accounts =
     Inr (set_fulfillment_window_instruction a seconds remaining_accounts)"
| "queue_direct (CallRequestWithdrawal a request_id shares min_assets_out finalizer) remaining_accounts =
     Inr (request_withdrawal_instruction a request_id shares min_assets_out finalizer remaining_accounts)"
| "queue_direct (CallFinalizeWithdrawal a expected_sequence) remaining_accounts =
     Inr (finalize_withdrawal_instruction a expected_sequence remaining_accounts)"
| "queue_direct (CallCancelWithdrawal a expected_sequence) remaining_accounts =
     Inr (cancel_withdrawal_instruction a expected_sequence remaining_accounts)"
| "queue_direct (CallReleaseVault a) remaining_accounts =
     Inr (release_vault_instruction a remaining_accounts)"
| "queue_direct (CallSweepEscrowShares a) remaining_accounts =
     Inr (sweep_escrow_shares_instruction a remaining_accounts)"
| "queue_direct (CallExpediteRequest a expected_sequence) remaining_accounts =
     Inr (expedite_request_instruction a expected_sequence remaining_accounts)"

primrec queue_built :: "pubkey queue_call \<Rightarrow> account_meta list \<Rightarrow> client_instruction client_result" where
  "queue_built (CallInitializeQueue a cooldown_seconds) remaining_accounts =
     initialize_queue_build
       \<lparr>b_accounts = initialize_queue_map Some a, b_args = Some cooldown_seconds,
        b_remaining = remaining_accounts\<rparr>"
| "queue_built (CallSetCooldown a seconds) remaining_accounts =
     set_cooldown_build
       \<lparr>b_accounts = set_cooldown_map Some a, b_args = Some seconds,
        b_remaining = remaining_accounts\<rparr>"
| "queue_built (CallSetFulfillmentWindow a seconds) remaining_accounts =
     set_fulfillment_window_build
       \<lparr>b_accounts = set_fulfillment_window_map Some a, b_args = Some seconds,
        b_remaining = remaining_accounts\<rparr>"
| "queue_built (CallRequestWithdrawal a request_id shares min_assets_out finalizer) remaining_accounts =
     request_withdrawal_build
       \<lparr>b_accounts = request_withdrawal_map Some a, b_args = (Some request_id, Some shares, Some min_assets_out, Some finalizer),
        b_remaining = remaining_accounts\<rparr>"
| "queue_built (CallFinalizeWithdrawal a expected_sequence) remaining_accounts =
     finalize_withdrawal_build
       \<lparr>b_accounts = finalize_withdrawal_map Some a, b_args = Some expected_sequence,
        b_remaining = remaining_accounts\<rparr>"
| "queue_built (CallCancelWithdrawal a expected_sequence) remaining_accounts =
     cancel_withdrawal_build
       \<lparr>b_accounts = cancel_withdrawal_map Some a, b_args = Some expected_sequence,
        b_remaining = remaining_accounts\<rparr>"
| "queue_built (CallReleaseVault a) remaining_accounts =
     release_vault_build
       \<lparr>b_accounts = release_vault_map Some a, b_args = (),
        b_remaining = remaining_accounts\<rparr>"
| "queue_built (CallSweepEscrowShares a) remaining_accounts =
     sweep_escrow_shares_build
       \<lparr>b_accounts = sweep_escrow_shares_map Some a, b_args = (),
        b_remaining = remaining_accounts\<rparr>"
| "queue_built (CallExpediteRequest a expected_sequence) remaining_accounts =
     expedite_request_build
       \<lparr>b_accounts = expedite_request_map Some a, b_args = Some expected_sequence,
        b_remaining = remaining_accounts\<rparr>"

primrec queue_cpi :: "('i \<Rightarrow> pubkey) \<Rightarrow> 'i \<Rightarrow> 'i queue_call \<Rightarrow> u8 list list list \<Rightarrow>
    ('i \<times> bool \<times> bool) list \<Rightarrow> 'i cpi_call client_result" where
  "queue_cpi key program (CallInitializeQueue a cooldown_seconds) seeds remaining_accounts =
     Inr (initialize_queue_cpi key program a cooldown_seconds seeds remaining_accounts)"
| "queue_cpi key program (CallSetCooldown a seconds) seeds remaining_accounts =
     Inr (set_cooldown_cpi key program a seconds seeds remaining_accounts)"
| "queue_cpi key program (CallSetFulfillmentWindow a seconds) seeds remaining_accounts =
     Inr (set_fulfillment_window_cpi key program a seconds seeds remaining_accounts)"
| "queue_cpi key program (CallRequestWithdrawal a request_id shares min_assets_out finalizer) seeds remaining_accounts =
     Inr (request_withdrawal_cpi key program a request_id shares min_assets_out finalizer seeds remaining_accounts)"
| "queue_cpi key program (CallFinalizeWithdrawal a expected_sequence) seeds remaining_accounts =
     Inr (finalize_withdrawal_cpi key program a expected_sequence seeds remaining_accounts)"
| "queue_cpi key program (CallCancelWithdrawal a expected_sequence) seeds remaining_accounts =
     Inr (cancel_withdrawal_cpi key program a expected_sequence seeds remaining_accounts)"
| "queue_cpi key program (CallReleaseVault a) seeds remaining_accounts =
     Inr (release_vault_cpi key program a seeds remaining_accounts)"
| "queue_cpi key program (CallSweepEscrowShares a) seeds remaining_accounts =
     Inr (sweep_escrow_shares_cpi key program a seeds remaining_accounts)"
| "queue_cpi key program (CallExpediteRequest a expected_sequence) seeds remaining_accounts =
     Inr (expedite_request_cpi key program a expected_sequence seeds remaining_accounts)"

primrec queue_cpi_built :: "('i \<Rightarrow> pubkey) \<Rightarrow> 'i \<Rightarrow> 'i queue_call \<Rightarrow> u8 list list list \<Rightarrow>
    ('i \<times> bool \<times> bool) list \<Rightarrow> 'i cpi_call client_result" where
  "queue_cpi_built key program (CallInitializeQueue a cooldown_seconds) seeds remaining_accounts =
     initialize_queue_cpi_build key program
       \<lparr>b_accounts = initialize_queue_map Some a, b_args = Some cooldown_seconds,
        b_remaining = remaining_accounts\<rparr> seeds"
| "queue_cpi_built key program (CallSetCooldown a seconds) seeds remaining_accounts =
     set_cooldown_cpi_build key program
       \<lparr>b_accounts = set_cooldown_map Some a, b_args = Some seconds,
        b_remaining = remaining_accounts\<rparr> seeds"
| "queue_cpi_built key program (CallSetFulfillmentWindow a seconds) seeds remaining_accounts =
     set_fulfillment_window_cpi_build key program
       \<lparr>b_accounts = set_fulfillment_window_map Some a, b_args = Some seconds,
        b_remaining = remaining_accounts\<rparr> seeds"
| "queue_cpi_built key program (CallRequestWithdrawal a request_id shares min_assets_out finalizer) seeds remaining_accounts =
     request_withdrawal_cpi_build key program
       \<lparr>b_accounts = request_withdrawal_map Some a, b_args = (Some request_id, Some shares, Some min_assets_out, Some finalizer),
        b_remaining = remaining_accounts\<rparr> seeds"
| "queue_cpi_built key program (CallFinalizeWithdrawal a expected_sequence) seeds remaining_accounts =
     finalize_withdrawal_cpi_build key program
       \<lparr>b_accounts = finalize_withdrawal_map Some a, b_args = Some expected_sequence,
        b_remaining = remaining_accounts\<rparr> seeds"
| "queue_cpi_built key program (CallCancelWithdrawal a expected_sequence) seeds remaining_accounts =
     cancel_withdrawal_cpi_build key program
       \<lparr>b_accounts = cancel_withdrawal_map Some a, b_args = Some expected_sequence,
        b_remaining = remaining_accounts\<rparr> seeds"
| "queue_cpi_built key program (CallReleaseVault a) seeds remaining_accounts =
     release_vault_cpi_build key program
       \<lparr>b_accounts = release_vault_map Some a, b_args = (),
        b_remaining = remaining_accounts\<rparr> seeds"
| "queue_cpi_built key program (CallSweepEscrowShares a) seeds remaining_accounts =
     sweep_escrow_shares_cpi_build key program
       \<lparr>b_accounts = sweep_escrow_shares_map Some a, b_args = (),
        b_remaining = remaining_accounts\<rparr> seeds"
| "queue_cpi_built key program (CallExpediteRequest a expected_sequence) seeds remaining_accounts =
     expedite_request_cpi_build key program
       \<lparr>b_accounts = expedite_request_map Some a, b_args = Some expected_sequence,
        b_remaining = remaining_accounts\<rparr> seeds"

primrec queue_call_map :: "('a \<Rightarrow> 'b) \<Rightarrow> 'a queue_call \<Rightarrow> 'b queue_call" where
  "queue_call_map f (CallInitializeQueue a cooldown_seconds) =
     CallInitializeQueue (initialize_queue_map f a) cooldown_seconds"
| "queue_call_map f (CallSetCooldown a seconds) =
     CallSetCooldown (set_cooldown_map f a) seconds"
| "queue_call_map f (CallSetFulfillmentWindow a seconds) =
     CallSetFulfillmentWindow (set_fulfillment_window_map f a) seconds"
| "queue_call_map f (CallRequestWithdrawal a request_id shares min_assets_out finalizer) =
     CallRequestWithdrawal (request_withdrawal_map f a) request_id shares min_assets_out finalizer"
| "queue_call_map f (CallFinalizeWithdrawal a expected_sequence) =
     CallFinalizeWithdrawal (finalize_withdrawal_map f a) expected_sequence"
| "queue_call_map f (CallCancelWithdrawal a expected_sequence) =
     CallCancelWithdrawal (cancel_withdrawal_map f a) expected_sequence"
| "queue_call_map f (CallReleaseVault a) =
     CallReleaseVault (release_vault_map f a)"
| "queue_call_map f (CallSweepEscrowShares a) =
     CallSweepEscrowShares (sweep_escrow_shares_map f a)"
| "queue_call_map f (CallExpediteRequest a expected_sequence) =
     CallExpediteRequest (expedite_request_map f a) expected_sequence"

section \<open>Bundles\<close>

lemmas vault_build_defs =
  initialize_config_build_def initialize_config_cpi_build_def initialize_config_map_def
  set_config_authority_build_def set_config_authority_cpi_build_def set_config_authority_map_def
  override_config_authority_build_def override_config_authority_cpi_build_def
  override_config_authority_map_def initialize_build_def initialize_cpi_build_def
  initialize_map_def deposit_build_def deposit_cpi_build_def deposit_map_def
  deposit_checked_build_def deposit_checked_cpi_build_def deposit_checked_map_def redeem_build_def
  redeem_cpi_build_def redeem_map_def redeem_checked_build_def redeem_checked_cpi_build_def
  redeem_checked_map_def operator_withdraw_build_def operator_withdraw_cpi_build_def
  operator_withdraw_map_def operator_deposit_build_def operator_deposit_cpi_build_def
  operator_deposit_map_def operator_update_aum_build_def operator_update_aum_cpi_build_def
  operator_update_aum_map_def register_subaccount_build_def register_subaccount_cpi_build_def
  register_subaccount_map_def settle_subaccount_loss_build_def settle_subaccount_loss_cpi_build_def
  settle_subaccount_loss_map_def deregister_subaccount_build_def
  deregister_subaccount_cpi_build_def deregister_subaccount_map_def set_withdrawal_fee_build_def
  set_withdrawal_fee_cpi_build_def set_withdrawal_fee_map_def nominate_admin_build_def
  nominate_admin_cpi_build_def nominate_admin_map_def accept_admin_nomination_build_def
  accept_admin_nomination_cpi_build_def accept_admin_nomination_map_def set_operator_build_def
  set_operator_cpi_build_def set_operator_map_def set_fee_recipient_build_def
  set_fee_recipient_cpi_build_def set_fee_recipient_map_def set_aum_limits_build_def
  set_aum_limits_cpi_build_def set_aum_limits_map_def attach_withdrawal_queue_build_def
  attach_withdrawal_queue_cpi_build_def attach_withdrawal_queue_map_def
  detach_withdrawal_queue_build_def detach_withdrawal_queue_cpi_build_def
  detach_withdrawal_queue_map_def pause_build_def pause_cpi_build_def pause_map_def
  unpause_build_def unpause_cpi_build_def unpause_map_def close_vault_build_def
  close_vault_cpi_build_def close_vault_map_def create_share_token_metadata_build_def
  create_share_token_metadata_cpi_build_def create_share_token_metadata_map_def
  update_share_token_metadata_build_def update_share_token_metadata_cpi_build_def
  update_share_token_metadata_map_def

lemmas vault_cpi_defs =
  initialize_config_cpi_def initialize_config_instruction_def initialize_config_map_def
  set_config_authority_cpi_def set_config_authority_instruction_def set_config_authority_map_def
  override_config_authority_cpi_def override_config_authority_instruction_def
  override_config_authority_map_def initialize_cpi_def initialize_instruction_def
  initialize_map_def deposit_cpi_def deposit_instruction_def deposit_map_def
  deposit_checked_cpi_def deposit_checked_instruction_def deposit_checked_map_def redeem_cpi_def
  redeem_instruction_def redeem_map_def redeem_checked_cpi_def redeem_checked_instruction_def
  redeem_checked_map_def operator_withdraw_cpi_def operator_withdraw_instruction_def
  operator_withdraw_map_def operator_deposit_cpi_def operator_deposit_instruction_def
  operator_deposit_map_def operator_update_aum_cpi_def operator_update_aum_instruction_def
  operator_update_aum_map_def register_subaccount_cpi_def register_subaccount_instruction_def
  register_subaccount_map_def settle_subaccount_loss_cpi_def settle_subaccount_loss_instruction_def
  settle_subaccount_loss_map_def deregister_subaccount_cpi_def
  deregister_subaccount_instruction_def deregister_subaccount_map_def set_withdrawal_fee_cpi_def
  set_withdrawal_fee_instruction_def set_withdrawal_fee_map_def nominate_admin_cpi_def
  nominate_admin_instruction_def nominate_admin_map_def accept_admin_nomination_cpi_def
  accept_admin_nomination_instruction_def accept_admin_nomination_map_def set_operator_cpi_def
  set_operator_instruction_def set_operator_map_def set_fee_recipient_cpi_def
  set_fee_recipient_instruction_def set_fee_recipient_map_def set_aum_limits_cpi_def
  set_aum_limits_instruction_def set_aum_limits_map_def attach_withdrawal_queue_cpi_def
  attach_withdrawal_queue_instruction_def attach_withdrawal_queue_map_def
  detach_withdrawal_queue_cpi_def detach_withdrawal_queue_instruction_def
  detach_withdrawal_queue_map_def pause_cpi_def pause_instruction_def pause_map_def unpause_cpi_def
  unpause_instruction_def unpause_map_def close_vault_cpi_def close_vault_instruction_def
  close_vault_map_def create_share_token_metadata_cpi_def
  create_share_token_metadata_instruction_def create_share_token_metadata_map_def
  update_share_token_metadata_cpi_def update_share_token_metadata_instruction_def
  update_share_token_metadata_map_def

lemmas vault_instruction_defs =
  initialize_config_instruction_def initialize_config_data_def set_config_authority_instruction_def
  set_config_authority_data_def override_config_authority_instruction_def
  override_config_authority_data_def initialize_instruction_def initialize_data_def
  deposit_instruction_def deposit_data_def deposit_checked_instruction_def deposit_checked_data_def
  redeem_instruction_def redeem_data_def redeem_checked_instruction_def redeem_checked_data_def
  operator_withdraw_instruction_def operator_withdraw_data_def operator_deposit_instruction_def
  operator_deposit_data_def operator_update_aum_instruction_def operator_update_aum_data_def
  register_subaccount_instruction_def register_subaccount_data_def
  settle_subaccount_loss_instruction_def settle_subaccount_loss_data_def
  deregister_subaccount_instruction_def deregister_subaccount_data_def
  set_withdrawal_fee_instruction_def set_withdrawal_fee_data_def nominate_admin_instruction_def
  nominate_admin_data_def accept_admin_nomination_instruction_def accept_admin_nomination_data_def
  set_operator_instruction_def set_operator_data_def set_fee_recipient_instruction_def
  set_fee_recipient_data_def set_aum_limits_instruction_def set_aum_limits_data_def
  attach_withdrawal_queue_instruction_def attach_withdrawal_queue_data_def
  detach_withdrawal_queue_instruction_def detach_withdrawal_queue_data_def pause_instruction_def
  pause_data_def unpause_instruction_def unpause_data_def close_vault_instruction_def
  close_vault_data_def create_share_token_metadata_instruction_def
  create_share_token_metadata_data_def update_share_token_metadata_instruction_def
  update_share_token_metadata_data_def

lemmas queue_build_defs =
  initialize_queue_build_def initialize_queue_cpi_build_def initialize_queue_map_def
  set_cooldown_build_def set_cooldown_cpi_build_def set_cooldown_map_def
  set_fulfillment_window_build_def set_fulfillment_window_cpi_build_def
  set_fulfillment_window_map_def request_withdrawal_build_def request_withdrawal_cpi_build_def
  request_withdrawal_map_def finalize_withdrawal_build_def finalize_withdrawal_cpi_build_def
  finalize_withdrawal_map_def cancel_withdrawal_build_def cancel_withdrawal_cpi_build_def
  cancel_withdrawal_map_def release_vault_build_def release_vault_cpi_build_def
  release_vault_map_def sweep_escrow_shares_build_def sweep_escrow_shares_cpi_build_def
  sweep_escrow_shares_map_def expedite_request_build_def expedite_request_cpi_build_def
  expedite_request_map_def

lemmas queue_cpi_defs =
  initialize_queue_cpi_def initialize_queue_instruction_def initialize_queue_map_def
  set_cooldown_cpi_def set_cooldown_instruction_def set_cooldown_map_def
  set_fulfillment_window_cpi_def set_fulfillment_window_instruction_def
  set_fulfillment_window_map_def request_withdrawal_cpi_def request_withdrawal_instruction_def
  request_withdrawal_map_def finalize_withdrawal_cpi_def finalize_withdrawal_instruction_def
  finalize_withdrawal_map_def cancel_withdrawal_cpi_def cancel_withdrawal_instruction_def
  cancel_withdrawal_map_def release_vault_cpi_def release_vault_instruction_def
  release_vault_map_def sweep_escrow_shares_cpi_def sweep_escrow_shares_instruction_def
  sweep_escrow_shares_map_def expedite_request_cpi_def expedite_request_instruction_def
  expedite_request_map_def

lemmas queue_instruction_defs =
  initialize_queue_instruction_def initialize_queue_data_def set_cooldown_instruction_def
  set_cooldown_data_def set_fulfillment_window_instruction_def set_fulfillment_window_data_def
  request_withdrawal_instruction_def request_withdrawal_data_def
  finalize_withdrawal_instruction_def finalize_withdrawal_data_def
  cancel_withdrawal_instruction_def cancel_withdrawal_data_def release_vault_instruction_def
  release_vault_data_def sweep_escrow_shares_instruction_def sweep_escrow_shares_data_def
  expedite_request_instruction_def expedite_request_data_def

section \<open>The layers agree\<close>

lemma vault_built_direct: "vault_built c remaining = vault_direct c remaining"
  by (cases c) (simp_all add: vault_build_defs Let_def)

lemma vault_cpi_built_cpi: "vault_cpi_built key program i seeds rs = vault_cpi key program i seeds rs"
  by (cases i) (simp_all add: vault_build_defs Let_def)

lemma vault_cpi_instruction:
  "map_sum id call_instruction (vault_cpi key program i seeds rs) =
   vault_direct (vault_call_map key i) (map (cpi_meta key) rs)"
  by (cases i) (simp_all add: vault_cpi_defs bindR_def split: option.splits sum.splits)

lemma queue_built_direct: "queue_built c remaining = queue_direct c remaining"
  by (cases c) (simp_all add: queue_build_defs Let_def)

lemma queue_cpi_built_cpi: "queue_cpi_built key program i seeds rs = queue_cpi key program i seeds rs"
  by (cases i) (simp_all add: queue_build_defs Let_def)

lemma queue_cpi_instruction:
  "map_sum id call_instruction (queue_cpi key program i seeds rs) =
   queue_direct (queue_call_map key i) (map (cpi_meta key) rs)"
  by (cases i) (simp_all add: queue_cpi_defs bindR_def split: option.splits sum.splits)

text \<open>
  For every instruction of both clients the four layers make the same instruction: a builder given
  all accounts and arguments builds what the struct does, the CPI builder makes the CPI struct's
  call, and the instruction inside that call is the struct's over the accounts' addresses, with the
  remaining accounts after it.
\<close>

theorem client_layers_agree:
  "vault_built c remaining = vault_direct c remaining \<and>
   vault_cpi_built key program i seeds rs = vault_cpi key program i seeds rs \<and>
   map_sum id call_instruction (vault_cpi key program i seeds rs) =
     vault_direct (vault_call_map key i) (map (cpi_meta key) rs) \<and>
   queue_built d remaining = queue_direct d remaining \<and>
   queue_cpi_built key program j seeds rs = queue_cpi key program j seeds rs \<and>
   map_sum id call_instruction (queue_cpi key program j seeds rs) =
     queue_direct (queue_call_map key j) (map (cpi_meta key) rs)"
  by (intro conjI vault_built_direct vault_cpi_built_cpi vault_cpi_instruction
      queue_built_direct queue_cpi_built_cpi queue_cpi_instruction)

lemma cpi_meta_keys [simp]: "am_pubkey ` cpi_meta key ` A = key ` fst ` A"
  by (simp add: image_image cpi_meta_def)

lemma vault_cpi_covered:
  assumes "vault_cpi key program i seeds rs = Inr call" and "key program = AUGUST_VAULT_ID"
  shows "program \<in> set (call_infos call) \<and>
    am_pubkey ` set (ix_accounts (call_instruction call)) \<subseteq> key ` set (call_infos call)"
  by (cases i; use assms in \<open>clarsimp simp: vault_cpi_defs meta_new_def meta_new_readonly_def
        image_Un subset_insertI2 split: option.splits\<close>)

lemma queue_cpi_covered:
  assumes "queue_cpi key program i seeds rs = Inr call"
  shows "program \<in> set (call_infos call) \<and>
    am_pubkey ` set (ix_accounts (call_instruction call)) \<subseteq> key ` set (call_infos call)"
  by (cases i; use assms in \<open>clarsimp simp: queue_cpi_defs meta_new_def meta_new_readonly_def
        image_Un subset_insertI2\<close>)

text \<open>
  A CPI hands the runtime the program and an account info for every account its instruction names,
  given the program's own info as \<open>program\<close>: an optional account that is left out is named by the
  program's id.
\<close>

theorem cpi_accounts_covered:
  assumes "vault_cpi key program i seeds rs = Inr call" and "key program = AUGUST_VAULT_ID"
  shows "program \<in> set (call_infos call) \<and>
    am_pubkey ` set (ix_accounts (call_instruction call)) \<subseteq> key ` set (call_infos call)"
  by (rule vault_cpi_covered [OF assms])

text \<open>
  The CPI builder's \<open>add_remaining_account(account, is_writable, is_signer)\<close> puts its flags where
  the CPI struct reads them the other way round: the account goes out with the signer flag the
  caller gave as writable, and the writable flag given as signer.
\<close>

theorem cpi_builder_swaps_flags:
  assumes "redeem_cpi_build key program (cpi_add_remaining_account account is_writable is_signer b)
      seeds = Inr call"
  shows "last (ix_accounts (call_instruction call)) =
    \<lparr>am_pubkey = key account, am_is_signer = is_writable, am_is_writable = is_signer\<rparr>"
  using assms
  by (auto simp: redeem_cpi_build_def redeem_cpi_def cpi_add_remaining_account_def cpi_meta_def Let_def)

section \<open>Witnesses\<close>

definition ex_redeem_call :: "nat option redeem_client" where
  "ex_redeem_call =
     \<lparr>crdm_vault_state = Some 1, crdm_vault_deposit_ata = Some 2, crdm_sender_token_account = Some 3,
      crdm_sender_share_account = Some 4, crdm_fee_recipient_account = Some 5,
      crdm_share_mint = Some 6, crdm_deposit_mint = Some 7, crdm_signer = Some 8,
      crdm_token_program = Some 9\<rparr>"

theorem cpi_builder_swaps_flags_witness:
  "\<exists>call. redeem_cpi_build of_nat 0 (cpi_add_remaining_account 10 True False
       \<lparr>b_accounts = ex_redeem_call, b_args = Some 500, b_remaining = []\<rparr>) [] = Inr call \<and>
     \<not> am_is_writable (last (ix_accounts (call_instruction call)))"
proof -
  obtain call where c: "redeem_cpi_build of_nat 0 (cpi_add_remaining_account 10 True False
       \<lparr>b_accounts = ex_redeem_call, b_args = Some 500, b_remaining = []\<rparr>) [] = Inr call"
    by (simp add: redeem_cpi_build_def cpi_add_remaining_account_def ex_redeem_call_def Let_def)
  from cpi_builder_swaps_flags [OF this] c show ?thesis by simp
qed

definition ex_withdraw_call :: "(pubkey, pubkey option) operator_withdraw_client" where
  "ex_withdraw_call =
     \<lparr>copw_vault_state = 1, copw_vault_deposit_ata = 2, copw_operator_token_account = 3,
      copw_deposit_mint = 4, copw_operator = 5, copw_token_program = 6, copw_subaccount = None\<rparr>"

theorem cpi_accounts_covered_witness:
  "\<exists>call. vault_cpi id AUGUST_VAULT_ID (CallOperatorWithdraw ex_withdraw_call 10) [] [] = Inr call \<and>
     AUGUST_VAULT_ID \<in> am_pubkey ` set (ix_accounts (call_instruction call)) \<and>
     AUGUST_VAULT_ID \<in> set (call_infos call)"
proof -
  obtain call where c: "vault_cpi id AUGUST_VAULT_ID (CallOperatorWithdraw ex_withdraw_call 10) [] [] = Inr call"
    by simp
  moreover have "AUGUST_VAULT_ID \<in> am_pubkey ` set (ix_accounts (call_instruction call))"
    using c by (auto simp: operator_withdraw_cpi_def ex_withdraw_call_def meta_new_readonly_def)
  ultimately show ?thesis using cpi_accounts_covered [OF c] by simp
qed

end
