(* ===== verification/Wire.thy ===== *)
theory Wire
  imports ClientLayers
begin

text \<open>
  From the client's bytes to the handler. The programs' side of the wire is Anchor's entry: the first
  eight bytes of the data pick the handler of \<open>lib.rs\<close>, its arguments are read from the rest in the
  order of its parameters, and its accounts are taken from the instruction's list in the order of its
  \<open>Accounts\<close> struct, each with the signer and writable flag its type and \<open>mut\<close> ask for. An optional
  account that is the program's own id, or that the list has run out for, is \<open>None\<close>. Accounts of
  the struct the handlers' models have no field for (the system program, the rent sysvar, the
  associated-token program, and what \<open>#[event_cpi]\<close> appends) are checked and dropped here.

  The discriminator of an entry is a hash of its name that Anchor computes, so it is a parameter
  \<open>D\<close>; the clients' constants pin it. An instruction Anchor refuses is \<open>None\<close>: its error is not
  modelled here. The signer flags are checked here as flags; that a flagged key has signed is the
  runtime's, and is \<open>signers\<close> of the transaction in the handlers.
\<close>

section \<open>Taking accounts\<close>

type_synonym 'a taker = "account_meta list \<Rightarrow> 'a option"

definition mut_account :: "(pubkey \<Rightarrow> 'a taker) \<Rightarrow> 'a taker" where
  "mut_account f ms =
     (case ms of [] \<Rightarrow> None
      | m # rest \<Rightarrow> if am_is_writable m then f (am_pubkey m) rest else None)"

definition readonly_account :: "(pubkey \<Rightarrow> 'a taker) \<Rightarrow> 'a taker" where
  "readonly_account f ms = (case ms of [] \<Rightarrow> None | m # rest \<Rightarrow> f (am_pubkey m) rest)"

definition mut_signer :: "(pubkey \<Rightarrow> 'a taker) \<Rightarrow> 'a taker" where
  "mut_signer f ms =
     (case ms of [] \<Rightarrow> None
      | m # rest \<Rightarrow>
          if am_is_signer m \<and> am_is_writable m then f (am_pubkey m) rest else None)"

definition readonly_signer :: "(pubkey \<Rightarrow> 'a taker) \<Rightarrow> 'a taker" where
  "readonly_signer f ms =
     (case ms of [] \<Rightarrow> None
      | m # rest \<Rightarrow> if am_is_signer m then f (am_pubkey m) rest else None)"

definition fixed_account :: "pubkey \<Rightarrow> 'a taker \<Rightarrow> 'a taker" where
  "fixed_account k f ms =
     (case ms of [] \<Rightarrow> None | m # rest \<Rightarrow> if am_pubkey m = k then f rest else None)"

definition optional_mut :: "pubkey \<Rightarrow> (pubkey option \<Rightarrow> 'a taker) \<Rightarrow> 'a taker" where
  "optional_mut program f ms =
     (case ms of [] \<Rightarrow> f None []
      | m # rest \<Rightarrow>
          if am_pubkey m = program then f None rest
          else if am_is_writable m then f (Some (am_pubkey m)) rest else None)"

text \<open>What is left over is \<open>ctx.remaining_accounts\<close>, which no handler reads.\<close>

definition end_of_accounts :: "'a \<Rightarrow> 'a taker" where
  "end_of_accounts a rest = Some a"

lemmas taker_defs =
  mut_account_def readonly_account_def mut_signer_def readonly_signer_def fixed_account_def
  optional_mut_def end_of_accounts_def meta_new_def meta_new_readonly_def

type_synonym entry = "account_meta list \<Rightarrow> u8 list \<Rightarrow> instruction option"

text \<open>\<open>#[event_cpi]\<close>'s authority, a derived address of the queue program.\<close>

definition event_authority :: "env \<Rightarrow> pubkey" where
  "event_authority E =
     fst (find_program_address E [ascii ''__event_authority''] WITHDRAWAL_QUEUE_PROGRAM_ID)"

section \<open>The account lists of august_vault\<close>

definition initialize_config_parse :: "account_meta list \<Rightarrow> initialize_config_accounts option" where
  "initialize_config_parse =
     readonly_signer (\<lambda>upgrade_authority.
     readonly_account (\<lambda>program_data.
     mut_signer (\<lambda>payer.
     mut_account (\<lambda>program_config.
     fixed_account SYSTEM_PROGRAM (
     end_of_accounts
       \<lparr>ic_upgrade_authority = upgrade_authority, ic_program_data = program_data,
         ic_payer = payer, ic_program_config = program_config\<rparr>)))))"

definition set_config_authority_parse :: "account_meta list \<Rightarrow> config_authority_accounts option" where
  "set_config_authority_parse =
     mut_account (\<lambda>program_config.
     readonly_signer (\<lambda>authority.
     end_of_accounts
       \<lparr>ca_program_config = program_config, ca_authority = authority\<rparr>))"

definition override_config_authority_parse :: "account_meta list \<Rightarrow> override_config_accounts option" where
  "override_config_authority_parse =
     mut_account (\<lambda>program_config.
     readonly_signer (\<lambda>upgrade_authority.
     readonly_account (\<lambda>program_data.
     end_of_accounts
       \<lparr>oc_program_config = program_config, oc_upgrade_authority = upgrade_authority,
         oc_program_data = program_data\<rparr>)))"

definition initialize_parse :: "account_meta list \<Rightarrow> initialize_accounts option" where
  "initialize_parse =
     readonly_account (\<lambda>program_config.
     readonly_signer (\<lambda>signer.
     mut_signer (\<lambda>payer.
     readonly_account (\<lambda>deposit_mint.
     mut_account (\<lambda>vault_state.
     mut_account (\<lambda>share_mint.
     mut_account (\<lambda>vault_token_ata.
     fixed_account SYSTEM_PROGRAM (
     readonly_account (\<lambda>token_program.
     fixed_account SYSVAR_RENT (
     end_of_accounts
       \<lparr>ini_program_config = program_config, ini_signer = signer, ini_payer = payer,
         ini_deposit_mint = deposit_mint, ini_vault_state = vault_state,
         ini_share_mint = share_mint, ini_vault_token_ata = vault_token_ata,
         ini_token_program = token_program\<rparr>))))))))))"

definition deposit_parse :: "account_meta list \<Rightarrow> deposit_accounts option" where
  "deposit_parse =
     mut_account (\<lambda>vault_state.
     mut_account (\<lambda>vault_token_ata.
     mut_account (\<lambda>sender_token_account.
     mut_account (\<lambda>sender_share_account.
     mut_account (\<lambda>share_mint.
     readonly_account (\<lambda>deposit_mint.
     readonly_signer (\<lambda>signer.
     readonly_account (\<lambda>token_program.
     end_of_accounts
       \<lparr>dep_vault_state = vault_state, dep_vault_token_ata = vault_token_ata,
         dep_sender_token_account = sender_token_account,
         dep_sender_share_account = sender_share_account, dep_share_mint = share_mint,
         dep_deposit_mint = deposit_mint, dep_signer = signer, dep_token_program = token_program\<rparr>))))))))"

definition redeem_parse :: "account_meta list \<Rightarrow> redeem_accounts option" where
  "redeem_parse =
     mut_account (\<lambda>vault_state.
     mut_account (\<lambda>vault_deposit_ata.
     mut_account (\<lambda>sender_token_account.
     mut_account (\<lambda>sender_share_account.
     mut_account (\<lambda>fee_recipient_account.
     mut_account (\<lambda>share_mint.
     readonly_account (\<lambda>deposit_mint.
     readonly_signer (\<lambda>signer.
     readonly_account (\<lambda>token_program.
     end_of_accounts
       \<lparr>red_vault_state = vault_state, red_vault_deposit_ata = vault_deposit_ata,
         red_sender_token_account = sender_token_account,
         red_sender_share_account = sender_share_account,
         red_fee_recipient_account = fee_recipient_account, red_share_mint = share_mint,
         red_deposit_mint = deposit_mint, red_signer = signer, red_token_program = token_program\<rparr>)))))))))"

definition operator_withdraw_parse :: "account_meta list \<Rightarrow> operator_accounts option" where
  "operator_withdraw_parse =
     mut_account (\<lambda>vault_state.
     mut_account (\<lambda>vault_deposit_ata.
     mut_account (\<lambda>operator_token_account.
     readonly_account (\<lambda>deposit_mint.
     readonly_signer (\<lambda>operator.
     readonly_account (\<lambda>token_program.
     optional_mut VAULT_PROGRAM_ID (\<lambda>subaccount.
     end_of_accounts
       \<lparr>oa_vault_state = vault_state, oa_vault_deposit_ata = vault_deposit_ata,
         oa_operator_token_account = operator_token_account, oa_deposit_mint = deposit_mint,
         oa_operator = operator, oa_token_program = token_program, oa_subaccount = subaccount\<rparr>)))))))"

definition operator_deposit_parse :: "account_meta list \<Rightarrow> operator_accounts option" where
  "operator_deposit_parse =
     mut_account (\<lambda>vault_state.
     mut_account (\<lambda>vault_deposit_ata.
     mut_account (\<lambda>operator_token_account.
     readonly_account (\<lambda>deposit_mint.
     readonly_signer (\<lambda>operator.
     readonly_account (\<lambda>token_program.
     optional_mut VAULT_PROGRAM_ID (\<lambda>subaccount.
     end_of_accounts
       \<lparr>oa_vault_state = vault_state, oa_vault_deposit_ata = vault_deposit_ata,
         oa_operator_token_account = operator_token_account, oa_deposit_mint = deposit_mint,
         oa_operator = operator, oa_token_program = token_program, oa_subaccount = subaccount\<rparr>)))))))"

definition operator_update_aum_parse :: "account_meta list \<Rightarrow> update_aum_accounts option" where
  "operator_update_aum_parse =
     mut_account (\<lambda>vault_state.
     readonly_account (\<lambda>deposit_mint.
     readonly_signer (\<lambda>operator.
     end_of_accounts
       \<lparr>ua_vault_state = vault_state, ua_deposit_mint = deposit_mint, ua_operator = operator\<rparr>)))"

definition register_subaccount_parse :: "account_meta list \<Rightarrow> register_accounts option" where
  "register_subaccount_parse =
     mut_account (\<lambda>vault_state.
     mut_account (\<lambda>subaccount.
     readonly_account (\<lambda>deposit_mint.
     readonly_account (\<lambda>subaccount_ata.
     readonly_account (\<lambda>token_program.
     mut_signer (\<lambda>admin.
     fixed_account SYSTEM_PROGRAM (
     end_of_accounts
       \<lparr>rs_vault_state = vault_state, rs_subaccount = subaccount, rs_deposit_mint = deposit_mint,
         rs_subaccount_ata = subaccount_ata, rs_token_program = token_program, rs_admin = admin\<rparr>)))))))"

definition settle_subaccount_loss_parse :: "account_meta list \<Rightarrow> settle_accounts option" where
  "settle_subaccount_loss_parse =
     mut_account (\<lambda>vault_state.
     mut_account (\<lambda>subaccount.
     readonly_account (\<lambda>deposit_mint.
     readonly_account (\<lambda>subaccount_ata.
     readonly_account (\<lambda>token_program.
     readonly_signer (\<lambda>admin.
     end_of_accounts
       \<lparr>se_vault_state = vault_state, se_subaccount = subaccount, se_deposit_mint = deposit_mint,
         se_subaccount_ata = subaccount_ata, se_token_program = token_program, se_admin = admin\<rparr>))))))"

definition deregister_subaccount_parse :: "account_meta list \<Rightarrow> deregister_accounts option" where
  "deregister_subaccount_parse =
     mut_account (\<lambda>vault_state.
     mut_account (\<lambda>subaccount.
     readonly_account (\<lambda>deposit_mint.
     mut_signer (\<lambda>admin.
     end_of_accounts
       \<lparr>ds_vault_state = vault_state, ds_subaccount = subaccount, ds_deposit_mint = deposit_mint,
         ds_admin = admin\<rparr>))))"

definition set_withdrawal_fee_parse :: "account_meta list \<Rightarrow> admin_accounts option" where
  "set_withdrawal_fee_parse =
     mut_account (\<lambda>vault_state.
     readonly_account (\<lambda>deposit_mint.
     readonly_signer (\<lambda>admin.
     end_of_accounts
       \<lparr>adm_vault_state = vault_state, adm_deposit_mint = deposit_mint, adm_admin = admin\<rparr>)))"

definition nominate_admin_parse :: "account_meta list \<Rightarrow> nominate_accounts option" where
  "nominate_admin_parse =
     readonly_account (\<lambda>vault_state.
     readonly_account (\<lambda>deposit_mint.
     mut_account (\<lambda>nominated_admin_pda.
     readonly_signer (\<lambda>admin.
     mut_signer (\<lambda>payer.
     fixed_account SYSTEM_PROGRAM (
     end_of_accounts
       \<lparr>na_vault_state = vault_state, na_deposit_mint = deposit_mint,
         na_nominated_admin_pda = nominated_admin_pda, na_admin = admin, na_payer = payer\<rparr>))))))"

definition accept_admin_nomination_parse :: "account_meta list \<Rightarrow> accept_accounts option" where
  "accept_admin_nomination_parse =
     mut_account (\<lambda>vault_state.
     readonly_account (\<lambda>deposit_mint.
     mut_account (\<lambda>nominated_admin_pda.
     readonly_signer (\<lambda>new_admin.
     mut_account (\<lambda>receiver.
     fixed_account SYSTEM_PROGRAM (
     end_of_accounts
       \<lparr>aa_vault_state = vault_state, aa_deposit_mint = deposit_mint,
         aa_nominated_admin_pda = nominated_admin_pda, aa_new_admin = new_admin,
         aa_receiver = receiver\<rparr>))))))"

definition set_operator_parse :: "account_meta list \<Rightarrow> admin_accounts option" where
  "set_operator_parse =
     mut_account (\<lambda>vault_state.
     readonly_account (\<lambda>deposit_mint.
     readonly_signer (\<lambda>admin.
     end_of_accounts
       \<lparr>adm_vault_state = vault_state, adm_deposit_mint = deposit_mint, adm_admin = admin\<rparr>)))"

definition set_fee_recipient_parse :: "account_meta list \<Rightarrow> admin_accounts option" where
  "set_fee_recipient_parse =
     mut_account (\<lambda>vault_state.
     readonly_account (\<lambda>deposit_mint.
     readonly_signer (\<lambda>admin.
     end_of_accounts
       \<lparr>adm_vault_state = vault_state, adm_deposit_mint = deposit_mint, adm_admin = admin\<rparr>)))"

definition set_aum_limits_parse :: "account_meta list \<Rightarrow> admin_accounts option" where
  "set_aum_limits_parse =
     mut_account (\<lambda>vault_state.
     readonly_account (\<lambda>deposit_mint.
     readonly_signer (\<lambda>admin.
     end_of_accounts
       \<lparr>adm_vault_state = vault_state, adm_deposit_mint = deposit_mint, adm_admin = admin\<rparr>)))"

definition attach_withdrawal_queue_parse :: "account_meta list \<Rightarrow> gate_accounts option" where
  "attach_withdrawal_queue_parse =
     mut_account (\<lambda>vault_state.
     readonly_account (\<lambda>deposit_mint.
     readonly_signer (\<lambda>admin.
     readonly_account (\<lambda>queue.
     end_of_accounts
       \<lparr>ga_vault_state = vault_state, ga_deposit_mint = deposit_mint, ga_admin = admin,
         ga_queue = queue\<rparr>))))"

definition detach_withdrawal_queue_parse :: "account_meta list \<Rightarrow> gate_accounts option" where
  "detach_withdrawal_queue_parse =
     mut_account (\<lambda>vault_state.
     readonly_account (\<lambda>deposit_mint.
     readonly_signer (\<lambda>admin.
     readonly_signer (\<lambda>queue.
     end_of_accounts
       \<lparr>ga_vault_state = vault_state, ga_deposit_mint = deposit_mint, ga_admin = admin,
         ga_queue = queue\<rparr>))))"

definition pause_parse :: "account_meta list \<Rightarrow> admin_accounts option" where
  "pause_parse =
     mut_account (\<lambda>vault_state.
     readonly_account (\<lambda>deposit_mint.
     readonly_signer (\<lambda>admin.
     end_of_accounts
       \<lparr>adm_vault_state = vault_state, adm_deposit_mint = deposit_mint, adm_admin = admin\<rparr>)))"

definition unpause_parse :: "account_meta list \<Rightarrow> admin_accounts option" where
  "unpause_parse =
     mut_account (\<lambda>vault_state.
     readonly_account (\<lambda>deposit_mint.
     readonly_signer (\<lambda>admin.
     end_of_accounts
       \<lparr>adm_vault_state = vault_state, adm_deposit_mint = deposit_mint, adm_admin = admin\<rparr>)))"

definition close_vault_parse :: "account_meta list \<Rightarrow> close_accounts option" where
  "close_vault_parse =
     mut_account (\<lambda>vault_state.
     mut_account (\<lambda>share_mint.
     mut_account (\<lambda>vault_token_ata.
     readonly_account (\<lambda>deposit_mint.
     mut_signer (\<lambda>admin.
     readonly_account (\<lambda>token_program.
     end_of_accounts
       \<lparr>cl_vault_state = vault_state, cl_share_mint = share_mint,
         cl_vault_token_ata = vault_token_ata, cl_deposit_mint = deposit_mint, cl_admin = admin,
         cl_token_program = token_program\<rparr>))))))"

definition create_share_token_metadata_parse :: "account_meta list \<Rightarrow> metadata_accounts option" where
  "create_share_token_metadata_parse =
     mut_signer (\<lambda>payer.
     readonly_signer (\<lambda>admin.
     readonly_account (\<lambda>vault_state.
     readonly_account (\<lambda>deposit_mint.
     readonly_account (\<lambda>share_mint.
     mut_account (\<lambda>metadata_account.
     readonly_account (\<lambda>token_program.
     readonly_account (\<lambda>token_metadata_program.
     fixed_account SYSTEM_PROGRAM (
     fixed_account SYSVAR_RENT (
     end_of_accounts
       \<lparr>me_payer = payer, me_admin = admin, me_vault_state = vault_state,
         me_deposit_mint = deposit_mint, me_share_mint = share_mint,
         me_metadata_account = metadata_account, me_token_program = token_program,
         me_token_metadata_program = token_metadata_program\<rparr>))))))))))"

definition update_share_token_metadata_parse :: "account_meta list \<Rightarrow> metadata_accounts option" where
  "update_share_token_metadata_parse =
     readonly_signer (\<lambda>admin.
     readonly_account (\<lambda>vault_state.
     readonly_account (\<lambda>deposit_mint.
     readonly_account (\<lambda>share_mint.
     mut_account (\<lambda>metadata_account.
     readonly_account (\<lambda>token_program.
     readonly_account (\<lambda>token_metadata_program.
     end_of_accounts
       \<lparr>me_payer = default_key, me_admin = admin, me_vault_state = vault_state,
         me_deposit_mint = deposit_mint, me_share_mint = share_mint,
         me_metadata_account = metadata_account, me_token_program = token_program,
         me_token_metadata_program = token_metadata_program\<rparr>)))))))"

section \<open>The account lists of august_withdrawal_queue\<close>

definition initialize_queue_parse :: "env \<Rightarrow> account_meta list \<Rightarrow> initialize_queue_accounts option" where
  "initialize_queue_parse E =
     readonly_account (\<lambda>vault_state.
     readonly_signer (\<lambda>admin.
     mut_signer (\<lambda>payer.
     readonly_account (\<lambda>deposit_mint.
     readonly_account (\<lambda>share_mint.
     mut_account (\<lambda>queue.
     mut_account (\<lambda>escrow_shares.
     mut_account (\<lambda>escrow_assets.
     readonly_account (\<lambda>token_program.
     fixed_account ASSOCIATED_TOKEN_PROGRAM (
     fixed_account SYSTEM_PROGRAM (
     fixed_account (event_authority E) (
     fixed_account WITHDRAWAL_QUEUE_PROGRAM_ID (
     end_of_accounts
       \<lparr>iq_vault_state = vault_state, iq_admin = admin, iq_payer = payer,
         iq_deposit_mint = deposit_mint, iq_share_mint = share_mint, iq_queue = queue,
         iq_escrow_shares = escrow_shares, iq_escrow_assets = escrow_assets,
         iq_token_program = token_program\<rparr>)))))))))))))"

definition queue_admin_parse :: "env \<Rightarrow> account_meta list \<Rightarrow> queue_admin_accounts option" where
  "queue_admin_parse E =
     mut_account (\<lambda>queue.
     readonly_account (\<lambda>vault_state.
     readonly_signer (\<lambda>admin.
     fixed_account (event_authority E) (
     fixed_account WITHDRAWAL_QUEUE_PROGRAM_ID (
     end_of_accounts
       \<lparr>qa_queue = queue, qa_vault_state = vault_state, qa_admin = admin\<rparr>)))))"

definition request_withdrawal_parse :: "env \<Rightarrow> account_meta list \<Rightarrow> request_accounts option" where
  "request_withdrawal_parse E =
     mut_account (\<lambda>queue.
     readonly_account (\<lambda>vault_state.
     mut_signer (\<lambda>owner.
     mut_account (\<lambda>owner_share_account.
     mut_account (\<lambda>escrow_shares.
     readonly_account (\<lambda>share_mint.
     readonly_account (\<lambda>recipient_token_account.
     mut_account (\<lambda>request.
     readonly_account (\<lambda>token_program.
     fixed_account SYSTEM_PROGRAM (
     fixed_account (event_authority E) (
     fixed_account WITHDRAWAL_QUEUE_PROGRAM_ID (
     end_of_accounts
       \<lparr>rw_queue = queue, rw_vault_state = vault_state, rw_owner = owner,
         rw_owner_share_account = owner_share_account, rw_escrow_shares = escrow_shares,
         rw_share_mint = share_mint, rw_recipient_token_account = recipient_token_account,
         rw_request = request, rw_token_program = token_program\<rparr>))))))))))))"

definition finalize_withdrawal_parse :: "env \<Rightarrow> account_meta list \<Rightarrow> finalize_accounts option" where
  "finalize_withdrawal_parse E =
     mut_account (\<lambda>queue.
     mut_account (\<lambda>vault_state.
     mut_account (\<lambda>vault_deposit_ata.
     mut_account (\<lambda>fee_recipient_account.
     mut_account (\<lambda>escrow_shares.
     mut_account (\<lambda>escrow_assets.
     mut_account (\<lambda>share_mint.
     readonly_account (\<lambda>deposit_mint.
     readonly_signer (\<lambda>finalizer.
     mut_account (\<lambda>request.
     mut_account (\<lambda>owner.
     mut_account (\<lambda>recipient_token_account.
     readonly_account (\<lambda>vault_program.
     readonly_account (\<lambda>token_program.
     fixed_account (event_authority E) (
     fixed_account WITHDRAWAL_QUEUE_PROGRAM_ID (
     end_of_accounts
       \<lparr>fw_queue = queue, fw_vault_state = vault_state, fw_vault_deposit_ata = vault_deposit_ata,
         fw_fee_recipient_account = fee_recipient_account, fw_escrow_shares = escrow_shares,
         fw_escrow_assets = escrow_assets, fw_share_mint = share_mint,
         fw_deposit_mint = deposit_mint, fw_finalizer = finalizer, fw_request = request,
         fw_owner = owner, fw_recipient_token_account = recipient_token_account,
         fw_vault_program = vault_program, fw_token_program = token_program\<rparr>))))))))))))))))"

definition cancel_withdrawal_parse :: "env \<Rightarrow> account_meta list \<Rightarrow> cancel_accounts option" where
  "cancel_withdrawal_parse E =
     mut_account (\<lambda>queue.
     mut_signer (\<lambda>owner.
     mut_account (\<lambda>request.
     mut_account (\<lambda>escrow_shares.
     readonly_account (\<lambda>share_mint.
     mut_account (\<lambda>destination_share_account.
     readonly_account (\<lambda>token_program.
     fixed_account (event_authority E) (
     fixed_account WITHDRAWAL_QUEUE_PROGRAM_ID (
     end_of_accounts
       \<lparr>cw_queue = queue, cw_owner = owner, cw_request = request,
         cw_escrow_shares = escrow_shares, cw_share_mint = share_mint,
         cw_destination_share_account = destination_share_account, cw_token_program = token_program\<rparr>)))))))))"

definition release_vault_parse :: "env \<Rightarrow> account_meta list \<Rightarrow> release_accounts option" where
  "release_vault_parse E =
     readonly_account (\<lambda>queue.
     mut_account (\<lambda>vault_state.
     readonly_account (\<lambda>deposit_mint.
     readonly_signer (\<lambda>admin.
     readonly_account (\<lambda>vault_program.
     fixed_account (event_authority E) (
     fixed_account WITHDRAWAL_QUEUE_PROGRAM_ID (
     end_of_accounts
       \<lparr>rv_queue = queue, rv_vault_state = vault_state, rv_deposit_mint = deposit_mint,
         rv_admin = admin, rv_vault_program = vault_program\<rparr>)))))))"

definition sweep_escrow_shares_parse :: "env \<Rightarrow> account_meta list \<Rightarrow> sweep_accounts option" where
  "sweep_escrow_shares_parse E =
     readonly_account (\<lambda>queue.
     readonly_account (\<lambda>vault_state.
     readonly_signer (\<lambda>admin.
     mut_account (\<lambda>escrow_shares.
     readonly_account (\<lambda>share_mint.
     mut_account (\<lambda>destination.
     readonly_account (\<lambda>token_program.
     fixed_account (event_authority E) (
     fixed_account WITHDRAWAL_QUEUE_PROGRAM_ID (
     end_of_accounts
       \<lparr>sw_queue = queue, sw_vault_state = vault_state, sw_admin = admin,
         sw_escrow_shares = escrow_shares, sw_share_mint = share_mint,
         sw_destination = destination, sw_token_program = token_program\<rparr>)))))))))"

definition expedite_request_parse :: "env \<Rightarrow> account_meta list \<Rightarrow> expedite_accounts option" where
  "expedite_request_parse E =
     readonly_account (\<lambda>queue.
     readonly_account (\<lambda>vault_state.
     readonly_signer (\<lambda>authority.
     mut_account (\<lambda>request.
     fixed_account (event_authority E) (
     fixed_account WITHDRAWAL_QUEUE_PROGRAM_ID (
     end_of_accounts
       \<lparr>xp_queue = queue, xp_vault_state = vault_state, xp_authority = authority,
         xp_request = request\<rparr>))))))"

section \<open>The entry points\<close>

definition vault_entries :: "env \<Rightarrow> (string \<times> entry) list" where
  "vault_entries E =
     [(''initialize_config'', \<lambda>ms.
        reading get_key (\<lambda>authority _. map_option (\<lambda>A. Setup (InitializeConfig A authority)) (initialize_config_parse ms))),
      (''set_config_authority'', \<lambda>ms.
        reading get_key (\<lambda>new_authority _. map_option (\<lambda>A. Setup (SetConfigAuthority A new_authority)) (set_config_authority_parse ms))),
      (''override_config_authority'', \<lambda>ms.
        reading get_key (\<lambda>new_authority _. map_option (\<lambda>A. Setup (OverrideConfigAuthority A new_authority)) (override_config_authority_parse ms))),
      (''initialize'', \<lambda>ms.
        reading get_key (\<lambda>admin. reading get_key (\<lambda>operator. reading get_key (\<lambda>fee_recipient. reading get_u8 (\<lambda>vault_version. reading (get_word 8) (\<lambda>offset _. map_option (\<lambda>A. Setup (Initialize A admin operator fee_recipient vault_version offset)) (initialize_parse ms))))))),
      (''deposit'', \<lambda>ms.
        reading (get_word 8) (\<lambda>amount _. map_option (\<lambda>A. User (Deposit A amount)) (deposit_parse ms))),
      (''deposit_checked'', \<lambda>ms.
        reading (get_word 8) (\<lambda>amount. reading (get_word 8) (\<lambda>min_shares_out _. map_option (\<lambda>A. User (DepositChecked A amount min_shares_out)) (deposit_parse ms)))),
      (''redeem'', \<lambda>ms.
        reading (get_word 8) (\<lambda>shares _. map_option (\<lambda>A. User (Redeem A shares)) (redeem_parse ms))),
      (''redeem_checked'', \<lambda>ms.
        reading (get_word 8) (\<lambda>shares. reading (get_word 8) (\<lambda>min_assets_out _. map_option (\<lambda>A. User (RedeemChecked A shares min_assets_out)) (redeem_parse ms)))),
      (''operator_withdraw'', \<lambda>ms.
        reading (get_word 8) (\<lambda>amount _. map_option (\<lambda>A. Operator (OperatorWithdraw A amount)) (operator_withdraw_parse ms))),
      (''operator_deposit'', \<lambda>ms.
        reading (get_word 8) (\<lambda>amount _. map_option (\<lambda>A. Operator (OperatorDeposit A amount)) (operator_deposit_parse ms))),
      (''operator_update_aum'', \<lambda>ms.
        reading (get_word 8) (\<lambda>new_aum _. map_option (\<lambda>A. Operator (OperatorUpdateAum A new_aum)) (operator_update_aum_parse ms))),
      (''register_subaccount'', \<lambda>ms.
        reading get_key (\<lambda>address _. map_option (\<lambda>A. Registry (RegisterSubaccount A address)) (register_subaccount_parse ms))),
      (''settle_subaccount_loss'', \<lambda>ms.
        reading (get_word 8) (\<lambda>amount _. map_option (\<lambda>A. Registry (SettleSubaccountLoss A amount)) (settle_subaccount_loss_parse ms))),
      (''deregister_subaccount'', \<lambda>ms.
        (\<lambda>_. map_option (\<lambda>A. Registry (DeregisterSubaccount A)) (deregister_subaccount_parse ms))),
      (''set_withdrawal_fee'', \<lambda>ms.
        reading (get_word 4) (\<lambda>new_fee _. map_option (\<lambda>A. Admin (Setting A (SetWithdrawalFee new_fee))) (set_withdrawal_fee_parse ms))),
      (''nominate_admin'', \<lambda>ms.
        reading get_key (\<lambda>new_admin _. map_option (\<lambda>A. Admin (NominateAdmin A new_admin)) (nominate_admin_parse ms))),
      (''accept_admin_nomination'', \<lambda>ms.
        (\<lambda>_. map_option (\<lambda>A. Admin (AcceptAdminNomination A)) (accept_admin_nomination_parse ms))),
      (''set_operator'', \<lambda>ms.
        reading get_key (\<lambda>new_operator _. map_option (\<lambda>A. Admin (Setting A (SetOperator new_operator))) (set_operator_parse ms))),
      (''set_fee_recipient'', \<lambda>ms.
        reading get_key (\<lambda>new_fee_recipient _. map_option (\<lambda>A. Admin (Setting A (SetFeeRecipient new_fee_recipient))) (set_fee_recipient_parse ms))),
      (''set_aum_limits'', \<lambda>ms.
        reading (get_word 4) (\<lambda>increase_limit. reading (get_word 4) (\<lambda>decrease_limit _. map_option (\<lambda>A. Admin (Setting A (SetAumLimits increase_limit decrease_limit))) (set_aum_limits_parse ms)))),
      (''attach_withdrawal_queue'', \<lambda>ms.
        (\<lambda>_. map_option (\<lambda>A. Admin (AttachWithdrawalQueue A)) (attach_withdrawal_queue_parse ms))),
      (''detach_withdrawal_queue'', \<lambda>ms.
        (\<lambda>_. map_option (\<lambda>A. Admin (DetachWithdrawalQueue A)) (detach_withdrawal_queue_parse ms))),
      (''pause'', \<lambda>ms.
        (\<lambda>_. map_option (\<lambda>A. Admin (Setting A Pause)) (pause_parse ms))),
      (''unpause'', \<lambda>ms.
        (\<lambda>_. map_option (\<lambda>A. Admin (Setting A Unpause)) (unpause_parse ms))),
      (''close_vault'', \<lambda>ms.
        (\<lambda>_. map_option (\<lambda>A. Admin (CloseVault A)) (close_vault_parse ms))),
      (''create_share_token_metadata'', \<lambda>ms.
        reading get_string (\<lambda>name. reading get_string (\<lambda>symbol. reading get_string (\<lambda>uri _. map_option (\<lambda>A. Metadata (CreateShareTokenMetadata A name symbol uri)) (create_share_token_metadata_parse ms))))),
      (''update_share_token_metadata'', \<lambda>ms.
        reading get_string (\<lambda>name. reading get_string (\<lambda>symbol. reading get_string (\<lambda>uri _. map_option (\<lambda>A. Metadata (UpdateShareTokenMetadata A name symbol uri)) (update_share_token_metadata_parse ms)))))]"

definition queue_entries :: "env \<Rightarrow> (string \<times> entry) list" where
  "queue_entries E =
     [(''initialize_queue'', \<lambda>ms.
        reading (get_word 8) (\<lambda>cooldown_seconds _. map_option (\<lambda>A. Queue (InitializeQueue A cooldown_seconds)) (initialize_queue_parse E ms))),
      (''set_cooldown'', \<lambda>ms.
        reading (get_word 8) (\<lambda>seconds _. map_option (\<lambda>A. Queue (SetCooldown A seconds)) (queue_admin_parse E ms))),
      (''set_fulfillment_window'', \<lambda>ms.
        reading (get_word 8) (\<lambda>seconds _. map_option (\<lambda>A. Queue (SetFulfillmentWindow A seconds)) (queue_admin_parse E ms))),
      (''request_withdrawal'', \<lambda>ms.
        reading (get_word 8) (\<lambda>request_id. reading (get_word 8) (\<lambda>shares. reading (get_word 8) (\<lambda>min_assets_out. reading get_key (\<lambda>finalizer _. map_option (\<lambda>A. Queue (RequestWithdrawal A request_id shares min_assets_out finalizer)) (request_withdrawal_parse E ms)))))),
      (''finalize_withdrawal'', \<lambda>ms.
        reading (get_word 8) (\<lambda>expected_sequence _. map_option (\<lambda>A. Queue (FinalizeWithdrawal A expected_sequence)) (finalize_withdrawal_parse E ms))),
      (''cancel_withdrawal'', \<lambda>ms.
        reading (get_word 8) (\<lambda>expected_sequence _. map_option (\<lambda>A. Queue (CancelWithdrawal A expected_sequence)) (cancel_withdrawal_parse E ms))),
      (''release_vault'', \<lambda>ms.
        (\<lambda>_. map_option (\<lambda>A. Queue (ReleaseVault A)) (release_vault_parse E ms))),
      (''sweep_escrow_shares'', \<lambda>ms.
        (\<lambda>_. map_option (\<lambda>A. Queue (SweepEscrowShares A)) (sweep_escrow_shares_parse E ms))),
      (''expedite_request'', \<lambda>ms.
        reading (get_word 8) (\<lambda>expected_sequence _. map_option (\<lambda>A. Queue (ExpediteRequest A expected_sequence)) (expedite_request_parse E ms)))]"

section \<open>The instruction a call is for\<close>

text \<open>
  The handler and the accounts by name: what the client's caller means. \<open>known\<close> says the accounts
  the caller does not choose are the well-known ones, and that an optional account is not the
  program itself, which stands for "none" on the wire.
\<close>

primrec vault_target :: "pubkey vault_call \<Rightarrow> instruction" where
  "vault_target (CallInitializeConfig a authority) =
     Setup (InitializeConfig 
       \<lparr>ic_upgrade_authority = cinc_upgrade_authority a, ic_program_data = cinc_program_data a,
        ic_payer = cinc_payer a, ic_program_config = cinc_program_config a\<rparr> authority)"
| "vault_target (CallSetConfigAuthority a new_authority) =
     Setup (SetConfigAuthority 
       \<lparr>ca_program_config = csca_program_config a, ca_authority = csca_authority a\<rparr> new_authority)"
| "vault_target (CallOverrideConfigAuthority a new_authority) =
     Setup (OverrideConfigAuthority 
       \<lparr>oc_program_config = covc_program_config a, oc_upgrade_authority = covc_upgrade_authority a,
        oc_program_data = covc_program_data a\<rparr> new_authority)"
| "vault_target (CallInitialize a admin operator fee_recipient vault_version offset) =
     Setup (Initialize 
       \<lparr>ini_program_config = cinv_program_config a, ini_signer = cinv_signer a,
        ini_payer = cinv_payer a, ini_deposit_mint = cinv_deposit_mint a,
        ini_vault_state = cinv_vault_state a, ini_share_mint = cinv_share_mint a,
        ini_vault_token_ata = cinv_vault_token_ata a, ini_token_program = cinv_token_program a\<rparr> admin operator fee_recipient vault_version offset)"
| "vault_target (CallDeposit a amount) =
     User (Deposit 
       \<lparr>dep_vault_state = cdpo_vault_state a, dep_vault_token_ata = cdpo_vault_token_ata a,
        dep_sender_token_account = cdpo_sender_token_account a,
        dep_sender_share_account = cdpo_sender_share_account a, dep_share_mint = cdpo_share_mint a,
        dep_deposit_mint = cdpo_deposit_mint a, dep_signer = cdpo_signer a,
        dep_token_program = cdpo_token_program a\<rparr> amount)"
| "vault_target (CallDepositChecked a amount min_shares_out) =
     User (DepositChecked 
       \<lparr>dep_vault_state = cdpc_vault_state a, dep_vault_token_ata = cdpc_vault_token_ata a,
        dep_sender_token_account = cdpc_sender_token_account a,
        dep_sender_share_account = cdpc_sender_share_account a, dep_share_mint = cdpc_share_mint a,
        dep_deposit_mint = cdpc_deposit_mint a, dep_signer = cdpc_signer a,
        dep_token_program = cdpc_token_program a\<rparr> amount min_shares_out)"
| "vault_target (CallRedeem a shares) =
     User (Redeem 
       \<lparr>red_vault_state = crdm_vault_state a, red_vault_deposit_ata = crdm_vault_deposit_ata a,
        red_sender_token_account = crdm_sender_token_account a,
        red_sender_share_account = crdm_sender_share_account a,
        red_fee_recipient_account = crdm_fee_recipient_account a,
        red_share_mint = crdm_share_mint a, red_deposit_mint = crdm_deposit_mint a,
        red_signer = crdm_signer a, red_token_program = crdm_token_program a\<rparr> shares)"
| "vault_target (CallRedeemChecked a shares min_assets_out) =
     User (RedeemChecked 
       \<lparr>red_vault_state = crdc_vault_state a, red_vault_deposit_ata = crdc_vault_deposit_ata a,
        red_sender_token_account = crdc_sender_token_account a,
        red_sender_share_account = crdc_sender_share_account a,
        red_fee_recipient_account = crdc_fee_recipient_account a,
        red_share_mint = crdc_share_mint a, red_deposit_mint = crdc_deposit_mint a,
        red_signer = crdc_signer a, red_token_program = crdc_token_program a\<rparr> shares min_assets_out)"
| "vault_target (CallOperatorWithdraw a amount) =
     Operator (OperatorWithdraw 
       \<lparr>oa_vault_state = copw_vault_state a, oa_vault_deposit_ata = copw_vault_deposit_ata a,
        oa_operator_token_account = copw_operator_token_account a,
        oa_deposit_mint = copw_deposit_mint a, oa_operator = copw_operator a,
        oa_token_program = copw_token_program a, oa_subaccount = copw_subaccount a\<rparr> amount)"
| "vault_target (CallOperatorDeposit a amount) =
     Operator (OperatorDeposit 
       \<lparr>oa_vault_state = copd_vault_state a, oa_vault_deposit_ata = copd_vault_deposit_ata a,
        oa_operator_token_account = copd_operator_token_account a,
        oa_deposit_mint = copd_deposit_mint a, oa_operator = copd_operator a,
        oa_token_program = copd_token_program a, oa_subaccount = copd_subaccount a\<rparr> amount)"
| "vault_target (CallOperatorUpdateAum a new_aum) =
     Operator (OperatorUpdateAum 
       \<lparr>ua_vault_state = copu_vault_state a, ua_deposit_mint = copu_deposit_mint a,
        ua_operator = copu_operator a\<rparr> new_aum)"
| "vault_target (CallRegisterSubaccount a address) =
     Registry (RegisterSubaccount 
       \<lparr>rs_vault_state = crgs_vault_state a, rs_subaccount = crgs_subaccount a,
        rs_deposit_mint = crgs_deposit_mint a, rs_subaccount_ata = crgs_subaccount_ata a,
        rs_token_program = crgs_token_program a, rs_admin = crgs_admin a\<rparr> address)"
| "vault_target (CallSettleSubaccountLoss a amount) =
     Registry (SettleSubaccountLoss 
       \<lparr>se_vault_state = cstl_vault_state a, se_subaccount = cstl_subaccount a,
        se_deposit_mint = cstl_deposit_mint a, se_subaccount_ata = cstl_subaccount_ata a,
        se_token_program = cstl_token_program a, se_admin = cstl_admin a\<rparr> amount)"
| "vault_target (CallDeregisterSubaccount a) =
     Registry (DeregisterSubaccount 
       \<lparr>ds_vault_state = cdrs_vault_state a, ds_subaccount = cdrs_subaccount a,
        ds_deposit_mint = cdrs_deposit_mint a, ds_admin = cdrs_admin a\<rparr>)"
| "vault_target (CallSetWithdrawalFee a new_fee) =
     Admin (Setting 
       \<lparr>adm_vault_state = cswf_vault_state a, adm_deposit_mint = cswf_deposit_mint a,
        adm_admin = cswf_admin a\<rparr> (SetWithdrawalFee new_fee))"
| "vault_target (CallNominateAdmin a new_admin) =
     Admin (NominateAdmin 
       \<lparr>na_vault_state = cnma_vault_state a, na_deposit_mint = cnma_deposit_mint a,
        na_nominated_admin_pda = cnma_nominated_admin_pda a, na_admin = cnma_admin a,
        na_payer = cnma_payer a\<rparr> new_admin)"
| "vault_target (CallAcceptAdminNomination a) =
     Admin (AcceptAdminNomination 
       \<lparr>aa_vault_state = caan_vault_state a, aa_deposit_mint = caan_deposit_mint a,
        aa_nominated_admin_pda = caan_nominated_admin_pda a, aa_new_admin = caan_new_admin a,
        aa_receiver = caan_receiver a\<rparr>)"
| "vault_target (CallSetOperator a new_operator) =
     Admin (Setting 
       \<lparr>adm_vault_state = csop_vault_state a, adm_deposit_mint = csop_deposit_mint a,
        adm_admin = csop_admin a\<rparr> (SetOperator new_operator))"
| "vault_target (CallSetFeeRecipient a new_fee_recipient) =
     Admin (Setting 
       \<lparr>adm_vault_state = csfr_vault_state a, adm_deposit_mint = csfr_deposit_mint a,
        adm_admin = csfr_admin a\<rparr> (SetFeeRecipient new_fee_recipient))"
| "vault_target (CallSetAumLimits a increase_limit decrease_limit) =
     Admin (Setting 
       \<lparr>adm_vault_state = csal_vault_state a, adm_deposit_mint = csal_deposit_mint a,
        adm_admin = csal_admin a\<rparr> (SetAumLimits increase_limit decrease_limit))"
| "vault_target (CallAttachWithdrawalQueue a) =
     Admin (AttachWithdrawalQueue 
       \<lparr>ga_vault_state = cawq_vault_state a, ga_deposit_mint = cawq_deposit_mint a,
        ga_admin = cawq_admin a, ga_queue = cawq_queue a\<rparr>)"
| "vault_target (CallDetachWithdrawalQueue a) =
     Admin (DetachWithdrawalQueue 
       \<lparr>ga_vault_state = cdwq_vault_state a, ga_deposit_mint = cdwq_deposit_mint a,
        ga_admin = cdwq_admin a, ga_queue = cdwq_queue a\<rparr>)"
| "vault_target (CallPause a) =
     Admin (Setting 
       \<lparr>adm_vault_state = cpau_vault_state a, adm_deposit_mint = cpau_deposit_mint a,
        adm_admin = cpau_admin a\<rparr> Pause)"
| "vault_target (CallUnpause a) =
     Admin (Setting 
       \<lparr>adm_vault_state = cunp_vault_state a, adm_deposit_mint = cunp_deposit_mint a,
        adm_admin = cunp_admin a\<rparr> Unpause)"
| "vault_target (CallCloseVault a) =
     Admin (CloseVault 
       \<lparr>cl_vault_state = cclv_vault_state a, cl_share_mint = cclv_share_mint a,
        cl_vault_token_ata = cclv_vault_token_ata a, cl_deposit_mint = cclv_deposit_mint a,
        cl_admin = cclv_admin a, cl_token_program = cclv_token_program a\<rparr>)"
| "vault_target (CallCreateShareTokenMetadata a name symbol uri) =
     Metadata (CreateShareTokenMetadata 
       \<lparr>me_payer = ccsm_payer a, me_admin = ccsm_admin a, me_vault_state = ccsm_vault_state a,
        me_deposit_mint = ccsm_deposit_mint a, me_share_mint = ccsm_share_mint a,
        me_metadata_account = ccsm_metadata_account a, me_token_program = ccsm_token_program a,
        me_token_metadata_program = ccsm_token_metadata_program a\<rparr> name symbol uri)"
| "vault_target (CallUpdateShareTokenMetadata a name symbol uri) =
     Metadata (UpdateShareTokenMetadata 
       \<lparr>me_payer = default_key, me_admin = cusm_admin a, me_vault_state = cusm_vault_state a,
        me_deposit_mint = cusm_deposit_mint a, me_share_mint = cusm_share_mint a,
        me_metadata_account = cusm_metadata_account a, me_token_program = cusm_token_program a,
        me_token_metadata_program = cusm_token_metadata_program a\<rparr> name symbol uri)"

primrec vault_known :: "env \<Rightarrow> pubkey vault_call \<Rightarrow> bool" where
  "vault_known E (CallInitializeConfig a authority) =
     (cinc_system_program a = SYSTEM_PROGRAM)"
| "vault_known E (CallSetConfigAuthority a new_authority) =
     (True)"
| "vault_known E (CallOverrideConfigAuthority a new_authority) =
     (True)"
| "vault_known E (CallInitialize a admin operator fee_recipient vault_version offset) =
     (cinv_system_program a = SYSTEM_PROGRAM \<and> cinv_rent a = SYSVAR_RENT)"
| "vault_known E (CallDeposit a amount) =
     (True)"
| "vault_known E (CallDepositChecked a amount min_shares_out) =
     (True)"
| "vault_known E (CallRedeem a shares) =
     (True)"
| "vault_known E (CallRedeemChecked a shares min_assets_out) =
     (True)"
| "vault_known E (CallOperatorWithdraw a amount) =
     (copw_subaccount a \<noteq> Some VAULT_PROGRAM_ID)"
| "vault_known E (CallOperatorDeposit a amount) =
     (copd_subaccount a \<noteq> Some VAULT_PROGRAM_ID)"
| "vault_known E (CallOperatorUpdateAum a new_aum) =
     (True)"
| "vault_known E (CallRegisterSubaccount a address) =
     (crgs_system_program a = SYSTEM_PROGRAM)"
| "vault_known E (CallSettleSubaccountLoss a amount) =
     (True)"
| "vault_known E (CallDeregisterSubaccount a) =
     (True)"
| "vault_known E (CallSetWithdrawalFee a new_fee) =
     (True)"
| "vault_known E (CallNominateAdmin a new_admin) =
     (cnma_system_program a = SYSTEM_PROGRAM)"
| "vault_known E (CallAcceptAdminNomination a) =
     (caan_system_program a = SYSTEM_PROGRAM)"
| "vault_known E (CallSetOperator a new_operator) =
     (True)"
| "vault_known E (CallSetFeeRecipient a new_fee_recipient) =
     (True)"
| "vault_known E (CallSetAumLimits a increase_limit decrease_limit) =
     (True)"
| "vault_known E (CallAttachWithdrawalQueue a) =
     (True)"
| "vault_known E (CallDetachWithdrawalQueue a) =
     (True)"
| "vault_known E (CallPause a) =
     (True)"
| "vault_known E (CallUnpause a) =
     (True)"
| "vault_known E (CallCloseVault a) =
     (True)"
| "vault_known E (CallCreateShareTokenMetadata a name symbol uri) =
     (ccsm_system_program a = SYSTEM_PROGRAM \<and> ccsm_rent a = SYSVAR_RENT)"
| "vault_known E (CallUpdateShareTokenMetadata a name symbol uri) =
     (True)"

primrec queue_target :: "pubkey queue_call \<Rightarrow> instruction" where
  "queue_target (CallInitializeQueue a cooldown_seconds) =
     Queue (InitializeQueue 
       \<lparr>iq_vault_state = cinq_vault_state a, iq_admin = cinq_admin a, iq_payer = cinq_payer a,
        iq_deposit_mint = cinq_deposit_mint a, iq_share_mint = cinq_share_mint a,
        iq_queue = cinq_queue a, iq_escrow_shares = cinq_escrow_shares a,
        iq_escrow_assets = cinq_escrow_assets a, iq_token_program = cinq_token_program a\<rparr> cooldown_seconds)"
| "queue_target (CallSetCooldown a seconds) =
     Queue (SetCooldown 
       \<lparr>qa_queue = cscd_queue a, qa_vault_state = cscd_vault_state a, qa_admin = cscd_admin a\<rparr> seconds)"
| "queue_target (CallSetFulfillmentWindow a seconds) =
     Queue (SetFulfillmentWindow 
       \<lparr>qa_queue = csfw_queue a, qa_vault_state = csfw_vault_state a, qa_admin = csfw_admin a\<rparr> seconds)"
| "queue_target (CallRequestWithdrawal a request_id shares min_assets_out finalizer) =
     Queue (RequestWithdrawal 
       \<lparr>rw_queue = crqw_queue a, rw_vault_state = crqw_vault_state a, rw_owner = crqw_owner a,
        rw_owner_share_account = crqw_owner_share_account a,
        rw_escrow_shares = crqw_escrow_shares a, rw_share_mint = crqw_share_mint a,
        rw_recipient_token_account = crqw_recipient_token_account a, rw_request = crqw_request a,
        rw_token_program = crqw_token_program a\<rparr> request_id shares min_assets_out finalizer)"
| "queue_target (CallFinalizeWithdrawal a expected_sequence) =
     Queue (FinalizeWithdrawal 
       \<lparr>fw_queue = cfnw_queue a, fw_vault_state = cfnw_vault_state a,
        fw_vault_deposit_ata = cfnw_vault_deposit_ata a,
        fw_fee_recipient_account = cfnw_fee_recipient_account a,
        fw_escrow_shares = cfnw_escrow_shares a, fw_escrow_assets = cfnw_escrow_assets a,
        fw_share_mint = cfnw_share_mint a, fw_deposit_mint = cfnw_deposit_mint a,
        fw_finalizer = cfnw_finalizer a, fw_request = cfnw_request a, fw_owner = cfnw_owner a,
        fw_recipient_token_account = cfnw_recipient_token_account a,
        fw_vault_program = cfnw_vault_program a, fw_token_program = cfnw_token_program a\<rparr> expected_sequence)"
| "queue_target (CallCancelWithdrawal a expected_sequence) =
     Queue (CancelWithdrawal 
       \<lparr>cw_queue = ccnw_queue a, cw_owner = ccnw_owner a, cw_request = ccnw_request a,
        cw_escrow_shares = ccnw_escrow_shares a, cw_share_mint = ccnw_share_mint a,
        cw_destination_share_account = ccnw_destination_share_account a,
        cw_token_program = ccnw_token_program a\<rparr> expected_sequence)"
| "queue_target (CallReleaseVault a) =
     Queue (ReleaseVault 
       \<lparr>rv_queue = crlv_queue a, rv_vault_state = crlv_vault_state a,
        rv_deposit_mint = crlv_deposit_mint a, rv_admin = crlv_admin a,
        rv_vault_program = crlv_vault_program a\<rparr>)"
| "queue_target (CallSweepEscrowShares a) =
     Queue (SweepEscrowShares 
       \<lparr>sw_queue = csws_queue a, sw_vault_state = csws_vault_state a, sw_admin = csws_admin a,
        sw_escrow_shares = csws_escrow_shares a, sw_share_mint = csws_share_mint a,
        sw_destination = csws_destination a, sw_token_program = csws_token_program a\<rparr>)"
| "queue_target (CallExpediteRequest a expected_sequence) =
     Queue (ExpediteRequest 
       \<lparr>xp_queue = cxpr_queue a, xp_vault_state = cxpr_vault_state a,
        xp_authority = cxpr_authority a, xp_request = cxpr_request a\<rparr> expected_sequence)"

primrec queue_known :: "env \<Rightarrow> pubkey queue_call \<Rightarrow> bool" where
  "queue_known E (CallInitializeQueue a cooldown_seconds) =
     (cinq_associated_token_program a = ASSOCIATED_TOKEN_PROGRAM \<and>
     cinq_system_program a = SYSTEM_PROGRAM \<and>
     cinq_event_authority a = event_authority E \<and> cinq_program a = WITHDRAWAL_QUEUE_PROGRAM_ID)"
| "queue_known E (CallSetCooldown a seconds) =
     (cscd_event_authority a = event_authority E \<and> cscd_program a = WITHDRAWAL_QUEUE_PROGRAM_ID)"
| "queue_known E (CallSetFulfillmentWindow a seconds) =
     (csfw_event_authority a = event_authority E \<and> csfw_program a = WITHDRAWAL_QUEUE_PROGRAM_ID)"
| "queue_known E (CallRequestWithdrawal a request_id shares min_assets_out finalizer) =
     (crqw_system_program a = SYSTEM_PROGRAM \<and>
     crqw_event_authority a = event_authority E \<and> crqw_program a = WITHDRAWAL_QUEUE_PROGRAM_ID)"
| "queue_known E (CallFinalizeWithdrawal a expected_sequence) =
     (cfnw_event_authority a = event_authority E \<and> cfnw_program a = WITHDRAWAL_QUEUE_PROGRAM_ID)"
| "queue_known E (CallCancelWithdrawal a expected_sequence) =
     (ccnw_event_authority a = event_authority E \<and> ccnw_program a = WITHDRAWAL_QUEUE_PROGRAM_ID)"
| "queue_known E (CallReleaseVault a) =
     (crlv_event_authority a = event_authority E \<and> crlv_program a = WITHDRAWAL_QUEUE_PROGRAM_ID)"
| "queue_known E (CallSweepEscrowShares a) =
     (csws_event_authority a = event_authority E \<and> csws_program a = WITHDRAWAL_QUEUE_PROGRAM_ID)"
| "queue_known E (CallExpediteRequest a expected_sequence) =
     (cxpr_event_authority a = event_authority E \<and> cxpr_program a = WITHDRAWAL_QUEUE_PROGRAM_ID)"

text \<open>The discriminators the clients carry are those of the entry points.\<close>

definition vault_pins :: "(string \<Rightarrow> u8 list) \<Rightarrow> bool" where
  "vault_pins D \<longleftrightarrow>
     D ''initialize_config'' = INITIALIZE_CONFIG_DISCRIMINATOR \<and>
     D ''set_config_authority'' = SET_CONFIG_AUTHORITY_DISCRIMINATOR \<and>
     D ''override_config_authority'' = OVERRIDE_CONFIG_AUTHORITY_DISCRIMINATOR \<and>
     D ''initialize'' = INITIALIZE_DISCRIMINATOR \<and>
     D ''deposit'' = DEPOSIT_DISCRIMINATOR \<and>
     D ''deposit_checked'' = DEPOSIT_CHECKED_DISCRIMINATOR \<and>
     D ''redeem'' = REDEEM_DISCRIMINATOR \<and>
     D ''redeem_checked'' = REDEEM_CHECKED_DISCRIMINATOR \<and>
     D ''operator_withdraw'' = OPERATOR_WITHDRAW_DISCRIMINATOR \<and>
     D ''operator_deposit'' = OPERATOR_DEPOSIT_DISCRIMINATOR \<and>
     D ''operator_update_aum'' = OPERATOR_UPDATE_AUM_DISCRIMINATOR \<and>
     D ''register_subaccount'' = REGISTER_SUBACCOUNT_DISCRIMINATOR \<and>
     D ''settle_subaccount_loss'' = SETTLE_SUBACCOUNT_LOSS_DISCRIMINATOR \<and>
     D ''deregister_subaccount'' = DEREGISTER_SUBACCOUNT_DISCRIMINATOR \<and>
     D ''set_withdrawal_fee'' = SET_WITHDRAWAL_FEE_DISCRIMINATOR \<and>
     D ''nominate_admin'' = NOMINATE_ADMIN_DISCRIMINATOR \<and>
     D ''accept_admin_nomination'' = ACCEPT_ADMIN_NOMINATION_DISCRIMINATOR \<and>
     D ''set_operator'' = SET_OPERATOR_DISCRIMINATOR \<and>
     D ''set_fee_recipient'' = SET_FEE_RECIPIENT_DISCRIMINATOR \<and>
     D ''set_aum_limits'' = SET_AUM_LIMITS_DISCRIMINATOR \<and>
     D ''attach_withdrawal_queue'' = ATTACH_WITHDRAWAL_QUEUE_DISCRIMINATOR \<and>
     D ''detach_withdrawal_queue'' = DETACH_WITHDRAWAL_QUEUE_DISCRIMINATOR \<and>
     D ''pause'' = PAUSE_DISCRIMINATOR \<and>
     D ''unpause'' = UNPAUSE_DISCRIMINATOR \<and>
     D ''close_vault'' = CLOSE_VAULT_DISCRIMINATOR \<and>
     D ''create_share_token_metadata'' = CREATE_SHARE_TOKEN_METADATA_DISCRIMINATOR \<and>
     D ''update_share_token_metadata'' = UPDATE_SHARE_TOKEN_METADATA_DISCRIMINATOR"

definition queue_pins :: "(string \<Rightarrow> u8 list) \<Rightarrow> bool" where
  "queue_pins D \<longleftrightarrow>
     D ''initialize_queue'' = INITIALIZE_QUEUE_DISCRIMINATOR \<and>
     D ''set_cooldown'' = SET_COOLDOWN_DISCRIMINATOR \<and>
     D ''set_fulfillment_window'' = SET_FULFILLMENT_WINDOW_DISCRIMINATOR \<and>
     D ''request_withdrawal'' = REQUEST_WITHDRAWAL_DISCRIMINATOR \<and>
     D ''finalize_withdrawal'' = FINALIZE_WITHDRAWAL_DISCRIMINATOR \<and>
     D ''cancel_withdrawal'' = CANCEL_WITHDRAWAL_DISCRIMINATOR \<and>
     D ''release_vault'' = RELEASE_VAULT_DISCRIMINATOR \<and>
     D ''sweep_escrow_shares'' = SWEEP_ESCROW_SHARES_DISCRIMINATOR \<and>
     D ''expedite_request'' = EXPEDITE_REQUEST_DISCRIMINATOR"

lemmas parse_defs =
  initialize_config_parse_def set_config_authority_parse_def override_config_authority_parse_def
  initialize_parse_def deposit_parse_def redeem_parse_def operator_withdraw_parse_def
  operator_deposit_parse_def operator_update_aum_parse_def register_subaccount_parse_def
  settle_subaccount_loss_parse_def deregister_subaccount_parse_def set_withdrawal_fee_parse_def
  nominate_admin_parse_def accept_admin_nomination_parse_def set_operator_parse_def
  set_fee_recipient_parse_def set_aum_limits_parse_def attach_withdrawal_queue_parse_def
  detach_withdrawal_queue_parse_def pause_parse_def unpause_parse_def close_vault_parse_def
  create_share_token_metadata_parse_def update_share_token_metadata_parse_def
  initialize_queue_parse_def queue_admin_parse_def request_withdrawal_parse_def
  finalize_withdrawal_parse_def cancel_withdrawal_parse_def release_vault_parse_def
  sweep_escrow_shares_parse_def expedite_request_parse_def

lemmas vault_discriminators =
  INITIALIZE_CONFIG_DISCRIMINATOR_def SET_CONFIG_AUTHORITY_DISCRIMINATOR_def
  OVERRIDE_CONFIG_AUTHORITY_DISCRIMINATOR_def INITIALIZE_DISCRIMINATOR_def
  DEPOSIT_DISCRIMINATOR_def DEPOSIT_CHECKED_DISCRIMINATOR_def REDEEM_DISCRIMINATOR_def
  REDEEM_CHECKED_DISCRIMINATOR_def OPERATOR_WITHDRAW_DISCRIMINATOR_def
  OPERATOR_DEPOSIT_DISCRIMINATOR_def OPERATOR_UPDATE_AUM_DISCRIMINATOR_def
  REGISTER_SUBACCOUNT_DISCRIMINATOR_def SETTLE_SUBACCOUNT_LOSS_DISCRIMINATOR_def
  DEREGISTER_SUBACCOUNT_DISCRIMINATOR_def SET_WITHDRAWAL_FEE_DISCRIMINATOR_def
  NOMINATE_ADMIN_DISCRIMINATOR_def ACCEPT_ADMIN_NOMINATION_DISCRIMINATOR_def
  SET_OPERATOR_DISCRIMINATOR_def SET_FEE_RECIPIENT_DISCRIMINATOR_def
  SET_AUM_LIMITS_DISCRIMINATOR_def ATTACH_WITHDRAWAL_QUEUE_DISCRIMINATOR_def
  DETACH_WITHDRAWAL_QUEUE_DISCRIMINATOR_def PAUSE_DISCRIMINATOR_def UNPAUSE_DISCRIMINATOR_def
  CLOSE_VAULT_DISCRIMINATOR_def CREATE_SHARE_TOKEN_METADATA_DISCRIMINATOR_def
  UPDATE_SHARE_TOKEN_METADATA_DISCRIMINATOR_def

lemmas queue_discriminators =
  INITIALIZE_QUEUE_DISCRIMINATOR_def SET_COOLDOWN_DISCRIMINATOR_def
  SET_FULFILLMENT_WINDOW_DISCRIMINATOR_def REQUEST_WITHDRAWAL_DISCRIMINATOR_def
  FINALIZE_WITHDRAWAL_DISCRIMINATOR_def CANCEL_WITHDRAWAL_DISCRIMINATOR_def
  RELEASE_VAULT_DISCRIMINATOR_def SWEEP_ESCROW_SHARES_DISCRIMINATOR_def
  EXPEDITE_REQUEST_DISCRIMINATOR_def

lemma vault_pinned:
  assumes "vault_pins D"
  shows "INITIALIZE_CONFIG_DISCRIMINATOR = D ''initialize_config''"
    and "SET_CONFIG_AUTHORITY_DISCRIMINATOR = D ''set_config_authority''"
    and "OVERRIDE_CONFIG_AUTHORITY_DISCRIMINATOR = D ''override_config_authority''"
    and "INITIALIZE_DISCRIMINATOR = D ''initialize''"
    and "DEPOSIT_DISCRIMINATOR = D ''deposit''"
    and "DEPOSIT_CHECKED_DISCRIMINATOR = D ''deposit_checked''"
    and "REDEEM_DISCRIMINATOR = D ''redeem''"
    and "REDEEM_CHECKED_DISCRIMINATOR = D ''redeem_checked''"
    and "OPERATOR_WITHDRAW_DISCRIMINATOR = D ''operator_withdraw''"
    and "OPERATOR_DEPOSIT_DISCRIMINATOR = D ''operator_deposit''"
    and "OPERATOR_UPDATE_AUM_DISCRIMINATOR = D ''operator_update_aum''"
    and "REGISTER_SUBACCOUNT_DISCRIMINATOR = D ''register_subaccount''"
    and "SETTLE_SUBACCOUNT_LOSS_DISCRIMINATOR = D ''settle_subaccount_loss''"
    and "DEREGISTER_SUBACCOUNT_DISCRIMINATOR = D ''deregister_subaccount''"
    and "SET_WITHDRAWAL_FEE_DISCRIMINATOR = D ''set_withdrawal_fee''"
    and "NOMINATE_ADMIN_DISCRIMINATOR = D ''nominate_admin''"
    and "ACCEPT_ADMIN_NOMINATION_DISCRIMINATOR = D ''accept_admin_nomination''"
    and "SET_OPERATOR_DISCRIMINATOR = D ''set_operator''"
    and "SET_FEE_RECIPIENT_DISCRIMINATOR = D ''set_fee_recipient''"
    and "SET_AUM_LIMITS_DISCRIMINATOR = D ''set_aum_limits''"
    and "ATTACH_WITHDRAWAL_QUEUE_DISCRIMINATOR = D ''attach_withdrawal_queue''"
    and "DETACH_WITHDRAWAL_QUEUE_DISCRIMINATOR = D ''detach_withdrawal_queue''"
    and "PAUSE_DISCRIMINATOR = D ''pause''"
    and "UNPAUSE_DISCRIMINATOR = D ''unpause''"
    and "CLOSE_VAULT_DISCRIMINATOR = D ''close_vault''"
    and "CREATE_SHARE_TOKEN_METADATA_DISCRIMINATOR = D ''create_share_token_metadata''"
    and "UPDATE_SHARE_TOKEN_METADATA_DISCRIMINATOR = D ''update_share_token_metadata''"
  using assms by (simp_all add: vault_pins_def)

lemma queue_pinned:
  assumes "queue_pins D"
  shows "INITIALIZE_QUEUE_DISCRIMINATOR = D ''initialize_queue''"
    and "SET_COOLDOWN_DISCRIMINATOR = D ''set_cooldown''"
    and "SET_FULFILLMENT_WINDOW_DISCRIMINATOR = D ''set_fulfillment_window''"
    and "REQUEST_WITHDRAWAL_DISCRIMINATOR = D ''request_withdrawal''"
    and "FINALIZE_WITHDRAWAL_DISCRIMINATOR = D ''finalize_withdrawal''"
    and "CANCEL_WITHDRAWAL_DISCRIMINATOR = D ''cancel_withdrawal''"
    and "RELEASE_VAULT_DISCRIMINATOR = D ''release_vault''"
    and "SWEEP_ESCROW_SHARES_DISCRIMINATOR = D ''sweep_escrow_shares''"
    and "EXPEDITE_REQUEST_DISCRIMINATOR = D ''expedite_request''"
  using assms by (simp_all add: queue_pins_def)

lemma vault_names:
  "fst ` set (vault_entries E) =
     {''initialize_config'', ''set_config_authority'', ''override_config_authority'',
      ''initialize'', ''deposit'', ''deposit_checked'', ''redeem'', ''redeem_checked'',
      ''operator_withdraw'', ''operator_deposit'', ''operator_update_aum'',
      ''register_subaccount'', ''settle_subaccount_loss'', ''deregister_subaccount'',
      ''set_withdrawal_fee'', ''nominate_admin'', ''accept_admin_nomination'', ''set_operator'',
      ''set_fee_recipient'', ''set_aum_limits'', ''attach_withdrawal_queue'',
      ''detach_withdrawal_queue'', ''pause'', ''unpause'', ''close_vault'',
      ''create_share_token_metadata'', ''update_share_token_metadata''}"
  by (simp add: vault_entries_def)

lemma queue_names:
  "fst ` set (queue_entries E) =
     {''initialize_queue'', ''set_cooldown'', ''set_fulfillment_window'', ''request_withdrawal'',
      ''finalize_withdrawal'', ''cancel_withdrawal'', ''release_vault'', ''sweep_escrow_shares'',
      ''expedite_request''}"
  by (simp add: queue_entries_def)

section \<open>Dispatch\<close>

definition dispatch ::
  "(string \<Rightarrow> u8 list) \<Rightarrow> (string \<times> entry) list \<Rightarrow> account_meta list \<Rightarrow> u8 list \<Rightarrow> instruction option"
where
  "dispatch D handlers ms data =
     (case find (\<lambda>(n, f). D n = take 8 data) handlers of
        None \<Rightarrow> None
      | Some (n, f) \<Rightarrow> f ms (drop 8 data))"

definition decode :: "(string \<Rightarrow> u8 list) \<Rightarrow> env \<Rightarrow> client_instruction \<Rightarrow> instruction option" where
  "decode D E ix =
     (if ix_program_id ix = VAULT_PROGRAM_ID
      then dispatch D (vault_entries E) (ix_accounts ix) (ix_data ix)
      else if ix_program_id ix = WITHDRAWAL_QUEUE_PROGRAM_ID
      then dispatch D (queue_entries E) (ix_accounts ix) (ix_data ix)
      else None)"

text \<open>An instruction sent to the chain: refused by Anchor, or run by its handler.\<close>

definition submit ::
  "(string \<Rightarrow> u8 list) \<Rightarrow> env \<Rightarrow> tx \<Rightarrow> client_instruction \<Rightarrow> world \<Rightarrow> world result option"
where
  "submit D E t ix w = map_option (\<lambda>i. run E t i w) (decode D E ix)"

lemma find_entry:
  assumes "distinct (map (\<lambda>(n, f). D n) handlers)" and "n \<in> fst ` set handlers"
  shows "find (\<lambda>(m, f). D m = D n) handlers = Some (n, the (map_of handlers n))"
  using assms by (induction handlers) (auto simp: image_iff)

lemma dispatch_entry:
  assumes "distinct (map (\<lambda>(n, f). D n) handlers)" and "n \<in> fst ` set handlers" and "length (D n) = 8"
  shows "dispatch D handlers ms (D n @ rest) = the (map_of handlers n) ms rest"
  using find_entry [OF assms(1,2)] assms(3) by (simp add: dispatch_def)

lemma vault_distinct:
  assumes "vault_pins D"
  shows "distinct (map (\<lambda>(n, f). D n) (vault_entries E))"
proof -
  have "map (\<lambda>(n, f). D n) (vault_entries E) =
      [INITIALIZE_CONFIG_DISCRIMINATOR, SET_CONFIG_AUTHORITY_DISCRIMINATOR,
       OVERRIDE_CONFIG_AUTHORITY_DISCRIMINATOR, INITIALIZE_DISCRIMINATOR, DEPOSIT_DISCRIMINATOR,
       DEPOSIT_CHECKED_DISCRIMINATOR, REDEEM_DISCRIMINATOR, REDEEM_CHECKED_DISCRIMINATOR,
       OPERATOR_WITHDRAW_DISCRIMINATOR, OPERATOR_DEPOSIT_DISCRIMINATOR,
       OPERATOR_UPDATE_AUM_DISCRIMINATOR, REGISTER_SUBACCOUNT_DISCRIMINATOR,
       SETTLE_SUBACCOUNT_LOSS_DISCRIMINATOR, DEREGISTER_SUBACCOUNT_DISCRIMINATOR,
       SET_WITHDRAWAL_FEE_DISCRIMINATOR, NOMINATE_ADMIN_DISCRIMINATOR,
       ACCEPT_ADMIN_NOMINATION_DISCRIMINATOR, SET_OPERATOR_DISCRIMINATOR,
       SET_FEE_RECIPIENT_DISCRIMINATOR, SET_AUM_LIMITS_DISCRIMINATOR,
       ATTACH_WITHDRAWAL_QUEUE_DISCRIMINATOR, DETACH_WITHDRAWAL_QUEUE_DISCRIMINATOR,
       PAUSE_DISCRIMINATOR, UNPAUSE_DISCRIMINATOR, CLOSE_VAULT_DISCRIMINATOR,
       CREATE_SHARE_TOKEN_METADATA_DISCRIMINATOR, UPDATE_SHARE_TOKEN_METADATA_DISCRIMINATOR]"
    using assms by (simp add: vault_entries_def vault_pins_def)
  moreover have "distinct
      [INITIALIZE_CONFIG_DISCRIMINATOR, SET_CONFIG_AUTHORITY_DISCRIMINATOR,
       OVERRIDE_CONFIG_AUTHORITY_DISCRIMINATOR, INITIALIZE_DISCRIMINATOR, DEPOSIT_DISCRIMINATOR,
       DEPOSIT_CHECKED_DISCRIMINATOR, REDEEM_DISCRIMINATOR, REDEEM_CHECKED_DISCRIMINATOR,
       OPERATOR_WITHDRAW_DISCRIMINATOR, OPERATOR_DEPOSIT_DISCRIMINATOR,
       OPERATOR_UPDATE_AUM_DISCRIMINATOR, REGISTER_SUBACCOUNT_DISCRIMINATOR,
       SETTLE_SUBACCOUNT_LOSS_DISCRIMINATOR, DEREGISTER_SUBACCOUNT_DISCRIMINATOR,
       SET_WITHDRAWAL_FEE_DISCRIMINATOR, NOMINATE_ADMIN_DISCRIMINATOR,
       ACCEPT_ADMIN_NOMINATION_DISCRIMINATOR, SET_OPERATOR_DISCRIMINATOR,
       SET_FEE_RECIPIENT_DISCRIMINATOR, SET_AUM_LIMITS_DISCRIMINATOR,
       ATTACH_WITHDRAWAL_QUEUE_DISCRIMINATOR, DETACH_WITHDRAWAL_QUEUE_DISCRIMINATOR,
       PAUSE_DISCRIMINATOR, UNPAUSE_DISCRIMINATOR, CLOSE_VAULT_DISCRIMINATOR,
       CREATE_SHARE_TOKEN_METADATA_DISCRIMINATOR, UPDATE_SHARE_TOKEN_METADATA_DISCRIMINATOR]" by code_simp
  ultimately show ?thesis by simp
qed

lemma vault_discriminator_length:
  "vault_pins D \<Longrightarrow> \<forall>n\<in>fst ` set (vault_entries E). length (D n) = 8"
  by (simp add: vault_names vault_pins_def vault_discriminators)

lemma queue_distinct:
  assumes "queue_pins D"
  shows "distinct (map (\<lambda>(n, f). D n) (queue_entries E))"
proof -
  have "map (\<lambda>(n, f). D n) (queue_entries E) =
      [INITIALIZE_QUEUE_DISCRIMINATOR, SET_COOLDOWN_DISCRIMINATOR,
       SET_FULFILLMENT_WINDOW_DISCRIMINATOR, REQUEST_WITHDRAWAL_DISCRIMINATOR,
       FINALIZE_WITHDRAWAL_DISCRIMINATOR, CANCEL_WITHDRAWAL_DISCRIMINATOR,
       RELEASE_VAULT_DISCRIMINATOR, SWEEP_ESCROW_SHARES_DISCRIMINATOR,
       EXPEDITE_REQUEST_DISCRIMINATOR]"
    using assms by (simp add: queue_entries_def queue_pins_def)
  moreover have "distinct
      [INITIALIZE_QUEUE_DISCRIMINATOR, SET_COOLDOWN_DISCRIMINATOR,
       SET_FULFILLMENT_WINDOW_DISCRIMINATOR, REQUEST_WITHDRAWAL_DISCRIMINATOR,
       FINALIZE_WITHDRAWAL_DISCRIMINATOR, CANCEL_WITHDRAWAL_DISCRIMINATOR,
       RELEASE_VAULT_DISCRIMINATOR, SWEEP_ESCROW_SHARES_DISCRIMINATOR,
       EXPEDITE_REQUEST_DISCRIMINATOR]" by code_simp
  ultimately show ?thesis by simp
qed

lemma queue_discriminator_length:
  "queue_pins D \<Longrightarrow> \<forall>n\<in>fst ` set (queue_entries E). length (D n) = 8"
  by (simp add: queue_names queue_pins_def queue_discriminators)

lemma vault_dispatch:
  assumes "vault_pins D" and "n \<in> fst ` set (vault_entries E)"
  shows "dispatch D (vault_entries E) ms (D n @ rest) = the (map_of (vault_entries E) n) ms rest"
    and "dispatch D (vault_entries E) ms (D n) = the (map_of (vault_entries E) n) ms []"
proof -
  have "length (D n) = 8" using vault_discriminator_length assms by blast
  note * = dispatch_entry [OF vault_distinct [OF assms(1)] assms(2) this]
  show "dispatch D (vault_entries E) ms (D n @ rest) = the (map_of (vault_entries E) n) ms rest"
    and "dispatch D (vault_entries E) ms (D n) = the (map_of (vault_entries E) n) ms []"
    using * [of ms rest] * [of ms "[]"] by simp_all
qed

lemma queue_dispatch:
  assumes "queue_pins D" and "n \<in> fst ` set (queue_entries E)"
  shows "dispatch D (queue_entries E) ms (D n @ rest) = the (map_of (queue_entries E) n) ms rest"
    and "dispatch D (queue_entries E) ms (D n) = the (map_of (queue_entries E) n) ms []"
proof -
  have "length (D n) = 8" using queue_discriminator_length assms by blast
  note * = dispatch_entry [OF queue_distinct [OF assms(1)] assms(2) this]
  show "dispatch D (queue_entries E) ms (D n @ rest) = the (map_of (queue_entries E) n) ms rest"
    and "dispatch D (queue_entries E) ms (D n) = the (map_of (queue_entries E) n) ms []"
    using * [of ms rest] * [of ms "[]"] by simp_all
qed

lemmas arg_reads =
  layout_reads u8_codec.reading_put_all u32_codec.reading_put_all u64_codec.reading_put_all
  key_codec.reading_put_all

lemma string_reads:
  assumes "put_string s = Some bs"
  shows "reading get_string f (bs @ rest) = f s rest" and "reading get_string f bs = f s []"
  using get_put_string [OF assms, of rest] get_put_string [OF assms, of "[]"]
  by (simp_all add: reading_def)

lemma vault_ix_program: "vault_direct c remaining = Inr ix \<Longrightarrow> ix_program_id ix = VAULT_PROGRAM_ID"
  by (cases c) (auto simp: vault_instruction_defs client_program_ids)

lemma vault_wire_lemma:
  assumes pins: "vault_pins D" and known: "vault_known E c" and ix: "vault_direct c remaining = Inr ix"
  shows "dispatch D (vault_entries E) (ix_accounts ix) (ix_data ix) = Some (vault_target c)"
  using known ix
  by (cases c; clarsimp simp: vault_instruction_defs vault_pinned [OF pins] vault_dispatch [OF pins]
      vault_names expect_def split: option.splits;
      simp add: vault_entries_def arg_reads string_reads parse_defs taker_defs client_program_ids)

lemma queue_ix_program:
  "queue_direct c remaining = Inr ix \<Longrightarrow> ix_program_id ix = WITHDRAWAL_QUEUE_PROGRAM_ID"
  by (cases c) (auto simp: queue_instruction_defs client_program_ids)

lemma queue_wire_lemma:
  assumes pins: "queue_pins D" and known: "queue_known E c" and ix: "queue_direct c remaining = Inr ix"
  shows "dispatch D (queue_entries E) (ix_accounts ix) (ix_data ix) = Some (queue_target c)"
  using known ix
  by (cases c; clarsimp simp: queue_instruction_defs queue_pinned [OF pins] queue_dispatch [OF pins]
      queue_names expect_def split: option.splits;
      simp add: queue_entries_def arg_reads parse_defs taker_defs client_program_ids)

section \<open>What a client sends is what its caller means\<close>

text \<open>
  C13. Whatever call of the vault client a caller makes, the program the instruction is sent to decodes
  it to the handler the call is named after, with every argument and every account in its place:
  submitting the client's instruction is running that handler.
\<close>

theorem vault_client_wire:
  assumes "vault_pins D" and "vault_known E c" and "vault_direct c remaining = Inr ix"
  shows "submit D E t ix w = Some (run E t (vault_target c) w)"
  using vault_wire_lemma [OF assms] vault_ix_program [OF assms(3)]
  by (simp add: submit_def decode_def)

text \<open>
  C14. Whatever call of the withdrawal queue's client a caller makes, the queue program decodes the
  instruction to the handler the call is named after, with every argument and account in its place,
  the two accounts \<open>#[event_cpi]\<close> appends included.
\<close>

theorem queue_client_wire:
  assumes "queue_pins D" and "queue_known E c" and "queue_direct c remaining = Inr ix"
  shows "submit D E t ix w = Some (run E t (queue_target c) w)"
proof -
  have "WITHDRAWAL_QUEUE_PROGRAM_ID \<noteq> VAULT_PROGRAM_ID"
    by (simp add: WITHDRAWAL_QUEUE_PROGRAM_ID_def VAULT_PROGRAM_ID_def)
  then show ?thesis
    using queue_wire_lemma [OF assms] queue_ix_program [OF assms(3)]
    by (simp add: submit_def decode_def)
qed

section \<open>Witnesses\<close>

definition ex_discriminator :: "string \<Rightarrow> u8 list" where
  "ex_discriminator n =
     the (map_of
      [(''initialize_config'', INITIALIZE_CONFIG_DISCRIMINATOR),
       (''set_config_authority'', SET_CONFIG_AUTHORITY_DISCRIMINATOR),
       (''override_config_authority'', OVERRIDE_CONFIG_AUTHORITY_DISCRIMINATOR),
       (''initialize'', INITIALIZE_DISCRIMINATOR), (''deposit'', DEPOSIT_DISCRIMINATOR),
       (''deposit_checked'', DEPOSIT_CHECKED_DISCRIMINATOR), (''redeem'', REDEEM_DISCRIMINATOR),
       (''redeem_checked'', REDEEM_CHECKED_DISCRIMINATOR),
       (''operator_withdraw'', OPERATOR_WITHDRAW_DISCRIMINATOR),
       (''operator_deposit'', OPERATOR_DEPOSIT_DISCRIMINATOR),
       (''operator_update_aum'', OPERATOR_UPDATE_AUM_DISCRIMINATOR),
       (''register_subaccount'', REGISTER_SUBACCOUNT_DISCRIMINATOR),
       (''settle_subaccount_loss'', SETTLE_SUBACCOUNT_LOSS_DISCRIMINATOR),
       (''deregister_subaccount'', DEREGISTER_SUBACCOUNT_DISCRIMINATOR),
       (''set_withdrawal_fee'', SET_WITHDRAWAL_FEE_DISCRIMINATOR),
       (''nominate_admin'', NOMINATE_ADMIN_DISCRIMINATOR),
       (''accept_admin_nomination'', ACCEPT_ADMIN_NOMINATION_DISCRIMINATOR),
       (''set_operator'', SET_OPERATOR_DISCRIMINATOR),
       (''set_fee_recipient'', SET_FEE_RECIPIENT_DISCRIMINATOR),
       (''set_aum_limits'', SET_AUM_LIMITS_DISCRIMINATOR),
       (''attach_withdrawal_queue'', ATTACH_WITHDRAWAL_QUEUE_DISCRIMINATOR),
       (''detach_withdrawal_queue'', DETACH_WITHDRAWAL_QUEUE_DISCRIMINATOR),
       (''pause'', PAUSE_DISCRIMINATOR), (''unpause'', UNPAUSE_DISCRIMINATOR),
       (''close_vault'', CLOSE_VAULT_DISCRIMINATOR),
       (''create_share_token_metadata'', CREATE_SHARE_TOKEN_METADATA_DISCRIMINATOR),
       (''update_share_token_metadata'', UPDATE_SHARE_TOKEN_METADATA_DISCRIMINATOR),
       (''initialize_queue'', INITIALIZE_QUEUE_DISCRIMINATOR),
       (''set_cooldown'', SET_COOLDOWN_DISCRIMINATOR),
       (''set_fulfillment_window'', SET_FULFILLMENT_WINDOW_DISCRIMINATOR),
       (''request_withdrawal'', REQUEST_WITHDRAWAL_DISCRIMINATOR),
       (''finalize_withdrawal'', FINALIZE_WITHDRAWAL_DISCRIMINATOR),
       (''cancel_withdrawal'', CANCEL_WITHDRAWAL_DISCRIMINATOR),
       (''release_vault'', RELEASE_VAULT_DISCRIMINATOR),
       (''sweep_escrow_shares'', SWEEP_ESCROW_SHARES_DISCRIMINATOR),
       (''expedite_request'', EXPEDITE_REQUEST_DISCRIMINATOR)] n)"

lemma ex_pins: "vault_pins ex_discriminator" "queue_pins ex_discriminator"
  by code_simp+

definition ex_deposit_call :: "pubkey vault_call" where
  "ex_deposit_call =
     CallDepositChecked \<lparr>cdpc_vault_state = ex_vault, cdpc_vault_token_ata = ex_reserve,
       cdpc_sender_token_account = ex_user_tokens, cdpc_sender_share_account = ex_user_shares,
       cdpc_share_mint = ex_share_mint, cdpc_deposit_mint = ex_mint, cdpc_signer = ex_user,
       cdpc_token_program = 1\<rparr> 1000 900"

theorem vault_client_wire_witness:
  "\<exists>ix. vault_direct ex_deposit_call [] = Inr ix \<and>
     submit ex_discriminator ref_env (ex_tx ex_user) ix ex_live =
       Some (deposit_checked ref_env (ex_tx ex_user) ex_deposit 1000 900 ex_live)"
proof -
  obtain ix where ix: "vault_direct ex_deposit_call [] = Inr ix" by (simp add: ex_deposit_call_def)
  have "vault_known ref_env ex_deposit_call" by (simp add: ex_deposit_call_def)
  moreover have "vault_target ex_deposit_call = User (DepositChecked ex_deposit 1000 900)"
    by (simp add: ex_deposit_call_def ex_deposit_def)
  ultimately show ?thesis using vault_client_wire [OF ex_pins(1) _ ix] ix by simp
qed

definition ex_request_call :: "pubkey queue_call" where
  "ex_request_call =
     CallRequestWithdrawal \<lparr>crqw_queue = rw_queue ex_request, crqw_vault_state = rw_vault_state ex_request,
       crqw_owner = rw_owner ex_request, crqw_owner_share_account = rw_owner_share_account ex_request,
       crqw_escrow_shares = rw_escrow_shares ex_request, crqw_share_mint = rw_share_mint ex_request,
       crqw_recipient_token_account = rw_recipient_token_account ex_request,
       crqw_request = rw_request ex_request, crqw_token_program = rw_token_program ex_request,
       crqw_system_program = SYSTEM_PROGRAM, crqw_event_authority = event_authority ref_env,
       crqw_program = WITHDRAWAL_QUEUE_PROGRAM_ID\<rparr> 7 1000000 1980000 0"

theorem queue_client_wire_witness:
  "\<exists>ix. queue_direct ex_request_call [] = Inr ix \<and>
     submit ex_discriminator ref_env (ex_tx ex_user) ix ex_live =
       Some (request_withdrawal ref_env (ex_tx ex_user) ex_request 7 1000000 1980000 0 ex_live)"
proof -
  obtain ix where ix: "queue_direct ex_request_call [] = Inr ix" by (simp add: ex_request_call_def)
  have "queue_known ref_env ex_request_call" by (simp add: ex_request_call_def)
  moreover have "queue_target ex_request_call = Queue (RequestWithdrawal ex_request 7 1000000 1980000 0)"
    by (simp add: ex_request_call_def)
  ultimately show ?thesis using queue_client_wire [OF ex_pins(2) _ ix] ix by simp
qed

end
