(* ===== verification/Setters.thy ===== *)
theory Setters
  imports ClientCore
begin

text \<open>
  What the setters of a builder owe the caller who chains them. A builder is viewed as one slot per
  field, holding the setter that would write what the field holds; calling a setter replaces its slot
  and leaves everything else. Setters of different fields then commute, of two for the same field the
  later one counts, and a builder is determined by the last write to each field, in whatever order
  they are set. The contract is a locale; every generated builder of the two clients meets it (\<open>SettersUser\<close>, \<open>SettersAdmin\<close>,
  \<open>SettersSetup\<close>, \<open>SettersQueue\<close>).
\<close>

lemma map_option_eq [simp]: "inj f \<Longrightarrow> map_option f x = map_option f y \<longleftrightarrow> x = y"
  by (simp add: inj_eq option.inj_map)

definition last_write :: "('s \<Rightarrow> nat) \<Rightarrow> 's list \<Rightarrow> nat \<Rightarrow> 's option" where
  "last_write slot ss n = find (\<lambda>s. slot s = n) (rev ss)"

lemma last_write_simps [simp]:
  "last_write slot [] n = None"
  "last_write slot (ss @ [s]) n = (if slot s = n then Some s else last_write slot ss n)"
  by (simp_all add: last_write_def)

lemma last_write_None: "last_write slot ss n = None \<longleftrightarrow> (\<forall>s\<in>set ss. slot s \<noteq> n)"
  by (auto simp: last_write_def find_None_iff)

lemma last_write_slot: "last_write slot ss n = Some s \<Longrightarrow> slot s = n"
  by (auto simp: last_write_def find_Some_iff)

lemma last_write_others:
  "last_write slot (filter (\<lambda>t. slot t \<noteq> n) ss) k = (if k = n then None else last_write slot ss k)"
  by (induction ss rule: rev_induct) auto

text \<open>
  The setters of a full list called in any order, each at least once: \<open>order\<close> gives their positions,
  and positions past the end of the list are passed over.
\<close>

definition chosen :: "nat list \<Rightarrow> 's list \<Rightarrow> 's list" where
  "chosen order xs = map (\<lambda>i. xs ! i) (filter (\<lambda>i. i < length xs) order)"

lemma last_write_of:
  "\<forall>s\<in>set ys. s = xs ! slot s \<Longrightarrow>
   last_write slot ys n = (if n \<in> slot ` set ys then Some (xs ! n) else None)"
  by (induction ys rule: rev_induct) auto

lemma last_write_chosen:
  assumes "map slot xs = [0..<length xs]" and "{..<length xs} \<subseteq> set order"
  shows "last_write slot (chosen order xs) = last_write slot xs"
proof
  fix n
  have i: "slot (xs ! i) = i" if "i < length xs" for i
    using assms(1) that by (metis add_0 nth_map nth_upt)
  then have xs: "\<forall>s\<in>set xs. s = xs ! slot s" by (auto simp: in_set_conv_nth)
  have "set (filter (\<lambda>i. i < length xs) order) = {0..<length xs}" using assms(2) by auto
  then have "set (chosen order xs) = set xs"
    by (simp only: chosen_def set_map nth_image [OF order_refl] take_all [OF order_refl])
  then show "last_write slot (chosen order xs) n = last_write slot xs n"
    using xs by (simp add: last_write_of [of _ xs])
qed

locale field_setters =
  fixes put :: "'s \<Rightarrow> 'b \<Rightarrow> 'b" and slot :: "'s \<Rightarrow> nat"
    and slots :: "'b \<Rightarrow> 's option list" and rest :: "'b \<Rightarrow> 'r"
  assumes slots_put: "slots (put s b) = (slots b)[slot s := Some s]"
    and rest_put: "rest (put s b) = rest b"
    and same_builder: "slots b = slots b' \<Longrightarrow> rest b = rest b' \<Longrightarrow> b = b'"
begin

lemma put_commute: "slot s \<noteq> slot t \<Longrightarrow> put s (put t b) = put t (put s b)"
  by (rule same_builder) (simp_all add: slots_put rest_put list_update_swap)

lemma put_overwrites: "slot s = slot t \<Longrightarrow> put s (put t b) = put s b"
  by (rule same_builder) (simp_all add: slots_put rest_put)

lemma fold_last:
  "last_write slot ss n = Some s \<Longrightarrow>
   fold put ss b = put s (fold put (filter (\<lambda>t. slot t \<noteq> n) ss) b)"
proof (induction ss arbitrary: s rule: rev_induct)
  case (snoc t ss)
  show ?case
  proof (cases "slot t = n")
    case True
    then have s: "s = t" using snoc.prems by simp
    show ?thesis
    proof (cases "last_write slot ss n")
      case None
      then have "filter (\<lambda>t. slot t \<noteq> n) ss = ss" by (simp add: last_write_None filter_id_conv)
      then show ?thesis using s True by simp
    next
      case (Some u)
      then have "slot t = slot u" using True last_write_slot by metis
      then show ?thesis using snoc.IH [OF Some] True by (simp add: s put_overwrites)
    qed
  next
    case False
    then have s: "last_write slot ss n = Some s" using snoc.prems by simp
    then have "slot t \<noteq> slot s" using False last_write_slot by metis
    then show ?thesis using snoc.IH [OF s] False by (simp add: put_commute)
  qed
qed simp

theorem last_write_decides:
  "last_write slot ss = last_write slot ts \<Longrightarrow> fold put ss b = fold put ts b"
proof (induction "length ss" arbitrary: ss ts rule: less_induct)
  case less
  show ?case
  proof (cases ss rule: rev_cases)
    case Nil
    then have "\<forall>n. last_write slot ts n = None" using less.prems by (simp flip: less.prems)
    then have "ts = []" unfolding last_write_None by (cases ts) auto
    then show ?thesis using Nil by simp
  next
    case (snoc us s)
    let ?n = "slot s" and ?rest = "filter (\<lambda>t. slot t \<noteq> slot s)"
    have s: "last_write slot ss ?n = Some s" "last_write slot ts ?n = Some s"
      using snoc by (simp_all flip: less.prems)
    have "length (?rest ss) < length ss" using snoc by (simp add: le_imp_less_Suc)
    moreover have "last_write slot (?rest ss) = last_write slot (?rest ts)"
      by (rule ext) (simp add: last_write_others less.prems)
    ultimately have "fold put (?rest ss) b = fold put (?rest ts) b" by (rule less.hyps)
    then show ?thesis by (simp add: fold_last [OF s(1)] fold_last [OF s(2)])
  qed
qed

text \<open>Setting the same fields once each, in another order.\<close>

lemma order_free:
  assumes "mset ss = mset ts" and "distinct (map slot ss)"
  shows "fold put ss b = fold put ts b"
proof (rule fold_permuted_eq [where P = "\<lambda>_. True", OF assms(1)])
  show "put s (put t z) = put t (put s z)" if "s \<in> set ss" "t \<in> set ss" for s t z
    using that assms(2) by (cases "s = t") (auto simp: distinct_map inj_on_def intro: put_commute)
qed simp_all

end

end
