(* ===== verification/SettersUser.thy ===== *)
theory SettersUser
  imports Setters ClientUser
begin

text \<open>
  The builders of the vault client's deposits, redemptions, operator transfers and destinations, from \<open>new\<close> through their
  setters (\<open>src/generated/instructions\<close>). \<open>x_set\<close> is the builder's setter of each field and
  \<open>x_cpi_set\<close> the CPI builder's. Both meet \<open>field_setters\<close>; so a builder whose fields were all
  set, in any order, makes the instruction of the values last given.
\<close>

section \<open>instructions/deposit.rs\<close>

datatype (plugins only: code) (dead 'k) deposit_setter =
    Cdpo_vault_state 'k
  | Cdpo_vault_token_ata 'k
  | Cdpo_sender_token_account 'k
  | Cdpo_sender_share_account 'k
  | Cdpo_share_mint 'k
  | Cdpo_deposit_mint 'k
  | Cdpo_signer 'k
  | Cdpo_token_program 'k
  | Cdpo_amount u64

definition deposit_new :: "(pubkey option deposit_client, u64 option, account_meta) builder" where
  "deposit_new =
     \<lparr>b_accounts = \<lparr>cdpo_vault_state = None, cdpo_vault_token_ata = None, cdpo_sender_token_account = None,
        cdpo_sender_share_account = None, cdpo_share_mint = None, cdpo_deposit_mint = None,
        cdpo_signer = None, cdpo_token_program = None\<rparr>,
      b_args = None, b_remaining = []\<rparr>"

primrec deposit_set ::
  "'k deposit_setter \<Rightarrow>
   ('k option deposit_client, u64 option, 'r) builder \<Rightarrow>
   ('k option deposit_client, u64 option, 'r) builder"
where
  "deposit_set (Cdpo_vault_state x) b =
     b\<lparr>b_accounts := (b_accounts b)\<lparr>cdpo_vault_state := Some x\<rparr>\<rparr>"
| "deposit_set (Cdpo_vault_token_ata x) b =
     b\<lparr>b_accounts := (b_accounts b)\<lparr>cdpo_vault_token_ata := Some x\<rparr>\<rparr>"
| "deposit_set (Cdpo_sender_token_account x) b =
     b\<lparr>b_accounts := (b_accounts b)\<lparr>cdpo_sender_token_account := Some x\<rparr>\<rparr>"
| "deposit_set (Cdpo_sender_share_account x) b =
     b\<lparr>b_accounts := (b_accounts b)\<lparr>cdpo_sender_share_account := Some x\<rparr>\<rparr>"
| "deposit_set (Cdpo_share_mint x) b =
     b\<lparr>b_accounts := (b_accounts b)\<lparr>cdpo_share_mint := Some x\<rparr>\<rparr>"
| "deposit_set (Cdpo_deposit_mint x) b =
     b\<lparr>b_accounts := (b_accounts b)\<lparr>cdpo_deposit_mint := Some x\<rparr>\<rparr>"
| "deposit_set (Cdpo_signer x) b =
     b\<lparr>b_accounts := (b_accounts b)\<lparr>cdpo_signer := Some x\<rparr>\<rparr>"
| "deposit_set (Cdpo_token_program x) b =
     b\<lparr>b_accounts := (b_accounts b)\<lparr>cdpo_token_program := Some x\<rparr>\<rparr>"
| "deposit_set (Cdpo_amount x) b = b\<lparr>b_args := Some x\<rparr>"

definition deposit_cpi_new ::
  "'i \<Rightarrow> 'i \<times> ('i option deposit_client, u64 option, 'i \<times> bool \<times> bool) builder"
where
  "deposit_cpi_new program =
    (program,
     \<lparr>b_accounts = \<lparr>cdpo_vault_state = None, cdpo_vault_token_ata = None, cdpo_sender_token_account = None,
        cdpo_sender_share_account = None, cdpo_share_mint = None, cdpo_deposit_mint = None,
        cdpo_signer = None, cdpo_token_program = None\<rparr>,
      b_args = None, b_remaining = []\<rparr>)"

primrec deposit_cpi_set ::
  "'i deposit_setter \<Rightarrow>
   ('i option deposit_client, u64 option, 'i \<times> bool \<times> bool) builder \<Rightarrow>
   ('i option deposit_client, u64 option, 'i \<times> bool \<times> bool) builder"
where
  "deposit_cpi_set (Cdpo_vault_state x) b =
     b\<lparr>b_accounts := (b_accounts b)\<lparr>cdpo_vault_state := Some x\<rparr>\<rparr>"
| "deposit_cpi_set (Cdpo_vault_token_ata x) b =
     b\<lparr>b_accounts := (b_accounts b)\<lparr>cdpo_vault_token_ata := Some x\<rparr>\<rparr>"
| "deposit_cpi_set (Cdpo_sender_token_account x) b =
     b\<lparr>b_accounts := (b_accounts b)\<lparr>cdpo_sender_token_account := Some x\<rparr>\<rparr>"
| "deposit_cpi_set (Cdpo_sender_share_account x) b =
     b\<lparr>b_accounts := (b_accounts b)\<lparr>cdpo_sender_share_account := Some x\<rparr>\<rparr>"
| "deposit_cpi_set (Cdpo_share_mint x) b =
     b\<lparr>b_accounts := (b_accounts b)\<lparr>cdpo_share_mint := Some x\<rparr>\<rparr>"
| "deposit_cpi_set (Cdpo_deposit_mint x) b =
     b\<lparr>b_accounts := (b_accounts b)\<lparr>cdpo_deposit_mint := Some x\<rparr>\<rparr>"
| "deposit_cpi_set (Cdpo_signer x) b =
     b\<lparr>b_accounts := (b_accounts b)\<lparr>cdpo_signer := Some x\<rparr>\<rparr>"
| "deposit_cpi_set (Cdpo_token_program x) b =
     b\<lparr>b_accounts := (b_accounts b)\<lparr>cdpo_token_program := Some x\<rparr>\<rparr>"
| "deposit_cpi_set (Cdpo_amount x) b = b\<lparr>b_args := Some x\<rparr>"

primrec deposit_slot :: "'k deposit_setter \<Rightarrow> nat" where
  "deposit_slot (Cdpo_vault_state x) = 0"
| "deposit_slot (Cdpo_vault_token_ata x) = 1"
| "deposit_slot (Cdpo_sender_token_account x) = 2"
| "deposit_slot (Cdpo_sender_share_account x) = 3"
| "deposit_slot (Cdpo_share_mint x) = 4"
| "deposit_slot (Cdpo_deposit_mint x) = 5"
| "deposit_slot (Cdpo_signer x) = 6"
| "deposit_slot (Cdpo_token_program x) = 7"
| "deposit_slot (Cdpo_amount x) = 8"

definition deposit_setters :: "'k deposit_client \<Rightarrow> u64 \<Rightarrow> 'k deposit_setter list" where
  "deposit_setters a amount =
     [Cdpo_vault_state (cdpo_vault_state a), Cdpo_vault_token_ata (cdpo_vault_token_ata a),
      Cdpo_sender_token_account (cdpo_sender_token_account a),
      Cdpo_sender_share_account (cdpo_sender_share_account a), Cdpo_share_mint (cdpo_share_mint a),
      Cdpo_deposit_mint (cdpo_deposit_mint a), Cdpo_signer (cdpo_signer a),
      Cdpo_token_program (cdpo_token_program a), Cdpo_amount amount]"

definition deposit_slots ::
  "('k option deposit_client, u64 option, 'r) builder \<Rightarrow> 'k deposit_setter option list"
where
  "deposit_slots b =
     [map_option Cdpo_vault_state (cdpo_vault_state (b_accounts b)),
      map_option Cdpo_vault_token_ata (cdpo_vault_token_ata (b_accounts b)),
      map_option Cdpo_sender_token_account (cdpo_sender_token_account (b_accounts b)),
      map_option Cdpo_sender_share_account (cdpo_sender_share_account (b_accounts b)),
      map_option Cdpo_share_mint (cdpo_share_mint (b_accounts b)),
      map_option Cdpo_deposit_mint (cdpo_deposit_mint (b_accounts b)),
      map_option Cdpo_signer (cdpo_signer (b_accounts b)),
      map_option Cdpo_token_program (cdpo_token_program (b_accounts b)),
      map_option Cdpo_amount (b_args b)]"

interpretation deposit_fields: field_setters deposit_set deposit_slot deposit_slots b_remaining
proof
  fix s :: "'a deposit_setter" and b b' :: "('a option deposit_client, u64 option, 'b) builder"
  show "deposit_slots (deposit_set s b) = (deposit_slots b)[deposit_slot s := Some s]" "b_remaining (deposit_set s b) = b_remaining b"
    by (cases s; simp add: deposit_slots_def)+
  assume "deposit_slots b = deposit_slots b'" "b_remaining b = b_remaining b'"
  then show "b = b'"
    by (intro builder.equality deposit_client.equality)
      (simp_all add: deposit_slots_def inj_def)
qed

lemma deposit_cpi_set_is: "deposit_cpi_set = deposit_set"
proof (intro ext)
  fix x :: "'i deposit_setter" and b
  show "deposit_cpi_set x b = deposit_set x b" by (cases x) simp_all
qed

lemma deposit_setters_chosen:
  "{..<17} \<subseteq> set order \<Longrightarrow>
   last_write deposit_slot (chosen order (deposit_setters a amount)) = last_write deposit_slot (deposit_setters a amount)"
  by (rule last_write_chosen) (auto simp: deposit_setters_def upt_rec)

lemma deposit_built:
  assumes "last_write deposit_slot ss = last_write deposit_slot (deposit_setters a amount)"
  shows "deposit_build (add_remaining_accounts rem (fold deposit_set ss deposit_new)) =
     Inr (deposit_instruction a amount rem)"
  unfolding deposit_fields.last_write_decides [OF assms]
  by (simp add: deposit_setters_def deposit_new_def deposit_build_def add_remaining_accounts_def)

lemma deposit_cpi_built:
  assumes "last_write deposit_slot ss = last_write deposit_slot (deposit_setters a amount)"
  shows "(case deposit_cpi_new program of (program, b) \<Rightarrow>
       deposit_cpi_build key program (cpi_add_remaining_accounts rem (fold deposit_cpi_set ss b)) seeds) =
     Inr (deposit_cpi key program a amount seeds rem)"
  unfolding deposit_cpi_new_def prod.case deposit_cpi_set_is deposit_fields.last_write_decides [OF assms]
  by (simp add: deposit_setters_def deposit_cpi_build_def cpi_add_remaining_accounts_def)

lemmas deposit_chained = deposit_built [OF deposit_setters_chosen] deposit_cpi_built [OF deposit_setters_chosen]

section \<open>instructions/deposit_checked.rs\<close>

datatype (plugins only: code) (dead 'k) deposit_checked_setter =
    Cdpc_vault_state 'k
  | Cdpc_vault_token_ata 'k
  | Cdpc_sender_token_account 'k
  | Cdpc_sender_share_account 'k
  | Cdpc_share_mint 'k
  | Cdpc_deposit_mint 'k
  | Cdpc_signer 'k
  | Cdpc_token_program 'k
  | Cdpc_amount u64
  | Cdpc_min_shares_out u64

definition deposit_checked_new :: "(pubkey option deposit_checked_client, u64 option \<times> u64 option, account_meta) builder" where
  "deposit_checked_new =
     \<lparr>b_accounts = \<lparr>cdpc_vault_state = None, cdpc_vault_token_ata = None, cdpc_sender_token_account = None,
        cdpc_sender_share_account = None, cdpc_share_mint = None, cdpc_deposit_mint = None,
        cdpc_signer = None, cdpc_token_program = None\<rparr>,
      b_args = (None, None), b_remaining = []\<rparr>"

primrec deposit_checked_set ::
  "'k deposit_checked_setter \<Rightarrow>
   ('k option deposit_checked_client, u64 option \<times> u64 option, 'r) builder \<Rightarrow>
   ('k option deposit_checked_client, u64 option \<times> u64 option, 'r) builder"
where
  "deposit_checked_set (Cdpc_vault_state x) b =
     b\<lparr>b_accounts := (b_accounts b)\<lparr>cdpc_vault_state := Some x\<rparr>\<rparr>"
| "deposit_checked_set (Cdpc_vault_token_ata x) b =
     b\<lparr>b_accounts := (b_accounts b)\<lparr>cdpc_vault_token_ata := Some x\<rparr>\<rparr>"
| "deposit_checked_set (Cdpc_sender_token_account x) b =
     b\<lparr>b_accounts := (b_accounts b)\<lparr>cdpc_sender_token_account := Some x\<rparr>\<rparr>"
| "deposit_checked_set (Cdpc_sender_share_account x) b =
     b\<lparr>b_accounts := (b_accounts b)\<lparr>cdpc_sender_share_account := Some x\<rparr>\<rparr>"
| "deposit_checked_set (Cdpc_share_mint x) b =
     b\<lparr>b_accounts := (b_accounts b)\<lparr>cdpc_share_mint := Some x\<rparr>\<rparr>"
| "deposit_checked_set (Cdpc_deposit_mint x) b =
     b\<lparr>b_accounts := (b_accounts b)\<lparr>cdpc_deposit_mint := Some x\<rparr>\<rparr>"
| "deposit_checked_set (Cdpc_signer x) b =
     b\<lparr>b_accounts := (b_accounts b)\<lparr>cdpc_signer := Some x\<rparr>\<rparr>"
| "deposit_checked_set (Cdpc_token_program x) b =
     b\<lparr>b_accounts := (b_accounts b)\<lparr>cdpc_token_program := Some x\<rparr>\<rparr>"
| "deposit_checked_set (Cdpc_amount x) b =
     b\<lparr>b_args := (case b_args b of (_, p1) \<Rightarrow> (Some x, p1))\<rparr>"
| "deposit_checked_set (Cdpc_min_shares_out x) b =
     b\<lparr>b_args := (case b_args b of (p0, _) \<Rightarrow> (p0, Some x))\<rparr>"

definition deposit_checked_cpi_new ::
  "'i \<Rightarrow> 'i \<times> ('i option deposit_checked_client, u64 option \<times> u64 option, 'i \<times> bool \<times> bool) builder"
where
  "deposit_checked_cpi_new program =
    (program,
     \<lparr>b_accounts = \<lparr>cdpc_vault_state = None, cdpc_vault_token_ata = None, cdpc_sender_token_account = None,
        cdpc_sender_share_account = None, cdpc_share_mint = None, cdpc_deposit_mint = None,
        cdpc_signer = None, cdpc_token_program = None\<rparr>,
      b_args = (None, None), b_remaining = []\<rparr>)"

primrec deposit_checked_cpi_set ::
  "'i deposit_checked_setter \<Rightarrow>
   ('i option deposit_checked_client, u64 option \<times> u64 option, 'i \<times> bool \<times> bool) builder \<Rightarrow>
   ('i option deposit_checked_client, u64 option \<times> u64 option, 'i \<times> bool \<times> bool) builder"
where
  "deposit_checked_cpi_set (Cdpc_vault_state x) b =
     b\<lparr>b_accounts := (b_accounts b)\<lparr>cdpc_vault_state := Some x\<rparr>\<rparr>"
| "deposit_checked_cpi_set (Cdpc_vault_token_ata x) b =
     b\<lparr>b_accounts := (b_accounts b)\<lparr>cdpc_vault_token_ata := Some x\<rparr>\<rparr>"
| "deposit_checked_cpi_set (Cdpc_sender_token_account x) b =
     b\<lparr>b_accounts := (b_accounts b)\<lparr>cdpc_sender_token_account := Some x\<rparr>\<rparr>"
| "deposit_checked_cpi_set (Cdpc_sender_share_account x) b =
     b\<lparr>b_accounts := (b_accounts b)\<lparr>cdpc_sender_share_account := Some x\<rparr>\<rparr>"
| "deposit_checked_cpi_set (Cdpc_share_mint x) b =
     b\<lparr>b_accounts := (b_accounts b)\<lparr>cdpc_share_mint := Some x\<rparr>\<rparr>"
| "deposit_checked_cpi_set (Cdpc_deposit_mint x) b =
     b\<lparr>b_accounts := (b_accounts b)\<lparr>cdpc_deposit_mint := Some x\<rparr>\<rparr>"
| "deposit_checked_cpi_set (Cdpc_signer x) b =
     b\<lparr>b_accounts := (b_accounts b)\<lparr>cdpc_signer := Some x\<rparr>\<rparr>"
| "deposit_checked_cpi_set (Cdpc_token_program x) b =
     b\<lparr>b_accounts := (b_accounts b)\<lparr>cdpc_token_program := Some x\<rparr>\<rparr>"
| "deposit_checked_cpi_set (Cdpc_amount x) b =
     b\<lparr>b_args := (case b_args b of (_, p1) \<Rightarrow> (Some x, p1))\<rparr>"
| "deposit_checked_cpi_set (Cdpc_min_shares_out x) b =
     b\<lparr>b_args := (case b_args b of (p0, _) \<Rightarrow> (p0, Some x))\<rparr>"

primrec deposit_checked_slot :: "'k deposit_checked_setter \<Rightarrow> nat" where
  "deposit_checked_slot (Cdpc_vault_state x) = 0"
| "deposit_checked_slot (Cdpc_vault_token_ata x) = 1"
| "deposit_checked_slot (Cdpc_sender_token_account x) = 2"
| "deposit_checked_slot (Cdpc_sender_share_account x) = 3"
| "deposit_checked_slot (Cdpc_share_mint x) = 4"
| "deposit_checked_slot (Cdpc_deposit_mint x) = 5"
| "deposit_checked_slot (Cdpc_signer x) = 6"
| "deposit_checked_slot (Cdpc_token_program x) = 7"
| "deposit_checked_slot (Cdpc_amount x) = 8"
| "deposit_checked_slot (Cdpc_min_shares_out x) = 9"

definition deposit_checked_setters :: "'k deposit_checked_client \<Rightarrow> u64 \<Rightarrow> u64 \<Rightarrow> 'k deposit_checked_setter list" where
  "deposit_checked_setters a amount min_shares_out =
     [Cdpc_vault_state (cdpc_vault_state a), Cdpc_vault_token_ata (cdpc_vault_token_ata a),
      Cdpc_sender_token_account (cdpc_sender_token_account a),
      Cdpc_sender_share_account (cdpc_sender_share_account a), Cdpc_share_mint (cdpc_share_mint a),
      Cdpc_deposit_mint (cdpc_deposit_mint a), Cdpc_signer (cdpc_signer a),
      Cdpc_token_program (cdpc_token_program a), Cdpc_amount amount,
      Cdpc_min_shares_out min_shares_out]"

definition deposit_checked_slots ::
  "('k option deposit_checked_client, u64 option \<times> u64 option, 'r) builder \<Rightarrow> 'k deposit_checked_setter option list"
where
  "deposit_checked_slots b =
     (case b_args b of (amount, min_shares_out) \<Rightarrow>
     [map_option Cdpc_vault_state (cdpc_vault_state (b_accounts b)),
      map_option Cdpc_vault_token_ata (cdpc_vault_token_ata (b_accounts b)),
      map_option Cdpc_sender_token_account (cdpc_sender_token_account (b_accounts b)),
      map_option Cdpc_sender_share_account (cdpc_sender_share_account (b_accounts b)),
      map_option Cdpc_share_mint (cdpc_share_mint (b_accounts b)),
      map_option Cdpc_deposit_mint (cdpc_deposit_mint (b_accounts b)),
      map_option Cdpc_signer (cdpc_signer (b_accounts b)),
      map_option Cdpc_token_program (cdpc_token_program (b_accounts b)),
      map_option Cdpc_amount amount, map_option Cdpc_min_shares_out min_shares_out])"

interpretation deposit_checked_fields: field_setters deposit_checked_set deposit_checked_slot deposit_checked_slots b_remaining
proof
  fix s :: "'a deposit_checked_setter" and b b' :: "('a option deposit_checked_client, u64 option \<times> u64 option, 'b) builder"
  show "deposit_checked_slots (deposit_checked_set s b) = (deposit_checked_slots b)[deposit_checked_slot s := Some s]" "b_remaining (deposit_checked_set s b) = b_remaining b"
    by (cases s; simp add: deposit_checked_slots_def split: prod.splits)+
  assume "deposit_checked_slots b = deposit_checked_slots b'" "b_remaining b = b_remaining b'"
  then show "b = b'"
    by (intro builder.equality deposit_checked_client.equality)
      (simp_all add: deposit_checked_slots_def inj_def split: prod.splits)
qed

lemma deposit_checked_cpi_set_is: "deposit_checked_cpi_set = deposit_checked_set"
proof (intro ext)
  fix x :: "'i deposit_checked_setter" and b
  show "deposit_checked_cpi_set x b = deposit_checked_set x b" by (cases x) simp_all
qed

lemma deposit_checked_setters_chosen:
  "{..<17} \<subseteq> set order \<Longrightarrow>
   last_write deposit_checked_slot (chosen order (deposit_checked_setters a amount min_shares_out)) = last_write deposit_checked_slot (deposit_checked_setters a amount min_shares_out)"
  by (rule last_write_chosen) (auto simp: deposit_checked_setters_def upt_rec)

lemma deposit_checked_built:
  assumes "last_write deposit_checked_slot ss = last_write deposit_checked_slot (deposit_checked_setters a amount min_shares_out)"
  shows "deposit_checked_build (add_remaining_accounts rem (fold deposit_checked_set ss deposit_checked_new)) =
     Inr (deposit_checked_instruction a amount min_shares_out rem)"
  unfolding deposit_checked_fields.last_write_decides [OF assms]
  by (simp add: deposit_checked_setters_def deposit_checked_new_def deposit_checked_build_def add_remaining_accounts_def)

lemma deposit_checked_cpi_built:
  assumes "last_write deposit_checked_slot ss = last_write deposit_checked_slot (deposit_checked_setters a amount min_shares_out)"
  shows "(case deposit_checked_cpi_new program of (program, b) \<Rightarrow>
       deposit_checked_cpi_build key program (cpi_add_remaining_accounts rem (fold deposit_checked_cpi_set ss b)) seeds) =
     Inr (deposit_checked_cpi key program a amount min_shares_out seeds rem)"
  unfolding deposit_checked_cpi_new_def prod.case deposit_checked_cpi_set_is deposit_checked_fields.last_write_decides [OF assms]
  by (simp add: deposit_checked_setters_def deposit_checked_cpi_build_def cpi_add_remaining_accounts_def)

lemmas deposit_checked_chained = deposit_checked_built [OF deposit_checked_setters_chosen] deposit_checked_cpi_built [OF deposit_checked_setters_chosen]

section \<open>instructions/redeem.rs\<close>

datatype (plugins only: code) (dead 'k) redeem_setter =
    Crdm_vault_state 'k
  | Crdm_vault_deposit_ata 'k
  | Crdm_sender_token_account 'k
  | Crdm_sender_share_account 'k
  | Crdm_fee_recipient_account 'k
  | Crdm_share_mint 'k
  | Crdm_deposit_mint 'k
  | Crdm_signer 'k
  | Crdm_token_program 'k
  | Crdm_shares u64

definition redeem_new :: "(pubkey option redeem_client, u64 option, account_meta) builder" where
  "redeem_new =
     \<lparr>b_accounts = \<lparr>crdm_vault_state = None, crdm_vault_deposit_ata = None, crdm_sender_token_account = None,
        crdm_sender_share_account = None, crdm_fee_recipient_account = None,
        crdm_share_mint = None, crdm_deposit_mint = None, crdm_signer = None,
        crdm_token_program = None\<rparr>,
      b_args = None, b_remaining = []\<rparr>"

primrec redeem_set ::
  "'k redeem_setter \<Rightarrow>
   ('k option redeem_client, u64 option, 'r) builder \<Rightarrow>
   ('k option redeem_client, u64 option, 'r) builder"
where
  "redeem_set (Crdm_vault_state x) b =
     b\<lparr>b_accounts := (b_accounts b)\<lparr>crdm_vault_state := Some x\<rparr>\<rparr>"
| "redeem_set (Crdm_vault_deposit_ata x) b =
     b\<lparr>b_accounts := (b_accounts b)\<lparr>crdm_vault_deposit_ata := Some x\<rparr>\<rparr>"
| "redeem_set (Crdm_sender_token_account x) b =
     b\<lparr>b_accounts := (b_accounts b)\<lparr>crdm_sender_token_account := Some x\<rparr>\<rparr>"
| "redeem_set (Crdm_sender_share_account x) b =
     b\<lparr>b_accounts := (b_accounts b)\<lparr>crdm_sender_share_account := Some x\<rparr>\<rparr>"
| "redeem_set (Crdm_fee_recipient_account x) b =
     b\<lparr>b_accounts := (b_accounts b)\<lparr>crdm_fee_recipient_account := Some x\<rparr>\<rparr>"
| "redeem_set (Crdm_share_mint x) b =
     b\<lparr>b_accounts := (b_accounts b)\<lparr>crdm_share_mint := Some x\<rparr>\<rparr>"
| "redeem_set (Crdm_deposit_mint x) b =
     b\<lparr>b_accounts := (b_accounts b)\<lparr>crdm_deposit_mint := Some x\<rparr>\<rparr>"
| "redeem_set (Crdm_signer x) b =
     b\<lparr>b_accounts := (b_accounts b)\<lparr>crdm_signer := Some x\<rparr>\<rparr>"
| "redeem_set (Crdm_token_program x) b =
     b\<lparr>b_accounts := (b_accounts b)\<lparr>crdm_token_program := Some x\<rparr>\<rparr>"
| "redeem_set (Crdm_shares x) b = b\<lparr>b_args := Some x\<rparr>"

definition redeem_cpi_new ::
  "'i \<Rightarrow> 'i \<times> ('i option redeem_client, u64 option, 'i \<times> bool \<times> bool) builder"
where
  "redeem_cpi_new program =
    (program,
     \<lparr>b_accounts = \<lparr>crdm_vault_state = None, crdm_vault_deposit_ata = None, crdm_sender_token_account = None,
        crdm_sender_share_account = None, crdm_fee_recipient_account = None,
        crdm_share_mint = None, crdm_deposit_mint = None, crdm_signer = None,
        crdm_token_program = None\<rparr>,
      b_args = None, b_remaining = []\<rparr>)"

primrec redeem_cpi_set ::
  "'i redeem_setter \<Rightarrow>
   ('i option redeem_client, u64 option, 'i \<times> bool \<times> bool) builder \<Rightarrow>
   ('i option redeem_client, u64 option, 'i \<times> bool \<times> bool) builder"
where
  "redeem_cpi_set (Crdm_vault_state x) b =
     b\<lparr>b_accounts := (b_accounts b)\<lparr>crdm_vault_state := Some x\<rparr>\<rparr>"
| "redeem_cpi_set (Crdm_vault_deposit_ata x) b =
     b\<lparr>b_accounts := (b_accounts b)\<lparr>crdm_vault_deposit_ata := Some x\<rparr>\<rparr>"
| "redeem_cpi_set (Crdm_sender_token_account x) b =
     b\<lparr>b_accounts := (b_accounts b)\<lparr>crdm_sender_token_account := Some x\<rparr>\<rparr>"
| "redeem_cpi_set (Crdm_sender_share_account x) b =
     b\<lparr>b_accounts := (b_accounts b)\<lparr>crdm_sender_share_account := Some x\<rparr>\<rparr>"
| "redeem_cpi_set (Crdm_fee_recipient_account x) b =
     b\<lparr>b_accounts := (b_accounts b)\<lparr>crdm_fee_recipient_account := Some x\<rparr>\<rparr>"
| "redeem_cpi_set (Crdm_share_mint x) b =
     b\<lparr>b_accounts := (b_accounts b)\<lparr>crdm_share_mint := Some x\<rparr>\<rparr>"
| "redeem_cpi_set (Crdm_deposit_mint x) b =
     b\<lparr>b_accounts := (b_accounts b)\<lparr>crdm_deposit_mint := Some x\<rparr>\<rparr>"
| "redeem_cpi_set (Crdm_signer x) b =
     b\<lparr>b_accounts := (b_accounts b)\<lparr>crdm_signer := Some x\<rparr>\<rparr>"
| "redeem_cpi_set (Crdm_token_program x) b =
     b\<lparr>b_accounts := (b_accounts b)\<lparr>crdm_token_program := Some x\<rparr>\<rparr>"
| "redeem_cpi_set (Crdm_shares x) b = b\<lparr>b_args := Some x\<rparr>"

primrec redeem_slot :: "'k redeem_setter \<Rightarrow> nat" where
  "redeem_slot (Crdm_vault_state x) = 0"
| "redeem_slot (Crdm_vault_deposit_ata x) = 1"
| "redeem_slot (Crdm_sender_token_account x) = 2"
| "redeem_slot (Crdm_sender_share_account x) = 3"
| "redeem_slot (Crdm_fee_recipient_account x) = 4"
| "redeem_slot (Crdm_share_mint x) = 5"
| "redeem_slot (Crdm_deposit_mint x) = 6"
| "redeem_slot (Crdm_signer x) = 7"
| "redeem_slot (Crdm_token_program x) = 8"
| "redeem_slot (Crdm_shares x) = 9"

definition redeem_setters :: "'k redeem_client \<Rightarrow> u64 \<Rightarrow> 'k redeem_setter list" where
  "redeem_setters a shares =
     [Crdm_vault_state (crdm_vault_state a), Crdm_vault_deposit_ata (crdm_vault_deposit_ata a),
      Crdm_sender_token_account (crdm_sender_token_account a),
      Crdm_sender_share_account (crdm_sender_share_account a),
      Crdm_fee_recipient_account (crdm_fee_recipient_account a),
      Crdm_share_mint (crdm_share_mint a), Crdm_deposit_mint (crdm_deposit_mint a),
      Crdm_signer (crdm_signer a), Crdm_token_program (crdm_token_program a), Crdm_shares shares]"

definition redeem_slots ::
  "('k option redeem_client, u64 option, 'r) builder \<Rightarrow> 'k redeem_setter option list"
where
  "redeem_slots b =
     [map_option Crdm_vault_state (crdm_vault_state (b_accounts b)),
      map_option Crdm_vault_deposit_ata (crdm_vault_deposit_ata (b_accounts b)),
      map_option Crdm_sender_token_account (crdm_sender_token_account (b_accounts b)),
      map_option Crdm_sender_share_account (crdm_sender_share_account (b_accounts b)),
      map_option Crdm_fee_recipient_account (crdm_fee_recipient_account (b_accounts b)),
      map_option Crdm_share_mint (crdm_share_mint (b_accounts b)),
      map_option Crdm_deposit_mint (crdm_deposit_mint (b_accounts b)),
      map_option Crdm_signer (crdm_signer (b_accounts b)),
      map_option Crdm_token_program (crdm_token_program (b_accounts b)),
      map_option Crdm_shares (b_args b)]"

interpretation redeem_fields: field_setters redeem_set redeem_slot redeem_slots b_remaining
proof
  fix s :: "'a redeem_setter" and b b' :: "('a option redeem_client, u64 option, 'b) builder"
  show "redeem_slots (redeem_set s b) = (redeem_slots b)[redeem_slot s := Some s]" "b_remaining (redeem_set s b) = b_remaining b"
    by (cases s; simp add: redeem_slots_def)+
  assume "redeem_slots b = redeem_slots b'" "b_remaining b = b_remaining b'"
  then show "b = b'"
    by (intro builder.equality redeem_client.equality)
      (simp_all add: redeem_slots_def inj_def)
qed

lemma redeem_cpi_set_is: "redeem_cpi_set = redeem_set"
proof (intro ext)
  fix x :: "'i redeem_setter" and b
  show "redeem_cpi_set x b = redeem_set x b" by (cases x) simp_all
qed

lemma redeem_setters_chosen:
  "{..<17} \<subseteq> set order \<Longrightarrow>
   last_write redeem_slot (chosen order (redeem_setters a shares)) = last_write redeem_slot (redeem_setters a shares)"
  by (rule last_write_chosen) (auto simp: redeem_setters_def upt_rec)

lemma redeem_built:
  assumes "last_write redeem_slot ss = last_write redeem_slot (redeem_setters a shares)"
  shows "redeem_build (add_remaining_accounts rem (fold redeem_set ss redeem_new)) =
     Inr (redeem_instruction a shares rem)"
  unfolding redeem_fields.last_write_decides [OF assms]
  by (simp add: redeem_setters_def redeem_new_def redeem_build_def add_remaining_accounts_def)

lemma redeem_cpi_built:
  assumes "last_write redeem_slot ss = last_write redeem_slot (redeem_setters a shares)"
  shows "(case redeem_cpi_new program of (program, b) \<Rightarrow>
       redeem_cpi_build key program (cpi_add_remaining_accounts rem (fold redeem_cpi_set ss b)) seeds) =
     Inr (redeem_cpi key program a shares seeds rem)"
  unfolding redeem_cpi_new_def prod.case redeem_cpi_set_is redeem_fields.last_write_decides [OF assms]
  by (simp add: redeem_setters_def redeem_cpi_build_def cpi_add_remaining_accounts_def)

lemmas redeem_chained = redeem_built [OF redeem_setters_chosen] redeem_cpi_built [OF redeem_setters_chosen]

section \<open>instructions/redeem_checked.rs\<close>

datatype (plugins only: code) (dead 'k) redeem_checked_setter =
    Crdc_vault_state 'k
  | Crdc_vault_deposit_ata 'k
  | Crdc_sender_token_account 'k
  | Crdc_sender_share_account 'k
  | Crdc_fee_recipient_account 'k
  | Crdc_share_mint 'k
  | Crdc_deposit_mint 'k
  | Crdc_signer 'k
  | Crdc_token_program 'k
  | Crdc_shares u64
  | Crdc_min_assets_out u64

definition redeem_checked_new :: "(pubkey option redeem_checked_client, u64 option \<times> u64 option, account_meta) builder" where
  "redeem_checked_new =
     \<lparr>b_accounts = \<lparr>crdc_vault_state = None, crdc_vault_deposit_ata = None, crdc_sender_token_account = None,
        crdc_sender_share_account = None, crdc_fee_recipient_account = None,
        crdc_share_mint = None, crdc_deposit_mint = None, crdc_signer = None,
        crdc_token_program = None\<rparr>,
      b_args = (None, None), b_remaining = []\<rparr>"

primrec redeem_checked_set ::
  "'k redeem_checked_setter \<Rightarrow>
   ('k option redeem_checked_client, u64 option \<times> u64 option, 'r) builder \<Rightarrow>
   ('k option redeem_checked_client, u64 option \<times> u64 option, 'r) builder"
where
  "redeem_checked_set (Crdc_vault_state x) b =
     b\<lparr>b_accounts := (b_accounts b)\<lparr>crdc_vault_state := Some x\<rparr>\<rparr>"
| "redeem_checked_set (Crdc_vault_deposit_ata x) b =
     b\<lparr>b_accounts := (b_accounts b)\<lparr>crdc_vault_deposit_ata := Some x\<rparr>\<rparr>"
| "redeem_checked_set (Crdc_sender_token_account x) b =
     b\<lparr>b_accounts := (b_accounts b)\<lparr>crdc_sender_token_account := Some x\<rparr>\<rparr>"
| "redeem_checked_set (Crdc_sender_share_account x) b =
     b\<lparr>b_accounts := (b_accounts b)\<lparr>crdc_sender_share_account := Some x\<rparr>\<rparr>"
| "redeem_checked_set (Crdc_fee_recipient_account x) b =
     b\<lparr>b_accounts := (b_accounts b)\<lparr>crdc_fee_recipient_account := Some x\<rparr>\<rparr>"
| "redeem_checked_set (Crdc_share_mint x) b =
     b\<lparr>b_accounts := (b_accounts b)\<lparr>crdc_share_mint := Some x\<rparr>\<rparr>"
| "redeem_checked_set (Crdc_deposit_mint x) b =
     b\<lparr>b_accounts := (b_accounts b)\<lparr>crdc_deposit_mint := Some x\<rparr>\<rparr>"
| "redeem_checked_set (Crdc_signer x) b =
     b\<lparr>b_accounts := (b_accounts b)\<lparr>crdc_signer := Some x\<rparr>\<rparr>"
| "redeem_checked_set (Crdc_token_program x) b =
     b\<lparr>b_accounts := (b_accounts b)\<lparr>crdc_token_program := Some x\<rparr>\<rparr>"
| "redeem_checked_set (Crdc_shares x) b =
     b\<lparr>b_args := (case b_args b of (_, p1) \<Rightarrow> (Some x, p1))\<rparr>"
| "redeem_checked_set (Crdc_min_assets_out x) b =
     b\<lparr>b_args := (case b_args b of (p0, _) \<Rightarrow> (p0, Some x))\<rparr>"

definition redeem_checked_cpi_new ::
  "'i \<Rightarrow> 'i \<times> ('i option redeem_checked_client, u64 option \<times> u64 option, 'i \<times> bool \<times> bool) builder"
where
  "redeem_checked_cpi_new program =
    (program,
     \<lparr>b_accounts = \<lparr>crdc_vault_state = None, crdc_vault_deposit_ata = None, crdc_sender_token_account = None,
        crdc_sender_share_account = None, crdc_fee_recipient_account = None,
        crdc_share_mint = None, crdc_deposit_mint = None, crdc_signer = None,
        crdc_token_program = None\<rparr>,
      b_args = (None, None), b_remaining = []\<rparr>)"

primrec redeem_checked_cpi_set ::
  "'i redeem_checked_setter \<Rightarrow>
   ('i option redeem_checked_client, u64 option \<times> u64 option, 'i \<times> bool \<times> bool) builder \<Rightarrow>
   ('i option redeem_checked_client, u64 option \<times> u64 option, 'i \<times> bool \<times> bool) builder"
where
  "redeem_checked_cpi_set (Crdc_vault_state x) b =
     b\<lparr>b_accounts := (b_accounts b)\<lparr>crdc_vault_state := Some x\<rparr>\<rparr>"
| "redeem_checked_cpi_set (Crdc_vault_deposit_ata x) b =
     b\<lparr>b_accounts := (b_accounts b)\<lparr>crdc_vault_deposit_ata := Some x\<rparr>\<rparr>"
| "redeem_checked_cpi_set (Crdc_sender_token_account x) b =
     b\<lparr>b_accounts := (b_accounts b)\<lparr>crdc_sender_token_account := Some x\<rparr>\<rparr>"
| "redeem_checked_cpi_set (Crdc_sender_share_account x) b =
     b\<lparr>b_accounts := (b_accounts b)\<lparr>crdc_sender_share_account := Some x\<rparr>\<rparr>"
| "redeem_checked_cpi_set (Crdc_fee_recipient_account x) b =
     b\<lparr>b_accounts := (b_accounts b)\<lparr>crdc_fee_recipient_account := Some x\<rparr>\<rparr>"
| "redeem_checked_cpi_set (Crdc_share_mint x) b =
     b\<lparr>b_accounts := (b_accounts b)\<lparr>crdc_share_mint := Some x\<rparr>\<rparr>"
| "redeem_checked_cpi_set (Crdc_deposit_mint x) b =
     b\<lparr>b_accounts := (b_accounts b)\<lparr>crdc_deposit_mint := Some x\<rparr>\<rparr>"
| "redeem_checked_cpi_set (Crdc_signer x) b =
     b\<lparr>b_accounts := (b_accounts b)\<lparr>crdc_signer := Some x\<rparr>\<rparr>"
| "redeem_checked_cpi_set (Crdc_token_program x) b =
     b\<lparr>b_accounts := (b_accounts b)\<lparr>crdc_token_program := Some x\<rparr>\<rparr>"
| "redeem_checked_cpi_set (Crdc_shares x) b =
     b\<lparr>b_args := (case b_args b of (_, p1) \<Rightarrow> (Some x, p1))\<rparr>"
| "redeem_checked_cpi_set (Crdc_min_assets_out x) b =
     b\<lparr>b_args := (case b_args b of (p0, _) \<Rightarrow> (p0, Some x))\<rparr>"

primrec redeem_checked_slot :: "'k redeem_checked_setter \<Rightarrow> nat" where
  "redeem_checked_slot (Crdc_vault_state x) = 0"
| "redeem_checked_slot (Crdc_vault_deposit_ata x) = 1"
| "redeem_checked_slot (Crdc_sender_token_account x) = 2"
| "redeem_checked_slot (Crdc_sender_share_account x) = 3"
| "redeem_checked_slot (Crdc_fee_recipient_account x) = 4"
| "redeem_checked_slot (Crdc_share_mint x) = 5"
| "redeem_checked_slot (Crdc_deposit_mint x) = 6"
| "redeem_checked_slot (Crdc_signer x) = 7"
| "redeem_checked_slot (Crdc_token_program x) = 8"
| "redeem_checked_slot (Crdc_shares x) = 9"
| "redeem_checked_slot (Crdc_min_assets_out x) = 10"

definition redeem_checked_setters :: "'k redeem_checked_client \<Rightarrow> u64 \<Rightarrow> u64 \<Rightarrow> 'k redeem_checked_setter list" where
  "redeem_checked_setters a shares min_assets_out =
     [Crdc_vault_state (crdc_vault_state a), Crdc_vault_deposit_ata (crdc_vault_deposit_ata a),
      Crdc_sender_token_account (crdc_sender_token_account a),
      Crdc_sender_share_account (crdc_sender_share_account a),
      Crdc_fee_recipient_account (crdc_fee_recipient_account a),
      Crdc_share_mint (crdc_share_mint a), Crdc_deposit_mint (crdc_deposit_mint a),
      Crdc_signer (crdc_signer a), Crdc_token_program (crdc_token_program a), Crdc_shares shares,
      Crdc_min_assets_out min_assets_out]"

definition redeem_checked_slots ::
  "('k option redeem_checked_client, u64 option \<times> u64 option, 'r) builder \<Rightarrow> 'k redeem_checked_setter option list"
where
  "redeem_checked_slots b =
     (case b_args b of (shares, min_assets_out) \<Rightarrow>
     [map_option Crdc_vault_state (crdc_vault_state (b_accounts b)),
      map_option Crdc_vault_deposit_ata (crdc_vault_deposit_ata (b_accounts b)),
      map_option Crdc_sender_token_account (crdc_sender_token_account (b_accounts b)),
      map_option Crdc_sender_share_account (crdc_sender_share_account (b_accounts b)),
      map_option Crdc_fee_recipient_account (crdc_fee_recipient_account (b_accounts b)),
      map_option Crdc_share_mint (crdc_share_mint (b_accounts b)),
      map_option Crdc_deposit_mint (crdc_deposit_mint (b_accounts b)),
      map_option Crdc_signer (crdc_signer (b_accounts b)),
      map_option Crdc_token_program (crdc_token_program (b_accounts b)),
      map_option Crdc_shares shares, map_option Crdc_min_assets_out min_assets_out])"

interpretation redeem_checked_fields: field_setters redeem_checked_set redeem_checked_slot redeem_checked_slots b_remaining
proof
  fix s :: "'a redeem_checked_setter" and b b' :: "('a option redeem_checked_client, u64 option \<times> u64 option, 'b) builder"
  show "redeem_checked_slots (redeem_checked_set s b) = (redeem_checked_slots b)[redeem_checked_slot s := Some s]" "b_remaining (redeem_checked_set s b) = b_remaining b"
    by (cases s; simp add: redeem_checked_slots_def split: prod.splits)+
  assume "redeem_checked_slots b = redeem_checked_slots b'" "b_remaining b = b_remaining b'"
  then show "b = b'"
    by (intro builder.equality redeem_checked_client.equality)
      (simp_all add: redeem_checked_slots_def inj_def split: prod.splits)
qed

lemma redeem_checked_cpi_set_is: "redeem_checked_cpi_set = redeem_checked_set"
proof (intro ext)
  fix x :: "'i redeem_checked_setter" and b
  show "redeem_checked_cpi_set x b = redeem_checked_set x b" by (cases x) simp_all
qed

lemma redeem_checked_setters_chosen:
  "{..<17} \<subseteq> set order \<Longrightarrow>
   last_write redeem_checked_slot (chosen order (redeem_checked_setters a shares min_assets_out)) = last_write redeem_checked_slot (redeem_checked_setters a shares min_assets_out)"
  by (rule last_write_chosen) (auto simp: redeem_checked_setters_def upt_rec)

lemma redeem_checked_built:
  assumes "last_write redeem_checked_slot ss = last_write redeem_checked_slot (redeem_checked_setters a shares min_assets_out)"
  shows "redeem_checked_build (add_remaining_accounts rem (fold redeem_checked_set ss redeem_checked_new)) =
     Inr (redeem_checked_instruction a shares min_assets_out rem)"
  unfolding redeem_checked_fields.last_write_decides [OF assms]
  by (simp add: redeem_checked_setters_def redeem_checked_new_def redeem_checked_build_def add_remaining_accounts_def)

lemma redeem_checked_cpi_built:
  assumes "last_write redeem_checked_slot ss = last_write redeem_checked_slot (redeem_checked_setters a shares min_assets_out)"
  shows "(case redeem_checked_cpi_new program of (program, b) \<Rightarrow>
       redeem_checked_cpi_build key program (cpi_add_remaining_accounts rem (fold redeem_checked_cpi_set ss b)) seeds) =
     Inr (redeem_checked_cpi key program a shares min_assets_out seeds rem)"
  unfolding redeem_checked_cpi_new_def prod.case redeem_checked_cpi_set_is redeem_checked_fields.last_write_decides [OF assms]
  by (simp add: redeem_checked_setters_def redeem_checked_cpi_build_def cpi_add_remaining_accounts_def)

lemmas redeem_checked_chained = redeem_checked_built [OF redeem_checked_setters_chosen] redeem_checked_cpi_built [OF redeem_checked_setters_chosen]

section \<open>instructions/operator_withdraw.rs\<close>

datatype (plugins only: code) (dead 'k) operator_withdraw_setter =
    Copw_vault_state 'k
  | Copw_vault_deposit_ata 'k
  | Copw_operator_token_account 'k
  | Copw_deposit_mint 'k
  | Copw_operator 'k
  | Copw_token_program 'k
  | Copw_subaccount "'k option"
  | Copw_amount u64

definition operator_withdraw_new :: "((pubkey option, pubkey option) operator_withdraw_client, u64 option, account_meta) builder" where
  "operator_withdraw_new =
     \<lparr>b_accounts = \<lparr>copw_vault_state = None, copw_vault_deposit_ata = None, copw_operator_token_account = None,
        copw_deposit_mint = None, copw_operator = None, copw_token_program = None,
        copw_subaccount = None\<rparr>,
      b_args = None, b_remaining = []\<rparr>"

primrec operator_withdraw_set ::
  "'k operator_withdraw_setter \<Rightarrow>
   (('k option, 'k option) operator_withdraw_client, u64 option, 'r) builder \<Rightarrow>
   (('k option, 'k option) operator_withdraw_client, u64 option, 'r) builder"
where
  "operator_withdraw_set (Copw_vault_state x) b =
     b\<lparr>b_accounts := (b_accounts b)\<lparr>copw_vault_state := Some x\<rparr>\<rparr>"
| "operator_withdraw_set (Copw_vault_deposit_ata x) b =
     b\<lparr>b_accounts := (b_accounts b)\<lparr>copw_vault_deposit_ata := Some x\<rparr>\<rparr>"
| "operator_withdraw_set (Copw_operator_token_account x) b =
     b\<lparr>b_accounts := (b_accounts b)\<lparr>copw_operator_token_account := Some x\<rparr>\<rparr>"
| "operator_withdraw_set (Copw_deposit_mint x) b =
     b\<lparr>b_accounts := (b_accounts b)\<lparr>copw_deposit_mint := Some x\<rparr>\<rparr>"
| "operator_withdraw_set (Copw_operator x) b =
     b\<lparr>b_accounts := (b_accounts b)\<lparr>copw_operator := Some x\<rparr>\<rparr>"
| "operator_withdraw_set (Copw_token_program x) b =
     b\<lparr>b_accounts := (b_accounts b)\<lparr>copw_token_program := Some x\<rparr>\<rparr>"
| "operator_withdraw_set (Copw_subaccount x) b =
     b\<lparr>b_accounts := (b_accounts b)\<lparr>copw_subaccount := x\<rparr>\<rparr>"
| "operator_withdraw_set (Copw_amount x) b = b\<lparr>b_args := Some x\<rparr>"

definition operator_withdraw_cpi_new ::
  "'i \<Rightarrow> 'i \<times> (('i option, 'i option) operator_withdraw_client, u64 option, 'i \<times> bool \<times> bool) builder"
where
  "operator_withdraw_cpi_new program =
    (program,
     \<lparr>b_accounts = \<lparr>copw_vault_state = None, copw_vault_deposit_ata = None, copw_operator_token_account = None,
        copw_deposit_mint = None, copw_operator = None, copw_token_program = None,
        copw_subaccount = None\<rparr>,
      b_args = None, b_remaining = []\<rparr>)"

primrec operator_withdraw_cpi_set ::
  "'i operator_withdraw_setter \<Rightarrow>
   (('i option, 'i option) operator_withdraw_client, u64 option, 'i \<times> bool \<times> bool) builder \<Rightarrow>
   (('i option, 'i option) operator_withdraw_client, u64 option, 'i \<times> bool \<times> bool) builder"
where
  "operator_withdraw_cpi_set (Copw_vault_state x) b =
     b\<lparr>b_accounts := (b_accounts b)\<lparr>copw_vault_state := Some x\<rparr>\<rparr>"
| "operator_withdraw_cpi_set (Copw_vault_deposit_ata x) b =
     b\<lparr>b_accounts := (b_accounts b)\<lparr>copw_vault_deposit_ata := Some x\<rparr>\<rparr>"
| "operator_withdraw_cpi_set (Copw_operator_token_account x) b =
     b\<lparr>b_accounts := (b_accounts b)\<lparr>copw_operator_token_account := Some x\<rparr>\<rparr>"
| "operator_withdraw_cpi_set (Copw_deposit_mint x) b =
     b\<lparr>b_accounts := (b_accounts b)\<lparr>copw_deposit_mint := Some x\<rparr>\<rparr>"
| "operator_withdraw_cpi_set (Copw_operator x) b =
     b\<lparr>b_accounts := (b_accounts b)\<lparr>copw_operator := Some x\<rparr>\<rparr>"
| "operator_withdraw_cpi_set (Copw_token_program x) b =
     b\<lparr>b_accounts := (b_accounts b)\<lparr>copw_token_program := Some x\<rparr>\<rparr>"
| "operator_withdraw_cpi_set (Copw_subaccount x) b =
     b\<lparr>b_accounts := (b_accounts b)\<lparr>copw_subaccount := x\<rparr>\<rparr>"
| "operator_withdraw_cpi_set (Copw_amount x) b = b\<lparr>b_args := Some x\<rparr>"

primrec operator_withdraw_slot :: "'k operator_withdraw_setter \<Rightarrow> nat" where
  "operator_withdraw_slot (Copw_vault_state x) = 0"
| "operator_withdraw_slot (Copw_vault_deposit_ata x) = 1"
| "operator_withdraw_slot (Copw_operator_token_account x) = 2"
| "operator_withdraw_slot (Copw_deposit_mint x) = 3"
| "operator_withdraw_slot (Copw_operator x) = 4"
| "operator_withdraw_slot (Copw_token_program x) = 5"
| "operator_withdraw_slot (Copw_subaccount x) = 6"
| "operator_withdraw_slot (Copw_amount x) = 7"

definition operator_withdraw_setters :: "('k, 'k option) operator_withdraw_client \<Rightarrow> u64 \<Rightarrow> 'k operator_withdraw_setter list" where
  "operator_withdraw_setters a amount =
     [Copw_vault_state (copw_vault_state a), Copw_vault_deposit_ata (copw_vault_deposit_ata a),
      Copw_operator_token_account (copw_operator_token_account a),
      Copw_deposit_mint (copw_deposit_mint a), Copw_operator (copw_operator a),
      Copw_token_program (copw_token_program a), Copw_subaccount (copw_subaccount a),
      Copw_amount amount]"

definition operator_withdraw_slots ::
  "(('k option, 'k option) operator_withdraw_client, u64 option, 'r) builder \<Rightarrow> 'k operator_withdraw_setter option list"
where
  "operator_withdraw_slots b =
     [map_option Copw_vault_state (copw_vault_state (b_accounts b)),
      map_option Copw_vault_deposit_ata (copw_vault_deposit_ata (b_accounts b)),
      map_option Copw_operator_token_account (copw_operator_token_account (b_accounts b)),
      map_option Copw_deposit_mint (copw_deposit_mint (b_accounts b)),
      map_option Copw_operator (copw_operator (b_accounts b)),
      map_option Copw_token_program (copw_token_program (b_accounts b)),
      Some (Copw_subaccount (copw_subaccount (b_accounts b))), map_option Copw_amount (b_args b)]"

interpretation operator_withdraw_fields: field_setters operator_withdraw_set operator_withdraw_slot operator_withdraw_slots b_remaining
proof
  fix s :: "'a operator_withdraw_setter" and b b' :: "(('a option, 'a option) operator_withdraw_client, u64 option, 'b) builder"
  show "operator_withdraw_slots (operator_withdraw_set s b) = (operator_withdraw_slots b)[operator_withdraw_slot s := Some s]" "b_remaining (operator_withdraw_set s b) = b_remaining b"
    by (cases s; simp add: operator_withdraw_slots_def)+
  assume "operator_withdraw_slots b = operator_withdraw_slots b'" "b_remaining b = b_remaining b'"
  then show "b = b'"
    by (intro builder.equality operator_withdraw_client.equality)
      (simp_all add: operator_withdraw_slots_def inj_def)
qed

lemma operator_withdraw_cpi_set_is: "operator_withdraw_cpi_set = operator_withdraw_set"
proof (intro ext)
  fix x :: "'i operator_withdraw_setter" and b
  show "operator_withdraw_cpi_set x b = operator_withdraw_set x b" by (cases x) simp_all
qed

lemma operator_withdraw_setters_chosen:
  "{..<17} \<subseteq> set order \<Longrightarrow>
   last_write operator_withdraw_slot (chosen order (operator_withdraw_setters a amount)) = last_write operator_withdraw_slot (operator_withdraw_setters a amount)"
  by (rule last_write_chosen) (auto simp: operator_withdraw_setters_def upt_rec)

lemma operator_withdraw_built:
  assumes "last_write operator_withdraw_slot ss = last_write operator_withdraw_slot (operator_withdraw_setters a amount)"
  shows "operator_withdraw_build (add_remaining_accounts rem (fold operator_withdraw_set ss operator_withdraw_new)) =
     Inr (operator_withdraw_instruction a amount rem)"
  unfolding operator_withdraw_fields.last_write_decides [OF assms]
  by (simp add: operator_withdraw_setters_def operator_withdraw_new_def operator_withdraw_build_def add_remaining_accounts_def)

lemma operator_withdraw_cpi_built:
  assumes "last_write operator_withdraw_slot ss = last_write operator_withdraw_slot (operator_withdraw_setters a amount)"
  shows "(case operator_withdraw_cpi_new program of (program, b) \<Rightarrow>
       operator_withdraw_cpi_build key program (cpi_add_remaining_accounts rem (fold operator_withdraw_cpi_set ss b)) seeds) =
     Inr (operator_withdraw_cpi key program a amount seeds rem)"
  unfolding operator_withdraw_cpi_new_def prod.case operator_withdraw_cpi_set_is operator_withdraw_fields.last_write_decides [OF assms]
  by (simp add: operator_withdraw_setters_def operator_withdraw_cpi_build_def cpi_add_remaining_accounts_def)

lemmas operator_withdraw_chained = operator_withdraw_built [OF operator_withdraw_setters_chosen] operator_withdraw_cpi_built [OF operator_withdraw_setters_chosen]

section \<open>instructions/operator_deposit.rs\<close>

datatype (plugins only: code) (dead 'k) operator_deposit_setter =
    Copd_vault_state 'k
  | Copd_vault_deposit_ata 'k
  | Copd_operator_token_account 'k
  | Copd_deposit_mint 'k
  | Copd_operator 'k
  | Copd_token_program 'k
  | Copd_subaccount "'k option"
  | Copd_amount u64

definition operator_deposit_new :: "((pubkey option, pubkey option) operator_deposit_client, u64 option, account_meta) builder" where
  "operator_deposit_new =
     \<lparr>b_accounts = \<lparr>copd_vault_state = None, copd_vault_deposit_ata = None, copd_operator_token_account = None,
        copd_deposit_mint = None, copd_operator = None, copd_token_program = None,
        copd_subaccount = None\<rparr>,
      b_args = None, b_remaining = []\<rparr>"

primrec operator_deposit_set ::
  "'k operator_deposit_setter \<Rightarrow>
   (('k option, 'k option) operator_deposit_client, u64 option, 'r) builder \<Rightarrow>
   (('k option, 'k option) operator_deposit_client, u64 option, 'r) builder"
where
  "operator_deposit_set (Copd_vault_state x) b =
     b\<lparr>b_accounts := (b_accounts b)\<lparr>copd_vault_state := Some x\<rparr>\<rparr>"
| "operator_deposit_set (Copd_vault_deposit_ata x) b =
     b\<lparr>b_accounts := (b_accounts b)\<lparr>copd_vault_deposit_ata := Some x\<rparr>\<rparr>"
| "operator_deposit_set (Copd_operator_token_account x) b =
     b\<lparr>b_accounts := (b_accounts b)\<lparr>copd_operator_token_account := Some x\<rparr>\<rparr>"
| "operator_deposit_set (Copd_deposit_mint x) b =
     b\<lparr>b_accounts := (b_accounts b)\<lparr>copd_deposit_mint := Some x\<rparr>\<rparr>"
| "operator_deposit_set (Copd_operator x) b =
     b\<lparr>b_accounts := (b_accounts b)\<lparr>copd_operator := Some x\<rparr>\<rparr>"
| "operator_deposit_set (Copd_token_program x) b =
     b\<lparr>b_accounts := (b_accounts b)\<lparr>copd_token_program := Some x\<rparr>\<rparr>"
| "operator_deposit_set (Copd_subaccount x) b =
     b\<lparr>b_accounts := (b_accounts b)\<lparr>copd_subaccount := x\<rparr>\<rparr>"
| "operator_deposit_set (Copd_amount x) b = b\<lparr>b_args := Some x\<rparr>"

definition operator_deposit_cpi_new ::
  "'i \<Rightarrow> 'i \<times> (('i option, 'i option) operator_deposit_client, u64 option, 'i \<times> bool \<times> bool) builder"
where
  "operator_deposit_cpi_new program =
    (program,
     \<lparr>b_accounts = \<lparr>copd_vault_state = None, copd_vault_deposit_ata = None, copd_operator_token_account = None,
        copd_deposit_mint = None, copd_operator = None, copd_token_program = None,
        copd_subaccount = None\<rparr>,
      b_args = None, b_remaining = []\<rparr>)"

primrec operator_deposit_cpi_set ::
  "'i operator_deposit_setter \<Rightarrow>
   (('i option, 'i option) operator_deposit_client, u64 option, 'i \<times> bool \<times> bool) builder \<Rightarrow>
   (('i option, 'i option) operator_deposit_client, u64 option, 'i \<times> bool \<times> bool) builder"
where
  "operator_deposit_cpi_set (Copd_vault_state x) b =
     b\<lparr>b_accounts := (b_accounts b)\<lparr>copd_vault_state := Some x\<rparr>\<rparr>"
| "operator_deposit_cpi_set (Copd_vault_deposit_ata x) b =
     b\<lparr>b_accounts := (b_accounts b)\<lparr>copd_vault_deposit_ata := Some x\<rparr>\<rparr>"
| "operator_deposit_cpi_set (Copd_operator_token_account x) b =
     b\<lparr>b_accounts := (b_accounts b)\<lparr>copd_operator_token_account := Some x\<rparr>\<rparr>"
| "operator_deposit_cpi_set (Copd_deposit_mint x) b =
     b\<lparr>b_accounts := (b_accounts b)\<lparr>copd_deposit_mint := Some x\<rparr>\<rparr>"
| "operator_deposit_cpi_set (Copd_operator x) b =
     b\<lparr>b_accounts := (b_accounts b)\<lparr>copd_operator := Some x\<rparr>\<rparr>"
| "operator_deposit_cpi_set (Copd_token_program x) b =
     b\<lparr>b_accounts := (b_accounts b)\<lparr>copd_token_program := Some x\<rparr>\<rparr>"
| "operator_deposit_cpi_set (Copd_subaccount x) b =
     b\<lparr>b_accounts := (b_accounts b)\<lparr>copd_subaccount := x\<rparr>\<rparr>"
| "operator_deposit_cpi_set (Copd_amount x) b = b\<lparr>b_args := Some x\<rparr>"

primrec operator_deposit_slot :: "'k operator_deposit_setter \<Rightarrow> nat" where
  "operator_deposit_slot (Copd_vault_state x) = 0"
| "operator_deposit_slot (Copd_vault_deposit_ata x) = 1"
| "operator_deposit_slot (Copd_operator_token_account x) = 2"
| "operator_deposit_slot (Copd_deposit_mint x) = 3"
| "operator_deposit_slot (Copd_operator x) = 4"
| "operator_deposit_slot (Copd_token_program x) = 5"
| "operator_deposit_slot (Copd_subaccount x) = 6"
| "operator_deposit_slot (Copd_amount x) = 7"

definition operator_deposit_setters :: "('k, 'k option) operator_deposit_client \<Rightarrow> u64 \<Rightarrow> 'k operator_deposit_setter list" where
  "operator_deposit_setters a amount =
     [Copd_vault_state (copd_vault_state a), Copd_vault_deposit_ata (copd_vault_deposit_ata a),
      Copd_operator_token_account (copd_operator_token_account a),
      Copd_deposit_mint (copd_deposit_mint a), Copd_operator (copd_operator a),
      Copd_token_program (copd_token_program a), Copd_subaccount (copd_subaccount a),
      Copd_amount amount]"

definition operator_deposit_slots ::
  "(('k option, 'k option) operator_deposit_client, u64 option, 'r) builder \<Rightarrow> 'k operator_deposit_setter option list"
where
  "operator_deposit_slots b =
     [map_option Copd_vault_state (copd_vault_state (b_accounts b)),
      map_option Copd_vault_deposit_ata (copd_vault_deposit_ata (b_accounts b)),
      map_option Copd_operator_token_account (copd_operator_token_account (b_accounts b)),
      map_option Copd_deposit_mint (copd_deposit_mint (b_accounts b)),
      map_option Copd_operator (copd_operator (b_accounts b)),
      map_option Copd_token_program (copd_token_program (b_accounts b)),
      Some (Copd_subaccount (copd_subaccount (b_accounts b))), map_option Copd_amount (b_args b)]"

interpretation operator_deposit_fields: field_setters operator_deposit_set operator_deposit_slot operator_deposit_slots b_remaining
proof
  fix s :: "'a operator_deposit_setter" and b b' :: "(('a option, 'a option) operator_deposit_client, u64 option, 'b) builder"
  show "operator_deposit_slots (operator_deposit_set s b) = (operator_deposit_slots b)[operator_deposit_slot s := Some s]" "b_remaining (operator_deposit_set s b) = b_remaining b"
    by (cases s; simp add: operator_deposit_slots_def)+
  assume "operator_deposit_slots b = operator_deposit_slots b'" "b_remaining b = b_remaining b'"
  then show "b = b'"
    by (intro builder.equality operator_deposit_client.equality)
      (simp_all add: operator_deposit_slots_def inj_def)
qed

lemma operator_deposit_cpi_set_is: "operator_deposit_cpi_set = operator_deposit_set"
proof (intro ext)
  fix x :: "'i operator_deposit_setter" and b
  show "operator_deposit_cpi_set x b = operator_deposit_set x b" by (cases x) simp_all
qed

lemma operator_deposit_setters_chosen:
  "{..<17} \<subseteq> set order \<Longrightarrow>
   last_write operator_deposit_slot (chosen order (operator_deposit_setters a amount)) = last_write operator_deposit_slot (operator_deposit_setters a amount)"
  by (rule last_write_chosen) (auto simp: operator_deposit_setters_def upt_rec)

lemma operator_deposit_built:
  assumes "last_write operator_deposit_slot ss = last_write operator_deposit_slot (operator_deposit_setters a amount)"
  shows "operator_deposit_build (add_remaining_accounts rem (fold operator_deposit_set ss operator_deposit_new)) =
     Inr (operator_deposit_instruction a amount rem)"
  unfolding operator_deposit_fields.last_write_decides [OF assms]
  by (simp add: operator_deposit_setters_def operator_deposit_new_def operator_deposit_build_def add_remaining_accounts_def)

lemma operator_deposit_cpi_built:
  assumes "last_write operator_deposit_slot ss = last_write operator_deposit_slot (operator_deposit_setters a amount)"
  shows "(case operator_deposit_cpi_new program of (program, b) \<Rightarrow>
       operator_deposit_cpi_build key program (cpi_add_remaining_accounts rem (fold operator_deposit_cpi_set ss b)) seeds) =
     Inr (operator_deposit_cpi key program a amount seeds rem)"
  unfolding operator_deposit_cpi_new_def prod.case operator_deposit_cpi_set_is operator_deposit_fields.last_write_decides [OF assms]
  by (simp add: operator_deposit_setters_def operator_deposit_cpi_build_def cpi_add_remaining_accounts_def)

lemmas operator_deposit_chained = operator_deposit_built [OF operator_deposit_setters_chosen] operator_deposit_cpi_built [OF operator_deposit_setters_chosen]

section \<open>instructions/operator_update_aum.rs\<close>

datatype (plugins only: code) (dead 'k) operator_update_aum_setter =
    Copu_vault_state 'k
  | Copu_deposit_mint 'k
  | Copu_operator 'k
  | Copu_new_aum u64

definition operator_update_aum_new :: "(pubkey option operator_update_aum_client, u64 option, account_meta) builder" where
  "operator_update_aum_new =
     \<lparr>b_accounts = \<lparr>copu_vault_state = None, copu_deposit_mint = None, copu_operator = None\<rparr>,
      b_args = None, b_remaining = []\<rparr>"

primrec operator_update_aum_set ::
  "'k operator_update_aum_setter \<Rightarrow>
   ('k option operator_update_aum_client, u64 option, 'r) builder \<Rightarrow>
   ('k option operator_update_aum_client, u64 option, 'r) builder"
where
  "operator_update_aum_set (Copu_vault_state x) b =
     b\<lparr>b_accounts := (b_accounts b)\<lparr>copu_vault_state := Some x\<rparr>\<rparr>"
| "operator_update_aum_set (Copu_deposit_mint x) b =
     b\<lparr>b_accounts := (b_accounts b)\<lparr>copu_deposit_mint := Some x\<rparr>\<rparr>"
| "operator_update_aum_set (Copu_operator x) b =
     b\<lparr>b_accounts := (b_accounts b)\<lparr>copu_operator := Some x\<rparr>\<rparr>"
| "operator_update_aum_set (Copu_new_aum x) b = b\<lparr>b_args := Some x\<rparr>"

definition operator_update_aum_cpi_new ::
  "'i \<Rightarrow> 'i \<times> ('i option operator_update_aum_client, u64 option, 'i \<times> bool \<times> bool) builder"
where
  "operator_update_aum_cpi_new program =
    (program,
     \<lparr>b_accounts = \<lparr>copu_vault_state = None, copu_deposit_mint = None, copu_operator = None\<rparr>,
      b_args = None, b_remaining = []\<rparr>)"

primrec operator_update_aum_cpi_set ::
  "'i operator_update_aum_setter \<Rightarrow>
   ('i option operator_update_aum_client, u64 option, 'i \<times> bool \<times> bool) builder \<Rightarrow>
   ('i option operator_update_aum_client, u64 option, 'i \<times> bool \<times> bool) builder"
where
  "operator_update_aum_cpi_set (Copu_vault_state x) b =
     b\<lparr>b_accounts := (b_accounts b)\<lparr>copu_vault_state := Some x\<rparr>\<rparr>"
| "operator_update_aum_cpi_set (Copu_deposit_mint x) b =
     b\<lparr>b_accounts := (b_accounts b)\<lparr>copu_deposit_mint := Some x\<rparr>\<rparr>"
| "operator_update_aum_cpi_set (Copu_operator x) b =
     b\<lparr>b_accounts := (b_accounts b)\<lparr>copu_operator := Some x\<rparr>\<rparr>"
| "operator_update_aum_cpi_set (Copu_new_aum x) b = b\<lparr>b_args := Some x\<rparr>"

primrec operator_update_aum_slot :: "'k operator_update_aum_setter \<Rightarrow> nat" where
  "operator_update_aum_slot (Copu_vault_state x) = 0"
| "operator_update_aum_slot (Copu_deposit_mint x) = 1"
| "operator_update_aum_slot (Copu_operator x) = 2"
| "operator_update_aum_slot (Copu_new_aum x) = 3"

definition operator_update_aum_setters :: "'k operator_update_aum_client \<Rightarrow> u64 \<Rightarrow> 'k operator_update_aum_setter list" where
  "operator_update_aum_setters a new_aum =
     [Copu_vault_state (copu_vault_state a), Copu_deposit_mint (copu_deposit_mint a),
      Copu_operator (copu_operator a), Copu_new_aum new_aum]"

definition operator_update_aum_slots ::
  "('k option operator_update_aum_client, u64 option, 'r) builder \<Rightarrow> 'k operator_update_aum_setter option list"
where
  "operator_update_aum_slots b =
     [map_option Copu_vault_state (copu_vault_state (b_accounts b)),
      map_option Copu_deposit_mint (copu_deposit_mint (b_accounts b)),
      map_option Copu_operator (copu_operator (b_accounts b)), map_option Copu_new_aum (b_args b)]"

interpretation operator_update_aum_fields: field_setters operator_update_aum_set operator_update_aum_slot operator_update_aum_slots b_remaining
proof
  fix s :: "'a operator_update_aum_setter" and b b' :: "('a option operator_update_aum_client, u64 option, 'b) builder"
  show "operator_update_aum_slots (operator_update_aum_set s b) = (operator_update_aum_slots b)[operator_update_aum_slot s := Some s]" "b_remaining (operator_update_aum_set s b) = b_remaining b"
    by (cases s; simp add: operator_update_aum_slots_def)+
  assume "operator_update_aum_slots b = operator_update_aum_slots b'" "b_remaining b = b_remaining b'"
  then show "b = b'"
    by (intro builder.equality operator_update_aum_client.equality)
      (simp_all add: operator_update_aum_slots_def inj_def)
qed

lemma operator_update_aum_cpi_set_is: "operator_update_aum_cpi_set = operator_update_aum_set"
proof (intro ext)
  fix x :: "'i operator_update_aum_setter" and b
  show "operator_update_aum_cpi_set x b = operator_update_aum_set x b" by (cases x) simp_all
qed

lemma operator_update_aum_setters_chosen:
  "{..<17} \<subseteq> set order \<Longrightarrow>
   last_write operator_update_aum_slot (chosen order (operator_update_aum_setters a new_aum)) = last_write operator_update_aum_slot (operator_update_aum_setters a new_aum)"
  by (rule last_write_chosen) (auto simp: operator_update_aum_setters_def upt_rec)

lemma operator_update_aum_built:
  assumes "last_write operator_update_aum_slot ss = last_write operator_update_aum_slot (operator_update_aum_setters a new_aum)"
  shows "operator_update_aum_build (add_remaining_accounts rem (fold operator_update_aum_set ss operator_update_aum_new)) =
     Inr (operator_update_aum_instruction a new_aum rem)"
  unfolding operator_update_aum_fields.last_write_decides [OF assms]
  by (simp add: operator_update_aum_setters_def operator_update_aum_new_def operator_update_aum_build_def add_remaining_accounts_def)

lemma operator_update_aum_cpi_built:
  assumes "last_write operator_update_aum_slot ss = last_write operator_update_aum_slot (operator_update_aum_setters a new_aum)"
  shows "(case operator_update_aum_cpi_new program of (program, b) \<Rightarrow>
       operator_update_aum_cpi_build key program (cpi_add_remaining_accounts rem (fold operator_update_aum_cpi_set ss b)) seeds) =
     Inr (operator_update_aum_cpi key program a new_aum seeds rem)"
  unfolding operator_update_aum_cpi_new_def prod.case operator_update_aum_cpi_set_is operator_update_aum_fields.last_write_decides [OF assms]
  by (simp add: operator_update_aum_setters_def operator_update_aum_cpi_build_def cpi_add_remaining_accounts_def)

lemmas operator_update_aum_chained = operator_update_aum_built [OF operator_update_aum_setters_chosen] operator_update_aum_cpi_built [OF operator_update_aum_setters_chosen]

section \<open>instructions/register_subaccount.rs\<close>

datatype (plugins only: code) (dead 'k) register_subaccount_setter =
    Crgs_vault_state 'k
  | Crgs_subaccount 'k
  | Crgs_deposit_mint 'k
  | Crgs_subaccount_ata 'k
  | Crgs_token_program 'k
  | Crgs_admin 'k
  | Crgs_system_program 'k
  | Crgs_address pubkey

definition register_subaccount_new :: "(pubkey option register_subaccount_client, pubkey option, account_meta) builder" where
  "register_subaccount_new =
     \<lparr>b_accounts = \<lparr>crgs_vault_state = None, crgs_subaccount = None, crgs_deposit_mint = None,
        crgs_subaccount_ata = None, crgs_token_program = None, crgs_admin = None,
        crgs_system_program = None\<rparr>,
      b_args = None, b_remaining = []\<rparr>"

primrec register_subaccount_set ::
  "'k register_subaccount_setter \<Rightarrow>
   ('k option register_subaccount_client, pubkey option, 'r) builder \<Rightarrow>
   ('k option register_subaccount_client, pubkey option, 'r) builder"
where
  "register_subaccount_set (Crgs_vault_state x) b =
     b\<lparr>b_accounts := (b_accounts b)\<lparr>crgs_vault_state := Some x\<rparr>\<rparr>"
| "register_subaccount_set (Crgs_subaccount x) b =
     b\<lparr>b_accounts := (b_accounts b)\<lparr>crgs_subaccount := Some x\<rparr>\<rparr>"
| "register_subaccount_set (Crgs_deposit_mint x) b =
     b\<lparr>b_accounts := (b_accounts b)\<lparr>crgs_deposit_mint := Some x\<rparr>\<rparr>"
| "register_subaccount_set (Crgs_subaccount_ata x) b =
     b\<lparr>b_accounts := (b_accounts b)\<lparr>crgs_subaccount_ata := Some x\<rparr>\<rparr>"
| "register_subaccount_set (Crgs_token_program x) b =
     b\<lparr>b_accounts := (b_accounts b)\<lparr>crgs_token_program := Some x\<rparr>\<rparr>"
| "register_subaccount_set (Crgs_admin x) b =
     b\<lparr>b_accounts := (b_accounts b)\<lparr>crgs_admin := Some x\<rparr>\<rparr>"
| "register_subaccount_set (Crgs_system_program x) b =
     b\<lparr>b_accounts := (b_accounts b)\<lparr>crgs_system_program := Some x\<rparr>\<rparr>"
| "register_subaccount_set (Crgs_address x) b = b\<lparr>b_args := Some x\<rparr>"

definition register_subaccount_cpi_new ::
  "'i \<Rightarrow> 'i \<times> ('i option register_subaccount_client, pubkey option, 'i \<times> bool \<times> bool) builder"
where
  "register_subaccount_cpi_new program =
    (program,
     \<lparr>b_accounts = \<lparr>crgs_vault_state = None, crgs_subaccount = None, crgs_deposit_mint = None,
        crgs_subaccount_ata = None, crgs_token_program = None, crgs_admin = None,
        crgs_system_program = None\<rparr>,
      b_args = None, b_remaining = []\<rparr>)"

primrec register_subaccount_cpi_set ::
  "'i register_subaccount_setter \<Rightarrow>
   ('i option register_subaccount_client, pubkey option, 'i \<times> bool \<times> bool) builder \<Rightarrow>
   ('i option register_subaccount_client, pubkey option, 'i \<times> bool \<times> bool) builder"
where
  "register_subaccount_cpi_set (Crgs_vault_state x) b =
     b\<lparr>b_accounts := (b_accounts b)\<lparr>crgs_vault_state := Some x\<rparr>\<rparr>"
| "register_subaccount_cpi_set (Crgs_subaccount x) b =
     b\<lparr>b_accounts := (b_accounts b)\<lparr>crgs_subaccount := Some x\<rparr>\<rparr>"
| "register_subaccount_cpi_set (Crgs_deposit_mint x) b =
     b\<lparr>b_accounts := (b_accounts b)\<lparr>crgs_deposit_mint := Some x\<rparr>\<rparr>"
| "register_subaccount_cpi_set (Crgs_subaccount_ata x) b =
     b\<lparr>b_accounts := (b_accounts b)\<lparr>crgs_subaccount_ata := Some x\<rparr>\<rparr>"
| "register_subaccount_cpi_set (Crgs_token_program x) b =
     b\<lparr>b_accounts := (b_accounts b)\<lparr>crgs_token_program := Some x\<rparr>\<rparr>"
| "register_subaccount_cpi_set (Crgs_admin x) b =
     b\<lparr>b_accounts := (b_accounts b)\<lparr>crgs_admin := Some x\<rparr>\<rparr>"
| "register_subaccount_cpi_set (Crgs_system_program x) b =
     b\<lparr>b_accounts := (b_accounts b)\<lparr>crgs_system_program := Some x\<rparr>\<rparr>"
| "register_subaccount_cpi_set (Crgs_address x) b = b\<lparr>b_args := Some x\<rparr>"

primrec register_subaccount_slot :: "'k register_subaccount_setter \<Rightarrow> nat" where
  "register_subaccount_slot (Crgs_vault_state x) = 0"
| "register_subaccount_slot (Crgs_subaccount x) = 1"
| "register_subaccount_slot (Crgs_deposit_mint x) = 2"
| "register_subaccount_slot (Crgs_subaccount_ata x) = 3"
| "register_subaccount_slot (Crgs_token_program x) = 4"
| "register_subaccount_slot (Crgs_admin x) = 5"
| "register_subaccount_slot (Crgs_system_program x) = 6"
| "register_subaccount_slot (Crgs_address x) = 7"

definition register_subaccount_setters :: "'k register_subaccount_client \<Rightarrow> pubkey \<Rightarrow> 'k register_subaccount_setter list" where
  "register_subaccount_setters a address =
     [Crgs_vault_state (crgs_vault_state a), Crgs_subaccount (crgs_subaccount a),
      Crgs_deposit_mint (crgs_deposit_mint a), Crgs_subaccount_ata (crgs_subaccount_ata a),
      Crgs_token_program (crgs_token_program a), Crgs_admin (crgs_admin a),
      Crgs_system_program (crgs_system_program a), Crgs_address address]"

definition register_subaccount_slots ::
  "('k option register_subaccount_client, pubkey option, 'r) builder \<Rightarrow> 'k register_subaccount_setter option list"
where
  "register_subaccount_slots b =
     [map_option Crgs_vault_state (crgs_vault_state (b_accounts b)),
      map_option Crgs_subaccount (crgs_subaccount (b_accounts b)),
      map_option Crgs_deposit_mint (crgs_deposit_mint (b_accounts b)),
      map_option Crgs_subaccount_ata (crgs_subaccount_ata (b_accounts b)),
      map_option Crgs_token_program (crgs_token_program (b_accounts b)),
      map_option Crgs_admin (crgs_admin (b_accounts b)),
      map_option Crgs_system_program (crgs_system_program (b_accounts b)),
      map_option Crgs_address (b_args b)]"

interpretation register_subaccount_fields: field_setters register_subaccount_set register_subaccount_slot register_subaccount_slots b_remaining
proof
  fix s :: "'a register_subaccount_setter" and b b' :: "('a option register_subaccount_client, pubkey option, 'b) builder"
  show "register_subaccount_slots (register_subaccount_set s b) = (register_subaccount_slots b)[register_subaccount_slot s := Some s]" "b_remaining (register_subaccount_set s b) = b_remaining b"
    by (cases s; simp add: register_subaccount_slots_def)+
  assume "register_subaccount_slots b = register_subaccount_slots b'" "b_remaining b = b_remaining b'"
  then show "b = b'"
    by (intro builder.equality register_subaccount_client.equality)
      (simp_all add: register_subaccount_slots_def inj_def)
qed

lemma register_subaccount_cpi_set_is: "register_subaccount_cpi_set = register_subaccount_set"
proof (intro ext)
  fix x :: "'i register_subaccount_setter" and b
  show "register_subaccount_cpi_set x b = register_subaccount_set x b" by (cases x) simp_all
qed

lemma register_subaccount_setters_chosen:
  "{..<17} \<subseteq> set order \<Longrightarrow>
   last_write register_subaccount_slot (chosen order (register_subaccount_setters a address)) = last_write register_subaccount_slot (register_subaccount_setters a address)"
  by (rule last_write_chosen) (auto simp: register_subaccount_setters_def upt_rec)

lemma register_subaccount_built:
  assumes "last_write register_subaccount_slot ss = last_write register_subaccount_slot (register_subaccount_setters a address)"
  shows "register_subaccount_build (add_remaining_accounts rem (fold register_subaccount_set ss register_subaccount_new)) =
     Inr (register_subaccount_instruction a address rem)"
  unfolding register_subaccount_fields.last_write_decides [OF assms]
  by (simp add: register_subaccount_setters_def register_subaccount_new_def register_subaccount_build_def add_remaining_accounts_def)

lemma register_subaccount_cpi_built:
  assumes "last_write register_subaccount_slot ss = last_write register_subaccount_slot (register_subaccount_setters a address)"
  shows "(case register_subaccount_cpi_new program of (program, b) \<Rightarrow>
       register_subaccount_cpi_build key program (cpi_add_remaining_accounts rem (fold register_subaccount_cpi_set ss b)) seeds) =
     Inr (register_subaccount_cpi key program a address seeds rem)"
  unfolding register_subaccount_cpi_new_def prod.case register_subaccount_cpi_set_is register_subaccount_fields.last_write_decides [OF assms]
  by (simp add: register_subaccount_setters_def register_subaccount_cpi_build_def cpi_add_remaining_accounts_def)

lemmas register_subaccount_chained = register_subaccount_built [OF register_subaccount_setters_chosen] register_subaccount_cpi_built [OF register_subaccount_setters_chosen]

section \<open>instructions/settle_subaccount_loss.rs\<close>

datatype (plugins only: code) (dead 'k) settle_subaccount_loss_setter =
    Cstl_vault_state 'k
  | Cstl_subaccount 'k
  | Cstl_deposit_mint 'k
  | Cstl_subaccount_ata 'k
  | Cstl_token_program 'k
  | Cstl_admin 'k
  | Cstl_amount u64

definition settle_subaccount_loss_new :: "(pubkey option settle_subaccount_loss_client, u64 option, account_meta) builder" where
  "settle_subaccount_loss_new =
     \<lparr>b_accounts = \<lparr>cstl_vault_state = None, cstl_subaccount = None, cstl_deposit_mint = None,
        cstl_subaccount_ata = None, cstl_token_program = None, cstl_admin = None\<rparr>,
      b_args = None, b_remaining = []\<rparr>"

primrec settle_subaccount_loss_set ::
  "'k settle_subaccount_loss_setter \<Rightarrow>
   ('k option settle_subaccount_loss_client, u64 option, 'r) builder \<Rightarrow>
   ('k option settle_subaccount_loss_client, u64 option, 'r) builder"
where
  "settle_subaccount_loss_set (Cstl_vault_state x) b =
     b\<lparr>b_accounts := (b_accounts b)\<lparr>cstl_vault_state := Some x\<rparr>\<rparr>"
| "settle_subaccount_loss_set (Cstl_subaccount x) b =
     b\<lparr>b_accounts := (b_accounts b)\<lparr>cstl_subaccount := Some x\<rparr>\<rparr>"
| "settle_subaccount_loss_set (Cstl_deposit_mint x) b =
     b\<lparr>b_accounts := (b_accounts b)\<lparr>cstl_deposit_mint := Some x\<rparr>\<rparr>"
| "settle_subaccount_loss_set (Cstl_subaccount_ata x) b =
     b\<lparr>b_accounts := (b_accounts b)\<lparr>cstl_subaccount_ata := Some x\<rparr>\<rparr>"
| "settle_subaccount_loss_set (Cstl_token_program x) b =
     b\<lparr>b_accounts := (b_accounts b)\<lparr>cstl_token_program := Some x\<rparr>\<rparr>"
| "settle_subaccount_loss_set (Cstl_admin x) b =
     b\<lparr>b_accounts := (b_accounts b)\<lparr>cstl_admin := Some x\<rparr>\<rparr>"
| "settle_subaccount_loss_set (Cstl_amount x) b = b\<lparr>b_args := Some x\<rparr>"

definition settle_subaccount_loss_cpi_new ::
  "'i \<Rightarrow> 'i \<times> ('i option settle_subaccount_loss_client, u64 option, 'i \<times> bool \<times> bool) builder"
where
  "settle_subaccount_loss_cpi_new program =
    (program,
     \<lparr>b_accounts = \<lparr>cstl_vault_state = None, cstl_subaccount = None, cstl_deposit_mint = None,
        cstl_subaccount_ata = None, cstl_token_program = None, cstl_admin = None\<rparr>,
      b_args = None, b_remaining = []\<rparr>)"

primrec settle_subaccount_loss_cpi_set ::
  "'i settle_subaccount_loss_setter \<Rightarrow>
   ('i option settle_subaccount_loss_client, u64 option, 'i \<times> bool \<times> bool) builder \<Rightarrow>
   ('i option settle_subaccount_loss_client, u64 option, 'i \<times> bool \<times> bool) builder"
where
  "settle_subaccount_loss_cpi_set (Cstl_vault_state x) b =
     b\<lparr>b_accounts := (b_accounts b)\<lparr>cstl_vault_state := Some x\<rparr>\<rparr>"
| "settle_subaccount_loss_cpi_set (Cstl_subaccount x) b =
     b\<lparr>b_accounts := (b_accounts b)\<lparr>cstl_subaccount := Some x\<rparr>\<rparr>"
| "settle_subaccount_loss_cpi_set (Cstl_deposit_mint x) b =
     b\<lparr>b_accounts := (b_accounts b)\<lparr>cstl_deposit_mint := Some x\<rparr>\<rparr>"
| "settle_subaccount_loss_cpi_set (Cstl_subaccount_ata x) b =
     b\<lparr>b_accounts := (b_accounts b)\<lparr>cstl_subaccount_ata := Some x\<rparr>\<rparr>"
| "settle_subaccount_loss_cpi_set (Cstl_token_program x) b =
     b\<lparr>b_accounts := (b_accounts b)\<lparr>cstl_token_program := Some x\<rparr>\<rparr>"
| "settle_subaccount_loss_cpi_set (Cstl_admin x) b =
     b\<lparr>b_accounts := (b_accounts b)\<lparr>cstl_admin := Some x\<rparr>\<rparr>"
| "settle_subaccount_loss_cpi_set (Cstl_amount x) b = b\<lparr>b_args := Some x\<rparr>"

primrec settle_subaccount_loss_slot :: "'k settle_subaccount_loss_setter \<Rightarrow> nat" where
  "settle_subaccount_loss_slot (Cstl_vault_state x) = 0"
| "settle_subaccount_loss_slot (Cstl_subaccount x) = 1"
| "settle_subaccount_loss_slot (Cstl_deposit_mint x) = 2"
| "settle_subaccount_loss_slot (Cstl_subaccount_ata x) = 3"
| "settle_subaccount_loss_slot (Cstl_token_program x) = 4"
| "settle_subaccount_loss_slot (Cstl_admin x) = 5"
| "settle_subaccount_loss_slot (Cstl_amount x) = 6"

definition settle_subaccount_loss_setters :: "'k settle_subaccount_loss_client \<Rightarrow> u64 \<Rightarrow> 'k settle_subaccount_loss_setter list" where
  "settle_subaccount_loss_setters a amount =
     [Cstl_vault_state (cstl_vault_state a), Cstl_subaccount (cstl_subaccount a),
      Cstl_deposit_mint (cstl_deposit_mint a), Cstl_subaccount_ata (cstl_subaccount_ata a),
      Cstl_token_program (cstl_token_program a), Cstl_admin (cstl_admin a), Cstl_amount amount]"

definition settle_subaccount_loss_slots ::
  "('k option settle_subaccount_loss_client, u64 option, 'r) builder \<Rightarrow> 'k settle_subaccount_loss_setter option list"
where
  "settle_subaccount_loss_slots b =
     [map_option Cstl_vault_state (cstl_vault_state (b_accounts b)),
      map_option Cstl_subaccount (cstl_subaccount (b_accounts b)),
      map_option Cstl_deposit_mint (cstl_deposit_mint (b_accounts b)),
      map_option Cstl_subaccount_ata (cstl_subaccount_ata (b_accounts b)),
      map_option Cstl_token_program (cstl_token_program (b_accounts b)),
      map_option Cstl_admin (cstl_admin (b_accounts b)), map_option Cstl_amount (b_args b)]"

interpretation settle_subaccount_loss_fields: field_setters settle_subaccount_loss_set settle_subaccount_loss_slot settle_subaccount_loss_slots b_remaining
proof
  fix s :: "'a settle_subaccount_loss_setter" and b b' :: "('a option settle_subaccount_loss_client, u64 option, 'b) builder"
  show "settle_subaccount_loss_slots (settle_subaccount_loss_set s b) = (settle_subaccount_loss_slots b)[settle_subaccount_loss_slot s := Some s]" "b_remaining (settle_subaccount_loss_set s b) = b_remaining b"
    by (cases s; simp add: settle_subaccount_loss_slots_def)+
  assume "settle_subaccount_loss_slots b = settle_subaccount_loss_slots b'" "b_remaining b = b_remaining b'"
  then show "b = b'"
    by (intro builder.equality settle_subaccount_loss_client.equality)
      (simp_all add: settle_subaccount_loss_slots_def inj_def)
qed

lemma settle_subaccount_loss_cpi_set_is: "settle_subaccount_loss_cpi_set = settle_subaccount_loss_set"
proof (intro ext)
  fix x :: "'i settle_subaccount_loss_setter" and b
  show "settle_subaccount_loss_cpi_set x b = settle_subaccount_loss_set x b" by (cases x) simp_all
qed

lemma settle_subaccount_loss_setters_chosen:
  "{..<17} \<subseteq> set order \<Longrightarrow>
   last_write settle_subaccount_loss_slot (chosen order (settle_subaccount_loss_setters a amount)) = last_write settle_subaccount_loss_slot (settle_subaccount_loss_setters a amount)"
  by (rule last_write_chosen) (auto simp: settle_subaccount_loss_setters_def upt_rec)

lemma settle_subaccount_loss_built:
  assumes "last_write settle_subaccount_loss_slot ss = last_write settle_subaccount_loss_slot (settle_subaccount_loss_setters a amount)"
  shows "settle_subaccount_loss_build (add_remaining_accounts rem (fold settle_subaccount_loss_set ss settle_subaccount_loss_new)) =
     Inr (settle_subaccount_loss_instruction a amount rem)"
  unfolding settle_subaccount_loss_fields.last_write_decides [OF assms]
  by (simp add: settle_subaccount_loss_setters_def settle_subaccount_loss_new_def settle_subaccount_loss_build_def add_remaining_accounts_def)

lemma settle_subaccount_loss_cpi_built:
  assumes "last_write settle_subaccount_loss_slot ss = last_write settle_subaccount_loss_slot (settle_subaccount_loss_setters a amount)"
  shows "(case settle_subaccount_loss_cpi_new program of (program, b) \<Rightarrow>
       settle_subaccount_loss_cpi_build key program (cpi_add_remaining_accounts rem (fold settle_subaccount_loss_cpi_set ss b)) seeds) =
     Inr (settle_subaccount_loss_cpi key program a amount seeds rem)"
  unfolding settle_subaccount_loss_cpi_new_def prod.case settle_subaccount_loss_cpi_set_is settle_subaccount_loss_fields.last_write_decides [OF assms]
  by (simp add: settle_subaccount_loss_setters_def settle_subaccount_loss_cpi_build_def cpi_add_remaining_accounts_def)

lemmas settle_subaccount_loss_chained = settle_subaccount_loss_built [OF settle_subaccount_loss_setters_chosen] settle_subaccount_loss_cpi_built [OF settle_subaccount_loss_setters_chosen]

section \<open>instructions/deregister_subaccount.rs\<close>

datatype (plugins only: code) (dead 'k) deregister_subaccount_setter =
    Cdrs_vault_state 'k
  | Cdrs_subaccount 'k
  | Cdrs_deposit_mint 'k
  | Cdrs_admin 'k

definition deregister_subaccount_new :: "(pubkey option deregister_subaccount_client, unit, account_meta) builder" where
  "deregister_subaccount_new =
     \<lparr>b_accounts = \<lparr>cdrs_vault_state = None, cdrs_subaccount = None, cdrs_deposit_mint = None, cdrs_admin = None\<rparr>,
      b_args = (), b_remaining = []\<rparr>"

primrec deregister_subaccount_set ::
  "'k deregister_subaccount_setter \<Rightarrow>
   ('k option deregister_subaccount_client, unit, 'r) builder \<Rightarrow>
   ('k option deregister_subaccount_client, unit, 'r) builder"
where
  "deregister_subaccount_set (Cdrs_vault_state x) b =
     b\<lparr>b_accounts := (b_accounts b)\<lparr>cdrs_vault_state := Some x\<rparr>\<rparr>"
| "deregister_subaccount_set (Cdrs_subaccount x) b =
     b\<lparr>b_accounts := (b_accounts b)\<lparr>cdrs_subaccount := Some x\<rparr>\<rparr>"
| "deregister_subaccount_set (Cdrs_deposit_mint x) b =
     b\<lparr>b_accounts := (b_accounts b)\<lparr>cdrs_deposit_mint := Some x\<rparr>\<rparr>"
| "deregister_subaccount_set (Cdrs_admin x) b =
     b\<lparr>b_accounts := (b_accounts b)\<lparr>cdrs_admin := Some x\<rparr>\<rparr>"

definition deregister_subaccount_cpi_new ::
  "'i \<Rightarrow> 'i \<times> ('i option deregister_subaccount_client, unit, 'i \<times> bool \<times> bool) builder"
where
  "deregister_subaccount_cpi_new program =
    (program,
     \<lparr>b_accounts = \<lparr>cdrs_vault_state = None, cdrs_subaccount = None, cdrs_deposit_mint = None, cdrs_admin = None\<rparr>,
      b_args = (), b_remaining = []\<rparr>)"

primrec deregister_subaccount_cpi_set ::
  "'i deregister_subaccount_setter \<Rightarrow>
   ('i option deregister_subaccount_client, unit, 'i \<times> bool \<times> bool) builder \<Rightarrow>
   ('i option deregister_subaccount_client, unit, 'i \<times> bool \<times> bool) builder"
where
  "deregister_subaccount_cpi_set (Cdrs_vault_state x) b =
     b\<lparr>b_accounts := (b_accounts b)\<lparr>cdrs_vault_state := Some x\<rparr>\<rparr>"
| "deregister_subaccount_cpi_set (Cdrs_subaccount x) b =
     b\<lparr>b_accounts := (b_accounts b)\<lparr>cdrs_subaccount := Some x\<rparr>\<rparr>"
| "deregister_subaccount_cpi_set (Cdrs_deposit_mint x) b =
     b\<lparr>b_accounts := (b_accounts b)\<lparr>cdrs_deposit_mint := Some x\<rparr>\<rparr>"
| "deregister_subaccount_cpi_set (Cdrs_admin x) b =
     b\<lparr>b_accounts := (b_accounts b)\<lparr>cdrs_admin := Some x\<rparr>\<rparr>"

primrec deregister_subaccount_slot :: "'k deregister_subaccount_setter \<Rightarrow> nat" where
  "deregister_subaccount_slot (Cdrs_vault_state x) = 0"
| "deregister_subaccount_slot (Cdrs_subaccount x) = 1"
| "deregister_subaccount_slot (Cdrs_deposit_mint x) = 2"
| "deregister_subaccount_slot (Cdrs_admin x) = 3"

definition deregister_subaccount_setters :: "'k deregister_subaccount_client \<Rightarrow> 'k deregister_subaccount_setter list" where
  "deregister_subaccount_setters a =
     [Cdrs_vault_state (cdrs_vault_state a), Cdrs_subaccount (cdrs_subaccount a),
      Cdrs_deposit_mint (cdrs_deposit_mint a), Cdrs_admin (cdrs_admin a)]"

definition deregister_subaccount_slots ::
  "('k option deregister_subaccount_client, unit, 'r) builder \<Rightarrow> 'k deregister_subaccount_setter option list"
where
  "deregister_subaccount_slots b =
     [map_option Cdrs_vault_state (cdrs_vault_state (b_accounts b)),
      map_option Cdrs_subaccount (cdrs_subaccount (b_accounts b)),
      map_option Cdrs_deposit_mint (cdrs_deposit_mint (b_accounts b)),
      map_option Cdrs_admin (cdrs_admin (b_accounts b))]"

interpretation deregister_subaccount_fields: field_setters deregister_subaccount_set deregister_subaccount_slot deregister_subaccount_slots b_remaining
proof
  fix s :: "'a deregister_subaccount_setter" and b b' :: "('a option deregister_subaccount_client, unit, 'b) builder"
  show "deregister_subaccount_slots (deregister_subaccount_set s b) = (deregister_subaccount_slots b)[deregister_subaccount_slot s := Some s]" "b_remaining (deregister_subaccount_set s b) = b_remaining b"
    by (cases s; simp add: deregister_subaccount_slots_def)+
  assume "deregister_subaccount_slots b = deregister_subaccount_slots b'" "b_remaining b = b_remaining b'"
  then show "b = b'"
    by (intro builder.equality deregister_subaccount_client.equality)
      (simp_all add: deregister_subaccount_slots_def inj_def)
qed

lemma deregister_subaccount_cpi_set_is: "deregister_subaccount_cpi_set = deregister_subaccount_set"
proof (intro ext)
  fix x :: "'i deregister_subaccount_setter" and b
  show "deregister_subaccount_cpi_set x b = deregister_subaccount_set x b" by (cases x) simp_all
qed

lemma deregister_subaccount_setters_chosen:
  "{..<17} \<subseteq> set order \<Longrightarrow>
   last_write deregister_subaccount_slot (chosen order (deregister_subaccount_setters a)) = last_write deregister_subaccount_slot (deregister_subaccount_setters a)"
  by (rule last_write_chosen) (auto simp: deregister_subaccount_setters_def upt_rec)

lemma deregister_subaccount_built:
  assumes "last_write deregister_subaccount_slot ss = last_write deregister_subaccount_slot (deregister_subaccount_setters a)"
  shows "deregister_subaccount_build (add_remaining_accounts rem (fold deregister_subaccount_set ss deregister_subaccount_new)) =
     Inr (deregister_subaccount_instruction a rem)"
  unfolding deregister_subaccount_fields.last_write_decides [OF assms]
  by (simp add: deregister_subaccount_setters_def deregister_subaccount_new_def deregister_subaccount_build_def add_remaining_accounts_def)

lemma deregister_subaccount_cpi_built:
  assumes "last_write deregister_subaccount_slot ss = last_write deregister_subaccount_slot (deregister_subaccount_setters a)"
  shows "(case deregister_subaccount_cpi_new program of (program, b) \<Rightarrow>
       deregister_subaccount_cpi_build key program (cpi_add_remaining_accounts rem (fold deregister_subaccount_cpi_set ss b)) seeds) =
     Inr (deregister_subaccount_cpi key program a seeds rem)"
  unfolding deregister_subaccount_cpi_new_def prod.case deregister_subaccount_cpi_set_is deregister_subaccount_fields.last_write_decides [OF assms]
  by (simp add: deregister_subaccount_setters_def deregister_subaccount_cpi_build_def cpi_add_remaining_accounts_def)

lemmas deregister_subaccount_chained = deregister_subaccount_built [OF deregister_subaccount_setters_chosen] deregister_subaccount_cpi_built [OF deregister_subaccount_setters_chosen]

end
