(* ===== verification/SettersAdmin.thy ===== *)
theory SettersAdmin
  imports Setters ClientAdmin
begin

text \<open>
  The builders of the vault client's setters, admin handover, gate and closing, from \<open>new\<close> through their
  setters (\<open>src/generated/instructions\<close>). \<open>x_set\<close> is the builder's setter of each field and
  \<open>x_cpi_set\<close> the CPI builder's. Both meet \<open>field_setters\<close>; so a builder whose fields were all
  set, in any order, makes the instruction of the values last given.
\<close>

section \<open>instructions/set_withdrawal_fee.rs\<close>

datatype (plugins only: code) (dead 'k) set_withdrawal_fee_setter =
    Cswf_vault_state 'k
  | Cswf_deposit_mint 'k
  | Cswf_admin 'k
  | Cswf_new_fee u32

definition set_withdrawal_fee_new :: "(pubkey option set_withdrawal_fee_client, u32 option, account_meta) builder" where
  "set_withdrawal_fee_new =
     \<lparr>b_accounts = \<lparr>cswf_vault_state = None, cswf_deposit_mint = None, cswf_admin = None\<rparr>,
      b_args = None, b_remaining = []\<rparr>"

primrec set_withdrawal_fee_set ::
  "'k set_withdrawal_fee_setter \<Rightarrow>
   ('k option set_withdrawal_fee_client, u32 option, 'r) builder \<Rightarrow>
   ('k option set_withdrawal_fee_client, u32 option, 'r) builder"
where
  "set_withdrawal_fee_set (Cswf_vault_state x) b =
     b\<lparr>b_accounts := (b_accounts b)\<lparr>cswf_vault_state := Some x\<rparr>\<rparr>"
| "set_withdrawal_fee_set (Cswf_deposit_mint x) b =
     b\<lparr>b_accounts := (b_accounts b)\<lparr>cswf_deposit_mint := Some x\<rparr>\<rparr>"
| "set_withdrawal_fee_set (Cswf_admin x) b =
     b\<lparr>b_accounts := (b_accounts b)\<lparr>cswf_admin := Some x\<rparr>\<rparr>"
| "set_withdrawal_fee_set (Cswf_new_fee x) b = b\<lparr>b_args := Some x\<rparr>"

definition set_withdrawal_fee_cpi_new ::
  "'i \<Rightarrow> 'i \<times> ('i option set_withdrawal_fee_client, u32 option, 'i \<times> bool \<times> bool) builder"
where
  "set_withdrawal_fee_cpi_new program =
    (program,
     \<lparr>b_accounts = \<lparr>cswf_vault_state = None, cswf_deposit_mint = None, cswf_admin = None\<rparr>,
      b_args = None, b_remaining = []\<rparr>)"

primrec set_withdrawal_fee_cpi_set ::
  "'i set_withdrawal_fee_setter \<Rightarrow>
   ('i option set_withdrawal_fee_client, u32 option, 'i \<times> bool \<times> bool) builder \<Rightarrow>
   ('i option set_withdrawal_fee_client, u32 option, 'i \<times> bool \<times> bool) builder"
where
  "set_withdrawal_fee_cpi_set (Cswf_vault_state x) b =
     b\<lparr>b_accounts := (b_accounts b)\<lparr>cswf_vault_state := Some x\<rparr>\<rparr>"
| "set_withdrawal_fee_cpi_set (Cswf_deposit_mint x) b =
     b\<lparr>b_accounts := (b_accounts b)\<lparr>cswf_deposit_mint := Some x\<rparr>\<rparr>"
| "set_withdrawal_fee_cpi_set (Cswf_admin x) b =
     b\<lparr>b_accounts := (b_accounts b)\<lparr>cswf_admin := Some x\<rparr>\<rparr>"
| "set_withdrawal_fee_cpi_set (Cswf_new_fee x) b = b\<lparr>b_args := Some x\<rparr>"

primrec set_withdrawal_fee_slot :: "'k set_withdrawal_fee_setter \<Rightarrow> nat" where
  "set_withdrawal_fee_slot (Cswf_vault_state x) = 0"
| "set_withdrawal_fee_slot (Cswf_deposit_mint x) = 1"
| "set_withdrawal_fee_slot (Cswf_admin x) = 2"
| "set_withdrawal_fee_slot (Cswf_new_fee x) = 3"

definition set_withdrawal_fee_setters :: "'k set_withdrawal_fee_client \<Rightarrow> u32 \<Rightarrow> 'k set_withdrawal_fee_setter list" where
  "set_withdrawal_fee_setters a new_fee =
     [Cswf_vault_state (cswf_vault_state a), Cswf_deposit_mint (cswf_deposit_mint a),
      Cswf_admin (cswf_admin a), Cswf_new_fee new_fee]"

definition set_withdrawal_fee_slots ::
  "('k option set_withdrawal_fee_client, u32 option, 'r) builder \<Rightarrow> 'k set_withdrawal_fee_setter option list"
where
  "set_withdrawal_fee_slots b =
     [map_option Cswf_vault_state (cswf_vault_state (b_accounts b)),
      map_option Cswf_deposit_mint (cswf_deposit_mint (b_accounts b)),
      map_option Cswf_admin (cswf_admin (b_accounts b)), map_option Cswf_new_fee (b_args b)]"

interpretation set_withdrawal_fee_fields: field_setters set_withdrawal_fee_set set_withdrawal_fee_slot set_withdrawal_fee_slots b_remaining
proof
  fix s :: "'a set_withdrawal_fee_setter" and b b' :: "('a option set_withdrawal_fee_client, u32 option, 'b) builder"
  show "set_withdrawal_fee_slots (set_withdrawal_fee_set s b) = (set_withdrawal_fee_slots b)[set_withdrawal_fee_slot s := Some s]" "b_remaining (set_withdrawal_fee_set s b) = b_remaining b"
    by (cases s; simp add: set_withdrawal_fee_slots_def)+
  assume "set_withdrawal_fee_slots b = set_withdrawal_fee_slots b'" "b_remaining b = b_remaining b'"
  then show "b = b'"
    by (intro builder.equality set_withdrawal_fee_client.equality)
      (simp_all add: set_withdrawal_fee_slots_def inj_def)
qed

lemma set_withdrawal_fee_cpi_set_is: "set_withdrawal_fee_cpi_set = set_withdrawal_fee_set"
proof (intro ext)
  fix x :: "'i set_withdrawal_fee_setter" and b
  show "set_withdrawal_fee_cpi_set x b = set_withdrawal_fee_set x b" by (cases x) simp_all
qed

lemma set_withdrawal_fee_setters_chosen:
  "{..<17} \<subseteq> set order \<Longrightarrow>
   last_write set_withdrawal_fee_slot (chosen order (set_withdrawal_fee_setters a new_fee)) = last_write set_withdrawal_fee_slot (set_withdrawal_fee_setters a new_fee)"
  by (rule last_write_chosen) (auto simp: set_withdrawal_fee_setters_def upt_rec)

lemma set_withdrawal_fee_built:
  assumes "last_write set_withdrawal_fee_slot ss = last_write set_withdrawal_fee_slot (set_withdrawal_fee_setters a new_fee)"
  shows "set_withdrawal_fee_build (add_remaining_accounts rem (fold set_withdrawal_fee_set ss set_withdrawal_fee_new)) =
     Inr (set_withdrawal_fee_instruction a new_fee rem)"
  unfolding set_withdrawal_fee_fields.last_write_decides [OF assms]
  by (simp add: set_withdrawal_fee_setters_def set_withdrawal_fee_new_def set_withdrawal_fee_build_def add_remaining_accounts_def)

lemma set_withdrawal_fee_cpi_built:
  assumes "last_write set_withdrawal_fee_slot ss = last_write set_withdrawal_fee_slot (set_withdrawal_fee_setters a new_fee)"
  shows "(case set_withdrawal_fee_cpi_new program of (program, b) \<Rightarrow>
       set_withdrawal_fee_cpi_build key program (cpi_add_remaining_accounts rem (fold set_withdrawal_fee_cpi_set ss b)) seeds) =
     Inr (set_withdrawal_fee_cpi key program a new_fee seeds rem)"
  unfolding set_withdrawal_fee_cpi_new_def prod.case set_withdrawal_fee_cpi_set_is set_withdrawal_fee_fields.last_write_decides [OF assms]
  by (simp add: set_withdrawal_fee_setters_def set_withdrawal_fee_cpi_build_def cpi_add_remaining_accounts_def)

lemmas set_withdrawal_fee_chained = set_withdrawal_fee_built [OF set_withdrawal_fee_setters_chosen] set_withdrawal_fee_cpi_built [OF set_withdrawal_fee_setters_chosen]

section \<open>instructions/set_operator.rs\<close>

datatype (plugins only: code) (dead 'k) set_operator_setter =
    Csop_vault_state 'k
  | Csop_deposit_mint 'k
  | Csop_admin 'k
  | Csop_new_operator pubkey

definition set_operator_new :: "(pubkey option set_operator_client, pubkey option, account_meta) builder" where
  "set_operator_new =
     \<lparr>b_accounts = \<lparr>csop_vault_state = None, csop_deposit_mint = None, csop_admin = None\<rparr>,
      b_args = None, b_remaining = []\<rparr>"

primrec set_operator_set ::
  "'k set_operator_setter \<Rightarrow>
   ('k option set_operator_client, pubkey option, 'r) builder \<Rightarrow>
   ('k option set_operator_client, pubkey option, 'r) builder"
where
  "set_operator_set (Csop_vault_state x) b =
     b\<lparr>b_accounts := (b_accounts b)\<lparr>csop_vault_state := Some x\<rparr>\<rparr>"
| "set_operator_set (Csop_deposit_mint x) b =
     b\<lparr>b_accounts := (b_accounts b)\<lparr>csop_deposit_mint := Some x\<rparr>\<rparr>"
| "set_operator_set (Csop_admin x) b =
     b\<lparr>b_accounts := (b_accounts b)\<lparr>csop_admin := Some x\<rparr>\<rparr>"
| "set_operator_set (Csop_new_operator x) b = b\<lparr>b_args := Some x\<rparr>"

definition set_operator_cpi_new ::
  "'i \<Rightarrow> 'i \<times> ('i option set_operator_client, pubkey option, 'i \<times> bool \<times> bool) builder"
where
  "set_operator_cpi_new program =
    (program,
     \<lparr>b_accounts = \<lparr>csop_vault_state = None, csop_deposit_mint = None, csop_admin = None\<rparr>,
      b_args = None, b_remaining = []\<rparr>)"

primrec set_operator_cpi_set ::
  "'i set_operator_setter \<Rightarrow>
   ('i option set_operator_client, pubkey option, 'i \<times> bool \<times> bool) builder \<Rightarrow>
   ('i option set_operator_client, pubkey option, 'i \<times> bool \<times> bool) builder"
where
  "set_operator_cpi_set (Csop_vault_state x) b =
     b\<lparr>b_accounts := (b_accounts b)\<lparr>csop_vault_state := Some x\<rparr>\<rparr>"
| "set_operator_cpi_set (Csop_deposit_mint x) b =
     b\<lparr>b_accounts := (b_accounts b)\<lparr>csop_deposit_mint := Some x\<rparr>\<rparr>"
| "set_operator_cpi_set (Csop_admin x) b =
     b\<lparr>b_accounts := (b_accounts b)\<lparr>csop_admin := Some x\<rparr>\<rparr>"
| "set_operator_cpi_set (Csop_new_operator x) b = b\<lparr>b_args := Some x\<rparr>"

primrec set_operator_slot :: "'k set_operator_setter \<Rightarrow> nat" where
  "set_operator_slot (Csop_vault_state x) = 0"
| "set_operator_slot (Csop_deposit_mint x) = 1"
| "set_operator_slot (Csop_admin x) = 2"
| "set_operator_slot (Csop_new_operator x) = 3"

definition set_operator_setters :: "'k set_operator_client \<Rightarrow> pubkey \<Rightarrow> 'k set_operator_setter list" where
  "set_operator_setters a new_operator =
     [Csop_vault_state (csop_vault_state a), Csop_deposit_mint (csop_deposit_mint a),
      Csop_admin (csop_admin a), Csop_new_operator new_operator]"

definition set_operator_slots ::
  "('k option set_operator_client, pubkey option, 'r) builder \<Rightarrow> 'k set_operator_setter option list"
where
  "set_operator_slots b =
     [map_option Csop_vault_state (csop_vault_state (b_accounts b)),
      map_option Csop_deposit_mint (csop_deposit_mint (b_accounts b)),
      map_option Csop_admin (csop_admin (b_accounts b)), map_option Csop_new_operator (b_args b)]"

interpretation set_operator_fields: field_setters set_operator_set set_operator_slot set_operator_slots b_remaining
proof
  fix s :: "'a set_operator_setter" and b b' :: "('a option set_operator_client, pubkey option, 'b) builder"
  show "set_operator_slots (set_operator_set s b) = (set_operator_slots b)[set_operator_slot s := Some s]" "b_remaining (set_operator_set s b) = b_remaining b"
    by (cases s; simp add: set_operator_slots_def)+
  assume "set_operator_slots b = set_operator_slots b'" "b_remaining b = b_remaining b'"
  then show "b = b'"
    by (intro builder.equality set_operator_client.equality)
      (simp_all add: set_operator_slots_def inj_def)
qed

lemma set_operator_cpi_set_is: "set_operator_cpi_set = set_operator_set"
proof (intro ext)
  fix x :: "'i set_operator_setter" and b
  show "set_operator_cpi_set x b = set_operator_set x b" by (cases x) simp_all
qed

lemma set_operator_setters_chosen:
  "{..<17} \<subseteq> set order \<Longrightarrow>
   last_write set_operator_slot (chosen order (set_operator_setters a new_operator)) = last_write set_operator_slot (set_operator_setters a new_operator)"
  by (rule last_write_chosen) (auto simp: set_operator_setters_def upt_rec)

lemma set_operator_built:
  assumes "last_write set_operator_slot ss = last_write set_operator_slot (set_operator_setters a new_operator)"
  shows "set_operator_build (add_remaining_accounts rem (fold set_operator_set ss set_operator_new)) =
     Inr (set_operator_instruction a new_operator rem)"
  unfolding set_operator_fields.last_write_decides [OF assms]
  by (simp add: set_operator_setters_def set_operator_new_def set_operator_build_def add_remaining_accounts_def)

lemma set_operator_cpi_built:
  assumes "last_write set_operator_slot ss = last_write set_operator_slot (set_operator_setters a new_operator)"
  shows "(case set_operator_cpi_new program of (program, b) \<Rightarrow>
       set_operator_cpi_build key program (cpi_add_remaining_accounts rem (fold set_operator_cpi_set ss b)) seeds) =
     Inr (set_operator_cpi key program a new_operator seeds rem)"
  unfolding set_operator_cpi_new_def prod.case set_operator_cpi_set_is set_operator_fields.last_write_decides [OF assms]
  by (simp add: set_operator_setters_def set_operator_cpi_build_def cpi_add_remaining_accounts_def)

lemmas set_operator_chained = set_operator_built [OF set_operator_setters_chosen] set_operator_cpi_built [OF set_operator_setters_chosen]

section \<open>instructions/set_fee_recipient.rs\<close>

datatype (plugins only: code) (dead 'k) set_fee_recipient_setter =
    Csfr_vault_state 'k
  | Csfr_deposit_mint 'k
  | Csfr_admin 'k
  | Csfr_new_fee_recipient pubkey

definition set_fee_recipient_new :: "(pubkey option set_fee_recipient_client, pubkey option, account_meta) builder" where
  "set_fee_recipient_new =
     \<lparr>b_accounts = \<lparr>csfr_vault_state = None, csfr_deposit_mint = None, csfr_admin = None\<rparr>,
      b_args = None, b_remaining = []\<rparr>"

primrec set_fee_recipient_set ::
  "'k set_fee_recipient_setter \<Rightarrow>
   ('k option set_fee_recipient_client, pubkey option, 'r) builder \<Rightarrow>
   ('k option set_fee_recipient_client, pubkey option, 'r) builder"
where
  "set_fee_recipient_set (Csfr_vault_state x) b =
     b\<lparr>b_accounts := (b_accounts b)\<lparr>csfr_vault_state := Some x\<rparr>\<rparr>"
| "set_fee_recipient_set (Csfr_deposit_mint x) b =
     b\<lparr>b_accounts := (b_accounts b)\<lparr>csfr_deposit_mint := Some x\<rparr>\<rparr>"
| "set_fee_recipient_set (Csfr_admin x) b =
     b\<lparr>b_accounts := (b_accounts b)\<lparr>csfr_admin := Some x\<rparr>\<rparr>"
| "set_fee_recipient_set (Csfr_new_fee_recipient x) b = b\<lparr>b_args := Some x\<rparr>"

definition set_fee_recipient_cpi_new ::
  "'i \<Rightarrow> 'i \<times> ('i option set_fee_recipient_client, pubkey option, 'i \<times> bool \<times> bool) builder"
where
  "set_fee_recipient_cpi_new program =
    (program,
     \<lparr>b_accounts = \<lparr>csfr_vault_state = None, csfr_deposit_mint = None, csfr_admin = None\<rparr>,
      b_args = None, b_remaining = []\<rparr>)"

primrec set_fee_recipient_cpi_set ::
  "'i set_fee_recipient_setter \<Rightarrow>
   ('i option set_fee_recipient_client, pubkey option, 'i \<times> bool \<times> bool) builder \<Rightarrow>
   ('i option set_fee_recipient_client, pubkey option, 'i \<times> bool \<times> bool) builder"
where
  "set_fee_recipient_cpi_set (Csfr_vault_state x) b =
     b\<lparr>b_accounts := (b_accounts b)\<lparr>csfr_vault_state := Some x\<rparr>\<rparr>"
| "set_fee_recipient_cpi_set (Csfr_deposit_mint x) b =
     b\<lparr>b_accounts := (b_accounts b)\<lparr>csfr_deposit_mint := Some x\<rparr>\<rparr>"
| "set_fee_recipient_cpi_set (Csfr_admin x) b =
     b\<lparr>b_accounts := (b_accounts b)\<lparr>csfr_admin := Some x\<rparr>\<rparr>"
| "set_fee_recipient_cpi_set (Csfr_new_fee_recipient x) b = b\<lparr>b_args := Some x\<rparr>"

primrec set_fee_recipient_slot :: "'k set_fee_recipient_setter \<Rightarrow> nat" where
  "set_fee_recipient_slot (Csfr_vault_state x) = 0"
| "set_fee_recipient_slot (Csfr_deposit_mint x) = 1"
| "set_fee_recipient_slot (Csfr_admin x) = 2"
| "set_fee_recipient_slot (Csfr_new_fee_recipient x) = 3"

definition set_fee_recipient_setters :: "'k set_fee_recipient_client \<Rightarrow> pubkey \<Rightarrow> 'k set_fee_recipient_setter list" where
  "set_fee_recipient_setters a new_fee_recipient =
     [Csfr_vault_state (csfr_vault_state a), Csfr_deposit_mint (csfr_deposit_mint a),
      Csfr_admin (csfr_admin a), Csfr_new_fee_recipient new_fee_recipient]"

definition set_fee_recipient_slots ::
  "('k option set_fee_recipient_client, pubkey option, 'r) builder \<Rightarrow> 'k set_fee_recipient_setter option list"
where
  "set_fee_recipient_slots b =
     [map_option Csfr_vault_state (csfr_vault_state (b_accounts b)),
      map_option Csfr_deposit_mint (csfr_deposit_mint (b_accounts b)),
      map_option Csfr_admin (csfr_admin (b_accounts b)),
      map_option Csfr_new_fee_recipient (b_args b)]"

interpretation set_fee_recipient_fields: field_setters set_fee_recipient_set set_fee_recipient_slot set_fee_recipient_slots b_remaining
proof
  fix s :: "'a set_fee_recipient_setter" and b b' :: "('a option set_fee_recipient_client, pubkey option, 'b) builder"
  show "set_fee_recipient_slots (set_fee_recipient_set s b) = (set_fee_recipient_slots b)[set_fee_recipient_slot s := Some s]" "b_remaining (set_fee_recipient_set s b) = b_remaining b"
    by (cases s; simp add: set_fee_recipient_slots_def)+
  assume "set_fee_recipient_slots b = set_fee_recipient_slots b'" "b_remaining b = b_remaining b'"
  then show "b = b'"
    by (intro builder.equality set_fee_recipient_client.equality)
      (simp_all add: set_fee_recipient_slots_def inj_def)
qed

lemma set_fee_recipient_cpi_set_is: "set_fee_recipient_cpi_set = set_fee_recipient_set"
proof (intro ext)
  fix x :: "'i set_fee_recipient_setter" and b
  show "set_fee_recipient_cpi_set x b = set_fee_recipient_set x b" by (cases x) simp_all
qed

lemma set_fee_recipient_setters_chosen:
  "{..<17} \<subseteq> set order \<Longrightarrow>
   last_write set_fee_recipient_slot (chosen order (set_fee_recipient_setters a new_fee_recipient)) = last_write set_fee_recipient_slot (set_fee_recipient_setters a new_fee_recipient)"
  by (rule last_write_chosen) (auto simp: set_fee_recipient_setters_def upt_rec)

lemma set_fee_recipient_built:
  assumes "last_write set_fee_recipient_slot ss = last_write set_fee_recipient_slot (set_fee_recipient_setters a new_fee_recipient)"
  shows "set_fee_recipient_build (add_remaining_accounts rem (fold set_fee_recipient_set ss set_fee_recipient_new)) =
     Inr (set_fee_recipient_instruction a new_fee_recipient rem)"
  unfolding set_fee_recipient_fields.last_write_decides [OF assms]
  by (simp add: set_fee_recipient_setters_def set_fee_recipient_new_def set_fee_recipient_build_def add_remaining_accounts_def)

lemma set_fee_recipient_cpi_built:
  assumes "last_write set_fee_recipient_slot ss = last_write set_fee_recipient_slot (set_fee_recipient_setters a new_fee_recipient)"
  shows "(case set_fee_recipient_cpi_new program of (program, b) \<Rightarrow>
       set_fee_recipient_cpi_build key program (cpi_add_remaining_accounts rem (fold set_fee_recipient_cpi_set ss b)) seeds) =
     Inr (set_fee_recipient_cpi key program a new_fee_recipient seeds rem)"
  unfolding set_fee_recipient_cpi_new_def prod.case set_fee_recipient_cpi_set_is set_fee_recipient_fields.last_write_decides [OF assms]
  by (simp add: set_fee_recipient_setters_def set_fee_recipient_cpi_build_def cpi_add_remaining_accounts_def)

lemmas set_fee_recipient_chained = set_fee_recipient_built [OF set_fee_recipient_setters_chosen] set_fee_recipient_cpi_built [OF set_fee_recipient_setters_chosen]

section \<open>instructions/set_aum_limits.rs\<close>

datatype (plugins only: code) (dead 'k) set_aum_limits_setter =
    Csal_vault_state 'k
  | Csal_deposit_mint 'k
  | Csal_admin 'k
  | Csal_increase_limit u32
  | Csal_decrease_limit u32

definition set_aum_limits_new :: "(pubkey option set_aum_limits_client, u32 option \<times> u32 option, account_meta) builder" where
  "set_aum_limits_new =
     \<lparr>b_accounts = \<lparr>csal_vault_state = None, csal_deposit_mint = None, csal_admin = None\<rparr>,
      b_args = (None, None), b_remaining = []\<rparr>"

primrec set_aum_limits_set ::
  "'k set_aum_limits_setter \<Rightarrow>
   ('k option set_aum_limits_client, u32 option \<times> u32 option, 'r) builder \<Rightarrow>
   ('k option set_aum_limits_client, u32 option \<times> u32 option, 'r) builder"
where
  "set_aum_limits_set (Csal_vault_state x) b =
     b\<lparr>b_accounts := (b_accounts b)\<lparr>csal_vault_state := Some x\<rparr>\<rparr>"
| "set_aum_limits_set (Csal_deposit_mint x) b =
     b\<lparr>b_accounts := (b_accounts b)\<lparr>csal_deposit_mint := Some x\<rparr>\<rparr>"
| "set_aum_limits_set (Csal_admin x) b =
     b\<lparr>b_accounts := (b_accounts b)\<lparr>csal_admin := Some x\<rparr>\<rparr>"
| "set_aum_limits_set (Csal_increase_limit x) b =
     b\<lparr>b_args := (case b_args b of (_, p1) \<Rightarrow> (Some x, p1))\<rparr>"
| "set_aum_limits_set (Csal_decrease_limit x) b =
     b\<lparr>b_args := (case b_args b of (p0, _) \<Rightarrow> (p0, Some x))\<rparr>"

definition set_aum_limits_cpi_new ::
  "'i \<Rightarrow> 'i \<times> ('i option set_aum_limits_client, u32 option \<times> u32 option, 'i \<times> bool \<times> bool) builder"
where
  "set_aum_limits_cpi_new program =
    (program,
     \<lparr>b_accounts = \<lparr>csal_vault_state = None, csal_deposit_mint = None, csal_admin = None\<rparr>,
      b_args = (None, None), b_remaining = []\<rparr>)"

primrec set_aum_limits_cpi_set ::
  "'i set_aum_limits_setter \<Rightarrow>
   ('i option set_aum_limits_client, u32 option \<times> u32 option, 'i \<times> bool \<times> bool) builder \<Rightarrow>
   ('i option set_aum_limits_client, u32 option \<times> u32 option, 'i \<times> bool \<times> bool) builder"
where
  "set_aum_limits_cpi_set (Csal_vault_state x) b =
     b\<lparr>b_accounts := (b_accounts b)\<lparr>csal_vault_state := Some x\<rparr>\<rparr>"
| "set_aum_limits_cpi_set (Csal_deposit_mint x) b =
     b\<lparr>b_accounts := (b_accounts b)\<lparr>csal_deposit_mint := Some x\<rparr>\<rparr>"
| "set_aum_limits_cpi_set (Csal_admin x) b =
     b\<lparr>b_accounts := (b_accounts b)\<lparr>csal_admin := Some x\<rparr>\<rparr>"
| "set_aum_limits_cpi_set (Csal_increase_limit x) b =
     b\<lparr>b_args := (case b_args b of (_, p1) \<Rightarrow> (Some x, p1))\<rparr>"
| "set_aum_limits_cpi_set (Csal_decrease_limit x) b =
     b\<lparr>b_args := (case b_args b of (p0, _) \<Rightarrow> (p0, Some x))\<rparr>"

primrec set_aum_limits_slot :: "'k set_aum_limits_setter \<Rightarrow> nat" where
  "set_aum_limits_slot (Csal_vault_state x) = 0"
| "set_aum_limits_slot (Csal_deposit_mint x) = 1"
| "set_aum_limits_slot (Csal_admin x) = 2"
| "set_aum_limits_slot (Csal_increase_limit x) = 3"
| "set_aum_limits_slot (Csal_decrease_limit x) = 4"

definition set_aum_limits_setters :: "'k set_aum_limits_client \<Rightarrow> u32 \<Rightarrow> u32 \<Rightarrow> 'k set_aum_limits_setter list" where
  "set_aum_limits_setters a increase_limit decrease_limit =
     [Csal_vault_state (csal_vault_state a), Csal_deposit_mint (csal_deposit_mint a),
      Csal_admin (csal_admin a), Csal_increase_limit increase_limit,
      Csal_decrease_limit decrease_limit]"

definition set_aum_limits_slots ::
  "('k option set_aum_limits_client, u32 option \<times> u32 option, 'r) builder \<Rightarrow> 'k set_aum_limits_setter option list"
where
  "set_aum_limits_slots b =
     (case b_args b of (increase_limit, decrease_limit) \<Rightarrow>
     [map_option Csal_vault_state (csal_vault_state (b_accounts b)),
      map_option Csal_deposit_mint (csal_deposit_mint (b_accounts b)),
      map_option Csal_admin (csal_admin (b_accounts b)),
      map_option Csal_increase_limit increase_limit, map_option Csal_decrease_limit decrease_limit])"

interpretation set_aum_limits_fields: field_setters set_aum_limits_set set_aum_limits_slot set_aum_limits_slots b_remaining
proof
  fix s :: "'a set_aum_limits_setter" and b b' :: "('a option set_aum_limits_client, u32 option \<times> u32 option, 'b) builder"
  show "set_aum_limits_slots (set_aum_limits_set s b) = (set_aum_limits_slots b)[set_aum_limits_slot s := Some s]" "b_remaining (set_aum_limits_set s b) = b_remaining b"
    by (cases s; simp add: set_aum_limits_slots_def split: prod.splits)+
  assume "set_aum_limits_slots b = set_aum_limits_slots b'" "b_remaining b = b_remaining b'"
  then show "b = b'"
    by (intro builder.equality set_aum_limits_client.equality)
      (simp_all add: set_aum_limits_slots_def inj_def split: prod.splits)
qed

lemma set_aum_limits_cpi_set_is: "set_aum_limits_cpi_set = set_aum_limits_set"
proof (intro ext)
  fix x :: "'i set_aum_limits_setter" and b
  show "set_aum_limits_cpi_set x b = set_aum_limits_set x b" by (cases x) simp_all
qed

lemma set_aum_limits_setters_chosen:
  "{..<17} \<subseteq> set order \<Longrightarrow>
   last_write set_aum_limits_slot (chosen order (set_aum_limits_setters a increase_limit decrease_limit)) = last_write set_aum_limits_slot (set_aum_limits_setters a increase_limit decrease_limit)"
  by (rule last_write_chosen) (auto simp: set_aum_limits_setters_def upt_rec)

lemma set_aum_limits_built:
  assumes "last_write set_aum_limits_slot ss = last_write set_aum_limits_slot (set_aum_limits_setters a increase_limit decrease_limit)"
  shows "set_aum_limits_build (add_remaining_accounts rem (fold set_aum_limits_set ss set_aum_limits_new)) =
     Inr (set_aum_limits_instruction a increase_limit decrease_limit rem)"
  unfolding set_aum_limits_fields.last_write_decides [OF assms]
  by (simp add: set_aum_limits_setters_def set_aum_limits_new_def set_aum_limits_build_def add_remaining_accounts_def)

lemma set_aum_limits_cpi_built:
  assumes "last_write set_aum_limits_slot ss = last_write set_aum_limits_slot (set_aum_limits_setters a increase_limit decrease_limit)"
  shows "(case set_aum_limits_cpi_new program of (program, b) \<Rightarrow>
       set_aum_limits_cpi_build key program (cpi_add_remaining_accounts rem (fold set_aum_limits_cpi_set ss b)) seeds) =
     Inr (set_aum_limits_cpi key program a increase_limit decrease_limit seeds rem)"
  unfolding set_aum_limits_cpi_new_def prod.case set_aum_limits_cpi_set_is set_aum_limits_fields.last_write_decides [OF assms]
  by (simp add: set_aum_limits_setters_def set_aum_limits_cpi_build_def cpi_add_remaining_accounts_def)

lemmas set_aum_limits_chained = set_aum_limits_built [OF set_aum_limits_setters_chosen] set_aum_limits_cpi_built [OF set_aum_limits_setters_chosen]

section \<open>instructions/pause.rs\<close>

datatype (plugins only: code) (dead 'k) pause_setter =
    Cpau_vault_state 'k
  | Cpau_deposit_mint 'k
  | Cpau_admin 'k

definition pause_new :: "(pubkey option pause_client, unit, account_meta) builder" where
  "pause_new =
     \<lparr>b_accounts = \<lparr>cpau_vault_state = None, cpau_deposit_mint = None, cpau_admin = None\<rparr>,
      b_args = (), b_remaining = []\<rparr>"

primrec pause_set ::
  "'k pause_setter \<Rightarrow>
   ('k option pause_client, unit, 'r) builder \<Rightarrow>
   ('k option pause_client, unit, 'r) builder"
where
  "pause_set (Cpau_vault_state x) b =
     b\<lparr>b_accounts := (b_accounts b)\<lparr>cpau_vault_state := Some x\<rparr>\<rparr>"
| "pause_set (Cpau_deposit_mint x) b =
     b\<lparr>b_accounts := (b_accounts b)\<lparr>cpau_deposit_mint := Some x\<rparr>\<rparr>"
| "pause_set (Cpau_admin x) b =
     b\<lparr>b_accounts := (b_accounts b)\<lparr>cpau_admin := Some x\<rparr>\<rparr>"

definition pause_cpi_new ::
  "'i \<Rightarrow> 'i \<times> ('i option pause_client, unit, 'i \<times> bool \<times> bool) builder"
where
  "pause_cpi_new program =
    (program,
     \<lparr>b_accounts = \<lparr>cpau_vault_state = None, cpau_deposit_mint = None, cpau_admin = None\<rparr>,
      b_args = (), b_remaining = []\<rparr>)"

primrec pause_cpi_set ::
  "'i pause_setter \<Rightarrow>
   ('i option pause_client, unit, 'i \<times> bool \<times> bool) builder \<Rightarrow>
   ('i option pause_client, unit, 'i \<times> bool \<times> bool) builder"
where
  "pause_cpi_set (Cpau_vault_state x) b =
     b\<lparr>b_accounts := (b_accounts b)\<lparr>cpau_vault_state := Some x\<rparr>\<rparr>"
| "pause_cpi_set (Cpau_deposit_mint x) b =
     b\<lparr>b_accounts := (b_accounts b)\<lparr>cpau_deposit_mint := Some x\<rparr>\<rparr>"
| "pause_cpi_set (Cpau_admin x) b =
     b\<lparr>b_accounts := (b_accounts b)\<lparr>cpau_admin := Some x\<rparr>\<rparr>"

primrec pause_slot :: "'k pause_setter \<Rightarrow> nat" where
  "pause_slot (Cpau_vault_state x) = 0"
| "pause_slot (Cpau_deposit_mint x) = 1"
| "pause_slot (Cpau_admin x) = 2"

definition pause_setters :: "'k pause_client \<Rightarrow> 'k pause_setter list" where
  "pause_setters a =
     [Cpau_vault_state (cpau_vault_state a), Cpau_deposit_mint (cpau_deposit_mint a),
      Cpau_admin (cpau_admin a)]"

definition pause_slots ::
  "('k option pause_client, unit, 'r) builder \<Rightarrow> 'k pause_setter option list"
where
  "pause_slots b =
     [map_option Cpau_vault_state (cpau_vault_state (b_accounts b)),
      map_option Cpau_deposit_mint (cpau_deposit_mint (b_accounts b)),
      map_option Cpau_admin (cpau_admin (b_accounts b))]"

interpretation pause_fields: field_setters pause_set pause_slot pause_slots b_remaining
proof
  fix s :: "'a pause_setter" and b b' :: "('a option pause_client, unit, 'b) builder"
  show "pause_slots (pause_set s b) = (pause_slots b)[pause_slot s := Some s]" "b_remaining (pause_set s b) = b_remaining b"
    by (cases s; simp add: pause_slots_def)+
  assume "pause_slots b = pause_slots b'" "b_remaining b = b_remaining b'"
  then show "b = b'"
    by (intro builder.equality pause_client.equality)
      (simp_all add: pause_slots_def inj_def)
qed

lemma pause_cpi_set_is: "pause_cpi_set = pause_set"
proof (intro ext)
  fix x :: "'i pause_setter" and b
  show "pause_cpi_set x b = pause_set x b" by (cases x) simp_all
qed

lemma pause_setters_chosen:
  "{..<17} \<subseteq> set order \<Longrightarrow>
   last_write pause_slot (chosen order (pause_setters a)) = last_write pause_slot (pause_setters a)"
  by (rule last_write_chosen) (auto simp: pause_setters_def upt_rec)

lemma pause_built:
  assumes "last_write pause_slot ss = last_write pause_slot (pause_setters a)"
  shows "pause_build (add_remaining_accounts rem (fold pause_set ss pause_new)) =
     Inr (pause_instruction a rem)"
  unfolding pause_fields.last_write_decides [OF assms]
  by (simp add: pause_setters_def pause_new_def pause_build_def add_remaining_accounts_def)

lemma pause_cpi_built:
  assumes "last_write pause_slot ss = last_write pause_slot (pause_setters a)"
  shows "(case pause_cpi_new program of (program, b) \<Rightarrow>
       pause_cpi_build key program (cpi_add_remaining_accounts rem (fold pause_cpi_set ss b)) seeds) =
     Inr (pause_cpi key program a seeds rem)"
  unfolding pause_cpi_new_def prod.case pause_cpi_set_is pause_fields.last_write_decides [OF assms]
  by (simp add: pause_setters_def pause_cpi_build_def cpi_add_remaining_accounts_def)

lemmas pause_chained = pause_built [OF pause_setters_chosen] pause_cpi_built [OF pause_setters_chosen]

section \<open>instructions/unpause.rs\<close>

datatype (plugins only: code) (dead 'k) unpause_setter =
    Cunp_vault_state 'k
  | Cunp_deposit_mint 'k
  | Cunp_admin 'k

definition unpause_new :: "(pubkey option unpause_client, unit, account_meta) builder" where
  "unpause_new =
     \<lparr>b_accounts = \<lparr>cunp_vault_state = None, cunp_deposit_mint = None, cunp_admin = None\<rparr>,
      b_args = (), b_remaining = []\<rparr>"

primrec unpause_set ::
  "'k unpause_setter \<Rightarrow>
   ('k option unpause_client, unit, 'r) builder \<Rightarrow>
   ('k option unpause_client, unit, 'r) builder"
where
  "unpause_set (Cunp_vault_state x) b =
     b\<lparr>b_accounts := (b_accounts b)\<lparr>cunp_vault_state := Some x\<rparr>\<rparr>"
| "unpause_set (Cunp_deposit_mint x) b =
     b\<lparr>b_accounts := (b_accounts b)\<lparr>cunp_deposit_mint := Some x\<rparr>\<rparr>"
| "unpause_set (Cunp_admin x) b =
     b\<lparr>b_accounts := (b_accounts b)\<lparr>cunp_admin := Some x\<rparr>\<rparr>"

definition unpause_cpi_new ::
  "'i \<Rightarrow> 'i \<times> ('i option unpause_client, unit, 'i \<times> bool \<times> bool) builder"
where
  "unpause_cpi_new program =
    (program,
     \<lparr>b_accounts = \<lparr>cunp_vault_state = None, cunp_deposit_mint = None, cunp_admin = None\<rparr>,
      b_args = (), b_remaining = []\<rparr>)"

primrec unpause_cpi_set ::
  "'i unpause_setter \<Rightarrow>
   ('i option unpause_client, unit, 'i \<times> bool \<times> bool) builder \<Rightarrow>
   ('i option unpause_client, unit, 'i \<times> bool \<times> bool) builder"
where
  "unpause_cpi_set (Cunp_vault_state x) b =
     b\<lparr>b_accounts := (b_accounts b)\<lparr>cunp_vault_state := Some x\<rparr>\<rparr>"
| "unpause_cpi_set (Cunp_deposit_mint x) b =
     b\<lparr>b_accounts := (b_accounts b)\<lparr>cunp_deposit_mint := Some x\<rparr>\<rparr>"
| "unpause_cpi_set (Cunp_admin x) b =
     b\<lparr>b_accounts := (b_accounts b)\<lparr>cunp_admin := Some x\<rparr>\<rparr>"

primrec unpause_slot :: "'k unpause_setter \<Rightarrow> nat" where
  "unpause_slot (Cunp_vault_state x) = 0"
| "unpause_slot (Cunp_deposit_mint x) = 1"
| "unpause_slot (Cunp_admin x) = 2"

definition unpause_setters :: "'k unpause_client \<Rightarrow> 'k unpause_setter list" where
  "unpause_setters a =
     [Cunp_vault_state (cunp_vault_state a), Cunp_deposit_mint (cunp_deposit_mint a),
      Cunp_admin (cunp_admin a)]"

definition unpause_slots ::
  "('k option unpause_client, unit, 'r) builder \<Rightarrow> 'k unpause_setter option list"
where
  "unpause_slots b =
     [map_option Cunp_vault_state (cunp_vault_state (b_accounts b)),
      map_option Cunp_deposit_mint (cunp_deposit_mint (b_accounts b)),
      map_option Cunp_admin (cunp_admin (b_accounts b))]"

interpretation unpause_fields: field_setters unpause_set unpause_slot unpause_slots b_remaining
proof
  fix s :: "'a unpause_setter" and b b' :: "('a option unpause_client, unit, 'b) builder"
  show "unpause_slots (unpause_set s b) = (unpause_slots b)[unpause_slot s := Some s]" "b_remaining (unpause_set s b) = b_remaining b"
    by (cases s; simp add: unpause_slots_def)+
  assume "unpause_slots b = unpause_slots b'" "b_remaining b = b_remaining b'"
  then show "b = b'"
    by (intro builder.equality unpause_client.equality)
      (simp_all add: unpause_slots_def inj_def)
qed

lemma unpause_cpi_set_is: "unpause_cpi_set = unpause_set"
proof (intro ext)
  fix x :: "'i unpause_setter" and b
  show "unpause_cpi_set x b = unpause_set x b" by (cases x) simp_all
qed

lemma unpause_setters_chosen:
  "{..<17} \<subseteq> set order \<Longrightarrow>
   last_write unpause_slot (chosen order (unpause_setters a)) = last_write unpause_slot (unpause_setters a)"
  by (rule last_write_chosen) (auto simp: unpause_setters_def upt_rec)

lemma unpause_built:
  assumes "last_write unpause_slot ss = last_write unpause_slot (unpause_setters a)"
  shows "unpause_build (add_remaining_accounts rem (fold unpause_set ss unpause_new)) =
     Inr (unpause_instruction a rem)"
  unfolding unpause_fields.last_write_decides [OF assms]
  by (simp add: unpause_setters_def unpause_new_def unpause_build_def add_remaining_accounts_def)

lemma unpause_cpi_built:
  assumes "last_write unpause_slot ss = last_write unpause_slot (unpause_setters a)"
  shows "(case unpause_cpi_new program of (program, b) \<Rightarrow>
       unpause_cpi_build key program (cpi_add_remaining_accounts rem (fold unpause_cpi_set ss b)) seeds) =
     Inr (unpause_cpi key program a seeds rem)"
  unfolding unpause_cpi_new_def prod.case unpause_cpi_set_is unpause_fields.last_write_decides [OF assms]
  by (simp add: unpause_setters_def unpause_cpi_build_def cpi_add_remaining_accounts_def)

lemmas unpause_chained = unpause_built [OF unpause_setters_chosen] unpause_cpi_built [OF unpause_setters_chosen]

section \<open>instructions/nominate_admin.rs\<close>

datatype (plugins only: code) (dead 'k) nominate_admin_setter =
    Cnma_vault_state 'k
  | Cnma_deposit_mint 'k
  | Cnma_nominated_admin_pda 'k
  | Cnma_admin 'k
  | Cnma_payer 'k
  | Cnma_system_program 'k
  | Cnma_new_admin pubkey

definition nominate_admin_new :: "(pubkey option nominate_admin_client, pubkey option, account_meta) builder" where
  "nominate_admin_new =
     \<lparr>b_accounts = \<lparr>cnma_vault_state = None, cnma_deposit_mint = None, cnma_nominated_admin_pda = None,
        cnma_admin = None, cnma_payer = None, cnma_system_program = None\<rparr>,
      b_args = None, b_remaining = []\<rparr>"

primrec nominate_admin_set ::
  "'k nominate_admin_setter \<Rightarrow>
   ('k option nominate_admin_client, pubkey option, 'r) builder \<Rightarrow>
   ('k option nominate_admin_client, pubkey option, 'r) builder"
where
  "nominate_admin_set (Cnma_vault_state x) b =
     b\<lparr>b_accounts := (b_accounts b)\<lparr>cnma_vault_state := Some x\<rparr>\<rparr>"
| "nominate_admin_set (Cnma_deposit_mint x) b =
     b\<lparr>b_accounts := (b_accounts b)\<lparr>cnma_deposit_mint := Some x\<rparr>\<rparr>"
| "nominate_admin_set (Cnma_nominated_admin_pda x) b =
     b\<lparr>b_accounts := (b_accounts b)\<lparr>cnma_nominated_admin_pda := Some x\<rparr>\<rparr>"
| "nominate_admin_set (Cnma_admin x) b =
     b\<lparr>b_accounts := (b_accounts b)\<lparr>cnma_admin := Some x\<rparr>\<rparr>"
| "nominate_admin_set (Cnma_payer x) b =
     b\<lparr>b_accounts := (b_accounts b)\<lparr>cnma_payer := Some x\<rparr>\<rparr>"
| "nominate_admin_set (Cnma_system_program x) b =
     b\<lparr>b_accounts := (b_accounts b)\<lparr>cnma_system_program := Some x\<rparr>\<rparr>"
| "nominate_admin_set (Cnma_new_admin x) b = b\<lparr>b_args := Some x\<rparr>"

definition nominate_admin_cpi_new ::
  "'i \<Rightarrow> 'i \<times> ('i option nominate_admin_client, pubkey option, 'i \<times> bool \<times> bool) builder"
where
  "nominate_admin_cpi_new program =
    (program,
     \<lparr>b_accounts = \<lparr>cnma_vault_state = None, cnma_deposit_mint = None, cnma_nominated_admin_pda = None,
        cnma_admin = None, cnma_payer = None, cnma_system_program = None\<rparr>,
      b_args = None, b_remaining = []\<rparr>)"

primrec nominate_admin_cpi_set ::
  "'i nominate_admin_setter \<Rightarrow>
   ('i option nominate_admin_client, pubkey option, 'i \<times> bool \<times> bool) builder \<Rightarrow>
   ('i option nominate_admin_client, pubkey option, 'i \<times> bool \<times> bool) builder"
where
  "nominate_admin_cpi_set (Cnma_vault_state x) b =
     b\<lparr>b_accounts := (b_accounts b)\<lparr>cnma_vault_state := Some x\<rparr>\<rparr>"
| "nominate_admin_cpi_set (Cnma_deposit_mint x) b =
     b\<lparr>b_accounts := (b_accounts b)\<lparr>cnma_deposit_mint := Some x\<rparr>\<rparr>"
| "nominate_admin_cpi_set (Cnma_nominated_admin_pda x) b =
     b\<lparr>b_accounts := (b_accounts b)\<lparr>cnma_nominated_admin_pda := Some x\<rparr>\<rparr>"
| "nominate_admin_cpi_set (Cnma_admin x) b =
     b\<lparr>b_accounts := (b_accounts b)\<lparr>cnma_admin := Some x\<rparr>\<rparr>"
| "nominate_admin_cpi_set (Cnma_payer x) b =
     b\<lparr>b_accounts := (b_accounts b)\<lparr>cnma_payer := Some x\<rparr>\<rparr>"
| "nominate_admin_cpi_set (Cnma_system_program x) b =
     b\<lparr>b_accounts := (b_accounts b)\<lparr>cnma_system_program := Some x\<rparr>\<rparr>"
| "nominate_admin_cpi_set (Cnma_new_admin x) b = b\<lparr>b_args := Some x\<rparr>"

primrec nominate_admin_slot :: "'k nominate_admin_setter \<Rightarrow> nat" where
  "nominate_admin_slot (Cnma_vault_state x) = 0"
| "nominate_admin_slot (Cnma_deposit_mint x) = 1"
| "nominate_admin_slot (Cnma_nominated_admin_pda x) = 2"
| "nominate_admin_slot (Cnma_admin x) = 3"
| "nominate_admin_slot (Cnma_payer x) = 4"
| "nominate_admin_slot (Cnma_system_program x) = 5"
| "nominate_admin_slot (Cnma_new_admin x) = 6"

definition nominate_admin_setters :: "'k nominate_admin_client \<Rightarrow> pubkey \<Rightarrow> 'k nominate_admin_setter list" where
  "nominate_admin_setters a new_admin =
     [Cnma_vault_state (cnma_vault_state a), Cnma_deposit_mint (cnma_deposit_mint a),
      Cnma_nominated_admin_pda (cnma_nominated_admin_pda a), Cnma_admin (cnma_admin a),
      Cnma_payer (cnma_payer a), Cnma_system_program (cnma_system_program a),
      Cnma_new_admin new_admin]"

definition nominate_admin_slots ::
  "('k option nominate_admin_client, pubkey option, 'r) builder \<Rightarrow> 'k nominate_admin_setter option list"
where
  "nominate_admin_slots b =
     [map_option Cnma_vault_state (cnma_vault_state (b_accounts b)),
      map_option Cnma_deposit_mint (cnma_deposit_mint (b_accounts b)),
      map_option Cnma_nominated_admin_pda (cnma_nominated_admin_pda (b_accounts b)),
      map_option Cnma_admin (cnma_admin (b_accounts b)),
      map_option Cnma_payer (cnma_payer (b_accounts b)),
      map_option Cnma_system_program (cnma_system_program (b_accounts b)),
      map_option Cnma_new_admin (b_args b)]"

interpretation nominate_admin_fields: field_setters nominate_admin_set nominate_admin_slot nominate_admin_slots b_remaining
proof
  fix s :: "'a nominate_admin_setter" and b b' :: "('a option nominate_admin_client, pubkey option, 'b) builder"
  show "nominate_admin_slots (nominate_admin_set s b) = (nominate_admin_slots b)[nominate_admin_slot s := Some s]" "b_remaining (nominate_admin_set s b) = b_remaining b"
    by (cases s; simp add: nominate_admin_slots_def)+
  assume "nominate_admin_slots b = nominate_admin_slots b'" "b_remaining b = b_remaining b'"
  then show "b = b'"
    by (intro builder.equality nominate_admin_client.equality)
      (simp_all add: nominate_admin_slots_def inj_def)
qed

lemma nominate_admin_cpi_set_is: "nominate_admin_cpi_set = nominate_admin_set"
proof (intro ext)
  fix x :: "'i nominate_admin_setter" and b
  show "nominate_admin_cpi_set x b = nominate_admin_set x b" by (cases x) simp_all
qed

lemma nominate_admin_setters_chosen:
  "{..<17} \<subseteq> set order \<Longrightarrow>
   last_write nominate_admin_slot (chosen order (nominate_admin_setters a new_admin)) = last_write nominate_admin_slot (nominate_admin_setters a new_admin)"
  by (rule last_write_chosen) (auto simp: nominate_admin_setters_def upt_rec)

lemma nominate_admin_built:
  assumes "last_write nominate_admin_slot ss = last_write nominate_admin_slot (nominate_admin_setters a new_admin)"
  shows "nominate_admin_build (add_remaining_accounts rem (fold nominate_admin_set ss nominate_admin_new)) =
     Inr (nominate_admin_instruction a new_admin rem)"
  unfolding nominate_admin_fields.last_write_decides [OF assms]
  by (simp add: nominate_admin_setters_def nominate_admin_new_def nominate_admin_build_def add_remaining_accounts_def)

lemma nominate_admin_cpi_built:
  assumes "last_write nominate_admin_slot ss = last_write nominate_admin_slot (nominate_admin_setters a new_admin)"
  shows "(case nominate_admin_cpi_new program of (program, b) \<Rightarrow>
       nominate_admin_cpi_build key program (cpi_add_remaining_accounts rem (fold nominate_admin_cpi_set ss b)) seeds) =
     Inr (nominate_admin_cpi key program a new_admin seeds rem)"
  unfolding nominate_admin_cpi_new_def prod.case nominate_admin_cpi_set_is nominate_admin_fields.last_write_decides [OF assms]
  by (simp add: nominate_admin_setters_def nominate_admin_cpi_build_def cpi_add_remaining_accounts_def)

lemmas nominate_admin_chained = nominate_admin_built [OF nominate_admin_setters_chosen] nominate_admin_cpi_built [OF nominate_admin_setters_chosen]

section \<open>instructions/accept_admin_nomination.rs\<close>

datatype (plugins only: code) (dead 'k) accept_admin_nomination_setter =
    Caan_vault_state 'k
  | Caan_deposit_mint 'k
  | Caan_nominated_admin_pda 'k
  | Caan_new_admin 'k
  | Caan_receiver 'k
  | Caan_system_program 'k

definition accept_admin_nomination_new :: "(pubkey option accept_admin_nomination_client, unit, account_meta) builder" where
  "accept_admin_nomination_new =
     \<lparr>b_accounts = \<lparr>caan_vault_state = None, caan_deposit_mint = None, caan_nominated_admin_pda = None,
        caan_new_admin = None, caan_receiver = None, caan_system_program = None\<rparr>,
      b_args = (), b_remaining = []\<rparr>"

primrec accept_admin_nomination_set ::
  "'k accept_admin_nomination_setter \<Rightarrow>
   ('k option accept_admin_nomination_client, unit, 'r) builder \<Rightarrow>
   ('k option accept_admin_nomination_client, unit, 'r) builder"
where
  "accept_admin_nomination_set (Caan_vault_state x) b =
     b\<lparr>b_accounts := (b_accounts b)\<lparr>caan_vault_state := Some x\<rparr>\<rparr>"
| "accept_admin_nomination_set (Caan_deposit_mint x) b =
     b\<lparr>b_accounts := (b_accounts b)\<lparr>caan_deposit_mint := Some x\<rparr>\<rparr>"
| "accept_admin_nomination_set (Caan_nominated_admin_pda x) b =
     b\<lparr>b_accounts := (b_accounts b)\<lparr>caan_nominated_admin_pda := Some x\<rparr>\<rparr>"
| "accept_admin_nomination_set (Caan_new_admin x) b =
     b\<lparr>b_accounts := (b_accounts b)\<lparr>caan_new_admin := Some x\<rparr>\<rparr>"
| "accept_admin_nomination_set (Caan_receiver x) b =
     b\<lparr>b_accounts := (b_accounts b)\<lparr>caan_receiver := Some x\<rparr>\<rparr>"
| "accept_admin_nomination_set (Caan_system_program x) b =
     b\<lparr>b_accounts := (b_accounts b)\<lparr>caan_system_program := Some x\<rparr>\<rparr>"

definition accept_admin_nomination_cpi_new ::
  "'i \<Rightarrow> 'i \<times> ('i option accept_admin_nomination_client, unit, 'i \<times> bool \<times> bool) builder"
where
  "accept_admin_nomination_cpi_new program =
    (program,
     \<lparr>b_accounts = \<lparr>caan_vault_state = None, caan_deposit_mint = None, caan_nominated_admin_pda = None,
        caan_new_admin = None, caan_receiver = None, caan_system_program = None\<rparr>,
      b_args = (), b_remaining = []\<rparr>)"

primrec accept_admin_nomination_cpi_set ::
  "'i accept_admin_nomination_setter \<Rightarrow>
   ('i option accept_admin_nomination_client, unit, 'i \<times> bool \<times> bool) builder \<Rightarrow>
   ('i option accept_admin_nomination_client, unit, 'i \<times> bool \<times> bool) builder"
where
  "accept_admin_nomination_cpi_set (Caan_vault_state x) b =
     b\<lparr>b_accounts := (b_accounts b)\<lparr>caan_vault_state := Some x\<rparr>\<rparr>"
| "accept_admin_nomination_cpi_set (Caan_deposit_mint x) b =
     b\<lparr>b_accounts := (b_accounts b)\<lparr>caan_deposit_mint := Some x\<rparr>\<rparr>"
| "accept_admin_nomination_cpi_set (Caan_nominated_admin_pda x) b =
     b\<lparr>b_accounts := (b_accounts b)\<lparr>caan_nominated_admin_pda := Some x\<rparr>\<rparr>"
| "accept_admin_nomination_cpi_set (Caan_new_admin x) b =
     b\<lparr>b_accounts := (b_accounts b)\<lparr>caan_new_admin := Some x\<rparr>\<rparr>"
| "accept_admin_nomination_cpi_set (Caan_receiver x) b =
     b\<lparr>b_accounts := (b_accounts b)\<lparr>caan_receiver := Some x\<rparr>\<rparr>"
| "accept_admin_nomination_cpi_set (Caan_system_program x) b =
     b\<lparr>b_accounts := (b_accounts b)\<lparr>caan_system_program := Some x\<rparr>\<rparr>"

primrec accept_admin_nomination_slot :: "'k accept_admin_nomination_setter \<Rightarrow> nat" where
  "accept_admin_nomination_slot (Caan_vault_state x) = 0"
| "accept_admin_nomination_slot (Caan_deposit_mint x) = 1"
| "accept_admin_nomination_slot (Caan_nominated_admin_pda x) = 2"
| "accept_admin_nomination_slot (Caan_new_admin x) = 3"
| "accept_admin_nomination_slot (Caan_receiver x) = 4"
| "accept_admin_nomination_slot (Caan_system_program x) = 5"

definition accept_admin_nomination_setters :: "'k accept_admin_nomination_client \<Rightarrow> 'k accept_admin_nomination_setter list" where
  "accept_admin_nomination_setters a =
     [Caan_vault_state (caan_vault_state a), Caan_deposit_mint (caan_deposit_mint a),
      Caan_nominated_admin_pda (caan_nominated_admin_pda a), Caan_new_admin (caan_new_admin a),
      Caan_receiver (caan_receiver a), Caan_system_program (caan_system_program a)]"

definition accept_admin_nomination_slots ::
  "('k option accept_admin_nomination_client, unit, 'r) builder \<Rightarrow> 'k accept_admin_nomination_setter option list"
where
  "accept_admin_nomination_slots b =
     [map_option Caan_vault_state (caan_vault_state (b_accounts b)),
      map_option Caan_deposit_mint (caan_deposit_mint (b_accounts b)),
      map_option Caan_nominated_admin_pda (caan_nominated_admin_pda (b_accounts b)),
      map_option Caan_new_admin (caan_new_admin (b_accounts b)),
      map_option Caan_receiver (caan_receiver (b_accounts b)),
      map_option Caan_system_program (caan_system_program (b_accounts b))]"

interpretation accept_admin_nomination_fields: field_setters accept_admin_nomination_set accept_admin_nomination_slot accept_admin_nomination_slots b_remaining
proof
  fix s :: "'a accept_admin_nomination_setter" and b b' :: "('a option accept_admin_nomination_client, unit, 'b) builder"
  show "accept_admin_nomination_slots (accept_admin_nomination_set s b) = (accept_admin_nomination_slots b)[accept_admin_nomination_slot s := Some s]" "b_remaining (accept_admin_nomination_set s b) = b_remaining b"
    by (cases s; simp add: accept_admin_nomination_slots_def)+
  assume "accept_admin_nomination_slots b = accept_admin_nomination_slots b'" "b_remaining b = b_remaining b'"
  then show "b = b'"
    by (intro builder.equality accept_admin_nomination_client.equality)
      (simp_all add: accept_admin_nomination_slots_def inj_def)
qed

lemma accept_admin_nomination_cpi_set_is: "accept_admin_nomination_cpi_set = accept_admin_nomination_set"
proof (intro ext)
  fix x :: "'i accept_admin_nomination_setter" and b
  show "accept_admin_nomination_cpi_set x b = accept_admin_nomination_set x b" by (cases x) simp_all
qed

lemma accept_admin_nomination_setters_chosen:
  "{..<17} \<subseteq> set order \<Longrightarrow>
   last_write accept_admin_nomination_slot (chosen order (accept_admin_nomination_setters a)) = last_write accept_admin_nomination_slot (accept_admin_nomination_setters a)"
  by (rule last_write_chosen) (auto simp: accept_admin_nomination_setters_def upt_rec)

lemma accept_admin_nomination_built:
  assumes "last_write accept_admin_nomination_slot ss = last_write accept_admin_nomination_slot (accept_admin_nomination_setters a)"
  shows "accept_admin_nomination_build (add_remaining_accounts rem (fold accept_admin_nomination_set ss accept_admin_nomination_new)) =
     Inr (accept_admin_nomination_instruction a rem)"
  unfolding accept_admin_nomination_fields.last_write_decides [OF assms]
  by (simp add: accept_admin_nomination_setters_def accept_admin_nomination_new_def accept_admin_nomination_build_def add_remaining_accounts_def)

lemma accept_admin_nomination_cpi_built:
  assumes "last_write accept_admin_nomination_slot ss = last_write accept_admin_nomination_slot (accept_admin_nomination_setters a)"
  shows "(case accept_admin_nomination_cpi_new program of (program, b) \<Rightarrow>
       accept_admin_nomination_cpi_build key program (cpi_add_remaining_accounts rem (fold accept_admin_nomination_cpi_set ss b)) seeds) =
     Inr (accept_admin_nomination_cpi key program a seeds rem)"
  unfolding accept_admin_nomination_cpi_new_def prod.case accept_admin_nomination_cpi_set_is accept_admin_nomination_fields.last_write_decides [OF assms]
  by (simp add: accept_admin_nomination_setters_def accept_admin_nomination_cpi_build_def cpi_add_remaining_accounts_def)

lemmas accept_admin_nomination_chained = accept_admin_nomination_built [OF accept_admin_nomination_setters_chosen] accept_admin_nomination_cpi_built [OF accept_admin_nomination_setters_chosen]

section \<open>instructions/attach_withdrawal_queue.rs\<close>

datatype (plugins only: code) (dead 'k) attach_withdrawal_queue_setter =
    Cawq_vault_state 'k
  | Cawq_deposit_mint 'k
  | Cawq_admin 'k
  | Cawq_queue 'k

definition attach_withdrawal_queue_new :: "(pubkey option attach_withdrawal_queue_client, unit, account_meta) builder" where
  "attach_withdrawal_queue_new =
     \<lparr>b_accounts = \<lparr>cawq_vault_state = None, cawq_deposit_mint = None, cawq_admin = None, cawq_queue = None\<rparr>,
      b_args = (), b_remaining = []\<rparr>"

primrec attach_withdrawal_queue_set ::
  "'k attach_withdrawal_queue_setter \<Rightarrow>
   ('k option attach_withdrawal_queue_client, unit, 'r) builder \<Rightarrow>
   ('k option attach_withdrawal_queue_client, unit, 'r) builder"
where
  "attach_withdrawal_queue_set (Cawq_vault_state x) b =
     b\<lparr>b_accounts := (b_accounts b)\<lparr>cawq_vault_state := Some x\<rparr>\<rparr>"
| "attach_withdrawal_queue_set (Cawq_deposit_mint x) b =
     b\<lparr>b_accounts := (b_accounts b)\<lparr>cawq_deposit_mint := Some x\<rparr>\<rparr>"
| "attach_withdrawal_queue_set (Cawq_admin x) b =
     b\<lparr>b_accounts := (b_accounts b)\<lparr>cawq_admin := Some x\<rparr>\<rparr>"
| "attach_withdrawal_queue_set (Cawq_queue x) b =
     b\<lparr>b_accounts := (b_accounts b)\<lparr>cawq_queue := Some x\<rparr>\<rparr>"

definition attach_withdrawal_queue_cpi_new ::
  "'i \<Rightarrow> 'i \<times> ('i option attach_withdrawal_queue_client, unit, 'i \<times> bool \<times> bool) builder"
where
  "attach_withdrawal_queue_cpi_new program =
    (program,
     \<lparr>b_accounts = \<lparr>cawq_vault_state = None, cawq_deposit_mint = None, cawq_admin = None, cawq_queue = None\<rparr>,
      b_args = (), b_remaining = []\<rparr>)"

primrec attach_withdrawal_queue_cpi_set ::
  "'i attach_withdrawal_queue_setter \<Rightarrow>
   ('i option attach_withdrawal_queue_client, unit, 'i \<times> bool \<times> bool) builder \<Rightarrow>
   ('i option attach_withdrawal_queue_client, unit, 'i \<times> bool \<times> bool) builder"
where
  "attach_withdrawal_queue_cpi_set (Cawq_vault_state x) b =
     b\<lparr>b_accounts := (b_accounts b)\<lparr>cawq_vault_state := Some x\<rparr>\<rparr>"
| "attach_withdrawal_queue_cpi_set (Cawq_deposit_mint x) b =
     b\<lparr>b_accounts := (b_accounts b)\<lparr>cawq_deposit_mint := Some x\<rparr>\<rparr>"
| "attach_withdrawal_queue_cpi_set (Cawq_admin x) b =
     b\<lparr>b_accounts := (b_accounts b)\<lparr>cawq_admin := Some x\<rparr>\<rparr>"
| "attach_withdrawal_queue_cpi_set (Cawq_queue x) b =
     b\<lparr>b_accounts := (b_accounts b)\<lparr>cawq_queue := Some x\<rparr>\<rparr>"

primrec attach_withdrawal_queue_slot :: "'k attach_withdrawal_queue_setter \<Rightarrow> nat" where
  "attach_withdrawal_queue_slot (Cawq_vault_state x) = 0"
| "attach_withdrawal_queue_slot (Cawq_deposit_mint x) = 1"
| "attach_withdrawal_queue_slot (Cawq_admin x) = 2"
| "attach_withdrawal_queue_slot (Cawq_queue x) = 3"

definition attach_withdrawal_queue_setters :: "'k attach_withdrawal_queue_client \<Rightarrow> 'k attach_withdrawal_queue_setter list" where
  "attach_withdrawal_queue_setters a =
     [Cawq_vault_state (cawq_vault_state a), Cawq_deposit_mint (cawq_deposit_mint a),
      Cawq_admin (cawq_admin a), Cawq_queue (cawq_queue a)]"

definition attach_withdrawal_queue_slots ::
  "('k option attach_withdrawal_queue_client, unit, 'r) builder \<Rightarrow> 'k attach_withdrawal_queue_setter option list"
where
  "attach_withdrawal_queue_slots b =
     [map_option Cawq_vault_state (cawq_vault_state (b_accounts b)),
      map_option Cawq_deposit_mint (cawq_deposit_mint (b_accounts b)),
      map_option Cawq_admin (cawq_admin (b_accounts b)),
      map_option Cawq_queue (cawq_queue (b_accounts b))]"

interpretation attach_withdrawal_queue_fields: field_setters attach_withdrawal_queue_set attach_withdrawal_queue_slot attach_withdrawal_queue_slots b_remaining
proof
  fix s :: "'a attach_withdrawal_queue_setter" and b b' :: "('a option attach_withdrawal_queue_client, unit, 'b) builder"
  show "attach_withdrawal_queue_slots (attach_withdrawal_queue_set s b) = (attach_withdrawal_queue_slots b)[attach_withdrawal_queue_slot s := Some s]" "b_remaining (attach_withdrawal_queue_set s b) = b_remaining b"
    by (cases s; simp add: attach_withdrawal_queue_slots_def)+
  assume "attach_withdrawal_queue_slots b = attach_withdrawal_queue_slots b'" "b_remaining b = b_remaining b'"
  then show "b = b'"
    by (intro builder.equality attach_withdrawal_queue_client.equality)
      (simp_all add: attach_withdrawal_queue_slots_def inj_def)
qed

lemma attach_withdrawal_queue_cpi_set_is: "attach_withdrawal_queue_cpi_set = attach_withdrawal_queue_set"
proof (intro ext)
  fix x :: "'i attach_withdrawal_queue_setter" and b
  show "attach_withdrawal_queue_cpi_set x b = attach_withdrawal_queue_set x b" by (cases x) simp_all
qed

lemma attach_withdrawal_queue_setters_chosen:
  "{..<17} \<subseteq> set order \<Longrightarrow>
   last_write attach_withdrawal_queue_slot (chosen order (attach_withdrawal_queue_setters a)) = last_write attach_withdrawal_queue_slot (attach_withdrawal_queue_setters a)"
  by (rule last_write_chosen) (auto simp: attach_withdrawal_queue_setters_def upt_rec)

lemma attach_withdrawal_queue_built:
  assumes "last_write attach_withdrawal_queue_slot ss = last_write attach_withdrawal_queue_slot (attach_withdrawal_queue_setters a)"
  shows "attach_withdrawal_queue_build (add_remaining_accounts rem (fold attach_withdrawal_queue_set ss attach_withdrawal_queue_new)) =
     Inr (attach_withdrawal_queue_instruction a rem)"
  unfolding attach_withdrawal_queue_fields.last_write_decides [OF assms]
  by (simp add: attach_withdrawal_queue_setters_def attach_withdrawal_queue_new_def attach_withdrawal_queue_build_def add_remaining_accounts_def)

lemma attach_withdrawal_queue_cpi_built:
  assumes "last_write attach_withdrawal_queue_slot ss = last_write attach_withdrawal_queue_slot (attach_withdrawal_queue_setters a)"
  shows "(case attach_withdrawal_queue_cpi_new program of (program, b) \<Rightarrow>
       attach_withdrawal_queue_cpi_build key program (cpi_add_remaining_accounts rem (fold attach_withdrawal_queue_cpi_set ss b)) seeds) =
     Inr (attach_withdrawal_queue_cpi key program a seeds rem)"
  unfolding attach_withdrawal_queue_cpi_new_def prod.case attach_withdrawal_queue_cpi_set_is attach_withdrawal_queue_fields.last_write_decides [OF assms]
  by (simp add: attach_withdrawal_queue_setters_def attach_withdrawal_queue_cpi_build_def cpi_add_remaining_accounts_def)

lemmas attach_withdrawal_queue_chained = attach_withdrawal_queue_built [OF attach_withdrawal_queue_setters_chosen] attach_withdrawal_queue_cpi_built [OF attach_withdrawal_queue_setters_chosen]

section \<open>instructions/detach_withdrawal_queue.rs\<close>

datatype (plugins only: code) (dead 'k) detach_withdrawal_queue_setter =
    Cdwq_vault_state 'k
  | Cdwq_deposit_mint 'k
  | Cdwq_admin 'k
  | Cdwq_queue 'k

definition detach_withdrawal_queue_new :: "(pubkey option detach_withdrawal_queue_client, unit, account_meta) builder" where
  "detach_withdrawal_queue_new =
     \<lparr>b_accounts = \<lparr>cdwq_vault_state = None, cdwq_deposit_mint = None, cdwq_admin = None, cdwq_queue = None\<rparr>,
      b_args = (), b_remaining = []\<rparr>"

primrec detach_withdrawal_queue_set ::
  "'k detach_withdrawal_queue_setter \<Rightarrow>
   ('k option detach_withdrawal_queue_client, unit, 'r) builder \<Rightarrow>
   ('k option detach_withdrawal_queue_client, unit, 'r) builder"
where
  "detach_withdrawal_queue_set (Cdwq_vault_state x) b =
     b\<lparr>b_accounts := (b_accounts b)\<lparr>cdwq_vault_state := Some x\<rparr>\<rparr>"
| "detach_withdrawal_queue_set (Cdwq_deposit_mint x) b =
     b\<lparr>b_accounts := (b_accounts b)\<lparr>cdwq_deposit_mint := Some x\<rparr>\<rparr>"
| "detach_withdrawal_queue_set (Cdwq_admin x) b =
     b\<lparr>b_accounts := (b_accounts b)\<lparr>cdwq_admin := Some x\<rparr>\<rparr>"
| "detach_withdrawal_queue_set (Cdwq_queue x) b =
     b\<lparr>b_accounts := (b_accounts b)\<lparr>cdwq_queue := Some x\<rparr>\<rparr>"

definition detach_withdrawal_queue_cpi_new ::
  "'i \<Rightarrow> 'i \<times> ('i option detach_withdrawal_queue_client, unit, 'i \<times> bool \<times> bool) builder"
where
  "detach_withdrawal_queue_cpi_new program =
    (program,
     \<lparr>b_accounts = \<lparr>cdwq_vault_state = None, cdwq_deposit_mint = None, cdwq_admin = None, cdwq_queue = None\<rparr>,
      b_args = (), b_remaining = []\<rparr>)"

primrec detach_withdrawal_queue_cpi_set ::
  "'i detach_withdrawal_queue_setter \<Rightarrow>
   ('i option detach_withdrawal_queue_client, unit, 'i \<times> bool \<times> bool) builder \<Rightarrow>
   ('i option detach_withdrawal_queue_client, unit, 'i \<times> bool \<times> bool) builder"
where
  "detach_withdrawal_queue_cpi_set (Cdwq_vault_state x) b =
     b\<lparr>b_accounts := (b_accounts b)\<lparr>cdwq_vault_state := Some x\<rparr>\<rparr>"
| "detach_withdrawal_queue_cpi_set (Cdwq_deposit_mint x) b =
     b\<lparr>b_accounts := (b_accounts b)\<lparr>cdwq_deposit_mint := Some x\<rparr>\<rparr>"
| "detach_withdrawal_queue_cpi_set (Cdwq_admin x) b =
     b\<lparr>b_accounts := (b_accounts b)\<lparr>cdwq_admin := Some x\<rparr>\<rparr>"
| "detach_withdrawal_queue_cpi_set (Cdwq_queue x) b =
     b\<lparr>b_accounts := (b_accounts b)\<lparr>cdwq_queue := Some x\<rparr>\<rparr>"

primrec detach_withdrawal_queue_slot :: "'k detach_withdrawal_queue_setter \<Rightarrow> nat" where
  "detach_withdrawal_queue_slot (Cdwq_vault_state x) = 0"
| "detach_withdrawal_queue_slot (Cdwq_deposit_mint x) = 1"
| "detach_withdrawal_queue_slot (Cdwq_admin x) = 2"
| "detach_withdrawal_queue_slot (Cdwq_queue x) = 3"

definition detach_withdrawal_queue_setters :: "'k detach_withdrawal_queue_client \<Rightarrow> 'k detach_withdrawal_queue_setter list" where
  "detach_withdrawal_queue_setters a =
     [Cdwq_vault_state (cdwq_vault_state a), Cdwq_deposit_mint (cdwq_deposit_mint a),
      Cdwq_admin (cdwq_admin a), Cdwq_queue (cdwq_queue a)]"

definition detach_withdrawal_queue_slots ::
  "('k option detach_withdrawal_queue_client, unit, 'r) builder \<Rightarrow> 'k detach_withdrawal_queue_setter option list"
where
  "detach_withdrawal_queue_slots b =
     [map_option Cdwq_vault_state (cdwq_vault_state (b_accounts b)),
      map_option Cdwq_deposit_mint (cdwq_deposit_mint (b_accounts b)),
      map_option Cdwq_admin (cdwq_admin (b_accounts b)),
      map_option Cdwq_queue (cdwq_queue (b_accounts b))]"

interpretation detach_withdrawal_queue_fields: field_setters detach_withdrawal_queue_set detach_withdrawal_queue_slot detach_withdrawal_queue_slots b_remaining
proof
  fix s :: "'a detach_withdrawal_queue_setter" and b b' :: "('a option detach_withdrawal_queue_client, unit, 'b) builder"
  show "detach_withdrawal_queue_slots (detach_withdrawal_queue_set s b) = (detach_withdrawal_queue_slots b)[detach_withdrawal_queue_slot s := Some s]" "b_remaining (detach_withdrawal_queue_set s b) = b_remaining b"
    by (cases s; simp add: detach_withdrawal_queue_slots_def)+
  assume "detach_withdrawal_queue_slots b = detach_withdrawal_queue_slots b'" "b_remaining b = b_remaining b'"
  then show "b = b'"
    by (intro builder.equality detach_withdrawal_queue_client.equality)
      (simp_all add: detach_withdrawal_queue_slots_def inj_def)
qed

lemma detach_withdrawal_queue_cpi_set_is: "detach_withdrawal_queue_cpi_set = detach_withdrawal_queue_set"
proof (intro ext)
  fix x :: "'i detach_withdrawal_queue_setter" and b
  show "detach_withdrawal_queue_cpi_set x b = detach_withdrawal_queue_set x b" by (cases x) simp_all
qed

lemma detach_withdrawal_queue_setters_chosen:
  "{..<17} \<subseteq> set order \<Longrightarrow>
   last_write detach_withdrawal_queue_slot (chosen order (detach_withdrawal_queue_setters a)) = last_write detach_withdrawal_queue_slot (detach_withdrawal_queue_setters a)"
  by (rule last_write_chosen) (auto simp: detach_withdrawal_queue_setters_def upt_rec)

lemma detach_withdrawal_queue_built:
  assumes "last_write detach_withdrawal_queue_slot ss = last_write detach_withdrawal_queue_slot (detach_withdrawal_queue_setters a)"
  shows "detach_withdrawal_queue_build (add_remaining_accounts rem (fold detach_withdrawal_queue_set ss detach_withdrawal_queue_new)) =
     Inr (detach_withdrawal_queue_instruction a rem)"
  unfolding detach_withdrawal_queue_fields.last_write_decides [OF assms]
  by (simp add: detach_withdrawal_queue_setters_def detach_withdrawal_queue_new_def detach_withdrawal_queue_build_def add_remaining_accounts_def)

lemma detach_withdrawal_queue_cpi_built:
  assumes "last_write detach_withdrawal_queue_slot ss = last_write detach_withdrawal_queue_slot (detach_withdrawal_queue_setters a)"
  shows "(case detach_withdrawal_queue_cpi_new program of (program, b) \<Rightarrow>
       detach_withdrawal_queue_cpi_build key program (cpi_add_remaining_accounts rem (fold detach_withdrawal_queue_cpi_set ss b)) seeds) =
     Inr (detach_withdrawal_queue_cpi key program a seeds rem)"
  unfolding detach_withdrawal_queue_cpi_new_def prod.case detach_withdrawal_queue_cpi_set_is detach_withdrawal_queue_fields.last_write_decides [OF assms]
  by (simp add: detach_withdrawal_queue_setters_def detach_withdrawal_queue_cpi_build_def cpi_add_remaining_accounts_def)

lemmas detach_withdrawal_queue_chained = detach_withdrawal_queue_built [OF detach_withdrawal_queue_setters_chosen] detach_withdrawal_queue_cpi_built [OF detach_withdrawal_queue_setters_chosen]

section \<open>instructions/close_vault.rs\<close>

datatype (plugins only: code) (dead 'k) close_vault_setter =
    Cclv_vault_state 'k
  | Cclv_share_mint 'k
  | Cclv_vault_token_ata 'k
  | Cclv_deposit_mint 'k
  | Cclv_admin 'k
  | Cclv_token_program 'k

definition close_vault_new :: "(pubkey option close_vault_client, unit, account_meta) builder" where
  "close_vault_new =
     \<lparr>b_accounts = \<lparr>cclv_vault_state = None, cclv_share_mint = None, cclv_vault_token_ata = None,
        cclv_deposit_mint = None, cclv_admin = None, cclv_token_program = None\<rparr>,
      b_args = (), b_remaining = []\<rparr>"

primrec close_vault_set ::
  "'k close_vault_setter \<Rightarrow>
   ('k option close_vault_client, unit, 'r) builder \<Rightarrow>
   ('k option close_vault_client, unit, 'r) builder"
where
  "close_vault_set (Cclv_vault_state x) b =
     b\<lparr>b_accounts := (b_accounts b)\<lparr>cclv_vault_state := Some x\<rparr>\<rparr>"
| "close_vault_set (Cclv_share_mint x) b =
     b\<lparr>b_accounts := (b_accounts b)\<lparr>cclv_share_mint := Some x\<rparr>\<rparr>"
| "close_vault_set (Cclv_vault_token_ata x) b =
     b\<lparr>b_accounts := (b_accounts b)\<lparr>cclv_vault_token_ata := Some x\<rparr>\<rparr>"
| "close_vault_set (Cclv_deposit_mint x) b =
     b\<lparr>b_accounts := (b_accounts b)\<lparr>cclv_deposit_mint := Some x\<rparr>\<rparr>"
| "close_vault_set (Cclv_admin x) b =
     b\<lparr>b_accounts := (b_accounts b)\<lparr>cclv_admin := Some x\<rparr>\<rparr>"
| "close_vault_set (Cclv_token_program x) b =
     b\<lparr>b_accounts := (b_accounts b)\<lparr>cclv_token_program := Some x\<rparr>\<rparr>"

definition close_vault_cpi_new ::
  "'i \<Rightarrow> 'i \<times> ('i option close_vault_client, unit, 'i \<times> bool \<times> bool) builder"
where
  "close_vault_cpi_new program =
    (program,
     \<lparr>b_accounts = \<lparr>cclv_vault_state = None, cclv_share_mint = None, cclv_vault_token_ata = None,
        cclv_deposit_mint = None, cclv_admin = None, cclv_token_program = None\<rparr>,
      b_args = (), b_remaining = []\<rparr>)"

primrec close_vault_cpi_set ::
  "'i close_vault_setter \<Rightarrow>
   ('i option close_vault_client, unit, 'i \<times> bool \<times> bool) builder \<Rightarrow>
   ('i option close_vault_client, unit, 'i \<times> bool \<times> bool) builder"
where
  "close_vault_cpi_set (Cclv_vault_state x) b =
     b\<lparr>b_accounts := (b_accounts b)\<lparr>cclv_vault_state := Some x\<rparr>\<rparr>"
| "close_vault_cpi_set (Cclv_share_mint x) b =
     b\<lparr>b_accounts := (b_accounts b)\<lparr>cclv_share_mint := Some x\<rparr>\<rparr>"
| "close_vault_cpi_set (Cclv_vault_token_ata x) b =
     b\<lparr>b_accounts := (b_accounts b)\<lparr>cclv_vault_token_ata := Some x\<rparr>\<rparr>"
| "close_vault_cpi_set (Cclv_deposit_mint x) b =
     b\<lparr>b_accounts := (b_accounts b)\<lparr>cclv_deposit_mint := Some x\<rparr>\<rparr>"
| "close_vault_cpi_set (Cclv_admin x) b =
     b\<lparr>b_accounts := (b_accounts b)\<lparr>cclv_admin := Some x\<rparr>\<rparr>"
| "close_vault_cpi_set (Cclv_token_program x) b =
     b\<lparr>b_accounts := (b_accounts b)\<lparr>cclv_token_program := Some x\<rparr>\<rparr>"

primrec close_vault_slot :: "'k close_vault_setter \<Rightarrow> nat" where
  "close_vault_slot (Cclv_vault_state x) = 0"
| "close_vault_slot (Cclv_share_mint x) = 1"
| "close_vault_slot (Cclv_vault_token_ata x) = 2"
| "close_vault_slot (Cclv_deposit_mint x) = 3"
| "close_vault_slot (Cclv_admin x) = 4"
| "close_vault_slot (Cclv_token_program x) = 5"

definition close_vault_setters :: "'k close_vault_client \<Rightarrow> 'k close_vault_setter list" where
  "close_vault_setters a =
     [Cclv_vault_state (cclv_vault_state a), Cclv_share_mint (cclv_share_mint a),
      Cclv_vault_token_ata (cclv_vault_token_ata a), Cclv_deposit_mint (cclv_deposit_mint a),
      Cclv_admin (cclv_admin a), Cclv_token_program (cclv_token_program a)]"

definition close_vault_slots ::
  "('k option close_vault_client, unit, 'r) builder \<Rightarrow> 'k close_vault_setter option list"
where
  "close_vault_slots b =
     [map_option Cclv_vault_state (cclv_vault_state (b_accounts b)),
      map_option Cclv_share_mint (cclv_share_mint (b_accounts b)),
      map_option Cclv_vault_token_ata (cclv_vault_token_ata (b_accounts b)),
      map_option Cclv_deposit_mint (cclv_deposit_mint (b_accounts b)),
      map_option Cclv_admin (cclv_admin (b_accounts b)),
      map_option Cclv_token_program (cclv_token_program (b_accounts b))]"

interpretation close_vault_fields: field_setters close_vault_set close_vault_slot close_vault_slots b_remaining
proof
  fix s :: "'a close_vault_setter" and b b' :: "('a option close_vault_client, unit, 'b) builder"
  show "close_vault_slots (close_vault_set s b) = (close_vault_slots b)[close_vault_slot s := Some s]" "b_remaining (close_vault_set s b) = b_remaining b"
    by (cases s; simp add: close_vault_slots_def)+
  assume "close_vault_slots b = close_vault_slots b'" "b_remaining b = b_remaining b'"
  then show "b = b'"
    by (intro builder.equality close_vault_client.equality)
      (simp_all add: close_vault_slots_def inj_def)
qed

lemma close_vault_cpi_set_is: "close_vault_cpi_set = close_vault_set"
proof (intro ext)
  fix x :: "'i close_vault_setter" and b
  show "close_vault_cpi_set x b = close_vault_set x b" by (cases x) simp_all
qed

lemma close_vault_setters_chosen:
  "{..<17} \<subseteq> set order \<Longrightarrow>
   last_write close_vault_slot (chosen order (close_vault_setters a)) = last_write close_vault_slot (close_vault_setters a)"
  by (rule last_write_chosen) (auto simp: close_vault_setters_def upt_rec)

lemma close_vault_built:
  assumes "last_write close_vault_slot ss = last_write close_vault_slot (close_vault_setters a)"
  shows "close_vault_build (add_remaining_accounts rem (fold close_vault_set ss close_vault_new)) =
     Inr (close_vault_instruction a rem)"
  unfolding close_vault_fields.last_write_decides [OF assms]
  by (simp add: close_vault_setters_def close_vault_new_def close_vault_build_def add_remaining_accounts_def)

lemma close_vault_cpi_built:
  assumes "last_write close_vault_slot ss = last_write close_vault_slot (close_vault_setters a)"
  shows "(case close_vault_cpi_new program of (program, b) \<Rightarrow>
       close_vault_cpi_build key program (cpi_add_remaining_accounts rem (fold close_vault_cpi_set ss b)) seeds) =
     Inr (close_vault_cpi key program a seeds rem)"
  unfolding close_vault_cpi_new_def prod.case close_vault_cpi_set_is close_vault_fields.last_write_decides [OF assms]
  by (simp add: close_vault_setters_def close_vault_cpi_build_def cpi_add_remaining_accounts_def)

lemmas close_vault_chained = close_vault_built [OF close_vault_setters_chosen] close_vault_cpi_built [OF close_vault_setters_chosen]

end
