(* ===== verification/SettersSetup.thy ===== *)
theory SettersSetup
  imports Setters ClientSetup
begin

text \<open>
  The builders of the vault client's config, creation and share-token metadata, from \<open>new\<close> through their
  setters (\<open>src/generated/instructions\<close>). \<open>x_set\<close> is the builder's setter of each field and
  \<open>x_cpi_set\<close> the CPI builder's. Both meet \<open>field_setters\<close>; so a builder whose fields were all
  set, in any order, makes the instruction of the values last given.
\<close>

section \<open>instructions/initialize_config.rs\<close>

datatype (plugins only: code) (dead 'k) initialize_config_setter =
    Cinc_upgrade_authority 'k
  | Cinc_program_data 'k
  | Cinc_payer 'k
  | Cinc_program_config 'k
  | Cinc_system_program 'k
  | Cinc_authority pubkey

definition initialize_config_new :: "(pubkey option initialize_config_client, pubkey option, account_meta) builder" where
  "initialize_config_new =
     \<lparr>b_accounts = \<lparr>cinc_upgrade_authority = None, cinc_program_data = None, cinc_payer = None,
        cinc_program_config = None, cinc_system_program = None\<rparr>,
      b_args = None, b_remaining = []\<rparr>"

primrec initialize_config_set ::
  "'k initialize_config_setter \<Rightarrow>
   ('k option initialize_config_client, pubkey option, 'r) builder \<Rightarrow>
   ('k option initialize_config_client, pubkey option, 'r) builder"
where
  "initialize_config_set (Cinc_upgrade_authority x) b =
     b\<lparr>b_accounts := (b_accounts b)\<lparr>cinc_upgrade_authority := Some x\<rparr>\<rparr>"
| "initialize_config_set (Cinc_program_data x) b =
     b\<lparr>b_accounts := (b_accounts b)\<lparr>cinc_program_data := Some x\<rparr>\<rparr>"
| "initialize_config_set (Cinc_payer x) b =
     b\<lparr>b_accounts := (b_accounts b)\<lparr>cinc_payer := Some x\<rparr>\<rparr>"
| "initialize_config_set (Cinc_program_config x) b =
     b\<lparr>b_accounts := (b_accounts b)\<lparr>cinc_program_config := Some x\<rparr>\<rparr>"
| "initialize_config_set (Cinc_system_program x) b =
     b\<lparr>b_accounts := (b_accounts b)\<lparr>cinc_system_program := Some x\<rparr>\<rparr>"
| "initialize_config_set (Cinc_authority x) b = b\<lparr>b_args := Some x\<rparr>"

definition initialize_config_cpi_new ::
  "'i \<Rightarrow> 'i \<times> ('i option initialize_config_client, pubkey option, 'i \<times> bool \<times> bool) builder"
where
  "initialize_config_cpi_new program =
    (program,
     \<lparr>b_accounts = \<lparr>cinc_upgrade_authority = None, cinc_program_data = None, cinc_payer = None,
        cinc_program_config = None, cinc_system_program = None\<rparr>,
      b_args = None, b_remaining = []\<rparr>)"

primrec initialize_config_cpi_set ::
  "'i initialize_config_setter \<Rightarrow>
   ('i option initialize_config_client, pubkey option, 'i \<times> bool \<times> bool) builder \<Rightarrow>
   ('i option initialize_config_client, pubkey option, 'i \<times> bool \<times> bool) builder"
where
  "initialize_config_cpi_set (Cinc_upgrade_authority x) b =
     b\<lparr>b_accounts := (b_accounts b)\<lparr>cinc_upgrade_authority := Some x\<rparr>\<rparr>"
| "initialize_config_cpi_set (Cinc_program_data x) b =
     b\<lparr>b_accounts := (b_accounts b)\<lparr>cinc_program_data := Some x\<rparr>\<rparr>"
| "initialize_config_cpi_set (Cinc_payer x) b =
     b\<lparr>b_accounts := (b_accounts b)\<lparr>cinc_payer := Some x\<rparr>\<rparr>"
| "initialize_config_cpi_set (Cinc_program_config x) b =
     b\<lparr>b_accounts := (b_accounts b)\<lparr>cinc_program_config := Some x\<rparr>\<rparr>"
| "initialize_config_cpi_set (Cinc_system_program x) b =
     b\<lparr>b_accounts := (b_accounts b)\<lparr>cinc_system_program := Some x\<rparr>\<rparr>"
| "initialize_config_cpi_set (Cinc_authority x) b = b\<lparr>b_args := Some x\<rparr>"

primrec initialize_config_slot :: "'k initialize_config_setter \<Rightarrow> nat" where
  "initialize_config_slot (Cinc_upgrade_authority x) = 0"
| "initialize_config_slot (Cinc_program_data x) = 1"
| "initialize_config_slot (Cinc_payer x) = 2"
| "initialize_config_slot (Cinc_program_config x) = 3"
| "initialize_config_slot (Cinc_system_program x) = 4"
| "initialize_config_slot (Cinc_authority x) = 5"

definition initialize_config_setters :: "'k initialize_config_client \<Rightarrow> pubkey \<Rightarrow> 'k initialize_config_setter list" where
  "initialize_config_setters a authority =
     [Cinc_upgrade_authority (cinc_upgrade_authority a), Cinc_program_data (cinc_program_data a),
      Cinc_payer (cinc_payer a), Cinc_program_config (cinc_program_config a),
      Cinc_system_program (cinc_system_program a), Cinc_authority authority]"

definition initialize_config_slots ::
  "('k option initialize_config_client, pubkey option, 'r) builder \<Rightarrow> 'k initialize_config_setter option list"
where
  "initialize_config_slots b =
     [map_option Cinc_upgrade_authority (cinc_upgrade_authority (b_accounts b)),
      map_option Cinc_program_data (cinc_program_data (b_accounts b)),
      map_option Cinc_payer (cinc_payer (b_accounts b)),
      map_option Cinc_program_config (cinc_program_config (b_accounts b)),
      map_option Cinc_system_program (cinc_system_program (b_accounts b)),
      map_option Cinc_authority (b_args b)]"

interpretation initialize_config_fields: field_setters initialize_config_set initialize_config_slot initialize_config_slots b_remaining
proof
  fix s :: "'a initialize_config_setter" and b b' :: "('a option initialize_config_client, pubkey option, 'b) builder"
  show "initialize_config_slots (initialize_config_set s b) = (initialize_config_slots b)[initialize_config_slot s := Some s]" "b_remaining (initialize_config_set s b) = b_remaining b"
    by (cases s; simp add: initialize_config_slots_def)+
  assume "initialize_config_slots b = initialize_config_slots b'" "b_remaining b = b_remaining b'"
  then show "b = b'"
    by (intro builder.equality initialize_config_client.equality)
      (simp_all add: initialize_config_slots_def inj_def)
qed

lemma initialize_config_cpi_set_is: "initialize_config_cpi_set = initialize_config_set"
proof (intro ext)
  fix x :: "'i initialize_config_setter" and b
  show "initialize_config_cpi_set x b = initialize_config_set x b" by (cases x) simp_all
qed

lemma initialize_config_setters_chosen:
  "{..<17} \<subseteq> set order \<Longrightarrow>
   last_write initialize_config_slot (chosen order (initialize_config_setters a authority)) = last_write initialize_config_slot (initialize_config_setters a authority)"
  by (rule last_write_chosen) (auto simp: initialize_config_setters_def upt_rec)

lemma initialize_config_built:
  assumes "last_write initialize_config_slot ss = last_write initialize_config_slot (initialize_config_setters a authority)"
  shows "initialize_config_build (add_remaining_accounts rem (fold initialize_config_set ss initialize_config_new)) =
     Inr (initialize_config_instruction a authority rem)"
  unfolding initialize_config_fields.last_write_decides [OF assms]
  by (simp add: initialize_config_setters_def initialize_config_new_def initialize_config_build_def add_remaining_accounts_def)

lemma initialize_config_cpi_built:
  assumes "last_write initialize_config_slot ss = last_write initialize_config_slot (initialize_config_setters a authority)"
  shows "(case initialize_config_cpi_new program of (program, b) \<Rightarrow>
       initialize_config_cpi_build key program (cpi_add_remaining_accounts rem (fold initialize_config_cpi_set ss b)) seeds) =
     Inr (initialize_config_cpi key program a authority seeds rem)"
  unfolding initialize_config_cpi_new_def prod.case initialize_config_cpi_set_is initialize_config_fields.last_write_decides [OF assms]
  by (simp add: initialize_config_setters_def initialize_config_cpi_build_def cpi_add_remaining_accounts_def)

lemmas initialize_config_chained = initialize_config_built [OF initialize_config_setters_chosen] initialize_config_cpi_built [OF initialize_config_setters_chosen]

section \<open>instructions/set_config_authority.rs\<close>

datatype (plugins only: code) (dead 'k) set_config_authority_setter =
    Csca_program_config 'k
  | Csca_authority 'k
  | Csca_new_authority pubkey

definition set_config_authority_new :: "(pubkey option set_config_authority_client, pubkey option, account_meta) builder" where
  "set_config_authority_new =
     \<lparr>b_accounts = \<lparr>csca_program_config = None, csca_authority = None\<rparr>,
      b_args = None, b_remaining = []\<rparr>"

primrec set_config_authority_set ::
  "'k set_config_authority_setter \<Rightarrow>
   ('k option set_config_authority_client, pubkey option, 'r) builder \<Rightarrow>
   ('k option set_config_authority_client, pubkey option, 'r) builder"
where
  "set_config_authority_set (Csca_program_config x) b =
     b\<lparr>b_accounts := (b_accounts b)\<lparr>csca_program_config := Some x\<rparr>\<rparr>"
| "set_config_authority_set (Csca_authority x) b =
     b\<lparr>b_accounts := (b_accounts b)\<lparr>csca_authority := Some x\<rparr>\<rparr>"
| "set_config_authority_set (Csca_new_authority x) b = b\<lparr>b_args := Some x\<rparr>"

definition set_config_authority_cpi_new ::
  "'i \<Rightarrow> 'i \<times> ('i option set_config_authority_client, pubkey option, 'i \<times> bool \<times> bool) builder"
where
  "set_config_authority_cpi_new program =
    (program,
     \<lparr>b_accounts = \<lparr>csca_program_config = None, csca_authority = None\<rparr>,
      b_args = None, b_remaining = []\<rparr>)"

primrec set_config_authority_cpi_set ::
  "'i set_config_authority_setter \<Rightarrow>
   ('i option set_config_authority_client, pubkey option, 'i \<times> bool \<times> bool) builder \<Rightarrow>
   ('i option set_config_authority_client, pubkey option, 'i \<times> bool \<times> bool) builder"
where
  "set_config_authority_cpi_set (Csca_program_config x) b =
     b\<lparr>b_accounts := (b_accounts b)\<lparr>csca_program_config := Some x\<rparr>\<rparr>"
| "set_config_authority_cpi_set (Csca_authority x) b =
     b\<lparr>b_accounts := (b_accounts b)\<lparr>csca_authority := Some x\<rparr>\<rparr>"
| "set_config_authority_cpi_set (Csca_new_authority x) b = b\<lparr>b_args := Some x\<rparr>"

primrec set_config_authority_slot :: "'k set_config_authority_setter \<Rightarrow> nat" where
  "set_config_authority_slot (Csca_program_config x) = 0"
| "set_config_authority_slot (Csca_authority x) = 1"
| "set_config_authority_slot (Csca_new_authority x) = 2"

definition set_config_authority_setters :: "'k set_config_authority_client \<Rightarrow> pubkey \<Rightarrow> 'k set_config_authority_setter list" where
  "set_config_authority_setters a new_authority =
     [Csca_program_config (csca_program_config a), Csca_authority (csca_authority a),
      Csca_new_authority new_authority]"

definition set_config_authority_slots ::
  "('k option set_config_authority_client, pubkey option, 'r) builder \<Rightarrow> 'k set_config_authority_setter option list"
where
  "set_config_authority_slots b =
     [map_option Csca_program_config (csca_program_config (b_accounts b)),
      map_option Csca_authority (csca_authority (b_accounts b)),
      map_option Csca_new_authority (b_args b)]"

interpretation set_config_authority_fields: field_setters set_config_authority_set set_config_authority_slot set_config_authority_slots b_remaining
proof
  fix s :: "'a set_config_authority_setter" and b b' :: "('a option set_config_authority_client, pubkey option, 'b) builder"
  show "set_config_authority_slots (set_config_authority_set s b) = (set_config_authority_slots b)[set_config_authority_slot s := Some s]" "b_remaining (set_config_authority_set s b) = b_remaining b"
    by (cases s; simp add: set_config_authority_slots_def)+
  assume "set_config_authority_slots b = set_config_authority_slots b'" "b_remaining b = b_remaining b'"
  then show "b = b'"
    by (intro builder.equality set_config_authority_client.equality)
      (simp_all add: set_config_authority_slots_def inj_def)
qed

lemma set_config_authority_cpi_set_is: "set_config_authority_cpi_set = set_config_authority_set"
proof (intro ext)
  fix x :: "'i set_config_authority_setter" and b
  show "set_config_authority_cpi_set x b = set_config_authority_set x b" by (cases x) simp_all
qed

lemma set_config_authority_setters_chosen:
  "{..<17} \<subseteq> set order \<Longrightarrow>
   last_write set_config_authority_slot (chosen order (set_config_authority_setters a new_authority)) = last_write set_config_authority_slot (set_config_authority_setters a new_authority)"
  by (rule last_write_chosen) (auto simp: set_config_authority_setters_def upt_rec)

lemma set_config_authority_built:
  assumes "last_write set_config_authority_slot ss = last_write set_config_authority_slot (set_config_authority_setters a new_authority)"
  shows "set_config_authority_build (add_remaining_accounts rem (fold set_config_authority_set ss set_config_authority_new)) =
     Inr (set_config_authority_instruction a new_authority rem)"
  unfolding set_config_authority_fields.last_write_decides [OF assms]
  by (simp add: set_config_authority_setters_def set_config_authority_new_def set_config_authority_build_def add_remaining_accounts_def)

lemma set_config_authority_cpi_built:
  assumes "last_write set_config_authority_slot ss = last_write set_config_authority_slot (set_config_authority_setters a new_authority)"
  shows "(case set_config_authority_cpi_new program of (program, b) \<Rightarrow>
       set_config_authority_cpi_build key program (cpi_add_remaining_accounts rem (fold set_config_authority_cpi_set ss b)) seeds) =
     Inr (set_config_authority_cpi key program a new_authority seeds rem)"
  unfolding set_config_authority_cpi_new_def prod.case set_config_authority_cpi_set_is set_config_authority_fields.last_write_decides [OF assms]
  by (simp add: set_config_authority_setters_def set_config_authority_cpi_build_def cpi_add_remaining_accounts_def)

lemmas set_config_authority_chained = set_config_authority_built [OF set_config_authority_setters_chosen] set_config_authority_cpi_built [OF set_config_authority_setters_chosen]

section \<open>instructions/override_config_authority.rs\<close>

datatype (plugins only: code) (dead 'k) override_config_authority_setter =
    Covc_program_config 'k
  | Covc_upgrade_authority 'k
  | Covc_program_data 'k
  | Covc_new_authority pubkey

definition override_config_authority_new :: "(pubkey option override_config_authority_client, pubkey option, account_meta) builder" where
  "override_config_authority_new =
     \<lparr>b_accounts = \<lparr>covc_program_config = None, covc_upgrade_authority = None, covc_program_data = None\<rparr>,
      b_args = None, b_remaining = []\<rparr>"

primrec override_config_authority_set ::
  "'k override_config_authority_setter \<Rightarrow>
   ('k option override_config_authority_client, pubkey option, 'r) builder \<Rightarrow>
   ('k option override_config_authority_client, pubkey option, 'r) builder"
where
  "override_config_authority_set (Covc_program_config x) b =
     b\<lparr>b_accounts := (b_accounts b)\<lparr>covc_program_config := Some x\<rparr>\<rparr>"
| "override_config_authority_set (Covc_upgrade_authority x) b =
     b\<lparr>b_accounts := (b_accounts b)\<lparr>covc_upgrade_authority := Some x\<rparr>\<rparr>"
| "override_config_authority_set (Covc_program_data x) b =
     b\<lparr>b_accounts := (b_accounts b)\<lparr>covc_program_data := Some x\<rparr>\<rparr>"
| "override_config_authority_set (Covc_new_authority x) b = b\<lparr>b_args := Some x\<rparr>"

definition override_config_authority_cpi_new ::
  "'i \<Rightarrow> 'i \<times> ('i option override_config_authority_client, pubkey option, 'i \<times> bool \<times> bool) builder"
where
  "override_config_authority_cpi_new program =
    (program,
     \<lparr>b_accounts = \<lparr>covc_program_config = None, covc_upgrade_authority = None, covc_program_data = None\<rparr>,
      b_args = None, b_remaining = []\<rparr>)"

primrec override_config_authority_cpi_set ::
  "'i override_config_authority_setter \<Rightarrow>
   ('i option override_config_authority_client, pubkey option, 'i \<times> bool \<times> bool) builder \<Rightarrow>
   ('i option override_config_authority_client, pubkey option, 'i \<times> bool \<times> bool) builder"
where
  "override_config_authority_cpi_set (Covc_program_config x) b =
     b\<lparr>b_accounts := (b_accounts b)\<lparr>covc_program_config := Some x\<rparr>\<rparr>"
| "override_config_authority_cpi_set (Covc_upgrade_authority x) b =
     b\<lparr>b_accounts := (b_accounts b)\<lparr>covc_upgrade_authority := Some x\<rparr>\<rparr>"
| "override_config_authority_cpi_set (Covc_program_data x) b =
     b\<lparr>b_accounts := (b_accounts b)\<lparr>covc_program_data := Some x\<rparr>\<rparr>"
| "override_config_authority_cpi_set (Covc_new_authority x) b =
     b\<lparr>b_args := Some x\<rparr>"

primrec override_config_authority_slot :: "'k override_config_authority_setter \<Rightarrow> nat" where
  "override_config_authority_slot (Covc_program_config x) = 0"
| "override_config_authority_slot (Covc_upgrade_authority x) = 1"
| "override_config_authority_slot (Covc_program_data x) = 2"
| "override_config_authority_slot (Covc_new_authority x) = 3"

definition override_config_authority_setters :: "'k override_config_authority_client \<Rightarrow> pubkey \<Rightarrow> 'k override_config_authority_setter list" where
  "override_config_authority_setters a new_authority =
     [Covc_program_config (covc_program_config a),
      Covc_upgrade_authority (covc_upgrade_authority a), Covc_program_data (covc_program_data a),
      Covc_new_authority new_authority]"

definition override_config_authority_slots ::
  "('k option override_config_authority_client, pubkey option, 'r) builder \<Rightarrow> 'k override_config_authority_setter option list"
where
  "override_config_authority_slots b =
     [map_option Covc_program_config (covc_program_config (b_accounts b)),
      map_option Covc_upgrade_authority (covc_upgrade_authority (b_accounts b)),
      map_option Covc_program_data (covc_program_data (b_accounts b)),
      map_option Covc_new_authority (b_args b)]"

interpretation override_config_authority_fields: field_setters override_config_authority_set override_config_authority_slot override_config_authority_slots b_remaining
proof
  fix s :: "'a override_config_authority_setter" and b b' :: "('a option override_config_authority_client, pubkey option, 'b) builder"
  show "override_config_authority_slots (override_config_authority_set s b) = (override_config_authority_slots b)[override_config_authority_slot s := Some s]" "b_remaining (override_config_authority_set s b) = b_remaining b"
    by (cases s; simp add: override_config_authority_slots_def)+
  assume "override_config_authority_slots b = override_config_authority_slots b'" "b_remaining b = b_remaining b'"
  then show "b = b'"
    by (intro builder.equality override_config_authority_client.equality)
      (simp_all add: override_config_authority_slots_def inj_def)
qed

lemma override_config_authority_cpi_set_is: "override_config_authority_cpi_set = override_config_authority_set"
proof (intro ext)
  fix x :: "'i override_config_authority_setter" and b
  show "override_config_authority_cpi_set x b = override_config_authority_set x b" by (cases x) simp_all
qed

lemma override_config_authority_setters_chosen:
  "{..<17} \<subseteq> set order \<Longrightarrow>
   last_write override_config_authority_slot (chosen order (override_config_authority_setters a new_authority)) = last_write override_config_authority_slot (override_config_authority_setters a new_authority)"
  by (rule last_write_chosen) (auto simp: override_config_authority_setters_def upt_rec)

lemma override_config_authority_built:
  assumes "last_write override_config_authority_slot ss = last_write override_config_authority_slot (override_config_authority_setters a new_authority)"
  shows "override_config_authority_build (add_remaining_accounts rem (fold override_config_authority_set ss override_config_authority_new)) =
     Inr (override_config_authority_instruction a new_authority rem)"
  unfolding override_config_authority_fields.last_write_decides [OF assms]
  by (simp add: override_config_authority_setters_def override_config_authority_new_def override_config_authority_build_def add_remaining_accounts_def)

lemma override_config_authority_cpi_built:
  assumes "last_write override_config_authority_slot ss = last_write override_config_authority_slot (override_config_authority_setters a new_authority)"
  shows "(case override_config_authority_cpi_new program of (program, b) \<Rightarrow>
       override_config_authority_cpi_build key program (cpi_add_remaining_accounts rem (fold override_config_authority_cpi_set ss b)) seeds) =
     Inr (override_config_authority_cpi key program a new_authority seeds rem)"
  unfolding override_config_authority_cpi_new_def prod.case override_config_authority_cpi_set_is override_config_authority_fields.last_write_decides [OF assms]
  by (simp add: override_config_authority_setters_def override_config_authority_cpi_build_def cpi_add_remaining_accounts_def)

lemmas override_config_authority_chained = override_config_authority_built [OF override_config_authority_setters_chosen] override_config_authority_cpi_built [OF override_config_authority_setters_chosen]

section \<open>instructions/initialize.rs\<close>

datatype (plugins only: code) (dead 'k) initialize_setter =
    Cinv_program_config 'k
  | Cinv_signer 'k
  | Cinv_payer 'k
  | Cinv_deposit_mint 'k
  | Cinv_vault_state 'k
  | Cinv_share_mint 'k
  | Cinv_vault_token_ata 'k
  | Cinv_system_program 'k
  | Cinv_token_program 'k
  | Cinv_rent 'k
  | Cinv_admin pubkey
  | Cinv_operator pubkey
  | Cinv_fee_recipient pubkey
  | Cinv_vault_version u8
  | Cinv_offset u64

definition initialize_new :: "(pubkey option initialize_client, pubkey option \<times> pubkey option \<times> pubkey option \<times> u8 option \<times> u64 option, account_meta) builder" where
  "initialize_new =
     \<lparr>b_accounts = \<lparr>cinv_program_config = None, cinv_signer = None, cinv_payer = None,
        cinv_deposit_mint = None, cinv_vault_state = None, cinv_share_mint = None,
        cinv_vault_token_ata = None, cinv_system_program = None, cinv_token_program = None,
        cinv_rent = None\<rparr>,
      b_args = (None, None, None, None, None), b_remaining = []\<rparr>"

primrec initialize_set ::
  "'k initialize_setter \<Rightarrow>
   ('k option initialize_client, pubkey option \<times> pubkey option \<times> pubkey option \<times> u8 option \<times> u64 option, 'r) builder \<Rightarrow>
   ('k option initialize_client, pubkey option \<times> pubkey option \<times> pubkey option \<times> u8 option \<times> u64 option, 'r) builder"
where
  "initialize_set (Cinv_program_config x) b =
     b\<lparr>b_accounts := (b_accounts b)\<lparr>cinv_program_config := Some x\<rparr>\<rparr>"
| "initialize_set (Cinv_signer x) b =
     b\<lparr>b_accounts := (b_accounts b)\<lparr>cinv_signer := Some x\<rparr>\<rparr>"
| "initialize_set (Cinv_payer x) b =
     b\<lparr>b_accounts := (b_accounts b)\<lparr>cinv_payer := Some x\<rparr>\<rparr>"
| "initialize_set (Cinv_deposit_mint x) b =
     b\<lparr>b_accounts := (b_accounts b)\<lparr>cinv_deposit_mint := Some x\<rparr>\<rparr>"
| "initialize_set (Cinv_vault_state x) b =
     b\<lparr>b_accounts := (b_accounts b)\<lparr>cinv_vault_state := Some x\<rparr>\<rparr>"
| "initialize_set (Cinv_share_mint x) b =
     b\<lparr>b_accounts := (b_accounts b)\<lparr>cinv_share_mint := Some x\<rparr>\<rparr>"
| "initialize_set (Cinv_vault_token_ata x) b =
     b\<lparr>b_accounts := (b_accounts b)\<lparr>cinv_vault_token_ata := Some x\<rparr>\<rparr>"
| "initialize_set (Cinv_system_program x) b =
     b\<lparr>b_accounts := (b_accounts b)\<lparr>cinv_system_program := Some x\<rparr>\<rparr>"
| "initialize_set (Cinv_token_program x) b =
     b\<lparr>b_accounts := (b_accounts b)\<lparr>cinv_token_program := Some x\<rparr>\<rparr>"
| "initialize_set (Cinv_rent x) b =
     b\<lparr>b_accounts := (b_accounts b)\<lparr>cinv_rent := Some x\<rparr>\<rparr>"
| "initialize_set (Cinv_admin x) b =
     b\<lparr>b_args := (case b_args b of (_, p1, p2, p3, p4) \<Rightarrow> (Some x, p1, p2, p3, p4))\<rparr>"
| "initialize_set (Cinv_operator x) b =
     b\<lparr>b_args := (case b_args b of (p0, _, p2, p3, p4) \<Rightarrow> (p0, Some x, p2, p3, p4))\<rparr>"
| "initialize_set (Cinv_fee_recipient x) b =
     b\<lparr>b_args := (case b_args b of (p0, p1, _, p3, p4) \<Rightarrow> (p0, p1, Some x, p3, p4))\<rparr>"
| "initialize_set (Cinv_vault_version x) b =
     b\<lparr>b_args := (case b_args b of (p0, p1, p2, _, p4) \<Rightarrow> (p0, p1, p2, Some x, p4))\<rparr>"
| "initialize_set (Cinv_offset x) b =
     b\<lparr>b_args := (case b_args b of (p0, p1, p2, p3, _) \<Rightarrow> (p0, p1, p2, p3, Some x))\<rparr>"

definition initialize_cpi_new ::
  "'i \<Rightarrow> 'i \<times> ('i option initialize_client, pubkey option \<times> pubkey option \<times> pubkey option \<times> u8 option \<times> u64 option, 'i \<times> bool \<times> bool) builder"
where
  "initialize_cpi_new program =
    (program,
     \<lparr>b_accounts = \<lparr>cinv_program_config = None, cinv_signer = None, cinv_payer = None,
        cinv_deposit_mint = None, cinv_vault_state = None, cinv_share_mint = None,
        cinv_vault_token_ata = None, cinv_system_program = None, cinv_token_program = None,
        cinv_rent = None\<rparr>,
      b_args = (None, None, None, None, None), b_remaining = []\<rparr>)"

primrec initialize_cpi_set ::
  "'i initialize_setter \<Rightarrow>
   ('i option initialize_client, pubkey option \<times> pubkey option \<times> pubkey option \<times> u8 option \<times> u64 option, 'i \<times> bool \<times> bool) builder \<Rightarrow>
   ('i option initialize_client, pubkey option \<times> pubkey option \<times> pubkey option \<times> u8 option \<times> u64 option, 'i \<times> bool \<times> bool) builder"
where
  "initialize_cpi_set (Cinv_program_config x) b =
     b\<lparr>b_accounts := (b_accounts b)\<lparr>cinv_program_config := Some x\<rparr>\<rparr>"
| "initialize_cpi_set (Cinv_signer x) b =
     b\<lparr>b_accounts := (b_accounts b)\<lparr>cinv_signer := Some x\<rparr>\<rparr>"
| "initialize_cpi_set (Cinv_payer x) b =
     b\<lparr>b_accounts := (b_accounts b)\<lparr>cinv_payer := Some x\<rparr>\<rparr>"
| "initialize_cpi_set (Cinv_deposit_mint x) b =
     b\<lparr>b_accounts := (b_accounts b)\<lparr>cinv_deposit_mint := Some x\<rparr>\<rparr>"
| "initialize_cpi_set (Cinv_vault_state x) b =
     b\<lparr>b_accounts := (b_accounts b)\<lparr>cinv_vault_state := Some x\<rparr>\<rparr>"
| "initialize_cpi_set (Cinv_share_mint x) b =
     b\<lparr>b_accounts := (b_accounts b)\<lparr>cinv_share_mint := Some x\<rparr>\<rparr>"
| "initialize_cpi_set (Cinv_vault_token_ata x) b =
     b\<lparr>b_accounts := (b_accounts b)\<lparr>cinv_vault_token_ata := Some x\<rparr>\<rparr>"
| "initialize_cpi_set (Cinv_system_program x) b =
     b\<lparr>b_accounts := (b_accounts b)\<lparr>cinv_system_program := Some x\<rparr>\<rparr>"
| "initialize_cpi_set (Cinv_token_program x) b =
     b\<lparr>b_accounts := (b_accounts b)\<lparr>cinv_token_program := Some x\<rparr>\<rparr>"
| "initialize_cpi_set (Cinv_rent x) b =
     b\<lparr>b_accounts := (b_accounts b)\<lparr>cinv_rent := Some x\<rparr>\<rparr>"
| "initialize_cpi_set (Cinv_admin x) b =
     b\<lparr>b_args := (case b_args b of (_, p1, p2, p3, p4) \<Rightarrow> (Some x, p1, p2, p3, p4))\<rparr>"
| "initialize_cpi_set (Cinv_operator x) b =
     b\<lparr>b_args := (case b_args b of (p0, _, p2, p3, p4) \<Rightarrow> (p0, Some x, p2, p3, p4))\<rparr>"
| "initialize_cpi_set (Cinv_fee_recipient x) b =
     b\<lparr>b_args := (case b_args b of (p0, p1, _, p3, p4) \<Rightarrow> (p0, p1, Some x, p3, p4))\<rparr>"
| "initialize_cpi_set (Cinv_vault_version x) b =
     b\<lparr>b_args := (case b_args b of (p0, p1, p2, _, p4) \<Rightarrow> (p0, p1, p2, Some x, p4))\<rparr>"
| "initialize_cpi_set (Cinv_offset x) b =
     b\<lparr>b_args := (case b_args b of (p0, p1, p2, p3, _) \<Rightarrow> (p0, p1, p2, p3, Some x))\<rparr>"

primrec initialize_slot :: "'k initialize_setter \<Rightarrow> nat" where
  "initialize_slot (Cinv_program_config x) = 0"
| "initialize_slot (Cinv_signer x) = 1"
| "initialize_slot (Cinv_payer x) = 2"
| "initialize_slot (Cinv_deposit_mint x) = 3"
| "initialize_slot (Cinv_vault_state x) = 4"
| "initialize_slot (Cinv_share_mint x) = 5"
| "initialize_slot (Cinv_vault_token_ata x) = 6"
| "initialize_slot (Cinv_system_program x) = 7"
| "initialize_slot (Cinv_token_program x) = 8"
| "initialize_slot (Cinv_rent x) = 9"
| "initialize_slot (Cinv_admin x) = 10"
| "initialize_slot (Cinv_operator x) = 11"
| "initialize_slot (Cinv_fee_recipient x) = 12"
| "initialize_slot (Cinv_vault_version x) = 13"
| "initialize_slot (Cinv_offset x) = 14"

definition initialize_setters :: "'k initialize_client \<Rightarrow> pubkey \<Rightarrow> pubkey \<Rightarrow> pubkey \<Rightarrow> u8 \<Rightarrow> u64 \<Rightarrow> 'k initialize_setter list" where
  "initialize_setters a admin operator fee_recipient vault_version offset =
     [Cinv_program_config (cinv_program_config a), Cinv_signer (cinv_signer a),
      Cinv_payer (cinv_payer a), Cinv_deposit_mint (cinv_deposit_mint a),
      Cinv_vault_state (cinv_vault_state a), Cinv_share_mint (cinv_share_mint a),
      Cinv_vault_token_ata (cinv_vault_token_ata a), Cinv_system_program (cinv_system_program a),
      Cinv_token_program (cinv_token_program a), Cinv_rent (cinv_rent a), Cinv_admin admin,
      Cinv_operator operator, Cinv_fee_recipient fee_recipient, Cinv_vault_version vault_version,
      Cinv_offset offset]"

definition initialize_slots ::
  "('k option initialize_client, pubkey option \<times> pubkey option \<times> pubkey option \<times> u8 option \<times> u64 option, 'r) builder \<Rightarrow> 'k initialize_setter option list"
where
  "initialize_slots b =
     (case b_args b of (admin, operator, fee_recipient, vault_version, offset) \<Rightarrow>
     [map_option Cinv_program_config (cinv_program_config (b_accounts b)),
      map_option Cinv_signer (cinv_signer (b_accounts b)),
      map_option Cinv_payer (cinv_payer (b_accounts b)),
      map_option Cinv_deposit_mint (cinv_deposit_mint (b_accounts b)),
      map_option Cinv_vault_state (cinv_vault_state (b_accounts b)),
      map_option Cinv_share_mint (cinv_share_mint (b_accounts b)),
      map_option Cinv_vault_token_ata (cinv_vault_token_ata (b_accounts b)),
      map_option Cinv_system_program (cinv_system_program (b_accounts b)),
      map_option Cinv_token_program (cinv_token_program (b_accounts b)),
      map_option Cinv_rent (cinv_rent (b_accounts b)), map_option Cinv_admin admin,
      map_option Cinv_operator operator, map_option Cinv_fee_recipient fee_recipient,
      map_option Cinv_vault_version vault_version, map_option Cinv_offset offset])"

interpretation initialize_fields: field_setters initialize_set initialize_slot initialize_slots b_remaining
proof
  fix s :: "'a initialize_setter" and b b' :: "('a option initialize_client, pubkey option \<times> pubkey option \<times> pubkey option \<times> u8 option \<times> u64 option, 'b) builder"
  show "initialize_slots (initialize_set s b) = (initialize_slots b)[initialize_slot s := Some s]" "b_remaining (initialize_set s b) = b_remaining b"
    by (cases s; simp add: initialize_slots_def split: prod.splits)+
  assume "initialize_slots b = initialize_slots b'" "b_remaining b = b_remaining b'"
  then show "b = b'"
    by (intro builder.equality initialize_client.equality)
      (simp_all add: initialize_slots_def inj_def split: prod.splits)
qed

lemma initialize_cpi_set_is: "initialize_cpi_set = initialize_set"
proof (intro ext)
  fix x :: "'i initialize_setter" and b
  show "initialize_cpi_set x b = initialize_set x b" by (cases x) simp_all
qed

lemma initialize_setters_chosen:
  "{..<17} \<subseteq> set order \<Longrightarrow>
   last_write initialize_slot (chosen order (initialize_setters a admin operator fee_recipient vault_version offset)) = last_write initialize_slot (initialize_setters a admin operator fee_recipient vault_version offset)"
  by (rule last_write_chosen) (auto simp: initialize_setters_def upt_rec)

lemma initialize_built:
  assumes "last_write initialize_slot ss = last_write initialize_slot (initialize_setters a admin operator fee_recipient vault_version offset)"
  shows "initialize_build (add_remaining_accounts rem (fold initialize_set ss initialize_new)) =
     Inr (initialize_instruction a admin operator fee_recipient vault_version offset rem)"
  unfolding initialize_fields.last_write_decides [OF assms]
  by (simp add: initialize_setters_def initialize_new_def initialize_build_def add_remaining_accounts_def)

lemma initialize_cpi_built:
  assumes "last_write initialize_slot ss = last_write initialize_slot (initialize_setters a admin operator fee_recipient vault_version offset)"
  shows "(case initialize_cpi_new program of (program, b) \<Rightarrow>
       initialize_cpi_build key program (cpi_add_remaining_accounts rem (fold initialize_cpi_set ss b)) seeds) =
     Inr (initialize_cpi key program a admin operator fee_recipient vault_version offset seeds rem)"
  unfolding initialize_cpi_new_def prod.case initialize_cpi_set_is initialize_fields.last_write_decides [OF assms]
  by (simp add: initialize_setters_def initialize_cpi_build_def cpi_add_remaining_accounts_def)

lemmas initialize_chained = initialize_built [OF initialize_setters_chosen] initialize_cpi_built [OF initialize_setters_chosen]

section \<open>instructions/create_share_token_metadata.rs\<close>

datatype (plugins only: code) (dead 'k) create_share_token_metadata_setter =
    Ccsm_payer 'k
  | Ccsm_admin 'k
  | Ccsm_vault_state 'k
  | Ccsm_deposit_mint 'k
  | Ccsm_share_mint 'k
  | Ccsm_metadata_account 'k
  | Ccsm_token_program 'k
  | Ccsm_token_metadata_program 'k
  | Ccsm_system_program 'k
  | Ccsm_rent 'k
  | Ccsm_name string
  | Ccsm_symbol string
  | Ccsm_uri string

definition create_share_token_metadata_new :: "(pubkey option create_share_token_metadata_client, string option \<times> string option \<times> string option, account_meta) builder" where
  "create_share_token_metadata_new =
     \<lparr>b_accounts = \<lparr>ccsm_payer = None, ccsm_admin = None, ccsm_vault_state = None, ccsm_deposit_mint = None,
        ccsm_share_mint = None, ccsm_metadata_account = None, ccsm_token_program = None,
        ccsm_token_metadata_program = None, ccsm_system_program = None, ccsm_rent = None\<rparr>,
      b_args = (None, None, None), b_remaining = []\<rparr>"

primrec create_share_token_metadata_set ::
  "'k create_share_token_metadata_setter \<Rightarrow>
   ('k option create_share_token_metadata_client, string option \<times> string option \<times> string option, 'r) builder \<Rightarrow>
   ('k option create_share_token_metadata_client, string option \<times> string option \<times> string option, 'r) builder"
where
  "create_share_token_metadata_set (Ccsm_payer x) b =
     b\<lparr>b_accounts := (b_accounts b)\<lparr>ccsm_payer := Some x\<rparr>\<rparr>"
| "create_share_token_metadata_set (Ccsm_admin x) b =
     b\<lparr>b_accounts := (b_accounts b)\<lparr>ccsm_admin := Some x\<rparr>\<rparr>"
| "create_share_token_metadata_set (Ccsm_vault_state x) b =
     b\<lparr>b_accounts := (b_accounts b)\<lparr>ccsm_vault_state := Some x\<rparr>\<rparr>"
| "create_share_token_metadata_set (Ccsm_deposit_mint x) b =
     b\<lparr>b_accounts := (b_accounts b)\<lparr>ccsm_deposit_mint := Some x\<rparr>\<rparr>"
| "create_share_token_metadata_set (Ccsm_share_mint x) b =
     b\<lparr>b_accounts := (b_accounts b)\<lparr>ccsm_share_mint := Some x\<rparr>\<rparr>"
| "create_share_token_metadata_set (Ccsm_metadata_account x) b =
     b\<lparr>b_accounts := (b_accounts b)\<lparr>ccsm_metadata_account := Some x\<rparr>\<rparr>"
| "create_share_token_metadata_set (Ccsm_token_program x) b =
     b\<lparr>b_accounts := (b_accounts b)\<lparr>ccsm_token_program := Some x\<rparr>\<rparr>"
| "create_share_token_metadata_set (Ccsm_token_metadata_program x) b =
     b\<lparr>b_accounts := (b_accounts b)\<lparr>ccsm_token_metadata_program := Some x\<rparr>\<rparr>"
| "create_share_token_metadata_set (Ccsm_system_program x) b =
     b\<lparr>b_accounts := (b_accounts b)\<lparr>ccsm_system_program := Some x\<rparr>\<rparr>"
| "create_share_token_metadata_set (Ccsm_rent x) b =
     b\<lparr>b_accounts := (b_accounts b)\<lparr>ccsm_rent := Some x\<rparr>\<rparr>"
| "create_share_token_metadata_set (Ccsm_name x) b =
     b\<lparr>b_args := (case b_args b of (_, p1, p2) \<Rightarrow> (Some x, p1, p2))\<rparr>"
| "create_share_token_metadata_set (Ccsm_symbol x) b =
     b\<lparr>b_args := (case b_args b of (p0, _, p2) \<Rightarrow> (p0, Some x, p2))\<rparr>"
| "create_share_token_metadata_set (Ccsm_uri x) b =
     b\<lparr>b_args := (case b_args b of (p0, p1, _) \<Rightarrow> (p0, p1, Some x))\<rparr>"

definition create_share_token_metadata_cpi_new ::
  "'i \<Rightarrow> 'i \<times> ('i option create_share_token_metadata_client, string option \<times> string option \<times> string option, 'i \<times> bool \<times> bool) builder"
where
  "create_share_token_metadata_cpi_new program =
    (program,
     \<lparr>b_accounts = \<lparr>ccsm_payer = None, ccsm_admin = None, ccsm_vault_state = None, ccsm_deposit_mint = None,
        ccsm_share_mint = None, ccsm_metadata_account = None, ccsm_token_program = None,
        ccsm_token_metadata_program = None, ccsm_system_program = None, ccsm_rent = None\<rparr>,
      b_args = (None, None, None), b_remaining = []\<rparr>)"

primrec create_share_token_metadata_cpi_set ::
  "'i create_share_token_metadata_setter \<Rightarrow>
   ('i option create_share_token_metadata_client, string option \<times> string option \<times> string option, 'i \<times> bool \<times> bool) builder \<Rightarrow>
   ('i option create_share_token_metadata_client, string option \<times> string option \<times> string option, 'i \<times> bool \<times> bool) builder"
where
  "create_share_token_metadata_cpi_set (Ccsm_payer x) b =
     b\<lparr>b_accounts := (b_accounts b)\<lparr>ccsm_payer := Some x\<rparr>\<rparr>"
| "create_share_token_metadata_cpi_set (Ccsm_admin x) b =
     b\<lparr>b_accounts := (b_accounts b)\<lparr>ccsm_admin := Some x\<rparr>\<rparr>"
| "create_share_token_metadata_cpi_set (Ccsm_vault_state x) b =
     b\<lparr>b_accounts := (b_accounts b)\<lparr>ccsm_vault_state := Some x\<rparr>\<rparr>"
| "create_share_token_metadata_cpi_set (Ccsm_deposit_mint x) b =
     b\<lparr>b_accounts := (b_accounts b)\<lparr>ccsm_deposit_mint := Some x\<rparr>\<rparr>"
| "create_share_token_metadata_cpi_set (Ccsm_share_mint x) b =
     b\<lparr>b_accounts := (b_accounts b)\<lparr>ccsm_share_mint := Some x\<rparr>\<rparr>"
| "create_share_token_metadata_cpi_set (Ccsm_metadata_account x) b =
     b\<lparr>b_accounts := (b_accounts b)\<lparr>ccsm_metadata_account := Some x\<rparr>\<rparr>"
| "create_share_token_metadata_cpi_set (Ccsm_token_program x) b =
     b\<lparr>b_accounts := (b_accounts b)\<lparr>ccsm_token_program := Some x\<rparr>\<rparr>"
| "create_share_token_metadata_cpi_set (Ccsm_token_metadata_program x) b =
     b\<lparr>b_accounts := (b_accounts b)\<lparr>ccsm_token_metadata_program := Some x\<rparr>\<rparr>"
| "create_share_token_metadata_cpi_set (Ccsm_system_program x) b =
     b\<lparr>b_accounts := (b_accounts b)\<lparr>ccsm_system_program := Some x\<rparr>\<rparr>"
| "create_share_token_metadata_cpi_set (Ccsm_rent x) b =
     b\<lparr>b_accounts := (b_accounts b)\<lparr>ccsm_rent := Some x\<rparr>\<rparr>"
| "create_share_token_metadata_cpi_set (Ccsm_name x) b =
     b\<lparr>b_args := (case b_args b of (_, p1, p2) \<Rightarrow> (Some x, p1, p2))\<rparr>"
| "create_share_token_metadata_cpi_set (Ccsm_symbol x) b =
     b\<lparr>b_args := (case b_args b of (p0, _, p2) \<Rightarrow> (p0, Some x, p2))\<rparr>"
| "create_share_token_metadata_cpi_set (Ccsm_uri x) b =
     b\<lparr>b_args := (case b_args b of (p0, p1, _) \<Rightarrow> (p0, p1, Some x))\<rparr>"

primrec create_share_token_metadata_slot :: "'k create_share_token_metadata_setter \<Rightarrow> nat" where
  "create_share_token_metadata_slot (Ccsm_payer x) = 0"
| "create_share_token_metadata_slot (Ccsm_admin x) = 1"
| "create_share_token_metadata_slot (Ccsm_vault_state x) = 2"
| "create_share_token_metadata_slot (Ccsm_deposit_mint x) = 3"
| "create_share_token_metadata_slot (Ccsm_share_mint x) = 4"
| "create_share_token_metadata_slot (Ccsm_metadata_account x) = 5"
| "create_share_token_metadata_slot (Ccsm_token_program x) = 6"
| "create_share_token_metadata_slot (Ccsm_token_metadata_program x) = 7"
| "create_share_token_metadata_slot (Ccsm_system_program x) = 8"
| "create_share_token_metadata_slot (Ccsm_rent x) = 9"
| "create_share_token_metadata_slot (Ccsm_name x) = 10"
| "create_share_token_metadata_slot (Ccsm_symbol x) = 11"
| "create_share_token_metadata_slot (Ccsm_uri x) = 12"

definition create_share_token_metadata_setters :: "'k create_share_token_metadata_client \<Rightarrow> string \<Rightarrow> string \<Rightarrow> string \<Rightarrow> 'k create_share_token_metadata_setter list" where
  "create_share_token_metadata_setters a name symbol uri =
     [Ccsm_payer (ccsm_payer a), Ccsm_admin (ccsm_admin a), Ccsm_vault_state (ccsm_vault_state a),
      Ccsm_deposit_mint (ccsm_deposit_mint a), Ccsm_share_mint (ccsm_share_mint a),
      Ccsm_metadata_account (ccsm_metadata_account a), Ccsm_token_program (ccsm_token_program a),
      Ccsm_token_metadata_program (ccsm_token_metadata_program a),
      Ccsm_system_program (ccsm_system_program a), Ccsm_rent (ccsm_rent a), Ccsm_name name,
      Ccsm_symbol symbol, Ccsm_uri uri]"

definition create_share_token_metadata_slots ::
  "('k option create_share_token_metadata_client, string option \<times> string option \<times> string option, 'r) builder \<Rightarrow> 'k create_share_token_metadata_setter option list"
where
  "create_share_token_metadata_slots b =
     (case b_args b of (name, symbol, uri) \<Rightarrow>
     [map_option Ccsm_payer (ccsm_payer (b_accounts b)),
      map_option Ccsm_admin (ccsm_admin (b_accounts b)),
      map_option Ccsm_vault_state (ccsm_vault_state (b_accounts b)),
      map_option Ccsm_deposit_mint (ccsm_deposit_mint (b_accounts b)),
      map_option Ccsm_share_mint (ccsm_share_mint (b_accounts b)),
      map_option Ccsm_metadata_account (ccsm_metadata_account (b_accounts b)),
      map_option Ccsm_token_program (ccsm_token_program (b_accounts b)),
      map_option Ccsm_token_metadata_program (ccsm_token_metadata_program (b_accounts b)),
      map_option Ccsm_system_program (ccsm_system_program (b_accounts b)),
      map_option Ccsm_rent (ccsm_rent (b_accounts b)), map_option Ccsm_name name,
      map_option Ccsm_symbol symbol, map_option Ccsm_uri uri])"

interpretation create_share_token_metadata_fields: field_setters create_share_token_metadata_set create_share_token_metadata_slot create_share_token_metadata_slots b_remaining
proof
  fix s :: "'a create_share_token_metadata_setter" and b b' :: "('a option create_share_token_metadata_client, string option \<times> string option \<times> string option, 'b) builder"
  show "create_share_token_metadata_slots (create_share_token_metadata_set s b) = (create_share_token_metadata_slots b)[create_share_token_metadata_slot s := Some s]" "b_remaining (create_share_token_metadata_set s b) = b_remaining b"
    by (cases s; simp add: create_share_token_metadata_slots_def split: prod.splits)+
  assume "create_share_token_metadata_slots b = create_share_token_metadata_slots b'" "b_remaining b = b_remaining b'"
  then show "b = b'"
    by (intro builder.equality create_share_token_metadata_client.equality)
      (simp_all add: create_share_token_metadata_slots_def inj_def split: prod.splits)
qed

lemma create_share_token_metadata_cpi_set_is: "create_share_token_metadata_cpi_set = create_share_token_metadata_set"
proof (intro ext)
  fix x :: "'i create_share_token_metadata_setter" and b
  show "create_share_token_metadata_cpi_set x b = create_share_token_metadata_set x b" by (cases x) simp_all
qed

lemma create_share_token_metadata_setters_chosen:
  "{..<17} \<subseteq> set order \<Longrightarrow>
   last_write create_share_token_metadata_slot (chosen order (create_share_token_metadata_setters a name symbol uri)) = last_write create_share_token_metadata_slot (create_share_token_metadata_setters a name symbol uri)"
  by (rule last_write_chosen) (auto simp: create_share_token_metadata_setters_def upt_rec)

lemma create_share_token_metadata_built:
  assumes "last_write create_share_token_metadata_slot ss = last_write create_share_token_metadata_slot (create_share_token_metadata_setters a name symbol uri)"
  shows "create_share_token_metadata_build (add_remaining_accounts rem (fold create_share_token_metadata_set ss create_share_token_metadata_new)) =
     create_share_token_metadata_instruction a name symbol uri rem"
  unfolding create_share_token_metadata_fields.last_write_decides [OF assms]
  by (simp add: create_share_token_metadata_setters_def create_share_token_metadata_new_def create_share_token_metadata_build_def add_remaining_accounts_def)

lemma create_share_token_metadata_cpi_built:
  assumes "last_write create_share_token_metadata_slot ss = last_write create_share_token_metadata_slot (create_share_token_metadata_setters a name symbol uri)"
  shows "(case create_share_token_metadata_cpi_new program of (program, b) \<Rightarrow>
       create_share_token_metadata_cpi_build key program (cpi_add_remaining_accounts rem (fold create_share_token_metadata_cpi_set ss b)) seeds) =
     create_share_token_metadata_cpi key program a name symbol uri seeds rem"
  unfolding create_share_token_metadata_cpi_new_def prod.case create_share_token_metadata_cpi_set_is create_share_token_metadata_fields.last_write_decides [OF assms]
  by (simp add: create_share_token_metadata_setters_def create_share_token_metadata_cpi_build_def cpi_add_remaining_accounts_def)

lemmas create_share_token_metadata_chained = create_share_token_metadata_built [OF create_share_token_metadata_setters_chosen] create_share_token_metadata_cpi_built [OF create_share_token_metadata_setters_chosen]

section \<open>instructions/update_share_token_metadata.rs\<close>

datatype (plugins only: code) (dead 'k) update_share_token_metadata_setter =
    Cusm_admin 'k
  | Cusm_vault_state 'k
  | Cusm_deposit_mint 'k
  | Cusm_share_mint 'k
  | Cusm_metadata_account 'k
  | Cusm_token_program 'k
  | Cusm_token_metadata_program 'k
  | Cusm_name string
  | Cusm_symbol string
  | Cusm_uri string

definition update_share_token_metadata_new :: "(pubkey option update_share_token_metadata_client, string option \<times> string option \<times> string option, account_meta) builder" where
  "update_share_token_metadata_new =
     \<lparr>b_accounts = \<lparr>cusm_admin = None, cusm_vault_state = None, cusm_deposit_mint = None,
        cusm_share_mint = None, cusm_metadata_account = None, cusm_token_program = None,
        cusm_token_metadata_program = None\<rparr>,
      b_args = (None, None, None), b_remaining = []\<rparr>"

primrec update_share_token_metadata_set ::
  "'k update_share_token_metadata_setter \<Rightarrow>
   ('k option update_share_token_metadata_client, string option \<times> string option \<times> string option, 'r) builder \<Rightarrow>
   ('k option update_share_token_metadata_client, string option \<times> string option \<times> string option, 'r) builder"
where
  "update_share_token_metadata_set (Cusm_admin x) b =
     b\<lparr>b_accounts := (b_accounts b)\<lparr>cusm_admin := Some x\<rparr>\<rparr>"
| "update_share_token_metadata_set (Cusm_vault_state x) b =
     b\<lparr>b_accounts := (b_accounts b)\<lparr>cusm_vault_state := Some x\<rparr>\<rparr>"
| "update_share_token_metadata_set (Cusm_deposit_mint x) b =
     b\<lparr>b_accounts := (b_accounts b)\<lparr>cusm_deposit_mint := Some x\<rparr>\<rparr>"
| "update_share_token_metadata_set (Cusm_share_mint x) b =
     b\<lparr>b_accounts := (b_accounts b)\<lparr>cusm_share_mint := Some x\<rparr>\<rparr>"
| "update_share_token_metadata_set (Cusm_metadata_account x) b =
     b\<lparr>b_accounts := (b_accounts b)\<lparr>cusm_metadata_account := Some x\<rparr>\<rparr>"
| "update_share_token_metadata_set (Cusm_token_program x) b =
     b\<lparr>b_accounts := (b_accounts b)\<lparr>cusm_token_program := Some x\<rparr>\<rparr>"
| "update_share_token_metadata_set (Cusm_token_metadata_program x) b =
     b\<lparr>b_accounts := (b_accounts b)\<lparr>cusm_token_metadata_program := Some x\<rparr>\<rparr>"
| "update_share_token_metadata_set (Cusm_name x) b =
     b\<lparr>b_args := (case b_args b of (_, p1, p2) \<Rightarrow> (Some x, p1, p2))\<rparr>"
| "update_share_token_metadata_set (Cusm_symbol x) b =
     b\<lparr>b_args := (case b_args b of (p0, _, p2) \<Rightarrow> (p0, Some x, p2))\<rparr>"
| "update_share_token_metadata_set (Cusm_uri x) b =
     b\<lparr>b_args := (case b_args b of (p0, p1, _) \<Rightarrow> (p0, p1, Some x))\<rparr>"

definition update_share_token_metadata_cpi_new ::
  "'i \<Rightarrow> 'i \<times> ('i option update_share_token_metadata_client, string option \<times> string option \<times> string option, 'i \<times> bool \<times> bool) builder"
where
  "update_share_token_metadata_cpi_new program =
    (program,
     \<lparr>b_accounts = \<lparr>cusm_admin = None, cusm_vault_state = None, cusm_deposit_mint = None,
        cusm_share_mint = None, cusm_metadata_account = None, cusm_token_program = None,
        cusm_token_metadata_program = None\<rparr>,
      b_args = (None, None, None), b_remaining = []\<rparr>)"

primrec update_share_token_metadata_cpi_set ::
  "'i update_share_token_metadata_setter \<Rightarrow>
   ('i option update_share_token_metadata_client, string option \<times> string option \<times> string option, 'i \<times> bool \<times> bool) builder \<Rightarrow>
   ('i option update_share_token_metadata_client, string option \<times> string option \<times> string option, 'i \<times> bool \<times> bool) builder"
where
  "update_share_token_metadata_cpi_set (Cusm_admin x) b =
     b\<lparr>b_accounts := (b_accounts b)\<lparr>cusm_admin := Some x\<rparr>\<rparr>"
| "update_share_token_metadata_cpi_set (Cusm_vault_state x) b =
     b\<lparr>b_accounts := (b_accounts b)\<lparr>cusm_vault_state := Some x\<rparr>\<rparr>"
| "update_share_token_metadata_cpi_set (Cusm_deposit_mint x) b =
     b\<lparr>b_accounts := (b_accounts b)\<lparr>cusm_deposit_mint := Some x\<rparr>\<rparr>"
| "update_share_token_metadata_cpi_set (Cusm_share_mint x) b =
     b\<lparr>b_accounts := (b_accounts b)\<lparr>cusm_share_mint := Some x\<rparr>\<rparr>"
| "update_share_token_metadata_cpi_set (Cusm_metadata_account x) b =
     b\<lparr>b_accounts := (b_accounts b)\<lparr>cusm_metadata_account := Some x\<rparr>\<rparr>"
| "update_share_token_metadata_cpi_set (Cusm_token_program x) b =
     b\<lparr>b_accounts := (b_accounts b)\<lparr>cusm_token_program := Some x\<rparr>\<rparr>"
| "update_share_token_metadata_cpi_set (Cusm_token_metadata_program x) b =
     b\<lparr>b_accounts := (b_accounts b)\<lparr>cusm_token_metadata_program := Some x\<rparr>\<rparr>"
| "update_share_token_metadata_cpi_set (Cusm_name x) b =
     b\<lparr>b_args := (case b_args b of (_, p1, p2) \<Rightarrow> (Some x, p1, p2))\<rparr>"
| "update_share_token_metadata_cpi_set (Cusm_symbol x) b =
     b\<lparr>b_args := (case b_args b of (p0, _, p2) \<Rightarrow> (p0, Some x, p2))\<rparr>"
| "update_share_token_metadata_cpi_set (Cusm_uri x) b =
     b\<lparr>b_args := (case b_args b of (p0, p1, _) \<Rightarrow> (p0, p1, Some x))\<rparr>"

primrec update_share_token_metadata_slot :: "'k update_share_token_metadata_setter \<Rightarrow> nat" where
  "update_share_token_metadata_slot (Cusm_admin x) = 0"
| "update_share_token_metadata_slot (Cusm_vault_state x) = 1"
| "update_share_token_metadata_slot (Cusm_deposit_mint x) = 2"
| "update_share_token_metadata_slot (Cusm_share_mint x) = 3"
| "update_share_token_metadata_slot (Cusm_metadata_account x) = 4"
| "update_share_token_metadata_slot (Cusm_token_program x) = 5"
| "update_share_token_metadata_slot (Cusm_token_metadata_program x) = 6"
| "update_share_token_metadata_slot (Cusm_name x) = 7"
| "update_share_token_metadata_slot (Cusm_symbol x) = 8"
| "update_share_token_metadata_slot (Cusm_uri x) = 9"

definition update_share_token_metadata_setters :: "'k update_share_token_metadata_client \<Rightarrow> string \<Rightarrow> string \<Rightarrow> string \<Rightarrow> 'k update_share_token_metadata_setter list" where
  "update_share_token_metadata_setters a name symbol uri =
     [Cusm_admin (cusm_admin a), Cusm_vault_state (cusm_vault_state a),
      Cusm_deposit_mint (cusm_deposit_mint a), Cusm_share_mint (cusm_share_mint a),
      Cusm_metadata_account (cusm_metadata_account a), Cusm_token_program (cusm_token_program a),
      Cusm_token_metadata_program (cusm_token_metadata_program a), Cusm_name name,
      Cusm_symbol symbol, Cusm_uri uri]"

definition update_share_token_metadata_slots ::
  "('k option update_share_token_metadata_client, string option \<times> string option \<times> string option, 'r) builder \<Rightarrow> 'k update_share_token_metadata_setter option list"
where
  "update_share_token_metadata_slots b =
     (case b_args b of (name, symbol, uri) \<Rightarrow>
     [map_option Cusm_admin (cusm_admin (b_accounts b)),
      map_option Cusm_vault_state (cusm_vault_state (b_accounts b)),
      map_option Cusm_deposit_mint (cusm_deposit_mint (b_accounts b)),
      map_option Cusm_share_mint (cusm_share_mint (b_accounts b)),
      map_option Cusm_metadata_account (cusm_metadata_account (b_accounts b)),
      map_option Cusm_token_program (cusm_token_program (b_accounts b)),
      map_option Cusm_token_metadata_program (cusm_token_metadata_program (b_accounts b)),
      map_option Cusm_name name, map_option Cusm_symbol symbol, map_option Cusm_uri uri])"

interpretation update_share_token_metadata_fields: field_setters update_share_token_metadata_set update_share_token_metadata_slot update_share_token_metadata_slots b_remaining
proof
  fix s :: "'a update_share_token_metadata_setter" and b b' :: "('a option update_share_token_metadata_client, string option \<times> string option \<times> string option, 'b) builder"
  show "update_share_token_metadata_slots (update_share_token_metadata_set s b) = (update_share_token_metadata_slots b)[update_share_token_metadata_slot s := Some s]" "b_remaining (update_share_token_metadata_set s b) = b_remaining b"
    by (cases s; simp add: update_share_token_metadata_slots_def split: prod.splits)+
  assume "update_share_token_metadata_slots b = update_share_token_metadata_slots b'" "b_remaining b = b_remaining b'"
  then show "b = b'"
    by (intro builder.equality update_share_token_metadata_client.equality)
      (simp_all add: update_share_token_metadata_slots_def inj_def split: prod.splits)
qed

lemma update_share_token_metadata_cpi_set_is: "update_share_token_metadata_cpi_set = update_share_token_metadata_set"
proof (intro ext)
  fix x :: "'i update_share_token_metadata_setter" and b
  show "update_share_token_metadata_cpi_set x b = update_share_token_metadata_set x b" by (cases x) simp_all
qed

lemma update_share_token_metadata_setters_chosen:
  "{..<17} \<subseteq> set order \<Longrightarrow>
   last_write update_share_token_metadata_slot (chosen order (update_share_token_metadata_setters a name symbol uri)) = last_write update_share_token_metadata_slot (update_share_token_metadata_setters a name symbol uri)"
  by (rule last_write_chosen) (auto simp: update_share_token_metadata_setters_def upt_rec)

lemma update_share_token_metadata_built:
  assumes "last_write update_share_token_metadata_slot ss = last_write update_share_token_metadata_slot (update_share_token_metadata_setters a name symbol uri)"
  shows "update_share_token_metadata_build (add_remaining_accounts rem (fold update_share_token_metadata_set ss update_share_token_metadata_new)) =
     update_share_token_metadata_instruction a name symbol uri rem"
  unfolding update_share_token_metadata_fields.last_write_decides [OF assms]
  by (simp add: update_share_token_metadata_setters_def update_share_token_metadata_new_def update_share_token_metadata_build_def add_remaining_accounts_def)

lemma update_share_token_metadata_cpi_built:
  assumes "last_write update_share_token_metadata_slot ss = last_write update_share_token_metadata_slot (update_share_token_metadata_setters a name symbol uri)"
  shows "(case update_share_token_metadata_cpi_new program of (program, b) \<Rightarrow>
       update_share_token_metadata_cpi_build key program (cpi_add_remaining_accounts rem (fold update_share_token_metadata_cpi_set ss b)) seeds) =
     update_share_token_metadata_cpi key program a name symbol uri seeds rem"
  unfolding update_share_token_metadata_cpi_new_def prod.case update_share_token_metadata_cpi_set_is update_share_token_metadata_fields.last_write_decides [OF assms]
  by (simp add: update_share_token_metadata_setters_def update_share_token_metadata_cpi_build_def cpi_add_remaining_accounts_def)

lemmas update_share_token_metadata_chained = update_share_token_metadata_built [OF update_share_token_metadata_setters_chosen] update_share_token_metadata_cpi_built [OF update_share_token_metadata_setters_chosen]

end
