(* ===== verification/SettersQueue.thy ===== *)
theory SettersQueue
  imports Setters ClientQueue
begin

text \<open>
  The builders of the queue client, from \<open>new\<close> through their
  setters (\<open>src/generated/instructions\<close>). \<open>x_set\<close> is the builder's setter of each field and
  \<open>x_cpi_set\<close> the CPI builder's. Both meet \<open>field_setters\<close>; so a builder whose fields were all
  set, in any order, makes the instruction of the values last given.
\<close>

section \<open>instructions/initialize_queue.rs\<close>

datatype (plugins only: code) (dead 'k) initialize_queue_setter =
    Cinq_vault_state 'k
  | Cinq_admin 'k
  | Cinq_payer 'k
  | Cinq_deposit_mint 'k
  | Cinq_share_mint 'k
  | Cinq_queue 'k
  | Cinq_escrow_shares 'k
  | Cinq_escrow_assets 'k
  | Cinq_token_program 'k
  | Cinq_associated_token_program 'k
  | Cinq_system_program 'k
  | Cinq_event_authority 'k
  | Cinq_program 'k
  | Cinq_cooldown_seconds u64

definition initialize_queue_new :: "(pubkey option initialize_queue_client, u64 option, account_meta) builder" where
  "initialize_queue_new =
     \<lparr>b_accounts = \<lparr>cinq_vault_state = None, cinq_admin = None, cinq_payer = None, cinq_deposit_mint = None,
        cinq_share_mint = None, cinq_queue = None, cinq_escrow_shares = None,
        cinq_escrow_assets = None, cinq_token_program = None, cinq_associated_token_program = None,
        cinq_system_program = None, cinq_event_authority = None, cinq_program = None\<rparr>,
      b_args = None, b_remaining = []\<rparr>"

primrec initialize_queue_set ::
  "'k initialize_queue_setter \<Rightarrow>
   ('k option initialize_queue_client, u64 option, 'r) builder \<Rightarrow>
   ('k option initialize_queue_client, u64 option, 'r) builder"
where
  "initialize_queue_set (Cinq_vault_state x) b =
     b\<lparr>b_accounts := (b_accounts b)\<lparr>cinq_vault_state := Some x\<rparr>\<rparr>"
| "initialize_queue_set (Cinq_admin x) b =
     b\<lparr>b_accounts := (b_accounts b)\<lparr>cinq_admin := Some x\<rparr>\<rparr>"
| "initialize_queue_set (Cinq_payer x) b =
     b\<lparr>b_accounts := (b_accounts b)\<lparr>cinq_payer := Some x\<rparr>\<rparr>"
| "initialize_queue_set (Cinq_deposit_mint x) b =
     b\<lparr>b_accounts := (b_accounts b)\<lparr>cinq_deposit_mint := Some x\<rparr>\<rparr>"
| "initialize_queue_set (Cinq_share_mint x) b =
     b\<lparr>b_accounts := (b_accounts b)\<lparr>cinq_share_mint := Some x\<rparr>\<rparr>"
| "initialize_queue_set (Cinq_queue x) b =
     b\<lparr>b_accounts := (b_accounts b)\<lparr>cinq_queue := Some x\<rparr>\<rparr>"
| "initialize_queue_set (Cinq_escrow_shares x) b =
     b\<lparr>b_accounts := (b_accounts b)\<lparr>cinq_escrow_shares := Some x\<rparr>\<rparr>"
| "initialize_queue_set (Cinq_escrow_assets x) b =
     b\<lparr>b_accounts := (b_accounts b)\<lparr>cinq_escrow_assets := Some x\<rparr>\<rparr>"
| "initialize_queue_set (Cinq_token_program x) b =
     b\<lparr>b_accounts := (b_accounts b)\<lparr>cinq_token_program := Some x\<rparr>\<rparr>"
| "initialize_queue_set (Cinq_associated_token_program x) b =
     b\<lparr>b_accounts := (b_accounts b)\<lparr>cinq_associated_token_program := Some x\<rparr>\<rparr>"
| "initialize_queue_set (Cinq_system_program x) b =
     b\<lparr>b_accounts := (b_accounts b)\<lparr>cinq_system_program := Some x\<rparr>\<rparr>"
| "initialize_queue_set (Cinq_event_authority x) b =
     b\<lparr>b_accounts := (b_accounts b)\<lparr>cinq_event_authority := Some x\<rparr>\<rparr>"
| "initialize_queue_set (Cinq_program x) b =
     b\<lparr>b_accounts := (b_accounts b)\<lparr>cinq_program := Some x\<rparr>\<rparr>"
| "initialize_queue_set (Cinq_cooldown_seconds x) b = b\<lparr>b_args := Some x\<rparr>"

definition initialize_queue_cpi_new ::
  "'i \<Rightarrow> 'i \<times> ('i option initialize_queue_client, u64 option, 'i \<times> bool \<times> bool) builder"
where
  "initialize_queue_cpi_new program =
    (program,
     \<lparr>b_accounts = \<lparr>cinq_vault_state = None, cinq_admin = None, cinq_payer = None, cinq_deposit_mint = None,
        cinq_share_mint = None, cinq_queue = None, cinq_escrow_shares = None,
        cinq_escrow_assets = None, cinq_token_program = None, cinq_associated_token_program = None,
        cinq_system_program = None, cinq_event_authority = None, cinq_program = None\<rparr>,
      b_args = None, b_remaining = []\<rparr>)"

primrec initialize_queue_cpi_set ::
  "'i initialize_queue_setter \<Rightarrow>
   ('i option initialize_queue_client, u64 option, 'i \<times> bool \<times> bool) builder \<Rightarrow>
   ('i option initialize_queue_client, u64 option, 'i \<times> bool \<times> bool) builder"
where
  "initialize_queue_cpi_set (Cinq_vault_state x) b =
     b\<lparr>b_accounts := (b_accounts b)\<lparr>cinq_vault_state := Some x\<rparr>\<rparr>"
| "initialize_queue_cpi_set (Cinq_admin x) b =
     b\<lparr>b_accounts := (b_accounts b)\<lparr>cinq_admin := Some x\<rparr>\<rparr>"
| "initialize_queue_cpi_set (Cinq_payer x) b =
     b\<lparr>b_accounts := (b_accounts b)\<lparr>cinq_payer := Some x\<rparr>\<rparr>"
| "initialize_queue_cpi_set (Cinq_deposit_mint x) b =
     b\<lparr>b_accounts := (b_accounts b)\<lparr>cinq_deposit_mint := Some x\<rparr>\<rparr>"
| "initialize_queue_cpi_set (Cinq_share_mint x) b =
     b\<lparr>b_accounts := (b_accounts b)\<lparr>cinq_share_mint := Some x\<rparr>\<rparr>"
| "initialize_queue_cpi_set (Cinq_queue x) b =
     b\<lparr>b_accounts := (b_accounts b)\<lparr>cinq_queue := Some x\<rparr>\<rparr>"
| "initialize_queue_cpi_set (Cinq_escrow_shares x) b =
     b\<lparr>b_accounts := (b_accounts b)\<lparr>cinq_escrow_shares := Some x\<rparr>\<rparr>"
| "initialize_queue_cpi_set (Cinq_escrow_assets x) b =
     b\<lparr>b_accounts := (b_accounts b)\<lparr>cinq_escrow_assets := Some x\<rparr>\<rparr>"
| "initialize_queue_cpi_set (Cinq_token_program x) b =
     b\<lparr>b_accounts := (b_accounts b)\<lparr>cinq_token_program := Some x\<rparr>\<rparr>"
| "initialize_queue_cpi_set (Cinq_associated_token_program x) b =
     b\<lparr>b_accounts := (b_accounts b)\<lparr>cinq_associated_token_program := Some x\<rparr>\<rparr>"
| "initialize_queue_cpi_set (Cinq_system_program x) b =
     b\<lparr>b_accounts := (b_accounts b)\<lparr>cinq_system_program := Some x\<rparr>\<rparr>"
| "initialize_queue_cpi_set (Cinq_event_authority x) b =
     b\<lparr>b_accounts := (b_accounts b)\<lparr>cinq_event_authority := Some x\<rparr>\<rparr>"
| "initialize_queue_cpi_set (Cinq_program x) b =
     b\<lparr>b_accounts := (b_accounts b)\<lparr>cinq_program := Some x\<rparr>\<rparr>"
| "initialize_queue_cpi_set (Cinq_cooldown_seconds x) b = b\<lparr>b_args := Some x\<rparr>"

primrec initialize_queue_slot :: "'k initialize_queue_setter \<Rightarrow> nat" where
  "initialize_queue_slot (Cinq_vault_state x) = 0"
| "initialize_queue_slot (Cinq_admin x) = 1"
| "initialize_queue_slot (Cinq_payer x) = 2"
| "initialize_queue_slot (Cinq_deposit_mint x) = 3"
| "initialize_queue_slot (Cinq_share_mint x) = 4"
| "initialize_queue_slot (Cinq_queue x) = 5"
| "initialize_queue_slot (Cinq_escrow_shares x) = 6"
| "initialize_queue_slot (Cinq_escrow_assets x) = 7"
| "initialize_queue_slot (Cinq_token_program x) = 8"
| "initialize_queue_slot (Cinq_associated_token_program x) = 9"
| "initialize_queue_slot (Cinq_system_program x) = 10"
| "initialize_queue_slot (Cinq_event_authority x) = 11"
| "initialize_queue_slot (Cinq_program x) = 12"
| "initialize_queue_slot (Cinq_cooldown_seconds x) = 13"

definition initialize_queue_setters :: "'k initialize_queue_client \<Rightarrow> u64 \<Rightarrow> 'k initialize_queue_setter list" where
  "initialize_queue_setters a cooldown_seconds =
     [Cinq_vault_state (cinq_vault_state a), Cinq_admin (cinq_admin a), Cinq_payer (cinq_payer a),
      Cinq_deposit_mint (cinq_deposit_mint a), Cinq_share_mint (cinq_share_mint a),
      Cinq_queue (cinq_queue a), Cinq_escrow_shares (cinq_escrow_shares a),
      Cinq_escrow_assets (cinq_escrow_assets a), Cinq_token_program (cinq_token_program a),
      Cinq_associated_token_program (cinq_associated_token_program a),
      Cinq_system_program (cinq_system_program a), Cinq_event_authority (cinq_event_authority a),
      Cinq_program (cinq_program a), Cinq_cooldown_seconds cooldown_seconds]"

definition initialize_queue_slots ::
  "('k option initialize_queue_client, u64 option, 'r) builder \<Rightarrow> 'k initialize_queue_setter option list"
where
  "initialize_queue_slots b =
     [map_option Cinq_vault_state (cinq_vault_state (b_accounts b)),
      map_option Cinq_admin (cinq_admin (b_accounts b)),
      map_option Cinq_payer (cinq_payer (b_accounts b)),
      map_option Cinq_deposit_mint (cinq_deposit_mint (b_accounts b)),
      map_option Cinq_share_mint (cinq_share_mint (b_accounts b)),
      map_option Cinq_queue (cinq_queue (b_accounts b)),
      map_option Cinq_escrow_shares (cinq_escrow_shares (b_accounts b)),
      map_option Cinq_escrow_assets (cinq_escrow_assets (b_accounts b)),
      map_option Cinq_token_program (cinq_token_program (b_accounts b)),
      map_option Cinq_associated_token_program (cinq_associated_token_program (b_accounts b)),
      map_option Cinq_system_program (cinq_system_program (b_accounts b)),
      map_option Cinq_event_authority (cinq_event_authority (b_accounts b)),
      map_option Cinq_program (cinq_program (b_accounts b)),
      map_option Cinq_cooldown_seconds (b_args b)]"

interpretation initialize_queue_fields: field_setters initialize_queue_set initialize_queue_slot initialize_queue_slots b_remaining
proof
  fix s :: "'a initialize_queue_setter" and b b' :: "('a option initialize_queue_client, u64 option, 'b) builder"
  show "initialize_queue_slots (initialize_queue_set s b) = (initialize_queue_slots b)[initialize_queue_slot s := Some s]" "b_remaining (initialize_queue_set s b) = b_remaining b"
    by (cases s; simp add: initialize_queue_slots_def)+
  assume "initialize_queue_slots b = initialize_queue_slots b'" "b_remaining b = b_remaining b'"
  then show "b = b'"
    by (intro builder.equality initialize_queue_client.equality)
      (simp_all add: initialize_queue_slots_def inj_def)
qed

lemma initialize_queue_cpi_set_is: "initialize_queue_cpi_set = initialize_queue_set"
proof (intro ext)
  fix x :: "'i initialize_queue_setter" and b
  show "initialize_queue_cpi_set x b = initialize_queue_set x b" by (cases x) simp_all
qed

lemma initialize_queue_setters_chosen:
  "{..<17} \<subseteq> set order \<Longrightarrow>
   last_write initialize_queue_slot (chosen order (initialize_queue_setters a cooldown_seconds)) = last_write initialize_queue_slot (initialize_queue_setters a cooldown_seconds)"
  by (rule last_write_chosen) (auto simp: initialize_queue_setters_def upt_rec)

lemma initialize_queue_built:
  assumes "last_write initialize_queue_slot ss = last_write initialize_queue_slot (initialize_queue_setters a cooldown_seconds)"
  shows "initialize_queue_build (add_remaining_accounts rem (fold initialize_queue_set ss initialize_queue_new)) =
     Inr (initialize_queue_instruction a cooldown_seconds rem)"
  unfolding initialize_queue_fields.last_write_decides [OF assms]
  by (simp add: initialize_queue_setters_def initialize_queue_new_def initialize_queue_build_def add_remaining_accounts_def)

lemma initialize_queue_cpi_built:
  assumes "last_write initialize_queue_slot ss = last_write initialize_queue_slot (initialize_queue_setters a cooldown_seconds)"
  shows "(case initialize_queue_cpi_new program of (program, b) \<Rightarrow>
       initialize_queue_cpi_build key program (cpi_add_remaining_accounts rem (fold initialize_queue_cpi_set ss b)) seeds) =
     Inr (initialize_queue_cpi key program a cooldown_seconds seeds rem)"
  unfolding initialize_queue_cpi_new_def prod.case initialize_queue_cpi_set_is initialize_queue_fields.last_write_decides [OF assms]
  by (simp add: initialize_queue_setters_def initialize_queue_cpi_build_def cpi_add_remaining_accounts_def)

lemmas initialize_queue_chained = initialize_queue_built [OF initialize_queue_setters_chosen] initialize_queue_cpi_built [OF initialize_queue_setters_chosen]

section \<open>instructions/set_cooldown.rs\<close>

datatype (plugins only: code) (dead 'k) set_cooldown_setter =
    Cscd_queue 'k
  | Cscd_vault_state 'k
  | Cscd_admin 'k
  | Cscd_event_authority 'k
  | Cscd_program 'k
  | Cscd_seconds u64

definition set_cooldown_new :: "(pubkey option set_cooldown_client, u64 option, account_meta) builder" where
  "set_cooldown_new =
     \<lparr>b_accounts = \<lparr>cscd_queue = None, cscd_vault_state = None, cscd_admin = None, cscd_event_authority = None,
        cscd_program = None\<rparr>,
      b_args = None, b_remaining = []\<rparr>"

primrec set_cooldown_set ::
  "'k set_cooldown_setter \<Rightarrow>
   ('k option set_cooldown_client, u64 option, 'r) builder \<Rightarrow>
   ('k option set_cooldown_client, u64 option, 'r) builder"
where
  "set_cooldown_set (Cscd_queue x) b =
     b\<lparr>b_accounts := (b_accounts b)\<lparr>cscd_queue := Some x\<rparr>\<rparr>"
| "set_cooldown_set (Cscd_vault_state x) b =
     b\<lparr>b_accounts := (b_accounts b)\<lparr>cscd_vault_state := Some x\<rparr>\<rparr>"
| "set_cooldown_set (Cscd_admin x) b =
     b\<lparr>b_accounts := (b_accounts b)\<lparr>cscd_admin := Some x\<rparr>\<rparr>"
| "set_cooldown_set (Cscd_event_authority x) b =
     b\<lparr>b_accounts := (b_accounts b)\<lparr>cscd_event_authority := Some x\<rparr>\<rparr>"
| "set_cooldown_set (Cscd_program x) b =
     b\<lparr>b_accounts := (b_accounts b)\<lparr>cscd_program := Some x\<rparr>\<rparr>"
| "set_cooldown_set (Cscd_seconds x) b = b\<lparr>b_args := Some x\<rparr>"

definition set_cooldown_cpi_new ::
  "'i \<Rightarrow> 'i \<times> ('i option set_cooldown_client, u64 option, 'i \<times> bool \<times> bool) builder"
where
  "set_cooldown_cpi_new program =
    (program,
     \<lparr>b_accounts = \<lparr>cscd_queue = None, cscd_vault_state = None, cscd_admin = None, cscd_event_authority = None,
        cscd_program = None\<rparr>,
      b_args = None, b_remaining = []\<rparr>)"

primrec set_cooldown_cpi_set ::
  "'i set_cooldown_setter \<Rightarrow>
   ('i option set_cooldown_client, u64 option, 'i \<times> bool \<times> bool) builder \<Rightarrow>
   ('i option set_cooldown_client, u64 option, 'i \<times> bool \<times> bool) builder"
where
  "set_cooldown_cpi_set (Cscd_queue x) b =
     b\<lparr>b_accounts := (b_accounts b)\<lparr>cscd_queue := Some x\<rparr>\<rparr>"
| "set_cooldown_cpi_set (Cscd_vault_state x) b =
     b\<lparr>b_accounts := (b_accounts b)\<lparr>cscd_vault_state := Some x\<rparr>\<rparr>"
| "set_cooldown_cpi_set (Cscd_admin x) b =
     b\<lparr>b_accounts := (b_accounts b)\<lparr>cscd_admin := Some x\<rparr>\<rparr>"
| "set_cooldown_cpi_set (Cscd_event_authority x) b =
     b\<lparr>b_accounts := (b_accounts b)\<lparr>cscd_event_authority := Some x\<rparr>\<rparr>"
| "set_cooldown_cpi_set (Cscd_program x) b =
     b\<lparr>b_accounts := (b_accounts b)\<lparr>cscd_program := Some x\<rparr>\<rparr>"
| "set_cooldown_cpi_set (Cscd_seconds x) b = b\<lparr>b_args := Some x\<rparr>"

primrec set_cooldown_slot :: "'k set_cooldown_setter \<Rightarrow> nat" where
  "set_cooldown_slot (Cscd_queue x) = 0"
| "set_cooldown_slot (Cscd_vault_state x) = 1"
| "set_cooldown_slot (Cscd_admin x) = 2"
| "set_cooldown_slot (Cscd_event_authority x) = 3"
| "set_cooldown_slot (Cscd_program x) = 4"
| "set_cooldown_slot (Cscd_seconds x) = 5"

definition set_cooldown_setters :: "'k set_cooldown_client \<Rightarrow> u64 \<Rightarrow> 'k set_cooldown_setter list" where
  "set_cooldown_setters a seconds =
     [Cscd_queue (cscd_queue a), Cscd_vault_state (cscd_vault_state a), Cscd_admin (cscd_admin a),
      Cscd_event_authority (cscd_event_authority a), Cscd_program (cscd_program a),
      Cscd_seconds seconds]"

definition set_cooldown_slots ::
  "('k option set_cooldown_client, u64 option, 'r) builder \<Rightarrow> 'k set_cooldown_setter option list"
where
  "set_cooldown_slots b =
     [map_option Cscd_queue (cscd_queue (b_accounts b)),
      map_option Cscd_vault_state (cscd_vault_state (b_accounts b)),
      map_option Cscd_admin (cscd_admin (b_accounts b)),
      map_option Cscd_event_authority (cscd_event_authority (b_accounts b)),
      map_option Cscd_program (cscd_program (b_accounts b)), map_option Cscd_seconds (b_args b)]"

interpretation set_cooldown_fields: field_setters set_cooldown_set set_cooldown_slot set_cooldown_slots b_remaining
proof
  fix s :: "'a set_cooldown_setter" and b b' :: "('a option set_cooldown_client, u64 option, 'b) builder"
  show "set_cooldown_slots (set_cooldown_set s b) = (set_cooldown_slots b)[set_cooldown_slot s := Some s]" "b_remaining (set_cooldown_set s b) = b_remaining b"
    by (cases s; simp add: set_cooldown_slots_def)+
  assume "set_cooldown_slots b = set_cooldown_slots b'" "b_remaining b = b_remaining b'"
  then show "b = b'"
    by (intro builder.equality set_cooldown_client.equality)
      (simp_all add: set_cooldown_slots_def inj_def)
qed

lemma set_cooldown_cpi_set_is: "set_cooldown_cpi_set = set_cooldown_set"
proof (intro ext)
  fix x :: "'i set_cooldown_setter" and b
  show "set_cooldown_cpi_set x b = set_cooldown_set x b" by (cases x) simp_all
qed

lemma set_cooldown_setters_chosen:
  "{..<17} \<subseteq> set order \<Longrightarrow>
   last_write set_cooldown_slot (chosen order (set_cooldown_setters a seconds)) = last_write set_cooldown_slot (set_cooldown_setters a seconds)"
  by (rule last_write_chosen) (auto simp: set_cooldown_setters_def upt_rec)

lemma set_cooldown_built:
  assumes "last_write set_cooldown_slot ss = last_write set_cooldown_slot (set_cooldown_setters a seconds)"
  shows "set_cooldown_build (add_remaining_accounts rem (fold set_cooldown_set ss set_cooldown_new)) =
     Inr (set_cooldown_instruction a seconds rem)"
  unfolding set_cooldown_fields.last_write_decides [OF assms]
  by (simp add: set_cooldown_setters_def set_cooldown_new_def set_cooldown_build_def add_remaining_accounts_def)

lemma set_cooldown_cpi_built:
  assumes "last_write set_cooldown_slot ss = last_write set_cooldown_slot (set_cooldown_setters a seconds)"
  shows "(case set_cooldown_cpi_new program of (program, b) \<Rightarrow>
       set_cooldown_cpi_build key program (cpi_add_remaining_accounts rem (fold set_cooldown_cpi_set ss b)) seeds) =
     Inr (set_cooldown_cpi key program a seconds seeds rem)"
  unfolding set_cooldown_cpi_new_def prod.case set_cooldown_cpi_set_is set_cooldown_fields.last_write_decides [OF assms]
  by (simp add: set_cooldown_setters_def set_cooldown_cpi_build_def cpi_add_remaining_accounts_def)

lemmas set_cooldown_chained = set_cooldown_built [OF set_cooldown_setters_chosen] set_cooldown_cpi_built [OF set_cooldown_setters_chosen]

section \<open>instructions/set_fulfillment_window.rs\<close>

datatype (plugins only: code) (dead 'k) set_fulfillment_window_setter =
    Csfw_queue 'k
  | Csfw_vault_state 'k
  | Csfw_admin 'k
  | Csfw_event_authority 'k
  | Csfw_program 'k
  | Csfw_seconds u64

definition set_fulfillment_window_new :: "(pubkey option set_fulfillment_window_client, u64 option, account_meta) builder" where
  "set_fulfillment_window_new =
     \<lparr>b_accounts = \<lparr>csfw_queue = None, csfw_vault_state = None, csfw_admin = None, csfw_event_authority = None,
        csfw_program = None\<rparr>,
      b_args = None, b_remaining = []\<rparr>"

primrec set_fulfillment_window_set ::
  "'k set_fulfillment_window_setter \<Rightarrow>
   ('k option set_fulfillment_window_client, u64 option, 'r) builder \<Rightarrow>
   ('k option set_fulfillment_window_client, u64 option, 'r) builder"
where
  "set_fulfillment_window_set (Csfw_queue x) b =
     b\<lparr>b_accounts := (b_accounts b)\<lparr>csfw_queue := Some x\<rparr>\<rparr>"
| "set_fulfillment_window_set (Csfw_vault_state x) b =
     b\<lparr>b_accounts := (b_accounts b)\<lparr>csfw_vault_state := Some x\<rparr>\<rparr>"
| "set_fulfillment_window_set (Csfw_admin x) b =
     b\<lparr>b_accounts := (b_accounts b)\<lparr>csfw_admin := Some x\<rparr>\<rparr>"
| "set_fulfillment_window_set (Csfw_event_authority x) b =
     b\<lparr>b_accounts := (b_accounts b)\<lparr>csfw_event_authority := Some x\<rparr>\<rparr>"
| "set_fulfillment_window_set (Csfw_program x) b =
     b\<lparr>b_accounts := (b_accounts b)\<lparr>csfw_program := Some x\<rparr>\<rparr>"
| "set_fulfillment_window_set (Csfw_seconds x) b = b\<lparr>b_args := Some x\<rparr>"

definition set_fulfillment_window_cpi_new ::
  "'i \<Rightarrow> 'i \<times> ('i option set_fulfillment_window_client, u64 option, 'i \<times> bool \<times> bool) builder"
where
  "set_fulfillment_window_cpi_new program =
    (program,
     \<lparr>b_accounts = \<lparr>csfw_queue = None, csfw_vault_state = None, csfw_admin = None, csfw_event_authority = None,
        csfw_program = None\<rparr>,
      b_args = None, b_remaining = []\<rparr>)"

primrec set_fulfillment_window_cpi_set ::
  "'i set_fulfillment_window_setter \<Rightarrow>
   ('i option set_fulfillment_window_client, u64 option, 'i \<times> bool \<times> bool) builder \<Rightarrow>
   ('i option set_fulfillment_window_client, u64 option, 'i \<times> bool \<times> bool) builder"
where
  "set_fulfillment_window_cpi_set (Csfw_queue x) b =
     b\<lparr>b_accounts := (b_accounts b)\<lparr>csfw_queue := Some x\<rparr>\<rparr>"
| "set_fulfillment_window_cpi_set (Csfw_vault_state x) b =
     b\<lparr>b_accounts := (b_accounts b)\<lparr>csfw_vault_state := Some x\<rparr>\<rparr>"
| "set_fulfillment_window_cpi_set (Csfw_admin x) b =
     b\<lparr>b_accounts := (b_accounts b)\<lparr>csfw_admin := Some x\<rparr>\<rparr>"
| "set_fulfillment_window_cpi_set (Csfw_event_authority x) b =
     b\<lparr>b_accounts := (b_accounts b)\<lparr>csfw_event_authority := Some x\<rparr>\<rparr>"
| "set_fulfillment_window_cpi_set (Csfw_program x) b =
     b\<lparr>b_accounts := (b_accounts b)\<lparr>csfw_program := Some x\<rparr>\<rparr>"
| "set_fulfillment_window_cpi_set (Csfw_seconds x) b = b\<lparr>b_args := Some x\<rparr>"

primrec set_fulfillment_window_slot :: "'k set_fulfillment_window_setter \<Rightarrow> nat" where
  "set_fulfillment_window_slot (Csfw_queue x) = 0"
| "set_fulfillment_window_slot (Csfw_vault_state x) = 1"
| "set_fulfillment_window_slot (Csfw_admin x) = 2"
| "set_fulfillment_window_slot (Csfw_event_authority x) = 3"
| "set_fulfillment_window_slot (Csfw_program x) = 4"
| "set_fulfillment_window_slot (Csfw_seconds x) = 5"

definition set_fulfillment_window_setters :: "'k set_fulfillment_window_client \<Rightarrow> u64 \<Rightarrow> 'k set_fulfillment_window_setter list" where
  "set_fulfillment_window_setters a seconds =
     [Csfw_queue (csfw_queue a), Csfw_vault_state (csfw_vault_state a), Csfw_admin (csfw_admin a),
      Csfw_event_authority (csfw_event_authority a), Csfw_program (csfw_program a),
      Csfw_seconds seconds]"

definition set_fulfillment_window_slots ::
  "('k option set_fulfillment_window_client, u64 option, 'r) builder \<Rightarrow> 'k set_fulfillment_window_setter option list"
where
  "set_fulfillment_window_slots b =
     [map_option Csfw_queue (csfw_queue (b_accounts b)),
      map_option Csfw_vault_state (csfw_vault_state (b_accounts b)),
      map_option Csfw_admin (csfw_admin (b_accounts b)),
      map_option Csfw_event_authority (csfw_event_authority (b_accounts b)),
      map_option Csfw_program (csfw_program (b_accounts b)), map_option Csfw_seconds (b_args b)]"

interpretation set_fulfillment_window_fields: field_setters set_fulfillment_window_set set_fulfillment_window_slot set_fulfillment_window_slots b_remaining
proof
  fix s :: "'a set_fulfillment_window_setter" and b b' :: "('a option set_fulfillment_window_client, u64 option, 'b) builder"
  show "set_fulfillment_window_slots (set_fulfillment_window_set s b) = (set_fulfillment_window_slots b)[set_fulfillment_window_slot s := Some s]" "b_remaining (set_fulfillment_window_set s b) = b_remaining b"
    by (cases s; simp add: set_fulfillment_window_slots_def)+
  assume "set_fulfillment_window_slots b = set_fulfillment_window_slots b'" "b_remaining b = b_remaining b'"
  then show "b = b'"
    by (intro builder.equality set_fulfillment_window_client.equality)
      (simp_all add: set_fulfillment_window_slots_def inj_def)
qed

lemma set_fulfillment_window_cpi_set_is: "set_fulfillment_window_cpi_set = set_fulfillment_window_set"
proof (intro ext)
  fix x :: "'i set_fulfillment_window_setter" and b
  show "set_fulfillment_window_cpi_set x b = set_fulfillment_window_set x b" by (cases x) simp_all
qed

lemma set_fulfillment_window_setters_chosen:
  "{..<17} \<subseteq> set order \<Longrightarrow>
   last_write set_fulfillment_window_slot (chosen order (set_fulfillment_window_setters a seconds)) = last_write set_fulfillment_window_slot (set_fulfillment_window_setters a seconds)"
  by (rule last_write_chosen) (auto simp: set_fulfillment_window_setters_def upt_rec)

lemma set_fulfillment_window_built:
  assumes "last_write set_fulfillment_window_slot ss = last_write set_fulfillment_window_slot (set_fulfillment_window_setters a seconds)"
  shows "set_fulfillment_window_build (add_remaining_accounts rem (fold set_fulfillment_window_set ss set_fulfillment_window_new)) =
     Inr (set_fulfillment_window_instruction a seconds rem)"
  unfolding set_fulfillment_window_fields.last_write_decides [OF assms]
  by (simp add: set_fulfillment_window_setters_def set_fulfillment_window_new_def set_fulfillment_window_build_def add_remaining_accounts_def)

lemma set_fulfillment_window_cpi_built:
  assumes "last_write set_fulfillment_window_slot ss = last_write set_fulfillment_window_slot (set_fulfillment_window_setters a seconds)"
  shows "(case set_fulfillment_window_cpi_new program of (program, b) \<Rightarrow>
       set_fulfillment_window_cpi_build key program (cpi_add_remaining_accounts rem (fold set_fulfillment_window_cpi_set ss b)) seeds) =
     Inr (set_fulfillment_window_cpi key program a seconds seeds rem)"
  unfolding set_fulfillment_window_cpi_new_def prod.case set_fulfillment_window_cpi_set_is set_fulfillment_window_fields.last_write_decides [OF assms]
  by (simp add: set_fulfillment_window_setters_def set_fulfillment_window_cpi_build_def cpi_add_remaining_accounts_def)

lemmas set_fulfillment_window_chained = set_fulfillment_window_built [OF set_fulfillment_window_setters_chosen] set_fulfillment_window_cpi_built [OF set_fulfillment_window_setters_chosen]

section \<open>instructions/request_withdrawal.rs\<close>

datatype (plugins only: code) (dead 'k) request_withdrawal_setter =
    Crqw_queue 'k
  | Crqw_vault_state 'k
  | Crqw_owner 'k
  | Crqw_owner_share_account 'k
  | Crqw_escrow_shares 'k
  | Crqw_share_mint 'k
  | Crqw_recipient_token_account 'k
  | Crqw_request 'k
  | Crqw_token_program 'k
  | Crqw_system_program 'k
  | Crqw_event_authority 'k
  | Crqw_program 'k
  | Crqw_request_id u64
  | Crqw_shares u64
  | Crqw_min_assets_out u64
  | Crqw_finalizer pubkey

definition request_withdrawal_new :: "(pubkey option request_withdrawal_client, u64 option \<times> u64 option \<times> u64 option \<times> pubkey option, account_meta) builder" where
  "request_withdrawal_new =
     \<lparr>b_accounts = \<lparr>crqw_queue = None, crqw_vault_state = None, crqw_owner = None,
        crqw_owner_share_account = None, crqw_escrow_shares = None, crqw_share_mint = None,
        crqw_recipient_token_account = None, crqw_request = None, crqw_token_program = None,
        crqw_system_program = None, crqw_event_authority = None, crqw_program = None\<rparr>,
      b_args = (None, None, None, None), b_remaining = []\<rparr>"

primrec request_withdrawal_set ::
  "'k request_withdrawal_setter \<Rightarrow>
   ('k option request_withdrawal_client, u64 option \<times> u64 option \<times> u64 option \<times> pubkey option, 'r) builder \<Rightarrow>
   ('k option request_withdrawal_client, u64 option \<times> u64 option \<times> u64 option \<times> pubkey option, 'r) builder"
where
  "request_withdrawal_set (Crqw_queue x) b =
     b\<lparr>b_accounts := (b_accounts b)\<lparr>crqw_queue := Some x\<rparr>\<rparr>"
| "request_withdrawal_set (Crqw_vault_state x) b =
     b\<lparr>b_accounts := (b_accounts b)\<lparr>crqw_vault_state := Some x\<rparr>\<rparr>"
| "request_withdrawal_set (Crqw_owner x) b =
     b\<lparr>b_accounts := (b_accounts b)\<lparr>crqw_owner := Some x\<rparr>\<rparr>"
| "request_withdrawal_set (Crqw_owner_share_account x) b =
     b\<lparr>b_accounts := (b_accounts b)\<lparr>crqw_owner_share_account := Some x\<rparr>\<rparr>"
| "request_withdrawal_set (Crqw_escrow_shares x) b =
     b\<lparr>b_accounts := (b_accounts b)\<lparr>crqw_escrow_shares := Some x\<rparr>\<rparr>"
| "request_withdrawal_set (Crqw_share_mint x) b =
     b\<lparr>b_accounts := (b_accounts b)\<lparr>crqw_share_mint := Some x\<rparr>\<rparr>"
| "request_withdrawal_set (Crqw_recipient_token_account x) b =
     b\<lparr>b_accounts := (b_accounts b)\<lparr>crqw_recipient_token_account := Some x\<rparr>\<rparr>"
| "request_withdrawal_set (Crqw_request x) b =
     b\<lparr>b_accounts := (b_accounts b)\<lparr>crqw_request := Some x\<rparr>\<rparr>"
| "request_withdrawal_set (Crqw_token_program x) b =
     b\<lparr>b_accounts := (b_accounts b)\<lparr>crqw_token_program := Some x\<rparr>\<rparr>"
| "request_withdrawal_set (Crqw_system_program x) b =
     b\<lparr>b_accounts := (b_accounts b)\<lparr>crqw_system_program := Some x\<rparr>\<rparr>"
| "request_withdrawal_set (Crqw_event_authority x) b =
     b\<lparr>b_accounts := (b_accounts b)\<lparr>crqw_event_authority := Some x\<rparr>\<rparr>"
| "request_withdrawal_set (Crqw_program x) b =
     b\<lparr>b_accounts := (b_accounts b)\<lparr>crqw_program := Some x\<rparr>\<rparr>"
| "request_withdrawal_set (Crqw_request_id x) b =
     b\<lparr>b_args := (case b_args b of (_, p1, p2, p3) \<Rightarrow> (Some x, p1, p2, p3))\<rparr>"
| "request_withdrawal_set (Crqw_shares x) b =
     b\<lparr>b_args := (case b_args b of (p0, _, p2, p3) \<Rightarrow> (p0, Some x, p2, p3))\<rparr>"
| "request_withdrawal_set (Crqw_min_assets_out x) b =
     b\<lparr>b_args := (case b_args b of (p0, p1, _, p3) \<Rightarrow> (p0, p1, Some x, p3))\<rparr>"
| "request_withdrawal_set (Crqw_finalizer x) b =
     b\<lparr>b_args := (case b_args b of (p0, p1, p2, _) \<Rightarrow> (p0, p1, p2, Some x))\<rparr>"

definition request_withdrawal_cpi_new ::
  "'i \<Rightarrow> 'i \<times> ('i option request_withdrawal_client, u64 option \<times> u64 option \<times> u64 option \<times> pubkey option, 'i \<times> bool \<times> bool) builder"
where
  "request_withdrawal_cpi_new program =
    (program,
     \<lparr>b_accounts = \<lparr>crqw_queue = None, crqw_vault_state = None, crqw_owner = None,
        crqw_owner_share_account = None, crqw_escrow_shares = None, crqw_share_mint = None,
        crqw_recipient_token_account = None, crqw_request = None, crqw_token_program = None,
        crqw_system_program = None, crqw_event_authority = None, crqw_program = None\<rparr>,
      b_args = (None, None, None, None), b_remaining = []\<rparr>)"

primrec request_withdrawal_cpi_set ::
  "'i request_withdrawal_setter \<Rightarrow>
   ('i option request_withdrawal_client, u64 option \<times> u64 option \<times> u64 option \<times> pubkey option, 'i \<times> bool \<times> bool) builder \<Rightarrow>
   ('i option request_withdrawal_client, u64 option \<times> u64 option \<times> u64 option \<times> pubkey option, 'i \<times> bool \<times> bool) builder"
where
  "request_withdrawal_cpi_set (Crqw_queue x) b =
     b\<lparr>b_accounts := (b_accounts b)\<lparr>crqw_queue := Some x\<rparr>\<rparr>"
| "request_withdrawal_cpi_set (Crqw_vault_state x) b =
     b\<lparr>b_accounts := (b_accounts b)\<lparr>crqw_vault_state := Some x\<rparr>\<rparr>"
| "request_withdrawal_cpi_set (Crqw_owner x) b =
     b\<lparr>b_accounts := (b_accounts b)\<lparr>crqw_owner := Some x\<rparr>\<rparr>"
| "request_withdrawal_cpi_set (Crqw_owner_share_account x) b =
     b\<lparr>b_accounts := (b_accounts b)\<lparr>crqw_owner_share_account := Some x\<rparr>\<rparr>"
| "request_withdrawal_cpi_set (Crqw_escrow_shares x) b =
     b\<lparr>b_accounts := (b_accounts b)\<lparr>crqw_escrow_shares := Some x\<rparr>\<rparr>"
| "request_withdrawal_cpi_set (Crqw_share_mint x) b =
     b\<lparr>b_accounts := (b_accounts b)\<lparr>crqw_share_mint := Some x\<rparr>\<rparr>"
| "request_withdrawal_cpi_set (Crqw_recipient_token_account x) b =
     b\<lparr>b_accounts := (b_accounts b)\<lparr>crqw_recipient_token_account := Some x\<rparr>\<rparr>"
| "request_withdrawal_cpi_set (Crqw_request x) b =
     b\<lparr>b_accounts := (b_accounts b)\<lparr>crqw_request := Some x\<rparr>\<rparr>"
| "request_withdrawal_cpi_set (Crqw_token_program x) b =
     b\<lparr>b_accounts := (b_accounts b)\<lparr>crqw_token_program := Some x\<rparr>\<rparr>"
| "request_withdrawal_cpi_set (Crqw_system_program x) b =
     b\<lparr>b_accounts := (b_accounts b)\<lparr>crqw_system_program := Some x\<rparr>\<rparr>"
| "request_withdrawal_cpi_set (Crqw_event_authority x) b =
     b\<lparr>b_accounts := (b_accounts b)\<lparr>crqw_event_authority := Some x\<rparr>\<rparr>"
| "request_withdrawal_cpi_set (Crqw_program x) b =
     b\<lparr>b_accounts := (b_accounts b)\<lparr>crqw_program := Some x\<rparr>\<rparr>"
| "request_withdrawal_cpi_set (Crqw_request_id x) b =
     b\<lparr>b_args := (case b_args b of (_, p1, p2, p3) \<Rightarrow> (Some x, p1, p2, p3))\<rparr>"
| "request_withdrawal_cpi_set (Crqw_shares x) b =
     b\<lparr>b_args := (case b_args b of (p0, _, p2, p3) \<Rightarrow> (p0, Some x, p2, p3))\<rparr>"
| "request_withdrawal_cpi_set (Crqw_min_assets_out x) b =
     b\<lparr>b_args := (case b_args b of (p0, p1, _, p3) \<Rightarrow> (p0, p1, Some x, p3))\<rparr>"
| "request_withdrawal_cpi_set (Crqw_finalizer x) b =
     b\<lparr>b_args := (case b_args b of (p0, p1, p2, _) \<Rightarrow> (p0, p1, p2, Some x))\<rparr>"

primrec request_withdrawal_slot :: "'k request_withdrawal_setter \<Rightarrow> nat" where
  "request_withdrawal_slot (Crqw_queue x) = 0"
| "request_withdrawal_slot (Crqw_vault_state x) = 1"
| "request_withdrawal_slot (Crqw_owner x) = 2"
| "request_withdrawal_slot (Crqw_owner_share_account x) = 3"
| "request_withdrawal_slot (Crqw_escrow_shares x) = 4"
| "request_withdrawal_slot (Crqw_share_mint x) = 5"
| "request_withdrawal_slot (Crqw_recipient_token_account x) = 6"
| "request_withdrawal_slot (Crqw_request x) = 7"
| "request_withdrawal_slot (Crqw_token_program x) = 8"
| "request_withdrawal_slot (Crqw_system_program x) = 9"
| "request_withdrawal_slot (Crqw_event_authority x) = 10"
| "request_withdrawal_slot (Crqw_program x) = 11"
| "request_withdrawal_slot (Crqw_request_id x) = 12"
| "request_withdrawal_slot (Crqw_shares x) = 13"
| "request_withdrawal_slot (Crqw_min_assets_out x) = 14"
| "request_withdrawal_slot (Crqw_finalizer x) = 15"

definition request_withdrawal_setters :: "'k request_withdrawal_client \<Rightarrow> u64 \<Rightarrow> u64 \<Rightarrow> u64 \<Rightarrow> pubkey \<Rightarrow> 'k request_withdrawal_setter list" where
  "request_withdrawal_setters a request_id shares min_assets_out finalizer =
     [Crqw_queue (crqw_queue a), Crqw_vault_state (crqw_vault_state a), Crqw_owner (crqw_owner a),
      Crqw_owner_share_account (crqw_owner_share_account a),
      Crqw_escrow_shares (crqw_escrow_shares a), Crqw_share_mint (crqw_share_mint a),
      Crqw_recipient_token_account (crqw_recipient_token_account a), Crqw_request (crqw_request a),
      Crqw_token_program (crqw_token_program a), Crqw_system_program (crqw_system_program a),
      Crqw_event_authority (crqw_event_authority a), Crqw_program (crqw_program a),
      Crqw_request_id request_id, Crqw_shares shares, Crqw_min_assets_out min_assets_out,
      Crqw_finalizer finalizer]"

definition request_withdrawal_slots ::
  "('k option request_withdrawal_client, u64 option \<times> u64 option \<times> u64 option \<times> pubkey option, 'r) builder \<Rightarrow> 'k request_withdrawal_setter option list"
where
  "request_withdrawal_slots b =
     (case b_args b of (request_id, shares, min_assets_out, finalizer) \<Rightarrow>
     [map_option Crqw_queue (crqw_queue (b_accounts b)),
      map_option Crqw_vault_state (crqw_vault_state (b_accounts b)),
      map_option Crqw_owner (crqw_owner (b_accounts b)),
      map_option Crqw_owner_share_account (crqw_owner_share_account (b_accounts b)),
      map_option Crqw_escrow_shares (crqw_escrow_shares (b_accounts b)),
      map_option Crqw_share_mint (crqw_share_mint (b_accounts b)),
      map_option Crqw_recipient_token_account (crqw_recipient_token_account (b_accounts b)),
      map_option Crqw_request (crqw_request (b_accounts b)),
      map_option Crqw_token_program (crqw_token_program (b_accounts b)),
      map_option Crqw_system_program (crqw_system_program (b_accounts b)),
      map_option Crqw_event_authority (crqw_event_authority (b_accounts b)),
      map_option Crqw_program (crqw_program (b_accounts b)), map_option Crqw_request_id request_id,
      map_option Crqw_shares shares, map_option Crqw_min_assets_out min_assets_out,
      map_option Crqw_finalizer finalizer])"

interpretation request_withdrawal_fields: field_setters request_withdrawal_set request_withdrawal_slot request_withdrawal_slots b_remaining
proof
  fix s :: "'a request_withdrawal_setter" and b b' :: "('a option request_withdrawal_client, u64 option \<times> u64 option \<times> u64 option \<times> pubkey option, 'b) builder"
  show "request_withdrawal_slots (request_withdrawal_set s b) = (request_withdrawal_slots b)[request_withdrawal_slot s := Some s]" "b_remaining (request_withdrawal_set s b) = b_remaining b"
    by (cases s; simp add: request_withdrawal_slots_def split: prod.splits)+
  assume "request_withdrawal_slots b = request_withdrawal_slots b'" "b_remaining b = b_remaining b'"
  then show "b = b'"
    by (intro builder.equality request_withdrawal_client.equality)
      (simp_all add: request_withdrawal_slots_def inj_def split: prod.splits)
qed

lemma request_withdrawal_cpi_set_is: "request_withdrawal_cpi_set = request_withdrawal_set"
proof (intro ext)
  fix x :: "'i request_withdrawal_setter" and b
  show "request_withdrawal_cpi_set x b = request_withdrawal_set x b" by (cases x) simp_all
qed

lemma request_withdrawal_setters_chosen:
  "{..<17} \<subseteq> set order \<Longrightarrow>
   last_write request_withdrawal_slot (chosen order (request_withdrawal_setters a request_id shares min_assets_out finalizer)) = last_write request_withdrawal_slot (request_withdrawal_setters a request_id shares min_assets_out finalizer)"
  by (rule last_write_chosen) (auto simp: request_withdrawal_setters_def upt_rec)

lemma request_withdrawal_built:
  assumes "last_write request_withdrawal_slot ss = last_write request_withdrawal_slot (request_withdrawal_setters a request_id shares min_assets_out finalizer)"
  shows "request_withdrawal_build (add_remaining_accounts rem (fold request_withdrawal_set ss request_withdrawal_new)) =
     Inr (request_withdrawal_instruction a request_id shares min_assets_out finalizer rem)"
  unfolding request_withdrawal_fields.last_write_decides [OF assms]
  by (simp add: request_withdrawal_setters_def request_withdrawal_new_def request_withdrawal_build_def add_remaining_accounts_def)

lemma request_withdrawal_cpi_built:
  assumes "last_write request_withdrawal_slot ss = last_write request_withdrawal_slot (request_withdrawal_setters a request_id shares min_assets_out finalizer)"
  shows "(case request_withdrawal_cpi_new program of (program, b) \<Rightarrow>
       request_withdrawal_cpi_build key program (cpi_add_remaining_accounts rem (fold request_withdrawal_cpi_set ss b)) seeds) =
     Inr (request_withdrawal_cpi key program a request_id shares min_assets_out finalizer seeds rem)"
  unfolding request_withdrawal_cpi_new_def prod.case request_withdrawal_cpi_set_is request_withdrawal_fields.last_write_decides [OF assms]
  by (simp add: request_withdrawal_setters_def request_withdrawal_cpi_build_def cpi_add_remaining_accounts_def)

lemmas request_withdrawal_chained = request_withdrawal_built [OF request_withdrawal_setters_chosen] request_withdrawal_cpi_built [OF request_withdrawal_setters_chosen]

section \<open>instructions/finalize_withdrawal.rs\<close>

datatype (plugins only: code) (dead 'k) finalize_withdrawal_setter =
    Cfnw_queue 'k
  | Cfnw_vault_state 'k
  | Cfnw_vault_deposit_ata 'k
  | Cfnw_fee_recipient_account 'k
  | Cfnw_escrow_shares 'k
  | Cfnw_escrow_assets 'k
  | Cfnw_share_mint 'k
  | Cfnw_deposit_mint 'k
  | Cfnw_finalizer 'k
  | Cfnw_request 'k
  | Cfnw_owner 'k
  | Cfnw_recipient_token_account 'k
  | Cfnw_vault_program 'k
  | Cfnw_token_program 'k
  | Cfnw_event_authority 'k
  | Cfnw_program 'k
  | Cfnw_expected_sequence u64

definition finalize_withdrawal_new :: "(pubkey option finalize_withdrawal_client, u64 option, account_meta) builder" where
  "finalize_withdrawal_new =
     \<lparr>b_accounts = \<lparr>cfnw_queue = None, cfnw_vault_state = None, cfnw_vault_deposit_ata = None,
        cfnw_fee_recipient_account = None, cfnw_escrow_shares = None, cfnw_escrow_assets = None,
        cfnw_share_mint = None, cfnw_deposit_mint = None, cfnw_finalizer = None,
        cfnw_request = None, cfnw_owner = None, cfnw_recipient_token_account = None,
        cfnw_vault_program = None, cfnw_token_program = None, cfnw_event_authority = None,
        cfnw_program = None\<rparr>,
      b_args = None, b_remaining = []\<rparr>"

primrec finalize_withdrawal_set ::
  "'k finalize_withdrawal_setter \<Rightarrow>
   ('k option finalize_withdrawal_client, u64 option, 'r) builder \<Rightarrow>
   ('k option finalize_withdrawal_client, u64 option, 'r) builder"
where
  "finalize_withdrawal_set (Cfnw_queue x) b =
     b\<lparr>b_accounts := (b_accounts b)\<lparr>cfnw_queue := Some x\<rparr>\<rparr>"
| "finalize_withdrawal_set (Cfnw_vault_state x) b =
     b\<lparr>b_accounts := (b_accounts b)\<lparr>cfnw_vault_state := Some x\<rparr>\<rparr>"
| "finalize_withdrawal_set (Cfnw_vault_deposit_ata x) b =
     b\<lparr>b_accounts := (b_accounts b)\<lparr>cfnw_vault_deposit_ata := Some x\<rparr>\<rparr>"
| "finalize_withdrawal_set (Cfnw_fee_recipient_account x) b =
     b\<lparr>b_accounts := (b_accounts b)\<lparr>cfnw_fee_recipient_account := Some x\<rparr>\<rparr>"
| "finalize_withdrawal_set (Cfnw_escrow_shares x) b =
     b\<lparr>b_accounts := (b_accounts b)\<lparr>cfnw_escrow_shares := Some x\<rparr>\<rparr>"
| "finalize_withdrawal_set (Cfnw_escrow_assets x) b =
     b\<lparr>b_accounts := (b_accounts b)\<lparr>cfnw_escrow_assets := Some x\<rparr>\<rparr>"
| "finalize_withdrawal_set (Cfnw_share_mint x) b =
     b\<lparr>b_accounts := (b_accounts b)\<lparr>cfnw_share_mint := Some x\<rparr>\<rparr>"
| "finalize_withdrawal_set (Cfnw_deposit_mint x) b =
     b\<lparr>b_accounts := (b_accounts b)\<lparr>cfnw_deposit_mint := Some x\<rparr>\<rparr>"
| "finalize_withdrawal_set (Cfnw_finalizer x) b =
     b\<lparr>b_accounts := (b_accounts b)\<lparr>cfnw_finalizer := Some x\<rparr>\<rparr>"
| "finalize_withdrawal_set (Cfnw_request x) b =
     b\<lparr>b_accounts := (b_accounts b)\<lparr>cfnw_request := Some x\<rparr>\<rparr>"
| "finalize_withdrawal_set (Cfnw_owner x) b =
     b\<lparr>b_accounts := (b_accounts b)\<lparr>cfnw_owner := Some x\<rparr>\<rparr>"
| "finalize_withdrawal_set (Cfnw_recipient_token_account x) b =
     b\<lparr>b_accounts := (b_accounts b)\<lparr>cfnw_recipient_token_account := Some x\<rparr>\<rparr>"
| "finalize_withdrawal_set (Cfnw_vault_program x) b =
     b\<lparr>b_accounts := (b_accounts b)\<lparr>cfnw_vault_program := Some x\<rparr>\<rparr>"
| "finalize_withdrawal_set (Cfnw_token_program x) b =
     b\<lparr>b_accounts := (b_accounts b)\<lparr>cfnw_token_program := Some x\<rparr>\<rparr>"
| "finalize_withdrawal_set (Cfnw_event_authority x) b =
     b\<lparr>b_accounts := (b_accounts b)\<lparr>cfnw_event_authority := Some x\<rparr>\<rparr>"
| "finalize_withdrawal_set (Cfnw_program x) b =
     b\<lparr>b_accounts := (b_accounts b)\<lparr>cfnw_program := Some x\<rparr>\<rparr>"
| "finalize_withdrawal_set (Cfnw_expected_sequence x) b = b\<lparr>b_args := Some x\<rparr>"

definition finalize_withdrawal_cpi_new ::
  "'i \<Rightarrow> 'i \<times> ('i option finalize_withdrawal_client, u64 option, 'i \<times> bool \<times> bool) builder"
where
  "finalize_withdrawal_cpi_new program =
    (program,
     \<lparr>b_accounts = \<lparr>cfnw_queue = None, cfnw_vault_state = None, cfnw_vault_deposit_ata = None,
        cfnw_fee_recipient_account = None, cfnw_escrow_shares = None, cfnw_escrow_assets = None,
        cfnw_share_mint = None, cfnw_deposit_mint = None, cfnw_finalizer = None,
        cfnw_request = None, cfnw_owner = None, cfnw_recipient_token_account = None,
        cfnw_vault_program = None, cfnw_token_program = None, cfnw_event_authority = None,
        cfnw_program = None\<rparr>,
      b_args = None, b_remaining = []\<rparr>)"

primrec finalize_withdrawal_cpi_set ::
  "'i finalize_withdrawal_setter \<Rightarrow>
   ('i option finalize_withdrawal_client, u64 option, 'i \<times> bool \<times> bool) builder \<Rightarrow>
   ('i option finalize_withdrawal_client, u64 option, 'i \<times> bool \<times> bool) builder"
where
  "finalize_withdrawal_cpi_set (Cfnw_queue x) b =
     b\<lparr>b_accounts := (b_accounts b)\<lparr>cfnw_queue := Some x\<rparr>\<rparr>"
| "finalize_withdrawal_cpi_set (Cfnw_vault_state x) b =
     b\<lparr>b_accounts := (b_accounts b)\<lparr>cfnw_vault_state := Some x\<rparr>\<rparr>"
| "finalize_withdrawal_cpi_set (Cfnw_vault_deposit_ata x) b =
     b\<lparr>b_accounts := (b_accounts b)\<lparr>cfnw_vault_deposit_ata := Some x\<rparr>\<rparr>"
| "finalize_withdrawal_cpi_set (Cfnw_fee_recipient_account x) b =
     b\<lparr>b_accounts := (b_accounts b)\<lparr>cfnw_fee_recipient_account := Some x\<rparr>\<rparr>"
| "finalize_withdrawal_cpi_set (Cfnw_escrow_shares x) b =
     b\<lparr>b_accounts := (b_accounts b)\<lparr>cfnw_escrow_shares := Some x\<rparr>\<rparr>"
| "finalize_withdrawal_cpi_set (Cfnw_escrow_assets x) b =
     b\<lparr>b_accounts := (b_accounts b)\<lparr>cfnw_escrow_assets := Some x\<rparr>\<rparr>"
| "finalize_withdrawal_cpi_set (Cfnw_share_mint x) b =
     b\<lparr>b_accounts := (b_accounts b)\<lparr>cfnw_share_mint := Some x\<rparr>\<rparr>"
| "finalize_withdrawal_cpi_set (Cfnw_deposit_mint x) b =
     b\<lparr>b_accounts := (b_accounts b)\<lparr>cfnw_deposit_mint := Some x\<rparr>\<rparr>"
| "finalize_withdrawal_cpi_set (Cfnw_finalizer x) b =
     b\<lparr>b_accounts := (b_accounts b)\<lparr>cfnw_finalizer := Some x\<rparr>\<rparr>"
| "finalize_withdrawal_cpi_set (Cfnw_request x) b =
     b\<lparr>b_accounts := (b_accounts b)\<lparr>cfnw_request := Some x\<rparr>\<rparr>"
| "finalize_withdrawal_cpi_set (Cfnw_owner x) b =
     b\<lparr>b_accounts := (b_accounts b)\<lparr>cfnw_owner := Some x\<rparr>\<rparr>"
| "finalize_withdrawal_cpi_set (Cfnw_recipient_token_account x) b =
     b\<lparr>b_accounts := (b_accounts b)\<lparr>cfnw_recipient_token_account := Some x\<rparr>\<rparr>"
| "finalize_withdrawal_cpi_set (Cfnw_vault_program x) b =
     b\<lparr>b_accounts := (b_accounts b)\<lparr>cfnw_vault_program := Some x\<rparr>\<rparr>"
| "finalize_withdrawal_cpi_set (Cfnw_token_program x) b =
     b\<lparr>b_accounts := (b_accounts b)\<lparr>cfnw_token_program := Some x\<rparr>\<rparr>"
| "finalize_withdrawal_cpi_set (Cfnw_event_authority x) b =
     b\<lparr>b_accounts := (b_accounts b)\<lparr>cfnw_event_authority := Some x\<rparr>\<rparr>"
| "finalize_withdrawal_cpi_set (Cfnw_program x) b =
     b\<lparr>b_accounts := (b_accounts b)\<lparr>cfnw_program := Some x\<rparr>\<rparr>"
| "finalize_withdrawal_cpi_set (Cfnw_expected_sequence x) b =
     b\<lparr>b_args := Some x\<rparr>"

primrec finalize_withdrawal_slot :: "'k finalize_withdrawal_setter \<Rightarrow> nat" where
  "finalize_withdrawal_slot (Cfnw_queue x) = 0"
| "finalize_withdrawal_slot (Cfnw_vault_state x) = 1"
| "finalize_withdrawal_slot (Cfnw_vault_deposit_ata x) = 2"
| "finalize_withdrawal_slot (Cfnw_fee_recipient_account x) = 3"
| "finalize_withdrawal_slot (Cfnw_escrow_shares x) = 4"
| "finalize_withdrawal_slot (Cfnw_escrow_assets x) = 5"
| "finalize_withdrawal_slot (Cfnw_share_mint x) = 6"
| "finalize_withdrawal_slot (Cfnw_deposit_mint x) = 7"
| "finalize_withdrawal_slot (Cfnw_finalizer x) = 8"
| "finalize_withdrawal_slot (Cfnw_request x) = 9"
| "finalize_withdrawal_slot (Cfnw_owner x) = 10"
| "finalize_withdrawal_slot (Cfnw_recipient_token_account x) = 11"
| "finalize_withdrawal_slot (Cfnw_vault_program x) = 12"
| "finalize_withdrawal_slot (Cfnw_token_program x) = 13"
| "finalize_withdrawal_slot (Cfnw_event_authority x) = 14"
| "finalize_withdrawal_slot (Cfnw_program x) = 15"
| "finalize_withdrawal_slot (Cfnw_expected_sequence x) = 16"

definition finalize_withdrawal_setters :: "'k finalize_withdrawal_client \<Rightarrow> u64 \<Rightarrow> 'k finalize_withdrawal_setter list" where
  "finalize_withdrawal_setters a expected_sequence =
     [Cfnw_queue (cfnw_queue a), Cfnw_vault_state (cfnw_vault_state a),
      Cfnw_vault_deposit_ata (cfnw_vault_deposit_ata a),
      Cfnw_fee_recipient_account (cfnw_fee_recipient_account a),
      Cfnw_escrow_shares (cfnw_escrow_shares a), Cfnw_escrow_assets (cfnw_escrow_assets a),
      Cfnw_share_mint (cfnw_share_mint a), Cfnw_deposit_mint (cfnw_deposit_mint a),
      Cfnw_finalizer (cfnw_finalizer a), Cfnw_request (cfnw_request a), Cfnw_owner (cfnw_owner a),
      Cfnw_recipient_token_account (cfnw_recipient_token_account a),
      Cfnw_vault_program (cfnw_vault_program a), Cfnw_token_program (cfnw_token_program a),
      Cfnw_event_authority (cfnw_event_authority a), Cfnw_program (cfnw_program a),
      Cfnw_expected_sequence expected_sequence]"

definition finalize_withdrawal_slots ::
  "('k option finalize_withdrawal_client, u64 option, 'r) builder \<Rightarrow> 'k finalize_withdrawal_setter option list"
where
  "finalize_withdrawal_slots b =
     [map_option Cfnw_queue (cfnw_queue (b_accounts b)),
      map_option Cfnw_vault_state (cfnw_vault_state (b_accounts b)),
      map_option Cfnw_vault_deposit_ata (cfnw_vault_deposit_ata (b_accounts b)),
      map_option Cfnw_fee_recipient_account (cfnw_fee_recipient_account (b_accounts b)),
      map_option Cfnw_escrow_shares (cfnw_escrow_shares (b_accounts b)),
      map_option Cfnw_escrow_assets (cfnw_escrow_assets (b_accounts b)),
      map_option Cfnw_share_mint (cfnw_share_mint (b_accounts b)),
      map_option Cfnw_deposit_mint (cfnw_deposit_mint (b_accounts b)),
      map_option Cfnw_finalizer (cfnw_finalizer (b_accounts b)),
      map_option Cfnw_request (cfnw_request (b_accounts b)),
      map_option Cfnw_owner (cfnw_owner (b_accounts b)),
      map_option Cfnw_recipient_token_account (cfnw_recipient_token_account (b_accounts b)),
      map_option Cfnw_vault_program (cfnw_vault_program (b_accounts b)),
      map_option Cfnw_token_program (cfnw_token_program (b_accounts b)),
      map_option Cfnw_event_authority (cfnw_event_authority (b_accounts b)),
      map_option Cfnw_program (cfnw_program (b_accounts b)),
      map_option Cfnw_expected_sequence (b_args b)]"

interpretation finalize_withdrawal_fields: field_setters finalize_withdrawal_set finalize_withdrawal_slot finalize_withdrawal_slots b_remaining
proof
  fix s :: "'a finalize_withdrawal_setter" and b b' :: "('a option finalize_withdrawal_client, u64 option, 'b) builder"
  show "finalize_withdrawal_slots (finalize_withdrawal_set s b) = (finalize_withdrawal_slots b)[finalize_withdrawal_slot s := Some s]" "b_remaining (finalize_withdrawal_set s b) = b_remaining b"
    by (cases s; simp add: finalize_withdrawal_slots_def)+
  assume "finalize_withdrawal_slots b = finalize_withdrawal_slots b'" "b_remaining b = b_remaining b'"
  then show "b = b'"
    by (intro builder.equality finalize_withdrawal_client.equality)
      (simp_all add: finalize_withdrawal_slots_def inj_def)
qed

lemma finalize_withdrawal_cpi_set_is: "finalize_withdrawal_cpi_set = finalize_withdrawal_set"
proof (intro ext)
  fix x :: "'i finalize_withdrawal_setter" and b
  show "finalize_withdrawal_cpi_set x b = finalize_withdrawal_set x b" by (cases x) simp_all
qed

lemma finalize_withdrawal_setters_chosen:
  "{..<17} \<subseteq> set order \<Longrightarrow>
   last_write finalize_withdrawal_slot (chosen order (finalize_withdrawal_setters a expected_sequence)) = last_write finalize_withdrawal_slot (finalize_withdrawal_setters a expected_sequence)"
  by (rule last_write_chosen) (auto simp: finalize_withdrawal_setters_def upt_rec)

lemma finalize_withdrawal_built:
  assumes "last_write finalize_withdrawal_slot ss = last_write finalize_withdrawal_slot (finalize_withdrawal_setters a expected_sequence)"
  shows "finalize_withdrawal_build (add_remaining_accounts rem (fold finalize_withdrawal_set ss finalize_withdrawal_new)) =
     Inr (finalize_withdrawal_instruction a expected_sequence rem)"
  unfolding finalize_withdrawal_fields.last_write_decides [OF assms]
  by (simp add: finalize_withdrawal_setters_def finalize_withdrawal_new_def finalize_withdrawal_build_def add_remaining_accounts_def)

lemma finalize_withdrawal_cpi_built:
  assumes "last_write finalize_withdrawal_slot ss = last_write finalize_withdrawal_slot (finalize_withdrawal_setters a expected_sequence)"
  shows "(case finalize_withdrawal_cpi_new program of (program, b) \<Rightarrow>
       finalize_withdrawal_cpi_build key program (cpi_add_remaining_accounts rem (fold finalize_withdrawal_cpi_set ss b)) seeds) =
     Inr (finalize_withdrawal_cpi key program a expected_sequence seeds rem)"
  unfolding finalize_withdrawal_cpi_new_def prod.case finalize_withdrawal_cpi_set_is finalize_withdrawal_fields.last_write_decides [OF assms]
  by (simp add: finalize_withdrawal_setters_def finalize_withdrawal_cpi_build_def cpi_add_remaining_accounts_def)

lemmas finalize_withdrawal_chained = finalize_withdrawal_built [OF finalize_withdrawal_setters_chosen] finalize_withdrawal_cpi_built [OF finalize_withdrawal_setters_chosen]

section \<open>instructions/cancel_withdrawal.rs\<close>

datatype (plugins only: code) (dead 'k) cancel_withdrawal_setter =
    Ccnw_queue 'k
  | Ccnw_owner 'k
  | Ccnw_request 'k
  | Ccnw_escrow_shares 'k
  | Ccnw_share_mint 'k
  | Ccnw_destination_share_account 'k
  | Ccnw_token_program 'k
  | Ccnw_event_authority 'k
  | Ccnw_program 'k
  | Ccnw_expected_sequence u64

definition cancel_withdrawal_new :: "(pubkey option cancel_withdrawal_client, u64 option, account_meta) builder" where
  "cancel_withdrawal_new =
     \<lparr>b_accounts = \<lparr>ccnw_queue = None, ccnw_owner = None, ccnw_request = None, ccnw_escrow_shares = None,
        ccnw_share_mint = None, ccnw_destination_share_account = None, ccnw_token_program = None,
        ccnw_event_authority = None, ccnw_program = None\<rparr>,
      b_args = None, b_remaining = []\<rparr>"

primrec cancel_withdrawal_set ::
  "'k cancel_withdrawal_setter \<Rightarrow>
   ('k option cancel_withdrawal_client, u64 option, 'r) builder \<Rightarrow>
   ('k option cancel_withdrawal_client, u64 option, 'r) builder"
where
  "cancel_withdrawal_set (Ccnw_queue x) b =
     b\<lparr>b_accounts := (b_accounts b)\<lparr>ccnw_queue := Some x\<rparr>\<rparr>"
| "cancel_withdrawal_set (Ccnw_owner x) b =
     b\<lparr>b_accounts := (b_accounts b)\<lparr>ccnw_owner := Some x\<rparr>\<rparr>"
| "cancel_withdrawal_set (Ccnw_request x) b =
     b\<lparr>b_accounts := (b_accounts b)\<lparr>ccnw_request := Some x\<rparr>\<rparr>"
| "cancel_withdrawal_set (Ccnw_escrow_shares x) b =
     b\<lparr>b_accounts := (b_accounts b)\<lparr>ccnw_escrow_shares := Some x\<rparr>\<rparr>"
| "cancel_withdrawal_set (Ccnw_share_mint x) b =
     b\<lparr>b_accounts := (b_accounts b)\<lparr>ccnw_share_mint := Some x\<rparr>\<rparr>"
| "cancel_withdrawal_set (Ccnw_destination_share_account x) b =
     b\<lparr>b_accounts := (b_accounts b)\<lparr>ccnw_destination_share_account := Some x\<rparr>\<rparr>"
| "cancel_withdrawal_set (Ccnw_token_program x) b =
     b\<lparr>b_accounts := (b_accounts b)\<lparr>ccnw_token_program := Some x\<rparr>\<rparr>"
| "cancel_withdrawal_set (Ccnw_event_authority x) b =
     b\<lparr>b_accounts := (b_accounts b)\<lparr>ccnw_event_authority := Some x\<rparr>\<rparr>"
| "cancel_withdrawal_set (Ccnw_program x) b =
     b\<lparr>b_accounts := (b_accounts b)\<lparr>ccnw_program := Some x\<rparr>\<rparr>"
| "cancel_withdrawal_set (Ccnw_expected_sequence x) b = b\<lparr>b_args := Some x\<rparr>"

definition cancel_withdrawal_cpi_new ::
  "'i \<Rightarrow> 'i \<times> ('i option cancel_withdrawal_client, u64 option, 'i \<times> bool \<times> bool) builder"
where
  "cancel_withdrawal_cpi_new program =
    (program,
     \<lparr>b_accounts = \<lparr>ccnw_queue = None, ccnw_owner = None, ccnw_request = None, ccnw_escrow_shares = None,
        ccnw_share_mint = None, ccnw_destination_share_account = None, ccnw_token_program = None,
        ccnw_event_authority = None, ccnw_program = None\<rparr>,
      b_args = None, b_remaining = []\<rparr>)"

primrec cancel_withdrawal_cpi_set ::
  "'i cancel_withdrawal_setter \<Rightarrow>
   ('i option cancel_withdrawal_client, u64 option, 'i \<times> bool \<times> bool) builder \<Rightarrow>
   ('i option cancel_withdrawal_client, u64 option, 'i \<times> bool \<times> bool) builder"
where
  "cancel_withdrawal_cpi_set (Ccnw_queue x) b =
     b\<lparr>b_accounts := (b_accounts b)\<lparr>ccnw_queue := Some x\<rparr>\<rparr>"
| "cancel_withdrawal_cpi_set (Ccnw_owner x) b =
     b\<lparr>b_accounts := (b_accounts b)\<lparr>ccnw_owner := Some x\<rparr>\<rparr>"
| "cancel_withdrawal_cpi_set (Ccnw_request x) b =
     b\<lparr>b_accounts := (b_accounts b)\<lparr>ccnw_request := Some x\<rparr>\<rparr>"
| "cancel_withdrawal_cpi_set (Ccnw_escrow_shares x) b =
     b\<lparr>b_accounts := (b_accounts b)\<lparr>ccnw_escrow_shares := Some x\<rparr>\<rparr>"
| "cancel_withdrawal_cpi_set (Ccnw_share_mint x) b =
     b\<lparr>b_accounts := (b_accounts b)\<lparr>ccnw_share_mint := Some x\<rparr>\<rparr>"
| "cancel_withdrawal_cpi_set (Ccnw_destination_share_account x) b =
     b\<lparr>b_accounts := (b_accounts b)\<lparr>ccnw_destination_share_account := Some x\<rparr>\<rparr>"
| "cancel_withdrawal_cpi_set (Ccnw_token_program x) b =
     b\<lparr>b_accounts := (b_accounts b)\<lparr>ccnw_token_program := Some x\<rparr>\<rparr>"
| "cancel_withdrawal_cpi_set (Ccnw_event_authority x) b =
     b\<lparr>b_accounts := (b_accounts b)\<lparr>ccnw_event_authority := Some x\<rparr>\<rparr>"
| "cancel_withdrawal_cpi_set (Ccnw_program x) b =
     b\<lparr>b_accounts := (b_accounts b)\<lparr>ccnw_program := Some x\<rparr>\<rparr>"
| "cancel_withdrawal_cpi_set (Ccnw_expected_sequence x) b = b\<lparr>b_args := Some x\<rparr>"

primrec cancel_withdrawal_slot :: "'k cancel_withdrawal_setter \<Rightarrow> nat" where
  "cancel_withdrawal_slot (Ccnw_queue x) = 0"
| "cancel_withdrawal_slot (Ccnw_owner x) = 1"
| "cancel_withdrawal_slot (Ccnw_request x) = 2"
| "cancel_withdrawal_slot (Ccnw_escrow_shares x) = 3"
| "cancel_withdrawal_slot (Ccnw_share_mint x) = 4"
| "cancel_withdrawal_slot (Ccnw_destination_share_account x) = 5"
| "cancel_withdrawal_slot (Ccnw_token_program x) = 6"
| "cancel_withdrawal_slot (Ccnw_event_authority x) = 7"
| "cancel_withdrawal_slot (Ccnw_program x) = 8"
| "cancel_withdrawal_slot (Ccnw_expected_sequence x) = 9"

definition cancel_withdrawal_setters :: "'k cancel_withdrawal_client \<Rightarrow> u64 \<Rightarrow> 'k cancel_withdrawal_setter list" where
  "cancel_withdrawal_setters a expected_sequence =
     [Ccnw_queue (ccnw_queue a), Ccnw_owner (ccnw_owner a), Ccnw_request (ccnw_request a),
      Ccnw_escrow_shares (ccnw_escrow_shares a), Ccnw_share_mint (ccnw_share_mint a),
      Ccnw_destination_share_account (ccnw_destination_share_account a),
      Ccnw_token_program (ccnw_token_program a), Ccnw_event_authority (ccnw_event_authority a),
      Ccnw_program (ccnw_program a), Ccnw_expected_sequence expected_sequence]"

definition cancel_withdrawal_slots ::
  "('k option cancel_withdrawal_client, u64 option, 'r) builder \<Rightarrow> 'k cancel_withdrawal_setter option list"
where
  "cancel_withdrawal_slots b =
     [map_option Ccnw_queue (ccnw_queue (b_accounts b)),
      map_option Ccnw_owner (ccnw_owner (b_accounts b)),
      map_option Ccnw_request (ccnw_request (b_accounts b)),
      map_option Ccnw_escrow_shares (ccnw_escrow_shares (b_accounts b)),
      map_option Ccnw_share_mint (ccnw_share_mint (b_accounts b)),
      map_option Ccnw_destination_share_account (ccnw_destination_share_account (b_accounts b)),
      map_option Ccnw_token_program (ccnw_token_program (b_accounts b)),
      map_option Ccnw_event_authority (ccnw_event_authority (b_accounts b)),
      map_option Ccnw_program (ccnw_program (b_accounts b)),
      map_option Ccnw_expected_sequence (b_args b)]"

interpretation cancel_withdrawal_fields: field_setters cancel_withdrawal_set cancel_withdrawal_slot cancel_withdrawal_slots b_remaining
proof
  fix s :: "'a cancel_withdrawal_setter" and b b' :: "('a option cancel_withdrawal_client, u64 option, 'b) builder"
  show "cancel_withdrawal_slots (cancel_withdrawal_set s b) = (cancel_withdrawal_slots b)[cancel_withdrawal_slot s := Some s]" "b_remaining (cancel_withdrawal_set s b) = b_remaining b"
    by (cases s; simp add: cancel_withdrawal_slots_def)+
  assume "cancel_withdrawal_slots b = cancel_withdrawal_slots b'" "b_remaining b = b_remaining b'"
  then show "b = b'"
    by (intro builder.equality cancel_withdrawal_client.equality)
      (simp_all add: cancel_withdrawal_slots_def inj_def)
qed

lemma cancel_withdrawal_cpi_set_is: "cancel_withdrawal_cpi_set = cancel_withdrawal_set"
proof (intro ext)
  fix x :: "'i cancel_withdrawal_setter" and b
  show "cancel_withdrawal_cpi_set x b = cancel_withdrawal_set x b" by (cases x) simp_all
qed

lemma cancel_withdrawal_setters_chosen:
  "{..<17} \<subseteq> set order \<Longrightarrow>
   last_write cancel_withdrawal_slot (chosen order (cancel_withdrawal_setters a expected_sequence)) = last_write cancel_withdrawal_slot (cancel_withdrawal_setters a expected_sequence)"
  by (rule last_write_chosen) (auto simp: cancel_withdrawal_setters_def upt_rec)

lemma cancel_withdrawal_built:
  assumes "last_write cancel_withdrawal_slot ss = last_write cancel_withdrawal_slot (cancel_withdrawal_setters a expected_sequence)"
  shows "cancel_withdrawal_build (add_remaining_accounts rem (fold cancel_withdrawal_set ss cancel_withdrawal_new)) =
     Inr (cancel_withdrawal_instruction a expected_sequence rem)"
  unfolding cancel_withdrawal_fields.last_write_decides [OF assms]
  by (simp add: cancel_withdrawal_setters_def cancel_withdrawal_new_def cancel_withdrawal_build_def add_remaining_accounts_def)

lemma cancel_withdrawal_cpi_built:
  assumes "last_write cancel_withdrawal_slot ss = last_write cancel_withdrawal_slot (cancel_withdrawal_setters a expected_sequence)"
  shows "(case cancel_withdrawal_cpi_new program of (program, b) \<Rightarrow>
       cancel_withdrawal_cpi_build key program (cpi_add_remaining_accounts rem (fold cancel_withdrawal_cpi_set ss b)) seeds) =
     Inr (cancel_withdrawal_cpi key program a expected_sequence seeds rem)"
  unfolding cancel_withdrawal_cpi_new_def prod.case cancel_withdrawal_cpi_set_is cancel_withdrawal_fields.last_write_decides [OF assms]
  by (simp add: cancel_withdrawal_setters_def cancel_withdrawal_cpi_build_def cpi_add_remaining_accounts_def)

lemmas cancel_withdrawal_chained = cancel_withdrawal_built [OF cancel_withdrawal_setters_chosen] cancel_withdrawal_cpi_built [OF cancel_withdrawal_setters_chosen]

section \<open>instructions/release_vault.rs\<close>

datatype (plugins only: code) (dead 'k) release_vault_setter =
    Crlv_queue 'k
  | Crlv_vault_state 'k
  | Crlv_deposit_mint 'k
  | Crlv_admin 'k
  | Crlv_vault_program 'k
  | Crlv_event_authority 'k
  | Crlv_program 'k

definition release_vault_new :: "(pubkey option release_vault_client, unit, account_meta) builder" where
  "release_vault_new =
     \<lparr>b_accounts = \<lparr>crlv_queue = None, crlv_vault_state = None, crlv_deposit_mint = None, crlv_admin = None,
        crlv_vault_program = None, crlv_event_authority = None, crlv_program = None\<rparr>,
      b_args = (), b_remaining = []\<rparr>"

primrec release_vault_set ::
  "'k release_vault_setter \<Rightarrow>
   ('k option release_vault_client, unit, 'r) builder \<Rightarrow>
   ('k option release_vault_client, unit, 'r) builder"
where
  "release_vault_set (Crlv_queue x) b =
     b\<lparr>b_accounts := (b_accounts b)\<lparr>crlv_queue := Some x\<rparr>\<rparr>"
| "release_vault_set (Crlv_vault_state x) b =
     b\<lparr>b_accounts := (b_accounts b)\<lparr>crlv_vault_state := Some x\<rparr>\<rparr>"
| "release_vault_set (Crlv_deposit_mint x) b =
     b\<lparr>b_accounts := (b_accounts b)\<lparr>crlv_deposit_mint := Some x\<rparr>\<rparr>"
| "release_vault_set (Crlv_admin x) b =
     b\<lparr>b_accounts := (b_accounts b)\<lparr>crlv_admin := Some x\<rparr>\<rparr>"
| "release_vault_set (Crlv_vault_program x) b =
     b\<lparr>b_accounts := (b_accounts b)\<lparr>crlv_vault_program := Some x\<rparr>\<rparr>"
| "release_vault_set (Crlv_event_authority x) b =
     b\<lparr>b_accounts := (b_accounts b)\<lparr>crlv_event_authority := Some x\<rparr>\<rparr>"
| "release_vault_set (Crlv_program x) b =
     b\<lparr>b_accounts := (b_accounts b)\<lparr>crlv_program := Some x\<rparr>\<rparr>"

definition release_vault_cpi_new ::
  "'i \<Rightarrow> 'i \<times> ('i option release_vault_client, unit, 'i \<times> bool \<times> bool) builder"
where
  "release_vault_cpi_new program =
    (program,
     \<lparr>b_accounts = \<lparr>crlv_queue = None, crlv_vault_state = None, crlv_deposit_mint = None, crlv_admin = None,
        crlv_vault_program = None, crlv_event_authority = None, crlv_program = None\<rparr>,
      b_args = (), b_remaining = []\<rparr>)"

primrec release_vault_cpi_set ::
  "'i release_vault_setter \<Rightarrow>
   ('i option release_vault_client, unit, 'i \<times> bool \<times> bool) builder \<Rightarrow>
   ('i option release_vault_client, unit, 'i \<times> bool \<times> bool) builder"
where
  "release_vault_cpi_set (Crlv_queue x) b =
     b\<lparr>b_accounts := (b_accounts b)\<lparr>crlv_queue := Some x\<rparr>\<rparr>"
| "release_vault_cpi_set (Crlv_vault_state x) b =
     b\<lparr>b_accounts := (b_accounts b)\<lparr>crlv_vault_state := Some x\<rparr>\<rparr>"
| "release_vault_cpi_set (Crlv_deposit_mint x) b =
     b\<lparr>b_accounts := (b_accounts b)\<lparr>crlv_deposit_mint := Some x\<rparr>\<rparr>"
| "release_vault_cpi_set (Crlv_admin x) b =
     b\<lparr>b_accounts := (b_accounts b)\<lparr>crlv_admin := Some x\<rparr>\<rparr>"
| "release_vault_cpi_set (Crlv_vault_program x) b =
     b\<lparr>b_accounts := (b_accounts b)\<lparr>crlv_vault_program := Some x\<rparr>\<rparr>"
| "release_vault_cpi_set (Crlv_event_authority x) b =
     b\<lparr>b_accounts := (b_accounts b)\<lparr>crlv_event_authority := Some x\<rparr>\<rparr>"
| "release_vault_cpi_set (Crlv_program x) b =
     b\<lparr>b_accounts := (b_accounts b)\<lparr>crlv_program := Some x\<rparr>\<rparr>"

primrec release_vault_slot :: "'k release_vault_setter \<Rightarrow> nat" where
  "release_vault_slot (Crlv_queue x) = 0"
| "release_vault_slot (Crlv_vault_state x) = 1"
| "release_vault_slot (Crlv_deposit_mint x) = 2"
| "release_vault_slot (Crlv_admin x) = 3"
| "release_vault_slot (Crlv_vault_program x) = 4"
| "release_vault_slot (Crlv_event_authority x) = 5"
| "release_vault_slot (Crlv_program x) = 6"

definition release_vault_setters :: "'k release_vault_client \<Rightarrow> 'k release_vault_setter list" where
  "release_vault_setters a =
     [Crlv_queue (crlv_queue a), Crlv_vault_state (crlv_vault_state a),
      Crlv_deposit_mint (crlv_deposit_mint a), Crlv_admin (crlv_admin a),
      Crlv_vault_program (crlv_vault_program a), Crlv_event_authority (crlv_event_authority a),
      Crlv_program (crlv_program a)]"

definition release_vault_slots ::
  "('k option release_vault_client, unit, 'r) builder \<Rightarrow> 'k release_vault_setter option list"
where
  "release_vault_slots b =
     [map_option Crlv_queue (crlv_queue (b_accounts b)),
      map_option Crlv_vault_state (crlv_vault_state (b_accounts b)),
      map_option Crlv_deposit_mint (crlv_deposit_mint (b_accounts b)),
      map_option Crlv_admin (crlv_admin (b_accounts b)),
      map_option Crlv_vault_program (crlv_vault_program (b_accounts b)),
      map_option Crlv_event_authority (crlv_event_authority (b_accounts b)),
      map_option Crlv_program (crlv_program (b_accounts b))]"

interpretation release_vault_fields: field_setters release_vault_set release_vault_slot release_vault_slots b_remaining
proof
  fix s :: "'a release_vault_setter" and b b' :: "('a option release_vault_client, unit, 'b) builder"
  show "release_vault_slots (release_vault_set s b) = (release_vault_slots b)[release_vault_slot s := Some s]" "b_remaining (release_vault_set s b) = b_remaining b"
    by (cases s; simp add: release_vault_slots_def)+
  assume "release_vault_slots b = release_vault_slots b'" "b_remaining b = b_remaining b'"
  then show "b = b'"
    by (intro builder.equality release_vault_client.equality)
      (simp_all add: release_vault_slots_def inj_def)
qed

lemma release_vault_cpi_set_is: "release_vault_cpi_set = release_vault_set"
proof (intro ext)
  fix x :: "'i release_vault_setter" and b
  show "release_vault_cpi_set x b = release_vault_set x b" by (cases x) simp_all
qed

lemma release_vault_setters_chosen:
  "{..<17} \<subseteq> set order \<Longrightarrow>
   last_write release_vault_slot (chosen order (release_vault_setters a)) = last_write release_vault_slot (release_vault_setters a)"
  by (rule last_write_chosen) (auto simp: release_vault_setters_def upt_rec)

lemma release_vault_built:
  assumes "last_write release_vault_slot ss = last_write release_vault_slot (release_vault_setters a)"
  shows "release_vault_build (add_remaining_accounts rem (fold release_vault_set ss release_vault_new)) =
     Inr (release_vault_instruction a rem)"
  unfolding release_vault_fields.last_write_decides [OF assms]
  by (simp add: release_vault_setters_def release_vault_new_def release_vault_build_def add_remaining_accounts_def)

lemma release_vault_cpi_built:
  assumes "last_write release_vault_slot ss = last_write release_vault_slot (release_vault_setters a)"
  shows "(case release_vault_cpi_new program of (program, b) \<Rightarrow>
       release_vault_cpi_build key program (cpi_add_remaining_accounts rem (fold release_vault_cpi_set ss b)) seeds) =
     Inr (release_vault_cpi key program a seeds rem)"
  unfolding release_vault_cpi_new_def prod.case release_vault_cpi_set_is release_vault_fields.last_write_decides [OF assms]
  by (simp add: release_vault_setters_def release_vault_cpi_build_def cpi_add_remaining_accounts_def)

lemmas release_vault_chained = release_vault_built [OF release_vault_setters_chosen] release_vault_cpi_built [OF release_vault_setters_chosen]

section \<open>instructions/sweep_escrow_shares.rs\<close>

datatype (plugins only: code) (dead 'k) sweep_escrow_shares_setter =
    Csws_queue 'k
  | Csws_vault_state 'k
  | Csws_admin 'k
  | Csws_escrow_shares 'k
  | Csws_share_mint 'k
  | Csws_destination 'k
  | Csws_token_program 'k
  | Csws_event_authority 'k
  | Csws_program 'k

definition sweep_escrow_shares_new :: "(pubkey option sweep_escrow_shares_client, unit, account_meta) builder" where
  "sweep_escrow_shares_new =
     \<lparr>b_accounts = \<lparr>csws_queue = None, csws_vault_state = None, csws_admin = None, csws_escrow_shares = None,
        csws_share_mint = None, csws_destination = None, csws_token_program = None,
        csws_event_authority = None, csws_program = None\<rparr>,
      b_args = (), b_remaining = []\<rparr>"

primrec sweep_escrow_shares_set ::
  "'k sweep_escrow_shares_setter \<Rightarrow>
   ('k option sweep_escrow_shares_client, unit, 'r) builder \<Rightarrow>
   ('k option sweep_escrow_shares_client, unit, 'r) builder"
where
  "sweep_escrow_shares_set (Csws_queue x) b =
     b\<lparr>b_accounts := (b_accounts b)\<lparr>csws_queue := Some x\<rparr>\<rparr>"
| "sweep_escrow_shares_set (Csws_vault_state x) b =
     b\<lparr>b_accounts := (b_accounts b)\<lparr>csws_vault_state := Some x\<rparr>\<rparr>"
| "sweep_escrow_shares_set (Csws_admin x) b =
     b\<lparr>b_accounts := (b_accounts b)\<lparr>csws_admin := Some x\<rparr>\<rparr>"
| "sweep_escrow_shares_set (Csws_escrow_shares x) b =
     b\<lparr>b_accounts := (b_accounts b)\<lparr>csws_escrow_shares := Some x\<rparr>\<rparr>"
| "sweep_escrow_shares_set (Csws_share_mint x) b =
     b\<lparr>b_accounts := (b_accounts b)\<lparr>csws_share_mint := Some x\<rparr>\<rparr>"
| "sweep_escrow_shares_set (Csws_destination x) b =
     b\<lparr>b_accounts := (b_accounts b)\<lparr>csws_destination := Some x\<rparr>\<rparr>"
| "sweep_escrow_shares_set (Csws_token_program x) b =
     b\<lparr>b_accounts := (b_accounts b)\<lparr>csws_token_program := Some x\<rparr>\<rparr>"
| "sweep_escrow_shares_set (Csws_event_authority x) b =
     b\<lparr>b_accounts := (b_accounts b)\<lparr>csws_event_authority := Some x\<rparr>\<rparr>"
| "sweep_escrow_shares_set (Csws_program x) b =
     b\<lparr>b_accounts := (b_accounts b)\<lparr>csws_program := Some x\<rparr>\<rparr>"

definition sweep_escrow_shares_cpi_new ::
  "'i \<Rightarrow> 'i \<times> ('i option sweep_escrow_shares_client, unit, 'i \<times> bool \<times> bool) builder"
where
  "sweep_escrow_shares_cpi_new program =
    (program,
     \<lparr>b_accounts = \<lparr>csws_queue = None, csws_vault_state = None, csws_admin = None, csws_escrow_shares = None,
        csws_share_mint = None, csws_destination = None, csws_token_program = None,
        csws_event_authority = None, csws_program = None\<rparr>,
      b_args = (), b_remaining = []\<rparr>)"

primrec sweep_escrow_shares_cpi_set ::
  "'i sweep_escrow_shares_setter \<Rightarrow>
   ('i option sweep_escrow_shares_client, unit, 'i \<times> bool \<times> bool) builder \<Rightarrow>
   ('i option sweep_escrow_shares_client, unit, 'i \<times> bool \<times> bool) builder"
where
  "sweep_escrow_shares_cpi_set (Csws_queue x) b =
     b\<lparr>b_accounts := (b_accounts b)\<lparr>csws_queue := Some x\<rparr>\<rparr>"
| "sweep_escrow_shares_cpi_set (Csws_vault_state x) b =
     b\<lparr>b_accounts := (b_accounts b)\<lparr>csws_vault_state := Some x\<rparr>\<rparr>"
| "sweep_escrow_shares_cpi_set (Csws_admin x) b =
     b\<lparr>b_accounts := (b_accounts b)\<lparr>csws_admin := Some x\<rparr>\<rparr>"
| "sweep_escrow_shares_cpi_set (Csws_escrow_shares x) b =
     b\<lparr>b_accounts := (b_accounts b)\<lparr>csws_escrow_shares := Some x\<rparr>\<rparr>"
| "sweep_escrow_shares_cpi_set (Csws_share_mint x) b =
     b\<lparr>b_accounts := (b_accounts b)\<lparr>csws_share_mint := Some x\<rparr>\<rparr>"
| "sweep_escrow_shares_cpi_set (Csws_destination x) b =
     b\<lparr>b_accounts := (b_accounts b)\<lparr>csws_destination := Some x\<rparr>\<rparr>"
| "sweep_escrow_shares_cpi_set (Csws_token_program x) b =
     b\<lparr>b_accounts := (b_accounts b)\<lparr>csws_token_program := Some x\<rparr>\<rparr>"
| "sweep_escrow_shares_cpi_set (Csws_event_authority x) b =
     b\<lparr>b_accounts := (b_accounts b)\<lparr>csws_event_authority := Some x\<rparr>\<rparr>"
| "sweep_escrow_shares_cpi_set (Csws_program x) b =
     b\<lparr>b_accounts := (b_accounts b)\<lparr>csws_program := Some x\<rparr>\<rparr>"

primrec sweep_escrow_shares_slot :: "'k sweep_escrow_shares_setter \<Rightarrow> nat" where
  "sweep_escrow_shares_slot (Csws_queue x) = 0"
| "sweep_escrow_shares_slot (Csws_vault_state x) = 1"
| "sweep_escrow_shares_slot (Csws_admin x) = 2"
| "sweep_escrow_shares_slot (Csws_escrow_shares x) = 3"
| "sweep_escrow_shares_slot (Csws_share_mint x) = 4"
| "sweep_escrow_shares_slot (Csws_destination x) = 5"
| "sweep_escrow_shares_slot (Csws_token_program x) = 6"
| "sweep_escrow_shares_slot (Csws_event_authority x) = 7"
| "sweep_escrow_shares_slot (Csws_program x) = 8"

definition sweep_escrow_shares_setters :: "'k sweep_escrow_shares_client \<Rightarrow> 'k sweep_escrow_shares_setter list" where
  "sweep_escrow_shares_setters a =
     [Csws_queue (csws_queue a), Csws_vault_state (csws_vault_state a), Csws_admin (csws_admin a),
      Csws_escrow_shares (csws_escrow_shares a), Csws_share_mint (csws_share_mint a),
      Csws_destination (csws_destination a), Csws_token_program (csws_token_program a),
      Csws_event_authority (csws_event_authority a), Csws_program (csws_program a)]"

definition sweep_escrow_shares_slots ::
  "('k option sweep_escrow_shares_client, unit, 'r) builder \<Rightarrow> 'k sweep_escrow_shares_setter option list"
where
  "sweep_escrow_shares_slots b =
     [map_option Csws_queue (csws_queue (b_accounts b)),
      map_option Csws_vault_state (csws_vault_state (b_accounts b)),
      map_option Csws_admin (csws_admin (b_accounts b)),
      map_option Csws_escrow_shares (csws_escrow_shares (b_accounts b)),
      map_option Csws_share_mint (csws_share_mint (b_accounts b)),
      map_option Csws_destination (csws_destination (b_accounts b)),
      map_option Csws_token_program (csws_token_program (b_accounts b)),
      map_option Csws_event_authority (csws_event_authority (b_accounts b)),
      map_option Csws_program (csws_program (b_accounts b))]"

interpretation sweep_escrow_shares_fields: field_setters sweep_escrow_shares_set sweep_escrow_shares_slot sweep_escrow_shares_slots b_remaining
proof
  fix s :: "'a sweep_escrow_shares_setter" and b b' :: "('a option sweep_escrow_shares_client, unit, 'b) builder"
  show "sweep_escrow_shares_slots (sweep_escrow_shares_set s b) = (sweep_escrow_shares_slots b)[sweep_escrow_shares_slot s := Some s]" "b_remaining (sweep_escrow_shares_set s b) = b_remaining b"
    by (cases s; simp add: sweep_escrow_shares_slots_def)+
  assume "sweep_escrow_shares_slots b = sweep_escrow_shares_slots b'" "b_remaining b = b_remaining b'"
  then show "b = b'"
    by (intro builder.equality sweep_escrow_shares_client.equality)
      (simp_all add: sweep_escrow_shares_slots_def inj_def)
qed

lemma sweep_escrow_shares_cpi_set_is: "sweep_escrow_shares_cpi_set = sweep_escrow_shares_set"
proof (intro ext)
  fix x :: "'i sweep_escrow_shares_setter" and b
  show "sweep_escrow_shares_cpi_set x b = sweep_escrow_shares_set x b" by (cases x) simp_all
qed

lemma sweep_escrow_shares_setters_chosen:
  "{..<17} \<subseteq> set order \<Longrightarrow>
   last_write sweep_escrow_shares_slot (chosen order (sweep_escrow_shares_setters a)) = last_write sweep_escrow_shares_slot (sweep_escrow_shares_setters a)"
  by (rule last_write_chosen) (auto simp: sweep_escrow_shares_setters_def upt_rec)

lemma sweep_escrow_shares_built:
  assumes "last_write sweep_escrow_shares_slot ss = last_write sweep_escrow_shares_slot (sweep_escrow_shares_setters a)"
  shows "sweep_escrow_shares_build (add_remaining_accounts rem (fold sweep_escrow_shares_set ss sweep_escrow_shares_new)) =
     Inr (sweep_escrow_shares_instruction a rem)"
  unfolding sweep_escrow_shares_fields.last_write_decides [OF assms]
  by (simp add: sweep_escrow_shares_setters_def sweep_escrow_shares_new_def sweep_escrow_shares_build_def add_remaining_accounts_def)

lemma sweep_escrow_shares_cpi_built:
  assumes "last_write sweep_escrow_shares_slot ss = last_write sweep_escrow_shares_slot (sweep_escrow_shares_setters a)"
  shows "(case sweep_escrow_shares_cpi_new program of (program, b) \<Rightarrow>
       sweep_escrow_shares_cpi_build key program (cpi_add_remaining_accounts rem (fold sweep_escrow_shares_cpi_set ss b)) seeds) =
     Inr (sweep_escrow_shares_cpi key program a seeds rem)"
  unfolding sweep_escrow_shares_cpi_new_def prod.case sweep_escrow_shares_cpi_set_is sweep_escrow_shares_fields.last_write_decides [OF assms]
  by (simp add: sweep_escrow_shares_setters_def sweep_escrow_shares_cpi_build_def cpi_add_remaining_accounts_def)

lemmas sweep_escrow_shares_chained = sweep_escrow_shares_built [OF sweep_escrow_shares_setters_chosen] sweep_escrow_shares_cpi_built [OF sweep_escrow_shares_setters_chosen]

section \<open>instructions/expedite_request.rs\<close>

datatype (plugins only: code) (dead 'k) expedite_request_setter =
    Cxpr_queue 'k
  | Cxpr_vault_state 'k
  | Cxpr_authority 'k
  | Cxpr_request 'k
  | Cxpr_event_authority 'k
  | Cxpr_program 'k
  | Cxpr_expected_sequence u64

definition expedite_request_new :: "(pubkey option expedite_request_client, u64 option, account_meta) builder" where
  "expedite_request_new =
     \<lparr>b_accounts = \<lparr>cxpr_queue = None, cxpr_vault_state = None, cxpr_authority = None, cxpr_request = None,
        cxpr_event_authority = None, cxpr_program = None\<rparr>,
      b_args = None, b_remaining = []\<rparr>"

primrec expedite_request_set ::
  "'k expedite_request_setter \<Rightarrow>
   ('k option expedite_request_client, u64 option, 'r) builder \<Rightarrow>
   ('k option expedite_request_client, u64 option, 'r) builder"
where
  "expedite_request_set (Cxpr_queue x) b =
     b\<lparr>b_accounts := (b_accounts b)\<lparr>cxpr_queue := Some x\<rparr>\<rparr>"
| "expedite_request_set (Cxpr_vault_state x) b =
     b\<lparr>b_accounts := (b_accounts b)\<lparr>cxpr_vault_state := Some x\<rparr>\<rparr>"
| "expedite_request_set (Cxpr_authority x) b =
     b\<lparr>b_accounts := (b_accounts b)\<lparr>cxpr_authority := Some x\<rparr>\<rparr>"
| "expedite_request_set (Cxpr_request x) b =
     b\<lparr>b_accounts := (b_accounts b)\<lparr>cxpr_request := Some x\<rparr>\<rparr>"
| "expedite_request_set (Cxpr_event_authority x) b =
     b\<lparr>b_accounts := (b_accounts b)\<lparr>cxpr_event_authority := Some x\<rparr>\<rparr>"
| "expedite_request_set (Cxpr_program x) b =
     b\<lparr>b_accounts := (b_accounts b)\<lparr>cxpr_program := Some x\<rparr>\<rparr>"
| "expedite_request_set (Cxpr_expected_sequence x) b = b\<lparr>b_args := Some x\<rparr>"

definition expedite_request_cpi_new ::
  "'i \<Rightarrow> 'i \<times> ('i option expedite_request_client, u64 option, 'i \<times> bool \<times> bool) builder"
where
  "expedite_request_cpi_new program =
    (program,
     \<lparr>b_accounts = \<lparr>cxpr_queue = None, cxpr_vault_state = None, cxpr_authority = None, cxpr_request = None,
        cxpr_event_authority = None, cxpr_program = None\<rparr>,
      b_args = None, b_remaining = []\<rparr>)"

primrec expedite_request_cpi_set ::
  "'i expedite_request_setter \<Rightarrow>
   ('i option expedite_request_client, u64 option, 'i \<times> bool \<times> bool) builder \<Rightarrow>
   ('i option expedite_request_client, u64 option, 'i \<times> bool \<times> bool) builder"
where
  "expedite_request_cpi_set (Cxpr_queue x) b =
     b\<lparr>b_accounts := (b_accounts b)\<lparr>cxpr_queue := Some x\<rparr>\<rparr>"
| "expedite_request_cpi_set (Cxpr_vault_state x) b =
     b\<lparr>b_accounts := (b_accounts b)\<lparr>cxpr_vault_state := Some x\<rparr>\<rparr>"
| "expedite_request_cpi_set (Cxpr_authority x) b =
     b\<lparr>b_accounts := (b_accounts b)\<lparr>cxpr_authority := Some x\<rparr>\<rparr>"
| "expedite_request_cpi_set (Cxpr_request x) b =
     b\<lparr>b_accounts := (b_accounts b)\<lparr>cxpr_request := Some x\<rparr>\<rparr>"
| "expedite_request_cpi_set (Cxpr_event_authority x) b =
     b\<lparr>b_accounts := (b_accounts b)\<lparr>cxpr_event_authority := Some x\<rparr>\<rparr>"
| "expedite_request_cpi_set (Cxpr_program x) b =
     b\<lparr>b_accounts := (b_accounts b)\<lparr>cxpr_program := Some x\<rparr>\<rparr>"
| "expedite_request_cpi_set (Cxpr_expected_sequence x) b = b\<lparr>b_args := Some x\<rparr>"

primrec expedite_request_slot :: "'k expedite_request_setter \<Rightarrow> nat" where
  "expedite_request_slot (Cxpr_queue x) = 0"
| "expedite_request_slot (Cxpr_vault_state x) = 1"
| "expedite_request_slot (Cxpr_authority x) = 2"
| "expedite_request_slot (Cxpr_request x) = 3"
| "expedite_request_slot (Cxpr_event_authority x) = 4"
| "expedite_request_slot (Cxpr_program x) = 5"
| "expedite_request_slot (Cxpr_expected_sequence x) = 6"

definition expedite_request_setters :: "'k expedite_request_client \<Rightarrow> u64 \<Rightarrow> 'k expedite_request_setter list" where
  "expedite_request_setters a expected_sequence =
     [Cxpr_queue (cxpr_queue a), Cxpr_vault_state (cxpr_vault_state a),
      Cxpr_authority (cxpr_authority a), Cxpr_request (cxpr_request a),
      Cxpr_event_authority (cxpr_event_authority a), Cxpr_program (cxpr_program a),
      Cxpr_expected_sequence expected_sequence]"

definition expedite_request_slots ::
  "('k option expedite_request_client, u64 option, 'r) builder \<Rightarrow> 'k expedite_request_setter option list"
where
  "expedite_request_slots b =
     [map_option Cxpr_queue (cxpr_queue (b_accounts b)),
      map_option Cxpr_vault_state (cxpr_vault_state (b_accounts b)),
      map_option Cxpr_authority (cxpr_authority (b_accounts b)),
      map_option Cxpr_request (cxpr_request (b_accounts b)),
      map_option Cxpr_event_authority (cxpr_event_authority (b_accounts b)),
      map_option Cxpr_program (cxpr_program (b_accounts b)),
      map_option Cxpr_expected_sequence (b_args b)]"

interpretation expedite_request_fields: field_setters expedite_request_set expedite_request_slot expedite_request_slots b_remaining
proof
  fix s :: "'a expedite_request_setter" and b b' :: "('a option expedite_request_client, u64 option, 'b) builder"
  show "expedite_request_slots (expedite_request_set s b) = (expedite_request_slots b)[expedite_request_slot s := Some s]" "b_remaining (expedite_request_set s b) = b_remaining b"
    by (cases s; simp add: expedite_request_slots_def)+
  assume "expedite_request_slots b = expedite_request_slots b'" "b_remaining b = b_remaining b'"
  then show "b = b'"
    by (intro builder.equality expedite_request_client.equality)
      (simp_all add: expedite_request_slots_def inj_def)
qed

lemma expedite_request_cpi_set_is: "expedite_request_cpi_set = expedite_request_set"
proof (intro ext)
  fix x :: "'i expedite_request_setter" and b
  show "expedite_request_cpi_set x b = expedite_request_set x b" by (cases x) simp_all
qed

lemma expedite_request_setters_chosen:
  "{..<17} \<subseteq> set order \<Longrightarrow>
   last_write expedite_request_slot (chosen order (expedite_request_setters a expected_sequence)) = last_write expedite_request_slot (expedite_request_setters a expected_sequence)"
  by (rule last_write_chosen) (auto simp: expedite_request_setters_def upt_rec)

lemma expedite_request_built:
  assumes "last_write expedite_request_slot ss = last_write expedite_request_slot (expedite_request_setters a expected_sequence)"
  shows "expedite_request_build (add_remaining_accounts rem (fold expedite_request_set ss expedite_request_new)) =
     Inr (expedite_request_instruction a expected_sequence rem)"
  unfolding expedite_request_fields.last_write_decides [OF assms]
  by (simp add: expedite_request_setters_def expedite_request_new_def expedite_request_build_def add_remaining_accounts_def)

lemma expedite_request_cpi_built:
  assumes "last_write expedite_request_slot ss = last_write expedite_request_slot (expedite_request_setters a expected_sequence)"
  shows "(case expedite_request_cpi_new program of (program, b) \<Rightarrow>
       expedite_request_cpi_build key program (cpi_add_remaining_accounts rem (fold expedite_request_cpi_set ss b)) seeds) =
     Inr (expedite_request_cpi key program a expected_sequence seeds rem)"
  unfolding expedite_request_cpi_new_def prod.case expedite_request_cpi_set_is expedite_request_fields.last_write_decides [OF assms]
  by (simp add: expedite_request_setters_def expedite_request_cpi_build_def cpi_add_remaining_accounts_def)

lemmas expedite_request_chained = expedite_request_built [OF expedite_request_setters_chosen] expedite_request_cpi_built [OF expedite_request_setters_chosen]

end
