(* ===== verification/ClientBuilders.thy ===== *)
theory ClientBuilders
  imports SettersUser SettersAdmin SettersSetup SettersQueue ClientLayers
begin

text \<open>
  Every instruction of both clients built the way callers build it: \<open>new\<close>, the setters of its fields
  in any order and as often as they like, the remaining accounts, then \<open>instruction\<close> or
  \<open>invoke_signed\<close>.
\<close>

section \<open>Building by chains of setters\<close>

primrec vault_chained :: "nat list \<Rightarrow> pubkey vault_call \<Rightarrow> account_meta list \<Rightarrow> client_instruction client_result" where
  "vault_chained order (CallInitializeConfig a authority) remaining_accounts =
     initialize_config_build (add_remaining_accounts remaining_accounts
       (fold initialize_config_set (chosen order (initialize_config_setters a authority)) initialize_config_new))"
| "vault_chained order (CallSetConfigAuthority a new_authority) remaining_accounts =
     set_config_authority_build (add_remaining_accounts remaining_accounts
       (fold set_config_authority_set (chosen order (set_config_authority_setters a new_authority)) set_config_authority_new))"
| "vault_chained order (CallOverrideConfigAuthority a new_authority) remaining_accounts =
     override_config_authority_build (add_remaining_accounts remaining_accounts
       (fold override_config_authority_set (chosen order (override_config_authority_setters a new_authority)) override_config_authority_new))"
| "vault_chained order (CallInitialize a admin operator fee_recipient vault_version offset) remaining_accounts =
     initialize_build (add_remaining_accounts remaining_accounts
       (fold initialize_set (chosen order (initialize_setters a admin operator fee_recipient vault_version offset)) initialize_new))"
| "vault_chained order (CallDeposit a amount) remaining_accounts =
     deposit_build (add_remaining_accounts remaining_accounts
       (fold deposit_set (chosen order (deposit_setters a amount)) deposit_new))"
| "vault_chained order (CallDepositChecked a amount min_shares_out) remaining_accounts =
     deposit_checked_build (add_remaining_accounts remaining_accounts
       (fold deposit_checked_set (chosen order (deposit_checked_setters a amount min_shares_out)) deposit_checked_new))"
| "vault_chained order (CallRedeem a shares) remaining_accounts =
     redeem_build (add_remaining_accounts remaining_accounts
       (fold redeem_set (chosen order (redeem_setters a shares)) redeem_new))"
| "vault_chained order (CallRedeemChecked a shares min_assets_out) remaining_accounts =
     redeem_checked_build (add_remaining_accounts remaining_accounts
       (fold redeem_checked_set (chosen order (redeem_checked_setters a shares min_assets_out)) redeem_checked_new))"
| "vault_chained order (CallOperatorWithdraw a amount) remaining_accounts =
     operator_withdraw_build (add_remaining_accounts remaining_accounts
       (fold operator_withdraw_set (chosen order (operator_withdraw_setters a amount)) operator_withdraw_new))"
| "vault_chained order (CallOperatorDeposit a amount) remaining_accounts =
     operator_deposit_build (add_remaining_accounts remaining_accounts
       (fold operator_deposit_set (chosen order (operator_deposit_setters a amount)) operator_deposit_new))"
| "vault_chained order (CallOperatorUpdateAum a new_aum) remaining_accounts =
     operator_update_aum_build (add_remaining_accounts remaining_accounts
       (fold operator_update_aum_set (chosen order (operator_update_aum_setters a new_aum)) operator_update_aum_new))"
| "vault_chained order (CallRegisterSubaccount a address) remaining_accounts =
     register_subaccount_build (add_remaining_accounts remaining_accounts
       (fold register_subaccount_set (chosen order (register_subaccount_setters a address)) register_subaccount_new))"
| "vault_chained order (CallSettleSubaccountLoss a amount) remaining_accounts =
     settle_subaccount_loss_build (add_remaining_accounts remaining_accounts
       (fold settle_subaccount_loss_set (chosen order (settle_subaccount_loss_setters a amount)) settle_subaccount_loss_new))"
| "vault_chained order (CallDeregisterSubaccount a) remaining_accounts =
     deregister_subaccount_build (add_remaining_accounts remaining_accounts
       (fold deregister_subaccount_set (chosen order (deregister_subaccount_setters a)) deregister_subaccount_new))"
| "vault_chained order (CallSetWithdrawalFee a new_fee) remaining_accounts =
     set_withdrawal_fee_build (add_remaining_accounts remaining_accounts
       (fold set_withdrawal_fee_set (chosen order (set_withdrawal_fee_setters a new_fee)) set_withdrawal_fee_new))"
| "vault_chained order (CallNominateAdmin a new_admin) remaining_accounts =
     nominate_admin_build (add_remaining_accounts remaining_accounts
       (fold nominate_admin_set (chosen order (nominate_admin_setters a new_admin)) nominate_admin_new))"
| "vault_chained order (CallAcceptAdminNomination a) remaining_accounts =
     accept_admin_nomination_build (add_remaining_accounts remaining_accounts
       (fold accept_admin_nomination_set (chosen order (accept_admin_nomination_setters a)) accept_admin_nomination_new))"
| "vault_chained order (CallSetOperator a new_operator) remaining_accounts =
     set_operator_build (add_remaining_accounts remaining_accounts
       (fold set_operator_set (chosen order (set_operator_setters a new_operator)) set_operator_new))"
| "vault_chained order (CallSetFeeRecipient a new_fee_recipient) remaining_accounts =
     set_fee_recipient_build (add_remaining_accounts remaining_accounts
       (fold set_fee_recipient_set (chosen order (set_fee_recipient_setters a new_fee_recipient)) set_fee_recipient_new))"
| "vault_chained order (CallSetAumLimits a increase_limit decrease_limit) remaining_accounts =
     set_aum_limits_build (add_remaining_accounts remaining_accounts
       (fold set_aum_limits_set (chosen order (set_aum_limits_setters a increase_limit decrease_limit)) set_aum_limits_new))"
| "vault_chained order (CallAttachWithdrawalQueue a) remaining_accounts =
     attach_withdrawal_queue_build (add_remaining_accounts remaining_accounts
       (fold attach_withdrawal_queue_set (chosen order (attach_withdrawal_queue_setters a)) attach_withdrawal_queue_new))"
| "vault_chained order (CallDetachWithdrawalQueue a) remaining_accounts =
     detach_withdrawal_queue_build (add_remaining_accounts remaining_accounts
       (fold detach_withdrawal_queue_set (chosen order (detach_withdrawal_queue_setters a)) detach_withdrawal_queue_new))"
| "vault_chained order (CallPause a) remaining_accounts =
     pause_build (add_remaining_accounts remaining_accounts
       (fold pause_set (chosen order (pause_setters a)) pause_new))"
| "vault_chained order (CallUnpause a) remaining_accounts =
     unpause_build (add_remaining_accounts remaining_accounts
       (fold unpause_set (chosen order (unpause_setters a)) unpause_new))"
| "vault_chained order (CallCloseVault a) remaining_accounts =
     close_vault_build (add_remaining_accounts remaining_accounts
       (fold close_vault_set (chosen order (close_vault_setters a)) close_vault_new))"
| "vault_chained order (CallCreateShareTokenMetadata a name symbol uri) remaining_accounts =
     create_share_token_metadata_build (add_remaining_accounts remaining_accounts
       (fold create_share_token_metadata_set (chosen order (create_share_token_metadata_setters a name symbol uri)) create_share_token_metadata_new))"
| "vault_chained order (CallUpdateShareTokenMetadata a name symbol uri) remaining_accounts =
     update_share_token_metadata_build (add_remaining_accounts remaining_accounts
       (fold update_share_token_metadata_set (chosen order (update_share_token_metadata_setters a name symbol uri)) update_share_token_metadata_new))"

primrec vault_cpi_chained :: "nat list \<Rightarrow> ('i \<Rightarrow> pubkey) \<Rightarrow> 'i \<Rightarrow> 'i vault_call \<Rightarrow> u8 list list list \<Rightarrow>
    ('i \<times> bool \<times> bool) list \<Rightarrow> 'i cpi_call client_result" where
  "vault_cpi_chained order key program (CallInitializeConfig a authority) seeds remaining_accounts =
     (case initialize_config_cpi_new program of (program, b) \<Rightarrow>
        initialize_config_cpi_build key program (cpi_add_remaining_accounts remaining_accounts
          (fold initialize_config_cpi_set (chosen order (initialize_config_setters a authority)) b)) seeds)"
| "vault_cpi_chained order key program (CallSetConfigAuthority a new_authority) seeds remaining_accounts =
     (case set_config_authority_cpi_new program of (program, b) \<Rightarrow>
        set_config_authority_cpi_build key program (cpi_add_remaining_accounts remaining_accounts
          (fold set_config_authority_cpi_set (chosen order (set_config_authority_setters a new_authority)) b)) seeds)"
| "vault_cpi_chained order key program (CallOverrideConfigAuthority a new_authority) seeds remaining_accounts =
     (case override_config_authority_cpi_new program of (program, b) \<Rightarrow>
        override_config_authority_cpi_build key program (cpi_add_remaining_accounts remaining_accounts
          (fold override_config_authority_cpi_set (chosen order (override_config_authority_setters a new_authority)) b)) seeds)"
| "vault_cpi_chained order key program (CallInitialize a admin operator fee_recipient vault_version offset) seeds remaining_accounts =
     (case initialize_cpi_new program of (program, b) \<Rightarrow>
        initialize_cpi_build key program (cpi_add_remaining_accounts remaining_accounts
          (fold initialize_cpi_set (chosen order (initialize_setters a admin operator fee_recipient vault_version offset)) b)) seeds)"
| "vault_cpi_chained order key program (CallDeposit a amount) seeds remaining_accounts =
     (case deposit_cpi_new program of (program, b) \<Rightarrow>
        deposit_cpi_build key program (cpi_add_remaining_accounts remaining_accounts
          (fold deposit_cpi_set (chosen order (deposit_setters a amount)) b)) seeds)"
| "vault_cpi_chained order key program (CallDepositChecked a amount min_shares_out) seeds remaining_accounts =
     (case deposit_checked_cpi_new program of (program, b) \<Rightarrow>
        deposit_checked_cpi_build key program (cpi_add_remaining_accounts remaining_accounts
          (fold deposit_checked_cpi_set (chosen order (deposit_checked_setters a amount min_shares_out)) b)) seeds)"
| "vault_cpi_chained order key program (CallRedeem a shares) seeds remaining_accounts =
     (case redeem_cpi_new program of (program, b) \<Rightarrow>
        redeem_cpi_build key program (cpi_add_remaining_accounts remaining_accounts
          (fold redeem_cpi_set (chosen order (redeem_setters a shares)) b)) seeds)"
| "vault_cpi_chained order key program (CallRedeemChecked a shares min_assets_out) seeds remaining_accounts =
     (case redeem_checked_cpi_new program of (program, b) \<Rightarrow>
        redeem_checked_cpi_build key program (cpi_add_remaining_accounts remaining_accounts
          (fold redeem_checked_cpi_set (chosen order (redeem_checked_setters a shares min_assets_out)) b)) seeds)"
| "vault_cpi_chained order key program (CallOperatorWithdraw a amount) seeds remaining_accounts =
     (case operator_withdraw_cpi_new program of (program, b) \<Rightarrow>
        operator_withdraw_cpi_build key program (cpi_add_remaining_accounts remaining_accounts
          (fold operator_withdraw_cpi_set (chosen order (operator_withdraw_setters a amount)) b)) seeds)"
| "vault_cpi_chained order key program (CallOperatorDeposit a amount) seeds remaining_accounts =
     (case operator_deposit_cpi_new program of (program, b) \<Rightarrow>
        operator_deposit_cpi_build key program (cpi_add_remaining_accounts remaining_accounts
          (fold operator_deposit_cpi_set (chosen order (operator_deposit_setters a amount)) b)) seeds)"
| "vault_cpi_chained order key program (CallOperatorUpdateAum a new_aum) seeds remaining_accounts =
     (case operator_update_aum_cpi_new program of (program, b) \<Rightarrow>
        operator_update_aum_cpi_build key program (cpi_add_remaining_accounts remaining_accounts
          (fold operator_update_aum_cpi_set (chosen order (operator_update_aum_setters a new_aum)) b)) seeds)"
| "vault_cpi_chained order key program (CallRegisterSubaccount a address) seeds remaining_accounts =
     (case register_subaccount_cpi_new program of (program, b) \<Rightarrow>
        register_subaccount_cpi_build key program (cpi_add_remaining_accounts remaining_accounts
          (fold register_subaccount_cpi_set (chosen order (register_subaccount_setters a address)) b)) seeds)"
| "vault_cpi_chained order key program (CallSettleSubaccountLoss a amount) seeds remaining_accounts =
     (case settle_subaccount_loss_cpi_new program of (program, b) \<Rightarrow>
        settle_subaccount_loss_cpi_build key program (cpi_add_remaining_accounts remaining_accounts
          (fold settle_subaccount_loss_cpi_set (chosen order (settle_subaccount_loss_setters a amount)) b)) seeds)"
| "vault_cpi_chained order key program (CallDeregisterSubaccount a) seeds remaining_accounts =
     (case deregister_subaccount_cpi_new program of (program, b) \<Rightarrow>
        deregister_subaccount_cpi_build key program (cpi_add_remaining_accounts remaining_accounts
          (fold deregister_subaccount_cpi_set (chosen order (deregister_subaccount_setters a)) b)) seeds)"
| "vault_cpi_chained order key program (CallSetWithdrawalFee a new_fee) seeds remaining_accounts =
     (case set_withdrawal_fee_cpi_new program of (program, b) \<Rightarrow>
        set_withdrawal_fee_cpi_build key program (cpi_add_remaining_accounts remaining_accounts
          (fold set_withdrawal_fee_cpi_set (chosen order (set_withdrawal_fee_setters a new_fee)) b)) seeds)"
| "vault_cpi_chained order key program (CallNominateAdmin a new_admin) seeds remaining_accounts =
     (case nominate_admin_cpi_new program of (program, b) \<Rightarrow>
        nominate_admin_cpi_build key program (cpi_add_remaining_accounts remaining_accounts
          (fold nominate_admin_cpi_set (chosen order (nominate_admin_setters a new_admin)) b)) seeds)"
| "vault_cpi_chained order key program (CallAcceptAdminNomination a) seeds remaining_accounts =
     (case accept_admin_nomination_cpi_new program of (program, b) \<Rightarrow>
        accept_admin_nomination_cpi_build key program (cpi_add_remaining_accounts remaining_accounts
          (fold accept_admin_nomination_cpi_set (chosen order (accept_admin_nomination_setters a)) b)) seeds)"
| "vault_cpi_chained order key program (CallSetOperator a new_operator) seeds remaining_accounts =
     (case set_operator_cpi_new program of (program, b) \<Rightarrow>
        set_operator_cpi_build key program (cpi_add_remaining_accounts remaining_accounts
          (fold set_operator_cpi_set (chosen order (set_operator_setters a new_operator)) b)) seeds)"
| "vault_cpi_chained order key program (CallSetFeeRecipient a new_fee_recipient) seeds remaining_accounts =
     (case set_fee_recipient_cpi_new program of (program, b) \<Rightarrow>
        set_fee_recipient_cpi_build key program (cpi_add_remaining_accounts remaining_accounts
          (fold set_fee_recipient_cpi_set (chosen order (set_fee_recipient_setters a new_fee_recipient)) b)) seeds)"
| "vault_cpi_chained order key program (CallSetAumLimits a increase_limit decrease_limit) seeds remaining_accounts =
     (case set_aum_limits_cpi_new program of (program, b) \<Rightarrow>
        set_aum_limits_cpi_build key program (cpi_add_remaining_accounts remaining_accounts
          (fold set_aum_limits_cpi_set (chosen order (set_aum_limits_setters a increase_limit decrease_limit)) b)) seeds)"
| "vault_cpi_chained order key program (CallAttachWithdrawalQueue a) seeds remaining_accounts =
     (case attach_withdrawal_queue_cpi_new program of (program, b) \<Rightarrow>
        attach_withdrawal_queue_cpi_build key program (cpi_add_remaining_accounts remaining_accounts
          (fold attach_withdrawal_queue_cpi_set (chosen order (attach_withdrawal_queue_setters a)) b)) seeds)"
| "vault_cpi_chained order key program (CallDetachWithdrawalQueue a) seeds remaining_accounts =
     (case detach_withdrawal_queue_cpi_new program of (program, b) \<Rightarrow>
        detach_withdrawal_queue_cpi_build key program (cpi_add_remaining_accounts remaining_accounts
          (fold detach_withdrawal_queue_cpi_set (chosen order (detach_withdrawal_queue_setters a)) b)) seeds)"
| "vault_cpi_chained order key program (CallPause a) seeds remaining_accounts =
     (case pause_cpi_new program of (program, b) \<Rightarrow>
        pause_cpi_build key program (cpi_add_remaining_accounts remaining_accounts
          (fold pause_cpi_set (chosen order (pause_setters a)) b)) seeds)"
| "vault_cpi_chained order key program (CallUnpause a) seeds remaining_accounts =
     (case unpause_cpi_new program of (program, b) \<Rightarrow>
        unpause_cpi_build key program (cpi_add_remaining_accounts remaining_accounts
          (fold unpause_cpi_set (chosen order (unpause_setters a)) b)) seeds)"
| "vault_cpi_chained order key program (CallCloseVault a) seeds remaining_accounts =
     (case close_vault_cpi_new program of (program, b) \<Rightarrow>
        close_vault_cpi_build key program (cpi_add_remaining_accounts remaining_accounts
          (fold close_vault_cpi_set (chosen order (close_vault_setters a)) b)) seeds)"
| "vault_cpi_chained order key program (CallCreateShareTokenMetadata a name symbol uri) seeds remaining_accounts =
     (case create_share_token_metadata_cpi_new program of (program, b) \<Rightarrow>
        create_share_token_metadata_cpi_build key program (cpi_add_remaining_accounts remaining_accounts
          (fold create_share_token_metadata_cpi_set (chosen order (create_share_token_metadata_setters a name symbol uri)) b)) seeds)"
| "vault_cpi_chained order key program (CallUpdateShareTokenMetadata a name symbol uri) seeds remaining_accounts =
     (case update_share_token_metadata_cpi_new program of (program, b) \<Rightarrow>
        update_share_token_metadata_cpi_build key program (cpi_add_remaining_accounts remaining_accounts
          (fold update_share_token_metadata_cpi_set (chosen order (update_share_token_metadata_setters a name symbol uri)) b)) seeds)"

lemmas vault_chains =
  initialize_config_chained set_config_authority_chained override_config_authority_chained
  initialize_chained deposit_chained deposit_checked_chained redeem_chained redeem_checked_chained
  operator_withdraw_chained operator_deposit_chained operator_update_aum_chained
  register_subaccount_chained settle_subaccount_loss_chained deregister_subaccount_chained
  set_withdrawal_fee_chained nominate_admin_chained accept_admin_nomination_chained
  set_operator_chained set_fee_recipient_chained set_aum_limits_chained
  attach_withdrawal_queue_chained detach_withdrawal_queue_chained pause_chained unpause_chained
  close_vault_chained create_share_token_metadata_chained update_share_token_metadata_chained

primrec queue_chained :: "nat list \<Rightarrow> pubkey queue_call \<Rightarrow> account_meta list \<Rightarrow> client_instruction client_result" where
  "queue_chained order (CallInitializeQueue a cooldown_seconds) remaining_accounts =
     initialize_queue_build (add_remaining_accounts remaining_accounts
       (fold initialize_queue_set (chosen order (initialize_queue_setters a cooldown_seconds)) initialize_queue_new))"
| "queue_chained order (CallSetCooldown a seconds) remaining_accounts =
     set_cooldown_build (add_remaining_accounts remaining_accounts
       (fold set_cooldown_set (chosen order (set_cooldown_setters a seconds)) set_cooldown_new))"
| "queue_chained order (CallSetFulfillmentWindow a seconds) remaining_accounts =
     set_fulfillment_window_build (add_remaining_accounts remaining_accounts
       (fold set_fulfillment_window_set (chosen order (set_fulfillment_window_setters a seconds)) set_fulfillment_window_new))"
| "queue_chained order (CallRequestWithdrawal a request_id shares min_assets_out finalizer) remaining_accounts =
     request_withdrawal_build (add_remaining_accounts remaining_accounts
       (fold request_withdrawal_set (chosen order (request_withdrawal_setters a request_id shares min_assets_out finalizer)) request_withdrawal_new))"
| "queue_chained order (CallFinalizeWithdrawal a expected_sequence) remaining_accounts =
     finalize_withdrawal_build (add_remaining_accounts remaining_accounts
       (fold finalize_withdrawal_set (chosen order (finalize_withdrawal_setters a expected_sequence)) finalize_withdrawal_new))"
| "queue_chained order (CallCancelWithdrawal a expected_sequence) remaining_accounts =
     cancel_withdrawal_build (add_remaining_accounts remaining_accounts
       (fold cancel_withdrawal_set (chosen order (cancel_withdrawal_setters a expected_sequence)) cancel_withdrawal_new))"
| "queue_chained order (CallReleaseVault a) remaining_accounts =
     release_vault_build (add_remaining_accounts remaining_accounts
       (fold release_vault_set (chosen order (release_vault_setters a)) release_vault_new))"
| "queue_chained order (CallSweepEscrowShares a) remaining_accounts =
     sweep_escrow_shares_build (add_remaining_accounts remaining_accounts
       (fold sweep_escrow_shares_set (chosen order (sweep_escrow_shares_setters a)) sweep_escrow_shares_new))"
| "queue_chained order (CallExpediteRequest a expected_sequence) remaining_accounts =
     expedite_request_build (add_remaining_accounts remaining_accounts
       (fold expedite_request_set (chosen order (expedite_request_setters a expected_sequence)) expedite_request_new))"

primrec queue_cpi_chained :: "nat list \<Rightarrow> ('i \<Rightarrow> pubkey) \<Rightarrow> 'i \<Rightarrow> 'i queue_call \<Rightarrow> u8 list list list \<Rightarrow>
    ('i \<times> bool \<times> bool) list \<Rightarrow> 'i cpi_call client_result" where
  "queue_cpi_chained order key program (CallInitializeQueue a cooldown_seconds) seeds remaining_accounts =
     (case initialize_queue_cpi_new program of (program, b) \<Rightarrow>
        initialize_queue_cpi_build key program (cpi_add_remaining_accounts remaining_accounts
          (fold initialize_queue_cpi_set (chosen order (initialize_queue_setters a cooldown_seconds)) b)) seeds)"
| "queue_cpi_chained order key program (CallSetCooldown a seconds) seeds remaining_accounts =
     (case set_cooldown_cpi_new program of (program, b) \<Rightarrow>
        set_cooldown_cpi_build key program (cpi_add_remaining_accounts remaining_accounts
          (fold set_cooldown_cpi_set (chosen order (set_cooldown_setters a seconds)) b)) seeds)"
| "queue_cpi_chained order key program (CallSetFulfillmentWindow a seconds) seeds remaining_accounts =
     (case set_fulfillment_window_cpi_new program of (program, b) \<Rightarrow>
        set_fulfillment_window_cpi_build key program (cpi_add_remaining_accounts remaining_accounts
          (fold set_fulfillment_window_cpi_set (chosen order (set_fulfillment_window_setters a seconds)) b)) seeds)"
| "queue_cpi_chained order key program (CallRequestWithdrawal a request_id shares min_assets_out finalizer) seeds remaining_accounts =
     (case request_withdrawal_cpi_new program of (program, b) \<Rightarrow>
        request_withdrawal_cpi_build key program (cpi_add_remaining_accounts remaining_accounts
          (fold request_withdrawal_cpi_set (chosen order (request_withdrawal_setters a request_id shares min_assets_out finalizer)) b)) seeds)"
| "queue_cpi_chained order key program (CallFinalizeWithdrawal a expected_sequence) seeds remaining_accounts =
     (case finalize_withdrawal_cpi_new program of (program, b) \<Rightarrow>
        finalize_withdrawal_cpi_build key program (cpi_add_remaining_accounts remaining_accounts
          (fold finalize_withdrawal_cpi_set (chosen order (finalize_withdrawal_setters a expected_sequence)) b)) seeds)"
| "queue_cpi_chained order key program (CallCancelWithdrawal a expected_sequence) seeds remaining_accounts =
     (case cancel_withdrawal_cpi_new program of (program, b) \<Rightarrow>
        cancel_withdrawal_cpi_build key program (cpi_add_remaining_accounts remaining_accounts
          (fold cancel_withdrawal_cpi_set (chosen order (cancel_withdrawal_setters a expected_sequence)) b)) seeds)"
| "queue_cpi_chained order key program (CallReleaseVault a) seeds remaining_accounts =
     (case release_vault_cpi_new program of (program, b) \<Rightarrow>
        release_vault_cpi_build key program (cpi_add_remaining_accounts remaining_accounts
          (fold release_vault_cpi_set (chosen order (release_vault_setters a)) b)) seeds)"
| "queue_cpi_chained order key program (CallSweepEscrowShares a) seeds remaining_accounts =
     (case sweep_escrow_shares_cpi_new program of (program, b) \<Rightarrow>
        sweep_escrow_shares_cpi_build key program (cpi_add_remaining_accounts remaining_accounts
          (fold sweep_escrow_shares_cpi_set (chosen order (sweep_escrow_shares_setters a)) b)) seeds)"
| "queue_cpi_chained order key program (CallExpediteRequest a expected_sequence) seeds remaining_accounts =
     (case expedite_request_cpi_new program of (program, b) \<Rightarrow>
        expedite_request_cpi_build key program (cpi_add_remaining_accounts remaining_accounts
          (fold expedite_request_cpi_set (chosen order (expedite_request_setters a expected_sequence)) b)) seeds)"

lemmas queue_chains =
  initialize_queue_chained set_cooldown_chained set_fulfillment_window_chained
  request_withdrawal_chained finalize_withdrawal_chained cancel_withdrawal_chained
  release_vault_chained sweep_escrow_shares_chained expedite_request_chained

section \<open>A chain makes what the struct makes\<close>

lemma vault_chained_direct:
  "{..<17} \<subseteq> set order \<Longrightarrow> vault_chained order c remaining = vault_direct c remaining"
  by (cases c) (simp_all add: vault_chains)

lemma vault_cpi_chained_cpi:
  "{..<17} \<subseteq> set order \<Longrightarrow>
   vault_cpi_chained order key program i seeds rs = vault_cpi key program i seeds rs"
  by (cases i) (simp_all add: vault_chains)

lemma queue_chained_direct:
  "{..<17} \<subseteq> set order \<Longrightarrow> queue_chained order c remaining = queue_direct c remaining"
  by (cases c) (simp_all add: queue_chains)

lemma queue_cpi_chained_cpi:
  "{..<17} \<subseteq> set order \<Longrightarrow>
   queue_cpi_chained order key program i seeds rs = queue_cpi key program i seeds rs"
  by (cases i) (simp_all add: queue_chains)

text \<open>
  The meta the documents of \<open>add_remaining_accounts\<close> give a triple of a CPI: the account, whether it is
  writable, whether it is a signer. The code reads the two flags the other way round, which makes no
  difference where they are equal.
\<close>

definition documented_meta :: "('i \<Rightarrow> pubkey) \<Rightarrow> 'i \<times> bool \<times> bool \<Rightarrow> account_meta" where
  "documented_meta key remaining_account =
     \<lparr>am_pubkey = key (fst remaining_account), am_is_signer = snd (snd remaining_account),
      am_is_writable = fst (snd remaining_account)\<rparr>"

lemma documented_metas:
  "\<forall>x\<in>set rs. fst (snd x) = snd (snd x) \<Longrightarrow> map (cpi_meta key) rs = map (documented_meta key) rs"
  by (simp add: cpi_meta_def documented_meta_def)

text \<open>
  C16. For every instruction of both clients the four layers make the same instruction: a builder made
  with \<open>new\<close> and given each account and argument at least once, in any order, builds what the struct
  builds; the CPI builder made the same way makes the CPI struct's call; and the instruction inside
  that call is the struct's over the accounts' addresses, followed by the remaining accounts as they
  are documented, provided each remaining account of the CPI is both writable and a signer or
  neither: for the others the code exchanges the two flags.
\<close>

theorem client_builders_agree:
  assumes "{..<17} \<subseteq> set order" and "\<forall>x\<in>set rs. fst (snd x) = snd (snd x)"
  shows "vault_chained order c remaining = vault_direct c remaining \<and>
   vault_cpi_chained order key program i seeds rs = vault_cpi key program i seeds rs \<and>
   map_sum id call_instruction (vault_cpi key program i seeds rs) =
     vault_direct (vault_call_map key i) (map (documented_meta key) rs) \<and>
   queue_chained order d remaining = queue_direct d remaining \<and>
   queue_cpi_chained order key program j seeds rs = queue_cpi key program j seeds rs \<and>
   map_sum id call_instruction (queue_cpi key program j seeds rs) =
     queue_direct (queue_call_map key j) (map (documented_meta key) rs)"
  unfolding documented_metas [OF assms(2), symmetric] using assms(1)
  by (simp add: vault_chained_direct vault_cpi_chained_cpi vault_cpi_instruction
      queue_chained_direct queue_cpi_chained_cpi queue_cpi_instruction)

definition ex_cancel_client :: "pubkey cancel_withdrawal_client" where
  "ex_cancel_client =
     \<lparr>ccnw_queue = 1, ccnw_owner = 2, ccnw_request = 3, ccnw_escrow_shares = 4,
      ccnw_share_mint = 5, ccnw_destination_share_account = 6, ccnw_token_program = 7,
      ccnw_event_authority = 8, ccnw_program = 9\<rparr>"

theorem client_builders_agree_witness:
  "vault_chained (rev [0..<17]) (CallOperatorWithdraw ex_withdraw_call 10) [] =
     vault_direct (CallOperatorWithdraw ex_withdraw_call 10) [] \<and>
   map_sum id call_instruction
     (vault_cpi_chained (rev [0..<17]) id VAULT_PROGRAM_ID (CallOperatorWithdraw ex_withdraw_call 10) []
       [(41, True, True), (42, False, False)]) =
     vault_direct (vault_call_map id (CallOperatorWithdraw ex_withdraw_call 10))
       [\<lparr>am_pubkey = 41, am_is_signer = True, am_is_writable = True\<rparr>,
        \<lparr>am_pubkey = 42, am_is_signer = False, am_is_writable = False\<rparr>] \<and>
   queue_chained (rev [0..<17]) (CallCancelWithdrawal ex_cancel_client 1) [] =
     queue_direct (CallCancelWithdrawal ex_cancel_client 1) []"
proof -
  let ?rs = "[(41, True, True), (42, False, False)]"
  have "{..<17} \<subseteq> set (rev [0..<17])" and "\<forall>x\<in>set ?rs. fst (snd x) = snd (snd x)" by auto
  note agree = client_builders_agree [OF this, where c = "CallOperatorWithdraw ex_withdraw_call 10"
      and d = "CallCancelWithdrawal ex_cancel_client 1" and remaining = "[]"
      and key = "id :: pubkey \<Rightarrow> pubkey" and program = VAULT_PROGRAM_ID and seeds = "[]"
      and i = "CallOperatorWithdraw ex_withdraw_call 10" and j = "CallCancelWithdrawal ex_cancel_client 1"]
  have metas: "map (documented_meta id) ?rs =
      [\<lparr>am_pubkey = 41, am_is_signer = True, am_is_writable = True\<rparr>,
       \<lparr>am_pubkey = 42, am_is_signer = False, am_is_writable = False\<rparr>]"
    by (simp add: documented_meta_def)
  show ?thesis using agree unfolding metas by metis
qed

end
