(* ===== verification/ClientErrors.thy ===== *)
theory ClientErrors
  imports Errors
begin

text \<open>
  The error enums of the two generated clients (\<open>generated/errors\<close>), whose discriminants are written
  out in the file, against the codes the programs return: Anchor's offset of 6000 plus the variant's
  position. The variants carry the same names, so the program's types serve for both. The messages
  are not modelled.
\<close>

datatype program_error = Custom u32

section \<open>generated/errors/august_vault.rs\<close>

primrec client_vault_error_code :: "vault_error \<Rightarrow> u32" where
  "client_vault_error_code NotOperator = 0x1770"
| "client_vault_error_code ZeroAmount = 0x1771"
| "client_vault_error_code InsufficientAmount = 0x1772"
| "client_vault_error_code AumIncreaseTooBig = 0x1773"
| "client_vault_error_code AumDecreaseTooBig = 0x1774"
| "client_vault_error_code WithdrawalFeeTooHigh = 0x1775"
| "client_vault_error_code AumLimitTooHigh = 0x1776"
| "client_vault_error_code NotAdmin = 0x1777"
| "client_vault_error_code VaultPaused = 0x1778"
| "client_vault_error_code InvalidNominatedAdmin = 0x1779"
| "client_vault_error_code NominationExpired = 0x177a"
| "client_vault_error_code MathError = 0x177b"
| "client_vault_error_code NumberOverflow = 0x177c"
| "client_vault_error_code NotEnoughLiquidity = 0x177d"
| "client_vault_error_code UnauthorizedAdmin = 0x177e"
| "client_vault_error_code VaultNotEmpty = 0x177f"
| "client_vault_error_code NotProtocolAuthority = 0x1780"
| "client_vault_error_code InvalidAuthority = 0x1781"
| "client_vault_error_code SlippageExceeded = 0x1782"
| "client_vault_error_code SharePriceUndefined = 0x1783"
| "client_vault_error_code InvalidShareOffset = 0x1784"
| "client_vault_error_code WithdrawalQueueRequired = 0x1785"
| "client_vault_error_code InvalidWithdrawalQueueAuthority = 0x1786"
| "client_vault_error_code WrongWithdrawalQueueSigner = 0x1787"
| "client_vault_error_code WithdrawalQueueAlreadyAttached = 0x1788"
| "client_vault_error_code WithdrawalQueueNotAttached = 0x1789"
| "client_vault_error_code InvalidSubaccount = 0x178a"
| "client_vault_error_code SubaccountDelegationMissing = 0x178b"
| "client_vault_error_code SubaccountNotEmpty = 0x178c"
| "client_vault_error_code LossExceedsShortfall = 0x178d"

text \<open>The derived \<open>FromPrimitive::from_u32\<close>.\<close>

definition client_vault_error_of :: "u32 \<Rightarrow> vault_error option" where
  "client_vault_error_of n = find (\<lambda>e. client_vault_error_code e = n) vault_errors"

definition client_vault_error_program_error :: "vault_error \<Rightarrow> program_error" where
  "client_vault_error_program_error e = Custom (client_vault_error_code e)"

section \<open>generated/errors/august_withdrawal_queue.rs\<close>

primrec client_queue_error_code :: "queue_error \<Rightarrow> u32" where
  "client_queue_error_code NotVaultAdmin = 0x1770"
| "client_queue_error_code QueueMathError = 0x1771"
| "client_queue_error_code VaultMismatch = 0x1772"
| "client_queue_error_code CooldownOutOfBounds = 0x1773"
| "client_queue_error_code FulfillmentWindowOutOfBounds = 0x1774"
| "client_queue_error_code QueueNotActiveOnVault = 0x1775"
| "client_queue_error_code UnsupportedDepositMint = 0x1776"
| "client_queue_error_code ZeroShares = 0x1777"
| "client_queue_error_code InvalidRecipient = 0x1778"
| "client_queue_error_code NotRequestOwner = 0x1779"
| "client_queue_error_code RequestExpired = 0x177a"
| "client_queue_error_code StaleRequestSequence = 0x177b"
| "client_queue_error_code CooldownNotElapsed = 0x177c"
| "client_queue_error_code FinalizerNotAllowed = 0x177d"
| "client_queue_error_code NotVaultAdminOrOperator = 0x177e"
| "client_queue_error_code RequestAlreadyEligible = 0x177f"
| "client_queue_error_code UnsupportedShareMint = 0x1780"
| "client_queue_error_code NothingToSweep = 0x1781"
| "client_queue_error_code InvalidSweepDestination = 0x1782"
| "client_queue_error_code PayoutBelowFloor = 0x1783"

text \<open>The derived \<open>FromPrimitive::from_u32\<close>.\<close>

definition client_queue_error_of :: "u32 \<Rightarrow> queue_error option" where
  "client_queue_error_of n = find (\<lambda>e. client_queue_error_code e = n) queue_errors"

definition client_queue_error_program_error :: "queue_error \<Rightarrow> program_error" where
  "client_queue_error_program_error e = Custom (client_queue_error_code e)"

section \<open>One code, one error\<close>

lemma client_vault_code: "unat (client_vault_error_code e) = vault_error_code e"
  by (cases e) (simp_all add: vault_error_code_def ANCHOR_USER_ERROR_OFFSET_def)

lemma client_queue_code: "unat (client_queue_error_code e) = queue_error_code e"
  by (cases e) (simp_all add: queue_error_code_def ANCHOR_USER_ERROR_OFFSET_def)

lemma find_inverse:
  assumes "inj f" and "e \<in> set es"
  shows "find (\<lambda>e'. f e' = f e) es = Some e"
  using assms by (induction es) (auto dest: injD)

lemma client_vault_code_inj: "inj client_vault_error_code"
  by (rule injI) (metis client_vault_code vault_error_code_def vault_error_index(2) add_right_cancel)

lemma client_queue_code_inj: "inj client_queue_error_code"
  by (rule injI) (metis client_queue_code queue_error_code_def queue_error_index(2) add_right_cancel)

text \<open>
  C40. A client reads a failed transaction's code as the error the program meant: both clients carry the
  programs' codes, and reading a code back gives its one error.
\<close>

theorem client_errors_agree:
  "unat (client_vault_error_code e) = vault_error_code e \<and>
   client_vault_error_of (client_vault_error_code e) = Some e \<and>
   unat (client_queue_error_code d) = queue_error_code d \<and>
   client_queue_error_of (client_queue_error_code d) = Some d"
  by (simp add: client_vault_code client_queue_code client_vault_error_of_def client_queue_error_of_def
      find_inverse client_vault_code_inj client_queue_code_inj vault_errors_complete queue_errors_complete)

end
