(* ===== verification/Spec2Isabelle.thy ===== *)
theory Spec2Isabelle
  imports Rates Registry Exits Indexer Wire ClientBuilders ClientErrors
begin

text \<open>
  The August vault programs, \<open>august_vault\<close> and \<open>august_withdrawal_queue\<close>, their Rust clients, and
  what is true of every run of the two programs together.

  \<^bold>\<open>The system.\<close> A vault takes deposits of one mint and issues shares of another, whose only minter it
  is. Its reserve holds what the operator has not taken out; \<open>local_aum\<close> and \<open>deployed_aum\<close> are what
  it prices shares by. An admin sets fees and limits and registers the custody addresses an operator
  may pay; a protocol authority creates vaults. A vault can be gated by its withdrawal queue, a
  second program: then only the queue's derived address redeems. A holder escrows shares there with a
  cooldown, and finalizing a request redeems them through the vault by CPI and pays the recipient.
  Both programs move tokens only through the SPL token programs. Off chain, two generated clients
  build the instructions and read the accounts.

  \<^bold>\<open>The theories\<close> (paths under \<open>src/programs\<close> unless they begin with \<open>clients\<close>).
  \<open>Prelude\<close>: results, machine integers at their width, sums. \<open>Errors\<close>: both \<open>errors.rs\<close>, the pinned
  codes. \<open>Accounts\<close>: every account type and event, and the \<open>world\<close> of one map per account type.
  \<open>Runtime\<close>: what the sources call and are not (token programs, derived addresses, System and loader
  accounts), as parameters of \<open>env\<close> with their laws; Anchor's constraints as functions.
  \<open>Balances\<close>: what a transfer, mint or burn does to balances. \<open>Reference\<close>: one concrete token
  program and address derivation that satisfies the laws. \<open>Samples\<close>: the world of the witnesses.
  \<open>VaultState\<close> and \<open>Pricing\<close>: \<open>august-vault/src/state/vault.rs\<close>. \<open>VaultUser\<close>: \<open>deposit.rs\<close>, \<open>redeem.rs\<close>.
  \<open>VaultAdmin\<close>: the config, \<open>initialize.rs\<close>, the setters and the admin handover. \<open>VaultOperator\<close>:
  operator transfers and marks, the registry of destinations. \<open>VaultGate\<close>: attaching and detaching a
  queue, closing, share metadata. \<open>QueueState\<close>, \<open>QueueUser\<close>, \<open>QueueAdmin\<close>: the queue program's state,
  request/cancel/finalize, and its settings, expedite, sweep and release. \<open>Programs\<close>: both \<open>lib.rs\<close>
  and the step relation. \<open>Borsh\<close>, \<open>ClientAccounts\<close>, \<open>ClientErrors\<close>: bytes, \<open>clients/rust/*/generated/\<close>
  \<open>accounts\<close> and \<open>errors\<close>, the hand-written client helpers. \<open>ClientCore\<close>, \<open>ClientUser\<close>,
  \<open>ClientAdmin\<close>, \<open>ClientSetup\<close>, \<open>ClientQueue\<close>, \<open>ClientLayers\<close>: \<open>generated/instructions\<close>; \<open>Setters\<close>,
  \<open>SettersUser\<close>, \<open>SettersAdmin\<close>, \<open>SettersSetup\<close>, \<open>SettersQueue\<close>, \<open>ClientBuilders\<close>: their builders from
  \<open>new\<close> through every setter, under the locale \<open>field_setters\<close>. \<open>Wire\<close>: the
  programs' entry, from an instruction's bytes and account list to its handler.

  \<^bold>\<open>State and operations.\<close> A handler is a function from the transaction, the account list (a record
  with the fields of its \<open>Accounts\<close> struct) and the arguments to \<open>world result\<close>: the constraints in
  the order Anchor checks them, then the body, every early return an \<open>Inl\<close> with the source's error. A
  failed instruction carries no world because the runtime rolls it back. \<open>+\<close> and \<open>-\<close> the sources leave
  unchecked panic, because the workspace builds with overflow checks, and are \<open>Panicked\<close>.

  \<^bold>\<open>What the lemmas show.\<close> \<open>Pricing\<close>: the two conversion functions are floor divisions with an offset and
  a pro-rata cap; under the locale \<open>share_pricing\<close>, interpreted on them, no round trip gains, nobody is
  diluted, redeeming never exceeds the assets. The handler theories: each operation's exact effect on
  balances, supply and state, who may call it, and what it refuses. \<open>Soundness\<close>, \<open>QueueBook\<close> and
  \<open>Invariant\<close>: \<open>system_ok\<close> is kept by every step (reserves cover \<open>local_aum\<close>, escrows cover exactly the
  pending requests, a gated vault's queue exists and can sign), as interpretations of one locale of
  transition systems. \<open>Rates\<close>: while a vault over a plain mint stays open with at least a
  position's shares out, and no report marks its deployed AUM down, what the position redeems for before
  the fee never falls, nor after it unless the fee rate was raised. \<open>Registry\<close>: counts are those of the
  entries, and so are principals while there are entries. \<open>Indexer\<close>: the queue program's events,
  replayed, give its accounts. \<open>Exits\<close>: progress, every step of a
  finalization that is in order goes through. The client theories: bytes round trip, the four layers
  of each generated instruction agree however the builders are filled (the remaining accounts of a CPI
  with equal flags; the code exchanges unequal ones), and an instruction a client builds runs the
  handler it is named after.

  \<^bold>\<open>Hypotheses.\<close> \<open>spl_laws\<close>: the token programs move what they say and only for the owner, delegate or
  authority that signed; \<open>burn_progress_law\<close>: a burn that is in order succeeds. That a transfer or burn
  in order succeeds (\<open>transfer_progress_law\<close>, \<open>burn_progress_law\<close>) idealises Token-2022 accounts: a
  required memo or a CPI guard on an account could refuse it, and token accounts here carry no
  extensions; only the liveness theorems (\<open>cancel_always\<close>, \<open>finalize_possible\<close>) concern
  progress. New token accounts start unfrozen, which leaves out mints with a frozen default state.
  \<open>pda_laws\<close>: the bump \<open>find_program_address\<close> returns derives the address it
  returns. \<open>well_addressed\<close>: no two seeds in use collide with an account of another kind. \<open>P\<close>: the
  mints treated as plain (no extension takes a fee or moves tokens on its own). \<open>outside\<close>: nobody holds
  the key of a derived address. \<open>vault_pins\<close>, \<open>queue_pins\<close>: Anchor's discriminator of an entry is the one
  the client carries. All are met by \<open>ref_env\<close> and the sample worlds, which every witness uses.

  \<^bold>\<open>Bounds.\<close> The only loop without a bound in its own text is \<open>is_valid_share_offset\<close>'s; it is a
  \<open>partial_function (option)\<close>, and \<open>is_valid_share_offset_exact\<close> shows it returns for every input the
  code passes. Everything else is structural.

  \<^bold>\<open>Not modelled.\<close> The generated clients' \<open>serde\<close>, \<open>anchor\<close> and \<open>fetch\<close> feature glue beyond the fetch
  functions, and their wrappers that pass on an empty list (\<open>invoke\<close>, \<open>invoke_signed\<close>, \<open>instruction\<close>),
  which are the modelled functions at the empty list. Compute limits, rent amounts and
  account sizes on chain (whether an account can be funded is a parameter). The bytes of emitted
  events. UTF-8 validity of instruction strings, which are their bytes. The in-crate unit tests, the
  LiteSVM harness and integration tests, the relay program they use, the TypeScript tests, deployment
  scripts and documents: they run or describe the programs and hold none of their logic.
\<close>

section \<open>What holds of every run\<close>

text \<open>
  C1. In every run, whatever instructions of the two programs are mixed with whatever token activity,
  a queue's counters are exact: they count its pending requests and add up their shares, and the
  queue's own share escrow holds at least that many shares.
\<close>

theorem escrow_covers_pending:
  assumes "system_ok E P w0" and "(step E P)\<^sup>*\<^sup>* w0 w" and "queues w Q = Some q"
  shows "finite (pending (requests w) Q) \<and>
     card (pending (requests w) Q) = unat (q_pending_requests q) \<and>
     (\<Sum>k\<in>pending (requests w) Q. unat (shares_at (requests w) k)) = unat (q_pending_shares q) \<and>
     unat (q_pending_shares q) \<le> balance (ledger w) (q_escrow_shares q) \<and>
     holder (ledger w) (q_escrow_shares q) = Some (q_share_mint q, Q)"
proof -
  note q = queue_soundD [OF system_okD(7) [OF system.run_safe [OF assms(2,1)] assms(3)]]
  have "image_mset unat (image_mset (shares_at (requests w)) (mset_set (pending (requests w) Q))) =
      image_mset (\<lambda>k. unat (shares_at (requests w) k)) (mset_set (pending (requests w) Q))"
    by (simp add: multiset.map_comp comp_def)
  then show ?thesis
    using q(5,7) by (simp add: book_sound_def counters.books_def guarded_def sum_unfold_sum_mset)
qed

text \<open>
  C2. In every run, the reserve of a vault over a plain mint is the vault's own account and holds at
  least the vault's \<open>local_aum\<close>, so what the vault counts as liquid can be paid; its settings stay
  within their bounds.
\<close>

theorem reserve_covers_local_aum:
  assumes "system_ok E P w0" and "(step E P)\<^sup>*\<^sup>* w0 w" and "vaults w V = Some v"
    and "v_deposit_mint v \<in> P"
  shows "holder (ledger w) (reserve_of E v) = Some (v_deposit_mint v, V) \<and>
     unat (v_local_aum v) \<le> balance (ledger w) (reserve_of E v) \<and> vault_ok v"
  using vault_soundD(5,6) [OF vaults_soundD [OF system_okD(4) [OF system.run_safe [OF assms(2,1)]] assms(3)]]
    assms(4)
  by (simp add: guarded_def)

text \<open>
  C5. In every run, a vault that takes redemptions from one key only takes them from its own queue,
  which exists, serves that vault, and has the seeds to sign for the key: no vault is ever gated by a
  key nobody can sign for.
\<close>

theorem attached_queue_answers:
  assumes "system_ok E P w0" and "(step E P)\<^sup>*\<^sup>* w0 w" and "vaults w V = Some v"
    and "withdrawal_queue v = Some Q"
  shows "\<exists>q. queues w Q = Some q \<and> q_vault_state q = V \<and>
     pda_signers E t WITHDRAWAL_QUEUE_PROGRAM_ID (signer_seeds q) = Inr (insert Q (signers t))"
proof -
  note s = system_okD [OF system.run_safe [OF assms(2,1)]]
  obtain q where q: "queues w Q = Some q" "q_vault_state q = V"
    using s(5) assms(3,4) unfolding gates_sound_def by blast
  have "pda_signers E t WITHDRAWAL_QUEUE_PROGRAM_ID (signer_seeds q) = Inr (insert Q (signers t))"
    by (rule queue_signs [OF disjI2 [OF refl] queue_soundD(1) [OF s(7) [OF q(1)]]])
  with q show ?thesis by blast
qed

text \<open>
  C7. In every run, an owner can take a pending request back: once the accounts he passes are accepted
  and the stamp is the request's, the cancellation succeeds, provided only that neither token account
  is frozen and the destination has room. The state of the vault plays no part.
\<close>

theorem cancel_always:
  assumes "system_ok E P w0" and "(step E P)\<^sup>*\<^sup>* w0 w"
    and "cancel_ctx E t A w = Inr (q, r, sm)"
    and "tokens (ledger w) (cw_escrow_shares A) = Some a"
    and "tokens (ledger w) (cw_destination_share_account A) = Some b"
    and "\<not> ta_frozen a" and "\<not> ta_frozen b"
    and "ta_program a = cw_token_program A" and "ta_program b = cw_token_program A"
    and "mi_program sm = cw_token_program A"
    and "unat (ta_amount b) + unat (r_shares r) < 2 ^ 64"
  shows "is_ok (cancel_withdrawal E t A (r_sequence r) w)"
proof -
  note s = system_okD [OF system.run_safe [OF assms(2,1)]]
  note c = cancel_ctx_Inr [OF assms(3)] and q = queue_soundD [OF s(7) [OF cancel_ctx_Inr(1) [OF assms(3)]]]
  note cl = book_sound_closes [OF q(7) c(2,6)]
  obtain q' where q': "close_request (r_shares r) q = Inr q'" using cl(1) by (auto simp: is_ok_iff)
  have a: "ta_mint a = cw_share_mint A" "ta_owner a = cw_queue A"
    and le: "q_pending_shares q \<le> ta_amount a"
    using q(5) assms(4) c(4,5)
    by (auto simp: guarded_def holder_def balance_def word_le_nat_alt)
  have b: "ta_mint b = cw_share_mint A" using c(9) assms(5) by (simp add: holder_def)
  have "plain_mint E sm" using q(6) c(5,8) by (simp add: plain_def)
  moreover have "transfer_possible (cw_token_program A) (insert (cw_queue A) (signers t))
      (cw_escrow_shares A) (cw_share_mint A) (cw_destination_share_account A) (cw_queue A)
      (r_shares r) (mi_decimals sm) (ledger w)"
    unfolding transfer_possible_def
    by (rule exI [of _ a], rule exI [of _ b], rule exI [of _ sm])
      (use assms(4-11) a b c(8) order_trans [OF cl(2) le] in \<open>simp add: may_spend_def\<close>)
  ultimately obtain L where "transfer_checked E (cw_token_program A) (insert (cw_queue A) (signers t))
      (cw_escrow_shares A) (cw_share_mint A) (cw_destination_share_account A) (cw_queue A)
      (r_shares r) (mi_decimals sm) (ledger w) = Inr L"
    using spl_transfer_possible [OF s(1) c(8)] by blast
  then show ?thesis
    using q' queue_signs [OF disjI1 [OF q'] c(10), of t]
    by (simp add: cancel_withdrawal_def assms(3) is_ok_def)
qed


text \<open>
  C9. In every run, the events say everything about the queues: an indexer that starts from the
  accounts of any good state, or from nothing before the programs were used, and then only listens,
  knows every queue's settings and every pending request exactly as the accounts hold them.
\<close>

theorem indexer_exact:
  assumes "system_ok E P w0" and "(step E P)\<^sup>*\<^sup>* w0 w"
  shows "\<exists>es. events w = events w0 @ es \<and> index_of w = fold hear es (index_of w0)"
  using log.run_follows [OF assms(2,1)] by (simp add: heard_def)

text \<open>
  C10. In every run, a stamp names one request of its queue for good: a request opened later in the
  same queue, at the same address or another, carries a larger stamp. So an instruction prepared for
  one request with \<open>expected_sequence\<close> never hits another.
\<close>

theorem stamp_names_one_request:
  assumes "system_ok E P w0" and "(step E P)\<^sup>*\<^sup>* w0 w1" and "requests w1 k = Some r1"
    and "(step E P)\<^sup>*\<^sup>* w1 w2"
    and "request_withdrawal E t A request_id shares min_assets_out finalizer w2 = Inr w3"
    and "rw_queue A = r_queue r1" and "requests w3 (rw_request A) = Some r2"
  shows "unat (r_sequence r1) < unat (r_sequence r2)"
proof -
  have ok1: "system_ok E P w1" by (rule system.run_safe [OF assms(2,1)])
  note s1 = system_okD [OF ok1]
  obtain q1 where q1: "queues w1 (r_queue r1) = Some q1" using s1(8) [OF assms(3)] by auto
  have "k \<in> pending (requests w1) (r_queue r1)" using assms(3) by (auto simp: pending_def)
  then have "stamp_at (requests w1) k \<le> unat (q_sequence q1)"
    using queue_soundD(7) [OF s1(7) [OF q1]] by (auto simp: book_sound_def)
  then have r1: "unat (r_sequence r1) \<le> unat (q_sequence q1)" using assms(3) by (simp add: stamp_at_def)
  have "queues_grow w1 w2" by (rule system.run_follows [OF assms(4) ok1])
  then obtain q2 where q2: "queues w2 (r_queue r1) = Some q2" "unat (q_sequence q1) \<le> unat (q_sequence q2)"
    using q1 by (auto simp: queues_grow_def queue_grows_def)
  show ?thesis
    using assms(5)
  proof (cases rule: request_cases)
    case (1 q v sm recipient now q' s r L)
    have "q = q2" using request_ctx_Inr(1) [OF 1(1)] q2(1) assms(6) by simp
    moreover have "r_sequence r2 = s" using assms(7) 1(9) request_open_Inr(8) [OF 1(7)] by simp
    ultimately have "unat (r_sequence r2) = unat (q_sequence q2) + 1"
      using 1(6) by (auto simp: open_request_Inr)
    then show ?thesis using r1 q2(2) by linarith
  qed
qed


text \<open>
  C3. Take a vault over a plain deposit mint and a run during which it stays open and, before each
  instruction, has at least \<open>k\<close> shares out, and in which no report marks its deployed AUM down
  (reports of as much or more may occur). Whenever both prices compute, what \<open>k\<close> shares redeem for before
  the fee is at the end at least what it was at the start: neither deposits, redemptions or
  finalizations of others, in whatever order, nor the operator's transfers, the registry, the setters
  or anything that happens elsewhere lower it. After the fee the same holds when the vault's fee rate
  at the end is at most the rate at the start.
\<close>

theorem price_never_falls:
  assumes "system_ok E P w0" and "(trade E P V (unat k))\<^sup>*\<^sup>* w0 w"
    and "vaults w0 V = Some v0" and "v_deposit_mint v0 \<in> P" and "vaults w V = Some v"
    and "mints (ledger w0) (v_share_mint v0) = Some sm0" and "mints (ledger w) (v_share_mint v) = Some sm"
    and "total_assets v0 = Inr T0" and "assets_for_redeem v0 (mi_supply sm0) T0 k = Inr b0"
    and "total_assets v = Inr T" and "assets_for_redeem v (mi_supply sm) T k = Inr b"
  shows "b0 \<le> b \<and>
    (\<forall>f0 n0 f n. v_withdrawal_fee v \<le> v_withdrawal_fee v0 \<longrightarrow> redeem_fees v0 b0 = Inr (f0, n0) \<longrightarrow>
       redeem_fees v b = Inr (f, n) \<longrightarrow> n0 \<le> n)"
proof -
  have "keeps_worth (unat k) V w0 w" using trades_keep_worth [OF assms(2,1,3,4)] by blast
  moreover have "position_worth w0 v0 (unat k) (unat b0)"
    using vault_pricing.redeem_worth [OF assms(9)] assms(6,8)
    by (simp add: position_worth_def shares_out_def assets_of_def supply_of_def total_assets_Inr)
  ultimately have "position_worth w v (unat k) (unat b0)"
    using assms(3,5) by (simp add: keeps_worth_def)
  then have "unat b0 \<le> unat b"
    using vault_pricing.redeem_covers [OF assms(11)] assms(7,10)
    by (simp add: position_worth_def shares_out_def assets_of_def supply_of_def total_assets_Inr)
  then have "b0 \<le> b" by (simp add: word_le_nat_alt)
  then show ?thesis using net_mono by blast
qed

text \<open>
  C4. In every run, each vault's registry is exact: its count is the number of its entries, and while
  it has any, its deployed principal is the sum of what they owe. A vault without entries sends
  funds to its operator's own account, and no entry stands for that principal. Every entry belongs to
  a vault that exists.
\<close>

theorem registry_exact:
  assumes "spl_laws E" and "registries_ok w0" and "(step E P)\<^sup>*\<^sup>* w0 w" and "vaults w V = Some v"
  shows "finite (entries w V) \<and> card (entries w V) = unat (v_subaccount_count v) \<and>
     (v_subaccount_count v \<noteq> 0 \<longrightarrow>
        (\<Sum>k\<in>entries w V. principal_at w k) = unat (v_deployed_principal v)) \<and>
     (\<forall>k s. subaccounts w k = Some s \<longrightarrow> vaults w (sub_vault_state s) \<noteq> None)"
proof -
  have ok: "registries_ok w" using registry.run_safe [OF assms(3)] assms(1,2) by blast
  show ?thesis
    using registries_okD(1) [OF ok, of V] registries_okD(2) [OF ok] assms(4)
    by (simp add: registry_ok_def owed_def)
qed

section \<open>Witnesses\<close>

text \<open>
  A run of one request from the sample world with an attached queue, over the plain mint of its vault.
\<close>

lemma ex_live_ok: "system_ok ref_env {ex_mint} ex_live"
proof -
  have t: "ta_delegate a = None \<and> ta_close_authority a = None" if "tokens (ledger ex_live) k = Some a" for k a
    using that by (auto simp: ex_live_def ex_queue_ledger_def ex_ledger_def ex_token_def
        fresh_token_account_def split: if_splits)
  let ?v = "ex_vault_state\<lparr>v_withdrawal_queue_authority := ex_queue\<rparr>"
  have "create_program_address ref_env (vault_seeds ?v) VAULT_PROGRAM_ID = Some ex_vault" by code_simp
  moreover have "v_share_mint ?v = fst (find_program_address ref_env
      (share_mint_seeds (v_deposit_mint ?v) (v_vault_version ?v)) VAULT_PROGRAM_ID)" by code_simp
  moreover have "vault_ok ?v" by (simp add: vault_ok_def ex_vault_state_def zero_vault_def)
  moreover have "guarded ref_env (ledger ex_live) (reserve_of ref_env ?v) ex_mint ex_vault 3000000000"
  proof -
    have r: "reserve_of ref_env ?v = ex_reserve" by code_simp
    have "tokens (ledger ex_live) ex_reserve = Some (ex_token ex_mint ex_vault 3000000500)"
      by (simp add: ex_live_def ex_queue_ledger_def ex_ledger_def ex_reserve_def ex_user_tokens_def
          ex_user_shares_def ex_fee_tokens_def ex_escrow_shares_def ex_escrow_assets_def)
    then have "holder (ledger ex_live) ex_reserve = Some (ex_mint, ex_vault)"
      and "balance (ledger ex_live) ex_reserve = 3000000500"
      by (simp_all add: holder_def balance_def ex_token_def fresh_token_account_def)
    with r t show ?thesis using ex_live_facts(2) by (simp add: guarded_def unencumbered_def)
  qed
  moreover have "minter (ledger ex_live) ex_share_mint = Some ex_vault" by code_simp
  ultimately have "vault_sound ref_env {ex_mint} (ledger ex_live) ex_vault ?v"
    using ex_live_facts(1) by (simp add: vault_sound_def ex_vault_state_def)
  then have vs: "vaults_sound ref_env {ex_mint} ex_live"
    by (simp add: vaults_sound_def ex_live_def)
  have "create_program_address ref_env (queue_seeds ex_vault @ [[255]]) WITHDRAWAL_QUEUE_PROGRAM_ID =
      Some ex_queue" by code_simp
  moreover have "guarded ref_env (ledger ex_live) ex_escrow_shares ex_share_mint ex_queue 0"
  proof -
    have "holder (ledger ex_live) ex_escrow_shares = Some (ex_share_mint, ex_queue)" by code_simp
    with t show ?thesis using ex_live_facts(1) by (simp add: guarded_def unencumbered_def)
  qed
  moreover have "book_sound (requests ex_live) ex_queue ex_queue_state"
    by (simp add: book_sound_def counters.books_def pending_def ex_live_def ex_world_def
        ex_queue_state_def zero_queue_def)
  moreover have "settings_ok ex_queue_state"
    by (simp add: settings_ok_def ex_queue_state_def zero_queue_def)
  ultimately have "queue_sound ref_env (ledger ex_live) (requests ex_live) ex_queue ex_queue_state"
    using ex_live_facts(2) by (simp add: queue_sound_def ex_queue_state_def zero_queue_def)
  then have qs: "\<forall>Q q. queues ex_live Q = Some q \<longrightarrow>
      queue_sound ref_env (ledger ex_live) (requests ex_live) Q q"
    by (simp add: ex_live_def)
  have "gates_sound ex_live" and "dom (vaults ex_live) \<inter> dom (queues ex_live) = {}"
    by (auto simp: gates_sound_def ex_live_def withdrawal_queue_def ex_queue_state_def ex_vault_def
        ex_queue_def split: if_splits)
  moreover have "undelegated ref_env {k. own_pda ref_env k} (ledger ex_live)"
    using t by (auto simp: undelegated_def)
  ultimately show ?thesis
    using vs qs ref_spl_laws ref_pda_laws by (simp add: system_ok_def ex_live_def ex_world_def)
qed

lemma ex_outside: "outside ref_env {k}" if "uint k < 1099511627776"
proof -
  show ?thesis
    using that ref_pda_high [of _ _ k] by (auto simp: outside_def own_pda_def linorder_not_le [symmetric]
        simp del: linorder_not_le)
qed

lemma ex_users_outside: "outside ref_env {ex_user}"
  by (rule ex_outside) (simp add: ex_user_def)

lemma ex_live_addressed: "well_addressed ref_env {ex_mint} ex_live"
proof -
  let ?v = "ex_vault_state\<lparr>v_withdrawal_queue_authority := ex_queue\<rparr>"
  have "fst (find_program_address ref_env (vault_state_seeds ex_share_mint 1) VAULT_PROGRAM_ID) \<noteq> ex_vault"
    and "\<forall>prog\<in>{spl_token_id ref_env, token_2022_id ref_env}.
      associated_token_address ref_env ex_vault ex_mint prog \<noteq> reserve_of ref_env ?v" by code_simp+
  moreover have "dom (mints (ledger ex_live)) = {ex_mint, ex_share_mint}" 
    by (auto simp: ex_live_def ex_queue_ledger_def ex_ledger_def)
  moreover have "\<forall>m. mints (ledger ex_live) ex_mint = Some m \<longrightarrow> plain_mint ref_env m"
    using ex_live_facts(2) by (auto simp: plain_def split: option.splits)
  moreover have "v_deposit_mint ?v = ex_mint" "v_vault_version ?v = 1" by (simp_all add: ex_vault_state_def)
  moreover have "entries_bound ref_env ex_live"
    by (simp add: entries_bound_def ex_live_def ex_world_def)
  ultimately show ?thesis
    unfolding well_addressed_def
    by (auto simp: ex_live_def ex_pdas ex_queue_state_def dom_def set_eq_iff)
qed

lemma ex_run: "(step ref_env {ex_mint})\<^sup>*\<^sup>* ex_live ex_requested"
proof -
  have "step ref_env {ex_mint} ex_live ex_requested"
    by (rule step.instruction [OF _ ex_live_addressed, where t = "ex_tx ex_user" and
          i = "Queue (RequestWithdrawal ex_request 7 1000000 1980000 0)"])
      (use ex_users_outside ex_requested_ok in \<open>simp_all add: ex_tx_def\<close>)
  then show ?thesis by blast
qed

text \<open>The world after that request is \<open>ex_pending\<close>, but for the log.\<close>

lemma ex_requested_is_pending: "ex_requested = ex_pending\<lparr>events := events ex_requested\<rparr>"
  using ex_requested_ok
proof (cases rule: request_cases)
  case (1 q v sm recipient now q' s r L)
  note c = request_ctx_Inr [OF 1(1)]
  have q: "q = ex_queue_state" using c(1) ex_live_facts(3) by (simp add: ex_request_def)
  have q': "q' = ex_queue_state\<lparr>q_sequence := 1, q_pending_requests := 1, q_pending_shares := 1000000\<rparr>"
    and s: "s = 1"
    using 1(6) by (simp_all add: q open_request_def checked_add_def ex_queue_state_def zero_queue_def
        split: if_splits)
  have now: "now = 1000" using 1(5) by (simp add: ex_tx_def)
  have "request_open ex_queue ex_user ex_user_tokens 0 1000000 1980000 7 1 255 1000 3600 0 zero_request =
      Inr ex_waiting" by code_simp
  then have r: "r = ex_waiting"
    using 1(7) by (simp add: now s ref_find_def q' ex_request_def ex_queue_state_def zero_queue_def)
  have sm: "mi_decimals sm = 6"
    using c(7) by (auto simp: ex_live_def ex_queue_ledger_def ex_ledger_def ex_request_def fresh_mint_def)
  have "ref_transfer 1 {ex_user} ex_user_shares ex_share_mint ex_escrow_shares ex_user 1000000 6
      ex_queue_ledger = Inr (ledger ex_pending)"
    by (simp add: ref_transfer_def ex_pending_def ex_live_def ex_queue_ledger_def ex_ledger_def ex_token_def
        fresh_token_account_def may_spend_def fits_u64_def ref_debit_def ex_user_shares_def
        ex_escrow_shares_def ex_escrow_assets_def ex_fee_tokens_def ex_reserve_def ex_user_tokens_def
        fun_upd_twist)
  then have L: "L = ledger ex_pending"
    using 1(8) by (simp add: sm ex_request_def ex_tx_def ex_live_def ref_env_def)
  show ?thesis
    by (subst 1(9)) (simp add: r q' L ex_pending_def ex_live_def ex_request_def ex_world_def 1(9))
qed

lemma ex_pending_ok: "system_ok ref_env {ex_mint} ex_pending"
proof -
  have "system_ok ref_env {ex_mint} (ex_pending\<lparr>events := events ex_requested\<rparr>)"
    using system.run_safe [OF ex_run ex_live_ok] by (simp flip: ex_requested_is_pending)
  then show ?thesis by (simp add: system_ok_def vaults_sound_def gates_sound_def)
qed

theorem escrow_covers_pending_witness:
  "system_ok ref_env {ex_mint} ex_live \<and> (step ref_env {ex_mint})\<^sup>*\<^sup>* ex_live ex_requested \<and>
   card (pending (requests ex_requested) ex_queue) = 1 \<and>
   1000000 \<le> balance (ledger ex_requested) ex_escrow_shares"
proof -
  have q: "queues ex_requested ex_queue = Some (ex_queue_state\<lparr>q_sequence := 1,
      q_pending_requests := 1, q_pending_shares := 1000000\<rparr>)"
    by (subst ex_requested_is_pending) (simp add: ex_pending_def)
  show ?thesis
    using escrow_covers_pending [OF ex_live_ok ex_run q] ex_live_ok ex_run
    by (simp add: ex_queue_state_def)
qed

lemma ex_requested_vault:
  "vaults ex_requested ex_vault = Some (ex_vault_state\<lparr>v_withdrawal_queue_authority := ex_queue\<rparr>)"
  by (subst ex_requested_is_pending) (simp add: ex_pending_facts)

theorem reserve_covers_local_aum_witness:
  "(step ref_env {ex_mint})\<^sup>*\<^sup>* ex_live ex_requested \<and>
   3000000000 \<le> balance (ledger ex_requested) (reserve_of ref_env ex_vault_state)"
proof -
  have "v_deposit_mint (ex_vault_state\<lparr>v_withdrawal_queue_authority := ex_queue\<rparr>) \<in> {ex_mint}"
    by (simp add: ex_vault_state_def)
  from reserve_covers_local_aum [OF ex_live_ok ex_run ex_requested_vault this] ex_run
  show ?thesis by (simp add: ex_vault_state_def reserve_of_def)
qed

theorem attached_queue_answers_witness:
  "\<exists>q. queues ex_requested ex_queue = Some q \<and> q_vault_state q = ex_vault \<and>
     pda_signers ref_env (ex_tx ex_admin) WITHDRAWAL_QUEUE_PROGRAM_ID (signer_seeds q) =
       Inr {ex_queue, ex_admin}"
proof -
  have "withdrawal_queue (ex_vault_state\<lparr>v_withdrawal_queue_authority := ex_queue\<rparr>) = Some ex_queue"
    by (simp add: withdrawal_queue_def ex_queue_def default_key_def)
  from attached_queue_answers [OF ex_live_ok ex_run ex_requested_vault this, of "ex_tx ex_admin"]
  show ?thesis by (simp add: ex_tx_def)
qed

theorem cancel_always_witness:
  "\<exists>w. (step ref_env {ex_mint})\<^sup>*\<^sup>* ex_pending w \<and>
     is_ok (cancel_withdrawal ref_env (ex_tx ex_user) ex_cancel 1 w)"
proof -
  have "is_ok (cancel_ctx ref_env (ex_tx ex_user) ex_cancel ex_pending)" by code_simp
  then obtain q r sm where c: "cancel_ctx ref_env (ex_tx ex_user) ex_cancel ex_pending = Inr (q, r, sm)"
    by (auto simp: is_ok_iff)
  have r: "r = ex_waiting"
    using cancel_ctx_Inr(2) [OF c] ex_pending_facts by (simp add: ex_cancel_def)
  have e: "tokens (ledger ex_pending) (cw_escrow_shares ex_cancel) =
      Some (ex_token ex_share_mint ex_queue 1000000)"
    and u: "tokens (ledger ex_pending) (cw_destination_share_account ex_cancel) =
      Some (ex_token ex_share_mint ex_user 599000000)"
    by (simp_all add: ex_pending_def ex_cancel_def ex_user_shares_def ex_escrow_shares_def)
  have "mi_program sm = cw_token_program ex_cancel"
    using cancel_ctx_Inr(8) [OF c]
    by (auto simp: ex_pending_def ex_live_def ex_queue_ledger_def ex_ledger_def ex_cancel_def fresh_mint_def)
  from cancel_always [OF ex_pending_ok rtranclp.rtrancl_refl c e u _ _ _ _ this]
  have "is_ok (cancel_withdrawal ref_env (ex_tx ex_user) ex_cancel (r_sequence r) ex_pending)"
    by (simp add: r ex_waiting_def zero_request_def ex_token_def fresh_token_account_def ex_cancel_def)
  then show ?thesis by (auto simp: r ex_waiting_def)
qed

text \<open>The accounts of that request's exit: in good standing, with room.\<close>

lemma ex_pending_standing:
  "k \<in> {ex_reserve, ex_escrow_assets, ex_escrow_shares, ex_fee_tokens, ex_user_tokens} \<Longrightarrow>
   standing (ledger ex_pending) k = Some (1, False)"
  by (auto simp: standing_def ex_pending_def ex_live_def ex_queue_ledger_def ex_ledger_def
      ex_token_def fresh_token_account_def)

lemma ex_pending_balances:
  "balance (ledger ex_pending) ex_escrow_assets = 55" "balance (ledger ex_pending) ex_fee_tokens = 7"
  "balance (ledger ex_pending) ex_user_tokens = 500000000"
  by (simp_all add: balance_def ex_pending_def ex_live_def ex_queue_ledger_def ex_ledger_def ex_token_def
      fresh_token_account_def ex_escrow_assets_def ex_fee_tokens_def ex_user_tokens_def
      ex_user_shares_def ex_escrow_shares_def ex_reserve_def)


definition ex_second :: request_accounts where
  "ex_second =
     ex_request\<lparr>rw_request := fst (ref_find (request_seeds ex_queue ex_user 8) WITHDRAWAL_QUEUE_PROGRAM_ID)\<rparr>"

theorem indexer_exact_witness:
  "\<exists>es. events ex_requested = events ex_live @ es \<and>
     known_requests (fold hear es (index_of ex_live)) ex_request_key = Some (indexed ex_waiting)"
proof -
  have "requests ex_requested ex_request_key = Some ex_waiting"
    by (subst ex_requested_is_pending) (simp add: ex_pending_facts)
  then have "known_requests (index_of ex_requested) ex_request_key = Some (indexed ex_waiting)"
    by (simp add: index_of_def)
  with indexer_exact [OF ex_live_ok ex_run] show ?thesis by auto
qed

theorem stamp_names_one_request_witness:
  "\<exists>w r. request_withdrawal ref_env (ex_tx ex_user) ex_second 8 500 0 0 ex_pending = Inr w \<and>
     requests w (rw_request ex_second) = Some r \<and>
     unat (r_sequence ex_waiting) < unat (r_sequence r)"
proof -
  have "is_ok (request_withdrawal ref_env (ex_tx ex_user) ex_second 8 500 0 0 ex_pending)" by code_simp
  then obtain w where
    w: "request_withdrawal ref_env (ex_tx ex_user) ex_second 8 500 0 0 ex_pending = Inr w"
    by (auto simp: is_ok_iff)
  then obtain r where r: "requests w (rw_request ex_second) = Some r"
    by (cases rule: request_cases) simp
  have "rw_queue ex_second = r_queue ex_waiting"
    by (simp add: ex_second_def ex_request_def ex_waiting_def)
  from stamp_names_one_request [OF ex_pending_ok rtranclp.rtrancl_refl ex_pending_facts(4)
      rtranclp.rtrancl_refl w this r] w r
  show ?thesis by blast
qed

text \<open>The vault's operator reports a gain of two tenths of a percent.\<close>

definition ex_gained :: world where
  "ex_gained =
     (case operator_update_aum ref_env (ex_tx ex_operator) ex_report 1002000000 ex_live of
        Inl _ \<Rightarrow> ex_live | Inr w \<Rightarrow> w)"

lemma ex_gained_ok:
  "operator_update_aum ref_env (ex_tx ex_operator) ex_report 1002000000 ex_live = Inr ex_gained"
proof -
  have "is_ok (operator_update_aum ref_env (ex_tx ex_operator) ex_report 1002000000 ex_live)" by code_simp
  then show ?thesis by (auto simp: ex_gained_def is_ok_iff)
qed

lemma ex_gained_is: "ex_gained = ex_live\<lparr>vaults := (vaults ex_live)(ex_vault \<mapsto>
    ex_vault_state\<lparr>v_withdrawal_queue_authority := ex_queue, v_deployed_aum := 1002000000\<rparr>)\<rparr>"
  using ex_gained_ok ex_live_facts(4)
  by (auto simp: operator_update_aum_def load_simps constraint_simps put_vault_def ex_report_def)

lemma ex_trade: "(trade ref_env {ex_mint} ex_vault 1000000)\<^sup>*\<^sup>* ex_live ex_gained"
proof -
  have "outside ref_env {ex_operator}" by (rule ex_outside) (simp add: ex_operator_def)
  then have "trade ref_env {ex_mint} ex_vault 1000000 ex_live ex_gained"
  proof (intro trade.instruction [OF _ ex_live_addressed, where t = "ex_tx ex_operator" and
        i = "Operator (OperatorUpdateAum ex_report 1002000000)"])
    show "vaults ex_live ex_vault = Some (ex_vault_state\<lparr>v_withdrawal_queue_authority := ex_queue\<rparr>)"
      by (rule ex_live_facts(4))
    show "1000000 \<le> shares_out ex_live (ex_vault_state\<lparr>v_withdrawal_queue_authority := ex_queue\<rparr>)"
      by (simp add: shares_out_def supply_of_def ex_live_def ex_queue_ledger_def ex_ledger_def
          ex_vault_state_def fresh_mint_def)
    show "\<not> marks_down ex_vault ex_live (Operator (OperatorUpdateAum ex_report 1002000000))"
      using ex_live_facts(4) by (auto simp: marks_down_def ex_vault_state_def)
    show "vaults ex_gained ex_vault \<noteq> None" by (simp add: ex_gained_is)
  qed (use ex_gained_ok in \<open>simp_all add: ex_tx_def\<close>)
  then show ?thesis by blast
qed

theorem price_never_falls_witness:
  "(trade ref_env {ex_mint} ex_vault 1000000)\<^sup>*\<^sup>* ex_live ex_gained \<and>
   (\<exists>v0 v b0 b f0 n0 f n. vaults ex_live ex_vault = Some v0 \<and> vaults ex_gained ex_vault = Some v \<and>
      v_deployed_aum v = v_deployed_aum v0 + 2000000 \<and>
      assets_for_redeem v0 2000000000 4000000000 1000000 = Inr b0 \<and>
      assets_for_redeem v 2000000000 4002000000 1000000 = Inr b \<and> b0 \<le> b \<and>
      redeem_fees v0 b0 = Inr (f0, n0) \<and> redeem_fees v b = Inr (f, n) \<and> n0 \<le> n)"
proof -
  define v0 where "v0 = ex_vault_state\<lparr>v_withdrawal_queue_authority := ex_queue\<rparr>"
  define v where "v = ex_vault_state\<lparr>v_withdrawal_queue_authority := ex_queue, v_deployed_aum := 1002000000\<rparr>"
  define sm where "sm = (fresh_mint 1 6 ex_vault)\<lparr>mi_supply := 2000000000\<rparr>"
  note at0 = ex_live_facts(4) [folded v0_def]
  have at: "vaults ex_gained ex_vault = Some v" by (simp add: ex_gained_is v_def)
  have sm0: "mints (ledger ex_live) (v_share_mint v0) = Some sm"
    by (simp add: ex_live_def ex_queue_ledger_def ex_ledger_def ex_vault_state_def v0_def sm_def)
  then have sm1: "mints (ledger ex_gained) (v_share_mint v) = Some sm"
    by (simp add: ex_gained_is v0_def v_def)
  have "is_ok (bindR (assets_for_redeem v0 2000000000 4000000000 1000000) (redeem_fees v0))"
    "is_ok (bindR (assets_for_redeem v 2000000000 4002000000 1000000) (redeem_fees v))"
    unfolding v0_def v_def by code_simp+
  then obtain b0 b f0 n0 f n where
    b: "assets_for_redeem v0 2000000000 4000000000 1000000 = Inr b0"
      "assets_for_redeem v 2000000000 4002000000 1000000 = Inr b"
    and n: "redeem_fees v0 b0 = Inr (f0, n0)" "redeem_fees v b = Inr (f, n)"
    by (auto simp: is_ok_iff)
  have T: "total_assets v0 = Inr 4000000000" "total_assets v = Inr 4002000000"
    by (simp_all add: total_assets_Inr ex_vault_state_def v0_def v_def)
  have P: "v_deposit_mint v0 \<in> {ex_mint}" by (simp add: ex_vault_state_def v0_def)
  have run: "(trade ref_env {ex_mint} ex_vault (unat (1000000 :: u64)))\<^sup>*\<^sup>* ex_live ex_gained"
    using ex_trade by simp
  have s: "mi_supply sm = 2000000000" by (simp add: sm_def)
  have "v_withdrawal_fee v \<le> v_withdrawal_fee v0" by (simp add: v_def v0_def)
  with price_never_falls [OF ex_live_ok run at0 P at sm0 sm1 T(1) b(1) [folded s] T(2) b(2) [folded s]] n
  have "b0 \<le> b" "n0 \<le> n" by blast+
  moreover have "v_deployed_aum v = v_deployed_aum v0 + 2000000"
    by (simp add: v_def v0_def ex_vault_state_def)
  ultimately show ?thesis using ex_trade at0 at b n by blast
qed

text \<open>The registry with one entry, which owes what it was handed.\<close>

lemma ex_custody_registries: "registries_ok ex_custody_world"
proof -
  have e: "entries ex_custody_world V = (if V = ex_vault then {ex_entry} else {})" for V
    by (auto simp: entries_def ex_custody_world_def)
  have "principal_at ex_custody_world ex_entry = 1000"
    by (simp add: principal_at_def ex_custody_world_def)
  then have "owed ex_custody_world ex_vault = 1000" by (simp add: owed_def e)
  moreover have "vaults ex_custody_world V \<noteq> None \<longleftrightarrow> V = ex_vault" for V
    by (simp add: ex_custody_world_def)
  moreover have "sub_vault_state s = ex_vault" if "subaccounts ex_custody_world k = Some s" for k s
    using that by (auto simp: ex_custody_world_def split: if_splits)
  ultimately show ?thesis
    unfolding registries_ok_def registry_ok_def
    using ex_custody_vault by (auto simp: e ex_operator_accounts_def split: option.splits)
qed

lemma ex_custody_addressed: "well_addressed ref_env {ex_mint} ex_custody_world"
proof -
  have "fst (find_program_address ref_env (vault_state_seeds ex_share_mint 1) VAULT_PROGRAM_ID) \<noteq> ex_vault"
    and "\<forall>prog\<in>{spl_token_id ref_env, token_2022_id ref_env}.
      associated_token_address ref_env ex_vault ex_mint prog \<noteq> reserve_of ref_env ex_vault_state"
    and "\<not> in_use ex_custody_world (withdrawal_queue_pda ref_env ex_vault)" by code_simp+
  moreover have "reserve_of ref_env (ex_vault_state\<lparr>v_subaccount_count := a, v_deployed_principal := b\<rparr>) =
      reserve_of ref_env ex_vault_state" for a b by (simp add: reserve_of_def)
  moreover have "dom (mints (ledger ex_custody_world)) = {ex_mint, ex_share_mint}"
    by (auto simp: ex_custody_world_def ex_ledger_def)
  moreover have "\<forall>m. mints (ledger ex_custody_world) ex_mint = Some m \<longrightarrow> plain_mint ref_env m"
    using ex_custody_plain by (auto simp: plain_def ex_operator_accounts_def split: option.splits)
  moreover have "v_deposit_mint ex_vault_state = ex_mint" "v_vault_version ex_vault_state = 1"
    by (simp_all add: ex_vault_state_def)
  moreover have "entries_bound ref_env ex_custody_world"
    by (auto simp: entries_bound_def ex_custody_world_def split: if_splits)
  moreover have "vaults ex_custody_world =
      [ex_vault \<mapsto> ex_vault_state\<lparr>v_subaccount_count := 1, v_deployed_principal := 1000\<rparr>]"
    by (simp add: ex_custody_world_def)
  ultimately show ?thesis
    unfolding well_addressed_def by (auto simp: dom_def set_eq_iff)
qed

theorem registry_exact_witness:
  "\<exists>w v. (step ref_env {ex_mint})\<^sup>*\<^sup>* ex_custody_world w \<and>
     operator_withdraw ref_env (ex_tx ex_operator) ex_operator_accounts 400 ex_custody_world = Inr w \<and>
     vaults w ex_vault = Some v \<and> card (entries w ex_vault) = unat (v_subaccount_count v)"
proof -
  obtain w where
    w: "operator_withdraw ref_env (ex_tx ex_operator) ex_operator_accounts 400 ex_custody_world = Inr w"
    using ex_withdraw_ok by blast
  obtain v where v: "vaults w ex_vault = Some v"
    using w by (cases rule: operator_withdraw_cases)
      (simp add: ex_operator_accounts_def put_vault_def put_ledger_def split: option.splits)
  have "outside ref_env {ex_operator}" by (rule ex_outside) (simp add: ex_operator_def)
  with w have "step ref_env {ex_mint} ex_custody_world w"
    by (intro step.instruction [OF _ ex_custody_addressed, where t = "ex_tx ex_operator" and
        i = "Operator (OperatorWithdraw ex_operator_accounts 400)"]) (simp_all add: ex_tx_def)
  then have run: "(step ref_env {ex_mint})\<^sup>*\<^sup>* ex_custody_world w" by blast
  show ?thesis
    using registry_exact [OF ref_spl_laws ex_custody_registries run v] run w v by blast
qed

end
